(* ===== verification/Sooqa_Prelude.thy ===== *)
theory Sooqa_Prelude
  imports Main "HOL-Library.Word"
begin

text \<open>
  What the components share: the machine integers and the string type of Rust, the result
  type of fallible code with the sequencing of \<open>?\<close>, the little-endian byte order of
  integers, rounding-up division and checked arithmetic, and the lemma collections the
  component theories extend.

  A Rust \<open>String\<close> is a list of Unicode scalar values here (\<open>ustring\<close>): \<open>chars().count()\<close> is
  the length of the list, \<open>len()\<close> the number of UTF-8 bytes (\<open>utf8_len\<close>), and a literal of the
  source is \<open>lit ''...''\<close>. A timestamp (\<open>OffsetDateTime\<close>) is its signed number of nanoseconds
  since the Unix epoch, a duration a number of nanoseconds.
\<close>

unbundle bit_operations_syntax

section \<open>Types\<close>

type_synonym u8 = "8 word"
type_synonym u16 = "16 word"
type_synonym u32 = "32 word"
type_synonym u64 = "64 word"
type_synonym uuid = "128 word"
type_synonym timestamp = int
type_synonym ustring = "nat list"

named_theorems result_simps \<open>inversion of sequenced results\<close>

section \<open>Results\<close>

text \<open>Rust's \<open>x?\<close> followed by the rest of the block.\<close>

fun rbind :: "'e + 'a \<Rightarrow> ('a \<Rightarrow> 'e + 'b) \<Rightarrow> 'e + 'b" where
  "rbind (Inl e) f = Inl e"
| "rbind (Inr x) f = f x"

text \<open>Rust's \<open>Option::ok_or\<close>, \<open>Result::map\<close> and \<open>Result::map_err\<close>.\<close>

fun ok_or :: "'a option \<Rightarrow> 'e \<Rightarrow> 'e + 'a" where
  "ok_or None e = Inl e"
| "ok_or (Some x) e = Inr x"

fun map_ok :: "('a \<Rightarrow> 'b) \<Rightarrow> 'e + 'a \<Rightarrow> 'e + 'b" where
  "map_ok f (Inl e) = Inl e"
| "map_ok f (Inr x) = Inr (f x)"

fun map_err :: "('e \<Rightarrow> 'f) \<Rightarrow> 'e + 'a \<Rightarrow> 'f + 'a" where
  "map_err f (Inl e) = Inl (f e)"
| "map_err f (Inr x) = Inr x"

text \<open>\<open>Option::unwrap_or\<close> and \<open>Option::or\<close>.\<close>

definition unwrap_or :: "'a option \<Rightarrow> 'a \<Rightarrow> 'a" where
  "unwrap_or x d = (case x of None \<Rightarrow> d | Some y \<Rightarrow> y)"

definition or_else :: "'a option \<Rightarrow> 'a option \<Rightarrow> 'a option" where
  "or_else x y = (case x of None \<Rightarrow> y | Some v \<Rightarrow> Some v)"

lemma rbind_Inr [result_simps]: "rbind x f = Inr y \<longleftrightarrow> (\<exists>z. x = Inr z \<and> f z = Inr y)"
  by (cases x) auto

lemma rbind_Inl [result_simps]:
  "rbind x f = Inl e \<longleftrightarrow> x = Inl e \<or> (\<exists>z. x = Inr z \<and> f z = Inl e)"
  by (cases x) auto

lemma ok_or_Inr [result_simps]: "ok_or x e = Inr y \<longleftrightarrow> x = Some y"
  by (cases x) auto

lemma ok_or_Inl [result_simps]: "ok_or x e = Inl d \<longleftrightarrow> x = None \<and> d = e"
  by (cases x) auto

lemma map_ok_Inr [result_simps]: "map_ok f x = Inr y \<longleftrightarrow> (\<exists>z. x = Inr z \<and> y = f z)"
  by (cases x) auto

lemma map_ok_Inl [result_simps]: "map_ok f x = Inl e \<longleftrightarrow> x = Inl e"
  by (cases x) auto

lemma map_err_Inr [result_simps]: "map_err f x = Inr y \<longleftrightarrow> x = Inr y"
  by (cases x) auto

lemma map_err_Inl [result_simps]: "map_err f x = Inl d \<longleftrightarrow> (\<exists>e. x = Inl e \<and> d = f e)"
  by (cases x) auto

lemma if_Inl_Inr [result_simps]:
  "(if c then Inl e else r) = Inr y \<longleftrightarrow> \<not> c \<and> r = Inr y"
  by simp

text \<open>\<open>collect\<close> into a \<open>Result\<close>: the first error, or all the values.\<close>

fun collect_results :: "('e + 'a) list \<Rightarrow> 'e + 'a list" where
  "collect_results [] = Inr []"
| "collect_results (x # xs) = rbind x (\<lambda>y. map_ok ((#) y) (collect_results xs))"

lemma collect_results_Inr: "collect_results xs = Inr ys \<longleftrightarrow> xs = map Inr ys"
  by (induction xs arbitrary: ys) (auto simp: result_simps)

lemma collect_results_map: "collect_results (map Inr ys) = Inr ys"
  by (simp add: collect_results_Inr)

section \<open>Strings\<close>

definition lit :: "string \<Rightarrow> ustring" where
  "lit s = map (of_char :: char \<Rightarrow> nat) s"

lemma lit_eq_iff [simp]: "lit s = lit t \<longleftrightarrow> s = t"
  unfolding lit_def by (simp add: inj_map_eq_map inj_of_char)

lemma lit_Nil [simp]: "lit [] = []"
  by (simp add: lit_def)

lemma lit_eq_Nil [simp]: "lit s = [] \<longleftrightarrow> s = []"
  by (simp add: lit_def)

lemma length_lit [simp]: "length (lit s) = length s"
  by (simp add: lit_def)

text \<open>\<open>char::is_whitespace\<close>: the code points with the Unicode property White\_Space.\<close>

definition is_whitespace :: "nat \<Rightarrow> bool" where
  "is_whitespace c \<longleftrightarrow>
     (9 \<le> c \<and> c \<le> 13) \<or> c = 32 \<or> c = 133 \<or> c = 160 \<or> c = 5760 \<or> (8192 \<le> c \<and> c \<le> 8202) \<or>
     c = 8232 \<or> c = 8233 \<or> c = 8239 \<or> c = 8287 \<or> c = 12288"

text \<open>\<open>char::is_control\<close>: the general category Cc.\<close>

definition is_control :: "nat \<Rightarrow> bool" where
  "is_control c \<longleftrightarrow> c \<le> 31 \<or> (127 \<le> c \<and> c \<le> 159)"

definition trim_start :: "ustring \<Rightarrow> ustring" where
  "trim_start s = dropWhile is_whitespace s"

definition trim_end :: "ustring \<Rightarrow> ustring" where
  "trim_end s = rev (dropWhile is_whitespace (rev s))"

definition trim :: "ustring \<Rightarrow> ustring" where
  "trim s = trim_end (trim_start s)"

definition to_ascii_lower :: "nat \<Rightarrow> nat" where
  "to_ascii_lower c = (if 65 \<le> c \<and> c \<le> 90 then c + 32 else c)"

definition to_ascii_lowercase :: "ustring \<Rightarrow> ustring" where
  "to_ascii_lowercase s = map to_ascii_lower s"

text \<open>Substring tests and the ASCII comparison of Rust's \<open>str\<close>.\<close>

definition contains :: "ustring \<Rightarrow> ustring \<Rightarrow> bool" where
  "contains p s \<longleftrightarrow> list_ex (\<lambda>n. take (length p) (drop n s) = p) [0..<length s + 1]"

definition strip_prefix :: "ustring \<Rightarrow> ustring \<Rightarrow> ustring option" where
  "strip_prefix p s = (if take (length p) s = p then Some (drop (length p) s) else None)"

definition eq_ignore_ascii_case :: "ustring \<Rightarrow> ustring \<Rightarrow> bool" where
  "eq_ignore_ascii_case s t \<longleftrightarrow> to_ascii_lowercase s = to_ascii_lowercase t"

text \<open>Decimal text of an integer, as \<open>format!\<close> writes it.\<close>

fun nat_text :: "nat \<Rightarrow> ustring" where
  "nat_text n = (if n < 10 then [48 + n] else nat_text (n div 10) @ [48 + n mod 10])"

declare nat_text.simps [simp del]

definition int_text :: "int \<Rightarrow> ustring" where
  "int_text n = (if n < 0 then lit ''-'' @ nat_text (nat (- n)) else nat_text (nat n))"

text \<open>\<open>[T]::join\<close>.\<close>

fun join_with :: "ustring \<Rightarrow> ustring list \<Rightarrow> ustring" where
  "join_with sep [] = []"
| "join_with sep [x] = x"
| "join_with sep (x # xs) = x @ sep @ join_with sep xs"

text \<open>\<open>str::split\<close> at a character.\<close>

fun split_on :: "nat \<Rightarrow> ustring \<Rightarrow> ustring list" where
  "split_on sep [] = [[]]"
| "split_on sep (c # cs) =
     (if c = sep then [] # split_on sep cs
      else case split_on sep cs of [] \<Rightarrow> [[c]] | part # parts \<Rightarrow> (c # part) # parts)"

text \<open>\<open>str::len\<close>: the number of bytes of the UTF-8 form.\<close>

definition utf8_width :: "nat \<Rightarrow> nat" where
  "utf8_width c = (if c < 128 then 1 else if c < 2048 then 2 else if c < 65536 then 3 else 4)"

definition utf8_len :: "ustring \<Rightarrow> nat" where
  "utf8_len s = sum_list (map utf8_width s)"

text \<open>\<open>str::as_bytes\<close>: the UTF-8 form.\<close>

definition utf8_char :: "nat \<Rightarrow> nat list" where
  "utf8_char c =
     (if c < 128 then [c]
      else if c < 2048 then [192 + c div 64, 128 + c mod 64]
      else if c < 65536 then [224 + c div 4096, 128 + c div 64 mod 64, 128 + c mod 64]
      else [240 + c div 262144, 128 + c div 4096 mod 64, 128 + c div 64 mod 64, 128 + c mod 64])"

definition utf8_bytes :: "ustring \<Rightarrow> u8 list" where
  "utf8_bytes s = map word_of_nat (concat (map utf8_char s))"

lemma length_utf8_bytes: "length (utf8_bytes s) = utf8_len s"
  by (induction s) (auto simp: utf8_bytes_def utf8_len_def utf8_char_def utf8_width_def)

definition trimmed :: "ustring \<Rightarrow> bool" where
  "trimmed s \<longleftrightarrow> s = [] \<or> (\<not> is_whitespace (hd s) \<and> \<not> is_whitespace (last s))"

lemma hd_dropWhile_ws: "dropWhile P s \<noteq> [] \<Longrightarrow> \<not> P (hd (dropWhile P s))"
  by (rule hd_dropWhile)

lemma trim_end_prefix: "\<exists>t. s = trim_end s @ t"
  unfolding trim_end_def
  by (metis rev_append rev_rev_ident takeWhile_dropWhile_id)

lemma hd_trim_end: "trim_end s \<noteq> [] \<Longrightarrow> hd (trim_end s) = hd s"
  using trim_end_prefix [of s] by (metis hd_append2)

lemma trimmed_trim [simp, intro]: "trimmed (trim s)"
proof (cases "trim s = []")
  case False
  then have e: "trim_end (trim_start s) \<noteq> []" by (simp add: trim_def)
  then have ne: "trim_start s \<noteq> []" by (auto simp: trim_end_def)
  have "\<not> is_whitespace (hd (trim s))"
    using hd_trim_end [OF e] ne hd_dropWhile [of is_whitespace s]
    by (simp add: trim_def trim_start_def)
  moreover have "\<not> is_whitespace (last (trim s))"
    using e hd_dropWhile [of is_whitespace "rev (trim_start s)"]
    by (simp add: trim_def trim_end_def last_rev)
  ultimately show ?thesis by (simp add: trimmed_def)
qed (simp add: trimmed_def)

lemma trim_trimmed: "trimmed s \<Longrightarrow> trim s = s"
proof (cases "s = []")
  case True
  then show ?thesis by (simp add: trim_def trim_end_def trim_start_def)
next
  case False
  assume t: "trimmed s"
  with False have st: "trim_start s = s"
    by (cases s) (auto simp: trimmed_def trim_start_def)
  from t False have "\<not> is_whitespace (hd (rev s))"
    by (simp add: trimmed_def hd_rev)
  with False have "dropWhile is_whitespace (rev s) = rev s"
    by (cases "rev s") auto
  with st show ?thesis by (simp add: trim_def trim_end_def)
qed

lemma trim_idem [simp]: "trim (trim s) = trim s"
  by (rule trim_trimmed) (rule trimmed_trim)

lemma length_trim_le: "length (trim s) \<le> length s"
  unfolding trim_def trim_end_def trim_start_def
  using length_dropWhile_le [of is_whitespace s]
    length_dropWhile_le [of is_whitespace "rev (dropWhile is_whitespace s)"]
  by simp

lemma set_trim_subset: "set (trim s) \<subseteq> set s"
  unfolding trim_def trim_end_def trim_start_def
  by (metis set_dropWhileD set_rev subsetI)

section \<open>Arithmetic\<close>

text \<open>\<open>u64::div_ceil\<close> and \<open>usize::div_ceil\<close> (the divisor is never zero in the code).\<close>

definition div_ceil :: "nat \<Rightarrow> nat \<Rightarrow> nat" where
  "div_ceil a b = (a + b - 1) div b"

text \<open>\<open>checked_add\<close> and \<open>checked_mul\<close> at the given bound, and \<open>saturating_mul\<close>, \<open>saturating_add\<close>
  at 32 bits.\<close>

definition checked_add :: "nat \<Rightarrow> nat \<Rightarrow> nat \<Rightarrow> nat option" where
  "checked_add bound a b = (if a + b < bound then Some (a + b) else None)"

definition checked_mul :: "nat \<Rightarrow> nat \<Rightarrow> nat \<Rightarrow> nat option" where
  "checked_mul bound a b = (if a * b < bound then Some (a * b) else None)"

definition sat_mul_u32 :: "nat \<Rightarrow> nat \<Rightarrow> nat" where
  "sat_mul_u32 a b = min (a * b) (2 ^ 32 - 1)"

definition sat_add_u32 :: "nat \<Rightarrow> nat \<Rightarrow> nat" where
  "sat_add_u32 a b = min (a + b) (2 ^ 32 - 1)"

lemma div_ceil_mult_ge: "0 < b \<Longrightarrow> a \<le> div_ceil a b * b"
proof -
  assume b: "0 < b"
  have "a + b - 1 < (a + b - 1) div b * b + b"
    using b by (metis add.commute dividend_less_div_times)
  then show ?thesis using b by (simp add: div_ceil_def)
qed

lemma div_ceil_le_iff:
  assumes "0 < b"
  shows "div_ceil a b \<le> c \<longleftrightarrow> a \<le> c * b"
proof
  assume "div_ceil a b \<le> c"
  then have "div_ceil a b * b \<le> c * b" by simp
  with div_ceil_mult_ge [OF assms, of a] show "a \<le> c * b" by linarith
next
  assume "a \<le> c * b"
  then have "a + b - 1 < (c + 1) * b" using assms by simp
  then have "(a + b - 1) div b < c + 1" by (simp add: less_mult_imp_div_less)
  then show "div_ceil a b \<le> c" by (simp add: div_ceil_def)
qed

lemma div_ceil_less_iff:
  assumes "0 < b"
  shows "c < div_ceil a b \<longleftrightarrow> c * b < a"
  using div_ceil_le_iff [OF assms, of a c] by linarith

lemma div_ceil_pos: "0 < a \<Longrightarrow> 0 < b \<Longrightarrow> 0 < div_ceil a b"
  using div_ceil_less_iff [of b 0 a] by simp

section \<open>Little-endian bytes\<close>

text \<open>\<open>to_le_bytes\<close> of an \<open>n\<close>-byte integer and \<open>from_le_bytes\<close>.\<close>

definition to_le_bytes :: "nat \<Rightarrow> 'a::len word \<Rightarrow> u8 list" where
  "to_le_bytes n w = map (\<lambda>i. ucast (drop_bit (8 * i) w)) [0..<n]"

fun from_le_bytes :: "u8 list \<Rightarrow> 'a::len word" where
  "from_le_bytes [] = 0"
| "from_le_bytes (b # bs) = ucast b OR push_bit 8 (from_le_bytes bs)"

lemma length_to_le_bytes [simp]: "length (to_le_bytes n w) = n"
  by (simp add: to_le_bytes_def)

lemma bit_from_le_bytes:
  "bit (from_le_bytes bs :: 'a::len word) k \<longleftrightarrow>
     k < LENGTH('a) \<and> k div 8 < length bs \<and> bit (bs ! (k div 8)) (k mod 8)"
proof (induction bs arbitrary: k)
  case Nil
  then show ?case by simp
next
  case (Cons b bs)
  show ?case
  proof (cases "k < 8")
    case True
    then show ?thesis
      by (auto simp: bit_or_iff bit_push_bit_iff bit_ucast_iff)
  next
    case False
    then have d: "k div 8 = Suc ((k - 8) div 8)" "k mod 8 = (k - 8) mod 8"
      by (auto simp: le_div_geq le_mod_geq)
    have nb: "\<not> bit b k" using False by (auto dest: bit_imp_le_length)
    show ?thesis
      using False Cons.IH [of "k - 8"] d nb
      by (auto simp: bit_or_iff bit_push_bit_iff bit_ucast_iff dest: bit_imp_le_length)
  qed
qed

lemma from_to_le_bytes:
  assumes "LENGTH('a) = 8 * n"
  shows "from_le_bytes (to_le_bytes n w) = (w :: 'a::len word)"
proof (rule bit_eqI)
  fix k
  assume "possible_bit TYPE('a word) k"
  then have k: "k < LENGTH('a)" by simp
  with assms have kn: "k div 8 < n" by (simp add: less_mult_imp_div_less mult.commute)
  show "bit (from_le_bytes (to_le_bytes n w) :: 'a word) k = bit w k"
    using k kn by (simp add: bit_from_le_bytes to_le_bytes_def bit_ucast_iff bit_drop_bit_eq)
qed

lemma to_from_le_bytes:
  assumes "LENGTH('a) = 8 * length bs"
  shows "to_le_bytes (length bs) (from_le_bytes bs :: 'a::len word) = bs"
proof (rule nth_equalityI)
  show "length (to_le_bytes (length bs) (from_le_bytes bs :: 'a word)) = length bs" by simp
next
  fix i
  assume "i < length (to_le_bytes (length bs) (from_le_bytes bs :: 'a word))"
  then have i: "i < length bs" by simp
  have "ucast (drop_bit (8 * i) (from_le_bytes bs :: 'a word)) = bs ! i"
  proof (rule bit_eqI)
    fix k
    assume "possible_bit TYPE(8 word) k"
    then have k: "k < 8" by simp
    have l: "8 * i + k < LENGTH('a)" using assms i k by simp
    show "bit (ucast (drop_bit (8 * i) (from_le_bytes bs :: 'a word)) :: u8) k = bit (bs ! i) k"
      using k i l by (simp add: bit_ucast_iff bit_drop_bit_eq bit_from_le_bytes)
  qed
  with i show "to_le_bytes (length bs) (from_le_bytes bs :: 'a word) ! i = bs ! i"
    by (simp add: to_le_bytes_def)
qed

section \<open>Lists\<close>

lemma list_all_map_update:
  "list_all P xs \<Longrightarrow> (\<And>x. P x \<Longrightarrow> P (f x)) \<Longrightarrow> list_all P (map f xs)"
  by (induction xs) auto

lemma find_Some_iff_unique:
  assumes "distinct (map key xs)"
  shows "find (\<lambda>x. key x = k) xs = Some y \<longleftrightarrow> y \<in> set xs \<and> key y = k"
  using assms by (induction xs) (auto simp: image_iff)

section \<open>Enumerations stored as text\<close>

text \<open>
  The contract of every enumeration that is stored in the database by name: \<open>as_str\<close> and
  \<open>TryFrom<&str>\<close> are inverse to each other, and the error carries the rejected text.
\<close>

locale db_enum =
  fixes as_str :: "'a \<Rightarrow> ustring" and try_from :: "ustring \<Rightarrow> ustring + 'a"
  assumes try_from_as_str: "try_from (as_str x) = Inr x"
    and try_from_Inr: "try_from s = Inr x \<Longrightarrow> s = as_str x"
    and try_from_Inl: "try_from s = Inl e \<Longrightarrow> e = s"
begin

lemma as_str_inj: "as_str x = as_str y \<longleftrightarrow> x = y"
  using try_from_as_str by (metis sum.inject(2))

lemma try_from_iff: "try_from s = Inr x \<longleftrightarrow> s = as_str x"
  using try_from_as_str try_from_Inr by blast

lemma try_from_rejects: "try_from s = Inl s \<longleftrightarrow> s \<notin> range as_str"
proof
  show "try_from s = Inl s \<Longrightarrow> s \<notin> range as_str"
    using try_from_as_str by auto
next
  assume "s \<notin> range as_str"
  then show "try_from s = Inl s"
    using try_from_Inr try_from_Inl by (cases "try_from s") auto
qed

end

end
