(* ===== verification/Video_Sequence.thy ===== *)
theory Video_Sequence
  imports Sooqa_Prelude "HOL-Library.Product_Lexorder"
begin

text \<open>
  The video sequence fingerprint of \<open>crates/media/src/video_sequence.rs\<close>: its sample and
  fingerprint records, the timestamp grid, the binary codec \<open>encode\<close>/\<open>decode\<close>, the
  incremental builder and the search tokens, with the integer features \<open>dhash_v1\<close> and
  \<open>transition_score\<close>. The floating-point features (perceptual hash, colour and information
  scores) and the image library are an argument of the builder.

  The lemmas show that the codec is a bijection between valid fingerprints and the accepted
  byte strings, that the two computations of the grid agree, and that the tokens satisfy the
  constraints the persistence boundary checks.
\<close>

section \<open>Constants\<close>

definition VIDEO_SEQUENCE_MAGIC :: "u8 list" where
  "VIDEO_SEQUENCE_MAGIC = [83, 81, 86, 83]"

definition VIDEO_SEQUENCE_CODEC_V1 :: u16 where
  "VIDEO_SEQUENCE_CODEC_V1 = 1"

definition VIDEO_SEQUENCE_BASE_INTERVAL_MS :: nat where
  "VIDEO_SEQUENCE_BASE_INTERVAL_MS = 500"

definition VIDEO_SEQUENCE_MAX_SAMPLES :: nat where
  "VIDEO_SEQUENCE_MAX_SAMPLES = 2048"

definition VIDEO_SEQUENCE_MAX_ANCHORS :: nat where
  "VIDEO_SEQUENCE_MAX_ANCHORS = 128"

definition VIDEO_SEQUENCE_MAX_TOKENS :: nat where
  "VIDEO_SEQUENCE_MAX_TOKENS = 1024"

definition VIDEO_SEQUENCE_INFO_THRESHOLD_BPS :: nat where
  "VIDEO_SEQUENCE_INFO_THRESHOLD_BPS = 1000"

definition MAX_SCORE_BPS :: nat where
  "MAX_SCORE_BPS = 10000"

definition HEADER_BYTES :: nat where
  "HEADER_BYTES = 24"

definition SAMPLE_BYTES :: nat where
  "SAMPLE_BYTES = 23"

definition MAX_ENCODED_BYTES :: nat where
  "MAX_ENCODED_BYTES = HEADER_BYTES + VIDEO_SEQUENCE_MAX_SAMPLES * SAMPLE_BYTES"

lemmas vs_consts =
  VIDEO_SEQUENCE_CODEC_V1_def VIDEO_SEQUENCE_BASE_INTERVAL_MS_def VIDEO_SEQUENCE_MAX_SAMPLES_def
  MAX_SCORE_BPS_def HEADER_BYTES_def SAMPLE_BYTES_def MAX_ENCODED_BYTES_def

section \<open>Data\<close>

datatype fingerprint_version = VideoSequenceV1

text \<open>The signed chroma means keep their two's complement byte; \<open>sint\<close> reads them.\<close>

record video_sequence_sample =
  phash :: u64
  dhash :: u64
  mean_luma :: u8
  mean_chroma_u :: u8
  mean_chroma_v :: u8
  information_bps :: u16
  transition_bps :: u16

record video_sequence_fingerprint =
  fp_version :: fingerprint_version
  duration_ms :: u64
  interval_ms :: u32
  samples :: "video_sequence_sample list"

datatype video_sequence_error =
    InvalidDuration
  | InvalidInterval
  | InvalidSampleCount nat
  | InvalidTimestampGrid
  | UnsupportedAlgorithm fingerprint_version
  | EncodedTooLarge nat
  | Truncated
  | InvalidMagic
  | UnsupportedCodecVersion u16
  | InvalidReservedHeader
  | TrailingBytes
  | InvalidInformationScore u16
  | InvalidTransitionScore u16
  | InvalidFirstTransition u16

section \<open>The timestamp grid\<close>

definition grid_interval :: "nat \<Rightarrow> nat" where
  "grid_interval d = max VIDEO_SEQUENCE_BASE_INTERVAL_MS (div_ceil d VIDEO_SEQUENCE_MAX_SAMPLES)"

function timestamp_loop :: "nat \<Rightarrow> nat \<Rightarrow> nat \<Rightarrow> nat list \<Rightarrow> nat list" where
  "timestamp_loop d k t acc =
     (if t < d \<and> length acc < VIDEO_SEQUENCE_MAX_SAMPLES
      then (case checked_add (2 ^ 64) t k of
              Some t' \<Rightarrow> timestamp_loop d k t' (acc @ [t])
            | None \<Rightarrow> acc @ [t])
      else acc)"
  by pat_completeness auto
termination
  by (relation "measure (\<lambda>(d, k, t, acc). VIDEO_SEQUENCE_MAX_SAMPLES - length acc)") auto

declare timestamp_loop.simps [simp del]

definition select_video_sequence_timestamps :: "u64 \<Rightarrow> nat list" where
  "select_video_sequence_timestamps d =
     (if d = 0 then [] else timestamp_loop (unat d) (grid_interval (unat d)) 0 [])"

definition video_sequence_interval_ms :: "u64 \<Rightarrow> u32 option" where
  "video_sequence_interval_ms d =
     (if d = 0 then None
      else (let k = grid_interval (unat d)
            in if k < 2 ^ 32 then Some (word_of_nat k) else None))"

definition validate_grid :: "u64 \<Rightarrow> u32 \<Rightarrow> nat \<Rightarrow> video_sequence_error + unit" where
  "validate_grid d k n =
     (if d = 0 then Inl InvalidDuration
      else if k = 0 then Inl InvalidInterval
      else (let expected = grid_interval (unat d) in
        if unat k \<noteq> expected then Inl InvalidTimestampGrid
        else if n = 0 \<or> n > VIDEO_SEQUENCE_MAX_SAMPLES then Inl (InvalidSampleCount n)
        else if n \<noteq> div_ceil (unat d) expected then Inl InvalidTimestampGrid
        else rbind (ok_or (checked_mul (2 ^ 64) (unat k) (n - 1)) InvalidTimestampGrid)
          (\<lambda>last_timestamp.
             if last_timestamp \<ge> unat d then Inl InvalidTimestampGrid else Inr ())))"

fun validate_scores :: "video_sequence_sample list \<Rightarrow> video_sequence_error + unit" where
  "validate_scores [] = Inr ()"
| "validate_scores (s # ss) =
     (if unat (information_bps s) > MAX_SCORE_BPS
      then Inl (InvalidInformationScore (information_bps s))
      else if unat (transition_bps s) > MAX_SCORE_BPS
      then Inl (InvalidTransitionScore (transition_bps s))
      else validate_scores ss)"

definition validate_samples :: "video_sequence_sample list \<Rightarrow> video_sequence_error + unit" where
  "validate_samples ss =
     (case ss of
        first # _ \<Rightarrow>
          if transition_bps first \<noteq> 0 then Inl (InvalidFirstTransition (transition_bps first))
          else validate_scores ss
      | [] \<Rightarrow> validate_scores ss)"

section \<open>The codec\<close>

definition fingerprint_new ::
  "u64 \<Rightarrow> u32 \<Rightarrow> video_sequence_sample list \<Rightarrow> video_sequence_error + video_sequence_fingerprint"
where
  "fingerprint_new d k ss =
     rbind (validate_grid d k (length ss)) (\<lambda>_.
     rbind (validate_samples ss) (\<lambda>_.
     Inr \<lparr>fp_version = VideoSequenceV1, duration_ms = d, interval_ms = k, samples = ss\<rparr>))"

definition sample_timestamp_ms :: "video_sequence_fingerprint \<Rightarrow> nat \<Rightarrow> nat option" where
  "sample_timestamp_ms fp i =
     (if i \<ge> length (samples fp) then None else Some (unat (interval_ms fp) * i))"

definition sample_bytes :: "video_sequence_sample \<Rightarrow> u8 list" where
  "sample_bytes s =
     to_le_bytes 8 (phash s) @ to_le_bytes 8 (dhash s) @ [mean_luma s] @ [mean_chroma_u s] @
     [mean_chroma_v s] @ to_le_bytes 2 (information_bps s) @ to_le_bytes 2 (transition_bps s)"

definition header_bytes :: "u16 \<Rightarrow> u64 \<Rightarrow> u32 \<Rightarrow> u8 list" where
  "header_bytes n d k =
     VIDEO_SEQUENCE_MAGIC @ to_le_bytes 2 VIDEO_SEQUENCE_CODEC_V1 @ to_le_bytes 2 n @
     to_le_bytes 8 d @ to_le_bytes 4 k @ to_le_bytes 4 (0 :: u32)"

definition encode :: "video_sequence_fingerprint \<Rightarrow> video_sequence_error + u8 list" where
  "encode fp =
     (if fp_version fp \<noteq> VideoSequenceV1 then Inl (UnsupportedAlgorithm (fp_version fp))
      else rbind (validate_grid (duration_ms fp) (interval_ms fp) (length (samples fp))) (\<lambda>_.
           rbind (validate_samples (samples fp)) (\<lambda>_.
           Inr (header_bytes (word_of_nat (length (samples fp))) (duration_ms fp) (interval_ms fp)
                @ concat (map sample_bytes (samples fp))))))"

definition read_u8 :: "u8 list \<Rightarrow> nat \<Rightarrow> video_sequence_error + u8 \<times> nat" where
  "read_u8 bs off = (if off < length bs then Inr (bs ! off, off + 1) else Inl Truncated)"

definition read_word :: "nat \<Rightarrow> u8 list \<Rightarrow> nat \<Rightarrow> video_sequence_error + 'a::len word \<times> nat" where
  "read_word n bs off =
     rbind (ok_or (checked_add (2 ^ 64) off n) Truncated) (\<lambda>stop.
       if stop \<le> length bs then Inr (from_le_bytes (take n (drop off bs)), stop) else Inl Truncated)"

definition read_u16 :: "u8 list \<Rightarrow> nat \<Rightarrow> video_sequence_error + u16 \<times> nat" where
  "read_u16 bs off = read_word 2 bs off"

definition read_u64 :: "u8 list \<Rightarrow> nat \<Rightarrow> video_sequence_error + u64 \<times> nat" where
  "read_u64 bs off = read_word 8 bs off"

definition read_sample ::
  "u8 list \<Rightarrow> nat \<Rightarrow> video_sequence_error + video_sequence_sample \<times> nat" where
  "read_sample bs off =
     rbind (read_u64 bs off) (\<lambda>(ph, off).
     rbind (read_u64 bs off) (\<lambda>(dh, off).
     rbind (read_u8 bs off) (\<lambda>(lu, off).
     rbind (read_u8 bs off) (\<lambda>(cu, off).
     rbind (read_u8 bs off) (\<lambda>(cv, off).
     rbind (read_u16 bs off) (\<lambda>(inf, off).
     rbind (read_u16 bs off) (\<lambda>(tr, off).
     Inr (\<lparr>phash = ph, dhash = dh, mean_luma = lu, mean_chroma_u = cu, mean_chroma_v = cv,
           information_bps = inf, transition_bps = tr\<rparr>, off))))))))"

fun read_samples ::
  "nat \<Rightarrow> u8 list \<Rightarrow> nat \<Rightarrow> video_sequence_error + video_sequence_sample list \<times> nat" where
  "read_samples 0 bs off = Inr ([], off)"
| "read_samples (Suc n) bs off =
     rbind (read_sample bs off) (\<lambda>(s, off).
     rbind (read_samples n bs off) (\<lambda>(ss, off). Inr (s # ss, off)))"

definition decode :: "u8 list \<Rightarrow> video_sequence_error + video_sequence_fingerprint" where
  "decode bs =
     (if length bs > MAX_ENCODED_BYTES then Inl (EncodedTooLarge MAX_ENCODED_BYTES)
      else if length bs < HEADER_BYTES then Inl Truncated
      else if take 4 bs \<noteq> VIDEO_SEQUENCE_MAGIC then Inl InvalidMagic
      else (let codec_version = from_le_bytes [bs ! 4, bs ! 5] :: u16 in
        if codec_version \<noteq> VIDEO_SEQUENCE_CODEC_V1
        then Inl (UnsupportedCodecVersion codec_version)
        else (let sample_count = unat (from_le_bytes [bs ! 6, bs ! 7] :: u16) in
          if sample_count = 0 \<or> sample_count > VIDEO_SEQUENCE_MAX_SAMPLES
          then Inl (InvalidSampleCount sample_count)
          else (let d = from_le_bytes (take 8 (drop 8 bs)) :: u64;
                    k = from_le_bytes (take 4 (drop 16 bs)) :: u32;
                    reserved = from_le_bytes [bs ! 20, bs ! 21, bs ! 22, bs ! 23] :: u32 in
            if reserved \<noteq> 0 then Inl InvalidReservedHeader
            else
              rbind (ok_or (checked_mul (2 ^ 64) sample_count SAMPLE_BYTES)
                       (EncodedTooLarge MAX_ENCODED_BYTES)) (\<lambda>body.
              rbind (ok_or (checked_add (2 ^ 64) HEADER_BYTES body)
                       (EncodedTooLarge MAX_ENCODED_BYTES)) (\<lambda>expected_len.
              if length bs < expected_len then Inl Truncated
              else if length bs > expected_len then Inl TrailingBytes
              else rbind (read_samples sample_count bs HEADER_BYTES)
                     (\<lambda>(ss, _). fingerprint_new d k ss)))))))"

section \<open>Search tokens\<close>

definition hash_token :: "int \<Rightarrow> nat \<Rightarrow> u64 \<Rightarrow> int" where
  "hash_token kind band h =
     (push_bit 56 1 OR push_bit 48 kind) OR push_bit 40 (int band)
       OR uint (drop_bit (band * 16) h AND 65535)"

definition append_hash_tokens :: "int list \<Rightarrow> int \<Rightarrow> u64 \<Rightarrow> int list" where
  "append_hash_tokens tokens kind h = tokens @ map (\<lambda>band. hash_token kind band h) [0..<4]"

definition anchor_rank :: "video_sequence_sample \<Rightarrow> nat" where
  "anchor_rank s = sat_add_u32 (sat_mul_u32 (unat (information_bps s)) 3) (unat (transition_bps s))"

definition anchor_candidates :: "video_sequence_fingerprint \<Rightarrow> (nat \<times> nat) list" where
  "anchor_candidates fp =
     map (\<lambda>(i, s). (i, anchor_rank s))
       (filter (\<lambda>(i, s). unat (information_bps s) \<ge> VIDEO_SEQUENCE_INFO_THRESHOLD_BPS)
         (enumerate 0 (samples fp)))"

definition search_anchors :: "video_sequence_fingerprint \<Rightarrow> (nat \<times> nat) list" where
  "search_anchors fp =
     sort_key fst
       (take VIDEO_SEQUENCE_MAX_ANCHORS
         (sort_key (\<lambda>(i, r). (- int r, i)) (anchor_candidates fp)))"

definition anchor_tokens :: "video_sequence_fingerprint \<Rightarrow> int list" where
  "anchor_tokens fp =
     fold (\<lambda>(i, _) tokens.
             append_hash_tokens (append_hash_tokens tokens 1 (phash (samples fp ! i)))
               2 (dhash (samples fp ! i)))
       (search_anchors fp) []"

definition derive_search_tokens :: "video_sequence_fingerprint \<Rightarrow> int list" where
  "derive_search_tokens fp =
     take VIDEO_SEQUENCE_MAX_TOKENS (remdups_adj (sort (anchor_tokens fp)))"

section \<open>The builder\<close>

text \<open>
  \<open>norm_image\<close> stands for \<open>normalize_image\<close> (the image library's resize), \<open>luma_of\<close> for the
  \<open>luma\<close> field of its result, \<open>features\<close> for \<open>sample_features\<close> (floating point).
\<close>

record ('img, 'luma) video_sequence_builder =
  b_duration_ms :: u64
  b_interval_ms :: u32
  expected_samples :: nat
  b_samples :: "video_sequence_sample list"
  previous_luma :: "'luma option"
  best_image :: "'img option"
  best_information_bps :: "u16 option"

definition builder_new ::
  "u64 \<Rightarrow> u32 \<Rightarrow> video_sequence_error + ('img, 'luma) video_sequence_builder" where
  "builder_new d k =
     (if d = 0 then Inl InvalidDuration
      else if k = 0 then Inl InvalidInterval
      else rbind (ok_or (video_sequence_interval_ms d) InvalidTimestampGrid) (\<lambda>expected.
        if k \<noteq> expected then Inl InvalidTimestampGrid
        else Inr \<lparr>b_duration_ms = d, b_interval_ms = k,
                  expected_samples = length (select_video_sequence_timestamps d),
                  b_samples = [], previous_luma = None, best_image = None,
                  best_information_bps = None\<rparr>))"

definition push_image ::
  "('img \<Rightarrow> 'norm) \<Rightarrow> ('norm \<Rightarrow> 'luma) \<Rightarrow> ('norm \<Rightarrow> 'luma option \<Rightarrow> video_sequence_sample) \<Rightarrow>
   ('img, 'luma) video_sequence_builder \<Rightarrow> 'img \<Rightarrow>
   video_sequence_error + ('img, 'luma) video_sequence_builder" where
  "push_image norm_image luma_of features b img =
     (if length (b_samples b) \<ge> expected_samples b
      then Inl (InvalidSampleCount (length (b_samples b) + 1))
      else (let normalized = norm_image img;
                sample = features normalized (previous_luma b);
                better = (case best_information_bps b of
                            None \<Rightarrow> True | Some best \<Rightarrow> information_bps sample > best);
                b1 = (if better
                      then b\<lparr>best_information_bps := Some (information_bps sample),
                             best_image := Some img\<rparr>
                      else b)
            in Inr (b1\<lparr>previous_luma := Some (luma_of normalized),
                       b_samples := b_samples b1 @ [sample]\<rparr>)))"

definition finish_with_best_image ::
  "('img, 'luma) video_sequence_builder \<Rightarrow>
   video_sequence_error + video_sequence_fingerprint \<times> 'img option" where
  "finish_with_best_image b =
     (if length (b_samples b) \<noteq> expected_samples b then Inl InvalidTimestampGrid
      else rbind (fingerprint_new (b_duration_ms b) (b_interval_ms b) (b_samples b))
             (\<lambda>fp. Inr (fp, best_image b)))"

fun push_images where
  "push_images norm_image luma_of features b [] = Inr b"
| "push_images norm_image luma_of features b (img # images) =
     rbind (push_image norm_image luma_of features b img)
       (\<lambda>b'. push_images norm_image luma_of features b' images)"

definition from_images where
  "from_images norm_image luma_of features d k images =
     rbind (builder_new d k) (\<lambda>b.
     rbind (push_images norm_image luma_of features b images) (\<lambda>b.
     rbind (finish_with_best_image b) (\<lambda>(fp, _). Inr fp)))"

section \<open>Integer features\<close>

text \<open>
  Both are called on the luma planes of the fixed 32 by 32 grid only: 1024 bytes, so the indices
  of \<open>dhash_v1\<close> are in range and the 32-bit sums of \<open>transition_score\<close> do not overflow.
\<close>

definition abs_diff :: "u8 \<Rightarrow> u8 \<Rightarrow> nat" where
  "abs_diff a b = (if unat a < unat b then unat b - unat a else unat a - unat b)"

definition transition_score :: "u8 list \<Rightarrow> u8 list \<Rightarrow> nat" where
  "transition_score previous current =
     (if length previous \<noteq> length current \<or> previous = [] then 0
      else (let difference = sum_list (map (\<lambda>(p, c). abs_diff p c) (zip previous current));
                maximum = 255 * length previous
            in min (difference * 10000 div maximum) 10000))"

definition dhash_bit :: "u8 list \<Rightarrow> nat \<Rightarrow> nat \<Rightarrow> bool" where
  "dhash_bit luma_values y x =
     (let row = y * 31 div 7; left_x = x * 31 div 8; right_x = (x + 1) * 31 div 8
      in luma_values ! (row * 32 + left_x) < luma_values ! (row * 32 + right_x))"

definition dhash_v1 :: "u8 list \<Rightarrow> u64" where
  "dhash_v1 luma_values =
     fold (\<lambda>y hash. fold (\<lambda>x hash. if dhash_bit luma_values y x
                                   then hash OR push_bit (y * 8 + x) 1 else hash) [0..<8] hash)
       [0..<8] 0"


section \<open>The grid\<close>

lemma grid_interval_pos [simp]: "0 < grid_interval d"
  by (simp add: grid_interval_def vs_consts)

lemma grid_interval_enough: "div_ceil d (grid_interval d) \<le> VIDEO_SEQUENCE_MAX_SAMPLES"
proof -
  have "d \<le> div_ceil d VIDEO_SEQUENCE_MAX_SAMPLES * VIDEO_SEQUENCE_MAX_SAMPLES"
    by (rule div_ceil_mult_ge) (simp add: vs_consts)
  also have "\<dots> \<le> VIDEO_SEQUENCE_MAX_SAMPLES * grid_interval d"
    by (simp add: grid_interval_def)
  finally show ?thesis by (simp add: div_ceil_le_iff)
qed

text \<open>
  The loop collects the multiples of the interval below the duration. When the 64-bit addition
  overflows (possible only past the last multiple below the duration) the loop stops with the
  same list.
\<close>

lemma timestamp_loop_multiples:
  assumes k: "0 < k" and d: "d < 2 ^ 64" and n: "div_ceil d k \<le> 2048"
    and i: "i \<le> div_ceil d k"
  shows "timestamp_loop d k (i * k) (map (\<lambda>j. j * k) [0..<i])
           = map (\<lambda>j. j * k) [0..<div_ceil d k]"
  using i
proof (induction "div_ceil d k - i" arbitrary: i)
  case 0
  then have e: "i = div_ceil d k" by simp
  then have "d \<le> i * k" using k div_ceil_mult_ge by simp
  then show ?case by (simp add: timestamp_loop.simps e)
next
  case (Suc m)
  then have less: "i < div_ceil d k" by linarith
  then have t: "i * k < d" using k div_ceil_less_iff by simp
  have step: "timestamp_loop d k (Suc i * k) (map (\<lambda>j. j * k) [0..<Suc i])
           = map (\<lambda>j. j * k) [0..<div_ceil d k]"
    using Suc.hyps less by (intro Suc.hyps(1)) auto
  show ?case
  proof (cases "i * k + k < 2 ^ 64")
    case True
    then show ?thesis
      using step less n t
      by (subst timestamp_loop.simps) (simp add: checked_add_def vs_consts add.commute)
  next
    case False
    then have "d \<le> Suc i * k" using d by simp
    then have "div_ceil d k = Suc i" using less k div_ceil_le_iff [of k d "Suc i"] by simp
    then show ?thesis
      using False less n t
      by (subst timestamp_loop.simps) (simp add: checked_add_def vs_consts)
  qed
qed

lemma select_timestamps_eq:
  assumes "d \<noteq> 0"
  shows "select_video_sequence_timestamps d
     = map (\<lambda>i. i * grid_interval (unat d)) [0..<div_ceil (unat d) (grid_interval (unat d))]"
proof -
  have b: "unat d < 2 ^ 64" using unsigned_less [of d] by simp
  show ?thesis
    using timestamp_loop_multiples [of "grid_interval (unat d)" "unat d" 0] b
      grid_interval_enough [of "unat d"] assms
    by (simp add: select_video_sequence_timestamps_def vs_consts)
qed

lemma validate_grid_iff:
  "validate_grid d k n = Inr () \<longleftrightarrow>
     d \<noteq> 0 \<and> unat k = grid_interval (unat d) \<and> n = length (select_video_sequence_timestamps d)"
proof (cases "d = 0")
  case True
  then show ?thesis by (simp add: validate_grid_def)
next
  case False
  let ?k = "grid_interval (unat d)" and ?n = "div_ceil (unat d) (grid_interval (unat d))"
  have pos: "0 < unat d" using False by (simp add: unat_gt_0)
  have n0: "0 < ?n" by (simp add: div_ceil_pos pos)
  have last: "?k * (?n - 1) < unat d"
    using div_ceil_less_iff [of ?k "?n - 1" "unat d"] n0 by (simp add: mult.commute)
  have lt: "unat d < 2 ^ 64" using unsigned_less [of d] by simp
  have kz: "unat k = ?k \<Longrightarrow> k \<noteq> 0" using grid_interval_pos [of "unat d"] by (metis less_numeral_extra(3) unat_0)
  have len: "length (select_video_sequence_timestamps d) = ?n"
    by (simp add: select_timestamps_eq False)
  show ?thesis
    using False n0 last lt kz len grid_interval_enough [of "unat d"]
    by (auto simp: validate_grid_def Let_def checked_mul_def result_simps)
qed

lemma validate_scores_iff:
  "validate_scores ss = Inr () \<longleftrightarrow>
     list_all (\<lambda>s. unat (information_bps s) \<le> MAX_SCORE_BPS \<and> unat (transition_bps s) \<le> MAX_SCORE_BPS) ss"
  by (induction ss) auto

lemma validate_samples_iff:
  "validate_samples ss = Inr () \<longleftrightarrow>
     (ss \<noteq> [] \<longrightarrow> transition_bps (hd ss) = 0) \<and>
     list_all (\<lambda>s. unat (information_bps s) \<le> MAX_SCORE_BPS \<and> unat (transition_bps s) \<le> MAX_SCORE_BPS) ss"
  by (cases ss) (auto simp: validate_samples_def validate_scores_iff simp del: validate_scores.simps)

text \<open>A fingerprint that the constructor accepts.\<close>

definition valid_fingerprint :: "video_sequence_fingerprint \<Rightarrow> bool" where
  "valid_fingerprint fp \<longleftrightarrow>
     duration_ms fp \<noteq> 0 \<and>
     unat (interval_ms fp) = grid_interval (unat (duration_ms fp)) \<and>
     length (samples fp) = length (select_video_sequence_timestamps (duration_ms fp)) \<and>
     (samples fp \<noteq> [] \<longrightarrow> transition_bps (hd (samples fp)) = 0) \<and>
     list_all (\<lambda>s. unat (information_bps s) \<le> MAX_SCORE_BPS \<and> unat (transition_bps s) \<le> MAX_SCORE_BPS)
       (samples fp)"

lemma fingerprint_new_Inr:
  "fingerprint_new d k ss = Inr fp \<longleftrightarrow>
     valid_fingerprint fp \<and> duration_ms fp = d \<and> interval_ms fp = k \<and> samples fp = ss"
proof -
  have ver: "fp_version fp = VideoSequenceV1" by (cases "fp_version fp") simp
  show ?thesis
    by (cases fp)
      (use ver in \<open>auto simp: fingerprint_new_def result_simps validate_grid_iff validate_samples_iff
         valid_fingerprint_def\<close>)
qed

lemma valid_fingerprint_length:
  assumes "valid_fingerprint fp"
  shows "0 < length (samples fp)" "length (samples fp) \<le> 2048"
proof -
  let ?d = "unat (duration_ms fp)"
  from assms have nz: "duration_ms fp \<noteq> 0"
    and len: "length (samples fp) = div_ceil ?d (grid_interval ?d)"
    by (simp_all add: valid_fingerprint_def select_timestamps_eq)
  from nz have "0 < ?d" by (simp add: unat_gt_0)
  with len show "0 < length (samples fp)" by (simp add: div_ceil_pos)
  from len show "length (samples fp) \<le> 2048"
    using grid_interval_enough [of ?d] by (simp add: vs_consts)
qed

section \<open>The codec is a bijection\<close>

lemma length_sample_bytes [simp]: "length (sample_bytes s) = 23"
  by (simp add: sample_bytes_def)

lemma length_header_bytes [simp]: "length (header_bytes n d k) = 24"
  by (simp add: header_bytes_def VIDEO_SEQUENCE_MAGIC_def)

lemma length_concat_sample_bytes [simp]:
  "length (concat (map sample_bytes ss)) = 23 * length ss"
  by (induction ss) auto

text \<open>One sample as a function of its 23-byte chunk.\<close>

definition sample_of_bytes :: "u8 list \<Rightarrow> video_sequence_sample" where
  "sample_of_bytes c =
     \<lparr>phash = from_le_bytes (take 8 c), dhash = from_le_bytes (take 8 (drop 8 c)),
      mean_luma = c ! 16, mean_chroma_u = c ! 17, mean_chroma_v = c ! 18,
      information_bps = from_le_bytes (take 2 (drop 19 c)),
      transition_bps = from_le_bytes (take 2 (drop 21 c))\<rparr>"

lemma nth_skip: "length pre = n \<Longrightarrow> (pre @ x # post) ! n = x"
  by (metis nth_append_length)

lemma sample_of_sample_bytes: "sample_of_bytes (sample_bytes s) = s"
proof -
  let ?a = "to_le_bytes 8 (phash s)" and ?b = "to_le_bytes 8 (dhash s)"
    and ?i = "to_le_bytes 2 (information_bps s)" and ?t = "to_le_bytes 2 (transition_bps s)"
  let ?r = "mean_luma s # mean_chroma_u s # mean_chroma_v s # ?i @ ?t"
  have c: "sample_bytes s = (?a @ ?b) @ ?r" by (simp add: sample_bytes_def)
  have n: "((?a @ ?b) @ ?r) ! 16 = mean_luma s" "((?a @ ?b) @ ?r) ! 17 = mean_chroma_u s"
    "((?a @ ?b) @ ?r) ! 18 = mean_chroma_v s"
    by (simp_all add: nth_append nth_Cons')
  show ?thesis
    unfolding sample_of_bytes_def c n
    by (simp add: from_to_le_bytes)
qed

lemma word_chunk:
  "LENGTH('a) = 8 * n \<Longrightarrow> length c = n \<Longrightarrow> to_le_bytes n (from_le_bytes c :: 'a::len word) = c"
  using to_from_le_bytes [where 'a = 'a, of c] by simp

text \<open>Cutting a byte string at consecutive offsets.\<close>

lemma take_chunk: "take m xs @ take n (drop m xs) @ ys = take (m + n) xs @ ys"
  by (simp add: take_add)

lemma take_last_chunk: "take m xs @ take n (drop m xs) = take (m + n) xs"
  by (simp add: take_add)

lemma take_nth_chunk: "i < length xs \<Longrightarrow> take i xs @ xs ! i # ys = take (Suc i) xs @ ys"
  by (simp add: take_Suc_conv_app_nth)

lemmas chunk_simps = take_chunk take_last_chunk take_nth_chunk

lemma sample_bytes_of_bytes:
  assumes "length c = 23"
  shows "sample_bytes (sample_of_bytes c) = c"
proof -
  have "sample_bytes (sample_of_bytes c)
      = take 8 c @ take 8 (drop 8 c) @ [c ! 16] @ [c ! 17] @ [c ! 18] @ take 2 (drop 19 c)
        @ take 2 (drop 21 c)"
    using assms by (simp add: sample_bytes_def sample_of_bytes_def word_chunk)
  also have "\<dots> = c"
    using assms by (simp add: chunk_simps)
  finally show ?thesis .
qed

lemma read_u8_in:
  "off < length bs \<Longrightarrow> read_u8 bs off = Inr (bs ! off, off + 1)"
  by (simp add: read_u8_def)

lemma read_word_in:
  "off + n \<le> length bs \<Longrightarrow> length bs < 2 ^ 64 \<Longrightarrow>
   read_word n bs off = Inr (from_le_bytes (take n (drop off bs)), off + n)"
  by (simp add: read_word_def checked_add_def)

lemma read_sample_in:
  assumes "off + 23 \<le> length bs" "length bs < 2 ^ 64"
  shows "read_sample bs off = Inr (sample_of_bytes (take 23 (drop off bs)), off + 23)"
  using assms
  by (simp add: read_sample_def read_u64_def read_u16_def read_word_in read_u8_in
      sample_of_bytes_def min_def drop_take add.commute)

lemma read_samples_in:
  assumes "off + 23 * n \<le> length bs" "length bs < 2 ^ 64"
  shows "\<exists>ss. read_samples n bs off = Inr (ss, off + 23 * n) \<and> length ss = n \<and>
           concat (map sample_bytes ss) = take (23 * n) (drop off bs)"
  using assms(1)
proof (induction n arbitrary: off)
  case 0
  then show ?case by simp
next
  case (Suc n)
  then have here: "off + 23 \<le> length bs" and rest: "off + 23 + 23 * n \<le> length bs" by simp_all
  from Suc.IH [OF rest] obtain ss where
    ss: "read_samples n bs (off + 23) = Inr (ss, off + 23 + 23 * n)" "length ss = n"
      "concat (map sample_bytes ss) = take (23 * n) (drop (off + 23) bs)"
    by blast
  have "take (23 * Suc n) (drop off bs) = take 23 (drop off bs) @ take (23 * n) (drop (off + 23) bs)"
    by (simp add: take_add add.commute)
  then have "concat (map sample_bytes (sample_of_bytes (take 23 (drop off bs)) # ss))
      = take (23 * Suc n) (drop off bs)"
    using here ss by (simp add: sample_bytes_of_bytes)
  moreover have "read_samples (Suc n) bs off
      = Inr (sample_of_bytes (take 23 (drop off bs)) # ss, off + 23 * Suc n)"
    using ss by (simp add: read_sample_in [OF here assms(2)])
  ultimately show ?case using ss(2) by (metis length_Cons)
qed

lemma concat_sample_bytes_inj:
  "concat (map sample_bytes ss) = concat (map sample_bytes ts) \<Longrightarrow> length ss = length ts \<Longrightarrow> ss = ts"
proof (induction ss arbitrary: ts)
  case Nil
  then show ?case by simp
next
  case (Cons s ss)
  from Cons.prems(2) obtain t ts' where ts: "ts = t # ts'" by (cases ts) auto
  with Cons.prems(1) have "sample_bytes s = sample_bytes t"
    "concat (map sample_bytes ss) = concat (map sample_bytes ts')"
    by simp_all
  with Cons ts show ?case by (metis length_Cons nat.inject sample_of_sample_bytes)
qed

text \<open>The header and what \<open>decode\<close> reads back from it.\<close>

lemma header_fields:
  assumes "bs = header_bytes n d k @ body"
  shows "take 4 bs = VIDEO_SEQUENCE_MAGIC" "[bs ! 4, bs ! 5] = to_le_bytes 2 VIDEO_SEQUENCE_CODEC_V1"
    "[bs ! 6, bs ! 7] = to_le_bytes 2 n" "take 8 (drop 8 bs) = to_le_bytes 8 d"
    "take 4 (drop 16 bs) = to_le_bytes 4 k"
    "[bs ! 20, bs ! 21, bs ! 22, bs ! 23] = to_le_bytes 4 (0 :: u32)" "drop 24 bs = body"
proof -
  show "take 4 bs = VIDEO_SEQUENCE_MAGIC" "take 8 (drop 8 bs) = to_le_bytes 8 d"
    "take 4 (drop 16 bs) = to_le_bytes 4 k" "drop 24 bs = body"
    by (simp_all add: assms header_bytes_def VIDEO_SEQUENCE_MAGIC_def to_le_bytes_def
        upt_conv_Cons)
  show "[bs ! 4, bs ! 5] = to_le_bytes 2 VIDEO_SEQUENCE_CODEC_V1"
    "[bs ! 6, bs ! 7] = to_le_bytes 2 n"
    "[bs ! 20, bs ! 21, bs ! 22, bs ! 23] = to_le_bytes 4 (0 :: u32)"
    by (simp_all add: assms header_bytes_def VIDEO_SEQUENCE_MAGIC_def to_le_bytes_def
        upt_conv_Cons)
qed

lemma header_of_bytes:
  assumes len: "24 \<le> length bs" and magic: "take 4 bs = VIDEO_SEQUENCE_MAGIC"
    and codec: "(from_le_bytes [bs ! 4, bs ! 5] :: u16) = VIDEO_SEQUENCE_CODEC_V1"
    and reserved: "(from_le_bytes [bs ! 20, bs ! 21, bs ! 22, bs ! 23] :: u32) = 0"
  shows "take 24 bs = header_bytes (from_le_bytes [bs ! 6, bs ! 7])
     (from_le_bytes (take 8 (drop 8 bs))) (from_le_bytes (take 4 (drop 16 bs)))"
proof -
  have c: "to_le_bytes 2 VIDEO_SEQUENCE_CODEC_V1 = [bs ! 4, bs ! 5]"
    using word_chunk [where 'a = 16, of 2 "[bs ! 4, bs ! 5]"] codec by simp
  have r: "to_le_bytes 4 (0 :: u32) = [bs ! 20, bs ! 21, bs ! 22, bs ! 23]"
    using word_chunk [where 'a = 32, of 4 "[bs ! 20, bs ! 21, bs ! 22, bs ! 23]"] reserved by simp
  have n: "to_le_bytes 2 (from_le_bytes [bs ! 6, bs ! 7] :: u16) = [bs ! 6, bs ! 7]"
    by (rule word_chunk) simp_all
  have d: "to_le_bytes 8 (from_le_bytes (take 8 (drop 8 bs)) :: u64) = take 8 (drop 8 bs)"
    using len by (intro word_chunk) simp_all
  have k: "to_le_bytes 4 (from_le_bytes (take 4 (drop 16 bs)) :: u32) = take 4 (drop 16 bs)"
    using len by (intro word_chunk) simp_all
  have "take 24 bs = take 4 bs @ [bs ! 4, bs ! 5] @ [bs ! 6, bs ! 7] @ take 8 (drop 8 bs)
      @ take 4 (drop 16 bs) @ [bs ! 20, bs ! 21, bs ! 22, bs ! 23]" (is "_ = ?r")
    using len by (simp add: chunk_simps)
  then show ?thesis by (simp only: header_bytes_def c r n d k magic)
qed

text \<open>What \<open>encode\<close> accepts and what it writes.\<close>

lemma encode_Inr:
  "encode fp = Inr bs \<longleftrightarrow> valid_fingerprint fp \<and>
     bs = header_bytes (word_of_nat (length (samples fp))) (duration_ms fp) (interval_ms fp)
          @ concat (map sample_bytes (samples fp))"
proof -
  have "fp_version fp = VideoSequenceV1" by (cases "fp_version fp") simp
  then show ?thesis
    by (auto simp: encode_def result_simps validate_grid_iff validate_samples_iff
        valid_fingerprint_def)
qed

lemma decode_of_encoding:
  assumes valid: "valid_fingerprint fp"
    and bs: "bs = header_bytes (word_of_nat (length (samples fp))) (duration_ms fp)
               (interval_ms fp) @ concat (map sample_bytes (samples fp))"
  shows "decode bs = Inr fp"
proof -
  note h = header_fields [OF bs]
  note n = valid_fingerprint_length [OF valid]
  have len: "length bs = 24 + 23 * length (samples fp)" by (simp add: bs)
  have cnt: "unat (word_of_nat (length (samples fp)) :: u16) = length (samples fp)"
    using n by (simp add: unsigned_of_nat take_bit_nat_eq_self)
  have small: "length bs < 2 ^ 64" "24 + 23 * length (samples fp) \<le> length bs"
    using len n by simp_all
  obtain ss where ss: "read_samples (length (samples fp)) bs 24 = Inr (ss, 24 + 23 * length (samples fp))"
      "length ss = length (samples fp)"
      "concat (map sample_bytes ss) = take (23 * length (samples fp)) (drop 24 bs)"
    using read_samples_in [OF small(2,1)] by blast
  have "ss = samples fp"
    using ss(2,3) h(7) by (intro concat_sample_bytes_inj) simp_all
  moreover have "fingerprint_new (duration_ms fp) (interval_ms fp) (samples fp) = Inr fp"
    using valid by (simp add: fingerprint_new_Inr)
  ultimately show ?thesis
    using n len ss(1)
    by (simp add: decode_def Let_def h cnt from_to_le_bytes checked_mul_def checked_add_def
        HEADER_BYTES_def SAMPLE_BYTES_def MAX_ENCODED_BYTES_def VIDEO_SEQUENCE_MAX_SAMPLES_def)
qed

lemma decode_Inr_encode:
  assumes "decode bs = Inr fp"
  shows "valid_fingerprint fp \<and> encode fp = Inr bs"
proof -
  let ?n = "from_le_bytes [bs ! 6, bs ! 7] :: u16" and ?d = "from_le_bytes (take 8 (drop 8 bs)) :: u64"
    and ?k = "from_le_bytes (take 4 (drop 16 bs)) :: u32"
  from assms have len: "24 \<le> length bs" "length bs \<le> 24 + 2048 * 23"
    and magic: "take 4 bs = VIDEO_SEQUENCE_MAGIC"
    and codec: "(from_le_bytes [bs ! 4, bs ! 5] :: u16) = VIDEO_SEQUENCE_CODEC_V1"
    and reserved: "(from_le_bytes [bs ! 20, bs ! 21, bs ! 22, bs ! 23] :: u32) = 0"
    and total: "length bs = 24 + unat ?n * 23"
    and body: "\<exists>off ss. read_samples (unat ?n) bs 24 = Inr (ss, off) \<and> fingerprint_new ?d ?k ss = Inr fp"
    by (auto simp: decode_def Let_def result_simps checked_mul_def checked_add_def HEADER_BYTES_def
        SAMPLE_BYTES_def MAX_ENCODED_BYTES_def VIDEO_SEQUENCE_MAX_SAMPLES_def split: if_splits)
  have small: "24 + 23 * unat ?n \<le> length bs" "length bs < 2 ^ 64" using total len by simp_all
  from read_samples_in [OF small] body obtain ss where
    ss: "length ss = unat ?n" "concat (map sample_bytes ss) = take (23 * unat ?n) (drop 24 bs)"
      "fingerprint_new ?d ?k ss = Inr fp"
    by auto
  then have fp: "valid_fingerprint fp" "duration_ms fp = ?d" "interval_ms fp = ?k" "samples fp = ss"
    by (simp_all add: fingerprint_new_Inr)
  have "bs = take 24 bs @ drop 24 bs" by simp
  also have "drop 24 bs = concat (map sample_bytes ss)"
    using ss(2) total by simp
  also have "take 24 bs = header_bytes (word_of_nat (length ss)) ?d ?k"
    using header_of_bytes [OF len(1) magic codec reserved] ss(1) by simp
  finally have "encode fp = Inr bs" using fp by (simp add: encode_Inr)
  with fp show ?thesis by simp
qed

section \<open>Search tokens\<close>

lemma hash_token_pos: "0 \<le> kind \<Longrightarrow> 0 < hash_token kind band h"
proof -
  assume k: "0 \<le> kind"
  have b: "bit (hash_token kind band h) 56"
    by (simp add: hash_token_def bit_or_iff bit_push_bit_iff)
  have "0 \<le> hash_token kind band h"
    using k by (simp add: hash_token_def or_nonnegative_int_iff)
  moreover have "hash_token kind band h \<noteq> 0" using b by auto
  ultimately show ?thesis by linarith
qed

definition sample_tokens :: "video_sequence_sample \<Rightarrow> int list" where
  "sample_tokens s = map (\<lambda>b. hash_token 1 b (phash s)) [0..<4] @ map (\<lambda>b. hash_token 2 b (dhash s)) [0..<4]"

lemma anchor_tokens_concat:
  "anchor_tokens fp = concat (map (\<lambda>(i, _). sample_tokens (samples fp ! i)) (search_anchors fp))"
proof -
  have "fold (\<lambda>(i, _) tokens. append_hash_tokens (append_hash_tokens tokens 1 (phash (samples fp ! i)))
               2 (dhash (samples fp ! i))) anchors acc
      = acc @ concat (map (\<lambda>(i, _). sample_tokens (samples fp ! i)) anchors)" for anchors :: "(nat \<times> nat) list" and acc
    by (induction anchors arbitrary: acc) (auto simp: append_hash_tokens_def sample_tokens_def)
  then show ?thesis by (simp add: anchor_tokens_def)
qed

lemma length_search_anchors: "length (search_anchors fp) \<le> VIDEO_SEQUENCE_MAX_ANCHORS"
  by (simp add: search_anchors_def)

lemma length_anchor_tokens: "length (anchor_tokens fp) = 8 * length (search_anchors fp)"
proof -
  have "length (concat (map (\<lambda>(i, _). sample_tokens (samples fp ! i)) anchors)) = 8 * length anchors"
    for anchors :: "(nat \<times> nat) list"
    by (induction anchors) (auto simp: sample_tokens_def)
  then show ?thesis by (simp add: anchor_tokens_concat)
qed

text \<open>The limit on the number of tokens never cuts one off: 128 anchors give at most 1024.\<close>

lemma derive_search_tokens_untruncated:
  "derive_search_tokens fp = remdups_adj (sort (anchor_tokens fp))"
proof -
  have "length (remdups_adj (sort (anchor_tokens fp))) \<le> length (anchor_tokens fp)"
    using remdups_adj_length [of "sort (anchor_tokens fp)"] by simp
  also have "\<dots> \<le> VIDEO_SEQUENCE_MAX_TOKENS"
    using length_search_anchors [of fp]
    by (simp add: length_anchor_tokens VIDEO_SEQUENCE_MAX_TOKENS_def VIDEO_SEQUENCE_MAX_ANCHORS_def)
  finally show ?thesis by (simp add: derive_search_tokens_def)
qed

lemma sorted_remdups_adj_strict:
  "sorted (xs :: 'a::linorder list) \<Longrightarrow> sorted_wrt (<) (remdups_adj xs)"
proof (induction xs rule: remdups_adj.induct)
  case (3 x y xs)
  show ?case
  proof (cases "x = y")
    case False
    with "3.prems" have "x < y" by auto
    moreover from "3.prems" have "\<forall>z\<in>set (y # xs). y \<le> z" by auto
    ultimately have "\<forall>z\<in>set (remdups_adj (y # xs)). x < z"
      by (simp only: remdups_adj_set) (metis order.strict_trans2)
    with False "3.IH"(2) "3.prems" show ?thesis by auto
  qed (use 3 in auto)
qed auto

lemma derive_search_tokens_sorted: "sorted_wrt (<) (derive_search_tokens fp)"
  unfolding derive_search_tokens_untruncated by (rule sorted_remdups_adj_strict) simp

lemma set_derive_search_tokens: "set (derive_search_tokens fp) = set (anchor_tokens fp)"
  unfolding derive_search_tokens_untruncated by simp

lemma derive_search_tokens_pos: "t \<in> set (derive_search_tokens fp) \<Longrightarrow> 0 < t"
  by (auto simp: set_derive_search_tokens anchor_tokens_concat sample_tokens_def hash_token_pos)

lemma length_derive_search_tokens: "length (derive_search_tokens fp) \<le> VIDEO_SEQUENCE_MAX_TOKENS"
  by (simp add: derive_search_tokens_def)

text \<open>The anchors are the best-ranked candidates.\<close>

lemma take_sort_key_le:
  assumes "x \<in> set (take n (sort_key f xs))" "y \<in> set xs" "y \<notin> set (take n (sort_key f xs))"
  shows "f x \<le> f y"
proof -
  let ?s = "sort_key f xs"
  have "?s = take n ?s @ drop n ?s" by simp
  moreover have "sorted (map f ?s)" by simp
  ultimately have "sorted (map f (take n ?s) @ map f (drop n ?s))" by (metis map_append)
  moreover have "y \<in> set (drop n ?s)"
    using assms(2,3) by (metis Un_iff append_take_drop_id set_append set_sort)
  ultimately show ?thesis using assms(1) by (auto simp: sorted_append)
qed

lemma search_anchors_best:
  assumes "(i, r) \<in> set (search_anchors fp)" "(j, q) \<in> set (anchor_candidates fp)"
    "(j, q) \<notin> set (search_anchors fp)"
  shows "q \<le> r"
  using take_sort_key_le [of "(i, r)" VIDEO_SEQUENCE_MAX_ANCHORS "\<lambda>(i, r). (- int r, i)"
      "anchor_candidates fp" "(j, q)"] assms
  by (auto simp: search_anchors_def less_eq_prod_def)

section \<open>The builder\<close>

fun samples_of where
  "samples_of norm_image luma_of features prev [] = []"
| "samples_of norm_image luma_of features prev (img # images) =
     (let n = norm_image img
      in features n prev # samples_of norm_image luma_of features (Some (luma_of n)) images)"

lemma length_samples_of [simp]:
  "length (samples_of norm_image luma_of features prev images) = length images"
  by (induction images arbitrary: prev) (auto simp: Let_def)

lemma push_images_samples:
  "push_images norm_image luma_of features b images = Inr b' \<Longrightarrow>
   b_samples b' = b_samples b @ samples_of norm_image luma_of features (previous_luma b) images \<and>
   b_duration_ms b' = b_duration_ms b \<and> b_interval_ms b' = b_interval_ms b \<and>
   expected_samples b' = expected_samples b"
proof (induction images arbitrary: b)
  case (Cons img images)
  then show ?case
    by (fastforce simp: result_simps push_image_def Let_def split: if_splits)
qed simp

lemma push_images_total:
  "length (b_samples b) + length images \<le> expected_samples b \<Longrightarrow>
   \<exists>b'. push_images norm_image luma_of features b images = Inr b'"
proof (induction images arbitrary: b)
  case (Cons img images)
  let ?b = "projr (push_image norm_image luma_of features b img)"
  have "push_image norm_image luma_of features b img = Inr ?b"
    "length (b_samples ?b) = Suc (length (b_samples b))" "expected_samples ?b = expected_samples b"
    using Cons.prems by (auto simp: push_image_def Let_def)
  moreover from this Cons.prems have "\<exists>b'. push_images norm_image luma_of features ?b images = Inr b'"
    by (intro Cons.IH) simp
  ultimately show ?case by (metis push_images.simps(2) rbind.simps(2))
qed simp

lemma builder_new_Inr:
  "builder_new d k = Inr b \<longleftrightarrow>
     d \<noteq> 0 \<and> unat k = grid_interval (unat d) \<and>
     b = \<lparr>b_duration_ms = d, b_interval_ms = k,
          expected_samples = length (select_video_sequence_timestamps d),
          b_samples = [], previous_luma = None, best_image = None, best_information_bps = None\<rparr>"
proof -
  have "k = word_of_nat g \<and> g < 2 ^ 32 \<longleftrightarrow> unat k = g" for g :: nat
  proof
    assume "unat k = g"
    then show "k = word_of_nat g \<and> g < 2 ^ 32" using unsigned_less [of k] by auto
  qed (auto simp: unsigned_of_nat take_bit_nat_eq_self)
  then have "unat k = grid_interval (unat d) \<longleftrightarrow>
      k = word_of_nat (grid_interval (unat d)) \<and> grid_interval (unat d) < 2 ^ 32" by metis
  moreover have "unat k = grid_interval (unat d) \<Longrightarrow> k \<noteq> 0"
    using grid_interval_pos [of "unat d"] by (metis less_numeral_extra(3) unat_0)
  ultimately show ?thesis
    by (auto simp: builder_new_def video_sequence_interval_ms_def Let_def result_simps)
qed

text \<open>The retained image is the first one whose information score is maximal.\<close>

definition first_best :: "u16 list \<Rightarrow> nat \<Rightarrow> bool" where
  "first_best scores i \<longleftrightarrow>
     i < length scores \<and> (\<forall>j < length scores. scores ! j \<le> scores ! i) \<and> (\<forall>j < i. scores ! j < scores ! i)"

definition best_inv :: "'img list \<Rightarrow> ('img, 'luma) video_sequence_builder \<Rightarrow> bool" where
  "best_inv seen b \<longleftrightarrow>
     length seen = length (b_samples b) \<and>
     (if seen = [] then best_image b = None \<and> best_information_bps b = None
      else \<exists>i. first_best (map information_bps (b_samples b)) i \<and> best_image b = Some (seen ! i) \<and>
               best_information_bps b = Some (information_bps (b_samples b ! i)))"

lemma first_best_snoc_better:
  "first_best xs i \<Longrightarrow> xs ! i < x \<Longrightarrow> first_best (xs @ [x]) (length xs)"
  unfolding first_best_def by (auto simp: nth_append less_Suc_eq)

lemma first_best_snoc_worse:
  "first_best xs i \<Longrightarrow> \<not> xs ! i < x \<Longrightarrow> first_best (xs @ [x]) i"
  unfolding first_best_def by (auto simp: nth_append less_Suc_eq)

lemma push_image_best_inv:
  assumes inv: "best_inv seen b" and push: "push_image norm_image luma_of features b img = Inr b'"
  shows "best_inv (seen @ [img]) b'"
proof -
  let ?s = "features (norm_image img) (previous_luma b)"
  from inv have len: "length seen = length (b_samples b)" by (simp add: best_inv_def)
  from push have ss: "b_samples b' = b_samples b @ [?s]"
    by (auto simp: push_image_def Let_def split: if_splits)
  show ?thesis
  proof (cases "seen = []")
    case True
    with inv push len show ?thesis
      by (auto simp: best_inv_def push_image_def Let_def first_best_def split: if_splits)
  next
    case False
    with inv obtain i where i: "first_best (map information_bps (b_samples b)) i"
      "best_image b = Some (seen ! i)" "best_information_bps b = Some (information_bps (b_samples b ! i))"
      by (auto simp: best_inv_def)
    then have il: "i < length (b_samples b)" by (simp add: first_best_def)
    show ?thesis
    proof (cases "information_bps (b_samples b ! i) < information_bps ?s")
      case better: True
      then have "best_image b' = Some img" "best_information_bps b' = Some (information_bps ?s)"
        using push i by (auto simp: push_image_def Let_def split: if_splits)
      then show ?thesis
        using first_best_snoc_better [OF i(1), of "information_bps ?s"] better il ss len
        by (auto simp: best_inv_def nth_append intro!: exI [of _ "length (b_samples b)"])
    next
      case worse: False
      then have "best_image b' = best_image b" "best_information_bps b' = best_information_bps b"
        using push i by (auto simp: push_image_def Let_def split: if_splits)
      then show ?thesis
        using first_best_snoc_worse [OF i(1), of "information_bps ?s"] worse il ss len i
        by (auto simp: best_inv_def nth_append intro!: exI [of _ i])
    qed
  qed
qed

lemma push_images_best_inv:
  "best_inv seen b \<Longrightarrow> push_images norm_image luma_of features b images = Inr b' \<Longrightarrow>
   best_inv (seen @ images) b'"
proof (induction images arbitrary: b seen)
  case (Cons img images)
  then obtain b1 where "push_image norm_image luma_of features b img = Inr b1"
    "push_images norm_image luma_of features b1 images = Inr b'"
    by (auto simp: result_simps)
  with Cons show ?case using push_image_best_inv by fastforce
qed simp

section \<open>Properties\<close>

text \<open>(C30) The codec is a bijection: \<open>encode\<close> accepts exactly the valid fingerprints and answers every other one with
  an error, it writes a header and a fixed number of bytes for each sample, and \<open>decode\<close> is its exact inverse: it
  returns a fingerprint for the bytes \<open>encode\<close> writes for it, and for no other bytes. So what is stored reads
  back, and no two byte strings decode to the same fingerprint.\<close>

theorem encode_decode_roundtrip:
  "(if valid_fingerprint fp
    then \<exists>code. encode fp = Inr code \<and> decode code = Inr fp \<and>
           length code = HEADER_BYTES + SAMPLE_BYTES * length (samples fp)
    else \<exists>e. encode fp = Inl e) \<and>
   (decode bs = Inr fp \<longleftrightarrow> encode fp = Inr bs)"
proof
  show "if valid_fingerprint fp
    then \<exists>code. encode fp = Inr code \<and> decode code = Inr fp \<and>
           length code = HEADER_BYTES + SAMPLE_BYTES * length (samples fp)
    else \<exists>e. encode fp = Inl e"
  proof (cases "valid_fingerprint fp")
    case False
    then show ?thesis using encode_Inr [of fp] by (cases "encode fp") auto
  qed (auto simp: encode_Inr decode_of_encoding vs_consts)
  show "decode bs = Inr fp \<longleftrightarrow> encode fp = Inr bs"
  proof
    show "encode fp = Inr bs" if "decode bs = Inr fp" using decode_Inr_encode [OF that] by simp
    show "decode bs = Inr fp" if "encode fp = Inr bs" using that decode_of_encoding unfolding encode_Inr by blast
  qed
qed

definition witness_sample :: video_sequence_sample where
  "witness_sample = \<lparr>phash = 3, dhash = 5, mean_luma = 7, mean_chroma_u = 255, mean_chroma_v = 1,
                     information_bps = 9000, transition_bps = 0\<rparr>"

definition witness_fingerprint :: video_sequence_fingerprint where
  "witness_fingerprint = \<lparr>fp_version = VideoSequenceV1, duration_ms = 900, interval_ms = 500,
                          samples = [witness_sample, witness_sample]\<rparr>"

lemma witness_fingerprint_valid: "valid_fingerprint witness_fingerprint"
  by (simp add: valid_fingerprint_def witness_fingerprint_def witness_sample_def select_timestamps_eq
      grid_interval_def div_ceil_def vs_consts)

theorem encode_decode_roundtrip_witness:
  "\<exists>bs. encode witness_fingerprint = Inr bs \<and> decode bs = Inr witness_fingerprint \<and>
        length bs = HEADER_BYTES + SAMPLE_BYTES * length (samples witness_fingerprint)"
  using encode_decode_roundtrip [of witness_fingerprint "[]"] witness_fingerprint_valid by auto

text \<open>The grid: for a non-zero duration the timestamps are the multiples of the interval
  below the duration, at most 2048 of them and all distinct from the duration on, and
  \<open>validate_grid\<close> accepts exactly the interval of the grid with that number of samples.\<close>

theorem timestamp_grid_agreement:
  assumes "d \<noteq> 0"
  shows "select_video_sequence_timestamps d
           = map (\<lambda>i. i * grid_interval (unat d)) [0..<div_ceil (unat d) (grid_interval (unat d))]
       \<and> length (select_video_sequence_timestamps d) \<le> VIDEO_SEQUENCE_MAX_SAMPLES
       \<and> (\<forall>t \<in> set (select_video_sequence_timestamps d). t < unat d)
       \<and> (validate_grid d k n = Inr () \<longleftrightarrow>
            unat k = grid_interval (unat d) \<and> n = length (select_video_sequence_timestamps d))"
  using assms grid_interval_enough [of "unat d"] div_ceil_less_iff [OF grid_interval_pos]
  by (auto simp: select_timestamps_eq validate_grid_iff)

theorem timestamp_grid_agreement_witness:
  "(1200 :: u64) \<noteq> 0 \<and> length (select_video_sequence_timestamps 1200) = 3 \<and>
   validate_grid 1200 500 3 = Inr ()"
proof -
  have nz: "(1200 :: u64) \<noteq> 0" by simp
  show ?thesis
    using timestamp_grid_agreement [OF nz, of 500 3]
    by (simp add: grid_interval_def div_ceil_def vs_consts)
qed

text \<open>The search tokens of a fingerprint are strictly increasing, positive and at most 1024,
  they are exactly the band tokens of the selected anchors (the final truncation never drops
  one), and an anchor outranks every sample that was not selected.\<close>

theorem derive_search_tokens_correct:
  "sorted_wrt (<) (derive_search_tokens fp) \<and>
   (\<forall>t. t \<in> set (derive_search_tokens fp) \<longleftrightarrow>
        (\<exists>(i, r) \<in> set (search_anchors fp). t \<in> set (sample_tokens (samples fp ! i)))) \<and>
   length (derive_search_tokens fp) \<le> VIDEO_SEQUENCE_MAX_TOKENS \<and>
   (\<forall>t \<in> set (derive_search_tokens fp). 0 < t) \<and>
   (\<forall>(i, r) \<in> set (search_anchors fp). \<forall>(j, q) \<in> set (anchor_candidates fp) - set (search_anchors fp).
        q \<le> r)"
  using derive_search_tokens_sorted [of fp] derive_search_tokens_pos [of _ fp]
    length_derive_search_tokens [of fp] search_anchors_best [of _ _ fp]
  by (auto simp: set_derive_search_tokens anchor_tokens_concat)

theorem derive_search_tokens_correct_witness:
  "list_all (\<lambda>t. 0 < t) (derive_search_tokens witness_fingerprint)"
  using derive_search_tokens_correct [of witness_fingerprint] unfolding list_all_iff by (elim conjE) assumption

text \<open>The builder: when \<open>finish_with_best_image\<close> succeeds after \<open>push_image\<close> was called on the
  images in order, the fingerprint is valid, holds one sample per image, and the image kept
  aside is the first one with the highest information score.\<close>

theorem builder_correct:
  assumes "builder_new d k = Inr b0"
    and "push_images norm_image luma_of features b0 images = Inr b"
    and "finish_with_best_image b = Inr (fp, best)"
  shows "valid_fingerprint fp \<and> duration_ms fp = d \<and> interval_ms fp = k \<and>
         samples fp = samples_of norm_image luma_of features None images \<and>
         (\<exists>i. first_best (map information_bps (samples fp)) i \<and> best = Some (images ! i))"
proof -
  from assms(1) have b0: "best_inv [] b0" "b_samples b0 = []" "previous_luma b0 = None"
    "b_duration_ms b0 = d" "b_interval_ms b0 = k"
    by (auto simp: builder_new_Inr best_inv_def)
  from push_images_samples [OF assms(2)] assms(3) b0
  have fp: "valid_fingerprint fp" "duration_ms fp = d" "interval_ms fp = k"
    "samples fp = samples_of norm_image luma_of features None images" "samples fp = b_samples b"
    "best = best_image b"
    by (auto simp: finish_with_best_image_def result_simps fingerprint_new_Inr split: if_splits)
  from valid_fingerprint_length [OF fp(1)] fp(4) have "images \<noteq> []" by auto
  with push_images_best_inv [OF b0(1) assms(2)] fp show ?thesis
    by (auto simp: best_inv_def)
qed

theorem builder_correct_witness:
  "\<exists>(b0 :: (nat, nat) video_sequence_builder) b fp best.
     builder_new 900 500 = Inr b0 \<and>
     push_images (\<lambda>i. i) (\<lambda>i. i) (\<lambda>i p. witness_sample) b0 [1, 2] = Inr b \<and>
     finish_with_best_image b = Inr (fp, best) \<and> valid_fingerprint fp \<and>
     samples fp = [witness_sample, witness_sample] \<and> best \<noteq> None"
proof -
  let ?first = "\<lparr>b_duration_ms = 900, b_interval_ms = 500, expected_samples = 2, b_samples = [],
     previous_luma = None, best_image = None, best_information_bps = None\<rparr>
     :: (nat, nat) video_sequence_builder"
  let ?final = "\<lparr>b_duration_ms = 900, b_interval_ms = 500, expected_samples = 2,
     b_samples = [witness_sample, witness_sample],
     previous_luma = Some 2, best_image = Some 1, best_information_bps = Some 9000\<rparr>
     :: (nat, nat) video_sequence_builder"
  have b0: "builder_new 900 500 = Inr ?first"
    by (subst builder_new_Inr)
      (simp add: select_timestamps_eq, simp add: grid_interval_def div_ceil_def vs_consts)
  have b: "push_images (\<lambda>i. i) (\<lambda>i. i) (\<lambda>i p. witness_sample) ?first [1, 2] = Inr ?final"
    by (simp add: push_image_def Let_def witness_sample_def)
  have fin: "finish_with_best_image ?final = Inr (witness_fingerprint, Some 1)"
    using witness_fingerprint_valid
    by (simp add: finish_with_best_image_def result_simps fingerprint_new_Inr witness_fingerprint_def)
  from b0 b fin builder_correct [OF b0 b fin] show ?thesis
    by (intro exI [of _ ?first] exI [of _ ?final] exI [of _ witness_fingerprint] exI [of _ "Some 1"])
      (simp add: Let_def)
qed

end
