(* ===== verification/Inbox.thy ===== *)
theory Inbox
  imports Sooqa_Prelude
begin

text \<open>
  The Inbox boundary of \<open>crates/inbox/src/lib.rs\<close>: the stored enumerations, the ingest state
  machine, URL normalisation, submission validation and the durable inspection record with its
  JSON form. URLs are those of the \<open>url\<close> crate: its operations are the record \<open>url_ops\<close>, an
  argument of \<open>normalize_url\<close>; the current time and the RFC 3339 formatter are arguments too.
\<close>

section \<open>Stored enumerations\<close>

datatype ingest_kind =
    UrlIngest
  | TelegramMessageIngest
  | UploadIngest

fun ingest_kind_as_str :: "ingest_kind \<Rightarrow> ustring" where
  "ingest_kind_as_str UrlIngest = lit ''url''"
| "ingest_kind_as_str TelegramMessageIngest = lit ''telegram_message''"
| "ingest_kind_as_str UploadIngest = lit ''upload''"

definition ingest_kind_try_from :: "ustring \<Rightarrow> ustring + ingest_kind" where
  "ingest_kind_try_from s =
     (if s = lit ''url'' then Inr UrlIngest
      else if s = lit ''telegram_message'' then Inr TelegramMessageIngest
      else if s = lit ''upload'' then Inr UploadIngest
      else Inl s)"

interpretation ingest_kind_enum: db_enum ingest_kind_as_str ingest_kind_try_from
proof
  fix x :: ingest_kind
  show "ingest_kind_try_from (ingest_kind_as_str x) = Inr x" by (cases x) (simp_all add: ingest_kind_try_from_def)
next
  fix s x
  show "ingest_kind_try_from s = Inr x \<Longrightarrow> s = ingest_kind_as_str x" by (auto simp: ingest_kind_try_from_def split: if_splits)
next
  fix s e
  show "ingest_kind_try_from s = Inl e \<Longrightarrow> e = s" by (auto simp: ingest_kind_try_from_def split: if_splits)
qed

datatype submitted_via =
    Api
  | Companion
  | TelegramBot

fun submitted_via_as_str :: "submitted_via \<Rightarrow> ustring" where
  "submitted_via_as_str Api = lit ''api''"
| "submitted_via_as_str Companion = lit ''companion''"
| "submitted_via_as_str TelegramBot = lit ''telegram_bot''"

definition submitted_via_try_from :: "ustring \<Rightarrow> ustring + submitted_via" where
  "submitted_via_try_from s =
     (if s = lit ''api'' then Inr Api
      else if s = lit ''companion'' then Inr Companion
      else if s = lit ''telegram_bot'' then Inr TelegramBot
      else Inl s)"

interpretation submitted_via_enum: db_enum submitted_via_as_str submitted_via_try_from
proof
  fix x :: submitted_via
  show "submitted_via_try_from (submitted_via_as_str x) = Inr x" by (cases x) (simp_all add: submitted_via_try_from_def)
next
  fix s x
  show "submitted_via_try_from s = Inr x \<Longrightarrow> s = submitted_via_as_str x" by (auto simp: submitted_via_try_from_def split: if_splits)
next
  fix s e
  show "submitted_via_try_from s = Inl e \<Longrightarrow> e = s" by (auto simp: submitted_via_try_from_def split: if_splits)
qed

datatype requested_action =
    SaveAction
  | QueueAction
  | PostNowAction

fun requested_action_as_str :: "requested_action \<Rightarrow> ustring" where
  "requested_action_as_str SaveAction = lit ''save''"
| "requested_action_as_str QueueAction = lit ''queue''"
| "requested_action_as_str PostNowAction = lit ''post_now''"

definition requested_action_try_from :: "ustring \<Rightarrow> ustring + requested_action" where
  "requested_action_try_from s =
     (if s = lit ''save'' then Inr SaveAction
      else if s = lit ''queue'' then Inr QueueAction
      else if s = lit ''post_now'' then Inr PostNowAction
      else Inl s)"

interpretation requested_action_enum: db_enum requested_action_as_str requested_action_try_from
proof
  fix x :: requested_action
  show "requested_action_try_from (requested_action_as_str x) = Inr x" by (cases x) (simp_all add: requested_action_try_from_def)
next
  fix s x
  show "requested_action_try_from s = Inr x \<Longrightarrow> s = requested_action_as_str x" by (auto simp: requested_action_try_from_def split: if_splits)
next
  fix s e
  show "requested_action_try_from s = Inl e \<Longrightarrow> e = s" by (auto simp: requested_action_try_from_def split: if_splits)
qed

datatype source_media_kind =
    SourceVideo
  | SourceImage
  | SourceAudio
  | SourceAnimation
  | SourceUnknown

datatype ingest_status =
    Received
  | IngestQueued
  | Downloading
  | Probing
  | ExactDedupCheck
  | Normalizing
  | Fingerprinting
  | DuplicatePending
  | Storing
  | IngestCompleted
  | FailedRetryable
  | FailedTerminal
  | IngestCancelled

fun ingest_status_as_str :: "ingest_status \<Rightarrow> ustring" where
  "ingest_status_as_str Received = lit ''received''"
| "ingest_status_as_str IngestQueued = lit ''queued''"
| "ingest_status_as_str Downloading = lit ''downloading''"
| "ingest_status_as_str Probing = lit ''probing''"
| "ingest_status_as_str ExactDedupCheck = lit ''exact_dedup_check''"
| "ingest_status_as_str Normalizing = lit ''normalizing''"
| "ingest_status_as_str Fingerprinting = lit ''fingerprinting''"
| "ingest_status_as_str DuplicatePending = lit ''duplicate_pending''"
| "ingest_status_as_str Storing = lit ''storing''"
| "ingest_status_as_str IngestCompleted = lit ''completed''"
| "ingest_status_as_str FailedRetryable = lit ''failed_retryable''"
| "ingest_status_as_str FailedTerminal = lit ''failed_terminal''"
| "ingest_status_as_str IngestCancelled = lit ''cancelled''"

definition ingest_status_try_from :: "ustring \<Rightarrow> ustring + ingest_status" where
  "ingest_status_try_from s =
     (if s = lit ''received'' then Inr Received
      else if s = lit ''queued'' then Inr IngestQueued
      else if s = lit ''downloading'' then Inr Downloading
      else if s = lit ''probing'' then Inr Probing
      else if s = lit ''exact_dedup_check'' then Inr ExactDedupCheck
      else if s = lit ''normalizing'' then Inr Normalizing
      else if s = lit ''fingerprinting'' then Inr Fingerprinting
      else if s = lit ''duplicate_pending'' then Inr DuplicatePending
      else if s = lit ''storing'' then Inr Storing
      else if s = lit ''completed'' then Inr IngestCompleted
      else if s = lit ''failed_retryable'' then Inr FailedRetryable
      else if s = lit ''failed_terminal'' then Inr FailedTerminal
      else if s = lit ''cancelled'' then Inr IngestCancelled
      else Inl s)"

interpretation ingest_status_enum: db_enum ingest_status_as_str ingest_status_try_from
proof
  fix x :: ingest_status
  show "ingest_status_try_from (ingest_status_as_str x) = Inr x" by (cases x) (simp_all add: ingest_status_try_from_def)
next
  fix s x
  show "ingest_status_try_from s = Inr x \<Longrightarrow> s = ingest_status_as_str x" by (auto simp: ingest_status_try_from_def split: if_splits)
next
  fix s e
  show "ingest_status_try_from s = Inl e \<Longrightarrow> e = s" by (auto simp: ingest_status_try_from_def split: if_splits)
qed

section \<open>The ingest state machine\<close>

definition ingest_is_terminal :: "ingest_status \<Rightarrow> bool" where
  "ingest_is_terminal s \<longleftrightarrow> s \<in> {IngestCompleted, FailedTerminal, IngestCancelled}"

definition pipeline_edges :: "(ingest_status \<times> ingest_status) list" where
  "pipeline_edges =
     [(Received, IngestQueued), (IngestQueued, Downloading), (Downloading, Probing),
      (Probing, Normalizing), (Probing, ExactDedupCheck), (ExactDedupCheck, Normalizing),
      (Normalizing, Fingerprinting), (Normalizing, Storing), (Fingerprinting, Storing),
      (Fingerprinting, DuplicatePending), (Fingerprinting, IngestCompleted),
      (DuplicatePending, IngestQueued), (DuplicatePending, Storing), (FailedRetryable, Storing),
      (FailedRetryable, Fingerprinting), (Storing, Fingerprinting), (Storing, IngestCompleted)]"

definition can_transition_to :: "ingest_status \<Rightarrow> ingest_status \<Rightarrow> bool" where
  "can_transition_to from target =
     (if from = target then True
      else if ingest_is_terminal from then False
      else if target \<in> {FailedRetryable, FailedTerminal, IngestCancelled} then True
      else if from = FailedRetryable \<and> target = IngestQueued then True
      else (from, target) \<in> set pipeline_edges)"

section \<open>Durable stage records\<close>

text \<open>\<open>serde_json::Value\<close>; the bits of a non-integral number are kept as they are.\<close>

datatype json =
    JNull
  | JBool bool
  | JInt int
  | JFloat u64
  | JStr ustring
  | JArr "json list"
  | JObj "(ustring \<times> json) list"

text \<open>\<open>Value::get\<close> and \<open>Value::as_str\<close>.\<close>

fun json_get :: "ustring \<Rightarrow> json \<Rightarrow> json option" where
  "json_get key (JObj members) = map_of members key"
| "json_get key _ = None"

fun json_as_str :: "json \<Rightarrow> ustring option" where
  "json_as_str (JStr t) = Some t"
| "json_as_str _ = None"

definition json_get_str :: "ustring \<Rightarrow> json \<Rightarrow> ustring option" where
  "json_get_str key v = Option.bind (json_get key v) json_as_str"

record source_inspection =
  adapter :: ustring
  si_source_url :: ustring
  resolved_url :: "ustring option"
  si_media_kind :: source_media_kind
  si_mime_type :: "ustring option"
  content_length_bytes :: "u64 option"
  si_title :: "ustring option"
  si_metadata :: json

section \<open>URLs\<close>

text \<open>The operations of the \<open>url\<close> crate the code calls; \<open>None\<close> stands for their \<open>Err\<close>.\<close>

record 'u url_ops =
  url_parse :: "ustring \<Rightarrow> 'u option"
  url_scheme :: "'u \<Rightarrow> ustring"
  url_host_str :: "'u \<Rightarrow> ustring option"
  url_username :: "'u \<Rightarrow> ustring"
  url_password :: "'u \<Rightarrow> ustring option"
  url_port :: "'u \<Rightarrow> nat option"
  url_set_scheme :: "'u \<Rightarrow> ustring \<Rightarrow> 'u option"
  url_set_host :: "'u \<Rightarrow> ustring \<Rightarrow> 'u option"
  url_clear_port :: "'u \<Rightarrow> 'u option"
  url_clear_fragment :: "'u \<Rightarrow> 'u"
  url_query_pairs :: "'u \<Rightarrow> (ustring \<times> ustring) list"
  url_clear_query :: "'u \<Rightarrow> 'u"
  url_replace_query :: "'u \<Rightarrow> (ustring \<times> ustring) list \<Rightarrow> 'u"
  url_to_string :: "'u \<Rightarrow> ustring"

datatype ingest_validation_error =
    EmptyUrl ustring
  | InvalidUrl ustring
  | UnsupportedScheme ustring
  | MissingHost ustring
  | CredentialsNotAllowed ustring
  | EmptyIdempotencyKey
  | IdempotencyKeyTooLong
  | InvalidInputEnvelope ustring
  | EmptyTag
  | InvalidRequestedAction
  | InvalidRequestedPublishAt
  | RequestedPublishAtForbidden
  | RequestedPublishAtForbiddenForPostNow
  | RequestedPublishAtNotFuture
  | RequestedPostCaptionForbidden
  | RequestedPostCaptionTooLong nat
  | RequestedPostCaptionControlCharacter

definition starts_with :: "ustring \<Rightarrow> ustring \<Rightarrow> bool" where
  "starts_with p s \<longleftrightarrow> take (length p) s = p"

definition is_tracking_parameter :: "ustring \<Rightarrow> bool" where
  "is_tracking_parameter name =
     (let name = to_ascii_lowercase name in
      starts_with (lit ''utm_'') name \<or>
      name \<in> {lit ''fbclid'', lit ''gclid'', lit ''dclid'', lit ''msclkid'', lit ''mc_cid'', lit ''mc_eid''})"

definition lower_scheme ::
  "'u url_ops \<Rightarrow> ustring \<Rightarrow> ustring \<Rightarrow> 'u \<Rightarrow> ingest_validation_error + 'u" where
  "lower_scheme ops field scheme url =
     (if url_scheme ops url \<noteq> scheme
      then ok_or (url_set_scheme ops url scheme) (InvalidUrl field)
      else Inr url)"

definition lower_host :: "'u url_ops \<Rightarrow> ustring \<Rightarrow> 'u \<Rightarrow> ingest_validation_error + 'u" where
  "lower_host ops field url =
     (case url_host_str ops url of
        None \<Rightarrow> Inr url
      | Some host \<Rightarrow>
          if host \<noteq> to_ascii_lowercase host
          then ok_or (url_set_host ops url (to_ascii_lowercase host)) (InvalidUrl field)
          else Inr url)"

definition drop_default_port ::
  "'u url_ops \<Rightarrow> ustring \<Rightarrow> ustring \<Rightarrow> 'u \<Rightarrow> ingest_validation_error + 'u" where
  "drop_default_port ops field scheme url =
     (if (scheme = lit ''http'' \<and> url_port ops url = Some 80) \<or>
         (scheme = lit ''https'' \<and> url_port ops url = Some 443)
      then ok_or (url_clear_port ops url) (InvalidUrl field)
      else Inr url)"

definition drop_tracking :: "'u url_ops \<Rightarrow> 'u \<Rightarrow> 'u" where
  "drop_tracking ops url =
     (let query_pairs = url_query_pairs ops url;
          filtered_pairs = filter (\<lambda>(name, _). \<not> is_tracking_parameter name) query_pairs
      in if length filtered_pairs \<noteq> length query_pairs
         then (if filtered_pairs = [] then url_clear_query ops url
               else url_replace_query ops url filtered_pairs)
         else url)"

definition normalized_url ::
  "'u url_ops \<Rightarrow> ustring \<Rightarrow> ustring \<Rightarrow> ingest_validation_error + 'u" where
  "normalized_url ops input field =
     (let input = trim input in
      if input = [] then Inl (EmptyUrl field)
      else rbind (ok_or (url_parse ops input) (InvalidUrl field)) (\<lambda>url.
        let scheme = to_ascii_lowercase (url_scheme ops url) in
        if scheme \<notin> {lit ''http'', lit ''https''} then Inl (UnsupportedScheme field)
        else if url_host_str ops url = None then Inl (MissingHost field)
        else if url_username ops url \<noteq> [] \<or> url_password ops url \<noteq> None
        then Inl (CredentialsNotAllowed field)
        else rbind (lower_scheme ops field scheme url) (\<lambda>url.
             rbind (lower_host ops field url) (\<lambda>url.
             rbind (drop_default_port ops field scheme url) (\<lambda>url.
             Inr (drop_tracking ops (url_clear_fragment ops url)))))))"

definition normalize_url ::
  "'u url_ops \<Rightarrow> ustring \<Rightarrow> ustring \<Rightarrow> ingest_validation_error + ustring" where
  "normalize_url ops input field =
     rbind (normalized_url ops input field) (\<lambda>url. Inr (url_to_string ops url))"

section \<open>Submissions\<close>

definition MAX_IDEMPOTENCY_KEY_LENGTH :: nat where
  "MAX_IDEMPOTENCY_KEY_LENGTH = 255"

definition MAX_REQUESTED_POST_CAPTION_LENGTH :: nat where
  "MAX_REQUESTED_POST_CAPTION_LENGTH = 1024"

fun normalize_idempotency_key :: "ustring option \<Rightarrow> ingest_validation_error + ustring option" where
  "normalize_idempotency_key None = Inr None"
| "normalize_idempotency_key (Some value) =
     (let value = trim value in
      if value = [] then Inl EmptyIdempotencyKey
      else if length value > MAX_IDEMPOTENCY_KEY_LENGTH then Inl IdempotencyKeyTooLong
      else Inr (Some value))"

fun normalize_optional_text :: "ustring option \<Rightarrow> ustring option" where
  "normalize_optional_text None = None"
| "normalize_optional_text (Some value) =
     (let value = trim value in if value \<noteq> [] then Some value else None)"

definition forbidden_control :: "nat \<Rightarrow> bool" where
  "forbidden_control c \<longleftrightarrow> is_control c \<and> c \<notin> {10, 13, 9}"

definition validate_requested_caption :: "ustring option \<Rightarrow> ingest_validation_error + unit" where
  "validate_requested_caption caption =
     (case caption of
        None \<Rightarrow> Inr ()
      | Some caption \<Rightarrow>
          if length caption > MAX_REQUESTED_POST_CAPTION_LENGTH
          then Inl (RequestedPostCaptionTooLong MAX_REQUESTED_POST_CAPTION_LENGTH)
          else if list_ex forbidden_control caption
          then Inl RequestedPostCaptionControlCharacter
          else Inr ())"

definition validate_requested_intent ::
  "timestamp \<Rightarrow> requested_action \<Rightarrow> timestamp option \<Rightarrow> ustring option \<Rightarrow> bool \<Rightarrow>
   ingest_validation_error + unit" where
  "validate_requested_intent now action publish_at caption enforce =
     rbind (validate_requested_caption caption) (\<lambda>_.
       case action of
         SaveAction \<Rightarrow>
           if publish_at \<noteq> None then Inl RequestedPublishAtForbidden
           else if caption \<noteq> None then Inl RequestedPostCaptionForbidden
           else Inr ()
       | QueueAction \<Rightarrow>
           (case publish_at of
              None \<Rightarrow> Inr ()
            | Some at \<Rightarrow> if enforce \<and> at \<le> now then Inl RequestedPublishAtNotFuture else Inr ())
       | PostNowAction \<Rightarrow>
           if publish_at \<noteq> None then Inl RequestedPublishAtForbiddenForPostNow else Inr ())"

fun collect_tags :: "ustring list \<Rightarrow> ustring list \<Rightarrow> ingest_validation_error + ustring list" where
  "collect_tags [] acc = Inr acc"
| "collect_tags (tag # tags) acc =
     (let tag = to_ascii_lowercase (trim tag) in
      if tag = [] then Inl EmptyTag
      else collect_tags tags (if tag \<in> set acc then acc else acc @ [tag]))"

record ingest_submission_input =
  in_source_url :: ustring
  in_submitted_via :: submitted_via
  in_page_url :: "ustring option"
  in_page_title :: "ustring option"
  in_supplied_caption :: "ustring option"
  in_supplied_description :: "ustring option"
  in_supplied_tags :: "ustring list"
  in_requested_action :: requested_action
  in_requested_publish_at :: "timestamp option"
  in_requested_post_caption :: "ustring option"
  in_idempotency_key :: "ustring option"

definition submission_input_new :: "ustring \<Rightarrow> submitted_via \<Rightarrow> ingest_submission_input" where
  "submission_input_new url via =
     \<lparr>in_source_url = url, in_submitted_via = via, in_page_url = None, in_page_title = None,
      in_supplied_caption = None, in_supplied_description = None, in_supplied_tags = [],
      in_requested_action = SaveAction, in_requested_publish_at = None,
      in_requested_post_caption = None, in_idempotency_key = None\<rparr>"

record ingest_submission =
  sub_kind :: ingest_kind
  sub_submitted_via :: submitted_via
  sub_original_url :: ustring
  sub_normalized_url :: ustring
  sub_original_input :: json
  sub_page_url :: "ustring option"
  sub_page_title :: "ustring option"
  sub_supplied_caption :: "ustring option"
  sub_supplied_description :: "ustring option"
  sub_supplied_tags :: "ustring list"
  sub_requested_action :: requested_action
  sub_requested_publish_at :: "timestamp option"
  sub_requested_post_caption :: "ustring option"
  sub_idempotency_key :: "ustring option"

fun json_opt :: "ustring option \<Rightarrow> json" where
  "json_opt None = JNull"
| "json_opt (Some s) = JStr s"

definition try_new_inner ::
  "'u url_ops \<Rightarrow> (timestamp \<Rightarrow> ustring) \<Rightarrow> timestamp \<Rightarrow> ingest_submission_input \<Rightarrow> bool \<Rightarrow>
   ingest_validation_error + ingest_submission" where
  "try_new_inner ops rfc3339 now input enforce =
     (let original_url = trim (in_source_url input) in
      rbind (normalize_url ops original_url (lit ''source URL'')) (\<lambda>url.
      rbind (case in_page_url input of
               None \<Rightarrow> Inr None
             | Some v \<Rightarrow> rbind (normalize_url ops v (lit ''page URL'')) (\<lambda>u. Inr (Some u))) (\<lambda>page_url.
      rbind (normalize_idempotency_key (in_idempotency_key input)) (\<lambda>key.
      rbind (collect_tags (in_supplied_tags input) []) (\<lambda>tags.
      let page_title = normalize_optional_text (in_page_title input);
          caption = normalize_optional_text (in_supplied_caption input);
          description = normalize_optional_text (in_supplied_description input);
          post_caption = normalize_optional_text (in_requested_post_caption input)
      in rbind (validate_requested_intent now (in_requested_action input)
                  (in_requested_publish_at input) post_caption enforce) (\<lambda>_.
      Inr \<lparr>sub_kind = UrlIngest, sub_submitted_via = in_submitted_via input,
           sub_original_url = original_url, sub_normalized_url = url,
           sub_original_input =
             JObj [(lit ''url'', JStr original_url), (lit ''page_url'', json_opt page_url),
                   (lit ''page_title'', json_opt page_title), (lit ''selected_text'', json_opt caption),
                   (lit ''description'', json_opt description), (lit ''tags'', JArr (map JStr tags)),
                   (lit ''requested_action'', JStr (requested_action_as_str (in_requested_action input))),
                   (lit ''requested_publish_at'', json_opt (map_option rfc3339 (in_requested_publish_at input))),
                   (lit ''requested_post_caption'', json_opt post_caption)],
           sub_page_url = page_url, sub_page_title = page_title, sub_supplied_caption = caption,
           sub_supplied_description = description, sub_supplied_tags = tags,
           sub_requested_action = in_requested_action input,
           sub_requested_publish_at = in_requested_publish_at input,
           sub_requested_post_caption = post_caption, sub_idempotency_key = key\<rparr>))))))"

definition try_new where
  "try_new ops rfc3339 now input = try_new_inner ops rfc3339 now input True"

definition try_new_for_idempotency_lookup where
  "try_new_for_idempotency_lookup ops rfc3339 now input = try_new_inner ops rfc3339 now input False"

section \<open>The ingest record\<close>

record ingest =
  ing_id :: uuid
  ing_workspace_id :: uuid
  ing_kind :: ingest_kind
  ing_status :: ingest_status
  ing_submitted_via :: submitted_via
  ing_original_input :: json
  ing_source_url :: ustring
  ing_page_url :: "ustring option"
  ing_page_title :: "ustring option"
  ing_supplied_caption :: "ustring option"
  ing_supplied_description :: "ustring option"
  ing_supplied_tags :: "ustring list"
  ing_requested_action :: requested_action
  ing_requested_publish_at :: "timestamp option"
  ing_requested_post_caption :: "ustring option"
  ing_requested_channel_id :: "uuid option"
  ing_idempotency_key :: "ustring option"
  ing_media_id :: "uuid option"
  ing_force_save :: bool
  ing_duplicate_evidence :: "json option"
  ing_error_code :: "ustring option"
  ing_error_message :: "ustring option"
  ing_created_at :: timestamp
  ing_updated_at :: timestamp
  ing_completed_at :: "timestamp option"

record ingest_state_error =
  err_from :: ingest_status
  err_to :: ingest_status

definition transition_to :: "ingest \<Rightarrow> ingest_status \<Rightarrow> ingest_state_error + ingest" where
  "transition_to i target =
     (if \<not> can_transition_to (ing_status i) target
      then Inl \<lparr>err_from = ing_status i, err_to = target\<rparr>
      else Inr (i\<lparr>ing_status := target\<rparr>))"

section \<open>Lemmas\<close>

fun run_transitions :: "ingest \<Rightarrow> ingest_status list \<Rightarrow> ingest_state_error + ingest" where
  "run_transitions i [] = Inr i"
| "run_transitions i (t # ts) = rbind (transition_to i t) (\<lambda>i. run_transitions i ts)"

lemma transition_to_Inr:
  "transition_to i t = Inr j \<longleftrightarrow> can_transition_to (ing_status i) t \<and> j = i\<lparr>ing_status := t\<rparr>"
  by (auto simp: transition_to_def)

lemma can_transition_from_terminal:
  "ingest_is_terminal s \<Longrightarrow> can_transition_to s t \<longleftrightarrow> t = s"
  by (auto simp: can_transition_to_def)

lemma run_from_terminal:
  "ingest_is_terminal (ing_status i) \<Longrightarrow> run_transitions i ts = Inr j \<Longrightarrow> j = i"
proof (induction ts)
  case (Cons t ts)
  then show ?case by (auto simp: result_simps transition_to_Inr can_transition_from_terminal)
qed simp

fun completion_route :: "ingest_status \<Rightarrow> ingest_status list" where
  "completion_route Received = [IngestQueued, Downloading, Probing, Normalizing, Storing, IngestCompleted]"
| "completion_route IngestQueued = [Downloading, Probing, Normalizing, Storing, IngestCompleted]"
| "completion_route Downloading = [Probing, Normalizing, Storing, IngestCompleted]"
| "completion_route Probing = [Normalizing, Storing, IngestCompleted]"
| "completion_route ExactDedupCheck = [Normalizing, Storing, IngestCompleted]"
| "completion_route IngestCompleted = []"
| "completion_route Storing = [IngestCompleted]"
| "completion_route _ = [Storing, IngestCompleted]"

lemma run_completion_route:
  assumes "\<not> ingest_is_terminal (ing_status i)"
  shows "run_transitions i (completion_route (ing_status i)) = Inr (i\<lparr>ing_status := IngestCompleted\<rparr>)"
  using assms
  by (cases "ing_status i") (simp_all add: transition_to_def can_transition_to_def ingest_is_terminal_def
      pipeline_edges_def)

text \<open>Tags: lower-case, trimmed, non-empty and without repetition.\<close>

definition canonical_tag :: "ustring \<Rightarrow> bool" where
  "canonical_tag t \<longleftrightarrow> t \<noteq> [] \<and> trimmed t \<and> to_ascii_lowercase t = t"

lemma to_ascii_lower_ws [simp]: "is_whitespace (to_ascii_lower c) = is_whitespace c"
  by (auto simp: to_ascii_lower_def is_whitespace_def)

lemma to_ascii_lower_idem [simp]: "to_ascii_lower (to_ascii_lower c) = to_ascii_lower c"
  by (simp add: to_ascii_lower_def)

lemma canonical_lower_trim:
  "to_ascii_lowercase (trim s) \<noteq> [] \<Longrightarrow> canonical_tag (to_ascii_lowercase (trim s))"
  using trimmed_trim [of s]
  by (auto simp: canonical_tag_def trimmed_def to_ascii_lowercase_def hd_map last_map)

lemma collect_tags_canonical:
  "collect_tags tags acc = Inr ts \<Longrightarrow> distinct acc \<Longrightarrow> list_all canonical_tag acc \<Longrightarrow>
   distinct ts \<and> list_all canonical_tag ts \<and>
   set ts = set acc \<union> (\<lambda>t. to_ascii_lowercase (trim t)) ` set tags"
proof (induction tags acc rule: collect_tags.induct)
  case (2 tag tags acc)
  let ?t = "to_ascii_lowercase (trim tag)"
  from 2(2) have ne: "?t \<noteq> []" by (auto simp: Let_def split: if_splits)
  then have "canonical_tag ?t" by (rule canonical_lower_trim)
  with 2 ne show ?case by (cases "?t \<in> set acc") (auto simp: Let_def)
qed auto

lemma normalize_optional_text_Some:
  "normalize_optional_text v = Some t \<Longrightarrow> t \<noteq> [] \<and> trimmed t"
  by (cases v) (auto simp: Let_def split: if_splits)

lemma normalize_idempotency_key_Inr:
  "normalize_idempotency_key v = Inr (Some k) \<Longrightarrow>
     trimmed k \<and> 0 < length k \<and> length k \<le> MAX_IDEMPOTENCY_KEY_LENGTH"
  by (cases v) (auto simp: Let_def split: if_splits)

text \<open>What a stored submission satisfies.\<close>

definition valid_intent :: "requested_action \<Rightarrow> timestamp option \<Rightarrow> ustring option \<Rightarrow> bool" where
  "valid_intent action publish_at caption \<longleftrightarrow>
     (action = SaveAction \<longrightarrow> publish_at = None \<and> caption = None) \<and>
     (action = PostNowAction \<longrightarrow> publish_at = None) \<and>
     (\<forall>c. caption = Some c \<longrightarrow> length c \<le> MAX_REQUESTED_POST_CAPTION_LENGTH \<and> list_all (\<lambda>x. \<not> forbidden_control x) c)"

definition valid_submission :: "ingest_submission \<Rightarrow> bool" where
  "valid_submission s \<longleftrightarrow>
     valid_intent (sub_requested_action s) (sub_requested_publish_at s) (sub_requested_post_caption s) \<and>
     distinct (sub_supplied_tags s) \<and> list_all canonical_tag (sub_supplied_tags s) \<and>
     (\<forall>k. sub_idempotency_key s = Some k \<longrightarrow>
        trimmed k \<and> 0 < length k \<and> length k \<le> MAX_IDEMPOTENCY_KEY_LENGTH) \<and>
     (\<forall>t. sub_page_title s = Some t \<or> sub_supplied_caption s = Some t \<or>
          sub_supplied_description s = Some t \<or> sub_requested_post_caption s = Some t \<longrightarrow>
        t \<noteq> [] \<and> trimmed t)"

lemma validate_requested_caption_iff:
  "validate_requested_caption caption = Inr () \<longleftrightarrow>
     (\<forall>c. caption = Some c \<longrightarrow> length c \<le> MAX_REQUESTED_POST_CAPTION_LENGTH \<and> list_all (\<lambda>x. \<not> forbidden_control x) c)"
  by (cases caption) (auto simp: validate_requested_caption_def list_ex_iff list_all_iff)

lemma validate_requested_intent_iff:
  "validate_requested_intent now action publish_at caption enforce = Inr () \<longleftrightarrow>
     valid_intent action publish_at caption \<and>
     (enforce \<longrightarrow> action = QueueAction \<longrightarrow> (\<forall>at. publish_at = Some at \<longrightarrow> now < at))"
  by (cases action; cases publish_at; cases caption)
    (auto simp: validate_requested_intent_def result_simps validate_requested_caption_iff valid_intent_def)

lemma try_new_inner_valid:
  assumes "try_new_inner ops rfc3339 now input enforce = Inr s"
  shows "valid_submission s"
proof -
  let ?post = "normalize_optional_text (in_requested_post_caption input)"
  from assms obtain tags where
    tags: "collect_tags (in_supplied_tags input) [] = Inr tags" "sub_supplied_tags s = tags"
    and key: "normalize_idempotency_key (in_idempotency_key input) = Inr (sub_idempotency_key s)"
    and intent: "validate_requested_intent now (in_requested_action input)
        (in_requested_publish_at input) ?post enforce = Inr ()"
    and fields: "sub_requested_action s = in_requested_action input"
      "sub_requested_publish_at s = in_requested_publish_at input" "sub_requested_post_caption s = ?post"
      "sub_page_title s = normalize_optional_text (in_page_title input)"
      "sub_supplied_caption s = normalize_optional_text (in_supplied_caption input)"
      "sub_supplied_description s = normalize_optional_text (in_supplied_description input)"
    by (auto simp: try_new_inner_def Let_def result_simps)
  show ?thesis
    unfolding valid_submission_def
    using collect_tags_canonical [OF tags(1)] tags(2) key intent fields
    by (auto simp: validate_requested_intent_iff dest: normalize_idempotency_key_Inr
        normalize_optional_text_Some)
qed

lemma validate_requested_intent_enforce:
  "validate_requested_intent now a p c False = Inr () \<Longrightarrow>
   validate_requested_intent now a p c True = Inr () \<or>
   validate_requested_intent now a p c True = Inl RequestedPublishAtNotFuture"
  by (cases a; cases p) (auto simp: validate_requested_intent_def result_simps)

lemma validate_requested_intent_lookup:
  "validate_requested_intent now a p c False = Inl e \<Longrightarrow> validate_requested_intent now a p c True = Inl e"
  by (cases a; cases p) (auto simp: validate_requested_intent_def result_simps)

text \<open>
  What the code relies on of the \<open>url\<close> crate: a setter that succeeds changes the component it names and leaves
  the scheme and the credentials it does not name alone. The scheme is only ever set to \<open>http\<close> or \<open>https\<close>, in lower
  case, and for these two the scheme of the result is the one that was passed; nothing is asked of other
  strings.
\<close>

definition url_laws :: "'u url_ops \<Rightarrow> bool" where
  "url_laws ops \<longleftrightarrow>
     (\<forall>u s v. s \<in> {lit ''http'', lit ''https''} \<and> url_set_scheme ops u s = Some v \<longrightarrow>
        url_scheme ops v = s \<and> url_username ops v = url_username ops u \<and>
        url_password ops v = url_password ops u) \<and>
     (\<forall>u h v. url_set_host ops u h = Some v \<longrightarrow>
        url_scheme ops v = url_scheme ops u \<and> url_username ops v = url_username ops u \<and>
        url_password ops v = url_password ops u) \<and>
     (\<forall>u v. url_clear_port ops u = Some v \<longrightarrow>
        url_scheme ops v = url_scheme ops u \<and> url_username ops v = url_username ops u \<and>
        url_password ops v = url_password ops u) \<and>
     (\<forall>u. url_scheme ops (url_clear_fragment ops u) = url_scheme ops u \<and>
          url_username ops (url_clear_fragment ops u) = url_username ops u \<and>
          url_password ops (url_clear_fragment ops u) = url_password ops u) \<and>
     (\<forall>u. url_scheme ops (url_clear_query ops u) = url_scheme ops u \<and>
          url_username ops (url_clear_query ops u) = url_username ops u \<and>
          url_password ops (url_clear_query ops u) = url_password ops u \<and>
          url_query_pairs ops (url_clear_query ops u) = []) \<and>
     (\<forall>u ps. url_scheme ops (url_replace_query ops u ps) = url_scheme ops u \<and>
          url_username ops (url_replace_query ops u ps) = url_username ops u \<and>
          url_password ops (url_replace_query ops u ps) = url_password ops u \<and>
          url_query_pairs ops (url_replace_query ops u ps) = ps)"

lemma drop_tracking_pairs:
  assumes "url_laws ops"
  shows "url_query_pairs ops (drop_tracking ops u)
           = filter (\<lambda>(name, _). \<not> is_tracking_parameter name) (url_query_pairs ops u)"
proof (cases "length (filter (\<lambda>(name, _). \<not> is_tracking_parameter name) (url_query_pairs ops u))
    = length (url_query_pairs ops u)")
  case True
  then have "filter (\<lambda>(name, _). \<not> is_tracking_parameter name) (url_query_pairs ops u) = url_query_pairs ops u"
    by (metis filter_id_conv length_filter_less less_irrefl)
  then show ?thesis by (simp add: drop_tracking_def)
next
  case False
  then show ?thesis using assms by (simp add: drop_tracking_def Let_def url_laws_def)
qed

lemma drop_tracking_rest:
  assumes "url_laws ops"
  shows "url_scheme ops (drop_tracking ops u) = url_scheme ops u"
    "url_username ops (drop_tracking ops u) = url_username ops u"
    "url_password ops (drop_tracking ops u) = url_password ops u"
  using assms by (simp_all add: drop_tracking_def Let_def url_laws_def)

definition safe_origin :: "'u url_ops \<Rightarrow> 'u \<Rightarrow> bool" where
  "safe_origin ops u \<longleftrightarrow>
     url_scheme ops u \<in> {lit ''http'', lit ''https''} \<and> url_username ops u = [] \<and> url_password ops u = None"

lemma lower_host_safe:
  "url_laws ops \<Longrightarrow> safe_origin ops u \<Longrightarrow> lower_host ops field u = Inr v \<Longrightarrow> safe_origin ops v"
  unfolding lower_host_def safe_origin_def url_laws_def
  by (auto simp: result_simps split: option.splits if_splits)

lemma drop_default_port_safe:
  "url_laws ops \<Longrightarrow> safe_origin ops u \<Longrightarrow> drop_default_port ops field sch u = Inr v \<Longrightarrow> safe_origin ops v"
  unfolding drop_default_port_def safe_origin_def url_laws_def
  by (auto simp: result_simps split: if_splits)

lemma normalized_url_safe:
  assumes laws: "url_laws ops" and ok: "normalized_url ops input field = Inr u"
  shows "safe_origin ops u \<and> list_all (\<lambda>(name, _). \<not> is_tracking_parameter name) (url_query_pairs ops u)"
proof -
  from ok obtain parsed v w x where
    p: "\<not> to_ascii_lowercase (url_scheme ops parsed) \<notin> {lit ''http'', lit ''https''}"
      "\<not> (url_username ops parsed \<noteq> [] \<or> url_password ops parsed \<noteq> None)"
    and v: "lower_scheme ops field (to_ascii_lowercase (url_scheme ops parsed)) parsed = Inr v"
    and w: "lower_host ops field v = Inr w"
    and x: "drop_default_port ops field (to_ascii_lowercase (url_scheme ops parsed)) w = Inr x"
    and u: "Inr (drop_tracking ops (url_clear_fragment ops x)) = (Inr u :: ingest_validation_error + 'a)"
    unfolding normalized_url_def Let_def result_simps by (elim exE conjE) (rule that)
  have "safe_origin ops v"
    using p v laws by (auto simp: lower_scheme_def safe_origin_def url_laws_def result_simps split: if_splits)
  from lower_host_safe [OF laws this w] have "safe_origin ops w" .
  from drop_default_port_safe [OF laws this x] have "safe_origin ops x" .
  then show ?thesis
    using laws u by (auto simp: safe_origin_def drop_tracking_rest drop_tracking_pairs url_laws_def list_all_iff)
qed

section \<open>Properties\<close>

text \<open>(C37) The ingest state machine: a terminal ingest is never changed by any sequence of
  transitions, every other ingest has a sequence of allowed transitions to \<open>Completed\<close>, and
  \<open>Completed\<close> is entered from \<open>Storing\<close> and \<open>Fingerprinting\<close> only.\<close>

theorem ingest_state_machine:
  "(ingest_is_terminal (ing_status i) \<longrightarrow> (\<forall>ts j. run_transitions i ts = Inr j \<longrightarrow> j = i)) \<and>
   (\<not> ingest_is_terminal (ing_status i) \<longrightarrow>
      (\<exists>ts. run_transitions i ts = Inr (i\<lparr>ing_status := IngestCompleted\<rparr>))) \<and>
   (\<forall>j. transition_to i IngestCompleted = Inr j \<longrightarrow>
      ing_status i \<in> {IngestCompleted, Storing, Fingerprinting})"
  using run_from_terminal [of i] run_completion_route [of i]
  by (auto simp: transition_to_Inr can_transition_to_def pipeline_edges_def)

definition witness_ingest :: "ingest_status \<Rightarrow> ingest" where
  "witness_ingest s =
     \<lparr>ing_id = 1, ing_workspace_id = 1, ing_kind = UrlIngest, ing_status = s, ing_submitted_via = Api,
      ing_original_input = JNull, ing_source_url = lit ''https://example.org/a.mp4'', ing_page_url = None,
      ing_page_title = None, ing_supplied_caption = None, ing_supplied_description = None,
      ing_supplied_tags = [], ing_requested_action = SaveAction, ing_requested_publish_at = None,
      ing_requested_post_caption = None, ing_requested_channel_id = None, ing_idempotency_key = None,
      ing_media_id = None, ing_force_save = False, ing_duplicate_evidence = None, ing_error_code = None,
      ing_error_message = None, ing_created_at = 0, ing_updated_at = 0, ing_completed_at = None\<rparr>"

theorem ingest_state_machine_witness:
  "(\<nexists>ts j. run_transitions (witness_ingest IngestCancelled) ts = Inr j \<and> j \<noteq> witness_ingest IngestCancelled) \<and>
   (\<exists>ts. run_transitions (witness_ingest Received) ts
        = Inr ((witness_ingest Received)\<lparr>ing_status := IngestCompleted\<rparr>))"
  using ingest_state_machine [of "witness_ingest IngestCancelled"]
    ingest_state_machine [of "witness_ingest Received"]
  by (simp add: witness_ingest_def ingest_is_terminal_def)

text \<open>Every accepted submission is well formed: a save has neither a publication time nor a
  public caption, a post-now has no time, captions are bounded and free of control characters,
  tags are lower-case, trimmed, non-empty and distinct, the idempotency key has 1 to 255
  characters and optional texts are trimmed and non-empty.\<close>

theorem submission_well_formed:
  assumes "try_new_inner ops rfc3339 now input enforce = Inr s"
  shows "valid_submission s \<and> sub_kind s = UrlIngest \<and>
         set (sub_supplied_tags s) = (\<lambda>t. to_ascii_lowercase (trim t)) ` set (in_supplied_tags input) \<and>
         (enforce \<and> sub_requested_action s = QueueAction \<longrightarrow>
            (\<forall>at. sub_requested_publish_at s = Some at \<longrightarrow> now < at))"
proof -
  have v: "valid_submission s" using assms by (rule try_new_inner_valid)
  have k: "sub_kind s = UrlIngest" using assms by (auto simp: try_new_inner_def Let_def result_simps)
  have t: "collect_tags (in_supplied_tags input) [] = Inr (sub_supplied_tags s)"
    using assms by (auto simp: try_new_inner_def Let_def result_simps)
  have f: "enforce \<and> sub_requested_action s = QueueAction \<longrightarrow>
      (\<forall>at. sub_requested_publish_at s = Some at \<longrightarrow> now < at)"
    using assms by (auto simp: try_new_inner_def Let_def result_simps validate_requested_intent_iff)
  from v k f collect_tags_canonical [OF t] show ?thesis by simp
qed

record simple_url =
  su_scheme :: ustring
  su_host :: ustring
  su_pairs :: "(ustring \<times> ustring) list"

definition simple_url_ops :: "simple_url url_ops" where
  "simple_url_ops =
     \<lparr>url_parse = (\<lambda>s. Some \<lparr>su_scheme = lit ''https'', su_host = s, su_pairs = [(lit ''utm_source'', s)]\<rparr>),
      url_scheme = su_scheme, url_host_str = (\<lambda>u. Some (su_host u)), url_username = (\<lambda>_. []),
      url_password = (\<lambda>_. None), url_port = (\<lambda>_. None),
      url_set_scheme = (\<lambda>u s. Some (u\<lparr>su_scheme := s\<rparr>)), url_set_host = (\<lambda>u h. Some (u\<lparr>su_host := h\<rparr>)),
      url_clear_port = Some, url_clear_fragment = (\<lambda>u. u), url_query_pairs = su_pairs,
      url_clear_query = (\<lambda>u. u\<lparr>su_pairs := []\<rparr>), url_replace_query = (\<lambda>u ps. u\<lparr>su_pairs := ps\<rparr>),
      url_to_string = su_host\<rparr>"

definition witness_input :: ingest_submission_input where
  "witness_input = (submission_input_new (lit ''a'') Api)\<lparr>in_supplied_tags := [lit ''B'', lit ''b'']\<rparr>"

lemma trim_singleton [simp]: "\<not> is_whitespace c \<Longrightarrow> trim [c] = [c]"
  by (rule trim_trimmed) (simp add: trimmed_def)

lemma witness_submission:
  "\<exists>s. try_new_inner simple_url_ops (\<lambda>_. []) 0 witness_input enforce = Inr s \<and>
       sub_supplied_tags s = [lit ''b'']"
  by (simp add: witness_input_def submission_input_new_def simple_url_ops_def try_new_inner_def Let_def
      normalize_url_def normalized_url_def lower_scheme_def lower_host_def drop_default_port_def drop_tracking_def
      validate_requested_intent_def validate_requested_caption_def lit_def to_ascii_lowercase_def
      to_ascii_lower_def is_whitespace_def)

theorem submission_well_formed_witness:
  "\<exists>s. try_new_inner simple_url_ops (\<lambda>_. []) 0 witness_input True = Inr s \<and> valid_submission s"
  using witness_submission [of True] submission_well_formed [of simple_url_ops "\<lambda>_. []" 0 witness_input True]
  by blast

text \<open>Idempotent replay: the constructor used before the idempotency lookup accepts whatever
  the strict one accepts, with the same submission, and a request the lookup accepts can fail the
  strict one only because its publication time has passed.\<close>

theorem idempotency_lookup_agrees:
  "(try_new ops rfc3339 now input = Inr s \<longrightarrow>
      try_new_for_idempotency_lookup ops rfc3339 now input = Inr s) \<and>
   (try_new_for_idempotency_lookup ops rfc3339 now input = Inr s \<longrightarrow>
      try_new ops rfc3339 now input \<in> {Inr s, Inl RequestedPublishAtNotFuture})"
proof -
  let ?i = "validate_requested_intent now (in_requested_action input) (in_requested_publish_at input)
      (normalize_optional_text (in_requested_post_caption input))"
  have "?i True = ?i False \<or> (?i False = Inr () \<and> ?i True = Inl RequestedPublishAtNotFuture)"
    using validate_requested_intent_enforce validate_requested_intent_lookup
    by (cases "?i False") auto
  then show ?thesis
    by (auto simp: try_new_def try_new_for_idempotency_lookup_def try_new_inner_def Let_def result_simps)
qed

theorem idempotency_lookup_agrees_witness:
  "\<exists>s. try_new_for_idempotency_lookup simple_url_ops (\<lambda>_. []) 0 witness_input = Inr s \<and>
       try_new simple_url_ops (\<lambda>_. []) 0 witness_input \<in> {Inr s, Inl RequestedPublishAtNotFuture}"
  using witness_submission [of False]
    idempotency_lookup_agrees [of simple_url_ops "\<lambda>_. []" 0 witness_input]
  by (auto simp: try_new_for_idempotency_lookup_def)

text \<open>URL normalisation: given the documented behaviour of the setters, an accepted URL is
  http or https, carries no credentials and has no tracking parameter left in its query.\<close>

theorem normalize_url_safe:
  assumes "url_laws ops" and "normalize_url ops input field = Inr res"
  shows "\<exists>u. res = url_to_string ops u \<and> url_scheme ops u \<in> {lit ''http'', lit ''https''} \<and>
             url_username ops u = [] \<and> url_password ops u = None \<and>
             list_all (\<lambda>(name, _). \<not> is_tracking_parameter name) (url_query_pairs ops u)"
  using assms normalized_url_safe [OF assms(1)]
  by (fastforce simp: normalize_url_def result_simps safe_origin_def)

theorem normalize_url_safe_witness:
  "\<exists>res. normalize_url simple_url_ops (lit ''a'') (lit ''source URL'') = Inr res \<and>
     (\<exists>u. res = url_to_string simple_url_ops u \<and>
          list_all (\<lambda>(name, _). \<not> is_tracking_parameter name) (url_query_pairs simple_url_ops u))"
proof -
  have laws: "url_laws simple_url_ops" by (auto simp: url_laws_def simple_url_ops_def)
  obtain res where "normalize_url simple_url_ops (lit ''a'') (lit ''source URL'') = Inr res"
    using witness_submission [of True]
    by (auto simp: try_new_inner_def Let_def result_simps witness_input_def submission_input_new_def
        lit_def is_whitespace_def)
  with normalize_url_safe [OF laws] show ?thesis by blast
qed

end
