(* ===== verification/Ingest_Data.thy ===== *)
theory Ingest_Data
  imports Inbox
begin

text \<open>
  The versioned ingest envelope of \<open>crates/inbox/src/lib.rs\<close>: the typed source and stage data of an
  ingest, its decoding from the current and from the pre-envelope form, its encoding, what a probe
  says about the media kind, and the construction of ingests and Telegram submissions. The derived
  serializers of \<open>serde\<close> are the record \<open>ingest_codec\<close>; an error of theirs is its text.
\<close>

section \<open>Stage data\<close>

definition INGEST_DATA_VERSION :: u16 where
  "INGEST_DATA_VERSION = 1"

definition MAX_INGEST_DATA_BYTES :: nat where
  "MAX_INGEST_DATA_BYTES = 256 * 1024"

definition DUPLICATE_DECISION_MARKER_KEY :: ustring where
  "DUPLICATE_DECISION_MARKER_KEY = lit ''_sooqa_duplicate_decision_v1''"

definition DUPLICATE_DECISION_VERSION :: u8 where
  "DUPLICATE_DECISION_VERSION = 1"

text \<open>An ordered map from names to opaque values.\<close>

type_synonym ingest_extensions = "(ustring \<times> json) list"

record ingest_source_data =
  sd_url :: "ustring option"
  sd_page_url :: "ustring option"
  sd_page_title :: "ustring option"
  sd_selected_text :: "ustring option"
  sd_description :: "ustring option"
  sd_tags :: "ustring list"
  sd_requested_action :: "requested_action option"
  sd_requested_publish_at :: "ustring option"
  sd_requested_post_caption :: "ustring option"
  sd_source_type :: "ustring option"
  sd_telegram_update_id :: "int option"
  sd_telegram_chat_id :: "int option"
  sd_telegram_message_id :: "int option"
  sd_telegram_user_id :: "int option"
  sd_telegram_file_id :: "ustring option"
  sd_telegram_file_unique_id :: "ustring option"
  sd_telegram_workspace_id :: "ustring option"
  sd_file_size :: "u64 option"
  sd_mime_type :: "ustring option"
  sd_file_name :: "ustring option"
  sd_media_kind :: "source_media_kind option"
  sd_extensions :: ingest_extensions

record source_download =
  dl_bytes :: u64
  dl_mime_type :: "ustring option"
  dl_media_kind :: source_media_kind
  dl_selected_format :: "ustring option"

record asset_thumbnail_normalization =
  th_local_work_path :: ustring
  th_file_size_bytes :: u64
  th_sha256 :: ustring
  th_mime_type :: "ustring option"
  th_width :: "u32 option"
  th_height :: "u32 option"

record asset_normalization =
  no_local_work_path :: ustring
  no_file_size_bytes :: u64
  no_sha256 :: ustring
  no_media_kind :: source_media_kind
  no_profile_version :: "ustring option"
  no_mime_type :: "ustring option"
  no_container :: "ustring option"
  no_video_codec :: "ustring option"
  no_audio_codec :: "ustring option"
  no_width :: "u32 option"
  no_height :: "u32 option"
  no_duration_ms :: "u64 option"
  no_bit_rate :: "u64 option"
  no_thumbnail :: "asset_thumbnail_normalization option"

record ingest_finalization =
  fi_media_id :: uuid

datatype duplicate_decision_kind = DecisionAccepted

record duplicate_decision_data =
  dd_version :: u8
  dd_kind :: duplicate_decision_kind
  dd_media_id :: uuid

text \<open>A probe is the opaque JSON of the media boundary.\<close>

type_synonym ingest_probe = json

record ingest_data =
  id_version :: u16
  id_source :: ingest_source_data
  id_inspection :: "source_inspection option"
  id_download :: "source_download option"
  id_probe :: "ingest_probe option"
  id_probed_media_kind :: "source_media_kind option"
  id_normalization :: "asset_normalization option"
  id_finalization :: "ingest_finalization option"
  id_duplicate_decision :: "duplicate_decision_data option"
  id_extensions :: ingest_extensions

datatype ingest_data_error =
    NotAnObject
  | InvalidVersion
  | UnsupportedVersion nat
  | Malformed ustring
  | TooLarge nat

text \<open>The derived \<open>Serialize\<close> and \<open>Deserialize\<close> of these types, and \<open>serde_json::to_vec(value).len()\<close>.\<close>

record ingest_codec =
  ic_to_value :: "ingest_data \<Rightarrow> ustring + json"
  ic_from_value :: "json \<Rightarrow> ustring + ingest_data"
  ic_source :: "json \<Rightarrow> ustring + ingest_source_data"
  ic_inspection :: "json \<Rightarrow> ustring + source_inspection"
  ic_download :: "json \<Rightarrow> ustring + source_download"
  ic_media_kind :: "json \<Rightarrow> ustring + source_media_kind"
  ic_normalization :: "json \<Rightarrow> ustring + asset_normalization"
  ic_finalization :: "json \<Rightarrow> ustring + ingest_finalization"
  ic_duplicate_decision :: "json \<Rightarrow> ustring + duplicate_decision_data"
  ic_length :: "json \<Rightarrow> nat"

section \<open>Values\<close>

text \<open>\<open>Value::as_object\<close>, \<open>as_array\<close>, \<open>as_bool\<close> and \<open>as_u64\<close>.\<close>

fun json_as_object :: "json \<Rightarrow> (ustring \<times> json) list option" where
  "json_as_object (JObj members) = Some members"
| "json_as_object _ = None"

fun json_as_array :: "json \<Rightarrow> json list option" where
  "json_as_array (JArr items) = Some items"
| "json_as_array _ = None"

fun json_as_bool :: "json \<Rightarrow> bool option" where
  "json_as_bool (JBool b) = Some b"
| "json_as_bool _ = None"

fun json_as_u64 :: "json \<Rightarrow> nat option" where
  "json_as_u64 (JInt n) = (if 0 \<le> n \<and> n < 2 ^ 64 then Some (nat n) else None)"
| "json_as_u64 _ = None"

definition json_remove :: "ustring list \<Rightarrow> (ustring \<times> json) list \<Rightarrow> (ustring \<times> json) list" where
  "json_remove keys members = filter (\<lambda>(k, _). k \<notin> set keys) members"

section \<open>The envelope\<close>

definition envelope_keys :: "ustring list" where
  "envelope_keys =
     [lit ''version'', lit ''source'', lit ''inspection'', lit ''download'', lit ''probe'',
      lit ''probed_media_kind'', lit ''normalization'', lit ''finalization'', DUPLICATE_DECISION_MARKER_KEY]"

definition is_envelope_key :: "ustring \<Rightarrow> bool" where
  "is_envelope_key key \<longleftrightarrow> key \<in> set envelope_keys"

definition source_keys :: "ustring list" where
  "source_keys =
     [lit ''url'', lit ''page_url'', lit ''page_title'', lit ''selected_text'', lit ''description'', lit ''tags'',
      lit ''requested_action'', lit ''requested_publish_at'', lit ''requested_post_caption'', lit ''source_type'',
      lit ''telegram_update_id'', lit ''telegram_chat_id'', lit ''telegram_message_id'', lit ''telegram_user_id'',
      lit ''telegram_file_id'', lit ''telegram_file_unique_id'', lit ''telegram_workspace_id'', lit ''file_size'',
      lit ''mime_type'', lit ''file_name'', lit ''media_kind'']"

definition validate_extensions :: "ingest_extensions \<Rightarrow> ustring \<Rightarrow> ingest_data_error + unit" where
  "validate_extensions extensions scope =
     (case find (\<lambda>key. if scope = lit ''source'' then key \<in> set source_keys else is_envelope_key key)
             (map fst extensions) of
        Some key \<Rightarrow> Inl (Malformed (scope @ lit '' extension uses reserved key `'' @ key @ lit ''`''))
      | None \<Rightarrow> Inr ())"

definition ingest_data_new :: "ingest_source_data \<Rightarrow> ingest_data" where
  "ingest_data_new source =
     \<lparr>id_version = INGEST_DATA_VERSION, id_source = source, id_inspection = None, id_download = None,
      id_probe = None, id_probed_media_kind = None, id_normalization = None, id_finalization = None,
      id_duplicate_decision = None, id_extensions = []\<rparr>"

definition validate_ref :: "ingest_data \<Rightarrow> ingest_data_error + unit" where
  "validate_ref d =
     (if id_version d \<noteq> INGEST_DATA_VERSION then Inl (UnsupportedVersion (unat (id_version d)))
      else rbind (validate_extensions (sd_extensions (id_source d)) (lit ''source'')) (\<lambda>_.
           rbind (validate_extensions (id_extensions d) (lit ''envelope'')) (\<lambda>_.
           rbind (case id_duplicate_decision d of
                    None \<Rightarrow> Inr ()
                  | Some decision \<Rightarrow>
                      if dd_version decision \<noteq> DUPLICATE_DECISION_VERSION
                      then Inl (Malformed (lit ''duplicate decision marker version '' @
                                  nat_text (unat (dd_version decision)) @ lit '' is not supported''))
                      else Inr ()) (\<lambda>_.
             if pred_option (\<lambda>p. json_as_object p \<noteq> None) (id_probe d) then Inr ()
             else Inl (Malformed (lit ''probe must be a JSON object''))))))"

definition data_validate :: "ingest_data \<Rightarrow> ingest_data_error + ingest_data" where
  "data_validate d = rbind (validate_ref d) (\<lambda>_. Inr d)"

definition data_encode :: "ingest_codec \<Rightarrow> ingest_data \<Rightarrow> ingest_data_error + json" where
  "data_encode codec d =
     rbind (validate_ref d) (\<lambda>_.
     rbind (map_err Malformed (ic_to_value codec d)) (\<lambda>v.
       if ic_length codec v > MAX_INGEST_DATA_BYTES then Inl (TooLarge MAX_INGEST_DATA_BYTES) else Inr v))"

text \<open>An optional stage of the pre-envelope form.\<close>

definition decode_optional_stage ::
  "(json \<Rightarrow> ustring + 'a) \<Rightarrow> (ustring \<times> json) list \<Rightarrow> ustring \<Rightarrow> ingest_data_error + 'a option" where
  "decode_optional_stage from_value members key =
     (case map_of members key of
        None \<Rightarrow> Inr None
      | Some v \<Rightarrow> map_ok Some (map_err (\<lambda>e. Malformed (key @ lit '': '' @ e)) (from_value v)))"

definition legacy_inspection :: "ingest_codec \<Rightarrow> (ustring \<times> json) list \<Rightarrow> ingest_source_data \<Rightarrow> source_inspection" where
  "legacy_inspection codec members source =
     (let get = (\<lambda>key. Option.bind (map_of members key) json_as_str) in
      \<lparr>adapter = unwrap_or (get (lit ''adapter'')) (lit ''legacy''),
       si_source_url = unwrap_or (or_else (get (lit ''source_url'')) (sd_url source)) [],
       resolved_url = get (lit ''resolved_url''),
       si_media_kind = (case map_of members (lit ''media_kind'') of
                          None \<Rightarrow> SourceUnknown
                        | Some v \<Rightarrow> (case ic_media_kind codec v of Inl _ \<Rightarrow> SourceUnknown | Inr k \<Rightarrow> k)),
       si_mime_type = get (lit ''mime_type''),
       content_length_bytes = map_option of_nat (Option.bind (map_of members (lit ''content_length_bytes'')) json_as_u64),
       si_title = get (lit ''title''),
       si_metadata = unwrap_or (map_of members (lit ''metadata'')) (JObj [])\<rparr>)"

definition decode_legacy_inspection ::
  "ingest_codec \<Rightarrow> json \<Rightarrow> ingest_source_data \<Rightarrow> ingest_data_error + source_inspection" where
  "decode_legacy_inspection codec v source =
     (case ic_inspection codec v of
        Inr inspection \<Rightarrow> Inr inspection
      | Inl e \<Rightarrow>
          (case json_as_object v of
             Some members \<Rightarrow>
               if contains (lit ''missing field'') e then Inr (legacy_inspection codec members source)
               else Inl (Malformed (lit ''inspection: '' @ e))
           | None \<Rightarrow> Inl (Malformed (lit ''inspection: '' @ e))))"

text \<open>The source object, the stage members and whether the source was a member of its own.\<close>

definition legacy_parts ::
  "(ustring \<times> json) list \<Rightarrow> ingest_data_error + (ustring \<times> json) list \<times> (ustring \<times> json) list \<times> bool" where
  "legacy_parts members =
     (case map_of members (lit ''source'') of
        Some source \<Rightarrow>
          (let stages = json_remove [lit ''source''] members in
           case source of
             JObj source \<Rightarrow> Inr (source, stages, True)
           | JStr url \<Rightarrow> Inr ([(lit ''url'', JStr url)], stages, True)
           | _ \<Rightarrow> Inl (Malformed (lit ''legacy source field must be an object or URL string'')))
      | None \<Rightarrow>
          Inr (json_remove [lit ''inspection'', lit ''download'', lit ''probe'', lit ''probed_media_kind'',
                            lit ''normalization'', lit ''finalization'', DUPLICATE_DECISION_MARKER_KEY] members,
               members, False))"

definition decode_legacy :: "ingest_codec \<Rightarrow> (ustring \<times> json) list \<Rightarrow> ingest_data_error + ingest_data" where
  "decode_legacy codec members =
     rbind (legacy_parts members) (\<lambda>(source_value, stages, wrapped_source).
     rbind (map_err (\<lambda>e. Malformed (lit ''legacy source: '' @ e)) (ic_source codec (JObj source_value))) (\<lambda>source.
     rbind (case map_of stages (lit ''inspection'') of
              None \<Rightarrow> Inr None
            | Some v \<Rightarrow> map_ok Some (decode_legacy_inspection codec v source)) (\<lambda>inspection.
     rbind (decode_optional_stage (ic_download codec) stages (lit ''download'')) (\<lambda>download.
     rbind (decode_optional_stage Inr stages (lit ''probe'')) (\<lambda>probe.
     rbind (decode_optional_stage (ic_media_kind codec) stages (lit ''probed_media_kind'')) (\<lambda>probed_media_kind.
     rbind (decode_optional_stage (ic_normalization codec) stages (lit ''normalization'')) (\<lambda>normalization.
     rbind (decode_optional_stage (ic_finalization codec) stages (lit ''finalization'')) (\<lambda>finalization.
     rbind (decode_optional_stage (ic_duplicate_decision codec) stages DUPLICATE_DECISION_MARKER_KEY) (\<lambda>decision.
       data_validate
         ((ingest_data_new source)
           \<lparr>id_inspection := inspection, id_download := download, id_probe := probe,
            id_probed_media_kind := probed_media_kind, id_normalization := normalization,
            id_finalization := finalization, id_duplicate_decision := decision,
            id_extensions := (if wrapped_source then filter (\<lambda>(k, _). \<not> is_envelope_key k) stages else [])\<rparr>))))))))))"

definition envelope_error_field :: "(ustring \<times> json) list \<Rightarrow> ustring" where
  "envelope_error_field members =
     (if map_of members (lit ''inspection'') \<noteq> None then lit '' inspection''
      else if map_of members DUPLICATE_DECISION_MARKER_KEY \<noteq> None then lit '' duplicate decision''
      else [])"

definition data_decode :: "ingest_codec \<Rightarrow> json \<Rightarrow> ingest_data_error + ingest_data" where
  "data_decode codec v =
     (if ic_length codec v > MAX_INGEST_DATA_BYTES then Inl (TooLarge MAX_INGEST_DATA_BYTES)
      else rbind (ok_or (json_as_object v) NotAnObject) (\<lambda>members.
        case map_of members (lit ''version'') of
          Some version \<Rightarrow>
            rbind (ok_or (json_as_u64 version) InvalidVersion) (\<lambda>version.
              if version \<noteq> unat INGEST_DATA_VERSION then Inl (UnsupportedVersion version)
              else rbind (map_err (\<lambda>e. Malformed (lit ''versioned envelope'' @ envelope_error_field members @ lit '': '' @ e))
                            (ic_from_value codec v)) data_validate)
        | None \<Rightarrow> decode_legacy codec members))"

definition data_media_kind :: "ingest_data \<Rightarrow> source_media_kind option" where
  "data_media_kind d =
     or_else (id_probed_media_kind d)
       (or_else (map_option dl_media_kind (id_download d)) (sd_media_kind (id_source d)))"

definition data_mime_type :: "ingest_data \<Rightarrow> ustring option" where
  "data_mime_type d =
     or_else (Option.bind (id_download d) dl_mime_type) (sd_mime_type (id_source d))"

section \<open>Probes\<close>

definition is_playable_video_stream :: "json \<Rightarrow> bool" where
  "is_playable_video_stream stream \<longleftrightarrow>
     json_get_str (lit ''kind'') stream = Some (lit ''video'') \<and>
     Option.bind (json_get (lit ''attached_picture'') stream) json_as_bool \<noteq> Some True"

definition probe_streams :: "ingest_probe \<Rightarrow> json list option" where
  "probe_streams p = Option.bind (json_get (lit ''streams'') p) json_as_array"

definition probe_codecs :: "ingest_probe \<Rightarrow> ustring list" where
  "probe_codecs p =
     List.map_filter (json_get_str (lit ''codec''))
       (filter is_playable_video_stream (unwrap_or (probe_streams p) []))"

definition image_container_names :: "ustring list" where
  "image_container_names =
     [lit ''image2'', lit ''png'', lit ''jpeg'', lit ''jpg'', lit ''webp'', lit ''avif'', lit ''mjpeg'']"

definition probe_media_kind :: "ingest_probe \<Rightarrow> source_media_kind option" where
  "probe_media_kind p =
     (let container = map_option to_ascii_lowercase (json_get_str (lit ''container_format'') p);
          codecs = probe_codecs p;
          streams = unwrap_or (probe_streams p) [];
          is_gif = (case container of None \<Rightarrow> False | Some v \<Rightarrow> contains (lit ''gif'') v) \<or>
            list_ex (\<lambda>v. contains (lit ''gif'') (to_ascii_lowercase v)) codecs;
          is_image_container = (case container of
              None \<Rightarrow> False | Some v \<Rightarrow> list_ex (\<lambda>name. contains name v) image_container_names);
          is_image_codec =
            list_ex (\<lambda>v. eq_ignore_ascii_case v (lit ''png'') \<or> eq_ignore_ascii_case v (lit ''webp'')) codecs \<or>
            (container = None \<and> list_ex (\<lambda>v. eq_ignore_ascii_case v (lit ''mjpeg'')) codecs)
      in if is_gif then Some SourceAnimation
         else if is_image_container \<or> is_image_codec then Some SourceImage
         else if list_ex is_playable_video_stream streams then Some SourceVideo
         else if list_ex (\<lambda>stream. json_get_str (lit ''kind'') stream = Some (lit ''audio'')) streams
         then Some SourceAudio
         else None)"

definition probe_image_format :: "ingest_probe \<Rightarrow> ustring option" where
  "probe_image_format p =
     or_else (json_get_str (lit ''container_format'') p)
       (case probe_codecs p of [] \<Rightarrow> None | codec # _ \<Rightarrow> Some codec)"

section \<open>Ingests\<close>

definition ingest_from_submission ::
  "ingest_codec \<Rightarrow> timestamp \<Rightarrow> uuid \<Rightarrow> ingest_submission \<Rightarrow> ingest_data_error + ingest" where
  "ingest_from_submission codec now i sub =
     rbind (rbind (data_decode codec (sub_original_input sub)) (data_encode codec)) (\<lambda>original_input.
       Inr \<lparr>ing_id = i, ing_workspace_id = i, ing_kind = sub_kind sub, ing_status = Received,
            ing_submitted_via = sub_submitted_via sub, ing_original_input = original_input,
            ing_source_url = sub_normalized_url sub, ing_page_url = sub_page_url sub,
            ing_page_title = sub_page_title sub, ing_supplied_caption = sub_supplied_caption sub,
            ing_supplied_description = sub_supplied_description sub, ing_supplied_tags = sub_supplied_tags sub,
            ing_requested_action = sub_requested_action sub,
            ing_requested_publish_at = sub_requested_publish_at sub,
            ing_requested_post_caption = sub_requested_post_caption sub, ing_requested_channel_id = None,
            ing_idempotency_key = sub_idempotency_key sub, ing_media_id = None, ing_force_save = False,
            ing_duplicate_evidence = None, ing_error_code = None, ing_error_message = None,
            ing_created_at = now, ing_updated_at = now, ing_completed_at = None\<rparr>)"

definition input_data :: "ingest_codec \<Rightarrow> ingest \<Rightarrow> ingest_data_error + ingest_data" where
  "input_data codec i = data_decode codec (ing_original_input i)"

definition set_input_data :: "ingest_codec \<Rightarrow> ingest_data \<Rightarrow> ingest \<Rightarrow> ingest_data_error + ingest" where
  "set_input_data codec d i = map_ok (\<lambda>v. i\<lparr>ing_original_input := v\<rparr>) (data_encode codec d)"

fun ingest_data_error_text :: "ingest_data_error \<Rightarrow> ustring" where
  "ingest_data_error_text NotAnObject = lit ''ingest data must be a JSON object''"
| "ingest_data_error_text InvalidVersion = lit ''ingest data has an invalid version''"
| "ingest_data_error_text (UnsupportedVersion n) =
     lit ''ingest data version '' @ nat_text n @ lit '' is not supported''"
| "ingest_data_error_text (Malformed e) = lit ''ingest data is malformed: '' @ e"
| "ingest_data_error_text (TooLarge n) = lit ''ingest data exceeds the '' @ nat_text n @ lit ''-byte limit''"

record telegram_submission_input =
  tg_source_reference :: ustring
  tg_submitted_via :: submitted_via
  tg_original_input :: json
  tg_supplied_caption :: "ustring option"
  tg_idempotency_key :: "ustring option"

definition try_new_telegram ::
  "ingest_codec \<Rightarrow> telegram_submission_input \<Rightarrow> ingest_validation_error + ingest_submission" where
  "try_new_telegram codec input =
     (let source_reference = trim (tg_source_reference input) in
      if source_reference = [] then Inl (EmptyUrl (lit ''Telegram source reference''))
      else rbind (normalize_idempotency_key (tg_idempotency_key input)) (\<lambda>key.
           rbind (map_err (\<lambda>e. InvalidInputEnvelope (ingest_data_error_text e))
                    (data_decode codec (tg_original_input input))) (\<lambda>_.
             Inr \<lparr>sub_kind = TelegramMessageIngest, sub_submitted_via = tg_submitted_via input,
                  sub_original_url = source_reference, sub_normalized_url = source_reference,
                  sub_original_input = tg_original_input input, sub_page_url = None, sub_page_title = None,
                  sub_supplied_caption = normalize_optional_text (tg_supplied_caption input),
                  sub_supplied_description = None, sub_supplied_tags = [],
                  sub_requested_action = SaveAction, sub_requested_publish_at = None,
                  sub_requested_post_caption = None, sub_idempotency_key = key\<rparr>)))"

section \<open>The envelope round trip\<close>

text \<open>
  What the derived serializers promise: an envelope whose extension names do not clash with its
  fields becomes an object with the version among its members, and is read back from it.
\<close>

definition ingest_codec_laws :: "ingest_codec \<Rightarrow> bool" where
  "ingest_codec_laws codec \<longleftrightarrow>
     (\<forall>d. validate_ref d = Inr () \<longrightarrow>
        (\<exists>members. ic_to_value codec d = Inr (JObj members) \<and>
           map_of members (lit ''version'') = Some (JInt (uint (id_version d))) \<and>
           ic_from_value codec (JObj members) = Inr d))"

lemma data_validate_Inr [result_simps]: "data_validate d = Inr e \<longleftrightarrow> validate_ref d = Inr () \<and> e = d"
  by (auto simp: data_validate_def result_simps)

lemma validate_ref_version: "validate_ref d = Inr () \<Longrightarrow> id_version d = INGEST_DATA_VERSION"
  by (auto simp: validate_ref_def split: if_splits)

lemma decode_legacy_valid: "decode_legacy codec members = Inr d \<Longrightarrow> validate_ref d = Inr ()"
  by (auto simp: decode_legacy_def result_simps)

lemma data_decode_valid: "data_decode codec v = Inr d \<Longrightarrow> validate_ref d = Inr ()"
  by (auto simp: data_decode_def result_simps decode_legacy_valid split: if_splits option.splits)

lemma data_encode_valid: "data_encode codec d = Inr v \<Longrightarrow> validate_ref d = Inr ()"
  by (auto simp: data_encode_def result_simps)

lemma decode_encode:
  assumes laws: "ingest_codec_laws codec" and v: "data_encode codec d = Inr v"
  shows "data_decode codec v = Inr d"
proof -
  have valid: "validate_ref d = Inr ()" using v by (rule data_encode_valid)
  obtain members where m: "ic_to_value codec d = Inr (JObj members)"
    "map_of members (lit ''version'') = Some (JInt (uint (id_version d)))"
    "ic_from_value codec (JObj members) = Inr d"
    using laws valid unfolding ingest_codec_laws_def by blast
  have "v = JObj members" "\<not> ic_length codec v > MAX_INGEST_DATA_BYTES"
    using v valid m(1) by (auto simp: data_encode_def split: if_splits)
  moreover have "json_as_u64 (JInt (uint (id_version d))) = Some (unat INGEST_DATA_VERSION)"
    using validate_ref_version [OF valid] by (simp add: INGEST_DATA_VERSION_def)
  ultimately show ?thesis using m valid by (simp add: data_decode_def data_validate_def)
qed

text \<open>A decoded envelope can be encoded again unless it is too long.\<close>

lemma encode_decoded:
  assumes "ingest_codec_laws codec" and "data_decode codec v = Inr d"
  shows "(\<exists>w. data_encode codec d = Inr w) \<or> data_encode codec d = Inl (TooLarge MAX_INGEST_DATA_BYTES)"
proof -
  have "validate_ref d = Inr ()" using assms(2) by (rule data_decode_valid)
  then obtain members where "ic_to_value codec d = Inr (JObj members)"
    using assms(1) unfolding ingest_codec_laws_def by blast
  then show ?thesis using \<open>validate_ref d = Inr ()\<close> by (simp add: data_encode_def)
qed

text \<open>(C32) The envelope is canonical: whatever stored value decodes, in the current or in the
  pre-envelope form, its data is written back as a value that decodes to the same data and encodes
  to itself, unless it exceeds the size limit, which is the only error; and the data satisfies
  the envelope's own checks.\<close>

theorem envelope_canonical:
  assumes "ingest_codec_laws codec" and "data_decode codec v = Inr d"
  shows "validate_ref d = Inr () \<and>
    (case data_encode codec d of
       Inr w \<Rightarrow> data_decode codec w = Inr d \<and> rbind (data_decode codec w) (data_encode codec) = Inr w
     | Inl e \<Rightarrow> e = TooLarge MAX_INGEST_DATA_BYTES)"
  using encode_decoded [OF assms] decode_encode [OF assms(1)] data_decode_valid [OF assms(2)] by auto

subsection \<open>A codec\<close>

text \<open>A codec with these laws: fields in order, an option as a list of at most one item.\<close>

fun dec_str :: "json \<Rightarrow> ustring option" where
  "dec_str (JStr t) = Some t"
| "dec_str _ = None"

fun dec_int :: "json \<Rightarrow> int option" where
  "dec_int (JInt n) = Some n"
| "dec_int _ = None"

definition enc_word :: "'a::len word \<Rightarrow> json" where
  "enc_word w = JInt (uint w)"

definition dec_word :: "json \<Rightarrow> 'a::len word option" where
  "dec_word v = map_option of_int (dec_int v)"

definition enc_opt :: "('a \<Rightarrow> json) \<Rightarrow> 'a option \<Rightarrow> json" where
  "enc_opt enc x = (case x of None \<Rightarrow> JArr [] | Some y \<Rightarrow> JArr [enc y])"

definition dec_opt :: "(json \<Rightarrow> 'a option) \<Rightarrow> json \<Rightarrow> 'a option option" where
  "dec_opt dec v = (case v of JArr [] \<Rightarrow> Some None | JArr [w] \<Rightarrow> map_option Some (dec w) | _ \<Rightarrow> None)"

definition dec_ap :: "('a \<Rightarrow> 'b) option \<Rightarrow> 'a option \<Rightarrow> 'b option" where
  "dec_ap f x = Option.bind f (\<lambda>f. map_option f x)"

fun media_kind_code :: "source_media_kind \<Rightarrow> ustring" where
  "media_kind_code SourceVideo = lit ''video''"
| "media_kind_code SourceImage = lit ''image''"
| "media_kind_code SourceAudio = lit ''audio''"
| "media_kind_code SourceAnimation = lit ''animation''"
| "media_kind_code SourceUnknown = lit ''unknown''"

definition dec_media_kind :: "json \<Rightarrow> source_media_kind option" where
  "dec_media_kind v =
     Option.bind (dec_str v)
       (\<lambda>t. find (\<lambda>k. media_kind_code k = t) [SourceVideo, SourceImage, SourceAudio, SourceAnimation, SourceUnknown])"

definition dec_action :: "json \<Rightarrow> requested_action option" where
  "dec_action v = Option.bind (dec_str v) (\<lambda>t. case requested_action_try_from t of Inl _ \<Rightarrow> None | Inr a \<Rightarrow> Some a)"

definition dec_strs :: "json \<Rightarrow> ustring list option" where
  "dec_strs v = Option.bind (json_as_array v) (\<lambda>vs. those (map dec_str vs))"

lemma dec_word_enc [simp]: "dec_word (enc_word w) = Some w"
  by (simp add: dec_word_def enc_word_def)

lemma dec_opt_enc [simp]: "(\<And>y. dec (enc y) = Some y) \<Longrightarrow> dec_opt dec (enc_opt enc x) = Some x"
  by (cases x) (simp_all add: dec_opt_def enc_opt_def)

lemma dec_opt_id [simp]: "dec_opt Some (enc_opt (\<lambda>v. v) x) = Some x"
  by (cases x) (simp_all add: dec_opt_def enc_opt_def)

lemma dec_media_kind_enc [simp]: "dec_media_kind (JStr (media_kind_code k)) = Some k"
  by (cases k) (simp_all add: dec_media_kind_def)

lemma dec_action_enc [simp]: "dec_action (JStr (requested_action_as_str a)) = Some a"
  by (simp add: dec_action_def requested_action_enum.try_from_as_str)

lemma dec_strs_enc [simp]: "dec_strs (JArr (map JStr ts)) = Some ts"
  by (induction ts) (simp_all add: dec_strs_def)

definition enc_source :: "ingest_source_data \<Rightarrow> json" where
  "enc_source x = JArr [enc_opt JStr (sd_url x), enc_opt JStr (sd_page_url x), enc_opt JStr (sd_page_title x), enc_opt JStr (sd_selected_text x), enc_opt JStr (sd_description x), (\<lambda>ts. JArr (map JStr ts)) (sd_tags x), enc_opt (\<lambda>a. JStr (requested_action_as_str a)) (sd_requested_action x), enc_opt JStr (sd_requested_publish_at x), enc_opt JStr (sd_requested_post_caption x), enc_opt JStr (sd_source_type x), enc_opt JInt (sd_telegram_update_id x), enc_opt JInt (sd_telegram_chat_id x), enc_opt JInt (sd_telegram_message_id x), enc_opt JInt (sd_telegram_user_id x), enc_opt JStr (sd_telegram_file_id x), enc_opt JStr (sd_telegram_file_unique_id x), enc_opt JStr (sd_telegram_workspace_id x), enc_opt enc_word (sd_file_size x), enc_opt JStr (sd_mime_type x), enc_opt JStr (sd_file_name x), enc_opt (\<lambda>k. JStr (media_kind_code k)) (sd_media_kind x), JObj (sd_extensions x)]"

definition dec_source :: "json \<Rightarrow> ingest_source_data option" where
  "dec_source v = (case v of JArr [v0, v1, v2, v3, v4, v5, v6, v7, v8, v9, v10, v11, v12, v13, v14, v15, v16, v17, v18, v19, v20, v21] \<Rightarrow> dec_ap (dec_ap (dec_ap (dec_ap (dec_ap (dec_ap (dec_ap (dec_ap (dec_ap (dec_ap (dec_ap (dec_ap (dec_ap (dec_ap (dec_ap (dec_ap (dec_ap (dec_ap (dec_ap (dec_ap (dec_ap (dec_ap (Some ingest_source_data.make) (dec_opt dec_str v0)) (dec_opt dec_str v1)) (dec_opt dec_str v2)) (dec_opt dec_str v3)) (dec_opt dec_str v4)) (dec_strs v5)) (dec_opt dec_action v6)) (dec_opt dec_str v7)) (dec_opt dec_str v8)) (dec_opt dec_str v9)) (dec_opt dec_int v10)) (dec_opt dec_int v11)) (dec_opt dec_int v12)) (dec_opt dec_int v13)) (dec_opt dec_str v14)) (dec_opt dec_str v15)) (dec_opt dec_str v16)) (dec_opt dec_word v17)) (dec_opt dec_str v18)) (dec_opt dec_str v19)) (dec_opt dec_media_kind v20)) (json_as_object v21) | _ \<Rightarrow> None)"

lemma dec_enc_source [simp]: "dec_source (enc_source x) = Some x"
  by (simp add: dec_source_def enc_source_def dec_ap_def ingest_source_data.make_def)

definition enc_inspection :: "source_inspection \<Rightarrow> json" where
  "enc_inspection x = JArr [JStr (adapter x), JStr (si_source_url x), enc_opt JStr (resolved_url x), (\<lambda>k. JStr (media_kind_code k)) (si_media_kind x), enc_opt JStr (si_mime_type x), enc_opt enc_word (content_length_bytes x), enc_opt JStr (si_title x), si_metadata x]"

definition dec_inspection :: "json \<Rightarrow> source_inspection option" where
  "dec_inspection v = (case v of JArr [v0, v1, v2, v3, v4, v5, v6, v7] \<Rightarrow> dec_ap (dec_ap (dec_ap (dec_ap (dec_ap (dec_ap (dec_ap (dec_ap (Some source_inspection.make) (dec_str v0)) (dec_str v1)) (dec_opt dec_str v2)) (dec_media_kind v3)) (dec_opt dec_str v4)) (dec_opt dec_word v5)) (dec_opt dec_str v6)) (Some v7) | _ \<Rightarrow> None)"

lemma dec_enc_inspection [simp]: "dec_inspection (enc_inspection x) = Some x"
  by (simp add: dec_inspection_def enc_inspection_def dec_ap_def source_inspection.make_def)

definition enc_download :: "source_download \<Rightarrow> json" where
  "enc_download x = JArr [enc_word (dl_bytes x), enc_opt JStr (dl_mime_type x), (\<lambda>k. JStr (media_kind_code k)) (dl_media_kind x), enc_opt JStr (dl_selected_format x)]"

definition dec_download :: "json \<Rightarrow> source_download option" where
  "dec_download v = (case v of JArr [v0, v1, v2, v3] \<Rightarrow> dec_ap (dec_ap (dec_ap (dec_ap (Some source_download.make) (dec_word v0)) (dec_opt dec_str v1)) (dec_media_kind v2)) (dec_opt dec_str v3) | _ \<Rightarrow> None)"

lemma dec_enc_download [simp]: "dec_download (enc_download x) = Some x"
  by (simp add: dec_download_def enc_download_def dec_ap_def source_download.make_def)

definition enc_thumbnail :: "asset_thumbnail_normalization \<Rightarrow> json" where
  "enc_thumbnail x = JArr [JStr (th_local_work_path x), enc_word (th_file_size_bytes x), JStr (th_sha256 x), enc_opt JStr (th_mime_type x), enc_opt enc_word (th_width x), enc_opt enc_word (th_height x)]"

definition dec_thumbnail :: "json \<Rightarrow> asset_thumbnail_normalization option" where
  "dec_thumbnail v = (case v of JArr [v0, v1, v2, v3, v4, v5] \<Rightarrow> dec_ap (dec_ap (dec_ap (dec_ap (dec_ap (dec_ap (Some asset_thumbnail_normalization.make) (dec_str v0)) (dec_word v1)) (dec_str v2)) (dec_opt dec_str v3)) (dec_opt dec_word v4)) (dec_opt dec_word v5) | _ \<Rightarrow> None)"

lemma dec_enc_thumbnail [simp]: "dec_thumbnail (enc_thumbnail x) = Some x"
  by (simp add: dec_thumbnail_def enc_thumbnail_def dec_ap_def asset_thumbnail_normalization.make_def)

definition enc_normalization :: "asset_normalization \<Rightarrow> json" where
  "enc_normalization x = JArr [JStr (no_local_work_path x), enc_word (no_file_size_bytes x), JStr (no_sha256 x), (\<lambda>k. JStr (media_kind_code k)) (no_media_kind x), enc_opt JStr (no_profile_version x), enc_opt JStr (no_mime_type x), enc_opt JStr (no_container x), enc_opt JStr (no_video_codec x), enc_opt JStr (no_audio_codec x), enc_opt enc_word (no_width x), enc_opt enc_word (no_height x), enc_opt enc_word (no_duration_ms x), enc_opt enc_word (no_bit_rate x), enc_opt enc_thumbnail (no_thumbnail x)]"

definition dec_normalization :: "json \<Rightarrow> asset_normalization option" where
  "dec_normalization v = (case v of JArr [v0, v1, v2, v3, v4, v5, v6, v7, v8, v9, v10, v11, v12, v13] \<Rightarrow> dec_ap (dec_ap (dec_ap (dec_ap (dec_ap (dec_ap (dec_ap (dec_ap (dec_ap (dec_ap (dec_ap (dec_ap (dec_ap (dec_ap (Some asset_normalization.make) (dec_str v0)) (dec_word v1)) (dec_str v2)) (dec_media_kind v3)) (dec_opt dec_str v4)) (dec_opt dec_str v5)) (dec_opt dec_str v6)) (dec_opt dec_str v7)) (dec_opt dec_str v8)) (dec_opt dec_word v9)) (dec_opt dec_word v10)) (dec_opt dec_word v11)) (dec_opt dec_word v12)) (dec_opt dec_thumbnail v13) | _ \<Rightarrow> None)"

lemma dec_enc_normalization [simp]: "dec_normalization (enc_normalization x) = Some x"
  by (simp add: dec_normalization_def enc_normalization_def dec_ap_def asset_normalization.make_def)

definition enc_finalization :: "ingest_finalization \<Rightarrow> json" where
  "enc_finalization x = JArr [enc_word (fi_media_id x)]"

definition dec_finalization :: "json \<Rightarrow> ingest_finalization option" where
  "dec_finalization v = (case v of JArr [v0] \<Rightarrow> dec_ap (Some ingest_finalization.make) (dec_word v0) | _ \<Rightarrow> None)"

lemma dec_enc_finalization [simp]: "dec_finalization (enc_finalization x) = Some x"
  by (simp add: dec_finalization_def enc_finalization_def dec_ap_def ingest_finalization.make_def)

definition enc_decision :: "duplicate_decision_data \<Rightarrow> json" where
  "enc_decision x = JArr [enc_word (dd_version x), enc_word (dd_media_id x)]"

definition dec_decision :: "json \<Rightarrow> duplicate_decision_data option" where
  "dec_decision v =
     (case v of JArr [v0, v1] \<Rightarrow>
        dec_ap (dec_ap (Some (\<lambda>version media_id. duplicate_decision_data.make version DecisionAccepted media_id)) (dec_word v0)) (dec_word v1)
      | _ \<Rightarrow> None)"

lemma dec_enc_decision [simp]: "dec_decision (enc_decision x) = Some x"
  by (cases "dd_kind x", cases x) (simp add: dec_decision_def enc_decision_def dec_ap_def duplicate_decision_data.make_def)

definition enc_data :: "ingest_data \<Rightarrow> json" where
  "enc_data x = JArr [enc_word (id_version x), enc_source (id_source x), enc_opt enc_inspection (id_inspection x), enc_opt enc_download (id_download x), enc_opt (\<lambda>v. v) (id_probe x), enc_opt (\<lambda>k. JStr (media_kind_code k)) (id_probed_media_kind x), enc_opt enc_normalization (id_normalization x), enc_opt enc_finalization (id_finalization x), enc_opt enc_decision (id_duplicate_decision x), JObj (id_extensions x)]"

definition dec_data :: "json \<Rightarrow> ingest_data option" where
  "dec_data v = (case v of JArr [v0, v1, v2, v3, v4, v5, v6, v7, v8, v9] \<Rightarrow> dec_ap (dec_ap (dec_ap (dec_ap (dec_ap (dec_ap (dec_ap (dec_ap (dec_ap (dec_ap (Some ingest_data.make) (dec_word v0)) (dec_source v1)) (dec_opt dec_inspection v2)) (dec_opt dec_download v3)) (dec_opt Some v4)) (dec_opt dec_media_kind v5)) (dec_opt dec_normalization v6)) (dec_opt dec_finalization v7)) (dec_opt dec_decision v8)) (json_as_object v9) | _ \<Rightarrow> None)"

lemma dec_enc_data [simp]: "dec_data (enc_data x) = Some x"
  by (simp add: dec_data_def enc_data_def dec_ap_def ingest_data.make_def)

definition or_text :: "'a option \<Rightarrow> ustring + 'a" where
  "or_text x = (case x of None \<Rightarrow> Inl (lit ''invalid value'') | Some y \<Rightarrow> Inr y)"

lemma or_text_Some [simp]: "or_text (Some x) = Inr x"
  by (simp add: or_text_def)

definition plain_source :: "json \<Rightarrow> ingest_source_data option" where
  "plain_source v =
     Some \<lparr>sd_url = json_get_str (lit ''url'') v, sd_page_url = None, sd_page_title = None, sd_selected_text = None,
           sd_description = None, sd_tags = [], sd_requested_action = None, sd_requested_publish_at = None,
           sd_requested_post_caption = None, sd_source_type = None, sd_telegram_update_id = None,
           sd_telegram_chat_id = None, sd_telegram_message_id = None, sd_telegram_user_id = None,
           sd_telegram_file_id = None, sd_telegram_file_unique_id = None, sd_telegram_workspace_id = None,
           sd_file_size = None, sd_mime_type = None, sd_file_name = None, sd_media_kind = None, sd_extensions = []\<rparr>"

definition plain_ingest_codec :: ingest_codec where
  "plain_ingest_codec =
     \<lparr>ic_to_value = (\<lambda>d. Inr (JObj [(lit ''version'', JInt (uint (id_version d))), (lit ''data'', enc_data d)])),
      ic_from_value = (\<lambda>v. or_text (Option.bind (json_get (lit ''data'') v) dec_data)),
      ic_source = (\<lambda>v. or_text (plain_source v)), ic_inspection = (\<lambda>v. or_text (dec_inspection v)),
      ic_download = (\<lambda>v. or_text (dec_download v)), ic_media_kind = (\<lambda>v. or_text (dec_media_kind v)),
      ic_normalization = (\<lambda>v. or_text (dec_normalization v)), ic_finalization = (\<lambda>v. or_text (dec_finalization v)),
      ic_duplicate_decision = (\<lambda>v. or_text (dec_decision v)), ic_length = size\<rparr>"

lemma plain_ingest_codec_laws: "ingest_codec_laws plain_ingest_codec"
  by (simp add: ingest_codec_laws_def plain_ingest_codec_def)

text \<open>The pre-envelope form of a URL ingest, read and written back.\<close>

theorem envelope_canonical_witness:
  "\<exists>d. data_decode plain_ingest_codec (JObj [(lit ''url'', JStr (lit ''u''))]) = Inr d \<and> sd_url (id_source d) = Some (lit ''u'') \<and>
     validate_ref d = Inr () \<and>
     (case data_encode plain_ingest_codec d of
        Inr w \<Rightarrow> data_decode plain_ingest_codec w = Inr d \<and>
          rbind (data_decode plain_ingest_codec w) (data_encode plain_ingest_codec) = Inr w
      | Inl e \<Rightarrow> e = TooLarge MAX_INGEST_DATA_BYTES)"
proof -
  have "\<exists>d. data_decode plain_ingest_codec (JObj [(lit ''url'', JStr (lit ''u''))]) = Inr d \<and> sd_url (id_source d) = Some (lit ''u'')"
    by (simp add: data_decode_def plain_ingest_codec_def MAX_INGEST_DATA_BYTES_def decode_legacy_def legacy_parts_def
         json_remove_def decode_optional_stage_def DUPLICATE_DECISION_MARKER_KEY_def plain_source_def json_get_str_def
         data_validate_def validate_ref_def ingest_data_new_def validate_extensions_def)
  then show ?thesis using envelope_canonical [OF plain_ingest_codec_laws] by blast
qed

end
