(* ===== verification/Library.thy ===== *)
theory Library
  imports Inbox
begin

text \<open>
  The media boundary of \<open>crates/library/src/lib.rs\<close>: the stored enumerations, the records of a
  media item and of its storage in Telegram, tag normalisation and the bounded form in which a
  video fingerprint reaches the database. Unicode lower-casing (\<open>str::to_lowercase\<close>) is an
  argument of \<open>normalize_tag\<close>.
\<close>

section \<open>Stored enumerations\<close>

datatype media_kind =
    MediaVideo
  | MediaImage
  | MediaAnimation
  | MediaAudio

fun media_kind_as_str :: "media_kind \<Rightarrow> ustring" where
  "media_kind_as_str MediaVideo = lit ''video''"
| "media_kind_as_str MediaImage = lit ''image''"
| "media_kind_as_str MediaAnimation = lit ''animation''"
| "media_kind_as_str MediaAudio = lit ''audio''"

definition media_kind_try_from :: "ustring \<Rightarrow> ustring + media_kind" where
  "media_kind_try_from s =
     (if s = lit ''video'' then Inr MediaVideo
      else if s = lit ''image'' then Inr MediaImage
      else if s = lit ''animation'' then Inr MediaAnimation
      else if s = lit ''audio'' then Inr MediaAudio
      else Inl s)"

interpretation media_kind_enum: db_enum media_kind_as_str media_kind_try_from
proof
  fix x :: media_kind
  show "media_kind_try_from (media_kind_as_str x) = Inr x" by (cases x) (simp_all add: media_kind_try_from_def)
next
  fix s x
  show "media_kind_try_from s = Inr x \<Longrightarrow> s = media_kind_as_str x" by (auto simp: media_kind_try_from_def split: if_splits)
next
  fix s e
  show "media_kind_try_from s = Inl e \<Longrightarrow> e = s" by (auto simp: media_kind_try_from_def split: if_splits)
qed

datatype media_storage_state =
    StoragePending
  | StorageReady
  | StorageUnknown
  | StorageMissing

fun media_storage_state_as_str :: "media_storage_state \<Rightarrow> ustring" where
  "media_storage_state_as_str StoragePending = lit ''pending_storage''"
| "media_storage_state_as_str StorageReady = lit ''ready''"
| "media_storage_state_as_str StorageUnknown = lit ''storage_unknown''"
| "media_storage_state_as_str StorageMissing = lit ''missing''"

definition media_storage_state_try_from :: "ustring \<Rightarrow> ustring + media_storage_state" where
  "media_storage_state_try_from s =
     (if s = lit ''pending_storage'' then Inr StoragePending
      else if s = lit ''ready'' then Inr StorageReady
      else if s = lit ''storage_unknown'' then Inr StorageUnknown
      else if s = lit ''missing'' then Inr StorageMissing
      else Inl s)"

interpretation storage_state_enum: db_enum media_storage_state_as_str media_storage_state_try_from
proof
  fix x :: media_storage_state
  show "media_storage_state_try_from (media_storage_state_as_str x) = Inr x" by (cases x) (simp_all add: media_storage_state_try_from_def)
next
  fix s x
  show "media_storage_state_try_from s = Inr x \<Longrightarrow> s = media_storage_state_as_str x" by (auto simp: media_storage_state_try_from_def split: if_splits)
next
  fix s e
  show "media_storage_state_try_from s = Inl e \<Longrightarrow> e = s" by (auto simp: media_storage_state_try_from_def split: if_splits)
qed

datatype caption_sync_state =
    CaptionNotRequired
  | CaptionPending
  | CaptionSyncing
  | CaptionSynced
  | CaptionFailed

fun caption_sync_state_as_str :: "caption_sync_state \<Rightarrow> ustring" where
  "caption_sync_state_as_str CaptionNotRequired = lit ''not_required''"
| "caption_sync_state_as_str CaptionPending = lit ''pending''"
| "caption_sync_state_as_str CaptionSyncing = lit ''syncing''"
| "caption_sync_state_as_str CaptionSynced = lit ''synced''"
| "caption_sync_state_as_str CaptionFailed = lit ''failed''"

definition caption_sync_state_try_from :: "ustring \<Rightarrow> ustring + caption_sync_state" where
  "caption_sync_state_try_from s =
     (if s = lit ''not_required'' then Inr CaptionNotRequired
      else if s = lit ''pending'' then Inr CaptionPending
      else if s = lit ''syncing'' then Inr CaptionSyncing
      else if s = lit ''synced'' then Inr CaptionSynced
      else if s = lit ''failed'' then Inr CaptionFailed
      else Inl s)"

interpretation caption_state_enum: db_enum caption_sync_state_as_str caption_sync_state_try_from
proof
  fix x :: caption_sync_state
  show "caption_sync_state_try_from (caption_sync_state_as_str x) = Inr x" by (cases x) (simp_all add: caption_sync_state_try_from_def)
next
  fix s x
  show "caption_sync_state_try_from s = Inr x \<Longrightarrow> s = caption_sync_state_as_str x" by (auto simp: caption_sync_state_try_from_def split: if_splits)
next
  fix s e
  show "caption_sync_state_try_from s = Inl e \<Longrightarrow> e = s" by (auto simp: caption_sync_state_try_from_def split: if_splits)
qed

datatype source_kind =
    Webpage
  | DirectUrl
  | Youtube
  | TelegramSource
  | UploadSource

fun source_kind_as_str :: "source_kind \<Rightarrow> ustring" where
  "source_kind_as_str Webpage = lit ''webpage''"
| "source_kind_as_str DirectUrl = lit ''direct_url''"
| "source_kind_as_str Youtube = lit ''youtube''"
| "source_kind_as_str TelegramSource = lit ''telegram''"
| "source_kind_as_str UploadSource = lit ''upload''"

definition source_kind_try_from :: "ustring \<Rightarrow> ustring + source_kind" where
  "source_kind_try_from s =
     (if s = lit ''webpage'' then Inr Webpage
      else if s = lit ''direct_url'' then Inr DirectUrl
      else if s = lit ''youtube'' then Inr Youtube
      else if s = lit ''telegram'' then Inr TelegramSource
      else if s = lit ''upload'' then Inr UploadSource
      else Inl s)"

interpretation source_kind_enum: db_enum source_kind_as_str source_kind_try_from
proof
  fix x :: source_kind
  show "source_kind_try_from (source_kind_as_str x) = Inr x" by (cases x) (simp_all add: source_kind_try_from_def)
next
  fix s x
  show "source_kind_try_from s = Inr x \<Longrightarrow> s = source_kind_as_str x" by (auto simp: source_kind_try_from_def split: if_splits)
next
  fix s e
  show "source_kind_try_from s = Inl e \<Longrightarrow> e = s" by (auto simp: source_kind_try_from_def split: if_splits)
qed

section \<open>Media\<close>

definition MAX_MEDIA_PREVIEW_BYTES :: nat where
  "MAX_MEDIA_PREVIEW_BYTES = 128 * 1024"

definition MAX_MEDIA_PREVIEW_WIDTH :: nat where
  "MAX_MEDIA_PREVIEW_WIDTH = 320"

definition MAX_MEDIA_PREVIEW_HEIGHT :: nat where
  "MAX_MEDIA_PREVIEW_HEIGHT = 320"

record media_preview_metadata =
  mp_mime_type :: ustring
  mp_width :: u32
  mp_height :: u32
  mp_size_bytes :: u32
  mp_sha256 :: "u8 list"

record media_preview_input =
  mpi_bytes :: "u8 list"
  mpi_mime_type :: ustring
  mpi_width :: u32
  mpi_height :: u32
  mpi_sha256 :: "u8 list"

record media_preview_data =
  mpd_metadata :: media_preview_metadata
  mpd_bytes :: "u8 list"

record media =
  me_id :: uuid
  me_kind :: media_kind
  me_title :: "ustring option"
  me_description :: "ustring option"
  me_tags :: "ustring list"
  me_mime_type :: "ustring option"
  me_container :: "ustring option"
  me_video_codec :: "ustring option"
  me_audio_codec :: "ustring option"
  me_width :: "int option"
  me_height :: "int option"
  me_duration_ms :: "u64 option"
  me_bit_rate :: "u64 option"
  me_file_size_bytes :: "u64 option"
  me_sha256 :: "u8 list option"
  me_local_work_path :: "ustring option"
  me_storage_state :: media_storage_state
  me_preview :: "media_preview_metadata option"
  me_caption_sync_generation :: int
  me_caption_sync_state :: caption_sync_state
  me_caption_sync_error :: "ustring option"
  me_created_at :: timestamp
  me_updated_at :: timestamp

record new_media =
  nm_kind :: media_kind
  nm_title :: "ustring option"
  nm_description :: "ustring option"

definition new_media_new :: "media_kind \<Rightarrow> new_media" where
  "new_media_new kind = \<lparr>nm_kind = kind, nm_title = None, nm_description = None\<rparr>"

record media_metadata =
  mm_kind :: media_kind
  mm_mime_type :: "ustring option"
  mm_container :: "ustring option"
  mm_video_codec :: "ustring option"
  mm_audio_codec :: "ustring option"
  mm_width :: "int option"
  mm_height :: "int option"
  mm_duration_ms :: "u64 option"
  mm_bit_rate :: "u64 option"
  mm_file_size_bytes :: "u64 option"
  mm_sha256 :: "u8 list option"
  mm_local_work_path :: "ustring option"
  mm_preview :: "media_preview_input option"

record media_source_input =
  ms_ingest_id :: "uuid option"
  ms_kind :: source_kind
  ms_original_url :: "ustring option"
  ms_normalized_url :: "ustring option"
  ms_platform :: "ustring option"
  ms_platform_content_id :: "ustring option"
  ms_author_name :: "ustring option"
  ms_title :: "ustring option"
  ms_description :: "ustring option"
  ms_published_at :: "timestamp option"
  ms_metadata :: json

record media_ingest =
  mi_media :: new_media
  mi_metadata :: media_metadata
  mi_source :: media_source_input
  mi_tags :: "ustring list"

record media_source =
  src_ingest_id :: "uuid option"
  src_kind :: source_kind
  src_original_url :: "ustring option"
  src_normalized_url :: "ustring option"
  src_platform :: "ustring option"
  src_platform_content_id :: "ustring option"
  src_author_name :: "ustring option"
  src_title :: "ustring option"
  src_description :: "ustring option"
  src_published_at :: "timestamp option"
  src_retrieved_at :: timestamp
  src_metadata :: json

record media_resolution =
  mres_media :: media
  mres_source :: media_source
  mres_media_created :: bool

record media_update =
  mu_description :: "ustring option"
  mu_tags :: "ustring list"
  mu_expected_updated_at :: timestamp

section \<open>Tags\<close>

definition MAX_TAG_LENGTH :: nat where
  "MAX_TAG_LENGTH = 100"

datatype tag_validation_error =
    TagEmpty
  | TagTooLong nat

definition normalize_tag :: "(ustring \<Rightarrow> ustring) \<Rightarrow> ustring \<Rightarrow> tag_validation_error + ustring" where
  "normalize_tag to_lowercase value =
     (let value = to_lowercase (trim value) in
      if value = [] then Inl TagEmpty
      else if length value > MAX_TAG_LENGTH then Inl (TagTooLong MAX_TAG_LENGTH)
      else Inr value)"

section \<open>Video fingerprints at the database boundary\<close>

record video_fingerprint_candidate =
  vfc_media_id :: uuid
  vfc_width :: "int option"
  vfc_height :: "int option"
  vfc_audio_codec :: "ustring option"
  vfc_fingerprint_version :: ustring
  vfc_fingerprint_data :: "u8 list"
  vfc_search_tokens :: "int list"
  vfc_shared_token_count :: int
  vfc_overlap_bps :: int

record video_fingerprint_input =
  vfi_version :: ustring
  vfi_data :: "u8 list"
  vfi_search_tokens :: "int list"

definition MAX_VIDEO_FINGERPRINT_VERSION_BYTES :: nat where
  "MAX_VIDEO_FINGERPRINT_VERSION_BYTES = 64"

definition MAX_VIDEO_FINGERPRINT_DATA_BYTES :: nat where
  "MAX_VIDEO_FINGERPRINT_DATA_BYTES = 64 * 1024"

definition MAX_VIDEO_FINGERPRINT_TOKENS :: nat where
  "MAX_VIDEO_FINGERPRINT_TOKENS = 1024"

datatype video_fingerprint_input_error =
    EmptyVersion
  | VersionTooLong nat
  | EmptyData
  | DataTooLarge nat
  | TooManyTokens nat
  | InvalidSearchTokens ustring

text \<open>\<open>windows(2).any(|pair| pair[0] >= pair[1])\<close>.\<close>

fun has_unsorted_pair :: "int list \<Rightarrow> bool" where
  "has_unsorted_pair (x # y # zs) \<longleftrightarrow> x \<ge> y \<or> has_unsorted_pair (y # zs)"
| "has_unsorted_pair _ \<longleftrightarrow> False"

definition fingerprint_input_validate :: "video_fingerprint_input \<Rightarrow> video_fingerprint_input_error + unit" where
  "fingerprint_input_validate input =
     (if trim (vfi_version input) = [] then Inl EmptyVersion
      else if utf8_len (vfi_version input) > MAX_VIDEO_FINGERPRINT_VERSION_BYTES
      then Inl (VersionTooLong MAX_VIDEO_FINGERPRINT_VERSION_BYTES)
      else if vfi_data input = [] then Inl EmptyData
      else if length (vfi_data input) > MAX_VIDEO_FINGERPRINT_DATA_BYTES
      then Inl (DataTooLarge MAX_VIDEO_FINGERPRINT_DATA_BYTES)
      else if length (vfi_search_tokens input) > MAX_VIDEO_FINGERPRINT_TOKENS
      then Inl (TooManyTokens MAX_VIDEO_FINGERPRINT_TOKENS)
      else if list_ex (\<lambda>token. token \<le> 0) (vfi_search_tokens input)
      then Inl (InvalidSearchTokens (lit ''tokens must be positive''))
      else if has_unsorted_pair (vfi_search_tokens input)
      then Inl (InvalidSearchTokens (lit ''tokens must be sorted and deduplicated''))
      else Inr ())"

definition fingerprint_input_try_new ::
  "ustring \<Rightarrow> u8 list \<Rightarrow> int list \<Rightarrow> video_fingerprint_input_error + video_fingerprint_input" where
  "fingerprint_input_try_new version data search_tokens =
     (let input = \<lparr>vfi_version = version, vfi_data = data, vfi_search_tokens = search_tokens\<rparr>
      in map_ok (\<lambda>_. input) (fingerprint_input_validate input))"

lemma has_unsorted_pair_iff: "has_unsorted_pair xs \<longleftrightarrow> \<not> sorted_wrt (<) xs"
proof (induction xs rule: has_unsorted_pair.induct)
  case (1 x y zs)
  then show ?case by (auto simp: not_le intro: less_trans)
qed auto

lemma fingerprint_input_try_new_Inr:
  "fingerprint_input_try_new version data tokens = Inr input \<longleftrightarrow>
     input = \<lparr>vfi_version = version, vfi_data = data, vfi_search_tokens = tokens\<rparr> \<and>
     trim version \<noteq> [] \<and> utf8_len version \<le> 64 \<and> data \<noteq> [] \<and> length data \<le> 65536 \<and>
     length tokens \<le> 1024 \<and> (\<forall>t\<in>set tokens. 0 < t) \<and> sorted_wrt (<) tokens"
  by (auto simp: fingerprint_input_try_new_def fingerprint_input_validate_def Let_def result_simps
      has_unsorted_pair_iff list_ex_iff not_le not_less MAX_VIDEO_FINGERPRINT_VERSION_BYTES_def
      MAX_VIDEO_FINGERPRINT_DATA_BYTES_def MAX_VIDEO_FINGERPRINT_TOKENS_def split: if_splits)

section \<open>Duplicate evidence\<close>

datatype video_duplicate_classification = StrongDuplicateEvidence | PartialMatchEvidence

record video_duplicate_match =
  vdm_media_id :: uuid
  vdm_fingerprint_version :: ustring
  vdm_classification :: video_duplicate_classification
  vdm_aligned_offset_ms :: int
  vdm_informative_matched_samples :: u16
  vdm_incoming_coverage_bps :: u16
  vdm_candidate_coverage_bps :: u16
  vdm_median_distance_bps :: u16
  vdm_high_percentile_distance_bps :: u16
  vdm_longest_temporally_consistent_run :: u16
  vdm_unmatched_incoming_prefix :: u16
  vdm_unmatched_incoming_suffix :: u16
  vdm_unmatched_candidate_prefix :: u16
  vdm_unmatched_candidate_suffix :: u16
  vdm_gap_count :: u16
  vdm_score_bps :: u16
  vdm_shared_token_count :: int
  vdm_token_overlap_bps :: int

record video_duplicate_evidence =
  vde_algorithm_version :: ustring
  vde_matches :: "video_duplicate_match list"

definition MAX_VIDEO_DUPLICATE_MATCHES :: nat where
  "MAX_VIDEO_DUPLICATE_MATCHES = 3"

definition MAX_VIDEO_DUPLICATE_EVIDENCE_BYTES :: nat where
  "MAX_VIDEO_DUPLICATE_EVIDENCE_BYTES = 16 * 1024"

datatype video_identity_outcome =
    ExactDuplicate uuid
  | NewMedia uuid
  | DuplicatePendingOutcome video_duplicate_evidence

datatype video_identity_decision =
    NoMatch
  | DuplicatePendingDecision video_duplicate_evidence

section \<open>Storage in Telegram\<close>

record storage_receipt =
  sr_media_id :: uuid
  sr_storage_chat_id :: int
  sr_storage_message_id :: int
  sr_telegram_file_id :: "ustring option"
  sr_telegram_file_unique_id :: "ustring option"
  sr_media_kind :: media_kind
  sr_stored_at :: timestamp

record storage_caption_metadata =
  scm_description :: "ustring option"
  scm_tags :: "ustring list"
  scm_source_url :: "ustring option"

record caption_sync_claim =
  csc_media_id :: uuid
  csc_generation :: int
  csc_claim_token :: uuid
  csc_storage_chat_id :: int
  csc_storage_message_id :: int
  csc_metadata :: storage_caption_metadata

datatype caption_sync_completion = CaptionApplied | CaptionStale

record storage_upload_attachment =
  sua_storage_chat_id :: int
  sua_storage_message_id :: int
  sua_telegram_file_id :: "ustring option"
  sua_telegram_file_unique_id :: "ustring option"
  sua_caption_metadata :: "storage_caption_metadata option"

record storage_upload_reservation_request =
  sur_media_id :: uuid
  sur_generation :: int

datatype storage_upload_reservation =
    Reserved uuid uuid storage_caption_metadata
  | Reused storage_receipt
  | InProgress "timestamp option"
  | ReconciliationRequired
  | StaleGeneration int

end
