(* ===== verification/Jobs.thy ===== *)
theory Jobs
  imports Inbox
begin

text \<open>
  The durable queue commands of \<open>crates/jobs/src/lib.rs\<close>: job types and states with their stored
  names, the typed payloads, the command sum with its JSON payload codec, the builder of new jobs,
  the job envelope and its lease. \<open>serde_json\<close> is an argument: \<open>payload_codec\<close> holds
  \<open>to_value\<close> and \<open>from_value\<close> at each payload type, over an arbitrary type of JSON values.
\<close>

section \<open>Types and states\<close>

datatype job_type =
    InspectSourceJob
  | DownloadSourceJob
  | ProbeAssetJob
  | NormalizeAssetJob
  | ComputeFingerprintJob
  | FinalizeIngestJob
  | MaterializePublicationJob
  | UploadStorageAssetJob
  | SyncStorageCaptionJob
  | PublishPostJob
  | CleanupWorkspaceJob

fun job_type_as_str :: "job_type \<Rightarrow> ustring" where
  "job_type_as_str InspectSourceJob = lit ''inspect_source''"
| "job_type_as_str DownloadSourceJob = lit ''download_source''"
| "job_type_as_str ProbeAssetJob = lit ''probe_asset''"
| "job_type_as_str NormalizeAssetJob = lit ''normalize_asset''"
| "job_type_as_str ComputeFingerprintJob = lit ''compute_fingerprint''"
| "job_type_as_str FinalizeIngestJob = lit ''finalize_ingest''"
| "job_type_as_str MaterializePublicationJob = lit ''materialize_publication''"
| "job_type_as_str UploadStorageAssetJob = lit ''upload_storage_asset''"
| "job_type_as_str SyncStorageCaptionJob = lit ''sync_storage_caption''"
| "job_type_as_str PublishPostJob = lit ''publish_post''"
| "job_type_as_str CleanupWorkspaceJob = lit ''cleanup_workspace''"

definition job_type_try_from :: "ustring \<Rightarrow> ustring + job_type" where
  "job_type_try_from s =
     (if s = lit ''inspect_source'' then Inr InspectSourceJob
      else if s = lit ''download_source'' then Inr DownloadSourceJob
      else if s = lit ''probe_asset'' then Inr ProbeAssetJob
      else if s = lit ''normalize_asset'' then Inr NormalizeAssetJob
      else if s = lit ''compute_fingerprint'' then Inr ComputeFingerprintJob
      else if s = lit ''finalize_ingest'' then Inr FinalizeIngestJob
      else if s = lit ''materialize_publication'' then Inr MaterializePublicationJob
      else if s = lit ''upload_storage_asset'' then Inr UploadStorageAssetJob
      else if s = lit ''sync_storage_caption'' then Inr SyncStorageCaptionJob
      else if s = lit ''publish_post'' then Inr PublishPostJob
      else if s = lit ''cleanup_workspace'' then Inr CleanupWorkspaceJob
      else Inl s)"

interpretation job_type_enum: db_enum job_type_as_str job_type_try_from
proof
  fix x :: job_type
  show "job_type_try_from (job_type_as_str x) = Inr x" by (cases x) (simp_all add: job_type_try_from_def)
next
  fix s x
  show "job_type_try_from s = Inr x \<Longrightarrow> s = job_type_as_str x" by (auto simp: job_type_try_from_def split: if_splits)
next
  fix s e
  show "job_type_try_from s = Inl e \<Longrightarrow> e = s" by (auto simp: job_type_try_from_def split: if_splits)
qed

datatype job_status =
    JobQueued
  | JobRunning
  | JobSucceeded
  | JobFailed
  | JobCancelled

fun job_status_as_str :: "job_status \<Rightarrow> ustring" where
  "job_status_as_str JobQueued = lit ''queued''"
| "job_status_as_str JobRunning = lit ''running''"
| "job_status_as_str JobSucceeded = lit ''succeeded''"
| "job_status_as_str JobFailed = lit ''failed''"
| "job_status_as_str JobCancelled = lit ''cancelled''"

definition job_status_try_from :: "ustring \<Rightarrow> ustring + job_status" where
  "job_status_try_from s =
     (if s = lit ''queued'' then Inr JobQueued
      else if s = lit ''running'' then Inr JobRunning
      else if s = lit ''succeeded'' then Inr JobSucceeded
      else if s = lit ''failed'' then Inr JobFailed
      else if s = lit ''cancelled'' then Inr JobCancelled
      else Inl s)"

interpretation job_status_enum: db_enum job_status_as_str job_status_try_from
proof
  fix x :: job_status
  show "job_status_try_from (job_status_as_str x) = Inr x" by (cases x) (simp_all add: job_status_try_from_def)
next
  fix s x
  show "job_status_try_from s = Inr x \<Longrightarrow> s = job_status_as_str x" by (auto simp: job_status_try_from_def split: if_splits)
next
  fix s e
  show "job_status_try_from s = Inl e \<Longrightarrow> e = s" by (auto simp: job_status_try_from_def split: if_splits)
qed

record job_counts =
  queued_count :: u64
  running_count :: u64

section \<open>Payloads and commands\<close>

record inspect_source_payload =
  isp_ingest_id :: uuid

record download_source_payload =
  dsp_ingest_id :: uuid
  dsp_inspection :: source_inspection

record ingest_job_payload =
  ijp_ingest_id :: uuid

record materialize_publication_payload =
  mpp_ingest_id :: uuid

record media_job_payload =
  mjp_media_id :: uuid
  mjp_generation :: int

record publish_post_payload =
  ppp_post_id :: uuid
  ppp_expected_revision :: int

record cleanup_workspace_payload =
  cwp_ingest_id :: uuid
  cwp_workspace_id :: uuid

datatype job_command =
    InspectSource inspect_source_payload
  | DownloadSource download_source_payload
  | ProbeAsset ingest_job_payload
  | NormalizeAsset ingest_job_payload
  | ComputeFingerprint ingest_job_payload
  | FinalizeIngest ingest_job_payload
  | MaterializePublication materialize_publication_payload
  | UploadStorageAsset media_job_payload
  | SyncStorageCaption media_job_payload
  | PublishPost publish_post_payload
  | CleanupWorkspace cleanup_workspace_payload

fun command_job_type :: "job_command \<Rightarrow> job_type" where
  "command_job_type (InspectSource _) = InspectSourceJob"
| "command_job_type (DownloadSource _) = DownloadSourceJob"
| "command_job_type (ProbeAsset _) = ProbeAssetJob"
| "command_job_type (NormalizeAsset _) = NormalizeAssetJob"
| "command_job_type (ComputeFingerprint _) = ComputeFingerprintJob"
| "command_job_type (FinalizeIngest _) = FinalizeIngestJob"
| "command_job_type (MaterializePublication _) = MaterializePublicationJob"
| "command_job_type (UploadStorageAsset _) = UploadStorageAssetJob"
| "command_job_type (SyncStorageCaption _) = SyncStorageCaptionJob"
| "command_job_type (PublishPost _) = PublishPostJob"
| "command_job_type (CleanupWorkspace _) = CleanupWorkspaceJob"

text \<open>\<open>serde_json::to_value\<close> and \<open>serde_json::from_value\<close> at the payload types; a failed
  \<open>from_value\<close> carries the message of the error.\<close>

record 'v payload_codec =
  inspect_to_value :: "inspect_source_payload \<Rightarrow> 'v"
  inspect_from_value :: "'v \<Rightarrow> ustring + inspect_source_payload"
  download_to_value :: "download_source_payload \<Rightarrow> 'v"
  download_from_value :: "'v \<Rightarrow> ustring + download_source_payload"
  ingest_to_value :: "ingest_job_payload \<Rightarrow> 'v"
  ingest_from_value :: "'v \<Rightarrow> ustring + ingest_job_payload"
  materialize_to_value :: "materialize_publication_payload \<Rightarrow> 'v"
  materialize_from_value :: "'v \<Rightarrow> ustring + materialize_publication_payload"
  media_to_value :: "media_job_payload \<Rightarrow> 'v"
  media_from_value :: "'v \<Rightarrow> ustring + media_job_payload"
  publish_to_value :: "publish_post_payload \<Rightarrow> 'v"
  publish_from_value :: "'v \<Rightarrow> ustring + publish_post_payload"
  cleanup_to_value :: "cleanup_workspace_payload \<Rightarrow> 'v"
  cleanup_from_value :: "'v \<Rightarrow> ustring + cleanup_workspace_payload"

datatype job_payload_error =
    InvalidJobPayload job_type ustring

definition decode_payload ::
  "('v \<Rightarrow> ustring + 't) \<Rightarrow> job_type \<Rightarrow> 'v \<Rightarrow> job_payload_error + 't" where
  "decode_payload from_value job_type payload =
     map_err (InvalidJobPayload job_type) (from_value payload)"

fun from_payload :: "'v payload_codec \<Rightarrow> job_type \<Rightarrow> 'v \<Rightarrow> job_payload_error + job_command" where
  "from_payload codec InspectSourceJob payload =
     map_ok InspectSource (decode_payload (inspect_from_value codec) InspectSourceJob payload)"
| "from_payload codec DownloadSourceJob payload =
     map_ok DownloadSource (decode_payload (download_from_value codec) DownloadSourceJob payload)"
| "from_payload codec ProbeAssetJob payload =
     map_ok ProbeAsset (decode_payload (ingest_from_value codec) ProbeAssetJob payload)"
| "from_payload codec NormalizeAssetJob payload =
     map_ok NormalizeAsset (decode_payload (ingest_from_value codec) NormalizeAssetJob payload)"
| "from_payload codec ComputeFingerprintJob payload =
     map_ok ComputeFingerprint (decode_payload (ingest_from_value codec) ComputeFingerprintJob payload)"
| "from_payload codec FinalizeIngestJob payload =
     map_ok FinalizeIngest (decode_payload (ingest_from_value codec) FinalizeIngestJob payload)"
| "from_payload codec MaterializePublicationJob payload =
     map_ok MaterializePublication (decode_payload (materialize_from_value codec) MaterializePublicationJob payload)"
| "from_payload codec UploadStorageAssetJob payload =
     map_ok UploadStorageAsset (decode_payload (media_from_value codec) UploadStorageAssetJob payload)"
| "from_payload codec SyncStorageCaptionJob payload =
     map_ok SyncStorageCaption (decode_payload (media_from_value codec) SyncStorageCaptionJob payload)"
| "from_payload codec PublishPostJob payload =
     map_ok PublishPost (decode_payload (publish_from_value codec) PublishPostJob payload)"
| "from_payload codec CleanupWorkspaceJob payload =
     map_ok CleanupWorkspace (decode_payload (cleanup_from_value codec) CleanupWorkspaceJob payload)"

fun payload_json :: "'v payload_codec \<Rightarrow> job_command \<Rightarrow> 'v" where
  "payload_json codec (InspectSource payload) = inspect_to_value codec payload"
| "payload_json codec (DownloadSource payload) = download_to_value codec payload"
| "payload_json codec (ProbeAsset payload) = ingest_to_value codec payload"
| "payload_json codec (NormalizeAsset payload) = ingest_to_value codec payload"
| "payload_json codec (ComputeFingerprint payload) = ingest_to_value codec payload"
| "payload_json codec (FinalizeIngest payload) = ingest_to_value codec payload"
| "payload_json codec (MaterializePublication payload) = materialize_to_value codec payload"
| "payload_json codec (UploadStorageAsset payload) = media_to_value codec payload"
| "payload_json codec (SyncStorageCaption payload) = media_to_value codec payload"
| "payload_json codec (PublishPost payload) = publish_to_value codec payload"
| "payload_json codec (CleanupWorkspace payload) = cleanup_to_value codec payload"

section \<open>New jobs\<close>

record new_job =
  nj_command :: job_command
  nj_priority :: int
  nj_run_at :: "timestamp option"
  nj_max_attempts :: int
  nj_dedupe_key :: "ustring option"

definition new_job_new :: "job_command \<Rightarrow> new_job" where
  "new_job_new command =
     \<lparr>nj_command = command, nj_priority = 0, nj_run_at = None, nj_max_attempts = 5, nj_dedupe_key = None\<rparr>"

definition with_priority :: "int \<Rightarrow> new_job \<Rightarrow> new_job" where
  "with_priority priority job = job\<lparr>nj_priority := priority\<rparr>"

definition with_run_at :: "timestamp \<Rightarrow> new_job \<Rightarrow> new_job" where
  "with_run_at run_at job = job\<lparr>nj_run_at := Some run_at\<rparr>"

definition with_max_attempts :: "int \<Rightarrow> new_job \<Rightarrow> new_job" where
  "with_max_attempts max_attempts job = job\<lparr>nj_max_attempts := max_attempts\<rparr>"

definition with_dedupe_key :: "ustring \<Rightarrow> new_job \<Rightarrow> new_job" where
  "with_dedupe_key key job = job\<lparr>nj_dedupe_key := Some key\<rparr>"

definition new_job_type :: "new_job \<Rightarrow> job_type" where
  "new_job_type job = command_job_type (nj_command job)"

definition new_inspect_source :: "uuid \<Rightarrow> new_job" where
  "new_inspect_source ingest_id = new_job_new (InspectSource \<lparr>isp_ingest_id = ingest_id\<rparr>)"

definition new_download_source :: "uuid \<Rightarrow> source_inspection \<Rightarrow> new_job" where
  "new_download_source ingest_id inspection =
     new_job_new (DownloadSource \<lparr>dsp_ingest_id = ingest_id, dsp_inspection = inspection\<rparr>)"

definition new_publish_post :: "uuid \<Rightarrow> int \<Rightarrow> new_job" where
  "new_publish_post post_id expected_revision =
     new_job_new (PublishPost \<lparr>ppp_post_id = post_id, ppp_expected_revision = expected_revision\<rparr>)"

definition new_upload_storage_asset :: "uuid \<Rightarrow> new_job" where
  "new_upload_storage_asset media_id =
     new_job_new (UploadStorageAsset \<lparr>mjp_media_id = media_id, mjp_generation = 0\<rparr>)"

definition new_upload_storage_asset_generation :: "uuid \<Rightarrow> int \<Rightarrow> new_job" where
  "new_upload_storage_asset_generation media_id generation =
     new_job_new (UploadStorageAsset \<lparr>mjp_media_id = media_id, mjp_generation = generation\<rparr>)"

definition new_sync_storage_caption :: "uuid \<Rightarrow> int \<Rightarrow> new_job" where
  "new_sync_storage_caption media_id generation =
     with_max_attempts 3
       (new_job_new (SyncStorageCaption \<lparr>mjp_media_id = media_id, mjp_generation = generation\<rparr>))"

definition new_probe_asset :: "uuid \<Rightarrow> new_job" where
  "new_probe_asset ingest_id = new_job_new (ProbeAsset \<lparr>ijp_ingest_id = ingest_id\<rparr>)"

definition new_normalize_asset :: "uuid \<Rightarrow> new_job" where
  "new_normalize_asset ingest_id = new_job_new (NormalizeAsset \<lparr>ijp_ingest_id = ingest_id\<rparr>)"

definition new_compute_fingerprint :: "uuid \<Rightarrow> new_job" where
  "new_compute_fingerprint ingest_id = new_job_new (ComputeFingerprint \<lparr>ijp_ingest_id = ingest_id\<rparr>)"

definition new_finalize_ingest :: "uuid \<Rightarrow> new_job" where
  "new_finalize_ingest ingest_id = new_job_new (FinalizeIngest \<lparr>ijp_ingest_id = ingest_id\<rparr>)"

definition new_materialize_publication :: "uuid \<Rightarrow> new_job" where
  "new_materialize_publication ingest_id =
     new_job_new (MaterializePublication \<lparr>mpp_ingest_id = ingest_id\<rparr>)"

definition new_cleanup_workspace :: "uuid \<Rightarrow> uuid \<Rightarrow> new_job" where
  "new_cleanup_workspace ingest_id workspace_id =
     new_job_new (CleanupWorkspace \<lparr>cwp_ingest_id = ingest_id, cwp_workspace_id = workspace_id\<rparr>)"

section \<open>Jobs and leases\<close>

record job =
  job_id :: uuid
  job_command :: job_command
  job_status :: job_status
  job_priority :: int
  job_run_at :: timestamp
  job_attempt_count :: int
  job_max_attempts :: int
  job_lease_token :: "uuid option"
  job_lease_owner :: "ustring option"
  job_lease_expires_at :: "timestamp option"
  job_last_heartbeat_at :: "timestamp option"
  job_last_error_class :: "ustring option"
  job_last_error_message :: "ustring option"
  job_dedupe_key :: "ustring option"
  job_created_at :: timestamp
  job_updated_at :: timestamp
  job_completed_at :: "timestamp option"

record job_lease =
  jl_job_id :: uuid
  jl_attempt_number :: int
  jl_lease_owner :: ustring
  jl_lease_token :: uuid

definition lease_of :: "job \<Rightarrow> job_lease option" where
  "lease_of j =
     Option.bind (job_lease_owner j) (\<lambda>lease_owner.
     Option.bind (job_lease_token j) (\<lambda>lease_token.
       Some \<lparr>jl_job_id = job_id j, jl_attempt_number = job_attempt_count j,
             jl_lease_owner = lease_owner, jl_lease_token = lease_token\<rparr>))"

section \<open>The codec law\<close>

text \<open>What the code relies on of \<open>serde\<close>: deserialising a serialised payload gives it back.\<close>

definition codec_laws :: "'v payload_codec \<Rightarrow> bool" where
  "codec_laws codec \<longleftrightarrow>
     (\<forall>p. inspect_from_value codec (inspect_to_value codec p) = Inr p) \<and>
     (\<forall>p. download_from_value codec (download_to_value codec p) = Inr p) \<and>
     (\<forall>p. ingest_from_value codec (ingest_to_value codec p) = Inr p) \<and>
     (\<forall>p. materialize_from_value codec (materialize_to_value codec p) = Inr p) \<and>
     (\<forall>p. media_from_value codec (media_to_value codec p) = Inr p) \<and>
     (\<forall>p. publish_from_value codec (publish_to_value codec p) = Inr p) \<and>
     (\<forall>p. cleanup_from_value codec (cleanup_to_value codec p) = Inr p)"

lemma from_payload_json:
  "codec_laws codec \<Longrightarrow> from_payload codec (command_job_type c) (payload_json codec c) = Inr c"
  by (cases c) (simp_all add: codec_laws_def decode_payload_def)

lemma from_payload_type: "from_payload codec t payload = Inr c \<Longrightarrow> command_job_type c = t"
  by (cases t; cases c) (auto simp: result_simps)

lemma from_payload_error:
  "from_payload codec t payload = Inl e \<Longrightarrow> \<exists>message. e = InvalidJobPayload t message"
  by (cases t) (auto simp: decode_payload_def result_simps)

section \<open>Properties\<close>

text \<open>Commands survive the database: the stored job type and JSON payload of a command decode
  to the same command, and whatever decodes for a stored type is a command of that type.\<close>

theorem command_payload_roundtrip:
  assumes "codec_laws codec"
  shows "job_type_try_from (job_type_as_str (command_job_type c)) = Inr (command_job_type c) \<and>
         from_payload codec (command_job_type c) (payload_json codec c) = Inr c \<and>
         (\<forall>t payload d. from_payload codec t payload = Inr d \<longrightarrow> command_job_type d = t)"
proof (intro conjI allI impI)
  show "job_type_try_from (job_type_as_str (command_job_type c)) = Inr (command_job_type c)"
    by (rule job_type_enum.try_from_as_str)
  show "from_payload codec (command_job_type c) (payload_json codec c) = Inr c"
    using assms by (rule from_payload_json)
  show "command_job_type d = t" if "from_payload codec t payload = Inr d" for t payload d
    using that by (rule from_payload_type)
qed

text \<open>A concrete codec that satisfies the law: the JSON value is the command itself.\<close>

datatype plain_value =
    InspectValue inspect_source_payload
  | DownloadValue download_source_payload
  | IngestValue ingest_job_payload
  | MaterializeValue materialize_publication_payload
  | MediaValue media_job_payload
  | PublishValue publish_post_payload
  | CleanupValue cleanup_workspace_payload

fun plain_inspect :: "plain_value \<Rightarrow> ustring + inspect_source_payload" where
  "plain_inspect (InspectValue p) = Inr p"
| "plain_inspect _ = Inl (lit ''invalid type'')"

fun plain_download :: "plain_value \<Rightarrow> ustring + download_source_payload" where
  "plain_download (DownloadValue p) = Inr p"
| "plain_download _ = Inl (lit ''invalid type'')"

fun plain_ingest :: "plain_value \<Rightarrow> ustring + ingest_job_payload" where
  "plain_ingest (IngestValue p) = Inr p"
| "plain_ingest _ = Inl (lit ''invalid type'')"

fun plain_materialize :: "plain_value \<Rightarrow> ustring + materialize_publication_payload" where
  "plain_materialize (MaterializeValue p) = Inr p"
| "plain_materialize _ = Inl (lit ''invalid type'')"

fun plain_media :: "plain_value \<Rightarrow> ustring + media_job_payload" where
  "plain_media (MediaValue p) = Inr p"
| "plain_media _ = Inl (lit ''invalid type'')"

fun plain_publish :: "plain_value \<Rightarrow> ustring + publish_post_payload" where
  "plain_publish (PublishValue p) = Inr p"
| "plain_publish _ = Inl (lit ''invalid type'')"

fun plain_cleanup :: "plain_value \<Rightarrow> ustring + cleanup_workspace_payload" where
  "plain_cleanup (CleanupValue p) = Inr p"
| "plain_cleanup _ = Inl (lit ''invalid type'')"

definition plain_codec :: "plain_value payload_codec" where
  "plain_codec =
     \<lparr>inspect_to_value = InspectValue, inspect_from_value = plain_inspect,
      download_to_value = DownloadValue, download_from_value = plain_download,
      ingest_to_value = IngestValue, ingest_from_value = plain_ingest,
      materialize_to_value = MaterializeValue, materialize_from_value = plain_materialize,
      media_to_value = MediaValue, media_from_value = plain_media,
      publish_to_value = PublishValue, publish_from_value = plain_publish,
      cleanup_to_value = CleanupValue, cleanup_from_value = plain_cleanup\<rparr>"

lemma plain_codec_laws: "codec_laws plain_codec"
  by (simp add: codec_laws_def plain_codec_def)

theorem command_payload_roundtrip_witness:
  "from_payload plain_codec CleanupWorkspaceJob
     (payload_json plain_codec (CleanupWorkspace \<lparr>cwp_ingest_id = 1, cwp_workspace_id = 2\<rparr>)) =
   Inr (CleanupWorkspace \<lparr>cwp_ingest_id = 1, cwp_workspace_id = 2\<rparr>)"
  using command_payload_roundtrip [OF plain_codec_laws,
      of "CleanupWorkspace \<lparr>cwp_ingest_id = 1, cwp_workspace_id = 2\<rparr>"]
  by simp

end
