(* ===== verification/Tables.thy ===== *)
theory Tables
  imports Sooqa_Prelude "HOL-Library.Product_Lexorder"
begin

text \<open>
  The part of PostgreSQL the repositories use, on tables as lists of rows: \<open>UPDATE ... WHERE ...
  RETURNING\<close>, \<open>ORDER BY ... LIMIT 1\<close>, the environment a statement runs in (\<open>now()\<close>,
  \<open>clock_timestamp()\<close>, the application's clock, \<open>gen_random_uuid()\<close>, the rows other transactions
  have locked), and the contract of a table whose rows move along a step relation: the primary
  key and the CHECK constraints of the schema hold in every reachable table.
\<close>

section \<open>Statements\<close>

record db_env =
  env_now :: timestamp
  env_clock :: timestamp
  env_utc :: timestamp
  env_uuid :: uuid
  env_locked :: "uuid \<Rightarrow> bool"
  env_interval :: "nat \<Rightarrow> int"

text \<open>\<open>UPDATE\<close>: the new table; \<open>RETURNING\<close>: the updated rows; \<open>fetch_optional\<close>: the first row.\<close>

definition update_where :: "('r \<Rightarrow> bool) \<Rightarrow> ('r \<Rightarrow> 'r) \<Rightarrow> 'r list \<Rightarrow> 'r list" where
  "update_where P f t = map (\<lambda>r. if P r then f r else r) t"

definition returning :: "('r \<Rightarrow> bool) \<Rightarrow> ('r \<Rightarrow> 'r) \<Rightarrow> 'r list \<Rightarrow> 'r list" where
  "returning P f t = map f (filter P t)"

fun fetch_optional :: "'r list \<Rightarrow> 'r option" where
  "fetch_optional [] = None"
| "fetch_optional (r # rs) = Some r"

definition select_one :: "('r \<Rightarrow> bool) \<Rightarrow> 'r list \<Rightarrow> 'r option" where
  "select_one P t = fetch_optional (filter P t)"

text \<open>\<open>ORDER BY key LIMIT 1\<close>.\<close>

definition select_first :: "('r \<Rightarrow> 'k::linorder) \<Rightarrow> ('r \<Rightarrow> bool) \<Rightarrow> 'r list \<Rightarrow> 'r option" where
  "select_first key P t = fetch_optional (sort_key key (filter P t))"

text \<open>A comparison with a NULL column is not true.\<close>

fun after_null :: "timestamp option \<Rightarrow> timestamp \<Rightarrow> bool" where
  "after_null None t = False"
| "after_null (Some e) t = (t < e)"

fun not_after_null :: "timestamp option \<Rightarrow> timestamp \<Rightarrow> bool" where
  "not_after_null None t = False"
| "not_after_null (Some e) t = (e \<le> t)"

section \<open>Facts about statements\<close>

lemma set_update_where:
  "set (update_where P f t) = f ` {r \<in> set t. P r} \<union> {r \<in> set t. \<not> P r}"
  by (auto simp: update_where_def)

lemma update_where_id: "(\<And>r. r \<in> set t \<Longrightarrow> \<not> P r) \<Longrightarrow> update_where P f t = t"
  unfolding update_where_def by (simp add: map_idI)

lemma fetch_optional_None: "fetch_optional xs = None \<longleftrightarrow> xs = []"
  by (cases xs) auto

lemma fetch_optional_in: "fetch_optional xs = Some x \<Longrightarrow> x \<in> set xs"
  by (cases xs) auto

lemma fetch_optional_map: "fetch_optional (map f xs) = map_option f (fetch_optional xs)"
  by (cases xs) auto

lemma returning_select_one: "fetch_optional (returning P f t) = map_option f (select_one P t)"
  by (simp add: returning_def select_one_def fetch_optional_map)

lemma select_one_Some: "select_one P t = Some r \<Longrightarrow> r \<in> set t \<and> P r"
  unfolding select_one_def by (drule fetch_optional_in) simp

lemma select_one_None: "select_one P t = None \<longleftrightarrow> (\<forall>r\<in>set t. \<not> P r)"
  by (auto simp: select_one_def fetch_optional_None filter_empty_conv)

lemma select_first_Some:
  assumes "select_first key P t = Some r"
  shows "r \<in> set t \<and> P r \<and> (\<forall>s\<in>set t. P s \<longrightarrow> key r \<le> key s)"
proof -
  let ?xs = "sort_key key (filter P t)"
  obtain rs where xs: "?xs = r # rs"
    using assms by (cases ?xs) (auto simp: select_first_def)
  have "sorted (map key ?xs)" by simp
  then have "\<forall>s\<in>set rs. key r \<le> key s" by (simp add: xs)
  moreover have "{s \<in> set t. P s} = insert r (set rs)"
    using xs by (metis list.simps(15) set_filter set_sort)
  ultimately show ?thesis by auto
qed

lemma select_first_None: "select_first key P t = None \<longleftrightarrow> (\<forall>r\<in>set t. \<not> P r)"
proof -
  have "sort_key key (filter P t) = [] \<longleftrightarrow> filter P t = []"
    by (metis length_0_conv length_sort)
  then show ?thesis by (simp add: select_first_def fetch_optional_None filter_empty_conv)
qed

section \<open>Tables with a key and a check\<close>

definition table_ok :: "('r \<Rightarrow> 'k) \<Rightarrow> ('r \<Rightarrow> bool) \<Rightarrow> 'r list \<Rightarrow> bool" where
  "table_ok key check t \<longleftrightarrow> distinct (map key t) \<and> list_all check t"

lemma table_ok_Nil [simp]: "table_ok key check []"
  by (simp add: table_ok_def)

lemma table_ok_check: "table_ok key check t \<Longrightarrow> r \<in> set t \<Longrightarrow> check r"
  by (simp add: table_ok_def list_all_iff)

lemma table_ok_key: "table_ok key check t \<Longrightarrow> r \<in> set t \<Longrightarrow> s \<in> set t \<Longrightarrow> key r = key s \<Longrightarrow> r = s"
  by (auto simp: table_ok_def distinct_map inj_on_def)

lemma table_ok_update_where:
  assumes "table_ok key check t" and "\<And>r. r \<in> set t \<Longrightarrow> P r \<Longrightarrow> key (f r) = key r \<and> check (f r)"
  shows "table_ok key check (update_where P f t)"
proof -
  have "map key (update_where P f t) = map key t"
    using assms(2) by (simp add: update_where_def)
  moreover have "list_all check (update_where P f t)"
    using assms by (auto simp: table_ok_def update_where_def list_all_iff)
  ultimately show ?thesis using assms(1) by (simp add: table_ok_def)
qed

lemma select_one_key:
  assumes "table_ok key check t" and "r \<in> set t" and "P r"
    and "\<And>s. s \<in> set t \<Longrightarrow> P s \<Longrightarrow> key s = key r"
  shows "select_one P t = Some r"
proof -
  obtain s where s: "select_one P t = Some s"
    using assms(2,3) by (cases "select_one P t") (auto simp: select_one_None)
  with select_one_Some [OF s] assms(4) have "s = r"
    using table_ok_key [OF assms(1)] assms(2) by blast
  with s show ?thesis by simp
qed

text \<open>One change of a table: a row moves along the step relation, or a new row that satisfies the
  check is inserted under a new key.\<close>

inductive table_step :: "('r \<Rightarrow> 'k) \<Rightarrow> ('r \<Rightarrow> bool) \<Rightarrow> ('r \<Rightarrow> 'r \<Rightarrow> bool) \<Rightarrow> 'r list \<Rightarrow> 'r list \<Rightarrow> bool"
  for key check step where
  row_update: "(\<And>r. r \<in> set t \<Longrightarrow> f r = r \<or> step r (f r)) \<Longrightarrow> table_step key check step t (map f t)"
| row_insert: "key r \<notin> key ` set t \<Longrightarrow> check r \<Longrightarrow> table_step key check step t (t @ [r])"

lemma table_step_refl: "table_step key check step t t"
  using row_update [of t id step key check] by simp

lemma table_step_update_where:
  "(\<And>r. r \<in> set t \<Longrightarrow> P r \<Longrightarrow> step r (f r)) \<Longrightarrow> table_step key check step t (update_where P f t)"
  unfolding update_where_def by (rule row_update) auto

text \<open>
  The contract of a table: a step keeps the key and the check of a row. Every reachable table
  then satisfies its constraints, and every row of a table has a successor along the steps in
  each later table.
\<close>

locale checked_table =
  fixes key :: "'r \<Rightarrow> 'k" and check :: "'r \<Rightarrow> bool" and step :: "'r \<Rightarrow> 'r \<Rightarrow> bool"
  assumes step_key: "step r s \<Longrightarrow> key s = key r"
    and step_check: "step r s \<Longrightarrow> check r \<Longrightarrow> check s"
begin

lemma table_step_ok:
  assumes "table_step key check step t u" and "table_ok key check t"
  shows "table_ok key check u"
  using assms
proof (cases rule: table_step.cases)
  case (row_update f)
  then have k: "\<And>r. r \<in> set t \<Longrightarrow> key (f r) = key r" using step_key by metis
  then have "map key u = map key t" using row_update(1) by simp
  then have "distinct (map key u)" using assms(2) by (simp only: table_ok_def)
  moreover have "\<And>r. r \<in> set t \<Longrightarrow> check r \<Longrightarrow> check (f r)" using row_update(2) step_check by metis
  ultimately show ?thesis using assms(2) row_update(1) by (auto simp: table_ok_def list_all_iff)
qed (use assms(2) in \<open>auto simp: table_ok_def\<close>)

lemma reachable_ok:
  "(table_step key check step)\<^sup>*\<^sup>* t u \<Longrightarrow> table_ok key check t \<Longrightarrow> table_ok key check u"
  by (induction rule: rtranclp_induct) (auto intro: table_step_ok)

lemma table_step_row:
  assumes "table_step key check step t u" and "r \<in> set t"
  shows "\<exists>s\<in>set u. key s = key r \<and> step\<^sup>*\<^sup>* r s"
  using assms
proof (cases rule: table_step.cases)
  case (row_update f)
  then have "f r \<in> set u" "f r = r \<or> step r (f r)" using assms(2) by auto
  then show ?thesis using step_key by (metis rtranclp.simps r_into_rtranclp)
qed (use assms(2) in auto)

lemma row_history:
  "(table_step key check step)\<^sup>*\<^sup>* t u \<Longrightarrow> r \<in> set t \<Longrightarrow> \<exists>s\<in>set u. key s = key r \<and> step\<^sup>*\<^sup>* r s"
proof (induction rule: rtranclp_induct)
  case base
  then show ?case by blast
next
  case (step y z)
  then obtain s where "s \<in> set y" "key s = key r" "step\<^sup>*\<^sup>* r s" by blast
  with table_step_row [OF step.hyps(2), of s] show ?case by (metis rtranclp_trans)
qed

text \<open>A property of rows that every step keeps holds for the row's successors: final states.\<close>

lemma row_stays:
  assumes "\<And>x y. step x y \<Longrightarrow> P x \<Longrightarrow> P y"
    and "(table_step key check step)\<^sup>*\<^sup>* t u" and "table_ok key check t" and "r \<in> set t" and "P r"
    and "s \<in> set u" and "key s = key r"
  shows "P s \<and> step\<^sup>*\<^sup>* r s"
proof -
  obtain x where x: "x \<in> set u" "key x = key r" "step\<^sup>*\<^sup>* r x"
    using row_history [OF assms(2,4)] by blast
  have "s = x"
    using table_ok_key [OF reachable_ok [OF assms(2,3)]] assms(6,7) x by metis
  moreover from x(3) assms(5) have "P x"
    by (induction rule: rtranclp_induct) (auto intro: assms(1))
  ultimately show ?thesis using x by simp
qed

end

end
