(* ===== verification/Job_Queue.thy ===== *)
theory Job_Queue
  imports Jobs Tables
begin

text \<open>
  The durable queue of \<open>crates/persistence/src/jobs.rs\<close> with the transition helpers of
  \<open>settlement.rs\<close> and the queue-only family of \<open>cleanup.rs\<close>: enqueue, claim, heartbeat, complete,
  settle and stale-lease recovery over the rows of \<open>queue.jobs\<close>. An operation takes the table and
  returns the new table with its result; a transaction that fails returns no table, and its
  caller keeps the old one. \<open>job_step\<close> is the relation a row moves along, \<open>job_inv\<close> what the
  schema checks of a row and the bounds of its attempt counter.
\<close>

section \<open>Rows and errors\<close>

record 'v job_row =
  jr_id :: uuid
  jr_kind :: ustring
  jr_payload :: 'v
  jr_state :: ustring
  jr_priority :: int
  jr_run_at :: timestamp
  jr_attempt_count :: int
  jr_max_attempts :: int
  jr_lease_token :: "uuid option"
  jr_lease_owner :: "ustring option"
  jr_lease_expires_at :: "timestamp option"
  jr_last_heartbeat_at :: "timestamp option"
  jr_error_class :: "ustring option"
  jr_error_message :: "ustring option"
  jr_dedupe_key :: "ustring option"
  jr_created_at :: timestamp
  jr_updated_at :: timestamp
  jr_completed_at :: "timestamp option"

type_synonym 'v job_table = "'v job_row list"

datatype job_repository_error =
    InvalidCount
  | InvalidMaxAttempts
  | InvalidLeaseDuration
  | LeaseLost
  | UnknownJobType ustring
  | UnknownJobStatus ustring
  | InvalidPayload job_payload_error
  | JobDatabase

definition into_job :: "'v payload_codec \<Rightarrow> 'v job_row \<Rightarrow> job_repository_error + job" where
  "into_job codec row =
     rbind (map_err UnknownJobType (job_type_try_from (jr_kind row))) (\<lambda>kind.
     rbind (map_err InvalidPayload (from_payload codec kind (jr_payload row))) (\<lambda>command.
     rbind (map_err UnknownJobStatus (job_status_try_from (jr_state row))) (\<lambda>status.
       Inr \<lparr>job_id = jr_id row, job_command = command, job_status = status,
            job_priority = jr_priority row, job_run_at = jr_run_at row,
            job_attempt_count = jr_attempt_count row, job_max_attempts = jr_max_attempts row,
            job_lease_token = jr_lease_token row, job_lease_owner = jr_lease_owner row,
            job_lease_expires_at = jr_lease_expires_at row,
            job_last_heartbeat_at = jr_last_heartbeat_at row,
            job_last_error_class = jr_error_class row, job_last_error_message = jr_error_message row,
            job_dedupe_key = jr_dedupe_key row, job_created_at = jr_created_at row,
            job_updated_at = jr_updated_at row, job_completed_at = jr_completed_at row\<rparr>)))"

section \<open>Settlements\<close>

datatype job_settlement =
    Retry timestamp ustring ustring bool
  | Defer timestamp ustring ustring bool
  | Fail ustring ustring

definition settlement_retry :: "timestamp \<Rightarrow> ustring \<Rightarrow> ustring \<Rightarrow> job_settlement" where
  "settlement_retry run_at error_class error_message = Retry run_at error_class error_message False"

definition retry_without_consuming_attempt :: "timestamp \<Rightarrow> ustring \<Rightarrow> ustring \<Rightarrow> job_settlement" where
  "retry_without_consuming_attempt run_at error_class error_message =
     Retry run_at error_class error_message True"

definition settlement_defer :: "timestamp \<Rightarrow> ustring \<Rightarrow> ustring \<Rightarrow> job_settlement" where
  "settlement_defer run_at error_class error_message = Defer run_at error_class error_message False"

definition defer_without_consuming_attempt :: "timestamp \<Rightarrow> ustring \<Rightarrow> ustring \<Rightarrow> job_settlement" where
  "defer_without_consuming_attempt run_at error_class error_message =
     Defer run_at error_class error_message True"

definition settlement_fail :: "ustring \<Rightarrow> ustring \<Rightarrow> job_settlement" where
  "settlement_fail error_class error_message = Fail error_class error_message"

fun allows_expired_lease :: "job_settlement \<Rightarrow> bool" where
  "allows_expired_lease (Retry _ _ _ non_consuming) = non_consuming"
| "allows_expired_lease (Defer _ _ _ non_consuming) = non_consuming"
| "allows_expired_lease (Fail _ _) = False"

fun settlement_error_class :: "job_settlement \<Rightarrow> ustring option" where
  "settlement_error_class (Retry _ error_class _ _) = Some error_class"
| "settlement_error_class (Defer _ error_class _ _) = Some error_class"
| "settlement_error_class (Fail error_class _) = Some error_class"

section \<open>Enqueue\<close>

text \<open>The row of the \<open>INSERT\<close>, with the defaults of the schema.\<close>

definition inserted_job :: "'v payload_codec \<Rightarrow> db_env \<Rightarrow> new_job \<Rightarrow> 'v job_row" where
  "inserted_job codec env new_job =
     \<lparr>jr_id = env_uuid env, jr_kind = job_type_as_str (new_job_type new_job),
      jr_payload = payload_json codec (nj_command new_job), jr_state = lit ''queued'',
      jr_priority = nj_priority new_job,
      jr_run_at = (case nj_run_at new_job of None \<Rightarrow> env_now env | Some run_at \<Rightarrow> run_at),
      jr_attempt_count = 0, jr_max_attempts = nj_max_attempts new_job,
      jr_lease_token = None, jr_lease_owner = None, jr_lease_expires_at = None,
      jr_last_heartbeat_at = None, jr_error_class = None, jr_error_message = None,
      jr_dedupe_key = nj_dedupe_key new_job, jr_created_at = env_now env,
      jr_updated_at = env_now env, jr_completed_at = None\<rparr>"

text \<open>The primary key and the unique index on \<open>dedupe_key\<close>.\<close>

definition id_conflict :: "'v job_table \<Rightarrow> 'v job_row \<Rightarrow> bool" where
  "id_conflict t row \<longleftrightarrow> list_ex (\<lambda>r. jr_id r = jr_id row) t"

definition dedupe_conflict :: "'v job_table \<Rightarrow> 'v job_row \<Rightarrow> bool" where
  "dedupe_conflict t row \<longleftrightarrow>
     jr_dedupe_key row \<noteq> None \<and> list_ex (\<lambda>r. jr_dedupe_key r = jr_dedupe_key row) t"

definition enqueue ::
  "'v payload_codec \<Rightarrow> db_env \<Rightarrow> new_job \<Rightarrow> 'v job_table \<Rightarrow> 'v job_table \<times> (job_repository_error + job)" where
  "enqueue codec env new_job t =
     (if nj_max_attempts new_job \<le> 0 then (t, Inl InvalidMaxAttempts)
      else let row = inserted_job codec env new_job in
           if id_conflict t row \<or> dedupe_conflict t row then (t, Inl JobDatabase)
           else (t @ [row], into_job codec row))"

section \<open>Claim, heartbeat, complete\<close>

text \<open>\<open>lease_seconds\<close> with the product of the \<open>double precision\<close> value and one second: the
  conversion is \<open>env_interval\<close>; a duration is its number of nanoseconds.\<close>

definition lease_seconds :: "db_env \<Rightarrow> nat \<Rightarrow> job_repository_error + int" where
  "lease_seconds env duration =
     (if duration = 0 then Inl InvalidLeaseDuration else Inr (env_interval env duration))"

definition claim_candidate :: "db_env \<Rightarrow> job_type list \<Rightarrow> 'v job_row \<Rightarrow> bool" where
  "claim_candidate env capabilities r \<longleftrightarrow>
     jr_state r = lit ''queued'' \<and> jr_run_at r \<le> env_now env \<and>
     jr_attempt_count r < jr_max_attempts r \<and>
     jr_kind r \<in> set (map job_type_as_str capabilities)"

text \<open>\<open>FOR UPDATE SKIP LOCKED\<close> passes over the rows other transactions hold.\<close>

definition claim_due :: "db_env \<Rightarrow> job_type list \<Rightarrow> 'v job_row \<Rightarrow> bool" where
  "claim_due env capabilities r \<longleftrightarrow> claim_candidate env capabilities r \<and> \<not> env_locked env (jr_id r)"

definition claim_order :: "'v job_row \<Rightarrow> int \<times> timestamp \<times> timestamp \<times> uuid" where
  "claim_order r = (- jr_priority r, jr_run_at r, jr_created_at r, jr_id r)"

definition claimed_row :: "db_env \<Rightarrow> ustring \<Rightarrow> int \<Rightarrow> 'v job_row \<Rightarrow> 'v job_row" where
  "claimed_row env worker_id lease_length r =
     r\<lparr>jr_state := lit ''running'', jr_lease_token := Some (env_uuid env),
       jr_lease_owner := Some worker_id, jr_lease_expires_at := Some (env_now env + lease_length),
       jr_last_heartbeat_at := Some (env_now env), jr_attempt_count := jr_attempt_count r + 1,
       jr_updated_at := env_now env\<rparr>"

definition claim_next ::
  "'v payload_codec \<Rightarrow> db_env \<Rightarrow> ustring \<Rightarrow> nat \<Rightarrow> job_type list \<Rightarrow> 'v job_table \<Rightarrow>
   'v job_table \<times> (job_repository_error + job option)" where
  "claim_next codec env worker_id lease_duration capabilities t =
     (case lease_seconds env lease_duration of
        Inl e \<Rightarrow> (t, Inl e)
      | Inr lease_length \<Rightarrow>
          (case select_first claim_order (claim_due env capabilities) t of
             None \<Rightarrow> (t, Inr None)
           | Some candidate \<Rightarrow>
               let row = claimed_row env worker_id lease_length candidate
               in (update_where (\<lambda>r. jr_id r = jr_id candidate)
                     (claimed_row env worker_id lease_length) t,
                   map_ok Some (into_job codec row))))"

definition holds_lease :: "db_env \<Rightarrow> job_lease \<Rightarrow> 'v job_row \<Rightarrow> bool" where
  "holds_lease env lease r \<longleftrightarrow>
     jr_id r = jl_job_id lease \<and> jr_state r = lit ''running'' \<and>
     jr_lease_owner r = Some (jl_lease_owner lease) \<and> jr_lease_token r = Some (jl_lease_token lease) \<and>
     after_null (jr_lease_expires_at r) (env_now env)"

definition heartbeat_row :: "db_env \<Rightarrow> int \<Rightarrow> 'v job_row \<Rightarrow> 'v job_row" where
  "heartbeat_row env lease_length r =
     r\<lparr>jr_lease_expires_at := Some (env_now env + lease_length),
       jr_last_heartbeat_at := Some (env_now env), jr_updated_at := env_now env\<rparr>"

definition heartbeat_lease ::
  "'v payload_codec \<Rightarrow> db_env \<Rightarrow> job_lease \<Rightarrow> nat \<Rightarrow> 'v job_table \<Rightarrow>
   'v job_table \<times> (job_repository_error + job)" where
  "heartbeat_lease codec env lease lease_duration t =
     (case lease_seconds env lease_duration of
        Inl e \<Rightarrow> (t, Inl e)
      | Inr lease_length \<Rightarrow>
          (let f = heartbeat_row env lease_length
           in (update_where (holds_lease env lease) f t,
               rbind (ok_or (fetch_optional (returning (holds_lease env lease) f t)) LeaseLost)
                     (into_job codec))))"

definition succeeded_row :: "db_env \<Rightarrow> 'v job_row \<Rightarrow> 'v job_row" where
  "succeeded_row env r =
     r\<lparr>jr_state := lit ''succeeded'', jr_lease_token := None, jr_lease_owner := None,
       jr_lease_expires_at := None, jr_last_heartbeat_at := None,
       jr_completed_at := Some (env_now env), jr_updated_at := env_now env\<rparr>"

definition complete_lease ::
  "'v payload_codec \<Rightarrow> db_env \<Rightarrow> job_lease \<Rightarrow> 'v job_table \<Rightarrow> 'v job_table \<times> (job_repository_error + job)" where
  "complete_lease codec env lease t =
     (let t' = update_where (holds_lease env lease) (succeeded_row env) t in
      case fetch_optional (returning (holds_lease env lease) (succeeded_row env) t) of
        Some row \<Rightarrow> (t', into_job codec row)
      | None \<Rightarrow>
          (case select_one (\<lambda>r. jr_id r = jl_job_id lease \<and> jr_state r = lit ''succeeded'' \<and>
                                 jr_attempt_count r = jl_attempt_number lease) t' of
             None \<Rightarrow> (t', Inl LeaseLost)
           | Some row \<Rightarrow> (t', into_job codec row)))"

definition live_job_ids :: "'v job_table \<Rightarrow> uuid list" where
  "live_job_ids t = map jr_id (filter (\<lambda>r. jr_state r = lit ''running'') t)"

text \<open>\<open>count(*)\<close> is an \<open>i64\<close>; a table has fewer than \<open>2 ^ 63\<close> rows, so the conversion to \<open>u64\<close>
  is exact and \<open>InvalidCount\<close> cannot occur.\<close>

definition count_technical_jobs :: "'v job_table \<Rightarrow> job_counts" where
  "count_technical_jobs t =
     (let technical = filter (\<lambda>r. jr_kind r \<notin> {lit ''publish_post'', lit ''materialize_publication''}) t
      in \<lparr>queued_count = word_of_nat (length (filter (\<lambda>r. jr_state r = lit ''queued'') technical)),
          running_count = word_of_nat (length (filter (\<lambda>r. jr_state r = lit ''running'') technical))\<rparr>)"

section \<open>Settle\<close>

definition lease_matches_job :: "job \<Rightarrow> job_lease \<Rightarrow> bool" where
  "lease_matches_job j lease \<longleftrightarrow>
     job_status j = JobRunning \<and> job_id j = jl_job_id lease \<and>
     job_attempt_count j = jl_attempt_number lease \<and>
     job_lease_owner j = Some (jl_lease_owner lease) \<and>
     job_lease_token j = Some (jl_lease_token lease)"

definition commands_have_same_owner :: "job_command \<Rightarrow> job_command \<Rightarrow> bool" where
  "commands_have_same_owner expected actual =
     (case expected of
        InspectSource e \<Rightarrow> (case actual of InspectSource a \<Rightarrow> isp_ingest_id e = isp_ingest_id a | _ \<Rightarrow> False)
      | DownloadSource e \<Rightarrow> (case actual of DownloadSource a \<Rightarrow> dsp_ingest_id e = dsp_ingest_id a | _ \<Rightarrow> False)
      | ProbeAsset e \<Rightarrow> (case actual of ProbeAsset a \<Rightarrow> ijp_ingest_id e = ijp_ingest_id a | _ \<Rightarrow> False)
      | NormalizeAsset e \<Rightarrow> (case actual of NormalizeAsset a \<Rightarrow> ijp_ingest_id e = ijp_ingest_id a | _ \<Rightarrow> False)
      | ComputeFingerprint e \<Rightarrow> (case actual of ComputeFingerprint a \<Rightarrow> ijp_ingest_id e = ijp_ingest_id a | _ \<Rightarrow> False)
      | FinalizeIngest e \<Rightarrow> (case actual of FinalizeIngest a \<Rightarrow> ijp_ingest_id e = ijp_ingest_id a | _ \<Rightarrow> False)
      | MaterializePublication e \<Rightarrow> (case actual of MaterializePublication a \<Rightarrow> mpp_ingest_id e = mpp_ingest_id a | _ \<Rightarrow> False)
      | UploadStorageAsset e \<Rightarrow> (case actual of UploadStorageAsset a \<Rightarrow> mjp_media_id e = mjp_media_id a \<and> mjp_generation e = mjp_generation a | _ \<Rightarrow> False)
      | SyncStorageCaption e \<Rightarrow> (case actual of SyncStorageCaption a \<Rightarrow> mjp_media_id e = mjp_media_id a \<and> mjp_generation e = mjp_generation a | _ \<Rightarrow> False)
      | PublishPost e \<Rightarrow> (case actual of PublishPost a \<Rightarrow> ppp_post_id e = ppp_post_id a | _ \<Rightarrow> False)
      | CleanupWorkspace e \<Rightarrow> (case actual of CleanupWorkspace a \<Rightarrow> cwp_ingest_id e = cwp_ingest_id a \<and> cwp_workspace_id e = cwp_workspace_id a | _ \<Rightarrow> False))"

definition validate_locked_command ::
  "'v payload_codec \<Rightarrow> 'v job_row \<Rightarrow> job_command \<Rightarrow> job_repository_error + job_command" where
  "validate_locked_command codec row expected =
     rbind (into_job codec row) (\<lambda>j.
       let actual = job_command j in
       if commands_have_same_owner expected actual then Inr actual else Inl LeaseLost)"

record queue_update =
  qu_state :: ustring
  qu_run_at :: timestamp
  qu_error_class :: ustring
  qu_error_message :: ustring
  qu_terminal :: bool
  qu_non_consuming :: bool

definition requeue_parameters ::
  "'v job_row \<Rightarrow> timestamp \<Rightarrow> ustring \<Rightarrow> ustring \<Rightarrow> bool \<Rightarrow> queue_update" where
  "requeue_parameters j run_at error_class error_message non_consuming =
     (let terminal = (\<not> non_consuming \<and> jr_attempt_count j \<ge> jr_max_attempts j) in
      \<lparr>qu_state = (if terminal then lit ''failed'' else lit ''queued''),
       qu_run_at = (if terminal then jr_run_at j else run_at),
       qu_error_class = error_class, qu_error_message = error_message,
       qu_terminal = terminal, qu_non_consuming = non_consuming\<rparr>)"

fun queue_parameters :: "'v job_row \<Rightarrow> job_settlement \<Rightarrow> queue_update" where
  "queue_parameters j (Retry run_at error_class error_message non_consuming) =
     requeue_parameters j run_at error_class error_message non_consuming"
| "queue_parameters j (Defer run_at error_class error_message non_consuming) =
     requeue_parameters j run_at error_class error_message non_consuming"
| "queue_parameters j (Fail error_class error_message) =
     \<lparr>qu_state = lit ''failed'', qu_run_at = jr_run_at j, qu_error_class = error_class,
      qu_error_message = error_message, qu_terminal = True, qu_non_consuming = False\<rparr>"

definition locks_running_job :: "db_env \<Rightarrow> job_lease \<Rightarrow> bool \<Rightarrow> 'v job_row \<Rightarrow> bool" where
  "locks_running_job env lease allow_expired r \<longleftrightarrow>
     jr_id r = jl_job_id lease \<and> jr_state r = lit ''running'' \<and>
     jr_attempt_count r = jl_attempt_number lease \<and>
     jr_lease_owner r = Some (jl_lease_owner lease) \<and> jr_lease_token r = Some (jl_lease_token lease) \<and>
     (allow_expired \<or> after_null (jr_lease_expires_at r) (env_clock env))"

definition lock_running_job ::
  "db_env \<Rightarrow> job_lease \<Rightarrow> bool \<Rightarrow> 'v job_table \<Rightarrow> job_repository_error + 'v job_row" where
  "lock_running_job env lease allow_expired t =
     ok_or (select_one (locks_running_job env lease allow_expired) t) LeaseLost"

definition settled_row :: "db_env \<Rightarrow> queue_update \<Rightarrow> 'v job_row \<Rightarrow> 'v job_row" where
  "settled_row env update r =
     r\<lparr>jr_state := qu_state update,
       jr_attempt_count := (if qu_non_consuming update then max (jr_attempt_count r - 1) 0
                            else jr_attempt_count r),
       jr_run_at := qu_run_at update, jr_lease_token := None, jr_lease_owner := None,
       jr_lease_expires_at := None, jr_last_heartbeat_at := None,
       jr_error_class := Some (qu_error_class update), jr_error_message := Some (qu_error_message update),
       jr_completed_at := (if qu_terminal update then Some (env_now env) else None),
       jr_updated_at := env_now env\<rparr>"

definition update_locked_job ::
  "db_env \<Rightarrow> uuid \<Rightarrow> queue_update \<Rightarrow> 'v job_table \<Rightarrow> job_repository_error + 'v job_table \<times> 'v job_row" where
  "update_locked_job env jid update t =
     (let P = (\<lambda>r. jr_id r = jid \<and> jr_state r = lit ''running'') in
      map_ok (\<lambda>row. (update_where P (settled_row env update) t, row))
        (ok_or (fetch_optional (returning P (settled_row env update) t)) JobDatabase))"

definition settle_queue_in_transaction ::
  "'v payload_codec \<Rightarrow> db_env \<Rightarrow> job_lease \<Rightarrow> job_command \<Rightarrow> job_settlement \<Rightarrow> 'v job_table \<Rightarrow>
   job_repository_error + 'v job_table \<times> 'v job_row" where
  "settle_queue_in_transaction codec env lease expected settlement t =
     rbind (lock_running_job env lease (allows_expired_lease settlement) t) (\<lambda>j.
     rbind (validate_locked_command codec j expected) (\<lambda>_.
       update_locked_job env (jr_id j) (queue_parameters j settlement) t))"

definition load_already_requeued ::
  "'v payload_codec \<Rightarrow> job_lease \<Rightarrow> job_settlement \<Rightarrow> job_command \<Rightarrow> 'v job_table \<Rightarrow>
   job_repository_error + job" where
  "load_already_requeued codec lease settlement expected t =
     rbind (ok_or (settlement_error_class settlement) LeaseLost) (\<lambda>error_class.
     rbind (rbind (ok_or (select_one (\<lambda>r. jr_id r = jl_job_id lease \<and> jr_state r = lit ''queued'' \<and>
                                  jr_error_class r = Some error_class) t) LeaseLost)
            (into_job codec)) (\<lambda>j.
       if commands_have_same_owner expected (job_command j) then Inr j else Inl LeaseLost))"

section \<open>Recovery\<close>

definition lock_expired_job :: "db_env \<Rightarrow> uuid \<Rightarrow> 'v job_table \<Rightarrow> 'v job_row option" where
  "lock_expired_job env jid t =
     select_one (\<lambda>r. jr_id r = jid \<and> jr_state r = lit ''running'' \<and>
                     not_after_null (jr_lease_expires_at r) (env_clock env)) t"

definition recovery_update :: "db_env \<Rightarrow> 'v job_row \<Rightarrow> queue_update" where
  "recovery_update env j =
     (let terminal = (jr_attempt_count j \<ge> jr_max_attempts j) in
      \<lparr>qu_state = (if terminal then lit ''failed'' else lit ''queued''),
       qu_run_at = env_utc env,
       qu_error_class = unwrap_or (jr_error_class j) (lit ''lease_expired''),
       qu_error_message = unwrap_or (jr_error_message j) (lit ''job lease expired''),
       qu_terminal = terminal, qu_non_consuming = False\<rparr>)"

definition recover_queue_only_in_transaction ::
  "'v payload_codec \<Rightarrow> db_env \<Rightarrow> uuid \<Rightarrow> job_command \<Rightarrow> 'v job_table \<Rightarrow>
   job_repository_error + ('v job_table \<times> 'v job_row) option" where
  "recover_queue_only_in_transaction codec env jid expected t =
     (case lock_expired_job env jid t of
        None \<Rightarrow> Inr None
      | Some j \<Rightarrow>
          rbind (validate_locked_command codec j expected) (\<lambda>_.
            map_ok Some (update_locked_job env (jr_id j) (recovery_update env j) t)))"

definition recover_queue_only_untyped ::
  "db_env \<Rightarrow> uuid \<Rightarrow> 'v job_table \<Rightarrow> 'v job_table \<times> (job_repository_error + bool)" where
  "recover_queue_only_untyped env jid t =
     (case lock_expired_job env jid t of
        None \<Rightarrow> (t, Inr False)
      | Some j \<Rightarrow>
          (case update_locked_job env (jr_id j) (recovery_update env j) t of
             Inl e \<Rightarrow> (t, Inl e)
           | Inr (t', _) \<Rightarrow> (t', Inr True)))"

section \<open>The cleanup family\<close>

fun is_cleanup :: "job_command \<Rightarrow> bool" where
  "is_cleanup (CleanupWorkspace _) = True"
| "is_cleanup _ = False"

definition cleanup_settle_job ::
  "'v payload_codec \<Rightarrow> db_env \<Rightarrow> job_lease \<Rightarrow> job_command \<Rightarrow> job_settlement \<Rightarrow> 'v job_table \<Rightarrow>
   'v job_table \<times> (job_repository_error + job)" where
  "cleanup_settle_job codec env lease expected settlement t =
     (if \<not> is_cleanup expected then (t, Inl LeaseLost)
      else case settle_queue_in_transaction codec env lease expected settlement t of
        Inl e \<Rightarrow> (t, Inl e)
      | Inr (t', row) \<Rightarrow> (t', into_job codec row))"

definition cleanup_recover_job ::
  "'v payload_codec \<Rightarrow> db_env \<Rightarrow> uuid \<Rightarrow> job_command \<Rightarrow> 'v job_table \<Rightarrow>
   'v job_table \<times> (job_repository_error + bool)" where
  "cleanup_recover_job codec env jid expected t =
     (if \<not> is_cleanup expected then (t, Inl LeaseLost)
      else case recover_queue_only_in_transaction codec env jid expected t of
        Inl e \<Rightarrow> (t, Inl e)
      | Inr None \<Rightarrow> (t, Inr False)
      | Inr (Some (t', _)) \<Rightarrow> (t', Inr True))"

text \<open>\<open>enqueue_workspace_cleanup\<close>: an \<open>INSERT ... ON CONFLICT DO NOTHING\<close> under the dedupe key of
  the workspace generation; the text form of a UUID is an argument.\<close>

definition workspace_cleanup_job :: "(uuid \<Rightarrow> ustring) \<Rightarrow> uuid \<Rightarrow> uuid \<Rightarrow> timestamp \<Rightarrow> new_job" where
  "workspace_cleanup_job uuid_text ingest_id workspace_id run_at =
     with_dedupe_key (lit ''ingest:'' @ uuid_text ingest_id @ lit '':cleanup_workspace:v1:'' @ uuid_text workspace_id)
       (with_run_at run_at (new_cleanup_workspace ingest_id workspace_id))"

definition enqueue_workspace_cleanup ::
  "'v payload_codec \<Rightarrow> (uuid \<Rightarrow> ustring) \<Rightarrow> db_env \<Rightarrow> uuid \<Rightarrow> uuid \<Rightarrow> timestamp \<Rightarrow> 'v job_table \<Rightarrow>
   job_repository_error + 'v job_table" where
  "enqueue_workspace_cleanup codec uuid_text env ingest_id workspace_id run_at t =
     (let row = inserted_job codec env (workspace_cleanup_job uuid_text ingest_id workspace_id run_at) in
      if dedupe_conflict t row then Inr t
      else if id_conflict t row then Inl JobDatabase
      else Inr (t @ [row]))"

section \<open>The life of a row\<close>

definition job_inv :: "'v job_row \<Rightarrow> bool" where
  "job_inv r \<longleftrightarrow>
     jr_kind r \<in> range job_type_as_str \<and> jr_state r \<in> range job_status_as_str \<and>
     0 \<le> jr_attempt_count r \<and> jr_attempt_count r \<le> jr_max_attempts r \<and> 0 < jr_max_attempts r \<and>
     (jr_state r = lit ''running'' \<longrightarrow> 1 \<le> jr_attempt_count r) \<and>
     (jr_state r = lit ''queued'' \<longrightarrow> jr_attempt_count r < jr_max_attempts r) \<and>
     (jr_completed_at r = None \<longleftrightarrow> jr_state r \<in> {lit ''queued'', lit ''running''}) \<and>
     (if jr_state r = lit ''running''
      then jr_lease_token r \<noteq> None \<and> jr_lease_owner r \<noteq> None \<and> jr_lease_expires_at r \<noteq> None \<and>
           jr_last_heartbeat_at r \<noteq> None
      else jr_lease_token r = None \<and> jr_lease_owner r = None \<and> jr_lease_expires_at r = None \<and>
           jr_last_heartbeat_at r = None)"

inductive job_step :: "'v job_row \<Rightarrow> 'v job_row \<Rightarrow> bool" where
  claim_step: "claim_candidate env capabilities r \<Longrightarrow> job_step r (claimed_row env worker n r)"
| heartbeat_step: "holds_lease env lease r \<Longrightarrow> job_step r (heartbeat_row env n r)"
| complete_step: "holds_lease env lease r \<Longrightarrow> job_step r (succeeded_row env r)"
| settle_step: "locks_running_job env lease (allows_expired_lease s) r \<Longrightarrow>
    job_step r (settled_row env (queue_parameters r s) r)"
| recover_step: "jr_state r = lit ''running'' \<Longrightarrow> not_after_null (jr_lease_expires_at r) (env_clock env) \<Longrightarrow>
    job_step r (settled_row env (recovery_update env r) r)"

inductive_simps job_step_simps: "job_step r s"

lemmas job_row_defs =
  claimed_row_def heartbeat_row_def succeeded_row_def settled_row_def recovery_update_def
  requeue_parameters_def Let_def

lemmas job_guard_defs = claim_candidate_def holds_lease_def locks_running_job_def

lemma range_status [simp]:
  "lit ''queued'' \<in> range job_status_as_str" "lit ''running'' \<in> range job_status_as_str"
  "lit ''succeeded'' \<in> range job_status_as_str" "lit ''failed'' \<in> range job_status_as_str"
  "lit ''cancelled'' \<in> range job_status_as_str"
  using job_status_as_str.simps by (metis rangeI)+

lemma settled_inv:
  assumes "job_inv r" and "jr_state r = lit ''running''"
    and "qu_state u = (if qu_terminal u then lit ''failed'' else lit ''queued'')"
    and "\<not> qu_terminal u \<Longrightarrow> qu_non_consuming u \<or> jr_attempt_count r < jr_max_attempts r"
  shows "job_inv (settled_row env u r)"
  using assms by (auto simp: job_inv_def settled_row_def)

lemma queue_parameters_state:
  "qu_state (queue_parameters r s) =
     (if qu_terminal (queue_parameters r s) then lit ''failed'' else lit ''queued'')"
  by (cases s) (simp_all add: requeue_parameters_def Let_def)

lemma queue_parameters_open:
  "\<not> qu_terminal (queue_parameters r s) \<Longrightarrow>
     qu_non_consuming (queue_parameters r s) \<or> jr_attempt_count r < jr_max_attempts r"
  by (cases s) (auto simp: requeue_parameters_def Let_def)

lemma job_step_id: "job_step r s \<Longrightarrow> jr_id s = jr_id r"
  by (auto simp: job_step_simps job_row_defs)

lemma job_step_inv: "job_step r s \<Longrightarrow> job_inv r \<Longrightarrow> job_inv s"
proof (induction rule: job_step.induct)
  case (claim_step env capabilities r worker n)
  then show ?case by (auto simp: job_inv_def claim_candidate_def claimed_row_def)
next
  case (settle_step env lease s r)
  then have "jr_state r = lit ''running''" by (simp add: locks_running_job_def)
  with settle_step.prems show ?case
    by (rule settled_inv) (rule queue_parameters_state, rule queue_parameters_open)
next
  case (recover_step r env)
  then show ?case by (intro settled_inv) (auto simp: recovery_update_def Let_def)
qed (auto simp: job_inv_def holds_lease_def heartbeat_row_def succeeded_row_def)

text \<open>A row whose stored type and payload decode.\<close>

definition payload_ok :: "'v payload_codec \<Rightarrow> 'v job_row \<Rightarrow> bool" where
  "payload_ok codec r \<longleftrightarrow>
     (\<exists>kind c. job_type_try_from (jr_kind r) = Inr kind \<and> from_payload codec kind (jr_payload r) = Inr c)"

lemma job_step_payload: "job_step r s \<Longrightarrow> jr_kind s = jr_kind r \<and> jr_payload s = jr_payload r"
  by (auto simp: job_step_simps job_row_defs)

lemma job_step_payload_ok: "job_step r s \<Longrightarrow> payload_ok codec s \<longleftrightarrow> payload_ok codec r"
  using job_step_payload by (metis payload_ok_def)

definition stored_ok :: "'v payload_codec \<Rightarrow> 'v job_row \<Rightarrow> bool" where
  "stored_ok codec r \<longleftrightarrow> job_inv r \<and> payload_ok codec r"

text \<open>The queue is a table in the sense of \<open>checked_table\<close>.\<close>

interpretation queue: checked_table jr_id "stored_ok codec" job_step for codec
  by unfold_locales (auto simp: stored_ok_def job_step_payload_ok intro: job_step_id job_step_inv)

text \<open>A row never leaves \<open>succeeded\<close> or \<open>cancelled\<close>, nor \<open>failed\<close>, by a step of the queue.\<close>

definition settled_state :: "'v job_row \<Rightarrow> bool" where
  "settled_state r \<longleftrightarrow> jr_state r \<in> {lit ''succeeded'', lit ''failed'', lit ''cancelled''}"

lemma job_step_live: "job_step r s \<Longrightarrow> jr_state r \<in> {lit ''queued'', lit ''running''}"
  by (auto simp: job_step_simps job_guard_defs)

lemma job_steps_settled: "job_step\<^sup>*\<^sup>* r s \<Longrightarrow> settled_state r \<Longrightarrow> s = r"
  by (induction rule: rtranclp_induct) (auto simp: settled_state_def dest: job_step_live)

abbreviation queue_ok :: "'v payload_codec \<Rightarrow> 'v job_table \<Rightarrow> bool" where
  "queue_ok codec \<equiv> table_ok jr_id (stored_ok codec)"

abbreviation queue_change :: "'v payload_codec \<Rightarrow> 'v job_table \<Rightarrow> 'v job_table \<Rightarrow> bool" where
  "queue_change codec \<equiv> table_step jr_id (stored_ok codec) job_step"

section \<open>Operations as changes of the table\<close>

lemma queue_update_row:
  assumes "queue_ok codec t" and "r \<in> set t" and "job_step r (f r)" and "\<And>s. P s \<Longrightarrow> jr_id s = jr_id r"
  shows "queue_change codec t (update_where P f t)"
proof (rule table_step_update_where)
  fix s
  assume "s \<in> set t" "P s"
  with assms(4) have "s = r" using table_ok_key [OF assms(1) _ assms(2)] by blast
  with assms(3) show "job_step s (f s)" by simp
qed

lemma inserted_job_ok:
  "codec_laws codec \<Longrightarrow> 0 < nj_max_attempts new_job \<Longrightarrow> stored_ok codec (inserted_job codec env new_job)"
  by (simp add: stored_ok_def payload_ok_def job_inv_def inserted_job_def new_job_type_def
      job_type_enum.try_from_as_str from_payload_json)

lemma queue_insert:
  "codec_laws codec \<Longrightarrow> 0 < nj_max_attempts new_job \<Longrightarrow> \<not> id_conflict t (inserted_job codec env new_job) \<Longrightarrow>
     queue_change codec t (t @ [inserted_job codec env new_job])"
  by (rule row_insert) (auto simp: id_conflict_def list_ex_iff inserted_job_ok)

lemma enqueue_change: "codec_laws codec \<Longrightarrow> queue_change codec t (fst (enqueue codec env new_job t))"
  unfolding enqueue_def Let_def by (auto intro: table_step_refl queue_insert)

lemma enqueue_workspace_cleanup_change:
  assumes "codec_laws codec"
    and "enqueue_workspace_cleanup codec uuid_text env ingest_id workspace_id run_at t = Inr u"
  shows "queue_change codec t u"
proof -
  let ?j = "workspace_cleanup_job uuid_text ingest_id workspace_id run_at"
  have "0 < nj_max_attempts ?j"
    by (simp add: workspace_cleanup_job_def with_dedupe_key_def with_run_at_def
        new_cleanup_workspace_def new_job_new_def)
  then show ?thesis
    using assms queue_insert [of codec ?j t env]
    by (auto simp: enqueue_workspace_cleanup_def Let_def split: if_splits intro: table_step_refl)
qed

lemma claim_next_change:
  assumes "queue_ok codec t"
  shows "queue_change codec t (fst (claim_next codec env worker duration capabilities t))"
  unfolding claim_next_def Let_def using assms
  by (auto simp: claim_due_def split: sum.splits option.splits dest!: select_first_Some
      intro!: table_step_refl queue_update_row claim_step)

lemma heartbeat_lease_change: "queue_change codec t (fst (heartbeat_lease codec env lease duration t))"
  unfolding heartbeat_lease_def Let_def
  by (auto split: sum.splits intro: table_step_refl table_step_update_where heartbeat_step)

lemma complete_lease_change: "queue_change codec t (fst (complete_lease codec env lease t))"
  unfolding complete_lease_def Let_def
  by (auto split: option.splits intro: table_step_update_where complete_step)

lemma update_locked_job_Inr:
  assumes "queue_ok codec t" and "j \<in> set t" and "jr_state j = lit ''running''"
  shows "update_locked_job env (jr_id j) u t =
     Inr (update_where (\<lambda>r. jr_id r = jr_id j \<and> jr_state r = lit ''running'') (settled_row env u) t,
          settled_row env u j)"
proof -
  have "select_one (\<lambda>r. jr_id r = jr_id j \<and> jr_state r = lit ''running'') t = Some j"
    using assms by (intro select_one_key [OF assms(1)]) auto
  then show ?thesis by (simp add: update_locked_job_def Let_def returning_select_one)
qed

lemma lock_running_job_Inr:
  "lock_running_job env lease allow t = Inr j \<Longrightarrow> j \<in> set t \<and> locks_running_job env lease allow j"
  unfolding lock_running_job_def by (auto simp: result_simps dest: select_one_Some)

lemma settle_queue_Inr:
  assumes "queue_ok codec t" and "settle_queue_in_transaction codec env lease expected s t = Inr (u, row)"
  obtains j where "j \<in> set t" "locks_running_job env lease (allows_expired_lease s) j"
    "row = settled_row env (queue_parameters j s) j" "queue_change codec t u"
    "u = update_where (\<lambda>r. jr_id r = jr_id j \<and> jr_state r = lit ''running'')
           (settled_row env (queue_parameters j s)) t"
proof -
  obtain j where lock: "lock_running_job env lease (allows_expired_lease s) t = Inr j"
    and upd: "update_locked_job env (jr_id j) (queue_parameters j s) t = Inr (u, row)"
    using assms(2) by (auto simp: settle_queue_in_transaction_def result_simps)
  have j: "j \<in> set t" "locks_running_job env lease (allows_expired_lease s) j"
    using lock_running_job_Inr [OF lock] by auto
  then have run: "jr_state j = lit ''running''" by (simp add: locks_running_job_def)
  with upd update_locked_job_Inr [OF assms(1) j(1) run] have
    u: "u = update_where (\<lambda>r. jr_id r = jr_id j \<and> jr_state r = lit ''running'')
           (settled_row env (queue_parameters j s)) t" and row: "row = settled_row env (queue_parameters j s) j"
    by simp_all
  have "queue_change codec t u"
    unfolding u using assms(1) j by (intro queue_update_row [of codec t j] settle_step) auto
  from that [OF j row this u] show ?thesis .
qed

lemma lock_expired_job_Some:
  "lock_expired_job env jid t = Some j \<Longrightarrow>
     j \<in> set t \<and> jr_id j = jid \<and> jr_state j = lit ''running'' \<and>
     not_after_null (jr_lease_expires_at j) (env_clock env)"
  unfolding lock_expired_job_def by (auto dest: select_one_Some)

lemma recovery_change:
  assumes "queue_ok codec t" and "lock_expired_job env jid t = Some j"
  shows "update_locked_job env (jr_id j) (recovery_update env j) t =
      Inr (update_where (\<lambda>r. jr_id r = jid \<and> jr_state r = lit ''running'')
             (settled_row env (recovery_update env j)) t, settled_row env (recovery_update env j) j)"
    and "queue_change codec t (update_where (\<lambda>r. jr_id r = jid \<and> jr_state r = lit ''running'')
             (settled_row env (recovery_update env j)) t)"
proof -
  from lock_expired_job_Some [OF assms(2)] have j: "j \<in> set t" "jr_id j = jid"
    "jr_state j = lit ''running''" "not_after_null (jr_lease_expires_at j) (env_clock env)" by auto
  show "update_locked_job env (jr_id j) (recovery_update env j) t =
      Inr (update_where (\<lambda>r. jr_id r = jid \<and> jr_state r = lit ''running'')
             (settled_row env (recovery_update env j)) t, settled_row env (recovery_update env j) j)"
    using update_locked_job_Inr [OF assms(1) j(1,3)] j(2) by simp
  show "queue_change codec t (update_where (\<lambda>r. jr_id r = jid \<and> jr_state r = lit ''running'')
             (settled_row env (recovery_update env j)) t)"
    using assms(1) j by (intro queue_update_row [of codec t j] recover_step) auto
qed

lemma recover_untyped_change:
  "queue_ok codec t \<Longrightarrow> queue_change codec t (fst (recover_queue_only_untyped env jid t))"
  unfolding recover_queue_only_untyped_def
  using recovery_change [of codec t env jid]
  by (auto split: option.splits intro: table_step_refl)

lemma cleanup_recover_change:
  assumes "queue_ok codec t"
  shows "queue_change codec t (fst (cleanup_recover_job codec env jid expected t))"
proof (cases "lock_expired_job env jid t")
  case (Some j)
  from recovery_change [OF assms Some] show ?thesis
    by (cases "validate_locked_command codec j expected")
       (auto simp: cleanup_recover_job_def recover_queue_only_in_transaction_def Some
             intro: table_step_refl)
qed (simp add: cleanup_recover_job_def recover_queue_only_in_transaction_def table_step_refl)

lemma cleanup_settle_change:
  assumes "queue_ok codec t"
  shows "queue_change codec t (fst (cleanup_settle_job codec env lease expected s t))"
  unfolding cleanup_settle_job_def
  by (auto split: sum.splits intro: table_step_refl elim: settle_queue_Inr [OF assms])

section \<open>Runs of the queue\<close>

inductive queue_op :: "'v payload_codec \<Rightarrow> 'v job_table \<Rightarrow> 'v job_table \<Rightarrow> bool" for codec where
  op_enqueue: "queue_op codec t (fst (enqueue codec env new_job t))"
| op_claim: "queue_op codec t (fst (claim_next codec env worker duration capabilities t))"
| op_heartbeat: "queue_op codec t (fst (heartbeat_lease codec env lease duration t))"
| op_complete: "queue_op codec t (fst (complete_lease codec env lease t))"
| op_settle: "queue_op codec t (fst (cleanup_settle_job codec env lease expected s t))"
| op_recover: "queue_op codec t (fst (cleanup_recover_job codec env jid expected t))"
| op_untyped: "queue_op codec t (fst (recover_queue_only_untyped env jid t))"
| op_cleanup: "enqueue_workspace_cleanup codec uuid_text env ingest_id workspace_id run_at t = Inr u \<Longrightarrow>
    queue_op codec t u"

lemmas queue_change_intros =
  enqueue_change claim_next_change heartbeat_lease_change complete_lease_change
  cleanup_settle_change cleanup_recover_change recover_untyped_change
  enqueue_workspace_cleanup_change

lemma queue_op_change:
  "queue_op codec t u \<Longrightarrow> codec_laws codec \<Longrightarrow> queue_ok codec t \<Longrightarrow> queue_change codec t u"
  by (induction rule: queue_op.induct) (auto intro: queue_change_intros)

lemma queue_ops_change:
  assumes "codec_laws codec"
  shows "(queue_op codec)\<^sup>*\<^sup>* t u \<Longrightarrow> queue_ok codec t \<Longrightarrow> (queue_change codec)\<^sup>*\<^sup>* t u"
proof (induction rule: rtranclp_induct)
  case (step y z)
  then have "(queue_change codec)\<^sup>*\<^sup>* t y" by blast
  moreover have "queue_change codec y z"
    using step assms queue.reachable_ok queue_op_change by blast
  ultimately show ?case by (rule rtranclp.rtrancl_into_rtrancl)
qed simp

lemma stored_ok_into_job:
  assumes "stored_ok codec r"
  obtains j where "into_job codec r = Inr j"
proof -
  obtain kind c where "job_type_try_from (jr_kind r) = Inr kind"
    "from_payload codec kind (jr_payload r) = Inr c"
    using assms by (auto simp: stored_ok_def payload_ok_def)
  moreover obtain status where "job_status_try_from (jr_state r) = Inr status"
    using assms job_status_enum.try_from_as_str by (auto simp: stored_ok_def job_inv_def)
  ultimately show ?thesis using that by (simp add: into_job_def)
qed

lemma into_job_fields:
  assumes "into_job codec r = Inr j"
  shows "job_id j = jr_id r" "job_attempt_count j = jr_attempt_count r"
    "job_lease_token j = jr_lease_token r" "job_lease_owner j = jr_lease_owner r"
    "job_lease_expires_at j = jr_lease_expires_at r"
    "job_status_try_from (jr_state r) = Inr (job_status j)"
  using assms by (auto simp: into_job_def result_simps)

lemma into_job_kind:
  assumes "into_job codec r = Inr j"
  shows "jr_kind r = job_type_as_str (command_job_type (job_command j))"
proof -
  obtain kind where "job_type_try_from (jr_kind r) = Inr kind"
    and "from_payload codec kind (jr_payload r) = Inr (job_command j)"
    using assms by (auto simp: into_job_def result_simps)
  then show ?thesis using from_payload_type job_type_enum.try_from_Inr by metis
qed

text \<open>A lease a row has left.\<close>

definition off_lease :: "job_lease \<Rightarrow> 'v job_row \<Rightarrow> bool" where
  "off_lease lease r \<longleftrightarrow>
     jr_state r \<noteq> lit ''running'' \<or> jr_lease_owner r \<noteq> Some (jl_lease_owner lease) \<or>
     jr_lease_token r \<noteq> Some (jl_lease_token lease)"

lemma off_lease_none:
  assumes "queue_ok codec t" and "r \<in> set t" and "jr_id r = jl_job_id lease" and "off_lease lease r"
  shows "select_one (holds_lease env lease) t = None"
    and "select_one (locks_running_job env lease a) t = None"
    and "update_where (holds_lease env lease) f t = t"
proof -
  have key: "x = r" if "x \<in> set t" "jr_id x = jl_job_id lease" for x
    using table_ok_key [OF assms(1) that(1) assms(2)] that(2) assms(3) by simp
  have none: "\<not> holds_lease env lease x" "\<not> locks_running_job env lease a x" if "x \<in> set t" for x a
    using key [OF that] assms(4) by (auto simp: off_lease_def holds_lease_def locks_running_job_def)
  show "select_one (holds_lease env lease) t = None" "select_one (locks_running_job env lease a) t = None"
    using none by (simp_all add: select_one_None)
  show "update_where (holds_lease env lease) f t = t" using none by (intro update_where_id)
qed

lemma heartbeat_off_lease:
  assumes "queue_ok codec t" and "r \<in> set t" and "jr_id r = jl_job_id lease" and "off_lease lease r"
  shows "heartbeat_lease codec env lease (Suc n) t = (t, Inl LeaseLost)"
  by (simp add: heartbeat_lease_def lease_seconds_def Let_def returning_select_one off_lease_none [OF assms])

lemma settle_off_lease:
  assumes "queue_ok codec t" and "r \<in> set t" and "jr_id r = jl_job_id lease" and "off_lease lease r"
  shows "settle_queue_in_transaction codec env lease expected s t = Inl LeaseLost"
  by (simp add: settle_queue_in_transaction_def lock_running_job_def off_lease_none [OF assms])

lemma complete_off_lease:
  assumes "queue_ok codec t" and "r \<in> set t" and "jr_id r = jl_job_id lease" and "off_lease lease r"
  shows "complete_lease codec env lease t =
           (t, if jr_state r = lit ''succeeded'' \<and> jr_attempt_count r = jl_attempt_number lease
               then into_job codec r else Inl LeaseLost)"
proof -
  let ?fin = "\<lambda>x. jr_id x = jl_job_id lease \<and> jr_state x = lit ''succeeded'' \<and>
      jr_attempt_count x = jl_attempt_number lease"
  have "select_one ?fin t = (if ?fin r then Some r else None)"
  proof (cases "?fin r")
    case True
    then have "select_one ?fin t = Some r"
      using assms(3) by (intro select_one_key [OF assms(1,2)]) auto
    with True show ?thesis by simp
  next
    case False
    then have "\<forall>x\<in>set t. \<not> ?fin x" using table_ok_key [OF assms(1) _ assms(2)] assms(3) by metis
    then have "select_one ?fin t = None" by (simp only: select_one_None)
    with False show ?thesis by (simp only: if_False)
  qed
  then show ?thesis
    using assms(3) by (simp add: complete_lease_def Let_def returning_select_one off_lease_none [OF assms])
qed

lemma claim_next_Some:
  assumes "claim_next codec env worker duration capabilities t = (u, Inr (Some j))"
  obtains r where "r \<in> set t" "claim_due env capabilities r"
    "u = update_where (\<lambda>s. jr_id s = jr_id r) (claimed_row env worker (env_interval env duration)) t"
    "into_job codec (claimed_row env worker (env_interval env duration) r) = Inr j"
  using assms
  by (auto simp: claim_next_def lease_seconds_def Let_def result_simps
      split: if_splits option.splits dest!: select_first_Some)

lemma complete_on_lease:
  assumes "queue_ok codec t" and "r \<in> set t" and "holds_lease env lease r"
  shows "complete_lease codec env lease t =
           (update_where (holds_lease env lease) (succeeded_row env) t, into_job codec (succeeded_row env r))"
proof -
  have "select_one (holds_lease env lease) t = Some r"
    using assms by (intro select_one_key [OF assms(1,2)]) (auto simp: holds_lease_def)
  then show ?thesis by (simp add: complete_lease_def Let_def returning_select_one)
qed

section \<open>Properties\<close>

text \<open>(C2) Every table that operations of the queue can reach from an empty one has unique ids,
  satisfies the CHECK constraints of the schema, keeps every attempt counter within its maximum,
  has no queued job whose attempts are used up, and decodes: each row is a job.\<close>

theorem queue_reachable_invariant:
  assumes "codec_laws codec" and "(queue_op codec)\<^sup>*\<^sup>* [] t"
  shows "distinct (map jr_id t) \<and>
         (\<forall>r\<in>set t. job_inv r \<and> (\<exists>j. into_job codec r = Inr j \<and> job_id j = jr_id r))"
proof -
  have ok: "queue_ok codec t"
    using queue.reachable_ok [OF queue_ops_change [OF assms]] by simp
  have "job_inv r \<and> (\<exists>j. into_job codec r = Inr j \<and> job_id j = jr_id r)" if "r \<in> set t" for r
    using table_ok_check [OF ok that] stored_ok_into_job into_job_fields(1)
    by (metis stored_ok_def)
  with ok show ?thesis by (simp add: table_ok_def)
qed

text \<open>(C27) \<open>claim_next\<close> on a well-formed table with a positive lease: it reports no job exactly if
  no unlocked row is due; otherwise it claims the due unlocked row of highest priority, oldest
  first, returns that job with its lease, and leaves the table in which exactly that row is replaced by
  its running version: the row with the worker as owner, the fresh lease token, a lease that ends the given time
  from now and one more attempt.\<close>

theorem claim_next_correct:
  assumes ok: "table_ok jr_id (stored_ok codec) t" and "0 < duration"
  shows "(if \<forall>r\<in>set t. \<not> claim_due env capabilities r
          then claim_next codec env worker duration capabilities t = (t, Inr None)
          else \<exists>r\<in>set t. \<exists>j u. claim_due env capabilities r \<and> (\<forall>s\<in>set t. claim_due env capabilities s \<longrightarrow> claim_order r \<le> claim_order s) \<and>
                 claim_next codec env worker duration capabilities t = (u, Inr (Some j)) \<and>
                 job_id j = jr_id r \<and> job_status j = JobRunning \<and>
                 command_job_type (job_command j) \<in> set capabilities \<and>
                 lease_of j = Some \<lparr>jl_job_id = jr_id r, jl_attempt_number = jr_attempt_count r + 1,
                                   jl_lease_owner = worker, jl_lease_token = env_uuid env\<rparr> \<and>
                 u = map (\<lambda>s. if s = r
                              then r\<lparr>jr_state := lit ''running'', jr_lease_token := Some (env_uuid env),
                                     jr_lease_owner := Some worker,
                                     jr_lease_expires_at := Some (env_now env + env_interval env duration),
                                     jr_last_heartbeat_at := Some (env_now env),
                                     jr_attempt_count := jr_attempt_count r + 1, jr_updated_at := env_now env\<rparr>
                              else s) t)"
proof (cases "select_first claim_order (claim_due env capabilities) t")
  case None
  then have "\<forall>r\<in>set t. \<not> claim_due env capabilities r" by (simp only: select_first_None)
  then show ?thesis using assms(2) None by (simp add: claim_next_def lease_seconds_def)
next
  case (Some r)
  from select_first_Some [OF Some] have r: "r \<in> set t" "claim_due env capabilities r"
    "\<forall>s\<in>set t. claim_due env capabilities s \<longrightarrow> claim_order r \<le> claim_order s" by auto
  let ?f = "claimed_row env worker (env_interval env duration)"
  have "job_step r (?f r)" using r(2) by (auto simp: claim_due_def intro: claim_step)
  then have "stored_ok codec (?f r)" using table_ok_check [OF ok r(1)] queue.step_check by blast
  then obtain j where j: "into_job codec (?f r) = Inr j" by (rule stored_ok_into_job)
  note fields = into_job_fields [OF j]
  have "job_status j = JobRunning"
    using fields(6) job_status_enum.try_from_as_str [of JobRunning] by (simp add: claimed_row_def)
  moreover have "command_job_type (job_command j) \<in> set capabilities"
    using into_job_kind [OF j] r(2) job_type_enum.as_str_inj by (auto simp: claimed_row_def claim_due_def claim_candidate_def)
  moreover have "lease_of j = Some \<lparr>jl_job_id = jr_id r, jl_attempt_number = jr_attempt_count r + 1,
      jl_lease_owner = worker, jl_lease_token = env_uuid env\<rparr>"
    using fields by (simp add: lease_of_def claimed_row_def)
  moreover have "claim_next codec env worker duration capabilities t =
      (update_where (\<lambda>s. jr_id s = jr_id r) ?f t, Inr (Some j))"
    using assms(2) Some j by (simp add: claim_next_def lease_seconds_def Let_def)
  moreover have "update_where (\<lambda>s. jr_id s = jr_id r) ?f t = map (\<lambda>s. if s = r then ?f r else s) t"
    using table_ok_key [OF ok r(1)] unfolding update_where_def by (intro map_cong) metis+
  moreover have "job_id j = jr_id r" using fields(1) by (simp add: claimed_row_def)
  ultimately show ?thesis using r unfolding claimed_row_def by auto
qed


text \<open>(C16) Fencing: once a row has left the lease (it is no longer running, or runs under another
  owner or token), that lease neither extends, completes nor settles anything. The table stays as
  it is, and the only answer other than \<open>LeaseLost\<close> is the already succeeded job of the same attempt.\<close>

theorem stale_lease_fenced:
  assumes "table_ok jr_id (stored_ok codec) t" and "r \<in> set t" and "jr_id r = jl_job_id lease"
    and "off_lease lease r"
  shows "heartbeat_lease codec env lease (Suc n) t = (t, Inl LeaseLost) \<and>
         settle_queue_in_transaction codec env lease expected s t = Inl LeaseLost \<and>
         complete_lease codec env lease t =
           (t, if jr_state r = lit ''succeeded'' \<and> jr_attempt_count r = jl_attempt_number lease
               then into_job codec r else Inl LeaseLost)"
  using heartbeat_off_lease [OF assms] settle_off_lease [OF assms] complete_off_lease [OF assms] by simp

text \<open>A claimed job completes exactly once: with the lease returned by \<open>claim_next\<close> and before
  its expiry \<open>complete_lease\<close> succeeds, and repeating it at any later time returns the same job and
  changes nothing, while every other use of the lease is refused.\<close>

theorem claim_complete_idempotent:
  assumes ok: "table_ok jr_id (stored_ok codec) t"
    and claim: "claim_next codec env worker duration capabilities t = (t1, Inr (Some j))"
    and lease: "lease_of j = Some lease"
    and live: "env_now env2 < env_now env + env_interval env duration"
  shows "\<exists>t2 done. complete_lease codec env2 lease t1 = (t2, Inr done) \<and> job_status done = JobSucceeded \<and>
           job_id done = job_id j \<and>
           (\<forall>env3 n expected s. complete_lease codec env3 lease t2 = (t2, Inr done) \<and>
                   heartbeat_lease codec env3 lease (Suc n) t2 = (t2, Inl LeaseLost) \<and>
                   settle_queue_in_transaction codec env3 lease expected s t2 = Inl LeaseLost)"
proof -
  obtain r where r: "r \<in> set t" "claim_due env capabilities r"
    and t1: "t1 = update_where (\<lambda>s. jr_id s = jr_id r) (claimed_row env worker (env_interval env duration)) t"
    and j: "into_job codec (claimed_row env worker (env_interval env duration) r) = Inr j"
    using claim by (rule claim_next_Some)
  let ?r = "claimed_row env worker (env_interval env duration) r"
  have ok1: "queue_ok codec t1"
    using claim_next_change [OF ok, of env worker duration capabilities] claim queue.table_step_ok [OF _ ok]
    by simp
  have r1: "?r \<in> set t1" using r(1) by (auto simp: t1 set_update_where)
  have l: "jl_job_id lease = jr_id r" "jl_attempt_number lease = jr_attempt_count ?r"
    and hold: "holds_lease env2 lease ?r"
    using lease live into_job_fields [OF j] by (auto simp: lease_of_def holds_lease_def claimed_row_def)
  let ?d = "succeeded_row env2 ?r"
  let ?t2 = "update_where (holds_lease env2 lease) (succeeded_row env2) t1"
  have com: "complete_lease codec env2 lease t1 = (?t2, into_job codec ?d)"
    by (rule complete_on_lease [OF ok1 r1 hold])
  have ok2: "queue_ok codec ?t2"
    using queue.table_step_ok [OF complete_lease_change [of codec t1 env2 lease] ok1] com by simp
  have d2: "?d \<in> set ?t2" using r1 hold by (auto simp: set_update_where)
  have off: "jr_id ?d = jl_job_id lease" "off_lease lease ?d" "jr_state ?d = lit ''succeeded''"
    "jr_attempt_count ?d = jl_attempt_number lease"
    using l by (auto simp: off_lease_def succeeded_row_def claimed_row_def)
  obtain fin where fin: "into_job codec ?d = Inr fin"
    using table_ok_check [OF ok2 d2] by (rule stored_ok_into_job)
  have "job_status fin = JobSucceeded"
    using into_job_fields(6) [OF fin] off(3) job_status_enum.try_from_as_str [of JobSucceeded] by simp
  moreover have "job_id fin = job_id j"
    using into_job_fields(1) [OF fin] into_job_fields(1) [OF j] by (simp add: succeeded_row_def)
  moreover have "complete_lease codec env3 lease ?t2 = (?t2, Inr fin)" for env3
    using complete_off_lease [OF ok2 d2 off(1,2)] off(3,4) fin by simp
  ultimately show ?thesis
    using com fin heartbeat_off_lease [OF ok2 d2 off(1,2)] settle_off_lease [OF ok2 d2 off(1,2)] by auto
qed

text \<open>What a settlement does: it acts on the row that runs under the lease, leaves every other
  row alone and ends the lease. \<open>Fail\<close> fails the job; a retry or deferral that does not consume its
  attempt gives the attempt back and requeues it; a consuming one requeues the job while attempts
  remain and fails it otherwise, keeping its old \<open>run_at\<close>.\<close>

theorem settle_outcome:
  assumes ok: "table_ok jr_id (stored_ok codec) t"
    and settle: "settle_queue_in_transaction codec env lease expected s t = Inr (u, row)"
  shows "\<exists>r\<in>set t. jr_id r = jl_job_id lease \<and> jr_lease_token r = Some (jl_lease_token lease) \<and>
           row \<in> set u \<and> jr_id row = jr_id r \<and> off_lease lease row \<and>
           (\<forall>x. x \<in> set u \<and> jr_id x \<noteq> jr_id r \<longleftrightarrow> x \<in> set t \<and> jr_id x \<noteq> jr_id r) \<and>
           jr_error_class row = settlement_error_class s \<and>
           (let (requeued, at, attempts) =
              (case s of
                 Fail _ _ \<Rightarrow> (False, jr_run_at r, jr_attempt_count r)
               | Retry at _ _ nc \<Rightarrow>
                   if nc then (True, at, jr_attempt_count r - 1)
                   else if jr_attempt_count r < jr_max_attempts r then (True, at, jr_attempt_count r)
                   else (False, jr_run_at r, jr_attempt_count r)
               | Defer at _ _ nc \<Rightarrow>
                   if nc then (True, at, jr_attempt_count r - 1)
                   else if jr_attempt_count r < jr_max_attempts r then (True, at, jr_attempt_count r)
                   else (False, jr_run_at r, jr_attempt_count r))
            in jr_state row = (if requeued then lit ''queued'' else lit ''failed'') \<and>
               jr_run_at row = at \<and> jr_attempt_count row = attempts \<and>
               (jr_completed_at row = None \<longleftrightarrow> requeued))"
proof -
  obtain r where r: "r \<in> set t" "locks_running_job env lease (allows_expired_lease s) r"
    and row: "row = settled_row env (queue_parameters r s) r"
    and u: "u = update_where (\<lambda>x. jr_id x = jr_id r \<and> jr_state x = lit ''running'')
           (settled_row env (queue_parameters r s)) t"
    using settle by (rule settle_queue_Inr [OF ok])
  have run: "jr_state r = lit ''running''" "jr_id r = jl_job_id lease"
    "jr_lease_token r = Some (jl_lease_token lease)" using r(2) by (auto simp: locks_running_job_def)
  have pos: "1 \<le> jr_attempt_count r"
    using table_ok_check [OF ok r(1)] run(1) by (simp add: stored_ok_def job_inv_def)
  have "row \<in> set u" using r(1) run(1) by (auto simp: u row set_update_where)
  moreover have "x \<in> set u \<and> jr_id x \<noteq> jr_id r \<longleftrightarrow> x \<in> set t \<and> jr_id x \<noteq> jr_id r" for x
    by (auto simp: u set_update_where settled_row_def)
  moreover have "off_lease lease row" "jr_id row = jr_id r" "jr_error_class row = settlement_error_class s"
    by (cases s; simp add: off_lease_def row settled_row_def requeue_parameters_def Let_def)+
  ultimately show ?thesis
    using r(1) run pos
    by (intro bexI [of _ r]) (cases s; auto simp: row settled_row_def requeue_parameters_def Let_def)+
qed

text \<open>Recovery respects live leases: of the row with the given id it ends only an expired lease,
  keeping the attempt count and requeueing while attempts remain; every other row, and a row whose
  lease has not expired, stays as it is, also under the recovery of the cleanup family.\<close>

theorem recovery_respects_leases:
  assumes ok: "table_ok jr_id (stored_ok codec) t" and r: "r \<in> set t"
  shows "if jr_id r = jid \<and> jr_state r = lit ''running'' \<and>
            not_after_null (jr_lease_expires_at r) (env_clock env)
         then snd (recover_queue_only_untyped env jid t) = Inr True \<and>
              (\<exists>x\<in>set (fst (recover_queue_only_untyped env jid t)).
                 jr_id x = jid \<and> jr_lease_token x = None \<and> jr_attempt_count x = jr_attempt_count r \<and>
                 jr_state x = (if jr_attempt_count r < jr_max_attempts r then lit ''queued'' else lit ''failed''))
         else r \<in> set (fst (recover_queue_only_untyped env jid t)) \<and>
              r \<in> set (fst (cleanup_recover_job codec env jid expected t))"
proof (cases "lock_expired_job env jid t")
  case None
  then have "\<not> (jr_id r = jid \<and> jr_state r = lit ''running'' \<and>
      not_after_null (jr_lease_expires_at r) (env_clock env))"
    using r by (auto simp: lock_expired_job_def select_one_None)
  with None r show ?thesis
    by (auto simp: recover_queue_only_untyped_def cleanup_recover_job_def recover_queue_only_in_transaction_def)
next
  case (Some j)
  note j = lock_expired_job_Some [OF Some]
  note upd = recovery_change(1) [OF ok Some]
  have same: "r = j" if "jr_id r = jid" using table_ok_key [OF ok r] j that by blast
  let ?u = "update_where (\<lambda>r. jr_id r = jid \<and> jr_state r = lit ''running'')
      (settled_row env (recovery_update env j)) t"
  have un: "recover_queue_only_untyped env jid t = (?u, Inr True)"
    using Some upd by (simp add: recover_queue_only_untyped_def)
  have cl: "fst (cleanup_recover_job codec env jid expected t) \<in> {t, ?u}"
    using Some upd by (cases "validate_locked_command codec j expected")
      (auto simp: cleanup_recover_job_def recover_queue_only_in_transaction_def)
  show ?thesis
  proof (cases "jr_id r = jid")
    case True
    let ?x = "settled_row env (recovery_update env j) j"
    have x: "?x \<in> set ?u" using j by (auto simp: set_update_where)
    moreover have "jr_id ?x = jid" "jr_lease_token ?x = None" "jr_attempt_count ?x = jr_attempt_count j"
      "jr_state ?x = (if jr_attempt_count j < jr_max_attempts j then lit ''queued'' else lit ''failed'')"
      using j by (auto simp: settled_row_def recovery_update_def Let_def)
    ultimately have "\<exists>x\<in>set ?u. jr_id x = jid \<and> jr_lease_token x = None \<and>
        jr_attempt_count x = jr_attempt_count j \<and>
        jr_state x = (if jr_attempt_count j < jr_max_attempts j then lit ''queued'' else lit ''failed'')"
      by blast
    then show ?thesis using j same [OF True] un by simp
  next
    case False
    then have "r \<in> set ?u" using r by (auto simp: set_update_where)
    then show ?thesis using False un cl r by auto
  qed
qed

text \<open>A job that has succeeded, failed or been cancelled is never changed by the queue again,
  whatever sequence of operations follows.\<close>

theorem settled_jobs_final:
  assumes "codec_laws codec" and "table_ok jr_id (stored_ok codec) t" and "(queue_op codec)\<^sup>*\<^sup>* t u"
    and "r \<in> set t" and "settled_state r"
  shows "r \<in> set u"
  using queue.row_history [OF queue_ops_change [OF assms(1,3,2)] assms(4)] job_steps_settled assms(5)
  by blast

text \<open>The claims along a run of a row in which no attempt is given back.\<close>

inductive claims_along :: "'v job_row \<Rightarrow> nat \<Rightarrow> 'v job_row \<Rightarrow> bool" for r where
  claims_start: "claims_along r 0 r"
| claims_claim: "claims_along r n s \<Longrightarrow> claim_candidate env capabilities s \<Longrightarrow>
    claims_along r (Suc n) (claimed_row env worker len s)"
| claims_other: "claims_along r n s \<Longrightarrow> job_step s s' \<Longrightarrow> jr_attempt_count s' = jr_attempt_count s \<Longrightarrow>
    claims_along r n s'"

lemma claims_along_count:
  assumes "claims_along r n s" and "job_inv r"
  shows "job_inv s \<and> jr_attempt_count s = jr_attempt_count r + int n \<and> jr_max_attempts s = jr_max_attempts r"
  using assms
proof (induction rule: claims_along.induct)
  case (claims_claim n s env capabilities worker len)
  then have "job_inv s" by blast
  then have "job_inv (claimed_row env worker len s)"
    using job_step_inv [OF claim_step [OF claims_claim.hyps(2)]] by blast
  then show ?case using claims_claim by (simp add: claimed_row_def)
next
  case (claims_other n s s')
  have "jr_max_attempts s' = jr_max_attempts s"
    using claims_other.hyps(2) by (auto simp: job_step_simps job_row_defs)
  then show ?case using claims_other job_step_inv by auto
qed simp

text \<open>The attempt budget: in a run of a row that gives no attempt back, the number of times the
  row is claimed is at most the attempts it had left, so a job that keeps failing stops.\<close>

theorem attempt_budget:
  assumes "claims_along r n s" and "job_inv r"
  shows "int n \<le> jr_max_attempts r - jr_attempt_count r"
proof -
  have "jr_attempt_count s \<le> jr_max_attempts s"
    using claims_along_count [OF assms] by (simp add: job_inv_def)
  then show ?thesis using claims_along_count [OF assms] by simp
qed

section \<open>Witnesses\<close>

text \<open>One cleanup job, enqueued at time 0 under the plain codec, claimed at time 5 for 10.\<close>

definition at_time :: "timestamp \<Rightarrow> uuid \<Rightarrow> db_env" where
  "at_time now fresh =
     \<lparr>env_now = now, env_clock = now, env_utc = now, env_uuid = fresh, env_locked = (\<lambda>_. False),
      env_interval = int\<rparr>"

definition witness_row :: "plain_value job_row" where
  "witness_row = inserted_job plain_codec (at_time 0 7) (new_cleanup_workspace 1 2)"

definition witness_lease :: job_lease where
  "witness_lease = \<lparr>jl_job_id = 7, jl_attempt_number = 1, jl_lease_owner = lit ''w'', jl_lease_token = 9\<rparr>"

definition witness_running :: "plain_value job_row" where
  "witness_running = claimed_row (at_time 5 9) (lit ''w'') 10 witness_row"

lemmas witness_defs =
  witness_row_def witness_lease_def witness_running_def at_time_def inserted_job_def
  new_cleanup_workspace_def new_job_new_def new_job_type_def claimed_row_def

lemma witness_row_ok: "queue_ok plain_codec [witness_row]"
  using inserted_job_ok [OF plain_codec_laws]
  by (simp add: table_ok_def witness_row_def new_cleanup_workspace_def new_job_new_def)

lemma witness_due: "claim_due (at_time 5 9) [CleanupWorkspaceJob] witness_row"
  by (simp add: claim_due_def claim_candidate_def witness_defs)

lemma witness_running_ok: "queue_ok plain_codec [witness_running]"
proof -
  have "job_step witness_row witness_running"
    using witness_due claim_step unfolding witness_running_def claim_due_def by blast
  then show ?thesis
    using witness_row_ok queue.step_check by (auto simp: table_ok_def)
qed

lemma witness_claim:
  "claim_next plain_codec (at_time 5 9) (lit ''w'') 10 [CleanupWorkspaceJob] [witness_row] =
     ([witness_running], map_ok Some (into_job plain_codec witness_running))"
  using witness_due
  by (simp add: claim_next_def lease_seconds_def select_first_def Let_def update_where_def
      witness_running_def) (simp add: at_time_def)

theorem queue_reachable_invariant_witness: "distinct (map jr_id [witness_row]) \<and> job_inv witness_row"
proof -
  have "enqueue plain_codec (at_time 0 7) (new_cleanup_workspace 1 2) [] =
      ([witness_row], into_job plain_codec witness_row)"
    by (simp add: enqueue_def Let_def id_conflict_def dedupe_conflict_def witness_row_def
        new_cleanup_workspace_def new_job_new_def)
  then have "(queue_op plain_codec)\<^sup>*\<^sup>* [] [witness_row]"
    by (metis fst_conv op_enqueue r_into_rtranclp)
  from queue_reachable_invariant [OF plain_codec_laws this] show ?thesis by simp
qed

theorem claim_next_correct_witness:
  "\<exists>j u. claim_next plain_codec (at_time 5 9) (lit ''w'') 10 [CleanupWorkspaceJob] [witness_row] =
           (u, Inr (Some j)) \<and> lease_of j = Some witness_lease \<and> map jr_state u = [lit ''running'']"
  using claim_next_correct [OF witness_row_ok, of 10 "at_time 5 9" "[CleanupWorkspaceJob]" "lit ''w''"]
    witness_due
  by (auto simp: witness_defs)

theorem stale_lease_fenced_witness:
  "complete_lease plain_codec (at_time 6 0) (witness_lease\<lparr>jl_lease_token := 8\<rparr>) [witness_running] =
     ([witness_running], Inl LeaseLost)"
  using stale_lease_fenced [OF witness_running_ok, of witness_running "witness_lease\<lparr>jl_lease_token := 8\<rparr>"]
  by (auto simp: off_lease_def witness_defs)

theorem claim_complete_idempotent_witness:
  "\<exists>u fin. complete_lease plain_codec (at_time 6 0) witness_lease [witness_running] = (u, Inr fin) \<and>
     complete_lease plain_codec (at_time 99 0) witness_lease u = (u, Inr fin)"
proof -
  obtain j where j: "into_job plain_codec witness_running = Inr j"
    using witness_running_ok stored_ok_into_job by (auto simp: table_ok_def)
  have "lease_of j = Some witness_lease"
    using into_job_fields [OF j] by (simp add: lease_of_def witness_defs)
  from claim_complete_idempotent [OF witness_row_ok witness_claim [unfolded j map_ok.simps] this,
      of "at_time 6 0"]
  have "\<exists>u fin. complete_lease plain_codec (at_time 6 0) witness_lease [witness_running] = (u, Inr fin) \<and>
      (\<forall>env3. complete_lease plain_codec env3 witness_lease u = (u, Inr fin))"
    by (auto simp: at_time_def)
  then show ?thesis by blast
qed

lemma witness_settle:
  "settle_queue_in_transaction plain_codec (at_time 6 0) witness_lease
     (CleanupWorkspace \<lparr>cwp_ingest_id = 1, cwp_workspace_id = 2\<rparr>) (Retry 20 (lit ''io'') (lit ''disk'') True)
     [witness_running] =
   Inr ([settled_row (at_time 6 0) (queue_parameters witness_running (Retry 20 (lit ''io'') (lit ''disk'') True))
           witness_running],
        settled_row (at_time 6 0) (queue_parameters witness_running (Retry 20 (lit ''io'') (lit ''disk'') True))
          witness_running)"
  by (simp add: settle_queue_in_transaction_def lock_running_job_def select_one_def locks_running_job_def
      validate_locked_command_def into_job_def update_locked_job_def returning_def update_where_def
      commands_have_same_owner_def job_type_try_from_def job_status_try_from_def decode_payload_def
      plain_codec_def witness_defs Let_def)

theorem settle_outcome_witness:
  "jr_attempt_count (settled_row (at_time 6 0)
     (queue_parameters witness_running (Retry 20 (lit ''io'') (lit ''disk'') True)) witness_running) = 0"
  using settle_outcome [OF witness_running_ok witness_settle] by (auto simp: witness_defs)

theorem recovery_respects_leases_witness:
  "snd (recover_queue_only_untyped (at_time 15 0) 7 [witness_running]) = Inr True \<and>
   witness_running \<in> set (fst (recover_queue_only_untyped (at_time 14 0) 7 [witness_running]))"
  using recovery_respects_leases [OF witness_running_ok, of witness_running 7 "at_time 15 0"]
    recovery_respects_leases [OF witness_running_ok, of witness_running 7 "at_time 14 0"]
  by (simp add: witness_defs)

theorem settled_jobs_final_witness:
  "succeeded_row (at_time 6 0) witness_running \<in>
     set (fst (claim_next plain_codec (at_time 7 1) (lit ''w'') 10 [CleanupWorkspaceJob]
       [succeeded_row (at_time 6 0) witness_running]))"
proof (rule settled_jobs_final [OF plain_codec_laws])
  have "job_step witness_running (succeeded_row (at_time 6 0) witness_running)"
    by (rule complete_step [of _ witness_lease]) (simp add: holds_lease_def witness_defs)
  then show "queue_ok plain_codec [succeeded_row (at_time 6 0) witness_running]"
    using witness_running_ok queue.step_check by (auto simp: table_ok_def)
  show "(queue_op plain_codec)\<^sup>*\<^sup>* [succeeded_row (at_time 6 0) witness_running]
      (fst (claim_next plain_codec (at_time 7 1) (lit ''w'') 10 [CleanupWorkspaceJob]
       [succeeded_row (at_time 6 0) witness_running]))"
    by (blast intro: op_claim)
qed (simp_all add: settled_state_def succeeded_row_def)

theorem attempt_budget_witness: "int 1 \<le> jr_max_attempts witness_row - jr_attempt_count witness_row"
proof (rule attempt_budget)
  show "claims_along witness_row 1 witness_running"
    using claims_claim [OF claims_start] witness_due unfolding witness_running_def claim_due_def by auto
  show "job_inv witness_row" using witness_row_ok by (simp add: table_ok_def stored_ok_def)
qed

end
