(* ===== verification/Publisher.thy ===== *)
theory Publisher
  imports Inbox
begin

text \<open>
  The Publisher boundary of \<open>crates/publisher/src/lib.rs\<close>: channels and their validation, post
  states, publication actions, intents and decisions, schedules and request keys. The time zone
  parser of \<open>chrono_tz\<close> is an argument of \<open>channel_validate\<close>; a time of day is its number of
  nanoseconds since midnight.
\<close>

section \<open>Channels\<close>

definition MAX_CHANNEL_NAME_LENGTH :: nat where
  "MAX_CHANNEL_NAME_LENGTH = 128"

definition MAX_REQUEST_KEY_LENGTH :: nat where
  "MAX_REQUEST_KEY_LENGTH = 255"

definition MAX_CAPTION_LENGTH :: nat where
  "MAX_CAPTION_LENGTH = 1024"

definition MAX_REPEAT_EVIDENCE_CONFLICTS :: nat where
  "MAX_REPEAT_EVIDENCE_CONFLICTS = 8"

definition MAX_REPEAT_EVIDENCE_BYTES :: nat where
  "MAX_REPEAT_EVIDENCE_BYTES = 16 * 1024"

type_synonym time_of_day = int

record channel =
  ch_id :: uuid
  ch_name :: ustring
  ch_telegram_chat_id :: int
  ch_is_enabled :: bool
  ch_time_zone :: ustring
  ch_window_start :: time_of_day
  ch_window_end :: time_of_day
  ch_interval_minutes :: int
  ch_default_parse_mode :: "ustring option"
  ch_default_disable_notification :: bool
  ch_created_at :: timestamp
  ch_updated_at :: timestamp

record new_channel =
  nc_name :: ustring
  nc_telegram_chat_id :: int
  nc_time_zone :: ustring
  nc_window_start :: time_of_day
  nc_window_end :: time_of_day
  nc_interval_minutes :: int
  nc_default_parse_mode :: "ustring option"
  nc_default_disable_notification :: bool

record channel_update =
  cu_name :: "ustring option"
  cu_telegram_chat_id :: "int option"
  cu_is_enabled :: "bool option"
  cu_time_zone :: "ustring option"
  cu_window_start :: "time_of_day option"
  cu_window_end :: "time_of_day option"
  cu_interval_minutes :: "int option"
  cu_default_parse_mode :: "ustring option option"
  cu_default_disable_notification :: "bool option"
  cu_expected_updated_at :: "timestamp option"

datatype channel_validation_error =
    EmptyName
  | NameTooLong nat
  | InvalidTelegramChatId int
  | EmptyTimeZone
  | InvalidTimeZone
  | InvalidWindow
  | InvalidInterval
  | InvalidChannelParseMode

definition time_from_hms :: "int \<Rightarrow> int \<Rightarrow> int \<Rightarrow> time_of_day" where
  "time_from_hms h m s = ((h * 60 + m) * 60 + s) * 1000000000"

definition channel_try_new :: "ustring \<Rightarrow> int \<Rightarrow> channel_validation_error + new_channel" where
  "channel_try_new name telegram_chat_id =
     (let name = trim name in
      if name = [] then Inl EmptyName
      else if length name > MAX_CHANNEL_NAME_LENGTH then Inl (NameTooLong MAX_CHANNEL_NAME_LENGTH)
      else if telegram_chat_id \<ge> 0 then Inl (InvalidTelegramChatId telegram_chat_id)
      else Inr \<lparr>nc_name = name, nc_telegram_chat_id = telegram_chat_id, nc_time_zone = lit ''UTC'',
                nc_window_start = time_from_hms 8 0 0, nc_window_end = time_from_hms 22 0 0,
                nc_interval_minutes = 30, nc_default_parse_mode = None,
                nc_default_disable_notification = False\<rparr>)"

definition valid_parse_mode :: "ustring \<Rightarrow> bool" where
  "valid_parse_mode mode \<longleftrightarrow> mode = lit ''HTML'' \<or> mode = lit ''MarkdownV2''"

definition channel_validate ::
  "(ustring \<Rightarrow> 'tz option) \<Rightarrow> new_channel \<Rightarrow> channel_validation_error + unit" where
  "channel_validate parse_tz c =
     (if trim (nc_name c) = [] then Inl EmptyName
      else if length (nc_name c) > MAX_CHANNEL_NAME_LENGTH then Inl (NameTooLong MAX_CHANNEL_NAME_LENGTH)
      else if nc_telegram_chat_id c \<ge> 0 then Inl (InvalidTelegramChatId (nc_telegram_chat_id c))
      else if trim (nc_time_zone c) = [] then Inl EmptyTimeZone
      else if parse_tz (nc_time_zone c) = None then Inl InvalidTimeZone
      else if nc_window_start c \<ge> nc_window_end c then Inl InvalidWindow
      else if nc_interval_minutes c \<le> 0 then Inl InvalidInterval
      else if (case nc_default_parse_mode c of None \<Rightarrow> False | Some mode \<Rightarrow> \<not> valid_parse_mode mode)
      then Inl InvalidChannelParseMode
      else Inr ())"

section \<open>Posts\<close>

datatype post_state =
    Draft
  | PostQueued
  | Sending
  | Published
  | PostUnknown
  | PostFailed
  | PostCancelled

fun post_state_as_str :: "post_state \<Rightarrow> ustring" where
  "post_state_as_str Draft = lit ''draft''"
| "post_state_as_str PostQueued = lit ''queued''"
| "post_state_as_str Sending = lit ''sending''"
| "post_state_as_str Published = lit ''published''"
| "post_state_as_str PostUnknown = lit ''unknown''"
| "post_state_as_str PostFailed = lit ''failed''"
| "post_state_as_str PostCancelled = lit ''cancelled''"

definition post_state_try_from :: "ustring \<Rightarrow> ustring + post_state" where
  "post_state_try_from s =
     (if s = lit ''draft'' then Inr Draft
      else if s = lit ''queued'' then Inr PostQueued
      else if s = lit ''sending'' then Inr Sending
      else if s = lit ''published'' then Inr Published
      else if s = lit ''unknown'' then Inr PostUnknown
      else if s = lit ''failed'' then Inr PostFailed
      else if s = lit ''cancelled'' then Inr PostCancelled
      else Inl s)"

interpretation post_state_enum: db_enum post_state_as_str post_state_try_from
proof
  fix x :: post_state
  show "post_state_try_from (post_state_as_str x) = Inr x" by (cases x) (simp_all add: post_state_try_from_def)
next
  fix s x
  show "post_state_try_from s = Inr x \<Longrightarrow> s = post_state_as_str x" by (auto simp: post_state_try_from_def split: if_splits)
next
  fix s e
  show "post_state_try_from s = Inl e \<Longrightarrow> e = s" by (auto simp: post_state_try_from_def split: if_splits)
qed

definition is_live_or_fenced :: "post_state \<Rightarrow> bool" where
  "is_live_or_fenced s \<longleftrightarrow> s \<in> {Sending, Published, PostUnknown}"

definition is_queue_mutable :: "post_state \<Rightarrow> bool" where
  "is_queue_mutable s \<longleftrightarrow> s \<in> {Draft, PostQueued, PostFailed}"

datatype publication_action =
    QueuePublication
  | PostNowPublication

fun publication_action_as_str :: "publication_action \<Rightarrow> ustring" where
  "publication_action_as_str QueuePublication = lit ''queue''"
| "publication_action_as_str PostNowPublication = lit ''post_now''"

definition publication_action_try_from :: "ustring \<Rightarrow> ustring + publication_action" where
  "publication_action_try_from s =
     (if s = lit ''queue'' then Inr QueuePublication
      else if s = lit ''post_now'' then Inr PostNowPublication
      else Inl s)"

interpretation publication_action_enum: db_enum publication_action_as_str publication_action_try_from
proof
  fix x :: publication_action
  show "publication_action_try_from (publication_action_as_str x) = Inr x" by (cases x) (simp_all add: publication_action_try_from_def)
next
  fix s x
  show "publication_action_try_from s = Inr x \<Longrightarrow> s = publication_action_as_str x" by (auto simp: publication_action_try_from_def split: if_splits)
next
  fix s e
  show "publication_action_try_from s = Inl e \<Longrightarrow> e = s" by (auto simp: publication_action_try_from_def split: if_splits)
qed

record repeat_conflict =
  rc_post_id :: uuid
  rc_state :: post_state
  rc_at :: timestamp
  rc_target_message_link :: "ustring option"

record repeat_evidence =
  re_conflicts :: "repeat_conflict list"

record post =
  po_id :: uuid
  po_media_id :: uuid
  po_channel_id :: uuid
  po_origin_ingest_id :: "uuid option"
  po_requested_action :: publication_action
  po_requested_publish_at :: "timestamp option"
  po_repeat_evidence :: "repeat_evidence option"
  po_caption :: "ustring option"
  po_parse_mode :: "ustring option"
  po_disable_notification :: bool
  po_state :: post_state
  po_scheduled_at :: timestamp
  po_cadence_slot_at :: "timestamp option"
  po_send_generation :: int
  po_send_token :: "uuid option"
  po_send_started_at :: "timestamp option"
  po_telegram_message_id :: "int option"
  po_published_at :: "timestamp option"
  po_error_class :: "ustring option"
  po_error_message :: "ustring option"
  po_created_at :: timestamp
  po_updated_at :: timestamp
  po_revision :: int

section \<open>Intents, decisions and schedules\<close>

datatype publisher_validation_error =
    EmptyRequestKey
  | RequestKeyTooLong nat
  | CaptionTooLong nat
  | CaptionControlCharacter
  | InvalidParseMode
  | InvalidExpectedRevision
  | PostNowTimeNotAllowed

definition validate_expected_revision :: "int \<Rightarrow> publisher_validation_error + unit" where
  "validate_expected_revision expected_revision =
     (if expected_revision < 0 then Inl InvalidExpectedRevision else Inr ())"

definition normalize_request_key :: "ustring \<Rightarrow> publisher_validation_error + ustring" where
  "normalize_request_key value =
     (let value = trim value in
      if value = [] then Inl EmptyRequestKey
      else if length value > MAX_REQUEST_KEY_LENGTH then Inl (RequestKeyTooLong MAX_REQUEST_KEY_LENGTH)
      else Inr value)"

definition validate_caption :: "ustring \<Rightarrow> publisher_validation_error + unit" where
  "validate_caption caption =
     (if length caption > MAX_CAPTION_LENGTH then Inl (CaptionTooLong MAX_CAPTION_LENGTH)
      else if list_ex (\<lambda>c. is_control c \<and> c \<noteq> 10 \<and> c \<noteq> 13 \<and> c \<noteq> 9) caption
      then Inl CaptionControlCharacter
      else Inr ())"

record publication_intent =
  pi_action :: publication_action
  pi_requested_publish_at :: "timestamp option"
  pi_caption :: "ustring option"

text \<open>\<open>caption.map(trim).filter(not empty)\<close>.\<close>

fun trim_caption :: "ustring option \<Rightarrow> ustring option" where
  "trim_caption None = None"
| "trim_caption (Some value) = (if trim value = [] then None else Some (trim value))"

definition intent_try_new ::
  "publication_action \<Rightarrow> timestamp option \<Rightarrow> ustring option \<Rightarrow>
   publisher_validation_error + publication_intent" where
  "intent_try_new action requested_publish_at caption =
     (if action = PostNowPublication \<and> requested_publish_at \<noteq> None then Inl PostNowTimeNotAllowed
      else let caption = trim_caption caption in
        rbind (case caption of None \<Rightarrow> Inr () | Some c \<Rightarrow> validate_caption c) (\<lambda>_.
          Inr \<lparr>pi_action = action, pi_requested_publish_at = requested_publish_at, pi_caption = caption\<rparr>))"

datatype publication_decision =
    PostNowAnyway
  | QueueAnyway
  | KeepExactTime
  | CancelDecision

fun publication_decision_as_str :: "publication_decision \<Rightarrow> ustring" where
  "publication_decision_as_str PostNowAnyway = lit ''post_now_anyway''"
| "publication_decision_as_str QueueAnyway = lit ''queue_anyway''"
| "publication_decision_as_str KeepExactTime = lit ''keep_exact_time''"
| "publication_decision_as_str CancelDecision = lit ''cancel''"

record post_update =
  pu_caption :: "ustring option option"
  pu_parse_mode :: "ustring option option"
  pu_disable_notification :: "bool option"
  pu_expected_updated_at :: "timestamp option"
  pu_expected_revision :: int

record post_schedule =
  ps_post_id :: uuid
  ps_requested_at :: timestamp
  ps_request_key :: ustring
  ps_expected_revision :: int

record post_exact_schedule =
  pe_post_id :: uuid
  pe_requested_at :: timestamp
  pe_request_key :: ustring
  pe_expected_revision :: int

definition schedule_try_new ::
  "uuid \<Rightarrow> timestamp \<Rightarrow> ustring \<Rightarrow> int \<Rightarrow> publisher_validation_error + post_schedule" where
  "schedule_try_new post_id requested_at request_key expected_revision =
     rbind (normalize_request_key request_key) (\<lambda>request_key.
     rbind (validate_expected_revision expected_revision) (\<lambda>_.
       Inr \<lparr>ps_post_id = post_id, ps_requested_at = requested_at, ps_request_key = request_key,
            ps_expected_revision = expected_revision\<rparr>))"

definition exact_schedule_try_new ::
  "uuid \<Rightarrow> timestamp \<Rightarrow> ustring \<Rightarrow> int \<Rightarrow> publisher_validation_error + post_exact_schedule" where
  "exact_schedule_try_new post_id requested_at request_key expected_revision =
     rbind (normalize_request_key request_key) (\<lambda>request_key.
     rbind (validate_expected_revision expected_revision) (\<lambda>_.
       Inr \<lparr>pe_post_id = post_id, pe_requested_at = requested_at, pe_request_key = request_key,
            pe_expected_revision = expected_revision\<rparr>))"

record publish_claim =
  pc_post :: post
  pc_channel_chat_id :: int

record published_message =
  pm_post :: post
  pm_channel_chat_id :: int

record publish_retry =
  pr_post :: post
  pr_terminal :: bool

section \<open>Lemmas\<close>

lemma validate_caption_iff:
  "validate_caption c = Inr () \<longleftrightarrow> length c \<le> MAX_CAPTION_LENGTH \<and> list_all (\<lambda>x. \<not> forbidden_control x) c"
  by (auto simp: validate_caption_def forbidden_control_def list_ex_iff list_all_iff)

lemma trim_caption_canonical: "c \<noteq> [] \<Longrightarrow> trimmed c \<Longrightarrow> trim_caption (Some c) = Some c"
  by (simp add: trim_trimmed)

lemma normalize_request_key_Inr:
  "normalize_request_key v = Inr k \<Longrightarrow>
     k = trim v \<and> k \<noteq> [] \<and> trimmed k \<and> length k \<le> MAX_REQUEST_KEY_LENGTH"
  by (auto simp: normalize_request_key_def Let_def split: if_splits)

section \<open>Properties\<close>

text \<open>Inbox and Publisher agree on requested publications: the caption and time of every
  submission the Inbox accepts for queueing or immediate posting form a publication intent that
  the Publisher accepts unchanged.\<close>

theorem accepted_submission_gives_intent:
  assumes "try_new_inner ops rfc3339 now input enforce = Inr s"
    and "sub_requested_action s \<noteq> SaveAction"
  defines "action \<equiv> (if sub_requested_action s = QueueAction then QueuePublication else PostNowPublication)"
  shows "intent_try_new action (sub_requested_publish_at s) (sub_requested_post_caption s) =
         Inr \<lparr>pi_action = action, pi_requested_publish_at = sub_requested_publish_at s,
              pi_caption = sub_requested_post_caption s\<rparr>"
proof -
  have v: "valid_submission s" using assms(1) by (rule try_new_inner_valid)
  have time: "\<not> (action = PostNowPublication \<and> sub_requested_publish_at s \<noteq> None)"
    using v assms(2) by (cases "sub_requested_action s") (auto simp: action_def valid_submission_def valid_intent_def)
  show ?thesis
  proof (cases "sub_requested_post_caption s")
    case None
    then show ?thesis using time by (auto simp: intent_try_new_def)
  next
    case (Some c)
    then have "c \<noteq> []" "trimmed c" "validate_caption c = Inr ()"
      using v by (auto simp: valid_submission_def valid_intent_def validate_caption_iff
          MAX_CAPTION_LENGTH_def MAX_REQUESTED_POST_CAPTION_LENGTH_def)
    then show ?thesis using time Some by (auto simp: intent_try_new_def trim_trimmed)
  qed
qed

definition publication_input :: ingest_submission_input where
  "publication_input =
     witness_input\<lparr>in_requested_action := QueueAction, in_requested_publish_at := Some 5,
                   in_requested_post_caption := Some (lit ''h'')\<rparr>"

theorem accepted_submission_gives_intent_witness:
  "intent_try_new QueuePublication (Some 5) (Some (lit ''h'')) =
     Inr \<lparr>pi_action = QueuePublication, pi_requested_publish_at = Some 5, pi_caption = Some (lit ''h'')\<rparr>"
proof -
  obtain s where s: "try_new_inner simple_url_ops (\<lambda>_. []) 0 publication_input True = Inr s"
    "sub_requested_action s = QueueAction" "sub_requested_publish_at s = Some 5"
    "sub_requested_post_caption s = Some (lit ''h'')"
    by (simp add: publication_input_def witness_input_def submission_input_new_def simple_url_ops_def
        try_new_inner_def Let_def normalize_url_def normalized_url_def lower_scheme_def lower_host_def
        drop_default_port_def drop_tracking_def validate_requested_intent_def validate_requested_caption_def
        lit_def to_ascii_lowercase_def to_ascii_lower_def is_whitespace_def is_control_def
        forbidden_control_def MAX_REQUESTED_POST_CAPTION_LENGTH_def)
  from accepted_submission_gives_intent [OF s(1)] s(2-4) show ?thesis by simp
qed

text \<open>A channel built by \<open>NewChannel::try_new\<close> passes the validation the repository runs
  before it stores it, provided that the time zone parser knows UTC.\<close>

theorem new_channel_validates:
  assumes "channel_try_new name chat = Inr c" and "parse_tz (lit ''UTC'') \<noteq> None"
  shows "channel_validate parse_tz c = Inr ()"
proof -
  have utc: "trim (lit ''UTC'') \<noteq> []" by (simp add: trim_def trim_start_def trim_end_def lit_def is_whitespace_def)
  show ?thesis
    using assms utc
    by (auto simp: channel_try_new_def channel_validate_def Let_def time_from_hms_def split: if_splits)
qed

theorem new_channel_validates_witness:
  "\<exists>c. channel_try_new (lit ''memes'') (- 1001) = Inr c \<and> channel_validate (\<lambda>s. Some s) c = Inr ()"
proof -
  have "\<exists>c. channel_try_new (lit ''memes'') (- 1001) = Inr c"
    by (simp add: channel_try_new_def trim_def trim_start_def trim_end_def lit_def is_whitespace_def
        MAX_CHANNEL_NAME_LENGTH_def)
  with new_channel_validates [of "lit ''memes''" "- 1001" _ "\<lambda>s. Some s"] show ?thesis by auto
qed

end
