(* ===== verification/Cadence.thy ===== *)
theory Cadence
  imports Publisher
begin

text \<open>
  The publication cadence of \<open>crates/persistence/src/publisher.rs\<close>: the search for the next slot
  of a channel's window grid and for the next slot no other post holds. The time zone database
  (\<open>chrono_tz\<close>) is the record \<open>tz_ops\<close>; local date-times are nanoseconds since the local epoch,
  local dates are day numbers. The search bounds, 370 days and 10000 slots, are those of the code.
\<close>

section \<open>Errors of the repository\<close>

datatype publisher_repository_error =
    Validation publisher_validation_error
  | ChannelValidation channel_validation_error
  | InvalidState ustring
  | ChannelMissing uuid
  | ChannelDisabled uuid
  | ChannelOptimisticConflict uuid
  | EmptyChannelUpdate
  | ChannelEnablementAmbiguous
  | PublicationChannelNotConfigured
  | PublicationChannelAmbiguous
  | MediaMissing uuid
  | MediaNotReady uuid ustring
  | PostMissing uuid
  | InvalidLimit u32
  | InvalidPreviewMetadata uuid
  | InvalidPostCount
  | PostNotEditable uuid post_state
  | PostCannotBeScheduled uuid post_state
  | IngestMissing uuid
  | IngestMediaMissing uuid
  | MaterializationNotReady uuid
  | InvalidPublicationAction ustring
  | InvalidPublicationDecision uuid publication_decision
  | PostDecisionNotAllowed uuid post_state
  | RepeatDecisionRequired uuid
  | ExactTimeMissing uuid
  | PostNotClaimable uuid post_state
  | RequestKeyConflict ustring
  | OptimisticConflict uuid
  | EmptyUpdate
  | PublishLeaseLost uuid
  | PublishConflict uuid
  | StalePublicationJob uuid
  | PublishJobMissing uuid
  | PublishJobRunning uuid
  | PublishJobUnavailable uuid ustring
  | PublishJobUpdateLost uuid
  | RevisionOverflow
  | InvalidPublishFailureState post_state
  | InvalidTelegramMessageId int
  | InvalidChannelTimeZone ustring
  | CadenceSearchExhausted
  | CadenceSlotInPast
  | ExactScheduleInPast
  | InvalidCadenceSlot
  | InvalidTimestamp
  | InvalidRepeatEvidenceTimestamp uuid
  | RepeatEvidenceTooLarge nat
  | PublisherDatabase
  | Serialization

section \<open>Time zones\<close>

datatype local_result =
    SingleLocal timestamp
  | AmbiguousLocal timestamp timestamp
  | NoLocal

record 'tz tz_ops =
  parse_tz :: "ustring \<Rightarrow> 'tz option"
  local_date :: "'tz \<Rightarrow> timestamp \<Rightarrow> int"
  from_local_datetime :: "'tz \<Rightarrow> int \<Rightarrow> local_result"
  chrono_representable :: "timestamp \<Rightarrow> bool"

definition to_chrono :: "'tz tz_ops \<Rightarrow> timestamp \<Rightarrow> publisher_repository_error + timestamp" where
  "to_chrono ops value = (if chrono_representable ops value then Inr value else Inl InvalidTimestamp)"

text \<open>\<open>timestamp_nanos_opt\<close> is an \<open>i64\<close>; every such value is an \<open>OffsetDateTime\<close>.\<close>

definition from_chrono :: "timestamp \<Rightarrow> publisher_repository_error + timestamp" where
  "from_chrono value = (if - (2 ^ 63) \<le> value \<and> value < 2 ^ 63 then Inr value else Inl InvalidTimestamp)"

fun resolved :: "local_result \<Rightarrow> timestamp list" where
  "resolved (SingleLocal v) = [v]"
| "resolved (AmbiguousLocal e l) = [e, l]"
| "resolved NoLocal = []"

section \<open>The search\<close>

definition day_ns :: int where
  "day_ns = 86400 * 1000000000"

definition minute_ns :: int where
  "minute_ns = 60 * 1000000000"

definition second_ns :: int where
  "second_ns = 1000000000"

fun keep_earliest :: "timestamp \<Rightarrow> timestamp option \<Rightarrow> timestamp list \<Rightarrow> timestamp option" where
  "keep_earliest candidate acc [] = acc"
| "keep_earliest candidate acc (result # rest) =
     keep_earliest candidate
       (if result \<ge> candidate \<and> (case acc of None \<Rightarrow> True | Some earliest \<Rightarrow> result < earliest)
        then Some result else acc) rest"

text \<open>The \<open>while\<close> over the grid of one local day. The step is positive: the caller has rejected an
  interval that is not.\<close>

function scan_day ::
  "'tz tz_ops \<Rightarrow> 'tz \<Rightarrow> timestamp \<Rightarrow> int \<Rightarrow> int \<Rightarrow> int \<Rightarrow> timestamp option \<Rightarrow> timestamp option" where
  "scan_day ops tz candidate step target end_target acc =
     (if target < end_target \<and> 0 < step
      then scan_day ops tz candidate step (target + step) end_target
             (keep_earliest candidate acc (resolved (from_local_datetime ops tz target)))
      else acc)"
  by pat_completeness auto
termination
  by (relation "measure (\<lambda>(_, _, _, _, target, end_target, _). nat (end_target - target))") auto

declare scan_day.simps [simp del]

fun scan_days ::
  "'tz tz_ops \<Rightarrow> 'tz \<Rightarrow> timestamp \<Rightarrow> channel \<Rightarrow> nat \<Rightarrow> int \<Rightarrow> publisher_repository_error + timestamp" where
  "scan_days ops tz candidate channel 0 date = Inl CadenceSearchExhausted"
| "scan_days ops tz candidate channel (Suc n) date =
     (case scan_day ops tz candidate (ch_interval_minutes channel * minute_ns)
             (date * day_ns + ch_window_start channel) (date * day_ns + ch_window_end channel) None of
        Some result \<Rightarrow> from_chrono result
      | None \<Rightarrow> scan_days ops tz candidate channel n (date + 1))"

definition next_allowed_slot ::
  "'tz tz_ops \<Rightarrow> timestamp \<Rightarrow> channel \<Rightarrow> publisher_repository_error + timestamp" where
  "next_allowed_slot ops requested channel =
     rbind (ok_or (parse_tz ops (ch_time_zone channel)) (InvalidChannelTimeZone (ch_time_zone channel))) (\<lambda>tz.
     rbind (to_chrono ops requested) (\<lambda>candidate.
       if ch_interval_minutes channel \<le> 0 then Inl CadenceSearchExhausted
       else scan_days ops tz candidate channel 370 (local_date ops tz candidate)))"

fun free_slot_loop ::
  "'tz tz_ops \<Rightarrow> channel \<Rightarrow> timestamp list \<Rightarrow> nat \<Rightarrow> timestamp \<Rightarrow> publisher_repository_error + timestamp" where
  "free_slot_loop ops channel occupied 0 candidate = Inl CadenceSearchExhausted"
| "free_slot_loop ops channel occupied (Suc n) candidate =
     (if candidate \<notin> set occupied then Inr candidate
      else rbind (next_allowed_slot ops (candidate + second_ns) channel) (\<lambda>candidate.
             free_slot_loop ops channel occupied n candidate))"

text \<open>The part of \<open>next_free_slot\<close> after its query; \<open>utc\<close> is \<open>OffsetDateTime::now_utc()\<close>.\<close>

definition free_slot ::
  "'tz tz_ops \<Rightarrow> timestamp \<Rightarrow> channel \<Rightarrow> timestamp list \<Rightarrow> timestamp \<Rightarrow>
   publisher_repository_error + timestamp" where
  "free_slot ops utc channel occupied requested_at =
     rbind (next_allowed_slot ops (max requested_at utc) channel) (\<lambda>candidate.
       free_slot_loop ops channel occupied 10000 candidate)"

section \<open>The grid\<close>

text \<open>The instants of a channel's grid on one local day.\<close>

definition grid_instant :: "'tz tz_ops \<Rightarrow> 'tz \<Rightarrow> channel \<Rightarrow> int \<Rightarrow> timestamp \<Rightarrow> bool" where
  "grid_instant ops tz channel day r \<longleftrightarrow>
     (\<exists>k::nat. ch_window_start channel + int k * (ch_interval_minutes channel * minute_ns) < ch_window_end channel \<and>
        r \<in> set (resolved (from_local_datetime ops tz
          (day * day_ns + ch_window_start channel + int k * (ch_interval_minutes channel * minute_ns)))))"

text \<open>\<open>acc\<close> is the least instant of \<open>S\<close> that is not before the candidate, or nothing if there is none.\<close>

definition least_after :: "timestamp \<Rightarrow> timestamp set \<Rightarrow> timestamp option \<Rightarrow> bool" where
  "least_after candidate S acc \<longleftrightarrow>
     (case acc of
        None \<Rightarrow> \<forall>r\<in>S. r < candidate
      | Some e \<Rightarrow> e \<in> S \<and> candidate \<le> e \<and> (\<forall>r\<in>S. candidate \<le> r \<longrightarrow> e \<le> r))"

lemma keep_earliest_least:
  "least_after candidate S acc \<Longrightarrow> least_after candidate (S \<union> set rs) (keep_earliest candidate acc rs)"
proof (induction rs arbitrary: S acc)
  case (Cons r rs)
  have "least_after candidate (insert r S)
      (if r \<ge> candidate \<and> (case acc of None \<Rightarrow> True | Some e \<Rightarrow> r < e) then Some r else acc)"
    using Cons.prems by (auto simp: least_after_def split: option.splits if_splits)
  from Cons.IH [OF this] show ?case by (simp add: insert_commute Un_insert_left)
qed simp

definition grid_from :: "'tz tz_ops \<Rightarrow> 'tz \<Rightarrow> int \<Rightarrow> int \<Rightarrow> int \<Rightarrow> timestamp set" where
  "grid_from ops tz step target end_target =
     {r. \<exists>k::nat. target + int k * step < end_target \<and>
          r \<in> set (resolved (from_local_datetime ops tz (target + int k * step)))}"

lemma grid_from_step:
  assumes "target < end_target"
  shows "grid_from ops tz step target end_target =
     set (resolved (from_local_datetime ops tz target)) \<union> grid_from ops tz step (target + step) end_target"
proof -
  have "(\<exists>k::nat. P (target + int k * step)) \<longleftrightarrow> P target \<or> (\<exists>k::nat. P (target + step + int k * step))" for P
  proof
    assume "\<exists>k::nat. P (target + int k * step)"
    then obtain k where k: "P (target + int k * step)" by blast
    show "P target \<or> (\<exists>k::nat. P (target + step + int k * step))"
    proof (cases k)
      case (Suc m)
      then have "P (target + step + int m * step)" using k by (simp add: algebra_simps)
      then show ?thesis by blast
    qed (use k in simp)
  next
    assume "P target \<or> (\<exists>k::nat. P (target + step + int k * step))"
    then show "\<exists>k::nat. P (target + int k * step)"
    proof
      assume "P target"
      then show ?thesis by (intro exI [of _ 0]) simp
    next
      assume "\<exists>k::nat. P (target + step + int k * step)"
      then obtain k where "P (target + step + int k * step)" by blast
      then show ?thesis by (intro exI [of _ "Suc k"]) (simp add: algebra_simps)
    qed
  qed
  from this [of "\<lambda>x. x < end_target \<and> _ \<in> set (resolved (from_local_datetime ops tz x))"] assms
  show ?thesis unfolding grid_from_def by auto
qed

lemma grid_from_empty: "0 < step \<Longrightarrow> \<not> target < end_target \<Longrightarrow> grid_from ops tz step target end_target = {}"
  unfolding grid_from_def
  by (auto simp: not_less) (metis add_increasing2 linorder_not_le mult_nonneg_nonneg of_nat_0_le_iff order_less_imp_le)

lemma scan_day_least:
  assumes "0 < step" and "least_after candidate S acc"
  shows "least_after candidate (S \<union> grid_from ops tz step target end_target)
           (scan_day ops tz candidate step target end_target acc)"
  using assms
proof (induction ops tz candidate step target end_target acc arbitrary: S rule: scan_day.induct)
  case (1 ops tz candidate step target end_target acc)
  show ?case
  proof (cases "target < end_target")
    case True
    let ?rs = "resolved (from_local_datetime ops tz target)"
    have "least_after candidate (S \<union> set ?rs) (keep_earliest candidate acc ?rs)"
      using 1(3) by (rule keep_earliest_least)
    from 1(1) [OF _ 1(2) this] True 1(2) show ?thesis
      by (simp add: scan_day.simps [of _ _ _ _ target] grid_from_step [OF True] Un_assoc)
  next
    case False
    then show ?thesis
      using 1(3) by (simp add: scan_day.simps [of _ _ _ _ target] grid_from_empty [OF 1(2) False])
  qed
qed

lemma grid_instant_from:
  "{r. grid_instant ops tz channel day r} =
     grid_from ops tz (ch_interval_minutes channel * minute_ns)
       (day * day_ns + ch_window_start channel) (day * day_ns + ch_window_end channel)"
  by (auto simp: grid_instant_def grid_from_def add.assoc)

lemma scan_day_grid:
  assumes "0 < ch_interval_minutes channel"
  shows "least_after candidate {r. grid_instant ops tz channel day r}
     (scan_day ops tz candidate (ch_interval_minutes channel * minute_ns)
        (day * day_ns + ch_window_start channel) (day * day_ns + ch_window_end channel) None)"
proof -
  have "0 < ch_interval_minutes channel * minute_ns" using assms by (simp add: minute_ns_def)
  moreover have "least_after candidate {} None" by (simp add: least_after_def)
  ultimately show ?thesis
    using scan_day_least [of _ candidate "{}" None] by (simp add: grid_instant_from)
qed

text \<open>The first day that has an instant not before the candidate, and its least such instant.\<close>

definition first_slot :: "'tz tz_ops \<Rightarrow> 'tz \<Rightarrow> channel \<Rightarrow> timestamp \<Rightarrow> int \<Rightarrow> int \<Rightarrow> timestamp \<Rightarrow> bool" where
  "first_slot ops tz channel candidate date day r \<longleftrightarrow>
     date \<le> day \<and> grid_instant ops tz channel day r \<and> candidate \<le> r \<and>
     (\<forall>q. grid_instant ops tz channel day q \<longrightarrow> candidate \<le> q \<longrightarrow> r \<le> q) \<and>
     (\<forall>d q. date \<le> d \<longrightarrow> d < day \<longrightarrow> grid_instant ops tz channel d q \<longrightarrow> q < candidate)"

lemma scan_days_cases:
  assumes "0 < ch_interval_minutes channel"
  shows "(\<exists>day r. day < date + int n \<and> first_slot ops tz channel candidate date day r \<and>
            scan_days ops tz candidate channel n date = from_chrono r) \<or>
         ((\<forall>d q. date \<le> d \<longrightarrow> d < date + int n \<longrightarrow> grid_instant ops tz channel d q \<longrightarrow> q < candidate) \<and>
            scan_days ops tz candidate channel n date = Inl CadenceSearchExhausted)"
proof (induction n arbitrary: date)
  case (Suc n)
  let ?scan = "scan_day ops tz candidate (ch_interval_minutes channel * minute_ns)
      (date * day_ns + ch_window_start channel) (date * day_ns + ch_window_end channel) None"
  note least = scan_day_grid [OF assms, of candidate ops tz date]
  show ?case
  proof (cases ?scan)
    case None
    then have today: "\<forall>q. grid_instant ops tz channel date q \<longrightarrow> q < candidate"
      using least by (simp add: least_after_def)
    have step: "scan_days ops tz candidate channel (Suc n) date =
        scan_days ops tz candidate channel n (date + 1)" using None by simp
    have split: "date \<le> d \<longleftrightarrow> d = date \<or> date + 1 \<le> d" for d by linarith
    from Suc.IH [of "date + 1"] show ?thesis
    proof
      assume "\<exists>day r. day < date + 1 + int n \<and> first_slot ops tz channel candidate (date + 1) day r \<and>
          scan_days ops tz candidate channel n (date + 1) = from_chrono r"
      then obtain day r where d: "day < date + 1 + int n"
        "first_slot ops tz channel candidate (date + 1) day r"
        "scan_days ops tz candidate channel n (date + 1) = from_chrono r" by blast
      have "first_slot ops tz channel candidate date day r"
        using d(2) today unfolding first_slot_def by (auto simp: split)
      then show ?thesis using d step by (intro disjI1 exI [of _ day] exI [of _ r]) simp
    next
      assume "(\<forall>d q. date + 1 \<le> d \<longrightarrow> d < date + 1 + int n \<longrightarrow> grid_instant ops tz channel d q \<longrightarrow> q < candidate) \<and>
          scan_days ops tz candidate channel n (date + 1) = Inl CadenceSearchExhausted"
      then show ?thesis using today step by (intro disjI2) (auto simp: split)
    qed
  next
    case (Some r)
    then have "first_slot ops tz channel candidate date date r"
      using least by (auto simp: least_after_def first_slot_def)
    then show ?thesis using Some by (intro disjI1 exI [of _ date] exI [of _ r]) simp
  qed
qed simp

lemma next_allowed_slot_Inr:
  assumes "next_allowed_slot ops requested channel = Inr r"
  obtains tz day where "parse_tz ops (ch_time_zone channel) = Some tz" "0 < ch_interval_minutes channel"
    "day < local_date ops tz requested + 370"
    "first_slot ops tz channel requested (local_date ops tz requested) day r"
proof -
  obtain tz where tz: "parse_tz ops (ch_time_zone channel) = Some tz"
    and int: "0 < ch_interval_minutes channel"
    and scan: "scan_days ops tz requested channel 370 (local_date ops tz requested) = Inr r"
    using assms by (auto simp: next_allowed_slot_def to_chrono_def result_simps split: if_splits)
  from scan_days_cases [OF int, of "local_date ops tz requested" 370 ops tz requested] scan
  obtain day q where "day < local_date ops tz requested + 370"
    "first_slot ops tz channel requested (local_date ops tz requested) day q" "from_chrono q = Inr r"
    by auto
  moreover from this(3) have "q = r" by (simp add: from_chrono_def split: if_splits)
  ultimately show ?thesis using that tz int by simp
qed

lemma next_allowed_slot_ge: "next_allowed_slot ops requested channel = Inr r \<Longrightarrow> requested \<le> r"
  by (erule next_allowed_slot_Inr) (simp add: first_slot_def)

lemma free_slot_loop_Inr:
  "free_slot_loop ops channel occupied n candidate = Inr r \<Longrightarrow>
     r \<notin> set occupied \<and> candidate \<le> r \<and>
     (r = candidate \<or> (\<exists>requested. candidate \<le> requested \<and> next_allowed_slot ops requested channel = Inr r))"
proof (induction n arbitrary: candidate)
  case (Suc n)
  show ?case
  proof (cases "candidate \<in> set occupied")
    case True
    with Suc.prems obtain c where c: "next_allowed_slot ops (candidate + second_ns) channel = Inr c"
      "free_slot_loop ops channel occupied n c = Inr r" by (auto simp: result_simps)
    from next_allowed_slot_ge [OF c(1)] have ge: "candidate + second_ns \<le> c" .
    have pos: "0 < second_ns" by (simp add: second_ns_def)
    from Suc.IH [OF c(2)] show ?thesis
    proof (elim conjE disjE)
      assume "r \<notin> set occupied" "c \<le> r" "r = c"
      then show ?thesis using c(1) ge pos by (auto intro!: exI [of _ "candidate + second_ns"])
    next
      assume "r \<notin> set occupied" "c \<le> r" "\<exists>requested. c \<le> requested \<and> next_allowed_slot ops requested channel = Inr r"
      then show ?thesis using ge pos by fastforce
    qed
  qed (use Suc.prems in auto)
qed simp

section \<open>Properties\<close>

text \<open>(C35) The cadence slot: a returned slot is not before the requested time and is the least such
  instant of the channel's grid on the first local day, counted from the requested one, that has
  one; the search gives up only if none of the 370 days scanned has an instant that is late enough.\<close>

theorem next_allowed_slot_correct:
  assumes "parse_tz ops (ch_time_zone channel) = Some tz" and "0 < ch_interval_minutes channel"
    and "chrono_representable ops requested"
  shows "(\<forall>r. next_allowed_slot ops requested channel = Inr r \<longrightarrow>
            (\<exists>day. local_date ops tz requested \<le> day \<and> day < local_date ops tz requested + 370 \<and>
               first_slot ops tz channel requested (local_date ops tz requested) day r)) \<and>
         (next_allowed_slot ops requested channel = Inl CadenceSearchExhausted \<longleftrightarrow>
            (\<forall>day q. local_date ops tz requested \<le> day \<longrightarrow> day < local_date ops tz requested + 370 \<longrightarrow>
               grid_instant ops tz channel day q \<longrightarrow> q < requested))"
proof (intro conjI allI impI)
  fix r
  assume "next_allowed_slot ops requested channel = Inr r"
  then obtain z day where "parse_tz ops (ch_time_zone channel) = Some z"
    "day < local_date ops z requested + 370"
    "first_slot ops z channel requested (local_date ops z requested) day r"
    by (rule next_allowed_slot_Inr)
  with assms(1) show "\<exists>day. local_date ops tz requested \<le> day \<and> day < local_date ops tz requested + 370 \<and>
      first_slot ops tz channel requested (local_date ops tz requested) day r"
    by (auto simp: first_slot_def)
next
  let ?d = "local_date ops tz requested"
  have eq: "next_allowed_slot ops requested channel = scan_days ops tz requested channel 370 ?d"
    using assms by (simp add: next_allowed_slot_def to_chrono_def del: scan_days.simps)
  have "from_chrono q \<noteq> Inl CadenceSearchExhausted" for q by (simp add: from_chrono_def)
  then show "next_allowed_slot ops requested channel = Inl CadenceSearchExhausted \<longleftrightarrow>
      (\<forall>day q. ?d \<le> day \<longrightarrow> day < ?d + 370 \<longrightarrow> grid_instant ops tz channel day q \<longrightarrow> q < requested)"
    unfolding eq using scan_days_cases [OF assms(2), of ?d 370 ops tz requested]
    by (fastforce simp: first_slot_def)
qed

text \<open>The free slot: it is not held by another post, not before the requested time nor before
  now, and is itself a slot the cadence allows.\<close>

theorem free_slot_correct:
  assumes "free_slot ops utc channel occupied requested_at = Inr r"
  shows "r \<notin> set occupied \<and> requested_at \<le> r \<and> utc \<le> r \<and>
         (\<exists>from. max requested_at utc \<le> from \<and> next_allowed_slot ops from channel = Inr r)"
proof -
  obtain c where c: "next_allowed_slot ops (max requested_at utc) channel = Inr c"
    "free_slot_loop ops channel occupied 10000 c = Inr r"
    using assms by (auto simp: free_slot_def result_simps simp del: free_slot_loop.simps)
  note ge = next_allowed_slot_ge [OF c(1)]
  note loop = free_slot_loop_Inr [OF c(2)]
  then have "\<exists>from. max requested_at utc \<le> from \<and> next_allowed_slot ops from channel = Inr r"
    using ge c(1) by (metis order_refl order_trans)
  then show ?thesis using loop ge by auto
qed

text \<open>UTC, with a window from 8:00 to 8:02 on a one-minute grid.\<close>

definition utc_ops :: "unit tz_ops" where
  "utc_ops =
     \<lparr>parse_tz = (\<lambda>_. Some ()), local_date = (\<lambda>_ t. t div day_ns),
      from_local_datetime = (\<lambda>_ t. SingleLocal t), chrono_representable = (\<lambda>_. True)\<rparr>"

definition witness_channel :: channel where
  "witness_channel =
     \<lparr>ch_id = 3, ch_name = lit ''memes'', ch_telegram_chat_id = - 1001, ch_is_enabled = True,
      ch_time_zone = lit ''UTC'', ch_window_start = time_from_hms 8 0 0, ch_window_end = time_from_hms 8 2 0,
      ch_interval_minutes = 1, ch_default_parse_mode = None, ch_default_disable_notification = False,
      ch_created_at = 0, ch_updated_at = 0\<rparr>"

lemma witness_slot: "next_allowed_slot utc_ops 5 witness_channel = Inr (time_from_hms 8 0 0)"
  by (simp add: next_allowed_slot_def to_chrono_def utc_ops_def witness_channel_def time_from_hms_def
      day_ns_def minute_ns_def numeral_eq_Suc scan_day.simps from_chrono_def)

theorem next_allowed_slot_correct_witness:
  "\<exists>day. first_slot utc_ops () witness_channel 5 0 day (time_from_hms 8 0 0)"
proof -
  have "parse_tz utc_ops (ch_time_zone witness_channel) = Some ()" "0 < ch_interval_minutes witness_channel"
    "chrono_representable utc_ops 5" "local_date utc_ops () 5 = 0"
    by (simp_all add: utc_ops_def witness_channel_def day_ns_def)
  with next_allowed_slot_correct [of utc_ops witness_channel "()" 5] witness_slot show ?thesis by auto
qed

theorem free_slot_correct_witness:
  "free_slot utc_ops 0 witness_channel [] 5 = Inr (time_from_hms 8 0 0) \<and> time_from_hms 8 0 0 \<notin> set []"
proof -
  have "free_slot utc_ops 0 witness_channel [] 5 = Inr (time_from_hms 8 0 0)"
    by (simp add: free_slot_def witness_slot numeral_eq_Suc)
  from this free_slot_correct [OF this] show ?thesis by simp
qed

end
