(* ===== verification/Publisher_Store.thy ===== *)
theory Publisher_Store
  imports Job_Queue Cadence
begin

text \<open>
  The publication repository of \<open>crates/persistence/src/publisher.rs\<close>: editing, scheduling,
  deciding, cancelling and the fenced send of a post, together with the publication job each post
  has in the queue, and the settlement and recovery of those jobs. The state is the four tables the
  operations read and write; a transaction that fails leaves it unchanged. Third-party code is the
  record \<open>publisher_ops\<close>: the JSON codecs with the length of
  an encoded value (compact, and as the database prints it), SHA-256, the text form of a UUID, the operator
  \<open>payload->>'post_id'\<close> and the time zone database.
\<close>

section \<open>State\<close>

record 'v post_row =
  pw_id :: uuid
  pw_request_key :: "ustring option"
  pw_request_hash :: "u8 list option"
  pw_origin_ingest_id :: "uuid option"
  pw_requested_action :: ustring
  pw_requested_publish_at :: "timestamp option"
  pw_repeat_evidence :: "'v option"
  pw_decision_request_key :: "ustring option"
  pw_decision_request_hash :: "u8 list option"
  pw_schedule_request_key :: "ustring option"
  pw_schedule_request_hash :: "u8 list option"
  pw_media_id :: uuid
  pw_channel_id :: uuid
  pw_state :: ustring
  pw_caption :: "ustring option"
  pw_parse_mode :: "ustring option"
  pw_disable_notification :: bool
  pw_scheduled_at :: timestamp
  pw_cadence_slot_at :: "timestamp option"
  pw_send_generation :: int
  pw_send_token :: "uuid option"
  pw_send_started_at :: "timestamp option"
  pw_telegram_message_id :: "int option"
  pw_published_at :: "timestamp option"
  pw_error_class :: "ustring option"
  pw_error_message :: "ustring option"
  pw_created_at :: timestamp
  pw_updated_at :: timestamp
  pw_revision :: int

text \<open>A row of the table: the columns of \<open>PostRow\<close> and the request key, which only the statements read.
  A channel row has the columns of a channel; of the media table the repository reads the
  storage state.\<close>

record 'v publisher_db =
  db_jobs :: "'v job_table"
  db_posts :: "'v post_row list"
  db_channels :: "channel list"
  db_media :: "(uuid \<times> ustring) list"

record ('v, 'tz) publisher_ops =
  op_codec :: "'v payload_codec"
  op_tz :: "'tz tz_ops"
  op_sha256 :: "u8 list \<Rightarrow> u8 list"
  op_payload_post_id :: "'v \<Rightarrow> ustring option"
  op_uuid_text :: "uuid \<Rightarrow> ustring"
  op_evidence_from_value :: "'v \<Rightarrow> repeat_evidence option"
  op_evidence_to_value :: "repeat_evidence \<Rightarrow> 'v option"
  op_value_length :: "'v \<Rightarrow> nat"
  op_value_text_length :: "'v \<Rightarrow> nat"
  op_intent_bytes :: "publication_intent \<Rightarrow> u8 list option"

type_synonym ('v, 'a) publisher_tx = "publisher_repository_error + 'v publisher_db \<times> 'a"

text \<open>Commit the transaction and decode its result; a failed transaction is rolled back.\<close>

definition commit ::
  "'v publisher_db \<Rightarrow> ('v, 'r) publisher_tx \<Rightarrow> ('r \<Rightarrow> publisher_repository_error + 'a) \<Rightarrow>
   'v publisher_db \<times> (publisher_repository_error + 'a)" where
  "commit db tx decode = (case tx of Inl e \<Rightarrow> (db, Inl e) | Inr (db', row) \<Rightarrow> (db', decode row))"

section \<open>Rows\<close>

definition row_state :: "'v post_row \<Rightarrow> publisher_repository_error + post_state" where
  "row_state p = map_err InvalidState (post_state_try_from (pw_state p))"

definition row_action :: "'v post_row \<Rightarrow> publisher_repository_error + publication_action" where
  "row_action p =
     map_err (\<lambda>_. InvalidPublicationAction (pw_requested_action p))
       (publication_action_try_from (pw_requested_action p))"

definition into_post :: "('v, 'tz) publisher_ops \<Rightarrow> 'v post_row \<Rightarrow> publisher_repository_error + post" where
  "into_post ops p =
     rbind (row_state p) (\<lambda>state.
     rbind (row_action p) (\<lambda>requested_action.
     rbind (case pw_repeat_evidence p of
              None \<Rightarrow> Inr None
            | Some v \<Rightarrow> map_ok Some (ok_or (op_evidence_from_value ops v) Serialization)) (\<lambda>repeat_evidence.
       Inr \<lparr>po_id = pw_id p, po_media_id = pw_media_id p, po_channel_id = pw_channel_id p,
            po_origin_ingest_id = pw_origin_ingest_id p, po_requested_action = requested_action,
            po_requested_publish_at = pw_requested_publish_at p, po_repeat_evidence = repeat_evidence,
            po_caption = pw_caption p, po_parse_mode = pw_parse_mode p,
            po_disable_notification = pw_disable_notification p, po_state = state,
            po_scheduled_at = pw_scheduled_at p, po_cadence_slot_at = pw_cadence_slot_at p,
            po_send_generation = pw_send_generation p, po_send_token = pw_send_token p,
            po_send_started_at = pw_send_started_at p, po_telegram_message_id = pw_telegram_message_id p,
            po_published_at = pw_published_at p, po_error_class = pw_error_class p,
            po_error_message = pw_error_message p, po_created_at = pw_created_at p,
            po_updated_at = pw_updated_at p, po_revision = pw_revision p\<rparr>)))"

definition post_channel_id :: "'v publisher_db \<Rightarrow> uuid \<Rightarrow> publisher_repository_error + uuid" where
  "post_channel_id db i =
     map_ok pw_channel_id (ok_or (select_one (\<lambda>p. pw_id p = i) (db_posts db)) (PostMissing i))"

definition lock_channel :: "'v publisher_db \<Rightarrow> uuid \<Rightarrow> publisher_repository_error + channel" where
  "lock_channel db i = ok_or (select_one (\<lambda>c. ch_id c = i) (db_channels db)) (ChannelMissing i)"

definition ensure_channel_enabled :: "channel \<Rightarrow> publisher_repository_error + unit" where
  "ensure_channel_enabled c = (if \<not> ch_is_enabled c then Inl (ChannelDisabled (ch_id c)) else Inr ())"

definition lock_post :: "'v publisher_db \<Rightarrow> uuid \<Rightarrow> publisher_repository_error + 'v post_row" where
  "lock_post db i = ok_or (select_one (\<lambda>p. pw_id p = i) (db_posts db)) (PostMissing i)"

definition ensure_media_ready :: "'v publisher_db \<Rightarrow> uuid \<Rightarrow> publisher_repository_error + unit" where
  "ensure_media_ready db media_id =
     rbind (ok_or (select_one (\<lambda>m. fst m = media_id) (db_media db)) (MediaMissing media_id)) (\<lambda>m.
       if snd m \<noteq> lit ''ready'' then Inl (MediaNotReady media_id (snd m)) else Inr ())"

definition ensure_repeat_decision_resolved :: "'v post_row \<Rightarrow> publisher_repository_error + unit" where
  "ensure_repeat_decision_resolved current =
     (if pw_repeat_evidence current \<noteq> None then Inl (RepeatDecisionRequired (pw_id current)) else Inr ())"

definition check_expected_revision :: "'v post_row \<Rightarrow> int \<Rightarrow> publisher_repository_error + unit" where
  "check_expected_revision current expected_revision =
     (if expected_revision < 0 then Inl (Validation InvalidExpectedRevision)
      else if expected_revision \<noteq> pw_revision current then Inl (OptimisticConflict (pw_id current))
      else Inr ())"

definition next_revision :: "int \<Rightarrow> publisher_repository_error + int" where
  "next_revision current = (if current + 1 < 2 ^ 63 then Inr (current + 1) else Inl RevisionOverflow)"

text \<open>\<open>UPDATE posts ... RETURNING *\<close>; a \<open>bigint\<close> or \<open>integer\<close> column out of range is an error of the
  database.\<close>

definition columns_in_range :: "'v post_row \<Rightarrow> bool" where
  "columns_in_range p \<longleftrightarrow> pw_revision p < 2 ^ 63 \<and> pw_send_generation p < 2 ^ 31"

definition update_posts ::
  "('v post_row \<Rightarrow> bool) \<Rightarrow> ('v post_row \<Rightarrow> 'v post_row) \<Rightarrow> 'v publisher_db \<Rightarrow>
   ('v, 'v post_row list) publisher_tx" where
  "update_posts P f db =
     (let rows = returning P f (db_posts db) in
      if list_all columns_in_range rows
      then Inr (db\<lparr>db_posts := update_where P f (db_posts db)\<rparr>, rows)
      else Inl PublisherDatabase)"

text \<open>The same with \<open>fetch_one\<close> or \<open>fetch_optional().ok_or(error)\<close>.\<close>

definition update_post_row ::
  "('v post_row \<Rightarrow> bool) \<Rightarrow> ('v post_row \<Rightarrow> 'v post_row) \<Rightarrow> publisher_repository_error \<Rightarrow>
   'v publisher_db \<Rightarrow> ('v, 'v post_row) publisher_tx" where
  "update_post_row P f e db =
     rbind (update_posts P f db) (\<lambda>(db', rows).
       map_ok (\<lambda>row. (db', row)) (ok_or (fetch_optional rows) e))"

section \<open>Request hashes\<close>

definition be_bytes_i128 :: "int \<Rightarrow> u8 list" where
  "be_bytes_i128 n = rev (to_le_bytes 16 (word_of_int n :: 128 word))"

definition be_bytes_i64 :: "int \<Rightarrow> u8 list" where
  "be_bytes_i64 n = rev (to_le_bytes 8 (word_of_int n :: 64 word))"

definition schedule_request_hash :: "('v, 'tz) publisher_ops \<Rightarrow> post_schedule \<Rightarrow> u8 list" where
  "schedule_request_hash ops schedule = op_sha256 ops (be_bytes_i128 (ps_requested_at schedule))"

definition publish_now_request_hash :: "('v, 'tz) publisher_ops \<Rightarrow> ustring \<Rightarrow> u8 list" where
  "publish_now_request_hash ops request_key =
     op_sha256 ops (utf8_bytes (lit ''publish_now:v1:'') @ utf8_bytes request_key)"

definition exact_schedule_request_hash :: "('v, 'tz) publisher_ops \<Rightarrow> timestamp \<Rightarrow> u8 list" where
  "exact_schedule_request_hash ops requested_at =
     op_sha256 ops (utf8_bytes (lit ''exact_schedule:v1:'') @ be_bytes_i128 requested_at)"

definition decision_request_hash ::
  "('v, 'tz) publisher_ops \<Rightarrow> publication_decision \<Rightarrow> int \<Rightarrow> u8 list" where
  "decision_request_hash ops decision expected_revision =
     op_sha256 ops (utf8_bytes (lit ''publication_decision:v1:'') @
       utf8_bytes (publication_decision_as_str decision) @ be_bytes_i64 expected_revision)"

section \<open>The publication job of a post\<close>

definition publish_key :: "('v, 'tz) publisher_ops \<Rightarrow> uuid \<Rightarrow> ustring" where
  "publish_key ops post_id = lit ''post:'' @ op_uuid_text ops post_id @ lit '':publish:v1''"

text \<open>\<open>json!({ "post_id": ..., "expected_revision": ... })\<close> is the JSON form of the payload.\<close>

definition publish_value :: "('v, 'tz) publisher_ops \<Rightarrow> uuid \<Rightarrow> int \<Rightarrow> 'v" where
  "publish_value ops post_id expected_revision =
     publish_to_value (op_codec ops) \<lparr>ppp_post_id = post_id, ppp_expected_revision = expected_revision\<rparr>"

definition lock_publish_job :: "('v, 'tz) publisher_ops \<Rightarrow> uuid \<Rightarrow> 'v publisher_db \<Rightarrow> 'v job_row option" where
  "lock_publish_job ops post_id db =
     select_one (\<lambda>r. jr_dedupe_key r = Some (publish_key ops post_id)) (db_jobs db)"

definition publish_job_row ::
  "('v, 'tz) publisher_ops \<Rightarrow> db_env \<Rightarrow> uuid \<Rightarrow> timestamp \<Rightarrow> int \<Rightarrow> ustring \<Rightarrow> 'v job_row" where
  "publish_job_row ops env post_id run_at expected_revision state =
     \<lparr>jr_id = env_uuid env, jr_kind = lit ''publish_post'',
      jr_payload = publish_value ops post_id expected_revision, jr_state = state, jr_priority = 0,
      jr_run_at = run_at, jr_attempt_count = 0, jr_max_attempts = 5,
      jr_lease_token = None, jr_lease_owner = None, jr_lease_expires_at = None,
      jr_last_heartbeat_at = None, jr_error_class = None, jr_error_message = None,
      jr_dedupe_key = Some (publish_key ops post_id), jr_created_at = env_now env,
      jr_updated_at = env_now env,
      jr_completed_at = (if state = lit ''failed'' then Some (env_now env) else None)\<rparr>"

definition insert_publish_job_row ::
  "('v, 'tz) publisher_ops \<Rightarrow> db_env \<Rightarrow> uuid \<Rightarrow> timestamp \<Rightarrow> int \<Rightarrow> ustring \<Rightarrow> 'v publisher_db \<Rightarrow>
   publisher_repository_error + 'v publisher_db" where
  "insert_publish_job_row ops env post_id run_at expected_revision state db =
     (let row = publish_job_row ops env post_id run_at expected_revision state in
      if dedupe_conflict (db_jobs db) row then Inl (PublishJobUpdateLost post_id)
      else if id_conflict (db_jobs db) row then Inl PublisherDatabase
      else Inr (db\<lparr>db_jobs := db_jobs db @ [row]\<rparr>))"

text \<open>\<open>UPDATE queue.jobs ... WHERE id = $1 AND ...\<close> that must affect one row.\<close>

definition update_one_job ::
  "('v job_row \<Rightarrow> bool) \<Rightarrow> ('v job_row \<Rightarrow> 'v job_row) \<Rightarrow> uuid \<Rightarrow> 'v publisher_db \<Rightarrow>
   publisher_repository_error + 'v publisher_db" where
  "update_one_job P f post_id db =
     (if length (filter P (db_jobs db)) \<noteq> 1 then Inl (PublishJobUpdateLost post_id)
      else Inr (db\<lparr>db_jobs := update_where P f (db_jobs db)\<rparr>))"

definition requeued_job :: "('v, 'tz) publisher_ops \<Rightarrow> db_env \<Rightarrow> uuid \<Rightarrow> timestamp \<Rightarrow> int \<Rightarrow> 'v job_row \<Rightarrow> 'v job_row" where
  "requeued_job ops env post_id run_at expected_revision r =
     r\<lparr>jr_payload := publish_value ops post_id expected_revision, jr_run_at := run_at,
       jr_state := lit ''queued'',
       jr_attempt_count := (if jr_state r = lit ''failed'' then 0 else jr_attempt_count r),
       jr_error_class := None, jr_error_message := None, jr_completed_at := None,
       jr_updated_at := env_now env\<rparr>"

definition update_publish_job ::
  "('v, 'tz) publisher_ops \<Rightarrow> db_env \<Rightarrow> uuid \<Rightarrow> timestamp \<Rightarrow> int \<Rightarrow> 'v publisher_db \<Rightarrow>
   publisher_repository_error + 'v publisher_db" where
  "update_publish_job ops env post_id run_at expected_revision db =
     (case lock_publish_job ops post_id db of
        None \<Rightarrow> insert_publish_job_row ops env post_id run_at expected_revision (lit ''queued'') db
      | Some row \<Rightarrow>
          if jr_state row = lit ''running'' then Inl (PublishJobRunning post_id)
          else if jr_state row \<notin> {lit ''queued'', lit ''failed''}
          then Inl (PublishJobUnavailable post_id (jr_state row))
          else update_one_job (\<lambda>r. jr_id r = jr_id row \<and> jr_state r \<in> {lit ''queued'', lit ''failed''})
                 (requeued_job ops env post_id run_at expected_revision) post_id db)"

definition insert_publish_job ::
  "('v, 'tz) publisher_ops \<Rightarrow> db_env \<Rightarrow> uuid \<Rightarrow> timestamp \<Rightarrow> int \<Rightarrow> 'v publisher_db \<Rightarrow>
   publisher_repository_error + 'v publisher_db" where
  "insert_publish_job ops env post_id run_at expected_revision db =
     (case lock_publish_job ops post_id db of
        Some row \<Rightarrow>
          if jr_state row = lit ''running'' then Inl (PublishJobRunning post_id)
          else update_publish_job ops env post_id run_at expected_revision db
      | None \<Rightarrow> insert_publish_job_row ops env post_id run_at expected_revision (lit ''queued'') db)"

definition update_failed_publish_job ::
  "('v, 'tz) publisher_ops \<Rightarrow> db_env \<Rightarrow> uuid \<Rightarrow> timestamp \<Rightarrow> int \<Rightarrow> 'v publisher_db \<Rightarrow>
   publisher_repository_error + 'v publisher_db" where
  "update_failed_publish_job ops env post_id run_at expected_revision db =
     (case lock_publish_job ops post_id db of
        None \<Rightarrow> insert_publish_job_row ops env post_id run_at expected_revision (lit ''failed'') db
      | Some row \<Rightarrow>
          if jr_state row \<noteq> lit ''failed'' then Inl (PublishJobUnavailable post_id (jr_state row))
          else update_one_job (\<lambda>r. jr_id r = jr_id row \<and> jr_state r = lit ''failed'')
                 (\<lambda>r. r\<lparr>jr_payload := publish_value ops post_id expected_revision,
                        jr_updated_at := env_now env\<rparr>) post_id db)"

definition cancelled_job :: "db_env \<Rightarrow> 'v job_row \<Rightarrow> 'v job_row" where
  "cancelled_job env r =
     r\<lparr>jr_state := lit ''cancelled'', jr_lease_token := None, jr_lease_owner := None,
       jr_lease_expires_at := None, jr_last_heartbeat_at := None, jr_completed_at := Some (env_now env),
       jr_updated_at := env_now env\<rparr>"

definition cancel_publish_job ::
  "('v, 'tz) publisher_ops \<Rightarrow> db_env \<Rightarrow> uuid \<Rightarrow> 'v publisher_db \<Rightarrow>
   publisher_repository_error + 'v publisher_db" where
  "cancel_publish_job ops env post_id db =
     (case lock_publish_job ops post_id db of
        None \<Rightarrow> Inr db
      | Some row \<Rightarrow>
          if jr_state row = lit ''running'' then Inl (PublishJobRunning post_id)
          else if jr_state row \<notin> {lit ''queued'', lit ''failed''}
          then Inl (PublishJobUnavailable post_id (jr_state row))
          else update_one_job (\<lambda>r. jr_id r = jr_id row \<and> jr_state r \<in> {lit ''queued'', lit ''failed''})
                 (cancelled_job env) post_id db)"

definition is_current_attempt ::
  "('v, 'tz) publisher_ops \<Rightarrow> db_env \<Rightarrow> uuid \<Rightarrow> job_lease \<Rightarrow> 'v job_row \<Rightarrow> bool" where
  "is_current_attempt ops env post_id attempt r \<longleftrightarrow>
     jr_id r = jl_job_id attempt \<and> jr_kind r = lit ''publish_post'' \<and>
     op_payload_post_id ops (jr_payload r) = Some (op_uuid_text ops post_id) \<and>
     jr_state r = lit ''running'' \<and> jr_attempt_count r = jl_attempt_number attempt \<and>
     jr_lease_owner r = Some (jl_lease_owner attempt) \<and> jr_lease_token r = Some (jl_lease_token attempt) \<and>
     after_null (jr_lease_expires_at r) (env_clock env)"

definition lock_current_job_attempt ::
  "('v, 'tz) publisher_ops \<Rightarrow> db_env \<Rightarrow> uuid \<Rightarrow> job_lease \<Rightarrow> 'v publisher_db \<Rightarrow>
   publisher_repository_error + 'v job_row" where
  "lock_current_job_attempt ops env post_id attempt db =
     ok_or (select_one (is_current_attempt ops env post_id attempt) (db_jobs db)) (PublishLeaseLost post_id)"

section \<open>Editing and scheduling\<close>

text \<open>The lock order of every operation on a post: its channel, then the post.\<close>

definition lock_aggregate ::
  "'v publisher_db \<Rightarrow> uuid \<Rightarrow> publisher_repository_error + channel \<times> 'v post_row" where
  "lock_aggregate db i =
     rbind (post_channel_id db i) (\<lambda>channel_id.
     rbind (lock_channel db channel_id) (\<lambda>channel.
     rbind (lock_post db i) (\<lambda>current. Inr (channel, current))))"

definition validate_post_update :: "post_update \<Rightarrow> publisher_repository_error + unit" where
  "validate_post_update update =
     rbind (map_err Validation (validate_expected_revision (pu_expected_revision update))) (\<lambda>_.
     rbind (case pu_caption update of
              Some (Some caption) \<Rightarrow> map_err Validation (validate_caption caption)
            | _ \<Rightarrow> Inr ()) (\<lambda>_.
       case pu_parse_mode update of
         Some (Some parse_mode) \<Rightarrow>
           if \<not> valid_parse_mode parse_mode then Inl (Validation InvalidParseMode) else Inr ()
       | _ \<Rightarrow> Inr ()))"

definition edited_row :: "db_env \<Rightarrow> post_update \<Rightarrow> 'v post_row \<Rightarrow> 'v post_row \<Rightarrow> 'v post_row" where
  "edited_row env update current p =
     p\<lparr>pw_caption := unwrap_or (pu_caption update) (pw_caption current),
       pw_parse_mode := unwrap_or (pu_parse_mode update) (pw_parse_mode current),
       pw_disable_notification := unwrap_or (pu_disable_notification update) (pw_disable_notification current),
       pw_revision := pw_revision p + 1, pw_updated_at := env_now env\<rparr>"

definition update_post_tx ::
  "('v, 'tz) publisher_ops \<Rightarrow> db_env \<Rightarrow> uuid \<Rightarrow> post_update \<Rightarrow> 'v publisher_db \<Rightarrow>
   ('v, 'v post_row) publisher_tx" where
  "update_post_tx ops env i update db =
     (if pu_caption update = None \<and> pu_parse_mode update = None \<and> pu_disable_notification update = None
      then Inl EmptyUpdate
      else rbind (validate_post_update update) (\<lambda>_.
        rbind (lock_aggregate db i) (\<lambda>(channel, current).
        rbind (row_state current) (\<lambda>state.
        if \<not> is_queue_mutable state then Inl (PostNotEditable i state)
        else rbind (check_expected_revision current (pu_expected_revision update)) (\<lambda>_.
        if (case pu_expected_updated_at update of None \<Rightarrow> False | Some e \<Rightarrow> e \<noteq> pw_updated_at current)
        then Inl (OptimisticConflict i)
        else rbind (update_post_row (\<lambda>p. pw_id p = i) (edited_row env update current) PublisherDatabase db)
          (\<lambda>(db, row).
            map_ok (\<lambda>db. (db, row))
              (if state = Draft then Inr db
               else if state = PostQueued
               then update_publish_job ops env i (pw_scheduled_at row) (pw_revision row) db
               else update_failed_publish_job ops env i (pw_scheduled_at row) (pw_revision row) db)))))))"

definition update_post ::
  "('v, 'tz) publisher_ops \<Rightarrow> db_env \<Rightarrow> uuid \<Rightarrow> post_update \<Rightarrow> 'v publisher_db \<Rightarrow>
   'v publisher_db \<times> (publisher_repository_error + post)" where
  "update_post ops env i update db = commit db (update_post_tx ops env i update db) (into_post ops)"

text \<open>The slots other posts of the channel hold, and \<open>next_free_slot\<close>.\<close>

definition occupied_slots :: "'v publisher_db \<Rightarrow> uuid \<Rightarrow> uuid \<Rightarrow> timestamp list" where
  "occupied_slots db channel_id post_id =
     List.map_filter pw_cadence_slot_at
       (filter (\<lambda>p. pw_channel_id p = channel_id \<and> pw_id p \<noteq> post_id \<and>
                    pw_state p \<in> {lit ''queued'', lit ''sending''}) (db_posts db))"

definition next_free_slot ::
  "('v, 'tz) publisher_ops \<Rightarrow> db_env \<Rightarrow> 'v publisher_db \<Rightarrow> channel \<Rightarrow> uuid \<Rightarrow> timestamp \<Rightarrow>
   publisher_repository_error + timestamp" where
  "next_free_slot ops env db channel post_id requested_at =
     free_slot (op_tz ops) (env_utc env) channel (occupied_slots db (ch_id channel) post_id) requested_at"

text \<open>The guards all three ways of scheduling share, in the order of the code.\<close>

definition ensure_schedulable ::
  "'v publisher_db \<Rightarrow> channel \<Rightarrow> 'v post_row \<Rightarrow> int \<Rightarrow> publisher_repository_error + unit" where
  "ensure_schedulable db channel current expected_revision =
     rbind (check_expected_revision current expected_revision) (\<lambda>_.
     rbind (ensure_repeat_decision_resolved current) (\<lambda>_.
     rbind (ensure_channel_enabled channel) (\<lambda>_.
       ensure_media_ready db (pw_media_id current))))"

definition queue_mutable_row :: "'v post_row \<Rightarrow> bool" where
  "queue_mutable_row p \<longleftrightarrow> pw_state p \<in> {lit ''draft'', lit ''queued'', lit ''failed''}"

definition scheduled_row ::
  "db_env \<Rightarrow> ustring \<Rightarrow> u8 list \<Rightarrow> timestamp \<Rightarrow> timestamp option \<Rightarrow> int \<Rightarrow> 'v post_row \<Rightarrow> 'v post_row" where
  "scheduled_row env request_key request_hash at slot revision p =
     p\<lparr>pw_schedule_request_key := Some request_key, pw_schedule_request_hash := Some request_hash,
       pw_state := lit ''queued'', pw_scheduled_at := at, pw_cadence_slot_at := slot,
       pw_revision := revision, pw_error_class := None, pw_error_message := None,
       pw_updated_at := env_now env\<rparr>"

text \<open>After the post row is queued: a draft has no job yet.\<close>

definition queue_post_job ::
  "('v, 'tz) publisher_ops \<Rightarrow> db_env \<Rightarrow> post_state \<Rightarrow> timestamp \<Rightarrow> 'v publisher_db \<times> 'v post_row \<Rightarrow>
   ('v, 'v post_row) publisher_tx" where
  "queue_post_job ops env state at = (\<lambda>(db, row).
     map_ok (\<lambda>db. (db, row))
       (if state = Draft then insert_publish_job ops env (pw_id row) at (pw_revision row) db
        else update_publish_job ops env (pw_id row) at (pw_revision row) db))"

text \<open>A request key seen before replays the stored post if it names the same request.\<close>

definition schedule_post_tx ::
  "('v, 'tz) publisher_ops \<Rightarrow> db_env \<Rightarrow> post_schedule \<Rightarrow> 'v publisher_db \<Rightarrow>
   ('v, 'v post_row) publisher_tx" where
  "schedule_post_tx ops env schedule db =
     rbind (lock_aggregate db (ps_post_id schedule)) (\<lambda>(channel, current).
     rbind (row_state current) (\<lambda>state.
       let schedule_hash = schedule_request_hash ops schedule in
       if pw_schedule_request_key current = Some (ps_request_key schedule)
       then (if pw_schedule_request_hash current \<noteq> Some schedule_hash
             then Inl (RequestKeyConflict (ps_request_key schedule))
             else Inr (db, current))
       else if \<not> is_queue_mutable state then Inl (PostCannotBeScheduled (ps_post_id schedule) state)
       else rbind (ensure_schedulable db channel current (ps_expected_revision schedule)) (\<lambda>_.
         rbind (next_free_slot ops env db channel (pw_id current) (ps_requested_at schedule)) (\<lambda>slot.
         rbind (next_revision (pw_revision current)) (\<lambda>revision.
         rbind (update_post_row (\<lambda>p. pw_id p = pw_id current \<and> queue_mutable_row p)
                  (scheduled_row env (ps_request_key schedule) schedule_hash slot (Some slot) revision)
                  (PostCannotBeScheduled (pw_id current) state) db)
           (queue_post_job ops env state slot))))))"

definition schedule_post ::
  "('v, 'tz) publisher_ops \<Rightarrow> db_env \<Rightarrow> post_schedule \<Rightarrow> 'v publisher_db \<Rightarrow>
   'v publisher_db \<times> (publisher_repository_error + post)" where
  "schedule_post ops env schedule db = commit db (schedule_post_tx ops env schedule db) (into_post ops)"

definition exact_row ::
  "db_env \<Rightarrow> ustring \<Rightarrow> u8 list \<Rightarrow> timestamp \<Rightarrow> int \<Rightarrow> 'v post_row \<Rightarrow> 'v post_row" where
  "exact_row env request_key request_hash requested_at revision p =
     (scheduled_row env request_key request_hash requested_at None revision p)
       \<lparr>pw_requested_action := lit ''queue'', pw_requested_publish_at := Some requested_at,
        pw_repeat_evidence := None\<rparr>"

definition apply_exact_schedule ::
  "db_env \<Rightarrow> 'v post_row \<Rightarrow> post_state \<Rightarrow> timestamp \<Rightarrow> ustring \<Rightarrow> u8 list \<Rightarrow> int \<Rightarrow> 'v publisher_db \<Rightarrow>
   ('v, 'v post_row) publisher_tx" where
  "apply_exact_schedule env current state requested_at request_key request_hash revision db =
     update_post_row
       (\<lambda>p. pw_id p = pw_id current \<and> queue_mutable_row p \<and> pw_revision p = pw_revision current)
       (exact_row env request_key request_hash requested_at revision)
       (PostCannotBeScheduled (pw_id current) state) db"

definition schedule_post_exact_tx ::
  "('v, 'tz) publisher_ops \<Rightarrow> db_env \<Rightarrow> post_exact_schedule \<Rightarrow> 'v publisher_db \<Rightarrow>
   ('v, 'v post_row) publisher_tx" where
  "schedule_post_exact_tx ops env schedule db =
     (let operation_key = lit ''exact:'' @ pe_request_key schedule;
          request_hash = exact_schedule_request_hash ops (pe_requested_at schedule) in
      rbind (lock_aggregate db (pe_post_id schedule)) (\<lambda>(channel, current).
        if pw_schedule_request_key current = Some operation_key
        then (if pw_schedule_request_hash current \<noteq> Some request_hash
              then Inl (RequestKeyConflict operation_key)
              else Inr (db, current))
        else if pe_requested_at schedule \<le> env_utc env then Inl ExactScheduleInPast
        else rbind (row_state current) (\<lambda>state.
          if \<not> is_queue_mutable state then Inl (PostCannotBeScheduled (pw_id current) state)
          else rbind (ensure_schedulable db channel current (pe_expected_revision schedule)) (\<lambda>_.
            rbind (next_revision (pw_revision current)) (\<lambda>revision.
            rbind (apply_exact_schedule env current state (pe_requested_at schedule) operation_key
                     request_hash revision db)
              (queue_post_job ops env state (pe_requested_at schedule)))))))"

definition schedule_post_exact ::
  "('v, 'tz) publisher_ops \<Rightarrow> db_env \<Rightarrow> post_exact_schedule \<Rightarrow> 'v publisher_db \<Rightarrow>
   'v publisher_db \<times> (publisher_repository_error + post)" where
  "schedule_post_exact ops env schedule db =
     commit db (schedule_post_exact_tx ops env schedule db) (into_post ops)"

definition publish_now_tx ::
  "('v, 'tz) publisher_ops \<Rightarrow> db_env \<Rightarrow> uuid \<Rightarrow> ustring \<Rightarrow> int \<Rightarrow> 'v publisher_db \<Rightarrow>
   ('v, 'v post_row) publisher_tx" where
  "publish_now_tx ops env i request_key expected_revision db =
     rbind (map_err Validation (normalize_request_key request_key)) (\<lambda>request_key.
       let operation_key = lit ''publish_now:'' @ request_key;
           request_hash = publish_now_request_hash ops request_key in
       rbind (lock_aggregate db i) (\<lambda>(channel, current).
       rbind (row_state current) (\<lambda>state.
         if pw_schedule_request_key current = Some operation_key
         then (if pw_schedule_request_hash current \<noteq> Some request_hash
               then Inl (RequestKeyConflict operation_key)
               else Inr (db, current))
         else if \<not> is_queue_mutable state then Inl (PostCannotBeScheduled i state)
         else rbind (ensure_schedulable db channel current expected_revision) (\<lambda>_.
           rbind (next_revision (pw_revision current)) (\<lambda>revision.
           rbind (update_post_row (\<lambda>p. pw_id p = i \<and> queue_mutable_row p)
                    (scheduled_row env operation_key request_hash (env_utc env) None revision)
                    (PostCannotBeScheduled i state) db)
             (queue_post_job ops env state (env_utc env)))))))"

definition publish_now ::
  "('v, 'tz) publisher_ops \<Rightarrow> db_env \<Rightarrow> uuid \<Rightarrow> ustring \<Rightarrow> int \<Rightarrow> 'v publisher_db \<Rightarrow>
   'v publisher_db \<times> (publisher_repository_error + post)" where
  "publish_now ops env i request_key expected_revision db =
     commit db (publish_now_tx ops env i request_key expected_revision db) (into_post ops)"

definition cancelled_post :: "db_env \<Rightarrow> int \<Rightarrow> 'v post_row \<Rightarrow> 'v post_row" where
  "cancelled_post env revision p =
     p\<lparr>pw_state := lit ''cancelled'', pw_cadence_slot_at := None, pw_revision := revision,
       pw_updated_at := env_now env\<rparr>"

definition cancel_post_tx ::
  "('v, 'tz) publisher_ops \<Rightarrow> db_env \<Rightarrow> uuid \<Rightarrow> int \<Rightarrow> 'v publisher_db \<Rightarrow> ('v, 'v post_row) publisher_tx" where
  "cancel_post_tx ops env i expected_revision db =
     rbind (lock_aggregate db i) (\<lambda>(channel, current).
     rbind (row_state current) (\<lambda>state.
       if \<not> is_queue_mutable state then Inl (PostCannotBeScheduled i state)
       else rbind (check_expected_revision current expected_revision) (\<lambda>_.
         rbind (if state \<noteq> Draft then cancel_publish_job ops env i db else Inr db) (\<lambda>db.
         rbind (next_revision (pw_revision current)) (\<lambda>revision.
           update_post_row (\<lambda>p. pw_id p = i \<and> queue_mutable_row p) (cancelled_post env revision)
             (PostCannotBeScheduled i state) db)))))"

definition cancel_post ::
  "('v, 'tz) publisher_ops \<Rightarrow> db_env \<Rightarrow> uuid \<Rightarrow> int \<Rightarrow> 'v publisher_db \<Rightarrow>
   'v publisher_db \<times> (publisher_repository_error + post)" where
  "cancel_post ops env i expected_revision db =
     commit db (cancel_post_tx ops env i expected_revision db) (into_post ops)"

section \<open>Repeat decisions\<close>

fun decision_allowed :: "publication_action \<Rightarrow> timestamp option \<Rightarrow> publication_decision \<Rightarrow> bool" where
  "decision_allowed PostNowPublication requested_publish_at decision =
     (decision \<in> {PostNowAnyway, QueueAnyway, CancelDecision})"
| "decision_allowed QueuePublication requested_publish_at decision =
     (decision \<in> {QueueAnyway, KeepExactTime, CancelDecision} \<and>
      (requested_publish_at \<noteq> None \<or> decision \<noteq> KeepExactTime))"

definition decided_row ::
  "db_env \<Rightarrow> ustring \<Rightarrow> u8 list \<Rightarrow> timestamp \<Rightarrow> timestamp option \<Rightarrow> int \<Rightarrow> 'v post_row \<Rightarrow> 'v post_row" where
  "decided_row env request_key request_hash at slot revision p =
     p\<lparr>pw_state := lit ''queued'', pw_scheduled_at := at, pw_cadence_slot_at := slot,
       pw_repeat_evidence := None, pw_decision_request_key := Some request_key,
       pw_decision_request_hash := Some request_hash, pw_revision := revision,
       pw_error_class := None, pw_error_message := None, pw_updated_at := env_now env\<rparr>"

definition decision_cancelled_row ::
  "db_env \<Rightarrow> ustring \<Rightarrow> u8 list \<Rightarrow> int \<Rightarrow> 'v post_row \<Rightarrow> 'v post_row" where
  "decision_cancelled_row env request_key request_hash revision p =
     p\<lparr>pw_state := lit ''cancelled'', pw_repeat_evidence := None,
       pw_decision_request_key := Some request_key, pw_decision_request_hash := Some request_hash,
       pw_cadence_slot_at := None, pw_revision := revision, pw_updated_at := env_now env\<rparr>"

text \<open>Queue a decided draft at the given time, with its job.\<close>

definition queue_decided ::
  "('v, 'tz) publisher_ops \<Rightarrow> db_env \<Rightarrow> uuid \<Rightarrow> ustring \<Rightarrow> u8 list \<Rightarrow> timestamp \<Rightarrow> timestamp option \<Rightarrow>
   int \<Rightarrow> int \<Rightarrow> 'v publisher_db \<Rightarrow> ('v, 'v post_row) publisher_tx" where
  "queue_decided ops env i request_key request_hash at slot revision expected_revision db =
     rbind (update_post_row (\<lambda>p. pw_id p = i \<and> pw_state p = lit ''draft'' \<and> pw_revision p = expected_revision)
              (decided_row env request_key request_hash at slot revision) PublisherDatabase db) (\<lambda>(db, row).
       map_ok (\<lambda>db. (db, row)) (insert_publish_job ops env i at (pw_revision row) db))"

definition apply_decision ::
  "('v, 'tz) publisher_ops \<Rightarrow> db_env \<Rightarrow> channel \<Rightarrow> 'v post_row \<Rightarrow> publication_decision \<Rightarrow> ustring \<Rightarrow>
   u8 list \<Rightarrow> int \<Rightarrow> int \<Rightarrow> 'v publisher_db \<Rightarrow> ('v, 'v post_row) publisher_tx" where
  "apply_decision ops env channel current decision request_key request_hash revision expected_revision db =
     (if decision = CancelDecision
      then update_post_row
             (\<lambda>p. pw_id p = pw_id current \<and> pw_state p = lit ''draft'' \<and> pw_revision p = expected_revision)
             (decision_cancelled_row env request_key request_hash revision) PublisherDatabase db
      else rbind (ensure_channel_enabled channel) (\<lambda>_.
        rbind (ensure_media_ready db (pw_media_id current)) (\<lambda>_.
          case decision of
            QueueAnyway \<Rightarrow>
              rbind (next_free_slot ops env db channel (pw_id current) (env_utc env)) (\<lambda>slot.
                queue_decided ops env (pw_id current) request_key request_hash slot (Some slot) revision
                  expected_revision db)
          | KeepExactTime \<Rightarrow>
              rbind (ok_or (pw_requested_publish_at current) (ExactTimeMissing (pw_id current))) (\<lambda>requested_at.
                if requested_at \<le> env_utc env then Inl ExactScheduleInPast
                else queue_decided ops env (pw_id current) request_key request_hash requested_at None revision
                       expected_revision db)
          | _ \<Rightarrow>
              queue_decided ops env (pw_id current) request_key request_hash (env_utc env) None revision
                expected_revision db)))"

definition decide_post_tx ::
  "('v, 'tz) publisher_ops \<Rightarrow> db_env \<Rightarrow> uuid \<Rightarrow> publication_decision \<Rightarrow> ustring \<Rightarrow> int \<Rightarrow>
   'v publisher_db \<Rightarrow> ('v, 'v post_row) publisher_tx" where
  "decide_post_tx ops env i decision request_key expected_revision db =
     rbind (map_err Validation (normalize_request_key request_key)) (\<lambda>request_key.
       let request_hash = decision_request_hash ops decision expected_revision in
       rbind (lock_aggregate db i) (\<lambda>(channel, current).
         if pw_decision_request_key current = Some request_key
         then (if pw_decision_request_hash current \<noteq> Some request_hash
               then Inl (RequestKeyConflict request_key)
               else Inr (db, current))
         else rbind (row_state current) (\<lambda>state.
           if state \<noteq> Draft \<or> pw_repeat_evidence current = None then Inl (PostDecisionNotAllowed i state)
           else rbind (check_expected_revision current expected_revision) (\<lambda>_.
             rbind (row_action current) (\<lambda>action.
               if \<not> decision_allowed action (pw_requested_publish_at current) decision
               then Inl (InvalidPublicationDecision i decision)
               else rbind (next_revision (pw_revision current)) (\<lambda>revision.
                 apply_decision ops env channel current decision request_key request_hash revision
                   expected_revision db))))))"

definition decide_post ::
  "('v, 'tz) publisher_ops \<Rightarrow> db_env \<Rightarrow> uuid \<Rightarrow> publication_decision \<Rightarrow> ustring \<Rightarrow> int \<Rightarrow>
   'v publisher_db \<Rightarrow> 'v publisher_db \<times> (publisher_repository_error + post)" where
  "decide_post ops env i decision request_key expected_revision db =
     commit db (decide_post_tx ops env i decision request_key expected_revision db) (into_post ops)"

section \<open>The fenced send\<close>

record publish_lease =
  pl_generation :: int
  pl_token :: uuid
  pl_attempt :: job_lease

definition sending_row :: "db_env \<Rightarrow> int \<Rightarrow> 'v post_row \<Rightarrow> 'v post_row" where
  "sending_row env revision p =
     p\<lparr>pw_state := lit ''sending'', pw_send_generation := pw_send_generation p + 1,
       pw_send_token := Some (env_uuid env), pw_send_started_at := Some (env_now env),
       pw_revision := revision, pw_updated_at := env_now env\<rparr>"

text \<open>\<open>Uuid::now_v7()\<close> is the fresh identifier of the environment.\<close>

definition claim_publish_tx ::
  "('v, 'tz) publisher_ops \<Rightarrow> db_env \<Rightarrow> uuid \<Rightarrow> int \<Rightarrow> job_lease \<Rightarrow> 'v publisher_db \<Rightarrow>
   ('v, channel \<times> 'v post_row) publisher_tx" where
  "claim_publish_tx ops env i expected_revision attempt db =
     rbind (lock_aggregate db i) (\<lambda>(channel, current).
     rbind (lock_current_job_attempt ops env i attempt db) (\<lambda>_.
     rbind (row_state current) (\<lambda>state.
       if state \<noteq> PostQueued then Inl (PostNotClaimable i state)
       else if pw_revision current \<noteq> expected_revision then Inl (StalePublicationJob i)
       else rbind (ensure_channel_enabled channel) (\<lambda>_.
         rbind (ensure_media_ready db (pw_media_id current)) (\<lambda>_.
         rbind (next_revision (pw_revision current)) (\<lambda>revision.
           map_ok (\<lambda>(db, row). (db, (channel, row)))
             (update_post_row
                (\<lambda>p. pw_id p = i \<and> pw_state p = lit ''queued'' \<and> pw_revision p = expected_revision)
                (sending_row env revision) PublisherDatabase db)))))))"

definition claim_publish ::
  "('v, 'tz) publisher_ops \<Rightarrow> db_env \<Rightarrow> uuid \<Rightarrow> int \<Rightarrow> job_lease \<Rightarrow> 'v publisher_db \<Rightarrow>
   'v publisher_db \<times> (publisher_repository_error + publish_claim)" where
  "claim_publish ops env i expected_revision attempt db =
     commit db (claim_publish_tx ops env i expected_revision attempt db)
       (\<lambda>(channel, row). map_ok (\<lambda>post. \<lparr>pc_post = post, pc_channel_chat_id = ch_telegram_chat_id channel\<rparr>)
          (into_post ops row))"

text \<open>The post row the lease sends.\<close>

definition send_row :: "uuid \<Rightarrow> publish_lease \<Rightarrow> 'v post_row \<Rightarrow> bool" where
  "send_row i lease p \<longleftrightarrow>
     pw_id p = i \<and> pw_state p = lit ''sending'' \<and> pw_send_generation p = pl_generation lease \<and>
     pw_send_token p = Some (pl_token lease)"

definition published_row :: "db_env \<Rightarrow> int \<Rightarrow> 'v post_row \<Rightarrow> 'v post_row" where
  "published_row env telegram_message_id p =
     p\<lparr>pw_state := lit ''published'', pw_telegram_message_id := Some telegram_message_id,
       pw_published_at := Some (unwrap_or (pw_published_at p) (env_now env)),
       pw_send_token := None, pw_send_started_at := None, pw_error_class := None,
       pw_error_message := None, pw_revision := pw_revision p + 1, pw_updated_at := env_now env\<rparr>"

definition complete_publish_tx ::
  "('v, 'tz) publisher_ops \<Rightarrow> db_env \<Rightarrow> uuid \<Rightarrow> publish_lease \<Rightarrow> int \<Rightarrow> 'v publisher_db \<Rightarrow>
   ('v, channel \<times> 'v post_row) publisher_tx" where
  "complete_publish_tx ops env i lease telegram_message_id db =
     (if telegram_message_id \<le> 0 then Inl (InvalidTelegramMessageId telegram_message_id)
      else rbind (lock_aggregate db i) (\<lambda>(channel, current).
        rbind (lock_current_job_attempt ops env i (pl_attempt lease) db) (\<lambda>_.
        rbind (row_state current) (\<lambda>state.
          if state = Published
          then (if pw_send_generation current \<noteq> pl_generation lease \<or>
                   pw_telegram_message_id current \<noteq> Some telegram_message_id
                then Inl (PublishConflict i)
                else Inr (db, (channel, current)))
          else if state \<noteq> Sending \<or> pw_send_generation current \<noteq> pl_generation lease \<or>
                  pw_send_token current \<noteq> Some (pl_token lease)
          then Inl (PublishLeaseLost i)
          else map_ok (\<lambda>(db, row). (db, (channel, row)))
                 (update_post_row (send_row i lease) (published_row env telegram_message_id)
                    PublisherDatabase db)))))"

definition complete_publish ::
  "('v, 'tz) publisher_ops \<Rightarrow> db_env \<Rightarrow> uuid \<Rightarrow> publish_lease \<Rightarrow> int \<Rightarrow> 'v publisher_db \<Rightarrow>
   'v publisher_db \<times> (publisher_repository_error + published_message)" where
  "complete_publish ops env i lease telegram_message_id db =
     commit db (complete_publish_tx ops env i lease telegram_message_id db)
       (\<lambda>(channel, row). map_ok (\<lambda>post. \<lparr>pm_post = post, pm_channel_chat_id = ch_telegram_chat_id channel\<rparr>)
          (into_post ops row))"

definition send_ended_row ::
  "db_env \<Rightarrow> ustring \<Rightarrow> ustring \<Rightarrow> ustring \<Rightarrow> int \<Rightarrow> 'v post_row \<Rightarrow> 'v post_row" where
  "send_ended_row env state error_class error_message revision p =
     p\<lparr>pw_state := state, pw_send_token := None, pw_send_started_at := None,
       pw_error_class := Some error_class, pw_error_message := Some error_message,
       pw_revision := revision, pw_updated_at := env_now env\<rparr>"

text \<open>The same with \<open>revision = revision + 1\<close>.\<close>

definition send_ended_next ::
  "db_env \<Rightarrow> ustring \<Rightarrow> ustring \<Rightarrow> ustring \<Rightarrow> 'v post_row \<Rightarrow> 'v post_row" where
  "send_ended_next env state error_class error_message p =
     send_ended_row env state error_class error_message (pw_revision p + 1) p"

definition fail_publish_tx ::
  "('v, 'tz) publisher_ops \<Rightarrow> db_env \<Rightarrow> uuid \<Rightarrow> publish_lease \<Rightarrow> post_state \<Rightarrow> ustring \<Rightarrow> ustring \<Rightarrow>
   'v publisher_db \<Rightarrow> ('v, 'v post_row) publisher_tx" where
  "fail_publish_tx ops env i lease state error_class error_message db =
     (if state \<notin> {PostFailed, PostUnknown} then Inl (InvalidPublishFailureState state)
      else rbind (lock_aggregate db i) (\<lambda>_.
        rbind (lock_current_job_attempt ops env i (pl_attempt lease) db) (\<lambda>_.
          update_post_row (send_row i lease)
            (send_ended_next env (post_state_as_str state) error_class error_message)
            (PublishLeaseLost i) db)))"

definition fail_publish ::
  "('v, 'tz) publisher_ops \<Rightarrow> db_env \<Rightarrow> uuid \<Rightarrow> publish_lease \<Rightarrow> post_state \<Rightarrow> ustring \<Rightarrow> ustring \<Rightarrow>
   'v publisher_db \<Rightarrow> 'v publisher_db \<times> (publisher_repository_error + post)" where
  "fail_publish ops env i lease state error_class error_message db =
     commit db (fail_publish_tx ops env i lease state error_class error_message db) (into_post ops)"

definition retry_publish_tx ::
  "('v, 'tz) publisher_ops \<Rightarrow> db_env \<Rightarrow> uuid \<Rightarrow> publish_lease \<Rightarrow> ustring \<Rightarrow> ustring \<Rightarrow>
   'v publisher_db \<Rightarrow> ('v, 'v post_row \<times> bool) publisher_tx" where
  "retry_publish_tx ops env i lease error_class error_message db =
     rbind (lock_aggregate db i) (\<lambda>(_, current).
     rbind (lock_current_job_attempt ops env i (pl_attempt lease) db) (\<lambda>job.
     rbind (row_state current) (\<lambda>state.
       if state \<noteq> Sending \<or> pw_send_generation current \<noteq> pl_generation lease \<or>
          pw_send_token current \<noteq> Some (pl_token lease)
       then Inl (PublishLeaseLost i)
       else rbind (next_revision (pw_revision current)) (\<lambda>revision.
         let terminal = (jr_attempt_count job \<ge> jr_max_attempts job);
             next_state = (if terminal then PostFailed else PostQueued) in
         rbind (update_post_row (send_row i lease)
                  (send_ended_row env (post_state_as_str next_state) error_class error_message revision)
                  PublisherDatabase db) (\<lambda>(db, row).
           map_ok (\<lambda>db. (db, (row, terminal)))
             (if \<not> terminal
              then update_one_job (\<lambda>r. jr_id r = jr_id job \<and> jr_state r = lit ''running'')
                     (\<lambda>r. r\<lparr>jr_payload := publish_value ops i (pw_revision row), jr_updated_at := env_now env\<rparr>)
                     i db
              else Inr db))))))"

definition retry_publish ::
  "('v, 'tz) publisher_ops \<Rightarrow> db_env \<Rightarrow> uuid \<Rightarrow> publish_lease \<Rightarrow> ustring \<Rightarrow> ustring \<Rightarrow>
   'v publisher_db \<Rightarrow> 'v publisher_db \<times> (publisher_repository_error + publish_retry)" where
  "retry_publish ops env i lease error_class error_message db =
     commit db (retry_publish_tx ops env i lease error_class error_message db)
       (\<lambda>(row, terminal). map_ok (\<lambda>post. \<lparr>pr_post = post, pr_terminal = terminal\<rparr>) (into_post ops row))"

definition reconcile_interrupted_publish_tx ::
  "('v, 'tz) publisher_ops \<Rightarrow> db_env \<Rightarrow> uuid \<Rightarrow> job_lease \<Rightarrow> 'v publisher_db \<Rightarrow>
   ('v, 'v post_row list) publisher_tx" where
  "reconcile_interrupted_publish_tx ops env i attempt db =
     rbind (lock_aggregate db i) (\<lambda>_.
     rbind (lock_current_job_attempt ops env i attempt db) (\<lambda>_.
       update_posts (\<lambda>p. pw_id p = i \<and> pw_state p = lit ''sending'')
         (send_ended_next env (lit ''unknown'') (lit ''publication_interrupted'')
            (lit ''a previous publication attempt lost its job lease'')) db))"

definition reconcile_interrupted_publish ::
  "('v, 'tz) publisher_ops \<Rightarrow> db_env \<Rightarrow> uuid \<Rightarrow> job_lease \<Rightarrow> 'v publisher_db \<Rightarrow>
   'v publisher_db \<times> (publisher_repository_error + bool)" where
  "reconcile_interrupted_publish ops env i attempt db =
     commit db (reconcile_interrupted_publish_tx ops env i attempt db) (\<lambda>rows. Inr (length rows = 1))"

section \<open>Settlement and recovery of publication jobs\<close>

definition lock_publication_post :: "'v publisher_db \<Rightarrow> uuid \<Rightarrow> 'v post_row option" where
  "lock_publication_post db post_id = select_one (\<lambda>p. pw_id p = post_id) (db_posts db)"

text \<open>An error of \<open>sqlx\<close> is the database error of the job repository.\<close>

definition settle_terminal_publication_post ::
  "db_env \<Rightarrow> uuid \<Rightarrow> 'v post_row \<Rightarrow> int \<Rightarrow> ustring \<Rightarrow> ustring \<Rightarrow> 'v publisher_db \<Rightarrow>
   job_repository_error + 'v publisher_db" where
  "settle_terminal_publication_post env post_id post expected_revision error_class error_message db =
     (if pw_state post = lit ''queued'' \<and> expected_revision = pw_revision post
      then map_ok fst (map_err (\<lambda>_. JobDatabase)
        (update_posts (\<lambda>p. pw_id p = post_id \<and> pw_state p = lit ''queued'' \<and> pw_revision p = pw_revision post)
           (send_ended_next env (lit ''failed'') error_class error_message) db))
      else if pw_state post = lit ''sending''
      then map_ok fst (map_err (\<lambda>_. JobDatabase)
        (update_posts (\<lambda>p. pw_id p = post_id \<and> pw_state p = lit ''sending'')
           (send_ended_next env (lit ''unknown'') error_class error_message) db))
      else Inr db)"

fun publish_payload :: "job_command \<Rightarrow> job_repository_error + publish_post_payload" where
  "publish_payload (PublishPost payload) = Inr payload"
| "publish_payload _ = Inl LeaseLost"

definition update_locked_publication ::
  "db_env \<Rightarrow> uuid \<Rightarrow> queue_update \<Rightarrow> 'v publisher_db \<Rightarrow> job_repository_error + 'v publisher_db \<times> 'v job_row" where
  "update_locked_publication env jid update db =
     map_ok (\<lambda>(jobs, row). (db\<lparr>db_jobs := jobs\<rparr>, row)) (update_locked_job env jid update (db_jobs db))"

text \<open>\<open>if terminal && let Some(post) = post\<close>.\<close>

definition when_terminal :: "bool \<Rightarrow> 'p option \<Rightarrow> ('p \<Rightarrow> 'e + 'db) \<Rightarrow> 'db \<Rightarrow> 'e + 'db" where
  "when_terminal terminal post settle db =
     (case post of Some post \<Rightarrow> if terminal then settle post else Inr db | None \<Rightarrow> Inr db)"

definition settle_publish_tx ::
  "('v, 'tz) publisher_ops \<Rightarrow> db_env \<Rightarrow> job_lease \<Rightarrow> job_command \<Rightarrow> job_settlement \<Rightarrow> 'v publisher_db \<Rightarrow>
   job_repository_error + 'v publisher_db \<times> 'v job_row" where
  "settle_publish_tx ops env lease expected settlement db =
     rbind (publish_payload expected) (\<lambda>wanted.
       let post = lock_publication_post db (ppp_post_id wanted) in
       rbind (lock_running_job env lease (allows_expired_lease settlement) (db_jobs db)) (\<lambda>job.
       rbind (rbind (validate_locked_command (op_codec ops) job expected) publish_payload) (\<lambda>payload.
         let queue_update = queue_parameters job settlement in
         rbind (when_terminal (qu_terminal queue_update) post (\<lambda>post.
                  settle_terminal_publication_post env (ppp_post_id payload) post
                    (ppp_expected_revision payload) (qu_error_class queue_update)
                    (qu_error_message queue_update) db) db) (\<lambda>db.
           update_locked_publication env (jr_id job) queue_update db))))"

definition settle_publish_job ::
  "('v, 'tz) publisher_ops \<Rightarrow> db_env \<Rightarrow> job_lease \<Rightarrow> job_command \<Rightarrow> job_settlement \<Rightarrow> 'v publisher_db \<Rightarrow>
   'v publisher_db \<times> (job_repository_error + job)" where
  "settle_publish_job ops env lease expected settlement db =
     (case settle_publish_tx ops env lease expected settlement db of
        Inl e \<Rightarrow> (db, Inl e)
      | Inr (db', row) \<Rightarrow> (db', into_job (op_codec ops) row))"

definition recover_publish_tx ::
  "('v, 'tz) publisher_ops \<Rightarrow> db_env \<Rightarrow> uuid \<Rightarrow> job_command \<Rightarrow> 'v publisher_db \<Rightarrow>
   job_repository_error + 'v publisher_db \<times> bool" where
  "recover_publish_tx ops env jid expected db =
     rbind (publish_payload expected) (\<lambda>wanted.
       let post = lock_publication_post db (ppp_post_id wanted) in
       case lock_expired_job env jid (db_jobs db) of
         None \<Rightarrow> Inr (db, False)
       | Some job \<Rightarrow>
           rbind (rbind (validate_locked_command (op_codec ops) job expected) publish_payload) (\<lambda>payload.
             let terminal = (jr_attempt_count job \<ge> jr_max_attempts job) in
             rbind (when_terminal terminal post (\<lambda>post.
                      settle_terminal_publication_post env (ppp_post_id payload) post
                        (ppp_expected_revision payload)
                        (if pw_state post = lit ''sending'' then lit ''publication_interrupted''
                         else unwrap_or (jr_error_class job) (lit ''lease_expired''))
                        (if pw_state post = lit ''sending''
                         then lit ''publication job lease expired after the final attempt''
                         else unwrap_or (jr_error_message job) (lit ''job lease expired'')) db) db) (\<lambda>db.
               map_ok (\<lambda>(db, _). (db, True))
                 (update_locked_publication env (jr_id job) (recovery_update env job) db))))"

definition recover_publish_job ::
  "('v, 'tz) publisher_ops \<Rightarrow> db_env \<Rightarrow> uuid \<Rightarrow> job_command \<Rightarrow> 'v publisher_db \<Rightarrow>
   'v publisher_db \<times> (job_repository_error + bool)" where
  "recover_publish_job ops env jid expected db =
     (case recover_publish_tx ops env jid expected db of
        Inl e \<Rightarrow> (db, Inl e)
      | Inr (db', b) \<Rightarrow> (db', Inr b))"

end
