(* ===== verification/Store.thy ===== *)
theory Store
  imports Library Publisher_Store
begin

text \<open>
  The five tables of the schema as one state, \<open>store\<close>: the rows of \<open>ingests\<close> and \<open>media\<close> beside
  the jobs, posts and channels of the earlier theories, and the statements of
  \<open>crates/persistence/src\<close> the repositories share: inserting a job unless its dedupe key is
  taken, updates of media and ingest rows, the cleanup jobs of a media item's workspaces.

  The publisher works on the part \<open>publisher_view\<close> of the store. A transaction is a function to
  \<open>error + store \<times> result\<close>; \<open>in_transaction\<close> commits it or, on an error, leaves the store alone.
\<close>

section \<open>Rows\<close>

record media_row =
  mw_id :: uuid
  mw_kind :: ustring
  mw_storage_state :: ustring
  mw_canonical_sha256 :: "u8 list option"
  mw_fingerprint_version :: "ustring option"
  mw_fingerprint_data :: "u8 list option"
  mw_fingerprint_search_tokens :: "int list option"
  mw_title :: "ustring option"
  mw_description :: "ustring option"
  mw_tags :: "ustring list"
  mw_source_url :: "ustring option"
  mw_source_metadata :: json
  mw_mime_type :: "ustring option"
  mw_container :: "ustring option"
  mw_video_codec :: "ustring option"
  mw_audio_codec :: "ustring option"
  mw_width :: "int option"
  mw_height :: "int option"
  mw_duration_ms :: "int option"
  mw_bit_rate :: "int option"
  mw_file_size_bytes :: "int option"
  mw_local_work_path :: "ustring option"
  mw_preview_bytes :: "u8 list option"
  mw_preview_mime_type :: "ustring option"
  mw_preview_width :: "int option"
  mw_preview_height :: "int option"
  mw_preview_sha256 :: "u8 list option"
  mw_telegram_storage_chat_id :: "int option"
  mw_telegram_storage_message_id :: "int option"
  mw_telegram_file_id :: "ustring option"
  mw_telegram_file_unique_id :: "ustring option"
  mw_storage_generation :: int
  mw_storage_token :: "uuid option"
  mw_storage_started_at :: "timestamp option"
  mw_created_at :: timestamp
  mw_updated_at :: timestamp
  mw_stored_at :: "timestamp option"
  mw_caption_sync_generation :: int
  mw_caption_sync_state :: ustring
  mw_caption_sync_error :: "ustring option"
  mw_caption_sync_claim_token :: "uuid option"

record ingest_row =
  iw_id :: uuid
  iw_input_kind :: ustring
  iw_state :: ustring
  iw_submitted_via :: ustring
  iw_input_json :: json
  iw_source_url :: "ustring option"
  iw_page_url :: "ustring option"
  iw_page_title :: "ustring option"
  iw_supplied_caption :: "ustring option"
  iw_supplied_description :: "ustring option"
  iw_supplied_tags :: "ustring list"
  iw_requested_action :: ustring
  iw_requested_publish_at :: "timestamp option"
  iw_requested_post_caption :: "ustring option"
  iw_requested_channel_id :: "uuid option"
  iw_input_key :: ustring
  iw_request_hash :: "u8 list"
  iw_workspace_id :: uuid
  iw_media_id :: "uuid option"
  iw_force_save :: bool
  iw_duplicate_evidence :: "json option"
  iw_error_code :: "ustring option"
  iw_error_message :: "ustring option"
  iw_acknowledged_failure_at :: "timestamp option"
  iw_created_at :: timestamp
  iw_updated_at :: timestamp
  iw_completed_at :: "timestamp option"

record 'v store =
  st_jobs :: "'v job_table"
  st_ingests :: "ingest_row list"
  st_media :: "media_row list"
  st_posts :: "'v post_row list"
  st_channels :: "channel list"

text \<open>
  What the store uses of other crates: the publisher's operations (with the payload codec and
  the text form of a UUID), the operator \<open>payload->>'field'\<close> of the database, Unicode
  lower-casing, the image decoder's size of a preview, the text form of a time, the RFC 3339 and UUID parsers, and serde's JSON
  value of duplicate evidence with the length of its encoding.
\<close>

record ('v, 'tz) store_ops =
  so_publisher :: "('v, 'tz) publisher_ops"
  so_payload_text :: "'v \<Rightarrow> ustring \<Rightarrow> ustring option"
  so_to_lowercase :: "ustring \<Rightarrow> ustring"
  so_preview_size :: "u8 list \<Rightarrow> ustring \<Rightarrow> ustring + nat \<times> nat"
  so_time_text :: "timestamp \<Rightarrow> ustring"
  so_parse_rfc3339 :: "ustring \<Rightarrow> timestamp option"
  so_parse_uuid :: "ustring \<Rightarrow> uuid option"
  so_evidence_json :: "video_duplicate_evidence \<Rightarrow> json"
  so_json_length :: "json \<Rightarrow> nat"

abbreviation so_codec :: "('v, 'tz) store_ops \<Rightarrow> 'v payload_codec" where
  "so_codec ops \<equiv> op_codec (so_publisher ops)"

abbreviation so_uuid_text :: "('v, 'tz) store_ops \<Rightarrow> uuid \<Rightarrow> ustring" where
  "so_uuid_text ops \<equiv> op_uuid_text (so_publisher ops)"

text \<open>The environment of a transaction that inserts several jobs: \<open>gen_random_uuid()\<close> may give any
  id to each of them, here as a function of the dedupe key, of which one job is inserted.\<close>

record store_env =
  se_db :: db_env
  se_job_uuid :: "ustring \<Rightarrow> uuid"

section \<open>Transactions\<close>

definition in_transaction :: "'s \<Rightarrow> ('e + 's \<times> 'r) \<Rightarrow> ('r \<Rightarrow> 'e + 'a) \<Rightarrow> 's \<times> ('e + 'a)" where
  "in_transaction s tx decode = (case tx of Inl e \<Rightarrow> (s, Inl e) | Inr (s', r) \<Rightarrow> (s', decode r))"

definition publisher_view :: "'v store \<Rightarrow> 'v publisher_db" where
  "publisher_view s =
     \<lparr>db_jobs = st_jobs s, db_posts = st_posts s, db_channels = st_channels s,
      db_media = map (\<lambda>m. (mw_id m, mw_storage_state m)) (st_media s)\<rparr>"

definition with_publisher :: "'v store \<Rightarrow> 'v publisher_db \<Rightarrow> 'v store" where
  "with_publisher s db = s\<lparr>st_jobs := db_jobs db, st_posts := db_posts db, st_channels := db_channels db\<rparr>"

subsection \<open>What a transaction ensures\<close>

text \<open>Every committed outcome satisfies \<open>Q\<close>; the rules follow the shape of a transaction.\<close>

definition tx_ensures :: "('s \<Rightarrow> 'r \<Rightarrow> bool) \<Rightarrow> 'e + 's \<times> 'r \<Rightarrow> bool" where
  "tx_ensures Q tx = (case tx of Inl _ \<Rightarrow> True | Inr (s, r) \<Rightarrow> Q s r)"

named_theorems tx_rules

lemma tx_Inl [tx_rules]: "tx_ensures Q (Inl e)"
  by (simp add: tx_ensures_def)

lemma tx_Inr [tx_rules]: "Q s r \<Longrightarrow> tx_ensures Q (Inr (s, r))"
  by (simp add: tx_ensures_def)

lemma tx_rbind [tx_rules]: "(\<And>y. x = Inr y \<Longrightarrow> tx_ensures Q (f y)) \<Longrightarrow> tx_ensures Q (rbind x f)"
  by (cases x) (simp_all add: tx_ensures_def)

lemma tx_rbind_prod [tx_rules]:
  "(\<And>y z. x = Inr (y, z) \<Longrightarrow> tx_ensures Q (f y z)) \<Longrightarrow> tx_ensures Q (rbind x (\<lambda>(y, z). f y z))"
  by (rule tx_rbind) (simp split: prod.split)

lemma tx_if [tx_rules]:
  "(c \<Longrightarrow> tx_ensures Q t) \<Longrightarrow> (\<not> c \<Longrightarrow> tx_ensures Q u) \<Longrightarrow> tx_ensures Q (if c then t else u)"
  by simp

lemma tx_let [tx_rules]: "tx_ensures Q (f x) \<Longrightarrow> tx_ensures Q (let y = x in f y)"
  by simp

lemma tx_option [tx_rules]:
  "(x = None \<Longrightarrow> tx_ensures Q t) \<Longrightarrow> (\<And>y. x = Some y \<Longrightarrow> tx_ensures Q (u y)) \<Longrightarrow>
     tx_ensures Q (case x of None \<Rightarrow> t | Some y \<Rightarrow> u y)"
  by (cases x) simp_all

lemma tx_map_ok [tx_rules]: "(\<And>y. x = Inr y \<Longrightarrow> Q (fst (g y)) (snd (g y))) \<Longrightarrow> tx_ensures Q (map_ok g x)"
  by (cases x) (auto simp: tx_ensures_def split: prod.split)

lemma tx_ensuresD: "tx_ensures Q tx \<Longrightarrow> tx = Inr (s, r) \<Longrightarrow> Q s r"
  by (simp add: tx_ensures_def)

lemma tx_ensures_mono: "tx_ensures P tx \<Longrightarrow> (\<And>s r. P s r \<Longrightarrow> Q s r) \<Longrightarrow> tx_ensures Q tx"
  by (cases tx) (auto simp: tx_ensures_def)

lemma in_transaction_ensures: "Q s \<Longrightarrow> tx_ensures (\<lambda>s' _. Q s') tx \<Longrightarrow> Q (fst (in_transaction s tx decode))"
  by (cases tx) (auto simp: tx_ensures_def in_transaction_def)

section \<open>Statements\<close>

text \<open>\<open>INSERT INTO queue.jobs (kind, payload, state, run_at, max_attempts, dedupe_key) ... ON CONFLICT
  (dedupe_key) DO NOTHING\<close>; a clash of the primary key is an error of the database.\<close>

definition insert_job_once ::
  "('v, 'tz) store_ops \<Rightarrow> store_env \<Rightarrow> new_job \<Rightarrow> ustring \<Rightarrow> 'v job_table \<Rightarrow> unit + 'v job_table" where
  "insert_job_once ops env j dedupe_key t =
     (let row = inserted_job (so_codec ops) ((se_db env)\<lparr>env_uuid := se_job_uuid env dedupe_key\<rparr>)
                  (with_dedupe_key dedupe_key j) in
      if dedupe_conflict t row then Inr t
      else if id_conflict t row then Inl ()
      else Inr (t @ [row]))"

fun insert_jobs_once ::
  "('v, 'tz) store_ops \<Rightarrow> store_env \<Rightarrow> (new_job \<times> ustring) list \<Rightarrow> 'v job_table \<Rightarrow> unit + 'v job_table" where
  "insert_jobs_once ops env [] t = Inr t"
| "insert_jobs_once ops env ((j, key) # js) t =
     rbind (insert_job_once ops env j key t) (insert_jobs_once ops env js)"

definition on_jobs :: "('v job_table \<Rightarrow> unit + 'v job_table) \<Rightarrow> 'e \<Rightarrow> 'v store \<Rightarrow> 'e + 'v store" where
  "on_jobs f e s = map_ok (\<lambda>t. s\<lparr>st_jobs := t\<rparr>) (map_err (\<lambda>_. e) (f (st_jobs s)))"

text \<open>\<open>UPDATE ingests\<close>; no statement writes a value its CHECK constraints refuse.\<close>

definition update_ingests :: "(ingest_row \<Rightarrow> bool) \<Rightarrow> (ingest_row \<Rightarrow> ingest_row) \<Rightarrow> 'v store \<Rightarrow> 'v store" where
  "update_ingests P f s = s\<lparr>st_ingests := update_where P f (st_ingests s)\<rparr>"

text \<open>The CHECK constraints and integer ranges of the table \<open>media\<close>.\<close>

definition in_i32 :: "int \<Rightarrow> bool" where
  "in_i32 n \<longleftrightarrow> - (2 ^ 31) \<le> n \<and> n < 2 ^ 31"

definition size_check :: "media_row \<Rightarrow> bool" where
  "size_check m \<longleftrightarrow>
     pred_option (\<lambda>n. 0 < n) (mw_width m) \<and> pred_option (\<lambda>n. 0 < n) (mw_height m) \<and>
     pred_option (\<lambda>n. 0 \<le> n) (mw_duration_ms m) \<and> pred_option (\<lambda>n. 0 \<le> n) (mw_bit_rate m) \<and>
     pred_option (\<lambda>n. 0 \<le> n) (mw_file_size_bytes m)"

definition preview_check :: "media_row \<Rightarrow> bool" where
  "preview_check m \<longleftrightarrow>
     (case (mw_preview_bytes m, mw_preview_mime_type m, mw_preview_width m, mw_preview_height m, mw_preview_sha256 m) of
        (None, None, None, None, None) \<Rightarrow> True
      | (Some bytes, Some mime_type, Some width, Some height, Some sha256) \<Rightarrow>
          mime_type \<in> {lit ''image/jpeg'', lit ''image/png''} \<and> 1 \<le> length bytes \<and> length bytes \<le> 131072 \<and>
          1 \<le> width \<and> width \<le> 320 \<and> 1 \<le> height \<and> height \<le> 320 \<and> length sha256 = 32
      | _ \<Rightarrow> False)"

definition media_check :: "media_row \<Rightarrow> bool" where
  "media_check m \<longleftrightarrow>
     mw_kind m \<in> {lit ''video'', lit ''image'', lit ''animation'', lit ''audio''} \<and>
     mw_storage_state m \<in> {lit ''pending_storage'', lit ''ready'', lit ''storage_unknown'', lit ''missing''} \<and>
     (mw_storage_state m = lit ''ready'' \<longrightarrow>
        mw_telegram_storage_chat_id m \<noteq> None \<and> mw_telegram_storage_message_id m \<noteq> None \<and>
        mw_telegram_file_id m \<noteq> None) \<and>
     0 \<le> mw_storage_generation m \<and> in_i32 (mw_storage_generation m) \<and>
     0 \<le> mw_caption_sync_generation m \<and> in_i32 (mw_caption_sync_generation m) \<and>
     mw_caption_sync_state m \<in>
       {lit ''not_required'', lit ''pending'', lit ''syncing'', lit ''synced'', lit ''failed''} \<and>
     (case mw_canonical_sha256 m of None \<Rightarrow> True | Some h \<Rightarrow> length h = 32) \<and>
     (mw_kind m = lit ''audio'' \<longrightarrow> mw_preview_bytes m = None) \<and>
     size_check m \<and> preview_check m"

definition update_media_rows ::
  "(media_row \<Rightarrow> bool) \<Rightarrow> (media_row \<Rightarrow> media_row) \<Rightarrow> 'e \<Rightarrow> 'v store \<Rightarrow> 'e + 'v store \<times> media_row list" where
  "update_media_rows P f e s =
     (let rows = returning P f (st_media s) in
      if list_all media_check rows
      then Inr (s\<lparr>st_media := update_where P f (st_media s)\<rparr>, rows)
      else Inl e)"

definition select_media :: "uuid \<Rightarrow> 'v store \<Rightarrow> media_row option" where
  "select_media i s = select_one (\<lambda>m. mw_id m = i) (st_media s)"

definition select_ingest :: "uuid \<Rightarrow> 'v store \<Rightarrow> ingest_row option" where
  "select_ingest i s = select_one (\<lambda>r. iw_id r = i) (st_ingests s)"

section \<open>Cleanup of workspaces\<close>

definition WORKSPACE_CLEANUP_RETENTION :: int where
  "WORKSPACE_CLEANUP_RETENTION = 86400 * 1000000000"

definition workspace_cleanup_key :: "('v, 'tz) store_ops \<Rightarrow> uuid \<Rightarrow> uuid \<Rightarrow> ustring" where
  "workspace_cleanup_key ops ingest_id workspace_id =
     lit ''ingest:'' @ so_uuid_text ops ingest_id @ lit '':cleanup_workspace:v1:'' @ so_uuid_text ops workspace_id"

definition workspace_cleanup :: "('v, 'tz) store_ops \<Rightarrow> uuid \<Rightarrow> uuid \<Rightarrow> timestamp \<Rightarrow> new_job \<times> ustring" where
  "workspace_cleanup ops ingest_id workspace_id run_at =
     (with_run_at run_at (new_cleanup_workspace ingest_id workspace_id),
      workspace_cleanup_key ops ingest_id workspace_id)"

definition store_workspace_cleanup ::
  "('v, 'tz) store_ops \<Rightarrow> store_env \<Rightarrow> uuid \<Rightarrow> uuid \<Rightarrow> timestamp \<Rightarrow> 'e \<Rightarrow> 'v store \<Rightarrow> 'e + 'v store" where
  "store_workspace_cleanup ops env ingest_id workspace_id run_at e s =
     on_jobs (insert_jobs_once ops env [workspace_cleanup ops ingest_id workspace_id run_at]) e s"

definition enqueue_workspace_cleanup_for_media ::
  "('v, 'tz) store_ops \<Rightarrow> store_env \<Rightarrow> uuid \<Rightarrow> timestamp \<Rightarrow> 'e \<Rightarrow> 'v store \<Rightarrow> 'e + 'v store" where
  "enqueue_workspace_cleanup_for_media ops env media_id run_at e s =
     on_jobs (insert_jobs_once ops env
       (map (\<lambda>r. workspace_cleanup ops (iw_id r) (iw_workspace_id r) run_at)
         (filter (\<lambda>r. iw_media_id r = Some media_id \<and> iw_state r \<noteq> lit ''cancelled'') (st_ingests s)))) e s"

definition protected_workspace_ids :: "'v store \<Rightarrow> uuid list" where
  "protected_workspace_ids s = remdups (map iw_workspace_id (st_ingests s))"

section \<open>Publication of stored ingests\<close>

definition materialization_key :: "('v, 'tz) store_ops \<Rightarrow> uuid \<Rightarrow> ustring" where
  "materialization_key ops ingest_id =
     lit ''ingest:'' @ so_uuid_text ops ingest_id @ lit '':materialize_publication:v1''"

definition insert_materialization_job ::
  "('v, 'tz) store_ops \<Rightarrow> store_env \<Rightarrow> uuid \<Rightarrow> 'e \<Rightarrow> 'v store \<Rightarrow> 'e + 'v store" where
  "insert_materialization_job ops env ingest_id e s =
     on_jobs (insert_job_once ops env (new_materialize_publication ingest_id)
       (materialization_key ops ingest_id)) e s"

text \<open>The jobs for the ingests that asked for more than saving.\<close>

definition materialization_jobs :: "('v, 'tz) store_ops \<Rightarrow> ingest_row list \<Rightarrow> (new_job \<times> ustring) list" where
  "materialization_jobs ops rows =
     map (\<lambda>r. (new_materialize_publication (iw_id r), materialization_key ops (iw_id r)))
       (filter (\<lambda>r. iw_requested_action r \<noteq> lit ''save'') rows)"

text \<open>\<open>error_code IN ('storage_upload', 'storage_unknown')\<close>.\<close>

definition storage_code :: "ingest_row \<Rightarrow> bool" where
  "storage_code r \<longleftrightarrow> iw_error_code r \<in> {Some (lit ''storage_upload''), Some (lit ''storage_unknown'')}"


end
