(* ===== verification/Library_Store.thy ===== *)
theory Library_Store
  imports Store
begin

text \<open>
  The media repository of \<open>crates/persistence/src/library.rs\<close>: row decoding, tags and previews,
  the identity gate for videos, the fenced storage upload with its reconciliation, and the
  synchronisation of storage captions.
\<close>

datatype library_repository_error =
    LibraryDatabase
  | InvalidFingerprint video_fingerprint_input_error
  | InvalidVideoIdentityKind
  | EvidenceTooLarge nat
  | EvidenceEmpty
  | EvidenceTooManyMatches nat
  | EvidenceMissingStrongMatch
  | EvidenceAlgorithmVersionMismatch ustring ustring
  | EvidenceFingerprintVersionMismatch ustring ustring
  | EvidenceInvalidBasisPoints ustring int
  | EvidenceInvalidSharedTokenCount int
  | MediaResourceMissing uuid
  | MediaOptimisticConflict uuid
  | InvalidTag tag_validation_error
  | MissingSha256
  | MissingFingerprint
  | InvalidSha256Length nat
  | InvalidPreview ustring
  | InvalidPreviewOwned ustring
  | CaptionSyncUnavailable uuid
  | CaptionSyncGenerationOverflow uuid
  | UnknownMediaKind ustring
  | UnknownCaptionSyncState ustring
  | UnknownSourceKind ustring
  | LibraryInvariant ustring
  | InvalidNumber ustring
  | StorageUploadActive uuid
  | WorkspaceReclaimed uuid
  | StorageGenerationOverflow uuid
  | StorageUploadNotUnknown uuid
  | StorageUploadLeaseLost uuid
  | StorageReceiptMissing uuid
  | InvalidStorageMessageId int
  | EmptyStorageField ustring
  | InvalidStorageLeaseDuration
  | LibraryInvalidLimit u32
  | LibraryInvalidCount

type_synonym ('v, 'a) library_tx = "library_repository_error + 'v store \<times> 'a"

section \<open>Rows\<close>

text \<open>Fetching a row as a \<open>MediaRow\<close> decodes its storage state; a failure is an error of \<open>sqlx\<close>.\<close>

definition fetch_media_row :: "media_row \<Rightarrow> library_repository_error + media_row" where
  "fetch_media_row m =
     map_ok (\<lambda>_. m) (map_err (\<lambda>_. LibraryDatabase) (media_storage_state_try_from (mw_storage_state m)))"

definition lock_media_row :: "uuid \<Rightarrow> 'v store \<Rightarrow> library_repository_error + media_row" where
  "lock_media_row i s = rbind (ok_or (select_media i s) (MediaResourceMissing i)) fetch_media_row"

definition to_i64 :: "u64 option \<Rightarrow> ustring \<Rightarrow> library_repository_error + int option" where
  "to_i64 value field =
     (case value of
        None \<Rightarrow> Inr None
      | Some v \<Rightarrow> if unat v < 2 ^ 63 then Inr (Some (int (unat v))) else Inl (InvalidNumber field))"

definition to_u64 :: "int option \<Rightarrow> ustring \<Rightarrow> library_repository_error + u64 option" where
  "to_u64 value field =
     (case value of
        None \<Rightarrow> Inr None
      | Some v \<Rightarrow> if 0 \<le> v then Inr (Some (word_of_int v)) else Inl (InvalidNumber field))"

text \<open>The checks shared by stored previews and preview inputs.\<close>

definition preview_in_bounds :: "ustring \<Rightarrow> u8 list \<Rightarrow> nat \<Rightarrow> nat \<Rightarrow> u8 list \<Rightarrow> bool" where
  "preview_in_bounds mime_type bytes width height sha256 \<longleftrightarrow>
     mime_type \<in> {lit ''image/jpeg'', lit ''image/png''} \<and> bytes \<noteq> [] \<and>
     length bytes \<le> MAX_MEDIA_PREVIEW_BYTES \<and> width \<noteq> 0 \<and> width \<le> MAX_MEDIA_PREVIEW_WIDTH \<and>
     height \<noteq> 0 \<and> height \<le> MAX_MEDIA_PREVIEW_HEIGHT \<and> length sha256 = 32"

definition check_preview_bytes ::
  "('v, 'tz) store_ops \<Rightarrow> ustring \<Rightarrow> u8 list \<Rightarrow> nat \<Rightarrow> nat \<Rightarrow> u8 list \<Rightarrow> library_repository_error + unit" where
  "check_preview_bytes ops mime_type bytes width height sha256 =
     (if \<not> preview_in_bounds mime_type bytes width height sha256
      then Inl (InvalidPreview (lit ''preview violates its bounds''))
      else if op_sha256 (so_publisher ops) bytes \<noteq> sha256
      then Inl (InvalidPreview (lit ''preview SHA-256 does not match bytes''))
      else rbind (map_err InvalidPreviewOwned (so_preview_size ops bytes mime_type)) (\<lambda>size.
        if size \<noteq> (width, height)
        then Inl (InvalidPreview (lit ''preview dimensions do not match its encoded image''))
        else Inr ()))"

definition preview_metadata ::
  "('v, 'tz) store_ops \<Rightarrow> media_row \<Rightarrow> library_repository_error + media_preview_metadata option" where
  "preview_metadata ops m =
     (if mw_preview_bytes m = None \<and> mw_preview_mime_type m = None \<and> mw_preview_width m = None \<and>
         mw_preview_height m = None \<and> mw_preview_sha256 m = None
      then Inr None
      else case (mw_preview_bytes m, mw_preview_mime_type m, mw_preview_width m, mw_preview_height m,
                 mw_preview_sha256 m) of
        (Some bytes, Some mime_type, Some width, Some height, Some sha256) \<Rightarrow>
          if width < 0 then Inl (InvalidPreview (lit ''preview width is invalid''))
          else if height < 0 then Inl (InvalidPreview (lit ''preview height is invalid''))
          else rbind (check_preview_bytes ops mime_type bytes (nat width) (nat height) sha256) (\<lambda>_.
            Inr (Some \<lparr>mp_mime_type = mime_type, mp_width = word_of_int width,
                       mp_height = word_of_int height, mp_size_bytes = word_of_nat (length bytes),
                       mp_sha256 = sha256\<rparr>))
      | _ \<Rightarrow> Inl (InvalidPreview (lit ''preview fields are incomplete'')))"

definition into_media :: "('v, 'tz) store_ops \<Rightarrow> media_row \<Rightarrow> library_repository_error + media" where
  "into_media ops m =
     rbind (preview_metadata ops m) (\<lambda>preview.
     rbind (map_err UnknownMediaKind (media_kind_try_from (mw_kind m))) (\<lambda>kind.
     rbind (to_u64 (mw_duration_ms m) (lit ''duration_ms'')) (\<lambda>duration_ms.
     rbind (to_u64 (mw_bit_rate m) (lit ''bit_rate'')) (\<lambda>bit_rate.
     rbind (to_u64 (mw_file_size_bytes m) (lit ''file_size_bytes'')) (\<lambda>file_size_bytes.
     rbind (map_err (\<lambda>_. LibraryDatabase) (media_storage_state_try_from (mw_storage_state m))) (\<lambda>storage_state.
     rbind (map_err UnknownCaptionSyncState (caption_sync_state_try_from (mw_caption_sync_state m))) (\<lambda>caption_state.
       Inr \<lparr>me_id = mw_id m, me_kind = kind, me_title = mw_title m, me_description = mw_description m,
            me_tags = mw_tags m, me_mime_type = mw_mime_type m, me_container = mw_container m,
            me_video_codec = mw_video_codec m, me_audio_codec = mw_audio_codec m, me_width = mw_width m,
            me_height = mw_height m, me_duration_ms = duration_ms, me_bit_rate = bit_rate,
            me_file_size_bytes = file_size_bytes, me_sha256 = mw_canonical_sha256 m,
            me_local_work_path = mw_local_work_path m, me_storage_state = storage_state,
            me_preview = preview, me_caption_sync_generation = mw_caption_sync_generation m,
            me_caption_sync_state = caption_state, me_caption_sync_error = mw_caption_sync_error m,
            me_created_at = mw_created_at m, me_updated_at = mw_updated_at m\<rparr>)))))))"

definition into_storage_receipt :: "media_row \<Rightarrow> library_repository_error + storage_receipt" where
  "into_storage_receipt m =
     rbind (case mw_telegram_storage_chat_id m of
              Some chat_id \<Rightarrow> if chat_id < 0 then Inr chat_id else Inl (StorageReceiptMissing (mw_id m))
            | None \<Rightarrow> Inl (StorageReceiptMissing (mw_id m))) (\<lambda>chat_id.
     rbind (case mw_telegram_storage_message_id m of
              Some message_id \<Rightarrow> if message_id > 0 then Inr message_id else Inl (StorageReceiptMissing (mw_id m))
            | None \<Rightarrow> Inl (StorageReceiptMissing (mw_id m))) (\<lambda>message_id.
     rbind (map_err UnknownMediaKind (media_kind_try_from (mw_kind m))) (\<lambda>kind.
       Inr \<lparr>sr_media_id = mw_id m, sr_storage_chat_id = chat_id, sr_storage_message_id = message_id,
            sr_telegram_file_id = mw_telegram_file_id m,
            sr_telegram_file_unique_id = mw_telegram_file_unique_id m, sr_media_kind = kind,
            sr_stored_at = unwrap_or (mw_stored_at m) (mw_updated_at m)\<rparr>)))"

section \<open>Tags and previews\<close>

fun collect_normalized ::
  "('v, 'tz) store_ops \<Rightarrow> ustring list \<Rightarrow> ustring list \<Rightarrow> library_repository_error + ustring list" where
  "collect_normalized ops normalized [] = Inr normalized"
| "collect_normalized ops normalized (tag # tags) =
     rbind (map_err InvalidTag (normalize_tag (so_to_lowercase ops) tag)) (\<lambda>tag.
       collect_normalized ops (if tag \<in> set normalized then normalized else normalized @ [tag]) tags)"

definition normalize_tags :: "('v, 'tz) store_ops \<Rightarrow> ustring list \<Rightarrow> library_repository_error + ustring list" where
  "normalize_tags ops tags = collect_normalized ops [] tags"

fun merge_tags :: "ustring list \<Rightarrow> ustring list \<Rightarrow> ustring list" where
  "merge_tags tags [] = tags"
| "merge_tags tags (tag # incoming) = merge_tags (if tag \<in> set tags then tags else tags @ [tag]) incoming"

definition preview_bindings ::
  "('v, 'tz) store_ops \<Rightarrow> media_kind \<Rightarrow> media_preview_input option \<Rightarrow>
   library_repository_error + media_preview_input option" where
  "preview_bindings ops kind preview =
     (case preview of
        None \<Rightarrow> Inr None
      | Some p \<Rightarrow>
          if kind = MediaAudio then Inl (InvalidPreview (lit ''audio media must not have a bitmap preview''))
          else map_ok (\<lambda>_. Some p)
            (check_preview_bytes ops (mpi_mime_type p) (mpi_bytes p) (unat (mpi_width p)) (unat (mpi_height p))
               (mpi_sha256 p)))"

definition validate_media_ingest :: "('v, 'tz) store_ops \<Rightarrow> media_ingest \<Rightarrow> library_repository_error + u8 list" where
  "validate_media_ingest ops ingest =
     (case mm_sha256 (mi_metadata ingest) of
        None \<Rightarrow> Inl MissingSha256
      | Some sha256 \<Rightarrow>
          if length sha256 \<noteq> 32 then Inl (InvalidSha256Length (length sha256))
          else map_ok (\<lambda>_. sha256)
            (preview_bindings ops (mm_kind (mi_metadata ingest)) (mm_preview (mi_metadata ingest))))"

section \<open>Source metadata\<close>

definition json_text :: "ustring option \<Rightarrow> json" where
  "json_text value = (case value of None \<Rightarrow> JNull | Some t \<Rightarrow> JStr t)"

definition source_to_value :: "('v, 'tz) store_ops \<Rightarrow> db_env \<Rightarrow> media_source_input \<Rightarrow> json" where
  "source_to_value ops env source =
     JObj [(lit ''ingest_id'', json_text (map_option (so_uuid_text ops) (ms_ingest_id source))),
           (lit ''kind'', JStr (source_kind_as_str (ms_kind source))),
           (lit ''original_url'', json_text (ms_original_url source)),
           (lit ''platform'', json_text (ms_platform source)),
           (lit ''platform_content_id'', json_text (ms_platform_content_id source)),
           (lit ''author_name'', json_text (ms_author_name source)),
           (lit ''title'', json_text (ms_title source)),
           (lit ''description'', json_text (ms_description source)),
           (lit ''published_at'', json_text (map_option (so_time_text ops) (ms_published_at source))),
           (lit ''retrieved_at'', JStr (so_time_text ops (env_utc env))),
           (lit ''metadata'', ms_metadata source)]"

fun is_object :: "json \<Rightarrow> bool" where
  "is_object (JObj _) = True"
| "is_object _ = False"

fun object_insert :: "ustring \<Rightarrow> json \<Rightarrow> (ustring \<times> json) list \<Rightarrow> (ustring \<times> json) list" where
  "object_insert key v [] = [(key, v)]"
| "object_insert key v ((k, w) # rest) =
     (if k = key then (key, v) # rest else (k, w) # object_insert key v rest)"

function (sequential) merge_missing_source_metadata :: "json \<Rightarrow> json \<Rightarrow> json"
  and merge_missing_fields :: "(ustring \<times> json) list \<Rightarrow> (ustring \<times> json) list \<Rightarrow> (ustring \<times> json) list" where
  "merge_missing_source_metadata (JObj existing) (JObj incoming) = JObj (merge_missing_fields existing incoming)"
| "merge_missing_source_metadata JNull incoming = incoming"
| "merge_missing_source_metadata existing incoming = existing"
| "merge_missing_fields merged [] = merged"
| "merge_missing_fields merged ((key, v) # incoming) =
     merge_missing_fields
       (case map_of merged key of
          Some w \<Rightarrow>
            if is_object w \<and> is_object v then object_insert key (merge_missing_source_metadata w v) merged
            else if w \<noteq> JNull then merged
            else if v \<noteq> JNull then object_insert key v merged
            else merged
        | None \<Rightarrow> if v \<noteq> JNull then object_insert key v merged else merged) incoming"
  by pat_completeness auto
termination
  by (relation "measure (\<lambda>x. case x of Inl (_, incoming) \<Rightarrow> size incoming
                                   | Inr (_, incoming) \<Rightarrow> size_list (size_prod (\<lambda>_. 0) size) incoming)") auto

definition source_from_row ::
  "('v, 'tz) store_ops \<Rightarrow> media_row \<Rightarrow> library_repository_error + media_source option" where
  "source_from_row ops m =
     (let md = mw_source_metadata m in
      if mw_source_url m = None \<and> (md = JNull \<or> md = JObj []) then Inr None
      else let kind = unwrap_or (Option.bind (or_else (json_get (lit ''kind'') md) (json_get (lit ''source_kind'') md))
                                  json_as_str) (lit ''direct_url'') in
        rbind (map_err UnknownSourceKind (source_kind_try_from kind)) (\<lambda>kind.
          Inr (Some
            \<lparr>src_ingest_id = Option.bind (json_get_str (lit ''ingest_id'') md) (so_parse_uuid ops),
             src_kind = kind, src_original_url = json_get_str (lit ''original_url'') md,
             src_normalized_url = mw_source_url m, src_platform = json_get_str (lit ''platform'') md,
             src_platform_content_id = json_get_str (lit ''platform_content_id'') md,
             src_author_name = json_get_str (lit ''author_name'') md,
             src_title = json_get_str (lit ''title'') md,
             src_description = json_get_str (lit ''description'') md,
             src_published_at = Option.bind (json_get_str (lit ''published_at'') md) (so_parse_rfc3339 ops),
             src_retrieved_at = mw_updated_at m,
             src_metadata = unwrap_or (json_get (lit ''metadata'') md) md\<rparr>)))"

text \<open>The public link of a storage message.\<close>

definition strip_minus :: "ustring \<Rightarrow> ustring" where
  "strip_minus t = dropWhile (\<lambda>c. c = 45) t"

definition storage_message_url :: "int option \<Rightarrow> int option \<Rightarrow> ustring option" where
  "storage_message_url chat_id message_id =
     (case (chat_id, message_id) of
        (Some chat_id, Some message_id) \<Rightarrow>
          if chat_id \<ge> 0 \<or> message_id \<le> 0 then None
          else let raw_id = int_text chat_id;
                   internal_id = (if take 4 raw_id = lit ''-100'' then drop 4 raw_id else strip_minus raw_id) in
            if internal_id = [] then None
            else Some (lit ''https://t.me/c/'' @ internal_id @ lit ''/'' @ int_text message_id)
      | _ \<Rightarrow> None)"

section \<open>Caption values\<close>

type_synonym caption_sync_values = "int \<times> ustring \<times> ustring option \<times> uuid option"

definition has_storage_message :: "media_row \<Rightarrow> bool" where
  "has_storage_message m \<longleftrightarrow>
     mw_storage_state m = lit ''ready'' \<and> mw_telegram_storage_chat_id m \<noteq> None \<and>
     mw_telegram_storage_message_id m \<noteq> None"

definition next_caption_sync_values :: "media_row \<Rightarrow> bool \<Rightarrow> library_repository_error + caption_sync_values" where
  "next_caption_sync_values m changed =
     (if \<not> changed
      then (if mw_caption_sync_state m \<in>
                 {lit ''not_required'', lit ''pending'', lit ''syncing'', lit ''synced'', lit ''failed''}
            then Inr (mw_caption_sync_generation m, mw_caption_sync_state m, mw_caption_sync_error m,
                      mw_caption_sync_claim_token m)
            else Inl (UnknownCaptionSyncState (mw_caption_sync_state m)))
      else if \<not> has_storage_message m then Inr (mw_caption_sync_generation m, lit ''not_required'', None, None)
      else if mw_caption_sync_generation m + 1 < 2 ^ 31
      then Inr (mw_caption_sync_generation m + 1, lit ''pending'', None, None)
      else Inl (CaptionSyncGenerationOverflow (mw_id m)))"

definition storage_caption_metadata_from_row :: "media_row \<Rightarrow> storage_caption_metadata" where
  "storage_caption_metadata_from_row m =
     \<lparr>scm_description = mw_description m, scm_tags = mw_tags m, scm_source_url = mw_source_url m\<rparr>"

definition storage_caption_metadata_matches :: "media_row \<Rightarrow> storage_caption_metadata \<Rightarrow> bool" where
  "storage_caption_metadata_matches m metadata \<longleftrightarrow>
     mw_description m = scm_description metadata \<and> mw_tags m = scm_tags metadata \<and>
     mw_source_url m = scm_source_url metadata"

definition caption_sync_values_after_storage_upload ::
  "media_row \<Rightarrow> storage_caption_metadata option \<Rightarrow> library_repository_error + caption_sync_values" where
  "caption_sync_values_after_storage_upload m caption_metadata =
     (if (case caption_metadata of None \<Rightarrow> False | Some metadata \<Rightarrow> storage_caption_metadata_matches m metadata)
      then Inr (mw_caption_sync_generation m, lit ''synced'', None, None)
      else next_caption_sync_values m True)"

definition with_caption_values :: "db_env \<Rightarrow> caption_sync_values \<Rightarrow> media_row \<Rightarrow> media_row" where
  "with_caption_values env values m =
     (case values of (generation, state, err, token) \<Rightarrow>
        m\<lparr>mw_caption_sync_generation := generation, mw_caption_sync_state := state,
          mw_caption_sync_error := err, mw_caption_sync_claim_token := token,
          mw_updated_at := env_now env\<rparr>)"

definition caption_sync_key :: "('v, 'tz) store_ops \<Rightarrow> uuid \<Rightarrow> int \<Rightarrow> ustring" where
  "caption_sync_key ops media_id generation =
     lit ''media:'' @ so_uuid_text ops media_id @ lit '':caption_sync:v1:'' @ int_text generation"

definition enqueue_caption_sync_job_with_key ::
  "('v, 'tz) store_ops \<Rightarrow> store_env \<Rightarrow> uuid \<Rightarrow> int \<Rightarrow> ustring \<Rightarrow> 'v store \<Rightarrow> library_repository_error + 'v store" where
  "enqueue_caption_sync_job_with_key ops env media_id generation dedupe_key s =
     on_jobs (insert_job_once ops env (new_sync_storage_caption media_id generation) dedupe_key) LibraryDatabase s"

definition enqueue_caption_sync_job ::
  "('v, 'tz) store_ops \<Rightarrow> store_env \<Rightarrow> uuid \<Rightarrow> int \<Rightarrow> 'v store \<Rightarrow> library_repository_error + 'v store" where
  "enqueue_caption_sync_job ops env media_id generation s =
     enqueue_caption_sync_job_with_key ops env media_id generation (caption_sync_key ops media_id generation) s"

definition enqueue_caption_sync_reapply_job ::
  "('v, 'tz) store_ops \<Rightarrow> store_env \<Rightarrow> uuid \<Rightarrow> int \<Rightarrow> int \<Rightarrow> uuid \<Rightarrow> 'v store \<Rightarrow> library_repository_error + 'v store" where
  "enqueue_caption_sync_reapply_job ops env media_id generation stale_generation stale_claim_token s =
     enqueue_caption_sync_job_with_key ops env media_id generation
       (caption_sync_key ops media_id generation @ lit '':after:'' @ int_text stale_generation @
        lit '':claim:'' @ so_uuid_text ops stale_claim_token) s"

section \<open>Caption synchronisation\<close>

definition retried_caption :: "db_env \<Rightarrow> int \<Rightarrow> media_row \<Rightarrow> media_row" where
  "retried_caption env generation m = with_caption_values env (generation, lit ''pending'', None, None) m"

definition retry_caption_sync ::
  "('v, 'tz) store_ops \<Rightarrow> store_env \<Rightarrow> uuid \<Rightarrow> 'v store \<Rightarrow> 'v store \<times> (library_repository_error + media)" where
  "retry_caption_sync ops env i s =
     in_transaction s
       (rbind (lock_media_row i s) (\<lambda>m.
          if \<not> has_storage_message m then Inl (CaptionSyncUnavailable i)
          else if mw_caption_sync_state m \<noteq> lit ''failed'' then Inr (s, m)
          else if \<not> mw_caption_sync_generation m + 1 < 2 ^ 31 then Inl (CaptionSyncGenerationOverflow i)
          else let generation = mw_caption_sync_generation m + 1 in
            rbind (update_media_rows (\<lambda>m. mw_id m = i) (retried_caption (se_db env) generation) LibraryDatabase s) (\<lambda>(s, rows).
            rbind (ok_or (fetch_optional rows) LibraryDatabase) (\<lambda>row.
              map_ok (\<lambda>s. (s, row)) (enqueue_caption_sync_job ops env i generation s)))))
       (into_media ops)"

definition syncing_caption :: "db_env \<Rightarrow> uuid \<Rightarrow> media_row \<Rightarrow> media_row" where
  "syncing_caption env claim_token m =
     m\<lparr>mw_caption_sync_state := lit ''syncing'', mw_caption_sync_error := None,
       mw_caption_sync_claim_token := Some claim_token, mw_updated_at := env_now env\<rparr>"

definition begin_caption_sync ::
  "store_env \<Rightarrow> uuid \<Rightarrow> int \<Rightarrow> uuid \<Rightarrow> 'v store \<Rightarrow>
   'v store \<times> (library_repository_error + caption_sync_claim option)" where
  "begin_caption_sync env i generation claim_token s =
     in_transaction s
       (rbind (lock_media_row i s) (\<lambda>m.
          if mw_caption_sync_generation m \<noteq> generation \<or> \<not> has_storage_message m \<or>
             mw_caption_sync_state m \<noteq> lit ''pending''
          then Inr (s, None)
          else rbind (update_media_rows
                        (\<lambda>m. mw_id m = i \<and> mw_caption_sync_generation m = generation \<and>
                             mw_caption_sync_state m = lit ''pending'')
                        (syncing_caption (se_db env) claim_token) LibraryDatabase s) (\<lambda>(s, _).
            Inr (s, Some \<lparr>csc_media_id = i, csc_generation = generation, csc_claim_token = claim_token,
                           csc_storage_chat_id = the (mw_telegram_storage_chat_id m),
                           csc_storage_message_id = the (mw_telegram_storage_message_id m),
                           csc_metadata = storage_caption_metadata_from_row m\<rparr>))))
       Inr"

definition reopened_caption :: "db_env \<Rightarrow> media_row \<Rightarrow> media_row" where
  "reopened_caption env m =
     m\<lparr>mw_caption_sync_state := lit ''pending'', mw_caption_sync_error := None,
       mw_caption_sync_claim_token := None, mw_updated_at := env_now env\<rparr>"

definition completed_caption :: "db_env \<Rightarrow> ustring \<Rightarrow> ustring option \<Rightarrow> media_row \<Rightarrow> media_row" where
  "completed_caption env state err m =
     m\<lparr>mw_caption_sync_state := state, mw_caption_sync_error := err,
       mw_caption_sync_claim_token := None, mw_updated_at := env_now env\<rparr>"

definition complete_caption_sync ::
  "('v, 'tz) store_ops \<Rightarrow> store_env \<Rightarrow> uuid \<Rightarrow> int \<Rightarrow> uuid \<Rightarrow> bool \<Rightarrow> bool \<Rightarrow> ustring option \<Rightarrow> 'v store \<Rightarrow>
   'v store \<times> (library_repository_error + caption_sync_completion)" where
  "complete_caption_sync ops env i generation claim_token succeeded retryable error_message s =
     in_transaction s
       (rbind (lock_media_row i s) (\<lambda>m.
          if \<not> has_storage_message m \<or> mw_caption_sync_state m = lit ''not_required'' then Inr (s, CaptionStale)
          else if mw_caption_sync_generation m \<noteq> generation
          then rbind (update_media_rows
                        (\<lambda>r. mw_id r = i \<and> mw_caption_sync_generation r = mw_caption_sync_generation m)
                        (reopened_caption (se_db env)) LibraryDatabase s) (\<lambda>(s, _).
                 map_ok (\<lambda>s. (s, CaptionStale))
                   (enqueue_caption_sync_reapply_job ops env i (mw_caption_sync_generation m) generation
                      claim_token s))
          else if mw_caption_sync_state m \<noteq> lit ''syncing'' \<or> mw_caption_sync_claim_token m \<noteq> Some claim_token
          then Inr (s, CaptionStale)
          else let (state, err) = (if succeeded then (lit ''synced'', None)
                                   else if retryable then (lit ''pending'', None)
                                   else (lit ''failed'', map_option (take 512) error_message)) in
            rbind (update_media_rows
                     (\<lambda>m. mw_id m = i \<and> mw_caption_sync_generation m = generation \<and>
                          mw_caption_sync_claim_token m = Some claim_token \<and>
                          mw_caption_sync_state m = lit ''syncing'')
                     (completed_caption (se_db env) state err) LibraryDatabase s) (\<lambda>(s, _).
              Inr (s, CaptionApplied))))
       Inr"

definition updated_media :: "db_env \<Rightarrow> ustring option \<Rightarrow> ustring list \<Rightarrow> caption_sync_values \<Rightarrow> media_row \<Rightarrow> media_row" where
  "updated_media env description tags values m =
     with_caption_values env values (m\<lparr>mw_description := description, mw_tags := tags\<rparr>)"

definition update_media ::
  "('v, 'tz) store_ops \<Rightarrow> store_env \<Rightarrow> uuid \<Rightarrow> media_update \<Rightarrow> 'v store \<Rightarrow>
   'v store \<times> (library_repository_error + media)" where
  "update_media ops env i update s =
     in_transaction s
       (rbind (lock_media_row i s) (\<lambda>current.
          if mw_updated_at current \<noteq> mu_expected_updated_at update then Inl (MediaOptimisticConflict i)
          else rbind (normalize_tags ops (mu_tags update)) (\<lambda>tags.
            let caption_changed = (mu_description update \<noteq> mw_description current \<or> tags \<noteq> mw_tags current) in
            rbind (next_caption_sync_values current caption_changed) (\<lambda>values.
            rbind (update_media_rows (\<lambda>m. mw_id m = i)
                     (updated_media (se_db env) (mu_description update) tags values) LibraryDatabase s) (\<lambda>(s, rows).
            rbind (ok_or (fetch_optional rows) LibraryDatabase) (\<lambda>row.
              map_ok (\<lambda>s. (s, row))
                (if caption_changed \<and> fst (snd values) = lit ''pending''
                 then enqueue_caption_sync_job ops env i (fst values) s else Inr s)))))))
       (into_media ops)"

section \<open>The identity gate\<close>

definition validate_video_fingerprint :: "video_fingerprint_input \<Rightarrow> library_repository_error + unit" where
  "validate_video_fingerprint fingerprint = map_err InvalidFingerprint (fingerprint_input_validate fingerprint)"

text \<open>The fields of a match that hold basis points, in the order they are checked.\<close>

definition basis_point_fields :: "video_duplicate_match \<Rightarrow> (ustring \<times> int) list" where
  "basis_point_fields item =
     [(lit ''incoming_coverage_bps'', uint (vdm_incoming_coverage_bps item)),
      (lit ''candidate_coverage_bps'', uint (vdm_candidate_coverage_bps item)),
      (lit ''median_distance_bps'', uint (vdm_median_distance_bps item)),
      (lit ''high_percentile_distance_bps'', uint (vdm_high_percentile_distance_bps item)),
      (lit ''score_bps'', uint (vdm_score_bps item)),
      (lit ''token_overlap_bps'', vdm_token_overlap_bps item)]"

fun check_basis_points :: "(ustring \<times> int) list \<Rightarrow> library_repository_error + unit" where
  "check_basis_points [] = Inr ()"
| "check_basis_points ((field, value) # rest) =
     (if \<not> (0 \<le> value \<and> value \<le> 10000) then Inl (EvidenceInvalidBasisPoints field value)
      else check_basis_points rest)"

fun check_matches :: "ustring \<Rightarrow> video_duplicate_match list \<Rightarrow> library_repository_error + unit" where
  "check_matches version [] = Inr ()"
| "check_matches version (item # rest) =
     (if vdm_fingerprint_version item \<noteq> version
      then Inl (EvidenceFingerprintVersionMismatch version (vdm_fingerprint_version item))
      else rbind (check_basis_points (basis_point_fields item)) (\<lambda>_.
        if vdm_shared_token_count item < 0
        then Inl (EvidenceInvalidSharedTokenCount (vdm_shared_token_count item))
        else check_matches version rest))"

definition validate_duplicate_evidence ::
  "video_duplicate_evidence \<Rightarrow> ustring \<Rightarrow> library_repository_error + unit" where
  "validate_duplicate_evidence evidence version =
     (if vde_matches evidence = [] then Inl EvidenceEmpty
      else if length (vde_matches evidence) > MAX_VIDEO_DUPLICATE_MATCHES
      then Inl (EvidenceTooManyMatches MAX_VIDEO_DUPLICATE_MATCHES)
      else if vde_algorithm_version evidence \<noteq> version
      then Inl (EvidenceAlgorithmVersionMismatch version (vde_algorithm_version evidence))
      else if \<not> list_ex (\<lambda>item. vdm_classification item = StrongDuplicateEvidence) (vde_matches evidence)
      then Inl EvidenceMissingStrongMatch
      else check_matches version (vde_matches evidence))"

text \<open>The candidate query: counts of distinct tokens, the thresholds, the order and the limit.\<close>

definition shared_tokens :: "int list \<Rightarrow> int list \<Rightarrow> int" where
  "shared_tokens tokens query = int (card (set tokens \<inter> set query))"

definition smaller_token_count :: "int list \<Rightarrow> int list \<Rightarrow> int" where
  "smaller_token_count tokens query = int (min (card (set tokens)) (card (set query)))"

definition token_overlap_bps :: "int list \<Rightarrow> int list \<Rightarrow> int" where
  "token_overlap_bps tokens query = shared_tokens tokens query * 10000 div smaller_token_count tokens query"

definition candidate_row :: "ustring \<Rightarrow> int list \<Rightarrow> media_row \<Rightarrow> bool" where
  "candidate_row version query m \<longleftrightarrow>
     mw_kind m = lit ''video'' \<and> mw_fingerprint_version m = Some version \<and> mw_fingerprint_data m \<noteq> None \<and>
     mw_storage_state m \<in> {lit ''pending_storage'', lit ''ready''} \<and>
     (case mw_fingerprint_search_tokens m of
        None \<Rightarrow> False
      | Some tokens \<Rightarrow>
          set tokens \<inter> set query \<noteq> {} \<and> 8 \<le> shared_tokens tokens query \<and>
          smaller_token_count tokens query \<le> shared_tokens tokens query * 10)"

definition into_candidate :: "int list \<Rightarrow> media_row \<Rightarrow> video_fingerprint_candidate" where
  "into_candidate query m =
     (let tokens = the (mw_fingerprint_search_tokens m) in
      \<lparr>vfc_media_id = mw_id m, vfc_width = mw_width m, vfc_height = mw_height m,
       vfc_audio_codec = mw_audio_codec m, vfc_fingerprint_version = the (mw_fingerprint_version m),
       vfc_fingerprint_data = the (mw_fingerprint_data m), vfc_search_tokens = tokens,
       vfc_shared_token_count = shared_tokens tokens query,
       vfc_overlap_bps = token_overlap_bps tokens query\<rparr>)"

definition candidate_order :: "video_fingerprint_candidate \<Rightarrow> int \<times> int \<times> uuid" where
  "candidate_order c = (- vfc_shared_token_count c, - vfc_overlap_bps c, vfc_media_id c)"

definition fetch_video_fingerprint_candidates ::
  "ustring \<Rightarrow> int list \<Rightarrow> 'v store \<Rightarrow> video_fingerprint_candidate list" where
  "fetch_video_fingerprint_candidates version query s =
     (if query = [] then []
      else take 20 (sort_key candidate_order
             (map (into_candidate query) (filter (candidate_row version query) (st_media s)))))"

definition list_video_fingerprint_candidates ::
  "uuid \<Rightarrow> ustring \<Rightarrow> int list \<Rightarrow> 'v store \<Rightarrow> video_fingerprint_candidate list" where
  "list_video_fingerprint_candidates exclude version query s =
     (if query = [] then []
      else take 20 (sort_key candidate_order
             (map (into_candidate query)
               (filter (\<lambda>m. mw_id m \<noteq> exclude \<and> candidate_row version query m) (st_media s)))))"

record video_identity_preparation =
  vip_exact_media_id :: "uuid option"
  vip_candidates :: "video_fingerprint_candidate list"

definition media_with_sha :: "u8 list \<Rightarrow> 'v store \<Rightarrow> media_row option" where
  "media_with_sha sha256 s = select_one (\<lambda>m. mw_canonical_sha256 m = Some sha256) (st_media s)"

definition prepare_video_identity ::
  "('v, 'tz) store_ops \<Rightarrow> media_ingest \<Rightarrow> video_fingerprint_input option \<Rightarrow> bool \<Rightarrow> 'v store \<Rightarrow>
   library_repository_error + video_identity_preparation" where
  "prepare_video_identity ops ingest fingerprint force_save s =
     rbind (validate_media_ingest ops ingest) (\<lambda>sha256.
       if mm_kind (mi_metadata ingest) \<noteq> MediaVideo then Inl InvalidVideoIdentityKind
       else case media_with_sha sha256 s of
         Some m \<Rightarrow> Inr \<lparr>vip_exact_media_id = Some (mw_id m), vip_candidates = []\<rparr>
       | None \<Rightarrow>
           rbind (ok_or fingerprint MissingFingerprint) (\<lambda>fingerprint.
           rbind (validate_video_fingerprint fingerprint) (\<lambda>_.
             Inr \<lparr>vip_exact_media_id = None,
                  vip_candidates = (if force_save then []
                    else fetch_video_fingerprint_candidates (vfi_version fingerprint)
                           (vfi_search_tokens fingerprint) s)\<rparr>)))"

definition resolve_exact_sha ::
  "('v, 'tz) store_ops \<Rightarrow> media_ingest \<Rightarrow> 'v store \<Rightarrow> library_repository_error + uuid option" where
  "resolve_exact_sha ops ingest s =
     rbind (validate_media_ingest ops ingest) (\<lambda>sha256. Inr (map_option mw_id (media_with_sha sha256 s)))"

text \<open>The update of a media item whose bytes arrived again, and the caption values it gets.\<close>

definition merged_media ::
  "db_env \<Rightarrow> media_ingest \<Rightarrow> ustring list \<Rightarrow> json \<Rightarrow> caption_sync_values \<Rightarrow> media_row \<Rightarrow> media_row" where
  "merged_media env ingest tags source_value values m =
     with_caption_values env values
       (m\<lparr>mw_tags := merge_tags (mw_tags m) tags,
          mw_title := or_else (mw_title m) (nm_title (mi_media ingest)),
          mw_description := or_else (nm_description (mi_media ingest)) (mw_description m),
          mw_source_url := or_else (mw_source_url m)
            (or_else (ms_normalized_url (mi_source ingest)) (ms_original_url (mi_source ingest))),
          mw_source_metadata := merge_missing_source_metadata (mw_source_metadata m) source_value\<rparr>)"

definition merge_changes_caption :: "media_ingest \<Rightarrow> ustring list \<Rightarrow> media_row \<Rightarrow> bool" where
  "merge_changes_caption ingest tags m \<longleftrightarrow>
     (nm_description (mi_media ingest) \<noteq> None \<and> nm_description (mi_media ingest) \<noteq> mw_description m) \<or>
     merge_tags (mw_tags m) tags \<noteq> mw_tags m"

definition merge_into_media ::
  "('v, 'tz) store_ops \<Rightarrow> store_env \<Rightarrow> media_ingest \<Rightarrow> ustring list \<Rightarrow> json \<Rightarrow> media_row \<Rightarrow> 'v store \<Rightarrow>
   ('v, media_row) library_tx" where
  "merge_into_media ops env ingest tags source_value m s =
     (let caption_changed = merge_changes_caption ingest tags m in
      rbind (next_caption_sync_values m caption_changed) (\<lambda>values.
      rbind (update_media_rows (\<lambda>r. mw_id r = mw_id m)
               (merged_media (se_db env) ingest tags source_value values) LibraryDatabase s) (\<lambda>(s, rows).
      rbind (ok_or (fetch_optional rows) LibraryDatabase) (\<lambda>row.
        map_ok (\<lambda>s. (s, row))
          (if caption_changed \<and> fst (snd values) = lit ''pending''
           then enqueue_caption_sync_job ops env (mw_id m) (fst values) s else Inr s)))))"

definition new_media_row ::
  "db_env \<Rightarrow> media_ingest \<Rightarrow> u8 list \<Rightarrow> video_fingerprint_input option \<Rightarrow> ustring list \<Rightarrow> json \<Rightarrow>
   int option \<times> int option \<times> int option \<Rightarrow> media_preview_input option \<Rightarrow> media_row" where
  "new_media_row env ingest sha256 fingerprint tags source_value numbers preview =
     (let md = mi_metadata ingest in
      \<lparr>mw_id = env_uuid env, mw_kind = media_kind_as_str (mm_kind md),
       mw_storage_state = lit ''pending_storage'', mw_canonical_sha256 = Some sha256,
       mw_fingerprint_version = map_option vfi_version fingerprint,
       mw_fingerprint_data = map_option vfi_data fingerprint,
       mw_fingerprint_search_tokens = map_option vfi_search_tokens fingerprint,
       mw_title = nm_title (mi_media ingest), mw_description = nm_description (mi_media ingest),
       mw_tags = tags,
       mw_source_url = or_else (ms_normalized_url (mi_source ingest)) (ms_original_url (mi_source ingest)),
       mw_source_metadata = source_value, mw_mime_type = mm_mime_type md, mw_container = mm_container md,
       mw_video_codec = mm_video_codec md, mw_audio_codec = mm_audio_codec md, mw_width = mm_width md,
       mw_height = mm_height md, mw_duration_ms = fst numbers, mw_bit_rate = fst (snd numbers),
       mw_file_size_bytes = snd (snd numbers), mw_local_work_path = mm_local_work_path md,
       mw_preview_bytes = map_option mpi_bytes preview,
       mw_preview_mime_type = map_option mpi_mime_type preview,
       mw_preview_width = map_option (\<lambda>p. uint (mpi_width p)) preview,
       mw_preview_height = map_option (\<lambda>p. uint (mpi_height p)) preview,
       mw_preview_sha256 = map_option mpi_sha256 preview, mw_telegram_storage_chat_id = None,
       mw_telegram_storage_message_id = None, mw_telegram_file_id = None,
       mw_telegram_file_unique_id = None, mw_storage_generation = 0, mw_storage_token = None,
       mw_storage_started_at = None, mw_created_at = env_now env, mw_updated_at = env_now env,
       mw_stored_at = None, mw_caption_sync_generation = 0, mw_caption_sync_state = lit ''not_required'',
       mw_caption_sync_error = None, mw_caption_sync_claim_token = None\<rparr>)"

definition media_numbers ::
  "media_metadata \<Rightarrow> library_repository_error + int option \<times> int option \<times> int option" where
  "media_numbers md =
     rbind (to_i64 (mm_duration_ms md) (lit ''duration_ms'')) (\<lambda>duration_ms.
     rbind (to_i64 (mm_bit_rate md) (lit ''bit_rate'')) (\<lambda>bit_rate.
     rbind (to_i64 (mm_file_size_bytes md) (lit ''file_size_bytes'')) (\<lambda>file_size_bytes.
       Inr (duration_ms, bit_rate, file_size_bytes))))"

text \<open>\<open>INSERT INTO media ... ON CONFLICT (canonical_sha256) DO NOTHING\<close>.\<close>

definition insert_media :: "media_row \<Rightarrow> 'v store \<Rightarrow> ('v, media_row option) library_tx" where
  "insert_media row s =
     (if list_ex (\<lambda>m. mw_canonical_sha256 m = mw_canonical_sha256 row) (st_media s) then Inr (s, None)
      else if list_ex (\<lambda>m. mw_id m = mw_id row) (st_media s) \<or> \<not> media_check row then Inl LibraryDatabase
      else Inr (s\<lparr>st_media := st_media s @ [row]\<rparr>, Some row))"

definition insert_identified_video ::
  "('v, 'tz) store_ops \<Rightarrow> store_env \<Rightarrow> media_ingest \<Rightarrow> u8 list \<Rightarrow> video_fingerprint_input \<Rightarrow> ustring list \<Rightarrow> json \<Rightarrow>
   'v store \<Rightarrow> ('v, video_identity_outcome) library_tx" where
  "insert_identified_video ops env ingest sha256 fingerprint tags source_value s =
     rbind (preview_bindings ops (mm_kind (mi_metadata ingest)) (mm_preview (mi_metadata ingest))) (\<lambda>preview.
     rbind (media_numbers (mi_metadata ingest)) (\<lambda>numbers.
     rbind (insert_media (new_media_row (se_db env) ingest sha256 (Some fingerprint) tags source_value numbers preview) s)
       (\<lambda>(s, inserted).
          case inserted of
            Some row \<Rightarrow> Inr (s, NewMedia (mw_id row))
          | None \<Rightarrow> map_ok (\<lambda>m. (s, ExactDuplicate (mw_id m))) (ok_or (media_with_sha sha256 s) LibraryDatabase))))"

definition persist_video_identity ::
  "('v, 'tz) store_ops \<Rightarrow> store_env \<Rightarrow> media_ingest \<Rightarrow> video_fingerprint_input option \<Rightarrow> video_identity_decision \<Rightarrow>
   bool \<Rightarrow> 'v store \<Rightarrow> ('v, video_identity_outcome) library_tx" where
  "persist_video_identity ops env ingest fingerprint decision force_save s =
     rbind (validate_media_ingest ops ingest) (\<lambda>sha256.
     rbind (normalize_tags ops (mi_tags ingest)) (\<lambda>tags.
       if mm_kind (mi_metadata ingest) \<noteq> MediaVideo then Inl InvalidVideoIdentityKind
       else let source_value = source_to_value ops (se_db env) (mi_source ingest) in
       case media_with_sha sha256 s of
         Some m \<Rightarrow>
           rbind (fetch_media_row m) (\<lambda>m.
             map_ok (\<lambda>(s, row). (s, ExactDuplicate (mw_id m)))
               (merge_into_media ops env ingest tags source_value m s))
       | None \<Rightarrow>
           rbind (ok_or fingerprint MissingFingerprint) (\<lambda>fingerprint.
           rbind (validate_video_fingerprint fingerprint) (\<lambda>_.
             case decision of
               DuplicatePendingDecision evidence \<Rightarrow>
                 rbind (validate_duplicate_evidence evidence (vfi_version fingerprint)) (\<lambda>_.
                   if force_save
                   then insert_identified_video ops env ingest sha256 fingerprint tags source_value s
                   else if so_json_length ops (so_evidence_json ops evidence) > MAX_VIDEO_DUPLICATE_EVIDENCE_BYTES
                   then Inl (EvidenceTooLarge MAX_VIDEO_DUPLICATE_EVIDENCE_BYTES)
                   else Inr (s, DuplicatePendingOutcome evidence))
             | NoMatch \<Rightarrow> insert_identified_video ops env ingest sha256 fingerprint tags source_value s))))"

definition resolve_media ::
  "('v, 'tz) store_ops \<Rightarrow> store_env \<Rightarrow> media_ingest \<Rightarrow> 'v store \<Rightarrow>
   'v store \<times> (library_repository_error + media_resolution)" where
  "resolve_media ops env ingest s =
     in_transaction s
       (rbind (normalize_tags ops (mi_tags ingest)) (\<lambda>tags.
        rbind (validate_media_ingest ops ingest) (\<lambda>sha256.
        rbind (preview_bindings ops (mm_kind (mi_metadata ingest)) (mm_preview (mi_metadata ingest))) (\<lambda>preview.
          let source_value = source_to_value ops (se_db env) (mi_source ingest) in
          rbind (media_numbers (mi_metadata ingest)) (\<lambda>numbers.
          rbind (insert_media (new_media_row (se_db env) ingest sha256 None tags source_value numbers preview) s)
            (\<lambda>(s, inserted).
               case inserted of
                 Some row \<Rightarrow> Inr (s, (row, True))
               | None \<Rightarrow>
                   rbind (rbind (ok_or (media_with_sha sha256 s) LibraryDatabase) fetch_media_row) (\<lambda>m.
                     map_ok (\<lambda>(s, row). (s, (row, False))) (merge_into_media ops env ingest tags source_value m s))))))))
       (\<lambda>(row, created).
          rbind (into_media ops row) (\<lambda>media.
          rbind (rbind (source_from_row ops row) (\<lambda>source.
                   ok_or source (LibraryInvariant (lit ''resolved media source is missing'')))) (\<lambda>source.
            Inr \<lparr>mres_media = media, mres_source = source, mres_media_created = created\<rparr>)))"

section \<open>Recorded metadata and fingerprints\<close>

definition recorded_metadata ::
  "db_env \<Rightarrow> media_metadata \<Rightarrow> int option \<times> int option \<times> int option \<Rightarrow> media_preview_input option \<Rightarrow>
   media_row \<Rightarrow> media_row" where
  "recorded_metadata env md numbers preview m =
     m\<lparr>mw_kind := media_kind_as_str (mm_kind md), mw_canonical_sha256 := mm_sha256 md,
       mw_mime_type := mm_mime_type md, mw_container := mm_container md,
       mw_video_codec := mm_video_codec md, mw_audio_codec := mm_audio_codec md,
       mw_width := mm_width md, mw_height := mm_height md, mw_duration_ms := fst numbers,
       mw_bit_rate := fst (snd numbers), mw_file_size_bytes := snd (snd numbers),
       mw_local_work_path := mm_local_work_path md,
       mw_preview_bytes := map_option mpi_bytes preview,
       mw_preview_mime_type := map_option mpi_mime_type preview,
       mw_preview_width := map_option (\<lambda>p. uint (mpi_width p)) preview,
       mw_preview_height := map_option (\<lambda>p. uint (mpi_height p)) preview,
       mw_preview_sha256 := map_option mpi_sha256 preview,
       mw_storage_state := (if mw_storage_state m \<in> {lit ''ready'', lit ''storage_unknown''}
                            then mw_storage_state m else lit ''pending_storage''),
       mw_updated_at := env_now env\<rparr>"

text \<open>The unique index on \<open>canonical_sha256\<close>.\<close>

definition sha_taken :: "uuid \<Rightarrow> u8 list option \<Rightarrow> 'v store \<Rightarrow> bool" where
  "sha_taken i sha256 s \<longleftrightarrow>
     sha256 \<noteq> None \<and> list_ex (\<lambda>m. mw_id m \<noteq> i \<and> mw_canonical_sha256 m = sha256) (st_media s)"

definition record_media_metadata ::
  "('v, 'tz) store_ops \<Rightarrow> store_env \<Rightarrow> uuid \<Rightarrow> media_metadata \<Rightarrow> 'v store \<Rightarrow>
   'v store \<times> (library_repository_error + media)" where
  "record_media_metadata ops env i md s =
     in_transaction s
       (rbind (preview_bindings ops (mm_kind md) (mm_preview md)) (\<lambda>preview.
        rbind (media_numbers md) (\<lambda>numbers.
          if sha_taken i (mm_sha256 md) s \<and> select_media i s \<noteq> None then Inl LibraryDatabase
          else rbind (update_media_rows (\<lambda>m. mw_id m = i) (recorded_metadata (se_db env) md numbers preview)
                        LibraryDatabase s) (\<lambda>(s, rows).
            map_ok (\<lambda>row. (s, row)) (ok_or (fetch_optional rows) (MediaResourceMissing i))))))
       (into_media ops)"

definition record_video_sequence_fingerprint ::
  "store_env \<Rightarrow> uuid \<Rightarrow> video_fingerprint_input \<Rightarrow> 'v store \<Rightarrow> 'v store \<times> (library_repository_error + unit)" where
  "record_video_sequence_fingerprint env media_id fingerprint s =
     in_transaction s
       (rbind (validate_video_fingerprint fingerprint) (\<lambda>_.
        rbind (update_media_rows (\<lambda>m. mw_id m = media_id \<and> mw_kind m = lit ''video'')
                 (\<lambda>m. m\<lparr>mw_fingerprint_version := Some (vfi_version fingerprint),
                        mw_fingerprint_data := Some (vfi_data fingerprint),
                        mw_fingerprint_search_tokens := Some (vfi_search_tokens fingerprint),
                        mw_updated_at := env_now (se_db env)\<rparr>) LibraryDatabase s) (\<lambda>(s, rows).
          if length rows \<noteq> 1 then Inl (MediaResourceMissing media_id) else Inr (s, ()))))
       Inr"

end
