(* ===== verification/Storage_Uploads.thy ===== *)
theory Storage_Uploads
  imports Library_Store
begin

text \<open>
  The storage upload of a media item in \<open>crates/persistence/src/library.rs\<close>: reservation under an
  owner token, renewal, completion, release, the unknown outcome and its reconciliation, with the
  ingests and jobs each step moves along.

  An upload is fenced by its token: only the owner of the current reservation completes it. The life
  cycle of a media row under these operations is \<open>media_transition\<close> (\<open>Media_Lifecycle\<close>).
\<close>

section \<open>Attachments and linked rows\<close>

definition validate_attachment :: "storage_upload_attachment \<Rightarrow> library_repository_error + unit" where
  "validate_attachment a =
     (if sua_storage_message_id a \<le> 0 then Inl (InvalidStorageMessageId (sua_storage_message_id a))
      else if sua_telegram_file_id a = Some [] then Inl (EmptyStorageField (lit ''telegram_file_id''))
      else if sua_telegram_file_unique_id a = Some [] then Inl (EmptyStorageField (lit ''telegram_file_unique_id''))
      else Inr ())"

definition attached_media :: "db_env \<Rightarrow> storage_upload_attachment \<Rightarrow> media_row \<Rightarrow> media_row" where
  "attached_media env a m =
     m\<lparr>mw_storage_state := lit ''ready'',
       mw_telegram_storage_chat_id := Some (sua_storage_chat_id a),
       mw_telegram_storage_message_id := Some (sua_storage_message_id a),
       mw_telegram_file_id := sua_telegram_file_id a,
       mw_telegram_file_unique_id := sua_telegram_file_unique_id a, mw_storage_token := None,
       mw_storage_started_at := None, mw_local_work_path := None, mw_stored_at := Some (env_now env),
       mw_updated_at := env_now env\<rparr>"

definition unknown_media :: "db_env \<Rightarrow> media_row \<Rightarrow> media_row" where
  "unknown_media env m =
     m\<lparr>mw_storage_state := lit ''storage_unknown'', mw_storage_token := None, mw_storage_started_at := None,
       mw_updated_at := env_now env\<rparr>"

text \<open>The ingests of a media item: completed with the upload, failed with an unknown one, reopened
  with a reset.\<close>

definition completable_ingest :: "uuid \<Rightarrow> ingest_row \<Rightarrow> bool" where
  "completable_ingest media_id r \<longleftrightarrow>
     iw_media_id r = Some media_id \<and> iw_state r \<noteq> lit ''cancelled'' \<and>
     (iw_state r = lit ''storing'' \<or> (iw_state r = lit ''failed_retryable'' \<and> storage_code r) \<or>
      (iw_state r = lit ''failed_terminal'' \<and> storage_code r))"

definition completed_ingest :: "timestamp \<Rightarrow> ingest_row \<Rightarrow> ingest_row" where
  "completed_ingest now r =
     r\<lparr>iw_state := lit ''completed'', iw_error_code := None, iw_error_message := None,
       iw_completed_at := Some now, iw_updated_at := now\<rparr>"

definition complete_linked_ingests_for_storage ::
  "('v, 'tz) store_ops \<Rightarrow> store_env \<Rightarrow> uuid \<Rightarrow> 'e \<Rightarrow> 'v store \<Rightarrow> 'e + 'v store" where
  "complete_linked_ingests_for_storage ops env media_id e s =
     on_jobs (insert_jobs_once ops env (materialization_jobs ops
       (returning (completable_ingest media_id) (completed_ingest (env_now (se_db env))) (st_ingests s)))) e
       (update_ingests (completable_ingest media_id) (completed_ingest (env_now (se_db env))) s)"

definition storage_failed_ingest :: "db_env \<Rightarrow> ustring \<Rightarrow> ingest_row \<Rightarrow> ingest_row" where
  "storage_failed_ingest env message r =
     r\<lparr>iw_state := lit ''failed_terminal'', iw_error_code := Some (lit ''storage_unknown''),
       iw_error_message := Some message, iw_completed_at := Some (env_now env), iw_updated_at := env_now env\<rparr>"

definition mark_linked_ingests_storage_unknown :: "db_env \<Rightarrow> uuid \<Rightarrow> 'v store \<Rightarrow> 'v store" where
  "mark_linked_ingests_storage_unknown env media_id s =
     update_ingests
       (\<lambda>r. iw_media_id r = Some media_id \<and>
            (iw_state r \<notin> {lit ''cancelled'', lit ''failed_terminal''} \<or> storage_code r))
       (storage_failed_ingest env (lit ''media storage requires explicit reconciliation'')) s"

definition reopened_ingest :: "db_env \<Rightarrow> ingest_row \<Rightarrow> ingest_row" where
  "reopened_ingest env r =
     r\<lparr>iw_state := lit ''storing'', iw_error_code := None, iw_error_message := None,
       iw_completed_at := None, iw_updated_at := env_now env\<rparr>"

definition reopen_linked_ingests_for_storage :: "db_env \<Rightarrow> uuid \<Rightarrow> 'v store \<Rightarrow> 'v store" where
  "reopen_linked_ingests_for_storage env media_id s =
     update_ingests
       (\<lambda>r. iw_media_id r = Some media_id \<and> iw_state r \<noteq> lit ''cancelled'' \<and>
            (iw_state r \<in> {lit ''completed'', lit ''storing''} \<or> storage_code r))
       (reopened_ingest env) s"

definition queued_upload_of :: "('v, 'tz) store_ops \<Rightarrow> uuid \<Rightarrow> 'v job_row \<Rightarrow> bool" where
  "queued_upload_of ops media_id r \<longleftrightarrow>
     jr_kind r = lit ''upload_storage_asset'' \<and> jr_state r = lit ''queued'' \<and>
     so_payload_text ops (jr_payload r) (lit ''media_id'') = Some (so_uuid_text ops media_id)"

definition unknown_upload_job :: "db_env \<Rightarrow> 'v job_row \<Rightarrow> 'v job_row" where
  "unknown_upload_job env r =
     r\<lparr>jr_state := lit ''failed'', jr_lease_token := None, jr_lease_owner := None,
       jr_lease_expires_at := None, jr_last_heartbeat_at := None,
       jr_error_class := Some (lit ''storage_upload_unknown''),
       jr_error_message := Some (lit ''media storage requires explicit reconciliation''),
       jr_completed_at := Some (env_now env), jr_updated_at := env_now env\<rparr>"

definition settle_queued_storage_upload_jobs ::
  "('v, 'tz) store_ops \<Rightarrow> db_env \<Rightarrow> uuid \<Rightarrow> 'v store \<Rightarrow> 'v store" where
  "settle_queued_storage_upload_jobs ops env media_id s =
     s\<lparr>st_jobs := update_where (queued_upload_of ops media_id) (unknown_upload_job env) (st_jobs s)\<rparr>"

section \<open>The fenced upload\<close>

definition reserved_media :: "db_env \<Rightarrow> media_row \<Rightarrow> media_row" where
  "reserved_media env m =
     m\<lparr>mw_storage_token := Some (env_uuid env), mw_storage_started_at := Some (env_now env),
       mw_updated_at := env_now env\<rparr>"

text \<open>The owner token is \<open>Uuid::now_v7()\<close>; ten minutes in nanoseconds.\<close>

definition reserve_storage_upload ::
  "store_env \<Rightarrow> storage_upload_reservation_request \<Rightarrow> 'v store \<Rightarrow>
   'v store \<times> (library_repository_error + storage_upload_reservation)" where
  "reserve_storage_upload env request s =
     in_transaction s
       (rbind (lock_media_row (sur_media_id request) s) (\<lambda>m.
          if mw_storage_state m = lit ''ready'' then map_ok (\<lambda>receipt. (s, Reused receipt)) (into_storage_receipt m)
          else if mw_storage_generation m \<noteq> sur_generation request
          then Inr (s, StaleGeneration (mw_storage_generation m))
          else if mw_storage_state m \<in> {lit ''storage_unknown'', lit ''missing''}
          then Inr (s, ReconciliationRequired)
          else if mw_storage_token m \<noteq> None
          then Inr (s, InProgress (map_option (\<lambda>started. started + 600 * 1000000000) (mw_storage_started_at m)))
          else rbind (update_media_rows
                        (\<lambda>m. mw_id m = sur_media_id request \<and> mw_storage_state m = lit ''pending_storage'' \<and>
                             mw_storage_generation m = sur_generation request \<and> mw_storage_token m = None)
                        (reserved_media (se_db env)) LibraryDatabase s) (\<lambda>(s, rows).
            Inr (s, if length rows \<noteq> 1 then InProgress None
                    else Reserved (sur_media_id request) (env_uuid (se_db env))
                           (storage_caption_metadata_from_row m)))))
       Inr"

definition renewed_media :: "db_env \<Rightarrow> media_row \<Rightarrow> media_row" where
  "renewed_media env m = m\<lparr>mw_storage_started_at := Some (env_now env), mw_updated_at := env_now env\<rparr>"

definition renew_storage_upload ::
  "store_env \<Rightarrow> uuid \<Rightarrow> uuid \<Rightarrow> nat \<Rightarrow> 'v store \<Rightarrow> 'v store \<times> (library_repository_error + timestamp)" where
  "renew_storage_upload env media_id owner_token lease_duration s =
     in_transaction s
       (let seconds = lease_duration div 1000000000 in
        if \<not> seconds < 2 ^ 63 then Inl InvalidStorageLeaseDuration
        else rbind (update_media_rows (\<lambda>m. mw_id m = media_id \<and> mw_storage_token m = Some owner_token)
                      (renewed_media (se_db env)) LibraryDatabase s) (\<lambda>(s, rows).
          map_ok (\<lambda>_. (s, env_now (se_db env) + int seconds * 1000000000))
            (ok_or (fetch_optional rows) (StorageUploadLeaseLost media_id))))
       Inr"

text \<open>What follows the update of the storage columns, in completion and attachment alike: the caption
  values and job, the linked ingests, the cleanup of the workspaces.\<close>

definition finish_storage ::
  "('v, 'tz) store_ops \<Rightarrow> store_env \<Rightarrow> uuid \<Rightarrow> storage_upload_attachment \<Rightarrow> media_row \<Rightarrow> 'v store \<Rightarrow>
   ('v, media_row) library_tx" where
  "finish_storage ops env media_id a m s =
     rbind (caption_sync_values_after_storage_upload m (sua_caption_metadata a)) (\<lambda>values.
     rbind (update_media_rows (\<lambda>m. mw_id m = media_id) (with_caption_values (se_db env) values) LibraryDatabase s)
       (\<lambda>(s, rows).
     rbind (ok_or (fetch_optional rows) LibraryDatabase) (\<lambda>row.
     rbind (if fst (snd values) = lit ''pending'' then enqueue_caption_sync_job ops env media_id (fst values) s
            else Inr s) (\<lambda>s.
     rbind (complete_linked_ingests_for_storage ops env media_id LibraryDatabase s) (\<lambda>s.
       map_ok (\<lambda>s. (s, row))
         (enqueue_workspace_cleanup_for_media ops env media_id (env_utc (se_db env)) LibraryDatabase s))))))"

definition owned_upload :: "uuid \<Rightarrow> uuid \<Rightarrow> media_row \<Rightarrow> bool" where
  "owned_upload media_id owner_token m \<longleftrightarrow>
     mw_id m = media_id \<and> mw_storage_token m = Some owner_token \<and> mw_storage_state m = lit ''pending_storage''"

definition complete_storage_upload ::
  "('v, 'tz) store_ops \<Rightarrow> store_env \<Rightarrow> uuid \<Rightarrow> uuid \<Rightarrow> storage_upload_attachment \<Rightarrow> 'v store \<Rightarrow>
   'v store \<times> (library_repository_error + storage_receipt)" where
  "complete_storage_upload ops env media_id owner_token a s =
     in_transaction s
       (rbind (validate_attachment a) (\<lambda>_.
        rbind (update_media_rows (owned_upload media_id owner_token) (attached_media (se_db env) a) LibraryDatabase s)
          (\<lambda>(s, rows).
        rbind (ok_or (fetch_optional rows) (StorageUploadLeaseLost media_id)) (\<lambda>m.
          finish_storage ops env media_id a m s))))
       into_storage_receipt"

definition released_media :: "db_env \<Rightarrow> media_row \<Rightarrow> media_row" where
  "released_media env m =
     m\<lparr>mw_storage_state := lit ''pending_storage'', mw_storage_token := None, mw_storage_started_at := None,
       mw_updated_at := env_now env\<rparr>"

definition release_storage_upload ::
  "store_env \<Rightarrow> uuid \<Rightarrow> uuid \<Rightarrow> 'v store \<Rightarrow> 'v store \<times> (library_repository_error + unit)" where
  "release_storage_upload env media_id owner_token s =
     in_transaction s
       (map_ok (\<lambda>(s, _). (s, ()))
         (update_media_rows (\<lambda>m. mw_id m = media_id \<and> mw_storage_token m = Some owner_token)
            (released_media (se_db env)) LibraryDatabase s))
       Inr"

definition unknown_followup :: "('v, 'tz) store_ops \<Rightarrow> store_env \<Rightarrow> uuid \<Rightarrow> 'v store \<Rightarrow> 'v store" where
  "unknown_followup ops env media_id s =
     settle_queued_storage_upload_jobs ops (se_db env) media_id
       (mark_linked_ingests_storage_unknown (se_db env) media_id s)"

text \<open>The owner's report of an unknown outcome (the method of \<open>StorageUploadStore\<close>).\<close>

definition mark_owned_upload_unknown ::
  "('v, 'tz) store_ops \<Rightarrow> store_env \<Rightarrow> uuid \<Rightarrow> uuid \<Rightarrow> 'v store \<Rightarrow> 'v store \<times> (library_repository_error + unit)" where
  "mark_owned_upload_unknown ops env media_id owner_token s =
     in_transaction s
       (rbind (update_media_rows (owned_upload media_id owner_token) (unknown_media (se_db env)) LibraryDatabase s)
          (\<lambda>(s, rows).
          if length rows \<noteq> 1 then Inl (StorageUploadLeaseLost media_id)
          else Inr (unknown_followup ops env media_id s, ())))
       Inr"

section \<open>Reconciliation by an operator\<close>

definition mark_storage_upload_unknown ::
  "('v, 'tz) store_ops \<Rightarrow> store_env \<Rightarrow> uuid \<Rightarrow> bool \<Rightarrow> 'v store \<Rightarrow> 'v store \<times> (library_repository_error + unit)" where
  "mark_storage_upload_unknown ops env i force s =
     in_transaction s
       (rbind (lock_media_row i s) (\<lambda>m.
          if mw_storage_token m \<noteq> None \<and> \<not> force then Inl (StorageUploadActive i)
          else rbind (update_media_rows (\<lambda>m. mw_id m = i) (unknown_media (se_db env)) LibraryDatabase s) (\<lambda>(s, _).
            Inr (unknown_followup ops env i s, ()))))
       Inr"

text \<open>A running cleanup of a workspace of the media item.\<close>

definition cleanup_running :: "('v, 'tz) store_ops \<Rightarrow> uuid \<Rightarrow> 'v store \<Rightarrow> bool" where
  "cleanup_running ops media_id s \<longleftrightarrow>
     list_ex (\<lambda>r. jr_kind r = lit ''cleanup_workspace'' \<and> jr_state r = lit ''running'' \<and>
       list_ex (\<lambda>i. iw_media_id i = Some media_id \<and>
          so_payload_text ops (jr_payload r) (lit ''ingest_id'') = Some (so_uuid_text ops (iw_id i)) \<and>
          so_payload_text ops (jr_payload r) (lit ''workspace_id'') = Some (so_uuid_text ops (iw_workspace_id i)))
        (st_ingests s)) (st_jobs s)"

definition reset_media :: "db_env \<Rightarrow> int \<Rightarrow> media_row \<Rightarrow> media_row" where
  "reset_media env generation m =
     m\<lparr>mw_storage_state := lit ''pending_storage'', mw_storage_generation := generation,
       mw_telegram_storage_chat_id := None, mw_telegram_storage_message_id := None,
       mw_telegram_file_id := None, mw_telegram_file_unique_id := None, mw_storage_token := None,
       mw_storage_started_at := None, mw_stored_at := None,
       mw_caption_sync_state := lit ''not_required'', mw_caption_sync_error := None,
       mw_caption_sync_claim_token := None, mw_updated_at := env_now env\<rparr>"

definition storage_job_key :: "('v, 'tz) store_ops \<Rightarrow> uuid \<Rightarrow> int \<Rightarrow> ustring" where
  "storage_job_key ops media_id generation =
     lit ''media:'' @ so_uuid_text ops media_id @ lit '':upload_storage:v1:'' @ int_text generation"

definition reset_storage_upload ::
  "('v, 'tz) store_ops \<Rightarrow> store_env \<Rightarrow> uuid \<Rightarrow> 'v store \<Rightarrow> 'v store \<times> (library_repository_error + unit)" where
  "reset_storage_upload ops env i s =
     in_transaction s
       (rbind (lock_media_row i s) (\<lambda>m.
          if mw_storage_token m \<noteq> None then Inl (StorageUploadActive i)
          else if mw_local_work_path m = None then Inl (WorkspaceReclaimed i)
          else if cleanup_running ops i s then Inl (WorkspaceReclaimed i)
          else if \<not> mw_storage_generation m + 1 < 2 ^ 31 then Inl (StorageGenerationOverflow i)
          else let generation = mw_storage_generation m + 1 in
            rbind (update_media_rows (\<lambda>m. mw_id m = i) (reset_media (se_db env) generation) LibraryDatabase s)
              (\<lambda>(s, _).
              map_ok (\<lambda>s. (s, ()))
                (on_jobs (insert_job_once ops env (new_upload_storage_asset_generation i generation)
                            (storage_job_key ops i generation)) LibraryDatabase
                  (reopen_linked_ingests_for_storage (se_db env) i s)))))
       Inr"

definition attach_storage_upload ::
  "('v, 'tz) store_ops \<Rightarrow> store_env \<Rightarrow> uuid \<Rightarrow> int \<Rightarrow> storage_upload_attachment \<Rightarrow> 'v store \<Rightarrow>
   'v store \<times> (library_repository_error + storage_receipt)" where
  "attach_storage_upload ops env i generation a s =
     in_transaction s
       (rbind (validate_attachment a) (\<lambda>_.
        rbind (update_media_rows
                 (\<lambda>m. mw_id m = i \<and> mw_storage_generation m = generation \<and>
                      mw_storage_state m = lit ''storage_unknown'')
                 (attached_media (se_db env) a) LibraryDatabase s) (\<lambda>(s, rows).
        rbind (ok_or (fetch_optional rows) (StorageUploadNotUnknown i)) (\<lambda>m.
          finish_storage ops env i a m s))))
       into_storage_receipt"

definition find_storage_receipt :: "uuid \<Rightarrow> 'v store \<Rightarrow> library_repository_error + storage_receipt option" where
  "find_storage_receipt i s =
     (case select_media i s of
        None \<Rightarrow> Inr None
      | Some m \<Rightarrow> rbind (fetch_media_row m) (\<lambda>m.
          if mw_storage_state m = lit ''ready'' then map_ok Some (into_storage_receipt m) else Inr None))"

end
