(* ===== verification/Inbox_Store.thy ===== *)
theory Inbox_Store
  imports Ingest_Data Storage_Uploads
begin

text \<open>
  The ingest repository of \<open>crates/persistence/src/inbox.rs\<close>, first part: rows, locks and the jobs of
  each stage; the idempotent creation of an ingest, the two decisions on a duplicate, the storage
  outcome of a media item, the hand-off of a workspace to its cleanup, and the acknowledgement of
  failures. The stages of the pipeline are in \<open>Ingest_Pipeline\<close>.

  An application clock reading (\<open>OffsetDateTime::now_utc()\<close>) is \<open>env_utc\<close>, one value in a transaction.
\<close>

section \<open>Errors and parameters\<close>

datatype inbox_repository_error =
    InboxInvalidLimit nat nat
  | InboxInvalidCount
  | IdempotencyConflict ustring
  | IngestMissing uuid
  | MissingSourceUrl uuid
  | MissingMediaId uuid
  | UnknownStorageState ustring
  | UnknownIngestKind ustring
  | UnknownIngestStatus ustring
  | UnknownSubmittedVia ustring
  | UnknownRequestedAction ustring
  | InputEnvelope ingest_data_error
  | PublishAtNotFuture
  | RequestedChannelNotConfigured
  | RequestedChannelAmbiguous
  | InvalidFailureStatus ingest_status
  | ForceSaveNotAllowed ingest_status
  | DuplicateDecisionNotAllowed ingest_status
  | DuplicateEvidenceMissing uuid
  | DuplicateCandidateNotEvidenced uuid
  | DuplicateCandidateMissing uuid
  | DuplicateCandidateUnavailable uuid ustring
  | VideoFinalizationNotAllowed
  | DuplicateEvidenceTooLarge nat
  | DuplicateEvidenceTooManyMatches nat
  | InvalidStateTransition ingest_state_error
  | InboxJobLeaseLost
  | InboxDatabase
  | InboxSerialization
  | InboxLibrary library_repository_error

text \<open>
  Of other crates the repository uses, beside the store's: serde on envelopes, submissions and
  evidence, Rust's \<open>Debug\<close> of strings and errors, and the database's \<open>md5\<close> and text of an epoch.
\<close>

record ('v, 'tz) inbox_ops =
  io_store :: "('v, 'tz) store_ops"
  io_codec :: ingest_codec
  io_submission_bytes :: "ingest_submission \<Rightarrow> u8 list"
  io_evidence_from_value :: "json \<Rightarrow> video_duplicate_evidence option"
  io_debug_str :: "ustring \<Rightarrow> ustring"
  io_debug_error :: "inbox_repository_error \<Rightarrow> ustring"
  io_md5 :: "ustring \<Rightarrow> ustring"
  io_epoch_text :: "timestamp \<Rightarrow> ustring"

type_synonym ('v, 'a) inbox_tx = "inbox_repository_error + 'v store \<times> 'a"

abbreviation io_uuid_text :: "('v, 'tz) inbox_ops \<Rightarrow> uuid \<Rightarrow> ustring" where
  "io_uuid_text ops \<equiv> so_uuid_text (io_store ops)"

abbreviation utc :: "store_env \<Rightarrow> timestamp" where
  "utc env \<equiv> env_utc (se_db env)"

section \<open>Rows\<close>

definition into_ingest :: "('v, 'tz) inbox_ops \<Rightarrow> ingest_row \<Rightarrow> inbox_repository_error + ingest" where
  "into_ingest ops r =
     rbind (map_err InputEnvelope (data_decode (io_codec ops) (iw_input_json r))) (\<lambda>data.
     rbind (map_err InputEnvelope (data_encode (io_codec ops) data)) (\<lambda>canonical_input.
     rbind (map_err UnknownIngestKind (ingest_kind_try_from (iw_input_kind r))) (\<lambda>kind.
     rbind (map_err UnknownIngestStatus (ingest_status_try_from (iw_state r))) (\<lambda>status.
     rbind (map_err UnknownSubmittedVia (submitted_via_try_from (iw_submitted_via r))) (\<lambda>via.
     rbind (ok_or (iw_source_url r) (MissingSourceUrl (iw_id r))) (\<lambda>source_url.
     rbind (map_err UnknownRequestedAction (requested_action_try_from (iw_requested_action r))) (\<lambda>action.
       Inr \<lparr>ing_id = iw_id r, ing_workspace_id = iw_workspace_id r, ing_kind = kind, ing_status = status,
            ing_submitted_via = via, ing_original_input = canonical_input, ing_source_url = source_url,
            ing_page_url = iw_page_url r, ing_page_title = iw_page_title r,
            ing_supplied_caption = iw_supplied_caption r, ing_supplied_description = iw_supplied_description r,
            ing_supplied_tags = iw_supplied_tags r, ing_requested_action = action,
            ing_requested_publish_at = iw_requested_publish_at r,
            ing_requested_post_caption = iw_requested_post_caption r,
            ing_requested_channel_id = iw_requested_channel_id r, ing_idempotency_key = Some (iw_input_key r),
            ing_media_id = iw_media_id r, ing_force_save = iw_force_save r,
            ing_duplicate_evidence = iw_duplicate_evidence r, ing_error_code = iw_error_code r,
            ing_error_message = iw_error_message r, ing_created_at = iw_created_at r,
            ing_updated_at = iw_updated_at r, ing_completed_at = iw_completed_at r\<rparr>)))))))"

definition load_request :: "('v, 'tz) inbox_ops \<Rightarrow> uuid \<Rightarrow> 'v store \<Rightarrow> inbox_repository_error + ingest" where
  "load_request ops i s = rbind (ok_or (select_ingest i s) (IngestMissing i)) (into_ingest ops)"

text \<open>The columns \<open>update_ingest_state\<close> writes.\<close>

definition ingest_state_row :: "ingest \<Rightarrow> ingest_row \<Rightarrow> ingest_row" where
  "ingest_state_row request r =
     r\<lparr>iw_state := ingest_status_as_str (ing_status request), iw_input_json := ing_original_input request,
       iw_workspace_id := ing_workspace_id request, iw_media_id := ing_media_id request,
       iw_force_save := ing_force_save request, iw_duplicate_evidence := ing_duplicate_evidence request,
       iw_error_code := ing_error_code request, iw_error_message := ing_error_message request,
       iw_updated_at := ing_updated_at request, iw_completed_at := ing_completed_at request\<rparr>"

definition update_ingest_state :: "ingest \<Rightarrow> 'v store \<Rightarrow> 'v store" where
  "update_ingest_state request s = update_ingests (\<lambda>r. iw_id r = ing_id request) (ingest_state_row request) s"

definition current_attempt :: "db_env \<Rightarrow> job_lease \<Rightarrow> 'v job_row \<Rightarrow> bool" where
  "current_attempt env attempt r \<longleftrightarrow>
     jr_id r = jl_job_id attempt \<and> jr_state r = lit ''running'' \<and> jr_attempt_count r = jl_attempt_number attempt \<and>
     jr_lease_owner r = Some (jl_lease_owner attempt) \<and> jr_lease_token r = Some (jl_lease_token attempt) \<and>
     after_null (jr_lease_expires_at r) (env_clock env)"

definition holds_attempt :: "store_env \<Rightarrow> job_lease \<Rightarrow> 'v store \<Rightarrow> bool" where
  "holds_attempt env attempt s \<longleftrightarrow> select_one (current_attempt (se_db env) attempt) (st_jobs s) \<noteq> None"

definition succeed_current_job_attempt ::
  "store_env \<Rightarrow> job_lease \<Rightarrow> 'v store \<Rightarrow> inbox_repository_error + 'v store" where
  "succeed_current_job_attempt env attempt s =
     (if length (filter (current_attempt (se_db env) attempt) (st_jobs s)) \<noteq> 1 then Inl InboxJobLeaseLost
      else Inr (s\<lparr>st_jobs := update_where (current_attempt (se_db env) attempt) (succeeded_row (se_db env)) (st_jobs s)\<rparr>))"

section \<open>Jobs of the stages\<close>

definition insert_ingest_job ::
  "('v, 'tz) inbox_ops \<Rightarrow> store_env \<Rightarrow> new_job \<Rightarrow> ustring \<Rightarrow> 'v store \<Rightarrow> inbox_repository_error + 'v store" where
  "insert_ingest_job ops env j dedupe_key s =
     on_jobs (insert_job_once (io_store ops) env j dedupe_key) InboxDatabase s"

definition stage_dedupe_key :: "ingest \<Rightarrow> ustring \<Rightarrow> ustring" where
  "stage_dedupe_key request initial_key =
     (if ing_force_save request then initial_key @ lit '':force_save'' else initial_key)"

definition stage_key :: "('v, 'tz) inbox_ops \<Rightarrow> ingest \<Rightarrow> ustring \<Rightarrow> ustring" where
  "stage_key ops request stage =
     stage_dedupe_key request (lit ''ingest:'' @ io_uuid_text ops (ing_id request) @ lit '':'' @ stage)"

definition insert_inspect_job where
  "insert_inspect_job ops env request s =
     insert_ingest_job ops env (new_inspect_source (ing_id request)) (stage_key ops request (lit ''inspect_source:v1'')) s"

definition insert_probe_job where
  "insert_probe_job ops env request s =
     insert_ingest_job ops env (new_probe_asset (ing_id request)) (stage_key ops request (lit ''probe_asset:v1'')) s"

definition insert_download_job where
  "insert_download_job ops env request inspection s =
     insert_ingest_job ops env (new_download_source (ing_id request) inspection)
       (stage_key ops request (lit ''download_source:v1'')) s"

definition insert_normalize_job where
  "insert_normalize_job ops env request s =
     insert_ingest_job ops env (new_normalize_asset (ing_id request)) (stage_key ops request (lit ''normalize_asset:v1'')) s"

definition insert_finalize_job where
  "insert_finalize_job ops env request s =
     insert_ingest_job ops env (new_finalize_ingest (ing_id request)) (stage_key ops request (lit ''finalize_ingest:v1'')) s"

definition insert_fingerprint_job where
  "insert_fingerprint_job ops env request s =
     insert_ingest_job ops env (new_compute_fingerprint (ing_id request))
       (stage_key ops request (lit ''compute_fingerprint:v2'')) s"

definition insert_storage_job ::
  "('v, 'tz) inbox_ops \<Rightarrow> store_env \<Rightarrow> uuid \<Rightarrow> 'v store \<Rightarrow> inbox_repository_error + 'v store" where
  "insert_storage_job ops env media_id s =
     (case select_one (\<lambda>m. mw_id m = media_id \<and> mw_storage_state m = lit ''pending_storage'') (st_media s) of
        None \<Rightarrow> Inr s
      | Some m \<Rightarrow>
          insert_ingest_job ops env (new_upload_storage_asset_generation media_id (mw_storage_generation m))
            (storage_job_key (io_store ops) media_id (mw_storage_generation m)) s)"

definition ingest_cleanup ::
  "('v, 'tz) inbox_ops \<Rightarrow> store_env \<Rightarrow> ingest \<Rightarrow> timestamp \<Rightarrow> 'v store \<Rightarrow> inbox_repository_error + 'v store" where
  "ingest_cleanup ops env request run_at s =
     store_workspace_cleanup (io_store ops) env (ing_id request) (ing_workspace_id request) run_at InboxDatabase s"

section \<open>Transitions\<close>

definition follow :: "ingest_status list \<Rightarrow> ingest \<Rightarrow> inbox_repository_error + ingest" where
  "follow route request = map_err InvalidStateTransition (run_transitions request route)"

definition cleared :: "timestamp \<Rightarrow> ingest \<Rightarrow> ingest" where
  "cleared now request =
     request\<lparr>ing_error_code := None, ing_error_message := None, ing_completed_at := None, ing_updated_at := now\<rparr>"

definition failed_with :: "timestamp \<Rightarrow> ustring \<Rightarrow> ustring \<Rightarrow> ingest \<Rightarrow> ingest" where
  "failed_with now code message request =
     request\<lparr>ing_error_code := Some code, ing_error_message := Some message, ing_completed_at := Some now,
             ing_updated_at := now\<rparr>"

definition advance_after_media_processing ::
  "('v, 'tz) inbox_ops \<Rightarrow> store_env \<Rightarrow> ingest \<Rightarrow> uuid \<Rightarrow> 'v store \<Rightarrow> ('v, ingest) inbox_tx" where
  "advance_after_media_processing ops env request media_id s =
     rbind (ok_or (select_media media_id s) (MissingMediaId (ing_id request))) (\<lambda>m.
     let request = cleared (utc env) (request\<lparr>ing_media_id := Some media_id\<rparr>) in
     rbind (map_err UnknownStorageState (media_storage_state_try_from (mw_storage_state m))) (\<lambda>storage_state.
     rbind (case storage_state of
              StorageReady \<Rightarrow>
                rbind (follow [IngestCompleted] request) (\<lambda>request.
                rbind (if ing_requested_action request \<noteq> SaveAction
                       then insert_materialization_job (io_store ops) env (ing_id request) InboxDatabase s
                       else Inr s) (\<lambda>s.
                  map_ok (\<lambda>s. (s, request\<lparr>ing_completed_at := Some (utc env)\<rparr>))
                    (ingest_cleanup ops env request (utc env) s)))
            | StoragePending \<Rightarrow>
                rbind (follow [Storing] request) (\<lambda>request.
                  map_ok (\<lambda>s. (s, request)) (insert_storage_job ops env media_id s))
            | _ \<Rightarrow>
                rbind (follow [FailedTerminal] request) (\<lambda>request.
                  map_ok (\<lambda>s. (s, failed_with (utc env) (lit ''storage_unknown'')
                      (lit ''media storage requires explicit reconciliation before ingest can complete'') request))
                    (ingest_cleanup ops env request (utc env + WORKSPACE_CLEANUP_RETENTION) s)))
       (\<lambda>(s, request). Inr (update_ingest_state request s, request))))"

section \<open>Creation\<close>

definition request_hash :: "('v, 'tz) inbox_ops \<Rightarrow> ingest_submission \<Rightarrow> u8 list" where
  "request_hash ops sub = op_sha256 (so_publisher (io_store ops)) (io_submission_bytes ops sub)"

definition submission_key :: "ingest_submission \<Rightarrow> ustring" where
  "submission_key sub =
     unwrap_or (sub_idempotency_key sub) (ingest_kind_as_str (sub_kind sub) @ lit '':'' @ sub_normalized_url sub)"

definition select_enabled_channel_candidates :: "'v store \<Rightarrow> uuid list" where
  "select_enabled_channel_candidates s = take 2 (sort (map ch_id (filter ch_is_enabled (st_channels s))))"

definition requested_channel :: "ingest \<Rightarrow> 'v store \<Rightarrow> inbox_repository_error + ingest" where
  "requested_channel request s =
     (if ing_requested_action request \<noteq> SaveAction
      then (case select_enabled_channel_candidates s of
              [] \<Rightarrow> Inl RequestedChannelNotConfigured
            | [channel_id] \<Rightarrow> Inr (request\<lparr>ing_requested_channel_id := Some channel_id\<rparr>)
            | _ \<Rightarrow> Inl RequestedChannelAmbiguous)
      else Inr request)"

definition new_ingest_row :: "ingest \<Rightarrow> ustring \<Rightarrow> u8 list \<Rightarrow> ingest_row" where
  "new_ingest_row request input_key hash =
     \<lparr>iw_id = ing_id request, iw_input_kind = ingest_kind_as_str (ing_kind request), iw_state = lit ''queued'',
      iw_submitted_via = submitted_via_as_str (ing_submitted_via request),
      iw_input_json = ing_original_input request, iw_source_url = Some (ing_source_url request),
      iw_page_url = ing_page_url request, iw_page_title = ing_page_title request,
      iw_supplied_caption = ing_supplied_caption request,
      iw_supplied_description = ing_supplied_description request, iw_supplied_tags = ing_supplied_tags request,
      iw_requested_action = requested_action_as_str (ing_requested_action request),
      iw_requested_publish_at = ing_requested_publish_at request,
      iw_requested_post_caption = ing_requested_post_caption request,
      iw_requested_channel_id = ing_requested_channel_id request, iw_input_key = input_key,
      iw_request_hash = hash, iw_workspace_id = ing_workspace_id request, iw_media_id = ing_media_id request,
      iw_force_save = False, iw_duplicate_evidence = None, iw_error_code = ing_error_code request,
      iw_error_message = ing_error_message request, iw_acknowledged_failure_at = None,
      iw_created_at = ing_created_at request, iw_updated_at = ing_updated_at request,
      iw_completed_at = ing_completed_at request\<rparr>"

text \<open>The CHECK constraints on the requested intent.\<close>

definition intent_check :: "ingest_row \<Rightarrow> bool" where
  "intent_check r \<longleftrightarrow>
     iw_requested_action r \<in> {lit ''save'', lit ''queue'', lit ''post_now''} \<and>
     (iw_requested_action r = lit ''save'' \<longrightarrow>
        iw_requested_publish_at r = None \<and> iw_requested_post_caption r = None \<and> iw_requested_channel_id r = None) \<and>
     (iw_requested_action r = lit ''post_now'' \<longrightarrow> iw_requested_publish_at r = None) \<and>
     (iw_requested_action r \<noteq> lit ''save'' \<longrightarrow> iw_requested_channel_id r \<noteq> None)"

text \<open>\<open>INSERT INTO ingests ... ON CONFLICT (input_key) DO NOTHING RETURNING id\<close>.\<close>

definition insert_ingest :: "ingest_row \<Rightarrow> 'v store \<Rightarrow> ('v, uuid option) inbox_tx" where
  "insert_ingest row s =
     (if list_ex (\<lambda>r. iw_input_key r = iw_input_key row) (st_ingests s) then Inr (s, None)
      else if list_ex (\<lambda>r. iw_id r = iw_id row) (st_ingests s) \<or> \<not> intent_check row then Inl InboxDatabase
      else Inr (s\<lparr>st_ingests := st_ingests s @ [row]\<rparr>, Some (iw_id row)))"

text \<open>The existing ingest of a request key, unless it belongs to another request.\<close>

definition replay_ingest ::
  "('v, 'tz) inbox_ops \<Rightarrow> ustring \<Rightarrow> u8 list \<Rightarrow> ingest_row \<Rightarrow> 'v store \<Rightarrow> ('v, ingest \<times> bool) inbox_tx" where
  "replay_ingest ops input_key hash existing s =
     (if iw_request_hash existing \<noteq> hash then Inl (IdempotencyConflict input_key)
      else map_ok (\<lambda>request. (s, (request, False))) (load_request ops (iw_id existing) s))"

definition insert_first_job where
  "insert_first_job ops env request s =
     (case ing_kind request of
        UrlIngest \<Rightarrow> insert_inspect_job ops env request s
      | _ \<Rightarrow> insert_probe_job ops env request s)"

text \<open>The workspace named by a Telegram source, or the ingest's own.\<close>

definition submission_workspace ::
  "('v, 'tz) inbox_ops \<Rightarrow> ingest \<Rightarrow> inbox_repository_error + ingest" where
  "submission_workspace ops request =
     rbind (map_err InputEnvelope (input_data (io_codec ops) request)) (\<lambda>data.
       Inr (request\<lparr>ing_workspace_id :=
         unwrap_or (Option.bind (sd_telegram_workspace_id (id_source data)) (so_parse_uuid (io_store ops)))
           (ing_id request)\<rparr>))"

definition create_ingest_tx ::
  "('v, 'tz) inbox_ops \<Rightarrow> store_env \<Rightarrow> ingest_submission \<Rightarrow> timestamp \<Rightarrow> 'v store \<Rightarrow> ('v, ingest \<times> bool) inbox_tx" where
  "create_ingest_tx ops env sub now s =
     (let hash = request_hash ops sub; input_key = submission_key sub in
      case select_one (\<lambda>r. iw_input_key r = input_key) (st_ingests s) of
        Some existing \<Rightarrow> replay_ingest ops input_key hash existing s
      | None \<Rightarrow>
          rbind (map_err InputEnvelope
                   (ingest_from_submission (io_codec ops) (utc env) (env_uuid (se_db env)) sub)) (\<lambda>request.
          rbind (follow [IngestQueued] request) (\<lambda>request.
          rbind (submission_workspace ops request) (\<lambda>request.
            if ing_requested_action request = QueueAction \<and>
               (case ing_requested_publish_at request of None \<Rightarrow> False | Some at \<Rightarrow> at \<le> now)
            then Inl PublishAtNotFuture
            else rbind (requested_channel request s) (\<lambda>request.
                 rbind (insert_ingest (new_ingest_row request input_key hash) s) (\<lambda>(s, inserted).
                   case inserted of
                     None \<Rightarrow>
                       rbind (ok_or (select_one (\<lambda>r. iw_input_key r = input_key) (st_ingests s)) InboxDatabase)
                         (\<lambda>existing. replay_ingest ops input_key hash existing s)
                   | Some _ \<Rightarrow>
                       map_ok (\<lambda>s. (s, (request, True))) (insert_first_job ops env request s)))))))"

definition create_ingest_at ::
  "('v, 'tz) inbox_ops \<Rightarrow> store_env \<Rightarrow> ingest_submission \<Rightarrow> timestamp \<Rightarrow> 'v store \<Rightarrow>
   'v store \<times> (inbox_repository_error + ingest \<times> bool)" where
  "create_ingest_at ops env sub now s = in_transaction s (create_ingest_tx ops env sub now s) Inr"

definition create_ingest where
  "create_ingest ops env sub s = create_ingest_at ops env sub (utc env) s"

definition find_ingest :: "('v, 'tz) inbox_ops \<Rightarrow> uuid \<Rightarrow> 'v store \<Rightarrow> inbox_repository_error + ingest option" where
  "find_ingest ops i s =
     (case load_request ops i s of
        Inr request \<Rightarrow> Inr (Some request)
      | Inl e \<Rightarrow> (case e of IngestMissing _ \<Rightarrow> Inr None | _ \<Rightarrow> Inl e))"

section \<open>Decisions on a duplicate\<close>

fun merge_duplicate_tags :: "ustring list \<Rightarrow> ustring list \<Rightarrow> ustring list" where
  "merge_duplicate_tags tags [] = tags"
| "merge_duplicate_tags tags (tag # incoming) =
     merge_duplicate_tags (if tag \<in> set tags then tags else tags @ [tag]) incoming"

definition accepted_duplicate :: "db_env \<Rightarrow> ingest \<Rightarrow> media_row \<Rightarrow> media_row" where
  "accepted_duplicate env request m =
     m\<lparr>mw_tags := merge_duplicate_tags (mw_tags m) (ing_supplied_tags request),
       mw_description := or_else (normalize_optional_text (ing_supplied_description request)) (mw_description m),
       mw_updated_at := env_now env\<rparr>"

text \<open>A decision on the ingest that was already recorded: the same acceptance is replayed, any other refused.\<close>

definition replay_acceptance ::
  "ingest \<Rightarrow> duplicate_decision_data \<Rightarrow> uuid \<Rightarrow> 'v store \<Rightarrow> ('v, ingest \<times> bool) inbox_tx" where
  "replay_acceptance request decision media_id s =
     (let accepted_media_id =
        (if dd_version decision = 1 \<and> dd_kind decision = DecisionAccepted then Some (dd_media_id decision) else None)
      in if \<not> ing_force_save request \<and> accepted_media_id \<noteq> None \<and>
            ing_media_id request = accepted_media_id \<and> accepted_media_id = Some media_id
         then Inr (s, (request, True))
         else Inl (DuplicateDecisionNotAllowed (ing_status request)))"

definition evidenced_candidate ::
  "('v, 'tz) inbox_ops \<Rightarrow> ingest \<Rightarrow> uuid \<Rightarrow> inbox_repository_error + unit" where
  "evidenced_candidate ops request media_id =
     rbind (ok_or (ing_duplicate_evidence request) (DuplicateEvidenceMissing (ing_id request))) (\<lambda>v.
     rbind (ok_or (io_evidence_from_value ops v) InboxSerialization) (\<lambda>evidence.
       if list_ex (\<lambda>c. vdm_media_id c = media_id) (vde_matches evidence) then Inr ()
       else Inl (DuplicateCandidateNotEvidenced media_id)))"

definition available_candidate ::
  "uuid \<Rightarrow> 'v store \<Rightarrow> inbox_repository_error + media_storage_state" where
  "available_candidate media_id s =
     rbind (ok_or (select_media media_id s) (DuplicateCandidateMissing media_id)) (\<lambda>m.
     rbind (map_err (\<lambda>_. InboxDatabase) (media_storage_state_try_from (mw_storage_state m))) (\<lambda>state.
       if state \<in> {StorageReady, StoragePending} then Inr state
       else Inl (DuplicateCandidateUnavailable media_id (media_storage_state_as_str state))))"

text \<open>The acceptance written into the envelope.\<close>

definition record_acceptance ::
  "('v, 'tz) inbox_ops \<Rightarrow> ingest \<Rightarrow> uuid \<Rightarrow> inbox_repository_error + ingest" where
  "record_acceptance ops request media_id =
     rbind (map_err InputEnvelope (input_data (io_codec ops) request)) (\<lambda>data.
       map_err InputEnvelope
         (set_input_data (io_codec ops)
           (data\<lparr>id_duplicate_decision :=
              Some \<lparr>dd_version = 1, dd_kind = DecisionAccepted, dd_media_id = media_id\<rparr>\<rparr>)
           (request\<lparr>ing_media_id := Some media_id\<rparr>)))"

definition finish_acceptance ::
  "('v, 'tz) inbox_ops \<Rightarrow> store_env \<Rightarrow> media_storage_state \<Rightarrow> ingest \<Rightarrow> 'v store \<Rightarrow> ('v, ingest \<times> bool) inbox_tx" where
  "finish_acceptance ops env state request s =
     (let request = cleared (utc env) (request\<lparr>ing_duplicate_evidence := None\<rparr>) in
      rbind (follow [Storing] request) (\<lambda>request.
      rbind (if state = StorageReady
             then rbind (follow [IngestCompleted] request) (\<lambda>request.
                    map_ok (\<lambda>s. (s, request\<lparr>ing_completed_at := Some (utc env)\<rparr>))
                      (if ing_requested_action request \<noteq> SaveAction
                       then insert_materialization_job (io_store ops) env (ing_id request) InboxDatabase s
                       else Inr s))
             else Inr (s, request)) (\<lambda>(s, request).
        Inr (update_ingest_state request s, (request, False)))))"

definition accept_duplicate_tx ::
  "('v, 'tz) inbox_ops \<Rightarrow> store_env \<Rightarrow> uuid \<Rightarrow> uuid \<Rightarrow> 'v store \<Rightarrow> ('v, ingest \<times> bool) inbox_tx" where
  "accept_duplicate_tx ops env i media_id s =
     rbind (load_request ops i s) (\<lambda>request.
     rbind (map_err InputEnvelope (input_data (io_codec ops) request)) (\<lambda>data.
       case id_duplicate_decision data of
         Some decision \<Rightarrow> replay_acceptance request decision media_id s
       | None \<Rightarrow>
           if ing_status request \<noteq> DuplicatePending then Inl (DuplicateDecisionNotAllowed (ing_status request))
           else rbind (evidenced_candidate ops request media_id) (\<lambda>_.
                rbind (available_candidate media_id s) (\<lambda>state.
                rbind (update_media_rows (\<lambda>m. mw_id m = media_id) (accepted_duplicate (se_db env) request)
                         InboxDatabase s) (\<lambda>(s, _).
                rbind (record_acceptance ops request media_id) (\<lambda>request.
                  finish_acceptance ops env state request s))))))"

definition accept_duplicate ::
  "('v, 'tz) inbox_ops \<Rightarrow> store_env \<Rightarrow> uuid \<Rightarrow> uuid \<Rightarrow> 'v store \<Rightarrow>
   'v store \<times> (inbox_repository_error + ingest \<times> bool)" where
  "accept_duplicate ops env i media_id s = in_transaction s (accept_duplicate_tx ops env i media_id s) Inr"

definition clear_pipeline_artifacts ::
  "('v, 'tz) inbox_ops \<Rightarrow> ingest \<Rightarrow> inbox_repository_error + ingest" where
  "clear_pipeline_artifacts ops request =
     rbind (map_err InputEnvelope (input_data (io_codec ops) request)) (\<lambda>data.
       map_err InputEnvelope
         (set_input_data (io_codec ops)
           (data\<lparr>id_inspection := None, id_download := None, id_probe := None, id_probed_media_kind := None,
                 id_normalization := None, id_finalization := None\<rparr>) request))"

definition force_save_tx ::
  "('v, 'tz) inbox_ops \<Rightarrow> store_env \<Rightarrow> uuid \<Rightarrow> 'v store \<Rightarrow> ('v, ingest \<times> bool) inbox_tx" where
  "force_save_tx ops env i s =
     rbind (load_request ops i s) (\<lambda>request.
       if ing_status request = DuplicatePending
       then let request = request\<lparr>ing_force_save := True, ing_workspace_id := env_uuid (se_db env),
                                  ing_duplicate_evidence := None\<rparr> in
            rbind (clear_pipeline_artifacts ops request) (\<lambda>request.
            rbind (follow [IngestQueued] request) (\<lambda>request.
            let request = cleared (utc env) request in
              map_ok (\<lambda>s. (s, (request, True)))
                (insert_first_job ops env request (update_ingest_state request s))))
       else if ing_status request \<in> {IngestQueued, Downloading, Probing, Normalizing, Fingerprinting, Storing,
                                      IngestCompleted} \<and> ing_force_save request
       then Inr (s, (request, False))
       else Inl (ForceSaveNotAllowed (ing_status request)))"

definition force_save ::
  "('v, 'tz) inbox_ops \<Rightarrow> store_env \<Rightarrow> uuid \<Rightarrow> 'v store \<Rightarrow> 'v store \<times> (inbox_repository_error + ingest \<times> bool)" where
  "force_save ops env i s = in_transaction s (force_save_tx ops env i s) Inr"

section \<open>Storage outcomes\<close>

definition media_is_ready :: "uuid \<Rightarrow> 'v store \<Rightarrow> bool" where
  "media_is_ready media_id s \<longleftrightarrow>
     list_ex (\<lambda>m. mw_id m = media_id \<and> mw_storage_state m = lit ''ready'') (st_media s)"

definition storage_completable :: "uuid \<Rightarrow> 'v store \<Rightarrow> ingest_row \<Rightarrow> bool" where
  "storage_completable media_id s r \<longleftrightarrow>
     iw_media_id r = Some media_id \<and> media_is_ready media_id s \<and>
     (iw_state r = lit ''storing'' \<or> (iw_state r = lit ''failed_retryable'' \<and> storage_code r) \<or>
      (iw_state r = lit ''failed_terminal'' \<and> storage_code r))"

definition complete_storage_for_media_tx ::
  "('v, 'tz) inbox_ops \<Rightarrow> store_env \<Rightarrow> uuid \<Rightarrow> 'v store \<Rightarrow> ('v, nat) inbox_tx" where
  "complete_storage_for_media_tx ops env media_id s =
     (let rows = returning (storage_completable media_id s) (completed_ingest (utc env)) (st_ingests s) in
      rbind (on_jobs (insert_jobs_once (io_store ops) env (materialization_jobs (io_store ops) rows)) InboxDatabase
               (update_ingests (storage_completable media_id s) (completed_ingest (utc env)) s)) (\<lambda>s.
      rbind (update_media_rows (\<lambda>m. mw_id m = media_id \<and> mw_storage_state m = lit ''ready'')
               (\<lambda>m. m\<lparr>mw_local_work_path := None\<rparr>) InboxDatabase s) (\<lambda>(s, _).
        map_ok (\<lambda>s. (s, length rows))
          (enqueue_workspace_cleanup_for_media (io_store ops) env media_id (utc env) InboxDatabase s))))"

definition complete_storage_for_media ::
  "('v, 'tz) inbox_ops \<Rightarrow> store_env \<Rightarrow> uuid \<Rightarrow> 'v store \<Rightarrow> 'v store \<times> (inbox_repository_error + nat)" where
  "complete_storage_for_media ops env media_id s =
     in_transaction s (complete_storage_for_media_tx ops env media_id s) Inr"

definition storage_failable :: "uuid \<Rightarrow> ingest_row \<Rightarrow> bool" where
  "storage_failable media_id r \<longleftrightarrow>
     iw_media_id r = Some media_id \<and>
     (iw_state r = lit ''storing'' \<or>
      (iw_state r = lit ''failed_retryable'' \<and> iw_error_code r = Some (lit ''storage_upload'')))"

definition storage_failure_row :: "timestamp \<Rightarrow> ingest_status \<Rightarrow> ustring \<Rightarrow> ustring \<Rightarrow> ingest_row \<Rightarrow> ingest_row" where
  "storage_failure_row now status code message r =
     r\<lparr>iw_state := ingest_status_as_str status, iw_error_code := Some code, iw_error_message := Some message,
       iw_completed_at := (if status = FailedTerminal then Some now else None), iw_updated_at := now\<rparr>"

definition missing_media :: "timestamp \<Rightarrow> media_row \<Rightarrow> media_row" where
  "missing_media now m =
     m\<lparr>mw_storage_state := lit ''missing'', mw_storage_token := None, mw_storage_started_at := None,
       mw_updated_at := now\<rparr>"

definition fail_storage_for_media_tx ::
  "('v, 'tz) inbox_ops \<Rightarrow> store_env \<Rightarrow> uuid \<Rightarrow> ingest_status \<Rightarrow> ustring \<Rightarrow> ustring \<Rightarrow> 'v store \<Rightarrow> ('v, nat) inbox_tx" where
  "fail_storage_for_media_tx ops env media_id status code message s =
     (if status \<notin> {FailedRetryable, FailedTerminal} then Inl (InvalidFailureStatus status)
      else let failed = length (filter (storage_failable media_id) (st_ingests s));
               s = update_ingests (storage_failable media_id) (storage_failure_row (utc env) status code message) s in
        if status = FailedTerminal
        then rbind (update_media_rows (\<lambda>m. mw_id m = media_id \<and> mw_storage_state m = lit ''pending_storage'')
                      (missing_media (utc env)) InboxDatabase s) (\<lambda>(s, changed).
               map_ok (\<lambda>s. (s, failed))
                 (if changed \<noteq> []
                  then enqueue_workspace_cleanup_for_media (io_store ops) env media_id
                         (utc env + WORKSPACE_CLEANUP_RETENTION) InboxDatabase s
                  else Inr s))
        else Inr (s, failed))"

definition fail_storage_for_media ::
  "('v, 'tz) inbox_ops \<Rightarrow> store_env \<Rightarrow> uuid \<Rightarrow> ingest_status \<Rightarrow> ustring \<Rightarrow> ustring \<Rightarrow> 'v store \<Rightarrow>
   'v store \<times> (inbox_repository_error + nat)" where
  "fail_storage_for_media ops env media_id status code message s =
     in_transaction s (fail_storage_for_media_tx ops env media_id status code message s) Inr"

section \<open>Workspace cleanup\<close>

datatype workspace_cleanup_start = CleanupReady | CleanupDeferred | CleanupAlreadyAdvanced

definition active_job_for ::
  "('v, 'tz) inbox_ops \<Rightarrow> uuid \<Rightarrow> uuid \<Rightarrow> uuid option \<Rightarrow> 'v job_row \<Rightarrow> bool" where
  "active_job_for ops jid ingest_id media_id r \<longleftrightarrow>
     jr_id r \<noteq> jid \<and> jr_state r \<in> {lit ''queued'', lit ''running''} \<and> jr_kind r \<noteq> lit ''cleanup_workspace'' \<and>
     (so_payload_text (io_store ops) (jr_payload r) (lit ''ingest_id'') = Some (io_uuid_text ops ingest_id) \<or>
      (case media_id of
         None \<Rightarrow> False
       | Some media_id \<Rightarrow>
           so_payload_text (io_store ops) (jr_payload r) (lit ''media_id'') = Some (io_uuid_text ops media_id)))"

definition storage_allows_cleanup :: "uuid option \<Rightarrow> 'v store \<Rightarrow> bool" where
  "storage_allows_cleanup media_id s \<longleftrightarrow>
     (case Option.bind media_id (\<lambda>i. select_media i s) of
        None \<Rightarrow> True
      | Some m \<Rightarrow> media_storage_state_try_from (mw_storage_state m) \<in> {Inr StorageReady, Inr StorageMissing})"

definition state_allows_cleanup :: "ingest_row \<Rightarrow> bool" where
  "state_allows_cleanup r \<longleftrightarrow>
     iw_state r \<in> {lit ''completed'', lit ''duplicate_pending'', lit ''failed_terminal'', lit ''cancelled'', lit ''storing''}"

definition reclaim_workspace ::
  "store_env \<Rightarrow> uuid option \<Rightarrow> 'v store \<Rightarrow> inbox_repository_error + 'v store" where
  "reclaim_workspace env media_id s =
     (case media_id of
        None \<Rightarrow> Inr s
      | Some media_id \<Rightarrow>
          map_ok fst
            (update_media_rows
               (\<lambda>m. mw_id m = media_id \<and> mw_storage_state m \<in> {lit ''ready'', lit ''missing''} \<and> mw_local_work_path m \<noteq> None)
               (\<lambda>m. m\<lparr>mw_local_work_path := None, mw_updated_at := env_now (se_db env)\<rparr>) InboxDatabase s))"

definition begin_workspace_cleanup_tx ::
  "('v, 'tz) inbox_ops \<Rightarrow> store_env \<Rightarrow> job_lease \<Rightarrow> uuid \<Rightarrow> uuid \<Rightarrow> 'v store \<Rightarrow> ('v, workspace_cleanup_start) inbox_tx" where
  "begin_workspace_cleanup_tx ops env attempt ingest_id workspace_id s =
     (if \<not> holds_attempt env attempt s then Inr (s, CleanupAlreadyAdvanced)
      else rbind (ok_or (select_ingest ingest_id s) (IngestMissing ingest_id)) (\<lambda>r.
        if iw_workspace_id r \<noteq> workspace_id then Inr (s, CleanupReady)
        else if list_ex (active_job_for ops (jl_job_id attempt) ingest_id (iw_media_id r)) (st_jobs s)
        then Inr (s, CleanupDeferred)
        else if state_allows_cleanup r \<and> storage_allows_cleanup (iw_media_id r) s
        then map_ok (\<lambda>s. (s, CleanupReady)) (reclaim_workspace env (iw_media_id r) s)
        else Inr (s, CleanupDeferred)))"

definition begin_workspace_cleanup ::
  "('v, 'tz) inbox_ops \<Rightarrow> store_env \<Rightarrow> job_lease \<Rightarrow> uuid \<Rightarrow> uuid \<Rightarrow> 'v store \<Rightarrow>
   'v store \<times> (inbox_repository_error + workspace_cleanup_start)" where
  "begin_workspace_cleanup ops env attempt ingest_id workspace_id s =
     in_transaction s (begin_workspace_cleanup_tx ops env attempt ingest_id workspace_id s) Inr"

section \<open>Failure acknowledgement\<close>

definition failure_at :: "ingest_row \<Rightarrow> timestamp" where
  "failure_at r = unwrap_or (iw_completed_at r) (iw_updated_at r)"

definition pending_failure :: "ingest_row \<Rightarrow> bool" where
  "pending_failure r \<longleftrightarrow>
     iw_state r = lit ''failed_terminal'' \<and> iw_acknowledged_failure_at r \<noteq> Some (failure_at r)"

fun join_lines :: "ustring list \<Rightarrow> ustring" where
  "join_lines [] = []"
| "join_lines [line] = line"
| "join_lines (line # lines) = line @ [10] @ join_lines lines"

definition failure_revision :: "('v, 'tz) inbox_ops \<Rightarrow> 'v store \<Rightarrow> ustring" where
  "failure_revision ops s =
     io_md5 ops (join_lines
       (map (\<lambda>r. io_uuid_text ops (iw_id r) @ lit '':'' @ io_epoch_text ops (failure_at r))
         (sort_key iw_id (filter pending_failure (st_ingests s)))))"

definition ingest_failure_summary :: "('v, 'tz) inbox_ops \<Rightarrow> 'v store \<Rightarrow> nat \<times> ustring" where
  "ingest_failure_summary ops s = (length (filter pending_failure (st_ingests s)), failure_revision ops s)"

definition acknowledge_ingest_failures ::
  "('v, 'tz) inbox_ops \<Rightarrow> ustring \<Rightarrow> 'v store \<Rightarrow> 'v store \<times> bool" where
  "acknowledge_ingest_failures ops expected_revision s =
     (if filter pending_failure (st_ingests s) = [] \<or> failure_revision ops s = expected_revision
      then (update_ingests pending_failure (\<lambda>r. r\<lparr>iw_acknowledged_failure_at := Some (failure_at r)\<rparr>) s, True)
      else (s, False))"

end
