(* ===== verification/Ingest_Pipeline.thy ===== *)
theory Ingest_Pipeline
  imports Inbox_Store
begin

text \<open>
  The stages of an ingest in \<open>crates/persistence/src/inbox.rs\<close>: inspection, download, probe,
  normalisation, fingerprinting with the identity decision, and finalisation. A worker begins a stage
  under its lease, does the external work outside the database, and completes or fails the stage; each
  of these is one transaction, checked against the lease and the state of the ingest. The completion
  of a stage writes the result into the envelope, moves the ingest on, queues the job of the next
  stage and finishes its own.
\<close>

section \<open>Beginning a stage\<close>

datatype stage_start =
    StageReady ingest
  | StageAlreadyAdvanced ingest

text \<open>
  The common shape: \<open>skip\<close> is a stage whose result is already there, \<open>route\<close> the transitions that put
  an ingest of the given state into the stage, with no write for the empty route.
\<close>

definition begin_stage ::
  "('v, 'tz) inbox_ops \<Rightarrow> store_env \<Rightarrow> uuid \<Rightarrow> job_lease \<Rightarrow> (ingest \<Rightarrow> inbox_repository_error + bool) \<Rightarrow>
   (ingest_status \<Rightarrow> ingest_status list option) \<Rightarrow> 'v store \<Rightarrow> ('v, stage_start) inbox_tx" where
  "begin_stage ops env i attempt skip route s =
     rbind (load_request ops i s) (\<lambda>request.
     rbind (skip request) (\<lambda>skipped.
       if skipped \<or> \<not> holds_attempt env attempt s then Inr (s, StageAlreadyAdvanced request)
       else case route (ing_status request) of
         None \<Rightarrow> Inr (s, StageAlreadyAdvanced request)
       | Some path \<Rightarrow>
           if path = [] then Inr (s, StageReady request)
           else rbind (follow path request) (\<lambda>request.
             let request = cleared (utc env) request in
             Inr (update_ingest_state request s, StageReady request))))"

definition stage_data ::
  "('v, 'tz) inbox_ops \<Rightarrow> ingest \<Rightarrow> inbox_repository_error + ingest_data" where
  "stage_data ops request = map_err InputEnvelope (input_data (io_codec ops) request)"

definition begin_source_inspection ::
  "('v, 'tz) inbox_ops \<Rightarrow> store_env \<Rightarrow> uuid \<Rightarrow> job_lease \<Rightarrow> 'v store \<Rightarrow>
   'v store \<times> (inbox_repository_error + stage_start)" where
  "begin_source_inspection ops env i attempt s =
     in_transaction s
       (begin_stage ops env i attempt (\<lambda>_. Inr False)
          (\<lambda>st. case st of IngestQueued \<Rightarrow> Some [] | FailedRetryable \<Rightarrow> Some [IngestQueued] | _ \<Rightarrow> None) s)
       Inr"

definition begin_asset_probe ::
  "('v, 'tz) inbox_ops \<Rightarrow> store_env \<Rightarrow> uuid \<Rightarrow> job_lease \<Rightarrow> 'v store \<Rightarrow>
   'v store \<times> (inbox_repository_error + stage_start)" where
  "begin_asset_probe ops env i attempt s =
     in_transaction s
       (begin_stage ops env i attempt (\<lambda>_. Inr False)
          (\<lambda>st. case st of
                  IngestQueued \<Rightarrow> Some [Downloading, Probing]
                | Downloading \<Rightarrow> Some [Probing]
                | Probing \<Rightarrow> Some []
                | FailedRetryable \<Rightarrow> Some [IngestQueued, Downloading, Probing]
                | _ \<Rightarrow> None) s)
       Inr"

definition begin_source_download ::
  "('v, 'tz) inbox_ops \<Rightarrow> store_env \<Rightarrow> uuid \<Rightarrow> job_lease \<Rightarrow> 'v store \<Rightarrow>
   'v store \<times> (inbox_repository_error + stage_start)" where
  "begin_source_download ops env i attempt s =
     in_transaction s
       (begin_stage ops env i attempt
          (\<lambda>request. map_ok (\<lambda>data. id_download data \<noteq> None) (stage_data ops request))
          (\<lambda>st. case st of Downloading \<Rightarrow> Some [] | FailedRetryable \<Rightarrow> Some [IngestQueued, Downloading] | _ \<Rightarrow> None) s)
       Inr"

definition begin_asset_normalization ::
  "('v, 'tz) inbox_ops \<Rightarrow> store_env \<Rightarrow> uuid \<Rightarrow> job_lease \<Rightarrow> 'v store \<Rightarrow>
   'v store \<times> (inbox_repository_error + stage_start)" where
  "begin_asset_normalization ops env i attempt s =
     in_transaction s
       (begin_stage ops env i attempt
          (\<lambda>request. map_ok (\<lambda>data. id_normalization data \<noteq> None \<and> \<not> ing_force_save request) (stage_data ops request))
          (\<lambda>st. case st of
                  Normalizing \<Rightarrow> Some []
                | FailedRetryable \<Rightarrow> Some [IngestQueued, Downloading, Probing, Normalizing]
                | _ \<Rightarrow> None) s)
       Inr"

definition begin_ingest_finalization ::
  "('v, 'tz) inbox_ops \<Rightarrow> store_env \<Rightarrow> uuid \<Rightarrow> job_lease \<Rightarrow> 'v store \<Rightarrow>
   'v store \<times> (inbox_repository_error + stage_start)" where
  "begin_ingest_finalization ops env i attempt s =
     in_transaction s
       (begin_stage ops env i attempt (\<lambda>_. Inr False)
          (\<lambda>st. case st of Storing \<Rightarrow> Some [] | FailedRetryable \<Rightarrow> Some [Storing] | _ \<Rightarrow> None) s)
       Inr"

definition begin_ingest_fingerprinting ::
  "('v, 'tz) inbox_ops \<Rightarrow> store_env \<Rightarrow> uuid \<Rightarrow> job_lease \<Rightarrow> 'v store \<Rightarrow>
   'v store \<times> (inbox_repository_error + stage_start)" where
  "begin_ingest_fingerprinting ops env i attempt s =
     in_transaction s
       (begin_stage ops env i attempt (\<lambda>_. Inr False)
          (\<lambda>st. case st of Fingerprinting \<Rightarrow> Some [] | FailedRetryable \<Rightarrow> Some [Fingerprinting] | _ \<Rightarrow> None) s)
       Inr"

section \<open>Completing a stage\<close>

text \<open>The guard of a completion: the expected state, no result yet, and the current lease.\<close>

definition complete_stage ::
  "('v, 'tz) inbox_ops \<Rightarrow> store_env \<Rightarrow> uuid \<Rightarrow> job_lease \<Rightarrow> ingest_status \<Rightarrow>
   (ingest \<Rightarrow> inbox_repository_error + bool) \<Rightarrow> (ingest \<Rightarrow> 'v store \<Rightarrow> ('v, ingest) inbox_tx) \<Rightarrow> 'v store \<Rightarrow>
   ('v, ingest) inbox_tx" where
  "complete_stage ops env i attempt expected skip body s =
     rbind (load_request ops i s) (\<lambda>request.
     rbind (skip request) (\<lambda>skipped.
       if ing_status request \<noteq> expected \<or> skipped \<or> \<not> holds_attempt env attempt s then Inr (s, request)
       else rbind (body request s) (\<lambda>(s, request).
         map_ok (\<lambda>s. (s, request)) (succeed_current_job_attempt env attempt s))))"

definition with_stage_data ::
  "('v, 'tz) inbox_ops \<Rightarrow> (ingest_data \<Rightarrow> ingest_data) \<Rightarrow> ingest \<Rightarrow> inbox_repository_error + ingest" where
  "with_stage_data ops f request =
     rbind (stage_data ops request) (\<lambda>data.
       map_err InputEnvelope (set_input_data (io_codec ops) (f data) request))"

definition inspected ::
  "('v, 'tz) inbox_ops \<Rightarrow> store_env \<Rightarrow> source_inspection \<Rightarrow> ingest \<Rightarrow> 'v store \<Rightarrow> ('v, ingest) inbox_tx" where
  "inspected ops env inspection request s =
     rbind (with_stage_data ops (\<lambda>data. data\<lparr>id_inspection := Some inspection\<rparr>) request) (\<lambda>request.
     rbind (follow [Downloading] request) (\<lambda>request.
     let request = cleared (utc env) request in
       map_ok (\<lambda>s. (s, request)) (insert_download_job ops env request inspection (update_ingest_state request s))))"

definition complete_source_inspection ::
  "('v, 'tz) inbox_ops \<Rightarrow> store_env \<Rightarrow> uuid \<Rightarrow> job_lease \<Rightarrow> source_inspection \<Rightarrow> 'v store \<Rightarrow>
   'v store \<times> (inbox_repository_error + ingest)" where
  "complete_source_inspection ops env i attempt inspection s =
     in_transaction s
       (complete_stage ops env i attempt IngestQueued (\<lambda>_. Inr False) (inspected ops env inspection) s) Inr"

text \<open>The download keeps the state: its statement writes the envelope and clears the error.\<close>

definition download_row :: "ingest \<Rightarrow> ingest_row \<Rightarrow> ingest_row" where
  "download_row request r =
     r\<lparr>iw_input_json := ing_original_input request, iw_error_code := ing_error_code request,
       iw_error_message := ing_error_message request, iw_updated_at := ing_updated_at request\<rparr>"

definition downloaded ::
  "('v, 'tz) inbox_ops \<Rightarrow> store_env \<Rightarrow> source_download \<Rightarrow> ingest \<Rightarrow> 'v store \<Rightarrow> ('v, ingest) inbox_tx" where
  "downloaded ops env download request s =
     rbind (with_stage_data ops (\<lambda>data. data\<lparr>id_download := Some download\<rparr>) request) (\<lambda>request.
     let request = request\<lparr>ing_error_code := None, ing_error_message := None, ing_updated_at := utc env\<rparr> in
       map_ok (\<lambda>s. (s, request))
         (insert_probe_job ops env request
           (update_ingests (\<lambda>r. iw_id r = ing_id request) (download_row request) s)))"

definition complete_source_download ::
  "('v, 'tz) inbox_ops \<Rightarrow> store_env \<Rightarrow> uuid \<Rightarrow> job_lease \<Rightarrow> source_download \<Rightarrow> 'v store \<Rightarrow>
   'v store \<times> (inbox_repository_error + ingest)" where
  "complete_source_download ops env i attempt download s =
     in_transaction s
       (complete_stage ops env i attempt Downloading
          (\<lambda>request. map_ok (\<lambda>data. id_download data \<noteq> None) (stage_data ops request))
          (downloaded ops env download) s) Inr"

subsection \<open>The probe\<close>

datatype image_format_kind = ImageJpeg | ImagePng | ImageUnsupported | ImageUnknown

definition image_format_from_mime :: "ustring \<Rightarrow> image_format_kind" where
  "image_format_from_mime mime_type =
     (let mime_type = trim (takeWhile (\<lambda>c. c \<noteq> 59) mime_type) in
      if eq_ignore_ascii_case mime_type (lit ''image/jpeg'') then ImageJpeg
      else if eq_ignore_ascii_case mime_type (lit ''image/png'') then ImagePng
      else if starts_with (lit ''image/'') (to_ascii_lowercase mime_type) then ImageUnsupported
      else ImageUnknown)"

definition file_extension :: "ustring \<Rightarrow> ustring" where
  "file_extension name = rev (takeWhile (\<lambda>c. c \<noteq> 46) (rev name))"

definition image_format_from_file_name :: "ustring \<Rightarrow> image_format_kind" where
  "image_format_from_file_name name =
     (let extension = to_ascii_lowercase (file_extension name) in
      if extension \<in> {lit ''jpg'', lit ''jpeg''} then ImageJpeg
      else if extension = lit ''png'' then ImagePng
      else if extension \<in> {lit ''gif'', lit ''webp'', lit ''avif''} then ImageUnsupported
      else ImageUnknown)"

definition probed_image_format :: "ingest_probe \<Rightarrow> image_format_kind" where
  "probed_image_format p =
     (case probe_image_format p of
        None \<Rightarrow> ImageUnknown
      | Some v \<Rightarrow>
          let v = to_ascii_lowercase v in
          if contains (lit ''jpeg'') v \<or> contains (lit ''mjpeg'') v then ImageJpeg
          else if contains (lit ''png'') v then ImagePng
          else if contains (lit ''gif'') v \<or> contains (lit ''webp'') v \<or> contains (lit ''avif'') v
          then ImageUnsupported
          else ImageUnknown)"

definition image_format_supported :: "ingest_data \<Rightarrow> ingest_probe \<Rightarrow> bool" where
  "image_format_supported data p =
     (let declared_by_mime = Option.bind (data_mime_type data)
            (\<lambda>m. let f = image_format_from_mime m in if f \<noteq> ImageUnknown then Some f else None);
          declared = unwrap_or (or_else declared_by_mime
            (map_option image_format_from_file_name (sd_file_name (id_source data)))) ImageUnknown
      in case probed_image_format p of
           ImageJpeg \<Rightarrow> True
         | ImagePng \<Rightarrow> True
         | ImageUnsupported \<Rightarrow> False
         | ImageUnknown \<Rightarrow> declared \<in> {ImageJpeg, ImagePng})"

fun debug_media_kind :: "source_media_kind \<Rightarrow> ustring" where
  "debug_media_kind SourceVideo = lit ''Video''"
| "debug_media_kind SourceImage = lit ''Image''"
| "debug_media_kind SourceAudio = lit ''Audio''"
| "debug_media_kind SourceAnimation = lit ''Animation''"
| "debug_media_kind SourceUnknown = lit ''Unknown''"

fun debug_image_format :: "image_format_kind \<Rightarrow> ustring" where
  "debug_image_format ImageJpeg = lit ''Jpeg''"
| "debug_image_format ImagePng = lit ''Png''"
| "debug_image_format ImageUnsupported = lit ''Unsupported''"
| "debug_image_format ImageUnknown = lit ''Unknown''"

definition debug_text_result ::
  "('v, 'tz) inbox_ops \<Rightarrow> inbox_repository_error + ustring option \<Rightarrow> ustring" where
  "debug_text_result ops x =
     (case x of
        Inl e \<Rightarrow> lit ''Err('' @ io_debug_error ops e @ lit '')''
      | Inr None \<Rightarrow> lit ''Ok(None)''
      | Inr (Some t) \<Rightarrow> lit ''Ok(Some('' @ io_debug_str ops t @ lit ''))'')"

text \<open>Why an asset is refused: its code and message.\<close>

definition refused_asset ::
  "('v, 'tz) inbox_ops \<Rightarrow> ingest \<Rightarrow> ingest_probe \<Rightarrow> source_media_kind option \<Rightarrow> bool \<Rightarrow> ustring \<times> ustring" where
  "refused_asset ops request p media_kind unsupported_image =
     (case media_kind of
        None \<Rightarrow> (lit ''invalid_ingest_state'', lit ''ingest request has no stored source media kind'')
      | Some kind \<Rightarrow>
          if kind = SourceImage \<and> unsupported_image
          then (lit ''unsupported_image_format'',
                lit ''image input is not a supported JPEG/PNG (declared MIME '' @
                debug_text_result ops (map_ok data_mime_type (stage_data ops request)) @ lit '', file name '' @
                debug_text_result ops (map_ok (\<lambda>data. sd_file_name (id_source data)) (stage_data ops request)) @
                lit '', probed format '' @ debug_image_format (probed_image_format p) @ lit '')'')
          else (lit ''unsupported_media_kind'',
                lit ''asset media kind '' @ debug_media_kind kind @ lit '' is not supported by the composed normalizers''))"

definition probe_row :: "ingest \<Rightarrow> ingest_row \<Rightarrow> ingest_row" where
  "probe_row request r = r\<lparr>iw_input_json := ing_original_input request, iw_updated_at := ing_updated_at request\<rparr>"

definition probed ::
  "('v, 'tz) inbox_ops \<Rightarrow> store_env \<Rightarrow> ingest_probe \<Rightarrow> ingest \<Rightarrow> 'v store \<Rightarrow> ('v, ingest) inbox_tx" where
  "probed ops env p request s =
     rbind (stage_data ops request) (\<lambda>data.
     let media_kind = or_else (probe_media_kind p) (data_media_kind data);
         unsupported_image = (media_kind = Some SourceImage \<and> \<not> image_format_supported data p) in
     rbind (with_stage_data ops
              (\<lambda>data. data\<lparr>id_probe := Some p, id_probed_media_kind := probe_media_kind p\<rparr>) request) (\<lambda>request.
     let request = request\<lparr>ing_updated_at := utc env\<rparr>;
         s = update_ingests (\<lambda>r. iw_id r = ing_id request) (probe_row request) s in
     if media_kind \<notin> {Some SourceVideo, Some SourceImage, Some SourceAnimation, Some SourceAudio} \<or> unsupported_image
     then rbind (follow [FailedTerminal] request) (\<lambda>failed.
          let (code, message) = refused_asset ops request p media_kind unsupported_image;
              failed = failed_with (utc env) code message failed in
            map_ok (\<lambda>s. (s, failed))
              (ingest_cleanup ops env failed (utc env + WORKSPACE_CLEANUP_RETENTION) (update_ingest_state failed s)))
     else rbind (follow [Normalizing] request) (\<lambda>request.
          let request = cleared (utc env) request in
            map_ok (\<lambda>s. (s, request)) (insert_normalize_job ops env request (update_ingest_state request s)))))"

definition complete_asset_probe ::
  "('v, 'tz) inbox_ops \<Rightarrow> store_env \<Rightarrow> uuid \<Rightarrow> job_lease \<Rightarrow> json \<Rightarrow> 'v store \<Rightarrow>
   'v store \<times> (inbox_repository_error + ingest)" where
  "complete_asset_probe ops env i attempt p s =
     in_transaction s (complete_stage ops env i attempt Probing (\<lambda>_. Inr False) (probed ops env p) s) Inr"

subsection \<open>Normalisation and finalisation\<close>

definition normalized_media_kind ::
  "('v, 'tz) inbox_ops \<Rightarrow> ingest \<Rightarrow> inbox_repository_error + source_media_kind option" where
  "normalized_media_kind ops request =
     map_ok (\<lambda>data. map_option no_media_kind (id_normalization data)) (stage_data ops request)"

definition normalized ::
  "('v, 'tz) inbox_ops \<Rightarrow> store_env \<Rightarrow> asset_normalization \<Rightarrow> ingest \<Rightarrow> 'v store \<Rightarrow> ('v, ingest) inbox_tx" where
  "normalized ops env normalization request s =
     rbind (with_stage_data ops (\<lambda>data. data\<lparr>id_normalization := Some normalization\<rparr>) request) (\<lambda>request.
     rbind (normalized_media_kind ops request) (\<lambda>kind.
     let is_video = (kind = Some SourceVideo) in
     rbind (follow [if is_video then Fingerprinting else Storing] request) (\<lambda>request.
     let request = cleared (utc env) request;
         s = update_ingest_state request s in
       map_ok (\<lambda>s. (s, request))
         (if is_video then insert_fingerprint_job ops env request s else insert_finalize_job ops env request s))))"

definition complete_asset_normalization ::
  "('v, 'tz) inbox_ops \<Rightarrow> store_env \<Rightarrow> uuid \<Rightarrow> job_lease \<Rightarrow> asset_normalization \<Rightarrow> 'v store \<Rightarrow>
   'v store \<times> (inbox_repository_error + ingest)" where
  "complete_asset_normalization ops env i attempt normalization s =
     in_transaction s
       (complete_stage ops env i attempt Normalizing
          (\<lambda>request. map_ok (\<lambda>data. id_normalization data \<noteq> None \<and> \<not> ing_force_save request) (stage_data ops request))
          (normalized ops env normalization) s) Inr"

definition finalized ::
  "('v, 'tz) inbox_ops \<Rightarrow> store_env \<Rightarrow> ingest_finalization \<Rightarrow> ingest \<Rightarrow> 'v store \<Rightarrow> ('v, ingest) inbox_tx" where
  "finalized ops env finalization request s =
     rbind (normalized_media_kind ops request) (\<lambda>kind.
       if kind = Some SourceVideo then Inl VideoFinalizationNotAllowed
       else rbind (with_stage_data ops (\<lambda>data. data\<lparr>id_finalization := Some finalization\<rparr>)
                     (request\<lparr>ing_media_id := Some (fi_media_id finalization)\<rparr>)) (\<lambda>request.
            advance_after_media_processing ops env
              (request\<lparr>ing_error_code := None, ing_error_message := None, ing_updated_at := utc env\<rparr>)
              (fi_media_id finalization) s))"

definition complete_ingest_finalization ::
  "('v, 'tz) inbox_ops \<Rightarrow> store_env \<Rightarrow> uuid \<Rightarrow> job_lease \<Rightarrow> ingest_finalization \<Rightarrow> 'v store \<Rightarrow>
   'v store \<times> (inbox_repository_error + ingest)" where
  "complete_ingest_finalization ops env i attempt finalization s =
     in_transaction s
       (complete_stage ops env i attempt Storing
          (\<lambda>request. map_ok (\<lambda>data. id_finalization data \<noteq> None) (stage_data ops request))
          (finalized ops env finalization) s) Inr"

subsection \<open>Video identity\<close>

datatype video_identity_start =
    IdentityAlreadyAdvanced ingest
  | IdentityReady ingest video_identity_preparation

definition begin_video_identity ::
  "('v, 'tz) inbox_ops \<Rightarrow> store_env \<Rightarrow> uuid \<Rightarrow> job_lease \<Rightarrow> media_ingest \<Rightarrow> video_fingerprint_input option \<Rightarrow> 'v store \<Rightarrow>
   inbox_repository_error + video_identity_start" where
  "begin_video_identity ops env i attempt ingest fingerprint s =
     rbind (load_request ops i s) (\<lambda>request.
       if ing_status request \<noteq> Fingerprinting \<or> \<not> holds_attempt env attempt s
       then Inr (IdentityAlreadyAdvanced request)
       else map_ok (IdentityReady request)
              (map_err InboxLibrary
                (prepare_video_identity (io_store ops) ingest fingerprint (ing_force_save request) s)))"

definition identified ::
  "('v, 'tz) inbox_ops \<Rightarrow> store_env \<Rightarrow> media_ingest \<Rightarrow> video_fingerprint_input option \<Rightarrow> video_identity_decision \<Rightarrow>
   ingest \<Rightarrow> 'v store \<Rightarrow> ('v, ingest) inbox_tx" where
  "identified ops env ingest fingerprint decision request s =
     rbind (map_err InboxLibrary
              (persist_video_identity (io_store ops) env ingest fingerprint decision (ing_force_save request) s))
       (\<lambda>(s, outcome).
     rbind (case outcome of
              DuplicatePendingOutcome evidence \<Rightarrow>
                if length (vde_matches evidence) > MAX_VIDEO_DUPLICATE_MATCHES
                then Inl (DuplicateEvidenceTooManyMatches MAX_VIDEO_DUPLICATE_MATCHES)
                else let v = so_evidence_json (io_store ops) evidence in
                  if so_json_length (io_store ops) v > MAX_VIDEO_DUPLICATE_EVIDENCE_BYTES
                  then Inl (DuplicateEvidenceTooLarge MAX_VIDEO_DUPLICATE_EVIDENCE_BYTES)
                  else rbind (follow [DuplicatePending] request) (\<lambda>request.
                    map_ok (\<lambda>s. (s, cleared (utc env)
                        (request\<lparr>ing_media_id := None, ing_duplicate_evidence := Some v\<rparr>)))
                      (ingest_cleanup ops env request (utc env + WORKSPACE_CLEANUP_RETENTION) s))
            | ExactDuplicate media_id \<Rightarrow>
                advance_after_media_processing ops env (request\<lparr>ing_duplicate_evidence := None\<rparr>) media_id s
            | NewMedia media_id \<Rightarrow>
                advance_after_media_processing ops env (request\<lparr>ing_duplicate_evidence := None\<rparr>) media_id s)
       (\<lambda>(s, request).
     let request = request\<lparr>ing_updated_at := utc env\<rparr> in
       Inr (update_ingest_state request s, request)))"

definition complete_video_identity ::
  "('v, 'tz) inbox_ops \<Rightarrow> store_env \<Rightarrow> uuid \<Rightarrow> job_lease \<Rightarrow> media_ingest \<Rightarrow> video_fingerprint_input option \<Rightarrow>
   video_identity_decision \<Rightarrow> 'v store \<Rightarrow> 'v store \<times> (inbox_repository_error + ingest)" where
  "complete_video_identity ops env i attempt ingest fingerprint decision s =
     in_transaction s
       (complete_stage ops env i attempt Fingerprinting (\<lambda>_. Inr False)
          (identified ops env ingest fingerprint decision) s) Inr"

section \<open>Failing a stage\<close>

record ingest_failure_guard =
  fg_ignore_completed_download :: bool
  fg_attempt :: "job_lease option"
  fg_expected_status :: "ingest_status option"

definition fail_ingest_step_tx ::
  "('v, 'tz) inbox_ops \<Rightarrow> store_env \<Rightarrow> uuid \<Rightarrow> ingest_status \<Rightarrow> ustring \<Rightarrow> ustring \<Rightarrow> ingest_failure_guard \<Rightarrow>
   'v store \<Rightarrow> ('v, ingest) inbox_tx" where
  "fail_ingest_step_tx ops env i status code message guard s =
     (if status \<notin> {FailedRetryable, FailedTerminal} then Inl (InvalidFailureStatus status)
      else rbind (load_request ops i s) (\<lambda>request.
           rbind (if fg_ignore_completed_download guard
                  then map_ok (\<lambda>data. id_download data \<noteq> None) (stage_data ops request) else Inr False) (\<lambda>downloaded.
             if downloaded \<or>
                (case fg_expected_status guard of None \<Rightarrow> False | Some expected \<Rightarrow> ing_status request \<noteq> expected) \<or>
                (case fg_attempt guard of None \<Rightarrow> False | Some attempt \<Rightarrow> \<not> holds_attempt env attempt s) \<or>
                ingest_is_terminal (ing_status request)
             then Inr (s, request)
             else rbind (follow [status] request) (\<lambda>request.
               let request = request\<lparr>ing_error_code := Some code, ing_error_message := Some message,
                     ing_completed_at := (if status = FailedTerminal then Some (utc env) else None),
                     ing_updated_at := utc env\<rparr>;
                   s = update_ingest_state request s in
               map_ok (\<lambda>s. (s, request))
                 (if status = FailedTerminal
                  then ingest_cleanup ops env request (utc env + WORKSPACE_CLEANUP_RETENTION) s else Inr s)))))"

definition fail_ingest_step ::
  "('v, 'tz) inbox_ops \<Rightarrow> store_env \<Rightarrow> uuid \<Rightarrow> ingest_status \<Rightarrow> ustring \<Rightarrow> ustring \<Rightarrow> ingest_failure_guard \<Rightarrow>
   'v store \<Rightarrow> 'v store \<times> (inbox_repository_error + ingest)" where
  "fail_ingest_step ops env i status code message guard s =
     in_transaction s (fail_ingest_step_tx ops env i status code message guard s) Inr"

text \<open>The guard each stage uses: its lease and its state; only the download ignores a finished download.\<close>

definition stage_guard :: "job_lease \<Rightarrow> ingest_status \<Rightarrow> bool \<Rightarrow> ingest_failure_guard" where
  "stage_guard attempt expected ignore_download =
     \<lparr>fg_ignore_completed_download = ignore_download, fg_attempt = Some attempt, fg_expected_status = Some expected\<rparr>"

definition fail_source_inspection where
  "fail_source_inspection ops env i attempt status code message s =
     fail_ingest_step ops env i status code message (stage_guard attempt IngestQueued False) s"

definition fail_source_download where
  "fail_source_download ops env i attempt status code message s =
     fail_ingest_step ops env i status code message (stage_guard attempt Downloading True) s"

definition fail_asset_probe where
  "fail_asset_probe ops env i attempt status code message s =
     fail_ingest_step ops env i status code message (stage_guard attempt Probing False) s"

definition fail_asset_normalization where
  "fail_asset_normalization ops env i attempt status code message s =
     fail_ingest_step ops env i status code message (stage_guard attempt Normalizing False) s"

definition fail_ingest_fingerprint where
  "fail_ingest_fingerprint ops env i attempt status code message s =
     fail_ingest_step ops env i status code message (stage_guard attempt Fingerprinting False) s"

definition fail_ingest_finalization where
  "fail_ingest_finalization ops env i attempt status code message s =
     fail_ingest_step ops env i status code message (stage_guard attempt Storing False) s"

end
