(* ===== verification/Media_Lifecycle.thy ===== *)
theory Media_Lifecycle
  imports Storage_Uploads
begin

text \<open>
  The life cycle of a media row. \<open>media_inv\<close> is what the schema checks of a row together with the
  meaning of its reservation, \<open>media_transition\<close> how a row may move: generations only grow, a
  reservation is never replaced, a row becomes \<open>ready\<close> only out of a reservation or out of
  \<open>storage_unknown\<close>. The table \<open>media\<close> is a \<open>checked_table\<close> for it; every operation of the
  repository moves the table along these steps and keeps the SHA-256 of its rows distinct.
\<close>

section \<open>The contract\<close>

definition media_inv :: "media_row \<Rightarrow> bool" where
  "media_inv m \<longleftrightarrow>
     media_check m \<and> (mw_storage_token m \<noteq> None \<longrightarrow> mw_storage_state m = lit ''pending_storage'') \<and>
     (mw_storage_token m = None \<longleftrightarrow> mw_storage_started_at m = None)"

definition media_transition :: "media_row \<Rightarrow> media_row \<Rightarrow> bool" where
  "media_transition m m' \<longleftrightarrow>
     mw_id m' = mw_id m \<and> mw_created_at m' = mw_created_at m \<and> (media_inv m \<longrightarrow> media_inv m') \<and>
     mw_storage_generation m \<le> mw_storage_generation m' \<and>
     mw_caption_sync_generation m \<le> mw_caption_sync_generation m' \<and>
     (mw_storage_generation m' \<noteq> mw_storage_generation m \<longrightarrow>
        mw_storage_token m = None \<and> mw_storage_state m' = lit ''pending_storage'') \<and>
     (mw_storage_token m \<noteq> None \<and> mw_storage_token m' \<noteq> None \<longrightarrow> mw_storage_token m' = mw_storage_token m) \<and>
     (mw_storage_state m' = lit ''ready'' \<and> mw_storage_state m \<noteq> lit ''ready'' \<longrightarrow>
        mw_storage_token m \<noteq> None \<or> mw_storage_state m = lit ''storage_unknown'') \<and>
     (mw_storage_state m = lit ''ready'' \<and> mw_storage_state m' \<noteq> lit ''ready'' \<longrightarrow>
        mw_storage_state m' = lit ''storage_unknown'' \<or> mw_storage_generation m < mw_storage_generation m') \<and>
     (mw_caption_sync_state m = lit ''syncing'' \<and> mw_caption_sync_state m' = lit ''syncing'' \<longrightarrow>
        mw_caption_sync_claim_token m' = mw_caption_sync_claim_token m \<and>
        mw_caption_sync_generation m' = mw_caption_sync_generation m)"

interpretation media: checked_table mw_id media_inv media_transition
  by unfold_locales (simp_all add: media_transition_def)

definition sha_unique :: "media_row list \<Rightarrow> bool" where
  "sha_unique t \<longleftrightarrow>
     (\<forall>m\<in>set t. \<forall>n\<in>set t. mw_canonical_sha256 m \<noteq> None \<and> mw_canonical_sha256 n = mw_canonical_sha256 m \<longrightarrow>
        mw_id n = mw_id m)"

definition media_ok :: "'v store \<Rightarrow> bool" where
  "media_ok s \<longleftrightarrow> table_ok mw_id media_inv (st_media s) \<and> sha_unique (st_media s)"

abbreviation media_steps :: "media_row list \<Rightarrow> media_row list \<Rightarrow> bool" where
  "media_steps \<equiv> (table_step mw_id media_inv media_transition)\<^sup>*\<^sup>*"

definition media_move :: "'v store \<Rightarrow> 'v store \<Rightarrow> bool" where
  "media_move s s' \<longleftrightarrow> media_ok s' \<and> media_steps (st_media s) (st_media s')"


section \<open>Moves of the store\<close>

lemma media_move_ok: "media_move s s' \<Longrightarrow> media_ok s'"
  by (simp add: media_move_def)

lemma media_move_trans: "media_move s s' \<Longrightarrow> media_move s' s'' \<Longrightarrow> media_move s s''"
  unfolding media_move_def by (auto intro: rtranclp_trans)

lemma media_move_same: "media_ok s \<Longrightarrow> st_media s' = st_media s \<Longrightarrow> media_move s s'"
  by (simp add: media_move_def media_ok_def)

lemma media_move_refl [simp]: "media_ok s \<Longrightarrow> media_move s s"
  by (simp add: media_move_same)

lemma on_jobs_media: "on_jobs f e s = Inr s' \<Longrightarrow> st_media s' = st_media s"
  by (auto simp: on_jobs_def result_simps)

lemma update_ingests_media [simp]: "st_media (update_ingests P f s) = st_media s"
  by (simp add: update_ingests_def)

lemma update_media_rows_Inr:
  "update_media_rows P f e s = Inr (s', rows) \<longleftrightarrow>
     s' = s\<lparr>st_media := update_where P f (st_media s)\<rparr> \<and> rows = returning P f (st_media s) \<and>
     list_all media_check (returning P f (st_media s))"
  by (auto simp: update_media_rows_def Let_def)

lemma sha_unique_update:
  assumes "sha_unique t" and "\<And>m. mw_id (f m) = mw_id m \<and> mw_canonical_sha256 (f m) = mw_canonical_sha256 m"
  shows "sha_unique (update_where P f t)"
proof -
  have g: "\<exists>n\<in>set t. mw_id m = mw_id n \<and> mw_canonical_sha256 m = mw_canonical_sha256 n"
    if "m \<in> set (update_where P f t)" for m
  proof -
    from that obtain n where "n \<in> set t" "m = (if P n then f n else n)"
      by (auto simp: update_where_def elim: imageE)
    with assms(2) [of n] show ?thesis by (intro bexI [of _ n]) simp_all
  qed
  show ?thesis unfolding sha_unique_def
  proof (intro ballI impI)
    fix m n
    assume "m \<in> set (update_where P f t)" "n \<in> set (update_where P f t)"
      and eq: "mw_canonical_sha256 m \<noteq> None \<and> mw_canonical_sha256 n = mw_canonical_sha256 m"
    then obtain m' n' where "m' \<in> set t" "n' \<in> set t" and ids: "mw_id m = mw_id m'" "mw_id n = mw_id n'"
      and shas: "mw_canonical_sha256 m = mw_canonical_sha256 m'" "mw_canonical_sha256 n = mw_canonical_sha256 n'"
      using g by metis
    then have "mw_id n' = mw_id m'" using assms(1) eq by (simp only: sha_unique_def) metis
    then show "mw_id n = mw_id m" by (simp only: ids)
  qed
qed

lemma media_steps_update:
  assumes "update_media_rows P f e s = Inr (s', rows)" and "media_ok s"
    and "\<And>m. m \<in> set (st_media s) \<Longrightarrow> P m \<Longrightarrow> media_inv m \<Longrightarrow> media_check (f m) \<Longrightarrow> media_transition m (f m)"
  shows "table_step mw_id media_inv media_transition (st_media s) (st_media s')"
proof -
  have "st_media s' = update_where P f (st_media s)" and
    c: "\<And>m. m \<in> set (st_media s) \<Longrightarrow> P m \<Longrightarrow> media_check (f m)"
    using assms(1) by (auto simp: update_media_rows_Inr returning_def list_all_iff)
  moreover have "\<And>m. m \<in> set (st_media s) \<Longrightarrow> media_inv m"
    using assms(2) by (auto simp: media_ok_def intro: table_ok_check)
  ultimately show ?thesis using assms(3) by (auto intro: table_step_update_where)
qed

lemma update_media_rows_move:
  assumes "update_media_rows P f e s = Inr (s', rows)" and "media_ok s"
    and "\<And>m. m \<in> set (st_media s) \<Longrightarrow> P m \<Longrightarrow> media_inv m \<Longrightarrow> media_check (f m) \<Longrightarrow> media_transition m (f m)"
    and "\<And>m. mw_id (f m) = mw_id m \<and> mw_canonical_sha256 (f m) = mw_canonical_sha256 m"
  shows "media_move s s'"
proof -
  have "table_step mw_id media_inv media_transition (st_media s) (st_media s')"
    by (rule media_steps_update [OF assms(1,2,3)])
  moreover from this have "table_ok mw_id media_inv (st_media s')"
    using assms(2) by (auto simp: media_ok_def intro: media.table_step_ok)
  moreover have "sha_unique (st_media s')"
    using assms(1,2,4) by (auto simp: update_media_rows_Inr media_ok_def intro: sha_unique_update)
  ultimately show ?thesis by (auto simp: media_move_def media_ok_def)
qed

section \<open>Transitions of a row\<close>

lemmas media_row_defs =
  attached_media_def unknown_media_def reserved_media_def renewed_media_def released_media_def
  reset_media_def with_caption_values_def syncing_caption_def reopened_caption_def
  completed_caption_def retried_caption_def updated_media_def merged_media_def

lemma row_defs_id [simp]:
  "mw_id (attached_media env a m) = mw_id m" "mw_id (unknown_media env m) = mw_id m"
  "mw_id (reserved_media env m) = mw_id m" "mw_id (renewed_media env m) = mw_id m"
  "mw_id (released_media env m) = mw_id m" "mw_id (reset_media env g m) = mw_id m"
  "mw_id (with_caption_values env v m) = mw_id m" "mw_id (syncing_caption env t m) = mw_id m"
  "mw_id (reopened_caption env m) = mw_id m" "mw_id (completed_caption env c err m) = mw_id m"
  "mw_id (retried_caption env g m) = mw_id m" "mw_id (updated_media env d ts v m) = mw_id m"
  "mw_id (merged_media env i ts sv v m) = mw_id m"
  by (simp_all add: media_row_defs split: prod.split)

lemma row_defs_sha [simp]:
  "mw_canonical_sha256 (attached_media env a m) = mw_canonical_sha256 m"
  "mw_canonical_sha256 (unknown_media env m) = mw_canonical_sha256 m"
  "mw_canonical_sha256 (reserved_media env m) = mw_canonical_sha256 m"
  "mw_canonical_sha256 (renewed_media env m) = mw_canonical_sha256 m"
  "mw_canonical_sha256 (released_media env m) = mw_canonical_sha256 m"
  "mw_canonical_sha256 (reset_media env g m) = mw_canonical_sha256 m"
  "mw_canonical_sha256 (with_caption_values env v m) = mw_canonical_sha256 m"
  "mw_canonical_sha256 (syncing_caption env t m) = mw_canonical_sha256 m"
  "mw_canonical_sha256 (reopened_caption env m) = mw_canonical_sha256 m"
  "mw_canonical_sha256 (completed_caption env c err m) = mw_canonical_sha256 m"
  "mw_canonical_sha256 (retried_caption env g m) = mw_canonical_sha256 m"
  "mw_canonical_sha256 (updated_media env d ts v m) = mw_canonical_sha256 m"
  "mw_canonical_sha256 (merged_media env i ts sv v m) = mw_canonical_sha256 m"
  by (simp_all add: media_row_defs split: prod.split)

named_theorems media_transitions

lemma unknown_transition [media_transitions]:
  "media_check (unknown_media env m) \<Longrightarrow> media_transition m (unknown_media env m)"
  by (simp add: media_transition_def media_inv_def unknown_media_def)

lemma attached_transition [media_transitions]:
  "media_check (attached_media env a m) \<Longrightarrow> mw_storage_token m \<noteq> None \<or> mw_storage_state m = lit ''storage_unknown'' \<Longrightarrow>
     media_transition m (attached_media env a m)"
  by (auto simp: media_transition_def media_inv_def attached_media_def)

lemma reserved_transition [media_transitions]:
  "media_check (reserved_media env m) \<Longrightarrow> mw_storage_token m = None \<Longrightarrow> mw_storage_state m = lit ''pending_storage'' \<Longrightarrow>
     media_transition m (reserved_media env m)"
  by (simp add: media_transition_def media_inv_def reserved_media_def)

lemma renewed_transition [media_transitions]:
  "media_check (renewed_media env m) \<Longrightarrow> mw_storage_token m \<noteq> None \<Longrightarrow> media_transition m (renewed_media env m)"
  by (auto simp: media_transition_def media_inv_def renewed_media_def)

lemma released_transition [media_transitions]:
  "media_check (released_media env m) \<Longrightarrow> media_inv m \<Longrightarrow> mw_storage_token m \<noteq> None \<Longrightarrow>
     media_transition m (released_media env m)"
  by (auto simp: media_transition_def media_inv_def released_media_def)

lemma reset_transition [media_transitions]:
  "media_check (reset_media env g m) \<Longrightarrow> mw_storage_token m = None \<Longrightarrow> mw_storage_generation m < g \<Longrightarrow>
     media_transition m (reset_media env g m)"
  by (auto simp: media_transition_def media_inv_def reset_media_def)

lemma syncing_transition [media_transitions]:
  "media_check (syncing_caption env t m) \<Longrightarrow> mw_caption_sync_state m = lit ''pending'' \<Longrightarrow>
     media_transition m (syncing_caption env t m)"
  by (auto simp: media_transition_def media_inv_def syncing_caption_def)

lemma completed_caption_transition [media_transitions]:
  "media_check (completed_caption env c err m) \<Longrightarrow> c \<noteq> lit ''syncing'' \<Longrightarrow>
     media_transition m (completed_caption env c err m)"
  by (auto simp: media_transition_def media_inv_def completed_caption_def)

lemma reopened_caption_transition [media_transitions]:
  "media_check (reopened_caption env m) \<Longrightarrow> media_transition m (reopened_caption env m)"
  by (auto simp: media_transition_def media_inv_def reopened_caption_def)

text \<open>Caption values that may follow those of a row: the same, or of the next generation.\<close>

definition caption_follows :: "media_row \<Rightarrow> caption_sync_values \<Rightarrow> bool" where
  "caption_follows m values \<longleftrightarrow>
     mw_caption_sync_generation m \<le> fst values \<and>
     (fst (snd values) = lit ''syncing'' \<longrightarrow>
        values = (mw_caption_sync_generation m, mw_caption_sync_state m, mw_caption_sync_error m,
                  mw_caption_sync_claim_token m))"

lemma next_caption_follows: "next_caption_sync_values m changed = Inr v \<Longrightarrow> caption_follows m v"
  by (auto simp: next_caption_sync_values_def caption_follows_def split: if_splits)

lemma upload_caption_follows:
  "caption_sync_values_after_storage_upload m metadata = Inr v \<Longrightarrow> caption_follows m v"
  by (auto simp: caption_sync_values_after_storage_upload_def caption_follows_def dest: next_caption_follows
      split: if_splits option.splits)

lemma with_caption_transition:
  "media_check (with_caption_values env v m') \<Longrightarrow> caption_follows m v \<Longrightarrow>
     mw_id m' = mw_id m \<Longrightarrow> mw_created_at m' = mw_created_at m \<Longrightarrow> mw_storage_state m' = mw_storage_state m \<Longrightarrow>
     mw_storage_token m' = mw_storage_token m \<Longrightarrow> mw_storage_started_at m' = mw_storage_started_at m \<Longrightarrow>
     mw_storage_generation m' = mw_storage_generation m \<Longrightarrow> media_transition m (with_caption_values env v m')"
  by (cases v) (auto simp: media_transition_def media_inv_def with_caption_values_def caption_follows_def)

lemma caption_values_transition [media_transitions]:
  "media_check (with_caption_values env v m) \<Longrightarrow> caption_follows m v \<Longrightarrow> media_transition m (with_caption_values env v m)"
  by (rule with_caption_transition) simp_all

lemma retried_transition [media_transitions]:
  "media_check (retried_caption env g m) \<Longrightarrow> mw_caption_sync_generation m \<le> g \<Longrightarrow>
     media_transition m (retried_caption env g m)"
  unfolding retried_caption_def by (rule caption_values_transition) (simp_all add: caption_follows_def)

lemma updated_transition [media_transitions]:
  "media_check (updated_media env d ts v m) \<Longrightarrow> caption_follows m v \<Longrightarrow> media_transition m (updated_media env d ts v m)"
  unfolding updated_media_def by (rule with_caption_transition) simp_all

lemma merged_transition [media_transitions]:
  "media_check (merged_media env i ts sv v m) \<Longrightarrow> caption_follows m v \<Longrightarrow> media_transition m (merged_media env i ts sv v m)"
  unfolding merged_media_def by (rule with_caption_transition) simp_all


section \<open>Operations\<close>

lemma lock_media_row_Inr:
  assumes "lock_media_row i s = Inr m"
  shows "m \<in> set (st_media s)" "mw_id m = i"
  using assms select_one_Some
  by (fastforce simp: lock_media_row_def fetch_media_row_def select_media_def result_simps)+

lemma media_row_key: "media_ok s \<Longrightarrow> m \<in> set (st_media s) \<Longrightarrow> n \<in> set (st_media s) \<Longrightarrow> mw_id n = mw_id m \<Longrightarrow> n = m"
  by (auto simp: media_ok_def intro: table_ok_key)

lemma media_row_inv: "media_ok s \<Longrightarrow> m \<in> set (st_media s) \<Longrightarrow> media_inv m"
  by (auto simp: media_ok_def intro: table_ok_check)

text \<open>An update of the locked row: the new row may depend on what was read.\<close>

lemma locked_update_move:
  assumes "media_ok s" and "m \<in> set (st_media s)"
    and "update_media_rows P f e s = Inr (s', rows)" and "\<And>n. P n \<Longrightarrow> mw_id n = mw_id m"
    and "P m \<Longrightarrow> media_check (f m) \<Longrightarrow> media_transition m (f m)"
    and "\<And>n. mw_id (f n) = mw_id n \<and> mw_canonical_sha256 (f n) = mw_canonical_sha256 n"
  shows "media_move s s'"
proof (rule update_media_rows_move [OF assms(3,1) _ assms(6)])
  fix n
  assume n: "n \<in> set (st_media s)" "P n" "media_check (f n)"
  with media_row_key [OF assms(1,2)] assms(4) have "n = m" by blast
  with n assms(5) show "media_transition n (f n)" by simp
qed

lemma enqueue_caption_media: "enqueue_caption_sync_job ops env i g s = Inr s' \<Longrightarrow> st_media s' = st_media s"
  by (auto simp: enqueue_caption_sync_job_def enqueue_caption_sync_job_with_key_def dest: on_jobs_media)

lemma enqueue_reapply_media:
  "enqueue_caption_sync_reapply_job ops env i g sg t s = Inr s' \<Longrightarrow> st_media s' = st_media s"
  by (auto simp: enqueue_caption_sync_reapply_job_def enqueue_caption_sync_job_with_key_def dest: on_jobs_media)

lemma media_move_then: "media_move s s' \<Longrightarrow> st_media s'' = st_media s' \<Longrightarrow> media_move s s''"
  by (simp add: media_move_def media_ok_def)



text \<open>The steps after the update of the locked row leave the table \<open>media\<close> alone.\<close>

lemma locked_move_then:
  assumes "lock_media_row i s = Inr m" and "media_ok s"
    and "update_media_rows P f e s = Inr (s', rows)"
    and "\<And>n. P n \<Longrightarrow> mw_id n = i"
    and "P m \<Longrightarrow> media_check (f m) \<Longrightarrow> media_transition m (f m)"
    and "\<And>n. mw_id (f n) = mw_id n \<and> mw_canonical_sha256 (f n) = mw_canonical_sha256 n"
    and "st_media s'' = st_media s'"
  shows "media_move s s''"
  using media_move_then [OF locked_update_move [OF assms(2) _ assms(3)] assms(7)]
    lock_media_row_Inr [OF assms(1)] assms(4,5,6) by blast

lemma retry_caption_sync_move: "media_ok s \<Longrightarrow> media_move s (fst (retry_caption_sync ops env i s))"
  unfolding retry_caption_sync_def
  by (rule in_transaction_ensures, simp, intro tx_rules)
     (auto elim!: locked_move_then intro: media_transitions dest: enqueue_caption_media)

lemma begin_caption_sync_move: "media_ok s \<Longrightarrow> media_move s (fst (begin_caption_sync env i g t s))"
  unfolding begin_caption_sync_def
  by (rule in_transaction_ensures, simp, intro tx_rules)
     (auto elim!: locked_move_then intro: media_transitions)

lemma complete_caption_sync_move:
  "media_ok s \<Longrightarrow> media_move s (fst (complete_caption_sync ops env i g t ok r err s))"
  unfolding complete_caption_sync_def
  by (rule in_transaction_ensures, simp, intro tx_rules)
     (auto simp: Let_def elim!: locked_move_then intro!: tx_rules intro: media_transitions dest: enqueue_reapply_media)

lemma update_media_move: "media_ok s \<Longrightarrow> media_move s (fst (update_media ops env i u s))"
  unfolding update_media_def
  by (rule in_transaction_ensures, simp, intro tx_rules)
     (auto elim!: locked_move_then intro: media_transitions next_caption_follows dest: enqueue_caption_media split: if_splits)


lemma fetch_media_row_Inr: "fetch_media_row m = Inr n \<Longrightarrow> n = m"
  by (simp add: fetch_media_row_def result_simps)

lemma media_with_sha_Some: "media_with_sha h s = Some m \<Longrightarrow> m \<in> set (st_media s) \<and> mw_canonical_sha256 m = Some h"
  unfolding media_with_sha_def by (rule select_one_Some)

lemma merge_into_media_move:
  assumes "media_ok s" and "m \<in> set (st_media s)" and "merge_into_media ops env i ts sv m s = Inr (s', row)"
  shows "media_move s s'"
proof -
  obtain vs s1 rows where v: "next_caption_sync_values m (merge_changes_caption i ts m) = Inr vs"
    and u: "update_media_rows (\<lambda>r. mw_id r = mw_id m) (merged_media (se_db env) i ts sv vs) LibraryDatabase s
          = Inr (s1, rows)" and same: "st_media s' = st_media s1"
    using assms(3) by (auto simp: merge_into_media_def Let_def result_simps dest: enqueue_caption_media split: if_splits)
  have "media_move s s1"
    by (rule locked_update_move [OF assms(1,2) u]) (auto intro: media_transitions next_caption_follows [OF v])
  with same show ?thesis by (rule media_move_then [rotated])
qed

lemma sha_unique_append:
  "sha_unique t \<Longrightarrow> \<not> list_ex (\<lambda>m. mw_canonical_sha256 m = mw_canonical_sha256 row) t \<Longrightarrow> sha_unique (t @ [row])"
  unfolding sha_unique_def list_ex_iff by (metis Un_iff empty_iff insert_iff list.set set_append)

lemma insert_media_move:
  assumes "media_ok s" and "mw_storage_token row = None" and "mw_storage_started_at row = None"
    and "insert_media row s = Inr (s', r)"
  shows "media_move s s'"
proof -
  consider "s' = s" | "\<not> list_ex (\<lambda>m. mw_canonical_sha256 m = mw_canonical_sha256 row) (st_media s)"
      "mw_id row \<notin> mw_id ` set (st_media s)" "media_check row" "s' = s\<lparr>st_media := st_media s @ [row]\<rparr>"
    using assms(4) by (fastforce simp: insert_media_def list_ex_iff split: if_splits)
  then show ?thesis
  proof cases
    case 2
    have inv: "media_inv row" using assms(2,3) 2(3) by (simp add: media_inv_def)
    then have step: "table_step mw_id media_inv media_transition (st_media s) (st_media s')"
      unfolding 2(4) using 2(2) by (simp add: row_insert)
    then have "table_ok mw_id media_inv (st_media s')"
      using assms(1) by (auto simp: media_ok_def intro: media.table_step_ok)
    with step show ?thesis
      using assms(1) 2(1,4) by (auto simp: media_move_def media_ok_def intro: sha_unique_append)
  qed (simp add: assms(1))
qed

lemma new_media_row_unreserved [simp]:
  "mw_storage_token (new_media_row env i h f ts sv n p) = None"
  "mw_storage_started_at (new_media_row env i h f ts sv n p) = None"
  by (simp_all add: new_media_row_def Let_def)

lemma insert_identified_video_move:
  "media_ok s \<Longrightarrow> tx_ensures (\<lambda>s' _. media_move s s') (insert_identified_video ops env i h f ts sv s)"
  unfolding insert_identified_video_def
  by (intro tx_rules) (auto split: option.split intro!: tx_rules intro: insert_media_move [OF _ new_media_row_unreserved])

lemma persist_video_identity_move:
  "media_ok s \<Longrightarrow> tx_ensures (\<lambda>s' _. media_move s s') (persist_video_identity ops env i f d force s)"
  unfolding persist_video_identity_def
  by (intro tx_rules)
     (auto simp: insert_identified_video_move split: video_identity_decision.split intro!: tx_rules
       intro: merge_into_media_move dest!: fetch_media_row_Inr media_with_sha_Some)

lemma insert_media_None: "insert_media row s = Inr (s', None) \<Longrightarrow> s' = s"
  by (simp add: insert_media_def split: if_splits)

lemma fetched_by_sha: "rbind (ok_or (media_with_sha h s) e) fetch_media_row = Inr m \<Longrightarrow> m \<in> set (st_media s)"
  by (auto simp: result_simps dest!: media_with_sha_Some fetch_media_row_Inr)

lemma resolve_media_move: "media_ok s \<Longrightarrow> media_move s (fst (resolve_media ops env i s))"
  unfolding resolve_media_def
  by (rule in_transaction_ensures, simp, intro tx_rules)
     (auto split: option.split intro!: tx_rules
       intro: insert_media_move [OF _ new_media_row_unreserved] merge_into_media_move
       dest!: insert_media_None fetched_by_sha)

lemma record_fingerprint_move:
  "media_ok s \<Longrightarrow> media_move s (fst (record_video_sequence_fingerprint env i f s))"
  unfolding record_video_sequence_fingerprint_def
  by (rule in_transaction_ensures, simp, intro tx_rules)
     (auto elim!: update_media_rows_move simp: media_transition_def media_inv_def)


lemma sha_unique_record:
  assumes "media_ok s" and "\<not> sha_taken i h s \<or> select_media i s = None"
    and "\<And>m. mw_id (f m) = mw_id m \<and> mw_canonical_sha256 (f m) = h"
  shows "sha_unique (update_where (\<lambda>m. mw_id m = i) f (st_media s))"
proof -
  have none: "mw_canonical_sha256 n \<noteq> h" if "n \<in> set (st_media s)" "mw_id n \<noteq> i" "h \<noteq> None"
    "x \<in> set (st_media s)" "mw_id x = i" for n x
    using that assms(2) by (auto simp: sha_taken_def list_ex_iff select_media_def select_one_None)
  have rows: "\<exists>x\<in>set (st_media s). mw_id m = mw_id x \<and>
      mw_canonical_sha256 m = (if mw_id x = i then h else mw_canonical_sha256 x)"
    if "m \<in> set (update_where (\<lambda>m. mw_id m = i) f (st_media s))" for m
  proof -
    from that obtain x where "x \<in> set (st_media s)" "m = (if mw_id x = i then f x else x)"
      by (auto simp: update_where_def elim: imageE)
    with assms(3) [of x] show ?thesis by (intro bexI [of _ x]) simp_all
  qed
  show ?thesis unfolding sha_unique_def
  proof (intro ballI impI)
    fix m n
    assume "m \<in> set (update_where (\<lambda>m. mw_id m = i) f (st_media s))"
      "n \<in> set (update_where (\<lambda>m. mw_id m = i) f (st_media s))"
      and eq: "mw_canonical_sha256 m \<noteq> None \<and> mw_canonical_sha256 n = mw_canonical_sha256 m"
    with rows obtain x y where x: "x \<in> set (st_media s)" "y \<in> set (st_media s)"
      and ids: "mw_id m = mw_id x" "mw_id n = mw_id y"
      and shas: "mw_canonical_sha256 m = (if mw_id x = i then h else mw_canonical_sha256 x)"
        "mw_canonical_sha256 n = (if mw_id y = i then h else mw_canonical_sha256 y)"
      by blast
    have "mw_id y = mw_id x"
      using assms(1) x none eq shas unfolding media_ok_def sha_unique_def by (metis)
    then show "mw_id n = mw_id m" by (simp only: ids)
  qed
qed

lemma recorded_transition:
  "media_check (recorded_metadata env md n p m) \<Longrightarrow> media_transition m (recorded_metadata env md n p m)"
  by (auto simp: media_transition_def media_inv_def recorded_metadata_def)

lemma recorded_metadata_move:
  assumes u: "update_media_rows (\<lambda>m. mw_id m = i) (recorded_metadata env md n p) e s = Inr (s', rows)"
    and ok: "media_ok s" and free: "\<not> sha_taken i (mm_sha256 md) s \<or> select_media i s = None"
  shows "media_move s s'"
proof -
  have step: "table_step mw_id media_inv media_transition (st_media s) (st_media s')"
    by (rule media_steps_update [OF u ok]) (rule recorded_transition)
  then have "table_ok mw_id media_inv (st_media s')"
    using ok by (auto simp: media_ok_def intro: media.table_step_ok)
  moreover have "sha_unique (st_media s')"
    using u sha_unique_record [OF ok free, of "recorded_metadata env md n p"]
    by (auto simp: update_media_rows_Inr recorded_metadata_def)
  ultimately show ?thesis using step by (auto simp: media_move_def media_ok_def)
qed

lemma record_media_metadata_move: "media_ok s \<Longrightarrow> media_move s (fst (record_media_metadata ops env i md s))"
  unfolding record_media_metadata_def
  by (rule in_transaction_ensures, simp, intro tx_rules) (auto elim!: recorded_metadata_move)

section \<open>Operations on the upload\<close>

lemma owned_token: "owned_upload i t m \<Longrightarrow> mw_storage_token m \<noteq> None" "owned_upload i t m \<Longrightarrow> mw_id m = i"
  by (simp_all add: owned_upload_def)

lemma reserve_storage_upload_move: "media_ok s \<Longrightarrow> media_move s (fst (reserve_storage_upload env rq s))"
  unfolding reserve_storage_upload_def
  by (rule in_transaction_ensures, simp, intro tx_rules)
     (auto elim!: update_media_rows_move intro: media_transitions)

lemma renew_storage_upload_move: "media_ok s \<Longrightarrow> media_move s (fst (renew_storage_upload env i t d s))"
  unfolding renew_storage_upload_def Let_def
  by (rule in_transaction_ensures, simp, intro tx_rules)
     (auto elim!: update_media_rows_move intro: media_transitions)

lemma release_storage_upload_move: "media_ok s \<Longrightarrow> media_move s (fst (release_storage_upload env i t s))"
  unfolding release_storage_upload_def
  by (rule in_transaction_ensures, simp, intro tx_rules)
     (auto elim!: update_media_rows_move intro: media_transitions split: prod.split)

lemma unknown_followup_media [simp]: "st_media (unknown_followup ops env i s) = st_media s"
  by (simp add: unknown_followup_def settle_queued_storage_upload_jobs_def mark_linked_ingests_storage_unknown_def)

lemma mark_owned_upload_unknown_move: "media_ok s \<Longrightarrow> media_move s (fst (mark_owned_upload_unknown ops env i t s))"
  unfolding mark_owned_upload_unknown_def
  by (rule in_transaction_ensures, simp, intro tx_rules)
     (auto elim!: update_media_rows_move media_move_then [OF update_media_rows_move] intro: media_transitions)

lemma mark_storage_upload_unknown_move:
  "media_ok s \<Longrightarrow> media_move s (fst (mark_storage_upload_unknown ops env i force s))"
  unfolding mark_storage_upload_unknown_def
  by (rule in_transaction_ensures, simp, intro tx_rules)
     (auto elim!: locked_move_then intro: media_transitions)

lemma reset_storage_upload_move: "media_ok s \<Longrightarrow> media_move s (fst (reset_storage_upload ops env i s))"
  unfolding reset_storage_upload_def reopen_linked_ingests_for_storage_def
  by (rule in_transaction_ensures, simp, intro tx_rules)
     (auto elim!: locked_move_then intro: media_transitions dest: on_jobs_media)

lemma finish_storage_move:
  assumes "media_ok s" and "m \<in> set (st_media s)" and "mw_id m = i"
  shows "tx_ensures (\<lambda>s' _. media_move s s') (finish_storage ops env i a m s)"
  unfolding finish_storage_def
proof (rule tx_rbind, rule tx_rbind_prod)
  fix vs s1 rows
  assume v: "caption_sync_values_after_storage_upload m (sua_caption_metadata a) = Inr vs"
    and u: "update_media_rows (\<lambda>m. mw_id m = i) (with_caption_values (se_db env) vs) LibraryDatabase s = Inr (s1, rows)"
  have "media_move s s1"
    by (rule locked_update_move [OF assms(1,2) u])
       (auto simp: assms(3) intro: media_transitions upload_caption_follows [OF v])
  then show "tx_ensures (\<lambda>s' _. media_move s s') (rbind (ok_or (fetch_optional rows) LibraryDatabase) (\<lambda>row.
     rbind (if fst (snd vs) = lit ''pending'' then enqueue_caption_sync_job ops env i (fst vs) s1 else Inr s1) (\<lambda>s.
     rbind (complete_linked_ingests_for_storage ops env i LibraryDatabase s) (\<lambda>s.
       map_ok (\<lambda>s. (s, row))
         (enqueue_workspace_cleanup_for_media ops env i (env_utc (se_db env)) LibraryDatabase s)))))"
    by (intro tx_rules)
       (auto simp: complete_linked_ingests_for_storage_def enqueue_workspace_cleanup_for_media_def
         dest!: on_jobs_media enqueue_caption_media elim!: media_move_then split: if_splits)
qed

lemma returned_row:
  assumes "update_media_rows P f e s = Inr (s', rows)" and "fetch_optional rows = Some row"
  shows "row \<in> set (st_media s')" and "\<exists>m\<in>set (st_media s). P m \<and> row = f m"
  using assms(1) fetch_optional_in [OF assms(2)]
  by (auto simp: update_media_rows_Inr returning_def set_update_where)

lemma stored_move:
  assumes "media_ok s" and "update_media_rows P (attached_media env a) e s = Inr (s', rows)"
    and "fetch_optional rows = Some m" and "\<And>n. P n \<Longrightarrow> mw_id n = i"
    and "\<And>n. P n \<Longrightarrow> mw_storage_token n \<noteq> None \<or> mw_storage_state n = lit ''storage_unknown''"
  shows "tx_ensures (\<lambda>s' _. media_move s s') (finish_storage ops senv i a m s')"
proof -
  have move: "media_move s s'"
    by (rule update_media_rows_move [OF assms(2,1)]) (erule attached_transition, erule assms(5), simp)
  have m: "m \<in> set (st_media s')" "mw_id m = i"
    using returned_row [OF assms(2,3)] assms(4) by auto
  show ?thesis
    by (rule tx_ensures_mono [OF finish_storage_move [OF media_move_ok [OF move] m]])
       (rule media_move_trans [OF move])
qed

lemma complete_storage_upload_move: "media_ok s \<Longrightarrow> media_move s (fst (complete_storage_upload ops env i t a s))"
  unfolding complete_storage_upload_def
  by (rule in_transaction_ensures, simp, intro tx_rules)
     (auto simp: result_simps owned_upload_def elim!: stored_move)

lemma attach_storage_upload_move: "media_ok s \<Longrightarrow> media_move s (fst (attach_storage_upload ops env i g a s))"
  unfolding attach_storage_upload_def
  by (rule in_transaction_ensures, simp, intro tx_rules) (auto simp: result_simps elim!: stored_move)

end
