(* ===== verification/Publication_Lifecycle.thy ===== *)
theory Publication_Lifecycle
  imports Publisher_Store
begin

text \<open>
  The life of a post and of its publication job under the operations of \<open>Publisher_Store\<close>. The
  abstract specification is \<open>post_transition\<close>: the moves between post states the repository
  promises, one revision at a time, with the final states \<open>published\<close>, \<open>unknown\<close> and \<open>cancelled\<close>.
  Every operation is shown to refine it, to keep the CHECK constraints of the schema and to keep
  cadence slots exclusive; runs of operations then inherit the facts of \<open>checked_table\<close>.
\<close>

declare rangeE [rule del] imageE [rule del]

section \<open>The specification\<close>

definition post_inv :: "'v post_row \<Rightarrow> bool" where
  "post_inv p \<longleftrightarrow>
     pw_state p \<in> range post_state_as_str \<and> pw_requested_action p \<in> range publication_action_as_str \<and>
     0 \<le> pw_send_generation p \<and> 0 \<le> pw_revision p \<and>
     (pw_state p = lit ''sending'' \<longleftrightarrow> pw_send_token p \<noteq> None) \<and>
     (pw_state p = lit ''sending'' \<longleftrightarrow> pw_send_started_at p \<noteq> None) \<and>
     (\<forall>m. pw_telegram_message_id p = Some m \<longrightarrow> 0 < m) \<and>
     (pw_state p = lit ''published'' \<longrightarrow> pw_telegram_message_id p \<noteq> None \<and> pw_published_at p \<noteq> None) \<and>
     (pw_requested_action p = lit ''post_now'' \<longrightarrow> pw_requested_publish_at p = None)"

text \<open>The moves of a post, as stored states.\<close>

definition post_moves :: "(ustring \<times> ustring) list" where
  "post_moves =
     [(lit ''draft'', lit ''draft''), (lit ''draft'', lit ''queued''), (lit ''draft'', lit ''cancelled''),
      (lit ''queued'', lit ''queued''), (lit ''queued'', lit ''cancelled''), (lit ''queued'', lit ''sending''),
      (lit ''queued'', lit ''failed''), (lit ''failed'', lit ''failed''), (lit ''failed'', lit ''queued''),
      (lit ''failed'', lit ''cancelled''), (lit ''sending'', lit ''published''), (lit ''sending'', lit ''failed''),
      (lit ''sending'', lit ''unknown''), (lit ''sending'', lit ''queued'')]"

text \<open>What identifies a post for good: its key, its request, its origin and its target.\<close>

definition post_identity ::
  "'v post_row \<Rightarrow> uuid \<times> ustring option \<times> u8 list option \<times> uuid option \<times> uuid \<times> uuid" where
  "post_identity p =
     (pw_id p, pw_request_key p, pw_request_hash p, pw_origin_ingest_id p, pw_media_id p, pw_channel_id p)"

text \<open>A repeat waiting for a decision: a draft with repeat evidence that was never scheduled. Only a decision
  or a cancellation ends the wait.\<close>

definition repeat_undecided :: "'v post_row \<Rightarrow> bool" where
  "repeat_undecided p \<longleftrightarrow>
     pw_state p = lit ''draft'' \<and> pw_repeat_evidence p \<noteq> None \<and> pw_schedule_request_key p = None"

definition repeat_ended :: "'v post_row \<Rightarrow> bool" where
  "repeat_ended p \<longleftrightarrow> pw_decision_request_key p \<noteq> None \<or> pw_state p = lit ''cancelled''"

definition post_transition :: "'v post_row \<Rightarrow> 'v post_row \<Rightarrow> bool" where
  "post_transition p q \<longleftrightarrow>
     (pw_state p, pw_state q) \<in> set post_moves \<and> pw_revision q = pw_revision p + 1 \<and>
     pw_id q = pw_id p \<and> pw_media_id q = pw_media_id p \<and> pw_channel_id q = pw_channel_id p \<and>
     pw_origin_ingest_id q = pw_origin_ingest_id p \<and> post_identity q = post_identity p \<and>
     pw_send_generation q = pw_send_generation p + (if pw_state q = lit ''sending'' then 1 else 0) \<and>
     (pw_state q = lit ''sending'' \<longrightarrow> pw_cadence_slot_at q = pw_cadence_slot_at p) \<and>
     (repeat_undecided p \<longrightarrow> repeat_undecided q \<or> repeat_ended q) \<and>
     (pw_decision_request_key p \<noteq> None \<longrightarrow> pw_decision_request_key q \<noteq> None) \<and>
     (post_inv p \<longrightarrow> post_inv q)"

interpretation posts: checked_table pw_id post_inv post_transition
  by unfold_locales (auto simp: post_transition_def)

abbreviation posts_change :: "'v post_row list \<Rightarrow> 'v post_row list \<Rightarrow> bool" where
  "posts_change \<equiv> table_step pw_id post_inv post_transition"

text \<open>The moves of a job row when the publisher changes it: its own requeueing, cancelling and new
  payloads, beside the moves of the queue.\<close>

inductive publish_job_step :: "('v, 'tz) publisher_ops \<Rightarrow> 'v job_row \<Rightarrow> 'v job_row \<Rightarrow> bool" for ops where
  queue_move: "job_step r s \<Longrightarrow> publish_job_step ops r s"
| requeue_move: "jr_state r \<in> {lit ''queued'', lit ''failed''} \<Longrightarrow> jr_kind r = lit ''publish_post'' \<Longrightarrow>
    publish_job_step ops r (requeued_job ops env post_id run_at revision r)"
| payload_move: "jr_state r \<in> {lit ''running'', lit ''failed''} \<Longrightarrow> jr_kind r = lit ''publish_post'' \<Longrightarrow>
    publish_job_step ops r (r\<lparr>jr_payload := publish_value ops post_id revision, jr_updated_at := now\<rparr>)"
| cancel_move: "jr_state r \<in> {lit ''queued'', lit ''failed''} \<Longrightarrow>
    publish_job_step ops r (cancelled_job env r)"

section \<open>Row updates follow the specification\<close>

lemma range_post_state [simp]:
  "lit ''draft'' \<in> range post_state_as_str" "lit ''queued'' \<in> range post_state_as_str"
  "lit ''sending'' \<in> range post_state_as_str" "lit ''published'' \<in> range post_state_as_str"
  "lit ''unknown'' \<in> range post_state_as_str" "lit ''failed'' \<in> range post_state_as_str"
  "lit ''cancelled'' \<in> range post_state_as_str"
  using post_state_as_str.simps by (metis rangeI)+

lemma range_action [simp]:
  "lit ''queue'' \<in> range publication_action_as_str" "lit ''post_now'' \<in> range publication_action_as_str"
  using publication_action_as_str.simps by (metis rangeI)+

lemma row_state_Inr: "row_state p = Inr s \<Longrightarrow> pw_state p = post_state_as_str s"
  by (auto simp: row_state_def result_simps dest: post_state_enum.try_from_Inr)

lemma queue_mutable_state: "is_queue_mutable s \<Longrightarrow> pw_state p = post_state_as_str s \<Longrightarrow> queue_mutable_row p"
  by (cases s) (auto simp: is_queue_mutable_def queue_mutable_row_def)

lemmas post_row_defs =
  edited_row_def scheduled_row_def exact_row_def cancelled_post_def decided_row_def
  decision_cancelled_row_def sending_row_def published_row_def send_ended_row_def send_ended_next_def

lemmas repeat_state_defs = repeat_undecided_def repeat_ended_def

lemma edited_transition: "queue_mutable_row p \<Longrightarrow> post_transition p (edited_row env u c p)"
  by (auto simp: post_transition_def repeat_state_defs post_identity_def post_moves_def queue_mutable_row_def edited_row_def post_inv_def)

lemma scheduled_transition:
  "queue_mutable_row p \<Longrightarrow> pw_repeat_evidence p = None \<Longrightarrow>
     post_transition p (scheduled_row env k h at slot (pw_revision p + 1) p)"
  by (auto simp: post_transition_def repeat_state_defs post_identity_def post_moves_def queue_mutable_row_def scheduled_row_def post_inv_def)

lemma exact_transition:
  "queue_mutable_row p \<Longrightarrow> pw_repeat_evidence p = None \<Longrightarrow>
     post_transition p (exact_row env k h at (pw_revision p + 1) p)"
  by (auto simp: post_transition_def repeat_state_defs post_identity_def post_moves_def queue_mutable_row_def exact_row_def scheduled_row_def
      post_inv_def)

lemma cancelled_transition:
  "queue_mutable_row p \<Longrightarrow> post_transition p (cancelled_post env (pw_revision p + 1) p)"
  by (auto simp: post_transition_def repeat_state_defs post_identity_def post_moves_def queue_mutable_row_def cancelled_post_def post_inv_def)

lemma decided_transition:
  "pw_state p = lit ''draft'' \<Longrightarrow> post_transition p (decided_row env k h at slot (pw_revision p + 1) p)"
  by (auto simp: post_transition_def repeat_state_defs post_identity_def post_moves_def decided_row_def post_inv_def)

lemma decision_cancelled_transition:
  "pw_state p = lit ''draft'' \<Longrightarrow> post_transition p (decision_cancelled_row env k h (pw_revision p + 1) p)"
  by (auto simp: post_transition_def repeat_state_defs post_identity_def post_moves_def decision_cancelled_row_def post_inv_def)

lemma sending_transition:
  "pw_state p = lit ''queued'' \<Longrightarrow> post_transition p (sending_row env (pw_revision p + 1) p)"
  by (auto simp: post_transition_def repeat_state_defs post_identity_def post_moves_def sending_row_def post_inv_def)

lemma published_transition:
  "pw_state p = lit ''sending'' \<Longrightarrow> 0 < m \<Longrightarrow> post_transition p (published_row env m p)"
  by (auto simp: post_transition_def repeat_state_defs post_identity_def post_moves_def published_row_def post_inv_def)

lemma send_ended_transition:
  "pw_state p = lit ''sending'' \<and> s \<in> {lit ''failed'', lit ''unknown'', lit ''queued''} \<or>
   pw_state p = lit ''queued'' \<and> s = lit ''failed'' \<Longrightarrow>
     post_transition p (send_ended_row env s c m (pw_revision p + 1) p)"
  by (auto simp: post_transition_def repeat_state_defs post_identity_def post_moves_def send_ended_row_def post_inv_def)

section \<open>Job rows of the publisher\<close>

definition publisher_laws :: "('v, 'tz) publisher_ops \<Rightarrow> bool" where
  "publisher_laws ops \<longleftrightarrow>
     codec_laws (op_codec ops) \<and>
     (\<forall>p. op_payload_post_id ops (publish_to_value (op_codec ops) p) = Some (op_uuid_text ops (ppp_post_id p))) \<and>
     inj (op_uuid_text ops)"

lemma publish_kind: "job_type_try_from (lit ''publish_post'') = Inr PublishPostJob"
  using job_type_enum.try_from_as_str [of PublishPostJob] by simp

lemma publish_value_ok:
  "publisher_laws ops \<Longrightarrow> jr_kind r = lit ''publish_post'' \<Longrightarrow> jr_payload r = publish_value ops i v \<Longrightarrow>
     payload_ok (op_codec ops) r"
  by (simp add: payload_ok_def publish_kind publisher_laws_def codec_laws_def publish_value_def
      decode_payload_def)

lemma publish_job_step_id: "publish_job_step ops r s \<Longrightarrow> jr_id s = jr_id r"
  by (induction rule: publish_job_step.induct)
     (auto simp: job_step_id requeued_job_def cancelled_job_def)

lemma publish_job_step_ok:
  assumes "publish_job_step ops r s" and "publisher_laws ops" and "stored_ok (op_codec ops) r"
  shows "stored_ok (op_codec ops) s"
  using assms
proof (induction rule: publish_job_step.induct)
  case (queue_move r s)
  then show ?case using queue.step_check by blast
next
  case (requeue_move r env post_id run_at revision)
  then have "payload_ok (op_codec ops) (requeued_job ops env post_id run_at revision r)"
    by (intro publish_value_ok) (auto simp: requeued_job_def)
  then show ?case using requeue_move by (auto simp: stored_ok_def job_inv_def requeued_job_def)
next
  case (payload_move r now post_id revision)
  then have "payload_ok (op_codec ops) (r\<lparr>jr_payload := publish_value ops post_id revision, jr_updated_at := now\<rparr>)"
    by (intro publish_value_ok) auto
  then show ?case using payload_move by (auto simp: stored_ok_def job_inv_def)
next
  case (cancel_move r env)
  then show ?case by (auto simp: stored_ok_def job_inv_def cancelled_job_def payload_ok_def)
qed

lemma job_step_key: "job_step r s \<Longrightarrow> jr_dedupe_key s = jr_dedupe_key r"
  by (auto simp: job_step_simps job_row_defs)

lemma publish_job_step_key:
  "publish_job_step ops r s \<Longrightarrow> jr_dedupe_key s = jr_dedupe_key r \<and> jr_kind s = jr_kind r"
  by (induction rule: publish_job_step.induct)
     (auto simp: job_step_key job_step_payload requeued_job_def cancelled_job_def)

text \<open>What the publisher relies on of a stored job: it decodes, and a row under the key of a post's
  publication is a publication job.\<close>

definition publish_check :: "('v, 'tz) publisher_ops \<Rightarrow> 'v job_row \<Rightarrow> bool" where
  "publish_check ops r \<longleftrightarrow>
     publisher_laws ops \<longrightarrow>
       stored_ok (op_codec ops) r \<and>
       (\<forall>i. jr_dedupe_key r = Some (publish_key ops i) \<longrightarrow> jr_kind r = lit ''publish_post'')"

interpretation publish_jobs: checked_table jr_id "publish_check ops" "publish_job_step ops" for ops
  by unfold_locales
     (auto simp: publish_check_def publish_job_step_key intro: publish_job_step_id publish_job_step_ok)

abbreviation jobs_change :: "('v, 'tz) publisher_ops \<Rightarrow> 'v job_table \<Rightarrow> 'v job_table \<Rightarrow> bool" where
  "jobs_change ops \<equiv> table_step jr_id (publish_check ops) (publish_job_step ops)"

definition publisher_ok :: "('v, 'tz) publisher_ops \<Rightarrow> 'v publisher_db \<Rightarrow> bool" where
  "publisher_ok ops db \<longleftrightarrow>
     publisher_laws ops \<and> table_ok pw_id post_inv (db_posts db) \<and>
     table_ok jr_id (publish_check ops) (db_jobs db) \<and> distinct (map ch_id (db_channels db))"

text \<open>The posts that hold their cadence slot, and the promise that no two of a channel hold the same.\<close>

definition holds_slot :: "'v post_row \<Rightarrow> bool" where
  "holds_slot p \<longleftrightarrow> pw_state p \<in> {lit ''queued'', lit ''sending''} \<and> pw_cadence_slot_at p \<noteq> None"

definition slots_exclusive :: "'v publisher_db \<Rightarrow> bool" where
  "slots_exclusive db \<longleftrightarrow>
     (\<forall>p\<in>set (db_posts db). \<forall>q\<in>set (db_posts db).
        holds_slot p \<and> holds_slot q \<and> pw_channel_id p = pw_channel_id q \<and>
        pw_cadence_slot_at p = pw_cadence_slot_at q \<longrightarrow> pw_id p = pw_id q)"

text \<open>A row update that takes no slot another post holds.\<close>

definition slot_safe :: "'v publisher_db \<Rightarrow> 'v post_row \<Rightarrow> 'v post_row \<Rightarrow> bool" where
  "slot_safe db p q \<longleftrightarrow>
     \<not> holds_slot q \<or> holds_slot p \<and> pw_cadence_slot_at q = pw_cadence_slot_at p \<or>
     the (pw_cadence_slot_at q) \<notin> set (occupied_slots db (pw_channel_id p) (pw_id p))"

definition safe_step :: "'v publisher_db \<Rightarrow> 'v post_row \<Rightarrow> 'v post_row \<Rightarrow> bool" where
  "safe_step db p q \<longleftrightarrow> post_transition p q \<and> slot_safe db p q"

lemma edited_safe: "queue_mutable_row p \<Longrightarrow> safe_step db p (edited_row env u c p)"
  using edited_transition [of p] by (auto simp: safe_step_def slot_safe_def holds_slot_def edited_row_def)

definition slot_free :: "'v publisher_db \<Rightarrow> 'v post_row \<Rightarrow> timestamp option \<Rightarrow> bool" where
  "slot_free db p slot \<longleftrightarrow>
     slot = None \<or> the slot \<notin> set (occupied_slots db (pw_channel_id p) (pw_id p))"

lemma scheduled_safe:
  "queue_mutable_row p \<Longrightarrow> slot_free db p slot \<Longrightarrow> pw_repeat_evidence p = None \<Longrightarrow>
     safe_step db p (scheduled_row env k h at slot (pw_revision p + 1) p)"
  using scheduled_transition [of p]
  by (auto simp: safe_step_def slot_safe_def holds_slot_def slot_free_def scheduled_row_def)

lemma exact_safe:
  "queue_mutable_row p \<Longrightarrow> pw_repeat_evidence p = None \<Longrightarrow> safe_step db p (exact_row env k h at (pw_revision p + 1) p)"
  using exact_transition [of p]
  by (simp add: safe_step_def slot_safe_def holds_slot_def exact_row_def scheduled_row_def)

lemma cancelled_safe: "queue_mutable_row p \<Longrightarrow> safe_step db p (cancelled_post env (pw_revision p + 1) p)"
  using cancelled_transition [of p] by (simp add: safe_step_def slot_safe_def holds_slot_def cancelled_post_def)

lemma decided_safe:
  "pw_state p = lit ''draft'' \<Longrightarrow> slot_free db p slot \<Longrightarrow>
     safe_step db p (decided_row env k h at slot (pw_revision p + 1) p)"
  using decided_transition [of p]
  by (auto simp: safe_step_def slot_safe_def holds_slot_def slot_free_def decided_row_def)

lemma decision_cancelled_safe:
  "pw_state p = lit ''draft'' \<Longrightarrow> safe_step db p (decision_cancelled_row env k h (pw_revision p + 1) p)"
  using decision_cancelled_transition [of p]
  by (simp add: safe_step_def slot_safe_def holds_slot_def decision_cancelled_row_def)

lemma sending_safe: "pw_state p = lit ''queued'' \<Longrightarrow> safe_step db p (sending_row env (pw_revision p + 1) p)"
  using sending_transition [of p] by (auto simp: safe_step_def slot_safe_def holds_slot_def sending_row_def)

lemma published_safe: "pw_state p = lit ''sending'' \<Longrightarrow> 0 < m \<Longrightarrow> safe_step db p (published_row env m p)"
  using published_transition [of p] by (simp add: safe_step_def slot_safe_def holds_slot_def published_row_def)

lemma send_ended_safe:
  "pw_state p = lit ''sending'' \<and> s \<in> {lit ''failed'', lit ''unknown'', lit ''queued''} \<or>
   pw_state p = lit ''queued'' \<and> s = lit ''failed'' \<Longrightarrow>
     safe_step db p (send_ended_row env s c m (pw_revision p + 1) p)"
  using send_ended_transition [of p s]
  by (auto simp: safe_step_def slot_safe_def holds_slot_def send_ended_row_def)

lemma set_occupied_slots:
  "s \<in> set (occupied_slots db c i) \<longleftrightarrow>
     (\<exists>p\<in>set (db_posts db). pw_channel_id p = c \<and> pw_id p \<noteq> i \<and> holds_slot p \<and> pw_cadence_slot_at p = Some s)"
  by (auto simp: occupied_slots_def map_filter_def holds_slot_def image_iff intro!: bexI)

definition publisher_change :: "('v, 'tz) publisher_ops \<Rightarrow> 'v publisher_db \<Rightarrow> 'v publisher_db \<Rightarrow> bool" where
  "publisher_change ops db db' \<longleftrightarrow>
     posts_change (db_posts db) (db_posts db') \<and> jobs_change ops (db_jobs db) (db_jobs db') \<and>
     db_channels db' = db_channels db \<and> db_media db' = db_media db \<and>
     map post_identity (db_posts db') = map post_identity (db_posts db) \<and>
     (publisher_ok ops db \<longrightarrow> slots_exclusive db \<longrightarrow> slots_exclusive db')"

lemma publisher_change_refl: "publisher_change ops db db"
  by (simp add: publisher_change_def table_step_refl)

lemma publisher_change_ok: "publisher_change ops db db' \<Longrightarrow> publisher_ok ops db \<Longrightarrow> publisher_ok ops db'"
  by (auto simp: publisher_change_def publisher_ok_def
      intro: posts.table_step_ok publish_jobs.table_step_ok)

section \<open>Statements\<close>

lemma lock_aggregate_Inr:
  assumes "lock_aggregate db i = Inr (channel, current)" and "publisher_ok ops db"
  shows "current \<in> set (db_posts db)" "pw_id current = i" "channel \<in> set (db_channels db)"
    "ch_id channel = pw_channel_id current"
    "\<And>p. p \<in> set (db_posts db) \<Longrightarrow> pw_id p = i \<Longrightarrow> p = current"
proof -
  have post: "select_one (\<lambda>p. pw_id p = i) (db_posts db) = Some current"
    using assms(1) by (auto simp: lock_aggregate_def lock_post_def result_simps)
  then show "current \<in> set (db_posts db)" "pw_id current = i" by (auto dest: select_one_Some)
  have "select_one (\<lambda>c. ch_id c = pw_channel_id current) (db_channels db) = Some channel"
    using assms(1) post by (auto simp: lock_aggregate_def lock_channel_def post_channel_id_def result_simps)
  then show "channel \<in> set (db_channels db)" "ch_id channel = pw_channel_id current"
    by (auto dest: select_one_Some)
  show "p = current" if "p \<in> set (db_posts db)" "pw_id p = i" for p
    using assms(2) that \<open>current \<in> set (db_posts db)\<close> \<open>pw_id current = i\<close>
    by (auto simp: publisher_ok_def intro: table_ok_key)
qed

lemma update_posts_Inr:
  assumes "update_posts P f db = Inr (db', rows)"
  shows "db' = db\<lparr>db_posts := update_where P f (db_posts db)\<rparr>" "rows = returning P f (db_posts db)"
  using assms by (auto simp: update_posts_def Let_def split: if_splits)

lemma slots_exclusive_update:
  assumes "publisher_ok ops db" and "slots_exclusive db" and "\<And>p. P p \<Longrightarrow> pw_id p = i"
    and step: "\<And>p. p \<in> set (db_posts db) \<Longrightarrow> P p \<Longrightarrow> safe_step db p (f p)"
  shows "slots_exclusive (db\<lparr>db_posts := update_where P f (db_posts db)\<rparr>)"
proof -
  let ?posts = "update_where P f (db_posts db)"
  have excl: "pw_id p = pw_id q"
    if "p \<in> set (db_posts db)" "q \<in> set (db_posts db)" "holds_slot p" "holds_slot q"
      "pw_channel_id p = pw_channel_id q" "pw_cadence_slot_at p = pw_cadence_slot_at q" for p q
    using assms(2) that unfolding slots_exclusive_def by blast
  have mixed: "pw_id q = pw_id (f p)"
    if p: "p \<in> set (db_posts db)" "P p" and q: "q \<in> set (db_posts db)" "holds_slot q" and h: "holds_slot (f p)"
      and c: "pw_channel_id (f p) = pw_channel_id q" and s: "pw_cadence_slot_at (f p) = pw_cadence_slot_at q"
    for p q
  proof -
    have t: "pw_id (f p) = pw_id p" "pw_channel_id (f p) = pw_channel_id p"
      using step [OF p] by (auto simp: safe_step_def post_transition_def)
    from step [OF p] h consider "holds_slot p" "pw_cadence_slot_at (f p) = pw_cadence_slot_at p"
      | "the (pw_cadence_slot_at (f p)) \<notin> set (occupied_slots db (pw_channel_id p) (pw_id p))"
      by (auto simp: safe_step_def slot_safe_def)
    then show ?thesis
    proof cases
      case 1
      then show ?thesis using excl [OF p(1) q(1)] q(2) c s t by simp
    next
      case 2
      obtain x where x: "pw_cadence_slot_at q = Some x" using q(2) by (auto simp: holds_slot_def)
      show ?thesis
      proof (rule ccontr)
        assume "pw_id q \<noteq> pw_id (f p)"
        then have "x \<in> set (occupied_slots db (pw_channel_id p) (pw_id p))"
          using q x c t by (auto simp: set_occupied_slots)
        then show False using 2 s x by simp
      qed
    qed
  qed
  show ?thesis
    unfolding slots_exclusive_def
  proof (intro ballI impI, elim conjE)
    fix p q
    assume pq: "p \<in> set (db_posts (db\<lparr>db_posts := ?posts\<rparr>))" "q \<in> set (db_posts (db\<lparr>db_posts := ?posts\<rparr>))"
      and h: "holds_slot p" "holds_slot q" and c: "pw_channel_id p = pw_channel_id q"
      and s: "pw_cadence_slot_at p = pw_cadence_slot_at q"
    obtain p' where "p' \<in> set (db_posts db)" "p = (if P p' then f p' else p')"
      using pq(1) by (auto simp: update_where_def elim!: imageE)
    moreover obtain q' where "q' \<in> set (db_posts db)" "q = (if P q' then f q' else q')"
      using pq(2) by (auto simp: update_where_def elim!: imageE)
    ultimately have o: "p' \<in> set (db_posts db)" "p = (if P p' then f p' else p')"
      "q' \<in> set (db_posts db)" "q = (if P q' then f q' else q')" by simp_all
    consider "\<not> P p'" "\<not> P q'" | "P p'" "\<not> P q'" | "\<not> P p'" "P q'" | "P p'" "P q'" by blast
    then show "pw_id p = pw_id q"
    proof cases
      case 1
      then have "p = p'" "q = q'" using o by simp_all
      then show ?thesis using excl [OF o(1,3)] h c s by simp
    next
      case 2
      then have "p = f p'" "q = q'" using o by simp_all
      then show ?thesis using mixed [OF o(1) 2(1) o(3)] h c s by simp
    next
      case 3
      then have "p = p'" "q = f q'" using o by simp_all
      then show ?thesis using mixed [OF o(3) 3(2) o(1)] h c s by simp
    next
      case 4
      then have "pw_id (f p') = pw_id p'" "pw_id (f q') = pw_id q'"
        using step o by (auto simp: safe_step_def post_transition_def)
      then show ?thesis using 4 o assms(3) by simp
    qed
  qed
qed

lemma update_posts_change:
  assumes "update_posts P f db = Inr (db', rows)" and "\<And>p. P p \<Longrightarrow> pw_id p = i"
    and "\<And>p. p \<in> set (db_posts db) \<Longrightarrow> P p \<Longrightarrow> safe_step db p (f p)"
  shows "publisher_change ops db db'"
proof -
  note db' = update_posts_Inr(1) [OF assms(1)]
  have "posts_change (db_posts db) (update_where P f (db_posts db))"
    using assms(3) by (intro table_step_update_where) (auto simp: safe_step_def)
  moreover have "slots_exclusive db'" if "publisher_ok ops db" "slots_exclusive db"
    unfolding db' using that assms(2,3) by (rule slots_exclusive_update)
  moreover have "map post_identity (update_where P f (db_posts db)) = map post_identity (db_posts db)"
    using assms(3) by (simp add: update_where_def safe_step_def post_transition_def)
  ultimately show ?thesis by (simp add: publisher_change_def table_step_refl db')
qed

lemma update_post_row_Inr:
  assumes "update_post_row P f e db = Inr (db', row)"
  obtains p where "p \<in> set (db_posts db)" "P p" "row = f p"
    "db' = db\<lparr>db_posts := update_where P f (db_posts db)\<rparr>"
proof -
  obtain rows where rows: "update_posts P f db = Inr (db', rows)" "fetch_optional rows = Some row"
    using assms by (auto simp: update_post_row_def result_simps)
  note u = update_posts_Inr [OF rows(1)]
  from rows(2) u(2) obtain p where "p \<in> set (db_posts db)" "P p" "row = f p"
    by (auto simp: returning_def dest!: fetch_optional_in elim!: imageE)
  with that u(1) show ?thesis by blast
qed

lemma update_post_row_range:
  assumes "update_post_row P f e db = Inr (db', row)"
  shows "columns_in_range row"
proof -
  obtain rows where rows: "update_posts P f db = Inr (db', rows)" "fetch_optional rows = Some row"
    using assms by (auto simp: update_post_row_def result_simps)
  then have "list_all columns_in_range rows"
    by (auto simp: update_posts_def Let_def split: if_splits)
  then show ?thesis using fetch_optional_in [OF rows(2)] by (simp add: list_all_iff)
qed

lemma update_post_row_change:
  assumes "update_post_row P f e db = Inr (db', row)" and "\<And>p. P p \<Longrightarrow> pw_id p = i"
    and "\<And>p. p \<in> set (db_posts db) \<Longrightarrow> P p \<Longrightarrow> safe_step db p (f p)"
  shows "publisher_change ops db db'"
proof -
  obtain rows where "update_posts P f db = Inr (db', rows)"
    using assms(1) by (auto simp: update_post_row_def result_simps)
  then show ?thesis using assms(2,3) by (rule update_posts_change)
qed

lemma next_revision_Inr [result_simps]: "next_revision r = Inr v \<longleftrightarrow> v = r + 1 \<and> r + 1 < 2 ^ 63"
  by (auto simp: next_revision_def)

lemma check_expected_revision_Inr [result_simps]:
  "check_expected_revision current v = Inr u \<longleftrightarrow> 0 \<le> v \<and> v = pw_revision current"
  by (cases u) (auto simp: check_expected_revision_def)

section \<open>Publication jobs\<close>

definition jobs_moved :: "('v, 'tz) publisher_ops \<Rightarrow> 'v publisher_db \<Rightarrow> 'v publisher_db \<Rightarrow> bool" where
  "jobs_moved ops db db' \<longleftrightarrow>
     (\<exists>jobs. db' = db\<lparr>db_jobs := jobs\<rparr> \<and> jobs_change ops (db_jobs db) jobs)"

lemma jobs_movedI: "jobs_change ops (db_jobs db) jobs \<Longrightarrow> jobs_moved ops db (db\<lparr>db_jobs := jobs\<rparr>)"
  unfolding jobs_moved_def by blast

lemma jobs_moved_refl: "jobs_moved ops db db"
  using jobs_movedI [OF table_step_refl, of ops db] by simp

lemma publish_job_row_check: 
  "s \<in> {lit ''queued'', lit ''failed''} \<Longrightarrow> publish_check ops (publish_job_row ops env i at v s)"
proof -
  assume s: "s \<in> {lit ''queued'', lit ''failed''}"
  have k: "lit ''publish_post'' \<in> range job_type_as_str"
    using job_type_as_str.simps(10) by (metis rangeI)
  have "job_inv (publish_job_row ops env i at v s)"
    using s k by (auto simp: job_inv_def publish_job_row_def)
  then show ?thesis
    using publish_value_ok [of ops "publish_job_row ops env i at v s" i v]
    by (auto simp: publish_check_def stored_ok_def publish_job_row_def)
qed

lemma insert_publish_job_row_moved:
  assumes "insert_publish_job_row ops env i at v s db = Inr db'" and "s \<in> {lit ''queued'', lit ''failed''}"
  shows "jobs_moved ops db db'"
  using assms publish_job_row_check [OF assms(2)]
  by (auto simp: insert_publish_job_row_def id_conflict_def list_ex_iff Let_def
      split: if_splits intro!: jobs_movedI row_insert elim!: imageE)

lemma lock_publish_job_Some:
  assumes "lock_publish_job ops i db = Some row" and "publisher_ok ops db"
  shows "row \<in> set (db_jobs db)" "jr_kind row = lit ''publish_post''"
    "\<And>r. r \<in> set (db_jobs db) \<Longrightarrow> jr_id r = jr_id row \<Longrightarrow> r = row"
proof -
  show row: "row \<in> set (db_jobs db)"
    using assms(1) by (auto simp: lock_publish_job_def dest: select_one_Some)
  have key: "jr_dedupe_key row = Some (publish_key ops i)"
    using assms(1) by (auto simp: lock_publish_job_def dest: select_one_Some)
  have "publish_check ops row" using assms(2) row by (auto simp: publisher_ok_def intro: table_ok_check)
  then show "jr_kind row = lit ''publish_post''"
    using key assms(2) unfolding publish_check_def publisher_ok_def by blast
  show "r = row" if "r \<in> set (db_jobs db)" "jr_id r = jr_id row" for r
    using assms(2) row that by (auto simp: publisher_ok_def intro: table_ok_key)
qed

lemma update_one_job_moved:
  assumes "update_one_job P f i db = Inr db'"
    and "\<And>r. r \<in> set (db_jobs db) \<Longrightarrow> P r \<Longrightarrow> publish_job_step ops r (f r)"
  shows "jobs_moved ops db db'"
  using assms
  by (auto simp: update_one_job_def split: if_splits intro!: jobs_movedI table_step_update_where)

lemma update_publish_job_moved:
  assumes "update_publish_job ops env i at v db = Inr db'" and ok: "publisher_ok ops db"
  shows "jobs_moved ops db db'"
proof (cases "lock_publish_job ops i db")
  case None
  then show ?thesis
    using assms(1) by (auto simp: update_publish_job_def intro: insert_publish_job_row_moved)
next
  case (Some row)
  note row = lock_publish_job_Some [OF Some ok]
  have "update_one_job (\<lambda>r. jr_id r = jr_id row \<and> jr_state r \<in> {lit ''queued'', lit ''failed''})
      (requeued_job ops env i at v) i db = Inr db'"
    using assms(1) Some by (auto simp: update_publish_job_def split: if_splits)
  then show ?thesis
    using row by (elim update_one_job_moved) (auto intro!: requeue_move)
qed

lemma insert_publish_job_moved:
  assumes "insert_publish_job ops env i at v db = Inr db'" and "publisher_ok ops db"
  shows "jobs_moved ops db db'"
  using assms insert_publish_job_row_moved update_publish_job_moved
  by (fastforce simp: insert_publish_job_def split: option.splits if_splits)

lemma update_failed_publish_job_moved:
  assumes "update_failed_publish_job ops env i at v db = Inr db'" and ok: "publisher_ok ops db"
  shows "jobs_moved ops db db'"
proof (cases "lock_publish_job ops i db")
  case None
  then show ?thesis
    using assms(1) by (auto simp: update_failed_publish_job_def intro: insert_publish_job_row_moved)
next
  case (Some row)
  note row = lock_publish_job_Some [OF Some ok]
  have "update_one_job (\<lambda>r. jr_id r = jr_id row \<and> jr_state r = lit ''failed'')
      (\<lambda>r. r\<lparr>jr_payload := publish_value ops i v, jr_updated_at := env_now env\<rparr>) i db = Inr db'"
    using assms(1) Some by (auto simp: update_failed_publish_job_def split: if_splits)
  then show ?thesis
    using row by (elim update_one_job_moved) (auto intro!: payload_move)
qed

lemma cancel_publish_job_moved:
  assumes "cancel_publish_job ops env i db = Inr db'"
  shows "jobs_moved ops db db'"
  using assms
  by (auto simp: cancel_publish_job_def jobs_moved_refl split: option.splits if_splits
      elim!: update_one_job_moved intro: cancel_move)

lemma jobs_moved_slots:
  assumes "jobs_moved ops db1 db2"
  obtains jobs where "db2 = db1\<lparr>db_jobs := jobs\<rparr>" "jobs_change ops (db_jobs db1) jobs"
    "slots_exclusive db2 \<longleftrightarrow> slots_exclusive db1"
proof -
  from assms obtain jobs where "db2 = db1\<lparr>db_jobs := jobs\<rparr>" "jobs_change ops (db_jobs db1) jobs"
    unfolding jobs_moved_def by blast
  moreover from this(1) have "slots_exclusive db2 \<longleftrightarrow> slots_exclusive db1" by (simp add: slots_exclusive_def)
  ultimately show ?thesis by (rule that)
qed

lemma jobs_moved_change:
  "publisher_change ops db db1 \<Longrightarrow> jobs_moved ops db1 db2 \<Longrightarrow> db_jobs db1 = db_jobs db \<Longrightarrow>
     publisher_change ops db db2"
  by (elim jobs_moved_slots) (auto simp: publisher_change_def)

section \<open>Operations refine the specification\<close>

lemma ensure_schedulable_evidence: "ensure_schedulable db channel p v = Inr u \<Longrightarrow> pw_repeat_evidence p = None"
  by (auto simp: ensure_schedulable_def ensure_repeat_decision_resolved_def result_simps split: if_splits)

lemma next_free_slot_free:
  assumes "next_free_slot ops env db channel (pw_id p) at = Inr slot" and "ch_id channel = pw_channel_id p"
  shows "slot_free db p (Some slot)"
proof -
  obtain c where "free_slot_loop (op_tz ops) channel (occupied_slots db (pw_channel_id p) (pw_id p)) 10000 c = Inr slot"
    using assms by (auto simp: next_free_slot_def free_slot_def result_simps simp del: free_slot_loop.simps)
  from free_slot_loop_Inr [OF this] show ?thesis by (simp add: slot_free_def)
qed

lemma commit_change:
  assumes "\<And>db' x. tx = Inr (db', x) \<Longrightarrow> publisher_change ops db db'"
  shows "publisher_change ops db (fst (commit db tx decode))"
  using assms by (auto simp: commit_def publisher_change_refl split: sum.splits)

lemma queue_post_job_change:
  assumes "queue_post_job ops env state at (db1, row) = Inr (db2, x)"
    and "publisher_change ops db db1" and "db_jobs db1 = db_jobs db" and "publisher_ok ops db"
  shows "publisher_change ops db db2"
proof -
  have ok: "publisher_ok ops db1" using publisher_change_ok assms(2,4) by blast
  have "jobs_moved ops db1 db2"
    using assms(1) ok
    by (auto simp: queue_post_job_def result_simps split: if_splits
        intro: insert_publish_job_moved update_publish_job_moved)
  then show ?thesis using jobs_moved_change assms(2,3) by blast
qed

text \<open>The locked post is the only row the statements of an operation on it touch.\<close>

lemma locked_update_change:
  assumes "update_post_row P f e db = Inr (db', row)" and "lock_aggregate db i = Inr (channel, current)"
    and "publisher_ok ops db" and "\<And>p. P p \<Longrightarrow> pw_id p = i" and "P current \<Longrightarrow> safe_step db current (f current)"
  shows "publisher_change ops db db' \<and> db_jobs db' = db_jobs db \<and> P current \<and> row = f current"
proof -
  note lock = lock_aggregate_Inr [OF assms(2,3)]
  have "publisher_change ops db db'"
    using lock(5) assms(4,5) by (intro update_post_row_change [OF assms(1,4)]) metis+
  moreover obtain p where "p \<in> set (db_posts db)" "P p" "row = f p" "db_jobs db' = db_jobs db"
    using update_post_row_Inr [OF assms(1)] by (metis publisher_db.select_convs(1) publisher_db.surjective publisher_db.update_convs(2))
  ultimately show ?thesis using lock(5) assms(4) by metis
qed

lemma schedule_post_change:
  assumes "publisher_ok ops db"
  shows "publisher_change ops db (fst (schedule_post ops env schedule db))"
  unfolding schedule_post_def
proof (rule commit_change)
  fix db' x
  assume tx: "schedule_post_tx ops env schedule db = Inr (db', x)"
  then obtain channel current state where lock: "lock_aggregate db (ps_post_id schedule) = Inr (channel, current)"
    and st: "row_state current = Inr state"
    by (auto simp: schedule_post_tx_def result_simps)
  show "publisher_change ops db db'"
  proof (cases "db' = db")
    case False
    then have mut: "is_queue_mutable state"
      using tx lock st by (auto simp: schedule_post_tx_def result_simps Let_def split: if_splits)
    obtain slot db1 row where slot: "next_free_slot ops env db channel (pw_id current) (ps_requested_at schedule) = Inr slot"
      and upd: "update_post_row (\<lambda>p. pw_id p = pw_id current \<and> queue_mutable_row p)
         (scheduled_row env (ps_request_key schedule) (schedule_request_hash ops schedule) slot (Some slot)
            (pw_revision current + 1)) (PostCannotBeScheduled (pw_id current) state) db = Inr (db1, row)"
      and job: "queue_post_job ops env state slot (db1, row) = Inr (db', x)" and ev: "pw_repeat_evidence current = None"
      using tx lock st mut False
      by (auto simp: schedule_post_tx_def result_simps Let_def dest: ensure_schedulable_evidence split: if_splits)
    have "publisher_change ops db db1 \<and> db_jobs db1 = db_jobs db"
      using locked_update_change [OF upd lock assms] lock_aggregate_Inr(2,4) [OF lock assms]
        scheduled_safe [OF _ next_free_slot_free [OF slot] ev] by auto
    then show ?thesis using queue_post_job_change [OF job] assms by blast
  qed (simp add: publisher_change_refl)
qed

lemma schedule_post_exact_change:
  assumes "publisher_ok ops db"
  shows "publisher_change ops db (fst (schedule_post_exact ops env schedule db))"
  unfolding schedule_post_exact_def
proof (rule commit_change)
  fix db' x
  assume tx: "schedule_post_exact_tx ops env schedule db = Inr (db', x)"
  then obtain channel current where lock: "lock_aggregate db (pe_post_id schedule) = Inr (channel, current)"
    by (auto simp: schedule_post_exact_tx_def result_simps Let_def)
  show "publisher_change ops db db'"
  proof (cases "db' = db")
    case False
    then obtain state k h db1 row where upd:
      "apply_exact_schedule env current state (pe_requested_at schedule) k h (pw_revision current + 1) db
         = Inr (db1, row)"
      and job: "queue_post_job ops env state (pe_requested_at schedule) (db1, row) = Inr (db', x)"
      and ev: "pw_repeat_evidence current = None"
      using tx lock
      by (auto simp: schedule_post_exact_tx_def result_simps Let_def dest: ensure_schedulable_evidence split: if_splits)
    have "publisher_change ops db db1 \<and> db_jobs db1 = db_jobs db"
      using locked_update_change [OF upd [unfolded apply_exact_schedule_def] lock assms]
        lock_aggregate_Inr(2) [OF lock assms] exact_safe [of current, OF _ ev] by auto
    then show ?thesis using queue_post_job_change [OF job] assms by blast
  qed (simp add: publisher_change_refl)
qed

lemma publish_now_change:
  assumes "publisher_ok ops db"
  shows "publisher_change ops db (fst (publish_now ops env i key expected db))"
  unfolding publish_now_def
proof (rule commit_change)
  fix db' x
  assume tx: "publish_now_tx ops env i key expected db = Inr (db', x)"
  then obtain channel current where lock: "lock_aggregate db i = Inr (channel, current)"
    by (auto simp: publish_now_tx_def result_simps Let_def)
  show "publisher_change ops db db'"
  proof (cases "db' = db")
    case False
    then obtain state k h db1 row where upd:
      "update_post_row (\<lambda>p. pw_id p = i \<and> queue_mutable_row p)
         (scheduled_row env k h (env_utc env) None (pw_revision current + 1)) (PostCannotBeScheduled i state) db
         = Inr (db1, row)"
      and job: "queue_post_job ops env state (env_utc env) (db1, row) = Inr (db', x)"
      and ev: "pw_repeat_evidence current = None"
      using tx lock
      by (auto simp: publish_now_tx_def result_simps Let_def dest: ensure_schedulable_evidence split: if_splits)
    have "publisher_change ops db db1 \<and> db_jobs db1 = db_jobs db"
      using locked_update_change [OF upd lock assms] scheduled_safe [of current _ None, OF _ _ ev] by (auto simp: slot_free_def)
    then show ?thesis using queue_post_job_change [OF job] assms by blast
  qed (simp add: publisher_change_refl)
qed

lemma update_post_change:
  assumes "publisher_ok ops db"
  shows "publisher_change ops db (fst (update_post ops env i update db))"
  unfolding update_post_def
proof (rule commit_change)
  fix db' x
  assume tx: "update_post_tx ops env i update db = Inr (db', x)"
  then obtain channel current state db1 row where lock: "lock_aggregate db i = Inr (channel, current)"
    and st: "row_state current = Inr state" "is_queue_mutable state"
    and upd: "update_post_row (\<lambda>p. pw_id p = i) (edited_row env update current) PublisherDatabase db = Inr (db1, row)"
    and job: "(if state = Draft then Inr db1
               else if state = PostQueued
               then update_publish_job ops env i (pw_scheduled_at row) (pw_revision row) db1
               else update_failed_publish_job ops env i (pw_scheduled_at row) (pw_revision row) db1) = Inr db'"
    by (auto simp: update_post_tx_def result_simps split: if_splits)
  have "queue_mutable_row current" using queue_mutable_state st row_state_Inr by blast
  then have ch: "publisher_change ops db db1" "db_jobs db1 = db_jobs db"
    using locked_update_change [OF upd lock assms] edited_safe [of current] by auto
  then have "publisher_ok ops db1" using publisher_change_ok assms by blast
  then have "jobs_moved ops db1 db'"
    using job by (auto split: if_splits intro: jobs_moved_refl update_publish_job_moved update_failed_publish_job_moved)
  then show "publisher_change ops db db'" using jobs_moved_change ch by blast
qed

lemma cancel_post_change:
  assumes "publisher_ok ops db"
  shows "publisher_change ops db (fst (cancel_post ops env i expected db))"
  unfolding cancel_post_def
proof (rule commit_change)
  fix db' x
  assume tx: "cancel_post_tx ops env i expected db = Inr (db', x)"
  then obtain channel current e db1 where lock: "lock_aggregate db i = Inr (channel, current)"
    and job: "db1 = db \<or> cancel_publish_job ops env i db = Inr db1"
    and upd: "update_post_row (\<lambda>p. pw_id p = i \<and> queue_mutable_row p)
        (cancelled_post env (pw_revision current + 1)) e db1 = Inr (db', x)"
    by (auto simp: cancel_post_tx_def result_simps split: if_splits)
  have moved: "jobs_moved ops db db1"
    using job by (auto intro: jobs_moved_refl cancel_publish_job_moved)
  have posts: "db_posts db1 = db_posts db" using moved by (auto simp: jobs_moved_def)
  note lock' = lock_aggregate_Inr [OF lock assms]
  have "publisher_change ops db1 db'"
  proof (rule update_post_row_change [OF upd, of i])
    fix p
    assume "p \<in> set (db_posts db1)" "pw_id p = i \<and> queue_mutable_row p"
    moreover from this have "p = current" using lock'(5) posts by simp
    ultimately show "safe_step db1 p (cancelled_post env (pw_revision current + 1) p)"
      using cancelled_safe by blast
  qed simp
  moreover obtain ps where "db' = db1\<lparr>db_posts := ps\<rparr>" using upd by (rule update_post_row_Inr)
  moreover have ch: "publisher_change ops db db1"
    using jobs_moved_change [OF publisher_change_refl moved] by simp
  moreover have "publisher_ok ops db1" using publisher_change_ok [OF ch assms] .
  ultimately show "publisher_change ops db db'" using posts by (auto simp: publisher_change_def)
qed

lemma queue_decided_change:
  assumes "queue_decided ops env i k h at slot (pw_revision current + 1) expected db = Inr (db', x)"
    and "lock_aggregate db i = Inr (channel, current)" and "publisher_ok ops db"
    and "slot_free db current slot"
  shows "publisher_change ops db db'"
proof -
  obtain db1 row where upd:
    "update_post_row (\<lambda>p. pw_id p = i \<and> pw_state p = lit ''draft'' \<and> pw_revision p = expected)
       (decided_row env k h at slot (pw_revision current + 1)) PublisherDatabase db = Inr (db1, row)"
    and job: "insert_publish_job ops env i at (pw_revision row) db1 = Inr db'"
    using assms(1) by (auto simp: queue_decided_def result_simps)
  have "publisher_change ops db db1 \<and> db_jobs db1 = db_jobs db \<and>
      (pw_id current = i \<and> pw_state current = lit ''draft'' \<and> pw_revision current = expected) \<and>
      row = decided_row env k h at slot (pw_revision current + 1) current"
    by (rule locked_update_change [OF upd assms(2,3)]) (simp, elim conjE, rule decided_safe, simp_all add: assms(4))
  then have ch: "publisher_change ops db db1" "db_jobs db1 = db_jobs db" by simp_all
  then have "publisher_ok ops db1" using publisher_change_ok assms(3) by blast
  then show ?thesis using job ch insert_publish_job_moved jobs_moved_change by blast
qed

lemma decide_post_change:
  assumes "publisher_ok ops db"
  shows "publisher_change ops db (fst (decide_post ops env i decision key expected db))"
  unfolding decide_post_def
proof (rule commit_change)
  fix db' x
  assume tx: "decide_post_tx ops env i decision key expected db = Inr (db', x)"
  then obtain channel current where lock: "lock_aggregate db i = Inr (channel, current)"
    by (auto simp: decide_post_tx_def result_simps Let_def)
  note lock' = lock_aggregate_Inr [OF lock assms]
  show "publisher_change ops db db'"
  proof (cases "db' = db")
    case False
    then obtain k h where ap:
      "apply_decision ops env channel current decision k h (pw_revision current + 1) expected db = Inr (db', x)"
      using tx lock by (auto simp: decide_post_tx_def result_simps Let_def split: if_splits)
    show ?thesis
    proof (cases "decision = CancelDecision")
      case True
      with ap have "update_post_row
          (\<lambda>p. pw_id p = pw_id current \<and> pw_state p = lit ''draft'' \<and> pw_revision p = expected)
          (decision_cancelled_row env k h (pw_revision current + 1)) PublisherDatabase db = Inr (db', x)"
        by (simp add: apply_decision_def)
      then have "publisher_change ops db db' \<and> db_jobs db' = db_jobs db \<and>
          (pw_id current = pw_id current \<and> pw_state current = lit ''draft'' \<and> pw_revision current = expected) \<and>
          x = decision_cancelled_row env k h (pw_revision current + 1) current"
        by (rule locked_update_change [OF _ lock assms])
           (simp add: lock'(2), elim conjE, rule decision_cancelled_safe)
      then show ?thesis by simp
    next
      case no_cancel: False
      have i: "pw_id current = i" by (rule lock'(2))
      have "\<exists>at slot. queue_decided ops env i k h at slot (pw_revision current + 1) expected db = Inr (db', x) \<and>
          slot_free db current slot"
      proof (cases "decision = QueueAnyway")
        case True
        then obtain slot where "next_free_slot ops env db channel (pw_id current) (env_utc env) = Inr slot"
          and "queue_decided ops env i k h slot (Some slot) (pw_revision current + 1) expected db = Inr (db', x)"
          using ap by (auto simp: apply_decision_def result_simps i)
        then show ?thesis using next_free_slot_free lock'(4) by blast
      next
        case False
        then have "\<exists>at. queue_decided ops env i k h at None (pw_revision current + 1) expected db = Inr (db', x)"
          using ap no_cancel
          by (cases decision) (auto simp: apply_decision_def result_simps i split: if_splits)
        then show ?thesis by (auto simp: slot_free_def)
      qed
      then show ?thesis using queue_decided_change lock assms by blast
    qed
  qed (simp add: publisher_change_refl)
qed

lemma claim_publish_change:
  assumes "publisher_ok ops db"
  shows "publisher_change ops db (fst (claim_publish ops env i expected attempt db))"
  unfolding claim_publish_def
proof (rule commit_change)
  fix db' x
  assume tx: "claim_publish_tx ops env i expected attempt db = Inr (db', x)"
  then obtain channel current row where lock: "lock_aggregate db i = Inr (channel, current)"
    and upd: "update_post_row (\<lambda>p. pw_id p = i \<and> pw_state p = lit ''queued'' \<and> pw_revision p = expected)
        (sending_row env (pw_revision current + 1)) PublisherDatabase db = Inr (db', row)"
    by (auto simp: claim_publish_tx_def result_simps split: if_splits)
  then show "publisher_change ops db db'"
    using locked_update_change [OF upd lock assms] sending_safe [of current] by auto
qed

lemma complete_publish_change:
  assumes "publisher_ok ops db"
  shows "publisher_change ops db (fst (complete_publish ops env i lease m db))"
  unfolding complete_publish_def
proof (rule commit_change)
  fix db' x
  assume tx: "complete_publish_tx ops env i lease m db = Inr (db', x)"
  show "publisher_change ops db db'"
  proof (cases "db' = db")
    case False
    then obtain row where "update_post_row (send_row i lease) (published_row env m) PublisherDatabase db = Inr (db', row)"
      and "0 < m"
      using tx by (auto simp: complete_publish_tx_def result_simps split: if_splits)
    then show ?thesis
      by (elim update_post_row_change [where i = i]) (auto simp: send_row_def intro: published_safe)
  qed (simp add: publisher_change_refl)
qed

lemma fail_publish_change:
  "publisher_change ops db (fst (fail_publish ops env i lease state c m db))"
  unfolding fail_publish_def
  by (rule commit_change)
     (auto simp: fail_publish_tx_def result_simps send_row_def send_ended_next_def split: if_splits
       elim!: update_post_row_change [where i = i] intro!: send_ended_safe)

lemma reconcile_change:
  "publisher_change ops db (fst (reconcile_interrupted_publish ops env i attempt db))"
  unfolding reconcile_interrupted_publish_def
  by (rule commit_change)
     (auto simp: reconcile_interrupted_publish_tx_def result_simps send_ended_next_def
       elim!: update_posts_change [where i = i] intro!: send_ended_safe)

lemma retry_publish_change:
  assumes "publisher_ok ops db"
  shows "publisher_change ops db (fst (retry_publish ops env i lease c m db))"
  unfolding retry_publish_def
proof (rule commit_change)
  fix db' x
  assume tx: "retry_publish_tx ops env i lease c m db = Inr (db', x)"
  then obtain channel current where lock: "lock_aggregate db i = Inr (channel, current)"
    by (auto simp: retry_publish_tx_def result_simps)
  obtain job where j: "lock_current_job_attempt ops env i (pl_attempt lease) db = Inr job"
    using tx lock by (auto simp: retry_publish_tx_def result_simps)
  obtain s db1 row where s: "s \<in> {lit ''failed'', lit ''queued''}"
    and upd: "update_post_row (send_row i lease) (send_ended_row env s c m (pw_revision current + 1))
        PublisherDatabase db = Inr (db1, row)"
    and jobs: "db' = db1 \<or> update_one_job (\<lambda>r. jr_id r = jr_id job \<and> jr_state r = lit ''running'')
          (\<lambda>r. r\<lparr>jr_payload := publish_value ops i (pw_revision row), jr_updated_at := env_now env\<rparr>) i db1 = Inr db'"
    using tx lock j
    by (cases "jr_attempt_count job \<ge> jr_max_attempts job")
       (auto simp: retry_publish_tx_def result_simps Let_def)
  have ch: "publisher_change ops db db1" "db_jobs db1 = db_jobs db"
    using locked_update_change [OF upd lock assms] send_ended_safe [of current s] s
    by (auto simp: send_row_def)
  have job: "job \<in> set (db_jobs db)" "jr_kind job = lit ''publish_post''"
    using j by (auto simp: lock_current_job_attempt_def is_current_attempt_def result_simps dest: select_one_Some)
  have only: "r = job" if "r \<in> set (db_jobs db)" "jr_id r = jr_id job" for r
    using assms job(1) that by (auto simp: publisher_ok_def intro: table_ok_key)
  have "jobs_moved ops db1 db'"
    using jobs
  proof
    assume "update_one_job (\<lambda>r. jr_id r = jr_id job \<and> jr_state r = lit ''running'')
          (\<lambda>r. r\<lparr>jr_payload := publish_value ops i (pw_revision row), jr_updated_at := env_now env\<rparr>) i db1 = Inr db'"
    then show ?thesis
      using only job(2) ch(2) by (elim update_one_job_moved) (auto intro!: payload_move)
  qed (simp add: jobs_moved_refl)
  then show "publisher_change ops db db'" using jobs_moved_change ch by blast
qed

lemma settle_terminal_change:
  assumes "settle_terminal_publication_post env i post v c m db = Inr db'"
  shows "publisher_change ops db db' \<and> db_jobs db' = db_jobs db"
proof -
  have upd: "publisher_change ops db d \<and> db_jobs d = db_jobs db"
    if "update_posts P (send_ended_next env s c m) db = Inr (d, rows)"
      and "\<And>p. P p \<Longrightarrow> pw_id p = i \<and> (pw_state p = lit ''sending'' \<and> s = lit ''unknown'' \<or> pw_state p = lit ''queued'' \<and> s = lit ''failed'')"
    for P s d rows
  proof
    show "publisher_change ops db d"
      by (rule update_posts_change [OF that(1), of i])
         (use that(2) in \<open>auto simp: send_ended_next_def intro!: send_ended_safe\<close>)
    show "db_jobs d = db_jobs db" using update_posts_Inr(1) [OF that(1)] by simp
  qed
  show ?thesis
    using assms
    by (auto simp: settle_terminal_publication_post_def result_simps publisher_change_refl split: if_splits
        dest!: upd)
qed

definition post_settled :: "db_env \<Rightarrow> 'v publisher_db \<Rightarrow> 'v publisher_db \<Rightarrow> bool" where
  "post_settled env db db' \<longleftrightarrow>
     db' = db \<or> (\<exists>i post v c m. settle_terminal_publication_post env i post v c m db = Inr db')"

lemma when_terminal_settled:
  "when_terminal b post (\<lambda>p. settle_terminal_publication_post env i p v (c p) (m p) db) db = Inr db' \<Longrightarrow>
     post_settled env db db'"
  unfolding when_terminal_def post_settled_def by (cases post; cases b) auto

text \<open>The end of settlement and of recovery: the post may end its send, then the job row is updated.\<close>

lemma settle_publication_change:
  assumes "post_settled env db db1"
    and "update_locked_publication env (jr_id job) u db1 = Inr (db', row)"
    and "publisher_ok ops db" and "job \<in> set (db_jobs db)" and "jr_state job = lit ''running''"
    and "job_step job (settled_row env u job)"
  shows "publisher_change ops db db'"
proof -
  have db1: "publisher_change ops db db1" "db_jobs db1 = db_jobs db"
    using assms(1) settle_terminal_change publisher_change_refl unfolding post_settled_def by metis+
  have jobs: "table_ok jr_id (publish_check ops) (db_jobs db)" using assms(3) by (simp add: publisher_ok_def)
  let ?P = "\<lambda>r. jr_id r = jr_id job \<and> jr_state r = lit ''running''"
  obtain jobs' where u: "update_locked_job env (jr_id job) u (db_jobs db) = Inr (jobs', row)"
    and db': "db' = db1\<lparr>db_jobs := jobs'\<rparr>"
    using assms(2) db1(2) by (auto simp: update_locked_publication_def result_simps)
  have j': "jobs' = update_where ?P (settled_row env u) (db_jobs db)"
    using u by (auto simp: update_locked_job_def result_simps Let_def)
  have "jobs_change ops (db_jobs db) jobs'"
    unfolding j'
  proof (rule table_step_update_where)
    fix r
    assume "r \<in> set (db_jobs db)" "?P r"
    then have "r = job" using table_ok_key [OF jobs _ assms(4)] by blast
    then show "publish_job_step ops r (settled_row env u r)" using assms(6) by (auto intro: queue_move)
  qed
  then have "jobs_moved ops db1 db'" unfolding db' using db1(2) by (intro jobs_movedI) simp
  then show ?thesis using jobs_moved_change db1 by blast
qed

lemma settle_publish_change:
  assumes "publisher_ok ops db"
  shows "publisher_change ops db (fst (settle_publish_job ops env lease expected s db))"
proof (cases "settle_publish_tx ops env lease expected s db")
  case (Inr x)
  obtain db' row where x: "x = (db', row)" by (cases x)
  obtain job db1 where job: "lock_running_job env lease (allows_expired_lease s) (db_jobs db) = Inr job"
    and post: "post_settled env db db1"
    and upd: "update_locked_publication env (jr_id job) (queue_parameters job s) db1 = Inr (db', row)"
    using Inr unfolding x
    by (auto simp: settle_publish_tx_def result_simps Let_def dest!: when_terminal_settled)
  note j = lock_running_job_Inr [OF job]
  have "publisher_change ops db db'"
  proof (rule settle_publication_change [OF post upd assms])
    show "job_step job (settled_row env (queue_parameters job s) job)" using j by (blast intro: settle_step)
  qed (use j in \<open>auto simp: locks_running_job_def\<close>)
  then show ?thesis by (simp add: settle_publish_job_def Inr x)
qed (simp add: settle_publish_job_def publisher_change_refl)

lemma recover_publish_change:
  assumes "publisher_ok ops db"
  shows "publisher_change ops db (fst (recover_publish_job ops env jid expected db))"
proof (cases "recover_publish_tx ops env jid expected db")
  case (Inr x)
  obtain db' b where x: "x = (db', b)" by (cases x)
  show ?thesis
  proof (cases "lock_expired_job env jid (db_jobs db)")
    case None
    then show ?thesis
      using Inr by (auto simp: recover_publish_job_def recover_publish_tx_def x result_simps Let_def
          publisher_change_refl)
  next
    case (Some job)
    note j = lock_expired_job_Some [OF Some]
    obtain db1 row where post: "post_settled env db db1"
      and upd: "update_locked_publication env (jr_id job) (recovery_update env job) db1 = Inr (db', row)"
      using Inr Some unfolding x
      by (auto simp: recover_publish_tx_def result_simps Let_def dest!: when_terminal_settled)
    have "publisher_change ops db db'"
    proof (rule settle_publication_change [OF post upd assms])
      show "job_step job (settled_row env (recovery_update env job) job)" using j by (blast intro: recover_step)
    qed (use j in auto)
    then show ?thesis by (simp add: recover_publish_job_def Inr x)
  qed
qed (simp add: recover_publish_job_def publisher_change_refl)

section \<open>Runs\<close>

text \<open>What happens to the four tables: the operations of the repository, the worker's claims,
  heartbeats and completions of jobs, and changes of media states and channels by their owners.\<close>

inductive publisher_op :: "('v, 'tz) publisher_ops \<Rightarrow> 'v publisher_db \<Rightarrow> 'v publisher_db \<Rightarrow> bool" for ops where
  op_update_post: "publisher_op ops db (fst (update_post ops env i update db))"
| op_schedule: "publisher_op ops db (fst (schedule_post ops env schedule db))"
| op_schedule_exact: "publisher_op ops db (fst (schedule_post_exact ops env exact db))"
| op_publish_now: "publisher_op ops db (fst (publish_now ops env i key expected db))"
| op_cancel_post: "publisher_op ops db (fst (cancel_post ops env i expected db))"
| op_decide: "publisher_op ops db (fst (decide_post ops env i decision key expected db))"
| op_claim_publish: "publisher_op ops db (fst (claim_publish ops env i expected attempt db))"
| op_complete_publish: "publisher_op ops db (fst (complete_publish ops env i lease message db))"
| op_fail_publish: "publisher_op ops db (fst (fail_publish ops env i lease state class text db))"
| op_retry_publish: "publisher_op ops db (fst (retry_publish ops env i lease class text db))"
| op_reconcile: "publisher_op ops db (fst (reconcile_interrupted_publish ops env i attempt db))"
| op_settle_publish: "publisher_op ops db (fst (settle_publish_job ops env attempt command settlement db))"
| op_recover_publish: "publisher_op ops db (fst (recover_publish_job ops env i command db))"
| op_worker_claim: "publisher_op ops db
    (db\<lparr>db_jobs := fst (claim_next (op_codec ops) env worker duration capabilities (db_jobs db))\<rparr>)"
| op_worker_heartbeat: "publisher_op ops db
    (db\<lparr>db_jobs := fst (heartbeat_lease (op_codec ops) env attempt duration (db_jobs db))\<rparr>)"
| op_worker_complete: "publisher_op ops db
    (db\<lparr>db_jobs := fst (complete_lease (op_codec ops) env attempt (db_jobs db))\<rparr>)"
| op_media: "publisher_op ops db (db\<lparr>db_media := media\<rparr>)"
| op_channels: "distinct (map ch_id channels) \<Longrightarrow> publisher_op ops db (db\<lparr>db_channels := channels\<rparr>)"

lemma length_update_where [simp]: "length (update_where P f t) = length t"
  by (simp add: update_where_def)

lemma queue_change_jobs:
  assumes "queue_change codec t u" and "length u = length t"
  shows "jobs_change ops t u"
  using assms
proof (cases rule: table_step.cases)
  case (row_update f)
  then show ?thesis by (auto intro!: table_step.row_update intro: queue_move)
qed (use assms(2) in simp)

lemma publisher_queue_ok: "publisher_ok ops db \<Longrightarrow> queue_ok (op_codec ops) (db_jobs db)"
  by (auto simp: publisher_ok_def table_ok_def publish_check_def list_all_iff)

lemma worker_jobs_change:
  assumes "publisher_ok ops db"
  shows "jobs_change ops (db_jobs db) (fst (claim_next (op_codec ops) env worker duration capabilities (db_jobs db)))"
    and "jobs_change ops (db_jobs db) (fst (heartbeat_lease (op_codec ops) env attempt duration (db_jobs db)))"
    and "jobs_change ops (db_jobs db) (fst (complete_lease (op_codec ops) env attempt (db_jobs db)))"
proof -
  note ok = publisher_queue_ok [OF assms]
  show "jobs_change ops (db_jobs db) (fst (claim_next (op_codec ops) env worker duration capabilities (db_jobs db)))"
    by (rule queue_change_jobs [OF claim_next_change [OF ok]])
       (auto simp: claim_next_def Let_def split: sum.splits option.splits)
  show "jobs_change ops (db_jobs db) (fst (heartbeat_lease (op_codec ops) env attempt duration (db_jobs db)))"
    by (rule queue_change_jobs [OF heartbeat_lease_change]) (auto simp: heartbeat_lease_def Let_def split: sum.splits)
  show "jobs_change ops (db_jobs db) (fst (complete_lease (op_codec ops) env attempt (db_jobs db)))"
    by (rule queue_change_jobs [OF complete_lease_change]) (auto simp: complete_lease_def Let_def split: option.splits)
qed

lemmas publisher_changes =
  update_post_change schedule_post_change schedule_post_exact_change publish_now_change cancel_post_change
  decide_post_change claim_publish_change complete_publish_change fail_publish_change retry_publish_change
  reconcile_change settle_publish_change recover_publish_change

definition publisher_move :: "('v, 'tz) publisher_ops \<Rightarrow> 'v publisher_db \<Rightarrow> 'v publisher_db \<Rightarrow> bool" where
  "publisher_move ops db db' \<longleftrightarrow>
     posts_change (db_posts db) (db_posts db') \<and> jobs_change ops (db_jobs db) (db_jobs db') \<and>
     map post_identity (db_posts db') = map post_identity (db_posts db) \<and>
     publisher_ok ops db' \<and> (slots_exclusive db \<longrightarrow> slots_exclusive db')"

lemma publisher_change_move:
  "publisher_change ops db db' \<Longrightarrow> publisher_ok ops db \<Longrightarrow> publisher_move ops db db'"
  using publisher_change_ok by (auto simp: publisher_move_def publisher_change_def)

lemma publisher_jobs_move:
  "jobs_change ops (db_jobs db) jobs \<Longrightarrow> publisher_ok ops db \<Longrightarrow> publisher_move ops db (db\<lparr>db_jobs := jobs\<rparr>)"
  using jobs_moved_change [OF publisher_change_refl jobs_movedI] publisher_change_move by blast

lemma publisher_same_move:
  assumes "publisher_ok ops db" and "db_posts db' = db_posts db" and "db_jobs db' = db_jobs db"
    and "distinct (map ch_id (db_channels db'))"
  shows "publisher_move ops db db'"
proof -
  have "slots_exclusive db' \<longleftrightarrow> slots_exclusive db" unfolding slots_exclusive_def assms(2) ..
  then show ?thesis using assms by (simp add: publisher_move_def publisher_ok_def table_step_refl)
qed

lemma publisher_op_move:
  assumes "publisher_op ops db db'" and ok: "publisher_ok ops db"
  shows "publisher_move ops db db'"
  using assms
proof (cases rule: publisher_op.cases)
  case (op_media media)
  then show ?thesis using publisher_same_move [OF ok] ok by (simp add: publisher_ok_def)
next
  case (op_channels channels)
  then show ?thesis using publisher_same_move [OF ok] by simp
qed (use ok in \<open>auto intro!: publisher_change_move publisher_changes publisher_jobs_move worker_jobs_change\<close>)

lemma publisher_run:
  assumes "(publisher_op ops)\<^sup>*\<^sup>* db db'" and "publisher_ok ops db"
  shows "publisher_ok ops db' \<and> posts_change\<^sup>*\<^sup>* (db_posts db) (db_posts db') \<and>
         (slots_exclusive db \<longrightarrow> slots_exclusive db')"
  using assms
proof (induction rule: rtranclp_induct)
  case (step y z)
  then have "publisher_move ops y z" using publisher_op_move by blast
  then show ?case using step by (auto simp: publisher_move_def intro: rtranclp.rtrancl_into_rtrancl)
qed auto

section \<open>The send\<close>

lemma lock_aggregate_row:
  assumes "publisher_ok ops db" and "p \<in> set (db_posts db)" and "pw_id p = i"
    and "channel \<in> set (db_channels db)" and "ch_id channel = pw_channel_id p"
  shows "lock_aggregate db i = Inr (channel, p)"
proof -
  have posts: "table_ok pw_id post_inv (db_posts db)" and ch: "distinct (map ch_id (db_channels db))"
    using assms(1) by (auto simp: publisher_ok_def)
  have "select_one (\<lambda>q. pw_id q = i) (db_posts db) = Some p"
    using assms(2,3) by (intro select_one_key [OF posts]) auto
  moreover have "select_one (\<lambda>c. ch_id c = pw_channel_id p) (db_channels db) = Some channel"
    using assms(4,5) ch select_one_key [of ch_id "\<lambda>_. True" "db_channels db" channel]
    by (auto simp: table_ok_def list_all_iff)
  ultimately show ?thesis
    by (simp add: lock_aggregate_def post_channel_id_def lock_channel_def lock_post_def)
qed

lemma claim_publish_tx_Inr:
  assumes "claim_publish_tx ops env i v attempt db = Inr (db', channel, row)" and "publisher_ok ops db"
  obtains p where "p \<in> set (db_posts db)" "pw_id p = i" "pw_state p = lit ''queued''" "pw_revision p = v"
    "row = sending_row env (v + 1) p" "row \<in> set (db_posts db')" "db_jobs db' = db_jobs db"
    "db_channels db' = db_channels db" "channel \<in> set (db_channels db)" "ch_id channel = pw_channel_id p"
    "\<exists>r\<in>set (db_jobs db). is_current_attempt ops env i attempt r" "columns_in_range row"
proof -
  let ?P = "\<lambda>p. pw_id p = i \<and> pw_state p = lit ''queued'' \<and> pw_revision p = v"
  obtain current r where lock: "lock_aggregate db i = Inr (channel, current)"
    and r: "lock_current_job_attempt ops env i attempt db = Inr r" and v: "pw_revision current = v"
    and upd: "update_post_row ?P (sending_row env (v + 1)) PublisherDatabase db = Inr (db', row)"
    using assms(1) by (auto simp: claim_publish_tx_def result_simps split: if_splits)
  note lock' = lock_aggregate_Inr [OF lock assms(2)]
  obtain p where p: "p \<in> set (db_posts db)" "?P p" "row = sending_row env (v + 1) p"
    and db': "db' = db\<lparr>db_posts := update_where ?P (sending_row env (v + 1)) (db_posts db)\<rparr>"
    using upd by (rule update_post_row_Inr)
  have "p = current" using lock'(5) p by blast
  moreover have "row \<in> set (db_posts db')" using p by (auto simp: db' set_update_where)
  moreover have "\<exists>r\<in>set (db_jobs db). is_current_attempt ops env i attempt r"
    using r by (auto simp: lock_current_job_attempt_def result_simps dest: select_one_Some)
  moreover have "columns_in_range row"
    using upd by (rule update_post_row_range)
  ultimately show ?thesis using that p lock'(3,4) db' by auto
qed

lemma lock_current_job_attempt_iff:
  "(\<exists>r. lock_current_job_attempt ops env i attempt db = Inr r) \<longleftrightarrow>
     (\<exists>r\<in>set (db_jobs db). is_current_attempt ops env i attempt r)"
  unfolding lock_current_job_attempt_def result_simps
  using select_one_None [of "is_current_attempt ops env i attempt" "db_jobs db"] select_one_Some by fastforce

lemma into_post_fields:
  assumes "into_post ops p = Inr x"
  shows "po_send_generation x = pw_send_generation p" "po_send_token x = pw_send_token p"
    "po_telegram_message_id x = pw_telegram_message_id p" "row_state p = Inr (po_state x)" "po_id x = pw_id p"
  using assms by (auto simp: into_post_def result_simps)

lemma into_post_same:
  assumes "into_post ops p = Inr x" and "pw_state q \<in> range post_state_as_str"
    and "pw_requested_action q = pw_requested_action p" and "pw_repeat_evidence q = pw_repeat_evidence p"
  shows "\<exists>y. into_post ops q = Inr y"
proof -
  obtain s where "row_state q = Inr s"
    using assms(2) post_state_enum.try_from_as_str by (auto simp: row_state_def elim!: rangeE)
  moreover obtain a where "row_action q = Inr a"
    using assms(1,3) by (auto simp: into_post_def row_action_def result_simps)
  moreover obtain e where "(case pw_repeat_evidence q of None \<Rightarrow> Inr None
      | Some v \<Rightarrow> map_ok Some (ok_or (op_evidence_from_value ops v) Serialization)) = Inr e"
    using assms(1,4) by (auto simp: into_post_def result_simps)
  ultimately show ?thesis by (simp add: into_post_def)
qed

lemma commit_Inr:
  assumes "commit db tx decode = (db', Inr y)"
  obtains x where "tx = Inr (db', x)" "decode x = Inr y"
  using assms by (auto simp: commit_def split: sum.splits)

lemma commit_Inl: "tx = Inl e \<Longrightarrow> commit db tx decode = (db, Inl e)"
  by (simp add: commit_def)

lemma commit_fails: "(\<And>x. tx \<noteq> Inr x) \<Longrightarrow> \<exists>e. commit db tx decode = (db, Inl e)"
  by (cases tx) (auto simp: commit_def)

lemma row_state_lit [simp]:
  "pw_state p = lit ''sending'' \<Longrightarrow> row_state p = Inr Sending"
  "pw_state p = lit ''published'' \<Longrightarrow> row_state p = Inr Published"
  "pw_state p = lit ''queued'' \<Longrightarrow> row_state p = Inr PostQueued"
  using post_state_enum.try_from_as_str [of Sending] post_state_enum.try_from_as_str [of Published]
    post_state_enum.try_from_as_str [of PostQueued]
  by (simp_all add: row_state_def)

lemma complete_publish_published:
  assumes "publisher_ok ops db" and "p \<in> set (db_posts db)" and "pw_id p = i" and "pw_state p = lit ''published''"
    and "channel \<in> set (db_channels db)" and "ch_id channel = pw_channel_id p" and "0 < m"
    and "\<exists>r\<in>set (db_jobs db). is_current_attempt ops env i (pl_attempt lease) r"
  shows "complete_publish_tx ops env i lease m db =
     (if pw_send_generation p \<noteq> pl_generation lease \<or> pw_telegram_message_id p \<noteq> Some m
      then Inl (PublishConflict i) else Inr (db, (channel, p)))"
proof -
  obtain r where "lock_current_job_attempt ops env i (pl_attempt lease) db = Inr r"
    using assms(8) lock_current_job_attempt_iff by blast
  then show ?thesis
    using lock_aggregate_row [OF assms(1-3,5,6)] assms(4,7) by (simp add: complete_publish_tx_def)
qed

lemma complete_publish_sending:
  assumes "publisher_ok ops db" and "p \<in> set (db_posts db)" and "send_row i lease p"
    and "channel \<in> set (db_channels db)" and "ch_id channel = pw_channel_id p" and "0 < m"
    and "\<exists>r\<in>set (db_jobs db). is_current_attempt ops env i (pl_attempt lease) r"
    and "columns_in_range (published_row env m p)"
  shows "complete_publish_tx ops env i lease m db =
     Inr (db\<lparr>db_posts := update_where (send_row i lease) (published_row env m) (db_posts db)\<rparr>,
          (channel, published_row env m p))"
proof -
  have s: "pw_id p = i" "pw_state p = lit ''sending''" "pw_send_generation p = pl_generation lease"
    "pw_send_token p = Some (pl_token lease)" using assms(3) by (auto simp: send_row_def)
  have posts: "table_ok pw_id post_inv (db_posts db)" using assms(1) by (simp add: publisher_ok_def)
  obtain r where r: "lock_current_job_attempt ops env i (pl_attempt lease) db = Inr r"
    using assms(7) lock_current_job_attempt_iff by blast
  have one: "q = p" if "q \<in> set (db_posts db)" "send_row i lease q" for q
    using table_ok_key [OF posts that(1) assms(2)] that(2) s(1) by (simp add: send_row_def)
  have "select_one (send_row i lease) (db_posts db) = Some p"
    by (rule select_one_key [where P = "send_row i lease", OF posts assms(2,3)]) (drule (1) one, simp)
  then have "fetch_optional (returning (send_row i lease) (published_row env m) (db_posts db)) =
      Some (published_row env m p)" by (simp add: returning_select_one)
  moreover have "list_all columns_in_range (returning (send_row i lease) (published_row env m) (db_posts db))"
    using assms(8) by (auto simp: returning_def list_all_iff dest!: one)
  ultimately have "update_post_row (send_row i lease) (published_row env m) PublisherDatabase db =
      Inr (db\<lparr>db_posts := update_where (send_row i lease) (published_row env m) (db_posts db)\<rparr>, published_row env m p)"
    by (simp add: update_post_row_def update_posts_def Let_def)
  then show ?thesis
    using lock_aggregate_row [OF assms(1,2) s(1) assms(4,5)] r s(2-4) assms(6)
    by (simp add: complete_publish_tx_def)
qed

section \<open>Replays\<close>

lemma queue_post_job_posts:
  assumes "queue_post_job ops env state at (db1, row) = Inr (db2, x)" and "publisher_ok ops db1"
  shows "x = row" "db_posts db2 = db_posts db1" "db_channels db2 = db_channels db1"
proof -
  have "jobs_moved ops db1 db2"
    using assms
    by (auto simp: queue_post_job_def result_simps split: if_splits
        intro: insert_publish_job_moved update_publish_job_moved)
  then show "db_posts db2 = db_posts db1" "db_channels db2 = db_channels db1" by (auto simp: jobs_moved_def)
  show "x = row" using assms(1) by (auto simp: queue_post_job_def result_simps)
qed

lemma update_post_row_in:
  assumes "update_post_row P f e db = Inr (db', row)"
  shows "row \<in> set (db_posts db')" "db_channels db' = db_channels db"
proof -
  obtain p where "p \<in> set (db_posts db)" "P p" "row = f p"
    "db' = db\<lparr>db_posts := update_where P f (db_posts db)\<rparr>" using assms by (rule update_post_row_Inr)
  then show "row \<in> set (db_posts db')" "db_channels db' = db_channels db" by (auto simp: set_update_where)
qed

lemma schedule_post_tx_replay:
  assumes tx: "schedule_post_tx ops env schedule db = Inr (db', x)" and ok: "publisher_ok ops db"
  shows "schedule_post_tx ops env2 schedule db' = Inr (db', x)"
proof -
  obtain channel current state where lock: "lock_aggregate db (ps_post_id schedule) = Inr (channel, current)"
    and st: "row_state current = Inr state"
    using tx by (auto simp: schedule_post_tx_def result_simps)
  let ?h = "schedule_request_hash ops schedule"
  note lock' = lock_aggregate_Inr [OF lock ok]
  show ?thesis
  proof (cases "pw_schedule_request_key current = Some (ps_request_key schedule)")
    case True
    then show ?thesis using tx lock st by (auto simp: schedule_post_tx_def Let_def split: if_splits)
  next
    case False
    obtain slot db1 row where slot: "next_free_slot ops env db channel (pw_id current) (ps_requested_at schedule) = Inr slot"
      and upd: "update_post_row (\<lambda>p. pw_id p = pw_id current \<and> queue_mutable_row p)
         (scheduled_row env (ps_request_key schedule) ?h slot (Some slot)
            (pw_revision current + 1)) (PostCannotBeScheduled (pw_id current) state) db = Inr (db1, row)"
      and job: "queue_post_job ops env state slot (db1, row) = Inr (db', x)"
      and ev: "pw_repeat_evidence current = None"
      using tx lock st False
      by (auto simp: schedule_post_tx_def result_simps Let_def dest: ensure_schedulable_evidence split: if_splits)
    have ch: "publisher_change ops db db1"
      and row: "row = scheduled_row env (ps_request_key schedule) ?h slot (Some slot) (pw_revision current + 1) current"
      using locked_update_change [OF upd lock ok] lock'(2,4) scheduled_safe [OF _ next_free_slot_free [OF slot] ev]
      by auto
    have ok1: "publisher_ok ops db1" using publisher_change_ok ch ok by blast
    note job' = queue_post_job_posts [OF job ok1]
    have ok': "publisher_ok ops db'"
      using schedule_post_change [OF ok, of env schedule] tx publisher_change_ok ok
      by (simp add: schedule_post_def commit_def)
    have "lock_aggregate db' (ps_post_id schedule) = Inr (channel, row)"
    proof (rule lock_aggregate_row [OF ok'])
      show "row \<in> set (db_posts db')" using update_post_row_in(1) [OF upd] job'(2) by simp
      show "pw_id row = ps_post_id schedule" using row lock'(2) by (simp add: scheduled_row_def)
      show "channel \<in> set (db_channels db')" using update_post_row_in(2) [OF upd] job'(3) lock'(3) by simp
      show "ch_id channel = pw_channel_id row" using row lock'(4) by (simp add: scheduled_row_def)
    qed
    moreover have "row_state row = Inr PostQueued" using row by (simp add: scheduled_row_def)
    ultimately show ?thesis
      using job'(1) row by (simp add: schedule_post_tx_def Let_def scheduled_row_def)
  qed
qed

lemma settle_terminal_send:
  assumes "settle_terminal_publication_post env i p v c m db = Inr db'" and "publisher_ok ops db"
    and "p \<in> set (db_posts db)" and "pw_id p = i"
  shows "\<exists>q\<in>set (db_posts db'). pw_id q = i \<and> pw_state q \<noteq> lit ''sending'' \<and>
           (pw_state p = lit ''sending'' \<longrightarrow> pw_state q = lit ''unknown'')"
proof (cases "pw_state p = lit ''sending''")
  case True
  let ?P = "\<lambda>q. pw_id q = i \<and> pw_state q = lit ''sending''"
  obtain rows where "update_posts ?P (send_ended_next env (lit ''unknown'') c m) db = Inr (db', rows)"
    using assms(1) True by (auto simp: settle_terminal_publication_post_def result_simps)
  from update_posts_Inr(1) [OF this] have "send_ended_next env (lit ''unknown'') c m p \<in> set (db_posts db')"
    using assms(3,4) True by (auto simp: set_update_where)
  then show ?thesis
    using assms(4) by (intro bexI [of _ "send_ended_next env (lit ''unknown'') c m p"])
      (auto simp: send_ended_next_def send_ended_row_def)
next
  case False
  have "posts_change (db_posts db) (db_posts db')"
    using settle_terminal_change [OF assms(1), where ops = ops] by (simp add: publisher_change_def)
  then obtain q where q: "q \<in> set (db_posts db')" "pw_id q = pw_id p" "q = p \<or> post_transition p q"
    using assms(3) by (cases rule: table_step.cases) (fastforce simp: post_transition_def)+
  have "pw_state q \<noteq> lit ''sending''"
  proof (cases "db' = db")
    case True
    then have "q = p" using q assms(2,3) by (auto simp: publisher_ok_def intro: table_ok_key)
    then show ?thesis using False by simp
  next
    case changed: False
    then obtain rows where
      "update_posts (\<lambda>q. pw_id q = i \<and> pw_state q = lit ''queued'' \<and> pw_revision q = pw_revision p)
         (send_ended_next env (lit ''failed'') c m) db = Inr (db', rows)"
      using assms(1) False
      by (auto simp: settle_terminal_publication_post_def result_simps split: if_splits)
    from update_posts_Inr(1) [OF this] q(1) obtain r where r: "r \<in> set (db_posts db)"
      "q = r \<or> q = send_ended_next env (lit ''failed'') c m r" by (auto simp: set_update_where elim!: imageE)
    from r(2) show ?thesis
    proof
      assume "q = r"
      then have "q = p" using r(1) q(2) assms(2,3) by (auto simp: publisher_ok_def intro: table_ok_key)
      then show ?thesis using False by simp
    qed (simp add: send_ended_next_def send_ended_row_def)
  qed
  then show ?thesis using q False assms(4) by auto
qed

lemma publish_payload_owner:
  assumes "validate_locked_command codec job (PublishPost wanted) = Inr command"
    and "publish_payload command = Inr payload"
  shows "ppp_post_id payload = ppp_post_id wanted"
  using assms
  by (cases command) (auto simp: validate_locked_command_def commands_have_same_owner_def result_simps Let_def
      split: if_splits)

section \<open>Properties\<close>

text \<open>The repository refines the life cycle of posts: every operation keeps the keys and CHECK
  constraints of the schema, and each post of the table is afterwards either untouched or has made
  exactly one allowed move, with its revision raised by one and its send generation raised exactly
  when a send begins.\<close>

theorem publisher_refines_lifecycle:
  assumes "publisher_ok ops db" and "publisher_op ops db db'" and "p \<in> set (db_posts db)"
  shows "publisher_ok ops db' \<and> (\<exists>q\<in>set (db_posts db'). q = p \<or> post_transition p q)"
proof -
  have move: "publisher_move ops db db'" using publisher_op_move assms by blast
  then have "posts_change (db_posts db) (db_posts db')" by (simp add: publisher_move_def)
  then have "\<exists>q\<in>set (db_posts db'). q = p \<or> post_transition p q"
    using assms(3) by (cases rule: table_step.cases) auto
  then show ?thesis using move by (simp add: publisher_move_def)
qed

text \<open>Published, unknown and cancelled posts are final: no sequence of operations changes them.\<close>

theorem final_posts_stay:
  assumes "publisher_ok ops db" and "(publisher_op ops)\<^sup>*\<^sup>* db db'" and "p \<in> set (db_posts db)"
    and "pw_state p \<in> {lit ''published'', lit ''unknown'', lit ''cancelled''}"
  shows "p \<in> set (db_posts db')"
proof -
  obtain q where q: "q \<in> set (db_posts db')" "post_transition\<^sup>*\<^sup>* p q"
    using posts.row_history publisher_run [OF assms(2,1)] assms(3) by blast
  have "\<not> post_transition p r" for r
    using assms(4) by (auto simp: post_transition_def post_identity_def post_moves_def)
  with q(2) have "q = p" by (metis converse_rtranclpE)
  with q(1) show ?thesis by simp
qed

lemma transitions_revision:
  "post_transition\<^sup>*\<^sup>* p q \<Longrightarrow> pw_revision p \<le> pw_revision q \<and> pw_send_generation p \<le> pw_send_generation q \<and>
     (pw_revision q = pw_revision p \<longrightarrow> q = p)"
  by (induction rule: rtranclp_induct) (auto simp: post_transition_def)

text \<open>Revisions identify versions: along any run the revision and the send generation of a post
  never decrease, and a post that still has the same revision is still the same row, which is what
  the expected revision of an edit relies on.\<close>

theorem revision_identifies_row:
  assumes "publisher_ok ops db" and "(publisher_op ops)\<^sup>*\<^sup>* db db'" and "p \<in> set (db_posts db)"
  shows "\<exists>q\<in>set (db_posts db'). pw_id q = pw_id p \<and> pw_revision p \<le> pw_revision q \<and>
           pw_send_generation p \<le> pw_send_generation q \<and> (pw_revision q = pw_revision p \<longrightarrow> q = p)"
proof -
  obtain q where q: "q \<in> set (db_posts db')" "pw_id q = pw_id p" "post_transition\<^sup>*\<^sup>* p q"
    using posts.row_history publisher_run [OF assms(2,1)] assms(3) by blast
  with transitions_revision [OF q(3)] show ?thesis by blast
qed

text \<open>Cadence slots are exclusive: if no two queued or sending posts of a channel share a slot,
  then after any run of operations none do.\<close>

theorem cadence_slots_exclusive:
  assumes "publisher_ok ops db" and "(publisher_op ops)\<^sup>*\<^sup>* db db'" and "slots_exclusive db"
    and "p \<in> set (db_posts db')" and "q \<in> set (db_posts db')" and "holds_slot p" and "holds_slot q"
    and "pw_channel_id p = pw_channel_id q" and "pw_cadence_slot_at p = pw_cadence_slot_at q"
  shows "p = q"
proof -
  have run: "publisher_ok ops db'" "slots_exclusive db'" using publisher_run [OF assms(2,1)] assms(3) by auto
  then have "pw_id p = pw_id q" using assms(4-9) unfolding slots_exclusive_def by blast
  then show ?thesis using run(1) assms(4,5) by (auto simp: publisher_ok_def intro: table_ok_key)
qed

text \<open>(C15) A send is claimed once: \<open>claim_publish\<close> succeeds only for the queued post at the expected
  revision and only under a live lease of its publication job; it puts the post into \<open>sending\<close> under
  a fresh token and the next generation, and every further claim fails and changes nothing.\<close>

theorem claim_publish_exclusive:
  assumes ok: "publisher_ok ops db" and claim: "claim_publish ops env i v attempt db = (db', Inr c)"
  shows "\<exists>p\<in>set (db_posts db). pw_id p = i \<and> pw_state p = lit ''queued'' \<and> pw_revision p = v \<and>
           (\<exists>r\<in>set (db_jobs db). is_current_attempt ops env i attempt r) \<and>
           sending_row env (v + 1) p \<in> set (db_posts db') \<and>
           (\<forall>env2 v2 attempt2. \<exists>e. claim_publish ops env2 i v2 attempt2 db' = (db', Inl e))"
proof -
  obtain channel row where tx: "claim_publish_tx ops env i v attempt db = Inr (db', channel, row)"
    using claim unfolding claim_publish_def by (elim commit_Inr) auto
  obtain p where p: "p \<in> set (db_posts db)" "pw_id p = i" "pw_state p = lit ''queued''" "pw_revision p = v"
    and row: "row = sending_row env (v + 1) p" "row \<in> set (db_posts db')"
    and r: "\<exists>r\<in>set (db_jobs db). is_current_attempt ops env i attempt r"
    using tx ok by (rule claim_publish_tx_Inr)
  have ok': "publisher_ok ops db'"
    using claim_publish_change [OF ok, of env i v attempt] claim publisher_change_ok ok by (metis fst_conv)
  have "\<exists>e. claim_publish ops env2 i v2 attempt2 db' = (db', Inl e)" for env2 v2 attempt2
  proof (cases "claim_publish_tx ops env2 i v2 attempt2 db'")
    case (Inr x)
    obtain d ch q where x: "x = (d, ch, q)" by (cases x)
    obtain p' where p': "p' \<in> set (db_posts db')" "pw_id p' = i" "pw_state p' = lit ''queued''"
      using Inr [unfolded x] ok' by (rule claim_publish_tx_Inr)
    have "p' = row"
      using ok' p' row p(2) by (auto simp: publisher_ok_def sending_row_def intro: table_ok_key)
    with p'(3) row(1) show ?thesis by (simp add: sending_row_def)
  qed (auto simp: claim_publish_def commit_Inl)
  with p row r show ?thesis by blast
qed

text \<open>(C36) A stale send is fenced: a lease whose generation and token are not those of the post's
  current send cannot publish, fail or retry it; the state is left as it is.\<close>

theorem stale_send_fenced:
  assumes ok: "publisher_ok ops db" and p: "p \<in> set (db_posts db)" "pw_id p = i"
    and stale: "\<not> send_row i lease p" "pw_state p \<noteq> lit ''published''"
  shows "(\<exists>e. complete_publish ops env i lease m db = (db, Inl e)) \<and>
         (\<exists>e. fail_publish ops env i lease state class text db = (db, Inl e)) \<and>
         (\<exists>e. retry_publish ops env i lease class text db = (db, Inl e))"
proof -
  have only: "q = p" if "q \<in> set (db_posts db)" "pw_id q = i" for q
    using ok that p by (auto simp: publisher_ok_def intro: table_ok_key)
  have none: "update_post_row (send_row i lease) f e db \<noteq> Inr x" for f e x
  proof
    assume "update_post_row (send_row i lease) f e db = Inr x"
    then obtain q where q: "q \<in> set (db_posts db)" "send_row i lease q"
      using update_post_row_Inr [of "send_row i lease" f e db "fst x" "snd x"] by auto
    then have "q = p" using only by (simp add: send_row_def)
    then show False using q stale(1) by simp
  qed
  have "complete_publish_tx ops env i lease m db \<noteq> Inr x" for x
  proof
    assume c: "complete_publish_tx ops env i lease m db = Inr x"
    then obtain channel current s where lock: "lock_aggregate db i = Inr (channel, current)"
      and s: "row_state current = Inr s" by (auto simp: complete_publish_tx_def result_simps split: if_splits)
    have "current = p" using only lock_aggregate_Inr(1,2) [OF lock ok] by blast
    then have "s \<noteq> Published" using s stale(2) row_state_Inr by fastforce
    with c lock s none show False
      by (auto simp: complete_publish_tx_def result_simps split: if_splits)
  qed
  moreover have "fail_publish_tx ops env i lease state class text db \<noteq> Inr x" for x
    using none by (auto simp: fail_publish_tx_def result_simps split: if_splits)
  moreover have "retry_publish_tx ops env i lease class text db \<noteq> Inr x" for x
    using none by (auto simp: retry_publish_tx_def result_simps Let_def split: if_splits)
  ultimately show ?thesis
    by (simp add: complete_publish_def fail_publish_def retry_publish_def commit_fails)
qed

text \<open>(C33) A claimed send is published exactly once: while its job lease is live, completing it with a
  message id publishes the post; completing it again with the same id returns the same message and
  changes nothing, and any other id is reported as a conflict.\<close>

theorem claim_complete_publish:
  assumes ok: "publisher_ok ops db" and claim: "claim_publish ops env i v attempt db = (db1, Inr c)"
    and live: "\<exists>r\<in>set (db_jobs db). is_current_attempt ops env2 i attempt r"
    and m: "0 < m" and rev: "v + 2 < 2 ^ 63"
  defines "lease \<equiv> \<lparr>pl_generation = po_send_generation (pc_post c),
                     pl_token = the (po_send_token (pc_post c)), pl_attempt = attempt\<rparr>"
  shows "\<exists>db2 msg. complete_publish ops env2 i lease m db1 = (db2, Inr msg) \<and>
           po_state (pm_post msg) = Published \<and> po_telegram_message_id (pm_post msg) = Some m \<and>
           (\<forall>env3. (\<exists>r\<in>set (db_jobs db). is_current_attempt ops env3 i attempt r) \<longrightarrow>
              complete_publish ops env3 i lease m db2 = (db2, Inr msg) \<and>
              (\<forall>m'. 0 < m' \<and> m' \<noteq> m \<longrightarrow>
                 complete_publish ops env3 i lease m' db2 = (db2, Inl (PublishConflict i))))"
proof -
  obtain channel row where tx: "claim_publish_tx ops env i v attempt db = Inr (db1, channel, row)"
    and post: "into_post ops row = Inr (pc_post c)"
    using claim unfolding claim_publish_def by (elim commit_Inr) (auto simp: result_simps)
  obtain p where p: "p \<in> set (db_posts db)" "pw_id p = i" "pw_revision p = v"
    and row: "row = sending_row env (v + 1) p" "row \<in> set (db_posts db1)"
    and db1: "db_jobs db1 = db_jobs db" "db_channels db1 = db_channels db"
    and ch: "channel \<in> set (db_channels db)" "ch_id channel = pw_channel_id p"
    and cols: "columns_in_range row"
    using tx ok by (rule claim_publish_tx_Inr)
  have ok1: "publisher_ok ops db1"
    using claim_publish_change [OF ok, of env i v attempt] claim publisher_change_ok ok by (metis fst_conv)
  have send: "send_row i lease row"
    using into_post_fields [OF post] row(1) p(2) by (simp add: send_row_def lease_def sending_row_def)
  let ?q = "published_row env2 m row"
  let ?db2 = "db1\<lparr>db_posts := update_where (send_row i lease) (published_row env2 m) (db_posts db1)\<rparr>"
  have range: "columns_in_range ?q"
    using cols rev row(1) by (simp add: columns_in_range_def published_row_def sending_row_def)
  have live1: "\<exists>r\<in>set (db_jobs db1). is_current_attempt ops env2 i (pl_attempt lease) r"
    using live db1(1) by (simp add: lease_def)
  have chrow: "channel \<in> set (db_channels db1)" "ch_id channel = pw_channel_id row"
    using ch db1(2) row(1) by (simp_all add: sending_row_def)
  have com: "complete_publish_tx ops env2 i lease m db1 = Inr (?db2, (channel, ?q))"
    by (rule complete_publish_sending [OF ok1 row(2) send chrow m live1 range])
  have ok2: "publisher_ok ops ?db2"
    using complete_publish_change [OF ok1, of env2 i lease m] com publisher_change_ok ok1
    by (simp add: complete_publish_def commit_def)
  have q: "?q \<in> set (db_posts ?db2)" "pw_id ?q = i" "pw_state ?q = lit ''published''"
    "pw_send_generation ?q = pl_generation lease" "pw_telegram_message_id ?q = Some m"
    "ch_id channel = pw_channel_id ?q"
    using row(2) send chrow(2) by (auto simp: set_update_where published_row_def send_row_def)
  obtain y where y: "into_post ops ?q = Inr y"
    using into_post_same [OF post, of ?q] by (auto simp: published_row_def)
  let ?msg = "\<lparr>pm_post = y, pm_channel_chat_id = ch_telegram_chat_id channel\<rparr>"
  have first: "complete_publish ops env2 i lease m db1 = (?db2, Inr ?msg)"
    using com y by (simp add: complete_publish_def commit_def)
  have again: "complete_publish_tx ops env3 i lease k ?db2 =
      (if k \<noteq> m then Inl (PublishConflict i) else Inr (?db2, (channel, ?q)))"
    if "\<exists>r\<in>set (db_jobs db). is_current_attempt ops env3 i attempt r" "0 < k" for env3 k
    using complete_publish_published [OF ok2 q(1,2,3) _ q(6) that(2), of env3 lease] that(1) q(4,5) chrow(1) db1(1)
    by (auto simp: lease_def)
  have "po_state y = Published" "po_telegram_message_id y = Some m"
    using into_post_fields [OF y] q(3,5) by auto
  with first again m y show ?thesis
    by (intro exI [of _ ?db2] exI [of _ ?msg]) (simp add: complete_publish_def commit_def)
qed

text \<open>Scheduling is idempotent in its request key: repeating a schedule that succeeded, at any
  later time, returns the same post and changes neither posts nor jobs.\<close>

theorem schedule_post_idempotent:
  assumes "publisher_ok ops db" and "schedule_post ops env schedule db = (db', Inr post)"
  shows "schedule_post ops env2 schedule db' = (db', Inr post)"
proof -
  obtain x where "schedule_post_tx ops env schedule db = Inr (db', x)" "into_post ops x = Inr post"
    using assms(2) unfolding schedule_post_def by (rule commit_Inr)
  with schedule_post_tx_replay [OF this(1) assms(1)] show ?thesis
    by (simp add: schedule_post_def commit_def)
qed

text \<open>Optimistic concurrency: an edit, a cancellation or a new schedule that names another
  revision than the post has is refused and changes nothing.\<close>

theorem stale_revision_refused:
  assumes ok: "publisher_ok ops db" and p: "p \<in> set (db_posts db)"
    and "pw_revision p \<noteq> pu_expected_revision update" and "pw_revision p \<noteq> v"
    and "pw_id p = ps_post_id schedule" and "pw_revision p \<noteq> ps_expected_revision schedule"
    and "pw_schedule_request_key p \<noteq> Some (ps_request_key schedule)"
  shows "(\<exists>e. update_post ops env (pw_id p) update db = (db, Inl e)) \<and>
         (\<exists>e. cancel_post ops env (pw_id p) v db = (db, Inl e)) \<and>
         (\<exists>e. schedule_post ops env schedule db = (db, Inl e))"
proof -
  have lock: "current = p" if "lock_aggregate db (pw_id p) = Inr (channel, current)" for channel current
    using lock_aggregate_Inr(1,2) [OF that ok] ok p by (auto simp: publisher_ok_def intro: table_ok_key)
  have "update_post_tx ops env (pw_id p) update db \<noteq> Inr x" for x
    using assms(3) by (auto simp: update_post_tx_def result_simps dest!: lock split: if_splits)
  moreover have "cancel_post_tx ops env (pw_id p) v db \<noteq> Inr x" for x
    using assms(4) by (auto simp: cancel_post_tx_def result_simps dest!: lock split: if_splits)
  moreover have "schedule_post_tx ops env schedule db \<noteq> Inr x" for x
    using assms(5-7)
    by (auto simp: schedule_post_tx_def ensure_schedulable_def result_simps Let_def dest!: lock [unfolded assms(5)]
        split: if_splits)
  ultimately show ?thesis by (simp add: update_post_def cancel_post_def schedule_post_def commit_fails)
qed

text \<open>No send is left open by a job that has failed for good: when a settlement fails the
  publication job of a post, the post is no longer in \<open>sending\<close>, and a post that was being sent is
  marked \<open>unknown\<close>, so it is never sent again without a person deciding.\<close>

theorem failed_job_ends_send:
  assumes ok: "publisher_ok ops db"
    and settle: "settle_publish_job ops env lease (PublishPost payload) s db = (db', Inr j)"
    and failed: "job_status j = JobFailed" and p: "p \<in> set (db_posts db)" "pw_id p = ppp_post_id payload"
  shows "\<exists>q\<in>set (db_posts db'). pw_id q = pw_id p \<and> pw_state q \<noteq> lit ''sending'' \<and>
           (pw_state p = lit ''sending'' \<longrightarrow> pw_state q = lit ''unknown'')"
proof -
  obtain row where tx: "settle_publish_tx ops env lease (PublishPost payload) s db = Inr (db', row)"
    and j: "into_job (op_codec ops) row = Inr j"
    using settle by (auto simp: settle_publish_job_def split: sum.splits)
  have posts: "table_ok pw_id post_inv (db_posts db)" using ok by (simp add: publisher_ok_def)
  have post: "lock_publication_post db (ppp_post_id payload) = Some p"
    unfolding lock_publication_post_def using p by (intro select_one_key [OF posts]) auto
  obtain job command stored db1 where
    cmd: "validate_locked_command (op_codec ops) job (PublishPost payload) = Inr command"
      "publish_payload command = Inr stored"
    and t: "when_terminal (qu_terminal (queue_parameters job s)) (Some p) (\<lambda>post.
          settle_terminal_publication_post env (ppp_post_id stored) post (ppp_expected_revision stored)
            (qu_error_class (queue_parameters job s)) (qu_error_message (queue_parameters job s)) db) db = Inr db1"
    and upd: "update_locked_publication env (jr_id job) (queue_parameters job s) db1 = Inr (db', row)"
    using tx post by (auto simp: settle_publish_tx_def result_simps Let_def)
  have posts1: "db_posts db' = db_posts db1"
    using upd by (auto simp: update_locked_publication_def result_simps)
  have "jr_state row = qu_state (queue_parameters job s)"
    using upd by (auto simp: update_locked_publication_def update_locked_job_def result_simps Let_def returning_def
        settled_row_def dest!: fetch_optional_in elim!: imageE)
  moreover have "jr_state row = lit ''failed''"
    using into_job_fields(6) [OF j] failed job_status_enum.try_from_Inr by fastforce
  ultimately have "qu_terminal (queue_parameters job s)"
    using queue_parameters_state [of job s] by (auto split: if_splits)
  with t have "settle_terminal_publication_post env (ppp_post_id stored) p (ppp_expected_revision stored)
      (qu_error_class (queue_parameters job s)) (qu_error_message (queue_parameters job s)) db = Inr db1"
    by (simp add: when_terminal_def)
  from settle_terminal_send [OF this ok p(1)] publish_payload_owner [OF cmd] p(2) posts1 show ?thesis by simp
qed

section \<open>Witnesses\<close>

text \<open>A channel, a ready media item, one post and its claimed publication job.\<close>

fun plain_post_id :: "plain_value \<Rightarrow> ustring option" where
  "plain_post_id (PublishValue p) = Some [unat (ppp_post_id p)]"
| "plain_post_id _ = None"

definition plain_ops :: "(plain_value, unit) publisher_ops" where
  "plain_ops =
     \<lparr>op_codec = plain_codec, op_tz = utc_ops, op_sha256 = (\<lambda>b. b), op_payload_post_id = plain_post_id,
      op_uuid_text = (\<lambda>u. [unat u]), op_evidence_from_value = (\<lambda>_. None),
      op_evidence_to_value = (\<lambda>_. Some (PublishValue \<lparr>ppp_post_id = 0, ppp_expected_revision = 0\<rparr>)),
      op_value_length = (\<lambda>_. 0), op_value_text_length = (\<lambda>_. 0), op_intent_bytes = (\<lambda>_. Some [])\<rparr>"

definition queued_post :: "plain_value post_row" where
  "queued_post =
     \<lparr>pw_id = 11, pw_request_key = None, pw_request_hash = None, pw_origin_ingest_id = None, pw_requested_action = lit ''queue'',
      pw_requested_publish_at = None, pw_repeat_evidence = None, pw_decision_request_key = None,
      pw_decision_request_hash = None, pw_schedule_request_key = None, pw_schedule_request_hash = None,
      pw_media_id = 5, pw_channel_id = 3, pw_state = lit ''queued'', pw_caption = None, pw_parse_mode = None,
      pw_disable_notification = False, pw_scheduled_at = 0, pw_cadence_slot_at = Some 0,
      pw_send_generation = 0, pw_send_token = None, pw_send_started_at = None, pw_telegram_message_id = None,
      pw_published_at = None, pw_error_class = None, pw_error_message = None, pw_created_at = 0,
      pw_updated_at = 0, pw_revision = 0\<rparr>"

definition publish_attempt :: job_lease where
  "publish_attempt = \<lparr>jl_job_id = 8, jl_attempt_number = 1, jl_lease_owner = lit ''w'', jl_lease_token = 9\<rparr>"

definition claimed_publish_job :: "plain_value job_row" where
  "claimed_publish_job =
     claimed_row (at_time 5 9) (lit ''w'') 10 (publish_job_row plain_ops (at_time 0 8) 11 0 0 (lit ''queued''))"

definition one_post_db :: "plain_value job_table \<Rightarrow> plain_value post_row \<Rightarrow> plain_value publisher_db" where
  "one_post_db jobs p =
     \<lparr>db_jobs = jobs, db_posts = [p], db_channels = [witness_channel], db_media = [(5, lit ''ready'')]\<rparr>"

lemma plain_ops_laws: "publisher_laws plain_ops"
  using plain_codec_laws
  by (auto simp: publisher_laws_def plain_ops_def plain_codec_def inj_def word_unat_eq_iff)

lemma queued_post_inv: "post_inv queued_post"
  by (simp add: post_inv_def queued_post_def)

lemma claimed_publish_job_check: "publish_check plain_ops claimed_publish_job"
proof -
  have "job_step (publish_job_row plain_ops (at_time 0 8) 11 0 0 (lit ''queued'')) claimed_publish_job"
    unfolding claimed_publish_job_def
    by (rule claim_step [of _ "[PublishPostJob]"]) (simp add: claim_candidate_def publish_job_row_def at_time_def)
  then show ?thesis
    using publish_jobs.step_check [OF queue_move] publish_job_row_check by blast
qed

lemma one_post_ok:
  "post_inv p \<Longrightarrow> table_ok jr_id (publish_check plain_ops) jobs \<Longrightarrow> publisher_ok plain_ops (one_post_db jobs p)"
  using plain_ops_laws by (simp add: publisher_ok_def one_post_db_def table_ok_def)

lemma one_post_claimed_ok: "post_inv p \<Longrightarrow> publisher_ok plain_ops (one_post_db [claimed_publish_job] p)"
  using one_post_ok claimed_publish_job_check by (simp add: table_ok_def)

lemmas publisher_witness_defs =
  one_post_db_def plain_ops_def publish_attempt_def claimed_publish_job_def publish_job_row_def
  publish_value_def publish_key_def plain_codec_def at_time_def claimed_row_def witness_channel_def

lemma claimed_job_current:
  "is_current_attempt plain_ops (at_time 6 21) 11 publish_attempt claimed_publish_job"
  by (simp add: is_current_attempt_def publisher_witness_defs)

lemma witness_claim_publish:
  "\<exists>c. claim_publish plain_ops (at_time 6 21) 11 0 publish_attempt (one_post_db [claimed_publish_job] queued_post) =
       (one_post_db [claimed_publish_job] (sending_row (at_time 6 21) 1 queued_post), Inr c)"
proof -
  have lock: "lock_aggregate (one_post_db [claimed_publish_job] queued_post) 11 = Inr (witness_channel, queued_post)"
    by (rule lock_aggregate_row [OF one_post_claimed_ok [OF queued_post_inv]])
       (simp_all add: one_post_db_def queued_post_def witness_channel_def)
  have job: "lock_current_job_attempt plain_ops (at_time 6 21) 11 publish_attempt
      (one_post_db [claimed_publish_job] queued_post) = Inr claimed_publish_job"
    using claimed_job_current by (simp add: lock_current_job_attempt_def one_post_db_def select_one_def)
  have st: "row_state queued_post = Inr PostQueued" by (simp add: queued_post_def)
  have "claim_publish_tx plain_ops (at_time 6 21) 11 0 publish_attempt (one_post_db [claimed_publish_job] queued_post) =
      Inr (one_post_db [claimed_publish_job] (sending_row (at_time 6 21) 1 queued_post),
           witness_channel, sending_row (at_time 6 21) 1 queued_post)"
    unfolding claim_publish_tx_def lock job
    by (simp add: st ensure_channel_enabled_def ensure_media_ready_def next_revision_def
        update_post_row_def update_posts_def returning_def update_where_def select_one_def columns_in_range_def
        one_post_db_def queued_post_def witness_channel_def sending_row_def)
  moreover have "\<exists>y. into_post plain_ops (sending_row (at_time 6 21) 1 queued_post) = Inr y"
    using publication_action_enum.try_from_as_str [of QueuePublication]
    by (simp add: into_post_def row_action_def sending_row_def queued_post_def)
  ultimately show ?thesis by (auto simp: claim_publish_def commit_def)
qed

text \<open>The post while it is sent, and after.\<close>

definition sent_post :: "plain_value post_row" where
  "sent_post = sending_row (at_time 6 21) 1 queued_post"

lemma sent_post_inv: "post_inv sent_post"
  using sending_transition [of queued_post "at_time 6 21"] queued_post_inv
  by (simp add: sent_post_def post_transition_def queued_post_def)

theorem publisher_refines_lifecycle_witness:
  "\<exists>q\<in>set (db_posts (fst (claim_publish plain_ops (at_time 6 21) 11 0 publish_attempt
      (one_post_db [claimed_publish_job] queued_post)))). q = queued_post \<or> post_transition queued_post q"
  using publisher_refines_lifecycle [OF one_post_claimed_ok [OF queued_post_inv] op_claim_publish, of queued_post]
  by (simp add: one_post_db_def)

theorem final_posts_stay_witness:
  "published_row (at_time 7 0) 42 sent_post \<in>
     set (db_posts (fst (cancel_post plain_ops (at_time 8 0) 11 2
       (one_post_db [claimed_publish_job] (published_row (at_time 7 0) 42 sent_post)))))"
proof (rule final_posts_stay)
  have "post_inv (published_row (at_time 7 0) 42 sent_post)"
    using published_transition [of sent_post 42 "at_time 7 0"] sent_post_inv
    by (simp add: post_transition_def sent_post_def sending_row_def)
  then show "publisher_ok plain_ops (one_post_db [claimed_publish_job] (published_row (at_time 7 0) 42 sent_post))"
    by (rule one_post_claimed_ok)
  show "(publisher_op plain_ops)\<^sup>*\<^sup>*
      (one_post_db [claimed_publish_job] (published_row (at_time 7 0) 42 sent_post))
      (fst (cancel_post plain_ops (at_time 8 0) 11 2
        (one_post_db [claimed_publish_job] (published_row (at_time 7 0) 42 sent_post))))"
    by (blast intro: op_cancel_post)
qed (simp_all add: one_post_db_def published_row_def)

theorem revision_identifies_row_witness:
  "\<exists>q\<in>set (db_posts (fst (claim_publish plain_ops (at_time 6 21) 11 0 publish_attempt
      (one_post_db [claimed_publish_job] queued_post)))). pw_id q = 11 \<and> 0 \<le> pw_revision q"
proof -
  have "(publisher_op plain_ops)\<^sup>*\<^sup>* (one_post_db [claimed_publish_job] queued_post)
      (fst (claim_publish plain_ops (at_time 6 21) 11 0 publish_attempt (one_post_db [claimed_publish_job] queued_post)))"
    by (blast intro: op_claim_publish)
  from revision_identifies_row [OF one_post_claimed_ok [OF queued_post_inv] this, of queued_post]
  show ?thesis by (auto simp: one_post_db_def queued_post_def)
qed

theorem cadence_slots_exclusive_witness:
  "\<nexists>p. p \<in> set (db_posts (one_post_db [claimed_publish_job] sent_post)) \<and> holds_slot p \<and>
     pw_channel_id p = pw_channel_id sent_post \<and> pw_cadence_slot_at p = pw_cadence_slot_at sent_post \<and>
     p \<noteq> sent_post"
proof -
  obtain c where "claim_publish plain_ops (at_time 6 21) 11 0 publish_attempt
      (one_post_db [claimed_publish_job] queued_post) = (one_post_db [claimed_publish_job] sent_post, Inr c)"
    using witness_claim_publish by (auto simp: sent_post_def)
  then have run: "(publisher_op plain_ops)\<^sup>*\<^sup>* (one_post_db [claimed_publish_job] queued_post)
      (one_post_db [claimed_publish_job] sent_post)"
    by (metis fst_conv op_claim_publish r_into_rtranclp)
  have excl: "slots_exclusive (one_post_db [claimed_publish_job] queued_post)"
    by (simp add: slots_exclusive_def one_post_db_def)
  have "holds_slot sent_post" by (simp add: holds_slot_def sent_post_def sending_row_def queued_post_def)
  with cadence_slots_exclusive [OF one_post_claimed_ok [OF queued_post_inv] run excl, of _ sent_post]
  show ?thesis by (auto simp: one_post_db_def)
qed

theorem claim_publish_exclusive_witness:
  "\<exists>e. claim_publish plain_ops (at_time 6 33) 11 1 publish_attempt (one_post_db [claimed_publish_job] sent_post) =
     (one_post_db [claimed_publish_job] sent_post, Inl e)"
proof -
  obtain c where "claim_publish plain_ops (at_time 6 21) 11 0 publish_attempt
      (one_post_db [claimed_publish_job] queued_post) = (one_post_db [claimed_publish_job] sent_post, Inr c)"
    using witness_claim_publish by (auto simp: sent_post_def)
  from claim_publish_exclusive [OF one_post_claimed_ok [OF queued_post_inv] this] show ?thesis by blast
qed

theorem stale_send_fenced_witness:
  "\<exists>e. complete_publish plain_ops (at_time 7 0) 11
       \<lparr>pl_generation = 1, pl_token = 20, pl_attempt = publish_attempt\<rparr> 42
       (one_post_db [claimed_publish_job] sent_post) = (one_post_db [claimed_publish_job] sent_post, Inl e)"
  using stale_send_fenced [OF one_post_claimed_ok [OF sent_post_inv], of sent_post 11
      "\<lparr>pl_generation = 1, pl_token = 20, pl_attempt = publish_attempt\<rparr>"]
  by (auto simp: one_post_db_def send_row_def sent_post_def sending_row_def queued_post_def at_time_def)

theorem claim_complete_publish_witness:
  "\<exists>db msg. complete_publish plain_ops (at_time 6 21) 11
       \<lparr>pl_generation = 1, pl_token = 21, pl_attempt = publish_attempt\<rparr> 42
       (one_post_db [claimed_publish_job] sent_post) = (db, Inr msg) \<and> po_state (pm_post msg) = Published"
proof -
  obtain c where c: "claim_publish plain_ops (at_time 6 21) 11 0 publish_attempt
      (one_post_db [claimed_publish_job] queued_post) = (one_post_db [claimed_publish_job] sent_post, Inr c)"
    using witness_claim_publish by (auto simp: sent_post_def)
  then obtain x where x: "claim_publish_tx plain_ops (at_time 6 21) 11 0 publish_attempt
      (one_post_db [claimed_publish_job] queued_post) = Inr (one_post_db [claimed_publish_job] sent_post, x)"
    "map_ok (\<lambda>post. \<lparr>pc_post = post, pc_channel_chat_id = ch_telegram_chat_id (fst x)\<rparr>) (into_post plain_ops (snd x)) = Inr c"
    unfolding claim_publish_def by (elim commit_Inr) (auto split: prod.splits)
  obtain channel row where xp: "x = (channel, row)" by (cases x)
  have "row = sent_post"
    using x(1) [unfolded xp] one_post_claimed_ok [OF queued_post_inv]
    by (rule claim_publish_tx_Inr) (simp add: sent_post_def one_post_db_def)
  then have "po_send_generation (pc_post c) = 1" "po_send_token (pc_post c) = Some 21"
    using x(2) into_post_fields(1,2) [of plain_ops sent_post]
    by (auto simp: xp result_simps sent_post_def sending_row_def queued_post_def at_time_def)
  moreover have "\<exists>r\<in>set (db_jobs (one_post_db [claimed_publish_job] queued_post)).
      is_current_attempt plain_ops (at_time 6 21) 11 publish_attempt r"
    using claimed_job_current by (simp add: one_post_db_def)
  ultimately show ?thesis
    using claim_complete_publish [OF one_post_claimed_ok [OF queued_post_inv] c, of "at_time 6 21" 42] by auto
qed

theorem stale_revision_refused_witness:
  "\<exists>e. cancel_post plain_ops (at_time 6 0) 11 7 (one_post_db [] queued_post) = (one_post_db [] queued_post, Inl e)"
  using stale_revision_refused [OF one_post_ok [OF queued_post_inv, of "[]"], of queued_post
      "\<lparr>pu_caption = None, pu_parse_mode = None, pu_disable_notification = None, pu_expected_updated_at = None,
        pu_expected_revision = 7\<rparr>" 7
      "\<lparr>ps_post_id = 11, ps_requested_at = 0, ps_request_key = lit ''k'', ps_expected_revision = 7\<rparr>"]
  by (simp add: one_post_db_def queued_post_def)

definition witness_schedule :: post_schedule where
  "witness_schedule =
     \<lparr>ps_post_id = 11, ps_requested_at = 5, ps_request_key = lit ''k'', ps_expected_revision = 0\<rparr>"

definition draft_post :: "plain_value post_row" where
  "draft_post = queued_post\<lparr>pw_state := lit ''draft'', pw_cadence_slot_at := None\<rparr>"

lemma draft_post_inv: "post_inv draft_post"
  by (simp add: post_inv_def draft_post_def queued_post_def)

lemma witness_scheduled:
  "\<exists>db post. schedule_post plain_ops (at_time 0 8) witness_schedule (one_post_db [] draft_post) = (db, Inr post)"
proof -
  let ?db = "one_post_db [] draft_post"
  have lock: "lock_aggregate ?db (ps_post_id witness_schedule) = Inr (witness_channel, draft_post)"
    by (rule lock_aggregate_row [OF one_post_ok [OF draft_post_inv]])
       (simp_all add: one_post_db_def draft_post_def queued_post_def witness_channel_def witness_schedule_def)
  have st: "row_state draft_post = Inr Draft"
    using post_state_enum.try_from_as_str [of Draft] by (simp add: row_state_def draft_post_def)
  have guard: "ensure_schedulable ?db witness_channel draft_post (ps_expected_revision witness_schedule) = Inr ()"
    by (simp add: ensure_schedulable_def check_expected_revision_def ensure_repeat_decision_resolved_def
        ensure_channel_enabled_def ensure_media_ready_def select_one_def one_post_db_def draft_post_def
        queued_post_def witness_channel_def witness_schedule_def)
  have slot: "next_free_slot plain_ops (at_time 0 8) ?db witness_channel (pw_id draft_post)
      (ps_requested_at witness_schedule) = Inr (time_from_hms 8 0 0)"
    using witness_slot
    by (simp add: next_free_slot_def free_slot_def plain_ops_def at_time_def witness_schedule_def
        occupied_slots_def one_post_db_def map_filter_simps numeral_eq_Suc)
  let ?row = "scheduled_row (at_time 0 8) (lit ''k'') (schedule_request_hash plain_ops witness_schedule)
      (time_from_hms 8 0 0) (Some (time_from_hms 8 0 0)) 1 draft_post"
  have upd: "update_post_row (\<lambda>p. pw_id p = pw_id draft_post \<and> queue_mutable_row p)
      (scheduled_row (at_time 0 8) (ps_request_key witness_schedule) (schedule_request_hash plain_ops witness_schedule)
        (time_from_hms 8 0 0) (Some (time_from_hms 8 0 0)) 1) e ?db = Inr (one_post_db [] ?row, ?row)" for e
    by (simp add: update_post_row_def update_posts_def returning_def update_where_def one_post_db_def
        queue_mutable_row_def columns_in_range_def draft_post_def queued_post_def witness_schedule_def
        scheduled_row_def Let_def)
  have job: "\<exists>db. queue_post_job plain_ops (at_time 0 8) Draft (time_from_hms 8 0 0) (one_post_db [] ?row, ?row) =
      Inr (db, ?row)"
    by (simp add: queue_post_job_def insert_publish_job_def lock_publish_job_def select_one_def
        insert_publish_job_row_def dedupe_conflict_def id_conflict_def Let_def one_post_db_def)
  have "pw_schedule_request_key draft_post = None" "pw_revision draft_post = 0" "is_queue_mutable Draft"
    by (simp_all add: draft_post_def queued_post_def is_queue_mutable_def)
  then have "\<exists>db. schedule_post_tx plain_ops (at_time 0 8) witness_schedule ?db = Inr (db, ?row)"
    using job by (simp add: schedule_post_tx_def lock st guard slot upd next_revision_def Let_def)
  moreover have "\<exists>y. into_post plain_ops ?row = Inr y"
    using publication_action_enum.try_from_as_str [of QueuePublication]
    by (simp add: into_post_def row_action_def scheduled_row_def draft_post_def queued_post_def)
  ultimately show ?thesis by (auto simp: schedule_post_def commit_def)
qed

theorem schedule_post_idempotent_witness:
  "\<exists>db post. schedule_post plain_ops (at_time 0 8) witness_schedule (one_post_db [] draft_post) = (db, Inr post) \<and>
     schedule_post plain_ops (at_time 99 1) witness_schedule db = (db, Inr post)"
  using witness_scheduled schedule_post_idempotent [OF one_post_ok [OF draft_post_inv, of "[]"]]
  by (metis table_ok_Nil)

lemma witness_settled:
  "\<exists>db j. settle_publish_job plain_ops (at_time 7 0) publish_attempt
      (PublishPost \<lparr>ppp_post_id = 11, ppp_expected_revision = 0\<rparr>) (Fail (lit ''x'') (lit ''y''))
      (one_post_db [claimed_publish_job] sent_post) = (db, Inr j) \<and> job_status j = JobFailed"
  by (simp add: settle_publish_job_def settle_publish_tx_def lock_publication_post_def lock_running_job_def
      select_one_def locks_running_job_def validate_locked_command_def into_job_def when_terminal_def
      settle_terminal_publication_post_def update_posts_def returning_def update_where_def
      columns_in_range_def update_locked_publication_def update_locked_job_def settled_row_def
      commands_have_same_owner_def decode_payload_def Let_def publish_kind job_status_try_from_def
      sent_post_def sending_row_def send_ended_next_def send_ended_row_def queued_post_def publisher_witness_defs)

theorem failed_job_ends_send_witness:
  "\<exists>db j. settle_publish_job plain_ops (at_time 7 0) publish_attempt
      (PublishPost \<lparr>ppp_post_id = 11, ppp_expected_revision = 0\<rparr>) (Fail (lit ''x'') (lit ''y''))
      (one_post_db [claimed_publish_job] sent_post) = (db, Inr j) \<and>
     (\<exists>q\<in>set (db_posts db). pw_id q = 11 \<and> pw_state q = lit ''unknown'')"
proof -
  obtain db j where s: "settle_publish_job plain_ops (at_time 7 0) publish_attempt
      (PublishPost \<lparr>ppp_post_id = 11, ppp_expected_revision = 0\<rparr>) (Fail (lit ''x'') (lit ''y''))
      (one_post_db [claimed_publish_job] sent_post) = (db, Inr j)" "job_status j = JobFailed"
    using witness_settled by blast
  have p: "sent_post \<in> set (db_posts (one_post_db [claimed_publish_job] sent_post))" "pw_id sent_post = 11"
    "pw_state sent_post = lit ''sending''"
    by (simp_all add: one_post_db_def sent_post_def sending_row_def queued_post_def)
  from failed_job_ends_send [OF one_post_claimed_ok [OF sent_post_inv] s p(1)] p(2,3) s(1) show ?thesis by auto
qed

end
