(* ===== verification/Settlement.thy ===== *)
theory Settlement
  imports Media_Lifecycle Publication_Lifecycle
begin

text \<open>
  Typed settlement and recovery of jobs: the dispatch of \<open>crates/persistence/src/settlement.rs\<close> with
  the policies of the families in \<open>inbox.rs\<close>, \<open>library.rs\<close> and \<open>publisher.rs\<close>, on the whole store.

  A family promises what \<open>settlement_family\<close> and \<open>recovery_family\<close> state: a job leaves its lease in
  the transaction that settles its domain row, and no other job is touched. The dispatcher and
  the loop over expired leases rest on that contract alone.
\<close>

section \<open>The ingest family\<close>

fun job_ingest_id :: "job_command \<Rightarrow> job_repository_error + uuid" where
  "job_ingest_id (InspectSource payload) = Inr (isp_ingest_id payload)"
| "job_ingest_id (DownloadSource payload) = Inr (dsp_ingest_id payload)"
| "job_ingest_id (ProbeAsset payload) = Inr (ijp_ingest_id payload)"
| "job_ingest_id (NormalizeAsset payload) = Inr (ijp_ingest_id payload)"
| "job_ingest_id (ComputeFingerprint payload) = Inr (ijp_ingest_id payload)"
| "job_ingest_id (FinalizeIngest payload) = Inr (ijp_ingest_id payload)"
| "job_ingest_id _ = Inl LeaseLost"

definition lease_failed_ingest :: "db_env \<Rightarrow> ingest_row \<Rightarrow> ingest_row" where
  "lease_failed_ingest env r =
     r\<lparr>iw_state := lit ''failed_terminal'', iw_error_code := Some (lit ''job_lease_expired''),
       iw_error_message := Some (lit ''job lease expired after the final attempt''),
       iw_completed_at := Some (env_now env), iw_updated_at := env_now env\<rparr>"

definition open_ingest :: "ingest_row \<Rightarrow> bool" where
  "open_ingest r \<longleftrightarrow> iw_state r \<notin> {lit ''completed'', lit ''failed_terminal'', lit ''cancelled''}"

text \<open>The ingest of a job that failed for good, and the cleanup of its workspace.\<close>

definition fail_ingest_terminal ::
  "('v, 'tz) store_ops \<Rightarrow> store_env \<Rightarrow> uuid \<Rightarrow> 'v store \<Rightarrow> job_repository_error + 'v store" where
  "fail_ingest_terminal ops env ingest_id s =
     (let s = update_ingests (\<lambda>r. iw_id r = ingest_id \<and> open_ingest r) (lease_failed_ingest (se_db env)) s in
      case select_ingest ingest_id s of
        None \<Rightarrow> Inr s
      | Some r \<Rightarrow> store_workspace_cleanup ops env ingest_id (iw_workspace_id r)
                    (env_utc (se_db env) + WORKSPACE_CLEANUP_RETENTION) JobDatabase s)"

definition update_locked_in_store ::
  "db_env \<Rightarrow> uuid \<Rightarrow> queue_update \<Rightarrow> 'v store \<Rightarrow> job_repository_error + 'v store \<times> 'v job_row" where
  "update_locked_in_store env jid update s =
     map_ok (\<lambda>(jobs, row). (s\<lparr>st_jobs := jobs\<rparr>, row)) (update_locked_job env jid update (st_jobs s))"

text \<open>The steps every family shares: lock the running job of the lease, compare the commands, settle
  the domain row, update the job.\<close>

definition settle_with ::
  "('v, 'tz) store_ops \<Rightarrow> store_env \<Rightarrow> job_lease \<Rightarrow> job_command \<Rightarrow> job_settlement \<Rightarrow>
   (job_command \<Rightarrow> job_repository_error + 'k) \<Rightarrow> (queue_update \<Rightarrow> 'k \<Rightarrow> 'v store \<Rightarrow> job_repository_error + 'v store) \<Rightarrow>
   'v store \<Rightarrow> job_repository_error + 'v store \<times> 'v job_row" where
  "settle_with ops env lease expected settlement payload_of settle_domain s =
     rbind (payload_of expected) (\<lambda>_.
     rbind (lock_running_job (se_db env) lease (allows_expired_lease settlement) (st_jobs s)) (\<lambda>job.
     rbind (rbind (validate_locked_command (so_codec ops) job expected) payload_of) (\<lambda>payload.
       let queue_update = queue_parameters job settlement in
       rbind (settle_domain queue_update payload s) (\<lambda>s.
         update_locked_in_store (se_db env) (jr_id job) queue_update s))))"

definition recover_with ::
  "('v, 'tz) store_ops \<Rightarrow> store_env \<Rightarrow> uuid \<Rightarrow> job_command \<Rightarrow> (job_command \<Rightarrow> job_repository_error + 'k) \<Rightarrow>
   ('v job_row \<Rightarrow> 'k \<Rightarrow> 'v store \<Rightarrow> job_repository_error + 'v store) \<Rightarrow> 'v store \<Rightarrow> job_repository_error + 'v store \<times> bool" where
  "recover_with ops env jid expected payload_of recover_domain s =
     rbind (payload_of expected) (\<lambda>_.
       case lock_expired_job (se_db env) jid (st_jobs s) of
         None \<Rightarrow> Inr (s, False)
       | Some job \<Rightarrow>
           rbind (rbind (validate_locked_command (so_codec ops) job expected) payload_of) (\<lambda>payload.
           rbind (recover_domain job payload s) (\<lambda>s.
             map_ok (\<lambda>(s, _). (s, True))
               (update_locked_in_store (se_db env) (jr_id job) (recovery_update (se_db env) job) s))))"

definition inbox_settle_job ::
  "('v, 'tz) store_ops \<Rightarrow> store_env \<Rightarrow> job_lease \<Rightarrow> job_command \<Rightarrow> job_settlement \<Rightarrow> 'v store \<Rightarrow>
   'v store \<times> (job_repository_error + job)" where
  "inbox_settle_job ops env lease expected settlement s =
     in_transaction s
       (settle_with ops env lease expected settlement job_ingest_id
          (\<lambda>u ingest_id s. if qu_terminal u then fail_ingest_terminal ops env ingest_id s else Inr s) s)
       (into_job (so_codec ops))"

definition inbox_recover_job ::
  "('v, 'tz) store_ops \<Rightarrow> store_env \<Rightarrow> uuid \<Rightarrow> job_command \<Rightarrow> 'v store \<Rightarrow>
   'v store \<times> (job_repository_error + bool)" where
  "inbox_recover_job ops env jid expected s =
     in_transaction s
       (recover_with ops env jid expected job_ingest_id
          (\<lambda>job ingest_id s. if jr_attempt_count job \<ge> jr_max_attempts job
                             then fail_ingest_terminal ops env ingest_id s else Inr s) s)
       Inr"

section \<open>The caption family\<close>

fun caption_payload :: "job_command \<Rightarrow> job_repository_error + media_job_payload" where
  "caption_payload (SyncStorageCaption payload) = Inr payload"
| "caption_payload _ = Inl LeaseLost"

definition settled_caption :: "db_env \<Rightarrow> ustring \<Rightarrow> ustring option \<Rightarrow> media_row \<Rightarrow> media_row" where
  "settled_caption env state err m =
     m\<lparr>mw_caption_sync_state := state, mw_caption_sync_error := err, mw_caption_sync_claim_token := None,
       mw_updated_at := env_now env\<rparr>"

definition settle_caption_row ::
  "db_env \<Rightarrow> media_job_payload \<Rightarrow> ustring \<Rightarrow> ustring option \<Rightarrow> 'v store \<Rightarrow> job_repository_error + 'v store" where
  "settle_caption_row env payload state err s =
     map_ok fst
       (update_media_rows (\<lambda>m. mw_id m = mjp_media_id payload \<and> mw_caption_sync_generation m = mjp_generation payload \<and>
                               mw_caption_sync_state m = lit ''syncing'')
          (settled_caption env state err) JobDatabase s)"

definition settle_caption_job ::
  "('v, 'tz) store_ops \<Rightarrow> store_env \<Rightarrow> job_lease \<Rightarrow> job_command \<Rightarrow> job_settlement \<Rightarrow> 'v store \<Rightarrow>
   'v store \<times> (job_repository_error + job)" where
  "settle_caption_job ops env lease expected settlement s =
     in_transaction s
       (settle_with ops env lease expected settlement caption_payload
          (\<lambda>u payload. settle_caption_row (se_db env) payload
             (if qu_terminal u then lit ''failed'' else lit ''pending'')
             (if qu_terminal u then Some (take 512 (qu_error_message u)) else None)) s)
       (into_job (so_codec ops))"

definition recover_caption_job ::
  "('v, 'tz) store_ops \<Rightarrow> store_env \<Rightarrow> uuid \<Rightarrow> job_command \<Rightarrow> 'v store \<Rightarrow>
   'v store \<times> (job_repository_error + bool)" where
  "recover_caption_job ops env jid expected s =
     in_transaction s
       (recover_with ops env jid expected caption_payload
          (\<lambda>job payload.
             let terminal = (jr_attempt_count job \<ge> jr_max_attempts job) in
             settle_caption_row (se_db env) payload
               (if terminal then lit ''failed'' else lit ''pending'')
               (if terminal then Some (lit ''caption sync job lease expired after the final attempt'') else None)) s)
       Inr"

section \<open>The storage family\<close>

fun storage_payload :: "job_command \<Rightarrow> job_repository_error + media_job_payload" where
  "storage_payload (UploadStorageAsset payload) = Inr payload"
| "storage_payload _ = Inl LeaseLost"

text \<open>The media row becomes \<open>storage_unknown\<close> and its ingests fail with it.\<close>

definition mark_storage_unknown_for_job ::
  "db_env \<Rightarrow> uuid \<Rightarrow> ustring \<Rightarrow> 'v store \<Rightarrow> job_repository_error + 'v store" where
  "mark_storage_unknown_for_job env media_id message s =
     map_ok (\<lambda>(s, _).
         update_ingests
           (\<lambda>r. iw_media_id r = Some media_id \<and> iw_state r \<noteq> lit ''cancelled'' \<and>
                (iw_state r \<noteq> lit ''failed_terminal'' \<or> storage_code r))
           (storage_failed_ingest env message) s)
       (update_media_rows (\<lambda>m. mw_id m = media_id \<and> mw_storage_state m \<noteq> lit ''ready'') (unknown_media env)
          JobDatabase s)"

definition reconcile_storage_terminal ::
  "db_env \<Rightarrow> uuid \<Rightarrow> ustring \<Rightarrow> 'v store \<Rightarrow> job_repository_error + 'v store" where
  "reconcile_storage_terminal env media_id error_message s =
     (case map_option (\<lambda>m. media_storage_state_try_from (mw_storage_state m)) (select_media media_id s) of
        Some (Inr StorageReady) \<Rightarrow>
          Inr (update_ingests (completable_ingest media_id) (completed_ingest (env_now env)) s)
      | Some (Inr StoragePending) \<Rightarrow> mark_storage_unknown_for_job env media_id error_message s
      | Some (Inr StorageUnknown) \<Rightarrow>
          Inr (update_ingests
                 (\<lambda>r. iw_media_id r = Some media_id \<and> iw_state r \<noteq> lit ''cancelled'' \<and>
                      iw_state r \<noteq> lit ''failed_terminal'')
                 (storage_failed_ingest env error_message) s)
      | _ \<Rightarrow> Inr s)"

definition settle_storage_job ::
  "('v, 'tz) store_ops \<Rightarrow> store_env \<Rightarrow> job_lease \<Rightarrow> job_command \<Rightarrow> job_settlement \<Rightarrow> 'v store \<Rightarrow>
   'v store \<times> (job_repository_error + job)" where
  "settle_storage_job ops env lease expected settlement s =
     in_transaction s
       (settle_with ops env lease expected settlement storage_payload
          (\<lambda>u payload s. if qu_terminal u
             then reconcile_storage_terminal (se_db env) (mjp_media_id payload) (qu_error_message u) s
             else Inr s) s)
       (into_job (so_codec ops))"

text \<open>An upload another process may still be running: reserved within the last minute.\<close>

definition upload_in_progress :: "db_env \<Rightarrow> media_row \<Rightarrow> bool" where
  "upload_in_progress env m \<longleftrightarrow>
     media_storage_state_try_from (mw_storage_state m) = Inr StoragePending \<and> mw_storage_token m \<noteq> None \<and>
     (case mw_storage_started_at m of None \<Rightarrow> False | Some started \<Rightarrow> env_utc env - 60 * 1000000000 < started)"

definition storage_recovery_update :: "db_env \<Rightarrow> 'v job_row \<Rightarrow> media_row \<Rightarrow> queue_update" where
  "storage_recovery_update env job m =
     (let state = media_storage_state_try_from (mw_storage_state m) in
      if state = Inr StorageReady
      then \<lparr>qu_state = lit ''succeeded'', qu_run_at = jr_run_at job, qu_error_class = [], qu_error_message = [],
            qu_terminal = True, qu_non_consuming = False\<rparr>
      else if state = Inr StoragePending \<and> mw_storage_token m = None
      then \<lparr>qu_state = lit ''queued'', qu_run_at = env_utc env, qu_error_class = lit ''storage_upload_cancelled'',
            qu_error_message = lit ''storage upload was safely cancelled before Telegram dispatch'',
            qu_terminal = False, qu_non_consuming = True\<rparr>
      else \<lparr>qu_state = lit ''failed'', qu_run_at = env_utc env, qu_error_class = lit ''storage_unknown'',
            qu_error_message = lit ''storage job lease expired; external storage result requires reconciliation'',
            qu_terminal = True, qu_non_consuming = False\<rparr>)"

definition missing_media_update :: "'v job_row \<Rightarrow> queue_update" where
  "missing_media_update job =
     \<lparr>qu_state = lit ''failed'', qu_run_at = jr_run_at job, qu_error_class = lit ''storage_unknown'',
      qu_error_message = lit ''storage media row is missing; external storage result requires reconciliation'',
      qu_terminal = True, qu_non_consuming = False\<rparr>"

definition without_error :: "uuid \<Rightarrow> 'v store \<Rightarrow> 'v store" where
  "without_error jid s =
     s\<lparr>st_jobs := update_where (\<lambda>r. jr_id r = jid) (\<lambda>r. r\<lparr>jr_error_class := None, jr_error_message := None\<rparr>) (st_jobs s)\<rparr>"

definition recover_storage_row ::
  "db_env \<Rightarrow> 'v job_row \<Rightarrow> uuid \<Rightarrow> media_row \<Rightarrow> 'v store \<Rightarrow> job_repository_error + 'v store" where
  "recover_storage_row env job media_id m s =
     (let u = storage_recovery_update env job m in
      rbind (if qu_state u = lit ''failed''
             then mark_storage_unknown_for_job env media_id (qu_error_message u) s
             else if qu_state u = lit ''succeeded''
             then Inr (update_ingests (completable_ingest media_id) (completed_ingest (env_now env)) s)
             else Inr s) (\<lambda>s.
      rbind (update_locked_in_store env (jr_id job) u s) (\<lambda>(s, _).
        Inr (if qu_state u = lit ''succeeded'' then without_error (jr_id job) s else s))))"

definition recover_storage_tx ::
  "('v, 'tz) store_ops \<Rightarrow> db_env \<Rightarrow> uuid \<Rightarrow> job_command \<Rightarrow> 'v store \<Rightarrow> job_repository_error + 'v store \<times> bool" where
  "recover_storage_tx ops env jid expected s =
     rbind (storage_payload expected) (\<lambda>_.
       case lock_expired_job env jid (st_jobs s) of
         None \<Rightarrow> Inr (s, False)
       | Some job \<Rightarrow>
           rbind (rbind (validate_locked_command (so_codec ops) job expected) storage_payload) (\<lambda>payload.
             case select_media (mjp_media_id payload) s of
               None \<Rightarrow> map_ok (\<lambda>(s, _). (s, True))
                         (update_locked_in_store env (jr_id job) (missing_media_update job) s)
             | Some m \<Rightarrow>
                 if upload_in_progress env m then Inr (s, False)
                 else map_ok (\<lambda>s. (s, True)) (recover_storage_row env job (mjp_media_id payload) m s)))"

definition recover_storage_job ::
  "('v, 'tz) store_ops \<Rightarrow> store_env \<Rightarrow> uuid \<Rightarrow> job_command \<Rightarrow> 'v store \<Rightarrow>
   'v store \<times> (job_repository_error + bool)" where
  "recover_storage_job ops env jid expected s =
     in_transaction s (recover_storage_tx ops (se_db env) jid expected s) Inr"

section \<open>The publisher's families\<close>

fun materialize_payload :: "job_command \<Rightarrow> job_repository_error + materialize_publication_payload" where
  "materialize_payload (MaterializePublication payload) = Inr payload"
| "materialize_payload _ = Inl LeaseLost"

definition settle_materialize_job ::
  "('v, 'tz) store_ops \<Rightarrow> store_env \<Rightarrow> job_lease \<Rightarrow> job_command \<Rightarrow> job_settlement \<Rightarrow> 'v store \<Rightarrow>
   'v store \<times> (job_repository_error + job)" where
  "settle_materialize_job ops env lease expected settlement s =
     in_transaction s
       (rbind (materialize_payload expected) (\<lambda>_.
          map_ok (\<lambda>(jobs, row). (s\<lparr>st_jobs := jobs\<rparr>, row))
            (settle_queue_in_transaction (so_codec ops) (se_db env) lease expected settlement (st_jobs s))))
       (into_job (so_codec ops))"

definition recover_materialize_job ::
  "('v, 'tz) store_ops \<Rightarrow> store_env \<Rightarrow> uuid \<Rightarrow> job_command \<Rightarrow> 'v store \<Rightarrow>
   'v store \<times> (job_repository_error + bool)" where
  "recover_materialize_job ops env jid expected s =
     in_transaction s
       (rbind (materialize_payload expected) (\<lambda>_.
          map_ok (\<lambda>recovered. case recovered of None \<Rightarrow> (s, False) | Some (jobs, _) \<Rightarrow> (s\<lparr>st_jobs := jobs\<rparr>, True))
            (recover_queue_only_in_transaction (so_codec ops) (se_db env) jid expected (st_jobs s))))
       Inr"

text \<open>The publication and cleanup families of the earlier theories, on the store.\<close>

definition on_publisher :: "('v publisher_db \<Rightarrow> 'v publisher_db \<times> 'a) \<Rightarrow> 'v store \<Rightarrow> 'v store \<times> 'a" where
  "on_publisher f s = (case f (publisher_view s) of (db, r) \<Rightarrow> (with_publisher s db, r))"

definition on_queue :: "('v job_table \<Rightarrow> 'v job_table \<times> 'a) \<Rightarrow> 'v store \<Rightarrow> 'v store \<times> 'a" where
  "on_queue f s = (case f (st_jobs s) of (jobs, r) \<Rightarrow> (s\<lparr>st_jobs := jobs\<rparr>, r))"

section \<open>Dispatch\<close>

definition settle_family ::
  "('v, 'tz) store_ops \<Rightarrow> store_env \<Rightarrow> job_command \<Rightarrow> job_lease \<Rightarrow> job_settlement \<Rightarrow> 'v store \<Rightarrow>
   'v store \<times> (job_repository_error + job)" where
  "settle_family ops env command lease settlement =
     (case command of
        PublishPost _ \<Rightarrow> on_publisher (settle_publish_job (so_publisher ops) (se_db env) lease command settlement)
      | UploadStorageAsset _ \<Rightarrow> settle_storage_job ops env lease command settlement
      | SyncStorageCaption _ \<Rightarrow> settle_caption_job ops env lease command settlement
      | MaterializePublication _ \<Rightarrow> settle_materialize_job ops env lease command settlement
      | CleanupWorkspace _ \<Rightarrow> on_queue (cleanup_settle_job (so_codec ops) (se_db env) lease command settlement)
      | _ \<Rightarrow> inbox_settle_job ops env lease command settlement)"

definition settle ::
  "('v, 'tz) store_ops \<Rightarrow> store_env \<Rightarrow> job_command \<Rightarrow> job_lease \<Rightarrow> job_settlement \<Rightarrow> 'v store \<Rightarrow>
   'v store \<times> (job_repository_error + job)" where
  "settle ops env command lease settlement s =
     (case settle_family ops env command lease settlement s of
        (s', Inl LeaseLost) \<Rightarrow>
          (s', if allows_expired_lease settlement
               then load_already_requeued (so_codec ops) lease settlement command (st_jobs s')
               else Inl LeaseLost)
      | result \<Rightarrow> result)"

definition settle_lease ::
  "('v, 'tz) store_ops \<Rightarrow> store_env \<Rightarrow> job \<Rightarrow> job_lease \<Rightarrow> job_settlement \<Rightarrow> 'v store \<Rightarrow>
   'v store \<times> (job_repository_error + job)" where
  "settle_lease ops env j lease settlement s =
     (if \<not> lease_matches_job j lease then (s, Inl LeaseLost)
      else settle ops env (job_command j) lease settlement s)"

definition recover_family ::
  "('v, 'tz) store_ops \<Rightarrow> store_env \<Rightarrow> uuid \<Rightarrow> job_command \<Rightarrow> 'v store \<Rightarrow>
   'v store \<times> (job_repository_error + bool)" where
  "recover_family ops env jid command =
     (case command of
        PublishPost _ \<Rightarrow> on_publisher (recover_publish_job (so_publisher ops) (se_db env) jid command)
      | UploadStorageAsset _ \<Rightarrow> recover_storage_job ops env jid command
      | SyncStorageCaption _ \<Rightarrow> recover_caption_job ops env jid command
      | MaterializePublication _ \<Rightarrow> recover_materialize_job ops env jid command
      | CleanupWorkspace _ \<Rightarrow> on_queue (cleanup_recover_job (so_codec ops) (se_db env) jid command)
      | _ \<Rightarrow> inbox_recover_job ops env jid command)"

definition recover_one ::
  "('v, 'tz) store_ops \<Rightarrow> store_env \<Rightarrow> 'v job_row \<Rightarrow> 'v store \<Rightarrow> 'v store \<times> (job_repository_error + bool)" where
  "recover_one ops env candidate s =
     (case into_job (so_codec ops) candidate of
        Inl _ \<Rightarrow> on_queue (recover_queue_only_untyped (se_db env) (jr_id candidate)) s
      | Inr j \<Rightarrow> recover_family ops env (jr_id candidate) (job_command j) s)"

definition expired_row :: "db_env \<Rightarrow> 'v job_row \<Rightarrow> bool" where
  "expired_row env r \<longleftrightarrow> jr_state r = lit ''running'' \<and> not_after_null (jr_lease_expires_at r) (env_clock env)"

text \<open>The loop over the candidates: every iteration is a transaction of its own, in an environment
  of its own; the first error ends the loop.\<close>

fun recover_candidates ::
  "('v, 'tz) store_ops \<Rightarrow> ('v job_row \<times> store_env) list \<Rightarrow> nat \<Rightarrow> 'v store \<Rightarrow>
   'v store \<times> (job_repository_error + nat)" where
  "recover_candidates ops [] recovered s = (s, Inr recovered)"
| "recover_candidates ops ((candidate, env) # rest) recovered s =
     (case recover_one ops env candidate s of
        (s', Inl e) \<Rightarrow> (s', Inl e)
      | (s', Inr b) \<Rightarrow> recover_candidates ops rest (if b then recovered + 1 else recovered) s')"

definition stale_candidates :: "db_env \<Rightarrow> 'v job_table \<Rightarrow> 'v job_row list" where
  "stale_candidates env t = sort_key (\<lambda>r. (jr_updated_at r, jr_id r)) (filter (expired_row env) t)"

definition recover_stale ::
  "('v, 'tz) store_ops \<Rightarrow> db_env \<Rightarrow> ('v job_row \<Rightarrow> store_env) \<Rightarrow> 'v store \<Rightarrow>
   'v store \<times> (job_repository_error + nat)" where
  "recover_stale ops env env_of s =
     recover_candidates ops (map (\<lambda>r. (r, env_of r)) (stale_candidates env (st_jobs s))) 0 s"

end
