(* ===== verification/Settlement_Contracts.thy ===== *)
theory Settlement_Contracts
  imports Settlement
begin

text \<open>
  What the families of jobs promise the dispatcher, and what the dispatcher promises the worker.

  \<open>settlement_family\<close>: a settlement either changes nothing and fails, or the job the lease locks
  leaves its lease with the parameters of the settlement and no other running job is touched.
  \<open>recovery_family\<close>: the same for an expired lease. Every family of the program is an instance;
  fencing and the loop over stale leases are proved once from the contracts.
\<close>

section \<open>Jobs that leave their lease\<close>

definition jobs_grown :: "'v payload_codec \<Rightarrow> 'v job_table \<Rightarrow> 'v job_table \<Rightarrow> bool" where
  "jobs_grown codec t t' \<longleftrightarrow>
     queue_ok codec t' \<and> take (length t) t' = t \<and> list_all (\<lambda>r. jr_state r = lit ''queued'') (drop (length t) t')"

definition job_left :: "'v payload_codec \<Rightarrow> uuid \<Rightarrow> 'v job_table \<Rightarrow> 'v job_table \<Rightarrow> bool" where
  "job_left codec jid t t' \<longleftrightarrow>
     queue_ok codec t' \<and> (\<forall>r\<in>set t. jr_id r \<noteq> jid \<longrightarrow> r \<in> set t') \<and>
     (\<forall>r\<in>set t'. jr_id r = jid \<longrightarrow> jr_state r \<noteq> lit ''running'') \<and>
     (\<forall>r\<in>set t'. jr_state r = lit ''running'' \<longrightarrow> r \<in> set t)"

lemma jobs_grown_refl: "queue_ok codec t \<Longrightarrow> jobs_grown codec t t"
  by (simp add: jobs_grown_def)

lemma jobs_grownE:
  assumes "jobs_grown codec t t'"
  obtains new where "t' = t @ new" "queue_ok codec t'" "\<And>r. r \<in> set new \<Longrightarrow> jr_state r = lit ''queued''"
proof (rule that [of "drop (length t) t'"])
  show "t' = t @ drop (length t) t'" using assms by (metis append_take_drop_id jobs_grown_def)
qed (use assms in \<open>auto simp: jobs_grown_def list_all_iff\<close>)

lemma insert_job_once_grown:
  assumes "insert_job_once ops env j key t = Inr t'" and "codec_laws (so_codec ops)"
    and "0 < nj_max_attempts j" and "queue_ok (so_codec ops) t"
  shows "jobs_grown (so_codec ops) t t'"
proof -
  let ?row = "inserted_job (so_codec ops) ((se_db env)\<lparr>env_uuid := se_job_uuid env key\<rparr>) (with_dedupe_key key j)"
  consider "t' = t" | "t' = t @ [?row]" "\<not> id_conflict t ?row"
    using assms(1) by (auto simp: insert_job_once_def Let_def split: if_splits)
  then show ?thesis
  proof cases
    case 2
    have "queue_change (so_codec ops) t t'"
      unfolding 2(1) using assms(2,3) 2(2) by (intro queue_insert) (simp_all add: with_dedupe_key_def)
    then have "queue_ok (so_codec ops) t'" using assms(4) by (rule queue.table_step_ok)
    then show ?thesis by (simp add: jobs_grown_def 2(1)) (simp add: inserted_job_def)
  qed (simp add: jobs_grown_refl assms(4))
qed

lemma workspace_cleanup_attempts [simp]: "0 < nj_max_attempts (fst (workspace_cleanup ops i w at))"
  by (simp add: workspace_cleanup_def with_run_at_def new_cleanup_workspace_def new_job_new_def)

lemma fail_ingest_terminal_grown:
  assumes "fail_ingest_terminal ops env i s = Inr s'" and "codec_laws (so_codec ops)"
    and "queue_ok (so_codec ops) (st_jobs s)"
  shows "jobs_grown (so_codec ops) (st_jobs s) (st_jobs s')"
    using assms insert_job_once_grown [OF _ assms(2) workspace_cleanup_attempts assms(3)]
    by (auto simp: fail_ingest_terminal_def Let_def store_workspace_cleanup_def on_jobs_def
        update_ingests_def workspace_cleanup_def result_simps jobs_grown_refl split: option.splits)

lemma settled_row_fields [simp]:
  "jr_id (settled_row env u r) = jr_id r" "jr_state (settled_row env u r) = qu_state u"
  "jr_kind (settled_row env u r) = jr_kind r" "jr_payload (settled_row env u r) = jr_payload r"
  by (simp_all add: settled_row_def)

lemma fail_ingest_terminal_media: "fail_ingest_terminal ops env i s = Inr s' \<Longrightarrow> st_media s' = st_media s"
  by (auto simp: fail_ingest_terminal_def Let_def store_workspace_cleanup_def split: option.splits dest: on_jobs_media)

lemma stored_settled:
  assumes "stored_ok codec j" and "job_inv (settled_row env u j)"
  shows "stored_ok codec (settled_row env u j)"
  using assms by (simp add: stored_ok_def payload_ok_def)

text \<open>The update of the locked job after the domain step.\<close>

lemma update_locked_left:
  assumes ok: "queue_ok codec t" and j: "j \<in> set t" "jr_state j = lit ''running''"
    and grown: "jobs_grown codec t (st_jobs s)" and inv: "job_inv (settled_row env u j)"
    and out: "qu_state u \<noteq> lit ''running''"
    and upd: "update_locked_in_store env (jr_id j) u s = Inr (s', row)"
  shows "job_left codec (jr_id j) t (st_jobs s')" and "row = settled_row env u j" and "row \<in> set (st_jobs s')"
    and "st_media s' = st_media s" "st_ingests s' = st_ingests s"
proof -
  let ?P = "\<lambda>r. jr_id r = jr_id j \<and> jr_state r = lit ''running''"
  from grown obtain new where t': "st_jobs s = t @ new" and ok': "queue_ok codec (st_jobs s)"
    and q: "\<And>r. r \<in> set new \<Longrightarrow> jr_state r = lit ''queued''" by (rule jobs_grownE) blast
  have mem: "j \<in> set (st_jobs s)" by (simp add: t' j)
  from upd update_locked_job_Inr [OF ok' mem j(2)]
  have s': "s' = s\<lparr>st_jobs := update_where ?P (settled_row env u) (st_jobs s)\<rparr>" and row: "row = settled_row env u j"
    by (auto simp: update_locked_in_store_def result_simps)
  have only: "r = j" if "r \<in> set (st_jobs s)" "jr_id r = jr_id j" for r
    using table_ok_key [OF ok' that(1) mem that(2)] .
  have chk: "stored_ok codec (settled_row env u j)"
    using table_ok_check [OF ok' mem] inv by (rule stored_settled)
  have ok'': "queue_ok codec (st_jobs s')"
    using table_ok_update_where [OF ok', of ?P "settled_row env u"] only chk by (fastforce simp: s')
  have "r \<in> set (st_jobs s')" if "r \<in> set t" "jr_id r \<noteq> jr_id j" for r
    using that by (auto simp: s' t' set_update_where)
  moreover have "jr_state r \<noteq> lit ''running''" if r: "r \<in> set (st_jobs s')" "jr_id r = jr_id j" for r
    using r j(2) only out by (auto simp: s' set_update_where elim!: imageE)
  moreover have "r \<in> set t" if "r \<in> set (st_jobs s')" "jr_state r = lit ''running''" for r
    using that q out by (auto simp: s' t' set_update_where elim!: imageE)
  ultimately show "job_left codec (jr_id j) t (st_jobs s')" using ok'' by (auto simp: job_left_def)
  show "row = settled_row env u j" by (rule row)
  show "row \<in> set (st_jobs s')" using mem j(2) by (auto simp: s' row set_update_where)
  show "st_media s' = st_media s" "st_ingests s' = st_ingests s" by (simp_all add: s')
qed


section \<open>The contract of a settlement\<close>

definition settled_by ::
  "'v payload_codec \<Rightarrow> db_env \<Rightarrow> job_lease \<Rightarrow> job_settlement \<Rightarrow> 'v job_table \<Rightarrow> 'v job_table \<Rightarrow> job_repository_error + job \<Rightarrow> bool" where
  "settled_by codec env lease st t t' r \<longleftrightarrow>
     (\<exists>j\<in>set t. locks_running_job env lease (allows_expired_lease st) j \<and> job_left codec (jr_id j) t t' \<and>
        settled_row env (queue_parameters j st) j \<in> set t' \<and>
        r = into_job codec (settled_row env (queue_parameters j st) j))"

locale settlement_family =
  fixes codec :: "'v payload_codec"
    and settle_job :: "store_env \<Rightarrow> job_lease \<Rightarrow> job_settlement \<Rightarrow> 'v store \<Rightarrow> 'v store \<times> (job_repository_error + job)"
  assumes settles: "codec_laws codec \<Longrightarrow> queue_ok codec (st_jobs s) \<Longrightarrow> settle_job env lease st s = (s', r) \<Longrightarrow>
      (s' = s \<and> (\<exists>e. r = Inl e)) \<or> settled_by codec (se_db env) lease st (st_jobs s) (st_jobs s') r"
begin

lemma settle_fenced:
  assumes "codec_laws codec" and "queue_ok codec (st_jobs s)"
    and "row \<in> set (st_jobs s)" and "jr_id row = jl_job_id lease" and "off_lease lease row"
  shows "\<exists>e. settle_job env lease st s = (s, Inl e)"
proof -
  obtain s' r where r: "settle_job env lease st s = (s', r)" by (cases "settle_job env lease st s")
  have "\<not> settled_by codec (se_db env) lease st (st_jobs s) (st_jobs s') r"
    using off_lease_none(2) [OF assms(2-5), of "se_db env" "allows_expired_lease st"]
    by (auto simp: settled_by_def select_one_None)
  with settles [OF assms(1,2) r] r show ?thesis by auto
qed

lemma settle_queue_ok:
  "codec_laws codec \<Longrightarrow> queue_ok codec (st_jobs s) \<Longrightarrow> queue_ok codec (st_jobs (fst (settle_job env lease st s)))"
  using settles [of s env lease st] by (cases "settle_job env lease st s") (auto simp: settled_by_def job_left_def)

text \<open>A settlement that returns a job has ended its lease: the stored row is no longer running.\<close>

lemma settle_ends_lease:
  assumes "codec_laws codec" and "queue_ok codec (st_jobs s)" and "settle_job env lease st s = (s', Inr j)"
  shows "settled_by codec (se_db env) lease st (st_jobs s) (st_jobs s') (Inr j)"
  using settles [OF assms] by auto

end

lemma settled_row_inv:
  assumes "job_inv j" and "locks_running_job env lease allow j"
  shows "job_inv (settled_row env (queue_parameters j st) j)"
  using assms by (intro settled_inv queue_parameters_state queue_parameters_open) (auto simp: locks_running_job_def)

lemma queue_parameters_not_running [simp]: "qu_state (queue_parameters j st) \<noteq> lit ''running''"
  by (simp add: queue_parameters_state)

lemma settle_with_settled:
  assumes laws: "codec_laws (so_codec ops)" and ok: "queue_ok (so_codec ops) (st_jobs s)"
    and res: "in_transaction s (settle_with ops env lease expected st payload_of settle_domain s)
                (into_job (so_codec ops)) = (s', r)"
    and domain: "\<And>u k s1. settle_domain u k s = Inr s1 \<Longrightarrow> jobs_grown (so_codec ops) (st_jobs s) (st_jobs s1)"
  shows "(s' = s \<and> (\<exists>e. r = Inl e)) \<or> settled_by (so_codec ops) (se_db env) lease st (st_jobs s) (st_jobs s') r"
proof (cases "settle_with ops env lease expected st payload_of settle_domain s")
  case (Inr x)
  then obtain s'' row where x: "x = (s'', row)" by (cases x)
  from Inr x obtain j k s1 where lock: "lock_running_job (se_db env) lease (allows_expired_lease st) (st_jobs s) = Inr j"
    and d: "settle_domain (queue_parameters j st) k s = Inr s1"
    and u: "update_locked_in_store (se_db env) (jr_id j) (queue_parameters j st) s1 = Inr (s'', row)"
    by (auto simp: settle_with_def result_simps Let_def)
  from lock_running_job_Inr [OF lock] have j: "j \<in> set (st_jobs s)"
    "locks_running_job (se_db env) lease (allows_expired_lease st) j" by auto
  then have run: "jr_state j = lit ''running''" by (simp add: locks_running_job_def)
  have inv: "job_inv (settled_row (se_db env) (queue_parameters j st) j)"
    using table_ok_check [OF ok j(1)] j(2) by (auto simp: stored_ok_def intro: settled_row_inv)
  note left = update_locked_left [OF ok j(1) run domain [OF d] inv queue_parameters_not_running u]
  have "s'' = s'" "r = into_job (so_codec ops) row" using res Inr x by (auto simp: in_transaction_def)
  with j left show ?thesis by (auto simp: settled_by_def)
qed (use res in \<open>auto simp: in_transaction_def\<close>)

interpretation inbox_jobs: settlement_family "so_codec ops" "\<lambda>env lease st. inbox_settle_job ops env lease command st" for ops command
proof
  fix s :: "'a store" and env lease st s' r
  assume laws: "codec_laws (so_codec ops)" and ok: "queue_ok (so_codec ops) (st_jobs s)"
    and res: "inbox_settle_job ops env lease command st s = (s', r)"
  show "s' = s \<and> (\<exists>e. r = Inl e) \<or> settled_by (so_codec ops) (se_db env) lease st (st_jobs s) (st_jobs s') r"
    by (rule settle_with_settled [OF laws ok res [unfolded inbox_settle_job_def]])
       (auto split: if_splits intro: jobs_grown_refl [OF ok] fail_ingest_terminal_grown [OF _ laws ok])
qed

lemma settle_caption_row_jobs: "settle_caption_row env p c err s = Inr s' \<Longrightarrow> st_jobs s' = st_jobs s"
  by (auto simp: settle_caption_row_def result_simps update_media_rows_Inr)

interpretation caption_jobs: settlement_family "so_codec ops" "\<lambda>env lease st. settle_caption_job ops env lease command st" for ops command
proof
  fix s :: "'a store" and env lease st s' r
  assume laws: "codec_laws (so_codec ops)" and ok: "queue_ok (so_codec ops) (st_jobs s)"
    and res: "settle_caption_job ops env lease command st s = (s', r)"
  show "s' = s \<and> (\<exists>e. r = Inl e) \<or> settled_by (so_codec ops) (se_db env) lease st (st_jobs s) (st_jobs s') r"
    by (rule settle_with_settled [OF laws ok res [unfolded settle_caption_job_def]])
       (auto dest!: settle_caption_row_jobs simp: jobs_grown_refl [OF ok])
qed

lemma mark_storage_unknown_jobs: "mark_storage_unknown_for_job env i msg s = Inr s' \<Longrightarrow> st_jobs s' = st_jobs s"
  by (auto simp: mark_storage_unknown_for_job_def result_simps update_media_rows_Inr update_ingests_def)

lemma reconcile_storage_jobs: "reconcile_storage_terminal env i msg s = Inr s' \<Longrightarrow> st_jobs s' = st_jobs s"
  by (auto simp: reconcile_storage_terminal_def update_ingests_def dest: mark_storage_unknown_jobs
      split: option.splits sum.splits media_storage_state.splits)

interpretation storage_jobs: settlement_family "so_codec ops" "\<lambda>env lease st. settle_storage_job ops env lease command st" for ops command
proof
  fix s :: "'a store" and env lease st s' r
  assume laws: "codec_laws (so_codec ops)" and ok: "queue_ok (so_codec ops) (st_jobs s)"
    and res: "settle_storage_job ops env lease command st s = (s', r)"
  show "s' = s \<and> (\<exists>e. r = Inl e) \<or> settled_by (so_codec ops) (se_db env) lease st (st_jobs s) (st_jobs s') r"
    by (rule settle_with_settled [OF laws ok res [unfolded settle_storage_job_def]])
       (auto dest!: reconcile_storage_jobs simp: jobs_grown_refl [OF ok] split: if_splits)
qed

text \<open>The families that change nothing but the queue.\<close>

lemma settle_queue_settled:
  assumes "queue_ok codec t" and "settle_queue_in_transaction codec env lease expected st t = Inr (t', row)"
  shows "settled_by codec env lease st t t' (into_job codec row)"
proof -
  obtain j where j: "j \<in> set t" "locks_running_job env lease (allows_expired_lease st) j"
    and row: "row = settled_row env (queue_parameters j st) j" and ch: "queue_change codec t t'"
    and t': "t' = update_where (\<lambda>r. jr_id r = jr_id j \<and> jr_state r = lit ''running'')
           (settled_row env (queue_parameters j st)) t"
    using assms by (rule settle_queue_Inr)
  have run: "jr_state j = lit ''running''" using j(2) by (simp add: locks_running_job_def)
  have only: "r = j" if "r \<in> set t" "jr_id r = jr_id j" for r
    using table_ok_key [OF assms(1) that(1) j(1) that(2)] .
  have "job_left codec (jr_id j) t t'"
    unfolding job_left_def
    using queue.table_step_ok [OF ch assms(1)] run only
    by (auto simp: t' set_update_where elim!: imageE)
  moreover have "row \<in> set t'" using j(1) run by (auto simp: t' row set_update_where)
  ultimately show ?thesis using j row by (auto simp: settled_by_def)
qed

interpretation materialize_jobs: settlement_family "so_codec ops" "\<lambda>env lease st. settle_materialize_job ops env lease command st" for ops command
  by unfold_locales
     (auto simp: settle_materialize_job_def in_transaction_def result_simps split: sum.splits dest: settle_queue_settled)

interpretation cleanup_jobs: settlement_family "so_codec ops"
    "\<lambda>env lease st. on_queue (cleanup_settle_job (so_codec ops) (se_db env) lease command st)" for ops command
  by unfold_locales
     (auto simp: on_queue_def cleanup_settle_job_def split: sum.splits if_splits dest: settle_queue_settled)


text \<open>The publication family works on its view of the store.\<close>

lemma with_publisher_view [simp]: "with_publisher s (publisher_view s) = s"
  by (simp add: with_publisher_def publisher_view_def)

lemma update_locked_publication_store:
  "update_locked_publication env jid u db = Inr (db', row) \<Longrightarrow>
     update_locked_in_store env jid u (with_publisher s db) = Inr (with_publisher s db', row)"
  by (auto simp: update_locked_publication_def update_locked_in_store_def with_publisher_def result_simps)

lemma post_settled_jobs: "post_settled env db db' \<Longrightarrow> db_jobs db' = db_jobs db"
  unfolding post_settled_def using settle_terminal_change by metis

lemma settle_publish_settled:
  assumes ok: "queue_ok (op_codec ops) (st_jobs s)"
    and tx: "settle_publish_tx ops env lease expected st (publisher_view s) = Inr (db', row)"
  shows "settled_by (op_codec ops) env lease st (st_jobs s) (db_jobs db') (into_job (op_codec ops) row)"
proof -
  obtain j db1 where lock: "lock_running_job env lease (allows_expired_lease st) (st_jobs s) = Inr j"
    and post: "post_settled env (publisher_view s) db1"
    and upd: "update_locked_publication env (jr_id j) (queue_parameters j st) db1 = Inr (db', row)"
    using tx by (auto simp: settle_publish_tx_def result_simps Let_def publisher_view_def dest!: when_terminal_settled)
  from lock_running_job_Inr [OF lock] have j: "j \<in> set (st_jobs s)"
    "locks_running_job env lease (allows_expired_lease st) j" by auto
  then have run: "jr_state j = lit ''running''" by (simp add: locks_running_job_def)
  have inv: "job_inv (settled_row env (queue_parameters j st) j)"
    using table_ok_check [OF ok j(1)] j(2) by (auto simp: stored_ok_def intro: settled_row_inv)
  have "st_jobs (with_publisher s db1) = st_jobs s"
    using post_settled_jobs [OF post] by (simp add: with_publisher_def publisher_view_def)
  then have grown: "jobs_grown (op_codec ops) (st_jobs s) (st_jobs (with_publisher s db1))"
    using jobs_grown_refl [OF ok] by simp
  note left = update_locked_left [OF ok j(1) run grown inv queue_parameters_not_running
      update_locked_publication_store [OF upd]]
  from j left show ?thesis by (auto simp: settled_by_def with_publisher_def)
qed

lemma st_jobs_with_publisher [simp]: "st_jobs (with_publisher s db) = db_jobs db"
  by (simp add: with_publisher_def)

interpretation publication_jobs: settlement_family "so_codec ops"
    "\<lambda>env lease st. on_publisher (settle_publish_job (so_publisher ops) (se_db env) lease command st)" for ops command
  by unfold_locales
     (auto simp: on_publisher_def settle_publish_job_def split: sum.splits dest: settle_publish_settled)

text \<open>The dispatcher is a family again: whatever the command, its family answers.\<close>

interpretation dispatch: settlement_family "so_codec ops" "\<lambda>env lease st. settle_family ops env command lease st" for ops command
proof
  fix s :: "'a store" and env lease st s' r
  assume laws: "codec_laws (so_codec ops)" and ok: "queue_ok (so_codec ops) (st_jobs s)"
    and res: "settle_family ops env command lease st s = (s', r)"
  note families = inbox_jobs.settles [OF laws ok] caption_jobs.settles [OF laws ok] storage_jobs.settles [OF laws ok]
    materialize_jobs.settles [OF laws ok] cleanup_jobs.settles [OF laws ok] publication_jobs.settles [OF laws ok]
  show "s' = s \<and> (\<exists>e. r = Inl e) \<or> settled_by (so_codec ops) (se_db env) lease st (st_jobs s) (st_jobs s') r"
    using res by (cases command; simp only: settle_family_def job_command.case; elim families)
qed


section \<open>The contract of a recovery\<close>

text \<open>No reservation of an upload appears: one that is there was there before, with the same start.\<close>

definition reservations_from :: "'v store \<Rightarrow> 'v store \<Rightarrow> bool" where
  "reservations_from s s' \<longleftrightarrow>
     (\<forall>m'\<in>set (st_media s'). mw_storage_token m' \<noteq> None \<longrightarrow>
        (\<exists>m\<in>set (st_media s). mw_id m = mw_id m' \<and> mw_storage_token m = mw_storage_token m' \<and>
           mw_storage_state m = mw_storage_state m' \<and> mw_storage_started_at m = mw_storage_started_at m'))"

text \<open>\<open>exempt\<close> says when an expired job of the family is left alone.\<close>

locale recovery_family =
  fixes codec :: "'v payload_codec" and exempt :: "store_env \<Rightarrow> 'v store \<Rightarrow> bool"
    and recover_job :: "store_env \<Rightarrow> uuid \<Rightarrow> 'v store \<Rightarrow> 'v store \<times> (job_repository_error + bool)"
  assumes recovers: "codec_laws codec \<Longrightarrow> queue_ok codec (st_jobs s) \<Longrightarrow> recover_job env jid s = (s', Inr True) \<Longrightarrow>
      lock_expired_job (se_db env) jid (st_jobs s) \<noteq> None \<and> job_left codec jid (st_jobs s) (st_jobs s')"
    and keeps: "recover_job env jid s = (s', r) \<Longrightarrow> r \<noteq> Inr True \<Longrightarrow> s' = s"
    and leaves: "recover_job env jid s = (s', Inr False) \<Longrightarrow>
      lock_expired_job (se_db env) jid (st_jobs s) = None \<or> exempt env s"
    and reservations: "recover_job env jid s = (s', r) \<Longrightarrow> reservations_from s s'"
begin

lemma recover_queue_ok:
  assumes "codec_laws codec" and "queue_ok codec (st_jobs s)" and "recover_job env jid s = (s', r)"
  shows "queue_ok codec (st_jobs s')"
  using recovers [OF assms(1,2)] keeps [OF assms(3)] assms(2,3) by (cases "r = Inr True") (auto simp: job_left_def)

text \<open>The running jobs after a recovery are those before it, less the recovered one.\<close>

lemma recover_running:
  assumes "codec_laws codec" and "queue_ok codec (st_jobs s)" and "recover_job env jid s = (s', Inr b)"
  shows "{r \<in> set (st_jobs s'). jr_state r = lit ''running''} =
         {r \<in> set (st_jobs s). jr_state r = lit ''running'' \<and> \<not> (b \<and> jr_id r = jid)}"
proof (cases b)
  case True
  with recovers [OF assms(1,2)] assms(3) have "job_left codec jid (st_jobs s) (st_jobs s')" by auto
  with True show ?thesis by (auto simp: job_left_def)
next
  case False
  with keeps [OF assms(3)] show ?thesis by auto
qed

end

lemma reservations_from_same: "st_media s' = st_media s \<Longrightarrow> reservations_from s s'"
  by (auto simp: reservations_from_def)

lemma reservations_update:
  assumes "update_media_rows P f e s = Inr (s', rows)"
    and "\<And>m. mw_storage_token (f m) = None \<or> (mw_id (f m) = mw_id m \<and> mw_storage_token (f m) = mw_storage_token m \<and>
           mw_storage_state (f m) = mw_storage_state m \<and> mw_storage_started_at (f m) = mw_storage_started_at m)"
  shows "reservations_from s s'"
  unfolding reservations_from_def
proof (intro ballI impI)
  fix m'
  assume "m' \<in> set (st_media s')" and t: "mw_storage_token m' \<noteq> None"
  then obtain m where m: "m \<in> set (st_media s)" "m' = f m \<or> m' = m"
    using assms(1) by (auto simp: update_media_rows_Inr set_update_where elim!: imageE)
  with t assms(2) [of m] show "\<exists>m\<in>set (st_media s). mw_id m = mw_id m' \<and> mw_storage_token m = mw_storage_token m' \<and>
           mw_storage_state m = mw_storage_state m' \<and> mw_storage_started_at m = mw_storage_started_at m'"
    by (intro bexI [of _ m]) auto
qed

lemma recovery_update_inv:
  "job_inv j \<Longrightarrow> jr_state j = lit ''running'' \<Longrightarrow> job_inv (settled_row env (recovery_update env j) j)"
  by (rule settled_inv) (auto simp: recovery_update_def Let_def)

lemma recovery_update_not_running [simp]: "qu_state (recovery_update env j) \<noteq> lit ''running''"
  by (simp add: recovery_update_def Let_def)

lemma expired_stored:
  assumes "queue_ok codec t" and "lock_expired_job env jid t = Some j"
  shows "j \<in> set t" "jr_id j = jid" "jr_state j = lit ''running''" "job_inv j"
  using lock_expired_job_Some [OF assms(2)] table_ok_check [OF assms(1)] by (auto simp: stored_ok_def)

text \<open>The shared shape of a recovery, for a domain step that adds jobs at most.\<close>

lemma recover_with_True:
  assumes laws: "codec_laws (so_codec ops)" and ok: "queue_ok (so_codec ops) (st_jobs s)"
    and tx: "recover_with ops env jid expected payload_of recover_domain s = Inr (s', True)"
    and domain: "\<And>j k s1. recover_domain j k s = Inr s1 \<Longrightarrow> jobs_grown (so_codec ops) (st_jobs s) (st_jobs s1)"
  shows "lock_expired_job (se_db env) jid (st_jobs s) \<noteq> None \<and> job_left (so_codec ops) jid (st_jobs s) (st_jobs s')"
proof -
  obtain j k s1 row where lock: "lock_expired_job (se_db env) jid (st_jobs s) = Some j"
    and d: "recover_domain j k s = Inr s1"
    and u: "update_locked_in_store (se_db env) (jr_id j) (recovery_update (se_db env) j) s1 = Inr (s', row)"
    using tx by (auto simp: recover_with_def result_simps split: option.splits)
  note j = expired_stored [OF ok lock]
  show ?thesis
    using update_locked_left(1) [OF ok j(1,3) domain [OF d] recovery_update_inv [OF j(4,3)] recovery_update_not_running u]
      lock j(2) by simp
qed

lemma recover_with_False:
  "recover_with ops env jid expected payload_of recover_domain s = Inr (s', False) \<Longrightarrow>
     s' = s \<and> lock_expired_job (se_db env) jid (st_jobs s) = None"
  by (auto simp: recover_with_def result_simps split: option.splits)

lemma recover_with_media:
  assumes "recover_with ops env jid expected payload_of recover_domain s = Inr (s', b)"
    and "\<And>j k s1. recover_domain j k s = Inr s1 \<Longrightarrow> reservations_from s s1"
  shows "reservations_from s s'"
proof -
  have "st_media s2 = st_media s1" if "update_locked_in_store e i u s1 = Inr (s2, row)" for e i u s1 s2 row
    using that by (auto simp: update_locked_in_store_def result_simps)
  then show ?thesis
    using assms by (fastforce simp: recover_with_def result_simps reservations_from_def split: option.splits)
qed


lemma recovery_by_tx:
  assumes shape: "\<And>env jid s. recover_job env jid s = in_transaction s (tx env jid s) Inr"
    and left: "\<And>env jid s s'. codec_laws codec \<Longrightarrow> queue_ok codec (st_jobs s) \<Longrightarrow> tx env jid s = Inr (s', True) \<Longrightarrow>
        lock_expired_job (se_db env) jid (st_jobs s) \<noteq> None \<and> job_left codec jid (st_jobs s) (st_jobs s')"
    and kept: "\<And>env jid s s'. tx env jid s = Inr (s', False) \<Longrightarrow>
        s' = s \<and> (lock_expired_job (se_db env) jid (st_jobs s) = None \<or> exempt env s)"
    and res: "\<And>env jid s s' b. tx env jid s = Inr (s', b) \<Longrightarrow> reservations_from s s'"
  shows "recovery_family codec exempt recover_job"
proof
  fix s env jid s' r
  assume r: "recover_job env jid s = (s', r)"
  { assume "r \<noteq> Inr True"
    with r shape kept [of env jid s s'] show "s' = s"
      by (cases r) (auto simp: in_transaction_def split: sum.splits) }
  from r shape res [of env jid s s'] show "reservations_from s s'"
    by (auto simp: in_transaction_def reservations_from_same split: sum.splits)
next
  fix s env jid s'
  assume "recover_job env jid s = (s', Inr False)"
  with shape kept [of env jid s s'] show "lock_expired_job (se_db env) jid (st_jobs s) = None \<or> exempt env s"
    by (auto simp: in_transaction_def split: sum.splits)
next
  fix s env jid s'
  assume "codec_laws codec" "queue_ok codec (st_jobs s)" "recover_job env jid s = (s', Inr True)"
  with shape left [of s env jid s']
  show "lock_expired_job (se_db env) jid (st_jobs s) \<noteq> None \<and> job_left codec jid (st_jobs s) (st_jobs s')"
    by (auto simp: in_transaction_def split: sum.splits)
qed

lemma recovery_by_with:
  assumes shape: "\<And>env jid s. recover_job env jid s =
      in_transaction s (recover_with ops env jid expected payload_of (recover_domain env) s) Inr"
    and grown: "\<And>env j k s s1. codec_laws (so_codec ops) \<Longrightarrow> queue_ok (so_codec ops) (st_jobs s) \<Longrightarrow>
        recover_domain env j k s = Inr s1 \<Longrightarrow> jobs_grown (so_codec ops) (st_jobs s) (st_jobs s1)"
    and res: "\<And>env j k s s1. recover_domain env j k s = Inr s1 \<Longrightarrow> reservations_from s s1"
  shows "recovery_family (so_codec ops) (\<lambda>_ _. False) recover_job"
proof (rule recovery_by_tx [OF shape])
  fix env jid s s'
  assume laws: "codec_laws (so_codec ops)" and ok: "queue_ok (so_codec ops) (st_jobs s)"
    and tx: "recover_with ops env jid expected payload_of (recover_domain env) s = Inr (s', True)"
  show "lock_expired_job (se_db env) jid (st_jobs s) \<noteq> None \<and> job_left (so_codec ops) jid (st_jobs s) (st_jobs s')"
    by (rule recover_with_True [OF laws ok tx]) (rule grown [OF laws ok])
next
  fix env jid s s' b
  assume "recover_with ops env jid expected payload_of (recover_domain env) s = Inr (s', b)"
  then show "reservations_from s s'" by (rule recover_with_media) (rule res)
qed (use recover_with_False in blast)

interpretation inbox_recovery: recovery_family "so_codec ops" "\<lambda>_ _. False" "\<lambda>env jid. inbox_recover_job ops env jid command" for ops command
  by (rule recovery_by_with, rule inbox_recover_job_def)
     (auto intro: jobs_grown_refl fail_ingest_terminal_grown reservations_from_same
       dest: fail_ingest_terminal_media split: if_splits)

lemma settle_caption_row_reservations: "settle_caption_row env p c err s = Inr s' \<Longrightarrow> reservations_from s s'"
  by (auto simp: settle_caption_row_def result_simps elim!: reservations_update) (simp_all add: settled_caption_def)

interpretation caption_recovery: recovery_family "so_codec ops" "\<lambda>_ _. False" "\<lambda>env jid. recover_caption_job ops env jid command" for ops command
  by (rule recovery_by_with, rule recover_caption_job_def)
     (auto simp: Let_def settle_caption_row_reservations jobs_grown_refl dest!: settle_caption_row_jobs)

lemma storage_recovery_update_inv:
  assumes "job_inv j" and "jr_state j = lit ''running''"
  shows "job_inv (settled_row env (storage_recovery_update env j m) j)"
    and "qu_state (storage_recovery_update env j m) \<noteq> lit ''running''"
  using assms by (auto simp: job_inv_def settled_row_def storage_recovery_update_def Let_def)

lemma without_error_left:
  assumes "job_left codec jid t (st_jobs s)"
  shows "job_left codec jid t (st_jobs (without_error jid s))"
proof -
  let ?f = "\<lambda>r. r\<lparr>jr_error_class := None, jr_error_message := None\<rparr>"
  have stored: "stored_ok codec (?f r) \<longleftrightarrow> stored_ok codec r" for r :: "'a job_row"
    by (simp add: stored_ok_def payload_ok_def job_inv_def)
  have "queue_ok codec (update_where (\<lambda>r. jr_id r = jid) ?f (st_jobs s))"
    using assms by (intro table_ok_update_where) (auto simp: job_left_def stored intro: table_ok_check)
  then have "queue_ok codec (st_jobs (without_error jid s))" by (simp add: without_error_def)
  moreover have "r \<in> set (st_jobs s) \<and> jr_id r \<noteq> jid"
    if "r \<in> set (st_jobs (without_error jid s))" "jr_state r = lit ''running''" for r
    using assms that by (auto simp: job_left_def without_error_def set_update_where elim!: imageE)
  moreover have "r \<in> set (st_jobs (without_error jid s))" if "r \<in> set (st_jobs s)" "jr_id r \<noteq> jid" for r
    using that by (simp add: without_error_def set_update_where)
  ultimately show ?thesis using assms unfolding job_left_def by blast
qed

lemma mark_storage_unknown_reservations: "mark_storage_unknown_for_job env i msg s = Inr s' \<Longrightarrow> reservations_from s s'"
proof -
  assume "mark_storage_unknown_for_job env i msg s = Inr s'"
  then obtain s1 rows where u: "update_media_rows (\<lambda>m. mw_id m = i \<and> mw_storage_state m \<noteq> lit ''ready'') (unknown_media env)
      JobDatabase s = Inr (s1, rows)" and m: "st_media s' = st_media s1"
    by (auto simp: mark_storage_unknown_for_job_def result_simps)
  have "reservations_from s s1" by (rule reservations_update [OF u]) (simp add: unknown_media_def)
  with m show ?thesis by (simp add: reservations_from_def)
qed

lemma recover_storage_row_Inr:
  assumes "recover_storage_row env j i m s = Inr s'"
  obtains s1 s2 row where "st_jobs s1 = st_jobs s" "reservations_from s s1"
    "update_locked_in_store env (jr_id j) (storage_recovery_update env j m) s1 = Inr (s2, row)"
    "s' = s2 \<or> s' = without_error (jr_id j) s2"
proof -
  let ?u = "storage_recovery_update env j m"
  obtain s1 s2 row where d: "(if qu_state ?u = lit ''failed'' then mark_storage_unknown_for_job env i (qu_error_message ?u) s
        else if qu_state ?u = lit ''succeeded''
        then Inr (update_ingests (completable_ingest i) (completed_ingest (env_now env)) s) else Inr s) = Inr s1"
    and u: "update_locked_in_store env (jr_id j) ?u s1 = Inr (s2, row)"
    and s': "s' = (if qu_state ?u = lit ''succeeded'' then without_error (jr_id j) s2 else s2)"
    using assms by (auto simp: recover_storage_row_def Let_def result_simps)
  have "st_jobs s1 = st_jobs s" "reservations_from s s1"
    using d by (auto simp: update_ingests_def reservations_from_same
        dest: mark_storage_unknown_jobs mark_storage_unknown_reservations split: if_splits)
  then show ?thesis using u s' by (intro that) auto
qed

lemma recover_storage_True:
  assumes laws: "codec_laws (so_codec ops)" and ok: "queue_ok (so_codec ops) (st_jobs s)"
    and tx: "recover_storage_tx ops env jid expected s = Inr (s', True)"
  shows "lock_expired_job env jid (st_jobs s) \<noteq> None \<and> job_left (so_codec ops) jid (st_jobs s) (st_jobs s')"
proof -
  obtain j where lock: "lock_expired_job env jid (st_jobs s) = Some j"
    using tx by (auto simp: recover_storage_tx_def result_simps split: option.splits)
  note j = expired_stored [OF ok lock]
  have "(\<exists>row. update_locked_in_store env (jr_id j) (missing_media_update j) s = Inr (s', row)) \<or>
        (\<exists>i m. recover_storage_row env j i m s = Inr s')"
    using tx lock by (auto simp: recover_storage_tx_def result_simps split: option.splits if_splits)
  then have "job_left (so_codec ops) (jr_id j) (st_jobs s) (st_jobs s')"
  proof (elim disjE exE)
    fix row
    assume u: "update_locked_in_store env (jr_id j) (missing_media_update j) s = Inr (s', row)"
    show ?thesis
      by (rule update_locked_left(1) [OF ok j(1,3) jobs_grown_refl [OF ok] settled_inv [OF j(4,3)] _ u])
         (simp_all add: missing_media_update_def)
  next
    fix i m
    assume "recover_storage_row env j i m s = Inr s'"
    then obtain s1 s2 row where s1: "st_jobs s1 = st_jobs s"
      and u: "update_locked_in_store env (jr_id j) (storage_recovery_update env j m) s1 = Inr (s2, row)"
      and s': "s' = s2 \<or> s' = without_error (jr_id j) s2"
      by (rule recover_storage_row_Inr)
    have "jobs_grown (so_codec ops) (st_jobs s) (st_jobs s1)" using jobs_grown_refl [OF ok] s1 by simp
    then have "job_left (so_codec ops) (jr_id j) (st_jobs s) (st_jobs s2)"
      by (rule update_locked_left(1) [OF ok j(1,3) _ storage_recovery_update_inv(1) [OF j(4,3)]
            storage_recovery_update_inv(2) [OF j(4,3)] u])
    with s' show ?thesis by (auto intro: without_error_left)
  qed
  with lock j(2) show ?thesis by simp
qed


text \<open>An expired upload is left alone while its reservation is younger than a minute.\<close>

definition upload_exempt :: "job_command \<Rightarrow> store_env \<Rightarrow> 'v store \<Rightarrow> bool" where
  "upload_exempt command env s \<longleftrightarrow>
     (case command of
        UploadStorageAsset payload \<Rightarrow>
          (case select_media (mjp_media_id payload) s of
             None \<Rightarrow> False
           | Some m \<Rightarrow> upload_in_progress (se_db env) m)
      | _ \<Rightarrow> False)"

lemma storage_payload_owner:
  assumes "validate_locked_command codec job expected = Inr command"
    and "storage_payload command = Inr payload"
  shows "\<exists>wanted. expected = UploadStorageAsset wanted \<and> mjp_media_id payload = mjp_media_id wanted"
  using assms
  by (cases command; cases expected)
     (auto simp: validate_locked_command_def commands_have_same_owner_def result_simps Let_def split: if_splits)

lemma recover_storage_False:
  assumes "recover_storage_tx ops (se_db env) jid command s = Inr (s', False)"
  shows "s' = s \<and> (lock_expired_job (se_db env) jid (st_jobs s) = None \<or> upload_exempt command env s)"
  using assms
  by (auto simp: recover_storage_tx_def result_simps upload_exempt_def split: option.splits if_splits
      dest!: storage_payload_owner)

lemma update_locked_media: "update_locked_in_store env i u s = Inr (s', row) \<Longrightarrow> st_media s' = st_media s"
  by (auto simp: update_locked_in_store_def result_simps)

lemma recover_storage_reservations:
  assumes "recover_storage_tx ops env jid command s = Inr (s', b)"
  shows "reservations_from s s'"
proof -
  have row: "reservations_from s s'" if r: "recover_storage_row env j i m s = Inr s'" for j i m
  proof -
    obtain s1 s2 row where "reservations_from s s1"
      "update_locked_in_store env (jr_id j) (storage_recovery_update env j m) s1 = Inr (s2, row)"
      "s' = s2 \<or> s' = without_error (jr_id j) s2" using r by (rule recover_storage_row_Inr)
    then show ?thesis by (auto simp: without_error_def reservations_from_def dest!: update_locked_media)
  qed
  show ?thesis
    using assms
    by (auto simp: recover_storage_tx_def result_simps split: option.splits if_splits
        intro: row reservations_from_same dest: update_locked_media)
qed

interpretation storage_recovery: recovery_family "so_codec ops" "upload_exempt command"
    "\<lambda>env jid. recover_storage_job ops env jid command" for ops command
  by (rule recovery_by_tx, rule recover_storage_job_def)
     (rule recover_storage_True recover_storage_False recover_storage_reservations, assumption+)+

lemma recovered_row_left:
  assumes "queue_ok codec t" and lock: "lock_expired_job env jid t = Some j"
    and u: "update_locked_job env (jr_id j) (recovery_update env j) t = Inr (t', row)"
  shows "job_left codec jid t t'"
proof -
  note j = expired_stored [OF assms(1) lock]
  let ?s = "\<lparr>st_jobs = t, st_ingests = [], st_media = [], st_posts = [], st_channels = []\<rparr>"
  have "update_locked_in_store env (jr_id j) (recovery_update env j) ?s = Inr (?s\<lparr>st_jobs := t'\<rparr>, row)"
    using u by (simp add: update_locked_in_store_def)
  from update_locked_left(1) [OF assms(1) j(1,3) _ recovery_update_inv [OF j(4,3)] recovery_update_not_running this]
  show ?thesis using jobs_grown_refl [OF assms(1)] j(2) by simp
qed

lemma recover_queue_True:
  assumes "queue_ok codec t" and "recover_queue_only_in_transaction codec env jid expected t = Inr (Some (t', row))"
  shows "lock_expired_job env jid t \<noteq> None \<and> job_left codec jid t t'"
  using assms(2) recovered_row_left [OF assms(1)]
  by (fastforce simp: recover_queue_only_in_transaction_def result_simps split: option.splits)

lemma recover_queue_None:
  "recover_queue_only_in_transaction codec env jid expected t = Inr None \<Longrightarrow> lock_expired_job env jid t = None"
  by (auto simp: recover_queue_only_in_transaction_def result_simps split: option.splits)

lemma not_Some_pair: "\<forall>a b. x \<noteq> Some (a, b) \<Longrightarrow> x = None"
  by (cases x) auto

interpretation materialize_recovery: recovery_family "so_codec ops" "\<lambda>_ _. False"
    "\<lambda>env jid. recover_materialize_job ops env jid command" for ops command
  by (rule recovery_by_tx, rule recover_materialize_job_def)
     (auto simp: result_simps reservations_from_same split: option.splits dest!: not_Some_pair
       dest: recover_queue_True recover_queue_None)

interpretation cleanup_recovery: recovery_family "so_codec ops" "\<lambda>_ _. False"
    "\<lambda>env jid. on_queue (cleanup_recover_job (so_codec ops) (se_db env) jid command)" for ops command
  by unfold_locales
     (auto simp: on_queue_def cleanup_recover_job_def reservations_from_same split: sum.splits option.splits if_splits
       dest: recover_queue_True recover_queue_None)


lemma recover_publish_True:
  assumes ok: "queue_ok (op_codec ops) (st_jobs s)"
    and tx: "recover_publish_tx ops env jid expected (publisher_view s) = Inr (db', True)"
  shows "lock_expired_job env jid (st_jobs s) \<noteq> None \<and> job_left (op_codec ops) jid (st_jobs s) (db_jobs db')"
proof -
  obtain j db1 row where lock: "lock_expired_job env jid (st_jobs s) = Some j"
    and post: "post_settled env (publisher_view s) db1"
    and upd: "update_locked_publication env (jr_id j) (recovery_update env j) db1 = Inr (db', row)"
    using tx
    by (auto simp: recover_publish_tx_def result_simps Let_def publisher_view_def split: option.splits
        dest!: when_terminal_settled)
  note j = expired_stored [OF ok lock]
  have "st_jobs (with_publisher s db1) = st_jobs s"
    using post_settled_jobs [OF post] by (simp add: publisher_view_def)
  then have grown: "jobs_grown (op_codec ops) (st_jobs s) (st_jobs (with_publisher s db1))"
    using jobs_grown_refl [OF ok] by simp
  from update_locked_left(1) [OF ok j(1,3) grown recovery_update_inv [OF j(4,3)] recovery_update_not_running
      update_locked_publication_store [OF upd]] lock j(2)
  show ?thesis by simp
qed

lemma recover_publish_False:
  "recover_publish_tx ops env jid expected db = Inr (db', False) \<Longrightarrow> db' = db \<and> lock_expired_job env jid (db_jobs db) = None"
  by (auto simp: recover_publish_tx_def result_simps Let_def split: option.splits)

lemma recover_publish_kept:
  "recover_publish_tx ops env jid expected (publisher_view s) = Inr (db', b) \<Longrightarrow> with_publisher s db' \<noteq> s \<Longrightarrow> b"
  by (cases b) (auto dest: recover_publish_False)

lemma st_media_with_publisher [simp]: "st_media (with_publisher s db) = st_media s"
  by (simp add: with_publisher_def)

lemma db_jobs_publisher_view [simp]: "db_jobs (publisher_view s) = st_jobs s"
  by (simp add: publisher_view_def)

interpretation publication_recovery: recovery_family "so_codec ops" "\<lambda>_ _. False"
    "\<lambda>env jid. on_publisher (recover_publish_job (so_publisher ops) (se_db env) jid command)" for ops command
  by unfold_locales
     (auto simp: on_publisher_def recover_publish_job_def reservations_from_same split: sum.splits
       dest: recover_publish_True recover_publish_False recover_publish_kept)

interpretation untyped_recovery: recovery_family codec "\<lambda>_ _. False"
    "\<lambda>env jid. on_queue (recover_queue_only_untyped (se_db env) jid)" for codec
  by unfold_locales
     (auto simp: on_queue_def recover_queue_only_untyped_def reservations_from_same recovered_row_left
       split: option.splits sum.splits)

lemma exempt_weaken: "recovery_family codec (\<lambda>_ _. False) recover_job \<Longrightarrow> recovery_family codec exempt recover_job"
  unfolding recovery_family_def by blast

lemmas recovery_families =
  inbox_recovery.recovery_family_axioms caption_recovery.recovery_family_axioms
  materialize_recovery.recovery_family_axioms cleanup_recovery.recovery_family_axioms
  publication_recovery.recovery_family_axioms

interpretation dispatch_recovery: recovery_family "so_codec ops" "upload_exempt command"
    "\<lambda>env jid. recover_family ops env jid command" for ops command
  using storage_recovery.recovery_family_axioms recovery_families [THEN exempt_weaken]
  by (cases command) (simp_all only: recover_family_def job_command.case)


section \<open>The loop over stale leases\<close>

definition running_rows :: "'v store \<Rightarrow> 'v job_row set" where
  "running_rows s = {r \<in> set (st_jobs s). jr_state r = lit ''running''}"

text \<open>The one reason for which a stale job stays: it uploads, and its upload may still be running.\<close>

definition upload_spared :: "('v, 'tz) store_ops \<Rightarrow> db_env \<Rightarrow> 'v store \<Rightarrow> 'v job_row \<Rightarrow> bool" where
  "upload_spared ops env s r \<longleftrightarrow>
     (case into_job (so_codec ops) r of
        Inr j \<Rightarrow> (case job_command j of
                   UploadStorageAsset payload \<Rightarrow>
                     list_ex (\<lambda>m. mw_id m = mjp_media_id payload \<and> upload_in_progress env m) (st_media s)
                 | _ \<Rightarrow> False)
      | Inl _ \<Rightarrow> False)"

lemma recover_one_run:
  assumes laws: "codec_laws (so_codec ops)" and ok: "queue_ok (so_codec ops) (st_jobs s)"
    and c: "c \<in> set (st_jobs s)" "expired_row (se_db env) c"
    and res: "recover_one ops env c s = (s', Inr b)"
  shows "queue_ok (so_codec ops) (st_jobs s')" and "reservations_from s s'"
    and "running_rows s' = (if b then running_rows s - {c} else running_rows s)"
    and "b \<or> upload_spared ops (se_db env) s c"
proof -
  obtain j where j: "into_job (so_codec ops) c = Inr j"
    using stored_ok_into_job [OF table_ok_check [OF ok c(1)]] .
  have r: "recover_family ops env (jr_id c) (job_command j) s = (s', Inr b)"
    using res j by (simp add: recover_one_def)
  have lock: "lock_expired_job (se_db env) (jr_id c) (st_jobs s) = Some c"
    unfolding lock_expired_job_def using c
    by (intro select_one_key [OF ok]) (auto simp: expired_row_def)
  show "queue_ok (so_codec ops) (st_jobs s')" by (rule dispatch_recovery.recover_queue_ok [OF laws ok r])
  show "reservations_from s s'" by (rule dispatch_recovery.reservations [OF r])
  have "r = c" if "r \<in> set (st_jobs s)" "jr_id r = jr_id c" for r
    using table_ok_key [OF ok that(1) c(1) that(2)] .
  then show "running_rows s' = (if b then running_rows s - {c} else running_rows s)"
    using dispatch_recovery.recover_running [OF laws ok r] c by (auto simp: running_rows_def expired_row_def)
  show "b \<or> upload_spared ops (se_db env) s c"
  proof (cases b)
    case False
    with dispatch_recovery.leaves [of ops env "jr_id c" "job_command j" s s'] r lock
    have "upload_exempt (job_command j) env s" by simp
    then show ?thesis
      by (auto simp: upload_exempt_def upload_spared_def j list_ex_iff select_media_def
          split: job_command.splits option.splits dest!: select_one_Some)
  qed simp
qed

lemma upload_spared_from:
  assumes "reservations_from s s'" and "upload_spared ops env s' r"
  shows "upload_spared ops env s r"
proof -
  have "\<exists>n\<in>set (st_media s). mw_id n = mw_id m \<and> upload_in_progress env n"
    if "m \<in> set (st_media s')" "upload_in_progress env m" for m
  proof -
    from that(2) have "mw_storage_token m \<noteq> None" by (simp add: upload_in_progress_def)
    with assms(1) that(1) obtain n where "n \<in> set (st_media s)" "mw_id n = mw_id m"
      "mw_storage_token n = mw_storage_token m" "mw_storage_state n = mw_storage_state m"
      "mw_storage_started_at n = mw_storage_started_at m" by (auto simp: reservations_from_def)
    with that(2) show ?thesis by (intro bexI [of _ n]) (simp_all add: upload_in_progress_def)
  qed
  then show ?thesis
    using assms(2) by (fastforce simp: upload_spared_def list_ex_iff split: sum.splits job_command.splits)
qed

lemma recover_candidates_run:
  assumes "codec_laws (so_codec ops)" and "queue_ok (so_codec ops) (st_jobs s)"
    and "\<And>c env. (c, env) \<in> set cs \<Longrightarrow> c \<in> set (st_jobs s) \<and> expired_row (se_db env) c"
    and "distinct (map fst cs)" and "recover_candidates ops cs k s = (s', Inr n)"
  shows "queue_ok (so_codec ops) (st_jobs s') \<and> running_rows s' \<subseteq> running_rows s \<and>
         running_rows s - fst ` set cs \<subseteq> running_rows s' \<and>
         (\<forall>(c, env)\<in>set cs. c \<in> running_rows s' \<longrightarrow> upload_spared ops (se_db env) s c) \<and>
         n = k + card (running_rows s - running_rows s')"
  using assms(2-)
proof (induction cs arbitrary: k s)
  case (Cons x cs)
  obtain c env where x: "x = (c, env)" by (cases x)
  obtain s1 b where one: "recover_one ops env c s = (s1, Inr b)"
    and rest: "recover_candidates ops cs (if b then k + 1 else k) s1 = (s', Inr n)"
    using Cons.prems(4) by (auto simp: x split: prod.splits sum.splits)
  have c: "c \<in> set (st_jobs s)" "expired_row (se_db env) c" using Cons.prems(2) by (auto simp: x)
  then have run: "c \<in> running_rows s" by (simp add: running_rows_def expired_row_def)
  note step = recover_one_run [OF assms(1) Cons.prems(1) c one]
  have fresh: "c \<notin> fst ` set cs" using Cons.prems(3) by (simp add: x)
  have cands: "d \<in> set (st_jobs s1) \<and> expired_row (se_db e) d" if d: "(d, e) \<in> set cs" for d e
  proof -
    have "d \<in> running_rows s" "expired_row (se_db e) d"
      using Cons.prems(2) [of d e] d by (auto simp: running_rows_def expired_row_def)
    moreover have "d \<noteq> c" using fresh d by force
    ultimately show ?thesis using step(3) by (auto simp: running_rows_def split: if_splits)
  qed
  have IH: "queue_ok (so_codec ops) (st_jobs s')" "running_rows s' \<subseteq> running_rows s1"
    "running_rows s1 - fst ` set cs \<subseteq> running_rows s'"
    "\<And>d e. (d, e) \<in> set cs \<Longrightarrow> d \<in> running_rows s' \<Longrightarrow> upload_spared ops (se_db e) s1 d"
    "n = (if b then k + 1 else k) + card (running_rows s1 - running_rows s')"
    using Cons.IH [OF step(1) cands _ rest] Cons.prems(3) by (auto simp: x)
  have fin: "finite (running_rows s)" by (simp add: running_rows_def)
  have "card (running_rows s - running_rows s') = (if b then 1 else 0) + card (running_rows s1 - running_rows s')"
  proof (cases b)
    case True
    then have "running_rows s - running_rows s' = insert c (running_rows s1 - running_rows s')"
      using step(3) IH(2) run by auto
    then show ?thesis using True step(3) fin by simp
  qed (simp add: step(3))
  moreover have "upload_spared ops (se_db e) s d" if "(d, e) \<in> set (x # cs)" "d \<in> running_rows s'" for d e
  proof (cases "(d, e) \<in> set cs")
    case True
    then show ?thesis using upload_spared_from [OF step(2) IH(4)] that(2) by blast
  next
    case False
    then show ?thesis using that IH(2) step(3,4) by (auto simp: x split: if_splits)
  qed
  moreover have "running_rows s' \<subseteq> running_rows s" using IH(2) step(3) by (auto split: if_splits)
  moreover have "running_rows s - fst ` set (x # cs) \<subseteq> running_rows s'" using IH(3) step(3) by (auto simp: x split: if_splits)
  moreover have "n = k + card (running_rows s - running_rows s')" using IH(5) calculation(1) by simp
  ultimately show ?case using IH(1) by blast
qed (simp add: assms)


section \<open>Properties\<close>

text \<open>(C4) Recovery of stale leases is complete and touches nothing else: when
  \<open>recover_stale\<close> returns the number \<open>n\<close>, every lease that had not expired is still held by its job, unchanged; a
  lease that had expired is over, but for an upload whose media item was reserved within the last
  minute; and \<open>n\<close> is the number of leases that were ended. The queue keeps its invariant. The
  clocks of the later transactions are not behind the clock of the first query.\<close>

theorem recover_stale_complete:
  assumes "codec_laws (so_codec ops)" and ok: "queue_ok (so_codec ops) (st_jobs s)"
    and clocks: "\<And>r. env_clock env \<le> env_clock (se_db (env_of r))"
    and res: "recover_stale ops env env_of s = (s', Inr n)"
  shows "queue_ok (so_codec ops) (st_jobs s') \<and>
    (\<forall>r\<in>set (st_jobs s). jr_state r = lit ''running'' \<and> \<not> expired_row env r \<longrightarrow> r \<in> set (st_jobs s')) \<and>
    (\<forall>r\<in>set (st_jobs s'). expired_row env r \<longrightarrow>
       r \<in> set (st_jobs s) \<and> upload_spared ops (se_db (env_of r)) s r) \<and>
    length (filter (expired_row env) (st_jobs s)) = n + length (filter (expired_row env) (st_jobs s'))"
proof -
  let ?cs = "map (\<lambda>r. (r, env_of r)) (stale_candidates env (st_jobs s))"
  have members: "set (stale_candidates env (st_jobs s)) = {r \<in> set (st_jobs s). expired_row env r}"
    by (simp add: stale_candidates_def)
  have later: "expired_row env r \<Longrightarrow> expired_row (se_db (env_of r)) r" for r :: "'a job_row"
    using clocks [of r] by (cases "jr_lease_expires_at r") (auto simp: expired_row_def)
  have dist: "distinct (st_jobs s)" using ok by (simp add: table_ok_def distinct_map)
  have fsts: "fst ` set ?cs = {r \<in> set (st_jobs s). expired_row env r}"
    by (simp add: members image_image)
  have cands: "c \<in> set (st_jobs s) \<and> expired_row (se_db e) c" if "(c, e) \<in> set ?cs" for c e
    using that members later by auto
  have "distinct (stale_candidates env (st_jobs s))" using dist by (simp add: stale_candidates_def)
  then have "distinct (map fst ?cs)" by (simp add: comp_def)
  note all = recover_candidates_run [OF assms(1) ok cands this res [unfolded recover_stale_def]]
  then have run: "queue_ok (so_codec ops) (st_jobs s')" "running_rows s' \<subseteq> running_rows s"
    "running_rows s - fst ` set ?cs \<subseteq> running_rows s'"
    "\<And>r. r \<in> set (stale_candidates env (st_jobs s)) \<Longrightarrow> r \<in> running_rows s' \<Longrightarrow> upload_spared ops (se_db (env_of r)) s r"
    "n = card (running_rows s - running_rows s')"
    by auto
  have expired: "{r \<in> set (st_jobs u). expired_row env r} \<subseteq> running_rows u" for u
    by (auto simp: running_rows_def expired_row_def)
  have len: "length (filter (expired_row env) (st_jobs u)) = card {r \<in> set (st_jobs u). expired_row env r}"
    if "queue_ok (so_codec ops) (st_jobs u)" for u
    using that distinct_card [of "filter (expired_row env) (st_jobs u)"] by (simp add: table_ok_def distinct_map)
  have "{r \<in> set (st_jobs s). expired_row env r} =
      (running_rows s - running_rows s') \<union> {r \<in> set (st_jobs s'). expired_row env r}"
    using run(2,3) expired fsts by (auto simp: running_rows_def)
  moreover have "(running_rows s - running_rows s') \<inter> {r \<in> set (st_jobs s'). expired_row env r} = {}"
    using expired by auto
  ultimately have "card {r \<in> set (st_jobs s). expired_row env r} = n + card {r \<in> set (st_jobs s'). expired_row env r}"
    using run(5) card_Un_disjoint [of "running_rows s - running_rows s'"] by (simp add: running_rows_def)
  then have "length (filter (expired_row env) (st_jobs s)) = n + length (filter (expired_row env) (st_jobs s'))"
    using len [OF ok] len [OF run(1)] by simp
  moreover have "r \<in> set (st_jobs s')" if "r \<in> set (st_jobs s)" "jr_state r = lit ''running''" "\<not> expired_row env r" for r
    using that run(3) fsts by (auto simp: running_rows_def)
  moreover have "r \<in> set (st_jobs s) \<and> upload_spared ops (se_db (env_of r)) s r"
    if r: "r \<in> set (st_jobs s')" "expired_row env r" for r
  proof -
    have r': "r \<in> running_rows s'" using r by (simp add: running_rows_def expired_row_def)
    then have "r \<in> set (st_jobs s)" using run(2) by (auto simp: running_rows_def)
    with run(4) [OF _ r'] members r(2) show ?thesis by simp
  qed
  ultimately show ?thesis using run(1) by blast
qed

section \<open>Witnesses\<close>

text \<open>A store with one pending video, one ingest that waits for its upload, and given jobs.\<close>

definition plain_store_ops :: "(plain_value, unit) store_ops" where
  "plain_store_ops =
     \<lparr>so_publisher = plain_ops, so_payload_text = (\<lambda>_ _. None), so_to_lowercase = (\<lambda>t. t),
      so_preview_size = (\<lambda>_ _. Inl []), so_time_text = (\<lambda>_. []), so_parse_rfc3339 = (\<lambda>_. None),
      so_parse_uuid = (\<lambda>_. None), so_evidence_json = (\<lambda>_. JNull), so_json_length = (\<lambda>_. 0)\<rparr>"

definition witness_media :: media_row where
  "witness_media =
     \<lparr>mw_id = 4, mw_kind = lit ''video'', mw_storage_state = lit ''pending_storage'', mw_canonical_sha256 = None,
      mw_fingerprint_version = None, mw_fingerprint_data = None, mw_fingerprint_search_tokens = None,
      mw_title = None, mw_description = None, mw_tags = [], mw_source_url = None, mw_source_metadata = JNull,
      mw_mime_type = None, mw_container = None, mw_video_codec = None, mw_audio_codec = None, mw_width = None,
      mw_height = None, mw_duration_ms = None, mw_bit_rate = None, mw_file_size_bytes = None,
      mw_local_work_path = None, mw_preview_bytes = None, mw_preview_mime_type = None, mw_preview_width = None,
      mw_preview_height = None, mw_preview_sha256 = None, mw_telegram_storage_chat_id = None,
      mw_telegram_storage_message_id = None, mw_telegram_file_id = None, mw_telegram_file_unique_id = None,
      mw_storage_generation = 0, mw_storage_token = None, mw_storage_started_at = None, mw_created_at = 0,
      mw_updated_at = 0, mw_stored_at = None, mw_caption_sync_generation = 0,
      mw_caption_sync_state = lit ''not_required'', mw_caption_sync_error = None,
      mw_caption_sync_claim_token = None\<rparr>"

definition storing_ingest :: ingest_row where
  "storing_ingest =
     \<lparr>iw_id = 1, iw_input_kind = lit ''url'', iw_state = lit ''storing'', iw_submitted_via = lit ''api'',
      iw_input_json = JNull, iw_source_url = None, iw_page_url = None, iw_page_title = None,
      iw_supplied_caption = None, iw_supplied_description = None, iw_supplied_tags = [],
      iw_requested_action = lit ''queue'', iw_requested_publish_at = None, iw_requested_post_caption = None,
      iw_requested_channel_id = None, iw_input_key = [], iw_request_hash = [], iw_workspace_id = 2,
      iw_media_id = Some 4, iw_force_save = False, iw_duplicate_evidence = None, iw_error_code = None,
      iw_error_message = None, iw_acknowledged_failure_at = None, iw_created_at = 0, iw_updated_at = 0,
      iw_completed_at = None\<rparr>"

definition media_store :: "plain_value job_table \<Rightarrow> media_row \<Rightarrow> plain_value store" where
  "media_store jobs m =
     \<lparr>st_jobs = jobs, st_ingests = [storing_ingest], st_media = [m], st_posts = [], st_channels = []\<rparr>"

definition senv :: "timestamp \<Rightarrow> uuid \<Rightarrow> store_env" where
  "senv now fresh = \<lparr>se_db = at_time now fresh, se_job_uuid = (\<lambda>k. of_nat (100 + length k))\<rparr>"

definition upload_job :: "plain_value job_row" where
  "upload_job = claimed_row (at_time 5 9) (lit ''w'') 10 (inserted_job plain_codec (at_time 0 7) (new_upload_storage_asset 4))"

lemma plain_store_codec [simp]: "so_codec plain_store_ops = plain_codec"
  by (simp add: plain_store_ops_def plain_ops_def)

lemma witness_media_inv: "media_inv witness_media"
  by (simp add: media_inv_def media_check_def size_check_def preview_check_def witness_media_def in_i32_def)

lemma media_store_ok: "media_inv m \<Longrightarrow> media_ok (media_store jobs m)"
  by (simp add: media_ok_def media_store_def table_ok_def sha_unique_def)

lemma upload_job_ok: "queue_ok plain_codec [upload_job]"
proof -
  let ?r = "inserted_job plain_codec (at_time 0 7) (new_upload_storage_asset 4)"
  have "stored_ok plain_codec ?r"
    by (rule inserted_job_ok [OF plain_codec_laws]) (simp add: new_upload_storage_asset_def new_job_new_def)
  moreover have "job_step ?r upload_job"
    unfolding upload_job_def
    by (rule claim_step [of _ "[UploadStorageAssetJob]"])
       (simp add: claim_candidate_def inserted_job_def at_time_def new_upload_storage_asset_def new_job_new_def new_job_type_def)
  ultimately show ?thesis using queue.step_check by (auto simp: table_ok_def)
qed

theorem recover_stale_complete_witness:
  "\<exists>s'. recover_stale plain_store_ops (at_time 15 0) (\<lambda>_. senv 15 0) (media_store [upload_job] witness_media) = (s', Inr 1) \<and>
     filter (expired_row (at_time 15 0)) (st_jobs s') = []"
proof -
  have "\<exists>s'. recover_stale plain_store_ops (at_time 15 0) (\<lambda>_. senv 15 0) (media_store [upload_job] witness_media) = (s', Inr 1)"
    by (simp add: recover_stale_def stale_candidates_def media_store_def expired_row_def upload_job_def
       claimed_row_def at_time_def inserted_job_def new_upload_storage_asset_def new_job_new_def new_job_type_def
       recover_one_def into_job_def job_type_try_from_def plain_codec_def decode_payload_def job_status_try_from_def
       recover_family_def recover_storage_job_def recover_storage_tx_def lock_expired_job_def select_one_def
       validate_locked_command_def commands_have_same_owner_def Let_def select_media_def witness_media_def upload_in_progress_def
       recover_storage_row_def storage_recovery_update_def media_storage_state_try_from_def update_locked_in_store_def
       update_locked_job_def update_where_def returning_def in_transaction_def senv_def)
  then obtain s' where s': "recover_stale plain_store_ops (at_time 15 0) (\<lambda>_. senv 15 0) (media_store [upload_job] witness_media) = (s', Inr 1)" by blast
  have "length (filter (expired_row (at_time 15 0)) [upload_job]) = 1"
    by (simp add: expired_row_def upload_job_def claimed_row_def at_time_def)
  with recover_stale_complete [of plain_store_ops "media_store [upload_job] witness_media" "at_time 15 0" "\<lambda>_. senv 15 0", OF _ _ _ s']
  have "filter (expired_row (at_time 15 0)) (st_jobs s') = []"
    using plain_codec_laws upload_job_ok by (simp add: media_store_def senv_def)
  with s' show ?thesis by blast
qed


lemmas store_witness_defs =
  media_store_def senv_def at_time_def plain_codec_def witness_lease_def upload_job_def claimed_row_def inserted_job_def
  new_upload_storage_asset_def new_job_new_def new_job_type_def

definition uploading_media :: media_row where
  "uploading_media = reserved_media (at_time 5 21) witness_media"

lemma uploading_media_inv: "media_inv uploading_media"
  by (simp add: media_inv_def media_check_def size_check_def preview_check_def uploading_media_def reserved_media_def
      witness_media_def in_i32_def)

end
