(* ===== verification/Settlement_Safety.thy ===== *)
theory Settlement_Safety
  imports Settlement_Contracts
begin

text \<open>
  What settlement and recovery mean for the rows behind a job: a job that failed for good leaves
  no open ingest, no running send, no reserved upload and no claimed caption behind; a lease that
  is over settles nothing.
\<close>

section \<open>Closed domain rows\<close>

text \<open>
  The first store is the one before, the second the one after. An upload that is known to have had no effect
  (\<open>missing\<close>) is left to the failure its handler has recorded: media and ingests stay as they were.
\<close>

definition storage_closed :: "uuid \<Rightarrow> 'v store \<Rightarrow> 'v store \<Rightarrow> bool" where
  "storage_closed media_id s s' \<longleftrightarrow>
     (case select_media media_id s' of
        None \<Rightarrow> True
      | Some m \<Rightarrow>
          mw_storage_state m \<noteq> lit ''pending_storage'' \<and> mw_storage_token m = None \<and>
          (if mw_storage_state m = lit ''missing'' then st_media s' = st_media s \<and> st_ingests s' = st_ingests s
           else list_all (\<lambda>i. iw_media_id i = Some media_id \<longrightarrow> iw_state i \<noteq> lit ''storing'') (st_ingests s')))"

definition ingest_closed :: "('v, 'tz) store_ops \<Rightarrow> uuid \<Rightarrow> 'v store \<Rightarrow> bool" where
  "ingest_closed ops ingest_id s \<longleftrightarrow>
     (case select_ingest ingest_id s of
        None \<Rightarrow> True
      | Some r \<Rightarrow> \<not> open_ingest r \<and>
          list_ex (\<lambda>j. jr_dedupe_key j = Some (workspace_cleanup_key ops ingest_id (iw_workspace_id r))) (st_jobs s))"

definition caption_closed :: "media_job_payload \<Rightarrow> 'v store \<Rightarrow> bool" where
  "caption_closed payload s \<longleftrightarrow>
     list_all (\<lambda>m. \<not> (mw_id m = mjp_media_id payload \<and> mw_caption_sync_generation m = mjp_generation payload \<and>
                      mw_caption_sync_state m = lit ''syncing'')) (st_media s)"

definition send_closed :: "uuid \<Rightarrow> 'v store \<Rightarrow> bool" where
  "send_closed post_id s \<longleftrightarrow> list_all (\<lambda>p. pw_id p = post_id \<longrightarrow> pw_state p \<noteq> lit ''sending'') (st_posts s)"

text \<open>A job of the queue only: nothing but the queue is written.\<close>

definition queue_written :: "'v store \<Rightarrow> 'v store \<Rightarrow> bool" where
  "queue_written s s' \<longleftrightarrow> s' = s\<lparr>st_jobs := st_jobs s'\<rparr>"

definition domain_closed :: "('v, 'tz) store_ops \<Rightarrow> job_command \<Rightarrow> 'v store \<Rightarrow> 'v store \<Rightarrow> bool" where
  "domain_closed ops command s s' =
     (case command of
        PublishPost payload \<Rightarrow> send_closed (ppp_post_id payload) s'
      | UploadStorageAsset payload \<Rightarrow> storage_closed (mjp_media_id payload) s s'
      | SyncStorageCaption payload \<Rightarrow> caption_closed payload s'
      | MaterializePublication _ \<Rightarrow> queue_written s s'
      | CleanupWorkspace _ \<Rightarrow> queue_written s s'
      | _ \<Rightarrow> (case job_ingest_id command of Inr i \<Rightarrow> ingest_closed ops i s' | Inl _ \<Rightarrow> True))"

definition store_ok :: "('v, 'tz) store_ops \<Rightarrow> 'v store \<Rightarrow> bool" where
  "store_ok ops s \<longleftrightarrow>
     publisher_ok (so_publisher ops) (publisher_view s) \<and> media_ok s \<and> distinct (map iw_id (st_ingests s))"

lemma store_okD:
  assumes "store_ok ops s"
  shows "codec_laws (so_codec ops)" "queue_ok (so_codec ops) (st_jobs s)" "media_ok s"
    "publisher_ok (so_publisher ops) (publisher_view s)" "distinct (map iw_id (st_ingests s))"
  using assms publisher_queue_ok [of "so_publisher ops" "publisher_view s"]
  by (auto simp: store_ok_def publisher_ok_def publisher_laws_def)

text \<open>A job in \<open>failed\<close>.\<close>

definition job_failed :: "uuid \<Rightarrow> 'v store \<Rightarrow> bool" where
  "job_failed jid s \<longleftrightarrow> list_ex (\<lambda>r. jr_id r = jid \<and> jr_state r = lit ''failed'') (st_jobs s)"

section \<open>The domain step of a failed job\<close>

lemma update_locked_keys:
  assumes "update_locked_in_store env jid u s = Inr (s', row)"
  shows "map jr_dedupe_key (st_jobs s') = map jr_dedupe_key (st_jobs s)"
    and "st_posts s' = st_posts s" "st_ingests s' = st_ingests s" "st_media s' = st_media s"
  using assms
  by (auto simp: update_locked_in_store_def update_locked_job_def result_simps Let_def update_where_def settled_row_def)

lemma settled_by_failed:
  assumes "settled_by codec env lease st t t' r" and "x \<in> set t'" and "jr_id x = jl_job_id lease"
    and "jr_state x = lit ''failed''" and "queue_ok codec t'"
  shows "\<exists>j\<in>set t. locks_running_job env lease (allows_expired_lease st) j \<and> qu_terminal (queue_parameters j st)"
proof -
  obtain j where j: "j \<in> set t" "locks_running_job env lease (allows_expired_lease st) j"
    and row: "settled_row env (queue_parameters j st) j \<in> set t'"
    using assms(1) by (auto simp: settled_by_def)
  have "jr_id (settled_row env (queue_parameters j st) j) = jr_id x"
    using j(2) assms(3) by (simp add: locks_running_job_def)
  then have "x = settled_row env (queue_parameters j st) j"
    using table_ok_key [OF assms(5) assms(2) row] by simp
  then have "qu_state (queue_parameters j st) = lit ''failed''" using assms(4) by simp
  then have "qu_terminal (queue_parameters j st)" by (simp add: queue_parameters_state split: if_splits)
  with j show ?thesis by blast
qed

text \<open>What \<open>settle_with\<close> did, given that the job is now failed.\<close>

lemma settle_with_failed:
  assumes ok: "queue_ok (so_codec ops) (st_jobs s)"
    and tx: "settle_with ops env lease expected st payload_of settle_domain s = Inr (s', row)"
    and domain: "\<And>u k s1. settle_domain u k s = Inr s1 \<Longrightarrow> jobs_grown (so_codec ops) (st_jobs s) (st_jobs s1)"
    and failed: "job_failed (jl_job_id lease) s'"
  obtains job command k s1 u where "validate_locked_command (so_codec ops) job expected = Inr command"
    "payload_of command = Inr k" "qu_terminal u" "settle_domain u k s = Inr s1"
    "map jr_dedupe_key (st_jobs s') = map jr_dedupe_key (st_jobs s1)" "st_posts s' = st_posts s1"
    "st_ingests s' = st_ingests s1" "st_media s' = st_media s1"
proof -
  from tx obtain j command k s1 where lock: "lock_running_job (se_db env) lease (allows_expired_lease st) (st_jobs s) = Inr j"
    and v: "validate_locked_command (so_codec ops) j expected = Inr command" "payload_of command = Inr k"
    and d: "settle_domain (queue_parameters j st) k s = Inr s1"
    and u: "update_locked_in_store (se_db env) (jr_id j) (queue_parameters j st) s1 = Inr (s', row)"
    by (auto simp: settle_with_def result_simps Let_def)
  from lock_running_job_Inr [OF lock] have j: "j \<in> set (st_jobs s)"
    "locks_running_job (se_db env) lease (allows_expired_lease st) j" by auto
  then have run: "jr_state j = lit ''running''" "jr_id j = jl_job_id lease" by (simp_all add: locks_running_job_def)
  have inv: "job_inv (settled_row (se_db env) (queue_parameters j st) j)"
    using table_ok_check [OF ok j(1)] j(2) by (auto simp: stored_ok_def intro: settled_row_inv)
  note left = update_locked_left [OF ok j(1) run(1) domain [OF d] inv queue_parameters_not_running u]
  obtain x where x: "x \<in> set (st_jobs s')" "jr_id x = jl_job_id lease" "jr_state x = lit ''failed''"
    using failed by (auto simp: job_failed_def list_ex_iff)
  have ok': "queue_ok (so_codec ops) (st_jobs s')" using left(1) by (simp add: job_left_def)
  have "x = row" using table_ok_key [OF ok' x(1) left(3)] x(2) left(2) run(2) by simp
  then have "qu_terminal (queue_parameters j st)"
    using x(3) left(2) by (simp add: queue_parameters_state split: if_splits)
  from that [OF v this d update_locked_keys [OF u]] show ?thesis .
qed

lemma recover_with_failed:
  assumes ok: "queue_ok (so_codec ops) (st_jobs s)"
    and tx: "recover_with ops env jid expected payload_of recover_domain s = Inr (s', True)"
    and domain: "\<And>j k s1. recover_domain j k s = Inr s1 \<Longrightarrow> jobs_grown (so_codec ops) (st_jobs s) (st_jobs s1)"
    and failed: "job_failed jid s'"
  obtains job command k s1 where "validate_locked_command (so_codec ops) job expected = Inr command"
    "payload_of command = Inr k" "jr_attempt_count job \<ge> jr_max_attempts job" "recover_domain job k s = Inr s1"
    "map jr_dedupe_key (st_jobs s') = map jr_dedupe_key (st_jobs s1)" "st_posts s' = st_posts s1"
    "st_ingests s' = st_ingests s1" "st_media s' = st_media s1"
proof -
  from tx obtain j command k s1 row where lock: "lock_expired_job (se_db env) jid (st_jobs s) = Some j"
    and v: "validate_locked_command (so_codec ops) j expected = Inr command" "payload_of command = Inr k"
    and d: "recover_domain j k s = Inr s1"
    and u: "update_locked_in_store (se_db env) (jr_id j) (recovery_update (se_db env) j) s1 = Inr (s', row)"
    by (auto simp: recover_with_def result_simps split: option.splits)
  note j = expired_stored [OF ok lock]
  note left = update_locked_left [OF ok j(1,3) domain [OF d] recovery_update_inv [OF j(4,3)] recovery_update_not_running u]
  obtain x where x: "x \<in> set (st_jobs s')" "jr_id x = jid" "jr_state x = lit ''failed''"
    using failed by (auto simp: job_failed_def list_ex_iff)
  have ok': "queue_ok (so_codec ops) (st_jobs s')" using left(1) by (simp add: job_left_def)
  have "x = row" using table_ok_key [OF ok' x(1) left(3)] x(2) left(2) j(2) by simp
  then have "jr_attempt_count j \<ge> jr_max_attempts j"
    using x(3) left(2) by (simp add: recovery_update_def Let_def split: if_splits)
  from that [OF v this d update_locked_keys [OF u]] show ?thesis .
qed


section \<open>Closing the rows of each family\<close>

lemma insert_job_once_key:
  "insert_job_once ops env j key t = Inr t' \<Longrightarrow> list_ex (\<lambda>r. jr_dedupe_key r = Some key) t'"
  by (auto simp: insert_job_once_def Let_def dedupe_conflict_def inserted_job_def with_dedupe_key_def split: if_splits)

lemma closed_ingest_row:
  assumes "distinct (map iw_id t)" and "select_one (\<lambda>r. iw_id r = i) (update_where (\<lambda>r. iw_id r = i \<and> open_ingest r) f t) = Some r"
    and "\<And>r. \<not> open_ingest (f r)"
  shows "\<not> open_ingest r"
  using select_one_Some [OF assms(2)] assms(3) by (auto simp: set_update_where elim!: imageE)

lemma fail_ingest_terminal_closed:
  assumes "fail_ingest_terminal ops env i s = Inr s'" and "distinct (map iw_id (st_ingests s))"
  shows "ingest_closed ops i s'"
proof -
  let ?s = "update_ingests (\<lambda>r. iw_id r = i \<and> open_ingest r) (lease_failed_ingest (se_db env)) s"
  show ?thesis
  proof (cases "select_ingest i ?s")
    case None
    then show ?thesis using assms(1) by (simp add: fail_ingest_terminal_def Let_def ingest_closed_def)
  next
    case (Some r)
    have "\<not> open_ingest (lease_failed_ingest (se_db env) x)" for x
      by (simp add: open_ingest_def lease_failed_ingest_def)
    then have "\<not> open_ingest r"
      using closed_ingest_row [OF assms(2)] Some by (simp add: select_ingest_def update_ingests_def)
    moreover obtain jobs where jobs: "insert_job_once ops env
        (fst (workspace_cleanup ops i (iw_workspace_id r) (env_utc (se_db env) + WORKSPACE_CLEANUP_RETENTION)))
        (workspace_cleanup_key ops i (iw_workspace_id r)) (st_jobs ?s) = Inr jobs" and s': "s' = ?s\<lparr>st_jobs := jobs\<rparr>"
      using assms(1) Some
      by (auto simp: fail_ingest_terminal_def Let_def store_workspace_cleanup_def on_jobs_def result_simps workspace_cleanup_def)
    moreover have "select_ingest i s' = Some r" using Some by (simp add: s' select_ingest_def)
    ultimately show ?thesis using insert_job_once_key [OF jobs] by (simp add: ingest_closed_def s')
  qed
qed

lemma settle_caption_row_closed:
  "settle_caption_row env p c err s = Inr s' \<Longrightarrow> c \<noteq> lit ''syncing'' \<Longrightarrow> caption_closed p s'"
  by (auto simp: settle_caption_row_def result_simps update_media_rows_Inr caption_closed_def list_all_iff
      set_update_where settled_caption_def elim!: imageE)

lemma select_media_row: "select_media i s = Some m \<Longrightarrow> m \<in> set (st_media s) \<and> mw_id m = i"
  unfolding select_media_def by (rule select_one_Some)

lemma update_ingests_storing:
  assumes "\<And>r. iw_media_id r = Some i \<Longrightarrow> iw_state r = lit ''storing'' \<Longrightarrow> P r"
    and "\<And>r. iw_state (f r) \<noteq> lit ''storing''"
  shows "list_all (\<lambda>r. iw_media_id r = Some i \<longrightarrow> iw_state r \<noteq> lit ''storing'') (st_ingests (update_ingests P f s))"
  using assms by (auto simp: update_ingests_def list_all_iff set_update_where elim!: imageE)

lemma update_media_member:
  "update_media_rows P f e s = Inr (s', rows) \<Longrightarrow> n \<in> set (st_media s') \<Longrightarrow>
     \<exists>x\<in>set (st_media s). n = (if P x then f x else x)"
  by (auto simp: update_media_rows_Inr update_where_def)

lemma mark_storage_unknown_closed:
  assumes "mark_storage_unknown_for_job env i msg s = Inr s'" and "media_ok s"
    and "select_media i s = Some m" and "mw_storage_state m \<noteq> lit ''ready''"
  shows "storage_closed i s0 s'"
proof -
  let ?P = "\<lambda>m. mw_id m = i \<and> mw_storage_state m \<noteq> lit ''ready''"
  obtain s1 rows where u: "update_media_rows ?P (unknown_media env) JobDatabase s = Inr (s1, rows)"
    and s': "s' = update_ingests (\<lambda>r. iw_media_id r = Some i \<and> iw_state r \<noteq> lit ''cancelled'' \<and>
                (iw_state r \<noteq> lit ''failed_terminal'' \<or> storage_code r)) (storage_failed_ingest env msg) s1"
    using assms(1) by (auto simp: mark_storage_unknown_for_job_def result_simps)
  have "n = unknown_media env m" if "select_media i s' = Some n" for n
  proof -
    from select_media_row [OF that] have n: "n \<in> set (st_media s1)" "mw_id n = i" by (simp_all add: s')
    obtain x where x: "x \<in> set (st_media s)" "n = (if ?P x then unknown_media env x else x)"
      using update_media_member [OF u n(1)] by blast
    have "mw_id x = mw_id m" using x(2) n(2) select_media_row [OF assms(3)] by (simp split: if_splits)
    then have "x = m" using media_row_key [OF assms(2)] select_media_row [OF assms(3)] x(1) by blast
    then show ?thesis using x(2) assms(4) select_media_row [OF assms(3)] by simp
  qed
  then show ?thesis
    by (auto simp: storage_closed_def unknown_media_def s' storage_failed_ingest_def split: option.splits
        intro!: update_ingests_storing)
qed

lemma storage_state_lit:
  "media_storage_state_try_from (mw_storage_state m) = Inr st \<Longrightarrow> mw_storage_state m = media_storage_state_as_str st"
  by (rule storage_state_enum.try_from_Inr)

lemma reconcile_storage_closed:
  assumes "reconcile_storage_terminal env i msg s = Inr s'" and "media_ok s"
  shows "storage_closed i s s'"
proof (cases "select_media i s")
  case None
  then show ?thesis using assms(1) by (simp add: reconcile_storage_terminal_def storage_closed_def)
next
  case (Some m)
  note m = select_media_row [OF Some]
  have inv: "media_inv m" using media_row_inv [OF assms(2)] m by blast
  then have "mw_storage_state m \<in> {lit ''pending_storage'', lit ''ready'', lit ''storage_unknown'', lit ''missing''}"
    by (simp add: media_inv_def media_check_def)
  then obtain st where st: "media_storage_state_try_from (mw_storage_state m) = Inr st"
    by (auto simp: media_storage_state_try_from_def)
  note lit = storage_state_lit [OF st]
  have token: "mw_storage_state m \<noteq> lit ''pending_storage'' \<Longrightarrow> mw_storage_token m = None"
    using inv by (auto simp: media_inv_def)
  have same: "select_media i (update_ingests P f s) = Some m" for P f
    using Some by (simp add: select_media_def)
  show ?thesis
  proof (cases st)
    case StoragePending
    with lit show ?thesis
      using mark_storage_unknown_closed [OF _ assms(2) Some] assms(1) st by (simp add: reconcile_storage_terminal_def Some)
  next
    case StorageMissing
    with lit token assms(1) st Some show ?thesis by (simp add: reconcile_storage_terminal_def storage_closed_def)
  next
    case StorageReady
    with lit token assms(1) st Some show ?thesis
      by (auto simp: reconcile_storage_terminal_def storage_closed_def same completable_ingest_def completed_ingest_def
          intro!: update_ingests_storing)
  next
    case StorageUnknown
    with lit token assms(1) st Some show ?thesis
      by (auto simp: reconcile_storage_terminal_def storage_closed_def same storage_failed_ingest_def
          intro!: update_ingests_storing)
  qed
qed


lemma settle_terminal_closed:
  assumes "settle_terminal_publication_post env i p v c m db = Inr db'" and "publisher_ok ops db"
    and "lock_publication_post db i = Some p" and "q \<in> set (db_posts db')" and "pw_id q = i"
  shows "pw_state q \<noteq> lit ''sending''"
proof -
  have p: "p \<in> set (db_posts db)" "pw_id p = i"
    using select_one_Some [OF assms(3) [unfolded lock_publication_post_def]] by auto
  from settle_terminal_send [OF assms(1,2) p] obtain r where r: "r \<in> set (db_posts db')" "pw_id r = i"
    "pw_state r \<noteq> lit ''sending''" by auto
  have "publisher_ok ops db'" using settle_terminal_change [OF assms(1)] assms(2) publisher_change_ok by blast
  then have "table_ok pw_id post_inv (db_posts db')" by (simp add: publisher_ok_def)
  from table_ok_key [OF this assms(4) r(1)] assms(5) r(2,3) show ?thesis by simp
qed

lemma when_terminal_closed:
  assumes "when_terminal True (lock_publication_post db i)
      (\<lambda>p. settle_terminal_publication_post env i p v (c p) (m p) db) db = Inr db'" and "publisher_ok ops db"
  shows "list_all (\<lambda>p. pw_id p = i \<longrightarrow> pw_state p \<noteq> lit ''sending'') (db_posts db')"
proof (cases "lock_publication_post db i")
  case None
  then have "db' = db" "\<forall>p\<in>set (db_posts db). pw_id p \<noteq> i"
    using assms(1) by (simp_all add: when_terminal_def) (simp add: lock_publication_post_def select_one_None)
  then show ?thesis by (simp add: list_all_iff)
next
  case (Some p)
  with assms settle_terminal_closed [OF _ assms(2) Some] show ?thesis by (auto simp: when_terminal_def list_all_iff)
qed

section \<open>Families\<close>

lemma job_ingest_owner:
  assumes "validate_locked_command codec job expected = Inr command" and "job_ingest_id command = Inr i"
  shows "job_ingest_id expected = Inr i"
  using assms
  by (cases command; cases expected)
     (auto simp: validate_locked_command_def commands_have_same_owner_def result_simps Let_def split: if_splits)

lemma caption_owner:
  assumes "validate_locked_command codec job expected = Inr command" and "caption_payload command = Inr p"
  shows "caption_payload expected = Inr p"
  using assms
  by (cases command; cases expected)
     (auto simp: validate_locked_command_def commands_have_same_owner_def result_simps Let_def split: if_splits)

lemma ingest_closed_same:
  assumes "ingest_closed ops i s" and "map jr_dedupe_key (st_jobs s') = map jr_dedupe_key (st_jobs s)"
    and "st_ingests s' = st_ingests s"
  shows "ingest_closed ops i s'"
proof -
  have keys: "list_ex (\<lambda>j. jr_dedupe_key j = k) (st_jobs u) \<longleftrightarrow> k \<in> set (map jr_dedupe_key (st_jobs u))"
    for k and u :: "'a store"
    by (auto simp: list_ex_iff)
  show ?thesis
    using assms(1) unfolding ingest_closed_def select_ingest_def assms(3) keys assms(2) .
qed

lemma inbox_settle_closed:
  assumes "store_ok ops s" and "inbox_settle_job ops env lease command st s = (s', Inr j)"
    and "job_failed (jl_job_id lease) s'"
  shows "\<exists>i. job_ingest_id command = Inr i \<and> ingest_closed ops i s'"
proof -
  note ok = store_okD [OF assms(1)]
  let ?d = "\<lambda>(u :: queue_update) ingest_id s. if qu_terminal u then fail_ingest_terminal ops env ingest_id s else Inr s"
  have grown: "?d u i s = Inr s1 \<Longrightarrow> jobs_grown (so_codec ops) (st_jobs s) (st_jobs s1)" for u i s1
    using jobs_grown_refl [OF ok(2)] fail_ingest_terminal_grown [OF _ ok(1,2)] by (auto split: if_splits)
  obtain row where tx: "settle_with ops env lease command st job_ingest_id ?d s = Inr (s', row)"
    using assms(2) by (auto simp: inbox_settle_job_def in_transaction_def split: sum.splits)
  obtain job actual i s1 and u :: queue_update where v: "validate_locked_command (so_codec ops) job command = Inr actual" "job_ingest_id actual = Inr i"
    and d: "qu_terminal u" "?d u i s = Inr s1"
    and same: "map jr_dedupe_key (st_jobs s') = map jr_dedupe_key (st_jobs s1)" "st_ingests s' = st_ingests s1"
    by (rule settle_with_failed [OF ok(2) tx grown assms(3)]) (assumption, rule that, assumption+)
  have "ingest_closed ops i s1" using d fail_ingest_terminal_closed [OF _ ok(5)] by simp
  with same job_ingest_owner [OF v] show ?thesis by (auto intro: ingest_closed_same)
qed

lemma inbox_recover_closed:
  assumes "store_ok ops s" and "inbox_recover_job ops env jid command s = (s', Inr True)"
    and "job_failed jid s'"
  shows "\<exists>i. job_ingest_id command = Inr i \<and> ingest_closed ops i s'"
proof -
  note ok = store_okD [OF assms(1)]
  let ?d = "\<lambda>job ingest_id s. if jr_attempt_count job \<ge> jr_max_attempts job
                             then fail_ingest_terminal ops env ingest_id s else Inr s"
  have grown: "?d j i s = Inr s1 \<Longrightarrow> jobs_grown (so_codec ops) (st_jobs s) (st_jobs s1)" for j i s1
    using jobs_grown_refl [OF ok(2)] fail_ingest_terminal_grown [OF _ ok(1,2)] by (auto split: if_splits)
  have tx: "recover_with ops env jid command job_ingest_id ?d s = Inr (s', True)"
    using assms(2) by (auto simp: inbox_recover_job_def in_transaction_def split: sum.splits)
  obtain job actual i s1 where v: "validate_locked_command (so_codec ops) job command = Inr actual" "job_ingest_id actual = Inr i"
    and d: "jr_attempt_count job \<ge> jr_max_attempts job" "?d job i s = Inr s1"
    and same: "map jr_dedupe_key (st_jobs s') = map jr_dedupe_key (st_jobs s1)" "st_ingests s' = st_ingests s1"
    by (rule recover_with_failed [OF ok(2) tx grown assms(3)]) (assumption, rule that, assumption+)
  have "ingest_closed ops i s1" using d fail_ingest_terminal_closed [OF _ ok(5)] by simp
  with same job_ingest_owner [OF v] show ?thesis by (auto intro: ingest_closed_same)
qed


lemma caption_closed_same: "caption_closed p s \<Longrightarrow> st_media s' = st_media s \<Longrightarrow> caption_closed p s'"
  by (simp add: caption_closed_def)

lemma caption_settle_closed:
  assumes "store_ok ops s" and "settle_caption_job ops env lease command st s = (s', Inr j)"
    and "job_failed (jl_job_id lease) s'"
  shows "\<exists>p. caption_payload command = Inr p \<and> caption_closed p s'"
proof -
  note ok = store_okD [OF assms(1)]
  let ?d = "\<lambda>(u :: queue_update) payload. settle_caption_row (se_db env) payload
             (if qu_terminal u then lit ''failed'' else lit ''pending'')
             (if qu_terminal u then Some (take 512 (qu_error_message u)) else None)"
  have grown: "?d u k s = Inr s1 \<Longrightarrow> jobs_grown (so_codec ops) (st_jobs s) (st_jobs s1)" for u k s1
    using jobs_grown_refl [OF ok(2)] settle_caption_row_jobs by metis
  obtain row where tx: "settle_with ops env lease command st caption_payload ?d s = Inr (s', row)"
    using assms(2) by (auto simp: settle_caption_job_def in_transaction_def split: sum.splits)
  obtain job actual p s1 and u :: queue_update where
    v: "validate_locked_command (so_codec ops) job command = Inr actual" "caption_payload actual = Inr p"
    and d: "?d u p s = Inr s1" and same: "st_media s' = st_media s1"
    by (rule settle_with_failed [OF ok(2) tx grown assms(3)]) (assumption, rule that, assumption+)
  have "caption_closed p s1" by (rule settle_caption_row_closed [OF d]) simp
  with same caption_owner [OF v] show ?thesis by (auto intro: caption_closed_same)
qed

lemma caption_recover_closed:
  assumes "store_ok ops s" and "recover_caption_job ops env jid command s = (s', Inr True)" and "job_failed jid s'"
  shows "\<exists>p. caption_payload command = Inr p \<and> caption_closed p s'"
proof -
  note ok = store_okD [OF assms(1)]
  let ?d = "\<lambda>job payload. let terminal = (jr_attempt_count job \<ge> jr_max_attempts job) in
             settle_caption_row (se_db env) payload (if terminal then lit ''failed'' else lit ''pending'')
               (if terminal then Some (lit ''caption sync job lease expired after the final attempt'') else None)"
  have grown: "?d job k s = Inr s1 \<Longrightarrow> jobs_grown (so_codec ops) (st_jobs s) (st_jobs s1)" for job k s1
    unfolding Let_def using jobs_grown_refl [OF ok(2)] settle_caption_row_jobs by metis
  have tx: "recover_with ops env jid command caption_payload ?d s = Inr (s', True)"
    using assms(2) by (auto simp: recover_caption_job_def in_transaction_def split: sum.splits)
  obtain job actual p s1 where
    v: "validate_locked_command (so_codec ops) job command = Inr actual" "caption_payload actual = Inr p"
    and d: "?d job p s = Inr s1" and same: "st_media s' = st_media s1"
    by (rule recover_with_failed [OF ok(2) tx grown assms(3)]) (assumption, rule that, assumption+)
  have "caption_closed p s1" by (rule settle_caption_row_closed [OF d [unfolded Let_def]]) simp
  with same caption_owner [OF v] show ?thesis by (auto intro: caption_closed_same)
qed

lemma storage_closed_same:
  "storage_closed i s0 s \<Longrightarrow> st_media s' = st_media s \<Longrightarrow> st_ingests s' = st_ingests s \<Longrightarrow> storage_closed i s0 s'"
  by (simp only: storage_closed_def select_media_def)

lemma storage_settle_closed:
  assumes "store_ok ops s" and "settle_storage_job ops env lease (UploadStorageAsset p) st s = (s', Inr j)"
    and "job_failed (jl_job_id lease) s'"
  shows "storage_closed (mjp_media_id p) s s'"
proof -
  note ok = store_okD [OF assms(1)]
  let ?d = "\<lambda>(u :: queue_update) payload s. if qu_terminal u
             then reconcile_storage_terminal (se_db env) (mjp_media_id payload) (qu_error_message u) s else Inr s"
  have grown: "?d u k s = Inr s1 \<Longrightarrow> jobs_grown (so_codec ops) (st_jobs s) (st_jobs s1)" for u k s1
    using jobs_grown_refl [OF ok(2)] by (auto dest!: reconcile_storage_jobs split: if_splits)
  obtain row where tx: "settle_with ops env lease (UploadStorageAsset p) st storage_payload ?d s = Inr (s', row)"
    using assms(2) by (auto simp: settle_storage_job_def in_transaction_def split: sum.splits)
  obtain job actual q s1 and u :: queue_update where
    v: "validate_locked_command (so_codec ops) job (UploadStorageAsset p) = Inr actual" "storage_payload actual = Inr q"
    and d: "qu_terminal u" "?d u q s = Inr s1" and same: "st_ingests s' = st_ingests s1" "st_media s' = st_media s1"
    by (rule settle_with_failed [OF ok(2) tx grown assms(3)]) (assumption, rule that, assumption+)
  have "storage_closed (mjp_media_id q) s s1" using d reconcile_storage_closed [OF _ ok(3)] by simp
  then show ?thesis using storage_payload_owner [OF v] same by (auto intro: storage_closed_same)
qed

lemma storage_recover_closed:
  assumes "store_ok ops s" and "recover_storage_job ops env jid (UploadStorageAsset p) s = (s', Inr True)"
    and "job_failed jid s'"
  shows "storage_closed (mjp_media_id p) s s'"
proof -
  note ok = store_okD [OF assms(1)]
  have tx: "recover_storage_tx ops (se_db env) jid (UploadStorageAsset p) s = Inr (s', True)"
    using assms(2) by (auto simp: recover_storage_job_def in_transaction_def split: sum.splits)
  obtain j where lock: "lock_expired_job (se_db env) jid (st_jobs s) = Some j"
    using tx by (cases "lock_expired_job (se_db env) jid (st_jobs s)") (simp_all add: recover_storage_tx_def)
  obtain actual q where
    v: "validate_locked_command (so_codec ops) j (UploadStorageAsset p) = Inr actual" "storage_payload actual = Inr q"
    and q: "(case select_media (mjp_media_id q) s of
               None \<Rightarrow> map_ok (\<lambda>(s, _). (s, True))
                         (update_locked_in_store (se_db env) (jr_id j) (missing_media_update j) s)
             | Some m \<Rightarrow>
                 if upload_in_progress (se_db env) m then Inr (s, False)
                 else map_ok (\<lambda>s. (s, True)) (recover_storage_row (se_db env) j (mjp_media_id q) m s)) = Inr (s', True)"
    using tx lock by (auto simp: recover_storage_tx_def rbind_Inr)
  have owner: "mjp_media_id q = mjp_media_id p" using storage_payload_owner [OF v] by auto
  note j = expired_stored [OF ok(2) lock]
  show ?thesis
  proof (cases "select_media (mjp_media_id q) s")
    case None
    with q have "select_media (mjp_media_id p) s' = None"
      by (auto simp: select_media_def owner result_simps dest!: update_locked_media)
    then show ?thesis by (simp add: storage_closed_def)
  next
    case (Some m)
    let ?u = "storage_recovery_update (se_db env) j m"
    obtain s1 s2 row where d: "(if qu_state ?u = lit ''failed''
          then mark_storage_unknown_for_job (se_db env) (mjp_media_id q) (qu_error_message ?u) s
          else if qu_state ?u = lit ''succeeded''
          then Inr (update_ingests (completable_ingest (mjp_media_id q)) (completed_ingest (env_now (se_db env))) s)
          else Inr s) = Inr s1"
      and u: "update_locked_in_store (se_db env) (jr_id j) ?u s1 = Inr (s2, row)"
      and s': "s' = (if qu_state ?u = lit ''succeeded'' then without_error (jr_id j) s2 else s2)"
      using q Some by (auto simp: recover_storage_row_def Let_def result_simps split: if_splits)
    have "st_jobs s1 = st_jobs s"
      using d by (auto simp: update_ingests_def dest: mark_storage_unknown_jobs split: if_splits)
    then have grown: "jobs_grown (so_codec ops) (st_jobs s) (st_jobs s1)" using jobs_grown_refl [OF ok(2)] by simp
    note left = update_locked_left [OF ok(2) j(1,3) grown storage_recovery_update_inv [OF j(4,3)] u]
    have st: "qu_state ?u = lit ''failed''"
    proof -
      obtain x where x: "x \<in> set (st_jobs s')" "jr_id x = jid" "jr_state x = lit ''failed''"
        using assms(3) by (auto simp: job_failed_def list_ex_iff)
      have ids: "\<exists>y\<in>set (st_jobs s2). jr_id y = jid \<and> jr_state y = jr_state x"
        using s' x by (auto simp: without_error_def set_update_where split: if_splits elim!: imageE)
      have ok2: "queue_ok (so_codec ops) (st_jobs s2)" using left(1) by (simp add: job_left_def)
      from ids x(3) obtain y where "y \<in> set (st_jobs s2)" "jr_id y = jid" "jr_state y = lit ''failed''" by auto
      moreover from this have "y = row" using table_ok_key [OF ok2 _ left(3)] left(2) j(2) by simp
      ultimately show ?thesis using left(2) by simp
    qed
    then have "mw_storage_state m \<noteq> lit ''ready''"
      by (auto simp: storage_recovery_update_def Let_def media_storage_state_try_from_def split: if_splits)
    from mark_storage_unknown_closed [OF _ ok(3) Some this] d st
    have "storage_closed (mjp_media_id q) s s1" by simp
    then show ?thesis using s' st left(4,5) owner by (auto intro: storage_closed_same)
  qed
qed


lemma send_closed_after:
  assumes t: "when_terminal True (lock_publication_post (publisher_view s) i)
      (\<lambda>post. settle_terminal_publication_post env i post v (c post) (m post) (publisher_view s)) (publisher_view s) = Inr db1"
    and "publisher_ok ops (publisher_view s)" and "update_locked_publication env jid u db1 = Inr (db', row)"
  shows "send_closed i (with_publisher s db')"
proof -
  have "db_posts db' = db_posts db1" using assms(3) by (auto simp: update_locked_publication_def result_simps)
  with when_terminal_closed [OF t assms(2)] show ?thesis by (simp add: send_closed_def with_publisher_def)
qed

lemma publish_settle_closed:
  fixes env :: store_env
  assumes "store_ok ops s" and "on_publisher (settle_publish_job (so_publisher ops) (se_db env) lease (PublishPost p) st) s = (s', Inr j)"
    and "job_failed (jl_job_id lease) s'"
  shows "send_closed (ppp_post_id p) s'"
proof -
  note ok = store_okD [OF assms(1)]
  let ?db = "publisher_view s"
  obtain db' row where tx: "settle_publish_tx (so_publisher ops) (se_db env) lease (PublishPost p) st ?db = Inr (db', row)"
    and s': "s' = with_publisher s db'"
    using assms(2) by (auto simp: on_publisher_def settle_publish_job_def split: sum.splits prod.splits)
  obtain job command stored db1 where lock: "lock_running_job (se_db env) lease (allows_expired_lease st) (st_jobs s) = Inr job"
    and cmd: "validate_locked_command (so_codec ops) job (PublishPost p) = Inr command" "publish_payload command = Inr stored"
    and t: "when_terminal (qu_terminal (queue_parameters job st)) (lock_publication_post ?db (ppp_post_id p)) (\<lambda>post.
          settle_terminal_publication_post (se_db env) (ppp_post_id stored) post (ppp_expected_revision stored)
            (qu_error_class (queue_parameters job st)) (qu_error_message (queue_parameters job st)) ?db) ?db = Inr db1"
    and upd: "update_locked_publication (se_db env) (jr_id job) (queue_parameters job st) db1 = Inr (db', row)"
    using tx by (auto simp: settle_publish_tx_def result_simps Let_def)
  have settled: "settled_by (so_codec ops) (se_db env) lease st (st_jobs s) (st_jobs s') (Inr j)"
    using publication_jobs.settle_ends_lease [OF ok(1,2) assms(2)] .
  obtain x where x: "x \<in> set (st_jobs s')" "jr_id x = jl_job_id lease" "jr_state x = lit ''failed''"
    using assms(3) by (auto simp: job_failed_def list_ex_iff)
  have "queue_ok (so_codec ops) (st_jobs s')" using settled by (auto simp: settled_by_def job_left_def)
  from settled_by_failed [OF settled x this] obtain k where k: "k \<in> set (st_jobs s)"
    "locks_running_job (se_db env) lease (allows_expired_lease st) k" "qu_terminal (queue_parameters k st)" by auto
  have "k = job"
    using table_ok_key [OF ok(2) k(1)] lock_running_job_Inr [OF lock] k(2) by (auto simp: locks_running_job_def)
  with t k(3) publish_payload_owner [OF cmd] show ?thesis
    unfolding s' by (intro send_closed_after [OF _ ok(4) upd]) simp
qed

lemma publish_recover_closed:
  fixes env :: store_env
  assumes "store_ok ops s" and "on_publisher (recover_publish_job (so_publisher ops) (se_db env) jid (PublishPost p)) s = (s', Inr True)"
    and "job_failed jid s'"
  shows "send_closed (ppp_post_id p) s'"
proof -
  note ok = store_okD [OF assms(1)]
  let ?db = "publisher_view s"
  obtain db' where tx: "recover_publish_tx (so_publisher ops) (se_db env) jid (PublishPost p) ?db = Inr (db', True)"
    and s': "s' = with_publisher s db'"
    using assms(2) by (auto simp: on_publisher_def recover_publish_job_def split: sum.splits prod.splits)
  obtain job where lock: "lock_expired_job (se_db env) jid (st_jobs s) = Some job"
    using tx by (cases "lock_expired_job (se_db env) jid (st_jobs s)") (simp_all add: recover_publish_tx_def)
  obtain command stored db1 row
    where cmd: "validate_locked_command (so_codec ops) job (PublishPost p) = Inr command" "publish_payload command = Inr stored"
    and t: "when_terminal (jr_attempt_count job \<ge> jr_max_attempts job) (lock_publication_post ?db (ppp_post_id p)) (\<lambda>post.
          settle_terminal_publication_post (se_db env) (ppp_post_id stored) post (ppp_expected_revision stored)
            (if pw_state post = lit ''sending'' then lit ''publication_interrupted''
             else unwrap_or (jr_error_class job) (lit ''lease_expired''))
            (if pw_state post = lit ''sending'' then lit ''publication job lease expired after the final attempt''
             else unwrap_or (jr_error_message job) (lit ''job lease expired'')) ?db) ?db = Inr db1"
    and upd: "update_locked_publication (se_db env) (jr_id job) (recovery_update (se_db env) job) db1 = Inr (db', row)"
    using tx lock by (auto simp: recover_publish_tx_def result_simps Let_def)
  note j = expired_stored [OF ok(2) lock]
  have jobs: "st_jobs (with_publisher s db1) = st_jobs s"
    using t post_settled_jobs [OF when_terminal_settled [of _ _ "se_db env" "ppp_post_id stored"]] by fastforce
  have grown: "jobs_grown (so_codec ops) (st_jobs s) (st_jobs (with_publisher s db1))"
    using jobs_grown_refl [OF ok(2)] jobs by simp
  note left = update_locked_left [OF ok(2) j(1,3) grown recovery_update_inv [OF j(4,3)] recovery_update_not_running
      update_locked_publication_store [OF upd]]
  obtain x where x: "x \<in> set (st_jobs s')" "jr_id x = jid" "jr_state x = lit ''failed''"
    using assms(3) by (auto simp: job_failed_def list_ex_iff)
  have ok': "queue_ok (so_codec ops) (st_jobs s')" using left(1) by (simp add: job_left_def s')
  have "x = row" using table_ok_key [OF ok' x(1)] left(2,3) x(2) j(2) by (simp add: s')
  then have "jr_attempt_count job \<ge> jr_max_attempts job"
    using x(3) left(2) by (simp add: recovery_update_def Let_def split: if_splits)
  with t publish_payload_owner [OF cmd] show ?thesis
    unfolding s' by (intro send_closed_after [OF _ ok(4) upd]) simp
qed

section \<open>Properties\<close>

lemma settle_Inr_family:
  assumes "settle ops env command lease st s = (s', Inr j)"
  shows "settle_family ops env command lease st s = (s', Inr j) \<or>
    (allows_expired_lease st \<and> settle_family ops env command lease st s = (s', Inl LeaseLost) \<and>
     load_already_requeued (so_codec ops) lease st command (st_jobs s') = Inr j)"
  using assms unfolding settle_def
  by (auto split: prod.splits sum.splits job_repository_error.splits if_splits)

lemma on_queue_written: "on_queue f s = (s', r) \<Longrightarrow> queue_written s s'"
  by (auto simp: on_queue_def queue_written_def split: prod.splits)

lemma settle_materialize_written: "settle_materialize_job ops env lease command st s = (s', r) \<Longrightarrow> queue_written s s'"
  by (auto simp: settle_materialize_job_def in_transaction_def queue_written_def result_simps split: sum.splits)

lemma recover_materialize_written: "recover_materialize_job ops env jid command s = (s', r) \<Longrightarrow> queue_written s s'"
  by (auto simp: recover_materialize_job_def in_transaction_def queue_written_def result_simps split: sum.splits option.splits)

lemmas queue_only_written = on_queue_written settle_materialize_written recover_materialize_written

lemma family_settle_closed:
  assumes "store_ok ops s" and "settle_family ops env command lease st s = (s', Inr j)"
    and "job_failed (jl_job_id lease) s'"
  shows "domain_closed ops command s s'"
proof (cases command)
  case (PublishPost p)
  then show ?thesis using publish_settle_closed [of ops s env lease p] assms by (simp add: settle_family_def domain_closed_def)
next
  case (UploadStorageAsset p)
  then show ?thesis using storage_settle_closed [of ops s env lease p] assms by (simp add: settle_family_def domain_closed_def)
next
  case (SyncStorageCaption p)
  then show ?thesis using caption_settle_closed [of ops s env lease command] assms by (auto simp: settle_family_def domain_closed_def)
qed (use inbox_settle_closed [of ops s env lease command st s' j] assms in
      \<open>auto simp: settle_family_def domain_closed_def intro: queue_only_written\<close>)

lemma family_recover_closed:
  assumes "store_ok ops s" and "recover_family ops env jid command s = (s', Inr True)" and "job_failed jid s'"
  shows "domain_closed ops command s s'"
proof (cases command)
  case (PublishPost p)
  then show ?thesis using publish_recover_closed [of ops s env jid p] assms by (simp add: recover_family_def domain_closed_def)
next
  case (UploadStorageAsset p)
  then show ?thesis using storage_recover_closed [of ops s env jid p] assms by (simp add: recover_family_def domain_closed_def)
next
  case (SyncStorageCaption p)
  then show ?thesis using caption_recover_closed [of ops s env jid command] assms by (auto simp: recover_family_def domain_closed_def)
qed (use inbox_recover_closed [of ops s env jid command s'] assms in
      \<open>auto simp: recover_family_def domain_closed_def intro: queue_only_written\<close>)

text \<open>(C5) A job that fails for good leaves nothing open: when a settlement returns the job, or a
  recovery takes it over, and the job is then \<open>failed\<close>, the rows of its family are closed in the same
  transaction. The post is not being sent; the media item is neither pending nor reserved, and none of its
  ingests is waiting for the upload, except when the upload is already known to have had no effect (\<open>missing\<close>):
  then media and ingests are left exactly as they were; the caption of this generation is not claimed; the
  ingest of a pipeline stage is terminal and the cleanup of its workspace is enqueued. A materialisation and a
  workspace cleanup have no rows of their own: their failure writes the queue and nothing else.\<close>

theorem failed_job_closes_domain:
  assumes "store_ok ops s"
    and "settle ops env command lease st s = (s', Inr j) \<and> jid = jl_job_id lease \<or>
         recover_family ops env jid command s = (s', Inr True)"
    and "job_failed jid s'"
  shows "domain_closed ops command s s'"
  using assms(2)
proof (elim disjE conjE)
  assume res: "settle ops env command lease st s = (s', Inr j)" and jid: "jid = jl_job_id lease"
  from settle_Inr_family [OF res] show ?thesis
  proof (elim disjE conjE)
    assume "settle_family ops env command lease st s = (s', Inr j)"
    then show ?thesis using family_settle_closed [OF assms(1)] assms(3) jid by blast
  next
    assume lost: "settle_family ops env command lease st s = (s', Inl LeaseLost)"
      and load: "load_already_requeued (so_codec ops) lease st command (st_jobs s') = Inr j"
    note ok = store_okD [OF assms(1)]
    have ok': "queue_ok (so_codec ops) (st_jobs s')"
      using dispatch.settle_queue_ok [OF ok(1,2), of env command lease st] lost by simp
    obtain r where "r \<in> set (st_jobs s')" "jr_id r = jid" "jr_state r = lit ''queued''"
      using load jid by (auto simp: load_already_requeued_def result_simps dest!: select_one_Some)
    with assms(3) have False using table_ok_key [OF ok'] by (fastforce simp: job_failed_def list_ex_iff)
    then show ?thesis ..
  qed
qed (rule family_recover_closed [OF assms(1) _ assms(3)])

text \<open>A lease that is over settles nothing: when the job of the lease is not running under its
  owner and token, a settlement of any command leaves the whole store as it is and returns no
  job, except that a settlement which gives its attempt back returns the job another path has
  already requeued with the same error class.\<close>

theorem stale_settlement_fenced:
  assumes "store_ok ops s" and "row \<in> set (st_jobs s)" and "jr_id row = jl_job_id lease" and "off_lease lease row"
  shows "fst (settle ops env command lease st s) = s \<and>
    (\<forall>j. snd (settle ops env command lease st s) = Inr j \<longrightarrow>
       allows_expired_lease st \<and> into_job (so_codec ops) row = Inr j \<and> jr_state row = lit ''queued'' \<and>
       jr_error_class row = settlement_error_class st)"
proof -
  note ok = store_okD [OF assms(1)]
  obtain e where e: "settle_family ops env command lease st s = (s, Inl e)"
    using dispatch.settle_fenced [OF ok(1,2) assms(2-4)] by blast
  then have fst: "fst (settle ops env command lease st s) = s"
    by (simp add: settle_def split: job_repository_error.split)
  have "allows_expired_lease st \<and> into_job (so_codec ops) row = Inr j \<and> jr_state row = lit ''queued'' \<and>
       jr_error_class row = settlement_error_class st" if "snd (settle ops env command lease st s) = Inr j" for j
  proof -
    have "settle ops env command lease st s = (s, Inr j)" using fst that by (metis prod.collapse)
    from settle_Inr_family [OF this] e have allow: "allows_expired_lease st"
      and load: "load_already_requeued (so_codec ops) lease st command (st_jobs s) = Inr j" by auto
    then obtain r c where r: "r \<in> set (st_jobs s)" "jr_id r = jl_job_id lease" "jr_state r = lit ''queued''"
      "settlement_error_class st = Some c" "jr_error_class r = Some c" "into_job (so_codec ops) r = Inr j"
      by (auto simp: load_already_requeued_def result_simps dest!: select_one_Some split: if_splits)
    moreover have "r = row" using table_ok_key [OF ok(2) r(1) assms(2)] r(2) assms(3) by simp
    ultimately show ?thesis using allow by simp
  qed
  with fst show ?thesis by blast
qed

section \<open>Witnesses\<close>

lemma media_store_store_ok:
  assumes "media_inv m"
  shows "store_ok plain_store_ops (media_store [upload_job] m)"
proof -
  have "jr_dedupe_key upload_job = None"
    by (simp add: upload_job_def claimed_row_def inserted_job_def new_upload_storage_asset_def new_job_new_def)
  then have "publish_check plain_ops upload_job"
    using upload_job_ok by (simp add: publish_check_def table_ok_def plain_ops_def)
  then have "publisher_ok plain_ops (publisher_view (media_store [upload_job] m))"
    using plain_ops_laws by (simp add: publisher_ok_def publisher_view_def media_store_def table_ok_def)
  then show ?thesis
    using media_store_ok [OF assms] by (simp add: store_ok_def plain_store_ops_def) (simp add: media_store_def)
qed

abbreviation witness_upload :: job_command where
  "witness_upload \<equiv> UploadStorageAsset \<lparr>mjp_media_id = 4, mjp_generation = 0\<rparr>"

lemma witness_settle_upload:
  "\<exists>s' j. settle plain_store_ops (senv 6 0) witness_upload witness_lease (Fail (lit ''io'') (lit ''disk''))
     (media_store [upload_job] uploading_media) = (s', Inr j) \<and> job_failed 7 s'"
  by (simp add: settle_def settle_family_def settle_storage_job_def settle_with_def lock_running_job_def locks_running_job_def
      select_one_def validate_locked_command_def into_job_def job_type_try_from_def decode_payload_def
      job_status_try_from_def commands_have_same_owner_def Let_def reconcile_storage_terminal_def select_media_def
      uploading_media_def reserved_media_def witness_media_def media_storage_state_try_from_def mark_storage_unknown_for_job_def
      update_media_rows_def returning_def unknown_media_def media_check_def size_check_def preview_check_def in_i32_def
      update_ingests_def update_where_def update_locked_in_store_def update_locked_job_def settled_row_def in_transaction_def
      job_failed_def store_witness_defs)

theorem failed_job_closes_domain_witness:
  "\<exists>s' j. settle plain_store_ops (senv 6 0) witness_upload witness_lease (Fail (lit ''io'') (lit ''disk''))
     (media_store [upload_job] uploading_media) = (s', Inr j) \<and> storage_closed 4 (media_store [upload_job] uploading_media) s'"
proof -
  obtain s' j where r: "settle plain_store_ops (senv 6 0) witness_upload witness_lease (Fail (lit ''io'') (lit ''disk''))
     (media_store [upload_job] uploading_media) = (s', Inr j)" "job_failed 7 s'"
    using witness_settle_upload by blast
  have "domain_closed plain_store_ops witness_upload (media_store [upload_job] uploading_media) s'"
    by (rule failed_job_closes_domain [OF media_store_store_ok [OF uploading_media_inv], of "senv 6 0" witness_upload
          witness_lease "Fail (lit ''io'') (lit ''disk'')" s' j 7])
       (use r in \<open>simp_all add: witness_lease_def\<close>)
  with r show ?thesis by (auto simp: domain_closed_def)
qed

theorem stale_settlement_fenced_witness:
  "fst (settle plain_store_ops (senv 6 0) witness_upload (witness_lease\<lparr>jl_lease_token := 8\<rparr>)
      (Fail (lit ''io'') (lit ''disk'')) (media_store [upload_job] uploading_media)) =
    media_store [upload_job] uploading_media"
  using stale_settlement_fenced [OF media_store_store_ok [OF uploading_media_inv], of upload_job
      "witness_lease\<lparr>jl_lease_token := 8\<rparr>"]
  by (simp add: off_lease_def store_witness_defs)

end
