(* ===== verification/Library_Lifecycle.thy ===== *)
theory Library_Lifecycle
  imports Settlement_Safety
begin

text \<open>
  The media library over the whole program: every operation of the repository, settlement and
  recovery included, keeps the table \<open>media\<close> consistent; an upload is fenced by the token of its
  reservation; a reserved upload that is reported stored ends in a receipt, in completed ingests
  and in the jobs that follow.
\<close>

section \<open>Settlement and recovery as moves\<close>

lemma update_locked_move:
  "media_move s s1 \<Longrightarrow> tx_ensures (\<lambda>s' _. media_move s s') (update_locked_in_store env i u s1)"
  by (auto simp: tx_ensures_def split: sum.splits dest!: update_locked_media intro: media_move_then)

lemma settle_with_move:
  assumes "media_ok s" and "\<And>u k s1. settle_domain u k s = Inr s1 \<Longrightarrow> media_move s s1"
  shows "media_move s (fst (in_transaction s (settle_with ops env lease expected st payload_of settle_domain s) decode))"
  unfolding settle_with_def
  by (rule in_transaction_ensures, simp add: assms(1)) (intro tx_rules update_locked_move assms(2))

lemma recover_with_move:
  assumes "media_ok s" and "\<And>j k s1. recover_domain j k s = Inr s1 \<Longrightarrow> media_move s s1"
  shows "media_move s (fst (in_transaction s (recover_with ops env jid expected payload_of recover_domain s) decode))"
  unfolding recover_with_def
  by (rule in_transaction_ensures, simp add: assms(1), intro tx_rules)
     (auto simp: assms(1) dest!: update_locked_media intro: media_move_then [OF assms(2)])

lemma settled_caption_move:
  "settle_caption_row env p c err s = Inr s' \<Longrightarrow> c \<noteq> lit ''syncing'' \<Longrightarrow> media_ok s \<Longrightarrow> media_move s s'"
  by (auto simp: settle_caption_row_def result_simps elim!: update_media_rows_move)
     (auto simp: settled_caption_def media_transition_def media_inv_def)

lemma mark_storage_unknown_move: "mark_storage_unknown_for_job env i msg s = Inr s' \<Longrightarrow> media_ok s \<Longrightarrow> media_move s s'"
  by (auto simp: mark_storage_unknown_for_job_def result_simps
      elim!: media_move_then [OF update_media_rows_move] intro: media_transitions)

lemma reconcile_storage_move: "reconcile_storage_terminal env i msg s = Inr s' \<Longrightarrow> media_ok s \<Longrightarrow> media_move s s'"
  by (auto simp: reconcile_storage_terminal_def split: option.splits sum.splits media_storage_state.splits
      intro: media_move_same dest: mark_storage_unknown_move)

lemma fail_ingest_move: "fail_ingest_terminal ops env i s = Inr s' \<Longrightarrow> media_ok s \<Longrightarrow> media_move s s'"
  by (rule media_move_same) (auto dest: fail_ingest_terminal_media)

lemma recover_storage_row_move:
  assumes "recover_storage_row env j i m s = Inr s'" and "media_ok s"
  shows "media_move s s'"
  using assms
  by (auto simp: recover_storage_row_def Let_def result_simps without_error_def split: if_splits
      dest!: update_locked_media dest: mark_storage_unknown_move intro: media_move_then media_move_same)

lemma inbox_settle_move: "media_ok s \<Longrightarrow> media_move s (fst (inbox_settle_job ops env lease c st s))"
  unfolding inbox_settle_job_def by (rule settle_with_move) (auto split: if_splits dest: fail_ingest_move)

lemma inbox_recover_move: "media_ok s \<Longrightarrow> media_move s (fst (inbox_recover_job ops env jid c s))"
  unfolding inbox_recover_job_def by (rule recover_with_move) (auto split: if_splits dest: fail_ingest_move)

lemma caption_settle_move: "media_ok s \<Longrightarrow> media_move s (fst (settle_caption_job ops env lease c st s))"
  unfolding settle_caption_job_def by (rule settle_with_move) (auto split: if_splits dest: settled_caption_move)

lemma caption_recover_move: "media_ok s \<Longrightarrow> media_move s (fst (recover_caption_job ops env jid c s))"
  unfolding recover_caption_job_def Let_def
  by (rule recover_with_move) (auto split: if_splits dest: settled_caption_move)

lemma storage_settle_move: "media_ok s \<Longrightarrow> media_move s (fst (settle_storage_job ops env lease c st s))"
  unfolding settle_storage_job_def by (rule settle_with_move) (auto split: if_splits dest: reconcile_storage_move)

lemma storage_recover_move: "media_ok s \<Longrightarrow> media_move s (fst (recover_storage_job ops env jid c s))"
  unfolding recover_storage_job_def recover_storage_tx_def
  by (rule in_transaction_ensures, simp, intro tx_rules)
     (auto dest!: update_locked_media dest: recover_storage_row_move intro: media_move_same)

lemma materialize_settle_media: "st_media (fst (settle_materialize_job ops env lease c st s)) = st_media s"
  by (auto simp: settle_materialize_job_def in_transaction_def result_simps split: sum.split)

lemma materialize_recover_media: "st_media (fst (recover_materialize_job ops env jid c s)) = st_media s"
  by (auto simp: recover_materialize_job_def in_transaction_def result_simps split: sum.split option.splits)

lemma on_publisher_media [simp]: "st_media (fst (on_publisher f s)) = st_media s"
  by (simp add: on_publisher_def split: prod.split)

lemma on_queue_media [simp]: "st_media (fst (on_queue f s)) = st_media s"
  by (simp add: on_queue_def split: prod.split)

lemmas family_moves =
  inbox_settle_move inbox_recover_move caption_settle_move caption_recover_move storage_settle_move storage_recover_move

lemma settle_family_move: "media_ok s \<Longrightarrow> media_move s (fst (settle_family ops env command lease st s))"
  by (cases command)
     (simp_all add: settle_family_def family_moves media_move_same materialize_settle_media)

lemma recover_family_move: "media_ok s \<Longrightarrow> media_move s (fst (recover_family ops env jid command s))"
  by (cases command)
     (simp_all add: recover_family_def family_moves media_move_same materialize_recover_media)

lemma settle_move: "media_ok s \<Longrightarrow> media_move s (fst (settle ops env command lease st s))"
  using settle_family_move [of s ops env command lease st]
  by (auto simp: settle_def split: prod.splits sum.splits job_repository_error.splits)

lemma recover_one_move: "media_ok s \<Longrightarrow> media_move s (fst (recover_one ops env c s))"
  by (simp add: recover_one_def recover_family_move media_move_same split: sum.split)

lemma recover_candidates_move: "media_ok s \<Longrightarrow> media_move s (fst (recover_candidates ops cs k s))"
proof (induction cs arbitrary: k s)
  case (Cons x cs)
  obtain c env where x: "x = (c, env)" by (cases x)
  obtain s1 r where one: "recover_one ops env c s = (s1, r)" by (cases "recover_one ops env c s")
  have move: "media_move s s1" using recover_one_move [OF Cons.prems, of ops env c] one by simp
  from Cons.IH [OF media_move_ok [OF move]] move show ?case
    by (auto simp: x one split: sum.split intro: media_move_trans)
qed simp

section \<open>Runs of the library\<close>

text \<open>The operations of the repository, settlement and recovery, and every step of another component,
  which leaves the table \<open>media\<close> alone.\<close>

inductive repository_op :: "('v, 'tz) store_ops \<Rightarrow> 'v store \<Rightarrow> 'v store \<Rightarrow> bool" for ops where
  op_resolve: "repository_op ops s (fst (resolve_media ops env ingest s))"
| op_identity: "persist_video_identity ops env ingest fingerprint decision force s = Inr (s', outcome) \<Longrightarrow> repository_op ops s s'"
| op_update: "repository_op ops s (fst (update_media ops env i u s))"
| op_metadata: "repository_op ops s (fst (record_media_metadata ops env i md s))"
| op_fingerprint: "repository_op ops s (fst (record_video_sequence_fingerprint env i f s))"
| op_retry_caption: "repository_op ops s (fst (retry_caption_sync ops env i s))"
| op_begin_caption: "repository_op ops s (fst (begin_caption_sync env i g t s))"
| op_complete_caption: "repository_op ops s (fst (complete_caption_sync ops env i g t succeeded retryable err s))"
| op_reserve: "repository_op ops s (fst (reserve_storage_upload env request s))"
| op_renew: "repository_op ops s (fst (renew_storage_upload env i t d s))"
| op_complete: "repository_op ops s (fst (complete_storage_upload ops env i t a s))"
| op_release: "repository_op ops s (fst (release_storage_upload env i t s))"
| op_owner_unknown: "repository_op ops s (fst (mark_owned_upload_unknown ops env i t s))"
| op_mark_unknown: "repository_op ops s (fst (mark_storage_upload_unknown ops env i force s))"
| op_reset: "repository_op ops s (fst (reset_storage_upload ops env i s))"
| op_attach: "repository_op ops s (fst (attach_storage_upload ops env i g a s))"
| op_settle: "repository_op ops s (fst (settle ops env command lease st s))"
| op_recover: "repository_op ops s (fst (recover_stale ops denv env_of s))"

lemmas library_moves =
  resolve_media_move update_media_move record_media_metadata_move record_fingerprint_move
  retry_caption_sync_move begin_caption_sync_move complete_caption_sync_move reserve_storage_upload_move
  renew_storage_upload_move complete_storage_upload_move release_storage_upload_move
  mark_owned_upload_unknown_move mark_storage_upload_unknown_move reset_storage_upload_move
  attach_storage_upload_move settle_move recover_candidates_move media_move_same

lemma repository_op_move: "repository_op ops s s' \<Longrightarrow> media_ok s \<Longrightarrow> media_move s s'"
proof (induction rule: repository_op.induct)
  case (op_identity env ingest fingerprint decision force s s' outcome)
  then show ?case using tx_ensuresD [OF persist_video_identity_move] by blast
qed (simp_all add: library_moves recover_stale_def)

section \<open>Jobs inserted under dedupe keys\<close>

text \<open>The ids a transaction gives to the jobs under the keys \<open>ks\<close> are new: they differ from each other,
  and no row has one under another key.\<close>

definition job_ids_fresh :: "store_env \<Rightarrow> ustring list \<Rightarrow> 'v job_table \<Rightarrow> bool" where
  "job_ids_fresh env ks t \<longleftrightarrow>
     inj_on (se_job_uuid env) (set ks) \<and>
     list_all (\<lambda>r. list_all (\<lambda>k. jr_id r = se_job_uuid env k \<longrightarrow> jr_dedupe_key r = Some k) ks) t"

lemma insert_job_once_fresh:
  assumes "job_ids_fresh env ks t" and "key \<in> set ks"
  obtains t' where "insert_job_once ops env j key t = Inr t'" "job_ids_fresh env ks t'" "set t \<subseteq> set t'"
    "list_ex (\<lambda>r. jr_dedupe_key r = Some key) t'"
proof -
  let ?row = "inserted_job (so_codec ops) ((se_db env)\<lparr>env_uuid := se_job_uuid env key\<rparr>) (with_dedupe_key key j)"
  have row: "jr_id ?row = se_job_uuid env key" "jr_dedupe_key ?row = Some key"
    by (simp_all add: inserted_job_def with_dedupe_key_def)
  have "dedupe_conflict t ?row" if "id_conflict t ?row"
    using that assms row by (auto simp: id_conflict_def dedupe_conflict_def job_ids_fresh_def list_ex_iff list_all_iff)
  then have "\<exists>t'. insert_job_once ops env j key t = Inr t' \<and> (t' = t \<or> t' = t @ [?row])"
    by (auto simp: insert_job_once_def Let_def)
  then obtain t' where t': "insert_job_once ops env j key t = Inr t'" "t' = t \<or> t' = t @ [?row]" by blast
  have "job_ids_fresh env ks (t @ [?row])"
    using assms row by (auto simp: job_ids_fresh_def list_all_iff dest: inj_onD)
  with t' assms(1) insert_job_once_key [OF t'(1)] show ?thesis by (intro that) auto
qed

lemma insert_jobs_once_fresh:
  assumes "job_ids_fresh env ks t" and "snd ` set js \<subseteq> set ks"
  shows "\<exists>t'. insert_jobs_once ops env js t = Inr t' \<and> job_ids_fresh env ks t' \<and> set t \<subseteq> set t' \<and>
     list_all (\<lambda>(j, key). list_ex (\<lambda>r. jr_dedupe_key r = Some key) t') js"
  using assms
proof (induction js arbitrary: t)
  case (Cons x js)
  obtain j key where x: "x = (j, key)" by (cases x)
  have key: "key \<in> set ks" using Cons.prems(2) by (simp add: x)
  obtain t1 where t1: "insert_job_once ops env j key t = Inr t1" "job_ids_fresh env ks t1" "set t \<subseteq> set t1"
    "list_ex (\<lambda>r. jr_dedupe_key r = Some key) t1" by (rule insert_job_once_fresh [OF Cons.prems(1) key])
  have "snd ` set js \<subseteq> set ks" using Cons.prems(2) by simp
  from Cons.IH [OF t1(2) this] obtain t' where t': "insert_jobs_once ops env js t1 = Inr t'" "job_ids_fresh env ks t'"
    "set t1 \<subseteq> set t'" "list_all (\<lambda>(j, key). list_ex (\<lambda>r. jr_dedupe_key r = Some key) t') js" by blast
  have "list_ex (\<lambda>r. jr_dedupe_key r = Some key) t'" using t1(4) t'(3) by (auto simp: list_ex_iff)
  with t1 t' show ?case by (auto simp: x)
qed simp

text \<open>The keys of the jobs that follow a stored upload.\<close>

definition followup_keys :: "('v, 'tz) store_ops \<Rightarrow> uuid \<Rightarrow> ingest_row list \<Rightarrow> ustring list" where
  "followup_keys ops media_id rows =
     map (\<lambda>r. materialization_key ops (iw_id r)) (filter (completable_ingest media_id) rows) @
     map (\<lambda>r. workspace_cleanup_key ops (iw_id r) (iw_workspace_id r))
       (filter (\<lambda>r. iw_media_id r = Some media_id \<and> iw_state r \<noteq> lit ''cancelled'') rows)"

section \<open>Properties\<close>

lemma media_update_none:
  assumes "\<And>n. n \<in> set (st_media s) \<Longrightarrow> \<not> P n"
  shows "update_media_rows P f e s = Inr (s, [])"
proof -
  have "filter P (st_media s) = []" using assms by (simp add: filter_empty_conv)
  then show ?thesis using update_where_id [of "st_media s" P f] assms by (simp add: update_media_rows_def returning_def)
qed

lemma select_media_key: "media_ok s \<Longrightarrow> m \<in> set (st_media s) \<Longrightarrow> mw_id m = i \<Longrightarrow> select_media i s = Some m"
  unfolding select_media_def media_ok_def by (rule select_one_key [of mw_id media_inv]) auto

lemma media_state_decodes:
  assumes "media_ok s" and "m \<in> set (st_media s)"
  shows "fetch_media_row m = Inr m"
proof -
  have "mw_storage_state m \<in> {lit ''pending_storage'', lit ''ready'', lit ''storage_unknown'', lit ''missing''}"
    using media_row_inv [OF assms] by (simp add: media_inv_def media_check_def)
  then show ?thesis by (auto simp: fetch_media_row_def media_storage_state_try_from_def)
qed

lemma lock_media_row_key:
  "media_ok s \<Longrightarrow> m \<in> set (st_media s) \<Longrightarrow> mw_id m = i \<Longrightarrow> lock_media_row i s = Inr m"
  by (simp add: lock_media_row_def select_media_key media_state_decodes)

text \<open>(C24) The token of a reservation fences the upload: while a media item is reserved under a token,
  no other token completes, renews, abandons or releases it, and no second reservation is given
  out; every such call leaves the whole store as it is.\<close>

theorem storage_upload_fenced:
  assumes ok: "media_ok s" and m: "m \<in> set (st_media s)" and token: "mw_storage_token m = Some t" and "t' \<noteq> t"
  shows "(\<exists>e. complete_storage_upload ops env (mw_id m) t' a s = (s, Inl e)) \<and>
    (\<exists>e. renew_storage_upload env (mw_id m) t' d s = (s, Inl e)) \<and>
    mark_owned_upload_unknown ops env (mw_id m) t' s = (s, Inl (StorageUploadLeaseLost (mw_id m))) \<and>
    release_storage_upload env (mw_id m) t' s = (s, Inr ()) \<and>
    (sur_media_id request = mw_id m \<longrightarrow>
       reserve_storage_upload env request s =
         (s, Inr (if sur_generation request \<noteq> mw_storage_generation m then StaleGeneration (mw_storage_generation m)
                  else InProgress (map_option (\<lambda>started. started + 600 * 1000000000) (mw_storage_started_at m)))))"
proof -
  have only: "mw_storage_token n \<noteq> Some t'" if "n \<in> set (st_media s)" "mw_id n = mw_id m" for n
    using media_row_key [OF ok m that] token assms(4) by simp
  have own: "update_media_rows (owned_upload (mw_id m) t') f LibraryDatabase s = Inr (s, [])" for f
    by (rule media_update_none) (use only in \<open>auto simp: owned_upload_def\<close>)
  have tok: "update_media_rows (\<lambda>n. mw_id n = mw_id m \<and> mw_storage_token n = Some t') f LibraryDatabase s = Inr (s, [])" for f
    by (rule media_update_none) (use only in auto)
  have pending: "mw_storage_state m = lit ''pending_storage''"
    using media_row_inv [OF ok m] token by (simp add: media_inv_def)
  have "\<exists>e. complete_storage_upload ops env (mw_id m) t' a s = (s, Inl e)"
    by (cases "validate_attachment a") (simp_all add: complete_storage_upload_def own in_transaction_def)
  moreover have "\<exists>e. renew_storage_upload env (mw_id m) t' d s = (s, Inl e)"
    by (simp add: renew_storage_upload_def tok in_transaction_def Let_def)
  moreover have "reserve_storage_upload env request s =
         (s, Inr (if sur_generation request \<noteq> mw_storage_generation m then StaleGeneration (mw_storage_generation m)
                  else InProgress (map_option (\<lambda>started. started + 600 * 1000000000) (mw_storage_started_at m))))"
    if "sur_media_id request = mw_id m"
    using lock_media_row_key [OF ok m] that pending token by (simp add: reserve_storage_upload_def in_transaction_def)
  ultimately show ?thesis
    by (simp add: mark_owned_upload_unknown_def release_storage_upload_def own tok in_transaction_def)
qed


text \<open>A reservation succeeds on a pending row of its generation, and the owner's completion stores it.\<close>

lemma media_check_kind: "media_check m \<Longrightarrow> \<exists>k. media_kind_try_from (mw_kind m) = Inr k"
  by (auto simp: media_check_def media_kind_try_from_def)

lemma distinct_single: "distinct xs \<Longrightarrow> set xs = {x} \<Longrightarrow> xs = [x]"
proof (cases xs)
  case (Cons a ys)
  assume d: "distinct xs" and x: "set xs = {x}"
  have "a = x" "set ys \<subseteq> {x}" using x Cons by auto
  moreover have "a \<notin> set ys" using d Cons by simp
  ultimately have "ys = []" by (cases ys) auto
  with \<open>a = x\<close> Cons show ?thesis by simp
qed simp

lemma update_one_media:
  assumes "media_ok s" and "m \<in> set (st_media s)" and "\<And>n. P n \<Longrightarrow> mw_id n = mw_id m" and "P m" and "media_check (f m)"
  shows "update_media_rows P f e s = Inr (s\<lparr>st_media := update_where P f (st_media s)\<rparr>, [f m])"
    and "f m \<in> set (update_where P f (st_media s))"
proof -
  have "filter P (st_media s) = [m]"
  proof -
    have d: "distinct (st_media s)" using assms(1) by (simp add: media_ok_def table_ok_def distinct_map)
    have "n = m" if "n \<in> set (st_media s)" "P n" for n
      using media_row_key [OF assms(1,2) that(1) assms(3) [OF that(2)]] .
    with assms(2,4) have "set (filter P (st_media s)) = {m}" unfolding set_filter by blast
    then show ?thesis by (rule distinct_single [OF distinct_filter [OF d]])
  qed
  then show "update_media_rows P f e s = Inr (s\<lparr>st_media := update_where P f (st_media s)\<rparr>, [f m])"
    using assms(5) by (simp add: update_media_rows_def returning_def)
  show "f m \<in> set (update_where P f (st_media s))" using assms(2,4) by (auto simp: set_update_where)
qed


lemma reserve_on_pending:
  assumes ok: "media_ok s" and m: "m \<in> set (st_media s)" and "sur_media_id request = mw_id m"
    and "mw_storage_state m = lit ''pending_storage''" and "mw_storage_token m = None"
    and "sur_generation request = mw_storage_generation m"
  obtains s1 where "reserve_storage_upload env request s =
      (s1, Inr (Reserved (mw_id m) (env_uuid (se_db env)) (storage_caption_metadata_from_row m)))"
    "reserved_media (se_db env) m \<in> set (st_media s1)" "st_jobs s1 = st_jobs s" "st_ingests s1 = st_ingests s"
    "media_ok s1"
proof -
  let ?P = "\<lambda>n. mw_id n = sur_media_id request \<and> mw_storage_state n = lit ''pending_storage'' \<and>
                 mw_storage_generation n = sur_generation request \<and> mw_storage_token n = None"
  have "media_check m" using media_row_inv [OF ok m] by (simp add: media_inv_def)
  then have chk: "media_check (reserved_media (se_db env) m)"
    by (simp add: reserved_media_def media_check_def size_check_def preview_check_def)
  have "\<And>n. ?P n \<Longrightarrow> mw_id n = mw_id m" "?P m" using assms by auto
  note u = update_one_media [where P = ?P and f = "reserved_media (se_db env)", OF ok m this chk]
  have move: "media_ok (fst (reserve_storage_upload env request s))"
    using reserve_storage_upload_move [OF ok] by (rule media_move_ok)
  have "reserve_storage_upload env request s =
      (s\<lparr>st_media := update_where ?P (reserved_media (se_db env)) (st_media s)\<rparr>,
       Inr (Reserved (mw_id m) (env_uuid (se_db env)) (storage_caption_metadata_from_row m)))"
    using lock_media_row_key [OF ok m, of "sur_media_id request"] assms(3-) u(1) [of LibraryDatabase]
    by (simp add: reserve_storage_upload_def in_transaction_def)
  with that [OF this] move u(2) show ?thesis by simp
qed


lemma attached_check:
  "media_check m \<Longrightarrow> sua_telegram_file_id a \<noteq> None \<Longrightarrow> media_check (attached_media env a m)"
  by (simp add: attached_media_def media_check_def size_check_def preview_check_def)

lemma synced_check: "media_check m \<Longrightarrow> media_check (with_caption_values env (mw_caption_sync_generation m, lit ''synced'', None, None) m)"
  by (simp add: with_caption_values_def media_check_def size_check_def preview_check_def)

text \<open>The jobs that follow an upload, inserted under fresh ids.\<close>

lemma on_jobs_fresh:
  assumes "job_ids_fresh env ks (st_jobs s)" and "snd ` set js \<subseteq> set ks"
  obtains t where "on_jobs (insert_jobs_once ops env js) e s = Inr (s\<lparr>st_jobs := t\<rparr>)" "job_ids_fresh env ks t"
    "set (st_jobs s) \<subseteq> set t" "list_all (\<lambda>(j, key). list_ex (\<lambda>r. jr_dedupe_key r = Some key) t) js"
  using insert_jobs_once_fresh [OF assms, of ops] that by (auto simp: on_jobs_def)

lemma list_ex_mono: "list_ex P t \<Longrightarrow> set t \<subseteq> set u \<Longrightarrow> list_ex P u"
  by (auto simp: list_ex_iff)

lemma followup_jobs:
  fixes s :: "'v store"
  assumes "job_ids_fresh env (followup_keys ops i (st_ingests s)) (st_jobs s)"
  obtains s1 s2 where
    "complete_linked_ingests_for_storage ops env i e s = Inr s1" "enqueue_workspace_cleanup_for_media ops env i at e s1 = Inr s2"
    "st_media s2 = st_media s"
    "st_ingests s2 = update_where (completable_ingest i) (completed_ingest (env_now (se_db env))) (st_ingests s)"
    "\<And>r. r \<in> set (st_ingests s) \<Longrightarrow> completable_ingest i r \<Longrightarrow> iw_requested_action r \<noteq> lit ''save'' \<Longrightarrow>
       list_ex (\<lambda>j. jr_dedupe_key j = Some (materialization_key ops (iw_id r))) (st_jobs s2)"
    "\<And>r. r \<in> set (st_ingests s) \<Longrightarrow> iw_media_id r = Some i \<Longrightarrow> iw_state r \<noteq> lit ''cancelled'' \<Longrightarrow>
       list_ex (\<lambda>j. jr_dedupe_key j = Some (workspace_cleanup_key ops (iw_id r) (iw_workspace_id r))) (st_jobs s2)"
proof -
  let ?f = "completed_ingest (env_now (se_db env))"
  let ?js = "materialization_jobs ops (returning (completable_ingest i) ?f (st_ingests s))"
  let ?s = "update_ingests (completable_ingest i) ?f s"
  let ?ks = "followup_keys ops i (st_ingests s)"
  have jobs: "st_jobs ?s = st_jobs s" by (simp add: update_ingests_def)
  have js: "snd ` set ?js \<subseteq> set ?ks"
    by (auto simp: materialization_jobs_def returning_def followup_keys_def completed_ingest_def)
  obtain t where t: "on_jobs (insert_jobs_once ops env ?js) e ?s = Inr (?s\<lparr>st_jobs := t\<rparr>)" "job_ids_fresh env ?ks t"
    "set (st_jobs s) \<subseteq> set t" "list_all (\<lambda>(j, key). list_ex (\<lambda>r. jr_dedupe_key r = Some key) t) ?js"
    using on_jobs_fresh [of env ?ks ?s ?js ops e] assms jobs js by metis
  let ?s1 = "?s\<lparr>st_jobs := t\<rparr>"
  let ?cs = "map (\<lambda>r. workspace_cleanup ops (iw_id r) (iw_workspace_id r) at)
         (filter (\<lambda>r. iw_media_id r = Some i \<and> iw_state r \<noteq> lit ''cancelled'') (st_ingests ?s1))"
  have cs: "snd ` set ?cs \<subseteq> set ?ks"
    by (auto simp: workspace_cleanup_def followup_keys_def update_ingests_def update_where_def completed_ingest_def
        completable_ingest_def split: if_splits)
  have fr: "job_ids_fresh env ?ks (st_jobs ?s1)" using t(2) by simp
  obtain u where u: "on_jobs (insert_jobs_once ops env ?cs) e ?s1 = Inr (?s1\<lparr>st_jobs := u\<rparr>)"
    "set t \<subseteq> set u" "list_all (\<lambda>(j, key). list_ex (\<lambda>r. jr_dedupe_key r = Some key) u) ?cs"
    by (rule on_jobs_fresh [OF fr cs, of ops e]) (simp add: that)
  show ?thesis
  proof (rule that [of ?s1 "?s1\<lparr>st_jobs := u\<rparr>"])
    fix r
    assume r: "r \<in> set (st_ingests s)"
    { assume c: "completable_ingest i r" "iw_requested_action r \<noteq> lit ''save''"
      have "(new_materialize_publication (iw_id r), materialization_key ops (iw_id r)) \<in> set ?js"
        unfolding materialization_jobs_def returning_def set_map set_filter
        by (rule image_eqI [of _ _ "?f r"]) (use r c in \<open>simp_all add: completed_ingest_def\<close>)
      with t(4) u(2) show "list_ex (\<lambda>j. jr_dedupe_key j = Some (materialization_key ops (iw_id r))) (st_jobs (?s1\<lparr>st_jobs := u\<rparr>))"
        by (auto simp: list_all_iff intro: list_ex_mono) }
    { assume c: "iw_media_id r = Some i" "iw_state r \<noteq> lit ''cancelled''"
      let ?r = "if completable_ingest i r then ?f r else r"
      have "?r \<in> set (st_ingests ?s1)" using r by (auto simp: update_ingests_def update_where_def)
      moreover have "iw_id ?r = iw_id r" "iw_workspace_id ?r = iw_workspace_id r" "iw_media_id ?r = Some i"
        "iw_state ?r \<noteq> lit ''cancelled''" using c by (simp_all add: completed_ingest_def)
      ultimately have "workspace_cleanup ops (iw_id r) (iw_workspace_id r) at \<in> set ?cs"
        unfolding set_map set_filter by (intro image_eqI [of _ _ ?r]) simp_all
      with u(3) show "list_ex (\<lambda>j. jr_dedupe_key j = Some (workspace_cleanup_key ops (iw_id r) (iw_workspace_id r)))
          (st_jobs (?s1\<lparr>st_jobs := u\<rparr>))"
        by (auto simp: list_all_iff workspace_cleanup_def) }
  qed (use t(1) u(1) in \<open>simp_all add: complete_linked_ingests_for_storage_def enqueue_workspace_cleanup_for_media_def
      update_ingests_def\<close>)
qed

lemma complete_owned_upload:
  assumes ok: "media_ok s" and m: "m \<in> set (st_media s)" and token: "mw_storage_token m = Some t"
    and a: "validate_attachment a = Inr ()" "sua_telegram_file_id a \<noteq> None"
      "sua_caption_metadata a = Some (storage_caption_metadata_from_row m)"
    and fresh: "job_ids_fresh env (followup_keys ops (mw_id m) (st_ingests s)) (st_jobs s)"
  obtains s2 row where "complete_storage_upload ops env (mw_id m) t a s = (s2, into_storage_receipt row)"
    "row \<in> set (st_media s2)" "media_ok s2" "mw_id row = mw_id m" "mw_storage_state row = lit ''ready''"
    "mw_telegram_storage_chat_id row = Some (sua_storage_chat_id a)"
    "mw_telegram_storage_message_id row = Some (sua_storage_message_id a)"
    "mw_telegram_file_id row = sua_telegram_file_id a"
    "st_ingests s2 = update_where (completable_ingest (mw_id m)) (completed_ingest (env_now (se_db env))) (st_ingests s)"
    "\<And>r. r \<in> set (st_ingests s) \<Longrightarrow> completable_ingest (mw_id m) r \<Longrightarrow> iw_requested_action r \<noteq> lit ''save'' \<Longrightarrow>
       list_ex (\<lambda>j. jr_dedupe_key j = Some (materialization_key ops (iw_id r))) (st_jobs s2)"
    "\<And>r. r \<in> set (st_ingests s) \<Longrightarrow> iw_media_id r = Some (mw_id m) \<Longrightarrow> iw_state r \<noteq> lit ''cancelled'' \<Longrightarrow>
       list_ex (\<lambda>j. jr_dedupe_key j = Some (workspace_cleanup_key ops (iw_id r) (iw_workspace_id r))) (st_jobs s2)"
proof -
  let ?i = "mw_id m" and ?e = "se_db env"
  let ?m1 = "attached_media ?e a m"
  let ?vs = "(mw_caption_sync_generation ?m1, lit ''synced'', None, None)"
  let ?m2 = "with_caption_values ?e ?vs ?m1"
  have own: "owned_upload ?i t m" "\<And>n. owned_upload ?i t n \<Longrightarrow> mw_id n = ?i"
    using media_row_inv [OF ok m] token by (simp_all add: owned_upload_def media_inv_def)
  have chk1: "media_check ?m1" using media_row_inv [OF ok m] a(2) by (simp add: media_inv_def attached_check)
  note u1 = update_one_media [where P = "owned_upload ?i t" and f = "attached_media ?e a", OF ok m own(2,1) chk1]
  let ?s1 = "s\<lparr>st_media := update_where (owned_upload ?i t) (attached_media ?e a) (st_media s)\<rparr>"
  have ok1: "media_ok ?s1"
    using update_media_rows_move [OF u1(1) ok] by (intro media_move_ok) (auto simp: owned_upload_def intro: media_transitions)
  have m1: "?m1 \<in> set (st_media ?s1)" using u1(2) by simp
  have chk2: "media_check ?m2" by (rule synced_check [OF chk1])
  have ids: "\<And>n. mw_id n = ?i \<Longrightarrow> mw_id n = mw_id ?m1" "mw_id ?m1 = ?i" by simp_all
  note u2 = update_one_media [where P = "\<lambda>n. mw_id n = ?i" and f = "with_caption_values ?e ?vs", OF ok1 m1 ids chk2]
  let ?s2 = "?s1\<lparr>st_media := update_where (\<lambda>n. mw_id n = ?i) (with_caption_values ?e ?vs) (st_media ?s1)\<rparr>"
  have vs: "caption_sync_values_after_storage_upload ?m1 (sua_caption_metadata a) = Inr ?vs"
    by (simp add: caption_sync_values_after_storage_upload_def a(3) storage_caption_metadata_matches_def
        storage_caption_metadata_from_row_def attached_media_def)
  have "job_ids_fresh env (followup_keys ops ?i (st_ingests ?s2)) (st_jobs ?s2)" using fresh by simp
  then obtain s3 s4 where f: "complete_linked_ingests_for_storage ops env ?i LibraryDatabase ?s2 = Inr s3"
    "enqueue_workspace_cleanup_for_media ops env ?i (env_utc ?e) LibraryDatabase s3 = Inr s4" "st_media s4 = st_media ?s2"
    "st_ingests s4 = update_where (completable_ingest ?i) (completed_ingest (env_now ?e)) (st_ingests ?s2)"
    "\<And>r. r \<in> set (st_ingests ?s2) \<Longrightarrow> completable_ingest ?i r \<Longrightarrow> iw_requested_action r \<noteq> lit ''save'' \<Longrightarrow>
       list_ex (\<lambda>j. jr_dedupe_key j = Some (materialization_key ops (iw_id r))) (st_jobs s4)"
    "\<And>r. r \<in> set (st_ingests ?s2) \<Longrightarrow> iw_media_id r = Some ?i \<Longrightarrow> iw_state r \<noteq> lit ''cancelled'' \<Longrightarrow>
       list_ex (\<lambda>j. jr_dedupe_key j = Some (workspace_cleanup_key ops (iw_id r) (iw_workspace_id r))) (st_jobs s4)"
    by (rule followup_jobs [of env ops ?i ?s2 LibraryDatabase "env_utc ?e"]) blast
  have run: "complete_storage_upload ops env ?i t a s = (s4, into_storage_receipt ?m2)"
    using a(1) u1(1) [of LibraryDatabase] u2(1) [of LibraryDatabase] vs f(1,2)
    by (simp add: complete_storage_upload_def finish_storage_def in_transaction_def)
  have ok4: "media_ok s4"
    using media_move_ok [OF complete_storage_upload_move [OF ok, of ops env ?i t a]] run by simp
  show ?thesis
    by (rule that [OF run _ ok4]) (use f u2(2) in \<open>simp_all add: with_caption_values_def attached_media_def\<close>)
qed

text \<open>(C26) A reserved upload that its owner reports stored is stored: on a pending media item of the
  requested generation the reservation succeeds and gives out the row's caption; the owner's
  completion with that caption then returns a receipt with the reported message and file, a later
  lookup returns the same receipt and a later reservation reuses it; every ingest that waited for
  the upload is completed, each that asked for a publication has its materialisation job, and the
  workspace of every ingest that is not cancelled has its cleanup job.\<close>

theorem storage_upload_completes:
  assumes ok: "media_ok s" and m: "m \<in> set (st_media s)" "sur_media_id request = mw_id m"
      "mw_storage_state m = lit ''pending_storage''" "mw_storage_token m = None"
      "sur_generation request = mw_storage_generation m"
    and a: "validate_attachment a = Inr ()" "sua_telegram_file_id a \<noteq> None" "sua_storage_chat_id a < 0"
      "sua_caption_metadata a = Some (storage_caption_metadata_from_row m)"
    and fresh: "job_ids_fresh env' (followup_keys ops (mw_id m) (st_ingests s)) (st_jobs s)"
  shows "\<exists>s1 s2 receipt.
    reserve_storage_upload env request s =
      (s1, Inr (Reserved (mw_id m) (env_uuid (se_db env)) (storage_caption_metadata_from_row m))) \<and>
    complete_storage_upload ops env' (mw_id m) (env_uuid (se_db env)) a s1 = (s2, Inr receipt) \<and>
    sr_storage_chat_id receipt = sua_storage_chat_id a \<and> sr_storage_message_id receipt = sua_storage_message_id a \<and>
    sr_telegram_file_id receipt = sua_telegram_file_id a \<and>
    find_storage_receipt (mw_id m) s2 = Inr (Some receipt) \<and>
    reserve_storage_upload env'' request s2 = (s2, Inr (Reused receipt)) \<and>
    st_ingests s2 = update_where (completable_ingest (mw_id m)) (completed_ingest (env_now (se_db env'))) (st_ingests s) \<and>
    list_all (\<lambda>i. completable_ingest (mw_id m) i \<and> iw_requested_action i \<noteq> lit ''save'' \<longrightarrow>
        list_ex (\<lambda>j. jr_dedupe_key j = Some (materialization_key ops (iw_id i))) (st_jobs s2)) (st_ingests s) \<and>
    list_all (\<lambda>i. iw_media_id i = Some (mw_id m) \<and> iw_state i \<noteq> lit ''cancelled'' \<longrightarrow>
        list_ex (\<lambda>j. jr_dedupe_key j = Some (workspace_cleanup_key ops (iw_id i) (iw_workspace_id i))) (st_jobs s2))
      (st_ingests s)"
proof -
  let ?m = "reserved_media (se_db env) m"
  obtain s1 where s1: "reserve_storage_upload env request s =
      (s1, Inr (Reserved (mw_id m) (env_uuid (se_db env)) (storage_caption_metadata_from_row m)))"
    "?m \<in> set (st_media s1)" "st_jobs s1 = st_jobs s" "st_ingests s1 = st_ingests s" "media_ok s1"
    by (rule reserve_on_pending [OF ok m, of env])
  have cap: "sua_caption_metadata a = Some (storage_caption_metadata_from_row ?m)"
    by (simp add: a(4) storage_caption_metadata_from_row_def reserved_media_def)
  have tok: "mw_storage_token ?m = Some (env_uuid (se_db env))" by (simp add: reserved_media_def)
  obtain s2 row where c: "complete_storage_upload ops env' (mw_id ?m) (env_uuid (se_db env)) a s1 = (s2, into_storage_receipt row)"
    "row \<in> set (st_media s2)" "media_ok s2" "mw_id row = mw_id ?m" "mw_storage_state row = lit ''ready''"
    "mw_telegram_storage_chat_id row = Some (sua_storage_chat_id a)"
    "mw_telegram_storage_message_id row = Some (sua_storage_message_id a)"
    "mw_telegram_file_id row = sua_telegram_file_id a"
    "st_ingests s2 = update_where (completable_ingest (mw_id ?m)) (completed_ingest (env_now (se_db env'))) (st_ingests s1)"
    "\<And>r. r \<in> set (st_ingests s1) \<Longrightarrow> completable_ingest (mw_id ?m) r \<Longrightarrow> iw_requested_action r \<noteq> lit ''save'' \<Longrightarrow>
       list_ex (\<lambda>j. jr_dedupe_key j = Some (materialization_key ops (iw_id r))) (st_jobs s2)"
    "\<And>r. r \<in> set (st_ingests s1) \<Longrightarrow> iw_media_id r = Some (mw_id ?m) \<Longrightarrow> iw_state r \<noteq> lit ''cancelled'' \<Longrightarrow>
       list_ex (\<lambda>j. jr_dedupe_key j = Some (workspace_cleanup_key ops (iw_id r) (iw_workspace_id r))) (st_jobs s2)"
  proof (rule complete_owned_upload [OF s1(5,2) tok a(1,2) cap, of env' ops])
    show "job_ids_fresh env' (followup_keys ops (mw_id ?m) (st_ingests s1)) (st_jobs s1)" using fresh s1(3,4) by simp
  qed (rule that)
  have "media_check row" using media_row_inv [OF c(3,2)] by (simp add: media_inv_def)
  then obtain k where k: "media_kind_try_from (mw_kind row) = Inr k" using media_check_kind by blast
  have "0 < sua_storage_message_id a" using a(1) by (simp add: validate_attachment_def split: if_splits)
  then obtain receipt where r: "into_storage_receipt row = Inr receipt"
    "sr_storage_chat_id receipt = sua_storage_chat_id a" "sr_storage_message_id receipt = sua_storage_message_id a"
    "sr_telegram_file_id receipt = sua_telegram_file_id a"
    using c(6-8) k a(3) by (simp add: into_storage_receipt_def)
  have id: "mw_id row = mw_id m" using c(4) by simp
  have find: "find_storage_receipt (mw_id m) s2 = Inr (Some receipt)"
    using select_media_key [OF c(3,2) id] media_state_decodes [OF c(3,2)] c(5) r(1) by (simp add: find_storage_receipt_def)
  have again: "reserve_storage_upload env'' request s2 = (s2, Inr (Reused receipt))"
    using lock_media_row_key [OF c(3,2) id] m(2) c(5) r(1) by (simp add: reserve_storage_upload_def in_transaction_def)
  show ?thesis
    using s1(1) c(1,9-11) r find again s1(4) by (intro exI conjI) (auto simp: list_all_iff)
qed

section \<open>Witnesses\<close>

theorem storage_upload_fenced_witness:
  "release_storage_upload (senv 6 0) 4 22 (media_store [] uploading_media) = (media_store [] uploading_media, Inr ())"
proof -
  have m: "uploading_media \<in> set (st_media (media_store [] uploading_media))" "mw_storage_token uploading_media = Some 21"
    "mw_id uploading_media = 4"
    by (simp_all add: media_store_def uploading_media_def reserved_media_def witness_media_def at_time_def)
  have "22 \<noteq> (21 :: uuid)" by simp
  from storage_upload_fenced [OF media_store_ok [OF uploading_media_inv] m(1,2) this, of plain_store_ops "senv 6 0", unfolded m(3)]
  show ?thesis by blast
qed

definition witness_attachment :: storage_upload_attachment where
  "witness_attachment =
     \<lparr>sua_storage_chat_id = - 1001, sua_storage_message_id = 42, sua_telegram_file_id = Some (lit ''f''),
      sua_telegram_file_unique_id = None, sua_caption_metadata = Some (storage_caption_metadata_from_row witness_media)\<rparr>"

theorem storage_upload_completes_witness:
  "\<exists>s1 s2 receipt.
     reserve_storage_upload (senv 6 21) \<lparr>sur_media_id = 4, sur_generation = 0\<rparr> (media_store [] witness_media) =
       (s1, Inr (Reserved 4 21 (storage_caption_metadata_from_row witness_media))) \<and>
     complete_storage_upload plain_store_ops (senv 7 0) 4 21 witness_attachment s1 = (s2, Inr receipt) \<and>
     sr_storage_message_id receipt = 42 \<and> find_storage_receipt 4 s2 = Inr (Some receipt)"
proof -
  let ?s = "media_store [] witness_media"
  have keys: "followup_keys plain_store_ops 4 [storing_ingest] =
      [materialization_key plain_store_ops 1, workspace_cleanup_key plain_store_ops 1 2]"
    by (simp add: followup_keys_def completable_ingest_def storing_ingest_def)
  have fresh: "job_ids_fresh (senv 7 0) (followup_keys plain_store_ops 4 (st_ingests ?s)) (st_jobs ?s)"
    by (simp add: keys job_ids_fresh_def media_store_def)
       (auto simp: senv_def materialization_key_def workspace_cleanup_key_def plain_store_ops_def plain_ops_def)
  have m: "witness_media \<in> set (st_media ?s)" "mw_id witness_media = 4" "mw_storage_state witness_media = lit ''pending_storage''"
    "mw_storage_token witness_media = None" "mw_storage_generation witness_media = 0"
    by (simp_all add: media_store_def witness_media_def)
  have a: "validate_attachment witness_attachment = Inr ()" "sua_telegram_file_id witness_attachment \<noteq> None"
    "sua_storage_chat_id witness_attachment < 0" "sua_storage_message_id witness_attachment = 42"
    "sua_caption_metadata witness_attachment = Some (storage_caption_metadata_from_row witness_media)"
    by (simp_all add: witness_attachment_def validate_attachment_def)
  have "env_uuid (se_db (senv 6 21)) = 21" by (simp add: senv_def at_time_def)
  then show ?thesis
    using storage_upload_completes [where request = "\<lparr>sur_media_id = 4, sur_generation = 0\<rparr>" and env = "senv 6 21"
        and env' = "senv 7 0" and ops = plain_store_ops, OF media_store_ok [OF witness_media_inv, of "[]"] m(1) _ m(3,4) _ a(1,2,3,5)]
      m(2,5) a(4) fresh by fastforce
qed

end
