(* ===== verification/Ingest_Lifecycle.thy ===== *)
theory Ingest_Lifecycle
  imports Ingest_Pipeline Library_Lifecycle
begin

text \<open>
  The life cycle of an ingest row. \<open>ingest_inv\<close> is what the schema checks of a row together with the
  meaning of its completion time, error and evidence; \<open>ingest_transition\<close> how a row may move: the
  request never changes, the state follows the state machine of the domain, or a reconciliation of
  the media item's storage, and a failure that is not one of storage is final. The table \<open>ingests\<close> is
  a \<open>checked_table\<close> for it; the stages of the pipeline, the decisions, the storage outcomes, the
  library's operations, settlement and recovery move the table along these steps.
\<close>

section \<open>The contract\<close>

definition ingest_shape :: "ingest_status \<Rightarrow> timestamp option \<Rightarrow> ustring option \<Rightarrow> uuid option \<Rightarrow> json option \<Rightarrow> bool" where
  "ingest_shape st completed_at error_code media_id evidence \<longleftrightarrow>
     (st \<in> {IngestCompleted, FailedTerminal} \<longrightarrow> completed_at \<noteq> None) \<and>
     (\<not> ingest_is_terminal st \<longrightarrow> completed_at = None) \<and>
     (st = IngestCompleted \<longrightarrow> error_code = None \<and> media_id \<noteq> None) \<and>
     (st \<in> {FailedRetryable, FailedTerminal} \<longrightarrow> error_code \<noteq> None) \<and>
     (st = DuplicatePending \<longrightarrow> evidence \<noteq> None)"

text \<open>A stored envelope is the canonical encoding of some data.\<close>

definition canonical :: "ingest_codec \<Rightarrow> json \<Rightarrow> bool" where
  "canonical codec v \<longleftrightarrow> (\<exists>d. data_encode codec d = Inr v)"

definition ingest_inv :: "ingest_codec \<Rightarrow> ingest_row \<Rightarrow> bool" where
  "ingest_inv codec r \<longleftrightarrow>
     canonical codec (iw_input_json r) \<and> intent_check r \<and> iw_source_url r \<noteq> None \<and>
     (\<exists>k. iw_input_kind r = ingest_kind_as_str k) \<and> (\<exists>v. iw_submitted_via r = submitted_via_as_str v) \<and>
     (\<exists>st. iw_state r = ingest_status_as_str st \<and>
        ingest_shape st (iw_completed_at r) (iw_error_code r) (iw_media_id r) (iw_duplicate_evidence r) \<and>
        (st = DuplicatePending \<longrightarrow> \<not> iw_force_save r))"

text \<open>The columns of the request are fixed.\<close>

definition same_request :: "ingest_row \<Rightarrow> ingest_row \<Rightarrow> bool" where
  "same_request r r' \<longleftrightarrow>
     r' = r\<lparr>iw_state := iw_state r', iw_input_json := iw_input_json r', iw_workspace_id := iw_workspace_id r',
            iw_media_id := iw_media_id r', iw_force_save := iw_force_save r',
            iw_duplicate_evidence := iw_duplicate_evidence r', iw_error_code := iw_error_code r',
            iw_error_message := iw_error_message r', iw_acknowledged_failure_at := iw_acknowledged_failure_at r',
            iw_updated_at := iw_updated_at r', iw_completed_at := iw_completed_at r'\<rparr>"

definition ingest_route :: "ustring \<Rightarrow> ustring \<Rightarrow> bool" where
  "ingest_route a b \<longleftrightarrow>
     (\<exists>p q. a = ingest_status_as_str p \<and> b = ingest_status_as_str q \<and> can_transition_to\<^sup>*\<^sup>* p q)"

text \<open>What the storage of a media item does to its ingests: completion, failure, reopening.\<close>

definition storage_reconciled :: "ingest_row \<Rightarrow> ingest_row \<Rightarrow> bool" where
  "storage_reconciled r r' \<longleftrightarrow>
     iw_media_id r \<noteq> None \<and> iw_media_id r' = iw_media_id r \<and>
     (iw_state r' = lit ''completed'' \<and>
        (iw_state r = lit ''storing'' \<or> (iw_state r \<in> {lit ''failed_retryable'', lit ''failed_terminal''} \<and> storage_code r)) \<or>
      iw_state r' = lit ''failed_terminal'' \<and> iw_error_code r' = Some (lit ''storage_unknown'') \<and>
        (iw_state r \<notin> {lit ''cancelled'', lit ''failed_terminal''} \<or> storage_code r) \<or>
      iw_state r' = lit ''storing'' \<and> (iw_state r \<in> {lit ''completed'', lit ''storing''} \<or> storage_code r))"

definition final_ingest :: "ingest_row \<Rightarrow> bool" where
  "final_ingest r \<longleftrightarrow> iw_state r \<in> {lit ''failed_terminal'', lit ''cancelled''} \<and> \<not> storage_code r"

definition ingest_transition :: "ingest_codec \<Rightarrow> ingest_row \<Rightarrow> ingest_row \<Rightarrow> bool" where
  "ingest_transition codec r r' \<longleftrightarrow>
     same_request r r' \<and> (ingest_inv codec r \<longrightarrow> ingest_inv codec r') \<and>
     (ingest_route (iw_state r) (iw_state r') \<or> storage_reconciled r r') \<and>
     (iw_force_save r \<longrightarrow> iw_force_save r') \<and>
     (iw_workspace_id r' \<noteq> iw_workspace_id r \<longrightarrow>
        iw_force_save r' \<and> \<not> iw_force_save r \<and> iw_state r = lit ''duplicate_pending'') \<and>
     (final_ingest r \<longrightarrow> r' = r\<lparr>iw_acknowledged_failure_at := iw_acknowledged_failure_at r'\<rparr>)"

lemma same_request_id: "same_request r r' \<Longrightarrow> iw_id r' = iw_id r \<and> iw_input_key r' = iw_input_key r"
  unfolding same_request_def by (erule ssubst) simp

lemma same_request_fields:
  "same_request r r' \<Longrightarrow> intent_check r' = intent_check r \<and> iw_source_url r' = iw_source_url r \<and>
     iw_input_kind r' = iw_input_kind r \<and> iw_submitted_via r' = iw_submitted_via r"
  unfolding same_request_def by (erule ssubst) (simp add: intent_check_def)

interpretation ingests: checked_table iw_id "ingest_inv codec" "ingest_transition codec" for codec
  by unfold_locales (auto simp: ingest_transition_def dest: same_request_id)

definition ingests_ok :: "ingest_codec \<Rightarrow> 'v store \<Rightarrow> bool" where
  "ingests_ok codec s \<longleftrightarrow> table_ok iw_id (ingest_inv codec) (st_ingests s) \<and> distinct (map iw_input_key (st_ingests s))"

abbreviation ingest_steps :: "ingest_codec \<Rightarrow> ingest_row list \<Rightarrow> ingest_row list \<Rightarrow> bool" where
  "ingest_steps codec \<equiv> (table_step iw_id (ingest_inv codec) (ingest_transition codec))\<^sup>*\<^sup>*"

definition ingest_move :: "ingest_codec \<Rightarrow> 'v store \<Rightarrow> 'v store \<Rightarrow> bool" where
  "ingest_move codec s s' \<longleftrightarrow> ingests_ok codec s' \<and> ingest_steps codec (st_ingests s) (st_ingests s')"

section \<open>Moves of the table\<close>

lemma ingest_move_ok: "ingest_move codec s s' \<Longrightarrow> ingests_ok codec s'"
  by (simp add: ingest_move_def)

lemma ingest_move_trans: "ingest_move codec s s' \<Longrightarrow> ingest_move codec s' s'' \<Longrightarrow> ingest_move codec s s''"
  unfolding ingest_move_def by (auto intro: rtranclp_trans)

lemma ingest_move_same: "ingests_ok codec s \<Longrightarrow> st_ingests s' = st_ingests s \<Longrightarrow> ingest_move codec s s'"
  by (simp add: ingest_move_def ingests_ok_def)

lemma ingest_move_refl [simp]: "ingests_ok codec s \<Longrightarrow> ingest_move codec s s"
  by (simp add: ingest_move_same)

lemma ingest_move_then: "ingest_move codec s s1 \<Longrightarrow> st_ingests s' = st_ingests s1 \<Longrightarrow> ingest_move codec s s'"
  by (simp add: ingest_move_def ingests_ok_def)

lemma ingest_row_inv: "ingests_ok codec s \<Longrightarrow> r \<in> set (st_ingests s) \<Longrightarrow> ingest_inv codec r"
  by (auto simp: ingests_ok_def intro: table_ok_check)

lemma ingest_rows_move:
  assumes "ingests_ok codec s" and s': "st_ingests s' = update_where P f (st_ingests s)"
    and step: "\<And>r. r \<in> set (st_ingests s) \<Longrightarrow> P r \<Longrightarrow> ingest_inv codec r \<Longrightarrow> ingest_transition codec r (f r)"
  shows "ingest_move codec s s'"
proof -
  have steps: "\<And>r. r \<in> set (st_ingests s) \<Longrightarrow> P r \<Longrightarrow> ingest_transition codec r (f r)"
    using step ingest_row_inv [OF assms(1)] by blast
  then have one: "table_step iw_id (ingest_inv codec) (ingest_transition codec) (st_ingests s) (st_ingests s')"
    unfolding s' by (rule table_step_update_where)
  then have "table_ok iw_id (ingest_inv codec) (st_ingests s')"
    using assms(1) by (auto simp: ingests_ok_def intro: ingests.table_step_ok)
  moreover have "map iw_input_key (st_ingests s') = map iw_input_key (st_ingests s)"
    unfolding s' update_where_def using steps by (auto simp: ingest_transition_def dest: same_request_id)
  ultimately show ?thesis using assms(1) one by (auto simp: ingest_move_def ingests_ok_def)
qed

lemma update_ingests_move:
  assumes "ingests_ok codec s"
    and "\<And>r. r \<in> set (st_ingests s) \<Longrightarrow> P r \<Longrightarrow> ingest_inv codec r \<Longrightarrow> ingest_transition codec r (f r)"
  shows "ingest_move codec s (update_ingests P f s)"
  by (rule ingest_rows_move [OF assms(1), of _ P f]) (simp_all add: update_ingests_def assms(2))

lemma on_jobs_ingests: "on_jobs f e s = Inr s' \<Longrightarrow> st_ingests s' = st_ingests s"
  by (auto simp: on_jobs_def result_simps)

lemma update_media_rows_ingests: "update_media_rows P f e s = Inr (s', rows) \<Longrightarrow> st_ingests s' = st_ingests s"
  by (auto simp: update_media_rows_Inr)

section \<open>Transitions of a row\<close>

lemma same_request_refl [simp]: "same_request r r"
  by (simp add: same_request_def)

lemma ingest_route_refl: "ingest_inv codec r \<Longrightarrow> ingest_route (iw_state r) (iw_state r)"
  by (auto simp: ingest_inv_def ingest_route_def)

named_theorems ingest_transitions

lemmas status_strings = ingest_status_as_str.simps

declare ingest_status_enum.as_str_inj [simp]

lemma state_strings:
  "lit ''queued'' = ingest_status_as_str IngestQueued" "lit ''storing'' = ingest_status_as_str Storing"
  "lit ''completed'' = ingest_status_as_str IngestCompleted"
  "lit ''failed_retryable'' = ingest_status_as_str FailedRetryable"
  "lit ''failed_terminal'' = ingest_status_as_str FailedTerminal"
  "lit ''cancelled'' = ingest_status_as_str IngestCancelled"
  "lit ''duplicate_pending'' = ingest_status_as_str DuplicatePending"
  by simp_all

lemmas row_contract_defs =
  ingest_transition_def same_request_def final_ingest_def storage_reconciled_def intent_check_def storage_code_def

lemma ingest_inv_update:
  assumes "ingest_inv codec r" and "same_request r r'" and "iw_state r' = ingest_status_as_str st"
    and "ingest_shape st (iw_completed_at r') (iw_error_code r') (iw_media_id r') (iw_duplicate_evidence r')"
    and "st = DuplicatePending \<Longrightarrow> \<not> iw_force_save r'"
    and "canonical codec (iw_input_json r) \<Longrightarrow> canonical codec (iw_input_json r')"
  shows "ingest_inv codec r'"
  using assms same_request_fields [OF assms(2)] unfolding ingest_inv_def by auto

lemma completed_transition [ingest_transitions]:
  assumes "ingest_inv codec r" and "iw_media_id r \<noteq> None"
    and "iw_state r = lit ''storing'' \<or> (iw_state r \<in> {lit ''failed_retryable'', lit ''failed_terminal''} \<and> storage_code r)"
  shows "ingest_transition codec r (completed_ingest now r)"
proof -
  have "ingest_inv codec (completed_ingest now r)"
    by (rule ingest_inv_update [OF assms(1), of _ IngestCompleted])
       (use assms(2) in \<open>auto simp: same_request_def completed_ingest_def ingest_shape_def ingest_is_terminal_def\<close>)
  then show ?thesis using assms(2,3)
    by (auto simp: ingest_transition_def same_request_def completed_ingest_def storage_reconciled_def final_ingest_def)
qed

lemma storage_failed_transition [ingest_transitions]:
  assumes "ingest_inv codec r" and "iw_media_id r \<noteq> None"
    and "iw_state r \<notin> {lit ''cancelled'', lit ''failed_terminal''} \<or> storage_code r"
  shows "ingest_transition codec r (storage_failed_ingest env msg r)"
proof -
  have "ingest_inv codec (storage_failed_ingest env msg r)"
    by (rule ingest_inv_update [OF assms(1), of _ FailedTerminal])
       (auto simp: same_request_def storage_failed_ingest_def ingest_shape_def ingest_is_terminal_def)
  then show ?thesis using assms(2,3)
    by (auto simp: ingest_transition_def same_request_def storage_failed_ingest_def storage_reconciled_def final_ingest_def)
qed

lemma reopened_transition [ingest_transitions]:
  assumes "ingest_inv codec r" and "iw_media_id r \<noteq> None"
    and "iw_state r \<in> {lit ''completed'', lit ''storing''} \<or> storage_code r"
  shows "ingest_transition codec r (reopened_ingest env r)"
proof -
  have "ingest_inv codec (reopened_ingest env r)"
    by (rule ingest_inv_update [OF assms(1), of _ Storing])
       (auto simp: same_request_def reopened_ingest_def ingest_shape_def ingest_is_terminal_def)
  then show ?thesis using assms(2,3)
    by (auto simp: ingest_transition_def same_request_def reopened_ingest_def storage_reconciled_def final_ingest_def)
qed

lemma route_to_failure:
  assumes "ingest_inv codec r" and "iw_state r \<notin> {lit ''completed'', lit ''failed_terminal'', lit ''cancelled''}"
    and "target \<in> {FailedRetryable, FailedTerminal}"
  shows "ingest_route (iw_state r) (ingest_status_as_str target)"
proof -
  obtain st where st: "iw_state r = ingest_status_as_str st" using assms(1) by (auto simp: ingest_inv_def)
  then have "can_transition_to st target"
    using assms(2,3) by (cases st) (auto simp: can_transition_to_def ingest_is_terminal_def)
  then show ?thesis using st by (auto simp: ingest_route_def)
qed

lemma lease_failed_transition [ingest_transitions]:
  assumes "ingest_inv codec r" and "open_ingest r"
  shows "ingest_transition codec r (lease_failed_ingest env r)"
proof -
  have "ingest_inv codec (lease_failed_ingest env r)"
    by (rule ingest_inv_update [OF assms(1), of _ FailedTerminal])
       (auto simp: same_request_def lease_failed_ingest_def ingest_shape_def ingest_is_terminal_def)
  moreover have "ingest_route (iw_state r) (lit ''failed_terminal'')"
    using route_to_failure [OF assms(1), of FailedTerminal] assms(2) by (simp add: open_ingest_def)
  ultimately show ?thesis using assms(2)
    by (auto simp: ingest_transition_def same_request_def lease_failed_ingest_def open_ingest_def final_ingest_def)
qed

lemma storage_failure_transition [ingest_transitions]:
  assumes "ingest_inv codec r" and "iw_state r \<in> {lit ''storing'', lit ''failed_retryable''}"
    and "status \<in> {FailedRetryable, FailedTerminal}"
  shows "ingest_transition codec r (storage_failure_row now status code msg r)"
proof -
  have "ingest_inv codec (storage_failure_row now status code msg r)"
    by (rule ingest_inv_update [OF assms(1), of _ status])
       (use assms(3) in \<open>auto simp: same_request_def storage_failure_row_def ingest_shape_def ingest_is_terminal_def\<close>)
  moreover have "ingest_route (iw_state r) (ingest_status_as_str status)"
    using route_to_failure [OF assms(1) _ assms(3)] assms(2) by auto
  ultimately show ?thesis using assms(2)
    by (auto simp: ingest_transition_def same_request_def storage_failure_row_def final_ingest_def)
qed

lemma acknowledged_transition [ingest_transitions]:
  assumes "ingest_inv codec r"
  shows "ingest_transition codec r (r\<lparr>iw_acknowledged_failure_at := at\<rparr>)"
proof -
  have "ingest_inv codec (r\<lparr>iw_acknowledged_failure_at := at\<rparr>)" using assms by (simp add: ingest_inv_def intent_check_def)
  then show ?thesis using ingest_route_refl [OF assms]
    by (simp add: ingest_transition_def same_request_def)
qed

section \<open>Loaded ingests\<close>

abbreviation shaped :: "ingest \<Rightarrow> bool" where
  "shaped q \<equiv> ingest_shape (ing_status q) (ing_completed_at q) (ing_error_code q) (ing_media_id q) (ing_duplicate_evidence q)"

lemma into_ingest_fields:
  assumes "into_ingest ops r = Inr q"
  shows "ing_id q = iw_id r" "ing_workspace_id q = iw_workspace_id r" "iw_state r = ingest_status_as_str (ing_status q)"
    "ing_media_id q = iw_media_id r" "ing_force_save q = iw_force_save r"
    "ing_duplicate_evidence q = iw_duplicate_evidence r" "ing_error_code q = iw_error_code r"
    "ing_error_message q = iw_error_message r" "ing_completed_at q = iw_completed_at r"
    "ing_updated_at q = iw_updated_at r" "iw_requested_action r = requested_action_as_str (ing_requested_action q)"
    "iw_input_kind r = ingest_kind_as_str (ing_kind q)"
  using assms
  by (auto simp: into_ingest_def result_simps dest: ingest_status_enum.try_from_Inr requested_action_enum.try_from_Inr
      ingest_kind_enum.try_from_Inr)

lemma loaded_canonical: "into_ingest ops r = Inr q \<Longrightarrow> canonical (io_codec ops) (ing_original_input q)"
  by (auto simp: into_ingest_def result_simps canonical_def)

lemma load_requestD:
  assumes "load_request ops i s = Inr q"
  obtains r where "select_ingest i s = Some r" "r \<in> set (st_ingests s)" "iw_id r = i" "into_ingest ops r = Inr q" "ing_id q = i"
proof -
  obtain r where r: "select_ingest i s = Some r" "into_ingest ops r = Inr q"
    using assms by (auto simp: load_request_def result_simps)
  then show ?thesis using that select_one_Some [of "\<lambda>r. iw_id r = i"] into_ingest_fields(1) [OF r(2)]
    by (auto simp: select_ingest_def)
qed

lemma loaded_shaped:
  "into_ingest ops r = Inr q \<Longrightarrow> ingest_inv (io_codec ops) r \<Longrightarrow> shaped q \<and> (ing_status q = DuplicatePending \<longrightarrow> \<not> ing_force_save q)"
  by (auto simp: ingest_inv_def into_ingest_fields)

text \<open>What a stage may do to an ingest in memory.\<close>

definition ingest_advance :: "ingest_codec \<Rightarrow> ingest \<Rightarrow> ingest \<Rightarrow> bool" where
  "ingest_advance codec q q' \<longleftrightarrow>
     ing_id q' = ing_id q \<and> can_transition_to\<^sup>*\<^sup>* (ing_status q) (ing_status q') \<and> shaped q' \<and>
     (canonical codec (ing_original_input q) \<longrightarrow> canonical codec (ing_original_input q')) \<and>
     (ing_status q' = DuplicatePending \<longrightarrow> \<not> ing_force_save q') \<and>
     (ing_force_save q \<longrightarrow> ing_force_save q') \<and>
     (ing_workspace_id q' \<noteq> ing_workspace_id q \<longrightarrow>
        ing_force_save q' \<and> \<not> ing_force_save q \<and> ing_status q = DuplicatePending)"

text \<open>The row of the ingest was written, and no other.\<close>

definition ingest_written :: "ingest \<Rightarrow> 'v store \<Rightarrow> 'v store \<Rightarrow> bool" where
  "ingest_written q s s' \<longleftrightarrow>
     st_ingests s' = update_where (\<lambda>r. iw_id r = ing_id q) (ingest_state_row q) (st_ingests s)"

lemma update_where_again:
  assumes "\<And>r. P r \<Longrightarrow> P (g r) \<and> f (g r) = f r"
  shows "update_where P f (update_where P g t) = update_where P f t"
  using assms by (auto simp: update_where_def)

lemma state_row_again [simp]:
  "ingest_state_row q (ingest_state_row p r) = ingest_state_row q r" "iw_id (ingest_state_row q r) = iw_id r"
  "ingest_state_row q (probe_row p r) = ingest_state_row q r" "iw_id (probe_row p r) = iw_id r"
  by (simp_all add: ingest_state_row_def probe_row_def)

lemma ingest_written_update: "st_ingests s1 = st_ingests s \<Longrightarrow> ingest_written q s (update_ingest_state q s1)"
  by (simp add: ingest_written_def update_ingest_state_def update_ingests_def)

lemma ingest_written_again:
  "ingest_written p s s1 \<Longrightarrow> ing_id p = ing_id q \<Longrightarrow> ingest_written q s (update_ingest_state q s1)"
  by (simp add: ingest_written_def update_ingest_state_def update_ingests_def update_where_again)

lemma ingest_written_probe:
  "i = ing_id q \<Longrightarrow>
     ingest_written q s (update_ingest_state q (update_ingests (\<lambda>r. iw_id r = i) (probe_row p) s))"
  by (simp add: ingest_written_def update_ingest_state_def update_ingests_def update_where_again)

lemma ingest_written_then: "ingest_written q s s1 \<Longrightarrow> st_ingests s' = st_ingests s1 \<Longrightarrow> ingest_written q s s'"
  by (simp add: ingest_written_def)

lemma advance_transition:
  assumes r: "into_ingest ops r = Inr q" and adv: "ingest_advance (io_codec ops) q q'" and live: "\<not> ingest_is_terminal (ing_status q)"
    and inv: "ingest_inv (io_codec ops) r"
  shows "ingest_transition (io_codec ops) r (ingest_state_row q' r)"
proof -
  note fields = into_ingest_fields [OF r]
  have same: "same_request r (ingest_state_row q' r)" by (simp add: same_request_def ingest_state_row_def)
  have "ingest_inv (io_codec ops) (ingest_state_row q' r)"
    by (rule ingest_inv_update [OF inv same, of "ing_status q'"])
       (use adv loaded_canonical [OF r] in \<open>simp_all add: ingest_state_row_def ingest_advance_def\<close>)
  moreover have "ingest_route (iw_state r) (iw_state (ingest_state_row q' r))"
    using adv unfolding ingest_route_def fields(3) by (auto simp: ingest_state_row_def ingest_advance_def)
  moreover have "\<not> final_ingest r"
    using live by (auto simp: final_ingest_def fields(3) state_strings ingest_is_terminal_def simp del: ingest_status_as_str.simps)
  ultimately show ?thesis
    using adv same fields(2,3,5) by (auto simp: ingest_transition_def ingest_advance_def ingest_state_row_def)
qed

lemma written_move:
  assumes ok: "ingests_ok (io_codec ops) s" and q: "load_request ops i s = Inr q" and "\<not> ingest_is_terminal (ing_status q)"
    and adv: "ingest_advance (io_codec ops) q q'" and w: "ingest_written q' s s'"
  shows "ingest_move (io_codec ops) s s'"
proof -
  obtain r where r: "r \<in> set (st_ingests s)" "iw_id r = i" "into_ingest ops r = Inr q" "ing_id q = i"
    using q by (rule load_requestD)
  have only: "x = r" if "x \<in> set (st_ingests s)" "iw_id x = ing_id q'" for x
    using table_ok_key [of iw_id "ingest_inv (io_codec ops)" "st_ingests s" x r] ok that r adv
    by (simp add: ingests_ok_def ingest_advance_def)
  show ?thesis
  proof (rule ingest_rows_move [OF ok w [unfolded ingest_written_def]])
    fix x assume "x \<in> set (st_ingests s)" "iw_id x = ing_id q'" "ingest_inv (io_codec ops) x"
    then show "ingest_transition (io_codec ops) x (ingest_state_row q' x)"
      using only [of x] advance_transition [OF r(3) adv assms(3)] by metis
  qed
qed

section \<open>Transitions in memory\<close>

lemma follow_Inr:
  assumes "follow path q = Inr q'"
  shows "q' = q\<lparr>ing_status := last (ing_status q # path)\<rparr> \<and> can_transition_to\<^sup>*\<^sup>* (ing_status q) (ing_status q')"
  using assms
proof (induction path arbitrary: q)
  case (Cons t path)
  have "can_transition_to (ing_status q) t" and rest: "follow path (q\<lparr>ing_status := t\<rparr>) = Inr q'"
    using Cons.prems by (auto simp: follow_def result_simps transition_to_Inr)
  with Cons.IH [OF rest] show ?case by (auto intro: converse_rtranclp_into_rtranclp)
qed (simp add: follow_def result_simps)

lemma follow_one: "follow [t] q = Inr q' \<longleftrightarrow> can_transition_to (ing_status q) t \<and> q' = q\<lparr>ing_status := t\<rparr>"
  by (auto simp: follow_def result_simps transition_to_Inr)

lemma set_input_data_Inr:
  "set_input_data codec d q = Inr q' \<longleftrightarrow> (\<exists>v. data_encode codec d = Inr v \<and> q' = q\<lparr>ing_original_input := v\<rparr>)"
  by (auto simp: set_input_data_def result_simps)

lemma with_stage_data_Inr: "with_stage_data ops f q = Inr q' \<Longrightarrow> \<exists>v. canonical (io_codec ops) v \<and> q' = q\<lparr>ing_original_input := v\<rparr>"
  by (auto simp: with_stage_data_def result_simps set_input_data_Inr canonical_def)

lemmas insert_ingests = insert_ingest_job_def ingest_cleanup_def store_workspace_cleanup_def
  insert_materialization_job_def insert_inspect_job_def insert_probe_job_def insert_download_job_def
  insert_normalize_job_def insert_finalize_job_def insert_fingerprint_job_def insert_first_job_def

lemma inserts_keep_ingests:
  "insert_ingest_job ops env j k s = Inr s' \<Longrightarrow> st_ingests s' = st_ingests s"
  "ingest_cleanup ops env q at s = Inr s' \<Longrightarrow> st_ingests s' = st_ingests s"
  "insert_materialization_job sops env i e s = Inr s' \<Longrightarrow> st_ingests s' = st_ingests s"
  "insert_storage_job ops env m s = Inr s' \<Longrightarrow> st_ingests s' = st_ingests s"
  "insert_first_job ops env q s = Inr s' \<Longrightarrow> st_ingests s' = st_ingests s"
  "insert_download_job ops env q ins s = Inr s' \<Longrightarrow> st_ingests s' = st_ingests s"
  "insert_probe_job ops env q s = Inr s' \<Longrightarrow> st_ingests s' = st_ingests s"
  "insert_normalize_job ops env q s = Inr s' \<Longrightarrow> st_ingests s' = st_ingests s"
  "insert_finalize_job ops env q s = Inr s' \<Longrightarrow> st_ingests s' = st_ingests s"
  "insert_fingerprint_job ops env q s = Inr s' \<Longrightarrow> st_ingests s' = st_ingests s"
  "succeed_current_job_attempt env a s = Inr s' \<Longrightarrow> st_ingests s' = st_ingests s"
  by (auto simp: insert_ingests insert_storage_job_def succeed_current_job_attempt_def dest: on_jobs_ingests
      split: option.splits ingest_kind.splits if_splits)

lemma cleared_fields [simp]:
  "ing_id (cleared now q) = ing_id q" "ing_status (cleared now q) = ing_status q"
  "ing_force_save (cleared now q) = ing_force_save q" "ing_workspace_id (cleared now q) = ing_workspace_id q"
  "ing_completed_at (cleared now q) = None" "ing_error_code (cleared now q) = None"
  "ing_media_id (cleared now q) = ing_media_id q" "ing_duplicate_evidence (cleared now q) = ing_duplicate_evidence q"
  "ing_requested_action (cleared now q) = ing_requested_action q"
  "ing_original_input (cleared now q) = ing_original_input q"
  by (simp_all add: cleared_def)

lemma failed_with_fields [simp]:
  "ing_id (failed_with now c m q) = ing_id q" "ing_status (failed_with now c m q) = ing_status q"
  "ing_force_save (failed_with now c m q) = ing_force_save q"
  "ing_workspace_id (failed_with now c m q) = ing_workspace_id q"
  "ing_completed_at (failed_with now c m q) = Some now" "ing_error_code (failed_with now c m q) = Some c"
  "ing_media_id (failed_with now c m q) = ing_media_id q"
  "ing_duplicate_evidence (failed_with now c m q) = ing_duplicate_evidence q"
  "ing_original_input (failed_with now c m q) = ing_original_input q"
  by (simp_all add: failed_with_def)

text \<open>States in which a worker is at work on the ingest.\<close>

definition working :: "ingest_status \<Rightarrow> bool" where
  "working st \<longleftrightarrow> st \<in> {IngestQueued, Downloading, Probing, Normalizing, Fingerprinting, Storing}"

lemma shape_working [simp]: "working st \<Longrightarrow> ingest_shape st c e m d \<longleftrightarrow> c = None"
  by (auto simp: working_def ingest_shape_def ingest_is_terminal_def)

lemma shape_completed [simp]: "ingest_shape IngestCompleted c e m d \<longleftrightarrow> c \<noteq> None \<and> e = None \<and> m \<noteq> None"
  by (auto simp: ingest_shape_def ingest_is_terminal_def)

lemma shape_failed [simp]: "ingest_shape FailedTerminal c e m d \<longleftrightarrow> c \<noteq> None \<and> e \<noteq> None"
  "ingest_shape FailedRetryable c e m d \<longleftrightarrow> c = None \<and> e \<noteq> None"
  by (auto simp: ingest_shape_def ingest_is_terminal_def)

lemma shape_duplicate [simp]: "ingest_shape DuplicatePending c e m d \<longleftrightarrow> c = None \<and> d \<noteq> None"
  by (auto simp: ingest_shape_def ingest_is_terminal_def)

lemma working_states [simp]:
  "working IngestQueued" "working Downloading" "working Probing" "working Normalizing" "working Fingerprinting"
  "working Storing"
  by (simp_all add: working_def)

lemma working_decided [simp]: "\<not> working DuplicatePending"
  by (simp add: working_def)

lemma working_open: "working st \<Longrightarrow> \<not> ingest_is_terminal st"
  by (auto simp: working_def ingest_is_terminal_def)

section \<open>Stages\<close>

lemma advance_after_media_advance:
  assumes "advance_after_media_processing ops env q m s = Inr (s', q')"
  shows "ingest_advance (io_codec ops) q q' \<and> ingest_written q' s s'"
proof -
  let ?p = "cleared (utc env) (q\<lparr>ing_media_id := Some m\<rparr>)"
  obtain st s1 where branch: "(case st of
              StorageReady \<Rightarrow>
                rbind (follow [IngestCompleted] ?p) (\<lambda>request.
                rbind (if ing_requested_action request \<noteq> SaveAction
                       then insert_materialization_job (io_store ops) env (ing_id request) InboxDatabase s
                       else Inr s) (\<lambda>s.
                  map_ok (\<lambda>s. (s, request\<lparr>ing_completed_at := Some (utc env)\<rparr>))
                    (ingest_cleanup ops env request (utc env) s)))
            | StoragePending \<Rightarrow>
                rbind (follow [Storing] ?p) (\<lambda>request.
                  map_ok (\<lambda>s. (s, request)) (insert_storage_job ops env m s))
            | _ \<Rightarrow>
                rbind (follow [FailedTerminal] ?p) (\<lambda>request.
                  map_ok (\<lambda>s. (s, failed_with (utc env) (lit ''storage_unknown'')
                      (lit ''media storage requires explicit reconciliation before ingest can complete'') request))
                    (ingest_cleanup ops env request (utc env + WORKSPACE_CLEANUP_RETENTION) s))) = Inr (s1, q')"
    and s': "s' = update_ingest_state q' s1"
    using assms by (auto simp: advance_after_media_processing_def Let_def result_simps)
  have "ingest_advance (io_codec ops) q q' \<and> st_ingests s1 = st_ingests s"
    using branch
    by (cases st) (auto simp: result_simps follow_one ingest_advance_def split: if_splits dest!: inserts_keep_ingests)
  then show ?thesis using ingest_written_update s' by blast
qed

lemma inspected_advance:
  assumes "inspected ops env ins q s = Inr (s', q')"
  shows "ingest_advance (io_codec ops) q q' \<and> ingest_written q' s s'"
  using assms
  by (auto simp: inspected_def Let_def result_simps follow_one ingest_advance_def
      dest!: inserts_keep_ingests with_stage_data_Inr intro: ingest_written_update ingest_written_then)

lemma probed_advance:
  assumes "probed ops env p q s = Inr (s', q')"
  shows "ingest_advance (io_codec ops) q q' \<and> ingest_written q' s s'"
  using assms
  by (auto simp: probed_def Let_def result_simps follow_one ingest_advance_def
      split: if_splits prod.splits dest!: inserts_keep_ingests with_stage_data_Inr
      elim!: ingest_written_then [rotated] intro!: ingest_written_probe)

lemma normalized_advance:
  assumes "normalized ops env n q s = Inr (s', q')"
  shows "ingest_advance (io_codec ops) q q' \<and> ingest_written q' s s'"
  using assms
  by (auto simp: normalized_def Let_def result_simps follow_one ingest_advance_def
      split: if_splits dest!: inserts_keep_ingests with_stage_data_Inr
      intro: ingest_written_update ingest_written_then)

lemma advance_cong:
  "ingest_advance (io_codec ops) p q' \<Longrightarrow> ing_id p = ing_id q \<Longrightarrow> ing_status p = ing_status q \<Longrightarrow> ing_force_save p = ing_force_save q \<Longrightarrow>
     ing_workspace_id p = ing_workspace_id q \<Longrightarrow>
     (canonical (io_codec ops) (ing_original_input q) \<Longrightarrow> canonical (io_codec ops) (ing_original_input p)) \<Longrightarrow>
     ingest_advance (io_codec ops) q q'"
  by (simp add: ingest_advance_def)

lemma finalized_advance:
  assumes "finalized ops env fin q s = Inr (s', q')"
  shows "ingest_advance (io_codec ops) q q' \<and> ingest_written q' s s'"
proof -
  obtain p where p: "with_stage_data ops (\<lambda>data. data\<lparr>id_finalization := Some fin\<rparr>)
        (q\<lparr>ing_media_id := Some (fi_media_id fin)\<rparr>) = Inr p"
    "advance_after_media_processing ops env (p\<lparr>ing_error_code := None, ing_error_message := None, ing_updated_at := utc env\<rparr>)
       (fi_media_id fin) s = Inr (s', q')"
    using assms by (auto simp: finalized_def result_simps split: if_splits)
  show ?thesis
    using advance_after_media_advance [OF p(2)] with_stage_data_Inr [OF p(1)] by (auto elim!: advance_cong)
qed

lemma merge_into_media_ingests: "merge_into_media sops env i ts sv m s = Inr (s', row) \<Longrightarrow> st_ingests s' = st_ingests s"
  by (auto simp: merge_into_media_def Let_def result_simps enqueue_caption_sync_job_def
      enqueue_caption_sync_job_with_key_def dest!: update_media_rows_ingests on_jobs_ingests split: if_splits)

lemma insert_media_ingests: "insert_media row s = Inr (s', r) \<Longrightarrow> st_ingests s' = st_ingests s"
  by (auto simp: insert_media_def split: if_splits)

lemma insert_identified_ingests:
  "insert_identified_video sops env i h f ts sv s = Inr (s', oc) \<Longrightarrow> st_ingests s' = st_ingests s"
  by (auto simp: insert_identified_video_def result_simps split: option.splits dest!: insert_media_ingests)

lemma persist_identity_ingests:
  assumes "persist_video_identity sops env i f d force s = Inr (s', oc)"
  shows "st_ingests s' = st_ingests s"
proof (cases d)
  case NoMatch
  then show ?thesis using assms
    by (auto simp: persist_video_identity_def Let_def result_simps split: if_splits option.split_asm
        dest!: merge_into_media_ingests insert_identified_ingests)
next
  case (DuplicatePendingDecision e)
  then show ?thesis using assms
    by (auto simp: persist_video_identity_def Let_def result_simps split: if_splits option.split_asm
        dest!: merge_into_media_ingests insert_identified_ingests)
qed

lemma forced_identity_decides:
  assumes "persist_video_identity sops env i f d True s = Inr (s', oc)"
  shows "oc \<noteq> DuplicatePendingOutcome e"
proof (cases d)
  case NoMatch
  then show ?thesis using assms
    by (auto simp: persist_video_identity_def Let_def result_simps insert_identified_video_def
        split: if_splits option.split_asm)
next
  case (DuplicatePendingDecision e)
  then show ?thesis using assms
    by (auto simp: persist_video_identity_def Let_def result_simps insert_identified_video_def
        split: if_splits option.split_asm)
qed

lemma ingest_written_from: "ingest_written q s1 s' \<Longrightarrow> st_ingests s1 = st_ingests s \<Longrightarrow> ingest_written q s s'"
  by (simp add: ingest_written_def)

lemma touched_advance: "ingest_advance (io_codec ops) q q' \<Longrightarrow> ingest_advance (io_codec ops) q (q'\<lparr>ing_updated_at := now\<rparr>)"
  by (simp add: ingest_advance_def)

lemma identified_advance:
  assumes "identified ops env mi f d q s = Inr (s', q')"
  shows "ingest_advance (io_codec ops) q q' \<and> ingest_written q' s s'"
proof -
  obtain s1 oc s2 p where one: "persist_video_identity (io_store ops) env mi f d (ing_force_save q) s = Inr (s1, oc)"
    and two: "(case oc of
              DuplicatePendingOutcome evidence \<Rightarrow>
                if length (vde_matches evidence) > MAX_VIDEO_DUPLICATE_MATCHES
                then Inl (DuplicateEvidenceTooManyMatches MAX_VIDEO_DUPLICATE_MATCHES)
                else let v = so_evidence_json (io_store ops) evidence in
                  if so_json_length (io_store ops) v > MAX_VIDEO_DUPLICATE_EVIDENCE_BYTES
                  then Inl (DuplicateEvidenceTooLarge MAX_VIDEO_DUPLICATE_EVIDENCE_BYTES)
                  else rbind (follow [DuplicatePending] q) (\<lambda>request.
                    map_ok (\<lambda>s. (s, cleared (utc env)
                        (request\<lparr>ing_media_id := None, ing_duplicate_evidence := Some v\<rparr>)))
                      (ingest_cleanup ops env request (utc env + WORKSPACE_CLEANUP_RETENTION) s1))
            | ExactDuplicate media_id \<Rightarrow>
                advance_after_media_processing ops env (q\<lparr>ing_duplicate_evidence := None\<rparr>) media_id s1
            | NewMedia media_id \<Rightarrow>
                advance_after_media_processing ops env (q\<lparr>ing_duplicate_evidence := None\<rparr>) media_id s1) = Inr (s2, p)"
    and q': "q' = p\<lparr>ing_updated_at := utc env\<rparr>" "s' = update_ingest_state q' s2"
    using assms by (auto simp: identified_def Let_def result_simps)
  have undecided: "\<not> ing_force_save q" if "oc = DuplicatePendingOutcome e" for e
    using forced_identity_decides [of "io_store ops" env mi f d s s1 oc e] one that by (cases "ing_force_save q") simp_all
  have "ingest_advance (io_codec ops) q p \<and> (st_ingests s2 = st_ingests s1 \<or> ingest_written p s1 s2)"
    using two undecided
    by (auto simp: Let_def result_simps follow_one ingest_advance_def split: video_identity_outcome.splits if_splits
        dest!: advance_after_media_advance dest: inserts_keep_ingests)
  moreover have s1: "st_ingests s1 = st_ingests s" using one by (rule persist_identity_ingests)
  ultimately have adv: "ingest_advance (io_codec ops) q p" and w: "st_ingests s2 = st_ingests s \<or> ingest_written p s s2"
    by (auto dest: ingest_written_from)
  from w have "ingest_written q' s s'"
  proof
    assume "st_ingests s2 = st_ingests s"
    then show ?thesis unfolding q'(2) by (rule ingest_written_update)
  next
    assume "ingest_written p s s2"
    then show ?thesis unfolding q'(2) by (rule ingest_written_again) (simp add: q'(1))
  qed
  then show ?thesis using touched_advance [OF adv] q'(1) by simp
qed

lemma complete_stage_move:
  assumes ok: "ingests_ok (io_codec ops) s" and "working expected"
    and body: "\<And>q s' q'. body q s = Inr (s', q') \<Longrightarrow> load_request ops i s = Inr q \<Longrightarrow> ing_status q = expected \<Longrightarrow> ingest_move (io_codec ops) s s'"
  shows "ingest_move (io_codec ops) s (fst (in_transaction s (complete_stage ops env i attempt expected skip body s) Inr))"
  unfolding complete_stage_def
  by (rule in_transaction_ensures, simp add: ok, intro tx_rules)
     (auto simp: ok dest!: inserts_keep_ingests elim!: ingest_move_then [rotated] intro!: body)

lemma written_stage_move:
  assumes "ingests_ok (io_codec ops) s" and "load_request ops i s = Inr q" and "working (ing_status q)"
    and "ingest_advance (io_codec ops) q q' \<and> ingest_written q' s s'"
  shows "ingest_move (io_codec ops) s s'"
  using written_move [OF assms(1,2) working_open [OF assms(3)]] assms(4) by blast

lemma download_row_move:
  assumes ok: "ingests_ok (io_codec ops) s" and q: "load_request ops i s = Inr q" "ing_status q = Downloading"
    and d: "downloaded ops env dl q s = Inr (s', q')"
  shows "ingest_move (io_codec ops) s s'"
proof -
  obtain v s1 where v: "canonical (io_codec ops) v" and q': "q' = q\<lparr>ing_original_input := v, ing_error_code := None, ing_error_message := None, ing_updated_at := utc env\<rparr>"
    and ins: "insert_probe_job ops env q' (update_ingests (\<lambda>r. iw_id r = ing_id q) (download_row q') s) = Inr s'"
    using d by (auto simp: downloaded_def Let_def result_simps dest!: with_stage_data_Inr)
  obtain r where r: "r \<in> set (st_ingests s)" "iw_id r = i" "into_ingest ops r = Inr q" "ing_id q = i"
    using q(1) by (rule load_requestD)
  note fields = into_ingest_fields [OF r(3)]
  have "download_row q' x = ingest_state_row q' x" if "x \<in> set (st_ingests s)" "iw_id x = ing_id q" for x
  proof -
    have "x = r" using table_ok_key [of iw_id "ingest_inv (io_codec ops)" "st_ingests s" x r] ok that r by (simp add: ingests_ok_def)
    then show ?thesis using fields by (simp add: q' download_row_def ingest_state_row_def)
  qed
  then have "ingest_written q' s s'"
    using inserts_keep_ingests(7) [OF ins] by (auto simp: ingest_written_def q' update_ingests_def update_where_def)
  moreover have "ing_completed_at q = None"
    using loaded_shaped [OF r(3) ingest_row_inv [OF ok r(1)]] q(2) by simp
  then have "ingest_advance (io_codec ops) q q'" by (simp add: q' q(2) v ingest_advance_def)
  ultimately show ?thesis using written_stage_move [OF ok q(1)] q(2) by simp
qed

lemma begin_stage_move:
  assumes ok: "ingests_ok (io_codec ops) s"
    and routes: "\<And>st path. route st = Some path \<Longrightarrow> path = [] \<or> (\<not> ingest_is_terminal st \<and> working (last path))"
  shows "ingest_move (io_codec ops) s (fst (in_transaction s (begin_stage ops env i attempt skip route s) Inr))"
  unfolding begin_stage_def Let_def
proof (rule in_transaction_ensures, simp add: ok, intro tx_rules)
  fix q path q'
  assume q: "load_request ops i s = Inr q" and path: "route (ing_status q) = Some path" "path \<noteq> []"
    and f: "follow path q = Inr q'"
  have "ingest_advance (io_codec ops) q (cleared (utc env) q')"
    using follow_Inr [OF f] routes [OF path(1)] path(2) by (auto simp: ingest_advance_def)
  then show "ingest_move (io_codec ops) s (update_ingest_state (cleared (utc env) q') s)"
    using written_move [OF ok q] routes [OF path(1)] path(2) ingest_written_update by blast
qed (simp_all add: ok)


section \<open>The operations of the inbox\<close>

lemma tx_ensuresI: "(\<And>s r. tx = Inr (s, r) \<Longrightarrow> Q s r) \<Longrightarrow> tx_ensures Q tx"
  by (cases tx) (auto simp: tx_ensures_def)

lemma begin_source_inspection_move: "ingests_ok (io_codec ops) s \<Longrightarrow> ingest_move (io_codec ops) s (fst (begin_source_inspection ops env i a s))"
  unfolding begin_source_inspection_def
  by (rule begin_stage_move) (auto simp: ingest_is_terminal_def split: ingest_status.splits)

lemma begin_asset_probe_move: "ingests_ok (io_codec ops) s \<Longrightarrow> ingest_move (io_codec ops) s (fst (begin_asset_probe ops env i a s))"
  unfolding begin_asset_probe_def
  by (rule begin_stage_move) (auto simp: ingest_is_terminal_def split: ingest_status.splits)

lemma begin_source_download_move: "ingests_ok (io_codec ops) s \<Longrightarrow> ingest_move (io_codec ops) s (fst (begin_source_download ops env i a s))"
  unfolding begin_source_download_def
  by (rule begin_stage_move) (auto simp: ingest_is_terminal_def split: ingest_status.splits)

lemma begin_asset_normalization_move: "ingests_ok (io_codec ops) s \<Longrightarrow> ingest_move (io_codec ops) s (fst (begin_asset_normalization ops env i a s))"
  unfolding begin_asset_normalization_def
  by (rule begin_stage_move) (auto simp: ingest_is_terminal_def split: ingest_status.splits)

lemma begin_ingest_finalization_move: "ingests_ok (io_codec ops) s \<Longrightarrow> ingest_move (io_codec ops) s (fst (begin_ingest_finalization ops env i a s))"
  unfolding begin_ingest_finalization_def
  by (rule begin_stage_move) (auto simp: ingest_is_terminal_def split: ingest_status.splits)

lemma begin_ingest_fingerprinting_move: "ingests_ok (io_codec ops) s \<Longrightarrow> ingest_move (io_codec ops) s (fst (begin_ingest_fingerprinting ops env i a s))"
  unfolding begin_ingest_fingerprinting_def
  by (rule begin_stage_move) (auto simp: ingest_is_terminal_def split: ingest_status.splits)

lemma complete_source_inspection_move: "ingests_ok (io_codec ops) s \<Longrightarrow> ingest_move (io_codec ops) s (fst (complete_source_inspection ops env i a d s))"
  unfolding complete_source_inspection_def
  by (rule complete_stage_move) (simp_all add: written_stage_move [OF _ _ _ inspected_advance])

lemma complete_source_download_move: "ingests_ok (io_codec ops) s \<Longrightarrow> ingest_move (io_codec ops) s (fst (complete_source_download ops env i a d s))"
  unfolding complete_source_download_def by (rule complete_stage_move) (simp_all add: download_row_move)

lemma complete_asset_probe_move: "ingests_ok (io_codec ops) s \<Longrightarrow> ingest_move (io_codec ops) s (fst (complete_asset_probe ops env i a d s))"
  unfolding complete_asset_probe_def
  by (rule complete_stage_move) (simp_all add: written_stage_move [OF _ _ _ probed_advance])

lemma complete_asset_normalization_move: "ingests_ok (io_codec ops) s \<Longrightarrow> ingest_move (io_codec ops) s (fst (complete_asset_normalization ops env i a d s))"
  unfolding complete_asset_normalization_def
  by (rule complete_stage_move) (simp_all add: written_stage_move [OF _ _ _ normalized_advance])

lemma complete_ingest_finalization_move: "ingests_ok (io_codec ops) s \<Longrightarrow> ingest_move (io_codec ops) s (fst (complete_ingest_finalization ops env i a d s))"
  unfolding complete_ingest_finalization_def
  by (rule complete_stage_move) (simp_all add: written_stage_move [OF _ _ _ finalized_advance])

lemma complete_video_identity_move: "ingests_ok (io_codec ops) s \<Longrightarrow> ingest_move (io_codec ops) s (fst (complete_video_identity ops env i a mi f d s))"
  unfolding complete_video_identity_def
  by (rule complete_stage_move) (simp_all add: written_stage_move [OF _ _ _ identified_advance])

lemma fail_ingest_step_move: "ingests_ok (io_codec ops) s \<Longrightarrow> ingest_move (io_codec ops) s (fst (fail_ingest_step ops env i st c m g s))"
  unfolding fail_ingest_step_def fail_ingest_step_tx_def
proof (rule in_transaction_ensures, simp, intro tx_rules)
  fix q d and p :: ingest and s'
  let ?q = "p\<lparr>ing_error_code := Some c, ing_error_message := Some m,
      ing_completed_at := (if st = FailedTerminal then Some (utc env) else None), ing_updated_at := utc env\<rparr>"
  assume ok: "ingests_ok (io_codec ops) s" and st: "\<not> st \<notin> {FailedRetryable, FailedTerminal}" and q: "load_request ops i s = Inr q"
    and "\<not> (d \<or> (case fg_expected_status g of None \<Rightarrow> False | Some expected \<Rightarrow> ing_status q \<noteq> expected) \<or>
        (case fg_attempt g of None \<Rightarrow> False | Some attempt \<Rightarrow> \<not> holds_attempt env attempt s) \<or>
        ingest_is_terminal (ing_status q))"
    and f: "follow [st] q = Inr p"
    and ins: "(if st = FailedTerminal
         then ingest_cleanup ops env ?q (utc env + WORKSPACE_CLEANUP_RETENTION) (update_ingest_state ?q s)
         else Inr (update_ingest_state ?q s)) = Inr s'"
  then have "\<not> ingest_is_terminal (ing_status q)" by simp
  moreover have "ingest_advance (io_codec ops) q ?q"
    using f st by (auto simp: follow_one ingest_advance_def)
  moreover have "ingest_written ?q s s'"
    using ins by (auto split: if_splits dest!: inserts_keep_ingests(2)
        elim: ingest_written_then [OF ingest_written_update, rotated] intro!: ingest_written_update)
  ultimately show "ingest_move (io_codec ops) s (fst (s', ?q))" using written_move [OF ok q] by simp
qed simp_all

subsection \<open>Decisions\<close>

lemma finish_acceptance_advance:
  assumes "finish_acceptance ops env st p s = Inr (s', q', b)" and "ing_media_id p \<noteq> None" and "ing_status p = DuplicatePending"
  shows "ingest_advance (io_codec ops) p q' \<and> ingest_written q' s s'"
proof (cases "st = StorageReady")
  case True
  then obtain s1 where "q' = (cleared (utc env) (p\<lparr>ing_duplicate_evidence := None\<rparr>))
        \<lparr>ing_status := IngestCompleted, ing_completed_at := Some (utc env)\<rparr>"
    "can_transition_to DuplicatePending Storing" "can_transition_to Storing IngestCompleted"
    "s' = update_ingest_state q' s1" "st_ingests s1 = st_ingests s"
    using assms by (auto simp: finish_acceptance_def Let_def result_simps follow_one split: if_splits
        dest!: inserts_keep_ingests(3))
  then show ?thesis using assms(2,3) ingest_written_update [of s1 s q']
    by (auto simp: ingest_advance_def intro: converse_rtranclp_into_rtranclp)
next
  case False
  then show ?thesis using assms
    by (auto simp: finish_acceptance_def Let_def result_simps follow_one ingest_advance_def
        intro!: r_into_rtranclp ingest_written_update)
qed

lemma record_acceptance_Inr:
  "record_acceptance ops q m = Inr p \<Longrightarrow>
     \<exists>v. canonical (io_codec ops) v \<and> p = q\<lparr>ing_media_id := Some m, ing_original_input := v\<rparr>"
  by (auto simp: record_acceptance_def result_simps set_input_data_Inr canonical_def)

lemma accept_duplicate_move: "ingests_ok (io_codec ops) s \<Longrightarrow> ingest_move (io_codec ops) s (fst (accept_duplicate ops env i m s))"
  unfolding accept_duplicate_def accept_duplicate_tx_def
proof (rule in_transaction_ensures, simp, intro tx_rbind_prod tx_rules)
  fix q st s1 rows p
  assume ok: "ingests_ok (io_codec ops) s" and q: "load_request ops i s = Inr q" "\<not> ing_status q \<noteq> DuplicatePending"
    and up: "update_media_rows (\<lambda>x. mw_id x = m) (accepted_duplicate (se_db env) q) InboxDatabase s = Inr (s1, rows)"
    and rec: "record_acceptance ops q m = Inr p"
  obtain v where p: "canonical (io_codec ops) v" "p = q\<lparr>ing_media_id := Some m, ing_original_input := v\<rparr>"
    using record_acceptance_Inr [OF rec] by blast
  have same: "st_ingests s1 = st_ingests s" using up by (rule update_media_rows_ingests)
  show "tx_ensures (\<lambda>s' _. ingest_move (io_codec ops) s s') (finish_acceptance ops env st p s1)"
  proof (rule tx_ensuresI)
    fix s' x
    assume "finish_acceptance ops env st p s1 = Inr (s', x)"
    then obtain q' b where fin: "finish_acceptance ops env st p s1 = Inr (s', q', b)" by (cases x) simp
    have adv: "ingest_advance (io_codec ops) p q'" and w: "ingest_written q' s1 s'"
      using finish_acceptance_advance [OF fin] q(2) p by simp_all
    have "ingest_advance (io_codec ops) q q'" using adv by (rule advance_cong) (simp_all add: p)
    then show "ingest_move (io_codec ops) s s'"
      using written_move [OF ok q(1)] q(2) ingest_written_from [OF w same] by (simp add: ingest_is_terminal_def)
  qed
qed (auto simp: replay_acceptance_def Let_def tx_ensures_def)

lemma force_save_move: "ingests_ok (io_codec ops) s \<Longrightarrow> ingest_move (io_codec ops) s (fst (force_save ops env i s))"
  unfolding force_save_def force_save_tx_def Let_def
proof (rule in_transaction_ensures, simp, intro tx_rules)
  fix q p q' :: ingest and s'
  let ?q = "q\<lparr>ing_force_save := True, ing_workspace_id := env_uuid (se_db env), ing_duplicate_evidence := None\<rparr>"
  assume ok: "ingests_ok (io_codec ops) s" and q: "load_request ops i s = Inr q" "ing_status q = DuplicatePending"
    and c: "clear_pipeline_artifacts ops ?q = Inr p" and f: "follow [IngestQueued] p = Inr q'"
    and ins: "insert_first_job ops env (cleared (utc env) q') (update_ingest_state (cleared (utc env) q') s) = Inr s'"
  obtain v where "canonical (io_codec ops) v" "p = ?q\<lparr>ing_original_input := v\<rparr>"
    using c by (auto simp: clear_pipeline_artifacts_def result_simps set_input_data_Inr canonical_def)
  moreover obtain r where "r \<in> set (st_ingests s)" "into_ingest ops r = Inr q" using q(1) by (rule load_requestD)
  then have "\<not> ing_force_save q" using loaded_shaped ingest_row_inv [OF ok] q(2) by blast
  ultimately have "ingest_advance (io_codec ops) q (cleared (utc env) q')"
    using f q(2) by (auto simp: follow_one ingest_advance_def)
  moreover have "ingest_written (cleared (utc env) q') s s'"
    by (rule ingest_written_then [OF ingest_written_update inserts_keep_ingests(5) [OF ins]]) simp
  ultimately show "ingest_move (io_codec ops) s (fst (s', cleared (utc env) q', True))"
    using written_move [OF ok q(1)] q(2) by (simp add: ingest_is_terminal_def)
qed simp_all

subsection \<open>Storage outcomes and cleanup\<close>

lemma cleanup_for_media_ingests:
  "enqueue_workspace_cleanup_for_media sops env m at e s = Inr s' \<Longrightarrow> st_ingests s' = st_ingests s"
  by (auto simp: enqueue_workspace_cleanup_for_media_def dest: on_jobs_ingests)

lemma storage_completed_move:
  "ingests_ok (io_codec ops) s \<Longrightarrow> ingest_move (io_codec ops) s (update_ingests (storage_completable m s) (completed_ingest now) s)"
  by (rule update_ingests_move) (auto simp: storage_completable_def intro!: completed_transition)

lemma complete_storage_for_media_move: "ingests_ok (io_codec ops) s \<Longrightarrow> ingest_move (io_codec ops) s (fst (complete_storage_for_media ops env m s))"
  unfolding complete_storage_for_media_def complete_storage_for_media_tx_def Let_def
  by (rule in_transaction_ensures, simp, intro tx_rules)
     (auto intro!: tx_rules dest!: cleanup_for_media_ingests update_media_rows_ingests on_jobs_ingests
       intro: ingest_move_then [OF storage_completed_move])

lemma storage_failed_move:
  "ingests_ok (io_codec ops) s \<Longrightarrow> st \<in> {FailedRetryable, FailedTerminal} \<Longrightarrow>
     ingest_move (io_codec ops) s (update_ingests (storage_failable m) (storage_failure_row now st c msg) s)"
  by (rule update_ingests_move) (auto simp: storage_failable_def intro!: storage_failure_transition)

lemma fail_storage_for_media_move: "ingests_ok (io_codec ops) s \<Longrightarrow> ingest_move (io_codec ops) s (fst (fail_storage_for_media ops env m st c msg s))"
  unfolding fail_storage_for_media_def fail_storage_for_media_tx_def Let_def
  by (rule in_transaction_ensures, simp, intro tx_rules)
     (auto simp: storage_failed_move intro!: tx_rules dest!: cleanup_for_media_ingests update_media_rows_ingests split: if_splits
       intro: ingest_move_then [OF storage_failed_move])

lemma reclaim_workspace_ingests: "reclaim_workspace env m s = Inr s' \<Longrightarrow> st_ingests s' = st_ingests s"
  by (auto simp: reclaim_workspace_def result_simps split: option.splits dest!: update_media_rows_ingests)

lemma begin_workspace_cleanup_move: "ingests_ok (io_codec ops) s \<Longrightarrow> ingest_move (io_codec ops) s (fst (begin_workspace_cleanup ops env a i w s))"
  unfolding begin_workspace_cleanup_def begin_workspace_cleanup_tx_def
  by (rule in_transaction_ensures, simp, intro tx_rules) (auto dest: reclaim_workspace_ingests intro: ingest_move_same)

lemma acknowledge_move: "ingests_ok (io_codec ops) s \<Longrightarrow> ingest_move (io_codec ops) s (fst (acknowledge_ingest_failures ops revision s))"
  by (auto simp: acknowledge_ingest_failures_def intro!: update_ingests_move acknowledged_transition)

subsection \<open>Creation\<close>

lemma requested_channel_Inr:
  assumes "requested_channel q s = Inr q'"
  shows "\<exists>c. q' = q\<lparr>ing_requested_channel_id := c\<rparr>"
proof (cases "ing_requested_action q = SaveAction")
  case True
  then have "q' = q\<lparr>ing_requested_channel_id := ing_requested_channel_id q\<rparr>"
    using assms by (simp add: requested_channel_def)
  then show ?thesis by blast
qed (use assms in \<open>auto simp: requested_channel_def split: list.splits\<close>)

lemma new_row_inv:
  assumes "intent_check (new_ingest_row q k h)" and "ing_status q = IngestQueued"
    and "ing_completed_at q = None" and "ing_error_code q = None" and "canonical codec (ing_original_input q)"
  shows "ingest_inv codec (new_ingest_row q k h)"
  using assms unfolding ingest_inv_def
  by (auto simp: new_ingest_row_def ingest_shape_def ingest_is_terminal_def intro!: exI [of _ IngestQueued])

lemma insert_ingest_move:
  assumes "ingests_ok (io_codec ops) s" and "insert_ingest row s = Inr (s', r)" and "intent_check row \<Longrightarrow> ingest_inv (io_codec ops) row"
  shows "ingest_move (io_codec ops) s s'"
proof (cases "list_ex (\<lambda>x. iw_input_key x = iw_input_key row) (st_ingests s)")
  case False
  then have new: "iw_input_key row \<notin> iw_input_key ` set (st_ingests s)" "iw_id row \<notin> iw_id ` set (st_ingests s)"
      "ingest_inv (io_codec ops) row" and s': "st_ingests s' = st_ingests s @ [row]"
    using assms(2,3) by (auto simp: insert_ingest_def list_ex_iff split: if_splits)
  then have one: "table_step iw_id (ingest_inv (io_codec ops)) (ingest_transition (io_codec ops)) (st_ingests s) (st_ingests s')"
    by (simp add: row_insert)
  with assms(1) new s' show ?thesis
    by (auto simp: ingest_move_def ingests_ok_def intro: ingests.table_step_ok)
qed (use assms in \<open>simp add: insert_ingest_def\<close>)

lemma create_ingest_at_move: "ingests_ok (io_codec ops) s \<Longrightarrow> ingest_move (io_codec ops) s (fst (create_ingest_at ops env sub now s))"
  unfolding create_ingest_at_def create_ingest_tx_def Let_def
proof (rule in_transaction_ensures, simp, intro tx_rbind_prod tx_rules)
  fix q0 q1 q2 q s1 r
  assume ok: "ingests_ok (io_codec ops) s"
    and q: "map_err InputEnvelope (ingest_from_submission (io_codec ops) (utc env) (env_uuid (se_db env)) sub) = Inr q0"
      "follow [IngestQueued] q0 = Inr q1" "submission_workspace ops q1 = Inr q2" "requested_channel q2 s = Inr q"
    and ins: "insert_ingest (new_ingest_row q (submission_key sub) (request_hash ops sub)) s = Inr (s1, r)"
  have "ing_status q = IngestQueued" "ing_completed_at q = None" "ing_error_code q = None"
    "canonical (io_codec ops) (ing_original_input q)"
    using q(1-3) requested_channel_Inr [OF q(4)]
    by (auto simp: ingest_from_submission_def result_simps follow_one submission_workspace_def canonical_def)
  from insert_ingest_move [OF ok ins new_row_inv [OF _ this]]
  have move: "ingest_move (io_codec ops) s s1" .
  { assume "r = None"
    show "tx_ensures (\<lambda>s' _. ingest_move (io_codec ops) s s') (replay_ingest ops (submission_key sub) (request_hash ops sub) x s1)" for x
      by (auto simp: replay_ingest_def move intro!: tx_rules) }
  { fix s' assume "insert_first_job ops env q s1 = Inr s'"
    then show "ingest_move (io_codec ops) s (fst (s', q, True))" using move by (auto dest: inserts_keep_ingests intro: ingest_move_then) }
qed (auto simp: replay_ingest_def intro!: tx_rules)

end
