(* ===== verification/Program_Lifecycle.thy ===== *)
theory Program_Lifecycle
  imports Ingest_Lifecycle
begin

text \<open>
  The inbox and the library run on the same store. The library's operations, settlement and recovery
  move the table \<open>ingests\<close> along the life cycle of an ingest, the inbox's operations move the table
  \<open>media\<close> along the life cycle of a media item; a run that interleaves them keeps both contracts.
\<close>

section \<open>The library on the ingests\<close>

lemma enqueue_caption_ingests: "enqueue_caption_sync_job ops env i g s = Inr s' \<Longrightarrow> st_ingests s' = st_ingests s"
  by (auto simp: enqueue_caption_sync_job_def enqueue_caption_sync_job_with_key_def dest: on_jobs_ingests)

lemma enqueue_reapply_ingests:
  "enqueue_caption_sync_reapply_job ops env x i g t s = Inr s' \<Longrightarrow> st_ingests s' = st_ingests s"
  by (auto simp: enqueue_caption_sync_reapply_job_def enqueue_caption_sync_job_with_key_def dest: on_jobs_ingests)

lemma update_locked_ingests: "update_locked_in_store env i u s = Inr (s', row) \<Longrightarrow> st_ingests s' = st_ingests s"
  by (auto simp: update_locked_in_store_def result_simps)

lemmas ingests_kept =
  enqueue_caption_ingests enqueue_reapply_ingests update_locked_ingests update_media_rows_ingests on_jobs_ingests
  insert_media_ingests merge_into_media_ingests insert_identified_ingests persist_identity_ingests cleanup_for_media_ingests

lemma resolve_media_ingests: "st_ingests (fst (resolve_media ops env i s)) = st_ingests s"
  unfolding resolve_media_def
  by (rule in_transaction_ensures, simp, intro tx_rbind_prod tx_rules)
     (auto split: option.split intro!: tx_rules dest!: insert_media_ingests merge_into_media_ingests)

lemma update_media_ingests: "st_ingests (fst (update_media ops env i u s)) = st_ingests s"
  unfolding update_media_def
  by (rule in_transaction_ensures, simp, intro tx_rbind_prod tx_rules) (auto dest!: ingests_kept split: if_splits)

lemma record_metadata_ingests: "st_ingests (fst (record_media_metadata ops env i md s)) = st_ingests s"
  unfolding record_media_metadata_def
  by (rule in_transaction_ensures, simp, intro tx_rbind_prod tx_rules) (auto dest!: ingests_kept split: if_splits)

lemma record_fingerprint_ingests: "st_ingests (fst (record_video_sequence_fingerprint env i f s)) = st_ingests s"
  unfolding record_video_sequence_fingerprint_def
  by (rule in_transaction_ensures, simp, intro tx_rbind_prod tx_rules) (auto dest!: ingests_kept split: if_splits)

lemma retry_caption_ingests: "st_ingests (fst (retry_caption_sync ops env i s)) = st_ingests s"
  unfolding retry_caption_sync_def
  by (rule in_transaction_ensures, simp, intro tx_rbind_prod tx_rules) (auto dest!: ingests_kept)

lemma begin_caption_ingests: "st_ingests (fst (begin_caption_sync env i g t s)) = st_ingests s"
  unfolding begin_caption_sync_def
  by (rule in_transaction_ensures, simp, intro tx_rbind_prod tx_rules) (auto dest!: ingests_kept)

lemma complete_caption_ingests: "st_ingests (fst (complete_caption_sync ops env i g t ok r err s)) = st_ingests s"
  unfolding complete_caption_sync_def Let_def
  by (rule in_transaction_ensures, simp, intro tx_rbind_prod tx_rules) (auto dest!: ingests_kept intro!: tx_rules)

lemma reserve_ingests: "st_ingests (fst (reserve_storage_upload env rq s)) = st_ingests s"
  unfolding reserve_storage_upload_def
  by (rule in_transaction_ensures, simp, intro tx_rbind_prod tx_rules) (auto dest!: ingests_kept)

lemma renew_ingests: "st_ingests (fst (renew_storage_upload env i t d s)) = st_ingests s"
  unfolding renew_storage_upload_def
  by (rule in_transaction_ensures, simp, intro tx_rbind_prod tx_rules) (auto dest!: ingests_kept)

lemma release_ingests: "st_ingests (fst (release_storage_upload env i t s)) = st_ingests s"
  unfolding release_storage_upload_def
  by (rule in_transaction_ensures, simp, intro tx_rbind_prod tx_rules) (auto dest!: ingests_kept)

subsection \<open>Storage and its ingests\<close>

lemma unknown_ingests_move: "ingests_ok codec s \<Longrightarrow> ingest_move codec s (mark_linked_ingests_storage_unknown env m s)"
  unfolding mark_linked_ingests_storage_unknown_def
  by (rule update_ingests_move) (auto intro!: storage_failed_transition)

lemma reopened_ingests_move: "ingests_ok codec s \<Longrightarrow> ingest_move codec s (reopen_linked_ingests_for_storage env m s)"
  unfolding reopen_linked_ingests_for_storage_def
  by (rule update_ingests_move) (auto intro!: reopened_transition)

lemma completed_ingests_move:
  "ingests_ok codec s \<Longrightarrow> ingest_move codec s (update_ingests (completable_ingest m) (completed_ingest now) s)"
  by (rule update_ingests_move) (auto simp: completable_ingest_def intro!: completed_transition)

lemma ingest_move_from: "ingest_move codec s1 s' \<Longrightarrow> st_ingests s1 = st_ingests s \<Longrightarrow> ingest_move codec s s'"
  by (simp add: ingest_move_def)

lemma ingests_ok_from: "ingests_ok codec s \<Longrightarrow> st_ingests s1 = st_ingests s \<Longrightarrow> ingests_ok codec s1"
  by (simp add: ingests_ok_def)

lemma unknown_followup_ingests: "ingests_ok codec s \<Longrightarrow> ingest_move codec s (unknown_followup ops env m s)"
  unfolding unknown_followup_def
  by (rule ingest_move_then [OF unknown_ingests_move]) (simp_all add: settle_queued_storage_upload_jobs_def)

lemma complete_linked_move:
  "complete_linked_ingests_for_storage ops env m e s = Inr s' \<Longrightarrow> ingests_ok codec s \<Longrightarrow> ingest_move codec s s'"
  unfolding complete_linked_ingests_for_storage_def
  by (rule ingest_move_then [OF completed_ingests_move]) (auto dest: on_jobs_ingests)

lemma finish_storage_ingests:
  assumes "ingests_ok codec s"
  shows "tx_ensures (\<lambda>s' _. ingest_move codec s s') (finish_storage ops env m a row s)"
  unfolding finish_storage_def
proof (intro tx_rbind_prod tx_rules)
  fix vs s1 rows row s2 s3 s4
  assume "update_media_rows (\<lambda>x. mw_id x = m) (with_caption_values (se_db env) vs) LibraryDatabase s = Inr (s1, rows)"
    and "(if fst (snd vs) = lit ''pending'' then enqueue_caption_sync_job ops env m (fst vs) s1 else Inr s1) = Inr s2"
    and linked: "complete_linked_ingests_for_storage ops env m LibraryDatabase s2 = Inr s3"
    and "enqueue_workspace_cleanup_for_media ops env m (env_utc (se_db env)) LibraryDatabase s3 = Inr s4"
  then have s2: "st_ingests s2 = st_ingests s" and s4: "st_ingests s4 = st_ingests s3"
    by (auto dest!: ingests_kept split: if_splits)
  have "ingest_move codec s2 s3" using linked ingests_ok_from [OF assms s2] by (rule complete_linked_move)
  then show "ingest_move codec s (fst (s4, row))"
    using ingest_move_then [OF ingest_move_from [OF _ s2] s4] by simp
qed

lemma complete_upload_ingests: "ingests_ok codec s \<Longrightarrow> ingest_move codec s (fst (complete_storage_upload ops env i t a s))"
  unfolding complete_storage_upload_def
  by (rule in_transaction_ensures, simp, intro tx_rbind_prod tx_rules)
     (auto dest!: update_media_rows_ingests intro: tx_ensures_mono [OF finish_storage_ingests] ingests_ok_from ingest_move_from)

lemma attach_upload_ingests: "ingests_ok codec s \<Longrightarrow> ingest_move codec s (fst (attach_storage_upload ops env i g a s))"
  unfolding attach_storage_upload_def
  by (rule in_transaction_ensures, simp, intro tx_rbind_prod tx_rules)
     (auto dest!: update_media_rows_ingests intro: tx_ensures_mono [OF finish_storage_ingests] ingests_ok_from ingest_move_from)

lemma owned_unknown_ingests: "ingests_ok codec s \<Longrightarrow> ingest_move codec s (fst (mark_owned_upload_unknown ops env i t s))"
  unfolding mark_owned_upload_unknown_def
  by (rule in_transaction_ensures, simp, intro tx_rbind_prod tx_rules)
     (auto dest!: update_media_rows_ingests intro: ingest_move_from [OF unknown_followup_ingests] ingests_ok_from)

lemma mark_unknown_ingests: "ingests_ok codec s \<Longrightarrow> ingest_move codec s (fst (mark_storage_upload_unknown ops env i force s))"
  unfolding mark_storage_upload_unknown_def
  by (rule in_transaction_ensures, simp, intro tx_rbind_prod tx_rules)
     (auto dest!: update_media_rows_ingests intro: ingest_move_from [OF unknown_followup_ingests] ingests_ok_from)

lemma reset_upload_ingests: "ingests_ok codec s \<Longrightarrow> ingest_move codec s (fst (reset_storage_upload ops env i s))"
  unfolding reset_storage_upload_def Let_def
  by (rule in_transaction_ensures, simp, intro tx_rbind_prod tx_rules)
     (auto dest!: on_jobs_ingests update_media_rows_ingests
       intro: ingest_move_then [OF ingest_move_from [OF reopened_ingests_move]] ingests_ok_from)

subsection \<open>Settlement and recovery\<close>

lemma settle_with_ingests:
  assumes "ingests_ok codec s" and "\<And>u k s1. settle_domain u k s = Inr s1 \<Longrightarrow> ingest_move codec s s1"
  shows "ingest_move codec s (fst (in_transaction s (settle_with ops env lease expected st payload_of settle_domain s) decode))"
  unfolding settle_with_def
  by (rule in_transaction_ensures, simp add: assms(1), intro tx_rules)
     (auto intro!: tx_ensuresI dest!: update_locked_ingests intro: ingest_move_then [OF assms(2)])

lemma recover_with_ingests:
  assumes "ingests_ok codec s" and "\<And>j k s1. recover_domain j k s = Inr s1 \<Longrightarrow> ingest_move codec s s1"
  shows "ingest_move codec s (fst (in_transaction s (recover_with ops env jid expected payload_of recover_domain s) decode))"
  unfolding recover_with_def
  by (rule in_transaction_ensures, simp add: assms(1), intro tx_rules)
     (auto simp: assms(1) dest!: update_locked_ingests intro: ingest_move_then [OF assms(2)])

lemma fail_ingest_terminal_moves: "fail_ingest_terminal ops env i s = Inr s' \<Longrightarrow> ingests_ok codec s \<Longrightarrow> ingest_move codec s s'"
  by (rule ingest_move_then [OF update_ingests_move [where P = "\<lambda>r. iw_id r = i \<and> open_ingest r"
          and f = "lease_failed_ingest (se_db env)"]])
     (auto simp: fail_ingest_terminal_def Let_def store_workspace_cleanup_def intro!: lease_failed_transition
       split: option.splits dest!: on_jobs_ingests)

lemma caption_row_ingests: "settle_caption_row env p c err s = Inr s' \<Longrightarrow> st_ingests s' = st_ingests s"
  by (auto simp: settle_caption_row_def result_simps dest: update_media_rows_ingests)

lemma job_unknown_ingests: "mark_storage_unknown_for_job env m msg s = Inr s' \<Longrightarrow> ingests_ok codec s \<Longrightarrow> ingest_move codec s s'"
  by (auto simp: mark_storage_unknown_for_job_def result_simps dest!: update_media_rows_ingests
      intro!: ingest_move_from [OF update_ingests_move] storage_failed_transition elim: ingests_ok_from)

lemma reconcile_storage_ingests: "reconcile_storage_terminal env m msg s = Inr s' \<Longrightarrow> ingests_ok codec s \<Longrightarrow> ingest_move codec s s'"
  by (auto simp: reconcile_storage_terminal_def split: option.splits sum.splits media_storage_state.splits
      intro!: completed_ingests_move update_ingests_move storage_failed_transition dest: job_unknown_ingests)

lemma recover_storage_row_ingests:
  assumes "recover_storage_row env j m row s = Inr s'" and "ingests_ok codec s"
  shows "ingest_move codec s s'"
  using assms
  by (auto simp: recover_storage_row_def Let_def result_simps without_error_def split: if_splits
      dest!: update_locked_ingests dest: job_unknown_ingests
      intro: ingest_move_then [OF completed_ingests_move] ingest_move_then [OF job_unknown_ingests] ingest_move_same)

lemma on_publisher_ingests [simp]: "st_ingests (fst (on_publisher f s)) = st_ingests s"
  by (simp add: on_publisher_def with_publisher_def split: prod.split)

lemma on_queue_ingests [simp]: "st_ingests (fst (on_queue f s)) = st_ingests s"
  by (simp add: on_queue_def split: prod.split)

lemma materialize_settle_ingests: "st_ingests (fst (settle_materialize_job ops env lease c st s)) = st_ingests s"
  by (auto simp: settle_materialize_job_def in_transaction_def result_simps split: sum.split)

lemma materialize_recover_ingests: "st_ingests (fst (recover_materialize_job ops env jid c s)) = st_ingests s"
  by (auto simp: recover_materialize_job_def in_transaction_def result_simps split: sum.split option.splits)

lemma inbox_settle_ingests: "ingests_ok codec s \<Longrightarrow> ingest_move codec s (fst (inbox_settle_job ops env lease c st s))"
  unfolding inbox_settle_job_def
  by (rule settle_with_ingests) (auto split: if_splits dest: fail_ingest_terminal_moves)

lemma inbox_recover_ingests: "ingests_ok codec s \<Longrightarrow> ingest_move codec s (fst (inbox_recover_job ops env jid c s))"
  unfolding inbox_recover_job_def
  by (rule recover_with_ingests) (auto split: if_splits dest: fail_ingest_terminal_moves)

lemma caption_settle_ingests: "ingests_ok codec s \<Longrightarrow> ingest_move codec s (fst (settle_caption_job ops env lease c st s))"
  unfolding settle_caption_job_def by (rule settle_with_ingests) (auto dest: caption_row_ingests intro: ingest_move_same)

lemma caption_recover_ingests: "ingests_ok codec s \<Longrightarrow> ingest_move codec s (fst (recover_caption_job ops env jid c s))"
  unfolding recover_caption_job_def Let_def
  by (rule recover_with_ingests) (auto dest: caption_row_ingests intro: ingest_move_same)

lemma storage_settle_ingests: "ingests_ok codec s \<Longrightarrow> ingest_move codec s (fst (settle_storage_job ops env lease c st s))"
  unfolding settle_storage_job_def
  by (rule settle_with_ingests) (auto split: if_splits dest: reconcile_storage_ingests)

lemma storage_recover_ingests: "ingests_ok codec s \<Longrightarrow> ingest_move codec s (fst (recover_storage_job ops env jid c s))"
  unfolding recover_storage_job_def recover_storage_tx_def
  by (rule in_transaction_ensures, simp, intro tx_rules)
     (auto dest!: update_locked_ingests dest: recover_storage_row_ingests intro: ingest_move_same)

lemmas family_ingests =
  inbox_settle_ingests inbox_recover_ingests caption_settle_ingests caption_recover_ingests storage_settle_ingests
  storage_recover_ingests

lemma settle_family_ingests: "ingests_ok codec s \<Longrightarrow> ingest_move codec s (fst (settle_family ops env command lease st s))"
  by (cases command) (simp_all add: settle_family_def family_ingests ingest_move_same materialize_settle_ingests)

lemma recover_family_ingests: "ingests_ok codec s \<Longrightarrow> ingest_move codec s (fst (recover_family ops env jid command s))"
  by (cases command) (simp_all add: recover_family_def family_ingests ingest_move_same materialize_recover_ingests)

lemma settle_ingests: "ingests_ok codec s \<Longrightarrow> ingest_move codec s (fst (settle ops env command lease st s))"
  using settle_family_ingests [of codec s ops env command lease st]
  by (auto simp: settle_def split: prod.splits sum.splits job_repository_error.splits)

lemma recover_one_ingests: "ingests_ok codec s \<Longrightarrow> ingest_move codec s (fst (recover_one ops env c s))"
  by (simp add: recover_one_def recover_family_ingests ingest_move_same split: sum.split)

lemma recover_candidates_ingests: "ingests_ok codec s \<Longrightarrow> ingest_move codec s (fst (recover_candidates ops cs k s))"
proof (induction cs arbitrary: k s)
  case (Cons x cs)
  obtain c env where x: "x = (c, env)" by (cases x)
  obtain s1 r where one: "recover_one ops env c s = (s1, r)" by (cases "recover_one ops env c s")
  have move: "ingest_move codec s s1" using recover_one_ingests [OF Cons.prems, of ops env c] one by simp
  from Cons.IH [OF ingest_move_ok [OF move]] move show ?case
    by (auto simp: x one split: sum.split intro: ingest_move_trans)
qed simp

lemmas repository_ingests =
  resolve_media_ingests update_media_ingests record_metadata_ingests record_fingerprint_ingests retry_caption_ingests
  begin_caption_ingests complete_caption_ingests reserve_ingests renew_ingests release_ingests

lemma repository_op_ingests: "repository_op ops s s' \<Longrightarrow> ingests_ok codec s \<Longrightarrow> ingest_move codec s s'"
  by (induction rule: repository_op.induct)
     (auto simp: repository_ingests recover_stale_def intro!: ingest_move_same recover_candidates_ingests settle_ingests
       complete_upload_ingests attach_upload_ingests owned_unknown_ingests mark_unknown_ingests reset_upload_ingests
       dest: persist_identity_ingests)

section \<open>The inbox on the media\<close>

lemma update_ingest_state_media [simp]: "st_media (update_ingest_state q s) = st_media s"
  by (simp add: update_ingest_state_def)

lemma inserts_keep_media:
  "insert_ingest_job ops env j k s = Inr s' \<Longrightarrow> st_media s' = st_media s"
  "ingest_cleanup ops env q at s = Inr s' \<Longrightarrow> st_media s' = st_media s"
  "insert_materialization_job sops env i e s = Inr s' \<Longrightarrow> st_media s' = st_media s"
  "insert_storage_job ops env m s = Inr s' \<Longrightarrow> st_media s' = st_media s"
  "insert_first_job ops env q s = Inr s' \<Longrightarrow> st_media s' = st_media s"
  "insert_download_job ops env q ins s = Inr s' \<Longrightarrow> st_media s' = st_media s"
  "insert_probe_job ops env q s = Inr s' \<Longrightarrow> st_media s' = st_media s"
  "insert_normalize_job ops env q s = Inr s' \<Longrightarrow> st_media s' = st_media s"
  "insert_finalize_job ops env q s = Inr s' \<Longrightarrow> st_media s' = st_media s"
  "insert_fingerprint_job ops env q s = Inr s' \<Longrightarrow> st_media s' = st_media s"
  "succeed_current_job_attempt env a s = Inr s' \<Longrightarrow> st_media s' = st_media s"
  by (auto simp: insert_ingests insert_storage_job_def succeed_current_job_attempt_def dest: on_jobs_media
      split: option.splits ingest_kind.splits if_splits)

lemma cleanup_for_media_media:
  "enqueue_workspace_cleanup_for_media sops env m at e s = Inr s' \<Longrightarrow> st_media s' = st_media s"
  by (auto simp: enqueue_workspace_cleanup_for_media_def dest: on_jobs_media)

lemmas media_kept = inserts_keep_media cleanup_for_media_media on_jobs_media

lemma begin_stage_media: "st_media (fst (in_transaction s (begin_stage ops env i a skip route s) Inr)) = st_media s"
  unfolding begin_stage_def Let_def by (rule in_transaction_ensures, simp, intro tx_rules) simp_all

lemma complete_stage_media:
  assumes "media_ok s" and "\<And>q s' q'. body q s = Inr (s', q') \<Longrightarrow> media_move s s'"
  shows "media_move s (fst (in_transaction s (complete_stage ops env i a expected skip body s) Inr))"
  unfolding complete_stage_def
  by (rule in_transaction_ensures, simp add: assms(1), intro tx_rbind_prod tx_rules)
     (auto simp: assms(1) dest!: inserts_keep_media intro: media_move_then [OF assms(2)])

lemma advance_after_media_media:
  assumes "advance_after_media_processing ops env q m s = Inr (s', q')"
  shows "st_media s' = st_media s"
proof (rule tx_ensuresD [OF _ assms, of "\<lambda>s' _. st_media s' = st_media s"])
  show "tx_ensures (\<lambda>s' _. st_media s' = st_media s) (advance_after_media_processing ops env q m s)"
    unfolding advance_after_media_processing_def Let_def
    by (intro tx_rbind_prod tx_rules)
       (auto simp: result_simps split: if_splits media_storage_state.split_asm dest!: inserts_keep_media)
qed

lemma stage_bodies_media:
  "inspected ops env ins q s = Inr (s', q') \<Longrightarrow> st_media s' = st_media s"
  "downloaded ops env dl q s = Inr (s', q') \<Longrightarrow> st_media s' = st_media s"
  "normalized ops env n q s = Inr (s', q') \<Longrightarrow> st_media s' = st_media s"
  "finalized ops env fin q s = Inr (s', q') \<Longrightarrow> st_media s' = st_media s"
  by (auto simp: inspected_def downloaded_def normalized_def finalized_def Let_def result_simps split: if_splits
      dest!: inserts_keep_media advance_after_media_media)

lemma probed_media: "probed ops env p q s = Inr (s', q') \<Longrightarrow> st_media s' = st_media s"
  by (auto simp: probed_def Let_def result_simps case_prod_unfold split: if_splits dest!: inserts_keep_media)

lemma identified_move:
  assumes "identified ops env mi f d q s = Inr (s', q')" and "media_ok s"
  shows "media_move s s'"
proof (rule tx_ensuresD [OF _ assms(1), of "\<lambda>s' _. media_move s s'"])
  show "tx_ensures (\<lambda>s' _. media_move s s') (identified ops env mi f d q s)"
    unfolding identified_def Let_def
  proof (intro tx_rbind_prod tx_rules)
    fix s1 oc s2 p
    assume one: "map_err InboxLibrary (persist_video_identity (io_store ops) env mi f d (ing_force_save q) s) = Inr (s1, oc)"
      and two: "(case oc of
              DuplicatePendingOutcome evidence \<Rightarrow>
                if length (vde_matches evidence) > MAX_VIDEO_DUPLICATE_MATCHES
                then Inl (DuplicateEvidenceTooManyMatches MAX_VIDEO_DUPLICATE_MATCHES)
                else if so_json_length (io_store ops) (so_evidence_json (io_store ops) evidence) > MAX_VIDEO_DUPLICATE_EVIDENCE_BYTES
                then Inl (DuplicateEvidenceTooLarge MAX_VIDEO_DUPLICATE_EVIDENCE_BYTES)
                else rbind (follow [DuplicatePending] q) (\<lambda>request.
                    map_ok (\<lambda>s. (s, cleared (utc env)
                        (request\<lparr>ing_media_id := None,
                           ing_duplicate_evidence := Some (so_evidence_json (io_store ops) evidence)\<rparr>)))
                      (ingest_cleanup ops env request (utc env + WORKSPACE_CLEANUP_RETENTION) s1))
            | ExactDuplicate media_id \<Rightarrow>
                advance_after_media_processing ops env (q\<lparr>ing_duplicate_evidence := None\<rparr>) media_id s1
            | NewMedia media_id \<Rightarrow>
                advance_after_media_processing ops env (q\<lparr>ing_duplicate_evidence := None\<rparr>) media_id s1) = Inr (s2, p)"
    have "st_media s2 = st_media s1"
      using two by (cases oc) (auto simp: result_simps split: if_splits dest!: inserts_keep_media(2) advance_after_media_media)
    moreover have "media_move s s1"
      using tx_ensuresD [OF persist_video_identity_move [OF assms(2)]] one by (auto simp: result_simps)
    ultimately show "media_move s (update_ingest_state (p\<lparr>ing_updated_at := utc env\<rparr>) s2)"
      by (simp add: media_move_then)
  qed
qed

lemma fail_ingest_step_media: "st_media (fst (fail_ingest_step ops env i st c m g s)) = st_media s"
  unfolding fail_ingest_step_def fail_ingest_step_tx_def Let_def
  by (rule in_transaction_ensures, simp, intro tx_rules) (auto split: if_splits dest: inserts_keep_media)

lemma insert_ingest_media: "insert_ingest row s = Inr (s', r) \<Longrightarrow> st_media s' = st_media s"
  by (auto simp: insert_ingest_def split: if_splits)

lemma create_ingest_at_media: "st_media (fst (create_ingest_at ops env sub now s)) = st_media s"
  unfolding create_ingest_at_def create_ingest_tx_def Let_def
  by (rule in_transaction_ensures, simp, intro tx_rbind_prod tx_rules)
     (auto simp: replay_ingest_def intro!: tx_rules dest!: insert_ingest_media inserts_keep_media)

lemma force_save_media: "st_media (fst (force_save ops env i s)) = st_media s"
  unfolding force_save_def force_save_tx_def Let_def
  by (rule in_transaction_ensures, simp, intro tx_rules) (auto dest: inserts_keep_media)

lemma acknowledge_media: "st_media (fst (acknowledge_ingest_failures ops revision s)) = st_media s"
  by (simp add: acknowledge_ingest_failures_def)

subsection \<open>Operations that write media rows\<close>

lemma accepted_duplicate_transition:
  "media_inv m \<Longrightarrow> media_check (accepted_duplicate env q m) \<Longrightarrow> media_transition m (accepted_duplicate env q m)"
  by (auto simp: media_transition_def media_inv_def accepted_duplicate_def)

lemma finish_acceptance_media: "finish_acceptance ops env st p s = Inr (s', r) \<Longrightarrow> st_media s' = st_media s"
  by (auto simp: finish_acceptance_def Let_def result_simps split: if_splits dest!: inserts_keep_media)

lemma accept_duplicate_media: "media_ok s \<Longrightarrow> media_move s (fst (accept_duplicate ops env i m s))"
  unfolding accept_duplicate_def accept_duplicate_tx_def
  by (rule in_transaction_ensures, simp, intro tx_rbind_prod tx_rules)
     (auto simp: replay_acceptance_def Let_def accepted_duplicate_def intro!: tx_rules tx_ensuresI accepted_duplicate_transition
       dest!: finish_acceptance_media elim!: media_move_then [OF update_media_rows_move])

lemma complete_storage_media: "media_ok s \<Longrightarrow> media_move s (fst (complete_storage_for_media ops env m s))"
  unfolding complete_storage_for_media_def complete_storage_for_media_tx_def Let_def
proof (rule in_transaction_ensures, simp, intro tx_rbind_prod tx_rules)
  fix s1 s2 rows s3
  let ?P = "\<lambda>x. mw_id x = m \<and> mw_storage_state x = lit ''ready''"
  assume ok: "media_ok s" and "on_jobs (insert_jobs_once (io_store ops) env (materialization_jobs (io_store ops)
        (returning (storage_completable m s) (completed_ingest (utc env)) (st_ingests s)))) InboxDatabase
      (update_ingests (storage_completable m s) (completed_ingest (utc env)) s) = Inr s1"
    and up: "update_media_rows ?P (\<lambda>x. x\<lparr>mw_local_work_path := None\<rparr>) InboxDatabase s1 = Inr (s2, rows)"
    and "enqueue_workspace_cleanup_for_media (io_store ops) env m (utc env) InboxDatabase s2 = Inr s3"
  then have s1: "st_media s1 = st_media s" and s3: "st_media s3 = st_media s2" by (auto dest!: media_kept)
  have "media_ok s1" using ok s1 by (simp add: media_ok_def)
  then have "media_move s1 s2"
    by (rule update_media_rows_move [OF up]) (auto simp: media_transition_def media_inv_def)
  then show "media_move s (fst (s3, length (returning (storage_completable m s) (completed_ingest (utc env)) (st_ingests s))))"
    using s1 s3 by (simp add: media_move_def media_ok_def)
qed

lemma missing_media_key [simp]:
  "mw_id (missing_media now m) = mw_id m" "mw_canonical_sha256 (missing_media now m) = mw_canonical_sha256 m"
  by (simp_all add: missing_media_def)

lemma missing_media_transition: "media_check (missing_media now m) \<Longrightarrow> mw_storage_state m = lit ''pending_storage'' \<Longrightarrow>
    media_transition m (missing_media now m)"
  by (auto simp: media_transition_def media_inv_def missing_media_def)

lemma fail_storage_media: "media_ok s \<Longrightarrow> media_move s (fst (fail_storage_for_media ops env m st c msg s))"
  unfolding fail_storage_for_media_def fail_storage_for_media_tx_def Let_def
proof (rule in_transaction_ensures, simp, intro tx_rbind_prod tx_rules)
  fix s1 rows s2
  let ?P = "\<lambda>x. mw_id x = m \<and> mw_storage_state x = lit ''pending_storage''"
  let ?s = "update_ingests (storage_failable m) (storage_failure_row (utc env) st c msg) s"
  assume ok: "media_ok s"
    and up: "update_media_rows ?P (missing_media (utc env)) InboxDatabase ?s = Inr (s1, rows)"
    and "(if rows \<noteq> [] then enqueue_workspace_cleanup_for_media (io_store ops) env m
            (utc env + WORKSPACE_CLEANUP_RETENTION) InboxDatabase s1 else Inr s1) = Inr s2"
  then have s2: "st_media s2 = st_media s1" by (auto split: if_splits dest: media_kept)
  have "media_ok ?s" using ok by (simp add: media_ok_def)
  then have "media_move ?s s1"
    by (rule update_media_rows_move [OF up]) (auto intro: missing_media_transition)
  then show "media_move s (fst (s2, length (filter (storage_failable m) (st_ingests s))))"
    using s2 by (simp add: media_move_def media_ok_def)
qed (simp add: media_move_same)

lemma reclaim_workspace_move:
  assumes "reclaim_workspace env m s = Inr s'" and "media_ok s"
  shows "media_move s s'"
  using assms
  by (auto simp: reclaim_workspace_def result_simps split: option.splits elim!: update_media_rows_move)
     (auto simp: media_transition_def media_inv_def)

lemma begin_cleanup_media: "media_ok s \<Longrightarrow> media_move s (fst (begin_workspace_cleanup ops env a i w s))"
  unfolding begin_workspace_cleanup_def begin_workspace_cleanup_tx_def
  by (rule in_transaction_ensures, simp, intro tx_rules) (auto intro: reclaim_workspace_move)

section \<open>Runs of the program\<close>

inductive inbox_op :: "('v, 'tz) inbox_ops \<Rightarrow> 'v store \<Rightarrow> 'v store \<Rightarrow> bool" for ops where
  op_create: "inbox_op ops s (fst (create_ingest_at ops env sub now s))"
| op_begin_inspection: "inbox_op ops s (fst (begin_source_inspection ops env i a s))"
| op_complete_inspection: "inbox_op ops s (fst (complete_source_inspection ops env i a inspection s))"
| op_begin_download: "inbox_op ops s (fst (begin_source_download ops env i a s))"
| op_complete_download: "inbox_op ops s (fst (complete_source_download ops env i a download s))"
| op_begin_probe: "inbox_op ops s (fst (begin_asset_probe ops env i a s))"
| op_complete_probe: "inbox_op ops s (fst (complete_asset_probe ops env i a result s))"
| op_begin_normalization: "inbox_op ops s (fst (begin_asset_normalization ops env i a s))"
| op_complete_normalization: "inbox_op ops s (fst (complete_asset_normalization ops env i a normalization s))"
| op_begin_fingerprinting: "inbox_op ops s (fst (begin_ingest_fingerprinting ops env i a s))"
| op_complete_identity: "inbox_op ops s (fst (complete_video_identity ops env i a item fingerprint decision s))"
| op_begin_finalization: "inbox_op ops s (fst (begin_ingest_finalization ops env i a s))"
| op_complete_finalization: "inbox_op ops s (fst (complete_ingest_finalization ops env i a finalization s))"
| op_fail_step: "inbox_op ops s (fst (fail_ingest_step ops env i st code message guard s))"
| op_accept: "inbox_op ops s (fst (accept_duplicate ops env i m s))"
| op_force: "inbox_op ops s (fst (force_save ops env i s))"
| op_storage_completed: "inbox_op ops s (fst (complete_storage_for_media ops env m s))"
| op_storage_failed: "inbox_op ops s (fst (fail_storage_for_media ops env m st code message s))"
| op_cleanup: "inbox_op ops s (fst (begin_workspace_cleanup ops env a i w s))"
| op_acknowledge: "inbox_op ops s (fst (acknowledge_ingest_failures ops revision s))"

lemmas inbox_ingest_moves =
  create_ingest_at_move begin_source_inspection_move complete_source_inspection_move begin_source_download_move
  complete_source_download_move begin_asset_probe_move complete_asset_probe_move begin_asset_normalization_move
  complete_asset_normalization_move begin_ingest_fingerprinting_move complete_video_identity_move
  begin_ingest_finalization_move complete_ingest_finalization_move fail_ingest_step_move accept_duplicate_move
  force_save_move complete_storage_for_media_move fail_storage_for_media_move begin_workspace_cleanup_move acknowledge_move

lemma inbox_op_ingests: "inbox_op ops s s' \<Longrightarrow> ingests_ok (io_codec ops) s \<Longrightarrow> ingest_move (io_codec ops) s s'"
  by (induction rule: inbox_op.induct) (simp_all add: inbox_ingest_moves)

lemmas stage_defs =
  begin_source_inspection_def complete_source_inspection_def begin_source_download_def complete_source_download_def
  begin_asset_probe_def complete_asset_probe_def begin_asset_normalization_def complete_asset_normalization_def
  begin_ingest_fingerprinting_def complete_video_identity_def begin_ingest_finalization_def complete_ingest_finalization_def

lemmas stage_completions_media =
  complete_stage_media [OF _ media_move_same [OF _ stage_bodies_media(1)]]
  complete_stage_media [OF _ media_move_same [OF _ stage_bodies_media(2)]]
  complete_stage_media [OF _ media_move_same [OF _ stage_bodies_media(3)]]
  complete_stage_media [OF _ media_move_same [OF _ stage_bodies_media(4)]]
  complete_stage_media [OF _ media_move_same [OF _ probed_media]]
  complete_stage_media [OF _ identified_move]

lemma inbox_op_media: "inbox_op ops s s' \<Longrightarrow> media_ok s \<Longrightarrow> media_move s s'"
  by (induction rule: inbox_op.induct)
     (simp_all add: stage_defs stage_completions_media media_move_same begin_stage_media fail_ingest_step_media
       create_ingest_at_media force_save_media acknowledge_media accept_duplicate_media complete_storage_media
       fail_storage_media begin_cleanup_media del: not_None_eq)

text \<open>
  Every transaction of the program: those of the inbox, those of the library with the settlement and the recovery of
  the queue, and all others. The others (the publisher, the administration of the channels, the queue and its
  retention) write neither media nor ingests; what they do to jobs, posts and channels is left open.
\<close>

inductive program_op :: "('v, 'tz) inbox_ops \<Rightarrow> 'v store \<Rightarrow> 'v store \<Rightarrow> bool" for ops where
  op_inbox: "inbox_op ops s s' \<Longrightarrow> program_op ops s s'"
| op_library: "repository_op (io_store ops) s s' \<Longrightarrow> program_op ops s s'"
| op_other: "st_media s' = st_media s \<Longrightarrow> st_ingests s' = st_ingests s \<Longrightarrow> program_op ops s s'"

lemma program_op_moves:
  "program_op ops s s' \<Longrightarrow> media_ok s \<Longrightarrow> ingests_ok (io_codec ops) s \<Longrightarrow> media_move s s' \<and> ingest_move (io_codec ops) s s'"
  by (induction rule: program_op.induct)
     (auto intro: inbox_op_media inbox_op_ingests repository_op_move repository_op_ingests media_move_same ingest_move_same)

lemma program_run_moves:
  "(program_op ops)\<^sup>*\<^sup>* s s' \<Longrightarrow> media_ok s \<Longrightarrow> ingests_ok (io_codec ops) s \<Longrightarrow> media_move s s' \<and> ingest_move (io_codec ops) s s'"
proof (induction rule: rtranclp_induct)
  case (step y z)
  then have y: "media_move s y" "ingest_move (io_codec ops) s y" by simp_all
  with program_op_moves [OF step.hyps(2)] show ?case
    by (meson media_move_ok media_move_trans ingest_move_ok ingest_move_trans)
qed simp

subsection \<open>The history of an ingest\<close>

lemma same_request_trans: "same_request a b \<Longrightarrow> same_request b c \<Longrightarrow> same_request a c"
  unfolding same_request_def by (cases a, cases b, cases c) simp

lemma final_ingest_acknowledged [simp]: "final_ingest (r\<lparr>iw_acknowledged_failure_at := at\<rparr>) = final_ingest r"
  by (simp add: final_ingest_def storage_code_def)

text \<open>What no number of transitions changes.\<close>

definition ingest_keeps :: "ingest_row \<Rightarrow> ingest_row \<Rightarrow> bool" where
  "ingest_keeps r r' \<longleftrightarrow>
     same_request r r' \<and>
     (iw_force_save r \<longrightarrow> iw_force_save r' \<and> iw_workspace_id r' = iw_workspace_id r) \<and>
     (final_ingest r \<longrightarrow> r' = r\<lparr>iw_acknowledged_failure_at := iw_acknowledged_failure_at r'\<rparr>)"

lemma ingest_keeps_step:
  assumes "ingest_keeps a b" and t: "ingest_transition codec b c"
  shows "ingest_keeps a c"
proof -
  have "final_ingest a \<longrightarrow> c = a\<lparr>iw_acknowledged_failure_at := iw_acknowledged_failure_at c\<rparr>"
  proof
    assume f: "final_ingest a"
    then have b: "b = a\<lparr>iw_acknowledged_failure_at := iw_acknowledged_failure_at b\<rparr>"
      using assms(1) by (simp add: ingest_keeps_def)
    then have "final_ingest b" using f final_ingest_acknowledged by metis
    then have "c = b\<lparr>iw_acknowledged_failure_at := iw_acknowledged_failure_at c\<rparr>"
      using t by (simp add: ingest_transition_def)
    then show "c = a\<lparr>iw_acknowledged_failure_at := iw_acknowledged_failure_at c\<rparr>"
      using b ingest_row.update_convs by (cases a, cases b, cases c) simp
  qed
  then show ?thesis
    using assms by (auto simp: ingest_keeps_def ingest_transition_def intro: same_request_trans)
qed

lemma ingest_history:
  assumes "(ingest_transition codec)\<^sup>*\<^sup>* r r'"
  shows "ingest_keeps r r'"
  using assms
proof (induction rule: rtranclp_induct)
  case base
  show ?case by (simp add: ingest_keeps_def)
next
  case (step b c)
  then show ?case by (blast intro: ingest_keeps_step)
qed

lemma ingest_successor:
  assumes "ingest_move codec s s'" and "r \<in> set (st_ingests s)"
  obtains r' where "r' \<in> set (st_ingests s')" "iw_id r' = iw_id r" "(ingest_transition codec)\<^sup>*\<^sup>* r r'" "ingest_keeps r r'"
  using ingests.row_history [of codec "st_ingests s" "st_ingests s'" r] assms ingest_history that
  by (auto simp: ingest_move_def)

text \<open>(C3) The inbox and the library refine the life cycle of an ingest. In every run of their
  operations, of settlement and of recovery, both tables stay consistent: an ingest keeps its
  request, its id and its key; its state moves along the state machine or by a reconciliation of
  the storage of its media item; a completed ingest has a media item and no error, a failed one a
  code and a completion time, one that waits for a decision its evidence and no forced save; the
  stored envelope is canonical. A forced ingest stays forced in its own workspace, and an ingest
  that was cancelled, or failed for another reason than storage, is never written again except
  for the acknowledgement of its failure.\<close>

theorem ingests_refine_lifecycle:
  assumes "(program_op ops)\<^sup>*\<^sup>* s s'" and "media_ok s" and "ingests_ok (io_codec ops) s"
  shows "media_ok s' \<and> ingests_ok (io_codec ops) s' \<and>
    list_all (\<lambda>r. list_ex (\<lambda>r'. iw_id r' = iw_id r \<and> (ingest_transition (io_codec ops))\<^sup>*\<^sup>* r r' \<and> ingest_keeps r r')
      (st_ingests s')) (st_ingests s)"
proof -
  from program_run_moves [OF assms] have m: "media_ok s'" "ingests_ok (io_codec ops) s'" "ingest_move (io_codec ops) s s'"
    by (auto dest: media_move_ok ingest_move_ok)
  moreover have "list_ex (\<lambda>r'. iw_id r' = iw_id r \<and> (ingest_transition (io_codec ops))\<^sup>*\<^sup>* r r' \<and> ingest_keeps r r') (st_ingests s')"
    if "r \<in> set (st_ingests s)" for r
    by (rule ingest_successor [OF m(3) that]) (auto simp: list_ex_iff)
  ultimately show ?thesis by (simp add: list_all_iff)
qed


section \<open>Loading\<close>

lemma canonical_decodes:
  assumes "ingest_codec_laws codec" and "canonical codec v"
  obtains d where "data_decode codec v = Inr d" "data_encode codec d = Inr v"
  using assms decode_encode by (auto simp: canonical_def)

lemma intent_action:
  assumes "intent_check r"
  obtains a where "iw_requested_action r = requested_action_as_str a"
  using assms that [of SaveAction] that [of QueueAction] that [of PostNowAction] by (auto simp: intent_check_def)

lemma into_ingest_total:
  assumes laws: "ingest_codec_laws (io_codec ops)" and inv: "ingest_inv (io_codec ops) r"
  obtains q where "into_ingest ops r = Inr q" "ing_original_input q = iw_input_json r"
proof -
  have "canonical (io_codec ops) (iw_input_json r)" using inv by (simp add: ingest_inv_def)
  with laws obtain d where d: "data_decode (io_codec ops) (iw_input_json r) = Inr d"
    "data_encode (io_codec ops) d = Inr (iw_input_json r)" by (rule canonical_decodes)
  obtain k v st u where r: "iw_input_kind r = ingest_kind_as_str k" "iw_submitted_via r = submitted_via_as_str v"
    "iw_state r = ingest_status_as_str st" "iw_source_url r = Some u"
    using inv by (auto simp: ingest_inv_def)
  have "intent_check r" using inv by (simp add: ingest_inv_def)
  then obtain a where a: "iw_requested_action r = requested_action_as_str a" by (rule intent_action)
  show ?thesis
    by (rule that, simp add: into_ingest_def d r a ingest_kind_enum.try_from_as_str submitted_via_enum.try_from_as_str
        ingest_status_enum.try_from_as_str requested_action_enum.try_from_as_str del: ingest_kind_as_str.simps
        submitted_via_as_str.simps ingest_status_as_str.simps requested_action_as_str.simps)
       simp
qed

lemma select_ingest_key:
  assumes "ingests_ok codec s" and "r \<in> set (st_ingests s)"
  shows "select_ingest (iw_id r) s = Some r"
  unfolding select_ingest_def
  by (rule select_one_key [of iw_id "ingest_inv codec"]) (use assms in \<open>simp_all add: ingests_ok_def\<close>)

lemma load_request_total:
  assumes "ingest_codec_laws (io_codec ops)" and "ingests_ok (io_codec ops) s" and "r \<in> set (st_ingests s)"
  obtains q where "load_request ops (iw_id r) s = Inr q" "into_ingest ops r = Inr q" "ing_original_input q = iw_input_json r"
proof -
  obtain q where "into_ingest ops r = Inr q" "ing_original_input q = iw_input_json r"
    using into_ingest_total [OF assms(1) ingest_row_inv [OF assms(2,3)]] .
  then show ?thesis using that select_ingest_key [OF assms(2,3)] by (simp add: load_request_def)
qed

text \<open>(C31) Stored ingests are well-typed: in every store a run reaches, every row of the table decodes
  into an ingest of the domain, no column is refused and the envelope is returned exactly as it is
  stored; the status the ingest has agrees with its completion time, error, media item and
  evidence.\<close>

theorem stored_ingests_load:
  assumes laws: "ingest_codec_laws (io_codec ops)" and run: "(program_op ops)\<^sup>*\<^sup>* s s'" "media_ok s" "ingests_ok (io_codec ops) s"
    and r: "r \<in> set (st_ingests s')"
  shows "\<exists>q. find_ingest ops (iw_id r) s' = Inr (Some q) \<and> ing_id q = iw_id r \<and> ing_original_input q = iw_input_json r \<and>
    ingest_status_as_str (ing_status q) = iw_state r \<and>
    ingest_shape (ing_status q) (ing_completed_at q) (ing_error_code q) (ing_media_id q) (ing_duplicate_evidence q)"
proof -
  have ok: "ingests_ok (io_codec ops) s'" using program_run_moves [OF run] by (auto dest: ingest_move_ok)
  obtain q where q: "load_request ops (iw_id r) s' = Inr q" "into_ingest ops r = Inr q" "ing_original_input q = iw_input_json r"
    using load_request_total [OF laws ok r] .
  then show ?thesis
    using into_ingest_fields [OF q(2)] loaded_shaped [OF q(2) ingest_row_inv [OF ok r]] by (simp add: find_ingest_def)
qed

section \<open>Witnesses\<close>

definition witness_data :: ingest_data where
  "witness_data = ingest_data_new
     \<lparr>sd_url = Some (lit ''u''), sd_page_url = None, sd_page_title = None, sd_selected_text = None,
      sd_description = None, sd_tags = [], sd_requested_action = None, sd_requested_publish_at = None,
      sd_requested_post_caption = None, sd_source_type = None, sd_telegram_update_id = None,
      sd_telegram_chat_id = None, sd_telegram_message_id = None, sd_telegram_user_id = None,
      sd_telegram_file_id = None, sd_telegram_file_unique_id = None, sd_telegram_workspace_id = None,
      sd_file_size = None, sd_mime_type = None, sd_file_name = None, sd_media_kind = None, sd_extensions = []\<rparr>"

definition witness_json :: json where
  "witness_json = JObj [(lit ''version'', JInt 1), (lit ''data'', enc_data witness_data)]"

lemma witness_data_valid: "validate_ref witness_data = Inr ()"
  by (simp add: witness_data_def ingest_data_new_def validate_ref_def validate_extensions_def)

lemmas witness_data_defs =
  witness_data_def ingest_data_new_def INGEST_DATA_VERSION_def enc_data_def enc_source_def enc_opt_def enc_word_def

lemma witness_encode: "data_encode plain_ingest_codec witness_data = Inr witness_json"
  by (simp add: data_encode_def witness_data_valid plain_ingest_codec_def witness_json_def MAX_INGEST_DATA_BYTES_def)
     (simp add: witness_data_defs)

lemma witness_decode: "data_decode plain_ingest_codec witness_json = Inr witness_data"
  using plain_ingest_codec_laws witness_encode by (rule decode_encode)

definition plain_inbox_ops :: "(plain_value, unit) inbox_ops" where
  "plain_inbox_ops =
     \<lparr>io_store = plain_store_ops, io_codec = plain_ingest_codec, io_submission_bytes = (\<lambda>sub. map of_nat (sub_normalized_url sub)),
      io_evidence_from_value = (\<lambda>_. Some \<lparr>vde_algorithm_version = [], vde_matches = [\<lparr>vdm_media_id = 4,
        vdm_fingerprint_version = [], vdm_classification = StrongDuplicateEvidence, vdm_aligned_offset_ms = 0,
        vdm_informative_matched_samples = 0, vdm_incoming_coverage_bps = 0, vdm_candidate_coverage_bps = 0,
        vdm_median_distance_bps = 0, vdm_high_percentile_distance_bps = 0, vdm_longest_temporally_consistent_run = 0,
        vdm_unmatched_incoming_prefix = 0, vdm_unmatched_incoming_suffix = 0, vdm_unmatched_candidate_prefix = 0,
        vdm_unmatched_candidate_suffix = 0, vdm_gap_count = 0, vdm_score_bps = 0,
        vdm_shared_token_count = 0, vdm_token_overlap_bps = 0\<rparr>]\<rparr>),
      io_debug_str = (\<lambda>t. t), io_debug_error = (\<lambda>_. []), io_md5 = (\<lambda>t. t), io_epoch_text = int_text\<rparr>"

lemma plain_inbox_simps [simp]:
  "io_codec plain_inbox_ops = plain_ingest_codec" "io_store plain_inbox_ops = plain_store_ops"
  by (simp_all add: plain_inbox_ops_def)

definition inbox_row :: "string \<Rightarrow> ingest_row" where
  "inbox_row st =
     \<lparr>iw_id = 1, iw_input_kind = lit ''url'', iw_state = lit st, iw_submitted_via = lit ''api'',
      iw_input_json = witness_json, iw_source_url = Some (lit ''u''), iw_page_url = None, iw_page_title = None,
      iw_supplied_caption = None, iw_supplied_description = None, iw_supplied_tags = [],
      iw_requested_action = lit ''save'', iw_requested_publish_at = None, iw_requested_post_caption = None,
      iw_requested_channel_id = None, iw_input_key = lit ''k'', iw_request_hash = [], iw_workspace_id = 2,
      iw_media_id = None, iw_force_save = False,
      iw_duplicate_evidence = (if st = ''duplicate_pending'' then Some JNull else None),
      iw_error_code = None, iw_error_message = None, iw_acknowledged_failure_at = None, iw_created_at = 0,
      iw_updated_at = 0, iw_completed_at = None\<rparr>"

definition inbox_store :: "plain_value job_table \<Rightarrow> ingest_row list \<Rightarrow> media_row \<Rightarrow> plain_value store" where
  "inbox_store jobs rows m = \<lparr>st_jobs = jobs, st_ingests = rows, st_media = [m], st_posts = [], st_channels = []\<rparr>"

lemma inbox_store_media: "media_inv m \<Longrightarrow> media_ok (inbox_store jobs rows m)"
  by (simp add: media_ok_def inbox_store_def table_ok_def sha_unique_def)

lemma inbox_row_inv:
  assumes "lit st = ingest_status_as_str x" and "x \<in> {IngestQueued, DuplicatePending}"
  shows "ingest_inv plain_ingest_codec (inbox_row st)"
proof -
  have "canonical plain_ingest_codec witness_json" using witness_encode by (auto simp: canonical_def)
  moreover have "\<exists>k. lit ''url'' = ingest_kind_as_str k" "\<exists>v. lit ''api'' = submitted_via_as_str v"
    by (intro exI [of _ UrlIngest], simp) (intro exI [of _ Api], simp)
  moreover have "st = ''duplicate_pending''" if "x = DuplicatePending" using assms(1) that by simp
  ultimately show ?thesis
    using assms by (auto simp: ingest_inv_def inbox_row_def intent_check_def intro!: exI [of _ x])
qed

lemma inbox_store_ok:
  "ingest_inv plain_ingest_codec r \<Longrightarrow> ingests_ok plain_ingest_codec (inbox_store jobs [r] m)"
  by (simp add: ingests_ok_def table_ok_def inbox_store_def)

abbreviation pending_store :: "plain_value store" where
  "pending_store \<equiv> inbox_store [] [inbox_row ''duplicate_pending''] witness_media"

lemma pending_store_ok: "media_ok pending_store" "ingests_ok (io_codec plain_inbox_ops) pending_store"
  by (simp_all add: inbox_store_media witness_media_inv inbox_store_ok inbox_row_inv [of _ DuplicatePending])

theorem ingests_refine_lifecycle_witness:
  "ingests_ok plain_ingest_codec (fst (force_save plain_inbox_ops (senv 6 21) 1 pending_store))"
  using ingests_refine_lifecycle [OF r_into_rtranclp [of "program_op plain_inbox_ops", OF op_inbox, OF op_force] pending_store_ok]
  by simp


theorem stored_ingests_load_witness:
  "\<exists>q. find_ingest plain_inbox_ops 1 pending_store = Inr (Some q) \<and> ing_original_input q = witness_json"
proof -
  have "inbox_row ''duplicate_pending'' \<in> set (st_ingests pending_store)" by (simp add: inbox_store_def)
  moreover have "iw_id (inbox_row ''duplicate_pending'') = 1" "iw_input_json (inbox_row ''duplicate_pending'') = witness_json"
    by (simp_all add: inbox_row_def)
  ultimately show ?thesis
    using stored_ingests_load [OF _ rtranclp.rtrancl_refl [of "program_op plain_inbox_ops"] pending_store_ok]
      plain_ingest_codec_laws by fastforce
qed

end
