(* ===== verification/Inbox_Safety.thy ===== *)
theory Inbox_Safety
  imports Program_Lifecycle
begin

text \<open>
  Safety and progress of the inbox: a submission is recorded once and replayed ever after; a worker
  whose lease is not current changes nothing; a stage hands the ingest on; one decision on a
  duplicate wins; a workspace is given up only when nothing needs it; a failure is acknowledged once.
\<close>

section \<open>Submissions\<close>

lemma input_key_unique:
  "ingests_ok codec s \<Longrightarrow> r \<in> set (st_ingests s) \<Longrightarrow> x \<in> set (st_ingests s) \<Longrightarrow> iw_input_key x = iw_input_key r \<Longrightarrow> x = r"
  by (auto simp: ingests_ok_def distinct_map inj_on_def)

lemma select_input_key:
  assumes "ingests_ok codec s" and "r \<in> set (st_ingests s)"
  shows "select_one (\<lambda>x. iw_input_key x = iw_input_key r) (st_ingests s) = Some r"
proof -
  obtain x where x: "select_one (\<lambda>x. iw_input_key x = iw_input_key r) (st_ingests s) = Some x"
    using assms(2) by (cases "select_one (\<lambda>x. iw_input_key x = iw_input_key r) (st_ingests s)") (auto simp: select_one_None)
  then show ?thesis using select_one_Some [OF x] input_key_unique [OF assms] by blast
qed

lemma same_request_hash: "same_request r r' \<Longrightarrow> iw_request_hash r' = iw_request_hash r"
  unfolding same_request_def by (erule ssubst) simp

text \<open>What a successful creation leaves: the row of the submission.\<close>

definition submitted :: "('v, 'tz) inbox_ops \<Rightarrow> ingest_submission \<Rightarrow> uuid \<Rightarrow> ingest_row \<Rightarrow> bool" where
  "submitted ops sub i r \<longleftrightarrow>
     iw_id r = i \<and> iw_input_key r = submission_key sub \<and> iw_request_hash r = request_hash ops sub"

lemma replay_submitted:
  assumes "iw_input_key x = submission_key sub" "x \<in> set (st_ingests s)"
  shows "tx_ensures (\<lambda>s1 p. \<exists>r\<in>set (st_ingests s1). submitted ops sub (ing_id (fst p)) r)
    (replay_ingest ops (submission_key sub) (request_hash ops sub) x s)"
  unfolding replay_ingest_def
  by (intro tx_rules) (use assms in \<open>auto simp: submitted_def elim!: load_requestD intro!: bexI [of _ x]\<close>)

lemma insert_ingest_row:
  "insert_ingest row s = Inr (s1, r) \<Longrightarrow> (if r = None then s1 = s else row \<in> set (st_ingests s1))"
  by (auto simp: insert_ingest_def split: if_splits)

lemma create_ingest_submitted:
  fixes s :: "'v store"
  shows "tx_ensures (\<lambda>s1 p. \<exists>r\<in>set (st_ingests s1). submitted ops sub (ing_id (fst p)) r) (create_ingest_tx ops env sub now s)"
  unfolding create_ingest_tx_def Let_def
proof (intro tx_rbind_prod tx_rules)
  fix x assume "select_one (\<lambda>r. iw_input_key r = submission_key sub) (st_ingests s) = Some x"
  then show "tx_ensures (\<lambda>s1 p. \<exists>r\<in>set (st_ingests s1). submitted ops sub (ing_id (fst p)) r)
      (replay_ingest ops (submission_key sub) (request_hash ops sub) x s)"
    using select_one_Some replay_submitted by fast
next
  fix s1 :: "'v store" and i x
  assume "ok_or (select_one (\<lambda>r. iw_input_key r = submission_key sub) (st_ingests s1)) InboxDatabase = Inr x"
  then have "select_one (\<lambda>r. iw_input_key r = submission_key sub) (st_ingests s1) = Some x" by (simp add: result_simps)
  then show "tx_ensures (\<lambda>s1 p. \<exists>r\<in>set (st_ingests s1). submitted ops sub (ing_id (fst p)) r)
      (replay_ingest ops (submission_key sub) (request_hash ops sub) x s1)"
    using select_one_Some replay_submitted by fast
next
  fix q s1 r and s2 :: "'v store" and i :: uuid
  assume ins: "insert_ingest (new_ingest_row q (submission_key sub) (request_hash ops sub)) s = Inr (s1, r)" "r = Some i"
    and job: "insert_first_job ops env q s1 = Inr s2"
  then have "new_ingest_row q (submission_key sub) (request_hash ops sub) \<in> set (st_ingests s2)"
    using insert_ingest_row [OF ins(1)] inserts_keep_ingests(5) [OF job] by simp
  then show "\<exists>r\<in>set (st_ingests (fst (s2, q, True))). submitted ops sub (ing_id (fst (snd (s2, q, True)))) r"
    by (intro bexI [of _ "new_ingest_row q (submission_key sub) (request_hash ops sub)"])
       (simp_all add: submitted_def new_ingest_row_def)
qed

lemma created_row:
  assumes "create_ingest_at ops env sub now s = (s1, Inr (q, created))"
  obtains r where "r \<in> set (st_ingests s1)" "submitted ops sub (ing_id q) r"
proof -
  have "create_ingest_tx ops env sub now s = Inr (s1, q, created)"
    using assms by (auto simp: create_ingest_at_def in_transaction_def split: sum.splits prod.splits)
  with tx_ensuresD [OF create_ingest_submitted this] show ?thesis using that by auto
qed

text \<open>The row of a submission in any store: a replay, and a conflict for another request.\<close>

lemma create_ingest_replays:
  assumes laws: "ingest_codec_laws (io_codec ops)" and ok: "ingests_ok (io_codec ops) s" and r: "r \<in> set (st_ingests s)"
    and sub: "submitted ops sub i r"
  shows "\<exists>q. create_ingest_at ops env sub now s = (s, Inr (q, False)) \<and> ing_id q = i"
    and "submission_key sub' = submission_key sub \<Longrightarrow> request_hash ops sub' \<noteq> request_hash ops sub \<Longrightarrow>
      create_ingest_at ops env sub' now s = (s, Inl (IdempotencyConflict (submission_key sub)))"
proof -
  have sel: "select_one (\<lambda>x. iw_input_key x = submission_key sub) (st_ingests s) = Some r"
    using select_input_key [OF ok r] sub by (simp add: submitted_def)
  obtain q where q: "load_request ops (iw_id r) s = Inr q" "into_ingest ops r = Inr q"
    using load_request_total [OF laws ok r] .
  show "\<exists>q. create_ingest_at ops env sub now s = (s, Inr (q, False)) \<and> ing_id q = i"
    using sel q sub into_ingest_fields(1) [OF q(2)]
    by (simp add: create_ingest_at_def create_ingest_tx_def replay_ingest_def in_transaction_def submitted_def)
  show "create_ingest_at ops env sub' now s = (s, Inl (IdempotencyConflict (submission_key sub)))"
    if "submission_key sub' = submission_key sub" "request_hash ops sub' \<noteq> request_hash ops sub"
    using sel that sub
    by (simp add: create_ingest_at_def create_ingest_tx_def replay_ingest_def in_transaction_def submitted_def)
qed

text \<open>(C11) Submissions are idempotent for ever. Once a submission was accepted, then in every store a
  later run of the program reaches, among whose steps are all operations on ingests and media and arbitrary
  changes of the channels, posts and jobs, the same submission returns the same ingest as not created and
  changes nothing, also when its requested time has passed or no channel is configured any more;
  another request under the same key is refused as a conflict and changes nothing either.\<close>

theorem create_ingest_idempotent:
  assumes laws: "ingest_codec_laws (io_codec ops)" and ok: "media_ok s" "ingests_ok (io_codec ops) s"
    and first: "create_ingest_at ops env sub now s = (s1, Inr (q, created))" and run: "(program_op ops)\<^sup>*\<^sup>* s1 s2"
  shows "(\<exists>q'. create_ingest_at ops env' sub now' s2 = (s2, Inr (q', False)) \<and> ing_id q' = ing_id q) \<and>
    (submission_key sub' = submission_key sub \<and> request_hash ops sub' \<noteq> request_hash ops sub \<longrightarrow>
       create_ingest_at ops env' sub' now' s2 = (s2, Inl (IdempotencyConflict (submission_key sub))))"
proof -
  obtain r where r: "r \<in> set (st_ingests s1)" "submitted ops sub (ing_id q) r" using first by (rule created_row)
  have "program_op ops s (fst (create_ingest_at ops env sub now s))" by (rule op_inbox [OF op_create])
  then have one: "program_op ops s s1" using first by simp
  have ok1: "media_ok s1" "ingests_ok (io_codec ops) s1"
    using program_op_moves [OF one ok] by (auto dest: media_move_ok ingest_move_ok)
  from program_run_moves [OF run ok1] have move: "ingest_move (io_codec ops) s1 s2" by simp
  obtain r' where r': "r' \<in> set (st_ingests s2)" "ingest_keeps r r'" using ingest_successor [OF move r(1)] .
  have "submitted ops sub (ing_id q) r'"
    using r(2) r'(2) by (auto simp: submitted_def ingest_keeps_def dest: same_request_id same_request_hash)
  then show ?thesis
    using create_ingest_replays [OF laws ingest_move_ok [OF move] r'(1)] by blast
qed

section \<open>Leases\<close>

lemma begin_stage_stale:
  "\<not> holds_attempt env a s \<Longrightarrow> fst (in_transaction s (begin_stage ops env i a skip route s) Inr) = s"
  unfolding begin_stage_def Let_def by (rule in_transaction_ensures, simp, intro tx_rules) simp_all

lemma complete_stage_stale:
  "\<not> holds_attempt env a s \<Longrightarrow> fst (in_transaction s (complete_stage ops env i a expected skip body s) Inr) = s"
  unfolding complete_stage_def by (rule in_transaction_ensures, simp, intro tx_rules) simp_all

lemma fail_stage_stale:
  "\<not> holds_attempt env a s \<Longrightarrow> fst (fail_ingest_step ops env i st c m (stage_guard a expected ignore) s) = s"
  unfolding fail_ingest_step_def fail_ingest_step_tx_def Let_def stage_guard_def
  by (rule in_transaction_ensures, simp, intro tx_rules) simp_all

lemma begin_cleanup_stale:
  "\<not> holds_attempt env a s \<Longrightarrow> begin_workspace_cleanup ops env a i w s = (s, Inr CleanupAlreadyAdvanced)"
  by (simp add: begin_workspace_cleanup_def begin_workspace_cleanup_tx_def in_transaction_def)

lemma not_current:
  assumes "queue_ok codec (st_jobs s)" and "j \<in> set (st_jobs s)" and "jr_id j = jl_job_id a" and "\<not> current_attempt (se_db env) a j"
  shows "\<not> holds_attempt env a s"
proof
  assume "holds_attempt env a s"
  then obtain x where "select_one (current_attempt (se_db env) a) (st_jobs s) = Some x" by (auto simp: holds_attempt_def)
  then have x: "x \<in> set (st_jobs s)" "current_attempt (se_db env) a x" using select_one_Some by fast+
  then have "x = j" using table_ok_key [OF assms(1) x(1) assms(2)] assms(3) by (simp add: current_attempt_def)
  then show False using x(2) assms(4) by simp
qed

text \<open>(C17) A worker that lost its lease changes nothing. When the job of the attempt was taken over,
  settled or has expired (its row is not running under the attempt's number, owner and token, or its
  lease is over), no begin, completion or failure of any stage, and no start of a workspace
  cleanup, changes any table, whatever the worker reports; the cleanup is told so.\<close>

theorem stale_attempt_changes_nothing:
  assumes "queue_ok codec (st_jobs s)" and "j \<in> set (st_jobs s)" and "jr_id j = jl_job_id a"
    and stale: "jr_state j \<noteq> lit ''running'' \<or> jr_attempt_count j \<noteq> jl_attempt_number a \<or>
      jr_lease_owner j \<noteq> Some (jl_lease_owner a) \<or> jr_lease_token j \<noteq> Some (jl_lease_token a) \<or>
      jr_lease_expires_at j = None \<or> the (jr_lease_expires_at j) \<le> env_clock (se_db env)"
  shows "fst (begin_source_inspection ops env i a s) = s \<and> fst (begin_source_download ops env i a s) = s \<and>
    fst (begin_asset_probe ops env i a s) = s \<and> fst (begin_asset_normalization ops env i a s) = s \<and>
    fst (begin_ingest_fingerprinting ops env i a s) = s \<and> fst (begin_ingest_finalization ops env i a s) = s \<and>
    fst (complete_source_inspection ops env i a inspection s) = s \<and> fst (complete_source_download ops env i a download s) = s \<and>
    fst (complete_asset_probe ops env i a result s) = s \<and> fst (complete_asset_normalization ops env i a normalization s) = s \<and>
    fst (complete_video_identity ops env i a item fingerprint decision s) = s \<and>
    fst (complete_ingest_finalization ops env i a finalization s) = s \<and>
    fst (fail_source_inspection ops env i a st code message s) = s \<and> fst (fail_source_download ops env i a st code message s) = s \<and>
    fst (fail_asset_probe ops env i a st code message s) = s \<and> fst (fail_asset_normalization ops env i a st code message s) = s \<and>
    fst (fail_ingest_fingerprint ops env i a st code message s) = s \<and>
    fst (fail_ingest_finalization ops env i a st code message s) = s \<and>
    begin_workspace_cleanup ops env a i w s = (s, Inr CleanupAlreadyAdvanced)"
proof -
  have "\<not> current_attempt (se_db env) a j"
    using stale by (cases "jr_lease_expires_at j") (auto simp: current_attempt_def)
  then have "\<not> holds_attempt env a s" by (rule not_current [OF assms(1-3)])
  then show ?thesis
    by (simp add: stage_defs begin_stage_stale complete_stage_stale begin_cleanup_stale fail_source_inspection_def
        fail_source_download_def fail_asset_probe_def fail_asset_normalization_def fail_ingest_fingerprint_def
        fail_ingest_finalization_def fail_stage_stale)
qed

section \<open>Failures\<close>

lemma acknowledged_not_pending [simp]:
  "\<not> pending_failure (r\<lparr>iw_acknowledged_failure_at := Some (failure_at r)\<rparr>)"
  by (simp add: pending_failure_def failure_at_def)

lemma acknowledged_none_pending:
  "filter pending_failure (update_where pending_failure (\<lambda>r. r\<lparr>iw_acknowledged_failure_at := Some (failure_at r)\<rparr>) t) = []"
  by (auto simp: update_where_def filter_empty_conv)

text \<open>An operator acknowledges what the summary shows. With the revision of the current summary the
  acknowledgement succeeds, afterwards the summary counts no failure, and nothing but the
  acknowledgement of the counted rows was written; with any other revision, while failures are
  pending, it is refused and changes nothing; and a later failure at another time counts again.\<close>

theorem acknowledge_clears_failures:
  shows "(let (s', acknowledged) = acknowledge_ingest_failures ops (snd (ingest_failure_summary ops s)) s in
       acknowledged \<and> fst (ingest_failure_summary ops s') = 0 \<and>
       s' = s\<lparr>st_ingests := map (\<lambda>r. if pending_failure r
            then r\<lparr>iw_acknowledged_failure_at := Some (failure_at r)\<rparr> else r) (st_ingests s)\<rparr>) \<and>
    (fst (ingest_failure_summary ops s) > 0 \<and> revision \<noteq> snd (ingest_failure_summary ops s) \<longrightarrow>
       acknowledge_ingest_failures ops revision s = (s, False)) \<and>
    (fst (ingest_failure_summary ops s) = 0 \<longrightarrow> acknowledge_ingest_failures ops revision s = (s, True)) \<and>
    (iw_state r = lit ''failed_terminal'' \<and> iw_acknowledged_failure_at r = Some t \<and> failure_at r \<noteq> t \<longrightarrow> pending_failure r)"
proof -
  have "s\<lparr>st_ingests := update_where pending_failure f (st_ingests s)\<rparr> = s" if "filter pending_failure (st_ingests s) = []" for f
    using that by (simp add: update_where_def filter_empty_conv map_idI)
  then show ?thesis
    by (auto simp: acknowledge_ingest_failures_def ingest_failure_summary_def Let_def update_ingests_def
        acknowledged_none_pending pending_failure_def [of r]) (simp_all add: update_where_def)
qed

section \<open>Decisions on a duplicate\<close>

lemma forced_not_accepted:
  assumes laws: "ingest_codec_laws (io_codec ops)" and ok: "ingests_ok (io_codec ops) s" and r: "r \<in> set (st_ingests s)" "iw_id r = i"
    and forced: "iw_force_save r"
  shows "accept_duplicate ops env i m s = (s, Inl (DuplicateDecisionNotAllowed st)) \<longleftrightarrow> iw_state r = ingest_status_as_str st"
proof -
  obtain q where q: "load_request ops i s = Inr q" "into_ingest ops r = Inr q" "ing_original_input q = iw_input_json r"
    using load_request_total [OF laws ok r(1)] r(2) by auto
  have inv: "ingest_inv (io_codec ops) r" using ok r(1) by (rule ingest_row_inv)
  then have "canonical (io_codec ops) (iw_input_json r)" by (simp add: ingest_inv_def)
  with laws obtain d where d: "data_decode (io_codec ops) (iw_input_json r) = Inr d" by (rule canonical_decodes)
  have "ing_force_save q" "ing_status q \<noteq> DuplicatePending"
    using into_ingest_fields(5) [OF q(2)] loaded_shaped [OF q(2) inv] forced by auto
  then have "accept_duplicate ops env i m s = (s, Inl (DuplicateDecisionNotAllowed (ing_status q)))"
    using q(1) d q(3)
    by (simp add: accept_duplicate_def accept_duplicate_tx_def in_transaction_def input_data_def replay_acceptance_def
        Let_def split: option.split)
  then show ?thesis using into_ingest_fields(3) [OF q(2)] by auto
qed

text \<open>What an acceptance writes.\<close>

definition accepted_as :: "('v, 'tz) inbox_ops \<Rightarrow> uuid \<Rightarrow> uuid \<Rightarrow> 'v store \<Rightarrow> 'v store \<Rightarrow> ingest \<Rightarrow> bool" where
  "accepted_as ops i m s s1 q \<longleftrightarrow> (\<exists>r d. r \<in> set (st_ingests s) \<and> iw_id r = i \<and>
     ingest_state_row q r \<in> set (st_ingests s1) \<and> ing_status q \<in> {Storing, IngestCompleted} \<and> \<not> ing_force_save q \<and>
     ing_media_id q = Some m \<and> data_encode (io_codec ops) d = Inr (ing_original_input q) \<and>
     id_duplicate_decision d = Some \<lparr>dd_version = 1, dd_kind = DecisionAccepted, dd_media_id = m\<rparr>)"

lemma finish_acceptance_accepts:
  assumes fin: "finish_acceptance ops env st p s2 = Inr (s1, q, b)" and "st_ingests s2 = st_ingests s"
    and r: "r \<in> set (st_ingests s)" "iw_id r = i"
    and p: "ing_status p = DuplicatePending" "ing_id p = i" "\<not> ing_force_save p" "ing_media_id p = Some m"
      "data_encode (io_codec ops) d = Inr (ing_original_input p)"
      "id_duplicate_decision d = Some \<lparr>dd_version = 1, dd_kind = DecisionAccepted, dd_media_id = m\<rparr>"
  shows "accepted_as ops i m s s1 q"
proof -
  have "ingest_written q s2 s1" using finish_acceptance_advance [OF fin] p(1,4) by simp
  moreover have q: "ing_status q \<in> {Storing, IngestCompleted}" "ing_force_save q = ing_force_save p"
    "ing_media_id q = ing_media_id p" "ing_original_input q = ing_original_input p" "ing_id q = ing_id p"
    using fin by (auto simp: finish_acceptance_def Let_def result_simps follow_one split: if_splits)
  ultimately have "ingest_state_row q r \<in> set (st_ingests s1)"
    using assms(2) r p(2) by (auto simp: ingest_written_def set_update_where)
  with r q p show ?thesis unfolding accepted_as_def by auto
qed

lemma accept_duplicate_accepts:
  assumes ok: "ingests_ok (io_codec ops) s"
  shows "tx_ensures (\<lambda>s1 x. \<not> snd x \<longrightarrow> accepted_as ops i m s s1 (fst x)) (accept_duplicate_tx ops env i m s)"
  unfolding accept_duplicate_tx_def
proof (intro tx_rbind_prod tx_rules)
  fix q0 st s2 rows p
  assume q0: "load_request ops i s = Inr q0" "\<not> ing_status q0 \<noteq> DuplicatePending"
    and up: "update_media_rows (\<lambda>x. mw_id x = m) (accepted_duplicate (se_db env) q0) InboxDatabase s = Inr (s2, rows)"
    and rec: "record_acceptance ops q0 m = Inr p"
  obtain r where r: "r \<in> set (st_ingests s)" "iw_id r = i" "into_ingest ops r = Inr q0" "ing_id q0 = i"
    using q0(1) by (rule load_requestD)
  have free: "\<not> ing_force_save q0" using loaded_shaped [OF r(3) ingest_row_inv [OF ok r(1)]] q0(2) by simp
  obtain d v where p: "p = q0\<lparr>ing_media_id := Some m, ing_original_input := v\<rparr>" "data_encode (io_codec ops) d = Inr v"
    "id_duplicate_decision d = Some \<lparr>dd_version = 1, dd_kind = DecisionAccepted, dd_media_id = m\<rparr>"
    using rec by (auto simp: record_acceptance_def result_simps set_input_data_Inr)
  have same: "st_ingests s2 = st_ingests s" using up by (rule update_media_rows_ingests)
  show "tx_ensures (\<lambda>s1 x. \<not> snd x \<longrightarrow> accepted_as ops i m s s1 (fst x)) (finish_acceptance ops env st p s2)"
  proof (rule tx_ensuresI, rule impI)
    fix s1 x
    assume "finish_acceptance ops env st p s2 = Inr (s1, x)"
    then have fin: "finish_acceptance ops env st p s2 = Inr (s1, fst x, snd x)" by simp
    show "accepted_as ops i m s s1 (fst x)"
      by (rule finish_acceptance_accepts [OF fin same r(1,2), of m d]) (use free q0(2) r(4) p in simp_all)
  qed
qed (auto simp: replay_acceptance_def Let_def intro!: tx_rules)

text \<open>The row read back.\<close>

lemma accepted_load:
  assumes laws: "ingest_codec_laws (io_codec ops)" and ok: "ingests_ok (io_codec ops) s1" and acc: "accepted_as ops i m s s1 q"
  obtains q' d where "load_request ops i s1 = Inr q'" "ing_status q' = ing_status q" "\<not> ing_force_save q'" "ing_media_id q' = Some m"
    "input_data (io_codec ops) q' = Inr d"
    "id_duplicate_decision d = Some \<lparr>dd_version = 1, dd_kind = DecisionAccepted, dd_media_id = m\<rparr>"
proof -
  obtain r d where r: "iw_id r = i" "ingest_state_row q r \<in> set (st_ingests s1)" "\<not> ing_force_save q" "ing_media_id q = Some m"
    "data_encode (io_codec ops) d = Inr (ing_original_input q)"
    "id_duplicate_decision d = Some \<lparr>dd_version = 1, dd_kind = DecisionAccepted, dd_media_id = m\<rparr>"
    using acc unfolding accepted_as_def by blast
  obtain q' where q': "load_request ops (iw_id (ingest_state_row q r)) s1 = Inr q'" "into_ingest ops (ingest_state_row q r) = Inr q'"
    "ing_original_input q' = iw_input_json (ingest_state_row q r)"
    using load_request_total [OF laws ok r(2)] .
  have "input_data (io_codec ops) q' = Inr d"
    using q'(3) decode_encode [OF laws r(5)] by (simp add: input_data_def ingest_state_row_def)
  with that [OF _ _ _ _ this r(6)] q'(1) r(1,3,4) into_ingest_fields [OF q'(2)] show ?thesis
    by (simp add: ingest_state_row_def)
qed

lemma accepted_decides:
  assumes laws: "ingest_codec_laws (io_codec ops)" and ok: "ingests_ok (io_codec ops) s1" and acc: "accepted_as ops i m s s1 q"
  shows "force_save ops env i s1 = (s1, Inl (ForceSaveNotAllowed (ing_status q)))"
    and "\<exists>q'. accept_duplicate ops env i m s1 = (s1, Inr (q', True)) \<and> ing_status q' = ing_status q"
    and "m' \<noteq> m \<Longrightarrow> accept_duplicate ops env i m' s1 = (s1, Inl (DuplicateDecisionNotAllowed (ing_status q)))"
proof -
  obtain q' d where q': "load_request ops i s1 = Inr q'" "ing_status q' = ing_status q" "\<not> ing_force_save q'" "ing_media_id q' = Some m"
    "input_data (io_codec ops) q' = Inr d"
    "id_duplicate_decision d = Some \<lparr>dd_version = 1, dd_kind = DecisionAccepted, dd_media_id = m\<rparr>"
    using laws ok acc by (rule accepted_load)
  have "ing_status q \<noteq> DuplicatePending" using acc by (auto simp: accepted_as_def)
  then show "force_save ops env i s1 = (s1, Inl (ForceSaveNotAllowed (ing_status q)))"
    using q'(1-3) by (simp add: force_save_def force_save_tx_def in_transaction_def)
  show "\<exists>q'. accept_duplicate ops env i m s1 = (s1, Inr (q', True)) \<and> ing_status q' = ing_status q"
    using q' by (simp add: accept_duplicate_def accept_duplicate_tx_def in_transaction_def replay_acceptance_def Let_def)
  show "accept_duplicate ops env i m' s1 = (s1, Inl (DuplicateDecisionNotAllowed (ing_status q)))" if "m' \<noteq> m"
    using q' that by (simp add: accept_duplicate_def accept_duplicate_tx_def in_transaction_def replay_acceptance_def Let_def)
qed

lemma forced_row:
  assumes "force_save ops env i s = (s1, Inr (q, b))"
  obtains r where "r \<in> set (st_ingests s1)" "iw_id r = i" "iw_force_save r"
proof -
  have tx: "force_save_tx ops env i s = Inr (s1, q, b)"
    using assms by (auto simp: force_save_def in_transaction_def split: sum.splits prod.splits)
  have "tx_ensures (\<lambda>s1 x. \<exists>r\<in>set (st_ingests s1). iw_id r = i \<and> iw_force_save r) (force_save_tx ops env i s)"
    unfolding force_save_tx_def Let_def
  proof (intro tx_rules)
    fix q p q' :: ingest and s'
    let ?q = "q\<lparr>ing_force_save := True, ing_workspace_id := env_uuid (se_db env), ing_duplicate_evidence := None\<rparr>"
    assume q: "load_request ops i s = Inr q" and c: "clear_pipeline_artifacts ops ?q = Inr p" and f: "follow [IngestQueued] p = Inr q'"
      and ins: "insert_first_job ops env (cleared (utc env) q') (update_ingest_state (cleared (utc env) q') s) = Inr s'"
    obtain r where r: "r \<in> set (st_ingests s)" "iw_id r = i" "ing_id q = i" using q by (rule load_requestD)
    have q': "ing_force_save (cleared (utc env) q')" "ing_id (cleared (utc env) q') = i"
      using c f r(3) by (auto simp: clear_pipeline_artifacts_def result_simps set_input_data_Inr follow_one)
    have "st_ingests s' = update_where (\<lambda>r. iw_id r = i) (ingest_state_row (cleared (utc env) q')) (st_ingests s)"
      using inserts_keep_ingests(5) [OF ins] q'(2) by (simp add: update_ingest_state_def update_ingests_def)
    then have "ingest_state_row (cleared (utc env) q') r \<in> set (st_ingests s')" using r(1,2) by (auto simp: set_update_where)
    then show "\<exists>r\<in>set (st_ingests (fst (s', cleared (utc env) q', True))). iw_id r = i \<and> iw_force_save r"
      using q'(1) r(2) by (auto intro!: bexI [of _ "ingest_state_row (cleared (utc env) q') r"] simp: ingest_state_row_def)
  next
    fix q assume "load_request ops i s = Inr q"
      and "ing_status q \<in> {IngestQueued, Downloading, Probing, Normalizing, Fingerprinting, Storing, IngestCompleted} \<and> ing_force_save q"
    then show "\<exists>r\<in>set (st_ingests s). iw_id r = i \<and> iw_force_save r"
      by (auto elim!: load_requestD dest: into_ingest_fields(5))
  qed
  from tx_ensuresD [OF this tx] show ?thesis using that by auto
qed

text \<open>(C10) One decision on a duplicate wins. After an acceptance, forcing the ingest is refused, the same
  acceptance is replayed and any other is refused, all without a change; after a forced save, no
  acceptance of that ingest succeeds in any store a later run reaches, and none changes anything.\<close>

theorem duplicate_decision_exclusive:
  assumes laws: "ingest_codec_laws (io_codec ops)" and ok: "media_ok s" "ingests_ok (io_codec ops) s"
  shows "(accept_duplicate ops env i m s = (s1, Inr (q, False)) \<longrightarrow>
      force_save ops env' i s1 = (s1, Inl (ForceSaveNotAllowed (ing_status q))) \<and>
      (\<exists>q'. accept_duplicate ops env' i m s1 = (s1, Inr (q', True)) \<and> ing_status q' = ing_status q) \<and>
      (m' \<noteq> m \<longrightarrow> accept_duplicate ops env' i m' s1 = (s1, Inl (DuplicateDecisionNotAllowed (ing_status q))))) \<and>
    (force_save ops env i s = (s1, Inr (q, b)) \<and> (program_op ops)\<^sup>*\<^sup>* s1 s2 \<longrightarrow>
      (\<exists>st. accept_duplicate ops env' i m' s2 = (s2, Inl (DuplicateDecisionNotAllowed st))))"
proof (intro conjI impI; (elim conjE)?)
  assume "accept_duplicate ops env i m s = (s1, Inr (q, False))"
  moreover have "ingests_ok (io_codec ops) (fst (accept_duplicate ops env i m s))"
    using accept_duplicate_move [OF ok(2)] by (rule ingest_move_ok)
  ultimately have ok1: "ingests_ok (io_codec ops) s1" and tx: "accept_duplicate_tx ops env i m s = Inr (s1, q, False)"
    by (simp_all add: accept_duplicate_def in_transaction_def split: sum.splits prod.splits)
  have acc: "accepted_as ops i m s s1 q" using tx_ensuresD [OF accept_duplicate_accepts [OF ok(2)] tx] by simp
  note decides = accepted_decides [OF laws ok1 acc]
  show "force_save ops env' i s1 = (s1, Inl (ForceSaveNotAllowed (ing_status q)))" by (rule decides(1))
  show "\<exists>q'. accept_duplicate ops env' i m s1 = (s1, Inr (q', True)) \<and> ing_status q' = ing_status q" by (rule decides(2))
  show "accept_duplicate ops env' i m' s1 = (s1, Inl (DuplicateDecisionNotAllowed (ing_status q)))" if "m' \<noteq> m"
    using that by (rule decides(3))
next
  assume forced: "force_save ops env i s = (s1, Inr (q, b))" and run: "(program_op ops)\<^sup>*\<^sup>* s1 s2"
  have "program_op ops s (fst (force_save ops env i s))" by (rule op_inbox [OF op_force])
  then have "(program_op ops)\<^sup>*\<^sup>* s s1" using forced by simp
  then have ok1: "media_ok s1" "ingests_ok (io_codec ops) s1"
    using program_run_moves [OF _ ok] by (auto dest: media_move_ok ingest_move_ok)
  obtain r where r: "r \<in> set (st_ingests s1)" "iw_id r = i" "iw_force_save r" using forced by (rule forced_row)
  have move: "ingest_move (io_codec ops) s1 s2" using program_run_moves [OF run ok1] by simp
  obtain r' where r': "r' \<in> set (st_ingests s2)" "iw_id r' = iw_id r" "ingest_keeps r r'" using ingest_successor [OF move r(1)] .
  then have "iw_force_save r'" using r(3) by (simp add: ingest_keeps_def)
  moreover obtain st where "iw_state r' = ingest_status_as_str st"
    using ingest_row_inv [OF ingest_move_ok [OF move] r'(1)] by (auto simp: ingest_inv_def)
  ultimately show "\<exists>st. accept_duplicate ops env' i m' s2 = (s2, Inl (DuplicateDecisionNotAllowed st))"
    using forced_not_accepted [OF laws ingest_move_ok [OF move] r'(1)] r'(2) r(2) by blast
qed

section \<open>Workspaces\<close>

lemma reclaimed_media:
  assumes ok: "media_ok s" and rec: "reclaim_workspace env (Some (mw_id m)) s = Inr s1" and m: "m \<in> set (st_media s)"
    and st: "mw_storage_state m \<in> {lit ''ready'', lit ''missing''}"
  obtains m1 where "m1 \<in> set (st_media s1)" "mw_id m1 = mw_id m" "mw_local_work_path m1 = None" "mw_storage_token m1 = None"
proof -
  let ?P = "\<lambda>n. mw_id n = mw_id m \<and> mw_storage_state n \<in> {lit ''ready'', lit ''missing''} \<and> mw_local_work_path n \<noteq> None"
  let ?f = "\<lambda>n. n\<lparr>mw_local_work_path := None, mw_updated_at := env_now (se_db env)\<rparr>"
  let ?m = "if ?P m then ?f m else m"
  have "st_media s1 = update_where ?P ?f (st_media s)"
    using rec by (auto simp: reclaim_workspace_def result_simps update_media_rows_Inr)
  then have "?m \<in> set (st_media s1)" using m by (auto simp: update_where_def)
  moreover have "mw_local_work_path ?m = None" using st by auto
  moreover have "mw_storage_token ?m = None" using media_row_inv [OF ok m] st by (auto simp: media_inv_def)
  ultimately show ?thesis using that [of ?m] by auto
qed

text \<open>An upload of a media item without a workspace path cannot be started again.\<close>

lemma reset_without_path:
  assumes "media_ok s" and "list_ex (\<lambda>m. mw_id m = i \<and> mw_local_work_path m = None) (st_media s)"
  shows "\<exists>e. reset_storage_upload sops env i s = (s, Inl e)"
proof -
  obtain m where "m \<in> set (st_media s)" "mw_id m = i" "mw_local_work_path m = None"
    using assms(2) by (auto simp: list_ex_iff)
  then show ?thesis
    using lock_media_row_key [OF assms(1), of m i] by (simp add: reset_storage_upload_def in_transaction_def)
qed

text \<open>(C23) A workspace is given up only when nothing needs it any more. When a worker is told to clean the
  current workspace of an ingest, its lease is current, the ingest is completed, failed for good, cancelled, waiting for
  a duplicate decision or for its storage, no other live job except cleanups names the ingest or its
  media item, and a media item it has is stored or given up for good. The media item then has no workspace path;
  resetting its upload right away is refused as reclaimed, and in every later store in which no operation
  has recorded a new path for it resetting it is refused and changes nothing. A cleanup of a
  workspace the ingest has left changes no table.\<close>

theorem workspace_reclaimed_safely:
  assumes ok: "media_ok s" "ingests_ok (io_codec ops) s" and r: "r \<in> set (st_ingests s)"
    and start: "begin_workspace_cleanup ops env a (iw_id r) w s = (s1, Inr CleanupReady)"
  shows "holds_attempt env a s \<and>
    (if iw_workspace_id r \<noteq> w then s1 = s
     else
       iw_state r \<in> {lit ''completed'', lit ''duplicate_pending'', lit ''failed_terminal'', lit ''cancelled'', lit ''storing''} \<and>
       list_all (\<lambda>j. \<not> active_job_for ops (jl_job_id a) (iw_id r) (iw_media_id r) j) (st_jobs s) \<and>
       list_all (\<lambda>m. iw_media_id r = Some (mw_id m) \<longrightarrow>
         mw_storage_state m \<in> {lit ''ready'', lit ''missing''} \<and>
         list_ex (\<lambda>n. mw_id n = mw_id m \<and> mw_local_work_path n = None) (st_media s1) \<and>
         reset_storage_upload sops env' (mw_id m) s1 = (s1, Inl (WorkspaceReclaimed (mw_id m))) \<and>
         (\<forall>s2. (program_op ops)\<^sup>*\<^sup>* s1 s2 \<and> list_ex (\<lambda>n. mw_id n = mw_id m \<and> mw_local_work_path n = None) (st_media s2) \<longrightarrow>
            (\<exists>e. reset_storage_upload sops env' (mw_id m) s2 = (s2, Inl e)))) (st_media s))"
proof -
  have sel: "select_ingest (iw_id r) s = Some r" using ok(2) r by (rule select_ingest_key)
  have "program_op ops s (fst (begin_workspace_cleanup ops env a (iw_id r) w s))"
    by (rule op_inbox [OF op_cleanup])
  then have ok1: "media_ok s1" "ingests_ok (io_codec ops) s1"
    using program_op_moves [OF _ ok] start by (auto dest: media_move_ok ingest_move_ok)
  have held: "holds_attempt env a s"
    using start by (rule contrapos_pp) (simp add: begin_cleanup_stale)
  have stay: "s1 = s" if "iw_workspace_id r \<noteq> w"
    using start held sel that by (simp add: begin_workspace_cleanup_def begin_workspace_cleanup_tx_def in_transaction_def)
  have current: "state_allows_cleanup r \<and> storage_allows_cleanup (iw_media_id r) s \<and>
      \<not> list_ex (active_job_for ops (jl_job_id a) (iw_id r) (iw_media_id r)) (st_jobs s) \<and>
      reclaim_workspace env (iw_media_id r) s = Inr s1" if "iw_workspace_id r = w"
    using start held sel that
    by (auto simp: begin_workspace_cleanup_def begin_workspace_cleanup_tx_def in_transaction_def split: if_splits sum.splits
        elim!: map_ok.elims)
  have later: "\<exists>e. reset_storage_upload sops env' i s2 = (s2, Inl e)"
    if "(program_op ops)\<^sup>*\<^sup>* s1 s2" "list_ex (\<lambda>n. mw_id n = i \<and> mw_local_work_path n = None) (st_media s2)" for s2 i
    using program_run_moves [OF that(1) ok1] media_move_ok reset_without_path [OF _ that(2)] by blast
  have media: "mw_storage_state m \<in> {lit ''ready'', lit ''missing''} \<and>
      list_ex (\<lambda>n. mw_id n = mw_id m \<and> mw_local_work_path n = None) (st_media s1) \<and>
      reset_storage_upload sops env' (mw_id m) s1 = (s1, Inl (WorkspaceReclaimed (mw_id m)))"
    if w: "iw_workspace_id r = w" and m: "m \<in> set (st_media s)" "iw_media_id r = Some (mw_id m)" for m
  proof -
    have st: "mw_storage_state m \<in> {lit ''ready'', lit ''missing''}"
      using current [OF w] m select_media_key [OF ok(1) m(1) refl]
      by (auto simp: storage_allows_cleanup_def dest: storage_state_enum.try_from_Inr)
    obtain m1 where m1: "m1 \<in> set (st_media s1)" "mw_id m1 = mw_id m" "mw_local_work_path m1 = None" "mw_storage_token m1 = None"
      using reclaimed_media [OF ok(1) _ m(1) st] current [OF w] m(2) by metis
    then have "reset_storage_upload sops env' (mw_id m) s1 = (s1, Inl (WorkspaceReclaimed (mw_id m)))"
      using lock_media_row_key [OF ok1(1) m1(1,2)] by (simp add: reset_storage_upload_def in_transaction_def)
    with st m1 show ?thesis by (auto simp: list_ex_iff)
  qed
  show ?thesis
    using held stay current media later by (auto simp: list_all_iff list_ex_iff state_allows_cleanup_def)
qed

section \<open>Progress of the pipeline\<close>

text \<open>The job of the next stage, as it is queued, unless the table has a job with its key.\<close>

definition next_job :: "'v payload_codec \<Rightarrow> ustring \<Rightarrow> job_command \<Rightarrow> 'v job_row \<Rightarrow> bool" where
  "next_job codec key command r \<longleftrightarrow>
     jr_dedupe_key r = Some key \<and> jr_kind r = job_type_as_str (command_job_type command) \<and>
     jr_payload r = payload_json codec command \<and> jr_state r = lit ''queued'' \<and> jr_attempt_count r = 0"

definition has_key :: "ustring \<Rightarrow> 'v job_table \<Rightarrow> bool" where
  "has_key key t \<longleftrightarrow> list_ex (\<lambda>r. jr_dedupe_key r = Some key) t"

lemma insert_ingest_job_grows:
  assumes "job_ids_fresh env [k] (st_jobs s)"
  obtains new where "insert_ingest_job ops env j k s = Inr (s\<lparr>st_jobs := st_jobs s @ new\<rparr>)"
    "list_all (next_job (so_codec (io_store ops)) k (nj_command j)) new" "has_key k (st_jobs s) \<or> new \<noteq> []"
proof -
  let ?row = "inserted_job (so_codec (io_store ops)) ((se_db env)\<lparr>env_uuid := se_job_uuid env k\<rparr>) (with_dedupe_key k j)"
  have row: "next_job (so_codec (io_store ops)) k (nj_command j) ?row"
    by (simp add: next_job_def inserted_job_def with_dedupe_key_def new_job_type_def)
  obtain t where t: "insert_job_once (io_store ops) env j k (st_jobs s) = Inr t" "list_ex (\<lambda>r. jr_dedupe_key r = Some k) t"
    using insert_job_once_fresh [OF assms, of k "io_store ops" j] by auto
  have "t = st_jobs s @ [] \<and> has_key k (st_jobs s) \<or> t = st_jobs s @ [?row]"
    using t by (auto simp: insert_job_once_def has_key_def Let_def split: if_splits)
  with t(1) row that [of "[]"] that [of "[?row]"] show ?thesis by (auto simp: insert_ingest_job_def on_jobs_def)
qed

lemma only_current:
  assumes "queue_ok codec t" and "j \<in> set t" and "current_attempt env a j"
  shows "filter (current_attempt env a) t = [j]"
proof (rule distinct_single)
  show "distinct (filter (current_attempt env a) t)"
    using assms(1) by (simp add: table_ok_def distinct_map)
  have "x = j" if "x \<in> set t" "current_attempt env a x" for x
    using table_ok_key [OF assms(1) that(1) assms(2)] that(2) assms(3) by (simp add: current_attempt_def)
  with assms(2,3) show "set (filter (current_attempt env a) t) = {j}" unfolding set_filter by blast
qed

lemma succeed_after_growth:
  assumes "queue_ok codec t" and "j \<in> set t" and "current_attempt (se_db env) a j"
    and "list_all (\<lambda>r. jr_state r = lit ''queued'') new"
  obtains u where "succeed_current_job_attempt env a (s\<lparr>st_jobs := t @ new\<rparr>) = Inr (s\<lparr>st_jobs := u\<rparr>)"
    "set u = insert (succeeded_row (se_db env) j) (set t - {j} \<union> set new)"
proof
  let ?P = "current_attempt (se_db env) a" and ?f = "succeeded_row (se_db env)"
  have new: "filter ?P new = []" using assms(4) by (auto simp: filter_empty_conv list_all_iff current_attempt_def)
  then show "succeed_current_job_attempt env a (s\<lparr>st_jobs := t @ new\<rparr>) = Inr (s\<lparr>st_jobs := update_where ?P ?f (t @ new)\<rparr>)"
    using only_current [OF assms(1-3)] by (simp add: succeed_current_job_attempt_def)
  have one: "?P x \<longleftrightarrow> x = j" if "x \<in> set t" for x
    using table_ok_key [OF assms(1) that assms(2)] assms(3) by (auto simp: current_attempt_def)
  have "set (update_where ?P ?f t) = (\<lambda>x. if x = j then ?f j else x) ` set t"
    using one by (auto simp: update_where_def intro!: image_cong)
  also have "\<dots> = insert (?f j) (set t - {j})" using assms(2) by (auto simp: image_iff)
  finally have "set (update_where ?P ?f t) = insert (?f j) (set t - {j})" .
  moreover have "update_where ?P ?f new = new"
    using new unfolding update_where_def by (intro map_idI) (simp add: filter_empty_conv)
  ultimately show "set (update_where ?P ?f (t @ new)) = insert (?f j) (set t - {j} \<union> set new)"
    by (simp add: update_where_def)
qed

text \<open>A stage handed on: the ingest is stored in its new state with the envelope that has the result, the job
  of the next stage is queued for it unless there was a job with its key, the worker's own job has succeeded, and
  every other job stays.\<close>

definition handed_on :: "('v, 'tz) inbox_ops \<Rightarrow> store_env \<Rightarrow> 'v job_row \<Rightarrow> uuid \<Rightarrow> ingest_status \<Rightarrow> ingest_data \<Rightarrow>
    ustring \<Rightarrow> job_command \<Rightarrow> 'v store \<Rightarrow> 'v store \<Rightarrow> bool" where
  "handed_on ops env j i st d key command s s' \<longleftrightarrow>
     list_ex (\<lambda>r. iw_id r = i \<and> iw_state r = ingest_status_as_str st \<and>
       data_decode (io_codec ops) (iw_input_json r) = Inr d) (st_ingests s') \<and>
     (if has_key key (st_jobs s) then True
      else list_ex (next_job (so_codec (io_store ops)) key command) (st_jobs s')) \<and>
     succeeded_row (se_db env) j \<in> set (st_jobs s') \<and> set (st_jobs s) - {j} \<subseteq> set (st_jobs s')"

lemma complete_stage_hands_on:
  assumes q: "load_request ops i s = Inr q" "ing_status q = expected" "skip q = Inr False"
    and j: "queue_ok codec (st_jobs s)" "j \<in> set (st_jobs s)" "current_attempt (se_db env) a j"
    and body: "body q s = map_ok (\<lambda>s. (s, q')) (insert_ingest_job ops env nj key (update_ingests (\<lambda>r. iw_id r = ing_id q) f s))"
    and fresh: "job_ids_fresh env [key] (st_jobs s)" and laws: "ingest_codec_laws (io_codec ops)"
    and v: "data_encode (io_codec ops) d = Inr v"
    and row: "\<And>r. into_ingest ops r = Inr q \<Longrightarrow> iw_id (f r) = ing_id q \<and>
      iw_state (f r) = ingest_status_as_str (ing_status q') \<and> iw_input_json (f r) = v"
  shows "\<exists>s'. in_transaction s (complete_stage ops env i a expected skip body s) Inr = (s', Inr q') \<and>
    handed_on ops env j i (ing_status q') d key (nj_command nj) s s'"
proof -
  let ?s = "update_ingests (\<lambda>r. iw_id r = ing_id q) f s"
  have jobs: "st_jobs ?s = st_jobs s" by (simp add: update_ingests_def)
  obtain new where t: "insert_ingest_job ops env nj key ?s = Inr (?s\<lparr>st_jobs := st_jobs s @ new\<rparr>)"
    "list_all (next_job (so_codec (io_store ops)) key (nj_command nj)) new" "has_key key (st_jobs s) \<or> new \<noteq> []"
    using insert_ingest_job_grows [of env key ?s ops nj] fresh jobs by metis
  have "list_all (\<lambda>r. jr_state r = lit ''queued'') new" using t(2) by (auto simp: list_all_iff next_job_def)
  then obtain u where u: "succeed_current_job_attempt env a (?s\<lparr>st_jobs := st_jobs s @ new\<rparr>) = Inr (?s\<lparr>st_jobs := u\<rparr>)"
    "set u = insert (succeeded_row (se_db env) j) (set (st_jobs s) - {j} \<union> set new)"
    using succeed_after_growth [OF j, of new ?s] by metis
  have held: "holds_attempt env a s"
    using only_current [OF j] by (simp add: holds_attempt_def select_one_def)
  obtain r where r: "r \<in> set (st_ingests s)" "into_ingest ops r = Inr q" "iw_id r = i" "ing_id q = i"
    using q(1) by (rule load_requestD)
  have "f r \<in> set (st_ingests ?s)" using r by (auto simp: update_ingests_def set_update_where)
  moreover have "list_ex (next_job (so_codec (io_store ops)) key (nj_command nj)) u" if "\<not> has_key key (st_jobs s)"
    using t(2,3) u(2) that by (cases new) (auto simp: list_ex_iff)
  ultimately have "handed_on ops env j i (ing_status q') d key (nj_command nj) s (?s\<lparr>st_jobs := u\<rparr>)"
    using row [OF r(2)] r(4) u(2) decode_encode [OF laws v] by (auto simp: handed_on_def list_ex_iff)
  moreover have "in_transaction s (complete_stage ops env i a expected skip body s) Inr = (?s\<lparr>st_jobs := u\<rparr>, Inr q')"
    using q held body t(1) u(1) by (simp add: complete_stage_def in_transaction_def)
  ultimately show ?thesis by blast
qed

lemma update_ingests_twice:
  "(\<And>r. iw_id (f r) = iw_id r) \<Longrightarrow>
     update_ingests (\<lambda>r. iw_id r = i) g (update_ingests (\<lambda>r. iw_id r = i) f s) = update_ingests (\<lambda>r. iw_id r = i) (\<lambda>r. g (f r)) s"
  by (auto simp: update_ingests_def update_where_def intro!: arg_cong [of _ _ "\<lambda>x. s\<lparr>st_ingests := x\<rparr>"])

lemma with_stage_data_fits:
  assumes "input_data (io_codec ops) q = Inr d" and "data_encode (io_codec ops) (f d) = Inr v"
  shows "with_stage_data ops f q = Inr (q\<lparr>ing_original_input := v\<rparr>)"
  using assms by (simp add: with_stage_data_def stage_data_def set_input_data_def)

lemma follow_step: "can_transition_to (ing_status q) t \<Longrightarrow> follow [t] q = Inr (q\<lparr>ing_status := t\<rparr>)"
  by (simp add: follow_one)

lemma pipeline_steps [simp]:
  "can_transition_to IngestQueued Downloading" "can_transition_to Probing Normalizing"
  "can_transition_to Normalizing Fingerprinting" "can_transition_to Normalizing Storing"
  by (simp_all add: can_transition_to_def ingest_is_terminal_def pipeline_edges_def)

lemma stage_key_cong: "ing_id p = ing_id q \<Longrightarrow> ing_force_save p = ing_force_save q \<Longrightarrow> stage_key ops p = stage_key ops q"
  by (rule ext) (simp add: stage_key_def stage_dedupe_key_def)

text \<open>A worker at work: the ingest it loaded, the envelope of the ingest, and its own job.\<close>

definition at_work :: "('v, 'tz) inbox_ops \<Rightarrow> 'v payload_codec \<Rightarrow> store_env \<Rightarrow> uuid \<Rightarrow> job_lease \<Rightarrow> 'v job_row \<Rightarrow>
    ingest \<Rightarrow> ingest_data \<Rightarrow> 'v store \<Rightarrow> bool" where
  "at_work ops codec env i a j q d s \<longleftrightarrow>
     load_request ops i s = Inr q \<and> input_data (io_codec ops) q = Inr d \<and>
     queue_ok codec (st_jobs s) \<and> j \<in> set (st_jobs s) \<and> current_attempt (se_db env) a j"

lemma at_work_hands_on:
  assumes "ingest_codec_laws (io_codec ops)" and "at_work ops codec env i a j q d s" and "ing_status q = expected"
    and "data_encode (io_codec ops) d' = Inr v" and "skip q = Inr False"
    and "body q s = map_ok (\<lambda>s. (s, q')) (insert_ingest_job ops env nj key (update_ingests (\<lambda>r. iw_id r = ing_id q) f s))"
    and "job_ids_fresh env [key] (st_jobs s)"
    and "\<And>r. into_ingest ops r = Inr q \<Longrightarrow> iw_id (f r) = ing_id q \<and>
      iw_state (f r) = ingest_status_as_str (ing_status q') \<and> iw_input_json (f r) = v"
    and "ing_status q' = st" and "nj_command nj = command"
  shows "\<exists>s' q'. in_transaction s (complete_stage ops env i a expected skip body s) Inr = (s', Inr q') \<and>
     ing_status q' = st \<and> handed_on ops env j i st d' key command s s'"
  using complete_stage_hands_on [of ops i s q expected skip codec j env a body q' nj key f d' v] assms
  unfolding at_work_def by blast

lemma at_work_id: "at_work ops codec env i a j q d s \<Longrightarrow> ing_id q = i"
  by (auto simp: at_work_def elim: load_requestD)

lemma inspection_hands_on:
  assumes laws: "ingest_codec_laws (io_codec ops)"
    and w: "at_work ops codec env i a j q d s" and st: "ing_status q = IngestQueued"
    and v: "data_encode (io_codec ops) (d\<lparr>id_inspection := Some inspection\<rparr>) = Inr v"
    and fresh: "job_ids_fresh env [stage_key ops q (lit ''download_source:v1'')] (st_jobs s)"
  shows "\<exists>s' q'. complete_source_inspection ops env i a inspection s = (s', Inr q') \<and> ing_status q' = Downloading \<and>
    handed_on ops env j i Downloading (d\<lparr>id_inspection := Some inspection\<rparr>) (stage_key ops q (lit ''download_source:v1''))
      (DownloadSource \<lparr>dsp_ingest_id = i, dsp_inspection = inspection\<rparr>) s s'"
  unfolding complete_source_inspection_def
proof (rule at_work_hands_on [OF laws w st v, where f = "ingest_state_row (cleared (utc env) (q\<lparr>ing_original_input := v, ing_status := Downloading\<rparr>))"])
  let ?q = "cleared (utc env) (q\<lparr>ing_original_input := v, ing_status := Downloading\<rparr>)"
  have d: "input_data (io_codec ops) q = Inr d" using w by (simp add: at_work_def)
  have "stage_key ops ?q = stage_key ops q" by (rule stage_key_cong) simp_all
  then show "inspected ops env inspection q s = map_ok (\<lambda>s. (s, ?q))
      (insert_ingest_job ops env (new_download_source (ing_id q) inspection) (stage_key ops q (lit ''download_source:v1''))
        (update_ingests (\<lambda>r. iw_id r = ing_id q) (ingest_state_row ?q) s))"
    using with_stage_data_fits [OF d, where f = "\<lambda>data. data\<lparr>id_inspection := Some inspection\<rparr>", OF v] st
    by (simp add: inspected_def follow_step Let_def insert_download_job_def update_ingest_state_def)
qed (use fresh at_work_id [OF w] in \<open>auto simp: ingest_state_row_def new_download_source_def new_job_new_def
      dest: into_ingest_fields(1)\<close>)

lemma download_hands_on:
  assumes laws: "ingest_codec_laws (io_codec ops)"
    and w: "at_work ops codec env i a j q d s" and st: "ing_status q = Downloading" and none: "id_download d = None"
    and v: "data_encode (io_codec ops) (d\<lparr>id_download := Some download\<rparr>) = Inr v"
    and fresh: "job_ids_fresh env [stage_key ops q (lit ''probe_asset:v1'')] (st_jobs s)"
  shows "\<exists>s' q'. complete_source_download ops env i a download s = (s', Inr q') \<and> ing_status q' = Downloading \<and>
    handed_on ops env j i Downloading (d\<lparr>id_download := Some download\<rparr>) (stage_key ops q (lit ''probe_asset:v1''))
      (ProbeAsset \<lparr>ijp_ingest_id = i\<rparr>) s s'"
  unfolding complete_source_download_def
proof (rule at_work_hands_on [OF laws w st v, where f = "download_row (q\<lparr>ing_original_input := v, ing_error_code := None, ing_error_message := None, ing_updated_at := utc env\<rparr>)"])
  let ?q = "q\<lparr>ing_original_input := v, ing_error_code := None, ing_error_message := None, ing_updated_at := utc env\<rparr>"
  have d: "input_data (io_codec ops) q = Inr d" using w by (simp add: at_work_def)
  then show "map_ok (\<lambda>data. id_download data \<noteq> None) (stage_data ops q) = Inr False"
    using none by (simp add: stage_data_def)
  have "stage_key ops ?q = stage_key ops q" by (rule stage_key_cong) simp_all
  then show "downloaded ops env download q s = map_ok (\<lambda>s. (s, ?q))
      (insert_ingest_job ops env (new_probe_asset (ing_id q)) (stage_key ops q (lit ''probe_asset:v1''))
        (update_ingests (\<lambda>r. iw_id r = ing_id q) (download_row ?q) s))"
    using with_stage_data_fits [OF d, where f = "\<lambda>data. data\<lparr>id_download := Some download\<rparr>", OF v]
    by (simp add: downloaded_def Let_def insert_probe_job_def)
qed (use fresh st at_work_id [OF w] in \<open>auto simp: download_row_def new_probe_asset_def new_job_new_def
      dest: into_ingest_fields(1,3)\<close>)

text \<open>The asset kinds the pipeline normalises.\<close>

definition supported_asset :: "ingest_data \<Rightarrow> ingest_probe \<Rightarrow> bool" where
  "supported_asset d p \<longleftrightarrow>
     (let kind = or_else (probe_media_kind p) (data_media_kind d) in
      kind \<in> {Some SourceVideo, Some SourceImage, Some SourceAnimation, Some SourceAudio} \<and>
      (kind = Some SourceImage \<longrightarrow> image_format_supported d p))"

lemma probe_hands_on:
  assumes laws: "ingest_codec_laws (io_codec ops)"
    and w: "at_work ops codec env i a j q d s" and st: "ing_status q = Probing" and sup: "supported_asset d p"
    and v: "data_encode (io_codec ops) (d\<lparr>id_probe := Some p, id_probed_media_kind := probe_media_kind p\<rparr>) = Inr v"
    and fresh: "job_ids_fresh env [stage_key ops q (lit ''normalize_asset:v1'')] (st_jobs s)"
  shows "\<exists>s' q'. complete_asset_probe ops env i a p s = (s', Inr q') \<and> ing_status q' = Normalizing \<and>
    handed_on ops env j i Normalizing (d\<lparr>id_probe := Some p, id_probed_media_kind := probe_media_kind p\<rparr>)
      (stage_key ops q (lit ''normalize_asset:v1'')) (NormalizeAsset \<lparr>ijp_ingest_id = i\<rparr>) s s'"
  unfolding complete_asset_probe_def
proof (rule at_work_hands_on [OF laws w st v, where f = "\<lambda>r. ingest_state_row (cleared (utc env)
      (q\<lparr>ing_original_input := v, ing_updated_at := utc env, ing_status := Normalizing\<rparr>))
      (probe_row (q\<lparr>ing_original_input := v, ing_updated_at := utc env\<rparr>) r)"])
  let ?p = "q\<lparr>ing_original_input := v, ing_updated_at := utc env\<rparr>"
  let ?q = "cleared (utc env) (?p\<lparr>ing_status := Normalizing\<rparr>)"
  have d: "input_data (io_codec ops) q = Inr d" using w by (simp add: at_work_def)
  have "stage_key ops ?q = stage_key ops q" by (rule stage_key_cong) simp_all
  moreover have "\<not> (or_else (probe_media_kind p) (data_media_kind d) \<notin>
        {Some SourceVideo, Some SourceImage, Some SourceAnimation, Some SourceAudio} \<or>
      or_else (probe_media_kind p) (data_media_kind d) = Some SourceImage \<and> \<not> image_format_supported d p)"
    using sup by (auto simp: supported_asset_def Let_def)
  ultimately show "probed ops env p q s = map_ok (\<lambda>s. (s, ?q))
      (insert_ingest_job ops env (new_normalize_asset (ing_id q)) (stage_key ops q (lit ''normalize_asset:v1''))
        (update_ingests (\<lambda>r. iw_id r = ing_id q) (\<lambda>r. ingest_state_row ?q (probe_row ?p r)) s))"
    using with_stage_data_fits [OF d, where f = "\<lambda>data. data\<lparr>id_probe := Some p, id_probed_media_kind := probe_media_kind p\<rparr>", OF v]
      d st
    by (simp only: probed_def stage_data_def rbind.simps map_err.simps Let_def if_False)
       (simp add: follow_step insert_normalize_job_def update_ingest_state_def update_ingests_twice)
qed (use fresh at_work_id [OF w] in \<open>auto simp: ingest_state_row_def probe_row_def new_normalize_asset_def new_job_new_def
      dest: into_ingest_fields(1)\<close>)

text \<open>Where a normalised asset goes: a video to its fingerprint, any other asset to its finalisation.\<close>

definition after_normalization :: "asset_normalization \<Rightarrow> ingest_status \<times> ustring" where
  "after_normalization n =
     (if no_media_kind n = SourceVideo then (Fingerprinting, lit ''compute_fingerprint:v2'')
      else (Storing, lit ''finalize_ingest:v1''))"

definition normalization_command :: "asset_normalization \<Rightarrow> uuid \<Rightarrow> job_command" where
  "normalization_command n i =
     (if no_media_kind n = SourceVideo then ComputeFingerprint \<lparr>ijp_ingest_id = i\<rparr> else FinalizeIngest \<lparr>ijp_ingest_id = i\<rparr>)"

lemma normalization_hands_on:
  assumes laws: "ingest_codec_laws (io_codec ops)"
    and w: "at_work ops codec env i a j q d s" and st: "ing_status q = Normalizing" and "id_normalization d = None \<or> ing_force_save q"
    and v: "data_encode (io_codec ops) (d\<lparr>id_normalization := Some n\<rparr>) = Inr v"
    and next_stage: "after_normalization n = (st', stage)" and fresh: "job_ids_fresh env [stage_key ops q stage] (st_jobs s)"
  shows "\<exists>s' q'. complete_asset_normalization ops env i a n s = (s', Inr q') \<and> ing_status q' = st' \<and>
    handed_on ops env j i st' (d\<lparr>id_normalization := Some n\<rparr>) (stage_key ops q stage) (normalization_command n i) s s'"
  unfolding complete_asset_normalization_def
proof (rule at_work_hands_on [OF laws w st v, where f = "ingest_state_row (cleared (utc env) (q\<lparr>ing_original_input := v, ing_status := st'\<rparr>))"])
  let ?q = "cleared (utc env) (q\<lparr>ing_original_input := v, ing_status := st'\<rparr>)"
  let ?job = "if no_media_kind n = SourceVideo then new_compute_fingerprint (ing_id q) else new_finalize_ingest (ing_id q)"
  have d: "input_data (io_codec ops) q = Inr d" using w by (simp add: at_work_def)
  then show "map_ok (\<lambda>data. id_normalization data \<noteq> None \<and> \<not> ing_force_save q) (stage_data ops q) = Inr False"
    using assms(4) by (auto simp: stage_data_def)
  have kind: "normalized_media_kind ops (q\<lparr>ing_original_input := v\<rparr>) = Inr (Some (no_media_kind n))"
    using decode_encode [OF laws v] by (simp add: normalized_media_kind_def stage_data_def input_data_def)
  have "stage_key ops ?q = stage_key ops q" by (rule stage_key_cong) simp_all
  then show "normalized ops env n q s = map_ok (\<lambda>s. (s, ?q))
      (insert_ingest_job ops env ?job (stage_key ops q stage) (update_ingests (\<lambda>r. iw_id r = ing_id q) (ingest_state_row ?q) s))"
    using with_stage_data_fits [OF d, where f = "\<lambda>data. data\<lparr>id_normalization := Some n\<rparr>", OF v] kind st next_stage
    by (auto simp: normalized_def follow_step Let_def insert_fingerprint_job_def insert_finalize_job_def update_ingest_state_def
        after_normalization_def split: if_splits)
qed (use fresh at_work_id [OF w] in \<open>auto simp: ingest_state_row_def normalization_command_def new_compute_fingerprint_def
      new_finalize_ingest_def new_job_new_def dest: into_ingest_fields(1)\<close>)

text \<open>(C22) The pipeline hands every ingest on. A worker whose lease is current and whose ingest waits in the
  stage's state completes the stage in one transaction: the stored row of the ingest has the state of the next stage
  and an envelope that decodes to the old one with the result added, the job of the next stage is queued with its
  kind and payload for this ingest unless a job with its key was there before, the worker's own job has succeeded
  and every other job stays: inspection to download, download to probe, probe of a supported asset to
  normalisation, normalisation to the fingerprint of a video or the finalisation of anything else.
  The only conditions are that the envelope with the result fits and that the database gives the new
  job a new id.\<close>

theorem pipeline_hands_on:
  assumes laws: "ingest_codec_laws (io_codec ops)" and w: "at_work ops codec env i a j q d s"
  shows "(ing_status q = IngestQueued \<and> data_encode (io_codec ops) (d\<lparr>id_inspection := Some inspection\<rparr>) = Inr v \<and>
      job_ids_fresh env [stage_key ops q (lit ''download_source:v1'')] (st_jobs s) \<longrightarrow>
      (\<exists>s' q'. complete_source_inspection ops env i a inspection s = (s', Inr q') \<and> ing_status q' = Downloading \<and>
        handed_on ops env j i Downloading (d\<lparr>id_inspection := Some inspection\<rparr>)
          (stage_key ops q (lit ''download_source:v1''))
          (DownloadSource \<lparr>dsp_ingest_id = i, dsp_inspection = inspection\<rparr>) s s')) \<and>
    (ing_status q = Downloading \<and> id_download d = None \<and> data_encode (io_codec ops) (d\<lparr>id_download := Some download\<rparr>) = Inr v \<and>
      job_ids_fresh env [stage_key ops q (lit ''probe_asset:v1'')] (st_jobs s) \<longrightarrow>
      (\<exists>s' q'. complete_source_download ops env i a download s = (s', Inr q') \<and> ing_status q' = Downloading \<and>
        handed_on ops env j i Downloading (d\<lparr>id_download := Some download\<rparr>)
          (stage_key ops q (lit ''probe_asset:v1'')) (ProbeAsset \<lparr>ijp_ingest_id = i\<rparr>) s s')) \<and>
    (ing_status q = Probing \<and> supported_asset d p \<and>
      data_encode (io_codec ops) (d\<lparr>id_probe := Some p, id_probed_media_kind := probe_media_kind p\<rparr>) = Inr v \<and>
      job_ids_fresh env [stage_key ops q (lit ''normalize_asset:v1'')] (st_jobs s) \<longrightarrow>
      (\<exists>s' q'. complete_asset_probe ops env i a p s = (s', Inr q') \<and> ing_status q' = Normalizing \<and>
        handed_on ops env j i Normalizing (d\<lparr>id_probe := Some p, id_probed_media_kind := probe_media_kind p\<rparr>)
          (stage_key ops q (lit ''normalize_asset:v1'')) (NormalizeAsset \<lparr>ijp_ingest_id = i\<rparr>) s s')) \<and>
    (ing_status q = Normalizing \<and> (id_normalization d = None \<or> ing_force_save q) \<and>
      data_encode (io_codec ops) (d\<lparr>id_normalization := Some n\<rparr>) = Inr v \<and>
      job_ids_fresh env [stage_key ops q (snd (after_normalization n))] (st_jobs s) \<longrightarrow>
      (\<exists>s' q'. complete_asset_normalization ops env i a n s = (s', Inr q') \<and> ing_status q' = fst (after_normalization n) \<and>
        handed_on ops env j i (fst (after_normalization n)) (d\<lparr>id_normalization := Some n\<rparr>)
          (stage_key ops q (snd (after_normalization n))) (normalization_command n i) s s'))"
  using inspection_hands_on [OF laws w] download_hands_on [OF laws w] probe_hands_on [OF laws w]
    normalization_hands_on [OF laws w, where st' = "fst (after_normalization n)" and stage = "snd (after_normalization n)"]
  by (intro conjI impI; elim conjE) simp_all

section \<open>Witnesses\<close>

definition witness_submission :: ingest_submission where
  "witness_submission =
     \<lparr>sub_kind = UrlIngest, sub_submitted_via = Api, sub_original_url = lit ''u'', sub_normalized_url = lit ''u'',
      sub_original_input = witness_json, sub_page_url = None, sub_page_title = None, sub_supplied_caption = None,
      sub_supplied_description = None, sub_supplied_tags = [], sub_requested_action = SaveAction,
      sub_requested_publish_at = None, sub_requested_post_caption = None, sub_idempotency_key = Some (lit ''key'')\<rparr>"

lemma witness_source: "sd_telegram_workspace_id (id_source witness_data) = None"
  by (simp add: witness_data_def ingest_data_new_def)

lemma witness_created:
  "\<exists>s1 q. create_ingest_at plain_inbox_ops (senv 6 21) witness_submission 0 pending_store = (s1, Inr (q, True)) \<and> ing_id q = 21"
  by (simp add: create_ingest_at_def create_ingest_tx_def in_transaction_def Let_def select_one_def submission_key_def
      inbox_store_def inbox_row_def witness_submission_def ingest_from_submission_def witness_decode witness_encode follow_step
      submission_workspace_def input_data_def witness_source requested_channel_def insert_ingest_def new_ingest_row_def
      intent_check_def insert_first_job_def insert_inspect_job_def insert_ingest_job_def on_jobs_def insert_job_once_def
      dedupe_conflict_def id_conflict_def unwrap_or_def can_transition_to_def ingest_is_terminal_def pipeline_edges_def)
     (simp add: senv_def at_time_def)

theorem create_ingest_idempotent_witness:
  "\<exists>s1 q q'. create_ingest_at plain_inbox_ops (senv 6 21) witness_submission 0 pending_store = (s1, Inr (q, True)) \<and>
     create_ingest_at plain_inbox_ops (senv 9 22) witness_submission 0 (s1\<lparr>st_channels := []\<rparr>) =
       (s1\<lparr>st_channels := []\<rparr>, Inr (q', False)) \<and> ing_id q' = 21"
proof -
  obtain s1 q where one: "create_ingest_at plain_inbox_ops (senv 6 21) witness_submission 0 pending_store = (s1, Inr (q, True))" "ing_id q = 21"
    using witness_created by blast
  have laws: "ingest_codec_laws (io_codec plain_inbox_ops)" by (simp add: plain_ingest_codec_laws)
  have run: "(program_op plain_inbox_ops)\<^sup>*\<^sup>* s1 (s1\<lparr>st_channels := []\<rparr>)"
    by (intro r_into_rtranclp op_other) simp_all
  show ?thesis
    using create_ingest_idempotent [OF laws pending_store_ok one(1) run, of "senv 9 22" 0 witness_submission] one by auto
qed

abbreviation queued_store :: "plain_value store" where
  "queued_store \<equiv> inbox_store [witness_running] [inbox_row ''queued''] witness_media"

definition witness_inspection :: source_inspection where
  "witness_inspection =
     \<lparr>adapter = [], si_source_url = [], resolved_url = None, si_media_kind = SourceVideo, si_mime_type = None,
      content_length_bytes = None, si_title = None, si_metadata = JNull\<rparr>"

lemma queued_store_job: "witness_running \<in> set (st_jobs queued_store)" "queue_ok plain_codec (st_jobs queued_store)"
  using witness_running_ok by (simp_all add: inbox_store_def)

theorem stale_attempt_changes_nothing_witness:
  "fst (complete_source_inspection plain_inbox_ops (senv 6 21) 1 (witness_lease\<lparr>jl_lease_token := 8\<rparr>) witness_inspection
     queued_store) = queued_store"
proof -
  have "jr_id witness_running = jl_job_id (witness_lease\<lparr>jl_lease_token := 8\<rparr>)"
    "jr_lease_token witness_running \<noteq> Some (jl_lease_token (witness_lease\<lparr>jl_lease_token := 8\<rparr>))"
    by (simp_all add: witness_defs)
  then show ?thesis using stale_attempt_changes_nothing [OF queued_store_job(2,1)] by blast
qed

theorem acknowledge_clears_failures_witness:
  "fst (ingest_failure_summary plain_inbox_ops (inbox_store [] [inbox_row ''failed_terminal''] witness_media)) = 1 \<and>
   acknowledge_ingest_failures plain_inbox_ops [] (inbox_store [] [inbox_row ''failed_terminal''] witness_media) =
     (inbox_store [] [inbox_row ''failed_terminal''] witness_media, False)"
proof -
  let ?s = "inbox_store [] [inbox_row ''failed_terminal''] witness_media"
  have one: "fst (ingest_failure_summary plain_inbox_ops ?s) = 1" "[] \<noteq> snd (ingest_failure_summary plain_inbox_ops ?s)"
    by (simp_all add: ingest_failure_summary_def failure_revision_def inbox_store_def inbox_row_def pending_failure_def
        plain_inbox_ops_def)
  then show ?thesis using acknowledge_clears_failures [of plain_inbox_ops ?s "[]"] by simp
qed

lemma witness_loaded:
  assumes "lit st = ingest_status_as_str x" and "x \<in> {IngestQueued, DuplicatePending}"
  obtains q where "load_request plain_inbox_ops 1 (inbox_store jobs [inbox_row st] m) = Inr q" "into_ingest plain_inbox_ops (inbox_row st) = Inr q"
    "input_data plain_ingest_codec q = Inr witness_data" "ing_status q = x"
proof -
  let ?s = "inbox_store jobs [inbox_row st] m"
  have inv: "ingest_inv plain_ingest_codec (inbox_row st)" using assms by (rule inbox_row_inv)
  have r: "ingests_ok (io_codec plain_inbox_ops) ?s" "inbox_row st \<in> set (st_ingests ?s)"
    by (simp_all add: inbox_store_ok inv) (simp add: inbox_store_def)
  obtain q where q: "load_request plain_inbox_ops (iw_id (inbox_row st)) ?s = Inr q" "into_ingest plain_inbox_ops (inbox_row st) = Inr q"
    "ing_original_input q = iw_input_json (inbox_row st)"
    using load_request_total [OF _ r] plain_ingest_codec_laws by auto
  have "iw_id (inbox_row st) = 1" "iw_input_json (inbox_row st) = witness_json" "iw_state (inbox_row st) = lit st"
    by (simp_all add: inbox_row_def)
  with q that [of q] witness_decode assms(1) into_ingest_fields(3) [OF q(2)] show ?thesis by (simp add: input_data_def)
qed

lemma witness_fits:
  "\<exists>v. data_encode plain_ingest_codec (witness_data\<lparr>id_duplicate_decision := Some \<lparr>dd_version = 1, dd_kind = DecisionAccepted, dd_media_id = 4\<rparr>\<rparr>) = Inr v"
  "\<exists>v. data_encode plain_ingest_codec (witness_data\<lparr>id_inspection := Some witness_inspection\<rparr>) = Inr v"
  by (simp_all add: data_encode_def validate_ref_def validate_extensions_def plain_ingest_codec_def MAX_INGEST_DATA_BYTES_def
      witness_data_defs enc_decision_def enc_inspection_def witness_inspection_def
      DUPLICATE_DECISION_VERSION_def)

lemma witness_accepted:
  "\<exists>s1 q. accept_duplicate plain_inbox_ops (senv 6 21) 1 4 pending_store = (s1, Inr (q, False)) \<and> ing_status q = Storing"
proof -
  obtain q where q: "load_request plain_inbox_ops 1 pending_store = Inr q" "into_ingest plain_inbox_ops (inbox_row ''duplicate_pending'') = Inr q"
    "input_data plain_ingest_codec q = Inr witness_data" "ing_status q = DuplicatePending"
    using witness_loaded [of "''duplicate_pending''" DuplicatePending "[]" witness_media] by auto
  obtain v where v: "data_encode plain_ingest_codec (witness_data\<lparr>id_duplicate_decision := Some \<lparr>dd_version = 1, dd_kind = DecisionAccepted, dd_media_id = 4\<rparr>\<rparr>) = Inr v"
    using witness_fits(1) by blast
  have "ing_duplicate_evidence q = Some JNull" using into_ingest_fields(6) [OF q(2)] by (simp add: inbox_row_def)
  then have ev: "evidenced_candidate plain_inbox_ops q 4 = Inr ()"
    by (simp add: evidenced_candidate_def plain_inbox_ops_def)
  have st: "available_candidate 4 pending_store = Inr StoragePending"
    by (simp add: available_candidate_def select_media_def select_one_def inbox_store_def witness_media_def
        media_storage_state_try_from_def)
  have up: "\<exists>rows s2. update_media_rows (\<lambda>m. mw_id m = 4) (accepted_duplicate (se_db (senv 6 21)) q) InboxDatabase pending_store = Inr (s2, rows)"
    by (simp add: update_media_rows_def returning_def inbox_store_def witness_media_def accepted_duplicate_def media_check_def
        size_check_def preview_check_def in_i32_def)
  have rec: "record_acceptance plain_inbox_ops q 4 = Inr (q\<lparr>ing_media_id := Some 4, ing_original_input := v\<rparr>)"
    using v q(3) by (simp add: record_acceptance_def set_input_data_def)
  have none: "id_duplicate_decision witness_data = None" by (simp add: witness_data_def ingest_data_new_def)
  have step: "can_transition_to DuplicatePending Storing"
    by (simp add: can_transition_to_def ingest_is_terminal_def pipeline_edges_def)
  show ?thesis
    using up q ev st rec none step
    by (auto simp: accept_duplicate_def accept_duplicate_tx_def in_transaction_def finish_acceptance_def Let_def follow_step)
qed

theorem duplicate_decision_exclusive_witness:
  "\<exists>s1 q. accept_duplicate plain_inbox_ops (senv 6 21) 1 4 pending_store = (s1, Inr (q, False)) \<and>
     force_save plain_inbox_ops (senv 9 22) 1 s1 = (s1, Inl (ForceSaveNotAllowed Storing))"
proof -
  obtain s1 q where one: "accept_duplicate plain_inbox_ops (senv 6 21) 1 4 pending_store = (s1, Inr (q, False))" "ing_status q = Storing"
    using witness_accepted by blast
  have laws: "ingest_codec_laws (io_codec plain_inbox_ops)" by (simp add: plain_ingest_codec_laws)
  show ?thesis
    using duplicate_decision_exclusive [OF laws pending_store_ok, of "senv 6 21" 1 4 s1 q "senv 9 22"] one by auto
qed

definition cleaned_media :: media_row where
  "cleaned_media = witness_media\<lparr>mw_storage_state := lit ''missing'', mw_local_work_path := Some (lit ''w'')\<rparr>"

lemma cleaned_media_inv: "media_inv cleaned_media"
  by (simp add: cleaned_media_def media_inv_def media_check_def size_check_def preview_check_def witness_media_def in_i32_def)

definition cleaned_row :: ingest_row where
  "cleaned_row = (inbox_row ''duplicate_pending'')\<lparr>iw_media_id := Some 4\<rparr>"

lemma cleaned_row_inv: "ingest_inv plain_ingest_codec cleaned_row"
  using inbox_row_inv [of "''duplicate_pending''" DuplicatePending]
  by (auto simp: cleaned_row_def ingest_inv_def intent_check_def inbox_row_def ingest_shape_def)

abbreviation cleaned_store :: "plain_value store" where
  "cleaned_store \<equiv> inbox_store [witness_running] [cleaned_row] cleaned_media"

lemma witness_cleanup:
  "\<exists>s1. begin_workspace_cleanup plain_inbox_ops (senv 6 21) witness_lease (iw_id cleaned_row) 2 cleaned_store = (s1, Inr CleanupReady)"
  by (simp add: begin_workspace_cleanup_def begin_workspace_cleanup_tx_def in_transaction_def holds_attempt_def select_one_def
      current_attempt_def select_ingest_def inbox_store_def cleaned_row_def inbox_row_def witness_defs senv_def active_job_for_def
      state_allows_cleanup_def storage_allows_cleanup_def select_media_def cleaned_media_def witness_media_def
      media_storage_state_try_from_def reclaim_workspace_def update_media_rows_def returning_def media_check_def size_check_def
      preview_check_def in_i32_def)

theorem workspace_reclaimed_safely_witness:
  "\<exists>s1. begin_workspace_cleanup plain_inbox_ops (senv 6 21) witness_lease 1 2 cleaned_store = (s1, Inr CleanupReady) \<and>
     reset_storage_upload plain_store_ops (senv 7 0) 4 s1 = (s1, Inl (WorkspaceReclaimed 4))"
proof -
  obtain s1 where one: "begin_workspace_cleanup plain_inbox_ops (senv 6 21) witness_lease (iw_id cleaned_row) 2 cleaned_store = (s1, Inr CleanupReady)"
    using witness_cleanup by blast
  have r: "cleaned_row \<in> set (st_ingests cleaned_store)" "iw_id cleaned_row = 1" "iw_workspace_id cleaned_row = 2"
    "iw_media_id cleaned_row = Some 4" "cleaned_media \<in> set (st_media cleaned_store)" "mw_id cleaned_media = 4"
    by (simp_all add: inbox_store_def cleaned_row_def inbox_row_def cleaned_media_def witness_media_def)
  have ok: "ingests_ok (io_codec plain_inbox_ops) cleaned_store" using inbox_store_ok [OF cleaned_row_inv] by simp
  from workspace_reclaimed_safely [OF inbox_store_media [OF cleaned_media_inv] ok r(1) one,
      of plain_store_ops "senv 7 0"] one r show ?thesis by (auto simp: list_all_iff)
qed

lemma witness_at_work:
  "\<exists>q. at_work plain_inbox_ops plain_codec (senv 6 21) 1 witness_lease witness_running q witness_data queued_store \<and>
     ing_status q = IngestQueued"
proof -
  obtain q where "load_request plain_inbox_ops 1 queued_store = Inr q" "input_data plain_ingest_codec q = Inr witness_data"
    "ing_status q = IngestQueued"
    using witness_loaded [of "''queued''" IngestQueued "[witness_running]" witness_media] by auto
  moreover have "current_attempt (se_db (senv 6 21)) witness_lease witness_running"
    by (simp add: current_attempt_def witness_defs senv_def)
  ultimately show ?thesis using queued_store_job by (auto simp: at_work_def)
qed

theorem pipeline_hands_on_witness:
  "\<exists>s' q'. complete_source_inspection plain_inbox_ops (senv 6 21) 1 witness_lease witness_inspection queued_store = (s', Inr q') \<and>
     ing_status q' = Downloading \<and>
     list_ex (\<lambda>r. jr_kind r = lit ''download_source'' \<and> jr_state r = lit ''queued'') (st_jobs s')"
proof -
  obtain q where q: "at_work plain_inbox_ops plain_codec (senv 6 21) 1 witness_lease witness_running q witness_data queued_store"
    "ing_status q = IngestQueued" using witness_at_work by blast
  obtain v where v: "data_encode plain_ingest_codec (witness_data\<lparr>id_inspection := Some witness_inspection\<rparr>) = Inr v"
    using witness_fits(2) by blast
  have "job_ids_fresh (senv 6 21) [stage_key plain_inbox_ops q (lit ''download_source:v1'')] (st_jobs queued_store)"
    by (simp add: job_ids_fresh_def inbox_store_def senv_def witness_defs stage_key_def stage_dedupe_key_def
        plain_store_ops_def plain_ops_def)
  with q v pipeline_hands_on [OF _ q(1), of witness_inspection v] plain_ingest_codec_laws
  obtain s' q' where "complete_source_inspection plain_inbox_ops (senv 6 21) 1 witness_lease witness_inspection queued_store = (s', Inr q')"
    "ing_status q' = Downloading"
    and h: "handed_on plain_inbox_ops (senv 6 21) witness_running 1 Downloading (witness_data\<lparr>id_inspection := Some witness_inspection\<rparr>)
      (stage_key plain_inbox_ops q (lit ''download_source:v1''))
      (DownloadSource \<lparr>dsp_ingest_id = 1, dsp_inspection = witness_inspection\<rparr>) queued_store s'" by fastforce
  moreover have "\<not> has_key (stage_key plain_inbox_ops q (lit ''download_source:v1'')) (st_jobs queued_store)"
    by (simp add: has_key_def inbox_store_def witness_defs)
  ultimately show ?thesis by (auto simp: handed_on_def next_job_def list_ex_iff)
qed

end
