(* ===== verification/Publication_Intents.thy ===== *)
theory Publication_Intents
  imports Publication_Lifecycle
begin

text \<open>
  The operations of \<open>crates/persistence/src/publisher.rs\<close> that create rows: channels and their
  settings, drafts, the intended post of a direct request and of an ingest, with the check for
  repeated publications of the same media. \<open>post_id\<close> and \<open>channel_id\<close> are the identifiers of
  \<open>Uuid::now_v7()\<close>. The advisory locks serialise the operations, as the model does.
\<close>

section \<open>Channels\<close>

text \<open>\<open>UNIQUE (telegram_chat_id)\<close> and the primary key.\<close>

definition channel_conflict :: "channel list \<Rightarrow> channel \<Rightarrow> bool" where
  "channel_conflict cs c \<longleftrightarrow> list_ex (\<lambda>d. ch_id d = ch_id c \<or> ch_telegram_chat_id d = ch_telegram_chat_id c) cs"

definition new_channel_row :: "db_env \<Rightarrow> uuid \<Rightarrow> new_channel \<Rightarrow> channel" where
  "new_channel_row env channel_id c =
     \<lparr>ch_id = channel_id, ch_name = nc_name c, ch_telegram_chat_id = nc_telegram_chat_id c,
      ch_is_enabled = True, ch_time_zone = nc_time_zone c, ch_window_start = nc_window_start c,
      ch_window_end = nc_window_end c, ch_interval_minutes = nc_interval_minutes c,
      ch_default_parse_mode = nc_default_parse_mode c,
      ch_default_disable_notification = nc_default_disable_notification c,
      ch_created_at = env_now env, ch_updated_at = env_now env\<rparr>"

definition insert_channel ::
  "db_env \<Rightarrow> uuid \<Rightarrow> new_channel \<Rightarrow> 'v publisher_db \<Rightarrow> ('v, channel) publisher_tx" where
  "insert_channel env channel_id c db =
     (let row = new_channel_row env channel_id c in
      if channel_conflict (db_channels db) row then Inl PublisherDatabase
      else Inr (db\<lparr>db_channels := db_channels db @ [row]\<rparr>, row))"

text \<open>A channel row and a channel have the same fields.\<close>

definition into_channel :: "channel \<Rightarrow> publisher_repository_error + channel" where
  "into_channel row = Inr row"

definition validate_channel :: "('v, 'tz) publisher_ops \<Rightarrow> new_channel \<Rightarrow> publisher_repository_error + unit" where
  "validate_channel ops c = map_err ChannelValidation (channel_validate (parse_tz (op_tz ops)) c)"

definition create_channel ::
  "('v, 'tz) publisher_ops \<Rightarrow> db_env \<Rightarrow> uuid \<Rightarrow> new_channel \<Rightarrow> 'v publisher_db \<Rightarrow>
   'v publisher_db \<times> (publisher_repository_error + channel)" where
  "create_channel ops env channel_id c db =
     commit db (rbind (validate_channel ops c) (\<lambda>_. insert_channel env channel_id c db)) into_channel"

definition create_channel_unambiguous ::
  "('v, 'tz) publisher_ops \<Rightarrow> db_env \<Rightarrow> uuid \<Rightarrow> new_channel \<Rightarrow> 'v publisher_db \<Rightarrow>
   'v publisher_db \<times> (publisher_repository_error + channel)" where
  "create_channel_unambiguous ops env channel_id c db =
     commit db
       (rbind (validate_channel ops c) (\<lambda>_.
          if list_ex ch_is_enabled (db_channels db) then Inl ChannelEnablementAmbiguous
          else insert_channel env channel_id c db)) into_channel"

definition find_channel :: "uuid \<Rightarrow> 'v publisher_db \<Rightarrow> publisher_repository_error + channel option" where
  "find_channel i db =
     (case select_one (\<lambda>c. ch_id c = i) (db_channels db) of
        None \<Rightarrow> Inr None
      | Some row \<Rightarrow> map_ok Some (into_channel row))"

definition update_is_empty :: "channel_update \<Rightarrow> bool" where
  "update_is_empty u \<longleftrightarrow>
     cu_name u = None \<and> cu_telegram_chat_id u = None \<and> cu_is_enabled u = None \<and> cu_time_zone u = None \<and>
     cu_window_start u = None \<and> cu_window_end u = None \<and> cu_interval_minutes u = None \<and>
     cu_default_parse_mode u = None \<and> cu_default_disable_notification u = None"

definition channel_candidate :: "channel_update \<Rightarrow> channel \<Rightarrow> new_channel" where
  "channel_candidate u current =
     \<lparr>nc_name = unwrap_or (map_option trim (cu_name u)) (ch_name current),
      nc_telegram_chat_id = unwrap_or (cu_telegram_chat_id u) (ch_telegram_chat_id current),
      nc_time_zone = unwrap_or (map_option trim (cu_time_zone u)) (ch_time_zone current),
      nc_window_start = unwrap_or (cu_window_start u) (ch_window_start current),
      nc_window_end = unwrap_or (cu_window_end u) (ch_window_end current),
      nc_interval_minutes = unwrap_or (cu_interval_minutes u) (ch_interval_minutes current),
      nc_default_parse_mode = unwrap_or (cu_default_parse_mode u) (ch_default_parse_mode current),
      nc_default_disable_notification =
        unwrap_or (cu_default_disable_notification u) (ch_default_disable_notification current)\<rparr>"

definition updated_channel :: "db_env \<Rightarrow> new_channel \<Rightarrow> bool \<Rightarrow> channel \<Rightarrow> channel" where
  "updated_channel env c is_enabled row =
     row\<lparr>ch_name := nc_name c, ch_telegram_chat_id := nc_telegram_chat_id c, ch_is_enabled := is_enabled,
         ch_time_zone := nc_time_zone c, ch_window_start := nc_window_start c,
         ch_window_end := nc_window_end c, ch_interval_minutes := nc_interval_minutes c,
         ch_default_parse_mode := nc_default_parse_mode c,
         ch_default_disable_notification := nc_default_disable_notification c,
         ch_updated_at := env_now env\<rparr>"

text \<open>\<open>UPDATE channels ... WHERE id = $1\<close>; the chat id of another channel violates the unique key.\<close>

definition write_channel :: "channel \<Rightarrow> 'v publisher_db \<Rightarrow> ('v, channel) publisher_tx" where
  "write_channel row db =
     (if list_ex (\<lambda>c. ch_id c \<noteq> ch_id row \<and> ch_telegram_chat_id c = ch_telegram_chat_id row) (db_channels db)
      then Inl PublisherDatabase
      else Inr (db\<lparr>db_channels := update_where (\<lambda>c. ch_id c = ch_id row) (\<lambda>_. row) (db_channels db)\<rparr>, row))"

definition update_channel_tx ::
  "('v, 'tz) publisher_ops \<Rightarrow> db_env \<Rightarrow> uuid \<Rightarrow> channel_update \<Rightarrow> 'v publisher_db \<Rightarrow>
   ('v, channel) publisher_tx" where
  "update_channel_tx ops env i u db =
     (if update_is_empty u then Inl EmptyChannelUpdate
      else rbind (lock_channel db i) (\<lambda>current.
        if (case cu_expected_updated_at u of None \<Rightarrow> False | Some e \<Rightarrow> e \<noteq> ch_updated_at current)
        then Inl (ChannelOptimisticConflict i)
        else let candidate = channel_candidate u current in
          rbind (validate_channel ops candidate) (\<lambda>_.
            let is_enabled = unwrap_or (cu_is_enabled u) (ch_is_enabled current) in
            if is_enabled \<and> list_ex (\<lambda>c. ch_is_enabled c \<and> ch_id c \<noteq> i) (db_channels db)
            then Inl ChannelEnablementAmbiguous
            else write_channel (updated_channel env candidate is_enabled current) db)))"

definition update_channel ::
  "('v, 'tz) publisher_ops \<Rightarrow> db_env \<Rightarrow> uuid \<Rightarrow> channel_update \<Rightarrow> 'v publisher_db \<Rightarrow>
   'v publisher_db \<times> (publisher_repository_error + channel)" where
  "update_channel ops env i u db = commit db (update_channel_tx ops env i u db) into_channel"

text \<open>\<open>SELECT id FROM channels WHERE is_enabled ORDER BY id LIMIT 2\<close>.\<close>

definition enabled_channel_candidates :: "'v publisher_db \<Rightarrow> uuid list" where
  "enabled_channel_candidates db = take 2 (sort (map ch_id (filter ch_is_enabled (db_channels db))))"

definition single_enabled_channel :: "'v publisher_db \<Rightarrow> publisher_repository_error + uuid" where
  "single_enabled_channel db =
     (case enabled_channel_candidates db of
        [] \<Rightarrow> Inl PublicationChannelNotConfigured
      | [channel_id] \<Rightarrow> Inr channel_id
      | _ \<Rightarrow> Inl PublicationChannelAmbiguous)"

section \<open>Inserting posts\<close>

text \<open>The defaults of the columns of \<open>posts\<close>.\<close>

definition default_post :: "db_env \<Rightarrow> uuid \<Rightarrow> uuid \<Rightarrow> uuid \<Rightarrow> 'v post_row" where
  "default_post env post_id media_id channel_id =
     \<lparr>pw_id = post_id, pw_request_key = None, pw_request_hash = None, pw_origin_ingest_id = None,
      pw_requested_action = lit ''queue'', pw_requested_publish_at = None, pw_repeat_evidence = None,
      pw_decision_request_key = None, pw_decision_request_hash = None, pw_schedule_request_key = None,
      pw_schedule_request_hash = None, pw_media_id = media_id, pw_channel_id = channel_id,
      pw_state = lit ''draft'', pw_caption = None, pw_parse_mode = None, pw_disable_notification = False,
      pw_scheduled_at = env_now env, pw_cadence_slot_at = None, pw_send_generation = 0,
      pw_send_token = None, pw_send_started_at = None, pw_telegram_message_id = None,
      pw_published_at = None, pw_error_class = None, pw_error_message = None,
      pw_created_at = env_now env, pw_updated_at = env_now env, pw_revision = 0\<rparr>"

definition same_request_key :: "'v post_row \<Rightarrow> 'v post_row \<Rightarrow> bool" where
  "same_request_key row p \<longleftrightarrow> pw_request_key row \<noteq> None \<and> pw_request_key p = pw_request_key row"

definition same_origin :: "'v post_row \<Rightarrow> 'v post_row \<Rightarrow> bool" where
  "same_origin row p \<longleftrightarrow> pw_origin_ingest_id row \<noteq> None \<and> pw_origin_ingest_id p = pw_origin_ingest_id row"

text \<open>The CHECK constraints on the request of a post.\<close>

definition request_check :: "('v, 'tz) publisher_ops \<Rightarrow> 'v post_row \<Rightarrow> bool" where
  "request_check ops row \<longleftrightarrow>
     pw_requested_action row \<in> {lit ''queue'', lit ''post_now''} \<and>
     (pw_requested_action row \<noteq> lit ''post_now'' \<or> pw_requested_publish_at row = None) \<and>
     (case pw_repeat_evidence row of None \<Rightarrow> True | Some v \<Rightarrow> op_value_text_length ops v \<le> 16384)"

definition insert_post ::
  "('v, 'tz) publisher_ops \<Rightarrow> 'v post_row \<Rightarrow> 'v publisher_db \<Rightarrow> ('v, 'v post_row) publisher_tx" where
  "insert_post ops row db =
     (if list_ex (\<lambda>p. pw_id p = pw_id row \<or> same_request_key row p \<or> same_origin row p) (db_posts db)
      then Inl PublisherDatabase
      else if \<not> request_check ops row then Inl PublisherDatabase
      else Inr (db\<lparr>db_posts := db_posts db @ [row]\<rparr>, row))"

record new_post =
  np_media_id :: uuid
  np_channel_id :: uuid
  np_caption :: "ustring option"
  np_parse_mode :: "ustring option"
  np_disable_notification :: bool

definition validate_post :: "new_post \<Rightarrow> publisher_repository_error + unit" where
  "validate_post post =
     rbind (case np_caption post of
              Some caption \<Rightarrow> map_err Validation (validate_caption caption)
            | None \<Rightarrow> Inr ()) (\<lambda>_.
       case np_parse_mode post of
         Some parse_mode \<Rightarrow> if \<not> valid_parse_mode parse_mode then Inl (Validation InvalidParseMode) else Inr ()
       | None \<Rightarrow> Inr ())"

definition validate_media_and_channel ::
  "'v publisher_db \<Rightarrow> uuid \<Rightarrow> uuid \<Rightarrow> publisher_repository_error + unit" where
  "validate_media_and_channel db media_id channel_id =
     (if \<not> list_ex (\<lambda>m. fst m = media_id) (db_media db) then Inl (MediaMissing media_id)
      else rbind (lock_channel db channel_id) (\<lambda>channel.
        if \<not> ch_is_enabled channel then Inl (ChannelDisabled channel_id) else Inr ()))"

definition select_request :: "ustring \<Rightarrow> 'v publisher_db \<Rightarrow> 'v post_row option" where
  "select_request key db = select_one (\<lambda>p. pw_request_key p = Some key) (db_posts db)"

record create_post_result =
  cr_post :: post
  cr_created :: bool

definition create_result ::
  "('v, 'tz) publisher_ops \<Rightarrow> 'v post_row \<times> bool \<Rightarrow> publisher_repository_error + create_post_result" where
  "create_result ops = (\<lambda>(row, created). map_ok (\<lambda>post. \<lparr>cr_post = post, cr_created = created\<rparr>) (into_post ops row))"

text \<open>A request seen before: its post, or a conflict if the hash differs.\<close>

definition replay_request ::
  "u8 list \<Rightarrow> ustring \<Rightarrow> 'v post_row \<Rightarrow> 'v publisher_db \<Rightarrow> ('v, 'v post_row \<times> bool) publisher_tx" where
  "replay_request request_hash key existing db =
     (if pw_request_hash existing \<noteq> Some request_hash then Inl (RequestKeyConflict key)
      else Inr (db, (existing, False)))"

definition requested_draft ::
  "db_env \<Rightarrow> uuid \<Rightarrow> new_post \<Rightarrow> ustring \<Rightarrow> u8 list \<Rightarrow> 'v post_row" where
  "requested_draft env post_id post key request_hash =
     (default_post env post_id (np_media_id post) (np_channel_id post))
       \<lparr>pw_request_key := Some key, pw_request_hash := Some request_hash, pw_caption := np_caption post,
        pw_parse_mode := np_parse_mode post, pw_disable_notification := np_disable_notification post\<rparr>"

text \<open>\<open>ON CONFLICT (request_key) DO NOTHING\<close>, then the existing row.\<close>

definition create_post_tx ::
  "('v, 'tz) publisher_ops \<Rightarrow> db_env \<Rightarrow> uuid \<Rightarrow> new_post \<Rightarrow> ustring \<Rightarrow> u8 list \<Rightarrow> 'v publisher_db \<Rightarrow>
   ('v, 'v post_row \<times> bool) publisher_tx" where
  "create_post_tx ops env post_id post request_key request_hash db =
     rbind (validate_post post) (\<lambda>_.
     rbind (map_err Validation (normalize_request_key request_key)) (\<lambda>key.
     rbind (validate_media_and_channel db (np_media_id post) (np_channel_id post)) (\<lambda>_.
       case select_request key db of
         None \<Rightarrow> map_ok (\<lambda>(db, row). (db, (row, True)))
                   (insert_post ops (requested_draft env post_id post key request_hash) db)
       | Some existing \<Rightarrow> replay_request request_hash key existing db)))"

definition create_post_idempotent ::
  "('v, 'tz) publisher_ops \<Rightarrow> db_env \<Rightarrow> uuid \<Rightarrow> new_post \<Rightarrow> ustring \<Rightarrow> u8 list \<Rightarrow> 'v publisher_db \<Rightarrow>
   'v publisher_db \<times> (publisher_repository_error + create_post_result)" where
  "create_post_idempotent ops env post_id post request_key request_hash db =
     commit db (create_post_tx ops env post_id post request_key request_hash db) (create_result ops)"

section \<open>Repeated publications\<close>

definition telegram_message_link :: "int \<Rightarrow> int \<Rightarrow> ustring" where
  "telegram_message_link chat_id message_id =
     (let chat = int_text chat_id;
          chat = unwrap_or (strip_prefix (lit ''-100'') chat) chat in
      lit ''https://t.me/c/'' @ chat @ lit ''/'' @ int_text message_id)"

definition telegram_message_link_optional :: "int option \<Rightarrow> int option \<Rightarrow> ustring option" where
  "telegram_message_link_optional chat_id message_id =
     (case (chat_id, message_id) of
        (Some c, Some m) \<Rightarrow> if c < 0 \<and> m > 0 then Some (telegram_message_link c m) else None
      | _ \<Rightarrow> None)"

record repeat_conflict_row =
  rr_id :: uuid
  rr_state :: ustring
  rr_scheduled_at :: "timestamp option"
  rr_published_at :: "timestamp option"
  rr_telegram_message_id :: "int option"
  rr_telegram_chat_id :: int

definition REPEAT_WINDOW :: int where
  "REPEAT_WINDOW = 14 * 86400 * 1000000000"

text \<open>The posts that make another publication of the media a repeat.\<close>

definition repeats :: "uuid \<Rightarrow> timestamp \<Rightarrow> uuid \<Rightarrow> 'v post_row \<Rightarrow> bool" where
  "repeats media_id intended_at post_id p \<longleftrightarrow>
     pw_media_id p = media_id \<and> pw_id p \<noteq> post_id \<and>
     (pw_state p \<in> {lit ''queued'', lit ''sending''} \<or>
      pw_state p = lit ''published'' \<and>
        (case pw_published_at p of
           None \<Rightarrow> False
         | Some at \<Rightarrow> intended_at - REPEAT_WINDOW < at \<and> at < intended_at))"

definition repeat_row :: "'v publisher_db \<Rightarrow> 'v post_row \<Rightarrow> repeat_conflict_row option" where
  "repeat_row db p =
     map_option (\<lambda>c. \<lparr>rr_id = pw_id p, rr_state = pw_state p, rr_scheduled_at = Some (pw_scheduled_at p),
                      rr_published_at = pw_published_at p, rr_telegram_message_id = pw_telegram_message_id p,
                      rr_telegram_chat_id = ch_telegram_chat_id c\<rparr>)
       (select_one (\<lambda>c. ch_id c = pw_channel_id p) (db_channels db))"

definition repeat_conflict_of :: "repeat_conflict_row \<Rightarrow> publisher_repository_error + repeat_conflict" where
  "repeat_conflict_of row =
     rbind (map_err InvalidState (post_state_try_from (rr_state row))) (\<lambda>state.
     rbind (ok_or (case rr_published_at row of Some at \<Rightarrow> Some at | None \<Rightarrow> rr_scheduled_at row)
              (InvalidRepeatEvidenceTimestamp (rr_id row))) (\<lambda>at.
       Inr \<lparr>rc_post_id = rr_id row, rc_state = state, rc_at = at,
            rc_target_message_link =
              (if state = Published
               then map_option (telegram_message_link (rr_telegram_chat_id row)) (rr_telegram_message_id row)
               else None)\<rparr>))"

text \<open>The rows of the join in the order of \<open>COALESCE(published_at, scheduled_at), id\<close>, at most eight.\<close>

definition repeat_rows :: "'v publisher_db \<Rightarrow> uuid \<Rightarrow> timestamp \<Rightarrow> uuid \<Rightarrow> repeat_conflict_row list" where
  "repeat_rows db media_id intended_at post_id =
     take MAX_REPEAT_EVIDENCE_CONFLICTS
       (List.map_filter (repeat_row db)
         (sort_key (\<lambda>p. (unwrap_or (pw_published_at p) (pw_scheduled_at p), pw_id p))
           (filter (repeats media_id intended_at post_id) (db_posts db))))"

definition find_repeat_conflicts ::
  "'v publisher_db \<Rightarrow> uuid \<Rightarrow> timestamp \<Rightarrow> uuid \<Rightarrow> publisher_repository_error + repeat_conflict list" where
  "find_repeat_conflicts db media_id intended_at post_id =
     collect_results (map repeat_conflict_of (repeat_rows db media_id intended_at post_id))"

section \<open>Intended posts\<close>

record intended_post_input =
  ip_request_key :: ustring
  ip_request_hash :: "u8 list"
  ip_origin_ingest_id :: "uuid option"
  ip_media_id :: uuid
  ip_channel :: channel
  ip_intent :: publication_intent
  ip_post_id :: uuid
  ip_now :: timestamp

definition evaluation_time ::
  "('v, 'tz) publisher_ops \<Rightarrow> db_env \<Rightarrow> intended_post_input \<Rightarrow> 'v publisher_db \<Rightarrow>
   publisher_repository_error + timestamp" where
  "evaluation_time ops env input db =
     (case (pi_action (ip_intent input), pi_requested_publish_at (ip_intent input)) of
        (PostNowPublication, None) \<Rightarrow> Inr (ip_now input)
      | (PostNowPublication, Some _) \<Rightarrow> Inl (Validation PostNowTimeNotAllowed)
      | (QueuePublication, Some requested_at) \<Rightarrow>
          if requested_at \<le> ip_now input then Inl ExactScheduleInPast else Inr requested_at
      | (QueuePublication, None) \<Rightarrow>
          next_free_slot ops env db (ip_channel input) (ip_post_id input) (ip_now input))"

definition repeat_value ::
  "('v, 'tz) publisher_ops \<Rightarrow> repeat_conflict list \<Rightarrow> publisher_repository_error + 'v option" where
  "repeat_value ops conflicts =
     (if conflicts = [] then Inr None
      else rbind (ok_or (op_evidence_to_value ops \<lparr>re_conflicts = conflicts\<rparr>) Serialization) (\<lambda>value.
        if op_value_length ops value > MAX_REPEAT_EVIDENCE_BYTES
        then Inl (RepeatEvidenceTooLarge MAX_REPEAT_EVIDENCE_BYTES)
        else Inr (Some value)))"

definition intended_row ::
  "db_env \<Rightarrow> intended_post_input \<Rightarrow> timestamp \<Rightarrow> 'v option \<Rightarrow> 'v post_row" where
  "intended_row env input evaluation_at evidence =
     (default_post env (ip_post_id input) (ip_media_id input) (ch_id (ip_channel input)))
       \<lparr>pw_request_key := Some (ip_request_key input), pw_request_hash := Some (ip_request_hash input),
        pw_origin_ingest_id := ip_origin_ingest_id input,
        pw_requested_action := publication_action_as_str (pi_action (ip_intent input)),
        pw_requested_publish_at := pi_requested_publish_at (ip_intent input),
        pw_repeat_evidence := evidence,
        pw_state := (if evidence \<noteq> None then lit ''draft'' else lit ''queued''),
        pw_caption := pi_caption (ip_intent input),
        pw_parse_mode := ch_default_parse_mode (ip_channel input),
        pw_disable_notification := ch_default_disable_notification (ip_channel input),
        pw_scheduled_at := evaluation_at,
        pw_cadence_slot_at :=
          (if evidence = None \<and> pi_action (ip_intent input) = QueuePublication \<and>
              pi_requested_publish_at (ip_intent input) = None
           then Some evaluation_at else None)\<rparr>"

definition insert_intended_post ::
  "('v, 'tz) publisher_ops \<Rightarrow> db_env \<Rightarrow> intended_post_input \<Rightarrow> 'v publisher_db \<Rightarrow>
   ('v, 'v post_row) publisher_tx" where
  "insert_intended_post ops env input db =
     rbind (evaluation_time ops env input db) (\<lambda>evaluation_at.
     rbind (find_repeat_conflicts db (ip_media_id input) evaluation_at (ip_post_id input)) (\<lambda>conflicts.
     rbind (repeat_value ops conflicts) (\<lambda>evidence.
     rbind (insert_post ops (intended_row env input evaluation_at evidence) db) (\<lambda>(db, row).
       map_ok (\<lambda>db. (db, row))
         (if evidence = None then insert_publish_job ops env (pw_id row) evaluation_at (pw_revision row) db
          else Inr db)))))"

definition publication_intent_hash ::
  "('v, 'tz) publisher_ops \<Rightarrow> uuid \<Rightarrow> publication_intent \<Rightarrow> publisher_repository_error + u8 list" where
  "publication_intent_hash ops media_id intent =
     map_ok (\<lambda>bytes. op_sha256 ops (utf8_bytes (lit ''publication_intent:v1:'') @ rev (to_le_bytes 16 media_id) @ bytes))
       (ok_or (op_intent_bytes ops intent) Serialization)"

definition lock_media_state :: "'v publisher_db \<Rightarrow> uuid \<Rightarrow> publisher_repository_error + ustring" where
  "lock_media_state db media_id =
     map_ok snd (ok_or (select_one (\<lambda>m. fst m = media_id) (db_media db)) (MediaMissing media_id))"

definition create_intent_tx ::
  "('v, 'tz) publisher_ops \<Rightarrow> db_env \<Rightarrow> uuid \<Rightarrow> uuid \<Rightarrow> publication_intent \<Rightarrow> ustring \<Rightarrow> 'v publisher_db \<Rightarrow>
   ('v, 'v post_row \<times> bool) publisher_tx" where
  "create_intent_tx ops env post_id media_id intent request_key db =
     rbind (map_err Validation (normalize_request_key request_key)) (\<lambda>key.
     rbind (publication_intent_hash ops media_id intent) (\<lambda>request_hash.
       case select_request key db of
         Some existing \<Rightarrow> replay_request request_hash key existing db
       | None \<Rightarrow>
           rbind (lock_media_state db media_id) (\<lambda>media_state.
           if media_state \<noteq> lit ''ready'' then Inl (MediaNotReady media_id media_state)
           else rbind (single_enabled_channel db) (\<lambda>channel_id.
             rbind (lock_channel db channel_id) (\<lambda>channel.
               map_ok (\<lambda>(db, row). (db, (row, True)))
                 (insert_intended_post ops env
                    \<lparr>ip_request_key = key, ip_request_hash = request_hash, ip_origin_ingest_id = None,
                     ip_media_id = media_id, ip_channel = channel, ip_intent = intent,
                     ip_post_id = post_id, ip_now = env_utc env\<rparr> db))))))"

definition create_publication_intent ::
  "('v, 'tz) publisher_ops \<Rightarrow> db_env \<Rightarrow> uuid \<Rightarrow> uuid \<Rightarrow> publication_intent \<Rightarrow> ustring \<Rightarrow> 'v publisher_db \<Rightarrow>
   'v publisher_db \<times> (publisher_repository_error + create_post_result)" where
  "create_publication_intent ops env post_id media_id intent request_key db =
     commit db (create_intent_tx ops env post_id media_id intent request_key db) (create_result ops)"

section \<open>The publication an ingest asked for\<close>

record materialization_ingest_row =
  mi_id :: uuid
  mi_state :: ustring
  mi_media_id :: "uuid option"
  mi_requested_action :: ustring
  mi_requested_publish_at :: "timestamp option"
  mi_requested_post_caption :: "ustring option"
  mi_requested_channel_id :: "uuid option"

record materialization_result =
  mr_post :: "post option"
  mr_created :: bool

definition ingest_publication_key :: "('v, 'tz) publisher_ops \<Rightarrow> uuid \<Rightarrow> ustring" where
  "ingest_publication_key ops ingest_id = lit ''ingest:'' @ op_uuid_text ops ingest_id @ lit '':publication:v1''"

definition ingest_intent ::
  "materialization_ingest_row \<Rightarrow> publisher_repository_error + publication_intent" where
  "ingest_intent ingest =
     rbind (map_err (\<lambda>_. InvalidPublicationAction (mi_requested_action ingest))
              (publication_action_try_from (mi_requested_action ingest))) (\<lambda>action.
       map_err Validation
         (intent_try_new action (mi_requested_publish_at ingest) (mi_requested_post_caption ingest)))"

definition insert_ingest_post ::
  "('v, 'tz) publisher_ops \<Rightarrow> db_env \<Rightarrow> uuid \<Rightarrow> materialization_ingest_row \<Rightarrow> 'v publisher_db \<Rightarrow>
   ('v, 'v post_row) publisher_tx" where
  "insert_ingest_post ops env post_id ingest db =
     rbind (ok_or (mi_media_id ingest) (IngestMediaMissing (mi_id ingest))) (\<lambda>media_id.
     rbind (lock_media_state db media_id) (\<lambda>media_state.
     if media_state \<noteq> lit ''ready'' then Inl (MediaNotReady media_id media_state)
     else rbind (ok_or (mi_requested_channel_id ingest) PublicationChannelNotConfigured) (\<lambda>channel_id.
       rbind (lock_channel db channel_id) (\<lambda>channel.
       rbind (ensure_channel_enabled channel) (\<lambda>_.
       rbind (ingest_intent ingest) (\<lambda>intent.
       rbind (publication_intent_hash ops media_id intent) (\<lambda>request_hash.
         insert_intended_post ops env
           \<lparr>ip_request_key = ingest_publication_key ops (mi_id ingest), ip_request_hash = request_hash,
            ip_origin_ingest_id = Some (mi_id ingest), ip_media_id = media_id, ip_channel = channel,
            ip_intent = intent, ip_post_id = post_id, ip_now = env_utc env\<rparr> db)))))))"

text \<open>\<open>ingest\<close> is the row \<open>SELECT ... FROM ingests WHERE id = $1\<close> returns.\<close>

definition materialize_tx ::
  "('v, 'tz) publisher_ops \<Rightarrow> db_env \<Rightarrow> uuid \<Rightarrow> uuid \<Rightarrow> materialization_ingest_row option \<Rightarrow>
   'v publisher_db \<Rightarrow> ('v, 'v post_row option \<times> bool) publisher_tx" where
  "materialize_tx ops env post_id ingest_id ingest db =
     rbind (ok_or ingest (IngestMissing ingest_id)) (\<lambda>ingest.
       if mi_requested_action ingest = lit ''save'' then Inr (db, (None, False))
       else if mi_state ingest \<noteq> lit ''completed'' then Inl (MaterializationNotReady ingest_id)
       else case select_one (\<lambda>p. pw_origin_ingest_id p = Some (mi_id ingest)) (db_posts db) of
              Some existing \<Rightarrow> Inr (db, (Some existing, False))
            | None \<Rightarrow> map_ok (\<lambda>(db, row). (db, (Some row, True))) (insert_ingest_post ops env post_id ingest db))"

definition materialization_outcome ::
  "('v, 'tz) publisher_ops \<Rightarrow> 'v post_row option \<times> bool \<Rightarrow> publisher_repository_error + materialization_result" where
  "materialization_outcome ops = (\<lambda>(row, created).
     (case row of
        None \<Rightarrow> Inr \<lparr>mr_post = None, mr_created = created\<rparr>
      | Some row \<Rightarrow> map_ok (\<lambda>post. \<lparr>mr_post = Some post, mr_created = created\<rparr>) (into_post ops row)))"

definition materialize_publication ::
  "('v, 'tz) publisher_ops \<Rightarrow> db_env \<Rightarrow> uuid \<Rightarrow> uuid \<Rightarrow> materialization_ingest_row option \<Rightarrow>
   'v publisher_db \<Rightarrow> 'v publisher_db \<times> (publisher_repository_error + materialization_result)" where
  "materialize_publication ops env post_id ingest_id ingest db =
     commit db (materialize_tx ops env post_id ingest_id ingest db) (materialization_outcome ops)"

end
