(* ===== verification/Publication_Requests.thy ===== *)
theory Publication_Requests
  imports Publication_Intents
begin

text \<open>
  What the creation of posts and channels promises: an inserted post joins the life cycle of
  \<open>Publication_Lifecycle\<close> and takes no slot another post holds; a request key and an ingest name one
  post for good; a repeated publication waits for a decision; at most one channel is enabled.
\<close>

section \<open>The requests of a table\<close>

text \<open>A column is unique where it is not NULL.\<close>

definition unique_column :: "('r \<Rightarrow> 'k option) \<Rightarrow> 'r list \<Rightarrow> bool" where
  "unique_column f t \<longleftrightarrow> distinct (List.map_filter f t)"

lemma unique_column_same: "map f t = map f u \<Longrightarrow> unique_column f t = unique_column f u"
proof -
  have "List.map_filter f t = List.map_filter id (map f t)" for t
    by (induction t) (auto simp: map_filter_simps split: option.splits)
  then show "map f t = map f u \<Longrightarrow> ?thesis" by (simp add: unique_column_def)
qed

lemma unique_column_append:
  "unique_column f (t @ [r]) \<longleftrightarrow> unique_column f t \<and> (f r \<noteq> None \<longrightarrow> (\<forall>s\<in>set t. f s \<noteq> f r))"
proof (cases "f r")
  case (Some k)
  have "k \<in> set (List.map_filter f t) \<longleftrightarrow> (\<exists>s\<in>set t. f s = Some k)"
    by (induction t) (auto simp: map_filter_simps split: option.splits)
  moreover have "List.map_filter f (t @ [r]) = List.map_filter f t @ [k]"
    using Some by (simp add: map_filter_def)
  ultimately show ?thesis using Some by (auto simp: unique_column_def)
qed (simp add: unique_column_def map_filter_def)

lemma unique_columnD:
  assumes "unique_column f t" and "distinct (map key t)" and "p \<in> set t" and "q \<in> set t" and "f p = Some k" and "f q = Some k"
  shows "p = q"
  using assms
proof (induction t)
  case (Cons r t)
  have "unique_column f t"
    using Cons.prems(1) by (auto simp: unique_column_def map_filter_simps split: option.splits)
  moreover have "f r = Some k \<Longrightarrow> s \<in> set t \<Longrightarrow> f s \<noteq> Some k" for s
    using Cons.prems(1) by (force simp: unique_column_def map_filter_def)
  ultimately show ?case using Cons by auto
qed simp

definition requests_unique :: "'v publisher_db \<Rightarrow> bool" where
  "requests_unique db \<longleftrightarrow>
     unique_column pw_request_key (db_posts db) \<and> unique_column pw_origin_ingest_id (db_posts db)"

definition publication_ok :: "('v, 'tz) publisher_ops \<Rightarrow> 'v publisher_db \<Rightarrow> bool" where
  "publication_ok ops db \<longleftrightarrow> publisher_ok ops db \<and> requests_unique db"

lemma identity_columns:
  fixes t u :: "'v post_row list"
  assumes "map post_identity t = map post_identity u"
  shows "map pw_request_key t = map pw_request_key u" "map pw_origin_ingest_id t = map pw_origin_ingest_id u"
proof -
  have "map pw_request_key t = map (\<lambda>i. fst (snd i)) (map post_identity t)" for t :: "'v post_row list"
    by (simp add: post_identity_def)
  from this [of t] this [of u] show "map pw_request_key t = map pw_request_key u" by (simp only: assms)
  have "map pw_origin_ingest_id t = map (\<lambda>i. fst (snd (snd (snd i)))) (map post_identity t)" for t :: "'v post_row list"
    by (simp add: post_identity_def)
  from this [of t] this [of u] show "map pw_origin_ingest_id t = map pw_origin_ingest_id u" by (simp only: assms)
qed

lemma requests_unique_same:
  fixes db db' :: "'v publisher_db"
  shows "map post_identity (db_posts db') = map post_identity (db_posts db) \<Longrightarrow> requests_unique db \<Longrightarrow> requests_unique db'"
  unfolding requests_unique_def
  using identity_columns [of "db_posts db'" "db_posts db"]
    unique_column_same [of pw_request_key "db_posts db'" "db_posts db"]
    unique_column_same [of pw_origin_ingest_id "db_posts db'" "db_posts db"] by blast

text \<open>One operation: the tables move, identities stay, and a post may be added.\<close>

definition publication_move :: "('v, 'tz) publisher_ops \<Rightarrow> 'v publisher_db \<Rightarrow> 'v publisher_db \<Rightarrow> bool" where
  "publication_move ops db db' \<longleftrightarrow>
     posts_change (db_posts db) (db_posts db') \<and> jobs_change ops (db_jobs db) (db_jobs db') \<and>
     publication_ok ops db' \<and> (slots_exclusive db \<longrightarrow> slots_exclusive db') \<and>
     (\<forall>q\<in>set (db_posts db'). pw_id q \<notin> pw_id ` set (db_posts db) \<longrightarrow>
        pw_revision q = 0 \<and> pw_state q \<in> {lit ''draft'', lit ''queued''})"

lemma same_identities:
  assumes "map post_identity t = map post_identity u" and "q \<in> set t"
  shows "pw_id q \<in> pw_id ` set u"
proof -
  have "post_identity q \<in> post_identity ` set u" using assms by (metis image_eqI image_set)
  then show ?thesis by (auto simp: post_identity_def elim!: imageE)
qed

lemma publisher_publication_move:
  assumes "publisher_move ops db db'" and "publication_ok ops db"
  shows "publication_move ops db db'"
  using assms same_identities [of "db_posts db'" "db_posts db"]
  by (auto simp: publication_move_def publisher_move_def publication_ok_def intro: requests_unique_same)

lemma publication_move_refl: "publication_ok ops db \<Longrightarrow> publication_move ops db db"
  by (auto simp: publication_move_def table_step_refl)

lemma commit_move:
  assumes "publication_ok ops db" and "\<And>db' x. tx = Inr (db', x) \<Longrightarrow> publication_move ops db db'"
  shows "publication_move ops db (fst (commit db tx decode))"
  using assms by (auto simp: commit_def publication_move_refl split: sum.splits)

section \<open>Insertions\<close>

lemma insert_post_Inr:
  assumes "insert_post ops row db = Inr (db', x)"
  shows "x = row" "db' = db\<lparr>db_posts := db_posts db @ [row]\<rparr>"
    "\<And>p. p \<in> set (db_posts db) \<Longrightarrow> pw_id p \<noteq> pw_id row \<and> \<not> same_request_key row p \<and> \<not> same_origin row p"
    "request_check ops row"
  using assms by (auto simp: insert_post_def list_ex_iff split: if_splits)

lemma insert_slot:
  assumes "slots_exclusive db" and "slot_free db row (if holds_slot row then pw_cadence_slot_at row else None)"
  shows "slots_exclusive (db\<lparr>db_posts := db_posts db @ [row]\<rparr>)"
proof -
  have "pw_id p = pw_id row"
    if h: "p \<in> set (db_posts db)" "holds_slot p" "holds_slot row" "pw_channel_id p = pw_channel_id row"
      "pw_cadence_slot_at p = pw_cadence_slot_at row" for p
  proof -
    obtain s where s: "pw_cadence_slot_at row = Some s" using h(3) by (auto simp: holds_slot_def)
    then have "s \<notin> set (occupied_slots db (pw_channel_id row) (pw_id row))"
      using assms(2) h(3) by (simp add: slot_free_def)
    then show ?thesis using h s by (auto simp: set_occupied_slots)
  qed
  then have new: "\<forall>p\<in>set (db_posts db). holds_slot p \<longrightarrow> holds_slot row \<longrightarrow>
      pw_channel_id p = pw_channel_id row \<longrightarrow> pw_cadence_slot_at p = pw_cadence_slot_at row \<longrightarrow> pw_id p = pw_id row"
    by blast
  show ?thesis
    unfolding slots_exclusive_def
  proof (intro ballI impI, elim conjE)
    fix p q
    assume "p \<in> set (db_posts (db\<lparr>db_posts := db_posts db @ [row]\<rparr>))"
      "q \<in> set (db_posts (db\<lparr>db_posts := db_posts db @ [row]\<rparr>))"
      and h: "holds_slot p" "holds_slot q" "pw_channel_id p = pw_channel_id q" "pw_cadence_slot_at p = pw_cadence_slot_at q"
    then have "p = row \<or> p \<in> set (db_posts db)" "q = row \<or> q \<in> set (db_posts db)" by auto
    then consider "p = row" "q = row" | "p = row" "q \<in> set (db_posts db)" | "p \<in> set (db_posts db)" "q = row"
      | "p \<in> set (db_posts db)" "q \<in> set (db_posts db)" by blast
    then show "pw_id p = pw_id q"
    proof cases
      case 2
      with new h have "pw_id q = pw_id row" by simp
      with 2 show ?thesis by simp
    next
      case 4
      with h assms(1) show ?thesis unfolding slots_exclusive_def by blast
    qed (use new h in simp_all)
  qed
qed

lemma insert_post_move:
  assumes ins: "insert_post ops row db = Inr (db', x)" and ok: "publication_ok ops db"
    and row: "post_inv row" "pw_revision row = 0" "pw_state row \<in> {lit ''draft'', lit ''queued''}"
    and slot: "slot_free db row (if holds_slot row then pw_cadence_slot_at row else None)"
  shows "publication_move ops db db'"
proof -
  note i = insert_post_Inr [OF ins]
  have fresh: "pw_id row \<notin> pw_id ` set (db_posts db)" using i(3) by (fastforce elim!: imageE)
  then have change: "posts_change (db_posts db) (db_posts db')"
    using row_insert [of pw_id row "db_posts db" post_inv] row(1) by (simp add: i(2))
  then have "publisher_ok ops db'"
    using ok posts.table_step_ok by (auto simp: publication_ok_def publisher_ok_def i(2))
  moreover have "requests_unique db'"
    using ok i(3) by (fastforce simp: publication_ok_def requests_unique_def unique_column_append i(2)
        same_request_key_def same_origin_def)
  ultimately show ?thesis
    using change insert_slot [OF _ slot] row(2,3)
    by (auto simp: publication_move_def publication_ok_def i(2) table_step_refl)
qed

lemma jobs_moved_move:
  assumes "publication_move ops db db1" and "db_jobs db1 = db_jobs db" and "jobs_moved ops db1 db2"
  shows "publication_move ops db db2"
proof -
  obtain jobs where j: "db2 = db1\<lparr>db_jobs := jobs\<rparr>" "jobs_change ops (db_jobs db1) jobs"
    "slots_exclusive db2 \<longleftrightarrow> slots_exclusive db1"
    using assms(3) by (rule jobs_moved_slots)
  have "publisher_ok ops db2"
    using assms(1) j(1,2) publish_jobs.table_step_ok
    by (auto simp: publication_move_def publication_ok_def publisher_ok_def)
  then show ?thesis
    using assms(1,2) j by (auto simp: publication_move_def publication_ok_def requests_unique_def)
qed

lemma requested_draft_inv: "post_inv (requested_draft env i post key h)"
  by (simp add: post_inv_def requested_draft_def default_post_def)

lemma action_text_post_now: "publication_action_as_str a = lit ''post_now'' \<longleftrightarrow> a = PostNowPublication"
  by (cases a) simp_all

lemma intended_row_inv:
  assumes "evaluation_time ops env input db = Inr at"
  shows "post_inv (intended_row env input at evidence)"
  using assms
  by (auto simp: post_inv_def intended_row_def default_post_def action_text_post_now evaluation_time_def
      split: publication_action.splits option.splits)

lemma intended_slot:
  fixes row :: "'v post_row"
  assumes "evaluation_time ops env input db = Inr at" and row_def: "row = intended_row env input at evidence"
  shows "slot_free db row (if holds_slot row then pw_cadence_slot_at row else None)"
proof (cases "holds_slot row")
  case True
  then have i: "pi_action (ip_intent input) = QueuePublication" "pi_requested_publish_at (ip_intent input) = None"
    by (auto simp: row_def holds_slot_def intended_row_def split: if_splits)
  then have "next_free_slot ops env db (ip_channel input) (pw_id row) (ip_now input) = Inr at"
    using assms(1) by (simp add: evaluation_time_def row_def intended_row_def default_post_def)
  moreover have "ch_id (ip_channel input) = pw_channel_id row"
    by (simp add: row_def intended_row_def default_post_def)
  ultimately have "slot_free db row (Some at)" by (rule next_free_slot_free)
  moreover have "pw_cadence_slot_at row = Some at"
    using True i by (auto simp: row_def holds_slot_def intended_row_def split: if_splits)
  ultimately show ?thesis using True by simp
qed (simp add: slot_free_def)

text \<open>The steps of an insertion, and that it is a move.\<close>

lemma insert_intended_post_Inr:
  assumes "insert_intended_post ops env input db = Inr (db', row)"
  obtains at conflicts evidence db1 where "evaluation_time ops env input db = Inr at"
    "find_repeat_conflicts db (ip_media_id input) at (ip_post_id input) = Inr conflicts"
    "repeat_value ops conflicts = Inr evidence" "row = intended_row env input at evidence"
    "insert_post ops row db = Inr (db1, row)"
    "if evidence = None then insert_publish_job ops env (pw_id row) at (pw_revision row) db1 = Inr db' else db' = db1"
proof -
  obtain at conflicts evidence db1 row1 where *: "evaluation_time ops env input db = Inr at"
    "find_repeat_conflicts db (ip_media_id input) at (ip_post_id input) = Inr conflicts"
    "repeat_value ops conflicts = Inr evidence"
    "insert_post ops (intended_row env input at evidence) db = Inr (db1, row1)"
    "map_ok (\<lambda>db. (db, row1))
       (if evidence = None then insert_publish_job ops env (pw_id row1) at (pw_revision row1) db1 else Inr db1)
      = Inr (db', row)"
    using assms by (auto simp: insert_intended_post_def result_simps)
  with insert_post_Inr(1) [OF *(4)] that show ?thesis
    by (auto simp: result_simps split: if_splits)
qed

lemma insert_intended_post_move:
  assumes "insert_intended_post ops env input db = Inr (db', row)" and ok: "publication_ok ops db"
  shows "publication_move ops db db'"
  using assms(1)
proof (rule insert_intended_post_Inr)
  fix at conflicts evidence db1
  assume at: "evaluation_time ops env input db = Inr at" and row: "row = intended_row env input at evidence"
    and ins: "insert_post ops row db = Inr (db1, row)"
    and job: "if evidence = None then insert_publish_job ops env (pw_id row) at (pw_revision row) db1 = Inr db' else db' = db1"
  have one: "publication_move ops db db1"
    using ins ok intended_row_inv [OF at] _ _ intended_slot [OF at refl]
    unfolding row by (rule insert_post_move) (simp_all add: intended_row_def default_post_def)
  then have "publisher_ok ops db1" by (simp add: publication_move_def publication_ok_def)
  then have "jobs_moved ops db1 db'"
    using job by (auto split: if_splits intro: insert_publish_job_moved jobs_moved_refl)
  then show ?thesis using jobs_moved_move [OF one] insert_post_Inr(2) [OF ins] by simp
qed

lemma create_post_move:
  assumes "publication_ok ops db"
  shows "publication_move ops db (fst (create_post_idempotent ops env i post key h db))"
  unfolding create_post_idempotent_def
proof (rule commit_move [OF assms])
  fix db' x
  assume tx: "create_post_tx ops env i post key h db = Inr (db', x)"
  show "publication_move ops db db'"
  proof (cases "db' = db")
    case False
    then obtain k row where "insert_post ops (requested_draft env i post k h) db = Inr (db', row)"
      using tx by (auto simp: create_post_tx_def replay_request_def result_simps split: option.splits if_splits)
    then show ?thesis
      by (rule insert_post_move [OF _ assms requested_draft_inv])
         (simp_all add: requested_draft_def default_post_def slot_free_def holds_slot_def)
  qed (simp add: publication_move_refl assms)
qed

lemma create_intent_move:
  assumes "publication_ok ops db"
  shows "publication_move ops db (fst (create_publication_intent ops env i m intent key db))"
  unfolding create_publication_intent_def
proof (rule commit_move [OF assms])
  fix db' x
  assume tx: "create_intent_tx ops env i m intent key db = Inr (db', x)"
  show "publication_move ops db db'"
  proof (cases "db' = db")
    case False
    then obtain input row where "insert_intended_post ops env input db = Inr (db', row)"
      using tx by (auto simp: create_intent_tx_def replay_request_def result_simps split: option.splits if_splits)
    then show ?thesis using assms by (rule insert_intended_post_move)
  qed (simp add: publication_move_refl assms)
qed

lemma materialize_move:
  assumes "publication_ok ops db"
  shows "publication_move ops db (fst (materialize_publication ops env i n ingest db))"
  unfolding materialize_publication_def
proof (rule commit_move [OF assms])
  fix db' x
  assume tx: "materialize_tx ops env i n ingest db = Inr (db', x)"
  show "publication_move ops db db'"
  proof (cases "db' = db")
    case False
    then obtain input row where "insert_intended_post ops env input db = Inr (db', row)"
      using tx by (auto simp: materialize_tx_def insert_ingest_post_def result_simps split: option.splits if_splits)
    then show ?thesis using assms by (rule insert_intended_post_move)
  qed (simp add: publication_move_refl assms)
qed

section \<open>Runs\<close>

text \<open>Every operation of the publisher repository and of the worker's queue.\<close>

inductive publication_op :: "('v, 'tz) publisher_ops \<Rightarrow> 'v publisher_db \<Rightarrow> 'v publisher_db \<Rightarrow> bool" for ops where
  op_publisher: "publisher_op ops db db' \<Longrightarrow> publication_op ops db db'"
| op_create_post: "publication_op ops db (fst (create_post_idempotent ops env i post key h db))"
| op_create_intent: "publication_op ops db (fst (create_publication_intent ops env i m intent key db))"
| op_materialize: "publication_op ops db (fst (materialize_publication ops env i n ingest db))"

lemma publication_op_move:
  assumes "publication_op ops db db'" and "publication_ok ops db"
  shows "publication_move ops db db'"
  using assms
proof (cases rule: publication_op.cases)
  case op_publisher
  moreover have "publisher_ok ops db" using assms(2) by (simp add: publication_ok_def)
  ultimately show ?thesis using publisher_op_move publisher_publication_move assms(2) by blast
qed (use assms(2) in \<open>auto intro: create_post_move create_intent_move materialize_move\<close>)

lemma publication_run:
  assumes "(publication_op ops)\<^sup>*\<^sup>* db db'" and "publication_ok ops db"
  shows "publication_ok ops db' \<and> posts_change\<^sup>*\<^sup>* (db_posts db) (db_posts db') \<and>
         (slots_exclusive db \<longrightarrow> slots_exclusive db')"
  using assms
proof (induction rule: rtranclp_induct)
  case (step y z)
  then have "publication_move ops y z" using publication_op_move by blast
  then show ?case using step by (auto simp: publication_move_def intro: rtranclp.rtrancl_into_rtrancl)
qed auto

lemma transitions_identity: "post_transition\<^sup>*\<^sup>* p q \<Longrightarrow> post_identity q = post_identity p"
  by (induction rule: rtranclp_induct) (auto simp: post_transition_def)

text \<open>A post found by its request or its origin is found again after any run.\<close>

lemma post_survives:
  assumes "(publication_op ops)\<^sup>*\<^sup>* db db'" and "publication_ok ops db" and "p \<in> set (db_posts db)"
  obtains q where "q \<in> set (db_posts db')" "post_identity q = post_identity p" "post_transition\<^sup>*\<^sup>* p q"
    "publication_ok ops db'"
  using posts.row_history publication_run [OF assms(1,2)] assms(3) transitions_identity by metis

lemma select_unique:
  assumes "publication_ok ops db" and "p \<in> set (db_posts db)"
  shows "pw_request_key p = Some k \<Longrightarrow> select_request k db = Some p"
    and "pw_origin_ingest_id p = Some n \<Longrightarrow> select_one (\<lambda>p. pw_origin_ingest_id p = Some n) (db_posts db) = Some p"
    and "pw_origin_ingest_id p = Some n \<Longrightarrow> q \<in> set (db_posts db) \<Longrightarrow> pw_origin_ingest_id q = Some n \<Longrightarrow> q = p"
proof -
  have u: "unique_column pw_request_key (db_posts db)" "unique_column pw_origin_ingest_id (db_posts db)"
    "table_ok pw_id post_inv (db_posts db)"
    using assms(1) by (auto simp: publication_ok_def requests_unique_def publisher_ok_def)
  have d: "distinct (map pw_id (db_posts db))" using u(3) by (simp add: table_ok_def)
  show "pw_request_key p = Some k \<Longrightarrow> select_request k db = Some p"
    unfolding select_request_def
    by (rule select_one_key [OF u(3) assms(2)]) (use unique_columnD [OF u(1) d] assms(2) in auto)
  show "pw_origin_ingest_id p = Some n \<Longrightarrow> select_one (\<lambda>p. pw_origin_ingest_id p = Some n) (db_posts db) = Some p"
    by (rule select_one_key [OF u(3) assms(2)]) (use unique_columnD [OF u(2) d] assms(2) in auto)
  show "pw_origin_ingest_id p = Some n \<Longrightarrow> q \<in> set (db_posts db) \<Longrightarrow> pw_origin_ingest_id q = Some n \<Longrightarrow> q = p"
    using unique_columnD [OF u(2) d] assms(2) by blast
qed

section \<open>Creations found again\<close>

lemma insert_publish_job_only:
  "insert_publish_job ops env i at v db = Inr db' \<Longrightarrow> db_posts db' = db_posts db \<and> db_channels db' = db_channels db"
  by (auto simp: insert_publish_job_def update_publish_job_def insert_publish_job_row_def update_one_job_def Let_def
      split: option.splits if_splits)

lemma intended_post_stored:
  assumes "insert_intended_post ops env input db = Inr (db', row)"
  shows "row \<in> set (db_posts db')" "pw_request_key row = Some (ip_request_key input)"
    "pw_request_hash row = Some (ip_request_hash input)" "pw_origin_ingest_id row = ip_origin_ingest_id input"
proof -
  obtain at evidence db1 where row: "row = intended_row env input at evidence"
    and ins: "insert_post ops row db = Inr (db1, row)" and job: "db_posts db' = db_posts db1"
    using assms
  proof (rule insert_intended_post_Inr)
    fix at conflicts evidence db1
    assume "row = intended_row env input at evidence" "insert_post ops row db = Inr (db1, row)"
      "if evidence = None then insert_publish_job ops env (pw_id row) at (pw_revision row) db1 = Inr db' else db' = db1"
    then show thesis using that insert_publish_job_only by (metis (full_types))
  qed
  show "row \<in> set (db_posts db')" using insert_post_Inr(2) [OF ins] job by simp
  show "pw_request_key row = Some (ip_request_key input)" "pw_request_hash row = Some (ip_request_hash input)"
    "pw_origin_ingest_id row = ip_origin_ingest_id input"
    by (simp_all add: row intended_row_def)
qed

lemma create_intent_Inr:
  assumes "create_publication_intent ops env i m intent key db = (db', Inr r)"
  obtains k h p where "normalize_request_key key = Inr k" "publication_intent_hash ops m intent = Inr h"
    "p \<in> set (db_posts db')" "pw_request_key p = Some k" "pw_request_hash p = Some h"
    "into_post ops p = Inr (cr_post r)"
proof -
  obtain x where tx: "create_intent_tx ops env i m intent key db = Inr (db', x)" "create_result ops x = Inr r"
    using assms unfolding create_publication_intent_def by (rule commit_Inr)
  then obtain k h where k: "normalize_request_key key = Inr k" "publication_intent_hash ops m intent = Inr h"
    by (auto simp: create_intent_tx_def result_simps)
  have post: "into_post ops (fst x) = Inr (cr_post r)"
    using tx(2) by (auto simp: create_result_def result_simps split: prod.splits)
  show ?thesis
  proof (cases "select_request k db")
    case (Some p)
    then have "x = (p, False)" "db' = db" "pw_request_hash p = Some h"
      using tx(1) k by (auto simp: create_intent_tx_def replay_request_def result_simps split: if_splits)
    then show ?thesis
      using that [OF k, of p] post select_one_Some [OF Some [unfolded select_request_def]] by simp
  next
    case None
    then obtain input row where ins: "insert_intended_post ops env input db = Inr (db', row)" "x = (row, True)"
      "ip_request_key input = k" "ip_request_hash input = h"
      using tx(1) k by (auto simp: create_intent_tx_def result_simps split: if_splits)
    then show ?thesis using that [OF k, of row] post intended_post_stored [OF ins(1)] by simp
  qed
qed

lemma into_post_id: "into_post ops p = Inr y \<Longrightarrow> po_id y = pw_id p"
  by (auto simp: into_post_def result_simps)

lemma create_intent_again:
  assumes "normalize_request_key key = Inr k" and "select_request k db = Some q"
    and "publication_intent_hash ops m intent = Inr h"
  shows "create_publication_intent ops env i m intent key db =
    (db, if pw_request_hash q = Some h then create_result ops (q, False) else Inl (RequestKeyConflict k))"
  using assms by (simp add: create_publication_intent_def create_intent_tx_def replay_request_def commit_def)

lemma materialize_Inr:
  assumes "materialize_publication ops env i n (Some ingest) db = (db', Inr r)" and "mr_post r = Some post"
  obtains p where "p \<in> set (db_posts db')" "pw_origin_ingest_id p = Some (mi_id ingest)" "into_post ops p = Inr post"
proof -
  obtain x where tx: "materialize_tx ops env i n (Some ingest) db = Inr (db', x)" "materialization_outcome ops x = Inr r"
    using assms(1) unfolding materialize_publication_def by (rule commit_Inr)
  obtain p where p: "fst x = Some p" "into_post ops p = Inr post"
    using tx(2) assms(2) by (cases x) (auto simp: materialization_outcome_def result_simps split: option.splits)
  show ?thesis
  proof (cases "select_one (\<lambda>p. pw_origin_ingest_id p = Some (mi_id ingest)) (db_posts db)")
    case (Some q)
    then have "q = p" "db' = db"
      using tx(1) p(1) by (auto simp: materialize_tx_def split: if_splits)
    then show ?thesis using that p select_one_Some [OF Some] by blast
  next
    case None
    then obtain input row where ins: "insert_intended_post ops env input db = Inr (db', row)" "x = (Some row, True)"
      "ip_origin_ingest_id input = Some (mi_id ingest)"
      using tx(1) p(1) by (auto simp: materialize_tx_def insert_ingest_post_def result_simps split: if_splits)
    then show ?thesis using that p intended_post_stored [OF ins(1)] by simp
  qed
qed

section \<open>Repeats\<close>

lemma set_map_filter: "set (List.map_filter f xs) = {y. \<exists>x\<in>set xs. f x = Some y}"
  by (induction xs) (auto simp: map_filter_simps split: option.splits)

lemma no_repeat_rows:
  assumes "\<forall>p\<in>set (db_posts db). pw_channel_id p \<in> ch_id ` set (db_channels db)"
  shows "repeat_rows db m at i = [] \<longleftrightarrow> \<not> list_ex (repeats m at i) (db_posts db)"
proof -
  have "repeat_row db p \<noteq> None" if "p \<in> set (db_posts db)" for p
    using bspec [OF assms that] by (auto simp: repeat_row_def select_one_None elim!: imageE)
  moreover have "take 8 xs = [] \<longleftrightarrow> set xs = {}" for xs :: "repeat_conflict_row list" by simp
  then have "repeat_rows db m at i = [] \<longleftrightarrow>
      set (List.map_filter (repeat_row db) (filter (repeats m at i) (db_posts db))) = {}"
    unfolding repeat_rows_def MAX_REPEAT_EVIDENCE_CONFLICTS_def by (simp only: set_map_filter set_sort set_filter)
  ultimately show ?thesis by (auto simp: set_map_filter list_ex_iff)
qed

lemma repeat_evidence_iff:
  assumes "\<forall>p\<in>set (db_posts db). pw_channel_id p \<in> ch_id ` set (db_channels db)"
    and "find_repeat_conflicts db m at i = Inr conflicts" and "repeat_value ops conflicts = Inr evidence"
  shows "evidence \<noteq> None \<longleftrightarrow> list_ex (repeats m at i) (db_posts db)"
proof -
  have "length conflicts = length (repeat_rows db m at i)"
    using assms(2) by (metis collect_results_Inr find_repeat_conflicts_def length_map)
  then have "conflicts = [] \<longleftrightarrow> repeat_rows db m at i = []" by (metis length_0_conv)
  moreover have "evidence \<noteq> None \<longleftrightarrow> conflicts \<noteq> []"
    using assms(3) by (auto simp: repeat_value_def result_simps split: if_splits)
  ultimately show ?thesis using no_repeat_rows [OF assms(1)] by simp
qed

lemma insert_publish_job_stored:
  assumes "insert_publish_job ops env i at v db = Inr db'"
  shows "\<exists>r\<in>set (db_jobs db'). jr_dedupe_key r = Some (publish_key ops i) \<and> jr_state r = lit ''queued'' \<and>
           jr_run_at r = at \<and> jr_payload r = publish_value ops i v"
proof (cases "lock_publish_job ops i db")
  case None
  then show ?thesis
    using assms by (auto simp: insert_publish_job_def insert_publish_job_row_def publish_job_row_def Let_def
        split: if_splits)
next
  case (Some row)
  have row: "row \<in> set (db_jobs db)" "jr_dedupe_key row = Some (publish_key ops i)"
    using select_one_Some [OF Some [unfolded lock_publish_job_def]] by auto
  have upd: "jr_state row \<in> {lit ''queued'', lit ''failed''}"
    "db' = db\<lparr>db_jobs := update_where (\<lambda>r. jr_id r = jr_id row \<and> jr_state r \<in> {lit ''queued'', lit ''failed''})
       (requeued_job ops env i at v) (db_jobs db)\<rparr>"
    using assms Some
    by (auto simp: insert_publish_job_def update_publish_job_def update_one_job_def split: if_splits)
  then have "requeued_job ops env i at v row \<in> set (db_jobs db')" using row(1) by (auto simp: set_update_where)
  then show ?thesis using row(2) by (intro bexI) (auto simp: requeued_job_def)
qed

section \<open>One enabled channel\<close>

definition channel_settings :: "channel \<Rightarrow> new_channel" where
  "channel_settings c =
     \<lparr>nc_name = ch_name c, nc_telegram_chat_id = ch_telegram_chat_id c, nc_time_zone = ch_time_zone c,
      nc_window_start = ch_window_start c, nc_window_end = ch_window_end c,
      nc_interval_minutes = ch_interval_minutes c, nc_default_parse_mode = ch_default_parse_mode c,
      nc_default_disable_notification = ch_default_disable_notification c\<rparr>"

definition channel_valid :: "('v, 'tz) publisher_ops \<Rightarrow> channel \<Rightarrow> bool" where
  "channel_valid ops c \<longleftrightarrow> validate_channel ops (channel_settings c) = Inr ()"

definition channel_edit :: "('v, 'tz) publisher_ops \<Rightarrow> channel \<Rightarrow> channel \<Rightarrow> bool" where
  "channel_edit ops c d \<longleftrightarrow> ch_id d = ch_id c \<and> ch_created_at d = ch_created_at c \<and> channel_valid ops d"

interpretation channel_rows: checked_table ch_id "channel_valid ops" "channel_edit ops" for ops
  by unfold_locales (simp_all add: channel_edit_def)

definition channels_ok :: "('v, 'tz) publisher_ops \<Rightarrow> 'v publisher_db \<Rightarrow> bool" where
  "channels_ok ops db \<longleftrightarrow>
     table_ok ch_id (channel_valid ops) (db_channels db) \<and> distinct (map ch_telegram_chat_id (db_channels db)) \<and>
     length (filter ch_is_enabled (db_channels db)) \<le> 1"

text \<open>The settings of channels, beside operations that leave the table alone.\<close>

inductive settings_op :: "('v, 'tz) publisher_ops \<Rightarrow> 'v publisher_db \<Rightarrow> 'v publisher_db \<Rightarrow> bool" for ops where
  op_create_channel: "settings_op ops db (fst (create_channel_unambiguous ops env i c db))"
| op_update_channel: "settings_op ops db (fst (update_channel ops env i u db))"
| op_other: "db_channels db' = db_channels db \<Longrightarrow> settings_op ops db db'"

lemma new_channel_settings: "channel_settings (new_channel_row env i c) = c"
  by (simp add: channel_settings_def new_channel_row_def)

lemma updated_channel_settings: "channel_settings (updated_channel env c e row) = c"
  by (simp add: channel_settings_def updated_channel_def)

lemma create_channel_ok:
  assumes "create_channel_unambiguous ops env i c db = (db', res)" and ok: "channels_ok ops db"
  shows "channels_ok ops db'"
proof (cases "db' = db")
  case False
  let ?row = "new_channel_row env i c"
  from False have v: "validate_channel ops c = Inr ()" and none: "\<not> list_ex ch_is_enabled (db_channels db)"
    and new: "\<not> channel_conflict (db_channels db) ?row" and db': "db_channels db' = db_channels db @ [?row]"
    using assms(1)
    by (auto simp: create_channel_unambiguous_def commit_def insert_channel_def Let_def result_simps
        split: sum.splits if_splits)
  have "channel_valid ops ?row" using v by (simp add: channel_valid_def new_channel_settings)
  moreover have "filter ch_is_enabled (db_channels db) = []"
    using none by (simp add: filter_empty_conv list_ex_iff)
  moreover have "\<forall>d\<in>set (db_channels db). ch_id d \<noteq> ch_id ?row \<and> ch_telegram_chat_id d \<noteq> ch_telegram_chat_id ?row"
    using new by (auto simp: channel_conflict_def list_ex_iff)
  ultimately show ?thesis
    using ok by (auto simp: channels_ok_def table_ok_def db' elim!: imageE)
qed (simp add: ok)

lemma enabled_others:
  assumes "distinct (map ch_id cs)" and "\<not> list_ex (\<lambda>c. ch_is_enabled c \<and> ch_id c \<noteq> i) cs"
  shows "length (filter ch_is_enabled cs) \<le> 1"
proof -
  have "set (map ch_id (filter ch_is_enabled cs)) \<subseteq> {i}" using assms(2) by (auto simp: list_ex_iff elim!: imageE)
  then have "card (set (map ch_id (filter ch_is_enabled cs))) \<le> 1"
    using card_mono [of "{i}"] by simp
  moreover have "distinct (map ch_id (filter ch_is_enabled cs))" using assms(1) by (simp add: distinct_map_filter)
  ultimately show ?thesis by (metis distinct_card length_map)
qed

lemma distinct_update_column:
  assumes "distinct (map key t)" and "distinct (map f t)" and "\<forall>d\<in>set t. key d \<noteq> i \<longrightarrow> f d \<noteq> f row"
  shows "distinct (map f (update_where (\<lambda>d. key d = i) (\<lambda>_. row) t))"
  using assms
proof (induction t)
  case (Cons c t)
  show ?case
  proof (cases "key c = i")
    case True
    then have "\<forall>d\<in>set t. key d \<noteq> i" using Cons.prems(1) by (auto simp: image_iff)
    then have "update_where (\<lambda>d. key d = i) (\<lambda>_. row) (c # t) = row # t"
      using True update_where_id [of t "\<lambda>d. key d = i"] by (simp add: update_where_def)
    then show ?thesis using Cons.prems \<open>\<forall>d\<in>set t. key d \<noteq> i\<close> by (auto elim!: imageE)
  next
    case False
    then show ?thesis using Cons by (auto simp: update_where_def image_iff split: if_splits)
  qed
qed (simp add: update_where_def)

lemma filter_update_le:
  "\<not> P row \<Longrightarrow> length (filter P (update_where Q (\<lambda>_. row) t)) \<le> length (filter P t)"
  by (induction t) (auto simp: update_where_def)

lemma update_channel_ok:
  assumes "update_channel ops env i u db = (db', res)" and ok: "channels_ok ops db"
  shows "channels_ok ops db'"
proof (cases "db' = db")
  case False
  then obtain c row where tx: "update_channel_tx ops env i u db = Inr (db', row)"
    and lock: "lock_channel db i = Inr c"
    using assms(1)
    by (auto simp: update_channel_def commit_def update_channel_tx_def result_simps Let_def
        split: sum.splits if_splits)
  let ?e = "unwrap_or (cu_is_enabled u) (ch_is_enabled c)"
  let ?n = "channel_candidate u c"
  let ?row = "updated_channel env ?n ?e c"
  have c: "c \<in> set (db_channels db)" "ch_id c = i"
    using lock by (auto simp: lock_channel_def result_simps dest: select_one_Some)
  have v: "validate_channel ops ?n = Inr ()"
    and amb: "?e \<Longrightarrow> \<not> list_ex (\<lambda>c. ch_is_enabled c \<and> ch_id c \<noteq> i) (db_channels db)"
    and chat: "\<not> list_ex (\<lambda>d. ch_id d \<noteq> i \<and> ch_telegram_chat_id d = ch_telegram_chat_id ?row) (db_channels db)"
    and db': "db_channels db' = update_where (\<lambda>d. ch_id d = i) (\<lambda>_. ?row) (db_channels db)"
    using tx lock c(2)
    by (auto simp: update_channel_tx_def write_channel_def Let_def result_simps updated_channel_def split: if_splits)
  have id: "ch_id ?row = i" using c(2) by (simp add: updated_channel_def)
  have keys: "map ch_id (db_channels db') = map ch_id (db_channels db)"
    by (simp add: db' update_where_def id)
  have tab: "table_ok ch_id (channel_valid ops) (db_channels db')"
    unfolding db' by (rule table_ok_update_where)
      (use ok v id in \<open>auto simp: channels_ok_def channel_valid_def updated_channel_settings\<close>)
  moreover have "distinct (map ch_telegram_chat_id (db_channels db'))"
    unfolding db' by (rule distinct_update_column)
      (use ok chat in \<open>auto simp: channels_ok_def table_ok_def list_ex_iff\<close>)
  moreover have "length (filter ch_is_enabled (db_channels db')) \<le> 1"
  proof (cases ?e)
    case True
    then have "\<not> list_ex (\<lambda>c. ch_is_enabled c \<and> ch_id c \<noteq> i) (db_channels db')"
      using amb id by (auto simp: db' set_update_where list_ex_iff elim!: imageE)
    with tab show ?thesis unfolding table_ok_def by (blast intro: enabled_others)
  next
    case False
    then have "\<not> ch_is_enabled ?row" by (simp add: updated_channel_def)
    from filter_update_le [of ch_is_enabled, OF this] show ?thesis
      using ok unfolding db' channels_ok_def by (meson order_trans)
  qed
  ultimately show ?thesis by (simp add: channels_ok_def)
qed (simp add: ok)

section \<open>Properties\<close>

text \<open>(C1) The whole publisher refines the life cycle of posts: along every run of its operations,
  creations included, the keys and constraints of the schema hold, every post of a table is afterwards
  untouched or has made one allowed move, and a post that is new starts as a draft or queued at revision
  zero.\<close>

theorem publications_refine_lifecycle:
  assumes "publication_ok ops db" and "(publication_op ops)\<^sup>*\<^sup>* db db1" and "publication_op ops db1 db2"
  shows "publication_ok ops db2 \<and>
    (\<forall>p\<in>set (db_posts db1). \<exists>q\<in>set (db_posts db2). q = p \<or> post_transition p q) \<and>
    (\<forall>q\<in>set (db_posts db2). pw_id q \<notin> pw_id ` set (db_posts db1) \<longrightarrow>
       pw_revision q = 0 \<and> pw_state q \<in> {lit ''draft'', lit ''queued''})"
proof -
  have move: "publication_move ops db1 db2"
    using publication_run [OF assms(2,1)] publication_op_move [OF assms(3)] by blast
  then have "posts_change (db_posts db1) (db_posts db2)" by (simp add: publication_move_def)
  then have "\<forall>p\<in>set (db_posts db1). \<exists>q\<in>set (db_posts db2). q = p \<or> post_transition p q"
    by (cases rule: table_step.cases) auto
  with move show ?thesis unfolding publication_move_def by blast
qed

text \<open>(C34) Cadence slots are exclusive: if no two queued or sending posts of a channel share a slot,
  then after any run of operations, creations included, none do.\<close>

theorem slots_stay_exclusive:
  assumes "publication_ok ops db" and "(publication_op ops)\<^sup>*\<^sup>* db db'" and "slots_exclusive db"
    and "p \<in> set (db_posts db')" and "q \<in> set (db_posts db')" and "holds_slot p" and "holds_slot q"
    and "pw_channel_id p = pw_channel_id q" and "pw_cadence_slot_at p = pw_cadence_slot_at q"
  shows "p = q"
proof -
  have run: "publisher_ok ops db'" "slots_exclusive db'"
    using publication_run [OF assms(2,1)] assms(3) by (auto simp: publication_ok_def)
  then have "pw_id p = pw_id q" using assms(4-9) unfolding slots_exclusive_def by blast
  then show ?thesis using run(1) assms(4,5) by (auto simp: publisher_ok_def intro: table_ok_key)
qed

text \<open>(C13) A publication is requested once: after \<open>create_publication_intent\<close> succeeded, the same request
  under the same key, at any later time and whatever happened to the post since, changes nothing and
  returns that post; another request under the key is a conflict and changes nothing.\<close>

theorem publication_requested_once:
  assumes ok: "publication_ok ops db"
    and created: "create_publication_intent ops env i m intent key db = (db1, Inr r)"
    and run: "(publication_op ops)\<^sup>*\<^sup>* db1 db2"
  shows "(\<exists>q\<in>set (db_posts db2). pw_id q = po_id (cr_post r) \<and>
            create_publication_intent ops env2 i2 m intent key db2 = (db2, create_result ops (q, False))) \<and>
         (\<forall>m2 intent2 h2. publication_intent_hash ops m2 intent2 = Inr h2 \<and>
            publication_intent_hash ops m intent \<noteq> Inr h2 \<longrightarrow>
            create_publication_intent ops env2 i2 m2 intent2 key db2 = (db2, Inl (RequestKeyConflict (trim key))))"
  using created
proof (rule create_intent_Inr)
  fix k h p
  assume k: "normalize_request_key key = Inr k" and h: "publication_intent_hash ops m intent = Inr h"
    and p: "p \<in> set (db_posts db1)" "pw_request_key p = Some k" "pw_request_hash p = Some h"
      "into_post ops p = Inr (cr_post r)"
  have "publication_ok ops db1"
    using create_intent_move [OF ok, of env i m intent key] created by (simp add: publication_move_def)
  then obtain q where q: "q \<in> set (db_posts db2)" "post_identity q = post_identity p" "publication_ok ops db2"
    using post_survives [OF run _ p(1)] by blast
  have id: "pw_id q = pw_id p" "pw_request_key q = Some k" "pw_request_hash q = Some h"
    using q(2) p(2,3) by (simp_all add: post_identity_def)
  have "pw_id p = po_id (cr_post r)" using into_post_id [OF p(4)] by simp
  moreover have "k = trim key" using k normalize_request_key_Inr by blast
  moreover have again: "create_publication_intent ops env2 i2 m2 intent2 key db2 =
      (db2, if h = h2 then create_result ops (q, False) else Inl (RequestKeyConflict k))"
    if "publication_intent_hash ops m2 intent2 = Inr h2" for m2 intent2 h2
    using create_intent_again [OF k select_unique(1) [OF q(3,1) id(2)] that] id(3) by simp
  ultimately show ?thesis
    using again [OF h] h id(1) q(1) by (intro conjI bexI [of _ q] allI impI) (auto simp: again)
qed

lemma materialization_none: "materialization_outcome ops (None, c) = Inr \<lparr>mr_post = None, mr_created = c\<rparr>"
  by (simp add: materialization_outcome_def)

text \<open>(C12) An ingest is published once: after its publication has been materialised, no run of
  operations ever gives it a second post, and materialising it again never changes anything, whatever row the
  ingest has by then. A completed ingest with a publication action gets the post there is; an ingest that is
  not completed any more is refused as not ready, one whose action is to save has no post to return, and a deleted one
  is refused as missing.\<close>

theorem ingest_published_once:
  assumes ok: "publication_ok ops db"
    and first: "materialize_publication ops env i (mi_id ingest) (Some ingest) db = (db1, Inr r)"
    and post: "mr_post r = Some post" and run: "(publication_op ops)\<^sup>*\<^sup>* db1 db2"
  shows "\<exists>q\<in>set (db_posts db2). pw_id q = po_id post \<and>
           (\<forall>p\<in>set (db_posts db2). pw_origin_ingest_id p = Some (mi_id ingest) \<longrightarrow> p = q) \<and>
           (\<forall>found. (case found of None \<Rightarrow> True | Some x \<Rightarrow> mi_id x = mi_id ingest) \<longrightarrow>
              materialize_publication ops env2 i2 (mi_id ingest) found db2 =
                (db2, case found of
                        None \<Rightarrow> Inl (IngestMissing (mi_id ingest))
                      | Some x \<Rightarrow>
                          if mi_requested_action x = lit ''save'' then Inr \<lparr>mr_post = None, mr_created = False\<rparr>
                          else if mi_state x \<noteq> lit ''completed'' then Inl (MaterializationNotReady (mi_id ingest))
                          else materialization_outcome ops (Some q, False)))"
  using first post
proof (rule materialize_Inr)
  fix p
  assume p: "p \<in> set (db_posts db1)" "pw_origin_ingest_id p = Some (mi_id ingest)" "into_post ops p = Inr post"
  have "publication_ok ops db1"
    using materialize_move [OF ok, of env i "mi_id ingest" "Some ingest"] first by (simp add: publication_move_def)
  then obtain q where q: "q \<in> set (db_posts db2)" "post_identity q = post_identity p" "publication_ok ops db2"
    using post_survives [OF run _ p(1)] by blast
  have id: "pw_id q = pw_id p" "pw_origin_ingest_id q = Some (mi_id ingest)"
    using q(2) p(2) by (simp_all add: post_identity_def)
  have "pw_id p = po_id post" using into_post_id [OF p(3)] by simp
  moreover have "p = q" if "p \<in> set (db_posts db2)" "pw_origin_ingest_id p = Some (mi_id ingest)" for p
    using select_unique(3) [OF q(3,1) id(2) that] .
  ultimately show ?thesis
    using select_unique(2) [OF q(3,1) id(2)] id(1) q(1)
    by (intro bexI [of _ q])
       (auto simp: materialize_publication_def materialize_tx_def commit_def materialization_none split: option.splits)
qed

text \<open>While a repeat is undecided, no way of scheduling the post, publishing it at once or sending it succeeds, and
  none writes anything.\<close>

definition sending_refused :: "('v, 'tz) publisher_ops \<Rightarrow> uuid \<Rightarrow> 'v publisher_db \<Rightarrow> bool" where
  "sending_refused ops i db \<longleftrightarrow>
     (\<forall>env schedule. ps_post_id schedule = i \<longrightarrow> (\<exists>e. schedule_post ops env schedule db = (db, Inl e))) \<and>
     (\<forall>env schedule. pe_post_id schedule = i \<longrightarrow> (\<exists>e. schedule_post_exact ops env schedule db = (db, Inl e))) \<and>
     (\<forall>env key v. \<exists>e. publish_now ops env i key v db = (db, Inl e)) \<and>
     (\<forall>env v attempt. \<exists>e. claim_publish ops env i v attempt db = (db, Inl e))"

lemma undecided_refused:
  assumes ok: "publisher_ok ops db" and q: "q \<in> set (db_posts db)" "pw_id q = i" and held: "repeat_undecided q"
  shows "sending_refused ops i db"
proof -
  have locked: "current = q" if "lock_aggregate db i = Inr (channel, current)" for channel current
    using lock_aggregate_Inr(5) [OF that ok q] by simp
  have ev: "pw_repeat_evidence q \<noteq> None" "pw_schedule_request_key q = None" "pw_state q = lit ''draft''"
    using held by (auto simp: repeat_undecided_def)
  have blocked: "ensure_schedulable db channel q v \<noteq> Inr u" for channel v u
    using ev(1) by (auto dest: ensure_schedulable_evidence)
  have "schedule_post_tx ops env schedule db \<noteq> Inr x" if "i = ps_post_id schedule" for env schedule x
    using blocked ev(2)
    by (auto simp: schedule_post_tx_def result_simps Let_def dest!: locked [unfolded that] split: if_splits)
  moreover have "schedule_post_exact_tx ops env schedule db \<noteq> Inr x" if "i = pe_post_id schedule" for env schedule x
    using blocked ev(2)
    by (auto simp: schedule_post_exact_tx_def result_simps Let_def dest!: locked [unfolded that] split: if_splits)
  moreover have "publish_now_tx ops env i key v db \<noteq> Inr x" for env key v x
    using blocked ev(2) by (auto simp: publish_now_tx_def result_simps Let_def dest!: locked split: if_splits)
  moreover have "claim_publish_tx ops env i v attempt db \<noteq> Inr x" for env v attempt x
  proof
    assume "claim_publish_tx ops env i v attempt db = Inr x"
    then obtain channel current where l: "lock_aggregate db i = Inr (channel, current)"
      and st: "row_state current = Inr PostQueued"
      by (auto simp: claim_publish_tx_def result_simps split: if_splits)
    then show False using row_state_Inr [OF st] locked [OF l] ev(3) by simp
  qed
  ultimately show ?thesis
    by (simp add: sending_refused_def schedule_post_def schedule_post_exact_def publish_now_def claim_publish_def
        commit_fails)
qed

lemma undecided_transitions:
  "post_transition\<^sup>*\<^sup>* p q \<Longrightarrow> repeat_undecided p \<Longrightarrow> repeat_undecided q \<or> repeat_ended q"
proof (induction rule: rtranclp_induct)
  case (step q r)
  have "\<not> post_transition q r" if "pw_state q = lit ''cancelled''"
    using that by (auto simp: post_transition_def post_moves_def)
  then show ?case using step by (auto simp: post_transition_def repeat_ended_def)
qed simp

text \<open>(C18) A repeat waits for a decision: an intended post is queued, with its publication job at the
  time it was evaluated for, exactly when no other post of the media is queued, being sent or was
  published in the fourteen days before that time. Otherwise it is a draft with the evidence and no job
  is written; after any later run of operations the post is still there, and unless a decision was recorded on
  it or it was cancelled it is still a draft and every attempt to schedule it, to schedule it for an exact time, to
  publish it at once or to claim it for sending is refused and changes nothing.\<close>

theorem repeat_waits_for_decision:
  assumes ok: "publication_ok ops db" and ins: "insert_intended_post ops env input db = Inr (db', row)"
    and fk: "\<forall>p\<in>set (db_posts db). pw_channel_id p \<in> ch_id ` set (db_channels db)"
  shows "if list_ex (repeats (ip_media_id input) (pw_scheduled_at row) (pw_id row)) (db_posts db)
         then pw_state row = lit ''draft'' \<and> pw_repeat_evidence row \<noteq> None \<and> pw_decision_request_key row = None \<and>
           db_jobs db' = db_jobs db \<and>
           (\<forall>db2. (publication_op ops)\<^sup>*\<^sup>* db' db2 \<longrightarrow>
              (\<exists>q\<in>set (db_posts db2). pw_id q = pw_id row \<and>
                 (if pw_decision_request_key q \<noteq> None \<or> pw_state q = lit ''cancelled'' then True
                  else pw_state q = lit ''draft'' \<and> sending_refused ops (pw_id row) db2)))
         else pw_state row = lit ''queued'' \<and> pw_repeat_evidence row = None \<and>
           (\<exists>r\<in>set (db_jobs db'). jr_dedupe_key r = Some (publish_key ops (pw_id row)) \<and>
              jr_state r = lit ''queued'' \<and> jr_run_at r = pw_scheduled_at row \<and>
              jr_payload r = publish_value ops (pw_id row) (pw_revision row))"
  using ins
proof (rule insert_intended_post_Inr)
  fix at conflicts evidence db1
  assume c: "find_repeat_conflicts db (ip_media_id input) at (ip_post_id input) = Inr conflicts"
    and e: "repeat_value ops conflicts = Inr evidence" and row: "row = intended_row env input at evidence"
    and i: "insert_post ops row db = Inr (db1, row)"
    and job: "if evidence = None then insert_publish_job ops env (pw_id row) at (pw_revision row) db1 = Inr db'
      else db' = db1"
  have f: "pw_scheduled_at row = at" "pw_id row = ip_post_id input" "pw_repeat_evidence row = evidence"
    "pw_state row = (if evidence \<noteq> None then lit ''draft'' else lit ''queued'')"
    "pw_schedule_request_key row = None" "pw_decision_request_key row = None"
    by (simp_all add: row intended_row_def default_post_def)
  have rep: "evidence \<noteq> None \<longleftrightarrow> list_ex (repeats (ip_media_id input) (pw_scheduled_at row) (pw_id row)) (db_posts db)"
    using repeat_evidence_iff [OF fk c e] f(1,2) by simp
  have ok': "publication_ok ops db'"
    using insert_intended_post_move [OF ins ok] by (simp add: publication_move_def)
  have later: "\<exists>q\<in>set (db_posts db2). pw_id q = pw_id row \<and>
      (if pw_decision_request_key q \<noteq> None \<or> pw_state q = lit ''cancelled'' then True
       else pw_state q = lit ''draft'' \<and> sending_refused ops (pw_id row) db2)"
    if run: "(publication_op ops)\<^sup>*\<^sup>* db' db2" and ev: "evidence \<noteq> None" for db2
  proof -
    from post_survives [OF run ok' intended_post_stored(1) [OF ins]] obtain q
      where q: "q \<in> set (db_posts db2)" "post_identity q = post_identity row" "post_transition\<^sup>*\<^sup>* row q"
        "publication_ok ops db2" by blast
    have id: "pw_id q = pw_id row" using q(2) by (simp add: post_identity_def)
    have ok2: "publisher_ok ops db2" using q(4) by (simp add: publication_ok_def)
    have "repeat_undecided row" using f ev by (simp add: repeat_undecided_def)
    from undecided_transitions [OF q(3) this] show ?thesis
      using undecided_refused [OF ok2 q(1) id] id q(1) by (intro bexI [of _ q]) (auto simp: repeat_state_defs)
  qed
  show ?thesis
  proof (cases evidence)
    case None
    then have "\<not> list_ex (repeats (ip_media_id input) (pw_scheduled_at row) (pw_id row)) (db_posts db)"
      using rep by simp
    moreover have "insert_publish_job ops env (pw_id row) at (pw_revision row) db1 = Inr db'"
      using job None by simp
    ultimately show ?thesis
      using insert_publish_job_stored f None by simp
  next
    case (Some v)
    then have "list_ex (repeats (ip_media_id input) (pw_scheduled_at row) (pw_id row)) (db_posts db)"
      using rep by simp
    moreover have "db_jobs db' = db_jobs db" using job Some insert_post_Inr(2) [OF i] by simp
    ultimately show ?thesis using later f Some by simp
  qed
qed

text \<open>(C19) One publication target: every run of channel settings keeps each channel's settings valid, the
  chat ids distinct and at most one channel enabled, so that a request for a publication never finds an
  ambiguous target.\<close>

theorem one_enabled_channel:
  assumes "channels_ok ops db" and "(settings_op ops)\<^sup>*\<^sup>* db db'"
  shows "channels_ok ops db' \<and> single_enabled_channel db' \<noteq> Inl PublicationChannelAmbiguous"
proof -
  have ok: "channels_ok ops db'"
    using assms(2,1)
  proof (induction rule: rtranclp_induct)
    case (step y z)
    then show ?case
      by (cases rule: settings_op.cases [OF step.hyps(2)])
         (metis create_channel_ok prod.collapse, metis update_channel_ok prod.collapse, simp add: channels_ok_def)
  qed
  then have "length (enabled_channel_candidates db') \<le> 1"
    by (simp add: enabled_channel_candidates_def channels_ok_def)
  then have "single_enabled_channel db' \<noteq> Inl PublicationChannelAmbiguous"
    by (auto simp: single_enabled_channel_def split: list.splits)
  with ok show ?thesis ..
qed

section \<open>Witnesses\<close>

text \<open>A channel, a ready media item, no posts, and requests to post the item at once.\<close>

definition empty_publisher :: "plain_value publisher_db" where
  "empty_publisher = \<lparr>db_jobs = [], db_posts = [], db_channels = [witness_channel], db_media = [(5, lit ''ready'')]\<rparr>"

definition now_intent :: publication_intent where
  "now_intent = \<lparr>pi_action = PostNowPublication, pi_requested_publish_at = None, pi_caption = None\<rparr>"

definition witness_ingest :: materialization_ingest_row where
  "witness_ingest =
     \<lparr>mi_id = 30, mi_state = lit ''completed'', mi_media_id = Some 5, mi_requested_action = lit ''post_now'',
      mi_requested_publish_at = None, mi_requested_post_caption = None, mi_requested_channel_id = Some 3\<rparr>"

definition now_input :: "ustring \<Rightarrow> u8 list \<Rightarrow> uuid option \<Rightarrow> intended_post_input" where
  "now_input key h origin =
     \<lparr>ip_request_key = key, ip_request_hash = h, ip_origin_ingest_id = origin, ip_media_id = 5,
      ip_channel = witness_channel, ip_intent = now_intent, ip_post_id = 12, ip_now = env_utc (at_time 0 8)\<rparr>"

lemma empty_publisher_ok: "publication_ok plain_ops empty_publisher"
  using plain_ops_laws
  by (simp add: publication_ok_def publisher_ok_def requests_unique_def unique_column_def empty_publisher_def
      table_ok_def map_filter_simps)

lemma one_post_publication_ok:
  "post_inv p \<Longrightarrow> pw_request_key p = None \<Longrightarrow> pw_origin_ingest_id p = None \<Longrightarrow> publication_ok plain_ops (one_post_db [] p)"
  using one_post_ok [of p "[]"]
  by (simp add: publication_ok_def requests_unique_def unique_column_def one_post_db_def map_filter_simps)

lemmas intent_witness_defs =
  empty_publisher_def now_intent_def now_input_def insert_intended_post_def evaluation_time_def
  find_repeat_conflicts_def repeat_rows_def repeat_value_def insert_post_def intended_row_def default_post_def
  request_check_def insert_publish_job_def lock_publish_job_def insert_publish_job_row_def dedupe_conflict_def
  id_conflict_def select_one_def map_filter_simps Let_def

lemma witness_insert:
  "\<exists>db row. insert_intended_post plain_ops (at_time 0 8) (now_input key h origin) empty_publisher = Inr (db, row) \<and>
     (\<exists>y. into_post plain_ops row = Inr y)"
  using publication_action_enum.try_from_as_str [of PostNowPublication] post_state_enum.try_from_as_str [of PostQueued]
  by (simp add: intent_witness_defs into_post_def row_state_def row_action_def)

lemma witness_requested:
  "\<exists>db r. create_publication_intent plain_ops (at_time 0 8) 12 5 now_intent (lit ''k'') empty_publisher = (db, Inr r)"
proof -
  obtain h where h: "publication_intent_hash plain_ops 5 now_intent = Inr h"
    by (simp add: publication_intent_hash_def plain_ops_def)
  have k: "normalize_request_key (lit ''k'') = Inr (lit ''k'')"
    by (simp add: normalize_request_key_def trim_def trim_start_def trim_end_def lit_def is_whitespace_def
        MAX_REQUEST_KEY_LENGTH_def)
  obtain db row y where "insert_intended_post plain_ops (at_time 0 8) (now_input (lit ''k'') h None) empty_publisher = Inr (db, row)"
    "into_post plain_ops row = Inr y"
    using witness_insert by blast
  then show ?thesis
    by (simp add: create_publication_intent_def create_intent_tx_def k h commit_def select_request_def select_one_def
        lock_media_state_def single_enabled_channel_def enabled_channel_candidates_def lock_channel_def
        create_result_def empty_publisher_def now_input_def witness_channel_def)
qed

theorem publication_requested_once_witness:
  "\<exists>db r. create_publication_intent plain_ops (at_time 0 8) 12 5 now_intent (lit ''k'') empty_publisher = (db, Inr r) \<and>
     (\<exists>q\<in>set (db_posts db). create_publication_intent plain_ops (at_time 9 1) 13 5 now_intent (lit ''k'') db =
        (db, create_result plain_ops (q, False)))"
  using witness_requested publication_requested_once [OF empty_publisher_ok _ rtranclp.rtrancl_refl] by fast

lemma witness_materialized:
  "\<exists>db r post. materialize_publication plain_ops (at_time 0 8) 12 (mi_id witness_ingest) (Some witness_ingest) empty_publisher =
     (db, Inr r) \<and> mr_post r = Some post"
proof -
  obtain h where h: "publication_intent_hash plain_ops 5 now_intent = Inr h"
    by (simp add: publication_intent_hash_def plain_ops_def)
  have i: "ingest_intent witness_ingest = Inr now_intent"
    using publication_action_enum.try_from_as_str [of PostNowPublication]
    by (simp add: ingest_intent_def witness_ingest_def intent_try_new_def now_intent_def)
  obtain db row y where
    "insert_intended_post plain_ops (at_time 0 8) (now_input (ingest_publication_key plain_ops 30) h (Some 30)) empty_publisher
       = Inr (db, row)" "into_post plain_ops row = Inr y"
    using witness_insert by blast
  then show ?thesis
    using h i
    by (simp add: materialize_publication_def materialize_tx_def insert_ingest_post_def commit_def select_one_def
        lock_media_state_def lock_channel_def ensure_channel_enabled_def materialization_outcome_def
        empty_publisher_def now_input_def witness_channel_def witness_ingest_def)
qed

theorem ingest_published_once_witness:
  "\<exists>db r q. materialize_publication plain_ops (at_time 0 8) 12 (mi_id witness_ingest) (Some witness_ingest) empty_publisher =
     (db, Inr r) \<and> q \<in> set (db_posts db) \<and>
     materialize_publication plain_ops (at_time 9 1) 13 (mi_id witness_ingest) (Some witness_ingest) db =
       (db, materialization_outcome plain_ops (Some q, False))"
proof -
  obtain db r post where m: "materialize_publication plain_ops (at_time 0 8) 12 (mi_id witness_ingest)
      (Some witness_ingest) empty_publisher = (db, Inr r)" "mr_post r = Some post"
    using witness_materialized by blast
  have "mi_state witness_ingest = lit ''completed''" "mi_requested_action witness_ingest \<noteq> lit ''save''"
    by (simp_all add: witness_ingest_def)
  moreover from ingest_published_once [OF empty_publisher_ok m rtranclp.rtrancl_refl, of "at_time 9 1" 13]
  obtain q where "q \<in> set (db_posts db)" and all: "\<forall>found. (case found of None \<Rightarrow> True | Some x \<Rightarrow> mi_id x = mi_id witness_ingest) \<longrightarrow>
      materialize_publication plain_ops (at_time 9 1) 13 (mi_id witness_ingest) found db =
        (db, case found of
               None \<Rightarrow> Inl (IngestMissing (mi_id witness_ingest))
             | Some x \<Rightarrow>
                 if mi_requested_action x = lit ''save'' then Inr \<lparr>mr_post = None, mr_created = False\<rparr>
                 else if mi_state x \<noteq> lit ''completed'' then Inl (MaterializationNotReady (mi_id witness_ingest))
                 else materialization_outcome plain_ops (Some q, False))"
    by blast
  moreover note all [THEN spec [of _ "Some witness_ingest"]]
  ultimately show ?thesis using m(1) by (intro exI [of _ db] exI [of _ r] exI [of _ q]) simp
qed

theorem publications_refine_lifecycle_witness:
  "publication_ok plain_ops (fst (create_publication_intent plain_ops (at_time 0 8) 12 5 now_intent (lit ''k'') empty_publisher))"
  using publications_refine_lifecycle [OF empty_publisher_ok rtranclp.rtrancl_refl op_create_intent] by blast

theorem slots_stay_exclusive_witness:
  "\<nexists>p. p \<in> set (db_posts (one_post_db [] queued_post)) \<and> holds_slot p \<and>
     pw_channel_id p = pw_channel_id queued_post \<and> pw_cadence_slot_at p = pw_cadence_slot_at queued_post \<and>
     p \<noteq> queued_post"
proof -
  have ok: "publication_ok plain_ops (one_post_db [] queued_post)"
    by (rule one_post_publication_ok [OF queued_post_inv]) (simp_all add: queued_post_def)
  have excl: "slots_exclusive (one_post_db [] queued_post)"
    by (simp add: slots_exclusive_def one_post_db_def)
  have "holds_slot queued_post" by (simp add: holds_slot_def queued_post_def)
  with slots_stay_exclusive [OF ok rtranclp.rtrancl_refl excl, of _ queued_post] show ?thesis
    by (auto simp: one_post_db_def)
qed

text \<open>The item of the queued post is requested again.\<close>

theorem repeat_waits_for_decision_witness:
  "\<exists>db row. insert_intended_post plain_ops (at_time 0 8) (now_input (lit ''k'') [] None) (one_post_db [] queued_post) =
     Inr (db, row) \<and> pw_state row = lit ''draft'' \<and> db_jobs db = []"
proof -
  let ?db = "one_post_db [] queued_post"
  let ?in = "now_input (lit ''k'') [] None"
  have ok: "publication_ok plain_ops ?db"
    by (rule one_post_publication_ok [OF queued_post_inv]) (simp_all add: queued_post_def)
  have rep: "repeats 5 at 12 queued_post" for at by (simp add: repeats_def queued_post_def)
  obtain c where "find_repeat_conflicts ?db 5 at 12 = Inr [c]" for at
    using rep post_state_enum.try_from_as_str [of PostQueued]
    by (simp add: find_repeat_conflicts_def repeat_rows_def repeat_row_def one_post_db_def map_filter_simps
        MAX_REPEAT_EVIDENCE_CONFLICTS_def select_one_def witness_channel_def queued_post_def repeat_conflict_of_def)
  then have find: "find_repeat_conflicts ?db (ip_media_id ?in) at (ip_post_id ?in) = Inr [c]" for at
    by (simp add: now_input_def)
  have ev: "evaluation_time plain_ops (at_time 0 8) ?in ?db = Inr (ip_now ?in)"
    by (simp add: evaluation_time_def now_input_def now_intent_def)
  obtain v where v: "repeat_value plain_ops [c] = Inr (Some v)"
    by (simp add: repeat_value_def plain_ops_def)
  have "\<exists>db row. insert_post plain_ops (intended_row (at_time 0 8) ?in (ip_now ?in) (Some v)) ?db = Inr (db, row) \<and> pw_id row = 12"
    by (simp add: insert_post_def intended_row_def default_post_def request_check_def same_request_key_def same_origin_def
        plain_ops_def now_input_def now_intent_def one_post_db_def queued_post_def)
  then obtain db row where ins: "insert_intended_post plain_ops (at_time 0 8) ?in ?db = Inr (db, row)" "pw_id row = 12"
    using insert_post_Inr(1) by (auto simp: insert_intended_post_def ev find v)
  have fk: "\<forall>p\<in>set (db_posts ?db). pw_channel_id p \<in> ch_id ` set (db_channels ?db)"
    by (simp add: one_post_db_def queued_post_def witness_channel_def)
  have "list_ex (repeats (ip_media_id (now_input (lit ''k'') [] None)) (pw_scheduled_at row) (pw_id row)) (db_posts ?db)"
    using rep ins(2) by (simp add: now_input_def one_post_db_def)
  with repeat_waits_for_decision [OF ok ins(1) fk] ins(1) show ?thesis by (auto simp: one_post_db_def)
qed

theorem one_enabled_channel_witness:
  "channels_ok plain_ops (fst (update_channel plain_ops (at_time 0 8) 3
     \<lparr>cu_name = Some (lit ''m''), cu_telegram_chat_id = None, cu_is_enabled = Some False, cu_time_zone = None,
      cu_window_start = None, cu_window_end = None, cu_interval_minutes = None, cu_default_parse_mode = None,
      cu_default_disable_notification = None, cu_expected_updated_at = None\<rparr> empty_publisher))"
proof -
  have "channel_valid plain_ops witness_channel"
    by (simp add: channel_valid_def validate_channel_def channel_settings_def witness_channel_def channel_validate_def
        plain_ops_def utc_ops_def trim_def trim_start_def trim_end_def lit_def is_whitespace_def
        MAX_CHANNEL_NAME_LENGTH_def time_from_hms_def)
  then have "channels_ok plain_ops empty_publisher"
    by (simp add: channels_ok_def empty_publisher_def table_ok_def)
  then show ?thesis
    using one_enabled_channel [OF _ r_into_rtranclp [of "settings_op plain_ops", OF op_update_channel]] by blast
qed

end
