(* ===== verification/Paging.thy ===== *)
theory Paging
  imports Tables
begin

text \<open>
  Cursor pagination as the repositories' read models do it: \<open>WHERE key > cursor ORDER BY key LIMIT
  limit + 1\<close>, a page of at most \<open>limit\<close> rows, and the key of its last row as the next cursor when there
  is more. The contract \<open>cursor_order\<close> is what an \<open>ORDER BY\<close> clause provides; following the cursors of a
  table that does not change visits every row once, in order.
\<close>

section \<open>Pages\<close>

definition past_cursor :: "('k \<Rightarrow> 'k \<Rightarrow> bool) \<Rightarrow> 'k option \<Rightarrow> 'k \<Rightarrow> bool" where
  "past_cursor before cursor k = (case cursor of None \<Rightarrow> True | Some c \<Rightarrow> before c k)"

definition page_rows ::
  "('r \<Rightarrow> 'k) \<Rightarrow> ('k \<Rightarrow> 'k \<Rightarrow> bool) \<Rightarrow> ('r list \<Rightarrow> 'r list) \<Rightarrow> nat \<Rightarrow> 'k option \<Rightarrow> 'r list \<Rightarrow> 'r list" where
  "page_rows key before order limit cursor t =
     take (limit + 1) (order (filter (\<lambda>r. past_cursor before cursor (key r)) t))"

definition cut_page :: "('r \<Rightarrow> 'k) \<Rightarrow> nat \<Rightarrow> 'r list \<Rightarrow> 'r list \<times> 'k option" where
  "cut_page key limit rows =
     (let has_more = length rows > limit;
          rows = take limit rows in
      (rows, if has_more \<and> rows \<noteq> [] then Some (key (last rows)) else None))"

definition fetch_page ::
  "('r \<Rightarrow> 'k) \<Rightarrow> ('k \<Rightarrow> 'k \<Rightarrow> bool) \<Rightarrow> ('r list \<Rightarrow> 'r list) \<Rightarrow> nat \<Rightarrow> 'k option \<Rightarrow> 'r list \<Rightarrow> 'r list \<times> 'k option" where
  "fetch_page key before order limit cursor t =
     cut_page key limit (page_rows key before order limit cursor t)"

text \<open>\<open>ORDER BY key ASC\<close> and \<open>ORDER BY key DESC\<close>.\<close>

definition ascending :: "('r \<Rightarrow> 'k::linorder) \<Rightarrow> 'r list \<Rightarrow> 'r list" where
  "ascending key t = sort_key key t"

definition descending :: "('r \<Rightarrow> 'k::linorder) \<Rightarrow> 'r list \<Rightarrow> 'r list" where
  "descending key t = rev (sort_key key t)"

definition later :: "'k::linorder \<Rightarrow> 'k \<Rightarrow> bool" where
  "later c k \<longleftrightarrow> k < c"

text \<open>The rows a client sees that follows the cursors for at most \<open>n\<close> pages.\<close>

fun follow_pages ::
  "('k option \<Rightarrow> 'r list \<times> 'k option) \<Rightarrow> nat \<Rightarrow> 'k option \<Rightarrow> 'r list" where
  "follow_pages page 0 cursor = []"
| "follow_pages page (Suc n) cursor =
     (case page cursor of
        (rows, None) \<Rightarrow> rows
      | (rows, Some c) \<Rightarrow> rows @ follow_pages page n (Some c))"

text \<open>The same for an operation that decodes the rows of a page and may fail.\<close>

fun walk_pages ::
  "('k option \<Rightarrow> 'e + 'a list \<times> 'k option) \<Rightarrow> nat \<Rightarrow> 'k option \<Rightarrow> 'e + 'a list" where
  "walk_pages page 0 cursor = Inr []"
| "walk_pages page (Suc n) cursor =
     rbind (page cursor) (\<lambda>(items, more).
       case more of
         None \<Rightarrow> Inr items
       | Some c \<Rightarrow> map_ok ((@) items) (walk_pages page n (Some c)))"

lemma walk_pages_follow:
  assumes "\<And>c. page c = map_ok (\<lambda>items. (items, snd (rows c))) (load (fst (rows c)))"
    and "load [] = Inr []" and "\<And>xs ys. load (xs @ ys) = rbind (load xs) (\<lambda>a. map_ok ((@) a) (load ys))"
  shows "walk_pages page n cursor = load (follow_pages rows n cursor)"
proof (induction n arbitrary: cursor)
  case (Suc n)
  obtain rs more where r: "rows cursor = (rs, more)" by (cases "rows cursor")
  show ?case
  proof (cases "load rs")
    case (Inl e)
    then show ?thesis using assms(3) r by (cases more) (simp_all add: assms(1))
  next
    case (Inr items)
    then show ?thesis using assms(3) r Suc.IH by (cases more) (simp_all add: assms(1))
  qed
qed (simp add: assms(2))

lemma collect_results_append:
  "collect_results (xs @ ys) = rbind (collect_results xs) (\<lambda>a. map_ok ((@) a) (collect_results ys))"
proof (induction xs)
  case Nil
  then show ?case by (cases "collect_results ys") simp_all
next
  case (Cons x xs)
  then show ?case
    by (cases x; cases "collect_results xs"; cases "collect_results ys") simp_all
qed

section \<open>The contract of an order\<close>

locale cursor_order =
  fixes key :: "'r \<Rightarrow> 'k" and before :: "'k \<Rightarrow> 'k \<Rightarrow> bool" and order :: "'r list \<Rightarrow> 'r list"
  assumes before_irrefl: "\<not> before k k"
    and before_trans: "before a b \<Longrightarrow> before b c \<Longrightarrow> before a c"
    and order_set: "set (order t) = set t"
    and order_sorted: "distinct (map key t) \<Longrightarrow> sorted_wrt (\<lambda>r s. before (key r) (key s)) (order t)"
    and order_filter: "distinct (map key t) \<Longrightarrow> order (filter P t) = filter P (order t)"
begin

lemma past_split:
  assumes "sorted_wrt (\<lambda>r s. before (key r) (key s)) (xs @ ys)" and "xs \<noteq> []"
  shows "filter (\<lambda>r. before (key (last xs)) (key r)) (xs @ ys) = ys"
proof -
  have "\<not> before (key (last xs)) (key r)" if "r \<in> set xs" for r
  proof
    assume b: "before (key (last xs)) (key r)"
    obtain zs where zs: "xs = zs @ [last xs]" using assms(2) by (metis append_butlast_last_id)
    have "r \<in> set (zs @ [last xs])" using that by (simp only: zs [symmetric])
    then consider "r = last xs" | "r \<in> set zs" by auto
    then show False
    proof cases
      case 2
      have "sorted_wrt (\<lambda>r s. before (key r) (key s)) (zs @ [last xs])"
        using assms(1) zs by (metis sorted_wrt_append)
      then have "before (key r) (key (last xs))" using 2 by (simp add: sorted_wrt_append)
      then show False using b before_trans before_irrefl by blast
    qed (use b before_irrefl in simp)
  qed
  then have "filter (\<lambda>r. before (key (last xs)) (key r)) xs = []" by (simp add: filter_empty_conv)
  moreover have "\<forall>r\<in>set ys. before (key (last xs)) (key r)"
    using assms by (simp add: sorted_wrt_append)
  then have "filter (\<lambda>r. before (key (last xs)) (key r)) ys = ys" by simp
  ultimately show ?thesis by simp
qed

text \<open>A page is the next part of the sorted rows past the cursor.\<close>

lemma fetch_page_split:
  assumes "distinct (map key t)" and "order (filter (\<lambda>r. past_cursor before cursor (key r)) t) = rest"
    and "0 < limit"
  shows "fetch_page key before order limit cursor t =
    (take limit rest, if length rest > limit then Some (key (last (take limit rest))) else None)"
  using assms(2,3) by (auto simp: fetch_page_def cut_page_def page_rows_def Let_def min_def)

lemma rest_after_page:
  assumes "distinct (map key t)" and "order t = done_rows @ rest" and "done_rows \<noteq> []"
  shows "order (filter (\<lambda>r. past_cursor before (Some (key (last done_rows))) (key r)) t) = rest"
  using past_split [OF _ assms(3), of rest] order_sorted [OF assms(1)]
  by (simp add: past_cursor_def order_filter [OF assms(1)] assms(2))

lemma follow_rest:
  assumes "distinct (map key t)" and "0 < limit"
    and "order t = seen @ rest" and "seen \<noteq> [] \<and> cursor = Some (key (last seen)) \<or> seen = [] \<and> cursor = None"
    and "length rest \<le> n * limit"
  shows "follow_pages (\<lambda>c. fetch_page key before order limit c t) n cursor = rest"
  using assms(3-5)
proof (induction n arbitrary: seen rest cursor)
  case (Suc n)
  have "order (filter (\<lambda>r. past_cursor before cursor (key r)) t) = rest"
    using Suc.prems(2)
  proof
    assume "seen \<noteq> [] \<and> cursor = Some (key (last seen))"
    then show ?thesis using rest_after_page [OF assms(1) Suc.prems(1)] by simp
  qed (use Suc.prems(1) in \<open>simp add: past_cursor_def\<close>)
  note page = fetch_page_split [OF assms(1) this assms(2)]
  show ?case
  proof (cases "length rest > limit")
    case True
    let ?xs = "take limit rest"
    have ne: "?xs \<noteq> []" using True assms(2) by auto
    have "order t = (seen @ ?xs) @ drop limit rest" using Suc.prems(1) by simp
    moreover have "last (seen @ ?xs) = last ?xs" using ne by (rule last_appendR)
    ultimately have "follow_pages (\<lambda>c. fetch_page key before order limit c t) n (Some (key (last ?xs))) = drop limit rest"
      using Suc.IH [of "seen @ ?xs" "drop limit rest" "Some (key (last ?xs))"] Suc.prems(3) ne by simp
    then show ?thesis using page True by simp
  qed (use page in simp)
qed simp

lemma follow_all:
  assumes "distinct (map key t)" and "0 < limit" and "length (order t) \<le> n * limit"
  shows "follow_pages (\<lambda>c. fetch_page key before order limit c t) n None = order t"
  by (rule follow_rest [OF assms(1,2), of "[]"]) (use assms(3) in simp_all)

end

section \<open>The orders of SQL\<close>

lemma sort_key_strict:
  fixes key :: "'r \<Rightarrow> 'k::linorder"
  assumes "distinct (map key t)"
  shows "sorted_wrt (\<lambda>r s. key r < key s) (sort_key key t)"
proof -
  have "distinct (map key (sort_key key t))"
    using assms by (metis distinct_map distinct_sort set_sort)
  then have "sorted_wrt (<) (map key (sort_key key t))"
    using strict_sorted_iff sorted_sort_key by blast
  then show ?thesis by (simp add: sorted_wrt_map)
qed

interpretation ascending_order: cursor_order key "(<)" "ascending key"
  for key :: "'r \<Rightarrow> 'k::linorder"
  by unfold_locales (auto simp: ascending_def sort_key_strict filter_sort)

interpretation descending_order: cursor_order key later "descending key"
  for key :: "'r \<Rightarrow> 'k::linorder"
proof
  fix t :: "'r list" and P
  assume d: "distinct (map key t)"
  show "sorted_wrt (\<lambda>r s. later (key r) (key s)) (descending key t)"
    using sort_key_strict [OF d] by (simp add: descending_def later_def sorted_wrt_rev)
  show "descending key (filter P t) = filter P (descending key t)"
    by (simp add: descending_def filter_sort [symmetric] rev_filter [symmetric])
qed (auto simp: later_def descending_def)

end
