(* ===== verification/Read_Models.thy ===== *)
theory Read_Models
  imports Settlement Inbox_Store Publication_Requests Paging
begin

text \<open>
  What the repositories read: single rows, counts, bounded lists and the cursor pages of posts, ingests
  and media (\<open>persistence/src/publisher.rs\<close>, \<open>inbox.rs\<close>, \<open>library.rs\<close>), and the materialisation of an
  ingest on the whole store. A count of rows is never negative, so \<open>u64::try_from\<close> cannot fail in the
  model. The list operations read in one snapshot; in the code each item of a page of posts is a query
  of its own.
\<close>

section \<open>Bounds of a list\<close>

definition limit_in_bounds :: "u32 \<Rightarrow> bool" where
  "limit_in_bounds limit \<longleftrightarrow> 1 \<le> limit \<and> limit \<le> 50"

section \<open>Posts and channels\<close>

definition find_post ::
  "('v, 'tz) publisher_ops \<Rightarrow> uuid \<Rightarrow> 'v publisher_db \<Rightarrow> publisher_repository_error + post option" where
  "find_post ops i db =
     (case select_one (\<lambda>p. pw_id p = i) (db_posts db) of
        None \<Rightarrow> Inr None
      | Some row \<Rightarrow> map_ok Some (into_post ops row))"

text \<open>\<open>ORDER BY name, id\<close>; the collation of the database orders the names.\<close>

definition list_channels ::
  "(ustring \<Rightarrow> 'c::linorder) \<Rightarrow> bool \<Rightarrow> 'v publisher_db \<Rightarrow> publisher_repository_error + channel list" where
  "list_channels collate include_disabled db =
     collect_results (map into_channel
       (ascending (\<lambda>c. (collate (ch_name c), ch_id c))
         (filter (\<lambda>c. include_disabled \<or> ch_is_enabled c) (db_channels db))))"

definition count_future_queued_posts :: "db_env \<Rightarrow> 'v publisher_db \<Rightarrow> nat" where
  "count_future_queued_posts env db =
     length (filter (\<lambda>p. pw_state p = lit ''queued'' \<and> env_now env < pw_scheduled_at p) (db_posts db))"

definition needs_repeat_decision :: "'v post_row \<Rightarrow> bool" where
  "needs_repeat_decision p \<longleftrightarrow> pw_state p = lit ''draft'' \<and> pw_repeat_evidence p \<noteq> None"

definition count_repeat_decisions :: "'v publisher_db \<Rightarrow> nat" where
  "count_repeat_decisions db = length (filter needs_repeat_decision (db_posts db))"

definition list_repeat_decisions ::
  "('v, 'tz) publisher_ops \<Rightarrow> u32 \<Rightarrow> 'v publisher_db \<Rightarrow> publisher_repository_error + post list" where
  "list_repeat_decisions ops limit db =
     (if \<not> limit_in_bounds limit then Inl (InvalidLimit limit)
      else collect_results (map (into_post ops)
        (take (unat limit)
          (descending (\<lambda>p. (pw_updated_at p, pw_id p)) (filter needs_repeat_decision (db_posts db))))))"

record post_preview =
  pv_mime_type :: ustring
  pv_width :: u32
  pv_height :: u32
  pv_size_bytes :: u32
  pv_sha256 :: "u8 list"

record post_list_item =
  pli_post :: post
  pli_channel_name :: ustring
  pli_media_kind :: ustring
  pli_source_url :: "ustring option"
  pli_storage_url :: "ustring option"
  pli_preview :: "post_preview option"

type_synonym row_cursor = "timestamp \<times> uuid"

record post_page =
  pg_items :: "post_list_item list"
  pg_next_cursor :: "row_cursor option"

definition post_list_preview ::
  "uuid \<Rightarrow> media_row \<Rightarrow> publisher_repository_error + post_preview option" where
  "post_list_preview i m =
     (case (mw_preview_mime_type m, mw_preview_width m, mw_preview_height m, mw_preview_bytes m, mw_preview_sha256 m) of
        (None, None, None, None, None) \<Rightarrow> Inr None
      | (Some mime_type, Some width, Some height, Some bytes, Some sha256) \<Rightarrow>
          if mime_type \<in> {lit ''image/jpeg'', lit ''image/png''} \<and> 1 \<le> width \<and> width \<le> 320 \<and>
             1 \<le> height \<and> height \<le> 320 \<and> 1 \<le> length bytes \<and> length bytes \<le> 131072 \<and> length sha256 = 32
          then Inr (Some \<lparr>pv_mime_type = mime_type, pv_width = word_of_int width, pv_height = word_of_int height,
                          pv_size_bytes = word_of_nat (length bytes), pv_sha256 = sha256\<rparr>)
          else Inl (InvalidPreviewMetadata i)
      | _ \<Rightarrow> Inl (InvalidPreviewMetadata i))"

text \<open>The join of a post with its channel and its media.\<close>

definition load_post_list_item ::
  "('v, 'tz) publisher_ops \<Rightarrow> uuid \<Rightarrow> 'v store \<Rightarrow> publisher_repository_error + post_list_item option" where
  "load_post_list_item ops i s =
     rbind (find_post ops i (publisher_view s)) (\<lambda>post.
       case post of
         None \<Rightarrow> Inr None
       | Some post \<Rightarrow>
           (case (select_one (\<lambda>c. ch_id c = po_channel_id post) (st_channels s), select_media (po_media_id post) s) of
              (Some channel, Some m) \<Rightarrow>
                rbind (post_list_preview i m) (\<lambda>preview.
                  Inr (Some
                    \<lparr>pli_post = post, pli_channel_name = ch_name channel, pli_media_kind = mw_kind m,
                     pli_source_url = mw_source_url m,
                     pli_storage_url = telegram_message_link_optional (mw_telegram_storage_chat_id m)
                       (mw_telegram_storage_message_id m),
                     pli_preview = preview\<rparr>))
            | _ \<Rightarrow> Inr None))"

definition listed_post :: "bool \<Rightarrow> 'v post_row \<Rightarrow> bool" where
  "listed_post include_history p \<longleftrightarrow> include_history \<or> pw_state p \<notin> {lit ''published'', lit ''cancelled''}"

definition post_cursor :: "'v post_row \<Rightarrow> row_cursor" where
  "post_cursor p = (pw_scheduled_at p, pw_id p)"

text \<open>\<open>if let Some(item) = ... { items.push(item) }\<close> over the rows of the page.\<close>

definition load_items ::
  "('v, 'tz) publisher_ops \<Rightarrow> 'v store \<Rightarrow> 'v post_row list \<Rightarrow> publisher_repository_error + post_list_item list" where
  "load_items ops s rows =
     map_ok (List.map_filter id) (collect_results (map (\<lambda>p. load_post_list_item ops (pw_id p) s) rows))"

definition list_posts ::
  "('v, 'tz) publisher_ops \<Rightarrow> u32 \<Rightarrow> row_cursor option \<Rightarrow> bool \<Rightarrow> 'v store \<Rightarrow>
   publisher_repository_error + post_page" where
  "list_posts ops limit cursor include_history s =
     (if \<not> limit_in_bounds limit then Inl (InvalidLimit limit)
      else case fetch_page post_cursor (<) (ascending post_cursor) (unat limit) cursor
                  (filter (listed_post include_history) (st_posts s)) of
        (rows, next_cursor) \<Rightarrow>
          map_ok (\<lambda>items. \<lparr>pg_items = items, pg_next_cursor = next_cursor\<rparr>) (load_items ops s rows))"

section \<open>Materialisation on the store\<close>

definition materialization_row :: "ingest_row \<Rightarrow> materialization_ingest_row" where
  "materialization_row r =
     \<lparr>mi_id = iw_id r, mi_state = iw_state r, mi_media_id = iw_media_id r,
      mi_requested_action = iw_requested_action r, mi_requested_publish_at = iw_requested_publish_at r,
      mi_requested_post_caption = iw_requested_post_caption r,
      mi_requested_channel_id = iw_requested_channel_id r\<rparr>"

definition materialize_ingest ::
  "('v, 'tz) publisher_ops \<Rightarrow> db_env \<Rightarrow> uuid \<Rightarrow> uuid \<Rightarrow> 'v store \<Rightarrow>
   'v store \<times> (publisher_repository_error + materialization_result)" where
  "materialize_ingest ops env post_id ingest_id s =
     on_publisher (materialize_publication ops env post_id ingest_id
       (map_option materialization_row (select_ingest ingest_id s))) s"

section \<open>Ingests\<close>

record ingest_list_item =
  ili_id :: uuid
  ili_source_url :: "ustring option"
  ili_page_url :: "ustring option"
  ili_requested_action :: requested_action
  ili_status :: ingest_status
  ili_created_at :: timestamp
  ili_updated_at :: timestamp
  ili_completed_at :: "timestamp option"
  ili_media_id :: "uuid option"
  ili_storage_url :: "ustring option"
  ili_error_code :: "ustring option"
  ili_error_message :: "ustring option"

record ingest_page =
  ipg_items :: "ingest_list_item list"
  ipg_next_cursor :: "row_cursor option"

text \<open>The row of the left join with \<open>media\<close>, and its item.\<close>

definition list_item :: "'v store \<Rightarrow> ingest_row \<Rightarrow> inbox_repository_error + ingest_list_item" where
  "list_item s r =
     (let m = Option.bind (iw_media_id r) (\<lambda>i. select_media i s) in
      rbind (map_err UnknownRequestedAction (requested_action_try_from (iw_requested_action r))) (\<lambda>action.
      rbind (map_err UnknownIngestStatus (ingest_status_try_from (iw_state r))) (\<lambda>status.
        Inr \<lparr>ili_id = iw_id r, ili_source_url = iw_source_url r, ili_page_url = iw_page_url r,
             ili_requested_action = action, ili_status = status, ili_created_at = iw_created_at r,
             ili_updated_at = iw_updated_at r, ili_completed_at = iw_completed_at r,
             ili_media_id = iw_media_id r,
             ili_storage_url = storage_message_url (Option.bind m mw_telegram_storage_chat_id)
               (Option.bind m mw_telegram_storage_message_id),
             ili_error_code = iw_error_code r,
             ili_error_message = map_option (take 512) (iw_error_message r)\<rparr>)))"

definition ingest_cursor :: "ingest_row \<Rightarrow> row_cursor" where
  "ingest_cursor r = (iw_created_at r, iw_id r)"

definition list_admin ::
  "u32 \<Rightarrow> row_cursor option \<Rightarrow> 'v store \<Rightarrow> inbox_repository_error + ingest_page" where
  "list_admin limit cursor s =
     (if \<not> limit_in_bounds limit then Inl (InboxInvalidLimit (unat limit) 50)
      else case fetch_page ingest_cursor later (descending ingest_cursor) (unat limit) cursor (st_ingests s) of
        (rows, next_cursor) \<Rightarrow>
          map_ok (\<lambda>items. \<lparr>ipg_items = items, ipg_next_cursor = next_cursor\<rparr>)
            (collect_results (map (list_item s) rows)))"

definition count_active :: "'v store \<Rightarrow> nat" where
  "count_active s =
     length (filter (\<lambda>r. iw_state r \<notin> {lit ''completed'', lit ''failed_terminal'', lit ''cancelled''}) (st_ingests s))"

definition count_duplicate_pending :: "'v store \<Rightarrow> nat" where
  "count_duplicate_pending s = length (filter (\<lambda>r. iw_state r = lit ''duplicate_pending'') (st_ingests s))"

section \<open>Media\<close>

definition load_media :: "uuid \<Rightarrow> 'v store \<Rightarrow> library_repository_error + media_row option" where
  "load_media i s =
     (case select_media i s of
        None \<Rightarrow> Inr None
      | Some m \<Rightarrow> map_ok Some (fetch_media_row m))"

definition find_media :: "('v, 'tz) store_ops \<Rightarrow> uuid \<Rightarrow> 'v store \<Rightarrow> library_repository_error + media option" where
  "find_media ops i s =
     rbind (load_media i s) (\<lambda>row.
       case row of
         None \<Rightarrow> Inr None
       | Some m \<Rightarrow> map_ok Some (into_media ops m))"

definition find_media_preview ::
  "('v, 'tz) store_ops \<Rightarrow> uuid \<Rightarrow> 'v store \<Rightarrow> library_repository_error + media_preview_data option" where
  "find_media_preview ops i s =
     rbind (ok_or (select_media i s) (MediaResourceMissing i)) (\<lambda>m.
       case (mw_preview_bytes m, mw_preview_mime_type m, mw_preview_width m, mw_preview_height m, mw_preview_sha256 m) of
         (Some bytes, Some mime_type, Some width, Some height, Some sha256) \<Rightarrow>
           if width < 0 then Inl (InvalidPreview (lit ''preview width is invalid''))
           else if height < 0 then Inl (InvalidPreview (lit ''preview height is invalid''))
           else rbind (check_preview_bytes ops mime_type bytes (nat width) (nat height) sha256) (\<lambda>_.
             Inr (Some
               \<lparr>mpd_metadata = \<lparr>mp_mime_type = mime_type, mp_width = word_of_int width,
                                mp_height = word_of_int height, mp_size_bytes = word_of_nat (length bytes),
                                mp_sha256 = sha256\<rparr>,
                mpd_bytes = bytes\<rparr>))
       | _ \<Rightarrow> Inr None)"

definition find_storage_caption_metadata ::
  "uuid \<Rightarrow> 'v store \<Rightarrow> library_repository_error + storage_caption_metadata" where
  "find_storage_caption_metadata i s =
     map_ok storage_caption_metadata_from_row (ok_or (select_media i s) (MediaResourceMissing i))"

record media_details =
  md_media :: media
  md_source :: "media_source option"
  md_storage_url :: "ustring option"

definition media_url :: "media_row \<Rightarrow> ustring option" where
  "media_url m = storage_message_url (mw_telegram_storage_chat_id m) (mw_telegram_storage_message_id m)"

definition find_media_details ::
  "('v, 'tz) store_ops \<Rightarrow> uuid \<Rightarrow> 'v store \<Rightarrow> library_repository_error + media_details option" where
  "find_media_details ops i s =
     rbind (load_media i s) (\<lambda>row.
       case row of
         None \<Rightarrow> Inr None
       | Some m \<Rightarrow>
           rbind (into_media ops m) (\<lambda>media.
           rbind (source_from_row ops m) (\<lambda>source.
             Inr (Some \<lparr>md_media = media, md_source = source, md_storage_url = media_url m\<rparr>))))"

record media_summary =
  msu_media :: media
  msu_source_url :: "ustring option"
  msu_source_original_url :: "ustring option"
  msu_source_metadata :: "json option"
  msu_storage_url :: "ustring option"

record media_page =
  mpg_items :: "media_summary list"
  mpg_next_cursor :: "row_cursor option"

definition summary_from_row ::
  "('v, 'tz) store_ops \<Rightarrow> media_row \<Rightarrow> library_repository_error + media_summary" where
  "summary_from_row ops m =
     rbind (into_media ops m) (\<lambda>media.
     rbind (source_from_row ops m) (\<lambda>source.
       Inr \<lparr>msu_media = media, msu_source_url = mw_source_url m,
            msu_source_original_url = Option.bind source src_original_url,
            msu_source_metadata = map_option src_metadata source, msu_storage_url = media_url m\<rparr>))"

definition media_cursor :: "media_row \<Rightarrow> row_cursor" where
  "media_cursor m = (mw_updated_at m, mw_id m)"

text \<open>The query of both lists, newest first, with its rows decoded.\<close>

definition media_pages ::
  "('v, 'tz) store_ops \<Rightarrow> (media_row \<Rightarrow> bool) \<Rightarrow> u32 \<Rightarrow> row_cursor option \<Rightarrow> 'v store \<Rightarrow>
   library_repository_error + media_page" where
  "media_pages ops P limit cursor s =
     (if \<not> limit_in_bounds limit then Inl (LibraryInvalidLimit limit)
      else rbind (collect_results (map fetch_media_row
             (page_rows media_cursor later (descending media_cursor) (unat limit) cursor (filter P (st_media s)))))
        (\<lambda>rows. case cut_page media_cursor (unat limit) rows of
           (rows, next_cursor) \<Rightarrow>
             map_ok (\<lambda>items. \<lparr>mpg_items = items, mpg_next_cursor = next_cursor\<rparr>)
               (collect_results (map (summary_from_row ops) rows))))"

definition search_media ::
  "('v, 'tz) store_ops \<Rightarrow> u32 \<Rightarrow> row_cursor option \<Rightarrow> 'v store \<Rightarrow> library_repository_error + media_page" where
  "search_media ops limit cursor s = media_pages ops (\<lambda>_. True) limit cursor s"

datatype media_lookup =
    Identifier uuid
  | MediaId uuid
  | IngestId uuid
  | SourceUrls "ustring list"
  | StorageMessage int int

fun looked_up :: "'v store \<Rightarrow> media_lookup \<Rightarrow> media_row \<Rightarrow> bool" where
  "looked_up s (Identifier i) m =
     (mw_id m = i \<or> list_ex (\<lambda>r. iw_id r = i \<and> iw_media_id r = Some (mw_id m)) (st_ingests s))"
| "looked_up s (MediaId i) m = (mw_id m = i)"
| "looked_up s (IngestId i) m = list_ex (\<lambda>r. iw_id r = i \<and> iw_media_id r = Some (mw_id m)) (st_ingests s)"
| "looked_up s (SourceUrls urls) m = (case mw_source_url m of None \<Rightarrow> False | Some url \<Rightarrow> url \<in> set urls)"
| "looked_up s (StorageMessage chat_id message_id) m =
     (mw_telegram_storage_chat_id m = Some chat_id \<and> mw_telegram_storage_message_id m = Some message_id)"

definition lookup_media ::
  "('v, 'tz) store_ops \<Rightarrow> media_lookup \<Rightarrow> u32 \<Rightarrow> row_cursor option \<Rightarrow> 'v store \<Rightarrow>
   library_repository_error + media_page" where
  "lookup_media ops lookup limit cursor s = media_pages ops (looked_up s lookup) limit cursor s"

definition count_ready_media :: "'v store \<Rightarrow> nat" where
  "count_ready_media s = length (filter (\<lambda>m. mw_storage_state m = lit ''ready'') (st_media s))"

definition count_caption_sync_failures :: "'v store \<Rightarrow> nat" where
  "count_caption_sync_failures s = length (filter (\<lambda>m. mw_caption_sync_state m = lit ''failed'') (st_media s))"

record caption_sync_failure =
  csf_media_id :: uuid
  csf_error_message :: "ustring option"

definition list_caption_sync_failures ::
  "u32 \<Rightarrow> 'v store \<Rightarrow> library_repository_error + caption_sync_failure list" where
  "list_caption_sync_failures limit s =
     (if \<not> limit_in_bounds limit then Inl (LibraryInvalidLimit limit)
      else Inr (map (\<lambda>m. \<lparr>csf_media_id = mw_id m, csf_error_message = map_option (take 512) (mw_caption_sync_error m)\<rparr>)
        (take (unat limit) (descending media_cursor
          (filter (\<lambda>m. mw_caption_sync_state m = lit ''failed'') (st_media s))))))"

record storage_upload_info =
  sui_media_id :: uuid
  sui_state :: ustring
  sui_generation :: int
  sui_storage_chat_id :: "int option"
  sui_storage_message_id :: "int option"
  sui_file_id :: "ustring option"
  sui_file_unique_id :: "ustring option"
  sui_updated_at :: timestamp

definition into_storage_info :: "media_row \<Rightarrow> library_repository_error + storage_upload_info" where
  "into_storage_info m =
     Inr \<lparr>sui_media_id = mw_id m, sui_state = mw_storage_state m, sui_generation = mw_storage_generation m,
          sui_storage_chat_id = mw_telegram_storage_chat_id m,
          sui_storage_message_id = mw_telegram_storage_message_id m, sui_file_id = mw_telegram_file_id m,
          sui_file_unique_id = mw_telegram_file_unique_id m, sui_updated_at = mw_updated_at m\<rparr>"

definition list_storage_uploads :: "'v store \<Rightarrow> library_repository_error + storage_upload_info list" where
  "list_storage_uploads s =
     rbind (collect_results (map fetch_media_row
       (ascending (\<lambda>m. (mw_created_at m, mw_id m))
         (filter (\<lambda>m. mw_storage_state m \<in> {lit ''pending_storage'', lit ''storage_unknown''}) (st_media s)))))
       (\<lambda>rows. collect_results (map into_storage_info rows))"

section \<open>Pages are complete\<close>

lemma limit_positive: "limit_in_bounds limit \<Longrightarrow> 0 < unat limit"
  by (auto simp: limit_in_bounds_def unat_gt_0)

lemma load_items_append:
  "load_items ops s (xs @ ys) = rbind (load_items ops s xs) (\<lambda>a. map_ok ((@) a) (load_items ops s ys))"
  by (cases "collect_results (map (\<lambda>p. load_post_list_item ops (pw_id p) s) xs)";
      cases "collect_results (map (\<lambda>p. load_post_list_item ops (pw_id p) s) ys)")
     (simp_all add: load_items_def collect_results_append map_filter_def)

lemma distinct_pair_key: "distinct (map key t) \<Longrightarrow> distinct (map (\<lambda>r. (f r, key r)) t)"
  by (auto simp: distinct_map inj_on_def)

lemma map_ok_map_ok: "map_ok f (map_ok g x) = map_ok (\<lambda>y. f (g y)) x"
  by (cases x) simp_all

text \<open>(C21) The pages of the schedule and of the ingests are complete: following the cursors from the first
  page, in a store that does not change, reads every listed post in the order of its time and every ingest
  from the newest on, each exactly once, whatever the limit of a page is.\<close>

theorem pages_complete:
  assumes "limit_in_bounds limit" and "distinct (map pw_id (st_posts s))" and "distinct (map iw_id (st_ingests s))"
    and "length (st_posts s) \<le> n * unat limit" and "length (st_ingests s) \<le> n * unat limit"
  shows "walk_pages (\<lambda>c. map_ok (\<lambda>page. (pg_items page, pg_next_cursor page)) (list_posts ops limit c history s)) n None =
           load_items ops s (ascending post_cursor (filter (listed_post history) (st_posts s))) \<and>
         walk_pages (\<lambda>c. map_ok (\<lambda>page. (ipg_items page, ipg_next_cursor page)) (list_admin limit c s)) n None =
           collect_results (map (list_item s) (descending ingest_cursor (st_ingests s)))"
proof
  let ?posts = "filter (listed_post history) (st_posts s)"
  have "distinct (map post_cursor ?posts)"
    using assms(2) distinct_pair_key [of pw_id ?posts pw_scheduled_at]
    by (simp add: post_cursor_def [abs_def] distinct_map_filter)
  moreover have "length (ascending post_cursor ?posts) \<le> n * unat limit"
    using order_trans [OF length_filter_le assms(4)] by (simp add: ascending_def)
  ultimately have follow: "follow_pages (\<lambda>c. fetch_page post_cursor (<) (ascending post_cursor) (unat limit) c ?posts) n None =
      ascending post_cursor ?posts"
    using ascending_order.follow_all limit_positive [OF assms(1)] by blast
  show "walk_pages (\<lambda>c. map_ok (\<lambda>page. (pg_items page, pg_next_cursor page)) (list_posts ops limit c history s)) n None =
      load_items ops s (ascending post_cursor ?posts)"
    unfolding follow [symmetric]
    by (rule walk_pages_follow)
       (use assms(1) in \<open>auto simp: list_posts_def map_ok_map_ok load_items_append split: prod.split\<close>,
        simp add: load_items_def map_filter_simps)
next
  have "distinct (map ingest_cursor (st_ingests s))"
    using assms(3) distinct_pair_key [of iw_id "st_ingests s" iw_created_at] by (simp add: ingest_cursor_def [abs_def])
  moreover have "length (descending ingest_cursor (st_ingests s)) \<le> n * unat limit"
    using assms(5) by (simp add: descending_def)
  ultimately have follow: "follow_pages (\<lambda>c. fetch_page ingest_cursor later (descending ingest_cursor) (unat limit) c (st_ingests s)) n None =
      descending ingest_cursor (st_ingests s)"
    using descending_order.follow_all limit_positive [OF assms(1)] by blast
  show "walk_pages (\<lambda>c. map_ok (\<lambda>page. (ipg_items page, ipg_next_cursor page)) (list_admin limit c s)) n None =
      collect_results (map (list_item s) (descending ingest_cursor (st_ingests s)))"
    unfolding follow [symmetric]
    by (rule walk_pages_follow [where load = "\<lambda>rows. collect_results (map (list_item s) rows)"])
       (use assms(1) in \<open>auto simp: list_admin_def map_ok_map_ok collect_results_append split: prod.split\<close>)
qed

theorem pages_complete_witness:
  "\<exists>s. walk_pages (\<lambda>c. map_ok (\<lambda>page. (pg_items page, pg_next_cursor page))
          (list_posts plain_ops 1 c True (s :: plain_value store))) 2 None =
        load_items plain_ops s [queued_post, queued_post\<lparr>pw_id := 12, pw_scheduled_at := 7\<rparr>] \<and>
     st_posts s = [queued_post\<lparr>pw_id := 12, pw_scheduled_at := 7\<rparr>, queued_post]"
proof -
  let ?q = "queued_post\<lparr>pw_id := 12, pw_scheduled_at := 7\<rparr>"
  let ?s = "\<lparr>st_jobs = [], st_ingests = [], st_media = [], st_posts = [?q, queued_post], st_channels = []\<rparr>"
  have "filter (listed_post True) (st_posts ?s) = [?q, queued_post]" by (simp add: listed_post_def)
  moreover have "ascending post_cursor [?q, queued_post] = [queued_post, ?q]"
    by (simp add: ascending_def post_cursor_def queued_post_def)
  ultimately show ?thesis
    using pages_complete [of 1 ?s 2 plain_ops True]
    by (intro exI [of _ ?s]) (simp add: limit_in_bounds_def queued_post_def)
qed

end
