(* ===== verification/Retention.thy ===== *)
theory Retention
  imports Read_Models Settlement_Contracts
begin

text \<open>
  Retention of terminal jobs (\<open>persistence/src/retention.rs\<close>) and the fences of the families that own
  them (\<open>terminal_job_retention_eligible\<close> of \<open>inbox.rs\<close>, \<open>publisher.rs\<close>, \<open>library.rs\<close> and \<open>cleanup.rs\<close>).
  One candidate is one transaction, \<open>prune_candidate\<close>, on whatever the store is by then; the candidate
  row itself may be stale. The scan reads the clock once, and nothing else runs during it.
\<close>

section \<open>The policy\<close>

record job_retention_policy =
  rp_succeeded_after :: int
  rp_cancelled_after :: int
  rp_failed_after :: int
  rp_batch_size :: nat
  rp_scan_size :: nat

datatype job_retention_error = InvalidBatchSize | InvalidHorizon | InvalidScanSize | RetentionDatabase

definition MAX_HORIZON :: int where
  "MAX_HORIZON = 3650 * 86400 * 1000000000"

definition horizon_in_bounds :: "int \<Rightarrow> bool" where
  "horizon_in_bounds d \<longleftrightarrow> 0 < d \<and> d \<le> MAX_HORIZON"

definition policy_validate :: "job_retention_policy \<Rightarrow> job_retention_error + unit" where
  "policy_validate p =
     (if \<not> horizon_in_bounds (rp_succeeded_after p) \<or> \<not> horizon_in_bounds (rp_cancelled_after p) \<or>
         \<not> horizon_in_bounds (rp_failed_after p)
      then Inl InvalidHorizon
      else if rp_batch_size p = 0 \<or> rp_batch_size p > 10000 then Inl InvalidBatchSize
      else if rp_scan_size p < rp_batch_size p \<or> rp_scan_size p > 100000 then Inl InvalidScanSize
      else Inr ())"

fun cutoff :: "job_retention_policy \<Rightarrow> job_status \<Rightarrow> timestamp \<Rightarrow> timestamp option" where
  "cutoff p JobSucceeded now = Some (now - rp_succeeded_after p)"
| "cutoff p JobCancelled now = Some (now - rp_cancelled_after p)"
| "cutoff p JobFailed now = Some (now - rp_failed_after p)"
| "cutoff p _ now = None"

section \<open>The fences of the owners\<close>

definition inbox_retention_eligible :: "('v, 'tz) store_ops \<Rightarrow> job \<Rightarrow> uuid \<Rightarrow> 'v store \<Rightarrow> bool" where
  "inbox_retention_eligible ops j ingest_id s =
     (case select_ingest ingest_id s of
        None \<Rightarrow> False
      | Some r \<Rightarrow>
          iw_state r \<in> {lit ''completed'', lit ''failed_terminal'', lit ''cancelled''} \<and>
          \<not> list_ex (\<lambda>q. jr_id q \<noteq> job_id j \<and> jr_state q \<in> {lit ''queued'', lit ''running''} \<and>
                        jr_kind q \<noteq> lit ''cleanup_workspace'' \<and>
                        so_payload_text ops (jr_payload q) (lit ''ingest_id'') = Some (so_uuid_text ops ingest_id))
               (st_jobs s))"

definition materialize_retention_eligible :: "uuid \<Rightarrow> 'v store \<Rightarrow> bool" where
  "materialize_retention_eligible ingest_id s =
     (case select_ingest ingest_id s of
        None \<Rightarrow> False
      | Some r \<Rightarrow>
          if iw_requested_action r = lit ''save'' then True
          else if iw_state r \<noteq> lit ''completed'' then False
          else list_ex (\<lambda>p. pw_origin_ingest_id p = Some ingest_id) (st_posts s))"

definition publish_retention_eligible :: "uuid \<Rightarrow> 'v store \<Rightarrow> bool" where
  "publish_retention_eligible post_id s =
     (case select_one (\<lambda>p. pw_id p = post_id) (st_posts s) of
        None \<Rightarrow> False
      | Some p \<Rightarrow> pw_state p \<in> {lit ''published'', lit ''failed'', lit ''cancelled''})"

definition storage_resolved :: "media_row \<Rightarrow> bool" where
  "storage_resolved m \<longleftrightarrow> media_storage_state_try_from (mw_storage_state m) \<in> {Inr StorageReady, Inr StorageMissing}"

definition upload_retention_eligible :: "uuid \<Rightarrow> 'v store \<Rightarrow> bool" where
  "upload_retention_eligible media_id s =
     (case select_media media_id s of None \<Rightarrow> False | Some m \<Rightarrow> storage_resolved m)"

definition caption_retention_eligible :: "uuid \<Rightarrow> 'v store \<Rightarrow> bool" where
  "caption_retention_eligible media_id s =
     (case select_media media_id s of
        None \<Rightarrow> False
      | Some m \<Rightarrow> mw_caption_sync_state m \<in> {lit ''not_required'', lit ''synced'', lit ''failed''})"

definition cleanup_retention_eligible :: "job \<Rightarrow> cleanup_workspace_payload \<Rightarrow> 'v store \<Rightarrow> bool" where
  "cleanup_retention_eligible j payload s =
     (case select_ingest (cwp_ingest_id payload) s of
        None \<Rightarrow> False
      | Some r \<Rightarrow>
          if iw_workspace_id r \<noteq> cwp_workspace_id payload then True
          else if job_status j \<noteq> JobSucceeded then False
          else if \<not> state_allows_cleanup r then False
          else (case iw_media_id r of
                  None \<Rightarrow> True
                | Some media_id \<Rightarrow>
                    (case select_media media_id s of
                       None \<Rightarrow> False
                     | Some m \<Rightarrow> storage_resolved m \<and> mw_local_work_path m = None)))"

definition owner_allows_prune :: "('v, 'tz) store_ops \<Rightarrow> job \<Rightarrow> 'v store \<Rightarrow> bool" where
  "owner_allows_prune ops j s =
     (case job_command j of
        InspectSource payload \<Rightarrow> inbox_retention_eligible ops j (isp_ingest_id payload) s
      | DownloadSource payload \<Rightarrow> inbox_retention_eligible ops j (dsp_ingest_id payload) s
      | ProbeAsset payload \<Rightarrow> inbox_retention_eligible ops j (ijp_ingest_id payload) s
      | NormalizeAsset payload \<Rightarrow> inbox_retention_eligible ops j (ijp_ingest_id payload) s
      | ComputeFingerprint payload \<Rightarrow> inbox_retention_eligible ops j (ijp_ingest_id payload) s
      | FinalizeIngest payload \<Rightarrow> inbox_retention_eligible ops j (ijp_ingest_id payload) s
      | MaterializePublication payload \<Rightarrow> materialize_retention_eligible (mpp_ingest_id payload) s
      | PublishPost payload \<Rightarrow> publish_retention_eligible (ppp_post_id payload) s
      | UploadStorageAsset payload \<Rightarrow> upload_retention_eligible (mjp_media_id payload) s
      | SyncStorageCaption payload \<Rightarrow> caption_retention_eligible (mjp_media_id payload) s
      | CleanupWorkspace payload \<Rightarrow> cleanup_retention_eligible j payload s)"

section \<open>One candidate\<close>

text \<open>\<open>id = $1 AND state = $2 AND completed_at <= $3\<close>.\<close>

definition terminal_candidate :: "job \<Rightarrow> timestamp \<Rightarrow> 'v job_row \<Rightarrow> bool" where
  "terminal_candidate j c r \<longleftrightarrow>
     jr_id r = job_id j \<and> jr_state r = job_status_as_str (job_status j) \<and> not_after_null (jr_completed_at r) c"

definition lock_terminal_candidate :: "db_env \<Rightarrow> job \<Rightarrow> timestamp \<Rightarrow> 'v store \<Rightarrow> 'v job_row option" where
  "lock_terminal_candidate env j c s =
     select_one (\<lambda>r. terminal_candidate j c r \<and> \<not> env_locked env (jr_id r)) (st_jobs s)"

record job_retention_stats =
  rs_candidates :: nat
  rs_eligible :: nat
  rs_pruned :: nat

definition delete_jobs :: "('v job_row \<Rightarrow> bool) \<Rightarrow> 'v store \<Rightarrow> 'v store \<times> nat" where
  "delete_jobs P s = (s\<lparr>st_jobs := filter (\<lambda>r. \<not> P r) (st_jobs s)\<rparr>, length (filter P (st_jobs s)))"

text \<open>The job of a candidate that is past its horizon, with the cutoff.\<close>

definition expired_job ::
  "('v, 'tz) store_ops \<Rightarrow> job_retention_policy \<Rightarrow> timestamp \<Rightarrow> 'v job_row \<Rightarrow> (job \<times> timestamp) option" where
  "expired_job ops policy now row =
     (case into_job (so_codec ops) row of
        Inl _ \<Rightarrow> None
      | Inr j \<Rightarrow>
          (case cutoff policy (job_status j) now of
             None \<Rightarrow> None
           | Some c \<Rightarrow> if \<not> not_after_null (job_completed_at j) c then None else Some (j, c)))"

text \<open>The transaction of one candidate: the new store, and whether its owner allowed it and the row was
  deleted.\<close>

definition prune_candidate ::
  "('v, 'tz) store_ops \<Rightarrow> db_env \<Rightarrow> job_retention_policy \<Rightarrow> 'v job_row \<Rightarrow> 'v store \<Rightarrow> 'v store \<times> bool \<times> bool" where
  "prune_candidate ops env policy row s =
     (case expired_job ops policy (env_utc env) row of
        None \<Rightarrow> (s, False, False)
      | Some (j, c) \<Rightarrow>
          if \<not> owner_allows_prune ops j s then (s, False, False)
          else (case lock_terminal_candidate env j c s of
                  None \<Rightarrow> (s, True, False)
                | Some locked \<Rightarrow>
                    (case validate_locked_command (so_codec ops) locked (job_command j) of
                       Inl _ \<Rightarrow> (s, True, False)
                     | Inr _ \<Rightarrow>
                         (case delete_jobs (terminal_candidate j c) s of (s', n) \<Rightarrow> (s', True, n = 1)))))"

section \<open>The scan\<close>

record job_retention_run =
  rr_stats :: job_retention_stats
  rr_next_cursor :: "row_cursor option"

definition retention_key :: "'v job_row \<Rightarrow> row_cursor" where
  "retention_key r = (the (jr_completed_at r), jr_id r)"

definition past_horizon :: "job_retention_policy \<Rightarrow> timestamp \<Rightarrow> 'v job_row \<Rightarrow> bool" where
  "past_horizon policy now r \<longleftrightarrow>
     (case jr_completed_at r of
        None \<Rightarrow> False
      | Some at \<Rightarrow>
          jr_state r = lit ''succeeded'' \<and> at \<le> now - rp_succeeded_after policy \<or>
          jr_state r = lit ''cancelled'' \<and> at \<le> now - rp_cancelled_after policy \<or>
          jr_state r = lit ''failed'' \<and> at \<le> now - rp_failed_after policy)"

definition load_candidates ::
  "db_env \<Rightarrow> job_retention_policy \<Rightarrow> row_cursor option \<Rightarrow> 'v store \<Rightarrow> 'v job_row list" where
  "load_candidates env policy cursor s =
     take (rp_scan_size policy)
       (ascending retention_key
         (filter (\<lambda>r. past_horizon policy (env_utc env) r \<and> past_cursor (<) cursor (retention_key r)) (st_jobs s)))"

text \<open>The candidates of one query in turn; the flag says that the batch is full.\<close>

fun prune_rows ::
  "('v, 'tz) store_ops \<Rightarrow> db_env \<Rightarrow> job_retention_policy \<Rightarrow> 'v job_row list \<Rightarrow> row_cursor option \<Rightarrow>
   job_retention_stats \<Rightarrow> 'v store \<Rightarrow> 'v store \<times> job_retention_stats \<times> row_cursor option \<times> bool" where
  "prune_rows ops env policy [] cursor stats s = (s, stats, cursor, False)"
| "prune_rows ops env policy (row # rows) cursor stats s =
     (let cursor = Some (retention_key row) in
      case prune_candidate ops env policy row s of (s', eligible, pruned) \<Rightarrow>
        (let stats = \<lparr>rs_candidates = rs_candidates stats + 1,
                      rs_eligible = rs_eligible stats + (if eligible then 1 else 0),
                      rs_pruned = rs_pruned stats + (if pruned then 1 else 0)\<rparr> in
         if pruned \<and> rs_pruned stats \<ge> rp_batch_size policy then (s', stats, cursor, True)
         else prune_rows ops env policy rows cursor stats s'))"

lemma prune_rows_candidates:
  "prune_rows ops env policy rows cursor stats s = (s', stats', cursor', full) \<Longrightarrow>
     rs_candidates stats \<le> rs_candidates stats' \<and> rs_candidates stats' \<le> rs_candidates stats + length rows \<and>
     (rows \<noteq> [] \<longrightarrow> rs_candidates stats < rs_candidates stats')"
proof (induction rows arbitrary: cursor stats s)
  case (Cons row rows)
  obtain s1 eligible pruned where p: "prune_candidate ops env policy row s = (s1, eligible, pruned)"
    by (cases "prune_candidate ops env policy row s")
  from Cons.prems show ?case
    by (auto simp: p Let_def split: if_splits dest!: Cons.IH)
qed simp

text \<open>The outer loop: every round inspects at least one candidate, so that it ends.\<close>

function prune_loop ::
  "('v, 'tz) store_ops \<Rightarrow> db_env \<Rightarrow> job_retention_policy \<Rightarrow> row_cursor option \<Rightarrow> job_retention_stats \<Rightarrow>
   'v store \<Rightarrow> 'v store \<times> job_retention_run" where
  "prune_loop ops env policy cursor stats s =
     (case load_candidates env policy cursor s of
        [] \<Rightarrow> (s, \<lparr>rr_stats = stats, rr_next_cursor = None\<rparr>)
      | row # rows \<Rightarrow>
          (case prune_rows ops env policy (row # rows) cursor stats s of
             (s', stats', cursor', full) \<Rightarrow>
               if full \<or> rs_candidates stats' \<ge> rp_scan_size policy
               then (s', \<lparr>rr_stats = stats', rr_next_cursor = cursor'\<rparr>)
               else prune_loop ops env policy cursor' stats' s'))"
  by pat_completeness auto
termination
  by (relation "measure (\<lambda>(ops, env, policy, cursor, stats, s). rp_scan_size policy - rs_candidates stats)")
     (auto dest!: prune_rows_candidates [OF sym] prune_rows_candidates simp del: prune_rows.simps)

declare prune_loop.simps [simp del]

definition prune_terminal_jobs_from ::
  "('v, 'tz) store_ops \<Rightarrow> db_env \<Rightarrow> job_retention_policy \<Rightarrow> row_cursor option \<Rightarrow> 'v store \<Rightarrow>
   'v store \<times> (job_retention_error + job_retention_run)" where
  "prune_terminal_jobs_from ops env policy cursor s =
     (case policy_validate policy of
        Inl e \<Rightarrow> (s, Inl e)
      | Inr _ \<Rightarrow>
          (case prune_loop ops env policy cursor \<lparr>rs_candidates = 0, rs_eligible = 0, rs_pruned = 0\<rparr> s of
             (s', run) \<Rightarrow> (s', Inr run)))"

definition prune_terminal_jobs ::
  "('v, 'tz) store_ops \<Rightarrow> db_env \<Rightarrow> job_retention_policy \<Rightarrow> 'v store \<Rightarrow>
   'v store \<times> (job_retention_error + job_retention_run)" where
  "prune_terminal_jobs ops env policy s = prune_terminal_jobs_from ops env policy None s"

section \<open>What one transaction deletes\<close>

lemma into_job_status:
  "into_job codec r = Inr j \<Longrightarrow> job_id j = jr_id r \<and> jr_state r = job_status_as_str (job_status j) \<and>
     job_completed_at j = jr_completed_at r"
  by (auto simp: into_job_def result_simps dest: job_status_enum.try_from_Inr)

lemma status_text_inj: "job_status_as_str a = job_status_as_str b \<longleftrightarrow> a = b"
  by (cases a; cases b) simp_all

lemma distinct_key: "distinct (map key t) \<Longrightarrow> x \<in> set t \<Longrightarrow> y \<in> set t \<Longrightarrow> key x = key y \<Longrightarrow> x = y"
  by (auto simp: distinct_map dest: inj_onD)

text \<open>Jobs with the same owner in the same state are judged alike.\<close>

lemma owner_allows_same:
  fixes j k :: job
  assumes "commands_have_same_owner (job_command j) (job_command k)" and "job_id j = job_id k" and "job_status j = job_status k"
  shows "owner_allows_prune ops j s = owner_allows_prune ops k s"
proof -
  have inbox: "inbox_retention_eligible ops j i s = inbox_retention_eligible ops k i s" for i
    unfolding inbox_retention_eligible_def assms(2) ..
  have cleanup: "cleanup_retention_eligible j p s = cleanup_retention_eligible k q s"
    if "cwp_ingest_id p = cwp_ingest_id q" "cwp_workspace_id p = cwp_workspace_id q" for p q
    unfolding cleanup_retention_eligible_def that assms(3) ..
  show ?thesis
    using assms(1)
    by (cases "job_command j"; cases "job_command k")
       (simp_all add: commands_have_same_owner_def owner_allows_prune_def inbox cleanup)
qed

lemma expired_job_Some:
  assumes "expired_job ops policy now row = Some (j, c)"
  shows "into_job (so_codec ops) row = Inr j" "cutoff policy (job_status j) now = Some c"
    "not_after_null (job_completed_at j) c"
  using assms by (auto simp: expired_job_def split: sum.splits option.splits if_splits)

lemma cutoff_horizon:
  assumes "cutoff policy (job_status j) now = Some c" and "jr_state r = job_status_as_str (job_status j)"
    and "not_after_null (jr_completed_at r) c"
  shows "past_horizon policy now r"
  using assms by (cases "job_status j"; cases "jr_completed_at r") (auto simp: past_horizon_def)

lemma past_horizon_state:
  "past_horizon policy now r \<Longrightarrow> jr_state r \<in> {lit ''succeeded'', lit ''cancelled'', lit ''failed''}"
  by (auto simp: past_horizon_def split: option.splits)

text \<open>What a deletion was: the stored row of the candidate, past its horizon, allowed by its owner as the
  store is now.\<close>

definition deletes ::
  "('v, 'tz) store_ops \<Rightarrow> db_env \<Rightarrow> job_retention_policy \<Rightarrow> 'v job_row \<Rightarrow> 'v store \<Rightarrow> 'v store \<Rightarrow> bool" where
  "deletes ops env policy r s s' \<longleftrightarrow>
     r \<in> set (st_jobs s) \<and> past_horizon policy (env_utc env) r \<and>
     (\<exists>j. into_job (so_codec ops) r = Inr j \<and> owner_allows_prune ops j s) \<and>
     s' = s\<lparr>st_jobs := filter (\<lambda>q. jr_id q \<noteq> jr_id r) (st_jobs s)\<rparr>"

lemma prune_candidate_cases:
  assumes "distinct (map jr_id (st_jobs s))" and "prune_candidate ops env policy row s = (s', eligible, pruned)"
  obtains (kept) "s' = s" "\<not> pruned"
  | (deleted) r where "pruned" "eligible" "deletes ops env policy r s s'" "jr_id r = jr_id row" "\<not> env_locked env (jr_id r)"
proof (cases "expired_job ops policy (env_utc env) row")
  case None
  then show ?thesis using assms(2) kept by (simp add: prune_candidate_def)
next
  case (Some x)
  obtain j c where x: "expired_job ops policy (env_utc env) row = Some (j, c)" using Some by (cases x) simp
  note e = expired_job_Some [OF x]
  show ?thesis
  proof (cases "owner_allows_prune ops j s \<and> (\<exists>r cmd. lock_terminal_candidate env j c s = Some r \<and>
      validate_locked_command (so_codec ops) r (job_command j) = Inr cmd)")
    case False
    then show ?thesis
      using assms(2) x kept by (auto simp: prune_candidate_def split: if_splits option.splits sum.splits)
  next
    case True
    then obtain r cmd where own: "owner_allows_prune ops j s" and r: "lock_terminal_candidate env j c s = Some r"
      and v: "validate_locked_command (so_codec ops) r (job_command j) = Inr cmd" by blast
    have row: "r \<in> set (st_jobs s)" "terminal_candidate j c r" "\<not> env_locked env (jr_id r)"
      using select_one_Some [OF r [unfolded lock_terminal_candidate_def]] by auto
    obtain k where k: "into_job (so_codec ops) r = Inr k" "commands_have_same_owner (job_command j) (job_command k)"
      using v by (auto simp: validate_locked_command_def result_simps Let_def split: if_splits)
    have same: "job_id j = job_id k" "job_status j = job_status k"
      using into_job_status [OF k(1)] row(2) by (auto simp: terminal_candidate_def status_text_inj)
    have only: "terminal_candidate j c q \<longleftrightarrow> jr_id q = jr_id r" if "q \<in> set (st_jobs s)" for q
    proof
      assume "jr_id q = jr_id r"
      then have "q = r" using assms(1) that row(1) by (auto simp: distinct_map dest: inj_onD)
      then show "terminal_candidate j c q" using row(2) by simp
    qed (use row(2) in \<open>simp add: terminal_candidate_def\<close>)
    then have "filter (terminal_candidate j c) (st_jobs s) = filter (\<lambda>q. jr_id q = jr_id r) (st_jobs s)"
      and drop: "filter (\<lambda>q. \<not> terminal_candidate j c q) (st_jobs s) = filter (\<lambda>q. jr_id q \<noteq> jr_id r) (st_jobs s)"
      by (auto intro: filter_cong)
    moreover have "length (filter (\<lambda>q. jr_id q = jr_id r) (st_jobs s)) = 1"
    proof -
      have "set (filter (\<lambda>q. jr_id q = jr_id r) (st_jobs s)) = {r}"
        using assms(1) row(1) by (auto simp: distinct_map dest: inj_onD)
      moreover have "distinct (filter (\<lambda>q. jr_id q = jr_id r) (st_jobs s))"
        using assms(1) by (simp add: distinct_map)
      ultimately show ?thesis by (metis distinct_card card_1_singleton_iff One_nat_def)
    qed
    ultimately have s': "s' = s\<lparr>st_jobs := filter (\<lambda>q. jr_id q \<noteq> jr_id r) (st_jobs s)\<rparr>" "eligible" "pruned"
      using assms(2) x own r v by (simp_all add: prune_candidate_def delete_jobs_def)
    have "past_horizon policy (env_utc env) r"
      by (rule cutoff_horizon [OF e(2)]) (use row(2) in \<open>auto simp: terminal_candidate_def\<close>)
    moreover have "owner_allows_prune ops k s" using own owner_allows_same [OF k(2) same, of ops s] by simp
    ultimately have "deletes ops env policy r s s'" using row(1) k(1) s'(1) by (auto simp: deletes_def)
    moreover have "jr_id r = jr_id row"
      using row(2) into_job_status [OF e(1)] by (simp add: terminal_candidate_def)
    ultimately show ?thesis using deleted s' row(3) by blast
  qed
qed

section \<open>What a scan leaves\<close>

text \<open>A stored job the scan would delete.\<close>

definition prunable :: "('v, 'tz) store_ops \<Rightarrow> db_env \<Rightarrow> job_retention_policy \<Rightarrow> 'v store \<Rightarrow> 'v job_row \<Rightarrow> bool" where
  "prunable ops env policy s r \<longleftrightarrow>
     (\<exists>j c. expired_job ops policy (env_utc env) r = Some (j, c) \<and> owner_allows_prune ops j s) \<and>
     \<not> env_locked env (jr_id r)"

lemma same_owner_refl: "commands_have_same_owner c c"
  by (cases c) (simp_all add: commands_have_same_owner_def)

lemma prune_prunable:
  assumes d: "distinct (map jr_id (st_jobs s))" and r: "r \<in> set (st_jobs s)"
  shows "snd (snd (prune_candidate ops env policy r s)) \<longleftrightarrow> prunable ops env policy s r"
proof
  obtain s' eligible pruned where p: "prune_candidate ops env policy r s = (s', eligible, pruned)"
    by (cases "prune_candidate ops env policy r s")
  assume "snd (snd (prune_candidate ops env policy r s))"
  then have pruned: "pruned" by (simp add: p)
  from d p show "prunable ops env policy s r"
  proof (cases rule: prune_candidate_cases)
    case (deleted q)
    then have "\<not> env_locked env (jr_id r)" by simp
    moreover have "\<exists>j c. expired_job ops policy (env_utc env) r = Some (j, c) \<and> owner_allows_prune ops j s"
      using p pruned by (auto simp: prune_candidate_def split: option.splits if_splits prod.splits)
    ultimately show ?thesis by (simp add: prunable_def)
  qed (use pruned in simp)
next
  assume "prunable ops env policy s r"
  then obtain j c where x: "expired_job ops policy (env_utc env) r = Some (j, c)"
    and own: "owner_allows_prune ops j s" and free: "\<not> env_locked env (jr_id r)" by (auto simp: prunable_def)
  note e = expired_job_Some [OF x]
  have t: "terminal_candidate j c r"
    using into_job_status [OF e(1)] e(3) by (simp add: terminal_candidate_def)
  have only: "q = r" if "q \<in> set (st_jobs s)" "terminal_candidate j c q" for q
    using that t distinct_key [OF d] r unfolding terminal_candidate_def by metis
  have "lock_terminal_candidate env j c s = Some r"
  proof -
    obtain q where q: "lock_terminal_candidate env j c s = Some q"
      using r t free by (cases "lock_terminal_candidate env j c s") (auto simp: lock_terminal_candidate_def select_one_None)
    then show ?thesis using only select_one_Some [OF q [unfolded lock_terminal_candidate_def]] by auto
  qed
  moreover have "validate_locked_command (so_codec ops) r (job_command j) = Inr (job_command j)"
    using e(1) by (simp add: validate_locked_command_def same_owner_refl)
  moreover have "length (filter (terminal_candidate j c) (st_jobs s)) = 1"
  proof -
    have "set (filter (terminal_candidate j c) (st_jobs s)) = {r}" using r t by (auto dest: only)
    moreover have "distinct (filter (terminal_candidate j c) (st_jobs s))" using d by (simp add: distinct_map)
    ultimately show ?thesis by (metis distinct_card card_1_singleton_iff One_nat_def)
  qed
  ultimately show "snd (snd (prune_candidate ops env policy r s))"
    using x own by (simp add: prune_candidate_def delete_jobs_def)
qed

lemma prunable_horizon: "prunable ops env policy s r \<Longrightarrow> past_horizon policy (env_utc env) r"
proof -
  assume "prunable ops env policy s r"
  then obtain j c where x: "expired_job ops policy (env_utc env) r = Some (j, c)" by (auto simp: prunable_def)
  show ?thesis
    using cutoff_horizon [OF expired_job_Some(2) [OF x], of r] expired_job_Some(1,3) [OF x] into_job_status by fastforce
qed

text \<open>A deletion leaves the other jobs as prunable as they were: only live jobs hold a stage back.\<close>

lemma owner_allows_deleted:
  assumes "distinct (map jr_id (st_jobs s))" and "deletes ops env policy r s s'"
  shows "owner_allows_prune ops j s' = owner_allows_prune ops j s"
proof -
  have s': "st_jobs s' = filter (\<lambda>q. jr_id q \<noteq> jr_id r) (st_jobs s)" "st_ingests s' = st_ingests s"
    "st_posts s' = st_posts s" "st_media s' = st_media s"
    using assms(2) by (simp_all add: deletes_def)
  have r: "r \<in> set (st_jobs s)" "jr_state r \<notin> {lit ''queued'', lit ''running''}"
    using assms(2) past_horizon_state by (fastforce simp: deletes_def)+
  have "q \<in> set (st_jobs s') \<longleftrightarrow> q \<in> set (st_jobs s)" if "jr_state q \<in> {lit ''queued'', lit ''running''}" for q
    using s'(1) r that assms(1) by (auto simp: distinct_map dest: inj_onD)
  then have "list_ex (\<lambda>q. jr_id q \<noteq> i \<and> jr_state q \<in> {lit ''queued'', lit ''running''} \<and> P q) (st_jobs s') =
      list_ex (\<lambda>q. jr_id q \<noteq> i \<and> jr_state q \<in> {lit ''queued'', lit ''running''} \<and> P q) (st_jobs s)" for P i
    unfolding list_ex_iff by blast
  then have "inbox_retention_eligible ops j i s' = inbox_retention_eligible ops j i s" for i
    unfolding inbox_retention_eligible_def select_ingest_def s'(2) by (auto split: option.split)
  then show ?thesis
    unfolding owner_allows_prune_def materialize_retention_eligible_def publish_retention_eligible_def
      upload_retention_eligible_def caption_retention_eligible_def cleanup_retention_eligible_def
      select_ingest_def select_media_def s'(2-4) by (cases "job_command j") simp_all
qed

lemma deletes_keys: "distinct (map jr_id (st_jobs s)) \<Longrightarrow> deletes ops env policy r s s' \<Longrightarrow> distinct (map jr_id (st_jobs s'))"
  by (simp add: deletes_def distinct_map_filter)

text \<open>The candidates past a cursor, and the invariant of the scan: what could be deleted is still ahead.\<close>

definition candidates :: "db_env \<Rightarrow> job_retention_policy \<Rightarrow> row_cursor option \<Rightarrow> 'v store \<Rightarrow> 'v job_row list" where
  "candidates env policy cursor s =
     ascending retention_key
       (filter (\<lambda>r. past_horizon policy (env_utc env) r \<and> past_cursor (<) cursor (retention_key r)) (st_jobs s))"

definition scanned ::
  "('v, 'tz) store_ops \<Rightarrow> db_env \<Rightarrow> job_retention_policy \<Rightarrow> row_cursor option \<Rightarrow> 'v store \<Rightarrow> bool" where
  "scanned ops env policy cursor s \<longleftrightarrow>
     distinct (map jr_id (st_jobs s)) \<and>
     (\<forall>r\<in>set (st_jobs s). prunable ops env policy s r \<longrightarrow> past_cursor (<) cursor (retention_key r))"

lemma retention_keys_distinct: "distinct (map jr_id t) \<Longrightarrow> distinct (map retention_key t)"
  unfolding retention_key_def [abs_def] by (rule distinct_pair_key)

lemma candidates_set:
  "set (candidates env policy cursor s) =
     {r \<in> set (st_jobs s). past_horizon policy (env_utc env) r \<and> past_cursor (<) cursor (retention_key r)}"
  by (auto simp: candidates_def ascending_order.order_set)

lemma candidates_next:
  assumes d: "distinct (map jr_id (st_jobs s))" and c: "candidates env policy cursor s = row # rest"
    and s': "s' = s \<or> st_jobs s' = filter (\<lambda>q. jr_id q \<noteq> jr_id row) (st_jobs s)"
  shows "candidates env policy (Some (retention_key row)) s' = rest"
proof -
  let ?P = "\<lambda>r. past_horizon policy (env_utc env) r \<and> past_cursor (<) cursor (retention_key r)"
  let ?Q = "\<lambda>r. past_horizon policy (env_utc env) r \<and> past_cursor (<) (Some (retention_key row)) (retention_key r)"
  have dk: "distinct (map retention_key (filter ?P (st_jobs s)))"
    using retention_keys_distinct [OF d] by (simp add: distinct_map_filter)
  have set: "set (row # rest) = {r \<in> set (st_jobs s). ?P r}"
    by (simp only: c [symmetric] candidates_set)
  have row: "row \<in> set (st_jobs s)" "?P row" using set by auto
  have same: "filter ?Q (st_jobs s') = filter ?Q (filter ?P (st_jobs s))"
  proof -
    have imp: "?Q r \<Longrightarrow> ?P r" for r
      using row(2) by (auto simp: past_cursor_def split: option.splits)
    have "jr_id r \<noteq> jr_id row" if "?Q r" "r \<in> set (st_jobs s)" for r
    proof
      assume "jr_id r = jr_id row"
      then have "r = row" using that(2) row(1) d by (auto simp: distinct_map dest: inj_onD)
      then show False using that(1) by (simp add: past_cursor_def)
    qed
    then have "filter (\<lambda>r. jr_id r \<noteq> jr_id row \<and> ?Q r) (st_jobs s) = filter ?Q (st_jobs s)"
      by (intro filter_cong) auto
    then have "filter ?Q (st_jobs s') = filter ?Q (st_jobs s)" using s' by (auto simp: filter_filter)
    also have "\<dots> = filter ?Q (filter ?P (st_jobs s))" using imp by (auto intro!: filter_cong)
    finally show ?thesis .
  qed
  have "candidates env policy (Some (retention_key row)) s' = filter ?Q (row # rest)"
    unfolding candidates_def same using ascending_order.order_filter [OF dk, of ?Q] c by (simp add: candidates_def)
  moreover have "sorted_wrt (\<lambda>r s. retention_key r < retention_key s) (row # rest)"
    using ascending_order.order_sorted [OF dk] c by (simp add: candidates_def)
  moreover have "\<forall>r\<in>set rest. past_horizon policy (env_utc env) r"
    using set by auto
  ultimately show ?thesis by (simp add: past_cursor_def)
qed

lemma scanned_next:
  assumes inv: "scanned ops env policy cursor s" and c: "candidates env policy cursor s = row # rest"
    and p: "prune_candidate ops env policy row s = (s', eligible, pruned)"
  shows "scanned ops env policy (Some (retention_key row)) s' \<and>
    candidates env policy (Some (retention_key row)) s' = rest"
proof -
  have d: "distinct (map jr_id (st_jobs s))" using inv by (simp add: scanned_def)
  have row: "row \<in> set (st_jobs s)"
    using candidates_set [of env policy cursor s] by (simp add: c) blast
  have ahead: "past_cursor (<) (Some (retention_key row)) (retention_key r)"
    if "r \<in> set (st_jobs s)" "prunable ops env policy s r" "r \<noteq> row" for r
  proof -
    have "r \<in> set (row # rest)"
      using that(1,2) inv prunable_horizon [OF that(2)]
      unfolding c [symmetric] candidates_set by (simp add: scanned_def)
    moreover have "distinct (map retention_key (filter (\<lambda>r. past_horizon policy (env_utc env) r \<and>
        past_cursor (<) cursor (retention_key r)) (st_jobs s)))"
      using retention_keys_distinct [OF d] by (simp add: distinct_map_filter)
    then have "sorted_wrt (\<lambda>r s. retention_key r < retention_key s) (row # rest)"
      unfolding c [symmetric] candidates_def by (rule ascending_order.order_sorted)
    ultimately show ?thesis using that(3) by (auto simp: past_cursor_def)
  qed
  from d p show ?thesis
  proof (cases rule: prune_candidate_cases)
    case kept
    then have "\<not> prunable ops env policy s row" using prune_prunable [OF d row] p by (metis snd_conv)
    then have "scanned ops env policy (Some (retention_key row)) s'"
      using ahead d kept(1) by (auto simp: scanned_def)
    then show ?thesis using candidates_next [OF d c] kept(1) by blast
  next
    case (deleted r)
    then have r: "r = row"
      using d row by (auto simp: deletes_def distinct_map dest: inj_onD)
    have del: "deletes ops env policy row s s'" using deleted(3) r by simp
    then have jobs: "st_jobs s' = filter (\<lambda>q. jr_id q \<noteq> jr_id row) (st_jobs s)" by (simp add: deletes_def)
    have "prunable ops env policy s' q = prunable ops env policy s q" for q
      by (simp add: prunable_def owner_allows_deleted [OF d del])
    then have "scanned ops env policy (Some (retention_key row)) s'"
      using ahead deletes_keys [OF d del] jobs by (auto simp: scanned_def)
    then show ?thesis using candidates_next [OF d c] jobs by blast
  qed
qed

lemma prune_rows_scanned:
  assumes "scanned ops env policy cursor s" and "candidates env policy cursor s = rows @ rest"
    and "prune_rows ops env policy rows cursor stats s = (s', stats', cursor', full)"
  shows "scanned ops env policy cursor' s' \<and> (rows \<noteq> [] \<longrightarrow> cursor' \<noteq> None)"
  using assms
proof (induction rows arbitrary: cursor stats s)
  case (Cons row rows)
  obtain s1 eligible pruned where p: "prune_candidate ops env policy row s = (s1, eligible, pruned)"
    by (cases "prune_candidate ops env policy row s")
  have step: "scanned ops env policy (Some (retention_key row)) s1"
    "candidates env policy (Some (retention_key row)) s1 = rows @ rest"
    using scanned_next [OF Cons.prems(1) _ p, of "rows @ rest"] Cons.prems(2) by simp_all
  from Cons.prems(3) consider "s' = s1" "cursor' = Some (retention_key row)"
    | stats1 where "prune_rows ops env policy rows (Some (retention_key row)) stats1 s1 = (s', stats', cursor', full)"
    by (auto simp: p Let_def split: if_splits)
  then show ?case
  proof cases
    case 2
    show ?thesis using Cons.IH [OF step 2] 2 by (cases rows) auto
  qed (use step in simp)
qed simp

lemma prune_loop_complete:
  assumes "prune_loop ops env policy cursor stats s = (s', run)" and "scanned ops env policy cursor s"
    and "0 < rp_scan_size policy" and "rr_next_cursor run = None" and "r \<in> set (st_jobs s')"
  shows "\<not> prunable ops env policy s' r"
  using assms
proof (induction ops env policy cursor stats s rule: prune_loop.induct)
  case (1 ops env policy cursor stats s)
  show ?case
  proof (cases "load_candidates env policy cursor s")
    case Nil
    then have "candidates env policy cursor s = []"
      using "1.prems"(3) by (simp add: load_candidates_def candidates_def)
    then have "\<forall>q\<in>set (st_jobs s). past_horizon policy (env_utc env) q \<longrightarrow> \<not> past_cursor (<) cursor (retention_key q)"
      using candidates_set [of env policy cursor s] by auto
    moreover have "s' = s" using "1.prems"(1) Nil by (simp add: prune_loop.simps [of ops env policy cursor])
    ultimately show ?thesis using "1.prems"(2,5) prunable_horizon unfolding scanned_def by metis
  next
    case (Cons row rows)
    obtain s1 stats1 cursor1 full where p: "prune_rows ops env policy (row # rows) cursor stats s = (s1, stats1, cursor1, full)"
      by (metis prod_cases4)
    have "candidates env policy cursor s = (row # rows) @ drop (rp_scan_size policy) (candidates env policy cursor s)"
      using Cons by (metis append_take_drop_id candidates_def load_candidates_def)
    from prune_rows_scanned [OF "1.prems"(2) this p] have sc: "scanned ops env policy cursor1 s1" "cursor1 \<noteq> None"
      by simp_all
    show ?thesis
    proof (cases "full \<or> rp_scan_size policy \<le> rs_candidates stats1")
      case True
      then have "rr_next_cursor run = cursor1"
        using "1.prems"(1) Cons p by (auto simp: prune_loop.simps [of ops env policy cursor])
      then show ?thesis using sc(2) "1.prems"(4) by simp
    next
      case False
      then have "prune_loop ops env policy cursor1 stats1 s1 = (s', run)"
        using "1.prems"(1) Cons p by (auto simp: prune_loop.simps [of ops env policy cursor])
      then show ?thesis using "1.IH" [OF Cons p [symmetric] refl refl False] sc(1) "1.prems"(3-5) by blast
    qed
  qed
qed

section \<open>What a run does\<close>

text \<open>The statistics of a run, and how far it got.\<close>

definition run_step ::
  "job_retention_policy \<Rightarrow> job_retention_stats \<Rightarrow> 'v store \<Rightarrow> job_retention_stats \<Rightarrow> 'v store \<Rightarrow> bool" where
  "run_step policy stats s stats' s' \<longleftrightarrow>
     distinct (map jr_id (st_jobs s')) \<and> (\<exists>P. s' = s\<lparr>st_jobs := filter P (st_jobs s)\<rparr>) \<and>
     length (st_jobs s) + rs_pruned stats = length (st_jobs s') + rs_pruned stats' \<and>
     rs_pruned stats' \<le> rp_batch_size policy \<and>
     rs_pruned stats' + rs_eligible stats \<le> rs_eligible stats' + rs_pruned stats \<and>
     rs_eligible stats' + rs_candidates stats \<le> rs_candidates stats' + rs_eligible stats"

lemma run_step_trans:
  assumes "run_step policy stats s stats1 s1" and "run_step policy stats1 s1 stats2 s2"
  shows "run_step policy stats s stats2 s2"
proof -
  obtain P Q where P: "s1 = s\<lparr>st_jobs := filter P (st_jobs s)\<rparr>" and Q: "s2 = s1\<lparr>st_jobs := filter Q (st_jobs s1)\<rparr>"
    using assms by (auto simp: run_step_def)
  have "s2 = s\<lparr>st_jobs := filter (\<lambda>r. P r \<and> Q r) (st_jobs s)\<rparr>" by (simp add: P Q filter_filter)
  then show ?thesis using assms by (auto simp: run_step_def)
qed

lemma prune_candidate_length:
  assumes "distinct (map jr_id (st_jobs s))" and "deletes ops env policy r s s'"
  shows "length (st_jobs s) = length (st_jobs s') + 1"
proof -
  have "length (st_jobs s) = length (filter (\<lambda>q. jr_id q = jr_id r) (st_jobs s)) + length (st_jobs s')"
    using assms(2) sum_length_filter_compl [of "\<lambda>q. jr_id q = jr_id r" "st_jobs s"] by (simp add: deletes_def)
  moreover have "length (filter (\<lambda>q. jr_id q = jr_id r) (st_jobs s)) = 1"
  proof -
    have "set (filter (\<lambda>q. jr_id q = jr_id r) (st_jobs s)) = {r}"
      using assms by (auto simp: deletes_def distinct_map dest: inj_onD)
    moreover have "distinct (filter (\<lambda>q. jr_id q = jr_id r) (st_jobs s))" using assms(1) by (simp add: distinct_map)
    ultimately show ?thesis by (metis distinct_card card_1_singleton_iff One_nat_def)
  qed
  ultimately show ?thesis by simp
qed

lemma prune_rows_run:
  assumes "distinct (map jr_id (st_jobs s))" and "rs_pruned stats < rp_batch_size policy"
    and "prune_rows ops env policy rows cursor stats s = (s', stats', cursor', full)"
  shows "run_step policy stats s stats' s' \<and> (\<not> full \<longrightarrow> rs_pruned stats' < rp_batch_size policy)"
  using assms
proof (induction rows arbitrary: cursor stats s)
  case Nil
  then show ?case by (auto simp: run_step_def intro!: exI [of _ "\<lambda>_. True"])
next
  case (Cons row rows)
  obtain s1 eligible pruned where p: "prune_candidate ops env policy row s = (s1, eligible, pruned)"
    by (cases "prune_candidate ops env policy row s")
  let ?stats = "\<lparr>rs_candidates = rs_candidates stats + 1, rs_eligible = rs_eligible stats + (if eligible then 1 else 0),
      rs_pruned = rs_pruned stats + (if pruned then 1 else 0)\<rparr>"
  have one: "run_step policy stats s ?stats s1"
    using Cons.prems(1) p
  proof (cases rule: prune_candidate_cases)
    case kept
    then show ?thesis
      using Cons.prems(1,2) by (auto simp: run_step_def intro!: exI [of _ "\<lambda>_. True"])
  next
    case (deleted r)
    then show ?thesis
      using Cons.prems(1,2) prune_candidate_length [OF Cons.prems(1) deleted(3)] deletes_keys [OF Cons.prems(1) deleted(3)]
      by (auto simp: run_step_def deletes_def)
  qed
  show ?case
  proof (cases "pruned \<and> rs_pruned ?stats \<ge> rp_batch_size policy")
    case True
    then have "s' = s1" "stats' = ?stats" "full" using Cons.prems(3) by (auto simp: p Let_def)
    then show ?thesis using one by simp
  next
    case False
    have rest: "prune_rows ops env policy rows (Some (retention_key row)) ?stats s1 = (s', stats', cursor', full)"
      using Cons.prems(3) unfolding prune_rows.simps p Let_def prod.case if_not_P [OF False] .
    have "distinct (map jr_id (st_jobs s1))" using one by (simp add: run_step_def)
    moreover have "rs_pruned ?stats < rp_batch_size policy" using False Cons.prems(2) by (auto split: if_splits)
    ultimately show ?thesis using Cons.IH [OF _ _ rest] run_step_trans [OF one] by blast
  qed
qed

lemma prune_loop_run:
  assumes "prune_loop ops env policy cursor stats s = (s', run)" and "distinct (map jr_id (st_jobs s))"
    and "rs_pruned stats < rp_batch_size policy" and "rs_candidates stats < rp_scan_size policy"
  shows "run_step policy stats s (rr_stats run) s' \<and> rs_candidates (rr_stats run) < 2 * rp_scan_size policy"
  using assms
proof (induction ops env policy cursor stats s rule: prune_loop.induct)
  case (1 ops env policy cursor stats s)
  show ?case
  proof (cases "load_candidates env policy cursor s")
    case Nil
    then show ?thesis
      using "1.prems" by (auto simp: prune_loop.simps [of ops env policy cursor] run_step_def intro!: exI [of _ "\<lambda>_. True"])
  next
    case (Cons row rows)
    obtain s1 stats1 cursor1 full where p: "prune_rows ops env policy (row # rows) cursor stats s = (s1, stats1, cursor1, full)"
      by (metis prod_cases4)
    note step = prune_rows_run [OF "1.prems"(2,3) p]
    have "length (row # rows) \<le> rp_scan_size policy"
      unfolding Cons [symmetric] by (simp add: load_candidates_def)
    then have cand: "rs_candidates stats1 < 2 * rp_scan_size policy"
      using prune_rows_candidates [OF p] "1.prems"(4) by linarith
    show ?thesis
    proof (cases "full \<or> rp_scan_size policy \<le> rs_candidates stats1")
      case True
      then have "s' = s1" "rr_stats run = stats1"
        using "1.prems"(1) Cons p by (auto simp: prune_loop.simps [of ops env policy cursor])
      then show ?thesis using step cand by simp
    next
      case False
      then have "prune_loop ops env policy cursor1 stats1 s1 = (s', run)"
        using "1.prems"(1) Cons p by (auto simp: prune_loop.simps [of ops env policy cursor])
      moreover have "distinct (map jr_id (st_jobs s1))" using step by (simp add: run_step_def)
      ultimately show ?thesis
        using "1.IH" [OF Cons p [symmetric] refl refl False] step False run_step_trans by (metis not_le)
    qed
  qed
qed

text \<open>
  The work of a job can no longer happen. For the stages of an ingest the job's own ingest is finished and no other
  job of it waits or runs, its cleanup apart; for a cleanup the ingest has moved to another workspace, or the
  cleanup has succeeded and nothing is left of it.
\<close>

definition ingest_resolved :: "('v, 'tz) store_ops \<Rightarrow> job \<Rightarrow> uuid \<Rightarrow> 'v store \<Rightarrow> bool" where
  "ingest_resolved ops j ingest_id s \<longleftrightarrow>
     list_ex (\<lambda>i. iw_id i = ingest_id \<and>
       iw_state i \<in> {lit ''completed'', lit ''failed_terminal'', lit ''cancelled''}) (st_ingests s) \<and>
     list_all (\<lambda>q. jr_id q = job_id j \<or> jr_kind q = lit ''cleanup_workspace'' \<or>
       jr_state q \<notin> {lit ''queued'', lit ''running''} \<or>
       so_payload_text ops (jr_payload q) (lit ''ingest_id'') \<noteq> Some (so_uuid_text ops ingest_id)) (st_jobs s)"

definition workspace_gone :: "ingest_row \<Rightarrow> 'v store \<Rightarrow> bool" where
  "workspace_gone i s \<longleftrightarrow>
     iw_state i \<in> {lit ''completed'', lit ''duplicate_pending'', lit ''failed_terminal'', lit ''cancelled'', lit ''storing''} \<and>
     (case iw_media_id i of
        None \<Rightarrow> True
      | Some media_id \<Rightarrow> list_ex (\<lambda>m. mw_id m = media_id \<and> mw_storage_state m \<in> {lit ''ready'', lit ''missing''} \<and>
          mw_local_work_path m = None) (st_media s))"

definition work_resolved :: "('v, 'tz) store_ops \<Rightarrow> job \<Rightarrow> 'v store \<Rightarrow> bool" where
  "work_resolved ops j s \<longleftrightarrow>
     (case job_command j of
       PublishPost payload \<Rightarrow> list_ex (\<lambda>p. pw_id p = ppp_post_id payload \<and>
         pw_state p \<in> {lit ''published'', lit ''failed'', lit ''cancelled''}) (st_posts s)
     | UploadStorageAsset payload \<Rightarrow> list_ex (\<lambda>m. mw_id m = mjp_media_id payload \<and>
         mw_storage_state m \<in> {lit ''ready'', lit ''missing''}) (st_media s)
     | SyncStorageCaption payload \<Rightarrow> list_ex (\<lambda>m. mw_id m = mjp_media_id payload \<and>
         mw_caption_sync_state m \<notin> {lit ''pending'', lit ''syncing''}) (st_media s)
     | MaterializePublication payload \<Rightarrow> list_ex (\<lambda>i. iw_id i = mpp_ingest_id payload \<and>
         (iw_requested_action i = lit ''save'' \<or> iw_state i = lit ''completed'' \<and>
          list_ex (\<lambda>p. pw_origin_ingest_id p = Some (iw_id i)) (st_posts s))) (st_ingests s)
     | CleanupWorkspace payload \<Rightarrow> list_ex (\<lambda>i. iw_id i = cwp_ingest_id payload \<and>
         (iw_workspace_id i \<noteq> cwp_workspace_id payload \<or> job_status j = JobSucceeded \<and> workspace_gone i s))
         (st_ingests s)
     | InspectSource payload \<Rightarrow> ingest_resolved ops j (isp_ingest_id payload) s
     | DownloadSource payload \<Rightarrow> ingest_resolved ops j (dsp_ingest_id payload) s
     | ProbeAsset payload \<Rightarrow> ingest_resolved ops j (ijp_ingest_id payload) s
     | NormalizeAsset payload \<Rightarrow> ingest_resolved ops j (ijp_ingest_id payload) s
     | ComputeFingerprint payload \<Rightarrow> ingest_resolved ops j (ijp_ingest_id payload) s
     | FinalizeIngest payload \<Rightarrow> ingest_resolved ops j (ijp_ingest_id payload) s)"

text \<open>What the fences of the owners say of the rows.\<close>

lemma inbox_eligible_final: "inbox_retention_eligible ops j i s \<Longrightarrow> ingest_resolved ops j i s"
  by (auto simp: inbox_retention_eligible_def ingest_resolved_def select_ingest_def list_ex_iff list_all_iff
      split: option.splits dest!: select_one_Some)

lemma storage_resolved_state: "storage_resolved m \<longleftrightarrow> mw_storage_state m \<in> {lit ''ready'', lit ''missing''}"
  by (auto simp: storage_resolved_def media_storage_state_try_from_def split: if_splits)

lemma upload_eligible_state:
  "upload_retention_eligible i s \<Longrightarrow>
     list_ex (\<lambda>m. mw_id m = i \<and> mw_storage_state m \<in> {lit ''ready'', lit ''missing''}) (st_media s)"
  by (fastforce simp: upload_retention_eligible_def storage_resolved_state select_media_def list_ex_iff
      split: option.splits dest: select_one_Some)

lemma caption_eligible_state:
  "caption_retention_eligible i s \<Longrightarrow>
     list_ex (\<lambda>m. mw_id m = i \<and> mw_caption_sync_state m \<notin> {lit ''pending'', lit ''syncing''}) (st_media s)"
  by (fastforce simp: caption_retention_eligible_def select_media_def list_ex_iff split: option.splits dest: select_one_Some)

lemma publish_eligible_state:
  "publish_retention_eligible i s \<Longrightarrow>
     list_ex (\<lambda>p. pw_id p = i \<and> pw_state p \<in> {lit ''published'', lit ''failed'', lit ''cancelled''}) (st_posts s)"
  by (fastforce simp: publish_retention_eligible_def list_ex_iff split: option.splits dest: select_one_Some)

lemma materialize_eligible_state:
  "materialize_retention_eligible i s \<Longrightarrow>
     list_ex (\<lambda>r. iw_id r = i \<and> (iw_requested_action r = lit ''save'' \<or> iw_state r = lit ''completed'' \<and>
       list_ex (\<lambda>p. pw_origin_ingest_id p = Some (iw_id r)) (st_posts s))) (st_ingests s)"
  by (auto simp: materialize_retention_eligible_def select_ingest_def list_ex_iff split: option.splits if_splits
      dest!: select_one_Some)

lemma cleanup_eligible_state:
  assumes "cleanup_retention_eligible j payload s"
  shows "list_ex (\<lambda>i. iw_id i = cwp_ingest_id payload \<and>
    (iw_workspace_id i \<noteq> cwp_workspace_id payload \<or> job_status j = JobSucceeded \<and> workspace_gone i s)) (st_ingests s)"
proof -
  from assms obtain i where i: "select_ingest (cwp_ingest_id payload) s = Some i"
    by (auto simp: cleanup_retention_eligible_def split: option.splits)
  have "workspace_gone i s" if "iw_workspace_id i = cwp_workspace_id payload"
    using assms i that
    by (fastforce simp: cleanup_retention_eligible_def workspace_gone_def state_allows_cleanup_def storage_resolved_state
        select_media_def list_ex_iff split: option.splits if_splits dest: select_one_Some)
  moreover have "job_status j = JobSucceeded" if "iw_workspace_id i = cwp_workspace_id payload"
    using assms i that by (auto simp: cleanup_retention_eligible_def split: if_splits)
  ultimately show ?thesis
    using i by (auto simp: select_ingest_def list_ex_iff dest!: select_one_Some)
qed

lemmas eligible_states =
  inbox_eligible_final upload_eligible_state caption_eligible_state publish_eligible_state
  materialize_eligible_state cleanup_eligible_state

lemma owner_allows_resolved: "owner_allows_prune ops j s \<Longrightarrow> work_resolved ops j s"
  unfolding work_resolved_def owner_allows_prune_def
  by (cases "job_command j") (simp_all only: job_command.simps eligible_states)

section \<open>Properties\<close>

text \<open>(C14) Retention deletes nothing that is still needed: whatever stale row the scan had read, one transaction
  deletes at most the stored row of that id, which is finished and past its horizon, and only when its work can
  no longer happen: the post the job names is published, failed or cancelled; its media file is stored or missing;
  its caption has no pending synchronisation; its ingest asked for no publication, or is completed and has its post;
  for a stage, its own ingest is finished and no other job of that ingest but a cleanup waits or runs; for a
  cleanup, its ingest has another workspace by now, or the cleanup succeeded, the ingest's state permits it and no
  workspace path is left on its stored or missing media. Every other row of every table stays.\<close>

theorem retention_safe:
  assumes "distinct (map jr_id (st_jobs s))" and "prune_candidate ops env policy row s = (s', eligible, pruned)"
  shows "if \<not> pruned then s' = s
    else \<exists>r j. r \<in> set (st_jobs s) \<and> jr_id r = jr_id row \<and> past_horizon policy (env_utc env) r \<and>
      into_job (so_codec ops) r = Inr j \<and> work_resolved ops j s \<and>
      s' = s\<lparr>st_jobs := filter (\<lambda>q. jr_id q \<noteq> jr_id r) (st_jobs s)\<rparr>"
  using assms
proof (cases rule: prune_candidate_cases)
  case (deleted r)
  obtain j where "into_job (so_codec ops) r = Inr j" "owner_allows_prune ops j s"
    using deleted(3) by (auto simp: deletes_def)
  then show ?thesis
    using deleted owner_allows_resolved unfolding deletes_def
    by (simp, intro exI [of _ r] exI [of _ j]) auto
qed simp

text \<open>(C20) A retention run is bounded: with a valid policy it returns, deletes at most a batch of jobs and
  exactly as many as it reports, inspects fewer than twice its scan size, changes no other table, and when it
  reports that the scan is through, no job is left that it could have deleted.\<close>

theorem retention_run_correct:
  assumes "distinct (map jr_id (st_jobs s))" and "policy_validate policy = Inr ()"
  shows "\<exists>s' run. prune_terminal_jobs ops env policy s = (s', Inr run) \<and>
    (\<exists>P. s' = s\<lparr>st_jobs := filter P (st_jobs s)\<rparr>) \<and>
    length (st_jobs s) = length (st_jobs s') + rs_pruned (rr_stats run) \<and>
    rs_pruned (rr_stats run) \<le> rp_batch_size policy \<and>
    rs_pruned (rr_stats run) \<le> rs_eligible (rr_stats run) \<and>
    rs_eligible (rr_stats run) \<le> rs_candidates (rr_stats run) \<and>
    rs_candidates (rr_stats run) < 2 * rp_scan_size policy \<and>
    (rr_next_cursor run = None \<longrightarrow> \<not> list_ex (prunable ops env policy s') (st_jobs s'))"
proof -
  let ?zero = "\<lparr>rs_candidates = 0, rs_eligible = 0, rs_pruned = 0\<rparr>"
  have pos: "0 < rp_batch_size policy" "0 < rp_scan_size policy"
    using assms(2) by (auto simp: policy_validate_def split: if_splits)
  obtain s' run where p: "prune_loop ops env policy None ?zero s = (s', run)"
    by (cases "prune_loop ops env policy None ?zero s")
  have "scanned ops env policy None s" using assms(1) by (simp add: scanned_def past_cursor_def)
  then have "rr_next_cursor run = None \<Longrightarrow> \<not> list_ex (prunable ops env policy s') (st_jobs s')"
    using prune_loop_complete [OF p _ pos(2)] by (auto simp: list_ex_iff)
  moreover have "run_step policy ?zero s (rr_stats run) s' \<and> rs_candidates (rr_stats run) < 2 * rp_scan_size policy"
    using prune_loop_run [OF p assms(1)] pos by simp
  ultimately show ?thesis
    using p assms(2)
    by (auto simp: prune_terminal_jobs_def prune_terminal_jobs_from_def run_step_def)
qed

section \<open>Witnesses\<close>

text \<open>The finished job of a published post, past its horizon.\<close>

definition finished_job :: "plain_value job_row" where
  "finished_job =
     (publish_job_row plain_ops (at_time 0 8) 11 0 0 (lit ''queued''))
       \<lparr>jr_state := lit ''succeeded'', jr_completed_at := Some 0\<rparr>"

definition finished_store :: "plain_value store" where
  "finished_store =
     \<lparr>st_jobs = [finished_job], st_ingests = [], st_media = [],
      st_posts = [queued_post\<lparr>pw_state := lit ''published''\<rparr>], st_channels = []\<rparr>"

definition small_policy :: job_retention_policy where
  "small_policy = \<lparr>rp_succeeded_after = 1, rp_cancelled_after = 1, rp_failed_after = 1, rp_batch_size = 1, rp_scan_size = 1\<rparr>"

lemma finished_job_pruned:
  "\<exists>s. prune_candidate plain_store_ops (at_time 10 0) small_policy finished_job finished_store = (s, True, True)"
  using job_status_enum.try_from_as_str [of JobSucceeded]
  by (simp add: prune_candidate_def expired_job_def into_job_def publish_kind plain_store_ops_def finished_job_def
      finished_store_def small_policy_def owner_allows_prune_def publish_retention_eligible_def select_one_def
      lock_terminal_candidate_def terminal_candidate_def validate_locked_command_def same_owner_refl delete_jobs_def
      queued_post_def decode_payload_def publisher_witness_defs)

theorem retention_safe_witness:
  "\<exists>s r j. prune_candidate plain_store_ops (at_time 10 0) small_policy finished_job finished_store = (s, True, True) \<and>
     r \<in> set (st_jobs finished_store) \<and> into_job (so_codec plain_store_ops) r = Inr j \<and>
     work_resolved plain_store_ops j finished_store"
proof -
  obtain s where s: "prune_candidate plain_store_ops (at_time 10 0) small_policy finished_job finished_store = (s, True, True)"
    using finished_job_pruned by blast
  have "distinct (map jr_id (st_jobs finished_store))" by (simp add: finished_store_def)
  from retention_safe [OF this s] s show ?thesis by auto
qed

theorem retention_run_correct_witness:
  "\<exists>s run. prune_terminal_jobs plain_store_ops (at_time 10 0) small_policy finished_store = (s, Inr run) \<and>
     rs_pruned (rr_stats run) \<le> 1"
proof -
  have "distinct (map jr_id (st_jobs finished_store))" by (simp add: finished_store_def)
  moreover have "policy_validate small_policy = Inr ()"
    by (simp add: policy_validate_def small_policy_def horizon_in_bounds_def MAX_HORIZON_def)
  ultimately show ?thesis
    using retention_run_correct [of finished_store small_policy plain_store_ops "at_time 10 0"]
    by (auto simp: small_policy_def)
qed

end
