(* ===== verification/Worker_Runner.thy ===== *)
theory Worker_Runner
  imports Settlement_Safety "HOL-Library.List_Lexorder"
begin

text \<open>
  The worker's runner (\<open>apps/worker/src/runner.rs\<close>) and what its handlers share
  (\<open>apps/worker/src/common.rs\<close>, \<open>crates/media/src/disk.rs\<close>): the failures of a handler, the registry,
  the admission of large operations, and the life of a claimed job from its claim to its settlement.
  What happens to the store while a handler runs is an argument of a turn, as are the order in which
  the handler, the heartbeat and the shutdown end, and the environment of every transaction.
\<close>

section \<open>Failures of a handler\<close>

record handler_failure =
  hf_retryable :: bool
  hf_class :: ustring
  hf_message :: ustring
  hf_defer_until :: "timestamp option"
  hf_defer_without_consuming_attempt :: bool
  hf_retry_without_consuming_attempt :: bool
  hf_requires_storage_reconciliation :: bool

type_synonym handler_result = "handler_failure + unit"

definition failure_retryable :: "ustring \<Rightarrow> ustring \<Rightarrow> handler_failure" where
  "failure_retryable class message =
     \<lparr>hf_retryable = True, hf_class = class, hf_message = message, hf_defer_until = None,
      hf_defer_without_consuming_attempt = False, hf_retry_without_consuming_attempt = False,
      hf_requires_storage_reconciliation = False\<rparr>"

definition failure_retryable_free :: "ustring \<Rightarrow> ustring \<Rightarrow> handler_failure" where
  "failure_retryable_free class message =
     \<lparr>hf_retryable = True, hf_class = class, hf_message = message, hf_defer_until = None,
      hf_defer_without_consuming_attempt = False, hf_retry_without_consuming_attempt = True,
      hf_requires_storage_reconciliation = False\<rparr>"

definition failure_permanent :: "ustring \<Rightarrow> ustring \<Rightarrow> handler_failure" where
  "failure_permanent class message =
     \<lparr>hf_retryable = False, hf_class = class, hf_message = message, hf_defer_until = None,
      hf_defer_without_consuming_attempt = False, hf_retry_without_consuming_attempt = False,
      hf_requires_storage_reconciliation = False\<rparr>"

definition failure_defer :: "ustring \<Rightarrow> ustring \<Rightarrow> timestamp \<Rightarrow> handler_failure" where
  "failure_defer class message defer_until =
     \<lparr>hf_retryable = True, hf_class = class, hf_message = message, hf_defer_until = Some defer_until,
      hf_defer_without_consuming_attempt = False, hf_retry_without_consuming_attempt = False,
      hf_requires_storage_reconciliation = False\<rparr>"

definition failure_defer_free :: "ustring \<Rightarrow> ustring \<Rightarrow> timestamp \<Rightarrow> handler_failure" where
  "failure_defer_free class message defer_until =
     \<lparr>hf_retryable = True, hf_class = class, hf_message = message, hf_defer_until = Some defer_until,
      hf_defer_without_consuming_attempt = True, hf_retry_without_consuming_attempt = False,
      hf_requires_storage_reconciliation = False\<rparr>"

definition storage_reconciliation_required :: "ustring \<Rightarrow> handler_failure" where
  "storage_reconciliation_required message =
     \<lparr>hf_retryable = False, hf_class = lit ''storage_upload_unknown'', hf_message = message, hf_defer_until = None,
      hf_defer_without_consuming_attempt = False, hf_retry_without_consuming_attempt = False,
      hf_requires_storage_reconciliation = True\<rparr>"

lemmas handler_failure_defs =
  failure_retryable_def failure_retryable_free_def failure_permanent_def failure_defer_def failure_defer_free_def
  storage_reconciliation_required_def

section \<open>Admission of large operations\<close>

definition MAX_CONCURRENT_WORKSPACE_OPERATIONS :: u64 where
  "MAX_CONCURRENT_WORKSPACE_OPERATIONS = 2"

text \<open>\<open>u64::saturating_mul\<close>.\<close>

definition saturating_mul_u64 :: "u64 \<Rightarrow> u64 \<Rightarrow> u64" where
  "saturating_mul_u64 a b = (if unat a * unat b < 2 ^ 64 then a * b else - 1)"

definition concurrent_operation_budget :: "u64 \<Rightarrow> u64 \<Rightarrow> u64" where
  "concurrent_operation_budget operation_bytes concurrency = saturating_mul_u64 operation_bytes concurrency"

record disk_space =
  ds_available_bytes :: u64

definition admits :: "disk_space \<Rightarrow> u64 \<Rightarrow> u64 \<Rightarrow> bool" where
  "admits space reserve_bytes required_bytes =
     (case checked_add (2 ^ 64) (unat reserve_bytes) (unat required_bytes) of
        Some required \<Rightarrow> unat (ds_available_bytes space) \<ge> required
      | None \<Rightarrow> False)"

datatype disk_admission_error =
    DiskStat ustring ustring
  | DiskInsufficient ustring u64 u64 u64

definition check_space ::
  "disk_space \<Rightarrow> ustring \<Rightarrow> u64 \<Rightarrow> u64 \<Rightarrow> disk_admission_error + disk_space" where
  "check_space space path reserve_bytes required_bytes =
     (if \<not> admits space reserve_bytes required_bytes
      then Inl (DiskInsufficient path (ds_available_bytes space) reserve_bytes required_bytes)
      else Inr space)"

text \<open>\<open>statvfs\<close> answers with the free blocks and the fragment size, or with the text of its error.\<close>

type_synonym statvfs_call = "ustring \<Rightarrow> ustring + (u64 \<times> u64)"

definition filesystem_space :: "statvfs_call \<Rightarrow> ustring \<Rightarrow> disk_admission_error + disk_space" where
  "filesystem_space statvfs path =
     rbind (map_err (DiskStat path) (statvfs path)) (\<lambda>(blocks, fragment).
       rbind (ok_or (checked_mul (2 ^ 64) (unat blocks) (unat fragment))
                (DiskStat path (lit ''filesystem free-space value overflowed u64''))) (\<lambda>bytes.
         Inr \<lparr>ds_available_bytes = word_of_nat bytes\<rparr>))"

definition check_disk_space ::
  "statvfs_call \<Rightarrow> ustring \<Rightarrow> u64 \<Rightarrow> u64 \<Rightarrow> disk_admission_error + disk_space" where
  "check_disk_space statvfs path reserve_bytes required_bytes =
     rbind (filesystem_space statvfs path) (\<lambda>space. check_space space path reserve_bytes required_bytes)"

fun disk_admission_text :: "disk_admission_error \<Rightarrow> ustring" where
  "disk_admission_text (DiskStat path message) =
     lit ''could not inspect free space for '' @ path @ lit '': '' @ message"
| "disk_admission_text (DiskInsufficient path available reserve required) =
     lit ''work volume '' @ path @ lit '' has '' @ nat_text (unat available) @ lit '' free bytes, below the '' @
     nat_text (unat reserve) @ lit ''-byte reserve plus '' @ nat_text (unat required) @
     lit '' bytes required for the supported concurrent operation budget''"

record workspace_admission =
  wa_reserve_bytes :: u64
  wa_enabled :: bool

definition admission_disabled :: workspace_admission where
  "admission_disabled = \<lparr>wa_reserve_bytes = 0, wa_enabled = False\<rparr>"

definition admission_new :: "u64 \<Rightarrow> workspace_admission" where
  "admission_new reserve_bytes = \<lparr>wa_reserve_bytes = reserve_bytes, wa_enabled = True\<rparr>"

definition DISK_ADMISSION_RETRY_DELAY :: int where
  "DISK_ADMISSION_RETRY_DELAY = 60 * 1000000000"

definition defer_for_space_error :: "timestamp \<Rightarrow> disk_admission_error \<Rightarrow> handler_result" where
  "defer_for_space_error now e =
     Inl (failure_defer_free (lit ''work_disk_low'') (disk_admission_text e) (now + DISK_ADMISSION_RETRY_DELAY))"

definition admit :: "timestamp \<Rightarrow> statvfs_call \<Rightarrow> workspace_admission \<Rightarrow> ustring \<Rightarrow> u64 \<Rightarrow> handler_result" where
  "admit now statvfs policy work_root required_bytes =
     (if \<not> wa_enabled policy then Inr ()
      else case check_disk_space statvfs work_root (wa_reserve_bytes policy)
                  (concurrent_operation_budget required_bytes MAX_CONCURRENT_WORKSPACE_OPERATIONS) of
             Inr _ \<Rightarrow> Inr ()
           | Inl e \<Rightarrow> defer_for_space_error now e)"

section \<open>Registry\<close>

text \<open>A handler entry is a handler that either ignores or honours the cancellation.\<close>

datatype 'h handler_entry = PlainHandler 'h | CancellableHandler 'h

fun is_cancellable :: "'h handler_entry \<Rightarrow> bool" where
  "is_cancellable (PlainHandler _) = False"
| "is_cancellable (CancellableHandler _) = True"

type_synonym 'h handler_registry = "(job_type \<times> 'h handler_entry) list"

definition register_entry :: "job_type \<Rightarrow> 'h handler_entry \<Rightarrow> 'h handler_registry \<Rightarrow> 'h handler_registry" where
  "register_entry t e registry = (t, e) # filter (\<lambda>(k, _). k \<noteq> t) registry"

definition register :: "job_type \<Rightarrow> 'h \<Rightarrow> 'h handler_registry \<Rightarrow> 'h handler_registry" where
  "register t h = register_entry t (PlainHandler h)"

definition register_cancellable :: "job_type \<Rightarrow> 'h \<Rightarrow> 'h handler_registry \<Rightarrow> 'h handler_registry" where
  "register_cancellable t h = register_entry t (CancellableHandler h)"

definition registry_contains :: "'h handler_registry \<Rightarrow> job_type \<Rightarrow> bool" where
  "registry_contains registry t \<longleftrightarrow> t \<in> fst ` set registry"

definition job_types :: "'h handler_registry \<Rightarrow> job_type list" where
  "job_types registry = sort_key job_type_as_str (map fst registry)"

definition registry_handler :: "'h handler_registry \<Rightarrow> job_type \<Rightarrow> 'h handler_entry option" where
  "registry_handler registry t = map_of registry t"

section \<open>Timing\<close>

datatype worker_error =
    InvalidPollInterval
  | InvalidWorkerLease
  | WorkerRepository job_repository_error
  | HeartbeatTask ustring

text \<open>Durations are numbers of nanoseconds; a millisecond replaces an interval of zero.\<close>

definition heartbeat_interval :: "nat \<Rightarrow> nat" where
  "heartbeat_interval lease_duration =
     (let interval = lease_duration div 3 in if interval = 0 then 1000000 else interval)"

definition recovery_interval :: "nat \<Rightarrow> nat" where
  "recovery_interval lease_duration =
     (let interval = lease_duration div 2 in if interval = 0 then 1000000 else interval)"

definition validate_timing :: "nat \<Rightarrow> nat \<Rightarrow> worker_error + unit" where
  "validate_timing poll_interval lease_duration =
     (if poll_interval = 0 then Inl InvalidPollInterval
      else if lease_duration = 0 then Inl InvalidWorkerLease
      else Inr ())"

record 'h worker =
  wk_registry :: "'h handler_registry"
  wk_worker_id :: ustring
  wk_poll_interval :: nat
  wk_lease_duration :: nat

definition worker_new ::
  "'h handler_registry \<Rightarrow> ustring \<Rightarrow> nat \<Rightarrow> nat \<Rightarrow> worker_error + 'h worker" where
  "worker_new registry worker_id poll_interval lease_duration =
     rbind (validate_timing poll_interval lease_duration) (\<lambda>_.
       Inr \<lparr>wk_registry = registry, wk_worker_id = worker_id, wk_poll_interval = poll_interval,
            wk_lease_duration = lease_duration\<rparr>)"

section \<open>Heartbeats\<close>

text \<open>The ticks of the loop, one environment each; the loop ends at the stop signal (no more ticks)
  or with the first error.\<close>

fun heartbeat_loop ::
  "('v, 'tz) store_ops \<Rightarrow> job_lease \<Rightarrow> nat \<Rightarrow> db_env list \<Rightarrow> 'v store \<Rightarrow>
   'v store \<times> (job_repository_error + unit)" where
  "heartbeat_loop ops lease lease_duration [] s = (s, Inr ())"
| "heartbeat_loop ops lease lease_duration (env # ticks) s =
     (case on_queue (heartbeat_lease (so_codec ops) env lease lease_duration) s of
        (s', Inl e) \<Rightarrow> (s', Inl e)
      | (s', Inr _) \<Rightarrow> heartbeat_loop ops lease lease_duration ticks s')"

text \<open>How the heartbeat task ended: it panicked or was aborted, or it returned.\<close>

datatype heartbeat_end = HeartbeatPanicked ustring | HeartbeatReturned "job_repository_error + unit"

fun await_heartbeat :: "heartbeat_end \<Rightarrow> worker_error + unit" where
  "await_heartbeat (HeartbeatPanicked text) = Inl (HeartbeatTask text)"
| "await_heartbeat (HeartbeatReturned result) = map_err WorkerRepository result"

fun heartbeat_failure :: "heartbeat_end \<Rightarrow> worker_error" where
  "heartbeat_failure (HeartbeatReturned (Inr _)) =
     HeartbeatTask (lit ''heartbeat loop stopped while the handler was active'')"
| "heartbeat_failure (HeartbeatReturned (Inl e)) = WorkerRepository e"
| "heartbeat_failure (HeartbeatPanicked text) = HeartbeatTask text"

section \<open>Running a handler\<close>

text \<open>Which branch of the \<open>select!\<close> comes first, with the result of the handler (a handler that is
  cancelled is awaited) and the end of the heartbeat task.\<close>

datatype handler_race =
    HandlerEnded handler_result heartbeat_end
  | ShutdownCame handler_result heartbeat_end
  | HeartbeatEnded heartbeat_end handler_result

datatype handler_run_outcome =
    RunCompleted handler_result
  | RunShutdownCompleted handler_result
  | RunHeartbeatFailed handler_result worker_error
  | RunShutdown

definition lost_heartbeat :: "handler_result \<Rightarrow> handler_result" where
  "lost_heartbeat result =
     (case result of
        Inr _ \<Rightarrow> Inl (failure_permanent (lit ''heartbeat_lost'')
                   (lit ''worker heartbeat stopped while the upload was active''))
      | Inl failure \<Rightarrow> Inl failure)"

fun execute_handler :: "bool \<Rightarrow> handler_race \<Rightarrow> worker_error + handler_run_outcome" where
  "execute_handler cancellable (ShutdownCame result beat) =
     (if cancellable then rbind (await_heartbeat beat) (\<lambda>_. Inr (RunShutdownCompleted result))
      else rbind (await_heartbeat beat) (\<lambda>_. Inr RunShutdown))"
| "execute_handler cancellable (HandlerEnded result beat) =
     rbind (await_heartbeat beat) (\<lambda>_. Inr (RunCompleted result))"
| "execute_handler cancellable (HeartbeatEnded beat result) =
     (if cancellable then Inr (RunHeartbeatFailed (lost_heartbeat result) (heartbeat_failure beat))
      else Inl (heartbeat_failure beat))"

section \<open>Finishing a job\<close>

record log_counters =
  lc_polls :: nat
  lc_claimed :: nat
  lc_succeeded :: nat
  lc_retried :: nat
  lc_failed :: nat
  lc_shutdown_requeued :: nat

definition no_counters :: log_counters where
  "no_counters = \<lparr>lc_polls = 0, lc_claimed = 0, lc_succeeded = 0, lc_retried = 0, lc_failed = 0,
                  lc_shutdown_requeued = 0\<rparr>"

text \<open>The settlement a failure asks for, at the time \<open>now\<close> of the settling.\<close>

definition failure_settlement :: "timestamp \<Rightarrow> handler_failure \<Rightarrow> job_settlement" where
  "failure_settlement now failure =
     (case hf_defer_until failure of
        Some defer_until \<Rightarrow>
          (if hf_defer_without_consuming_attempt failure
           then defer_without_consuming_attempt defer_until (hf_class failure) (hf_message failure)
           else settlement_defer defer_until (hf_class failure) (hf_message failure))
      | None \<Rightarrow>
          if hf_retryable failure
          then (let run_at = now + 1000000000 in
                if hf_retry_without_consuming_attempt failure
                then retry_without_consuming_attempt run_at (hf_class failure) (hf_message failure)
                else settlement_retry run_at (hf_class failure) (hf_message failure))
          else settlement_fail (hf_class failure) (hf_message failure))"

definition count_failure :: "handler_failure \<Rightarrow> job \<Rightarrow> log_counters \<Rightarrow> log_counters" where
  "count_failure failure updated c =
     (if hf_defer_until failure \<noteq> None then c
      else if hf_retryable failure
      then (if job_status updated = JobQueued then c\<lparr>lc_retried := lc_retried c + 1\<rparr>
            else c\<lparr>lc_failed := lc_failed c + 1\<rparr>)
      else c\<lparr>lc_failed := lc_failed c + 1\<rparr>)"

definition finish_job ::
  "('v, 'tz) store_ops \<Rightarrow> store_env \<Rightarrow> job \<Rightarrow> job_lease \<Rightarrow> handler_result \<Rightarrow> log_counters \<Rightarrow> 'v store \<Rightarrow>
   'v store \<times> (worker_error + log_counters)" where
  "finish_job ops env j lease result c s =
     (case result of
        Inr _ \<Rightarrow>
          (case on_queue (complete_lease (so_codec ops) (se_db env) lease) s of
             (s', Inl e) \<Rightarrow> (s', Inl (WorkerRepository e))
           | (s', Inr _) \<Rightarrow> (s', Inr (c\<lparr>lc_succeeded := lc_succeeded c + 1\<rparr>)))
      | Inl failure \<Rightarrow>
          if hf_requires_storage_reconciliation failure then (s, Inr c)
          else (case settle_lease ops env j lease (failure_settlement (env_utc (se_db env)) failure) s of
                  (s', Inl e) \<Rightarrow> (s', Inl (WorkerRepository e))
                | (s', Inr updated) \<Rightarrow> (s', Inr (count_failure failure updated c))))"

section \<open>The loop\<close>

text \<open>One iteration: what the other processes did since the last one, whether the shutdown comes
  before the claim or while the worker sleeps, the environments of its transactions, how the handler's
  race ends, and what the handler, the heartbeats and the other processes do to the store meanwhile.\<close>

record 'v turn =
  tu_others :: "'v store \<Rightarrow> 'v store"
  tu_shutdown :: bool
  tu_claim_env :: db_env
  tu_idle_shutdown :: bool
  tu_handling :: "job \<Rightarrow> 'v store \<Rightarrow> 'v store"
  tu_race :: "job \<Rightarrow> handler_race"
  tu_settle_env :: store_env

datatype turn_end = TurnContinues | TurnBreaks | TurnFails worker_error

definition settle_turn ::
  "('v, 'tz) store_ops \<Rightarrow> store_env \<Rightarrow> job \<Rightarrow> job_lease \<Rightarrow> job_settlement \<Rightarrow>
   (log_counters \<Rightarrow> log_counters) \<Rightarrow> log_counters \<Rightarrow> turn_end \<Rightarrow> 'v store \<Rightarrow> 'v store \<times> log_counters \<times> turn_end" where
  "settle_turn ops env j lease settlement count c then_end s =
     (case settle_lease ops env j lease settlement s of
        (s', Inl e) \<Rightarrow> (s', c, TurnFails (WorkerRepository e))
      | (s', Inr _) \<Rightarrow> (s', count c, then_end))"

definition finish_turn ::
  "('v, 'tz) store_ops \<Rightarrow> store_env \<Rightarrow> job \<Rightarrow> job_lease \<Rightarrow> handler_result \<Rightarrow> log_counters \<Rightarrow> turn_end \<Rightarrow>
   'v store \<Rightarrow> 'v store \<times> log_counters \<times> turn_end" where
  "finish_turn ops env j lease result c then_end s =
     (case finish_job ops env j lease result c s of
        (s', Inl e) \<Rightarrow> (s', c, TurnFails e)
      | (s', Inr c') \<Rightarrow> (s', c', then_end))"

definition run_outcome ::
  "('v, 'tz) store_ops \<Rightarrow> store_env \<Rightarrow> job \<Rightarrow> job_lease \<Rightarrow> handler_run_outcome \<Rightarrow> log_counters \<Rightarrow> 'v store \<Rightarrow>
   'v store \<times> log_counters \<times> turn_end" where
  "run_outcome ops env j lease outcome c s =
     (case outcome of
        RunCompleted result \<Rightarrow> finish_turn ops env j lease result c TurnContinues s
      | RunShutdownCompleted result \<Rightarrow> finish_turn ops env j lease result c TurnBreaks s
      | RunHeartbeatFailed result e \<Rightarrow> finish_turn ops env j lease result c (TurnFails e) s
      | RunShutdown \<Rightarrow>
          settle_turn ops env j lease
            (settlement_retry (env_utc (se_db env)) (lit ''worker_shutdown'')
               (lit ''worker stopped while the job was active''))
            (\<lambda>c. c\<lparr>lc_shutdown_requeued := lc_shutdown_requeued c + 1\<rparr>) c TurnBreaks s)"

text \<open>What the runner does with a job it claimed.\<close>

definition run_claimed ::
  "('v, 'tz) store_ops \<Rightarrow> 'h worker \<Rightarrow> 'v turn \<Rightarrow> job \<Rightarrow> job_lease \<Rightarrow> log_counters \<Rightarrow> 'v store \<Rightarrow>
   'v store \<times> log_counters \<times> turn_end" where
  "run_claimed ops w t j lease c s =
     (case registry_handler (wk_registry w) (command_job_type (job_command j)) of
        None \<Rightarrow>
          settle_turn ops (tu_settle_env t) j lease
            (settlement_fail (lit ''handler_not_registered'') (lit ''no handler is registered for this job type''))
            (\<lambda>c. c\<lparr>lc_failed := lc_failed c + 1\<rparr>) c TurnContinues s
      | Some handler \<Rightarrow>
          let s = tu_handling t j s in
          (case execute_handler (is_cancellable handler) (tu_race t j) of
             Inl e \<Rightarrow> (s, c, TurnFails e)
           | Inr outcome \<Rightarrow> run_outcome ops (tu_settle_env t) j lease outcome c s))"

definition worker_turn ::
  "('v, 'tz) store_ops \<Rightarrow> 'h worker \<Rightarrow> 'v turn \<Rightarrow> log_counters \<Rightarrow> 'v store \<Rightarrow>
   'v store \<times> log_counters \<times> turn_end" where
  "worker_turn ops w t c s =
     (let s = tu_others t s; c = c\<lparr>lc_polls := lc_polls c + 1\<rparr> in
      if tu_shutdown t then (s, c, TurnBreaks)
      else case on_queue (claim_next (so_codec ops) (tu_claim_env t) (wk_worker_id w) (wk_lease_duration w)
                            (job_types (wk_registry w))) s of
             (s, Inl e) \<Rightarrow> (s, c, TurnFails (WorkerRepository e))
           | (s, Inr None) \<Rightarrow> (s, c, if tu_idle_shutdown t then TurnBreaks else TurnContinues)
           | (s, Inr (Some j)) \<Rightarrow>
               let c = c\<lparr>lc_claimed := lc_claimed c + 1\<rparr> in
               (case lease_of j of
                  None \<Rightarrow> (s, c, TurnFails (WorkerRepository LeaseLost))
                | Some lease \<Rightarrow> run_claimed ops w t j lease c s))"

text \<open>The loop over the turns; \<open>None\<close> while the worker is still running when they are used up.\<close>

fun worker_loop ::
  "('v, 'tz) store_ops \<Rightarrow> 'h worker \<Rightarrow> 'v turn list \<Rightarrow> log_counters \<Rightarrow> 'v store \<Rightarrow>
   'v store \<times> log_counters \<times> (worker_error + unit) option" where
  "worker_loop ops w [] c s = (s, c, None)"
| "worker_loop ops w (t # turns) c s =
     (case worker_turn ops w t c s of
        (s', c', TurnContinues) \<Rightarrow> worker_loop ops w turns c' s'
      | (s', c', TurnBreaks) \<Rightarrow> (s', c', Some (Inr ()))
      | (s', c', TurnFails e) \<Rightarrow> (s', c', Some (Inl e)))"

text \<open>A run recovers stale leases first; the periodic recovery is one of the other processes.\<close>

definition worker_run ::
  "('v, 'tz) store_ops \<Rightarrow> 'h worker \<Rightarrow> db_env \<Rightarrow> ('v job_row \<Rightarrow> store_env) \<Rightarrow> 'v turn list \<Rightarrow> 'v store \<Rightarrow>
   'v store \<times> (worker_error + unit) option" where
  "worker_run ops w env env_of turns s =
     (case recover_stale ops env env_of s of
        (s', Inl e) \<Rightarrow> (s', Some (Inl (WorkerRepository e)))
      | (s', Inr _) \<Rightarrow> (case worker_loop ops w turns no_counters s' of (s'', _, result) \<Rightarrow> (s'', result)))"


section \<open>A finished job is settled\<close>

text \<open>The job row a result leaves behind.\<close>

definition result_settled :: "handler_result \<Rightarrow> 'v job_row \<Rightarrow> bool" where
  "result_settled result row =
     (case result of
        Inr _ \<Rightarrow> jr_state row = lit ''succeeded''
      | Inl f \<Rightarrow>
          if hf_defer_until f = None \<and> \<not> hf_retryable f then jr_state row = lit ''failed''
          else jr_state row = lit ''queued'' \<or>
               jr_state row = lit ''failed'' \<and> jr_max_attempts row \<le> jr_attempt_count row)"

definition row_settled :: "(('v job_row) \<Rightarrow> bool) \<Rightarrow> uuid \<Rightarrow> 'v store \<Rightarrow> bool" where
  "row_settled P jid s \<longleftrightarrow> (\<exists>row\<in>set (st_jobs s). jr_id row = jid \<and> P row)"

lemma result_settled_not_running: "result_settled result row \<Longrightarrow> jr_state row \<noteq> lit ''running''"
  by (auto simp: result_settled_def split: sum.splits if_splits)

lemma complete_lease_settles:
  assumes ok: "queue_ok codec t" and res: "complete_lease codec env lease t = (t', r)"
  shows "case r of Inl _ \<Rightarrow> t' = t
    | Inr _ \<Rightarrow> \<exists>row\<in>set t'. jr_id row = jl_job_id lease \<and> jr_state row = lit ''succeeded''"
proof (cases "select_one (holds_lease env lease) t")
  case None
  then have "update_where (holds_lease env lease) (succeeded_row env) t = t"
    by (intro update_where_id) (simp add: select_one_None)
  with None res show ?thesis
    by (auto simp: complete_lease_def returning_select_one split: option.splits sum.split dest!: select_one_Some)
next
  case (Some row)
  then have row: "row \<in> set t" "holds_lease env lease row" by (auto dest: select_one_Some)
  have "queue_ok codec (update_where (holds_lease env lease) (succeeded_row env) t)"
    using complete_lease_change [of codec t env lease] queue.table_step_ok [OF _ ok]
    by (simp add: complete_lease_def Let_def returning_select_one Some)
  then have "stored_ok codec (succeeded_row env row)"
    using row by (auto simp: table_ok_def list_all_iff set_update_where)
  then obtain j where "into_job codec (succeeded_row env row) = Inr j" by (rule stored_ok_into_job)
  with res Some row show ?thesis
    by (auto simp: complete_lease_def returning_select_one set_update_where holds_lease_def succeeded_row_def
        intro!: bexI [of _ "succeeded_row env row"])
qed

lemma settle_lease_settles:
  assumes laws: "codec_laws (so_codec ops)" and ok: "queue_ok (so_codec ops) (st_jobs s)"
    and res: "settle_lease ops env j lease st s = (s', r)"
  shows "case r of Inl _ \<Rightarrow> s' = s
    | Inr _ \<Rightarrow> \<exists>row\<in>set (st_jobs s'). jr_id row = jl_job_id lease \<and>
        (if \<exists>c m. st = Fail c m then jr_state row = lit ''failed''
         else jr_state row = lit ''queued'' \<or> jr_state row = lit ''failed'' \<and> jr_max_attempts row \<le> jr_attempt_count row)"
proof -
  obtain s1 r1 where fam: "settle_family ops env (job_command j) lease st s = (s1, r1)"
    by (cases "settle_family ops env (job_command j) lease st s")
  from dispatch.settles [OF laws ok fam] consider
      (kept) "s1 = s" "\<exists>e. r1 = Inl e"
    | (settled) "settled_by (so_codec ops) (se_db env) lease st (st_jobs s) (st_jobs s1) r1" by blast
  then show ?thesis
  proof cases
    case kept
    have same: "s' = s" using kept res fam
      by (auto simp: settle_lease_def settle_def split: job_repository_error.splits if_splits)
    show ?thesis
    proof (cases r)
      case (Inr x)
      then have "allows_expired_lease st" "load_already_requeued (so_codec ops) lease st (job_command j) (st_jobs s) = Inr x"
        using kept res fam by (auto simp: settle_lease_def settle_def split: job_repository_error.splits if_splits)
      moreover from this obtain row where "row \<in> set (st_jobs s)" "jr_id row = jl_job_id lease" "jr_state row = lit ''queued''"
        by (auto simp: load_already_requeued_def result_simps dest!: select_one_Some)
      ultimately show ?thesis using same Inr by (cases st) auto
    qed (simp add: same)
  next
    case settled
    then obtain k where k: "k \<in> set (st_jobs s)" "jr_id k = jl_job_id lease"
      "settled_row (se_db env) (queue_parameters k st) k \<in> set (st_jobs s1)"
      "r1 = into_job (so_codec ops) (settled_row (se_db env) (queue_parameters k st) k)"
      and left: "job_left (so_codec ops) (jr_id k) (st_jobs s) (st_jobs s1)"
      by (auto simp: settled_by_def locks_running_job_def)
    have "stored_ok (so_codec ops) (settled_row (se_db env) (queue_parameters k st) k)"
      using left k(3) by (auto simp: job_left_def table_ok_def list_all_iff)
    then obtain updated where upd: "r1 = Inr updated" using k(4) by (metis stored_ok_into_job)
    have after: "if \<exists>c m. st = Fail c m then jr_state (settled_row (se_db env) (queue_parameters k st) k) = lit ''failed''
        else jr_state (settled_row (se_db env) (queue_parameters k st) k) = lit ''queued'' \<or>
          jr_state (settled_row (se_db env) (queue_parameters k st) k) = lit ''failed'' \<and>
          jr_max_attempts (settled_row (se_db env) (queue_parameters k st) k) \<le>
            jr_attempt_count (settled_row (se_db env) (queue_parameters k st) k)"
      by (cases st) (auto simp: settled_row_def requeue_parameters_def Let_def)
    show ?thesis
    proof (cases "lease_matches_job j lease")
      case True
      then have "s' = s1" "r = Inr updated" using res fam upd by (auto simp: settle_lease_def settle_def)
      with after k show ?thesis by (auto intro!: bexI [OF _ k(3)] simp: settled_row_def)
    next
      case False
      then show ?thesis using res by (auto simp: settle_lease_def)
    qed
  qed
qed

lemma failure_settlement_Fail:
  "(\<exists>c m. failure_settlement now f = Fail c m) \<longleftrightarrow> hf_defer_until f = None \<and> \<not> hf_retryable f"
  by (auto simp: failure_settlement_def settlement_retry_def settlement_defer_def settlement_fail_def
      retry_without_consuming_attempt_def defer_without_consuming_attempt_def Let_def split: option.splits)

lemma finish_job_settles:
  assumes laws: "codec_laws (so_codec ops)" and ok: "queue_ok (so_codec ops) (st_jobs s)"
    and fin: "finish_job ops env j lease result c s = (s', r)"
  shows "case r of
      Inl _ \<Rightarrow> s' = s
    | Inr c' \<Rightarrow> (\<exists>f. result = Inl f \<and> hf_requires_storage_reconciliation f \<and> s' = s \<and> c' = c) \<or>
        row_settled (result_settled result) (jl_job_id lease) s'"
proof (cases result)
  case (Inr u)
  obtain t' r1 where t': "complete_lease (so_codec ops) (se_db env) lease (st_jobs s) = (t', r1)"
    by (cases "complete_lease (so_codec ops) (se_db env) lease (st_jobs s)")
  from complete_lease_settles [OF ok t'] fin Inr t' show ?thesis
    by (cases r1) (auto simp: finish_job_def on_queue_def row_settled_def result_settled_def)
next
  case (Inl f)
  show ?thesis
  proof (cases "hf_requires_storage_reconciliation f")
    case True
    with Inl fin show ?thesis by (auto simp: finish_job_def)
  next
    case False
    let ?st = "failure_settlement (env_utc (se_db env)) f"
    obtain s1 r1 where s1: "settle_lease ops env j lease ?st s = (s1, r1)"
      by (cases "settle_lease ops env j lease ?st s")
    from settle_lease_settles [OF laws ok s1] fin Inl False s1 show ?thesis
      by (cases r1)
         (auto simp: finish_job_def row_settled_def result_settled_def failure_settlement_Fail split: if_splits)
  qed
qed

lemma registry_handler_None: "registry_handler registry t = None \<longleftrightarrow> \<not> registry_contains registry t"
  by (simp add: registry_handler_def registry_contains_def map_of_eq_None_iff)

lemma registry_handler_register:
  "registry_handler (register_entry t e registry) u = (if u = t then Some e else registry_handler registry u)"
  by (induction registry) (auto simp: registry_handler_def register_entry_def)

text \<open>A worker claims only what it has a handler for.\<close>

lemma claimed_job_registered:
  assumes "claim_next codec env worker duration (job_types registry) t = (u, Inr (Some j))"
  shows "registry_contains registry (command_job_type (job_command j))"
proof -
  obtain r where due: "claim_due env (job_types registry) r"
    and j: "into_job codec (claimed_row env worker (env_interval env duration) r) = Inr j"
    using assms by (rule claim_next_Some)
  from j have "jr_kind r = job_type_as_str (command_job_type (job_command j))"
    by (auto simp: into_job_def result_simps claimed_row_def job_type_enum.try_from_iff dest!: from_payload_type)
  with due show ?thesis
    by (auto simp: claim_due_def claim_candidate_def job_types_def registry_contains_def job_type_enum.as_str_inj
        intro: rev_image_eqI)
qed

lemma claim_keeps_queue:
  assumes "queue_ok codec (st_jobs s)" and "on_queue (claim_next codec env worker duration capabilities) s = (s1, r)"
  shows "queue_ok codec (st_jobs s1)"
  using claim_next_change [OF assms(1), of env worker duration capabilities] queue.table_step_ok [OF _ assms(1)] assms(2)
  by (auto simp: on_queue_def split: prod.splits)

definition reconciliation_left :: "handler_race \<Rightarrow> bool" where
  "reconciliation_left race =
     (\<exists>f beat. hf_requires_storage_reconciliation f \<and>
        race \<in> {HandlerEnded (Inl f) beat, ShutdownCame (Inl f) beat, HeartbeatEnded beat (Inl f)})"

lemma finish_turn_settles:
  assumes "codec_laws (so_codec ops)" and "queue_ok (so_codec ops) (st_jobs s)"
    and "finish_turn ops env j lease result c e s = (s', c', e')" and "\<forall>x. e' \<noteq> TurnFails x"
  shows "(\<exists>f. result = Inl f \<and> hf_requires_storage_reconciliation f \<and> s' = s) \<or>
    row_settled (result_settled result) (jl_job_id lease) s'"
proof -
  obtain s1 r where fin: "finish_job ops env j lease result c s = (s1, r)" by (cases "finish_job ops env j lease result c s")
  from finish_job_settles [OF assms(1,2) fin] fin assms(3,4) show ?thesis
    by (cases r) (auto simp: finish_turn_def)
qed

lemma settle_turn_settles:
  assumes "codec_laws (so_codec ops)" and "queue_ok (so_codec ops) (st_jobs s)"
    and "settle_turn ops env j lease st count c e s = (s', c', e')" and "\<forall>x. e' \<noteq> TurnFails x"
  shows "row_settled (\<lambda>row. jr_state row \<noteq> lit ''running'') (jl_job_id lease) s'"
proof -
  obtain s1 r where st: "settle_lease ops env j lease st s = (s1, r)" by (cases "settle_lease ops env j lease st s")
  from settle_lease_settles [OF assms(1,2) st] st assms(3,4) show ?thesis
    by (cases r) (fastforce simp: settle_turn_def row_settled_def split: if_splits)+
qed

section \<open>Properties\<close>

text \<open>(C9) The runner settles a job before it polls again: whatever the handler, the heartbeat and the
  other processes do while the job is held, as long as they keep the queue well-formed, a turn that does
  not end the worker with an error has claimed only a job it has a handler for and leaves that job not
  running, unless the handler asked to leave an unresolved upload to the recovery; then the turn
  itself writes nothing.\<close>

theorem worker_turn_settles:
  assumes laws: "codec_laws (so_codec ops)" and ok: "queue_ok (so_codec ops) (st_jobs (tu_others t s))"
    and keeps: "\<And>j u. queue_ok (so_codec ops) (st_jobs u) \<Longrightarrow> queue_ok (so_codec ops) (st_jobs (tu_handling t j u))"
    and claim: "on_queue (claim_next (so_codec ops) (tu_claim_env t) (wk_worker_id w) (wk_lease_duration w)
      (job_types (wk_registry w))) (tu_others t s) = (s1, Inr (Some j))" and running: "\<not> tu_shutdown t"
    and turn: "worker_turn ops w t c s = (s', c', e)" and ends: "\<forall>x. e \<noteq> TurnFails x"
  shows "registry_contains (wk_registry w) (command_job_type (job_command j)) \<and>
    (row_settled (\<lambda>row. jr_state row \<noteq> lit ''running'') (job_id j) s' \<or>
     reconciliation_left (tu_race t j) \<and> s' = tu_handling t j s1)"
proof -
  have reg: "registry_contains (wk_registry w) (command_job_type (job_command j))"
    using claim by (auto simp: on_queue_def intro: claimed_job_registered split: prod.splits)
  then obtain h where h: "registry_handler (wk_registry w) (command_job_type (job_command j)) = Some h"
    using registry_handler_None by blast
  have ok1: "queue_ok (so_codec ops) (st_jobs (tu_handling t j s1))"
    using keeps claim_keeps_queue [OF ok claim] by blast
  obtain lease where lease: "lease_of j = Some lease"
    using turn running claim ends by (cases "lease_of j") (auto simp: worker_turn_def Let_def)
  then have jid: "jl_job_id lease = job_id j" by (auto simp: lease_of_def bind_eq_Some_conv)
  obtain c0 where "run_claimed ops w t j lease c0 s1 = (s', c', e)"
    using turn running claim lease by (auto simp: worker_turn_def Let_def)
  then obtain outcome where exec: "execute_handler (is_cancellable h) (tu_race t j) = Inr outcome"
    and run: "run_outcome ops (tu_settle_env t) j lease outcome c0 (tu_handling t j s1) = (s', c', e)"
    using ends by (auto simp: run_claimed_def Let_def h split: sum.splits)
  have finished: ?thesis
    if "finish_turn ops (tu_settle_env t) j lease result c0 e' (tu_handling t j s1) = (s', c', e)"
      and "\<exists>beat. tu_race t j \<in> {HandlerEnded result beat, ShutdownCame result beat}" for result e'
    using finish_turn_settles [OF laws ok1 that(1) ends] that(2) jid
    by (auto simp: row_settled_def reconciliation_left_def reg dest: result_settled_not_running)
  show ?thesis
  proof (cases outcome)
    case (RunCompleted result)
    then have "\<exists>beat. tu_race t j = HandlerEnded result beat"
      using exec by (cases "tu_race t j") (auto simp: result_simps split: if_splits)
    then show ?thesis using run RunCompleted by (intro finished) (auto simp: run_outcome_def)
  next
    case (RunShutdownCompleted result)
    then have "\<exists>beat. tu_race t j = ShutdownCame result beat"
      using exec by (cases "tu_race t j") (auto simp: result_simps split: if_splits)
    then show ?thesis using run RunShutdownCompleted by (intro finished) (auto simp: run_outcome_def)
  next
    case (RunHeartbeatFailed result x)
    then show ?thesis using run ends by (auto simp: run_outcome_def finish_turn_def split: prod.splits sum.splits)
  next
    case RunShutdown
    then have "row_settled (\<lambda>row. jr_state row \<noteq> lit ''running'') (jl_job_id lease) s'"
      using run unfolding run_outcome_def by (auto intro: settle_turn_settles [OF laws ok1 _ ends])
    with jid reg show ?thesis by simp
  qed
qed

text \<open>An admitted operation fits: with an enabled policy and a reserve an operation is admitted only if the free
  space of the volume covers the reserve and twice the operation's own demand, none of which
  overflows; a refusal defers the job by a minute without using up an attempt.\<close>

theorem admitted_operation_fits:
  assumes "wa_enabled policy" and "0 < wa_reserve_bytes policy"
  shows "case admit now statvfs policy root required of
      Inr _ \<Rightarrow> \<exists>blocks fragment. statvfs root = Inr (blocks, fragment) \<and>
        unat (wa_reserve_bytes policy) + 2 * unat required \<le> unat blocks * unat fragment \<and>
        unat (wa_reserve_bytes policy) + 2 * unat required < 2 ^ 64
    | Inl f \<Rightarrow> hf_defer_until f = Some (now + 60 * 1000000000) \<and> hf_defer_without_consuming_attempt f"
proof (cases "admit now statvfs policy root required")
  case (Inl f)
  with assms show ?thesis
    by (auto simp: admit_def defer_for_space_error_def failure_defer_free_def DISK_ADMISSION_RETRY_DELAY_def
        split: sum.splits)
next
  case (Inr u)
  let ?budget = "concurrent_operation_budget required MAX_CONCURRENT_WORKSPACE_OPERATIONS"
  obtain space where "check_disk_space statvfs root (wa_reserve_bytes policy) ?budget = Inr space"
    using Inr assms by (auto simp: admit_def defer_for_space_error_def split: sum.splits)
  then obtain blocks fragment where stat: "statvfs root = Inr (blocks, fragment)"
    and fits: "unat blocks * unat fragment < 2 ^ 64"
    and admits: "admits \<lparr>ds_available_bytes = word_of_nat (unat blocks * unat fragment)\<rparr> (wa_reserve_bytes policy) ?budget"
    by (auto simp: check_disk_space_def filesystem_space_def check_space_def checked_mul_def result_simps split: if_splits)
  have avail: "unat (word_of_nat (unat blocks * unat fragment) :: u64) = unat blocks * unat fragment"
    using fits by (simp add: unat_word_ariths)
  have small: "unat (wa_reserve_bytes policy) + unat ?budget < 2 ^ 64"
    "unat (wa_reserve_bytes policy) + unat ?budget \<le> unat blocks * unat fragment"
    using admits avail by (auto simp: admits_def checked_add_def split: if_splits)
  have "unat ?budget = 2 * unat required"
  proof (cases "unat required * 2 < 2 ^ 64")
    case True
    then show ?thesis
      by (simp add: concurrent_operation_budget_def saturating_mul_u64_def MAX_CONCURRENT_WORKSPACE_OPERATIONS_def
          unat_word_ariths mult.commute)
  next
    case False
    then have "?budget = - 1"
      by (simp add: concurrent_operation_budget_def saturating_mul_u64_def MAX_CONCURRENT_WORKSPACE_OPERATIONS_def)
    then have "unat ?budget = 2 ^ 64 - 1" by (simp add: unsigned_minus_1_eq_mask mask_eq_exp_minus_1)
    moreover have "0 < unat (wa_reserve_bytes policy)" using assms(2) by (simp add: unat_gt_0 word_gt_0)
    ultimately show ?thesis using small by linarith
  qed
  with small Inr stat show ?thesis by simp
qed

section \<open>Witnesses\<close>

definition witness_worker :: "unit worker" where
  "witness_worker = \<lparr>wk_registry = register CleanupWorkspaceJob () [], wk_worker_id = lit ''w'',
                     wk_poll_interval = 1, wk_lease_duration = 10\<rparr>"

text \<open>The cleanup job of \<open>witness_row\<close> is claimed at time 5, its handler succeeds, it is completed at time 6.\<close>

definition witness_turn :: "plain_value turn" where
  "witness_turn =
     \<lparr>tu_others = (\<lambda>s. s), tu_shutdown = False, tu_claim_env = at_time 5 9, tu_idle_shutdown = False,
      tu_handling = (\<lambda>_ s. s), tu_race = (\<lambda>_. HandlerEnded (Inr ()) (HeartbeatReturned (Inr ()))),
      tu_settle_env = senv 6 0\<rparr>"

definition witness_queue :: "plain_value store" where
  "witness_queue = \<lparr>st_jobs = [witness_row], st_ingests = [], st_media = [], st_posts = [], st_channels = []\<rparr>"

theorem worker_turn_settles_witness:
  "row_settled (\<lambda>row. jr_state row \<noteq> lit ''running'') 7
     (fst (worker_turn plain_store_ops witness_worker witness_turn no_counters witness_queue))"
proof -
  obtain j where j: "into_job plain_codec witness_running = Inr j"
    using witness_running_ok stored_ok_into_job by (auto simp: table_ok_def)
  have lease: "lease_of j = Some witness_lease" and jid: "job_id j = 7"
    and kind: "command_job_type (job_command j) = CleanupWorkspaceJob"
    using j by (auto simp: into_job_def result_simps lease_of_def witness_defs job_type_enum.try_from_iff
        job_type_enum.as_str_inj simp flip: job_type_as_str.simps dest!: from_payload_type)
  have claim: "on_queue (claim_next (so_codec plain_store_ops) (tu_claim_env witness_turn) (wk_worker_id witness_worker)
      (wk_lease_duration witness_worker) (job_types (wk_registry witness_worker))) (tu_others witness_turn witness_queue) =
      (witness_queue\<lparr>st_jobs := [witness_running]\<rparr>, Inr (Some j))"
    using witness_claim j
    by (simp add: on_queue_def witness_turn_def witness_worker_def witness_queue_def job_types_def register_def register_entry_def)
  have "holds_lease (at_time 6 0) witness_lease witness_running"
    by (simp add: holds_lease_def witness_defs)
  from complete_on_lease [OF witness_running_ok _ this]
  have done_: "complete_lease plain_codec (at_time 6 0) witness_lease [witness_running] =
      ([succeeded_row (at_time 6 0) witness_running], into_job plain_codec (succeeded_row (at_time 6 0) witness_running))"
    by (simp add: update_where_def \<open>holds_lease (at_time 6 0) witness_lease witness_running\<close>)
  obtain s' c' e where turn: "worker_turn plain_store_ops witness_worker witness_turn no_counters witness_queue = (s', c', e)"
    by (metis prod_cases3)
  obtain fin where "into_job plain_codec (succeeded_row (at_time 6 0) witness_running) = Inr fin"
    using complete_lease_settles [OF witness_running_ok done_] j
    by (auto simp: into_job_def result_simps succeeded_row_def job_status_try_from_def)
  then have ends: "\<forall>x. e \<noteq> TurnFails x"
    using turn claim done_ lease kind
    by (auto simp: worker_turn_def Let_def run_claimed_def run_outcome_def finish_turn_def finish_job_def on_queue_def
        registry_handler_def witness_worker_def register_def register_entry_def witness_turn_def senv_def)
  show ?thesis
    using worker_turn_settles [OF _ _ _ claim _ turn ends] turn jid plain_codec_laws witness_row_ok
    by (simp add: witness_turn_def witness_queue_def reconciliation_left_def)
qed

theorem admitted_operation_fits_witness:
  "unat (10 :: u64) + 2 * unat (20 :: u64) \<le> unat (5 :: u64) * unat (10 :: u64)"
  using admitted_operation_fits [of "admission_new 10" 0 "\<lambda>_. Inr (5, 10)" "[]" 20]
  by (simp add: admission_new_def admit_def check_disk_space_def filesystem_space_def check_space_def admits_def
      checked_add_def checked_mul_def concurrent_operation_budget_def saturating_mul_u64_def
      MAX_CONCURRENT_WORKSPACE_OPERATIONS_def)

end
