(* ===== verification/Handlers.thy ===== *)
theory Handlers
  imports Worker_Runner Read_Models Ingest_Pipeline
begin

text \<open>
  What the handlers of the worker share: how the transactions of a handler meet the other processes and
  the failures of the database, how repository errors become failures of a handler
  (\<open>apps/worker/src/common.rs\<close>), and the handler of workspace cleanups (\<open>apps/worker/src/cleanup.rs\<close>).
\<close>

section \<open>Transactions of a handler\<close>

text \<open>
  A handler runs transactions one after the other, with network calls in between. Before the \<open>n\<close>-th
  of them the other processes have changed the store; it runs in an environment of its own; and the
  connection may fail, either so that the transaction is rolled back or so that it is committed but
  its answer is lost. In both cases the handler sees a database error.
\<close>

datatype fault = NoFault | RolledBack | CommitLost

record 'v handler_world =
  hw_env :: "nat \<Rightarrow> store_env"
  hw_others :: "nat \<Rightarrow> 'v store \<Rightarrow> 'v store"
  hw_fault :: "nat \<Rightarrow> fault"

definition run_tx ::
  "'v handler_world \<Rightarrow> nat \<Rightarrow> 'e \<Rightarrow> (store_env \<Rightarrow> 'v store \<Rightarrow> 'v store \<times> ('e + 'a)) \<Rightarrow> 'v store \<Rightarrow>
   'v store \<times> ('e + 'a)" where
  "run_tx w n database_error op s =
     (let s = hw_others w n s in
      case hw_fault w n of
        NoFault \<Rightarrow> op (hw_env w n) s
      | RolledBack \<Rightarrow> (s, Inl database_error)
      | CommitLost \<Rightarrow> (fst (op (hw_env w n) s), Inl database_error))"

text \<open>A property that the other processes and the transaction keep holds after it, whatever fails.\<close>

lemma run_tx_keeps:
  assumes "run_tx w n e op s = (s', r)" and "P s" and "\<And>s. P s \<Longrightarrow> P (hw_others w n s)"
    and "\<And>env s. P s \<Longrightarrow> P (fst (op env s))"
  shows "P s'"
  using assms by (auto simp: run_tx_def Let_def split: fault.splits) (metis fst_conv)

lemma run_tx_Inr:
  assumes "run_tx w n e op s = (s', Inr x)"
  shows "op (hw_env w n) (hw_others w n s) = (s', Inr x)"
  using assms by (auto simp: run_tx_def Let_def split: fault.splits)

section \<open>Errors\<close>

text \<open>The \<open>Display\<close> texts of the errors a handler reports.\<close>

record error_texts =
  et_publisher :: "publisher_repository_error \<Rightarrow> ustring"
  et_library :: "library_repository_error \<Rightarrow> ustring"
  et_inbox :: "inbox_repository_error \<Rightarrow> ustring"

definition map_library_error :: "error_texts \<Rightarrow> library_repository_error \<Rightarrow> handler_failure" where
  "map_library_error texts e =
     (case e of
        LibraryDatabase \<Rightarrow> failure_retryable (lit ''database_error'') (et_library texts e)
      | _ \<Rightarrow> failure_permanent (lit ''library_error'') (et_library texts e))"

definition map_inbox_error :: "error_texts \<Rightarrow> inbox_repository_error \<Rightarrow> handler_failure" where
  "map_inbox_error texts e =
     (let message = et_inbox texts e;
          permanent = failure_permanent (lit ''invalid_ingest_state'') message in
      case e of
        InboxLibrary inner \<Rightarrow> map_library_error texts inner
      | InputEnvelope _ \<Rightarrow> permanent
      | inbox_repository_error.IngestMissing _ \<Rightarrow> permanent
      | MissingSourceUrl _ \<Rightarrow> permanent
      | InvalidFailureStatus _ \<Rightarrow> permanent
      | InvalidStateTransition _ \<Rightarrow> permanent
      | UnknownIngestKind _ \<Rightarrow> permanent
      | UnknownIngestStatus _ \<Rightarrow> permanent
      | UnknownSubmittedVia _ \<Rightarrow> permanent
      | VideoFinalizationNotAllowed \<Rightarrow> permanent
      | DuplicateEvidenceTooManyMatches _ \<Rightarrow> permanent
      | DuplicateEvidenceTooLarge _ \<Rightarrow> permanent
      | _ \<Rightarrow> failure_retryable (lit ''database_error'') message)"

definition map_publisher_error :: "error_texts \<Rightarrow> publisher_repository_error \<Rightarrow> handler_failure" where
  "map_publisher_error texts e =
     (let message = et_publisher texts e;
          dependency = failure_retryable (lit ''publication_dependency'') message in
      case e of
        PublisherDatabase \<Rightarrow> failure_retryable (lit ''database_error'') message
      | ChannelDisabled _ \<Rightarrow> dependency
      | MediaNotReady _ _ \<Rightarrow> dependency
      | MaterializationNotReady _ \<Rightarrow> dependency
      | _ \<Rightarrow> failure_permanent (lit ''publication_state'') message)"

datatype workspace_error =
    InvalidFileName ustring
  | OutsideConfiguredRoot ustring
  | WorkspaceSymlink ustring
  | WorkspaceNotDirectory ustring
  | ManifestJobMismatch uuid uuid
  | ManifestFormat ustring
  | WorkspaceIo ustring ustring

text \<open>The texts of \<open>WorkspaceError\<close>; the last arguments of the two errors of other crates are their texts.\<close>

fun workspace_error_text :: "(uuid \<Rightarrow> ustring) \<Rightarrow> workspace_error \<Rightarrow> ustring" where
  "workspace_error_text uuid_text (InvalidFileName name) = lit ''invalid workspace filename: '' @ name"
| "workspace_error_text uuid_text (OutsideConfiguredRoot path) =
     lit ''workspace path is outside the configured root: '' @ path"
| "workspace_error_text uuid_text (WorkspaceSymlink path) = lit ''workspace path is a symlink: '' @ path"
| "workspace_error_text uuid_text (WorkspaceNotDirectory path) = lit ''workspace path is not a directory: '' @ path"
| "workspace_error_text uuid_text (ManifestJobMismatch expected actual) =
     lit ''manifest belongs to job '' @ uuid_text actual @ lit '', expected job '' @ uuid_text expected"
| "workspace_error_text uuid_text (ManifestFormat source) = lit ''workspace manifest format error: '' @ source"
| "workspace_error_text uuid_text (WorkspaceIo path source) =
     lit ''workspace I/O failed for '' @ path @ lit '': '' @ source"

definition map_workspace_error :: "(uuid \<Rightarrow> ustring) \<Rightarrow> workspace_error \<Rightarrow> handler_failure" where
  "map_workspace_error uuid_text e =
     (let message = workspace_error_text uuid_text e in
      case e of
        WorkspaceIo _ _ \<Rightarrow> failure_retryable (lit ''workspace_error'') message
      | _ \<Rightarrow> failure_permanent (lit ''workspace_error'') message)"

section \<open>The input of an ingest\<close>

definition workspace_input :: "ingest \<Rightarrow> handler_failure + (uuid \<times> ustring)" where
  "workspace_input request =
     (if ing_kind request = UrlIngest then Inr (ing_workspace_id request, lit ''source.bin'')
      else Inr (ing_workspace_id request, lit ''telegram-input.bin''))"

definition request_media_kind :: "ingest_codec \<Rightarrow> ingest \<Rightarrow> source_media_kind option" where
  "request_media_kind codec request =
     (case input_data codec request of Inl _ \<Rightarrow> None | Inr d \<Rightarrow> data_media_kind d)"

definition load_ingest_for_admission ::
  "('v, 'tz) inbox_ops \<Rightarrow> error_texts \<Rightarrow> 'v handler_world \<Rightarrow> nat \<Rightarrow> uuid \<Rightarrow> 'v store \<Rightarrow>
   'v store \<times> (handler_failure + ingest)" where
  "load_ingest_for_admission ops texts w n ingest_id s =
     (case run_tx w n InboxDatabase (\<lambda>_ s. (s, find_ingest ops ingest_id s)) s of
        (s, Inl e) \<Rightarrow> (s, Inl (map_inbox_error texts e))
      | (s, Inr found) \<Rightarrow>
          (s, ok_or found (failure_permanent (lit ''ingest_missing'') (lit ''ingest request was not found''))))"

section \<open>Workspace cleanup\<close>

text \<open>\<open>MediaWorkspace::cleanup_existing\<close> removes a directory: \<open>remove\<close> is its result.\<close>

definition cleanup_workspace ::
  "('v, 'tz) inbox_ops \<Rightarrow> error_texts \<Rightarrow> 'v handler_world \<Rightarrow> (uuid \<Rightarrow> workspace_error + unit) \<Rightarrow> job \<Rightarrow>
   'v store \<Rightarrow> 'v store \<times> uuid list \<times> handler_result" where
  "cleanup_workspace ops texts w remove j s =
     (case job_command j of
        CleanupWorkspace payload \<Rightarrow>
          (case lease_of j of
             None \<Rightarrow> (s, [], Inl (failure_permanent (lit ''invalid_job_state'')
                               (lit ''cleanup_workspace handler requires a running job lease'')))
           | Some attempt \<Rightarrow>
               (case run_tx w 0 InboxDatabase
                       (\<lambda>env. begin_workspace_cleanup ops env attempt (cwp_ingest_id payload) (cwp_workspace_id payload)) s of
                  (s, Inl e) \<Rightarrow> (s, [], Inl (map_inbox_error texts e))
                | (s, Inr CleanupDeferred) \<Rightarrow>
                    (s, [], Inl (failure_defer (lit ''workspace_protected'')
                       (lit ''workspace is still protected by durable ingest or storage state'')
                       (env_utc (se_db (hw_env w 0)) + 60 * 1000000000)))
                | (s, Inr CleanupAlreadyAdvanced) \<Rightarrow> (s, [], Inr ())
                | (s, Inr CleanupReady) \<Rightarrow>
                    (s, [cwp_workspace_id payload],
                     map_err (\<lambda>e. let message = workspace_error_text (so_uuid_text (io_store ops)) e in
                       case e of
                         WorkspaceIo _ _ \<Rightarrow> failure_retryable (lit ''workspace_cleanup'') message
                       | _ \<Rightarrow> failure_permanent (lit ''workspace_cleanup'') message)
                       (remove (cwp_workspace_id payload)))))
      | _ \<Rightarrow> (s, [], Inl (failure_permanent (lit ''invalid_payload'')
                       (lit ''cleanup_workspace handler received a different job command''))))"

end
