(* ===== verification/Publication_Handler.thy ===== *)
theory Publication_Handler
  imports Handlers
begin

text \<open>
  The worker's publication jobs (\<open>apps/worker/src/publication.rs\<close>) and the Telegram side of them
  (\<open>crates/telegram/src/publication.rs\<close>): claim a post, copy its stored message to the channel or send
  its file, and record what came of it. The bot is an argument that answers every call; the calls with
  their answers are the log of a run. Other processes and failing transactions come in through the
  \<open>handler_world\<close>.
\<close>

section \<open>Telegram\<close>

text \<open>The errors of \<open>teloxide\<close>, with the variants the code tells apart.\<close>

datatype request_error =
    MessageToCopyNotFound
  | CantParseEntities ustring
  | MessageIsTooLong
  | MessageTextIsEmpty
  | MessageNotModified
  | UnknownApiError ustring
  | OtherApiError ustring
  | RetryAfter nat
  | NetworkError ustring
  | InvalidJsonAnswer ustring
  | RequestIoError ustring
  | OtherRequestError ustring

datatype telegram_api_error =
    TelegramRequest request_error
  | TelegramDownload ustring
  | TelegramIo ustring
  | LocalFileRootNotConfigured
  | LocalFileRootUnavailable
  | LocalFilePathRejected
  | LocalFileNotRegular
  | DownloadSizeMismatch u64 u64
  | DownloadLimit u64 u64
  | MissingFileReference media_kind
  | TelegramInvalidParseMode
  | InvalidMessageId int

record publication_request =
  pq_target_chat_id :: int
  pq_storage_chat_id :: int
  pq_storage_message_id :: int
  pq_telegram_file_id :: "ustring option"
  pq_media_kind :: media_kind
  pq_caption :: "ustring option"
  pq_parse_mode :: "ustring option"
  pq_disable_notification :: bool

text \<open>The calls of the bot: \<open>copyMessage\<close> and \<open>sendVideo\<close>, \<open>sendPhoto\<close>, \<open>sendAudio\<close>, \<open>sendAnimation\<close>.\<close>

datatype bot_call =
    CopyMessage int int int ustring "ustring option" bool
  | SendFile media_kind int ustring ustring "ustring option" bool

type_synonym bot_api = "bot_call \<Rightarrow> request_error + int"
type_synonym bot_log = "(bot_call \<times> (request_error + int)) list"

text \<open>\<open>parses\<close> says which texts \<open>teloxide\<close> reads as a parse mode.\<close>

definition telegram_parse_mode ::
  "(ustring \<Rightarrow> bool) \<Rightarrow> ustring option \<Rightarrow> telegram_api_error + ustring option" where
  "telegram_parse_mode parses value =
     (case value of
        None \<Rightarrow> Inr None
      | Some mode \<Rightarrow> if parses mode then Inr (Some mode) else Inl TelegramInvalidParseMode)"

definition request_caption :: "publication_request \<Rightarrow> ustring" where
  "request_caption request = unwrap_or (pq_caption request) []"

definition call_bot :: "bot_api \<Rightarrow> bot_call \<Rightarrow> bot_log \<times> (telegram_api_error + int)" where
  "call_bot api call = ([(call, api call)], map_err TelegramRequest (api call))"

definition copy_from_storage ::
  "(ustring \<Rightarrow> bool) \<Rightarrow> bot_api \<Rightarrow> publication_request \<Rightarrow> bot_log \<times> (telegram_api_error + int)" where
  "copy_from_storage parses api request =
     (if \<not> in_i32 (pq_storage_message_id request) then ([], Inl (InvalidMessageId (pq_storage_message_id request)))
      else case telegram_parse_mode parses (pq_parse_mode request) of
        Inl e \<Rightarrow> ([], Inl e)
      | Inr mode \<Rightarrow>
          call_bot api (CopyMessage (pq_target_chat_id request) (pq_storage_chat_id request)
            (pq_storage_message_id request) (request_caption request) mode (pq_disable_notification request)))"

definition send_storage_file ::
  "(ustring \<Rightarrow> bool) \<Rightarrow> bot_api \<Rightarrow> publication_request \<Rightarrow> bot_log \<times> (telegram_api_error + int)" where
  "send_storage_file parses api request =
     (case pq_telegram_file_id request of
        None \<Rightarrow> ([], Inl (MissingFileReference (pq_media_kind request)))
      | Some file_id \<Rightarrow>
          if file_id = [] then ([], Inl (MissingFileReference (pq_media_kind request)))
          else case telegram_parse_mode parses (pq_parse_mode request) of
            Inl e \<Rightarrow> ([], Inl e)
          | Inr mode \<Rightarrow>
              call_bot api (SendFile (pq_media_kind request) (pq_target_chat_id request) file_id
                (request_caption request) mode (pq_disable_notification request)))"

definition is_copy_unavailable :: "telegram_api_error \<Rightarrow> bool" where
  "is_copy_unavailable e =
     (case e of
        TelegramRequest MessageToCopyNotFound \<Rightarrow> True
      | TelegramRequest (UnknownApiError message) \<Rightarrow>
          let message = to_ascii_lowercase message in
          contains (lit [CHR ''c'', CHR ''a'', CHR ''n'', CHR 0x27, CHR ''t''] @ lit '' copy messages of this type'') message \<or>
          contains (lit ''cannot copy messages of this type'') message \<or>
          contains (lit ''message to copy not found'') message
      | _ \<Rightarrow> False)"

definition is_known_caption_error :: "telegram_api_error \<Rightarrow> bool" where
  "is_known_caption_error e =
     (case e of
        TelegramRequest (CantParseEntities _) \<Rightarrow> True
      | TelegramRequest MessageIsTooLong \<Rightarrow> True
      | TelegramRequest MessageTextIsEmpty \<Rightarrow> True
      | _ \<Rightarrow> False)"

definition is_retryable_no_effect :: "telegram_api_error \<Rightarrow> bool" where
  "is_retryable_no_effect e = (case e of TelegramRequest (RetryAfter _) \<Rightarrow> True | _ \<Rightarrow> False)"

definition is_ambiguous_error :: "telegram_api_error \<Rightarrow> bool" where
  "is_ambiguous_error e =
     (case e of
        TelegramRequest (NetworkError _) \<Rightarrow> True
      | TelegramRequest (InvalidJsonAnswer _) \<Rightarrow> True
      | TelegramRequest (RequestIoError _) \<Rightarrow> True
      | TelegramRequest (UnknownApiError _) \<Rightarrow> True
      | _ \<Rightarrow> False)"

section \<open>Recording the outcome\<close>

text \<open>What the handler uses beside the store: the texts of errors, the bot and its parse modes.\<close>

record telegram_ops =
  to_texts :: error_texts
  to_api_text :: "telegram_api_error \<Rightarrow> ustring"
  to_parses :: "ustring \<Rightarrow> bool"
  to_bot :: bot_api

definition record_publication_failure ::
  "('v, 'tz) store_ops \<Rightarrow> telegram_ops \<Rightarrow> 'v handler_world \<Rightarrow> nat \<Rightarrow> publish_claim \<Rightarrow> publish_lease \<Rightarrow>
   post_state \<Rightarrow> ustring \<Rightarrow> ustring \<Rightarrow> 'v store \<Rightarrow> 'v store \<times> handler_result" where
  "record_publication_failure ops tg w n claim lease state class message s =
     (case run_tx w n PublisherDatabase
             (\<lambda>env. on_publisher (fail_publish (so_publisher ops) (se_db env) (po_id (pc_post claim)) lease state class message)) s of
        (s, Inr _) \<Rightarrow> (s, Inl (failure_permanent class message))
      | (s, Inl (PublishLeaseLost _)) \<Rightarrow> (s, Inr ())
      | (s, Inl e) \<Rightarrow>
          (s, Inl (failure_permanent (lit ''publication_state'')
                     (lit ''could not record publication outcome: '' @ et_publisher (to_texts tg) e))))"

text \<open>Give the post back to the queue: after a failed lookup before the send, or an answer of Telegram
  that had no effect.\<close>

definition settle_pre_send_retryable_error ::
  "('v, 'tz) store_ops \<Rightarrow> telegram_ops \<Rightarrow> 'v handler_world \<Rightarrow> nat \<Rightarrow> publish_claim \<Rightarrow> publish_lease \<Rightarrow>
   ustring \<Rightarrow> ustring \<Rightarrow> 'v store \<Rightarrow> 'v store \<times> handler_result" where
  "settle_pre_send_retryable_error ops tg w n claim lease class message s =
     (case run_tx w n PublisherDatabase
             (\<lambda>env. on_publisher (retry_publish (so_publisher ops) (se_db env) (po_id (pc_post claim)) lease class message)) s of
        (s, Inr result) \<Rightarrow>
          (s, Inl (if pr_terminal result then failure_permanent class message else failure_retryable class message))
      | (s, Inl (PublishLeaseLost _)) \<Rightarrow> (s, Inr ())
      | (s, Inl e) \<Rightarrow>
          (s, Inl (failure_permanent (lit ''publication_state'')
                     (lit ''could not requeue a safe publication retry: '' @ et_publisher (to_texts tg) e))))"

definition settle_publication_transport_error ::
  "('v, 'tz) store_ops \<Rightarrow> telegram_ops \<Rightarrow> 'v handler_world \<Rightarrow> nat \<Rightarrow> publish_claim \<Rightarrow> publish_lease \<Rightarrow>
   telegram_api_error \<Rightarrow> 'v store \<Rightarrow> 'v store \<times> handler_result" where
  "settle_publication_transport_error ops tg w n claim lease e s =
     (let message = to_api_text tg e in
      if is_retryable_no_effect e
      then settle_pre_send_retryable_error ops tg w n claim lease (lit ''telegram_retryable'') message s
      else if is_known_caption_error e
      then record_publication_failure ops tg w n claim lease PostFailed (lit ''caption_rejected'') message s
      else if is_ambiguous_error e
      then record_publication_failure ops tg w n claim lease PostUnknown (lit ''publication_unknown'') message s
      else record_publication_failure ops tg w n claim lease PostFailed (lit ''publication_rejected'') message s)"

text \<open>After a message was posted: complete the post, or fence it as unknown.\<close>

definition fence_posted_message ::
  "('v, 'tz) store_ops \<Rightarrow> telegram_ops \<Rightarrow> 'v handler_world \<Rightarrow> nat \<Rightarrow> uuid \<Rightarrow> publish_lease \<Rightarrow> ustring \<Rightarrow> 'v store \<Rightarrow>
   'v store \<times> handler_result" where
  "fence_posted_message ops tg w n post_id lease message s =
     (case run_tx w n PublisherDatabase
             (\<lambda>env. on_publisher (fail_publish (so_publisher ops) (se_db env) post_id lease PostUnknown
                (lit ''publication_commit'') message)) s of
        (s, Inr _) \<Rightarrow> (s, Inl (failure_permanent (lit ''publication_commit'') message))
      | (s, Inl (PublishLeaseLost _)) \<Rightarrow> (s, Inr ())
      | (s, Inl failure) \<Rightarrow>
          (s, Inl (failure_permanent (lit ''publication_commit'')
                     (message @ lit ''; could not fence the publication as unknown: '' @
                      et_publisher (to_texts tg) failure))))"

definition commit_publication ::
  "('v, 'tz) store_ops \<Rightarrow> telegram_ops \<Rightarrow> 'v handler_world \<Rightarrow> nat \<Rightarrow> uuid \<Rightarrow> publish_lease \<Rightarrow> int \<Rightarrow> 'v store \<Rightarrow>
   'v store \<times> handler_result" where
  "commit_publication ops tg w n post_id lease message_id s =
     (case run_tx w n PublisherDatabase
             (\<lambda>env. on_publisher (complete_publish (so_publisher ops) (se_db env) post_id lease message_id)) s of
        (s, Inr _) \<Rightarrow> (s, Inr ())
      | (s, Inl (PublishConflict _)) \<Rightarrow> (s, Inr ())
      | (s, Inl (PublishLeaseLost _)) \<Rightarrow> (s, Inr ())
      | (s, Inl e) \<Rightarrow> fence_posted_message ops tg w (n + 1) post_id lease (et_publisher (to_texts tg) e) s)"

section \<open>The handlers\<close>

definition publication_request_of :: "publish_claim \<Rightarrow> storage_receipt \<Rightarrow> publication_request" where
  "publication_request_of claim receipt =
     \<lparr>pq_target_chat_id = pc_channel_chat_id claim, pq_storage_chat_id = sr_storage_chat_id receipt,
      pq_storage_message_id = sr_storage_message_id receipt, pq_telegram_file_id = sr_telegram_file_id receipt,
      pq_media_kind = sr_media_kind receipt, pq_caption = po_caption (pc_post claim),
      pq_parse_mode = po_parse_mode (pc_post claim), pq_disable_notification = po_disable_notification (pc_post claim)\<rparr>"

text \<open>The send and its outcome, with the second transaction of the handler.\<close>

definition send_publication ::
  "('v, 'tz) store_ops \<Rightarrow> telegram_ops \<Rightarrow> 'v handler_world \<Rightarrow> uuid \<Rightarrow> publish_claim \<Rightarrow> publish_lease \<Rightarrow>
   publication_request \<Rightarrow> 'v store \<Rightarrow> 'v store \<times> bot_log \<times> handler_result" where
  "send_publication ops tg w post_id claim lease request s =
     (case copy_from_storage (to_parses tg) (to_bot tg) request of
        (log, Inr message_id) \<Rightarrow>
          (case commit_publication ops tg w 2 post_id lease message_id s of (s, result) \<Rightarrow> (s, log, result))
      | (log, Inl e) \<Rightarrow>
          if is_copy_unavailable e
          then (if pq_telegram_file_id request = None
                then (case record_publication_failure ops tg w 2 claim lease PostFailed
                             (lit ''storage_file_reference_missing'')
                             (lit ''copyMessage was unavailable and the storage receipt has no file ID'') s of
                        (s, result) \<Rightarrow> (s, log, result))
                else (case send_storage_file (to_parses tg) (to_bot tg) request of
                        (log', Inr message_id) \<Rightarrow>
                          (case commit_publication ops tg w 2 post_id lease message_id s of
                             (s, result) \<Rightarrow> (s, log @ log', result))
                      | (log', Inl e) \<Rightarrow>
                          (case settle_publication_transport_error ops tg w 2 claim lease e s of
                             (s, result) \<Rightarrow> (s, log @ log', result))))
          else (case settle_publication_transport_error ops tg w 2 claim lease e s of
                  (s, result) \<Rightarrow> (s, log, result)))"

text \<open>What follows the claim of a post.\<close>

definition publish_claimed ::
  "('v, 'tz) store_ops \<Rightarrow> telegram_ops \<Rightarrow> 'v handler_world \<Rightarrow> uuid \<Rightarrow> publish_claim \<Rightarrow> job_lease \<Rightarrow> 'v store \<Rightarrow>
   'v store \<times> bot_log \<times> handler_result" where
  "publish_claimed ops tg w post_id claim attempt s =
     (case po_send_token (pc_post claim) of
        None \<Rightarrow> (s, [], Inl (failure_permanent (lit ''invalid_publication_state'')
                          (lit ''publication claim has no send token'')))
      | Some token \<Rightarrow>
          let lease = \<lparr>pl_generation = po_send_generation (pc_post claim), pl_token = token, pl_attempt = attempt\<rparr> in
          (case run_tx w 1 LibraryDatabase (\<lambda>_ s. (s, find_storage_receipt (po_media_id (pc_post claim)) s)) s of
             (s, Inr (Some receipt)) \<Rightarrow>
               send_publication ops tg w post_id claim lease (publication_request_of claim receipt) s
           | (s, Inr None) \<Rightarrow>
               (case record_publication_failure ops tg w 2 claim lease PostFailed (lit ''storage_receipt_missing'')
                       (lit ''media has no ready Telegram storage receipt'') s of (s, result) \<Rightarrow> (s, [], result))
           | (s, Inl LibraryDatabase) \<Rightarrow>
               (case settle_pre_send_retryable_error ops tg w 2 claim lease (lit ''storage_receipt_lookup'')
                       (et_library (to_texts tg) LibraryDatabase) s of (s, result) \<Rightarrow> (s, [], result))
           | (s, Inl e) \<Rightarrow>
               (case record_publication_failure ops tg w 2 claim lease PostFailed (lit ''storage_receipt_invalid'')
                       (et_library (to_texts tg) e) s of (s, result) \<Rightarrow> (s, [], result))))"

definition publish_post ::
  "('v, 'tz) store_ops \<Rightarrow> telegram_ops \<Rightarrow> 'v handler_world \<Rightarrow> job \<Rightarrow> 'v store \<Rightarrow>
   'v store \<times> bot_log \<times> handler_result" where
  "publish_post ops tg w j s =
     (case job_command j of
        PublishPost payload \<Rightarrow>
          let post_id = ppp_post_id payload in
          (case lease_of j of
             None \<Rightarrow> (s, [], Inl (failure_permanent (lit ''invalid_job_state'')
                               (lit ''publish_post handler requires a running job lease'')))
           | Some attempt \<Rightarrow>
               (case run_tx w 0 PublisherDatabase
                       (\<lambda>env. on_publisher (claim_publish (so_publisher ops) (se_db env) post_id
                          (ppp_expected_revision payload) attempt)) s of
                  (s, Inr claim) \<Rightarrow> publish_claimed ops tg w post_id claim attempt s
                | (s, Inl (PostNotClaimable _ Sending)) \<Rightarrow>
                    (case run_tx w 1 PublisherDatabase
                            (\<lambda>env. on_publisher (reconcile_interrupted_publish (so_publisher ops) (se_db env) post_id attempt)) s of
                       (s, Inr _) \<Rightarrow> (s, [], Inr ())
                     | (s, Inl (PublishLeaseLost _)) \<Rightarrow> (s, [], Inr ())
                     | (s, Inl e) \<Rightarrow> (s, [], Inl (map_publisher_error (to_texts tg) e)))
                | (s, Inl (PostNotClaimable _ _)) \<Rightarrow> (s, [], Inr ())
                | (s, Inl (StalePublicationJob _)) \<Rightarrow> (s, [], Inr ())
                | (s, Inl (PublishLeaseLost _)) \<Rightarrow> (s, [], Inr ())
                | (s, Inl e) \<Rightarrow> (s, [], Inl (map_publisher_error (to_texts tg) e))))
      | _ \<Rightarrow> (s, [], Inl (failure_permanent (lit ''invalid_payload'')
                       (lit ''publish_post handler received a different job command''))))"

definition materialize_publication_job ::
  "('v, 'tz) store_ops \<Rightarrow> error_texts \<Rightarrow> 'v handler_world \<Rightarrow> uuid \<Rightarrow> job \<Rightarrow> 'v store \<Rightarrow> 'v store \<times> handler_result" where
  "materialize_publication_job ops texts w post_id j s =
     (case job_command j of
        MaterializePublication payload \<Rightarrow>
          (case run_tx w 0 PublisherDatabase
                  (\<lambda>env. materialize_ingest (so_publisher ops) (se_db env) post_id (mpp_ingest_id payload)) s of
             (s, Inr _) \<Rightarrow> (s, Inr ())
           | (s, Inl e) \<Rightarrow> (s, Inl (map_publisher_error texts e)))
      | _ \<Rightarrow> (s, Inl (failure_permanent (lit ''invalid_payload'')
                   (lit ''materialize_publication handler received a different job command''))))"

end
