(* ===== verification/Telegram_Storage.thy ===== *)
theory Telegram_Storage
  imports Publication_Handler
begin

text \<open>
  The Telegram side of storage (\<open>crates/telegram/src/storage.rs\<close>): the caption of a stored message, the
  calls of the bot and the classification of their errors, the checks of the local file, and the upload with
  its reservation, renewals and cancellation. The bot, the file system and the moments at which a
  cancellation is noticed are arguments; transactions run in a \<open>handler_world\<close>.
\<close>

section \<open>Captions\<close>

definition MAX_STORAGE_CAPTION_CHARS :: nat where
  "MAX_STORAGE_CAPTION_CHARS = 1024"

definition MAX_STORAGE_CAPTION_TAGS :: nat where
  "MAX_STORAGE_CAPTION_TAGS = 32"

definition truncate_chars :: "ustring \<Rightarrow> nat \<Rightarrow> ustring" where
  "truncate_chars value max_chars = take max_chars value"

definition clean_caption_value :: "ustring \<Rightarrow> nat \<Rightarrow> ustring" where
  "clean_caption_value value max_chars =
     trim (truncate_chars (map (\<lambda>c. if is_control c then 32 else c) value) max_chars)"

text \<open>One line of the caption, left out when its value is empty.\<close>

definition caption_line :: "ustring \<Rightarrow> ustring \<Rightarrow> ustring list" where
  "caption_line label value = (if value = [] then [] else [label @ value])"

definition caption_tags :: "ustring list \<Rightarrow> ustring" where
  "caption_tags tags =
     join_with (lit '', '') (filter (\<lambda>tag. tag \<noteq> []) (map (\<lambda>tag. clean_caption_value tag 64) (take MAX_STORAGE_CAPTION_TAGS tags)))"

definition storage_caption :: "storage_caption_metadata \<Rightarrow> ustring" where
  "storage_caption metadata =
     (let description = (case scm_description metadata of
            None \<Rightarrow> [] | Some d \<Rightarrow> caption_line (lit ''description: '') (clean_caption_value d 512));
          tags = (if scm_tags metadata = [] then [] else caption_line (lit ''tags: '') (caption_tags (scm_tags metadata)));
          source_url = (case scm_source_url metadata of
            None \<Rightarrow> [] | Some u \<Rightarrow> caption_line (lit ''source: '') (clean_caption_value u 512));
          caption = join_with [10] (description @ tags @ source_url) in
      if caption = [] then lit ''sooqa'' else truncate_chars caption MAX_STORAGE_CAPTION_CHARS)"

definition hex_digit :: "nat \<Rightarrow> nat" where
  "hex_digit n = lit ''0123456789abcdef'' ! n"

definition hex_encode :: "u8 list \<Rightarrow> ustring" where
  "hex_encode bytes = concat (map (\<lambda>b. [hex_digit (unat (drop_bit 4 b)), hex_digit (unat (and b 0x0f))]) bytes)"

section \<open>The bot\<close>

record storage_upload_request =
  suq_storage_chat_id :: int
  suq_media_kind :: media_kind
  suq_local_work_path :: ustring
  suq_caption :: ustring
  suq_duration :: "nat option"
  suq_width :: "nat option"
  suq_height :: "nat option"
  suq_thumbnail_path :: "ustring option"

record storage_upload_result =
  sul_storage_message_id :: int
  sul_telegram_file_id :: ustring
  sul_telegram_file_unique_id :: ustring

record storage_caption_edit_request =
  sce_storage_chat_id :: int
  sce_storage_message_id :: int
  sce_caption :: ustring

datatype storage_upload_api_error =
    StorageApi request_error
  | StorageMissingFileReference media_kind
  | StorageChatNotPrivateChannel
  | StorageBotNotAdministrator
  | StorageBotCannotPost

datatype storage_caption_api_error =
    CaptionApi request_error
  | CaptionInvalidMessageId int

text \<open>A message that \<open>teloxide\<close> returns, with the file references (identifier and unique identifier) of the
  media it may hold; what is said of a chat and of a member of it.\<close>

record bot_message =
  bm_id :: int
  bm_video :: "(ustring \<times> ustring) option"
  bm_photo :: "(ustring \<times> ustring) list option"
  bm_audio :: "(ustring \<times> ustring) option"
  bm_animation :: "(ustring \<times> ustring) option"

datatype chat_kind = PublicChannel "ustring option" | OtherChat

datatype chat_member_kind = MemberOwner | MemberAdministrator bool | MemberOther

record storage_bot =
  sb_send :: "storage_upload_request \<Rightarrow> request_error + bot_message"
  sb_get_chat :: "int \<Rightarrow> request_error + chat_kind"
  sb_get_me :: "request_error + int"
  sb_get_chat_member :: "int \<Rightarrow> int \<Rightarrow> request_error + chat_member_kind"
  sb_edit_caption :: "storage_caption_edit_request \<Rightarrow> request_error + unit"
  sb_cloud_upload_limit_bytes :: "u64 option"

definition api_error_is_retryable :: "storage_upload_api_error \<Rightarrow> bool" where
  "api_error_is_retryable e =
     (case e of
        StorageApi (UnknownApiError _) \<Rightarrow> True
      | StorageApi (NetworkError _) \<Rightarrow> True
      | StorageApi (InvalidJsonAnswer _) \<Rightarrow> True
      | StorageApi (RequestIoError _) \<Rightarrow> True
      | StorageApi (RetryAfter _) \<Rightarrow> True
      | _ \<Rightarrow> False)"

definition is_ambiguous_upload_error :: "storage_upload_api_error \<Rightarrow> bool" where
  "is_ambiguous_upload_error e =
     (case e of
        StorageApi (UnknownApiError _) \<Rightarrow> True
      | StorageApi (NetworkError _) \<Rightarrow> True
      | StorageApi (InvalidJsonAnswer _) \<Rightarrow> True
      | StorageApi (RequestIoError _) \<Rightarrow> True
      | StorageApi _ \<Rightarrow> False
      | StorageMissingFileReference _ \<Rightarrow> True
      | _ \<Rightarrow> False)"

text \<open>The photo of a message is its last size; the calls for the kinds of media differ in the method only,
  which is left to the bot.\<close>

definition file_reference :: "media_kind \<Rightarrow> bot_message \<Rightarrow> (ustring \<times> ustring) option" where
  "file_reference kind message =
     (case kind of
        MediaVideo \<Rightarrow> bm_video message
      | MediaImage \<Rightarrow> Option.bind (bm_photo message) (\<lambda>photos. if photos = [] then None else Some (last photos))
      | MediaAudio \<Rightarrow> bm_audio message
      | MediaAnimation \<Rightarrow> bm_animation message)"

definition upload_media ::
  "storage_bot \<Rightarrow> storage_upload_request \<Rightarrow> storage_upload_api_error + storage_upload_result" where
  "upload_media tgbot request =
     rbind (map_err StorageApi (sb_send tgbot request)) (\<lambda>message.
     rbind (ok_or (file_reference (suq_media_kind request) message)
              (StorageMissingFileReference (suq_media_kind request))) (\<lambda>(file_id, unique_id).
       Inr \<lparr>sul_storage_message_id = bm_id message, sul_telegram_file_id = file_id,
            sul_telegram_file_unique_id = unique_id\<rparr>))"

definition verify_storage_chat :: "storage_bot \<Rightarrow> int \<Rightarrow> storage_upload_api_error + unit" where
  "verify_storage_chat tgbot chat_id =
     rbind (map_err StorageApi (sb_get_chat tgbot chat_id)) (\<lambda>kind.
       if kind \<noteq> PublicChannel None then Inl StorageChatNotPrivateChannel
       else rbind (map_err StorageApi (sb_get_me tgbot)) (\<lambda>me.
         rbind (map_err StorageApi (sb_get_chat_member tgbot chat_id me)) (\<lambda>member.
           case member of
             MemberOwner \<Rightarrow> Inr ()
           | MemberAdministrator can_post \<Rightarrow> if can_post then Inr () else Inl StorageBotCannotPost
           | MemberOther \<Rightarrow> Inl StorageBotNotAdministrator)))"

definition is_idempotent_caption_edit_error :: "request_error \<Rightarrow> bool" where
  "is_idempotent_caption_edit_error e \<longleftrightarrow> e = MessageNotModified"

definition edit_storage_caption :: "storage_bot \<Rightarrow> storage_caption_edit_request \<Rightarrow> storage_caption_api_error + unit" where
  "edit_storage_caption tgbot request =
     (if \<not> in_i32 (sce_storage_message_id request) then Inl (CaptionInvalidMessageId (sce_storage_message_id request))
      else case sb_edit_caption tgbot request of
        Inr _ \<Rightarrow> Inr ()
      | Inl e \<Rightarrow> if is_idempotent_caption_edit_error e then Inr () else Inl (CaptionApi e))"

definition is_retryable_caption_error :: "storage_caption_api_error \<Rightarrow> bool" where
  "is_retryable_caption_error e =
     (case e of
        CaptionApi (UnknownApiError _) \<Rightarrow> True
      | CaptionApi (NetworkError _) \<Rightarrow> True
      | CaptionApi (InvalidJsonAnswer _) \<Rightarrow> True
      | CaptionApi (RequestIoError _) \<Rightarrow> True
      | CaptionApi (RetryAfter _) \<Rightarrow> True
      | _ \<Rightarrow> False)"

section \<open>Errors of an upload\<close>

datatype storage_upload_error =
    SuInvalidStorageChatId
  | SuMediaMissing uuid
  | SuMediaMissingSha256 uuid
  | SuWorkspaceReclaimed uuid
  | SuInvalidSha256Length nat
  | SuLocalFileUnavailable ustring
  | SuLocalFileOutsideWorkRoot ustring "ustring list"
  | SuStorageOutputLimitExceeded u64 u64
  | SuTelegramUploadLimitExceeded u64 u64
  | SuHash ustring
  | SuHashMismatch ustring ustring
  | SuInvalidVideoMetadata ustring
  | SuInvalidVideoThumbnail ustring
  | SuThumbnailStaging ustring ustring
  | SuInProgress "timestamp option"
  | SuReconciliationRequired uuid
  | SuStaleGeneration int int
  | SuCancelledBeforeDispatch
  | SuCancelledAfterDispatch
  | SuPersistence library_repository_error
  | SuApi storage_upload_api_error
  | SuAmbiguousApi storage_upload_api_error
  | SuAmbiguousPersistence library_repository_error

definition upload_is_retryable :: "storage_upload_error \<Rightarrow> bool" where
  "upload_is_retryable e =
     (case e of
        SuInProgress _ \<Rightarrow> True
      | SuPersistence _ \<Rightarrow> True
      | SuApi source \<Rightarrow> api_error_is_retryable source
      | SuCancelledBeforeDispatch \<Rightarrow> True
      | _ \<Rightarrow> False)"

definition is_terminal_configuration :: "storage_upload_error \<Rightarrow> bool" where
  "is_terminal_configuration e = (case e of SuApi source \<Rightarrow> \<not> api_error_is_retryable source | _ \<Rightarrow> False)"

definition upload_is_ambiguous :: "storage_upload_error \<Rightarrow> bool" where
  "upload_is_ambiguous e =
     (case e of
        SuAmbiguousApi _ \<Rightarrow> True
      | SuAmbiguousPersistence _ \<Rightarrow> True
      | SuCancelledAfterDispatch \<Rightarrow> True
      | _ \<Rightarrow> False)"

section \<open>The local file\<close>

text \<open>What the upload asks of the file system: whether a path is a regular file and whether it is a symlink,
  the components of its canonical form, its length, the hexadecimal digest of its contents, its parent, the
  path of a new thumbnail in a directory, and whether such a file could be created and written.\<close>

record file_world =
  fw_symlink_metadata :: "ustring \<Rightarrow> (bool \<times> bool) option"
  fw_canonicalize :: "ustring \<Rightarrow> ustring list option"
  fw_length :: "ustring \<Rightarrow> u64 option"
  fw_sha256 :: "ustring \<Rightarrow> ustring + ustring"
  fw_parent :: "ustring \<Rightarrow> ustring option"
  fw_thumbnail :: "ustring \<Rightarrow> ustring"
  fw_create_new :: "ustring \<Rightarrow> ustring + unit"
  fw_write :: "ustring \<Rightarrow> u8 list \<Rightarrow> ustring + unit"

record storage_upload_provider =
  sp_bot :: storage_bot
  sp_storage_chat_id :: int
  sp_max_storage_bytes :: "u64 option"
  sp_work_root :: "ustring option"

definition provider_new :: "storage_bot \<Rightarrow> int \<Rightarrow> storage_upload_error + storage_upload_provider" where
  "provider_new tgbot storage_chat_id =
     (if storage_chat_id \<ge> 0 then Inl SuInvalidStorageChatId
      else Inr \<lparr>sp_bot = tgbot, sp_storage_chat_id = storage_chat_id, sp_max_storage_bytes = None, sp_work_root = None\<rparr>)"

definition with_max_storage_bytes :: "u64 \<Rightarrow> storage_upload_provider \<Rightarrow> storage_upload_provider" where
  "with_max_storage_bytes max_bytes p = p\<lparr>sp_max_storage_bytes := Some max_bytes\<rparr>"

definition with_work_root :: "ustring \<Rightarrow> storage_upload_provider \<Rightarrow> storage_upload_provider" where
  "with_work_root work_root p = p\<lparr>sp_work_root := Some work_root\<rparr>"

definition provider_verify_storage_chat :: "storage_upload_provider \<Rightarrow> storage_upload_error + unit" where
  "provider_verify_storage_chat p = map_err SuApi (verify_storage_chat (sp_bot p) (sp_storage_chat_id p))"

text \<open>The recorded digest and path of the media item.\<close>

definition upload_source :: "uuid \<Rightarrow> media \<Rightarrow> storage_upload_error + u8 list \<times> ustring" where
  "upload_source media_id media =
     rbind (ok_or (me_sha256 media) (SuMediaMissingSha256 media_id)) (\<lambda>sha256.
       if length sha256 \<noteq> 32 then Inl (SuInvalidSha256Length (length sha256))
       else map_ok (\<lambda>path. (sha256, path)) (ok_or (me_local_work_path media) (SuWorkspaceReclaimed media_id)))"

definition check_work_root :: "file_world \<Rightarrow> ustring option \<Rightarrow> ustring \<Rightarrow> storage_upload_error + unit" where
  "check_work_root fw work_root path =
     (case work_root of
        None \<Rightarrow> Inr ()
      | Some root \<Rightarrow>
          rbind (ok_or (fw_canonicalize fw root) (SuLocalFileUnavailable root)) (\<lambda>canonical_root.
          rbind (ok_or (fw_canonicalize fw path) (SuLocalFileUnavailable path)) (\<lambda>canonical_file.
            if take (length canonical_root) canonical_file = canonical_root then Inr ()
            else Inl (SuLocalFileOutsideWorkRoot path canonical_root))))"

definition exceeds :: "u64 \<Rightarrow> u64 option \<Rightarrow> bool" where
  "exceeds bytes limit = (case limit of None \<Rightarrow> False | Some limit \<Rightarrow> limit < bytes)"

definition check_local_file ::
  "file_world \<Rightarrow> storage_upload_provider \<Rightarrow> u8 list \<Rightarrow> ustring \<Rightarrow> storage_upload_error + unit" where
  "check_local_file fw p expected_sha256_bytes path =
     (case fw_symlink_metadata fw path of
        None \<Rightarrow> Inl (SuLocalFileUnavailable path)
      | Some (is_file, is_symlink) \<Rightarrow>
          if \<not> is_file \<or> is_symlink then Inl (SuLocalFileUnavailable path)
          else rbind (check_work_root fw (sp_work_root p) path) (\<lambda>_.
          rbind (ok_or (fw_length fw path) (SuLocalFileUnavailable path)) (\<lambda>size.
            if exceeds size (sp_max_storage_bytes p)
            then Inl (SuStorageOutputLimitExceeded size (the (sp_max_storage_bytes p)))
            else if exceeds size (sb_cloud_upload_limit_bytes (sp_bot p))
            then Inl (SuTelegramUploadLimitExceeded size (the (sb_cloud_upload_limit_bytes (sp_bot p))))
            else rbind (map_err SuHash (fw_sha256 fw path)) (\<lambda>digest.
              if digest \<noteq> hex_encode expected_sha256_bytes
              then Inl (SuHashMismatch (hex_encode expected_sha256_bytes) digest) else Inr ()))))"

definition checked_video_dimension :: "int option \<Rightarrow> ustring \<Rightarrow> storage_upload_error + nat option" where
  "checked_video_dimension value field =
     (case value of
        None \<Rightarrow> Inr None
      | Some v \<Rightarrow> if 0 < v then Inr (Some (nat v)) else Inl (SuInvalidVideoMetadata field))"

text \<open>\<open>u32::try_from(duration_ms.div_ceil(1_000))\<close>.\<close>

definition video_duration :: "u64 option \<Rightarrow> storage_upload_error + nat" where
  "video_duration duration_ms =
     (case duration_ms of
        None \<Rightarrow> Inl (SuInvalidVideoMetadata (lit ''duration_ms''))
      | Some ms \<Rightarrow>
          let seconds = (unat ms + 999) div 1000 in
          if ms = 0 \<or> \<not> seconds < 2 ^ 32 then Inl (SuInvalidVideoMetadata (lit ''duration_ms'')) else Inr seconds)"

definition video_metadata :: "media \<Rightarrow> storage_upload_error + nat \<times> nat \<times> nat" where
  "video_metadata media =
     rbind (video_duration (me_duration_ms media)) (\<lambda>duration.
     rbind (rbind (checked_video_dimension (me_width media) (lit ''width''))
              (\<lambda>width. ok_or width (SuInvalidVideoMetadata (lit ''width'')))) (\<lambda>width.
     rbind (rbind (checked_video_dimension (me_height media) (lit ''height''))
              (\<lambda>height. ok_or height (SuInvalidVideoMetadata (lit ''height'')))) (\<lambda>height.
       Inr (duration, width, height))))"

text \<open>\<open>validate_bounded_preview_for_mime\<close> is the same function of \<open>crates/media\<close> that the store uses.\<close>

definition stage_video_thumbnail ::
  "('v, 'tz) store_ops \<Rightarrow> file_world \<Rightarrow> ustring \<Rightarrow> media_preview_data \<Rightarrow> storage_upload_error + ustring" where
  "stage_video_thumbnail ops fw canonical_path preview =
     (let md = mpd_metadata preview in
      if mp_mime_type md \<noteq> lit ''image/jpeg''
      then Inl (SuInvalidVideoThumbnail (lit ''Telegram video thumbnails must be JPEG''))
      else case so_preview_size ops (mpd_bytes preview) (lit ''image/jpeg'') of
        Inl _ \<Rightarrow> Inl (SuInvalidVideoThumbnail (lit ''thumbnail bytes must be a bounded JPEG''))
      | Inr (width, height) \<Rightarrow>
          if unat (mp_width md) \<noteq> width \<or> unat (mp_height md) \<noteq> height
          then Inl (SuInvalidVideoThumbnail (lit ''thumbnail dimensions do not match encoded JPEG''))
          else if length (mp_sha256 md) \<noteq> 32
          then Inl (SuInvalidVideoThumbnail (lit ''thumbnail SHA-256 must contain 32 bytes''))
          else rbind (ok_or (fw_parent fw canonical_path)
                        (SuInvalidVideoThumbnail (lit ''canonical media path has no workspace parent''))) (\<lambda>parent.
            let path = fw_thumbnail fw parent in
            rbind (map_err (SuThumbnailStaging path) (fw_create_new fw path)) (\<lambda>_.
            rbind (map_err (SuThumbnailStaging path) (fw_write fw path (mpd_bytes preview))) (\<lambda>_.
            rbind (map_err SuHash (fw_sha256 fw path)) (\<lambda>digest.
              if digest \<noteq> hex_encode (mp_sha256 md)
              then Inl (SuInvalidVideoThumbnail (lit ''thumbnail SHA-256 does not match encoded JPEG''))
              else Inr path)))))"

section \<open>The upload\<close>

text \<open>
  The transactions of an upload, by their index in the \<open>handler_world\<close>: 0 to 3 the lookups and the
  reservation, 4 the first transaction that ends the upload (a release or the completion), 5 the mark of an
  unknown outcome, 7 and on the renewals. The duration of the lease is in nanoseconds.
\<close>

definition STORAGE_UPLOAD_LEASE_DURATION :: nat where
  "STORAGE_UPLOAD_LEASE_DURATION = 600 * 1000000000"

definition settle_unknown ::
  "('v, 'tz) store_ops \<Rightarrow> 'v handler_world \<Rightarrow> uuid \<Rightarrow> uuid \<Rightarrow> storage_upload_error \<Rightarrow> 'v store \<Rightarrow>
   'v store \<times> storage_upload_error" where
  "settle_unknown ops w media_id owner_token e s =
     (case run_tx w 5 LibraryDatabase (\<lambda>env. mark_owned_upload_unknown ops env media_id owner_token) s of
        (s, Inl mark_error) \<Rightarrow> (s, SuAmbiguousPersistence mark_error)
      | (s, Inr _) \<Rightarrow> (s, e))"

definition settle_released ::
  "'v handler_world \<Rightarrow> uuid \<Rightarrow> uuid \<Rightarrow> storage_upload_error \<Rightarrow> 'v store \<Rightarrow> 'v store \<times> storage_upload_error" where
  "settle_released w media_id owner_token e s =
     (case run_tx w 4 LibraryDatabase (\<lambda>env. release_storage_upload env media_id owner_token) s of
        (s, Inl release_error) \<Rightarrow> (s, SuPersistence release_error)
      | (s, Inr _) \<Rightarrow> (s, e))"

text \<open>
  What the branches of the two \<open>select!\<close>s see. In the first, ticks of the renewal come until the upload
  returns or the cancellation wins; the flags say whether the future of the upload was polled by then, which
  is when it sends. In the second, the cancellation wins over the completion, whose transaction has by then
  either run or not.
\<close>

datatype upload_race = UploadReturned | UploadCancelled bool | RenewalDue bool upload_race

datatype completion_race = CompletionEnded | CompletionCancelled bool

record upload_events =
  ue_cancelled_before :: bool
  ue_race :: upload_race
  ue_cancelled_after :: bool
  ue_completion :: completion_race

text \<open>The loop of the upload: whether the request was sent, and \<open>Inr\<close> when its answer came.\<close>

primrec upload_loop ::
  "('v, 'tz) store_ops \<Rightarrow> 'v handler_world \<Rightarrow> uuid \<Rightarrow> uuid \<Rightarrow> nat \<Rightarrow> upload_race \<Rightarrow> 'v store \<Rightarrow>
   'v store \<times> bool \<times> (storage_upload_error + unit)" where
  "upload_loop ops w media_id owner_token n UploadReturned s = (s, True, Inr ())"
| "upload_loop ops w media_id owner_token n (UploadCancelled dispatched) s =
     (if dispatched
      then (case settle_unknown ops w media_id owner_token SuCancelledAfterDispatch s of (s, e) \<Rightarrow> (s, True, Inl e))
      else (case settle_released w media_id owner_token SuCancelledBeforeDispatch s of (s, e) \<Rightarrow> (s, False, Inl e)))"
| "upload_loop ops w media_id owner_token n (RenewalDue dispatched race) s =
     (case run_tx w n LibraryDatabase
             (\<lambda>env. renew_storage_upload env media_id owner_token STORAGE_UPLOAD_LEASE_DURATION) s of
        (s, Inl e) \<Rightarrow>
          (case settle_unknown ops w media_id owner_token (SuAmbiguousPersistence e) s of
             (s, e) \<Rightarrow> (s, dispatched, Inl e))
      | (s, Inr _) \<Rightarrow> upload_loop ops w media_id owner_token (n + 1) race s)"

datatype storage_upload_outcome = OutcomeUploaded storage_receipt | OutcomeReused storage_receipt

text \<open>What was sent: the request, with the answer if the upload waited for it.\<close>

type_synonym upload_call = "storage_upload_request \<times> (storage_upload_api_error + storage_upload_result) option"

definition upload_attachment ::
  "storage_upload_provider \<Rightarrow> storage_upload_result \<Rightarrow> storage_caption_metadata \<Rightarrow> storage_upload_attachment" where
  "upload_attachment p uploaded caption_metadata =
     \<lparr>sua_storage_chat_id = sp_storage_chat_id p, sua_storage_message_id = sul_storage_message_id uploaded,
      sua_telegram_file_id = Some (sul_telegram_file_id uploaded),
      sua_telegram_file_unique_id = Some (sul_telegram_file_unique_id uploaded),
      sua_caption_metadata = Some caption_metadata\<rparr>"

definition record_upload ::
  "('v, 'tz) store_ops \<Rightarrow> 'v handler_world \<Rightarrow> upload_events \<Rightarrow> uuid \<Rightarrow> uuid \<Rightarrow> uuid \<Rightarrow> storage_upload_attachment \<Rightarrow>
   'v store \<Rightarrow> 'v store \<times> (storage_upload_error + storage_upload_outcome)" where
  "record_upload ops w ev input_id media_id owner_token attachment s =
     (let complete = run_tx w 4 LibraryDatabase
            (\<lambda>env. complete_storage_upload ops env input_id owner_token attachment);
          unknown = (\<lambda>e s. case settle_unknown ops w media_id owner_token e s of (s, e) \<Rightarrow> (s, Inl e)) in
      if ue_cancelled_after ev then unknown SuCancelledAfterDispatch s
      else case ue_completion ev of
        CompletionCancelled applied \<Rightarrow> unknown SuCancelledAfterDispatch (if applied then fst (complete s) else s)
      | CompletionEnded \<Rightarrow>
          (case complete s of
             (s, Inr receipt) \<Rightarrow> (s, Inr (OutcomeUploaded receipt))
           | (s, Inl e) \<Rightarrow> unknown (SuAmbiguousPersistence e) s))"

text \<open>From the reservation on.\<close>

definition dispatch_upload ::
  "('v, 'tz) store_ops \<Rightarrow> 'v handler_world \<Rightarrow> storage_upload_provider \<Rightarrow> upload_events \<Rightarrow> uuid \<Rightarrow> uuid \<Rightarrow> uuid \<Rightarrow>
   storage_caption_metadata \<Rightarrow> storage_upload_request \<Rightarrow> 'v store \<Rightarrow>
   'v store \<times> upload_call option \<times> (storage_upload_error + storage_upload_outcome)" where
  "dispatch_upload ops w p ev input_id media_id owner_token caption_metadata request s =
     (if ue_cancelled_before ev
      then (case settle_released w media_id owner_token SuCancelledBeforeDispatch s of (s, e) \<Rightarrow> (s, None, Inl e))
      else case upload_loop ops w media_id owner_token 7 (ue_race ev) s of
        (s, dispatched, Inl e) \<Rightarrow> (s, if dispatched then Some (request, None) else None, Inl e)
      | (s, _, Inr _) \<Rightarrow>
          let answer = upload_media (sp_bot p) request; call = Some (request, Some answer) in
          (case answer of
             Inl e \<Rightarrow>
               if is_ambiguous_upload_error e
               then (case settle_unknown ops w media_id owner_token (SuAmbiguousApi e) s of (s, e) \<Rightarrow> (s, call, Inl e))
               else (case settle_released w media_id owner_token (SuApi e) s of (s, e) \<Rightarrow> (s, call, Inl e))
           | Inr uploaded \<Rightarrow>
               (case record_upload ops w ev input_id media_id owner_token
                       (upload_attachment p uploaded caption_metadata) s of (s, result) \<Rightarrow> (s, call, result))))"

text \<open>The metadata and the preview of a video; other media have neither.\<close>

definition upload_video_details ::
  "('v, 'tz) store_ops \<Rightarrow> 'v handler_world \<Rightarrow> uuid \<Rightarrow> media \<Rightarrow> 'v store \<Rightarrow>
   'v store \<times> (storage_upload_error + (nat \<times> nat \<times> nat) option \<times> media_preview_data option)" where
  "upload_video_details ops w media_id media s =
     (if me_kind media \<noteq> MediaVideo then (s, Inr (None, None))
      else case video_metadata media of
        Inl e \<Rightarrow> (s, Inl e)
      | Inr md \<Rightarrow>
          (case run_tx w 2 LibraryDatabase (\<lambda>_ s. (s, find_media_preview ops media_id s)) s of
             (s, Inl e) \<Rightarrow> (s, Inl (SuPersistence e))
           | (s, Inr preview) \<Rightarrow> (s, Inr (Some md, preview))))"

definition upload_request ::
  "storage_upload_provider \<Rightarrow> media \<Rightarrow> ustring \<Rightarrow> storage_caption_metadata \<Rightarrow> (nat \<times> nat \<times> nat) option \<Rightarrow>
   ustring option \<Rightarrow> storage_upload_request" where
  "upload_request p media path caption_metadata md thumbnail_path =
     \<lparr>suq_storage_chat_id = sp_storage_chat_id p, suq_media_kind = me_kind media, suq_local_work_path = path,
      suq_caption = storage_caption caption_metadata, suq_duration = map_option fst md,
      suq_width = map_option (fst \<circ> snd) md, suq_height = map_option (snd \<circ> snd) md,
      suq_thumbnail_path = thumbnail_path\<rparr>"

text \<open>After a reservation: the thumbnail is staged next to the file, or the reservation is released, with
  the outcome of the release ignored.\<close>

definition upload_reserved ::
  "('v, 'tz) store_ops \<Rightarrow> file_world \<Rightarrow> 'v handler_world \<Rightarrow> storage_upload_provider \<Rightarrow> upload_events \<Rightarrow> uuid \<Rightarrow>
   media \<Rightarrow> ustring \<Rightarrow> (nat \<times> nat \<times> nat) option \<Rightarrow> media_preview_data option \<Rightarrow> uuid \<Rightarrow> uuid \<Rightarrow> storage_caption_metadata \<Rightarrow>
   'v store \<Rightarrow> 'v store \<times> upload_call option \<times> (storage_upload_error + storage_upload_outcome)" where
  "upload_reserved ops fw w p ev input_id media path md thumbnail media_id owner_token caption_metadata s =
     (case (case thumbnail of
              None \<Rightarrow> Inr None
            | Some preview \<Rightarrow> map_ok Some (stage_video_thumbnail ops fw path preview)) of
        Inl e \<Rightarrow>
          (fst (run_tx w 4 LibraryDatabase (\<lambda>env. release_storage_upload env media_id owner_token) s), None, Inl e)
      | Inr thumbnail_path \<Rightarrow>
          dispatch_upload ops w p ev input_id media_id owner_token caption_metadata
            (upload_request p media path caption_metadata md thumbnail_path) s)"

definition reserve_and_upload ::
  "('v, 'tz) store_ops \<Rightarrow> file_world \<Rightarrow> 'v handler_world \<Rightarrow> storage_upload_provider \<Rightarrow> upload_events \<Rightarrow> uuid \<Rightarrow> int \<Rightarrow>
   media \<Rightarrow> ustring \<Rightarrow> (nat \<times> nat \<times> nat) option \<Rightarrow> media_preview_data option \<Rightarrow>
   'v store \<Rightarrow> 'v store \<times> upload_call option \<times> (storage_upload_error + storage_upload_outcome)" where
  "reserve_and_upload ops fw w p ev input_id generation media path md thumbnail s =
     (case run_tx w 3 LibraryDatabase
             (\<lambda>env. reserve_storage_upload env \<lparr>sur_media_id = input_id, sur_generation = generation\<rparr>) s of
        (s, Inl e) \<Rightarrow> (s, None, Inl (SuPersistence e))
      | (s, Inr (Reserved media_id owner_token caption_metadata)) \<Rightarrow>
          upload_reserved ops fw w p ev input_id media path md thumbnail media_id owner_token caption_metadata s
      | (s, Inr (Reused receipt)) \<Rightarrow> (s, None, Inr (OutcomeReused receipt))
      | (s, Inr (InProgress retry_at)) \<Rightarrow> (s, None, Inl (SuInProgress retry_at))
      | (s, Inr ReconciliationRequired) \<Rightarrow> (s, None, Inl (SuReconciliationRequired input_id))
      | (s, Inr (StaleGeneration current)) \<Rightarrow> (s, None, Inl (SuStaleGeneration generation current)))"

definition upload_media_item ::
  "('v, 'tz) store_ops \<Rightarrow> file_world \<Rightarrow> 'v handler_world \<Rightarrow> storage_upload_provider \<Rightarrow> upload_events \<Rightarrow> uuid \<Rightarrow> int \<Rightarrow>
   media \<Rightarrow> 'v store \<Rightarrow> 'v store \<times> upload_call option \<times> (storage_upload_error + storage_upload_outcome)" where
  "upload_media_item ops fw w p ev input_id generation media s =
     (case rbind (upload_source input_id media) (\<lambda>(sha256, path).
             map_ok (\<lambda>_. path) (check_local_file fw p sha256 path)) of
        Inl e \<Rightarrow> (s, None, Inl e)
      | Inr path \<Rightarrow>
          (case upload_video_details ops w input_id media s of
             (s, Inl e) \<Rightarrow> (s, None, Inl e)
           | (s, Inr (md, thumbnail)) \<Rightarrow>
               reserve_and_upload ops fw w p ev input_id generation media path md thumbnail s))"

definition upload_with_cancellation ::
  "('v, 'tz) store_ops \<Rightarrow> file_world \<Rightarrow> 'v handler_world \<Rightarrow> storage_upload_provider \<Rightarrow> upload_events \<Rightarrow> uuid \<Rightarrow> int \<Rightarrow>
   'v store \<Rightarrow> 'v store \<times> upload_call option \<times> (storage_upload_error + storage_upload_outcome)" where
  "upload_with_cancellation ops fw w p ev input_id generation s =
     (case run_tx w 0 LibraryDatabase (\<lambda>_ s. (s, find_media ops input_id s)) s of
        (s, Inl e) \<Rightarrow> (s, None, Inl (SuPersistence e))
      | (s, Inr None) \<Rightarrow> (s, None, Inl (SuMediaMissing input_id))
      | (s, Inr (Some media)) \<Rightarrow>
          (case run_tx w 1 LibraryDatabase (\<lambda>_ s. (s, find_storage_receipt input_id s)) s of
             (s, Inl e) \<Rightarrow> (s, None, Inl (SuPersistence e))
           | (s, Inr (Some receipt)) \<Rightarrow> (s, None, Inr (OutcomeReused receipt))
           | (s, Inr None) \<Rightarrow> upload_media_item ops fw w p ev input_id generation media s))"

end
