(* ===== verification/Storage_Handler.thy ===== *)
theory Storage_Handler
  imports Telegram_Storage
begin

text \<open>
  The storage jobs of the worker (\<open>apps/worker/src/storage.rs\<close>): uploading a media item and editing the
  caption of a stored message; and what the runner's settlement of an upload leaves behind.
\<close>

section \<open>The handlers\<close>

text \<open>The texts of the errors the handlers report.\<close>

record storage_texts =
  sx_texts :: error_texts
  sx_upload :: "storage_upload_error \<Rightarrow> ustring"
  sx_caption :: "storage_caption_api_error \<Rightarrow> ustring"

datatype preflight_status = PreflightReady | PreflightTerminallyMisconfigured | PreflightDegraded

text \<open>What \<open>spawn_storage_preflight\<close> logs.\<close>

definition storage_preflight :: "storage_upload_provider \<Rightarrow> preflight_status" where
  "storage_preflight p =
     (case provider_verify_storage_chat p of
        Inr _ \<Rightarrow> PreflightReady
      | Inl e \<Rightarrow> if is_terminal_configuration e then PreflightTerminallyMisconfigured else PreflightDegraded)"

definition sync_storage_caption ::
  "('v, 'tz) store_ops \<Rightarrow> storage_texts \<Rightarrow> 'v handler_world \<Rightarrow> storage_bot \<Rightarrow> job \<Rightarrow> 'v store \<Rightarrow>
   'v store \<times> storage_caption_edit_request option \<times> handler_result" where
  "sync_storage_caption ops texts w tgbot j s =
     (case job_command j of
        SyncStorageCaption payload \<Rightarrow>
          let media_id = mjp_media_id payload; generation = mjp_generation payload in
          (case lease_of j of
             None \<Rightarrow> (s, None, Inl (failure_permanent (lit ''invalid_job_state'')
                               (lit ''sync_storage_caption handler requires a running job lease'')))
           | Some attempt \<Rightarrow>
               (case run_tx w 0 LibraryDatabase
                       (\<lambda>env. begin_caption_sync env media_id generation (jl_lease_token attempt)) s of
                  (s, Inl e) \<Rightarrow> (s, None, Inl (map_library_error (sx_texts texts) e))
                | (s, Inr None) \<Rightarrow> (s, None, Inr ())
                | (s, Inr (Some claim)) \<Rightarrow>
                    let request = \<lparr>sce_storage_chat_id = csc_storage_chat_id claim,
                                   sce_storage_message_id = csc_storage_message_id claim,
                                   sce_caption = storage_caption (csc_metadata claim)\<rparr>;
                        answer = edit_storage_caption tgbot request;
                        retryable = (case answer of Inr _ \<Rightarrow> False
                                     | Inl e \<Rightarrow> is_retryable_caption_error e \<and> job_attempt_count j < job_max_attempts j);
                        message = (case answer of Inr _ \<Rightarrow> None | Inl e \<Rightarrow> Some (sx_caption texts e)) in
                    (case run_tx w 1 LibraryDatabase
                            (\<lambda>env. complete_caption_sync ops env media_id generation (jl_lease_token attempt)
                               (message = None) retryable message) s of
                       (s, Inl e) \<Rightarrow> (s, Some request, Inl (map_library_error (sx_texts texts) e))
                     | (s, Inr _) \<Rightarrow>
                         (s, Some request,
                          case message of
                            None \<Rightarrow> Inr ()
                          | Some message \<Rightarrow>
                              Inl (if retryable then failure_retryable (lit ''caption_sync'') message
                                   else failure_permanent (lit ''caption_sync'') message)))))
      | _ \<Rightarrow> (s, None, Inl (failure_permanent (lit ''invalid_payload'')
                       (lit ''sync_storage_caption handler received a different job command''))))"

text \<open>How an error of the upload is reported.\<close>

definition report_upload_error ::
  "('v, 'tz) inbox_ops \<Rightarrow> storage_texts \<Rightarrow> 'v handler_world \<Rightarrow> job \<Rightarrow> uuid \<Rightarrow> storage_upload_error \<Rightarrow> 'v store \<Rightarrow>
   'v store \<times> handler_result" where
  "report_upload_error ops texts w j media_id e s =
     (let message = sx_upload texts e;
          failed = (let terminal = (\<not> upload_is_retryable e \<or> job_attempt_count j \<ge> job_max_attempts j) in
            case run_tx w 6 InboxDatabase
                   (\<lambda>env. fail_storage_for_media ops env media_id
                      (if terminal then FailedTerminal else FailedRetryable) (lit ''storage_upload'') message) s of
              (s, Inl e) \<Rightarrow> (s, Inl (map_inbox_error (sx_texts texts) e))
            | (s, Inr _) \<Rightarrow>
                (s, Inl (if terminal then failure_permanent (lit ''storage_upload'') message
                         else failure_retryable (lit ''storage_upload'') message))) in
      case e of
        SuStaleGeneration _ _ \<Rightarrow> (s, Inr ())
      | SuCancelledBeforeDispatch \<Rightarrow> (s, Inl (failure_retryable_free (lit ''storage_upload_cancelled'') message))
      | SuAmbiguousPersistence _ \<Rightarrow> (s, Inl (storage_reconciliation_required message))
      | SuAmbiguousApi _ \<Rightarrow> (s, Inl (failure_permanent (lit ''storage_upload_unknown'') message))
      | SuCancelledAfterDispatch \<Rightarrow> (s, Inl (failure_permanent (lit ''storage_upload_unknown'') message))
      | SuInProgress (Some retry_at) \<Rightarrow>
          if job_attempt_count j < job_max_attempts j
          then (s, Inl (failure_defer (lit ''storage_upload_in_progress'') message retry_at)) else failed
      | _ \<Rightarrow> failed)"

definition upload_storage_asset ::
  "('v, 'tz) inbox_ops \<Rightarrow> storage_texts \<Rightarrow> file_world \<Rightarrow> 'v handler_world \<Rightarrow> storage_upload_provider \<Rightarrow> upload_events \<Rightarrow>
   job \<Rightarrow> 'v store \<Rightarrow> 'v store \<times> upload_call option \<times> handler_result" where
  "upload_storage_asset ops texts fw w p ev j s =
     (case job_command j of
        UploadStorageAsset payload \<Rightarrow>
          let media_id = mjp_media_id payload in
          (case upload_with_cancellation (io_store ops) fw w p ev media_id (mjp_generation payload) s of
             (s, call, Inr _) \<Rightarrow>
               (case run_tx w 6 InboxDatabase (\<lambda>env. complete_storage_for_media ops env media_id) s of
                  (s, Inl e) \<Rightarrow> (s, call, Inl (map_inbox_error (sx_texts texts) e))
                | (s, Inr _) \<Rightarrow> (s, call, Inr ()))
           | (s, call, Inl e) \<Rightarrow>
               (case report_upload_error ops texts w j media_id e s of (s, result) \<Rightarrow> (s, call, result)))
      | _ \<Rightarrow> (s, None, Inl (failure_permanent (lit ''invalid_payload'')
                       (lit ''upload_storage_asset handler received a different job command''))))"

end
