(* ===== verification/Publication_Delivery.thy ===== *)
theory Publication_Delivery
  imports Publication_Handler
begin

text \<open>
  A message that may have reached the channel is not sent again: what the publication handler leaves
  behind, whatever Telegram answers, whatever other processes do to the queue meanwhile, and wherever
  the database fails.
\<close>

section \<open>Posts that cannot be claimed\<close>

text \<open>A post that is being sent, was published, or whose send has an unknown outcome.\<close>

definition send_decided :: "'v post_row \<Rightarrow> bool" where
  "send_decided p \<longleftrightarrow> pw_state p \<in> {lit ''sending'', lit ''published'', lit ''unknown''}"

definition db_unclaimable :: "uuid \<Rightarrow> 'v publisher_db \<Rightarrow> bool" where
  "db_unclaimable i db \<longleftrightarrow> (\<forall>p\<in>set (db_posts db). pw_id p = i \<longrightarrow> send_decided p)"

definition unclaimable :: "uuid \<Rightarrow> 'v store \<Rightarrow> bool" where
  "unclaimable i s \<longleftrightarrow> db_unclaimable i (publisher_view s)"

lemma db_posts_publisher_view [simp]: "db_posts (publisher_view s) = st_posts s"
  by (simp add: publisher_view_def)

lemma st_posts_with_publisher [simp]: "st_posts (with_publisher s db) = db_posts db"
  by (simp add: with_publisher_def)

lemma on_publisher_unclaimable:
  assumes "\<And>db. db_unclaimable i db \<Longrightarrow> db_unclaimable i (fst (f db))" and "unclaimable i s"
  shows "unclaimable i (fst (on_publisher f s))"
  using assms(1) [of "publisher_view s"] assms(2)
  by (simp add: on_publisher_def unclaimable_def db_unclaimable_def split: prod.splits)

lemma commit_unclaimable:
  assumes "tx_ensures (\<lambda>db' _. db_unclaimable i db') tx" and "db_unclaimable i db"
  shows "db_unclaimable i (fst (commit db tx decode))"
  using assms by (simp add: commit_def tx_ensures_def split: sum.splits prod.splits)

lemma update_posts_unclaimable:
  assumes "db_unclaimable i db" and "update_posts P f db = Inr (db', rows)"
    and "\<And>p. pw_id (f p) = pw_id p \<and> send_decided (f p)"
  shows "db_unclaimable i db'"
proof -
  have "db' = db\<lparr>db_posts := update_where P f (db_posts db)\<rparr>"
    using assms(2) by (simp add: update_posts_def Let_def split: if_splits)
  with assms(1,3) show ?thesis by (auto simp: db_unclaimable_def set_update_where)
qed

lemma update_post_row_ensures:
  assumes "db_unclaimable i db" and "\<And>p. pw_id (f p) = pw_id p \<and> send_decided (f p)"
  shows "tx_ensures (\<lambda>db' _. db_unclaimable i db') (update_post_row P f e db)"
  using update_posts_unclaimable [OF assms(1) _ assms(2)]
  by (auto simp: update_post_row_def tx_ensures_def result_simps split: sum.split)

lemma map_ok_ensures:
  "tx_ensures (\<lambda>db' _. Q db') tx \<Longrightarrow> tx_ensures (\<lambda>db' _. Q db') (map_ok (\<lambda>(db, r). (db, g r)) tx)"
  by (cases tx) (auto simp: tx_ensures_def)

lemma complete_publish_unclaimable:
  assumes "db_unclaimable i db"
  shows "db_unclaimable i (fst (complete_publish ops env k lease message_id db))"
proof -
  have row: "pw_id (published_row env message_id p) = pw_id p \<and> send_decided (published_row env message_id p)" for p :: "'a post_row"
    by (simp add: published_row_def send_decided_def)
  have "tx_ensures (\<lambda>db' _. db_unclaimable i db') (complete_publish_tx ops env k lease message_id db)"
    unfolding complete_publish_tx_def
    by (intro tx_rbind_prod tx_rules map_ok_ensures update_post_row_ensures assms row)
  then show ?thesis unfolding complete_publish_def using assms by (rule commit_unclaimable)
qed

lemma fail_unknown_unclaimable:
  assumes "db_unclaimable i db"
  shows "db_unclaimable i (fst (fail_publish ops env k lease PostUnknown class message db))"
proof -
  have row: "pw_id (send_ended_next env (post_state_as_str PostUnknown) class message p) = pw_id p \<and>
      send_decided (send_ended_next env (post_state_as_str PostUnknown) class message p)" for p :: "'a post_row"
    by (simp add: send_ended_next_def send_ended_row_def send_decided_def)
  have "tx_ensures (\<lambda>db' _. db_unclaimable i db') (fail_publish_tx ops env k lease PostUnknown class message db)"
    unfolding fail_publish_tx_def
    by (intro tx_rbind_prod tx_rules map_ok_ensures update_post_row_ensures assms row)
  then show ?thesis unfolding fail_publish_def using assms by (rule commit_unclaimable)
qed

text \<open>A successful claim makes the post unclaimable, and an unclaimable post is not claimed.\<close>

lemma claim_publish_unclaimable:
  assumes "distinct (map pw_id (db_posts db))" and "claim_publish ops env i revision attempt db = (db', Inr claim)"
  shows "db_unclaimable i db' \<and>
    (\<exists>p\<in>set (db_posts db). \<exists>r. pw_id p = i \<and> into_post ops (sending_row env r p) = Inr (pc_post claim))"
proof -
  have "\<exists>channel current row r. lock_aggregate db i = Inr (channel, current) \<and> row_state current = Inr PostQueued \<and>
      pw_revision current = revision \<and>
      update_post_row (\<lambda>p. pw_id p = i \<and> pw_state p = lit ''queued'' \<and> pw_revision p = revision)
        (sending_row env r) PublisherDatabase db = Inr (db', row) \<and> into_post ops row = Inr (pc_post claim)"
    using assms(2)
    by (auto simp: claim_publish_def commit_def claim_publish_tx_def result_simps split: sum.splits if_splits) blast
  then obtain channel current row r where lock: "lock_aggregate db i = Inr (channel, current)"
    and state: "row_state current = Inr PostQueued" and rev: "pw_revision current = revision"
    and upd: "update_post_row (\<lambda>p. pw_id p = i \<and> pw_state p = lit ''queued'' \<and> pw_revision p = revision)
        (sending_row env r) PublisherDatabase db = Inr (db', row)"
    and post: "into_post ops row = Inr (pc_post claim)"
    by blast
  have current: "current \<in> set (db_posts db)" "pw_id current = i"
    using lock by (auto simp: lock_aggregate_def lock_post_def result_simps dest!: select_one_Some)
  have queued: "pw_state current = lit ''queued''"
    using state by (auto simp: row_state_def result_simps dest: post_state_enum.try_from_Inr)
  have only: "p = current" if "p \<in> set (db_posts db)" "pw_id p = i" for p
    using assms(1) that current by (metis inj_on_eq_iff distinct_map)
  have db': "db' = db\<lparr>db_posts := update_where (\<lambda>p. pw_id p = i \<and> pw_state p = lit ''queued'' \<and> pw_revision p = revision)
      (sending_row env r) (db_posts db)\<rparr>" and row: "\<exists>p\<in>set (db_posts db). row = sending_row env r p \<and> pw_id p = i"
    using upd by (auto simp: update_post_row_def update_posts_def result_simps Let_def returning_def split: if_splits
        dest!: fetch_optional_in)
  have "send_decided (sending_row env r p)" for p :: "'a post_row"
    by (simp add: sending_row_def send_decided_def)
  then have "db_unclaimable i db'"
    unfolding db' db_unclaimable_def using only queued rev by (auto simp: set_update_where sending_row_def)
  with row post show ?thesis by blast
qed

lemma unclaimable_not_claimed:
  assumes "db_unclaimable i db"
  shows "\<exists>e. claim_publish ops env i revision attempt db = (db, Inl e)"
proof -
  have "\<nexists>x. claim_publish_tx ops env i revision attempt db = Inr x"
    using assms
    by (auto simp: claim_publish_tx_def result_simps row_state_def lock_aggregate_def lock_post_def db_unclaimable_def
        send_decided_def split: if_splits dest!: select_one_Some post_state_enum.try_from_Inr)
  then obtain e where "claim_publish_tx ops env i revision attempt db = Inl e"
    by (cases "claim_publish_tx ops env i revision attempt db") auto
  then show ?thesis by (simp add: claim_publish_def commit_def)
qed

section \<open>What the handler leaves behind\<close>

text \<open>An entry of the log whose message may be in the channel: Telegram accepted the call, or its answer
  leaves it open.\<close>

definition copy_refused :: "bot_call \<Rightarrow> request_error \<Rightarrow> bool" where
  "copy_refused call e \<longleftrightarrow>
     (case call of CopyMessage _ _ _ _ _ _ \<Rightarrow> is_copy_unavailable (TelegramRequest e) | SendFile _ _ _ _ _ _ \<Rightarrow> False)"

definition may_have_arrived :: "bot_call \<times> (request_error + int) \<Rightarrow> bool" where
  "may_have_arrived entry \<longleftrightarrow>
     (case snd entry of
        Inr _ \<Rightarrow> True
      | Inl e \<Rightarrow> is_ambiguous_error (TelegramRequest e) \<and> \<not> copy_refused (fst entry) e)"

definition others_keep :: "uuid \<Rightarrow> 'v handler_world \<Rightarrow> bool" where
  "others_keep i w \<longleftrightarrow> (\<forall>n u. unclaimable i u \<longrightarrow> unclaimable i (hw_others w n u))"

lemma run_publisher_keeps:
  assumes "run_tx w n e (\<lambda>env. on_publisher (f env)) s = (s', r)" and "unclaimable i s" and "others_keep i w"
    and "\<And>env db. db_unclaimable i db \<Longrightarrow> db_unclaimable i (fst (f env db))"
  shows "unclaimable i s'"
  using assms(1,2)
proof (rule run_tx_keeps)
  show "unclaimable i (hw_others w n u)" if "unclaimable i u" for u
    using assms(3) that by (simp add: others_keep_def)
  show "unclaimable i (fst (on_publisher (f env) u))" if "unclaimable i u" for env u
    using on_publisher_unclaimable [OF assms(4) that] .
qed

lemma fence_posted_message_keeps:
  assumes "unclaimable i s" and "others_keep i w"
  shows "unclaimable i (fst (fence_posted_message ops tg w n post_id lease message s))"
proof -
  obtain s1 r where r: "run_tx w n PublisherDatabase (\<lambda>env. on_publisher (fail_publish (so_publisher ops)
      (se_db env) post_id lease PostUnknown (lit ''publication_commit'') message)) s = (s1, r)"
    by fastforce
  have "unclaimable i s1" using r assms by (rule run_publisher_keeps) (rule fail_unknown_unclaimable)
  then show ?thesis
    by (simp add: fence_posted_message_def r split: sum.split publisher_repository_error.split)
qed

lemma commit_publication_keeps:
  assumes "unclaimable i s" and "others_keep i w"
  shows "unclaimable i (fst (commit_publication ops tg w n post_id lease message_id s))"
proof -
  obtain s1 r where r: "run_tx w n PublisherDatabase
      (\<lambda>env. on_publisher (complete_publish (so_publisher ops) (se_db env) post_id lease message_id)) s = (s1, r)"
    by fastforce
  have s1: "unclaimable i s1"
    using r assms by (rule run_publisher_keeps) (rule complete_publish_unclaimable)
  show ?thesis
    by (simp add: commit_publication_def r s1 fence_posted_message_keeps assms(2) split: sum.split publisher_repository_error.split)
qed

lemma ambiguous_settlement_keeps:
  assumes "unclaimable i s" and "others_keep i w" and "is_ambiguous_error e"
  shows "unclaimable i (fst (settle_publication_transport_error ops tg w n claim lease e s))"
proof -
  have plain: "\<not> is_retryable_no_effect e" "\<not> is_known_caption_error e"
    using assms(3)
    by (auto simp: is_ambiguous_error_def is_retryable_no_effect_def is_known_caption_error_def
        split: telegram_api_error.splits request_error.splits)
  obtain s1 r where r: "run_tx w n PublisherDatabase (\<lambda>env. on_publisher (fail_publish (so_publisher ops) (se_db env)
      (po_id (pc_post claim)) lease PostUnknown (lit ''publication_unknown'') (to_api_text tg e))) s = (s1, r)"
    by fastforce
  have "unclaimable i s1"
    using r assms(1,2) by (rule run_publisher_keeps) (rule fail_unknown_unclaimable)
  then show ?thesis
    unfolding settle_publication_transport_error_def record_publication_failure_def
    by (simp add: plain assms(3) r Let_def split: sum.split publisher_repository_error.split)
qed

lemma copy_from_storage_log:
  assumes "copy_from_storage parses api request = (log, r)" and "log \<noteq> []"
  obtains call where "log = [(call, api call)]" and "r = map_err TelegramRequest (api call)"
    and "\<And>e. copy_refused call e = is_copy_unavailable (TelegramRequest e)"
  using assms
  by (auto simp: copy_from_storage_def call_bot_def copy_refused_def split: if_splits sum.splits)

lemma send_storage_file_log:
  assumes "send_storage_file parses api request = (log, r)" and "log \<noteq> []"
  obtains call where "log = [(call, api call)]" and "r = map_err TelegramRequest (api call)"
    and "\<And>e. \<not> copy_refused call e"
  using assms
  by (auto simp: send_storage_file_def call_bot_def copy_refused_def split: if_splits sum.splits option.splits)

lemma second_send_keeps:
  assumes "unclaimable i s" and "others_keep i w"
    and "send_storage_file parses (to_bot tg) request = (log, r)" and "list_ex may_have_arrived log"
  shows "length (filter may_have_arrived log) = 1"
    and "r = Inr m \<Longrightarrow> commit_publication ops tg w n post_id lease m s = (s', x) \<Longrightarrow> unclaimable i s'"
    and "r = Inl e \<Longrightarrow> settle_publication_transport_error ops tg w n claim lease e s = (s', x) \<Longrightarrow> unclaimable i s'"
proof -
  from assms(3,4) obtain call where log: "log = [(call, to_bot tg call)]" and r: "r = map_err TelegramRequest (to_bot tg call)"
    by (elim send_storage_file_log) auto
  show "length (filter may_have_arrived log) = 1" using assms(4) log by simp
  show "unclaimable i s'" if "commit_publication ops tg w n post_id lease m s = (s', x)"
    using commit_publication_keeps [OF assms(1,2), of ops tg n post_id lease m] that by simp
  show "unclaimable i s'" if "r = Inl e" "settle_publication_transport_error ops tg w n claim lease e s = (s', x)"
  proof -
    have "is_ambiguous_error e"
      using assms(4) log r that(1) by (cases "to_bot tg call") (auto simp: may_have_arrived_def)
    then show ?thesis using ambiguous_settlement_keeps [OF assms(1,2), of e ops tg n claim lease] that(2) by simp
  qed
qed

lemma send_publication_keeps:
  assumes "unclaimable i s" and "others_keep i w"
    and "send_publication ops tg w post_id claim lease request s = (s', log, r)"
    and "list_ex may_have_arrived log"
  shows "unclaimable i s' \<and> length (filter may_have_arrived log) = 1"
proof -
  obtain log1 r1 where copy: "copy_from_storage (to_parses tg) (to_bot tg) request = (log1, r1)"
    by fastforce
  obtain log2 r2 where send: "send_storage_file (to_parses tg) (to_bot tg) request = (log2, r2)"
    by fastforce
  note keeps = commit_publication_keeps [OF assms(1,2), of ops tg] ambiguous_settlement_keeps [OF assms(1,2), where ops = ops and tg = tg]
  show ?thesis
  proof (cases "log1 = []")
    case True
    then obtain e where "r1 = Inl e" "\<not> is_copy_unavailable e"
      using copy by (auto simp: copy_from_storage_def call_bot_def telegram_parse_mode_def is_copy_unavailable_def
          split: if_splits sum.splits option.splits)
    then show ?thesis using assms(3,4) by (auto simp: send_publication_def copy True split: prod.splits)
  next
    case False
    with copy obtain call where log1: "log1 = [(call, to_bot tg call)]"
      and r1: "r1 = map_err TelegramRequest (to_bot tg call)"
      and refused: "\<And>e. copy_refused call e = is_copy_unavailable (TelegramRequest e)"
      by (elim copy_from_storage_log) auto
    show ?thesis
    proof (cases "to_bot tg call")
      case (Inr m)
      then show ?thesis using assms(3) keeps(1) [of 2 post_id lease m]
        by (auto simp: send_publication_def copy r1 log1 may_have_arrived_def split: prod.splits)
    next
      case (Inl e)
      show ?thesis
      proof (cases "is_copy_unavailable (TelegramRequest e)")
        case True
        then have "list_ex may_have_arrived log2" "\<not> may_have_arrived (call, Inl e)" "pq_telegram_file_id request \<noteq> None"
          using assms(3,4)
          by (auto simp: send_publication_def copy send r1 log1 Inl may_have_arrived_def refused split: prod.splits sum.splits if_splits)
        with assms(3) show ?thesis
          by (auto simp: send_publication_def copy send r1 log1 Inl True split: prod.splits sum.splits
              dest: second_send_keeps [OF assms(1,2) send])
      next
        case False
        then show ?thesis using assms(3,4) keeps(2) [of "TelegramRequest e" 2 claim lease]
          by (auto simp: send_publication_def copy r1 log1 Inl may_have_arrived_def refused split: prod.splits)
      qed
    qed
  qed
qed

lemma receipt_lookup_keeps:
  assumes "run_tx w n e (\<lambda>_ s. (s, f s)) s = (s', r)" and "unclaimable i s" and "others_keep i w"
  shows "unclaimable i s'"
  using assms(1,2) by (rule run_tx_keeps) (use assms(3) in \<open>auto simp: others_keep_def\<close>)

lemma publish_claimed_keeps:
  assumes "unclaimable i s" and "others_keep i w" and "publish_claimed ops tg w post_id claim attempt s = (s', log, r)"
    and "list_ex may_have_arrived log"
  shows "unclaimable i s' \<and> length (filter may_have_arrived log) = 1"
proof -
  obtain token where token: "po_send_token (pc_post claim) = Some token"
    using assms(3,4) by (auto simp: publish_claimed_def split: option.splits)
  obtain s1 x where lookup: "run_tx w 1 LibraryDatabase (\<lambda>_ s. (s, find_storage_receipt (po_media_id (pc_post claim)) s)) s = (s1, x)"
    by fastforce
  have "\<exists>receipt lease. x = Inr (Some receipt) \<and>
      send_publication ops tg w post_id claim lease (publication_request_of claim receipt) s1 = (s', log, r)"
    using assms(3,4)
    by (auto simp: publish_claimed_def token lookup Let_def simp del: One_nat_def split: sum.splits option.splits prod.splits library_repository_error.splits)
  with send_publication_keeps [OF receipt_lookup_keeps [OF lookup assms(1,2)] assms(2)] assms(4)
  show ?thesis by blast
qed

lemma publish_post_keeps:
  assumes "job_command j = PublishPost payload" and "others_keep (ppp_post_id payload) w"
    and "distinct (map pw_id (st_posts (hw_others w 0 s)))"
    and "publish_post ops tg w j s = (s', log, r)" and "list_ex may_have_arrived log"
  shows "unclaimable (ppp_post_id payload) s' \<and> length (filter may_have_arrived log) = 1"
proof -
  obtain attempt where attempt: "lease_of j = Some attempt"
    using assms(1,4,5) by (cases "lease_of j") (auto simp: publish_post_def)
  obtain s1 x where claim: "run_tx w 0 PublisherDatabase (\<lambda>env. on_publisher (claim_publish (so_publisher ops) (se_db env)
      (ppp_post_id payload) (ppp_expected_revision payload) attempt)) s = (s1, x)"
    by fastforce
  have "\<exists>c. x = Inr c \<and> publish_claimed ops tg w (ppp_post_id payload) c attempt s1 = (s', log, r)"
    using assms(4,5)
  proof (cases x)
    case (Inl e)
    have "log = []"
      using assms(4) unfolding publish_post_def Inl
      by (cases e) (auto simp: assms(1) attempt claim Inl Let_def
          split: post_state.splits prod.splits sum.splits publisher_repository_error.splits)
    then show ?thesis using assms(5) by simp
  qed (simp add: publish_post_def assms(1) attempt claim)
  then obtain c where c: "x = Inr c" "publish_claimed ops tg w (ppp_post_id payload) c attempt s1 = (s', log, r)"
    by blast
  have "unclaimable (ppp_post_id payload) s1"
    using run_tx_Inr [OF claim [unfolded c(1)]] assms(3)
    by (auto simp: on_publisher_def unclaimable_def db_unclaimable_def split: prod.splits
        dest!: claim_publish_unclaimable [rotated])
  then show ?thesis using assms(2) c(2) assms(5) by (rule publish_claimed_keeps)
qed

section \<open>The settlement of the job\<close>

lemma update_posts_away:
  assumes "db_unclaimable i db" and "update_posts P f db = Inr (db', rows)"
    and "\<And>p. P p \<Longrightarrow> pw_id (f p) = pw_id p \<and> (send_decided p \<longrightarrow> send_decided (f p))"
  shows "db_unclaimable i db'"
proof -
  have "db' = db\<lparr>db_posts := update_where P f (db_posts db)\<rparr>"
    using assms(2) by (simp add: update_posts_def Let_def split: if_splits)
  with assms(1,3) show ?thesis by (auto simp: db_unclaimable_def set_update_where)
qed

lemma post_settled_unclaimable:
  assumes "post_settled env db db'" and "db_unclaimable i db"
  shows "db_unclaimable i db'"
proof -
  have step: "db_unclaimable i db'" if "settle_terminal_publication_post env k post v c m db = Inr db'" for k post v c m
    using that assms(2) unfolding settle_terminal_publication_post_def
    by (auto simp: result_simps send_ended_next_def send_ended_row_def send_decided_def split: if_splits
        elim!: update_posts_away [OF assms(2)])
  then show ?thesis using assms unfolding post_settled_def by blast
qed

lemma settle_publish_unclaimable:
  fixes db :: "'v publisher_db"
  assumes "db_unclaimable i db"
  shows "db_unclaimable i (fst (settle_publish_job ops env lease expected st db))"
proof (cases "settle_publish_tx ops env lease expected st db")
  case (Inr x)
  obtain db' row where x: "x = (db', row)" by (cases x)
  obtain db1 and job :: "'v job_row" where "post_settled env db db1"
    and upd: "update_locked_publication env (jr_id job) (queue_parameters job st) db1 = Inr (db', row)"
    using Inr unfolding x
    by (auto simp: settle_publish_tx_def result_simps Let_def dest!: when_terminal_settled)
  with assms have "db_unclaimable i db1" by (blast intro: post_settled_unclaimable)
  then show ?thesis
    using upd by (auto simp: settle_publish_job_def Inr x update_locked_publication_def result_simps db_unclaimable_def)
qed (simp add: settle_publish_job_def assms)

lemma finish_job_unclaimable:
  fixes s :: "'v store"
  assumes "job_command j = PublishPost payload" and "unclaimable i s"
  shows "unclaimable i (fst (finish_job ops env j lease result c s))"
proof -
  have queue: "unclaimable i (fst (on_queue (complete_lease (so_codec ops) (se_db env) lease) s))"
    using assms(2) by (simp add: on_queue_def unclaimable_def db_unclaimable_def split: prod.splits)
  have "unclaimable i (fst (settle ops env (job_command j) lease st s))" for st
  proof -
    obtain s1 r where r: "settle_family ops env (job_command j) lease st s = (s1, r)" by fastforce
    have "unclaimable i (fst (settle_family ops env (job_command j) lease st s))"
      unfolding settle_family_def assms(1) job_command.case
      by (rule on_publisher_unclaimable [OF settle_publish_unclaimable assms(2)])
    then show ?thesis
      by (simp add: settle_def r split: sum.split job_repository_error.split)
  qed
  then have settle: "unclaimable i (fst (settle_lease ops env j lease st s))" for st
    by (simp add: settle_lease_def assms(2))
  obtain s1 r1 where complete: "on_queue (complete_lease (so_codec ops) (se_db env) lease) s = (s1, r1)" by fastforce
  show ?thesis
  proof (cases result)
    case (Inl f)
    obtain s2 r2 where st: "settle_lease ops env j lease (failure_settlement (env_utc (se_db env)) f) s = (s2, r2)" by fastforce
    show ?thesis
      using settle [of "failure_settlement (env_utc (se_db env)) f"] by (simp add: finish_job_def Inl st assms(2) split: sum.split)
  next
    case (Inr u)
    then show ?thesis
      using queue
      by (simp add: finish_job_def complete split: sum.split)
  qed
qed

section \<open>Delivery\<close>

text \<open>(C7) A message that may be in the channel is not sent a second time. Let the handler of a job
  \<open>publish_post\<close> make a call that Telegram accepted, or whose answer leaves open whether it had an effect. Then it is the
  only such call of the run; and once the runner has settled the job, with whatever the handler returned, no
  worker can claim the post: the claim of any revision, for any attempt, is an error that changes nothing.
  This holds whichever transactions fail or lose their answers, and whatever other processes do in between,
  short of an operator who gives this very post back to the queue.\<close>

theorem delivered_post_never_resent:
  fixes s :: "'v store"
  assumes "job_command j = PublishPost payload"
    and "publish_post ops tg w j s = (s1, log, result)" and "list_ex may_have_arrived log"
    and "others_keep (ppp_post_id payload) w" and "distinct (map pw_id (st_posts (hw_others w 0 s)))"
    and "finish_job ops env j lease result c s1 = (s2, r)"
  shows "length (filter may_have_arrived log) = 1 \<and>
    (\<exists>e. on_publisher (claim_publish (so_publisher ops) env' (ppp_post_id payload) revision attempt) s2 = (s2, Inl e))"
proof -
  from assms(1,4,5,2,3) have sent: "unclaimable (ppp_post_id payload) s1 \<and> length (filter may_have_arrived log) = 1"
    by (rule publish_post_keeps)
  then have "unclaimable (ppp_post_id payload) s2"
    using finish_job_unclaimable [OF assms(1), of _ s1 ops env lease result c] assms(6) by simp
  then obtain e where "claim_publish (so_publisher ops) env' (ppp_post_id payload) revision attempt (publisher_view s2) =
      (publisher_view s2, Inl e)"
    unfolding unclaimable_def using unclaimable_not_claimed by blast
  then show ?thesis using sent by (auto simp: on_publisher_def with_publisher_def publisher_view_def)
qed

section \<open>Witnesses\<close>

text \<open>The post of \<open>witness_claim_publish\<close>: Telegram's answer to \<open>copyMessage\<close> is lost, and so is the connection
  to the database when the handler records it.\<close>

definition delivery_media :: media_row where
  "delivery_media = witness_media\<lparr>mw_id := 5, mw_storage_state := lit ''ready'', mw_telegram_storage_chat_id := Some (- 1),
     mw_telegram_storage_message_id := Some 2\<rparr>"

definition delivery_store :: "plain_value store" where
  "delivery_store = \<lparr>st_jobs = [claimed_publish_job], st_ingests = [], st_media = [delivery_media],
     st_posts = [queued_post], st_channels = [witness_channel]\<rparr>"

definition delivery_world :: "plain_value handler_world" where
  "delivery_world = \<lparr>hw_env = (\<lambda>_. senv 6 21), hw_others = (\<lambda>_ s. s), hw_fault = (\<lambda>n. if n = 2 then RolledBack else NoFault)\<rparr>"

definition delivery_bot :: telegram_ops where
  "delivery_bot = \<lparr>to_texts = \<lparr>et_publisher = (\<lambda>_. []), et_library = (\<lambda>_. []), et_inbox = (\<lambda>_. [])\<rparr>,
     to_api_text = (\<lambda>_. []), to_parses = (\<lambda>_. True), to_bot = (\<lambda>_. Inl (NetworkError []))\<rparr>"

definition delivery_job :: job where
  "delivery_job =
     \<lparr>job_id = 8, job_command = PublishPost \<lparr>ppp_post_id = 11, ppp_expected_revision = 0\<rparr>, job_status = JobRunning,
      job_priority = 0, job_run_at = 0, job_attempt_count = 1, job_max_attempts = 3, job_lease_token = Some 9,
      job_lease_owner = Some (lit ''w''), job_lease_expires_at = None, job_last_heartbeat_at = None,
      job_last_error_class = None, job_last_error_message = None, job_dedupe_key = None, job_created_at = 0,
      job_updated_at = 0, job_completed_at = None\<rparr>"

lemma delivery_command: "job_command delivery_job = PublishPost \<lparr>ppp_post_id = 11, ppp_expected_revision = 0\<rparr>"
  by (simp add: delivery_job_def)

lemma delivery_log:
  "list_ex may_have_arrived (fst (snd (publish_post plain_store_ops delivery_bot delivery_world delivery_job delivery_store)))"
proof -
  have view: "publisher_view delivery_store = one_post_db [claimed_publish_job] queued_post"
    by (simp add: publisher_view_def delivery_store_def one_post_db_def delivery_media_def)
  obtain c where c: "claim_publish plain_ops (at_time 6 21) 11 0 publish_attempt (one_post_db [claimed_publish_job] queued_post) =
       (one_post_db [claimed_publish_job] sent_post, Inr c)"
    using witness_claim_publish by (auto simp: sent_post_def)
  obtain r where post: "into_post plain_ops (sending_row (at_time 6 21) r queued_post) = Inr (pc_post c)"
    using claim_publish_unclaimable [OF _ c] by (auto simp: one_post_db_def)
  obtain x where x: "x = pc_post c" by simp
  have fields: "po_send_token (pc_post c) = Some 21" "po_media_id (pc_post c) = 5" "po_parse_mode (pc_post c) = None"
    using post unfolding x [symmetric]
    by (auto simp: into_post_def result_simps sending_row_def queued_post_def at_time_def)
  have lease: "lease_of delivery_job = Some publish_attempt"
    by (simp add: lease_of_def delivery_job_def publish_attempt_def)
  have receipt: "\<exists>receipt. find_storage_receipt 5 (with_publisher delivery_store db) = Inr (Some receipt) \<and>
      sr_storage_message_id receipt = 2" for db
    by (simp add: find_storage_receipt_def select_media_def select_one_def with_publisher_def delivery_store_def
        delivery_media_def witness_media_def fetch_media_row_def into_storage_receipt_def result_simps
        media_kind_try_from_def media_storage_state_try_from_def)
  have claim: "run_tx delivery_world 0 PublisherDatabase (\<lambda>env. on_publisher (claim_publish (so_publisher plain_store_ops)
      (se_db env) 11 0 publish_attempt)) delivery_store =
      (with_publisher delivery_store (one_post_db [claimed_publish_job] sent_post), Inr c)"
    by (simp add: run_tx_def delivery_world_def senv_def on_publisher_def view plain_store_ops_def c)
  have "publish_post plain_store_ops delivery_bot delivery_world delivery_job delivery_store =
      publish_claimed plain_store_ops delivery_bot delivery_world 11 c publish_attempt
        (with_publisher delivery_store (one_post_db [claimed_publish_job] sent_post))"
    by (simp add: publish_post_def lease delivery_command claim)
  then show ?thesis
    using receipt [of "one_post_db [claimed_publish_job] sent_post"]
    by (auto simp: publish_claimed_def fields run_tx_def delivery_world_def Let_def send_publication_def copy_from_storage_def
        call_bot_def publication_request_of_def in_i32_def telegram_parse_mode_def delivery_bot_def is_copy_unavailable_def
        may_have_arrived_def is_ambiguous_error_def copy_refused_def split: prod.split)
qed

theorem delivered_post_never_resent_witness:
  "\<exists>s1 log result s2 r e. publish_post plain_store_ops delivery_bot delivery_world delivery_job delivery_store = (s1, log, result) \<and>
     list_ex may_have_arrived log \<and> finish_job plain_store_ops (senv 7 0) delivery_job publish_attempt result no_counters s1 = (s2, r) \<and>
     on_publisher (claim_publish (so_publisher plain_store_ops) (at_time 8 22) 11 1 publish_attempt) s2 = (s2, Inl e)"
proof -
  obtain s1 log result where run: "publish_post plain_store_ops delivery_bot delivery_world delivery_job delivery_store =
      (s1, log, result)" by (metis prod_cases3)
  obtain s2 r where fin: "finish_job plain_store_ops (senv 7 0) delivery_job publish_attempt result no_counters s1 = (s2, r)"
    by fastforce
  have arrived: "list_ex may_have_arrived log" using delivery_log run by simp
  from delivered_post_never_resent [OF delivery_command run arrived _ _ fin, of "at_time 8 22" 1 publish_attempt]
  show ?thesis
    using run fin arrived by (auto simp: others_keep_def delivery_world_def delivery_store_def)
qed

end
