(* ===== verification/Storage_Delivery.thy ===== *)
theory Storage_Delivery
  imports Storage_Handler Publication_Delivery Program_Lifecycle
begin

text \<open>
  What an upload to the storage channel guarantees: only a checked file is sent, its caption cannot be forged,
  and a message that may be stored already is not sent a second time.
\<close>

section \<open>Media that cannot be reserved\<close>

text \<open>An upload of the media item is running, was completed, or needs an operator.\<close>

definition upload_closed :: "media_row \<Rightarrow> bool" where
  "upload_closed m \<longleftrightarrow> mw_storage_state m \<noteq> lit ''pending_storage'' \<or> mw_storage_token m \<noteq> None"

definition uploads_closed :: "uuid \<Rightarrow> 'v store \<Rightarrow> bool" where
  "uploads_closed i s \<longleftrightarrow> (\<forall>m\<in>set (st_media s). mw_id m = i \<longrightarrow> upload_closed m)"

lemma uploads_closed_same: "uploads_closed i s \<Longrightarrow> st_media s' = st_media s \<Longrightarrow> uploads_closed i s'"
  by (simp add: uploads_closed_def)

lemma update_media_closed:
  assumes "update_media_rows P f e s = Inr (s', rows)" and "uploads_closed i s"
    and "\<And>m. P m \<Longrightarrow> mw_id (f m) = mw_id m \<and> (upload_closed m \<longrightarrow> upload_closed (f m))"
  shows "uploads_closed i s'"
  using assms(1) assms(2,3) by (auto simp: update_media_rows_Inr uploads_closed_def set_update_where)

lemma renew_closed: "uploads_closed i s \<Longrightarrow> uploads_closed i (fst (renew_storage_upload env k t d s))"
  unfolding renew_storage_upload_def Let_def
  by (rule in_transaction_ensures, simp, intro tx_rules)
     (auto simp: upload_closed_def renewed_media_def elim: update_media_closed)

lemma mark_unknown_closed: "uploads_closed i s \<Longrightarrow> uploads_closed i (fst (mark_owned_upload_unknown ops env k t s))"
  unfolding mark_owned_upload_unknown_def
  by (rule in_transaction_ensures, simp, intro tx_rules)
     (auto simp: upload_closed_def unknown_media_def tx_ensures_def elim!: update_media_closed
       intro: uploads_closed_same [OF _ unknown_followup_media])

lemma finish_storage_closed:
  assumes "uploads_closed i s"
  shows "tx_ensures (\<lambda>s' _. uploads_closed i s') (finish_storage ops env k a m s)"
  unfolding finish_storage_def
proof (rule tx_rbind, rule tx_rbind_prod)
  fix vs s1 rows
  assume u: "update_media_rows (\<lambda>m. mw_id m = k) (with_caption_values (se_db env) vs) LibraryDatabase s = Inr (s1, rows)"
  have "uploads_closed i s1"
    using u assms by (rule update_media_closed) (simp add: with_caption_values_def upload_closed_def split: prod.splits)
  then show "tx_ensures (\<lambda>s' _. uploads_closed i s') (rbind (ok_or (fetch_optional rows) LibraryDatabase) (\<lambda>row.
     rbind (if fst (snd vs) = lit ''pending'' then enqueue_caption_sync_job ops env k (fst vs) s1 else Inr s1) (\<lambda>s.
     rbind (complete_linked_ingests_for_storage ops env k LibraryDatabase s) (\<lambda>s.
       map_ok (\<lambda>s. (s, row))
         (enqueue_workspace_cleanup_for_media ops env k (env_utc (se_db env)) LibraryDatabase s)))))"
    by (intro tx_rules)
       (auto simp: complete_linked_ingests_for_storage_def enqueue_workspace_cleanup_for_media_def
         dest!: on_jobs_media enqueue_caption_media elim!: uploads_closed_same split: if_splits)
qed

lemma complete_closed: "uploads_closed i s \<Longrightarrow> uploads_closed i (fst (complete_storage_upload ops env k t a s))"
  unfolding complete_storage_upload_def
  by (rule in_transaction_ensures, simp, intro tx_rules tx_rbind_prod)
     (auto simp: upload_closed_def attached_media_def result_simps intro!: finish_storage_closed elim!: update_media_closed)

lemma complete_ingests_closed:
  fixes s :: "'v store"
  shows "uploads_closed i s \<Longrightarrow> uploads_closed i (fst (complete_storage_for_media ops env k s))"
  unfolding complete_storage_for_media_def
proof (rule in_transaction_ensures, simp, rule tx_ensuresI)
  fix s' r
  assume closed: "uploads_closed i s" and tx: "complete_storage_for_media_tx ops env k s = Inr (s', r)"
  then obtain s1 s2 :: "'v store" and rows where "st_media s1 = st_media s" "st_media s' = st_media s2"
    and upd: "update_media_rows (\<lambda>m. mw_id m = k \<and> mw_storage_state m = lit ''ready'')
      (\<lambda>m. m\<lparr>mw_local_work_path := None\<rparr>) InboxDatabase s1 = Inr (s2, rows)"
    by (auto simp: complete_storage_for_media_tx_def Let_def result_simps enqueue_workspace_cleanup_for_media_def dest!: on_jobs_media)
  then show "uploads_closed i s'"
    using closed update_media_closed [OF upd, of i] by (auto simp: uploads_closed_def upload_closed_def)
qed

lemma fail_storage_closed:
  fixes s :: "'v store"
  shows "uploads_closed i s \<Longrightarrow> uploads_closed i (fst (fail_storage_for_media ops env k st c m s))"
  unfolding fail_storage_for_media_def
proof (rule in_transaction_ensures, simp, rule tx_ensuresI)
  fix s' r
  assume closed: "uploads_closed i s" and tx: "fail_storage_for_media_tx ops env k st c m s = Inr (s', r)"
  let ?s1 = "update_ingests (storage_failable k) (storage_failure_row (utc env) st c m) s"
  from tx consider "st_media s' = st_media s"
    | s2 :: "'v store" and rows where "update_media_rows (\<lambda>m. mw_id m = k \<and> mw_storage_state m = lit ''pending_storage'')
        (missing_media (utc env)) InboxDatabase ?s1 = Inr (s2, rows)" "st_media s' = st_media s2"
    by (auto simp: fail_storage_for_media_tx_def Let_def result_simps enqueue_workspace_cleanup_for_media_def
        split: if_splits dest!: on_jobs_media)
  then show "uploads_closed i s'"
  proof cases
    case 2
    have "uploads_closed i ?s1" using closed by (simp add: uploads_closed_def)
    from update_media_closed [OF 2(1) this] 2(2) show ?thesis
      by (auto simp: missing_media_def upload_closed_def intro: uploads_closed_same)
  qed (use closed in \<open>auto intro: uploads_closed_same\<close>)
qed

text \<open>A reservation closes the upload, and a closed upload is not reserved.\<close>

lemma reserve_closes:
  assumes "distinct (map mw_id (st_media s))"
    and "reserve_storage_upload env rq s = (s', Inr (Reserved media_id owner_token md))"
  shows "uploads_closed (sur_media_id rq) s' \<and> media_id = sur_media_id rq"
proof -
  let ?P = "\<lambda>m. mw_id m = sur_media_id rq \<and> mw_storage_state m = lit ''pending_storage'' \<and>
      mw_storage_generation m = sur_generation rq \<and> mw_storage_token m = None"
  obtain m rows where lock: "lock_media_row (sur_media_id rq) s = Inr m"
    and upd: "update_media_rows ?P (reserved_media (se_db env)) LibraryDatabase s = Inr (s', rows)" "length rows = 1"
    and id: "media_id = sur_media_id rq"
    using assms(2)
    by (auto simp: reserve_storage_upload_def in_transaction_def result_simps split: sum.splits if_splits prod.splits)
  have "filter ?P (st_media s) \<noteq> []"
    using upd by (auto simp: update_media_rows_Inr returning_def)
  then obtain n where n: "n \<in> set (st_media s)" "?P n"
    unfolding filter_empty_conv by blast
  have "p = n" if "p \<in> set (st_media s)" "mw_id p = sur_media_id rq" for p
    using assms(1) that n by (metis distinct_map inj_on_eq_iff)
  then have "uploads_closed (sur_media_id rq) s'"
    using upd n by (auto simp: update_media_rows_Inr uploads_closed_def set_update_where upload_closed_def reserved_media_def)
  with id show ?thesis by simp
qed

lemma closed_not_reserved:
  assumes "uploads_closed (sur_media_id rq) s"
  shows "fst (reserve_storage_upload env rq s) = s \<and> snd (reserve_storage_upload env rq s) \<noteq> Inr (Reserved media_id owner_token md)"
proof (cases "lock_media_row (sur_media_id rq) s")
  case (Inr m)
  then have "m \<in> set (st_media s)" "mw_id m = sur_media_id rq" "\<exists>st. media_storage_state_try_from (mw_storage_state m) = Inr st"
    by (auto simp: lock_media_row_def fetch_media_row_def select_media_def result_simps dest!: select_one_Some)
  moreover from this have "mw_storage_state m \<in> {lit ''ready'', lit ''storage_unknown'', lit ''missing''} \<or> mw_storage_token m \<noteq> None"
    using assms by (auto simp: uploads_closed_def upload_closed_def media_storage_state_try_from_def split: if_splits)
  ultimately show ?thesis using Inr
    by (auto simp: reserve_storage_upload_def in_transaction_def result_simps split: sum.splits)
qed (simp add: reserve_storage_upload_def in_transaction_def)

section \<open>What an upload leaves behind\<close>

text \<open>A request whose message may be in the storage channel: it was accepted, it was not waited for, or its
  answer leaves it open.\<close>

definition may_be_stored :: "upload_call \<Rightarrow> bool" where
  "may_be_stored call =
     (case snd call of
        Some (Inl e) \<Rightarrow> is_ambiguous_upload_error e
      | _ \<Rightarrow> True)"

text \<open>No other process reopens the upload of the media item, and the primary key of the table holds.\<close>

definition others_keep_upload :: "uuid \<Rightarrow> 'v handler_world \<Rightarrow> bool" where
  "others_keep_upload i w \<longleftrightarrow>
     (\<forall>n u. (uploads_closed i u \<longrightarrow> uploads_closed i (hw_others w n u)) \<and>
            (distinct (map mw_id (st_media u)) \<longrightarrow> distinct (map mw_id (st_media (hw_others w n u)))))"

lemma run_closed:
  assumes "uploads_closed i s" and "others_keep_upload i w"
    and "\<And>env u. uploads_closed i u \<Longrightarrow> uploads_closed i (fst (op env u))"
  shows "uploads_closed i (fst (run_tx w n e op s))"
  using assms by (auto simp: run_tx_def Let_def others_keep_upload_def split: fault.splits)

lemma settle_unknown_closed:
  assumes "uploads_closed i s" and "others_keep_upload i w"
  shows "uploads_closed i (fst (settle_unknown ops w k t e s))"
proof -
  have "uploads_closed i (fst (run_tx w 5 LibraryDatabase (\<lambda>env. mark_owned_upload_unknown ops env k t) s))"
    using assms mark_unknown_closed by (rule run_closed)
  then show ?thesis by (auto simp: settle_unknown_def split: prod.splits sum.splits)
qed

lemma upload_loop_closed:
  assumes "others_keep_upload i w" and "uploads_closed i s"
    and "upload_loop ops w k t n race s = (s', dispatched, r)" and "dispatched \<or> r = Inr ()"
  shows "uploads_closed i s'"
  using assms(2-4)
proof (induction race arbitrary: n s)
  case (UploadCancelled b)
  then show ?case using settle_unknown_closed [OF UploadCancelled(1) assms(1), of ops k t SuCancelledAfterDispatch]
    by (auto split: if_splits prod.splits)
next
  case (RenewalDue b race)
  obtain s1 x where x: "run_tx w n LibraryDatabase (\<lambda>env. renew_storage_upload env k t STORAGE_UPLOAD_LEASE_DURATION) s = (s1, x)"
    by fastforce
  have "uploads_closed i (fst (run_tx w n LibraryDatabase
      (\<lambda>env. renew_storage_upload env k t STORAGE_UPLOAD_LEASE_DURATION) s))"
    using RenewalDue(2) assms(1) renew_closed by (rule run_closed)
  with x have s1: "uploads_closed i s1" by simp
  show ?case
  proof (cases x)
    case (Inl e)
    then show ?thesis using RenewalDue(3) x settle_unknown_closed [OF s1 assms(1), of ops k t "SuAmbiguousPersistence e"]
      by (auto split: prod.splits)
  next
    case (Inr y)
    then show ?thesis using RenewalDue.IH [OF s1] RenewalDue(3,4) x by auto
  qed
qed simp

lemma record_upload_closed:
  assumes "uploads_closed i s" and "others_keep_upload i w"
  shows "uploads_closed i (fst (record_upload ops w ev input_id k t a s))"
proof -
  let ?tx = "run_tx w 4 LibraryDatabase (\<lambda>env. complete_storage_upload ops env input_id t a) s"
  have completed: "uploads_closed i (fst ?tx)" using assms complete_closed by (rule run_closed)
  have unknown: "uploads_closed i (fst (settle_unknown ops w k t e u))" if "uploads_closed i u" for e u
    using that assms(2) by (rule settle_unknown_closed)
  show ?thesis
    using assms(1) completed unknown [OF assms(1)] unknown [OF completed]
    by (auto simp: record_upload_def Let_def split: completion_race.split prod.split sum.split)
      (metis fst_conv)+
qed

lemma dispatch_upload_closed:
  assumes "uploads_closed i s" and "others_keep_upload i w"
    and "dispatch_upload ops w p ev input_id k t md request s = (s', Some call, r)" and "may_be_stored call"
  shows "uploads_closed i s'"
proof -
  obtain s1 d x where loop: "upload_loop ops w k t 7 (ue_race ev) s = (s1, d, x)" by (metis prod_cases3)
  have before: "\<not> ue_cancelled_before ev" using assms(3) by (auto simp: dispatch_upload_def split: prod.splits)
  show ?thesis
  proof (cases x)
    case (Inl e)
    then show ?thesis
      using assms(3) loop before upload_loop_closed [OF assms(2,1) loop]
      by (auto simp: dispatch_upload_def split: if_splits)
  next
    case (Inr u)
    have s1: "uploads_closed i s1" using upload_loop_closed [OF assms(2,1) loop] Inr by simp
    show ?thesis
    proof (cases "upload_media (sp_bot p) request")
      case (Inl e)
      then have "is_ambiguous_upload_error e"
        using assms(3,4) loop before Inr
        by (auto simp: dispatch_upload_def Let_def may_be_stored_def split: if_splits prod.splits)
      then show ?thesis
        using assms(3) loop before Inr Inl settle_unknown_closed [OF s1 assms(2), of ops k t "SuAmbiguousApi e"]
        by (auto simp: dispatch_upload_def split: prod.splits)
    next
      case (Inr uploaded)
      then show ?thesis
        using assms(3) loop before \<open>x = Inr u\<close>
          record_upload_closed [OF s1 assms(2), of ops ev input_id k t "upload_attachment p uploaded md"]
        by (auto simp: dispatch_upload_def split: prod.splits)
    qed
  qed
qed

lemma reserve_and_upload_closed:
  assumes "distinct (map mw_id (st_media s))" and "others_keep_upload i w"
    and "reserve_and_upload ops fw w p ev i g media path md thumb s = (s', Some call, r)" and "may_be_stored call"
  shows "uploads_closed i s'"
proof -
  obtain s1 x where tx: "run_tx w 3 LibraryDatabase
      (\<lambda>env. reserve_storage_upload env \<lparr>sur_media_id = i, sur_generation = g\<rparr>) s = (s1, x)" by fastforce
  then obtain k t cm where x: "x = Inr (Reserved k t cm)"
    and up: "upload_reserved ops fw w p ev i media path md thumb k t cm s1 = (s', Some call, r)"
    using assms(3) by (auto simp: reserve_and_upload_def split: sum.splits storage_upload_reservation.splits)
  have "uploads_closed i s1"
    using reserve_closes [OF _ run_tx_Inr [OF tx [unfolded x]]] assms(1,2) by (simp add: others_keep_upload_def)
  then show ?thesis
    using assms(2,4) up
    by (auto simp: upload_reserved_def split: sum.splits option.splits elim: dispatch_upload_closed)
qed

lemma lookup_distinct:
  assumes "run_tx w n e (\<lambda>_ s. (s, f s)) s = (s', r)" and "distinct (map mw_id (st_media s))" and "others_keep_upload i w"
  shows "distinct (map mw_id (st_media s'))"
  using assms(1,2) by (rule run_tx_keeps) (use assms(3) in \<open>auto simp: others_keep_upload_def\<close>)

lemma upload_with_cancellation_closed:
  assumes "distinct (map mw_id (st_media s))" and "others_keep_upload i w"
    and "upload_with_cancellation ops fw w p ev i g s = (s', Some call, r)" and "may_be_stored call"
  shows "uploads_closed i s'"
proof -
  obtain s1 media where s1: "run_tx w 0 LibraryDatabase (\<lambda>_ s. (s, find_media ops i s)) s = (s1, Inr (Some media))"
    and rest: "(case run_tx w 1 LibraryDatabase (\<lambda>_ s. (s, find_storage_receipt i s)) s1 of
             (s, Inl e) \<Rightarrow> (s, None, Inl (SuPersistence e))
           | (s, Inr (Some receipt)) \<Rightarrow> (s, None, Inr (OutcomeReused receipt))
           | (s, Inr None) \<Rightarrow> upload_media_item ops fw w p ev i g media s) = (s', Some call, r)"
    using assms(3) unfolding upload_with_cancellation_def by (auto split: prod.splits sum.splits option.splits)
  obtain s2 where s2: "run_tx w 1 LibraryDatabase (\<lambda>_ s. (s, find_storage_receipt i s)) s1 = (s2, Inr None)"
    and item: "upload_media_item ops fw w p ev i g media s2 = (s', Some call, r)"
    using rest by (auto split: prod.splits sum.splits option.splits)
  obtain path md thumb s3 where s3: "upload_video_details ops w i media s2 = (s3, Inr (md, thumb))"
    and go: "reserve_and_upload ops fw w p ev i g media path md thumb s3 = (s', Some call, r)"
    using item unfolding upload_media_item_def by (auto split: prod.splits sum.splits)
  have d2: "distinct (map mw_id (st_media s2))"
    by (rule lookup_distinct [OF s2 lookup_distinct [OF s1 assms(1,2)] assms(2)])
  have "distinct (map mw_id (st_media s3))"
    using s3 d2 assms(2)
    by (auto simp: upload_video_details_def split: if_splits sum.splits prod.splits dest: lookup_distinct)
  then show ?thesis using assms(2) go assms(4) by (rule reserve_and_upload_closed)
qed

section \<open>The handler and the settlement of its job\<close>

lemma report_upload_error_closed:
  assumes "uploads_closed i s" and "others_keep_upload i w"
  shows "uploads_closed i (fst (report_upload_error ops texts w j k e s))"
proof -
  have "uploads_closed i (fst (run_tx w 6 InboxDatabase (\<lambda>env. fail_storage_for_media ops env k status c m) s))" for status c m
    using assms fail_storage_closed by (rule run_closed)
  then have failed: "uploads_closed i s'"
    if "run_tx w 6 InboxDatabase (\<lambda>env. fail_storage_for_media ops env k status c m) s = (s', r)" for s' r status c m
    using that by (metis fst_conv)
  show ?thesis
    by (cases e)
       (auto simp: report_upload_error_def Let_def assms(1) split: option.split prod.split sum.split dest: failed)
qed

lemma upload_storage_asset_closed:
  assumes "job_command j = UploadStorageAsset payload" and "others_keep_upload (mjp_media_id payload) w"
    and "distinct (map mw_id (st_media s))"
    and "upload_storage_asset ops texts fw w p ev j s = (s', Some call, r)" and "may_be_stored call"
  shows "uploads_closed (mjp_media_id payload) s'"
proof -
  let ?i = "mjp_media_id payload"
  obtain s1 c x where up: "upload_with_cancellation (io_store ops) fw w p ev ?i (mjp_generation payload) s = (s1, c, x)"
    by (metis prod_cases3)
  have c: "c = Some call" using assms(1,4) up
    by (auto simp: upload_storage_asset_def Let_def split: sum.splits prod.splits)
  have s1: "uploads_closed ?i s1"
    using assms(3,2) up [unfolded c] assms(5) by (rule upload_with_cancellation_closed)
  have completed: "uploads_closed ?i (fst (run_tx w 6 InboxDatabase (\<lambda>env. complete_storage_for_media ops env ?i) s1))"
    using s1 assms(2) complete_ingests_closed by (rule run_closed)
  show ?thesis
  proof (cases x)
    case (Inl e)
    then show ?thesis using assms(1,4) up report_upload_error_closed [OF s1 assms(2), of ops texts j ?i e]
      by (auto simp: upload_storage_asset_def split: prod.splits)
  next
    case (Inr y)
    then show ?thesis using assms(1,4) up completed
      by (auto simp: upload_storage_asset_def split: prod.splits sum.splits)
  qed
qed

lemma mark_for_job_closed: "mark_storage_unknown_for_job env k m s = Inr s' \<Longrightarrow> uploads_closed i s \<Longrightarrow> uploads_closed i s'"
  by (auto simp: mark_storage_unknown_for_job_def result_simps upload_closed_def unknown_media_def
      intro!: uploads_closed_same [OF _ update_ingests_media] elim!: update_media_closed)

lemma reconcile_closed: "reconcile_storage_terminal env k m s = Inr s' \<Longrightarrow> uploads_closed i s \<Longrightarrow> uploads_closed i s'"
  by (auto simp: reconcile_storage_terminal_def split: option.splits sum.splits media_storage_state.splits
      intro: uploads_closed_same dest: mark_for_job_closed)

lemma settle_storage_closed:
  assumes "uploads_closed i s"
  shows "uploads_closed i (fst (settle_storage_job ops env lease c st s))"
  unfolding settle_storage_job_def settle_with_def Let_def
  by (rule in_transaction_ensures, simp add: assms, intro tx_rules)
     (auto simp: tx_ensures_def split: sum.splits if_splits dest!: update_locked_media
       intro: uploads_closed_same [OF assms] uploads_closed_same [OF reconcile_closed [OF _ assms]])

lemma finish_upload_closed:
  fixes s :: "'v store"
  assumes "job_command j = UploadStorageAsset payload" and "uploads_closed i s"
  shows "uploads_closed i (fst (finish_job ops env j lease result c s))"
proof -
  have settle: "uploads_closed i (fst (settle_lease ops env j lease st s))" for st
  proof -
    obtain s1 r where r: "settle_family ops env (job_command j) lease st s = (s1, r)" by fastforce
    have "uploads_closed i s1"
      using r settle_storage_closed [OF assms(2), of ops env lease "job_command j" st]
      by (simp add: settle_family_def assms(1))
    then show ?thesis
      by (simp add: settle_lease_def settle_def r assms(2) split: sum.split job_repository_error.split)
  qed
  obtain s1 r1 where complete: "on_queue (complete_lease (so_codec ops) (se_db env) lease) s = (s1, r1)" by fastforce
  have s1: "uploads_closed i s1"
    using assms(2) complete on_queue_media by (metis fst_conv uploads_closed_same)
  show ?thesis
  proof (cases result)
    case (Inl f)
    obtain s2 r2 where st: "settle_lease ops env j lease (failure_settlement (env_utc (se_db env)) f) s = (s2, r2)" by fastforce
    show ?thesis
      using settle [of "failure_settlement (env_utc (se_db env)) f"] by (simp add: finish_job_def Inl st assms(2) split: sum.split)
  qed (simp add: finish_job_def complete s1 split: sum.split)
qed

section \<open>Properties\<close>

text \<open>(C8) A media item that may be in the storage channel is not uploaded again. Let the handler of an
  \<open>upload_storage_asset\<close> job send its request, and let Telegram accept it, give an answer that leaves open
  whether the message was stored, or not be waited for because the worker was cancelled or lost its
  reservation. Then, once the runner has settled the job with whatever the handler returned, no upload of the
  item can be reserved again, for any generation: the attempt changes nothing. This holds whichever
  transactions fail or lose their answers, and whatever other processes do in between, short of an operator
  who reopens this very upload.\<close>

theorem stored_upload_never_repeated:
  fixes s :: "'v store"
  assumes "job_command j = UploadStorageAsset payload" and "others_keep_upload (mjp_media_id payload) w"
    and "distinct (map mw_id (st_media s))"
    and "upload_storage_asset ops texts fw w p ev j s = (s1, Some call, result)" and "may_be_stored call"
    and "finish_job (io_store ops) env j lease result c s1 = (s2, r)"
  shows "\<exists>answer. reserve_storage_upload env' \<lparr>sur_media_id = mjp_media_id payload, sur_generation = g\<rparr> s2 = (s2, answer) \<and>
    (\<nexists>k t md. answer = Inr (Reserved k t md))"
proof -
  have "uploads_closed (mjp_media_id payload) s1"
    using assms(1-5) by (rule upload_storage_asset_closed)
  then have "uploads_closed (mjp_media_id payload) s2"
    using finish_upload_closed [OF assms(1), of _ s1 "io_store ops" env lease result c] assms(6) by simp
  then show ?thesis
    using closed_not_reserved [of "\<lparr>sur_media_id = mjp_media_id payload, sur_generation = g\<rparr>" s2 env']
    by (cases "reserve_storage_upload env' \<lparr>sur_media_id = mjp_media_id payload, sur_generation = g\<rparr> s2") auto
qed

lemma seconds_pos: "ms \<noteq> (0 :: u64) \<Longrightarrow> 0 < (unat ms + 999) div 1000"
  by (simp add: div_greater_zero_iff Suc_le_eq unat_gt_0)

text \<open>Only a checked file is sent to the storage channel. When an upload sends its request, the file it
  names is the one recorded for the media item, a regular file and no symlink, whose contents have the recorded
  SHA-256 of 32 bytes, no longer than either limit, and whose canonical path lies in the canonical work root;
  the request goes to the configured chat, and a video comes with a positive duration, width and height.\<close>

theorem uploaded_file_checked:
  assumes "upload_with_cancellation ops fw w p ev i g s = (s', Some (request, answer), r)"
  shows "\<exists>media sha256 bytes. find_media ops i (hw_others w 0 s) = Inr (Some media) \<and>
      suq_media_kind request = me_kind media \<and> suq_storage_chat_id request = sp_storage_chat_id p \<and>
      me_local_work_path media = Some (suq_local_work_path request) \<and>
      fw_symlink_metadata fw (suq_local_work_path request) = Some (True, False) \<and>
      me_sha256 media = Some sha256 \<and> length sha256 = 32 \<and>
      fw_sha256 fw (suq_local_work_path request) = Inr (hex_encode sha256) \<and>
      fw_length fw (suq_local_work_path request) = Some bytes \<and>
      \<not> exceeds bytes (sp_max_storage_bytes p) \<and> \<not> exceeds bytes (sb_cloud_upload_limit_bytes (sp_bot p)) \<and>
      (\<forall>root. sp_work_root p = Some root \<longrightarrow> (\<exists>canonical tail. fw_canonicalize fw root = Some canonical \<and>
         fw_canonicalize fw (suq_local_work_path request) = Some (canonical @ tail))) \<and>
      (me_kind media = MediaVideo \<longrightarrow> (\<exists>d x y. suq_duration request = Some d \<and> suq_width request = Some x \<and>
         suq_height request = Some y \<and> 0 < d \<and> d < 2 ^ 32 \<and> 0 < x \<and> 0 < y))"
proof -
  obtain media path md thumb s1 s2 s3 where media: "find_media ops i (hw_others w 0 s) = Inr (Some media)"
    and path: "rbind (upload_source i media) (\<lambda>(sha256, path). map_ok (\<lambda>_. path) (check_local_file fw p sha256 path)) = Inr path"
    and details: "upload_video_details ops w i media s1 = (s2, Inr (md, thumb))"
    and go: "reserve_and_upload ops fw w p ev i g media path md thumb s2 = (s', Some (request, answer), r)"
    using assms unfolding upload_with_cancellation_def upload_media_item_def
    by (auto split: prod.splits sum.splits option.splits dest!: run_tx_Inr)
  obtain cm tp where request: "request = upload_request p media path cm md tp"
    using go
    by (auto simp: reserve_and_upload_def upload_reserved_def dispatch_upload_def Let_def
        split: prod.splits sum.splits storage_upload_reservation.splits option.splits if_splits)
  obtain sha256 bytes where checked: "me_sha256 media = Some sha256" "length sha256 = 32" "me_local_work_path media = Some path"
    "fw_symlink_metadata fw path = Some (True, False)" "check_work_root fw (sp_work_root p) path = Inr ()"
    "fw_length fw path = Some bytes" "\<not> exceeds bytes (sp_max_storage_bytes p)"
    "\<not> exceeds bytes (sb_cloud_upload_limit_bytes (sp_bot p))" "fw_sha256 fw path = Inr (hex_encode sha256)"
    using path
    by (auto simp: upload_source_def check_local_file_def result_simps split: if_splits option.splits prod.splits)
  have root: "\<exists>canonical tail. fw_canonicalize fw root = Some canonical \<and> fw_canonicalize fw path = Some (canonical @ tail)"
    if "sp_work_root p = Some root" for root
    using checked(5) that by (auto simp: check_work_root_def result_simps split: if_splits) (metis append_take_drop_id)
  have video: "\<exists>d x y. md = Some (d, x, y) \<and> 0 < d \<and> d < 2 ^ 32 \<and> 0 < x \<and> 0 < y" if "me_kind media = MediaVideo"
    using details that
    by (auto simp: upload_video_details_def video_metadata_def video_duration_def checked_video_dimension_def result_simps Let_def
        seconds_pos split: sum.splits prod.splits option.splits if_splits)
  show ?thesis using media checked root video by (auto simp: request upload_request_def)
qed

lemma clean_value_plain: "filter is_control (clean_caption_value v n) = []"
proof -
  have "\<not> is_control c" if "c \<in> set (clean_caption_value v n)" for c
  proof -
    have "c \<in> set (map (\<lambda>c. if is_control c then 32 else c) v)"
      using that set_trim_subset set_take_subset unfolding clean_caption_value_def truncate_chars_def by (meson subsetD)
    then show ?thesis by (auto simp: is_control_def split: if_splits)
  qed
  then show ?thesis by (simp add: filter_empty_conv)
qed

lemma join_plain: "filter is_control sep = [] \<Longrightarrow> \<forall>x\<in>set xs. filter is_control x = [] \<Longrightarrow> filter is_control (join_with sep xs) = []"
  by (induction sep xs rule: join_with.induct) auto

lemma caption_tags_plain: "filter is_control (caption_tags tags) = []"
  unfolding caption_tags_def by (rule join_plain) (auto simp: clean_value_plain is_control_def lit_def)

lemma lit_plain:
  "filter is_control (lit ''description: '') = []" "filter is_control (lit ''tags: '') = []"
  "filter is_control (lit ''source: '') = []"
  by (simp_all add: is_control_def lit_def)

lemma join_lines_controls:
  "\<forall>l\<in>set ls. filter is_control l = [] \<Longrightarrow> filter is_control (join_with [10] ls) = replicate (length ls - 1) 10"
  by (induction "[10 :: nat]" ls rule: join_with.induct) (auto simp: is_control_def simp flip: replicate_Suc)

lemma truncated_controls:
  assumes "filter is_control c = replicate m 10"
  shows "set (filter is_control (take n c)) \<subseteq> {10}" and "length (filter is_control (take n c)) \<le> m"
proof -
  have split: "replicate m 10 = filter is_control (take n c) @ filter is_control (drop n c)"
    by (metis assms append_take_drop_id filter_append)
  from arg_cong [OF split, of set] show "set (filter is_control (take n c)) \<subseteq> {10}"
    unfolding set_append by (metis set_replicate_conv_if sup.cobounded1 empty_subsetI subset_trans)
  from arg_cong [OF split, of length] show "length (filter is_control (take n c)) \<le> m"
    unfolding length_append by simp
qed

text \<open>The caption of a stored message is never empty and has at most 1024 characters; user data cannot add
  lines to it: its control characters are line feeds, and there are at most two of them, between the lines for
  the description, the tags and the source.\<close>

theorem storage_caption_lines:
  "storage_caption md \<noteq> [] \<and> length (storage_caption md) \<le> 1024 \<and>
   set (filter is_control (storage_caption md)) \<subseteq> {10} \<and> length (filter is_control (storage_caption md)) \<le> 2"
proof -
  let ?d = "case scm_description md of None \<Rightarrow> [] | Some d \<Rightarrow> caption_line (lit ''description: '') (clean_caption_value d 512)"
  let ?t = "if scm_tags md = [] then [] else caption_line (lit ''tags: '') (caption_tags (scm_tags md))"
  let ?u = "case scm_source_url md of None \<Rightarrow> [] | Some u \<Rightarrow> caption_line (lit ''source: '') (clean_caption_value u 512)"
  let ?lines = "?d @ ?t @ ?u"
  have plain: "\<forall>l\<in>set ?lines. filter is_control l = []"
    by (auto simp: caption_line_def caption_tags_plain clean_value_plain lit_plain split: option.splits if_splits)
  have few: "length ?lines \<le> 3"
    by (auto simp: caption_line_def split: option.split)
  note controls = join_lines_controls [OF plain]
  define caption where "caption = join_with [10] ?lines"
  have caption: "filter is_control caption = replicate (length ?lines - 1) 10" unfolding caption_def by (rule controls)
  have sc: "storage_caption md = (if caption = [] then lit ''sooqa'' else take 1024 caption)"
    by (simp add: storage_caption_def Let_def truncate_chars_def MAX_STORAGE_CAPTION_CHARS_def caption_def)
  show ?thesis
  proof (cases "caption = []")
    case True
    then show ?thesis by (auto simp: sc lit_def is_control_def)
  next
    case False
    have "length (filter is_control (take 1024 caption)) \<le> 2" using truncated_controls(2) [OF caption, of 1024] few by linarith
    then show ?thesis using False truncated_controls(1) [OF caption, of 1024] by (simp add: sc)
  qed
qed

section \<open>Witnesses\<close>

text \<open>An image whose upload Telegram does not answer; the mark of the unknown outcome is rolled back.\<close>

definition upload_media_row :: media_row where
  "upload_media_row = witness_media\<lparr>mw_kind := lit ''image'', mw_canonical_sha256 := Some (replicate 32 0),
     mw_local_work_path := Some (lit ''/w/a'')\<rparr>"

definition upload_files :: file_world where
  "upload_files = \<lparr>fw_symlink_metadata = (\<lambda>_. Some (True, False)), fw_canonicalize = (\<lambda>p. Some [p]),
     fw_length = (\<lambda>_. Some 10), fw_sha256 = (\<lambda>_. Inr (hex_encode (replicate 32 0))), fw_parent = (\<lambda>_. None),
     fw_thumbnail = (\<lambda>p. p), fw_create_new = (\<lambda>_. Inr ()), fw_write = (\<lambda>_ _. Inr ())\<rparr>"

definition upload_provider :: storage_upload_provider where
  "upload_provider =
     \<lparr>sp_bot = \<lparr>sb_send = (\<lambda>_. Inl (NetworkError [])), sb_get_chat = (\<lambda>_. Inr OtherChat), sb_get_me = Inr 1,
        sb_get_chat_member = (\<lambda>_ _. Inr MemberOther), sb_edit_caption = (\<lambda>_. Inr ()), sb_cloud_upload_limit_bytes = None\<rparr>,
      sp_storage_chat_id = - 1, sp_max_storage_bytes = Some 20, sp_work_root = None\<rparr>"

definition upload_world :: "plain_value handler_world" where
  "upload_world = \<lparr>hw_env = (\<lambda>_. senv 6 21), hw_others = (\<lambda>_ s. s), hw_fault = (\<lambda>n. if n = 5 then RolledBack else NoFault)\<rparr>"

definition upload_run :: upload_events where
  "upload_run = \<lparr>ue_cancelled_before = False, ue_race = UploadReturned, ue_cancelled_after = False, ue_completion = CompletionEnded\<rparr>"

definition upload_texts :: storage_texts where
  "upload_texts = \<lparr>sx_texts = to_texts delivery_bot, sx_upload = (\<lambda>_. []), sx_caption = (\<lambda>_. [])\<rparr>"

definition upload_job_of :: job where
  "upload_job_of = delivery_job\<lparr>job_command := UploadStorageAsset \<lparr>mjp_media_id = 4, mjp_generation = 0\<rparr>\<rparr>"

lemma upload_command: "job_command upload_job_of = UploadStorageAsset \<lparr>mjp_media_id = 4, mjp_generation = 0\<rparr>"
  by (simp add: upload_job_of_def)

lemma upload_tx: "run_tx upload_world n e op s = (if n = 5 then (s, Inl e) else op (senv 6 21) s)"
  by (simp add: run_tx_def upload_world_def)

lemma upload_row_media: "\<exists>media. find_media plain_store_ops 4 (media_store [] upload_media_row) = Inr (Some media) \<and>
    me_kind media = MediaImage \<and> me_sha256 media = Some (replicate 32 0) \<and> me_local_work_path media = Some (lit ''/w/a'')"
  by (simp add: find_media_def load_media_def media_store_def select_media_def select_one_def upload_media_row_def
      witness_media_def fetch_media_row_def into_media_def preview_metadata_def to_u64_def result_simps
      media_kind_try_from_def media_storage_state_try_from_def caption_sync_state_try_from_def)

lemma upload_sends:
  "\<exists>s1 request e. upload_with_cancellation plain_store_ops upload_files upload_world upload_provider upload_run 4 0
     (media_store [] upload_media_row) = (s1, Some (request, Some (Inl (StorageApi (NetworkError [])))), Inl e) \<and>
     suq_local_work_path request = lit ''/w/a''"
proof -
  obtain media where media: "find_media plain_store_ops 4 (media_store [] upload_media_row) = Inr (Some media)"
    and fields: "me_kind media = MediaImage" "me_sha256 media = Some (replicate 32 0)" "me_local_work_path media = Some (lit ''/w/a'')"
    using upload_row_media by blast
  have receipt: "find_storage_receipt 4 (media_store [] upload_media_row) = Inr None"
    by (simp add: find_storage_receipt_def select_media_def select_one_def media_store_def upload_media_row_def witness_media_def
        fetch_media_row_def media_storage_state_try_from_def)
  have "media_inv upload_media_row"
    by (simp add: media_inv_def media_check_def size_check_def preview_check_def upload_media_row_def witness_media_def in_i32_def)
  then obtain s1 cm where reserved: "reserve_storage_upload (senv 6 21) \<lparr>sur_media_id = 4, sur_generation = 0\<rparr>
      (media_store [] upload_media_row) = (s1, Inr (Reserved 4 21 cm))"
    by (rule reserve_on_pending [OF media_store_ok, of _ upload_media_row _ "\<lparr>sur_media_id = 4, sur_generation = 0\<rparr>" "senv 6 21"])
      (auto simp: media_store_def upload_media_row_def witness_media_def senv_def at_time_def)
  have item: "upload_media_item plain_store_ops upload_files upload_world upload_provider upload_run 4 0 media
      (media_store [] upload_media_row) =
      dispatch_upload plain_store_ops upload_world upload_provider upload_run 4 4 21 cm
        (upload_request upload_provider media (lit ''/w/a'') cm None None) s1"
    by (simp add: upload_media_item_def upload_source_def fields check_local_file_def upload_files_def upload_provider_def
        check_work_root_def exceeds_def upload_video_details_def reserve_and_upload_def upload_tx reserved
        upload_reserved_def)
  have "upload_with_cancellation plain_store_ops upload_files upload_world upload_provider upload_run 4 0
      (media_store [] upload_media_row) =
      dispatch_upload plain_store_ops upload_world upload_provider upload_run 4 4 21 cm
        (upload_request upload_provider media (lit ''/w/a'') cm None None) s1"
    by (simp add: upload_with_cancellation_def upload_tx media receipt item)
  then show ?thesis
    by (simp add: dispatch_upload_def upload_run_def upload_media_def upload_provider_def
        is_ambiguous_upload_error_def settle_unknown_def upload_tx upload_request_def Let_def)
qed

theorem uploaded_file_checked_witness:
  "\<exists>s1 request answer r sha256 bytes.
     upload_with_cancellation plain_store_ops upload_files upload_world upload_provider upload_run 4 0
       (media_store [] upload_media_row) = (s1, Some (request, answer), r) \<and> length sha256 = 32 \<and>
     fw_sha256 upload_files (suq_local_work_path request) = Inr (hex_encode sha256) \<and> \<not> exceeds bytes (Some 20)"
  using upload_sends uploaded_file_checked [of plain_store_ops upload_files upload_world upload_provider upload_run 4 0
      "media_store [] upload_media_row"]
  by (simp add: upload_provider_def) metis

theorem stored_upload_never_repeated_witness:
  "\<exists>s1 call result s2 r answer.
     upload_storage_asset plain_inbox_ops upload_texts upload_files upload_world upload_provider upload_run upload_job_of
       (media_store [] upload_media_row) = (s1, Some call, result) \<and> may_be_stored call \<and>
     finish_job plain_store_ops (senv 7 0) upload_job_of publish_attempt result no_counters s1 = (s2, r) \<and>
     reserve_storage_upload (senv 8 22) \<lparr>sur_media_id = 4, sur_generation = 0\<rparr> s2 = (s2, answer) \<and>
     answer \<noteq> Inr (Reserved 4 22 \<lparr>scm_description = None, scm_tags = [], scm_source_url = None\<rparr>)"
proof -
  obtain s1 request result where run: "upload_storage_asset plain_inbox_ops upload_texts upload_files upload_world upload_provider
      upload_run upload_job_of (media_store [] upload_media_row) =
      (s1, Some (request, Some (Inl (StorageApi (NetworkError [])))), result)"
    using upload_sends
    by (auto simp: upload_storage_asset_def upload_command) (metis (no_types, lifting) case_prod_conv surj_pair)
  have call: "may_be_stored (request, Some (Inl (StorageApi (NetworkError []))))"
    by (simp add: may_be_stored_def is_ambiguous_upload_error_def)
  obtain s2 r where fin: "finish_job (io_store plain_inbox_ops) (senv 7 0) upload_job_of publish_attempt result no_counters s1 = (s2, r)"
    by fastforce
  from stored_upload_never_repeated [OF upload_command _ _ run call fin, of "senv 8 22" 0] show ?thesis
    using run call fin
    by (fastforce simp: others_keep_upload_def upload_world_def media_store_def)
qed

end
