(* ===== verification/Configuration.thy ===== *)
theory Configuration
  imports Inbox "HOL-Library.List_Lexorder"
begin

text \<open>
  The configuration of the applications (\<open>crates/config/src/lib.rs\<close>): the command line, the TOML file with
  its defaults, the overrides of the environment, the validation for a role and the redacted summary. The
  TOML parser, the \<open>url\<close> crate, the file and the environment are arguments; so is the text form of a socket
  address, of which the code uses the address only.
\<close>

section \<open>Constants\<close>

definition MAX_JOB_RETENTION_HORIZON_SECONDS :: nat where
  "MAX_JOB_RETENTION_HORIZON_SECONDS = 10 * 365 * 24 * 60 * 60"

definition MAX_JOB_RETENTION_BATCH_SIZE :: nat where
  "MAX_JOB_RETENTION_BATCH_SIZE = 10000"

definition MAX_JOB_RETENTION_SCAN_SIZE :: nat where
  "MAX_JOB_RETENTION_SCAN_SIZE = 100000"

definition MAX_COMPANION_REQUEST_BODY_LIMIT_BYTES :: nat where
  "MAX_COMPANION_REQUEST_BODY_LIMIT_BYTES = 1024 * 1024"

definition MAX_COMPANION_REQUEST_TIMEOUT_SECONDS :: nat where
  "MAX_COMPANION_REQUEST_TIMEOUT_SECONDS = 60"

definition MAX_YTDLP_ALLOWED_HOSTS :: nat where
  "MAX_YTDLP_ALLOWED_HOSTS = 32"

definition MAX_YTDLP_ALLOWED_HOST_LENGTH :: nat where
  "MAX_YTDLP_ALLOWED_HOST_LENGTH = 253"

definition MAX_YTDLP_POT_PROVIDER_URL_LENGTH :: nat where
  "MAX_YTDLP_POT_PROVIDER_URL_LENGTH = 256"

definition MAX_MEDIA_PROCESSING_TIMEOUT_SECONDS :: nat where
  "MAX_MEDIA_PROCESSING_TIMEOUT_SECONDS = 24 * 60 * 60"

definition MAX_TELEGRAM_UPLOAD_TIMEOUT_SECONDS :: nat where
  "MAX_TELEGRAM_UPLOAD_TIMEOUT_SECONDS = 24 * 60 * 60"

definition TELEGRAM_LOCAL_MAX_UPLOAD_BYTES :: nat where
  "TELEGRAM_LOCAL_MAX_UPLOAD_BYTES = 2000000000"

definition MAX_MEDIA_WORK_FREE_SPACE_RESERVE_BYTES :: nat where
  "MAX_MEDIA_WORK_FREE_SPACE_RESERVE_BYTES = 2 ^ 50"

section \<open>The command line\<close>

datatype app_role = ServerRole | WorkerRole | CompanionRole

fun app_role_text :: "app_role \<Rightarrow> ustring" where
  "app_role_text ServerRole = lit ''server''"
| "app_role_text WorkerRole = lit ''worker''"
| "app_role_text CompanionRole = lit ''companion''"

datatype storage_command =
    StorageList
  | StorageMarkUnknown ustring bool
  | StorageReset ustring
  | StorageAttach ustring ustring ustring ustring ustring ustring

datatype cli_command = Migrate | StorageCli storage_command

record cli_options =
  cli_check_config :: bool
  cli_command_opt :: "cli_command option"
  cli_config_path :: "ustring option"

datatype config_error =
    ReadFile ustring ustring
  | ParseToml ustring
  | InvalidEnvironmentEncoding ustring
  | InvalidValue ustring ustring
  | MissingArgument ustring
  | UnknownArgument ustring
  | HelpRequested
  | MissingSecret ustring

text \<open>The iterator of the arguments is a list; a parser returns what it leaves of it.\<close>

fun next_storage_argument :: "ustring \<Rightarrow> ustring list \<Rightarrow> config_error + ustring \<times> ustring list" where
  "next_storage_argument name [] = Inl (MissingArgument name)"
| "next_storage_argument name (argument # arguments) = Inr (argument, arguments)"

definition parse_mark_unknown :: "ustring list \<Rightarrow> config_error + storage_command \<times> ustring list" where
  "parse_mark_unknown arguments =
     rbind (next_storage_argument (lit ''storage mark-unknown media-id'') arguments) (\<lambda>(media_id, arguments).
       case arguments of
         [] \<Rightarrow> Inr (StorageMarkUnknown media_id False, [])
       | option # arguments \<Rightarrow>
           if option = lit ''--force''
           then (case arguments of
                   confirm # arguments \<Rightarrow>
                     if confirm = lit ''--confirm'' then Inr (StorageMarkUnknown media_id True, arguments)
                     else Inl (MissingArgument (lit ''--confirm''))
                 | [] \<Rightarrow> Inl (MissingArgument (lit ''--confirm'')))
           else Inl (UnknownArgument option))"

definition parse_reset :: "ustring list \<Rightarrow> config_error + storage_command \<times> ustring list" where
  "parse_reset arguments =
     rbind (next_storage_argument (lit ''storage reset media-id'') arguments) (\<lambda>(media_id, arguments).
       case arguments of
         [] \<Rightarrow> Inl (MissingArgument (lit ''--confirm''))
       | option # arguments \<Rightarrow>
           if option = lit ''--confirm'' then Inr (StorageReset media_id, arguments)
           else Inl (UnknownArgument option))"

definition parse_attach :: "ustring list \<Rightarrow> config_error + storage_command \<times> ustring list" where
  "parse_attach arguments =
     rbind (next_storage_argument (lit ''storage attach media-id'') arguments) (\<lambda>(media_id, arguments).
     rbind (next_storage_argument (lit ''storage attach generation'') arguments) (\<lambda>(generation, arguments).
     rbind (next_storage_argument (lit ''storage attach chat-id'') arguments) (\<lambda>(chat_id, arguments).
     rbind (next_storage_argument (lit ''storage attach message-id'') arguments) (\<lambda>(message_id, arguments).
     rbind (next_storage_argument (lit ''storage attach file-id'') arguments) (\<lambda>(file_id, arguments).
     rbind (next_storage_argument (lit ''storage attach file-unique-id'') arguments) (\<lambda>(unique_id, arguments).
       Inr (StorageAttach media_id generation chat_id message_id file_id unique_id, arguments)))))))"

definition parse_storage_command :: "ustring list \<Rightarrow> config_error + storage_command \<times> ustring list" where
  "parse_storage_command arguments =
     (case arguments of
        [] \<Rightarrow> Inl (MissingArgument (lit ''storage command''))
      | subcommand # arguments \<Rightarrow>
          if subcommand = lit ''list'' then Inr (StorageList, arguments)
          else if subcommand = lit ''mark-unknown'' then parse_mark_unknown arguments
          else if subcommand = lit ''reset'' then parse_reset arguments
          else if subcommand = lit ''attach'' then parse_attach arguments
          else Inl (UnknownArgument subcommand))"

lemma parse_mark_unknown_shorter: "parse_mark_unknown args = Inr (c, rest) \<Longrightarrow> length rest < length args"
  by (cases args; cases "tl args"; cases "tl (tl args)") (auto simp: parse_mark_unknown_def split: if_splits)

lemma parse_reset_shorter: "parse_reset args = Inr (c, rest) \<Longrightarrow> length rest < length args"
  by (cases args; cases "tl args") (auto simp: parse_reset_def split: if_splits)

lemma next_storage_argument_Inr: "next_storage_argument name args = Inr (x, rest) \<longleftrightarrow> args = x # rest"
  by (cases args) auto

lemma parse_attach_shorter: "parse_attach args = Inr (c, rest) \<Longrightarrow> length rest < length args"
  by (auto simp: parse_attach_def result_simps next_storage_argument_Inr)

lemma parse_storage_command_shorter:
  "parse_storage_command args = Inr (c, rest) \<Longrightarrow> length rest < length args"
  by (auto simp: parse_storage_command_def split: list.splits if_splits
      dest: parse_mark_unknown_shorter parse_reset_shorter parse_attach_shorter)

function parse_arguments :: "cli_options \<Rightarrow> ustring list \<Rightarrow> config_error + cli_options" where
  "parse_arguments options [] = Inr options"
| "parse_arguments options (argument # arguments) =
     (if argument = lit ''--check-config'' then parse_arguments (options\<lparr>cli_check_config := True\<rparr>) arguments
      else if argument = lit ''migrate'' then parse_arguments (options\<lparr>cli_command_opt := Some Migrate\<rparr>) arguments
      else if argument = lit ''storage''
      then (case parse_storage_command arguments of
              Inl e \<Rightarrow> Inl e
            | Inr (c, rest) \<Rightarrow> parse_arguments (options\<lparr>cli_command_opt := Some (StorageCli c)\<rparr>) rest)
      else if argument = lit ''--config''
      then (case arguments of
              [] \<Rightarrow> Inl (MissingArgument (lit ''--config''))
            | path # rest \<Rightarrow> parse_arguments (options\<lparr>cli_config_path := Some path\<rparr>) rest)
      else if argument = lit ''--help'' \<or> argument = lit ''-h'' then Inl HelpRequested
      else Inl (UnknownArgument argument))"
  by pat_completeness auto
termination
  by (relation "measure (length \<circ> snd)") (auto dest: parse_storage_command_shorter)

definition cli_parse :: "ustring list \<Rightarrow> config_error + cli_options" where
  "cli_parse arguments =
     parse_arguments \<lparr>cli_check_config = False, cli_command_opt = None, cli_config_path = None\<rparr> arguments"

section \<open>The configuration\<close>

text \<open>A \<open>SecretString\<close> is its text; \<open>Display\<close> and \<open>Debug\<close> do not show it. Paths are texts.\<close>

type_synonym secret_string = ustring

definition is_configured :: "secret_string \<Rightarrow> bool" where
  "is_configured secret \<longleftrightarrow> secret \<noteq> []"

definition secret_display :: "secret_string \<Rightarrow> ustring" where
  "secret_display secret = lit ''[REDACTED]''"

datatype log_format = LogJson | LogPretty

fun log_format_text :: "log_format \<Rightarrow> ustring" where
  "log_format_text LogJson = lit ''json''"
| "log_format_text LogPretty = lit ''pretty''"

record server_config =
  sv_listen_address :: ustring
  sv_request_body_limit_bytes :: nat
  sv_request_timeout_seconds :: nat

record database_config =
  dbc_url_env :: ustring
  dbc_max_connections :: nat

record job_retention_config =
  jrc_enabled :: bool
  jrc_succeeded_seconds :: nat
  jrc_cancelled_seconds :: nat
  jrc_failed_seconds :: nat
  jrc_batch_size :: nat
  jrc_scan_size :: nat

record worker_config =
  wkc_poll_interval_seconds :: nat
  wkc_lease_duration_seconds :: nat
  wkc_job_retention :: job_retention_config

record inline_video_config =
  iv_target_max_bytes :: nat
  iv_quality_crf :: nat
  iv_minimum_short_edge :: nat

record media_config =
  mdc_work_root :: ustring
  mdc_work_free_space_reserve_bytes :: nat
  mdc_ffmpeg_path :: ustring
  mdc_ffprobe_path :: ustring
  mdc_ytdlp_path :: ustring
  mdc_ytdlp_format :: ustring
  mdc_ytdlp_allowed_hosts :: "ustring list"
  mdc_ytdlp_pot_provider_url :: ustring
  mdc_processing_timeout_seconds :: nat
  mdc_source_download_max_bytes :: nat
  mdc_normalized_storage_max_bytes :: nat
  mdc_inline_video :: inline_video_config

record companion_config =
  cpc_listen_address :: ustring
  cpc_backend_url :: ustring
  cpc_local_token :: secret_string
  cpc_backend_token :: secret_string
  cpc_request_body_limit_bytes :: nat
  cpc_request_timeout_seconds :: nat

record telegram_config =
  tgc_api_base_url :: ustring
  tgc_admin_user_ids :: "int list"
  tgc_poll_timeout_seconds :: nat
  tgc_upload_timeout_seconds :: nat
  tgc_source_download_max_bytes :: nat
  tgc_local_file_root :: "ustring option"
  tgc_storage_chat_id :: "int option"

record observability_config =
  obc_log_format :: log_format
  obc_log_level :: ustring

record secret_config =
  sec_database_url :: "secret_string option"
  sec_telegram_bot_token :: "secret_string option"
  sec_api_token :: "secret_string option"

record app_config =
  ac_role :: app_role
  ac_config_path :: "ustring option"
  ac_server :: server_config
  ac_worker :: worker_config
  ac_media :: media_config
  ac_companion :: companion_config
  ac_database :: database_config
  ac_telegram :: telegram_config
  ac_observability :: observability_config
  ac_secrets :: secret_config

section \<open>The file\<close>

text \<open>What \<open>toml\<close> deserialises; an absent section has absent fields and empty lists.\<close>

record raw_server_config =
  rsv_listen_address :: "ustring option"
  rsv_request_body_limit_bytes :: "nat option"
  rsv_request_timeout_seconds :: "nat option"

record raw_job_retention_config =
  rjr_enabled :: "bool option"
  rjr_succeeded_seconds :: "nat option"
  rjr_cancelled_seconds :: "nat option"
  rjr_failed_seconds :: "nat option"
  rjr_batch_size :: "nat option"
  rjr_scan_size :: "nat option"

record raw_worker_config =
  rwk_poll_interval_seconds :: "nat option"
  rwk_lease_duration_seconds :: "nat option"
  rwk_job_retention :: raw_job_retention_config

record raw_inline_video_config =
  riv_target_max_bytes :: "nat option"
  riv_quality_crf :: "nat option"
  riv_minimum_short_edge :: "nat option"

record raw_media_config =
  rmd_work_root :: "ustring option"
  rmd_work_free_space_reserve_bytes :: "nat option"
  rmd_ffmpeg_path :: "ustring option"
  rmd_ffprobe_path :: "ustring option"
  rmd_ytdlp_path :: "ustring option"
  rmd_ytdlp_format :: "ustring option"
  rmd_ytdlp_allowed_hosts :: "ustring list"
  rmd_ytdlp_pot_provider_url :: "ustring option"
  rmd_processing_timeout_seconds :: "nat option"
  rmd_source_download_max_bytes :: "nat option"
  rmd_normalized_storage_max_bytes :: "nat option"
  rmd_inline_video :: raw_inline_video_config

record raw_companion_config =
  rcp_listen_address :: "ustring option"
  rcp_backend_url :: "ustring option"
  rcp_local_token :: "ustring option"
  rcp_backend_token :: "ustring option"
  rcp_request_body_limit_bytes :: "nat option"
  rcp_request_timeout_seconds :: "nat option"

record raw_database_config =
  rdb_url_env :: "ustring option"
  rdb_max_connections :: "nat option"

record raw_telegram_config =
  rtg_api_base_url :: "ustring option"
  rtg_admin_user_ids :: "int list"
  rtg_poll_timeout_seconds :: "nat option"
  rtg_upload_timeout_seconds :: "nat option"
  rtg_source_download_max_bytes :: "nat option"
  rtg_local_file_root :: "ustring option"
  rtg_storage_chat_id :: "int option"

record raw_observability_config =
  rob_log_format :: "ustring option"
  rob_log_level :: "ustring option"

record raw_secret_config =
  rse_database_url :: "ustring option"
  rse_telegram_bot_token :: "ustring option"
  rse_api_token :: "ustring option"

record raw_config =
  raw_server :: raw_server_config
  raw_worker :: raw_worker_config
  raw_media :: raw_media_config
  raw_companion :: raw_companion_config
  raw_database :: raw_database_config
  raw_telegram :: raw_telegram_config
  raw_observability :: raw_observability_config
  raw_secrets :: raw_secret_config

section \<open>Addresses and hosts\<close>

type_synonym ipv4 = "32 word"
type_synonym ipv6 = "128 word"

datatype ip_addr = IpV4 ipv4 | IpV6 ipv6

datatype url_host = HostDomain ustring | HostIpv4 ipv4 | HostIpv6 ipv6

definition ipv4_is_loopback :: "ipv4 \<Rightarrow> bool" where
  "ipv4_is_loopback a \<longleftrightarrow> drop_bit 24 a = 127"

definition ipv4_is_private :: "ipv4 \<Rightarrow> bool" where
  "ipv4_is_private a \<longleftrightarrow> drop_bit 24 a = 10 \<or> drop_bit 20 a = 0xAC1 \<or> drop_bit 16 a = 0xC0A8"

definition ipv4_is_link_local :: "ipv4 \<Rightarrow> bool" where
  "ipv4_is_link_local a \<longleftrightarrow> drop_bit 16 a = 0xA9FE"

definition ipv6_is_unique_local :: "ipv6 \<Rightarrow> bool" where
  "ipv6_is_unique_local a \<longleftrightarrow> drop_bit 121 a = 0x7E"

definition ipv6_is_unicast_link_local :: "ipv6 \<Rightarrow> bool" where
  "ipv6_is_unicast_link_local a \<longleftrightarrow> drop_bit 118 a = 0x3FA"

fun ip_is_loopback :: "ip_addr \<Rightarrow> bool" where
  "ip_is_loopback (IpV4 a) = ipv4_is_loopback a"
| "ip_is_loopback (IpV6 a) = (a = 1)"

text \<open>What the configuration asks of other code: the TOML parser, the \<open>url\<close> crate, the address of a socket
  address, the contents of a file, and a variable of the environment with its text if it is UTF-8.\<close>

record 'u config_ops =
  co_toml :: "ustring \<Rightarrow> ustring + raw_config"
  co_url :: "'u url_ops"
  co_url_path :: "'u \<Rightarrow> ustring"
  co_url_query :: "'u \<Rightarrow> ustring option"
  co_url_fragment :: "'u \<Rightarrow> ustring option"
  co_url_host :: "'u \<Rightarrow> url_host option"
  co_socket_address :: "ustring \<Rightarrow> ip_addr option"
  co_read_file :: "ustring \<Rightarrow> ustring + ustring"
  co_env :: "ustring \<Rightarrow> ustring option option"

datatype internal_url_path_policy = PathAny | PathOriginOnly

definition ends_with :: "ustring \<Rightarrow> ustring \<Rightarrow> bool" where
  "ends_with suffix s \<longleftrightarrow> length suffix \<le> length s \<and> drop (length s - length suffix) s = suffix"

definition private_url_host :: "url_host option \<Rightarrow> bool" where
  "private_url_host host =
     (case host of
        Some (HostIpv4 a) \<Rightarrow> a \<noteq> 0 \<and> (ipv4_is_loopback a \<or> ipv4_is_private a \<or> ipv4_is_link_local a)
      | Some (HostIpv6 a) \<Rightarrow> a \<noteq> 0 \<and> (a = 1 \<or> ipv6_is_unique_local a \<or> ipv6_is_unicast_link_local a)
      | Some (HostDomain name) \<Rightarrow>
          eq_ignore_ascii_case name (lit ''localhost'') \<or> 46 \<notin> set name \<or> ends_with (lit ''.local'') name
      | None \<Rightarrow> False)"

definition is_safe_internal_http_url :: "'u config_ops \<Rightarrow> 'u \<Rightarrow> internal_url_path_policy \<Rightarrow> bool" where
  "is_safe_internal_http_url ops url path_policy =
     (if url_scheme (co_url ops) url \<notin> {lit ''http'', lit ''https''} \<or>
         url_host_str (co_url ops) url = None \<or> url_username (co_url ops) url \<noteq> [] \<or>
         url_password (co_url ops) url \<noteq> None \<or> co_url_query ops url \<noteq> None \<or> co_url_fragment ops url \<noteq> None \<or>
         (path_policy = PathOriginOnly \<and> co_url_path ops url \<notin> {[], lit ''/''})
      then False
      else if url_scheme (co_url ops) url = lit ''https'' then True
      else private_url_host (co_url_host ops url))"

definition parse_socket_address :: "'u config_ops \<Rightarrow> ustring \<Rightarrow> ustring \<Rightarrow> config_error + ip_addr" where
  "parse_socket_address ops name value =
     ok_or (co_socket_address ops value)
       (InvalidValue name (lit ''expected an IP address and port such as 127.0.0.1:8080''))"

definition is_supported_ytdlp_host :: "ustring \<Rightarrow> bool" where
  "is_supported_ytdlp_host host \<longleftrightarrow>
     host = lit ''youtube.com'' \<or> ends_with (lit ''.youtube.com'') host \<or> host = lit ''youtu.be'' \<or>
     ends_with (lit ''.youtu.be'') host \<or>
     host \<in> lit ` {''tiktok.com'', ''www.tiktok.com'', ''vm.tiktok.com'', ''vt.tiktok.com'', ''m.tiktok.com'',
                    ''instagram.com'', ''www.instagram.com'', ''x.com'', ''www.x.com'', ''twitter.com'',
                    ''www.twitter.com'', ''t.co''}"

text \<open>One entry of the list of hosts; the scheme of its URL is \<open>https\<close>, with the default port 443.\<close>

definition strip_dot :: "ustring \<Rightarrow> ustring" where
  "strip_dot host = (if ends_with (lit ''.'') host then butlast host else host)"

fun is_domain :: "url_host option \<Rightarrow> bool" where
  "is_domain (Some (HostDomain _)) = True"
| "is_domain _ = False"

definition bad_host_text :: "ustring \<Rightarrow> bool" where
  "bad_host_text value \<longleftrightarrow>
     utf8_len value > MAX_YTDLP_ALLOWED_HOST_LENGTH \<or> list_ex is_control value \<or>
     list_ex (\<lambda>c. c \<in> set (lit ''*/?#'')) value"

definition parse_ytdlp_host :: "'u config_ops \<Rightarrow> ustring \<Rightarrow> ustring \<Rightarrow> config_error + ustring" where
  "parse_ytdlp_host ops name raw =
     (let value = trim raw; invalid = (\<lambda>reason. Inl (InvalidValue name (lit reason))) in
      if value = [] then invalid ''must not contain empty host entries''
      else if bad_host_text value
      then invalid ''entries must be bounded hostnames without wildcards, paths, or control characters''
      else case url_parse (co_url ops) (lit ''https://'' @ value) of
        None \<Rightarrow> invalid ''entries must be valid hostnames''
      | Some parsed \<Rightarrow>
          if url_username (co_url ops) parsed \<noteq> [] \<or> url_password (co_url ops) parsed \<noteq> None \<or>
             co_url_query ops parsed \<noteq> None \<or> co_url_fragment ops parsed \<noteq> None \<or> co_url_path ops parsed \<noteq> lit ''/''
          then invalid ''entries must be hostnames without credentials, paths, queries, or fragments''
          else if url_port (co_url ops) parsed \<notin> {None, Some 443}
          then invalid ''entries must not use a non-default port''
          else case url_host_str (co_url ops) parsed of
            None \<Rightarrow> invalid ''entries must contain a hostname''
          | Some host \<Rightarrow>
              let host = strip_dot host in
              if host = [] \<or> utf8_len host > MAX_YTDLP_ALLOWED_HOST_LENGTH \<or> ends_with (lit ''.'') host \<or>
                 \<not> is_domain (co_url_host ops parsed) \<or> [] \<in> set (split_on 46 host)
              then invalid ''entries must be non-empty DNS hostnames, not IP literals''
              else let host = to_ascii_lowercase host in
                if is_supported_ytdlp_host host then Inr host
                else invalid ''entries must belong to a supported YouTube, TikTok, Instagram, or X provider family'')"

definition parse_ytdlp_allowed_hosts :: "'u config_ops \<Rightarrow> ustring \<Rightarrow> ustring list \<Rightarrow> config_error + ustring list" where
  "parse_ytdlp_allowed_hosts ops name raws =
     (if length raws > MAX_YTDLP_ALLOWED_HOSTS
      then Inl (InvalidValue name (lit ''must contain at most 32 host entries''))
      else map_ok (\<lambda>hosts. remdups_adj (sort hosts)) (collect_results (map (parse_ytdlp_host ops name) raws)))"

definition parse_ytdlp_pot_provider_url :: "'u config_ops \<Rightarrow> ustring \<Rightarrow> ustring \<Rightarrow> config_error + ustring" where
  "parse_ytdlp_pot_provider_url ops name value =
     (let value = trim value in
      if value = [] \<or> utf8_len value > MAX_YTDLP_POT_PROVIDER_URL_LENGTH
      then Inl (InvalidValue name (lit ''must be a bounded HTTP(S) provider origin''))
      else case url_parse (co_url ops) value of
        None \<Rightarrow> Inl (InvalidValue name (lit ''must be a valid HTTP(S) provider URL''))
      | Some parsed \<Rightarrow>
          if is_safe_internal_http_url ops parsed PathOriginOnly then Inr value
          else Inl (InvalidValue name (lit ''must be an HTTP(S) provider origin without credentials, path, query, or fragment; HTTP hosts must be private'')))"

section \<open>Numbers and names\<close>

definition is_digit :: "nat \<Rightarrow> bool" where
  "is_digit c \<longleftrightarrow> 48 \<le> c \<and> c \<le> 57"

definition digits_value :: "ustring \<Rightarrow> nat" where
  "digits_value s = foldl (\<lambda>n c. 10 * n + (c - 48)) 0 s"

definition parse_digits :: "ustring \<Rightarrow> nat option" where
  "parse_digits s = (if s \<noteq> [] \<and> list_all is_digit s then Some (digits_value s) else None)"

text \<open>\<open>FromStr\<close> of an unsigned and of a signed integer of \<open>bits\<close> bits.\<close>

definition parse_unsigned :: "nat \<Rightarrow> ustring \<Rightarrow> nat option" where
  "parse_unsigned bits s =
     Option.bind (parse_digits (if take 1 s = lit ''+'' then drop 1 s else s)) (\<lambda>n.
       if n < 2 ^ bits then Some n else None)"

definition parse_signed :: "nat \<Rightarrow> ustring \<Rightarrow> int option" where
  "parse_signed bits s =
     Option.bind (if take 1 s = lit ''-'' then map_option (\<lambda>n. - int n) (parse_digits (drop 1 s))
                  else map_option int (parse_digits (if take 1 s = lit ''+'' then drop 1 s else s))) (\<lambda>n.
       if - (2 ^ (bits - 1)) \<le> n \<and> n < 2 ^ (bits - 1) then Some n else None)"

definition parse_bool :: "ustring \<Rightarrow> bool option" where
  "parse_bool s = (if s = lit ''true'' then Some True else if s = lit ''false'' then Some False else None)"

definition parse_log_format :: "ustring \<Rightarrow> config_error + log_format" where
  "parse_log_format value =
     (let value = to_ascii_lowercase value in
      if value = lit ''json'' then Inr LogJson
      else if value = lit ''pretty'' then Inr LogPretty
      else Inl (InvalidValue (lit ''observability.log_format'') (lit ''expected json or pretty'')))"

definition normalize_log_level :: "ustring \<Rightarrow> config_error + ustring" where
  "normalize_log_level value =
     (let normalized = to_ascii_lowercase value in
      if normalized \<in> {lit ''trace'', lit ''debug'', lit ''info'', lit ''warn'', lit ''error''} then Inr normalized
      else Inl (InvalidValue (lit ''observability.log_level'') (lit ''expected trace, debug, info, warn, or error'')))"

definition parse_admin_user_ids :: "ustring \<Rightarrow> ustring \<Rightarrow> config_error + int list" where
  "parse_admin_user_ids name value =
     collect_results (map (\<lambda>part. ok_or (parse_signed 64 (trim part))
       (InvalidValue name (lit ''expected comma-separated positive Telegram user IDs''))) (split_on 44 value))"

section \<open>Reading the file\<close>

definition server_from_raw :: "raw_server_config \<Rightarrow> server_config" where
  "server_from_raw raw =
     \<lparr>sv_listen_address = unwrap_or (rsv_listen_address raw) (lit ''0.0.0.0:8080''),
      sv_request_body_limit_bytes = unwrap_or (rsv_request_body_limit_bytes raw) 1048576,
      sv_request_timeout_seconds = unwrap_or (rsv_request_timeout_seconds raw) 30\<rparr>"

definition retention_from_raw :: "raw_job_retention_config \<Rightarrow> job_retention_config" where
  "retention_from_raw raw =
     \<lparr>jrc_enabled = unwrap_or (rjr_enabled raw) True,
      jrc_succeeded_seconds = unwrap_or (rjr_succeeded_seconds raw) (30 * 24 * 60 * 60),
      jrc_cancelled_seconds = unwrap_or (rjr_cancelled_seconds raw) (90 * 24 * 60 * 60),
      jrc_failed_seconds = unwrap_or (rjr_failed_seconds raw) (365 * 24 * 60 * 60),
      jrc_batch_size = unwrap_or (rjr_batch_size raw) 128,
      jrc_scan_size = unwrap_or (rjr_scan_size raw) 1024\<rparr>"

definition worker_from_raw :: "raw_worker_config \<Rightarrow> worker_config" where
  "worker_from_raw raw =
     \<lparr>wkc_poll_interval_seconds = unwrap_or (rwk_poll_interval_seconds raw) 5,
      wkc_lease_duration_seconds = unwrap_or (rwk_lease_duration_seconds raw) 60,
      wkc_job_retention = retention_from_raw (rwk_job_retention raw)\<rparr>"

definition inline_video_from_raw :: "raw_inline_video_config \<Rightarrow> inline_video_config" where
  "inline_video_from_raw raw =
     \<lparr>iv_target_max_bytes = unwrap_or (riv_target_max_bytes raw) (14 * 1024 * 1024),
      iv_quality_crf = unwrap_or (riv_quality_crf raw) 27,
      iv_minimum_short_edge = unwrap_or (riv_minimum_short_edge raw) 480\<rparr>"

definition media_from_raw :: "'u config_ops \<Rightarrow> raw_media_config \<Rightarrow> config_error + media_config" where
  "media_from_raw ops raw =
     rbind (parse_ytdlp_allowed_hosts ops (lit ''media.ytdlp_allowed_hosts'') (rmd_ytdlp_allowed_hosts raw)) (\<lambda>hosts.
     rbind (parse_ytdlp_pot_provider_url ops (lit ''media.ytdlp_pot_provider_url'')
              (unwrap_or (rmd_ytdlp_pot_provider_url raw) (lit ''http://127.0.0.1:4416''))) (\<lambda>pot_provider_url.
       Inr \<lparr>mdc_work_root = unwrap_or (rmd_work_root raw) (lit ''/var/lib/sooqa/work''),
            mdc_work_free_space_reserve_bytes =
              unwrap_or (rmd_work_free_space_reserve_bytes raw) (16 * 1024 * 1024 * 1024),
            mdc_ffmpeg_path = unwrap_or (rmd_ffmpeg_path raw) (lit ''ffmpeg''),
            mdc_ffprobe_path = unwrap_or (rmd_ffprobe_path raw) (lit ''ffprobe''),
            mdc_ytdlp_path = unwrap_or (rmd_ytdlp_path raw) (lit ''yt-dlp''),
            mdc_ytdlp_format = unwrap_or (rmd_ytdlp_format raw) (lit ''bestvideo*+bestaudio/best''),
            mdc_ytdlp_allowed_hosts = hosts, mdc_ytdlp_pot_provider_url = pot_provider_url,
            mdc_processing_timeout_seconds = unwrap_or (rmd_processing_timeout_seconds raw) 3600,
            mdc_source_download_max_bytes = unwrap_or (rmd_source_download_max_bytes raw) (8 * 1024 * 1024 * 1024),
            mdc_normalized_storage_max_bytes = unwrap_or (rmd_normalized_storage_max_bytes raw) 1900000000,
            mdc_inline_video = inline_video_from_raw (rmd_inline_video raw)\<rparr>))"

definition companion_from_raw :: "raw_companion_config \<Rightarrow> companion_config" where
  "companion_from_raw raw =
     \<lparr>cpc_listen_address = unwrap_or (rcp_listen_address raw) (lit ''127.0.0.1:47831''),
      cpc_backend_url = unwrap_or (rcp_backend_url raw) (lit ''http://127.0.0.1:8080''),
      cpc_local_token = unwrap_or (rcp_local_token raw) [],
      cpc_backend_token = unwrap_or (rcp_backend_token raw) [],
      cpc_request_body_limit_bytes = unwrap_or (rcp_request_body_limit_bytes raw) (64 * 1024),
      cpc_request_timeout_seconds = unwrap_or (rcp_request_timeout_seconds raw) 15\<rparr>"

definition database_from_raw :: "raw_database_config \<Rightarrow> database_config" where
  "database_from_raw raw =
     \<lparr>dbc_url_env = unwrap_or (rdb_url_env raw) (lit ''DATABASE_URL''),
      dbc_max_connections = unwrap_or (rdb_max_connections raw) 20\<rparr>"

definition nonempty :: "ustring \<Rightarrow> ustring option" where
  "nonempty path = (if path = [] then None else Some path)"

definition telegram_from_raw :: "raw_telegram_config \<Rightarrow> telegram_config" where
  "telegram_from_raw raw =
     \<lparr>tgc_api_base_url = unwrap_or (rtg_api_base_url raw) (lit ''https://api.telegram.org''),
      tgc_admin_user_ids = rtg_admin_user_ids raw,
      tgc_poll_timeout_seconds = unwrap_or (rtg_poll_timeout_seconds raw) 30,
      tgc_upload_timeout_seconds = unwrap_or (rtg_upload_timeout_seconds raw) 3600,
      tgc_source_download_max_bytes = unwrap_or (rtg_source_download_max_bytes raw) (2 * 1024 * 1024 * 1024),
      tgc_local_file_root = Option.bind (rtg_local_file_root raw) nonempty,
      tgc_storage_chat_id = rtg_storage_chat_id raw\<rparr>"

definition secrets_from_raw :: "raw_secret_config \<Rightarrow> secret_config" where
  "secrets_from_raw raw =
     \<lparr>sec_database_url = rse_database_url raw, sec_telegram_bot_token = rse_telegram_bot_token raw,
      sec_api_token = rse_api_token raw\<rparr>"

definition from_toml_str :: "'u config_ops \<Rightarrow> app_role \<Rightarrow> ustring option \<Rightarrow> ustring \<Rightarrow> config_error + app_config" where
  "from_toml_str ops role config_path contents =
     rbind (map_err ParseToml (co_toml ops contents)) (\<lambda>raw.
     rbind (parse_log_format (unwrap_or (rob_log_format (raw_observability raw)) (lit ''json''))) (\<lambda>log_format.
     rbind (normalize_log_level (unwrap_or (rob_log_level (raw_observability raw)) (lit ''info''))) (\<lambda>log_level.
     rbind (media_from_raw ops (raw_media raw)) (\<lambda>media.
       Inr \<lparr>ac_role = role, ac_config_path = config_path, ac_server = server_from_raw (raw_server raw),
            ac_worker = worker_from_raw (raw_worker raw), ac_media = media,
            ac_companion = companion_from_raw (raw_companion raw), ac_database = database_from_raw (raw_database raw),
            ac_telegram = telegram_from_raw (raw_telegram raw),
            ac_observability = \<lparr>obc_log_format = log_format, obc_log_level = log_level\<rparr>,
            ac_secrets = secrets_from_raw (raw_secrets raw)\<rparr>))))"

section \<open>The environment\<close>

type_synonym env_get = "ustring \<Rightarrow> config_error + ustring option"

definition optional_env_string :: "'u config_ops \<Rightarrow> env_get" where
  "optional_env_string ops name =
     (case co_env ops name of
        None \<Rightarrow> Inr None
      | Some None \<Rightarrow> Inl (InvalidEnvironmentEncoding name)
      | Some (Some value) \<Rightarrow> Inr (Some value))"

definition optional_env_value ::
  "env_get \<Rightarrow> (ustring \<Rightarrow> 'a option) \<Rightarrow> ustring \<Rightarrow> ustring \<Rightarrow> config_error + 'a option" where
  "optional_env_value get parse name reason =
     rbind (get name) (\<lambda>value.
       case value of
         None \<Rightarrow> Inr None
       | Some text \<Rightarrow> map_ok Some (ok_or (parse text) (InvalidValue name reason)))"

definition optional_positive_integer :: "nat \<Rightarrow> env_get \<Rightarrow> ustring \<Rightarrow> config_error + nat option" where
  "optional_positive_integer bits get name =
     optional_env_value get (parse_unsigned bits) name (lit ''expected a positive integer'')"

definition optional_socket_address ::
  "'u config_ops \<Rightarrow> env_get \<Rightarrow> ustring \<Rightarrow> ustring \<Rightarrow> config_error + ustring option" where
  "optional_socket_address ops get name config_name =
     rbind (get name) (\<lambda>value.
       case value of
         None \<Rightarrow> Inr None
       | Some text \<Rightarrow> map_ok (\<lambda>_. Some text) (parse_socket_address ops config_name text))"

text \<open>\<open>if let Some(value) = ... { self.field = value; }\<close>.\<close>

definition assign :: "config_error + 'a option \<Rightarrow> ('a \<Rightarrow> 'c \<Rightarrow> 'c) \<Rightarrow> 'c \<Rightarrow> config_error + 'c" where
  "assign value set_field c = map_ok (\<lambda>v. case v of None \<Rightarrow> c | Some x \<Rightarrow> set_field x c) value"

definition server_apply_environment :: "'u config_ops \<Rightarrow> env_get \<Rightarrow> server_config \<Rightarrow> config_error + server_config" where
  "server_apply_environment ops get =
     assign (optional_socket_address ops get (lit ''SOOQA_SERVER_LISTEN_ADDRESS'') (lit ''server.listen_address''))
       (\<lambda>v c. c\<lparr>sv_listen_address := v\<rparr>)"

definition retention_apply_environment :: "env_get \<Rightarrow> job_retention_config \<Rightarrow> config_error + job_retention_config" where
  "retention_apply_environment get c =
     rbind (assign (optional_env_value get parse_bool (lit ''SOOQA_WORKER_JOB_RETENTION_ENABLED'')
                      (lit ''expected true or false'')) (\<lambda>v c. c\<lparr>jrc_enabled := v\<rparr>) c) (\<lambda>c.
     rbind (assign (optional_positive_integer 64 get (lit ''SOOQA_WORKER_JOB_RETENTION_SUCCEEDED_SECONDS''))
              (\<lambda>v c. c\<lparr>jrc_succeeded_seconds := v\<rparr>) c) (\<lambda>c.
     rbind (assign (optional_positive_integer 64 get (lit ''SOOQA_WORKER_JOB_RETENTION_CANCELLED_SECONDS''))
              (\<lambda>v c. c\<lparr>jrc_cancelled_seconds := v\<rparr>) c) (\<lambda>c.
     rbind (assign (optional_positive_integer 64 get (lit ''SOOQA_WORKER_JOB_RETENTION_FAILED_SECONDS''))
              (\<lambda>v c. c\<lparr>jrc_failed_seconds := v\<rparr>) c) (\<lambda>c.
     rbind (assign (optional_positive_integer 64 get (lit ''SOOQA_WORKER_JOB_RETENTION_BATCH_SIZE''))
              (\<lambda>v c. c\<lparr>jrc_batch_size := v\<rparr>) c) (\<lambda>c.
       assign (optional_positive_integer 64 get (lit ''SOOQA_WORKER_JOB_RETENTION_SCAN_SIZE''))
         (\<lambda>v c. c\<lparr>jrc_scan_size := v\<rparr>) c)))))"

definition worker_apply_environment :: "env_get \<Rightarrow> worker_config \<Rightarrow> config_error + worker_config" where
  "worker_apply_environment get c =
     rbind (assign (optional_positive_integer 64 get (lit ''SOOQA_WORKER_POLL_INTERVAL_SECONDS''))
              (\<lambda>v c. c\<lparr>wkc_poll_interval_seconds := v\<rparr>) c) (\<lambda>c.
     rbind (assign (optional_positive_integer 64 get (lit ''SOOQA_WORKER_LEASE_DURATION_SECONDS''))
              (\<lambda>v c. c\<lparr>wkc_lease_duration_seconds := v\<rparr>) c) (\<lambda>c.
       map_ok (\<lambda>r. c\<lparr>wkc_job_retention := r\<rparr>) (retention_apply_environment get (wkc_job_retention c))))"

definition inline_video_apply_environment :: "env_get \<Rightarrow> inline_video_config \<Rightarrow> config_error + inline_video_config" where
  "inline_video_apply_environment get c =
     rbind (assign (optional_positive_integer 64 get (lit ''SOOQA_MEDIA_INLINE_VIDEO_TARGET_MAX_BYTES''))
              (\<lambda>v c. c\<lparr>iv_target_max_bytes := v\<rparr>) c) (\<lambda>c.
     rbind (assign (optional_env_value get (parse_unsigned 8) (lit ''SOOQA_MEDIA_INLINE_VIDEO_QUALITY_CRF'')
                      (lit ''expected an integer between 0 and 51'')) (\<lambda>v c. c\<lparr>iv_quality_crf := v\<rparr>) c) (\<lambda>c.
       assign (optional_positive_integer 32 get (lit ''SOOQA_MEDIA_INLINE_VIDEO_MINIMUM_SHORT_EDGE''))
         (\<lambda>v c. c\<lparr>iv_minimum_short_edge := v\<rparr>) c))"

text \<open>The text of the list of hosts; a blank one is the empty list.\<close>

definition env_ytdlp_hosts :: "'u config_ops \<Rightarrow> env_get \<Rightarrow> config_error + ustring list option" where
  "env_ytdlp_hosts ops get =
     rbind (get (lit ''SOOQA_MEDIA_YTDLP_ALLOWED_HOSTS'')) (\<lambda>value.
       case value of
         None \<Rightarrow> Inr None
       | Some text \<Rightarrow>
           map_ok Some (parse_ytdlp_allowed_hosts ops (lit ''SOOQA_MEDIA_YTDLP_ALLOWED_HOSTS'')
             (if trim text = [] then [] else split_on 44 text)))"

definition env_pot_provider_url :: "'u config_ops \<Rightarrow> env_get \<Rightarrow> config_error + ustring option" where
  "env_pot_provider_url ops get =
     rbind (get (lit ''SOOQA_MEDIA_YTDLP_POT_PROVIDER_URL'')) (\<lambda>value.
       case value of
         None \<Rightarrow> Inr None
       | Some text \<Rightarrow>
           map_ok Some (parse_ytdlp_pot_provider_url ops (lit ''SOOQA_MEDIA_YTDLP_POT_PROVIDER_URL'') text))"

definition media_apply_environment :: "'u config_ops \<Rightarrow> env_get \<Rightarrow> media_config \<Rightarrow> config_error + media_config" where
  "media_apply_environment ops get c =
     rbind (assign (get (lit ''SOOQA_MEDIA_FFMPEG_PATH'')) (\<lambda>v c. c\<lparr>mdc_ffmpeg_path := v\<rparr>) c) (\<lambda>c.
     rbind (assign (get (lit ''SOOQA_MEDIA_WORK_ROOT'')) (\<lambda>v c. c\<lparr>mdc_work_root := v\<rparr>) c) (\<lambda>c.
     rbind (assign (optional_positive_integer 64 get (lit ''SOOQA_MEDIA_WORK_FREE_SPACE_RESERVE_BYTES''))
              (\<lambda>v c. c\<lparr>mdc_work_free_space_reserve_bytes := v\<rparr>) c) (\<lambda>c.
     rbind (assign (get (lit ''SOOQA_MEDIA_FFPROBE_PATH'')) (\<lambda>v c. c\<lparr>mdc_ffprobe_path := v\<rparr>) c) (\<lambda>c.
     rbind (assign (get (lit ''SOOQA_MEDIA_YTDLP_PATH'')) (\<lambda>v c. c\<lparr>mdc_ytdlp_path := v\<rparr>) c) (\<lambda>c.
     rbind (assign (get (lit ''SOOQA_MEDIA_YTDLP_FORMAT'')) (\<lambda>v c. c\<lparr>mdc_ytdlp_format := v\<rparr>) c) (\<lambda>c.
     rbind (assign (env_ytdlp_hosts ops get) (\<lambda>v c. c\<lparr>mdc_ytdlp_allowed_hosts := v\<rparr>) c) (\<lambda>c.
     rbind (assign (env_pot_provider_url ops get) (\<lambda>v c. c\<lparr>mdc_ytdlp_pot_provider_url := v\<rparr>) c) (\<lambda>c.
     rbind (assign (optional_positive_integer 64 get (lit ''SOOQA_MEDIA_PROCESSING_TIMEOUT_SECONDS''))
              (\<lambda>v c. c\<lparr>mdc_processing_timeout_seconds := v\<rparr>) c) (\<lambda>c.
     rbind (assign (optional_positive_integer 64 get (lit ''SOOQA_MEDIA_SOURCE_DOWNLOAD_MAX_BYTES''))
              (\<lambda>v c. c\<lparr>mdc_source_download_max_bytes := v\<rparr>) c) (\<lambda>c.
     rbind (assign (optional_positive_integer 64 get (lit ''SOOQA_MEDIA_NORMALIZED_STORAGE_MAX_BYTES''))
              (\<lambda>v c. c\<lparr>mdc_normalized_storage_max_bytes := v\<rparr>) c) (\<lambda>c.
       map_ok (\<lambda>v. c\<lparr>mdc_inline_video := v\<rparr>) (inline_video_apply_environment get (mdc_inline_video c)))))))))))))"

definition companion_apply_environment ::
  "'u config_ops \<Rightarrow> env_get \<Rightarrow> companion_config \<Rightarrow> config_error + companion_config" where
  "companion_apply_environment ops get c =
     rbind (assign (optional_socket_address ops get (lit ''SOOQA_COMPANION_LISTEN_ADDRESS'')
                      (lit ''companion.listen_address'')) (\<lambda>v c. c\<lparr>cpc_listen_address := v\<rparr>) c) (\<lambda>c.
     rbind (assign (get (lit ''SOOQA_COMPANION_BACKEND_URL'')) (\<lambda>v c. c\<lparr>cpc_backend_url := v\<rparr>) c) (\<lambda>c.
     rbind (assign (get (lit ''SOOQA_COMPANION_LOCAL_TOKEN'')) (\<lambda>v c. c\<lparr>cpc_local_token := v\<rparr>) c) (\<lambda>c.
     rbind (assign (get (lit ''SOOQA_COMPANION_BACKEND_TOKEN'')) (\<lambda>v c. c\<lparr>cpc_backend_token := v\<rparr>) c) (\<lambda>c.
     rbind (assign (optional_positive_integer 64 get (lit ''SOOQA_COMPANION_REQUEST_BODY_LIMIT_BYTES''))
              (\<lambda>v c. c\<lparr>cpc_request_body_limit_bytes := v\<rparr>) c) (\<lambda>c.
       assign (optional_positive_integer 64 get (lit ''SOOQA_COMPANION_REQUEST_TIMEOUT_SECONDS''))
         (\<lambda>v c. c\<lparr>cpc_request_timeout_seconds := v\<rparr>) c)))))"

definition database_apply_environment :: "env_get \<Rightarrow> database_config \<Rightarrow> config_error + database_config" where
  "database_apply_environment get =
     assign (optional_positive_integer 32 get (lit ''SOOQA_DATABASE_MAX_CONNECTIONS''))
       (\<lambda>v c. c\<lparr>dbc_max_connections := v\<rparr>)"

definition env_admin_user_ids :: "env_get \<Rightarrow> config_error + int list option" where
  "env_admin_user_ids get =
     rbind (get (lit ''SOOQA_TELEGRAM_ADMIN_USER_IDS'')) (\<lambda>value.
       case value of
         None \<Rightarrow> Inr None
       | Some text \<Rightarrow> map_ok Some (parse_admin_user_ids (lit ''SOOQA_TELEGRAM_ADMIN_USER_IDS'') text))"

definition telegram_apply_environment :: "env_get \<Rightarrow> telegram_config \<Rightarrow> config_error + telegram_config" where
  "telegram_apply_environment get c =
     rbind (assign (get (lit ''SOOQA_TELEGRAM_API_BASE_URL'')) (\<lambda>v c. c\<lparr>tgc_api_base_url := v\<rparr>) c) (\<lambda>c.
     rbind (assign (env_admin_user_ids get) (\<lambda>v c. c\<lparr>tgc_admin_user_ids := v\<rparr>) c) (\<lambda>c.
     rbind (assign (optional_positive_integer 64 get (lit ''SOOQA_TELEGRAM_POLL_TIMEOUT_SECONDS''))
              (\<lambda>v c. c\<lparr>tgc_poll_timeout_seconds := v\<rparr>) c) (\<lambda>c.
     rbind (assign (optional_positive_integer 64 get (lit ''SOOQA_TELEGRAM_UPLOAD_TIMEOUT_SECONDS''))
              (\<lambda>v c. c\<lparr>tgc_upload_timeout_seconds := v\<rparr>) c) (\<lambda>c.
     rbind (assign (optional_positive_integer 64 get (lit ''SOOQA_TELEGRAM_SOURCE_DOWNLOAD_MAX_BYTES''))
              (\<lambda>v c. c\<lparr>tgc_source_download_max_bytes := v\<rparr>) c) (\<lambda>c.
     rbind (assign (get (lit ''SOOQA_TELEGRAM_LOCAL_FILE_ROOT'')) (\<lambda>v c. c\<lparr>tgc_local_file_root := nonempty v\<rparr>) c) (\<lambda>c.
       assign (optional_env_value get (parse_signed 64) (lit ''SOOQA_TELEGRAM_STORAGE_CHAT_ID'')
                 (lit ''expected a negative Telegram chat ID'')) (\<lambda>v c. c\<lparr>tgc_storage_chat_id := Some v\<rparr>) c))))))"

definition observability_apply_environment :: "env_get \<Rightarrow> observability_config \<Rightarrow> config_error + observability_config" where
  "observability_apply_environment get c =
     rbind (get (lit ''SOOQA_OBSERVABILITY_LOG_FORMAT'')) (\<lambda>value.
     rbind (case value of None \<Rightarrow> Inr c | Some v \<Rightarrow> map_ok (\<lambda>f. c\<lparr>obc_log_format := f\<rparr>) (parse_log_format v)) (\<lambda>c.
     rbind (get (lit ''SOOQA_OBSERVABILITY_LOG_LEVEL'')) (\<lambda>value.
       case value of None \<Rightarrow> Inr c | Some v \<Rightarrow> map_ok (\<lambda>l. c\<lparr>obc_log_level := l\<rparr>) (normalize_log_level v))))"

definition secrets_apply_environment :: "env_get \<Rightarrow> ustring \<Rightarrow> secret_config \<Rightarrow> config_error + secret_config" where
  "secrets_apply_environment get database_url_env c =
     rbind (get (lit ''SOOQA_DATABASE_URL'')) (\<lambda>value.
     rbind (case value of
              Some v \<Rightarrow> Inr (c\<lparr>sec_database_url := Some v\<rparr>)
            | None \<Rightarrow> assign (get database_url_env) (\<lambda>v c. c\<lparr>sec_database_url := Some v\<rparr>) c) (\<lambda>c.
     rbind (assign (get (lit ''SOOQA_TELEGRAM_BOT_TOKEN'')) (\<lambda>v c. c\<lparr>sec_telegram_bot_token := Some v\<rparr>) c) (\<lambda>c.
       assign (get (lit ''SOOQA_API_TOKEN'')) (\<lambda>v c. c\<lparr>sec_api_token := Some v\<rparr>) c)))"

definition apply_environment :: "'u config_ops \<Rightarrow> app_config \<Rightarrow> config_error + app_config" where
  "apply_environment ops c =
     (let get = optional_env_string ops in
      rbind (server_apply_environment ops get (ac_server c)) (\<lambda>server.
      rbind (worker_apply_environment get (ac_worker c)) (\<lambda>worker.
      rbind (media_apply_environment ops get (ac_media c)) (\<lambda>media.
      rbind (companion_apply_environment ops get (ac_companion c)) (\<lambda>companion.
      rbind (observability_apply_environment get (ac_observability c)) (\<lambda>observability.
      rbind (secrets_apply_environment get (dbc_url_env (ac_database c)) (ac_secrets c)) (\<lambda>secrets.
      rbind (database_apply_environment get (ac_database c)) (\<lambda>database.
      rbind (telegram_apply_environment get (ac_telegram c)) (\<lambda>telegram.
        Inr (c\<lparr>ac_server := server, ac_worker := worker, ac_media := media, ac_companion := companion,
              ac_observability := observability, ac_secrets := secrets, ac_database := database,
              ac_telegram := telegram\<rparr>))))))))))"

section \<open>Validation\<close>

definition require :: "bool \<Rightarrow> string \<Rightarrow> string \<Rightarrow> config_error + unit" where
  "require ok name reason = (if ok then Inr () else Inl (InvalidValue (lit name) (lit reason)))"

definition server_validate :: "'u config_ops \<Rightarrow> server_config \<Rightarrow> config_error + unit" where
  "server_validate ops c =
     rbind (parse_socket_address ops (lit ''server.listen_address'') (sv_listen_address c)) (\<lambda>_.
     rbind (require (sv_request_body_limit_bytes c \<noteq> 0) ''server.request_body_limit_bytes'' ''must be greater than zero'') (\<lambda>_.
       require (sv_request_timeout_seconds c \<noteq> 0) ''server.request_timeout_seconds'' ''must be greater than zero''))"

definition horizon_validate :: "string \<Rightarrow> nat \<Rightarrow> config_error + unit" where
  "horizon_validate name value =
     require (value \<noteq> 0 \<and> value \<le> MAX_JOB_RETENTION_HORIZON_SECONDS) name
       ''must be greater than zero and at most ten years''"

definition retention_validate :: "job_retention_config \<Rightarrow> config_error + unit" where
  "retention_validate c =
     rbind (horizon_validate ''worker.job_retention.succeeded_seconds'' (jrc_succeeded_seconds c)) (\<lambda>_.
     rbind (horizon_validate ''worker.job_retention.cancelled_seconds'' (jrc_cancelled_seconds c)) (\<lambda>_.
     rbind (horizon_validate ''worker.job_retention.failed_seconds'' (jrc_failed_seconds c)) (\<lambda>_.
     rbind (require (jrc_batch_size c \<noteq> 0 \<and> jrc_batch_size c \<le> MAX_JOB_RETENTION_BATCH_SIZE)
              ''worker.job_retention.batch_size'' ''must be greater than zero and at most 10000'') (\<lambda>_.
       require (jrc_batch_size c \<le> jrc_scan_size c \<and> jrc_scan_size c \<le> MAX_JOB_RETENTION_SCAN_SIZE)
         ''worker.job_retention.scan_size'' ''must be at least batch_size and at most 100000''))))"

definition worker_validate :: "worker_config \<Rightarrow> config_error + unit" where
  "worker_validate c =
     rbind (require (wkc_poll_interval_seconds c \<noteq> 0) ''worker.poll_interval_seconds'' ''must be greater than zero'') (\<lambda>_.
     rbind (require (wkc_lease_duration_seconds c \<noteq> 0) ''worker.lease_duration_seconds'' ''must be greater than zero'') (\<lambda>_.
       retention_validate (wkc_job_retention c)))"

definition inline_video_validate :: "inline_video_config \<Rightarrow> config_error + unit" where
  "inline_video_validate c =
     rbind (require (iv_target_max_bytes c \<noteq> 0) ''media.inline_video.target_max_bytes'' ''must be greater than zero'') (\<lambda>_.
     rbind (require (iv_quality_crf c \<le> 51) ''media.inline_video.quality_crf'' ''must be between 0 and 51'') (\<lambda>_.
     rbind (require (iv_minimum_short_edge c \<noteq> 0) ''media.inline_video.minimum_short_edge'' ''must be greater than zero'') (\<lambda>_.
       require (iv_minimum_short_edge c \<le> 1080) ''media.inline_video.minimum_short_edge''
         ''must be at most the canonical 1080p short-edge limit'')))"

definition media_limits_validate :: "media_config \<Rightarrow> config_error + unit" where
  "media_limits_validate c =
     rbind (require (mdc_processing_timeout_seconds c \<noteq> 0) ''media.processing_timeout_seconds'' ''must be greater than zero'') (\<lambda>_.
     rbind (require (mdc_processing_timeout_seconds c \<le> MAX_MEDIA_PROCESSING_TIMEOUT_SECONDS)
              ''media.processing_timeout_seconds'' ''must be at most 24 hours'') (\<lambda>_.
     rbind (require (mdc_source_download_max_bytes c \<noteq> 0) ''media.source_download_max_bytes'' ''must be greater than zero'') (\<lambda>_.
     rbind (require (mdc_work_free_space_reserve_bytes c \<noteq> 0) ''media.work_free_space_reserve_bytes''
              ''must be greater than zero'') (\<lambda>_.
     rbind (require (mdc_work_free_space_reserve_bytes c \<le> MAX_MEDIA_WORK_FREE_SPACE_RESERVE_BYTES)
              ''media.work_free_space_reserve_bytes'' ''must be at most 1 PiB'') (\<lambda>_.
     rbind (require (mdc_normalized_storage_max_bytes c \<noteq> 0) ''media.normalized_storage_max_bytes''
              ''must be greater than zero'') (\<lambda>_.
       require (mdc_normalized_storage_max_bytes c < TELEGRAM_LOCAL_MAX_UPLOAD_BYTES) ''media.normalized_storage_max_bytes''
         (''must be below Telegram'' @ [CHR 0x27] @ ''s 2000 MB local upload limit'')))))))"

definition path_validate :: "string \<Rightarrow> ustring \<Rightarrow> config_error + unit" where
  "path_validate name path = require (path \<noteq> []) name ''must not be empty''"

definition media_validate :: "'u config_ops \<Rightarrow> media_config \<Rightarrow> config_error + unit" where
  "media_validate ops c =
     rbind (media_limits_validate c) (\<lambda>_.
     rbind (inline_video_validate (mdc_inline_video c)) (\<lambda>_.
     rbind (parse_ytdlp_allowed_hosts ops (lit ''media.ytdlp_allowed_hosts'') (mdc_ytdlp_allowed_hosts c)) (\<lambda>_.
     rbind (parse_ytdlp_pot_provider_url ops (lit ''media.ytdlp_pot_provider_url'') (mdc_ytdlp_pot_provider_url c)) (\<lambda>_.
     rbind (path_validate ''media.work_root'' (mdc_work_root c)) (\<lambda>_.
     rbind (path_validate ''media.ffmpeg_path'' (mdc_ffmpeg_path c)) (\<lambda>_.
     rbind (path_validate ''media.ffprobe_path'' (mdc_ffprobe_path c)) (\<lambda>_.
     rbind (path_validate ''media.ytdlp_path'' (mdc_ytdlp_path c)) (\<lambda>_.
     rbind (require (trim (mdc_ytdlp_format c) \<noteq> []) ''media.ytdlp_format'' ''must not be empty'') (\<lambda>_.
       require (take 1 (mdc_ytdlp_format c) \<noteq> lit ''-'' \<and> \<not> list_ex is_control (mdc_ytdlp_format c)) ''media.ytdlp_format''
         ''must not start with an option prefix or contain control characters'')))))))))"

definition companion_validate :: "'u config_ops \<Rightarrow> companion_config \<Rightarrow> config_error + unit" where
  "companion_validate ops c =
     rbind (parse_socket_address ops (lit ''companion.listen_address'') (cpc_listen_address c)) (\<lambda>address.
     rbind (require (ip_is_loopback address) ''companion.listen_address'' ''must use a loopback address'') (\<lambda>_.
     rbind (ok_or (url_parse (co_url ops) (cpc_backend_url c))
              (InvalidValue (lit ''companion.backend_url'') (lit ''must be a valid HTTP(S) URL''))) (\<lambda>backend_url.
     rbind (require (is_safe_internal_http_url ops backend_url PathAny) ''companion.backend_url''
              ''must be an HTTP(S) URL without credentials, query, or fragment; HTTP URLs must use a private host'') (\<lambda>_.
     rbind (if is_configured (cpc_local_token c) then Inr () else Inl (MissingSecret (lit ''Companion local token''))) (\<lambda>_.
     rbind (if is_configured (cpc_backend_token c) then Inr () else Inl (MissingSecret (lit ''Companion backend token''))) (\<lambda>_.
     rbind (require (cpc_local_token c \<noteq> cpc_backend_token c) ''companion.local_token''
              ''must be distinct from the backend token'') (\<lambda>_.
     rbind (require (cpc_request_body_limit_bytes c \<noteq> 0 \<and>
                     cpc_request_body_limit_bytes c \<le> MAX_COMPANION_REQUEST_BODY_LIMIT_BYTES)
              ''companion.request_body_limit_bytes'' ''must be greater than zero and at most 1 MiB'') (\<lambda>_.
       require (cpc_request_timeout_seconds c \<noteq> 0 \<and> cpc_request_timeout_seconds c \<le> MAX_COMPANION_REQUEST_TIMEOUT_SECONDS)
         ''companion.request_timeout_seconds'' ''must be greater than zero and at most 60 seconds''))))))))"

definition database_validate :: "database_config \<Rightarrow> config_error + unit" where
  "database_validate c = require (dbc_max_connections c \<noteq> 0) ''database.max_connections'' ''must be greater than zero''"

text \<open>\<open>Path::is_absolute\<close> on Unix.\<close>

definition is_absolute :: "ustring \<Rightarrow> bool" where
  "is_absolute path \<longleftrightarrow> take 1 path = lit ''/''"

definition telegram_validate :: "'u config_ops \<Rightarrow> secret_config \<Rightarrow> telegram_config \<Rightarrow> config_error + unit" where
  "telegram_validate ops secrets c =
     rbind (ok_or (url_parse (co_url ops) (tgc_api_base_url c))
              (InvalidValue (lit ''telegram.api_base_url'') (lit ''must be a valid HTTP(S) URL''))) (\<lambda>api_base_url.
     rbind (require (is_safe_internal_http_url ops api_base_url PathAny) ''telegram.api_base_url''
              ''must be an HTTP(S) URL without credentials; HTTP URLs must use a private host'') (\<lambda>_.
     rbind (require (tgc_poll_timeout_seconds c \<noteq> 0) ''telegram.poll_timeout_seconds'' ''must be greater than zero'') (\<lambda>_.
     rbind (require (tgc_upload_timeout_seconds c \<noteq> 0) ''telegram.upload_timeout_seconds'' ''must be greater than zero'') (\<lambda>_.
     rbind (require (tgc_upload_timeout_seconds c \<le> MAX_TELEGRAM_UPLOAD_TIMEOUT_SECONDS) ''telegram.upload_timeout_seconds''
              ''must be at most 24 hours'') (\<lambda>_.
     rbind (require (tgc_source_download_max_bytes c \<noteq> 0) ''telegram.source_download_max_bytes''
              ''must be greater than zero'') (\<lambda>_.
     rbind (require (case tgc_local_file_root c of None \<Rightarrow> True | Some path \<Rightarrow> is_absolute path) ''telegram.local_file_root''
              ''must be an absolute path'') (\<lambda>_.
     rbind (require (case tgc_storage_chat_id c of None \<Rightarrow> True | Some i \<Rightarrow> i < 0) ''telegram.storage_chat_id''
              ''must be a negative Telegram channel or group ID'') (\<lambda>_.
     rbind (require (\<not> ((case sec_telegram_bot_token secrets of None \<Rightarrow> False | Some t \<Rightarrow> is_configured t) \<and>
                         tgc_admin_user_ids c = [])) ''telegram.admin_user_ids''
              ''must configure at least one administrator when a bot token is set'') (\<lambda>_.
       require (list_all (\<lambda>i. 0 < i) (tgc_admin_user_ids c)) ''telegram.admin_user_ids''
         ''must contain positive Telegram user IDs'')))))))))"

definition config_validate :: "'u config_ops \<Rightarrow> app_config \<Rightarrow> config_error + unit" where
  "config_validate ops c =
     (case ac_role c of
        ServerRole \<Rightarrow>
          rbind (server_validate ops (ac_server c)) (\<lambda>_.
          rbind (database_validate (ac_database c)) (\<lambda>_.
            telegram_validate ops (ac_secrets c) (ac_telegram c)))
      | WorkerRole \<Rightarrow>
          rbind (worker_validate (ac_worker c)) (\<lambda>_.
          rbind (database_validate (ac_database c)) (\<lambda>_.
          rbind (media_validate ops (ac_media c)) (\<lambda>_.
            telegram_validate ops (ac_secrets c) (ac_telegram c))))
      | CompanionRole \<Rightarrow> companion_validate ops (ac_companion c))"

definition config_load :: "'u config_ops \<Rightarrow> app_role \<Rightarrow> ustring option \<Rightarrow> config_error + app_config" where
  "config_load ops role cli_path =
     rbind (case cli_path of
              Some path \<Rightarrow> Inr (Some path)
            | None \<Rightarrow> optional_env_string ops (lit ''SOOQA_CONFIG_FILE'')) (\<lambda>config_path.
     rbind (case config_path of
              Some path \<Rightarrow> map_err (ReadFile path) (co_read_file ops path)
            | None \<Rightarrow> Inr []) (\<lambda>contents.
     rbind (from_toml_str ops role config_path contents) (\<lambda>config.
     rbind (apply_environment ops config) (\<lambda>config.
       map_ok (\<lambda>_. config) (config_validate ops config)))))"

section \<open>The summary\<close>

definition configured_state :: "secret_string option \<Rightarrow> ustring" where
  "configured_state secret =
     (case secret of Some value \<Rightarrow> if is_configured value then lit ''configured'' else lit ''absent'' | None \<Rightarrow> lit ''absent'')"

definition summary_bool :: "bool \<Rightarrow> ustring" where
  "summary_bool b = (if b then lit ''true'' else lit ''false'')"

text \<open>\<open>{:?}\<close> of an optional identifier.\<close>

definition summary_chat_id :: "int option \<Rightarrow> ustring" where
  "summary_chat_id i = (case i of None \<Rightarrow> lit ''None'' | Some n \<Rightarrow> lit ''Some('' @ int_text n @ lit '')'')"

definition summary_item :: "string \<Rightarrow> ustring \<Rightarrow> ustring" where
  "summary_item name value = lit name @ lit ''='' @ value"

definition summary :: "app_config \<Rightarrow> ustring" where
  "summary c =
     (let r = wkc_job_retention (ac_worker c); m = ac_media c; iv = mdc_inline_video m; t = ac_telegram c in
      join_with (lit '' '')
       [summary_item ''role'' (app_role_text (ac_role c)),
        summary_item ''config_file'' (unwrap_or (ac_config_path c) (lit ''<defaults>'')),
        summary_item ''server.listen_address'' (sv_listen_address (ac_server c)),
        summary_item ''worker.poll_interval_seconds'' (nat_text (wkc_poll_interval_seconds (ac_worker c))),
        summary_item ''worker.lease_duration_seconds'' (nat_text (wkc_lease_duration_seconds (ac_worker c))),
        summary_item ''worker.job_retention.enabled'' (summary_bool (jrc_enabled r)),
        summary_item ''worker.job_retention.succeeded_seconds'' (nat_text (jrc_succeeded_seconds r)),
        summary_item ''worker.job_retention.cancelled_seconds'' (nat_text (jrc_cancelled_seconds r)),
        summary_item ''worker.job_retention.failed_seconds'' (nat_text (jrc_failed_seconds r)),
        summary_item ''worker.job_retention.batch_size'' (nat_text (jrc_batch_size r)),
        summary_item ''worker.job_retention.scan_size'' (nat_text (jrc_scan_size r)),
        summary_item ''media.work_root'' (mdc_work_root m),
        summary_item ''media.work_free_space_reserve_bytes'' (nat_text (mdc_work_free_space_reserve_bytes m)),
        summary_item ''media.ffmpeg_path'' (mdc_ffmpeg_path m),
        summary_item ''media.ffprobe_path'' (mdc_ffprobe_path m),
        summary_item ''media.ytdlp_path'' (mdc_ytdlp_path m),
        summary_item ''media.ytdlp_format'' (mdc_ytdlp_format m),
        summary_item ''media.ytdlp_allowed_hosts'' (join_with (lit '','') (mdc_ytdlp_allowed_hosts m)),
        summary_item ''media.ytdlp_pot_provider_url'' (mdc_ytdlp_pot_provider_url m),
        summary_item ''media.processing_timeout_seconds'' (nat_text (mdc_processing_timeout_seconds m)),
        summary_item ''media.source_download_max_bytes'' (nat_text (mdc_source_download_max_bytes m)),
        summary_item ''media.normalized_storage_max_bytes'' (nat_text (mdc_normalized_storage_max_bytes m)),
        summary_item ''media.inline_video.target_max_bytes'' (nat_text (iv_target_max_bytes iv)),
        summary_item ''media.inline_video.quality_crf'' (nat_text (iv_quality_crf iv)),
        summary_item ''media.inline_video.minimum_short_edge'' (nat_text (iv_minimum_short_edge iv)),
        summary_item ''companion.listen_address'' (cpc_listen_address (ac_companion c)),
        summary_item ''companion.request_body_limit_bytes'' (nat_text (cpc_request_body_limit_bytes (ac_companion c))),
        summary_item ''companion.request_timeout_seconds'' (nat_text (cpc_request_timeout_seconds (ac_companion c))),
        summary_item ''database.url_env'' (dbc_url_env (ac_database c)),
        summary_item ''database.max_connections'' (nat_text (dbc_max_connections (ac_database c))),
        summary_item ''telegram.api_base_url'' (tgc_api_base_url t),
        summary_item ''telegram.admin_user_ids'' (nat_text (length (tgc_admin_user_ids t))),
        summary_item ''telegram.poll_timeout_seconds'' (nat_text (tgc_poll_timeout_seconds t)),
        summary_item ''telegram.upload_timeout_seconds'' (nat_text (tgc_upload_timeout_seconds t)),
        summary_item ''telegram.source_download_max_bytes'' (nat_text (tgc_source_download_max_bytes t)),
        summary_item ''telegram.storage_chat_id'' (summary_chat_id (tgc_storage_chat_id t)),
        summary_item ''observability.log_format'' (log_format_text (obc_log_format (ac_observability c))),
        summary_item ''observability.log_level'' (obc_log_level (ac_observability c)),
        summary_item ''secret.database_url'' (configured_state (sec_database_url (ac_secrets c))),
        summary_item ''secret.telegram_bot_token'' (configured_state (sec_telegram_bot_token (ac_secrets c))),
        summary_item ''secret.api_token'' (configured_state (sec_api_token (ac_secrets c)))])"

end
