(* ===== verification/Float64.thy ===== *)
theory Float64
  imports Sooqa_Prelude "HOL-Library.Log_Nat"
begin

text \<open>
  The double-precision arithmetic of Rust (\<open>f64\<close>), as far as the planner of the video sizes and the reader of the
  probe use it. A finite value is the rational it stands for; an operation rounds its exact result to 53
  significant bits, ties to even. The operands of the code are zero or lie far inside the normal range, so
  that no operation overflows or meets a subnormal number.
\<close>

section \<open>Rounding\<close>

text \<open>The exponent of the leading bit of a positive number.\<close>

definition binary_exponent :: "rat \<Rightarrow> int" where
  "binary_exponent x =
     (if 1 \<le> x then int (floorlog 2 (nat \<lfloor>x\<rfloor>)) - 1 else - int (floorlog 2 (nat (\<lceil>1 / x\<rceil> - 1))))"

definition pow2 :: "int \<Rightarrow> rat" where
  "pow2 e = (if 0 \<le> e then 2 ^ nat e else 1 / 2 ^ nat (- e))"

definition round_half_even :: "rat \<Rightarrow> int" where
  "round_half_even y =
     (let n = \<lfloor>y\<rfloor>; r = y - of_int n in
      if r < 1 / 2 then n else if 1 / 2 < r then n + 1 else if even n then n else n + 1)"

definition f64_round :: "rat \<Rightarrow> rat" where
  "f64_round x =
     (if x = 0 then 0
      else let u = pow2 (52 - binary_exponent \<bar>x\<bar>) in sgn x * of_int (round_half_even (\<bar>x\<bar> * u)) / u)"

definition f64_div :: "rat \<Rightarrow> rat \<Rightarrow> rat" where
  "f64_div a b = f64_round (a / b)"

definition f64_mul :: "rat \<Rightarrow> rat \<Rightarrow> rat" where
  "f64_mul a b = f64_round (a * b)"

text \<open>\<open>f64::round\<close> (ties away from zero) and the saturating cast \<open>as u32\<close> of a number that is not negative.\<close>

definition f64_round_integral :: "rat \<Rightarrow> int" where
  "f64_round_integral x = (if 0 \<le> x then \<lfloor>x + 1 / 2\<rfloor> else - \<lfloor>1 / 2 - x\<rfloor>)"

definition f64_as_u32 :: "rat \<Rightarrow> u32" where
  "f64_as_u32 x = of_nat (min (nat \<lfloor>x\<rfloor>) (2 ^ 32 - 1))"

section \<open>The error of a rounding\<close>

lemma pow2_pos [simp]: "0 < pow2 e"
  by (simp add: pow2_def)

lemma pow2_diff: "pow2 (52 - e) * pow2 e = 2 ^ 52"
proof (cases "0 \<le> e")
  case True
  show ?thesis
  proof (cases "e \<le> 52")
    case True
    with \<open>0 \<le> e\<close> have "nat (52 - e) + nat e = 52" by linarith
    then show ?thesis using True \<open>0 \<le> e\<close> by (simp add: pow2_def flip: power_add)
  next
    case False
    with \<open>0 \<le> e\<close> have "nat e = 52 + nat (e - 52)" by linarith
    then show ?thesis using False \<open>0 \<le> e\<close> by (simp add: pow2_def power_add)
  qed
next
  case False
  then have "nat (52 - e) = 52 + nat (- e)" by linarith
  then show ?thesis using False by (simp add: pow2_def power_add)
qed

lemma binary_exponent_le:
  assumes "0 < x"
  shows "pow2 (binary_exponent x) \<le> x"
proof (cases "1 \<le> x")
  case True
  define n where "n = nat \<lfloor>x\<rfloor>"
  have n: "0 < n" "of_nat n \<le> x" using True by (auto simp: n_def le_floor_iff)
  have "2 ^ (floorlog 2 n - 1) \<le> n" using floorlog_bounds [of n 2] n by simp
  then have "of_nat (2 ^ (floorlog 2 n - 1)) \<le> (of_nat n :: rat)" by (rule of_nat_mono)
  then have "2 ^ (floorlog 2 n - 1) \<le> x" using n(2) by (simp only: of_nat_power of_nat_numeral)
  moreover have "0 < floorlog 2 n" using n by (simp add: floorlog_def)
  ultimately show ?thesis using True n by (simp add: binary_exponent_def pow2_def nat_diff_distrib flip: n_def)
next
  case False
  define m where "m = nat (\<lceil>1 / x\<rceil> - 1)"
  have "1 < 1 / x" using assms False by simp
  then have c: "1 < \<lceil>1 / x\<rceil>" by (simp add: less_ceiling_iff)
  then have m: "0 < m" by (simp add: m_def)
  have "m < 2 ^ floorlog 2 m" using floorlog_bounds [of m 2] m by simp
  then have "int m < int (2 ^ floorlog 2 m)" by (simp only: of_nat_less_iff)
  moreover have "int m = \<lceil>1 / x\<rceil> - 1" using c unfolding m_def by linarith
  ultimately have "\<lceil>1 / x\<rceil> \<le> 2 ^ floorlog 2 m" by simp
  then have "1 / x \<le> 2 ^ floorlog 2 m" by (simp add: ceiling_le_iff)
  then have "1 / 2 ^ floorlog 2 m \<le> x" using assms by (simp add: field_simps)
  moreover have "0 < floorlog 2 m" using m by (simp add: floorlog_def)
  ultimately show ?thesis using False by (simp add: binary_exponent_def pow2_def flip: m_def)
qed

lemma round_half_even_error: "\<bar>of_int (round_half_even y) - y\<bar> \<le> 1 / 2"
proof -
  have "of_int \<lfloor>y\<rfloor> \<le> y" "y < of_int \<lfloor>y\<rfloor> + 1" by linarith+
  then show ?thesis unfolding round_half_even_def Let_def by (auto simp: abs_le_iff)
qed

lemma f64_round_error:
  assumes "0 \<le> x"
  shows "\<bar>f64_round x - x\<bar> \<le> x / 2 ^ 53"
proof (cases "x = 0")
  case False
  with assms have x: "0 < x" by simp
  define u where "u = pow2 (52 - binary_exponent x)"
  have u: "0 < u" by (simp add: u_def)
  have "u * pow2 (binary_exponent x) = 2 ^ 52" by (simp add: u_def pow2_diff)
  moreover have "u * pow2 (binary_exponent x) \<le> u * x" using binary_exponent_le [OF x] u by simp
  ultimately have big: "2 ^ 52 \<le> u * x" by simp
  have "f64_round x - x = (of_int (round_half_even (x * u)) - x * u) / u"
    using x u by (simp add: f64_round_def Let_def diff_divide_distrib flip: u_def)
  then have "\<bar>f64_round x - x\<bar> = \<bar>of_int (round_half_even (x * u)) - x * u\<bar> / u" using u by simp
  also have "\<dots> \<le> (1 / 2) / u" using round_half_even_error u by (intro divide_right_mono) auto
  also have "\<dots> \<le> x / 2 ^ 53" using big u x by (simp add: field_simps)
  finally show ?thesis .
qed (simp add: f64_round_def)

lemma f64_round_upper: "0 \<le> x \<Longrightarrow> f64_round x \<le> x + x / 2 ^ 53"
  using f64_round_error [of x] unfolding abs_le_iff by linarith

lemma f64_round_zero [simp]: "f64_round 0 = 0"
  by (simp add: f64_round_def)

lemma f64_round_nonneg: "0 \<le> x \<Longrightarrow> 0 \<le> f64_round x"
proof -
  assume x: "0 \<le> x"
  then have "x - x / 2 ^ 53 \<le> f64_round x" using f64_round_error [OF x] by (simp only: abs_le_iff) linarith
  moreover have "x / 2 ^ 53 \<le> x" using x by simp
  ultimately show ?thesis by linarith
qed

text \<open>The product of a number and a rounded quotient.\<close>

lemma f64_mul_div_error:
  assumes "0 \<le> a" and "0 \<le> n" and "0 \<le> i"
  shows "\<bar>f64_mul a (f64_div n i) - a * (n / i)\<bar> \<le> a * (n / i) / 2 ^ 51"
proof -
  define q where "q = n / i"
  define s where "s = f64_round q"
  have q: "0 \<le> q" using assms by (simp add: q_def)
  have s: "\<bar>s - q\<bar> \<le> q / 2 ^ 53" "0 \<le> s" using f64_round_error [OF q] f64_round_nonneg [OF q] by (simp_all add: s_def)
  have "\<bar>f64_round (a * s) - a * s\<bar> \<le> a * s / 2 ^ 53" using f64_round_error [of "a * s"] assms s by simp
  moreover have "\<bar>a * s - a * q\<bar> \<le> a * q / 2 ^ 53"
    using mult_left_mono [OF s(1) assms(1)] assms(1) by (simp add: abs_mult flip: right_diff_distrib)
  moreover have "a * s \<le> 2 * (a * q)"
  proof -
    have "s \<le> q + q / 2 ^ 53" using s(1) unfolding abs_le_iff by linarith
    moreover have "q / 2 ^ 53 \<le> q" using q by simp
    ultimately have "s \<le> 2 * q" by linarith
    then show ?thesis using mult_left_mono [of s "2 * q" a] assms(1) by simp
  qed
  moreover have "a * s / 2 ^ 53 \<le> 2 * (a * q) / 2 ^ 53" using calculation(3) by (rule divide_right_mono) simp
  ultimately have "\<bar>f64_round (a * s) - a * q\<bar> \<le> 3 * (a * q / 2 ^ 53)" unfolding abs_le_iff by linarith
  also have "\<dots> \<le> a * q / 2 ^ 51" using assms(1) q by simp
  finally show ?thesis by (simp add: f64_mul_def f64_div_def q_def s_def)
qed

section \<open>The value of a rounding\<close>

lemma pow2_powi: "pow2 e = 2 powi e"
  by (simp only: pow2_def power_int_def inverse_eq_divide power_one_over)

lemma pow2_less:
  assumes "pow2 a < pow2 b"
  shows "a < b"
proof (rule ccontr)
  assume "\<not> a < b"
  then have "pow2 b \<le> pow2 a" unfolding pow2_powi by (intro power_int_increasing) auto
  with assms show False by simp
qed

lemma binary_exponent_upper:
  assumes "0 < x"
  shows "x < pow2 (binary_exponent x + 1)"
proof (cases "1 \<le> x")
  case True
  define n where "n = nat \<lfloor>x\<rfloor>"
  have n: "0 < n" "\<lfloor>x\<rfloor> = int n" using True by (auto simp: n_def le_floor_iff)
  have "n < 2 ^ floorlog 2 n" using floorlog_bounds [of n 2] n by simp
  then have "int n + 1 \<le> int (2 ^ floorlog 2 n)" by linarith
  then have "of_int (\<lfloor>x\<rfloor> + 1) \<le> (of_int (int (2 ^ floorlog 2 n)) :: rat)" using n by (simp only: of_int_le_iff)
  moreover have "x < of_int (\<lfloor>x\<rfloor> + 1)" by linarith
  ultimately show ?thesis using True by (simp add: binary_exponent_def pow2_def flip: n_def)
next
  case False
  define m where "m = nat (\<lceil>1 / x\<rceil> - 1)"
  have "1 < 1 / x" using assms False by simp
  then have c: "1 < \<lceil>1 / x\<rceil>" by (simp add: less_ceiling_iff)
  then have m: "0 < m" "int m = \<lceil>1 / x\<rceil> - 1" unfolding m_def by linarith+
  have k: "0 < floorlog 2 m" using m by (simp add: floorlog_def)
  have "2 ^ (floorlog 2 m - 1) \<le> m" using floorlog_bounds [of m 2] m by simp
  then have "int (2 ^ (floorlog 2 m - 1)) < \<lceil>1 / x\<rceil>" using m(2) by linarith
  then have "2 ^ (floorlog 2 m - 1) < 1 / x" by (simp add: less_ceiling_iff)
  then have "x < 1 / 2 ^ (floorlog 2 m - 1)" using assms by (simp add: field_simps)
  moreover have "pow2 (1 - int (floorlog 2 m)) = 1 / 2 ^ (floorlog 2 m - 1)"
    using k by (cases "floorlog 2 m") (auto simp: pow2_def)
  ultimately show ?thesis using False by (simp add: binary_exponent_def flip: m_def)
qed

lemma f64_roundI:
  assumes "0 < x" and "pow2 e \<le> x" and "x < pow2 (e + 1)" and "\<bar>x * pow2 (52 - e) - of_int m\<bar> < 1 / 2"
  shows "f64_round x = of_int m / pow2 (52 - e)"
proof -
  have "e < binary_exponent x + 1" using assms(2) binary_exponent_upper [OF assms(1)] by (intro pow2_less) linarith
  moreover have "binary_exponent x < e + 1" using assms(3) binary_exponent_le [OF assms(1)] by (intro pow2_less) linarith
  ultimately have "binary_exponent x = e" by simp
  moreover have "round_half_even (x * pow2 (52 - e)) = m"
  proof -
    let ?r = "round_half_even (x * pow2 (52 - e))"
    have "\<bar>of_int (?r - m) :: rat\<bar> < of_int 1"
      using assms(4) round_half_even_error [of "x * pow2 (52 - e)"] unfolding of_int_diff by linarith
    then have "\<bar>?r - m\<bar> < 1" by (simp only: of_int_less_iff flip: of_int_abs)
    then show ?thesis by linarith
  qed
  ultimately show ?thesis using assms(1) by (simp add: f64_round_def Let_def)
qed

end
