(* ===== verification/Media_Probe.thy ===== *)
theory Media_Probe
  imports Configuration Float64
begin

text \<open>
  External commands and the probe of a media file: \<open>ExternalCommand\<close> of \<open>crates/media/src/command.rs\<close> and
  \<open>crates/media/src/ffprobe.rs\<close>. The command runner, the metadata of the file, the JSON parser and the lossy
  decoding of the captured output are arguments.
\<close>

unbundle bit_operations_syntax

section \<open>External commands\<close>

definition DEFAULT_COMMAND_TIMEOUT :: nat where
  "DEFAULT_COMMAND_TIMEOUT = 30 * 1000000000"

definition DEFAULT_MAX_OUTPUT_BYTES :: nat where
  "DEFAULT_MAX_OUTPUT_BYTES = 64 * 1024"

record external_command =
  ec_program :: ustring
  ec_args :: "ustring list"
  ec_current_dir :: "ustring option"
  ec_clear_environment :: bool
  ec_environment :: "(ustring \<times> ustring) list"
  ec_timeout :: nat
  ec_max_output_bytes :: nat

definition command_new :: "ustring \<Rightarrow> external_command" where
  "command_new program =
     \<lparr>ec_program = program, ec_args = [], ec_current_dir = None, ec_clear_environment = False, ec_environment = [],
      ec_timeout = DEFAULT_COMMAND_TIMEOUT, ec_max_output_bytes = DEFAULT_MAX_OUTPUT_BYTES\<rparr>"

definition command_arg :: "ustring \<Rightarrow> external_command \<Rightarrow> external_command" where
  "command_arg a c = c\<lparr>ec_args := ec_args c @ [a]\<rparr>"

text \<open>A chain of \<open>arg\<close> calls.\<close>

definition command_args :: "ustring list \<Rightarrow> external_command \<Rightarrow> external_command" where
  "command_args xs c = fold command_arg xs c"

definition command_timeout :: "nat \<Rightarrow> external_command \<Rightarrow> external_command" where
  "command_timeout t c = c\<lparr>ec_timeout := t\<rparr>"

definition command_max_output_bytes :: "nat \<Rightarrow> external_command \<Rightarrow> external_command" where
  "command_max_output_bytes n c = c\<lparr>ec_max_output_bytes := n\<rparr>"

definition command_with_args :: "ustring list \<Rightarrow> external_command \<Rightarrow> external_command" where
  "command_with_args xs c = c\<lparr>ec_args := xs\<rparr>"

lemma command_args_ec_args [simp]: "ec_args (command_args xs c) = ec_args c @ xs"
  by (induction xs arbitrary: c) (simp_all add: command_args_def command_arg_def)

record external_command_output =
  eo_success :: bool
  eo_exit_code :: "int option"
  eo_stdout :: "u8 list"
  eo_stderr :: "u8 list"
  eo_stdout_truncated :: bool
  eo_stderr_truncated :: bool

datatype command_error =
    CeSpawn ustring
  | CePipe ustring ustring
  | CeRead ustring ustring
  | CeTimedOut ustring nat
  | CeWait ustring
  | CeOutputLimitExceeded ustring nat
  | CeOutputMonitor ustring ustring

fun is_timeout :: "command_error \<Rightarrow> bool" where
  "is_timeout (CeTimedOut _ _) = True"
| "is_timeout _ = False"

section \<open>What a probe finds\<close>

datatype media_stream_kind =
    VideoStream
  | AudioStream
  | SubtitleStream
  | DataStream
  | AttachmentStream
  | OtherStream ustring

record frame_rate =
  fr_numerator :: nat
  fr_denominator :: nat

record media_stream =
  ms_index :: nat
  ms_kind :: media_stream_kind
  ms_codec :: "ustring option"
  ms_attached_picture :: bool
  ms_codec_tag :: "ustring option"
  ms_codec_mime :: "ustring option"
  ms_level :: "nat option"
  ms_profile :: "ustring option"
  ms_pixel_format :: "ustring option"
  ms_width :: "u32 option"
  ms_height :: "u32 option"
  ms_display_aspect_ratio :: "ustring option"
  ms_frame_rate :: "frame_rate option"
  ms_rotation_degrees :: "int option"
  ms_sample_rate_hz :: "nat option"
  ms_channels :: "nat option"
  ms_bit_rate :: "nat option"

record media_probe =
  mp_container_format :: "ustring option"
  mp_duration_ms :: "nat option"
  mp_size_bytes :: nat
  mp_bit_rate :: "nat option"
  mp_streams :: "media_stream list"

datatype probe_error =
    PeInputFile ustring
  | PeInputNotFile ustring
  | PeCommand command_error
  | PeOutputLimitExceeded nat
  | PeProcessFailed "int option" ustring
  | PeInvalidJson ustring
  | PeInvalidField ustring ustring

fun probe_error_class :: "probe_error \<Rightarrow> ustring" where
  "probe_error_class (PeInputFile _) = lit ''probe_input''"
| "probe_error_class (PeInputNotFile _) = lit ''probe_input''"
| "probe_error_class (PeCommand e) = (if is_timeout e then lit ''probe_timeout'' else lit ''probe_command'')"
| "probe_error_class (PeOutputLimitExceeded _) = lit ''probe_output_limit''"
| "probe_error_class (PeProcessFailed _ _) = lit ''probe_process''"
| "probe_error_class (PeInvalidJson _) = lit ''probe_invalid_output''"
| "probe_error_class (PeInvalidField _ _) = lit ''probe_invalid_output''"

fun probe_error_is_retryable :: "probe_error \<Rightarrow> bool" where
  "probe_error_is_retryable (PeCommand e) = is_timeout e"
| "probe_error_is_retryable _ = False"

section \<open>Text\<close>

text \<open>\<open>str::split_once\<close>, \<open>split_whitespace\<close> and \<open>lines\<close>; a line loses a carriage return only before its line feed.\<close>

definition split_once :: "nat \<Rightarrow> ustring \<Rightarrow> (ustring \<times> ustring) option" where
  "split_once c s =
     (if c \<in> set s then Some (takeWhile (\<lambda>x. x \<noteq> c) s, tl (dropWhile (\<lambda>x. x \<noteq> c) s)) else None)"

definition split_whitespace :: "ustring \<Rightarrow> ustring list" where
  "split_whitespace s =
     filter (\<lambda>p. p \<noteq> []) (split_on 32 (map (\<lambda>c. if is_whitespace c then 32 else c) s))"

definition strip_carriage_return :: "ustring \<Rightarrow> ustring" where
  "strip_carriage_return s = (if s \<noteq> [] \<and> last s = 13 then butlast s else s)"

definition text_lines :: "ustring \<Rightarrow> ustring list" where
  "text_lines s =
     (let parts = split_on 10 s in
      map strip_carriage_return (butlast parts) @ (if last parts = [] then [] else [last parts]))"

definition is_hexdigit :: "nat \<Rightarrow> bool" where
  "is_hexdigit c \<longleftrightarrow> is_digit c \<or> (65 \<le> c \<and> c \<le> 70) \<or> (97 \<le> c \<and> c \<le> 102)"

definition hexdigit_value :: "nat \<Rightarrow> nat" where
  "hexdigit_value c = (if is_digit c then c - 48 else to_ascii_lower c - 87)"

text \<open>\<open>from_str_radix(_, 16)\<close> of a text of hexadecimal digits, and \<open>{:02x}\<close>.\<close>

definition hex_value :: "ustring \<Rightarrow> nat" where
  "hex_value s = foldl (\<lambda>n c. 16 * n + hexdigit_value c) 0 s"

definition lower_hex :: "u8 \<Rightarrow> ustring" where
  "lower_hex b =
     map (\<lambda>n. lit ''0123456789abcdef'' ! n) [unat b div 16, unat b mod 16]"

definition usable_value :: "ustring option \<Rightarrow> ustring option" where
  "usable_value value =
     Option.bind value (\<lambda>v.
       let v = trim v in if v \<noteq> [] \<and> \<not> eq_ignore_ascii_case v (lit ''n/a'') then Some v else None)"

definition optional_value :: "ustring option \<Rightarrow> ustring option" where
  "optional_value value = usable_value value"

definition missing_field :: "string \<Rightarrow> probe_error" where
  "missing_field name = PeInvalidField (lit name) (lit ''field was missing'')"

text \<open>The message names the value in its debug form, which is an argument.\<close>

record probe_ops_text =
  po_debug :: "ustring \<Rightarrow> ustring"
  po_utf8_lossy :: "u8 list \<Rightarrow> ustring"

definition invalid_number :: "('z) probe_ops_text_scheme \<Rightarrow> string \<Rightarrow> ustring \<Rightarrow> probe_error" where
  "invalid_number ops name value =
     PeInvalidField (lit name) (lit ''expected a non-negative number, got '' @ po_debug ops value)"

definition bounded_text :: "('z) probe_ops_text_scheme \<Rightarrow> u8 list \<Rightarrow> ustring" where
  "bounded_text ops bytes = trim (po_utf8_lossy ops bytes)"

definition parse_optional_unsigned ::
  "('z) probe_ops_text_scheme \<Rightarrow> nat \<Rightarrow> ustring option \<Rightarrow> string \<Rightarrow> probe_error + nat option" where
  "parse_optional_unsigned ops bits value name =
     (case usable_value value of
        None \<Rightarrow> Inr None
      | Some v \<Rightarrow> map_ok Some (ok_or (parse_unsigned bits v) (invalid_number ops name v)))"

definition parse_frame_rate :: "('z) probe_ops_text_scheme \<Rightarrow> ustring \<Rightarrow> string \<Rightarrow> probe_error + frame_rate" where
  "parse_frame_rate ops value name =
     rbind (ok_or (split_once 47 value) (invalid_number ops name value)) (\<lambda>(numerator, denominator).
     rbind (ok_or (parse_unsigned 64 numerator) (invalid_number ops name value)) (\<lambda>numerator.
     rbind (ok_or (parse_unsigned 64 denominator) (invalid_number ops name value)) (\<lambda>denominator.
       if denominator = 0 then Inl (invalid_number ops name value)
       else Inr \<lparr>fr_numerator = numerator, fr_denominator = denominator\<rparr>)))"

text \<open>The fraction of a duration counts to the millisecond.\<close>

definition parse_duration :: "('z) probe_ops_text_scheme \<Rightarrow> ustring option \<Rightarrow> string \<Rightarrow> probe_error + nat option" where
  "parse_duration ops value name =
     (case usable_value value of
        None \<Rightarrow> Inr None
      | Some v \<Rightarrow>
          let (whole, fraction) = unwrap_or (split_once 46 v) (v, []) in
          rbind (ok_or (parse_unsigned 64 whole) (invalid_number ops name v)) (\<lambda>whole.
            if \<not> list_all is_digit fraction then Inl (invalid_number ops name v)
            else
              let milliseconds = digits_value (take 3 (fraction @ replicate 3 48)) in
              ok_or (map_option Some (Option.bind (checked_mul (2 ^ 64) whole 1000) (\<lambda>n.
                checked_add (2 ^ 64) n milliseconds))) (invalid_number ops name v)))"

section \<open>The avcC declaration\<close>

definition MAX_AVCC_EXTRADATA_BYTES :: nat where
  "MAX_AVCC_EXTRADATA_BYTES = 4096"

record avcc_declaration =
  av_profile_idc :: u8
  av_profile_compatibility :: u8
  av_level_idc :: u8

text \<open>A parameter set: two bytes of length and the content, inside the bytes.\<close>

fun skip_parameter_sets :: "nat \<Rightarrow> u8 list \<Rightarrow> nat \<Rightarrow> nat option" where
  "skip_parameter_sets 0 bytes offset = Some offset"
| "skip_parameter_sets (Suc n) bytes offset =
     (if offset + 1 < length bytes
      then let offset = offset + 2 + (unat (bytes ! offset) * 256 + unat (bytes ! (offset + 1))) in
           if offset > length bytes then None else skip_parameter_sets n bytes offset
      else None)"

definition parse_avcc_bytes :: "u8 list \<Rightarrow> avcc_declaration option" where
  "parse_avcc_bytes bytes =
     (if length bytes < 8 \<or> bytes ! 0 \<noteq> 1 \<or> bytes ! 4 AND 0x03 \<noteq> 3 then None
      else let sps_count = unat (bytes ! 5 AND 0x1f) in
        if sps_count = 0 then None
        else Option.bind (skip_parameter_sets sps_count bytes 6) (\<lambda>offset.
          if offset < length bytes
          then let pps_count = unat (bytes ! offset) in
            if pps_count = 0 then None
            else Option.bind (skip_parameter_sets pps_count bytes (offset + 1)) (\<lambda>_.
              Some \<lparr>av_profile_idc = bytes ! 1, av_profile_compatibility = bytes ! 2, av_level_idc = bytes ! 3\<rparr>)
          else None))"

text \<open>The words of a line of the dump; \<open>True\<close> when enough bytes are collected.\<close>

fun avcc_line :: "ustring list \<Rightarrow> u8 list \<Rightarrow> bool \<times> u8 list" where
  "avcc_line [] bytes = (False, bytes)"
| "avcc_line (token # tokens) bytes =
     (if utf8_len token \<noteq> 4 \<or> \<not> list_all is_hexdigit token then (False, bytes)
      else let bytes = bytes @ [of_nat (hex_value token div 256), of_nat (hex_value token mod 256)] in
        if length bytes \<ge> MAX_AVCC_EXTRADATA_BYTES then (True, bytes) else avcc_line tokens bytes)"

fun avcc_lines :: "ustring list \<Rightarrow> u8 list \<Rightarrow> u8 list" where
  "avcc_lines [] bytes = bytes"
| "avcc_lines (line # rest) bytes =
     (case split_once 58 line of
        None \<Rightarrow> avcc_lines rest bytes
      | Some (_, payload) \<Rightarrow>
          (case avcc_line (split_whitespace payload) bytes of
             (True, bytes) \<Rightarrow> bytes
           | (False, bytes) \<Rightarrow> avcc_lines rest bytes))"

definition parse_avcc_extradata :: "ustring \<Rightarrow> avcc_declaration option" where
  "parse_avcc_extradata value = parse_avcc_bytes (avcc_lines (text_lines value) [])"

definition is_avc_tag :: "ustring option \<Rightarrow> bool" where
  "is_avc_tag codec_tag =
     (case codec_tag of
        None \<Rightarrow> False
      | Some tag \<Rightarrow> eq_ignore_ascii_case tag (lit ''avc1'') \<or> eq_ignore_ascii_case tag (lit ''avc3''))"

definition is_h264_codec :: "ustring option \<Rightarrow> bool" where
  "is_h264_codec codec = (case codec of None \<Rightarrow> False | Some c \<Rightarrow> eq_ignore_ascii_case c (lit ''h264''))"

text \<open>The reported declaration is kept when it says what the avcC bytes say.\<close>

definition agreeing_mime :: "ustring \<Rightarrow> avcc_declaration \<Rightarrow> ustring option" where
  "agreeing_mime reported avcc =
     Option.bind (split_once 46 reported) (\<lambda>(_, suffix).
       if utf8_len suffix \<noteq> 6 \<or> \<not> list_all is_hexdigit suffix then None
       else if hex_value (take 2 suffix) = unat (av_profile_idc avcc) \<and>
               hex_value (take 2 (drop 2 suffix)) = unat (av_profile_compatibility avcc) \<and>
               hex_value (drop 4 suffix) = unat (av_level_idc avcc)
       then Some reported else None)"

definition codec_mime_from_metadata ::
  "ustring option \<Rightarrow> ustring option \<Rightarrow> ustring option \<Rightarrow> ustring option \<Rightarrow> ustring option" where
  "codec_mime_from_metadata codec codec_tag reported_mime extradata =
     (let avcc = Option.bind extradata parse_avcc_extradata in
      if is_h264_codec codec \<and> is_avc_tag codec_tag \<and>
         (case extradata of None \<Rightarrow> False | Some v \<Rightarrow> trim v \<noteq> []) \<and> avcc = None
      then None
      else case (reported_mime, avcc) of
        (Some reported, Some avcc) \<Rightarrow> agreeing_mime reported avcc
      | (Some reported, None) \<Rightarrow> Some reported
      | (None, Some avcc) \<Rightarrow>
          map_option (\<lambda>tag. tag @ lit ''.'' @ lower_hex (av_profile_idc avcc) @
            lower_hex (av_profile_compatibility avcc) @ lower_hex (av_level_idc avcc)) codec_tag
      | (None, None) \<Rightarrow> None)"

section \<open>Rotation\<close>

text \<open>A parsed \<open>f64\<close>; a decimal beyond the range of doubles is outside the range of a rotation too, and a
  decimal below the normal range rounds to no rotation as the exact one does.\<close>

datatype f64 = FiniteF64 rat | NotFiniteF64

definition strip_sign :: "ustring \<Rightarrow> bool \<times> ustring" where
  "strip_sign s = (if take 1 s = lit ''-'' then (True, drop 1 s) else if take 1 s = lit ''+'' then (False, drop 1 s) else (False, s))"

definition parse_exponent :: "ustring \<Rightarrow> int option" where
  "parse_exponent s =
     (case strip_sign s of (negative, digits) \<Rightarrow>
        map_option (\<lambda>n. if negative then - int n else int n) (parse_digits digits))"

definition pow10 :: "int \<Rightarrow> rat" where
  "pow10 e = (if 0 \<le> e then 10 ^ nat e else 1 / 10 ^ nat (- e))"

definition parse_f64 :: "ustring \<Rightarrow> f64 option" where
  "parse_f64 s =
     (case strip_sign s of (negative, r) \<Rightarrow>
        if to_ascii_lowercase r \<in> {lit ''inf'', lit ''infinity'', lit ''nan''} then Some NotFiniteF64
        else
          let (mantissa, exponent) =
                (case split_once 101 (map (\<lambda>c. if c = 69 then 101 else c) r) of
                   None \<Rightarrow> (r, Some 0)
                 | Some (m, e) \<Rightarrow> (m, parse_exponent e));
              (whole, fraction) = unwrap_or (split_once 46 mantissa) (mantissa, []) in
          if whole @ fraction \<noteq> [] \<and> list_all is_digit (whole @ fraction)
          then map_option (\<lambda>e. FiniteF64 (f64_round ((if negative then -1 else 1) *
                 of_nat (digits_value (whole @ fraction)) * pow10 (e - int (length fraction))))) exponent
          else None)"

definition rotation_of_f64 :: "f64 \<Rightarrow> int option" where
  "rotation_of_f64 value =
     (case value of
        FiniteF64 x \<Rightarrow> if - (2 ^ 31) \<le> x \<and> x \<le> 2 ^ 31 - 1 then Some (f64_round_integral x) else None
      | NotFiniteF64 \<Rightarrow> None)"

section \<open>The output of the command\<close>

text \<open>What the JSON parser deserialises; a rotation of the side data is a finite double, and
  a level that is no 64-bit integer is absent.\<close>

record raw_format =
  rf_format_name :: "ustring option"
  rf_duration :: "ustring option"
  rf_size :: "ustring option"
  rf_bit_rate :: "ustring option"

record raw_stream =
  rs_index :: "nat option"
  rs_codec_type :: "ustring option"
  rs_codec_name :: "ustring option"
  rs_codec_tag_string :: "ustring option"
  rs_mime_codec_string :: "ustring option"
  rs_extradata :: "ustring option"
  rs_level :: "int option"
  rs_profile :: "ustring option"
  rs_pix_fmt :: "ustring option"
  rs_width :: "u32 option"
  rs_height :: "u32 option"
  rs_display_aspect_ratio :: "ustring option"
  rs_avg_frame_rate :: "ustring option"
  rs_r_frame_rate :: "ustring option"
  rs_tags :: "(ustring \<times> ustring) list option"
  rs_side_data_list :: "rat option list option"
  rs_sample_rate :: "ustring option"
  rs_channels :: "nat option"
  rs_bit_rate :: "ustring option"
  rs_attached_pic :: nat

record raw_probe =
  rp_streams :: "raw_stream list"
  rp_format :: "raw_format option"

record raw_avcc_stream =
  ra_index :: "nat option"
  ra_extradata :: "ustring option"

record probe_ops = probe_ops_text +
  po_json :: "u8 list \<Rightarrow> ustring + raw_probe"
  po_avcc_json :: "u8 list \<Rightarrow> raw_avcc_stream list option"

fun first_rotation :: "rat option list \<Rightarrow> rat option" where
  "first_rotation [] = None"
| "first_rotation (None # items) = first_rotation items"
| "first_rotation (Some x # items) = Some x"

definition parse_rotation :: "raw_stream \<Rightarrow> int option" where
  "parse_rotation stream =
     Option.bind
       (or_else (map_option FiniteF64 (Option.bind (rs_side_data_list stream) first_rotation))
         (Option.bind (rs_tags stream) (\<lambda>tags. Option.bind (map_of tags (lit ''rotate'')) parse_f64)))
       rotation_of_f64"

definition stream_kind :: "ustring \<Rightarrow> media_stream_kind" where
  "stream_kind value =
     (let value = to_ascii_lowercase value in
      if value = lit ''video'' then VideoStream
      else if value = lit ''audio'' then AudioStream
      else if value = lit ''subtitle'' then SubtitleStream
      else if value = lit ''data'' then DataStream
      else if value = lit ''attachment'' then AttachmentStream
      else OtherStream value)"

text \<open>A frame rate of \<open>0/0\<close> is unknown.\<close>

definition known_rate :: "ustring option \<Rightarrow> ustring option" where
  "known_rate value = Option.bind value (\<lambda>v. if v = lit ''0/0'' then None else Some v)"

definition transpose_result :: "('e + 'a) option \<Rightarrow> 'e + 'a option" where
  "transpose_result r = (case r of None \<Rightarrow> Inr None | Some (Inl e) \<Rightarrow> Inl e | Some (Inr x) \<Rightarrow> Inr (Some x))"

definition parse_stream :: "probe_ops \<Rightarrow> raw_stream \<Rightarrow> probe_error + media_stream" where
  "parse_stream ops stream =
     rbind (ok_or (rs_index stream) (missing_field ''stream.index'')) (\<lambda>index.
     rbind (ok_or (rs_codec_type stream) (missing_field ''stream.codec_type'')) (\<lambda>kind_value.
     rbind (transpose_result (map_option (\<lambda>v. parse_frame_rate ops v ''stream.frame_rate'')
              (or_else (known_rate (rs_avg_frame_rate stream)) (known_rate (rs_r_frame_rate stream))))) (\<lambda>frame_rate.
     let codec = optional_value (rs_codec_name stream);
         codec_tag = optional_value (rs_codec_tag_string stream);
         codec_mime = codec_mime_from_metadata codec codec_tag (optional_value (rs_mime_codec_string stream))
                        (rs_extradata stream) in
     rbind (parse_optional_unsigned ops 32 (rs_sample_rate stream) ''stream.sample_rate'') (\<lambda>sample_rate_hz.
     rbind (parse_optional_unsigned ops 64 (rs_bit_rate stream) ''stream.bit_rate'') (\<lambda>bit_rate.
       Inr \<lparr>ms_index = index, ms_kind = stream_kind kind_value, ms_codec = codec,
            ms_attached_picture = (rs_attached_pic stream \<noteq> 0), ms_codec_tag = codec_tag, ms_codec_mime = codec_mime,
            ms_level = Option.bind (rs_level stream) (\<lambda>n. if 0 \<le> n \<and> n < 2 ^ 32 then Some (nat n) else None),
            ms_profile = optional_value (rs_profile stream), ms_pixel_format = optional_value (rs_pix_fmt stream),
            ms_width = rs_width stream, ms_height = rs_height stream,
            ms_display_aspect_ratio = optional_value (rs_display_aspect_ratio stream), ms_frame_rate = frame_rate,
            ms_rotation_degrees = parse_rotation stream, ms_sample_rate_hz = sample_rate_hz,
            ms_channels = rs_channels stream, ms_bit_rate = bit_rate\<rparr>)))))"

definition parse_probe_json :: "probe_ops \<Rightarrow> u8 list \<Rightarrow> nat \<Rightarrow> probe_error + media_probe" where
  "parse_probe_json ops input file_size_bytes =
     rbind (map_err PeInvalidJson (po_json ops input)) (\<lambda>raw.
     rbind (ok_or (rp_format raw)
              (PeInvalidField (lit ''format'') (lit ''ffprobe output did not contain a format object''))) (\<lambda>format.
     rbind (collect_results (map (parse_stream ops) (rp_streams raw))) (\<lambda>streams.
     rbind (parse_duration ops (rf_duration format) ''format.duration'') (\<lambda>duration_ms.
     rbind (parse_optional_unsigned ops 64 (rf_size format) ''format.size'') (\<lambda>size_bytes.
     rbind (parse_optional_unsigned ops 64 (rf_bit_rate format) ''format.bit_rate'') (\<lambda>bit_rate.
       Inr \<lparr>mp_container_format = optional_value (rf_format_name format), mp_duration_ms = duration_ms,
            mp_size_bytes = unwrap_or size_bytes file_size_bytes, mp_bit_rate = bit_rate, mp_streams = streams\<rparr>))))))"

section \<open>The probe\<close>

definition needs_targeted_avcc_probe :: "media_stream \<Rightarrow> bool" where
  "needs_targeted_avcc_probe stream \<longleftrightarrow>
     ms_kind stream = VideoStream \<and> ms_codec_mime stream = None \<and> is_h264_codec (ms_codec stream) \<and>
     is_avc_tag (ms_codec_tag stream)"

definition merge_stream_avcc :: "raw_avcc_stream list \<Rightarrow> media_stream \<Rightarrow> media_stream" where
  "merge_stream_avcc raw stream =
     (if \<not> needs_targeted_avcc_probe stream then stream
      else case Option.bind (find (\<lambda>candidate. ra_index candidate = Some (ms_index stream)) raw) ra_extradata of
        None \<Rightarrow> stream
      | Some extradata \<Rightarrow>
          stream\<lparr>ms_codec_mime :=
            codec_mime_from_metadata (ms_codec stream) (ms_codec_tag stream) None (Some extradata)\<rparr>)"

definition merge_targeted_avcc :: "probe_ops \<Rightarrow> media_probe \<Rightarrow> u8 list \<Rightarrow> media_probe" where
  "merge_targeted_avcc ops probe input =
     (case po_avcc_json ops input of
        None \<Rightarrow> probe
      | Some raw \<Rightarrow> probe\<lparr>mp_streams := map (merge_stream_avcc raw) (mp_streams probe)\<rparr>)"

record ffprobe_adapter =
  fp_executable :: ustring
  fp_timeout :: nat
  fp_max_output_bytes :: nat

definition probe_command :: "ffprobe_adapter \<Rightarrow> ustring \<Rightarrow> external_command" where
  "probe_command prober input =
     command_max_output_bytes (fp_max_output_bytes prober) (command_timeout (fp_timeout prober)
       (command_args (map lit [''-v'', ''error'', ''-show_format'', ''-show_streams'', ''-of'', ''json''] @ [input])
         (command_new (fp_executable prober))))"

definition targeted_avcc_command :: "ffprobe_adapter \<Rightarrow> ustring \<Rightarrow> external_command" where
  "targeted_avcc_command prober input =
     command_max_output_bytes (fp_max_output_bytes prober) (command_timeout (fp_timeout prober)
       (command_args (map lit [''-v'', ''error'', ''-select_streams'', ''v:0'', ''-show_entries'',
                               ''stream=index,extradata'', ''-show_data'', ''-of'', ''json''] @ [input])
         (command_new (fp_executable prober))))"

type_synonym command_runner = "external_command \<Rightarrow> command_error + external_command_output"

definition targeted_avcc_probe :: "command_runner \<Rightarrow> ffprobe_adapter \<Rightarrow> ustring \<Rightarrow> u8 list option" where
  "targeted_avcc_probe runner prober input =
     (case runner (targeted_avcc_command prober input) of
        Inl e \<Rightarrow> None
      | Inr output \<Rightarrow>
          if \<not> eo_success output \<or> eo_stdout_truncated output \<or> eo_stderr_truncated output then None
          else Some (eo_stdout output))"

text \<open>The metadata of a path: whether it is a regular file and its length, or nothing when it cannot be read.\<close>

definition ffprobe ::
  "probe_ops \<Rightarrow> command_runner \<Rightarrow> (ustring \<Rightarrow> (bool \<times> nat) option) \<Rightarrow> ffprobe_adapter \<Rightarrow> ustring \<Rightarrow>
   probe_error + media_probe" where
  "ffprobe ops runner metadata prober input =
     (case metadata input of
        None \<Rightarrow> Inl (PeInputFile input)
      | Some (is_file, len) \<Rightarrow>
          if \<not> is_file then Inl (PeInputNotFile input)
          else rbind (map_err PeCommand (runner (probe_command prober input))) (\<lambda>output.
            if eo_stdout_truncated output \<or> eo_stderr_truncated output
            then Inl (PeOutputLimitExceeded (fp_max_output_bytes prober))
            else if \<not> eo_success output
            then Inl (PeProcessFailed (eo_exit_code output) (bounded_text ops (eo_stderr output)))
            else rbind (parse_probe_json ops (eo_stdout output) len) (\<lambda>probe.
              if list_ex needs_targeted_avcc_probe (mp_streams probe)
              then (case targeted_avcc_probe runner prober input of
                      None \<Rightarrow> Inr probe
                    | Some output \<Rightarrow> Inr (merge_targeted_avcc ops probe output))
              else Inr probe)))"

end
