(* ===== verification/Normalization.thy ===== *)
theory Normalization
  imports Media_Probe
begin

text \<open>
  The planner of the canonical video (\<open>crates/media/src/normalize.rs\<close>): the profile, the decision between a
  remux and a transcode, the sizes of the adaptation ladder in double-precision arithmetic, the bit rate of
  a two-pass encode and the commands.
\<close>

section \<open>The profile\<close>

definition TWO_PASS_SIZE_HEADROOM_BPS :: nat where
  "TWO_PASS_SIZE_HEADROOM_BPS = 200"

definition BASIS_POINTS :: nat where
  "BASIS_POINTS = 10000"

definition MINIMUM_VIDEO_BITS_PER_PIXEL_FRAME_MILLIONTHS :: nat where
  "MINIMUM_VIDEO_BITS_PER_PIXEL_FRAME_MILLIONTHS = 60000"

definition MILLION :: nat where
  "MILLION = 1000000"

text \<open>The container, the codecs, the pixel format and the preset have one value each.\<close>

definition video_codec_ffmpeg_name :: ustring where
  "video_codec_ffmpeg_name = lit ''libx264''"

definition video_codec_probe_name :: ustring where
  "video_codec_probe_name = lit ''h264''"

definition pixel_format_name :: ustring where
  "pixel_format_name = lit ''yuv420p''"

definition audio_codec_name :: ustring where
  "audio_codec_name = lit ''aac''"

definition video_preset_name :: ustring where
  "video_preset_name = lit ''medium''"

record canonical_video_profile =
  vp_max_width :: u32
  vp_max_height :: u32
  vp_max_frame_rate :: frame_rate
  vp_target_max_bytes :: nat
  vp_quality_crf :: nat
  vp_minimum_short_edge :: u32
  vp_audio_bitrate_kbps :: nat
  vp_fast_start :: bool
  vp_strip_metadata :: bool

definition default_video_profile :: canonical_video_profile where
  "default_video_profile =
     \<lparr>vp_max_width = 1920, vp_max_height = 1080, vp_max_frame_rate = \<lparr>fr_numerator = 60, fr_denominator = 1\<rparr>,
      vp_target_max_bytes = 14 * 1024 * 1024, vp_quality_crf = 27, vp_minimum_short_edge = 480,
      vp_audio_bitrate_kbps = 128, vp_fast_start = True, vp_strip_metadata = True\<rparr>"

datatype profile_error =
    ProfileInvalidDimensions u32 u32
  | ProfileInvalidFrameRate frame_rate
  | ProfileInvalidQualityCrf nat
  | ProfileInvalidTargetBytes
  | ProfileInvalidMinimumShortEdge
  | ProfileMinimumShortEdgeExceedsProfile u32 u32
  | ProfileInvalidAudioBitrate

definition profile_validate :: "canonical_video_profile \<Rightarrow> profile_error + unit" where
  "profile_validate p =
     (if vp_max_width p = 0 \<or> vp_max_height p = 0
      then Inl (ProfileInvalidDimensions (vp_max_width p) (vp_max_height p))
      else if fr_numerator (vp_max_frame_rate p) = 0 \<or> fr_denominator (vp_max_frame_rate p) = 0
      then Inl (ProfileInvalidFrameRate (vp_max_frame_rate p))
      else if vp_quality_crf p > 51 then Inl (ProfileInvalidQualityCrf (vp_quality_crf p))
      else if vp_target_max_bytes p = 0 then Inl ProfileInvalidTargetBytes
      else if vp_minimum_short_edge p = 0 then Inl ProfileInvalidMinimumShortEdge
      else if vp_minimum_short_edge p > min (vp_max_width p) (vp_max_height p)
      then Inl (ProfileMinimumShortEdgeExceedsProfile (vp_minimum_short_edge p) (min (vp_max_width p) (vp_max_height p)))
      else if vp_audio_bitrate_kbps p = 0 then Inl ProfileInvalidAudioBitrate
      else Inr ())"

record video_dimensions =
  vd_width :: u32
  vd_height :: u32

datatype normalization_mode = Remux | Transcode

record normalization_plan =
  np_mode :: normalization_mode
  np_command :: external_command
  np_output :: ustring
  np_profile :: canonical_video_profile

record two_pass_normalization_plan =
  tp_first_pass :: external_command
  tp_second_pass :: normalization_plan

record normalization_planner =
  pl_ffmpeg_executable :: ustring
  pl_profile :: canonical_video_profile

datatype normalization_error =
    NeInvalidProfile profile_error
  | NeNoVideoStream
  | NeMissingVideoDimensions
  | NeInvalidVideoBitrate
  | NeInvalidCandidateDimensions video_dimensions

definition planner_new :: "ustring \<Rightarrow> canonical_video_profile \<Rightarrow> normalization_error + normalization_planner" where
  "planner_new ffmpeg_executable profile =
     rbind (map_err NeInvalidProfile (profile_validate profile)) (\<lambda>_.
       Inr \<lparr>pl_ffmpeg_executable = ffmpeg_executable, pl_profile = profile\<rparr>)"

section \<open>Plans\<close>

text \<open>The command of a plan starts again from its program, timeout and limit.\<close>

definition restarted_command :: "external_command \<Rightarrow> external_command" where
  "restarted_command c =
     command_max_output_bytes (ec_max_output_bytes c) (command_timeout (ec_timeout c) (command_new (ec_program c)))"

definition command_with_progress_for_output :: "normalization_plan \<Rightarrow> ustring \<Rightarrow> external_command" where
  "command_with_progress_for_output plan output =
     (let args = ec_args (np_command plan) in
      if args = [] then np_command plan
      else command_args (butlast args @ [lit ''-progress'', lit ''pipe:1'', output]) (restarted_command (np_command plan)))"

definition with_output :: "ustring \<Rightarrow> normalization_plan \<Rightarrow> normalization_plan" where
  "with_output output plan =
     plan\<lparr>np_command := command_args (butlast (ec_args (np_command plan)) @ [output]) (restarted_command (np_command plan)),
          np_output := output\<rparr>"

section \<open>Frame rates\<close>

definition requires_frame_rate_cap :: "media_stream \<Rightarrow> frame_rate \<Rightarrow> bool" where
  "requires_frame_rate_cap video maximum =
     (case ms_frame_rate video of
        None \<Rightarrow> True
      | Some rate \<Rightarrow>
          fr_denominator rate = 0 \<or>
          fr_numerator maximum * fr_denominator rate < fr_numerator rate * fr_denominator maximum)"

definition frame_rate_argument :: "frame_rate \<Rightarrow> ustring" where
  "frame_rate_argument rate =
     (if fr_denominator rate = 1 then nat_text (fr_numerator rate)
      else nat_text (fr_numerator rate) @ lit ''/'' @ nat_text (fr_denominator rate))"

definition effective_frame_rate :: "media_stream \<Rightarrow> frame_rate \<Rightarrow> frame_rate" where
  "effective_frame_rate video maximum =
     (case ms_frame_rate video of
        Some rate \<Rightarrow> if \<not> requires_frame_rate_cap video maximum then rate else maximum
      | None \<Rightarrow> maximum)"

text \<open>The product wraps around at 128 bits.\<close>

definition minimum_video_bitrate :: "video_dimensions \<Rightarrow> frame_rate \<Rightarrow> nat" where
  "minimum_video_bitrate d rate =
     div_ceil (unat (vd_width d) * unat (vd_height d) * fr_numerator rate *
                 MINIMUM_VIDEO_BITS_PER_PIXEL_FRAME_MILLIONTHS mod 2 ^ 128)
       (fr_denominator rate * MILLION)"

section \<open>Sizes\<close>

definition stream_dimensions :: "media_stream \<Rightarrow> (u32 \<times> u32) option" where
  "stream_dimensions video =
     Option.bind (ms_width video) (\<lambda>width. map_option (\<lambda>height. (width, height)) (ms_height video))"

definition even_dimension :: "u32 \<Rightarrow> u32" where
  "even_dimension n = n - n mod 2"

text \<open>Halving and doubling a double are exact.\<close>

definition rounded_even_dimension :: "rat \<Rightarrow> u32" where
  "rounded_even_dimension x = f64_as_u32 (max (of_int (f64_round_integral (x / 2)) * 2) 2)"

definition rat_of_u32 :: "u32 \<Rightarrow> rat" where
  "rat_of_u32 n = of_nat (unat n)"

definition profile_scale :: "u32 \<Rightarrow> u32 \<Rightarrow> u32 \<Rightarrow> u32 \<Rightarrow> rat" where
  "profile_scale width height max_width max_height =
     min (min (f64_div (rat_of_u32 max_width) (rat_of_u32 width)) (f64_div (rat_of_u32 max_height) (rat_of_u32 height))) 1"

definition bounded_dimensions :: "u32 \<Rightarrow> u32 \<Rightarrow> u32 \<Rightarrow> u32 \<Rightarrow> video_dimensions option" where
  "bounded_dimensions width height max_width max_height =
     (if width < 2 \<or> height < 2 then None
      else let scale = profile_scale width height max_width max_height in
        Some \<lparr>vd_width = max (min (rounded_even_dimension (f64_mul (rat_of_u32 width) scale)) (even_dimension width)) 2,
              vd_height = max (min (rounded_even_dimension (f64_mul (rat_of_u32 height) scale)) (even_dimension height)) 2\<rparr>)"

definition canonical_dimensions :: "canonical_video_profile \<Rightarrow> media_stream \<Rightarrow> video_dimensions option" where
  "canonical_dimensions profile video =
     Option.bind (stream_dimensions video) (\<lambda>(width, height).
       bounded_dimensions width height (vp_max_width profile) (vp_max_height profile))"

definition short_edge_of :: "video_dimensions \<Rightarrow> u32" where
  "short_edge_of d = min (vd_width d) (vd_height d)"

definition effective_minimum_short_edge :: "canonical_video_profile \<Rightarrow> media_stream \<Rightarrow> u32 option" where
  "effective_minimum_short_edge profile video =
     map_option (\<lambda>d. min (vp_minimum_short_edge profile) (short_edge_of d)) (canonical_dimensions profile video)"

definition validate_candidate_dimensions ::
  "video_dimensions \<Rightarrow> media_stream \<Rightarrow> canonical_video_profile \<Rightarrow> normalization_error + unit" where
  "validate_candidate_dimensions d source profile =
     (if vd_width d = 0 \<or> vd_height d = 0 \<or> vd_width d mod 2 \<noteq> 0 \<or> vd_height d mod 2 \<noteq> 0 \<or>
         vd_width d > vp_max_width profile \<or> vd_height d > vp_max_height profile \<or>
         (case effective_minimum_short_edge profile source of None \<Rightarrow> False | Some minimum \<Rightarrow> short_edge_of d < minimum)
      then Inl (NeInvalidCandidateDimensions d)
      else case stream_dimensions source of
        None \<Rightarrow> Inr ()
      | Some (width, height) \<Rightarrow>
          if vd_width d > width \<or> vd_height d > height then Inl (NeInvalidCandidateDimensions d) else Inr ())"

text \<open>A rung: the initial size scaled to a short edge.\<close>

definition scaled_dimensions :: "video_dimensions \<Rightarrow> u32 \<Rightarrow> video_dimensions" where
  "scaled_dimensions initial short =
     (let scale = f64_div (rat_of_u32 short) (rat_of_u32 (short_edge_of initial)) in
      \<lparr>vd_width = max (rounded_even_dimension (f64_mul (rat_of_u32 (vd_width initial)) scale)) 2,
       vd_height = max (rounded_even_dimension (f64_mul (rat_of_u32 (vd_height initial)) scale)) 2\<rparr>)"

definition next_short_edge :: "u32 \<Rightarrow> u32 \<Rightarrow> u32" where
  "next_short_edge minimum short_edge =
     min (max (of_nat ((unat short_edge * 3 + 2) div 4)) minimum) (if short_edge \<ge> 2 then short_edge - 2 else 0)"

subsection \<open>The rounding of a size\<close>

lemma unat_f64_as_u32: "unat (f64_as_u32 x) = min (nat \<lfloor>x\<rfloor>) (2 ^ 32 - 1)"
  by (simp add: f64_as_u32_def unat_of_nat take_bit_nat_eq_self min_less_iff_disj)

lemma unat_u32_less: "unat (n :: u32) < 2 ^ 32"
  using unsigned_less [of n, where 'a = nat] by simp

lemma rat_of_u32_nonneg [simp]: "0 \<le> rat_of_u32 n"
  unfolding rat_of_u32_def by (rule of_nat_0_le_iff)

lemma rat_of_u32_0 [simp]: "rat_of_u32 0 = 0"
  by (simp add: rat_of_u32_def)

lemma rat_of_u32_le: "rat_of_u32 n \<le> rat_of_u32 m \<longleftrightarrow> n \<le> m"
  unfolding rat_of_u32_def by (simp only: of_nat_le_iff word_le_nat_alt)

lemma rat_of_u32_pos: "0 < rat_of_u32 n \<longleftrightarrow> n \<noteq> 0"
  unfolding rat_of_u32_def by (simp only: of_nat_0_less_iff unat_gt_0)

lemma rat_of_u32_less: "rat_of_u32 n < 2 ^ 32"
proof -
  have "(of_nat (unat n) :: rat) < of_nat (2 ^ 32)" by (simp only: of_nat_less_iff unat_u32_less)
  then show ?thesis unfolding rat_of_u32_def by (simp only: of_nat_power of_nat_numeral)
qed

lemma unat_rounded_even:
  assumes "0 \<le> x"
  shows "unat (rounded_even_dimension x) = min (max (2 * nat \<lfloor>x / 2 + 1 / 2\<rfloor>) 2) (2 ^ 32 - 1)"
proof -
  define k where "k = \<lfloor>x / 2 + 1 / 2\<rfloor>"
  have k: "0 \<le> k" using assms by (simp add: k_def)
  have "max (of_int k * 2) (2 :: rat) = of_int (max (k * 2) 2)" by (simp add: of_int_max)
  then have "\<lfloor>max (of_int k * 2) (2 :: rat)\<rfloor> = max (k * 2) 2" by (simp only: floor_of_int)
  moreover have "nat (max (k * 2) 2) = max (2 * nat k) 2" using k by linarith
  moreover have "f64_round_integral (x / 2) = k" using assms by (simp add: f64_round_integral_def k_def)
  ultimately show ?thesis unfolding rounded_even_dimension_def unat_f64_as_u32 k_def by presburger
qed

text \<open>A size within less than one of a whole number.\<close>

lemma rounded_even_le:
  assumes "0 \<le> x" and "x < of_nat n + 1"
  shows "unat (rounded_even_dimension x) \<le> max (n + 1) 2"
proof -
  define k where "k = nat \<lfloor>x / 2 + 1 / 2\<rfloor>"
  have "(of_nat k :: rat) \<le> x / 2 + 1 / 2" using assms by (simp add: k_def)
  then have "(of_nat (2 * k) :: rat) < of_nat (n + 2)" using assms(2) by simp
  then have "2 * k < n + 2" by (simp only: of_nat_less_iff)
  then have "2 * k \<le> n + 1" by linarith
  then show ?thesis using unat_rounded_even [OF assms(1)] by (simp add: k_def)
qed

lemma rounded_even_ge:
  assumes "0 \<le> x" and "of_nat n < x + 1" and "even n" and "n < 2 ^ 32"
  shows "n \<le> unat (rounded_even_dimension x)"
proof -
  define k where "k = nat \<lfloor>x / 2 + 1 / 2\<rfloor>"
  have "x / 2 + 1 / 2 < of_int (\<lfloor>x / 2 + 1 / 2\<rfloor> + 1)" by linarith
  also have "\<dots> = of_nat (k + 1)" using assms(1) by (simp add: k_def)
  finally have "(of_nat n :: rat) < of_nat (2 * k + 2)" using assms(2) by simp
  then have "n < 2 * k + 2" by (simp only: of_nat_less_iff)
  then have "n \<le> 2 * k" using assms(3) by presburger
  then show ?thesis using unat_rounded_even [OF assms(1)] assms(4) by (simp add: k_def)
qed

lemma rounded_even_even:
  assumes "0 \<le> x" and "x < 2 ^ 32 - 1"
  shows "even (unat (rounded_even_dimension x))"
proof -
  define k where "k = nat \<lfloor>x / 2 + 1 / 2\<rfloor>"
  have "(of_nat k :: rat) \<le> x / 2 + 1 / 2" using assms by (simp add: k_def)
  then have "(of_nat (2 * k) :: rat) < of_nat (2 ^ 32)" using assms(2) by simp
  then have "2 * k < 2 ^ 32" by (simp only: of_nat_less_iff)
  then show ?thesis using unat_rounded_even [OF assms(1)] by (simp add: k_def min_def max_def)
qed

lemma rounded_even_even_or_max: "0 \<le> x \<Longrightarrow> even (unat (rounded_even_dimension x)) \<or> unat (rounded_even_dimension x) = 2 ^ 32 - 1"
  using unat_rounded_even [of x] by (auto simp: min_def max_def)

lemma rounded_even_ge_2: "0 \<le> x \<Longrightarrow> 2 \<le> unat (rounded_even_dimension x)"
  using unat_rounded_even [of x] by simp

subsection \<open>The error of a scaled size\<close>

lemma scaled_size_nonneg: "0 \<le> f64_mul (rat_of_u32 d) (f64_div (rat_of_u32 n) (rat_of_u32 i))"
  by (simp add: f64_mul_def f64_div_def f64_round_nonneg)

lemma scaled_size_less:
  fixes n i d :: u32
  assumes "n \<le> i \<or> d \<le> i" and "i \<noteq> 0"
  shows "rat_of_u32 d * (rat_of_u32 n / rat_of_u32 i) < 2 ^ 32"
proof -
  have i: "0 < rat_of_u32 i" using assms(2) by (simp add: rat_of_u32_pos)
  have "rat_of_u32 d * (rat_of_u32 n / rat_of_u32 i) \<le> max (rat_of_u32 d) (rat_of_u32 n)"
  proof (cases "n \<le> i")
    case True
    then have "rat_of_u32 n / rat_of_u32 i \<le> 1" using i by (simp add: rat_of_u32_le)
    then have "rat_of_u32 d * (rat_of_u32 n / rat_of_u32 i) \<le> rat_of_u32 d * 1" by (intro mult_left_mono) auto
    then show ?thesis by simp
  next
    case False
    with assms have "rat_of_u32 d / rat_of_u32 i \<le> 1" using i by (simp add: rat_of_u32_le)
    then have "rat_of_u32 n * (rat_of_u32 d / rat_of_u32 i) \<le> rat_of_u32 n * 1" by (intro mult_left_mono) auto
    then show ?thesis by (simp add: mult.commute)
  qed
  then show ?thesis using rat_of_u32_less [of d] rat_of_u32_less [of n] by linarith
qed

lemma scaled_size_error:
  fixes n i d :: u32
  assumes "n \<le> i \<or> d \<le> i" and "i \<noteq> 0"
  shows "\<bar>f64_mul (rat_of_u32 d) (f64_div (rat_of_u32 n) (rat_of_u32 i)) - rat_of_u32 d * (rat_of_u32 n / rat_of_u32 i)\<bar> < 1"
proof -
  let ?q = "rat_of_u32 d * (rat_of_u32 n / rat_of_u32 i)"
  have "?q / 2 ^ 51 < 1" using scaled_size_less [OF assms] by simp
  moreover have "\<bar>f64_mul (rat_of_u32 d) (f64_div (rat_of_u32 n) (rat_of_u32 i)) - ?q\<bar> \<le> ?q / 2 ^ 51"
    by (rule f64_mul_div_error) auto
  ultimately show ?thesis by linarith
qed

text \<open>The dimension that is the short edge of the initial size.\<close>

lemma scaled_short_le:
  "unat (rounded_even_dimension (f64_mul (rat_of_u32 i) (f64_div (rat_of_u32 n) (rat_of_u32 i)))) \<le> max (unat n + 1) 2"
proof (cases "i = 0")
  case True
  have "unat (rounded_even_dimension 0) \<le> max (unat n + 1) 2" using rounded_even_le [of 0 0] by simp
  with True show ?thesis by (simp add: f64_mul_def f64_div_def)
next
  case False
  then have "f64_mul (rat_of_u32 i) (f64_div (rat_of_u32 n) (rat_of_u32 i)) < rat_of_u32 n + 1"
    using scaled_size_error [of n i i] rat_of_u32_pos [of i] by simp
  then show ?thesis
    using rounded_even_le [OF scaled_size_nonneg, of i n i "unat n"] by (simp only: rat_of_u32_def [of n])
qed

lemma unat_max: "unat (max a (b :: u32)) = max (unat a) (unat b)"
  by (simp add: max_def word_le_nat_alt)

lemma unat_min: "unat (min a (b :: u32)) = min (unat a) (unat b)"
  by (simp add: min_def word_le_nat_alt)

lemma unat_short_edge_of: "unat (short_edge_of d) = min (unat (vd_width d)) (unat (vd_height d))"
  by (simp add: short_edge_of_def unat_min)

lemma scaled_dimensions_short_le: "unat (short_edge_of (scaled_dimensions initial n)) \<le> max (unat n + 1) 2"
proof -
  let ?i = "short_edge_of initial"
  let ?r = "\<lambda>d. unat (rounded_even_dimension (f64_mul (rat_of_u32 d) (f64_div (rat_of_u32 n) (rat_of_u32 ?i))))"
  have "min (?r (vd_width initial)) (?r (vd_height initial)) \<le> max (unat n + 1) 2"
    using scaled_short_le [of ?i n] by (cases "vd_width initial \<le> vd_height initial") (auto simp: short_edge_of_def min_def)
  then show ?thesis
    by (simp add: scaled_dimensions_def Let_def unat_short_edge_of unat_max)
qed

lemma unat_numeral_u32: "unat (2 :: u32) = 2"
  by simp

lemma scaled_dimensions_0: "scaled_dimensions initial 0 = \<lparr>vd_width = 2, vd_height = 2\<rparr>"
proof -
  have "unat (rounded_even_dimension 0) = 2" using unat_rounded_even [of 0] by simp
  then have "rounded_even_dimension 0 = 2" by (metis unat_numeral_u32 word_unat_eq_iff)
  then show ?thesis by (simp add: scaled_dimensions_def Let_def f64_mul_def f64_div_def)
qed

lemma next_short_edge_le: "2 \<le> short_edge \<Longrightarrow> unat (next_short_edge minimum short_edge) \<le> unat short_edge - 2"
  by (simp add: next_short_edge_def unat_min unat_sub word_le_nat_alt)

lemma next_short_edge_0: "short_edge \<le> 2 \<Longrightarrow> next_short_edge minimum short_edge = 0"
  by (auto simp: next_short_edge_def min_def)

subsection \<open>The ladder\<close>

function ladder_loop ::
  "video_dimensions \<Rightarrow> u32 \<Rightarrow> video_dimensions list \<Rightarrow> u32 \<Rightarrow> video_dimensions list" where
  "ladder_loop initial minimum ladder short_edge =
     (if short_edge > minimum
      then let candidate = scaled_dimensions initial (next_short_edge minimum short_edge) in
        if short_edge_of candidate < minimum
        then let candidate = scaled_dimensions initial minimum in
             if last ladder \<noteq> candidate then ladder @ [candidate] else ladder
        else if last ladder = candidate then ladder
        else ladder_loop initial minimum (ladder @ [candidate]) (short_edge_of candidate)
      else ladder)"
  by pat_completeness auto
termination
proof (relation "measure (\<lambda>(initial, minimum, ladder, short_edge).
    if short_edge \<le> 2 then (if last ladder = \<lparr>vd_width = 2, vd_height = 2\<rparr> then 0 else 1) else unat short_edge + 1)")
  fix initial minimum ladder short_edge candidate
  assume g: "minimum < short_edge" "candidate = scaled_dimensions initial (next_short_edge minimum short_edge)"
    "last ladder \<noteq> candidate"
  let ?two = "\<lparr>vd_width = 2, vd_height = 2\<rparr> :: video_dimensions"
  show "((initial, minimum, ladder @ [candidate], short_edge_of candidate), initial, minimum, ladder, short_edge)
    \<in> measure (\<lambda>(initial, minimum, ladder, short_edge).
      if short_edge \<le> 2 then (if last ladder = ?two then 0 else 1) else unat short_edge + 1)"
  proof (cases "short_edge \<le> 2")
    case True
    then have "candidate = ?two" using g by (simp add: next_short_edge_0 scaled_dimensions_0)
    then show ?thesis using g True by (auto simp: short_edge_of_def)
  next
    case False
    then have "unat (next_short_edge minimum short_edge) \<le> unat short_edge - 2" "2 < unat short_edge"
      using next_short_edge_le [of short_edge minimum] by (auto simp: word_le_nat_alt)
    then have "unat (short_edge_of candidate) < unat short_edge"
      using scaled_dimensions_short_le [of initial "next_short_edge minimum short_edge"] g by simp
    then show ?thesis using False \<open>2 < unat short_edge\<close> by auto
  qed
qed simp

declare ladder_loop.simps [simp del]

definition resolution_ladder :: "canonical_video_profile \<Rightarrow> media_stream \<Rightarrow> video_dimensions list" where
  "resolution_ladder profile video =
     (case canonical_dimensions profile video of
        None \<Rightarrow> []
      | Some initial \<Rightarrow>
          if short_edge_of initial \<le> vp_minimum_short_edge profile then [initial]
          else ladder_loop initial (vp_minimum_short_edge profile) [initial] (short_edge_of initial))"

subsection \<open>The rungs\<close>

text \<open>A rung under an initial size: even, no larger, and its short edge at least the floor.\<close>

definition rung :: "video_dimensions \<Rightarrow> u32 \<Rightarrow> video_dimensions \<Rightarrow> bool" where
  "rung initial minimum d \<longleftrightarrow>
     even (unat (vd_width d)) \<and> even (unat (vd_height d)) \<and> 2 \<le> unat (vd_width d) \<and> 2 \<le> unat (vd_height d) \<and>
     vd_width d \<le> vd_width initial \<and> vd_height d \<le> vd_height initial \<and> minimum \<le> short_edge_of d"

definition scaled_size :: "u32 \<Rightarrow> u32 \<Rightarrow> u32 \<Rightarrow> u32" where
  "scaled_size i n d = max (rounded_even_dimension (f64_mul (rat_of_u32 d) (f64_div (rat_of_u32 n) (rat_of_u32 i)))) 2"

lemma scaled_dimensions_alt:
  "scaled_dimensions initial n =
     \<lparr>vd_width = scaled_size (short_edge_of initial) n (vd_width initial),
      vd_height = scaled_size (short_edge_of initial) n (vd_height initial)\<rparr>"
  by (simp add: scaled_dimensions_def scaled_size_def Let_def)

lemma even_u32_less: "even (unat (d :: u32)) \<Longrightarrow> unat d + 1 < 2 ^ 32"
  using unat_u32_less [of d] by (auto elim!: evenE)

lemma scaled_size_bounds:
  fixes i n d :: u32
  assumes "n \<le> i" and "i \<noteq> 0" and d: "even (unat d)" "2 \<le> unat d"
  shows "even (unat (scaled_size i n d)) \<and> 2 \<le> unat (scaled_size i n d) \<and> unat (scaled_size i n d) \<le> unat d"
proof -
  let ?v = "f64_mul (rat_of_u32 d) (f64_div (rat_of_u32 n) (rat_of_u32 i))"
  have "rat_of_u32 n / rat_of_u32 i \<le> 1" using assms by (simp add: rat_of_u32_le rat_of_u32_pos)
  then have "rat_of_u32 d * (rat_of_u32 n / rat_of_u32 i) \<le> rat_of_u32 d * 1" by (intro mult_left_mono) auto
  then have v: "?v < rat_of_u32 d + 1" using scaled_size_error [of n i d] assms by linarith
  then have le: "unat (rounded_even_dimension ?v) \<le> max (unat d + 1) 2"
    unfolding rat_of_u32_def [of d] by (intro rounded_even_le) (use scaled_size_nonneg rat_of_u32_def in auto)
  have "(of_nat (unat d + 1) :: rat) \<le> of_nat (2 ^ 32 - 1)"
    using even_u32_less [OF d(1)] by (intro of_nat_mono) linarith
  then have "rat_of_u32 d + 1 \<le> 2 ^ 32 - 1" unfolding rat_of_u32_def by (simp add: of_nat_diff del: of_nat_unat)
  then have ev: "even (unat (rounded_even_dimension ?v))"
    using v by (intro rounded_even_even scaled_size_nonneg) linarith
  then have "unat (rounded_even_dimension ?v) \<le> unat d" using le d by (auto simp: max_def split: if_splits) presburger+
  then show ?thesis using ev d rounded_even_ge_2 [OF scaled_size_nonneg, of d n i]
    by (simp add: scaled_size_def unat_max)
qed

lemma scaled_size_ge:
  fixes i n d :: u32
  assumes "n \<le> i" and "i \<noteq> 0" and "i \<le> d" and n: "even (unat n)"
  shows "unat n \<le> unat (scaled_size i n d)"
proof -
  let ?v = "f64_mul (rat_of_u32 d) (f64_div (rat_of_u32 n) (rat_of_u32 i))"
  have "0 < rat_of_u32 i" "rat_of_u32 i \<le> rat_of_u32 d" using assms by (simp_all add: rat_of_u32_le rat_of_u32_pos)
  then have "rat_of_u32 n * 1 \<le> rat_of_u32 n * (rat_of_u32 d / rat_of_u32 i)" by (intro mult_left_mono) auto
  then have "rat_of_u32 n < ?v + 1" using scaled_size_error [of n i d] assms by (simp add: mult.commute)
  then have "unat n \<le> unat (rounded_even_dimension ?v)"
    using rounded_even_ge [OF scaled_size_nonneg _ n unat_u32_less, of d n i] by (simp only: rat_of_u32_def [of n])
  then show ?thesis by (simp add: scaled_size_def unat_max)
qed

lemma scaled_size_short:
  fixes i n :: u32
  assumes "n \<le> i" and "i \<noteq> 0" and n: "even (unat n)" "2 \<le> unat n" and "even (unat i)"
  shows "scaled_size i n i = n"
proof -
  have "2 \<le> unat i" using assms by (simp add: word_le_nat_alt)
  then have "even (unat (scaled_size i n i))" using scaled_size_bounds [of n i i] assms by simp
  moreover have "unat (scaled_size i n i) \<le> max (unat n + 1) 2"
    using scaled_short_le [of i n] by (simp add: scaled_size_def unat_max)
  moreover have "unat n \<le> unat (scaled_size i n i)" using scaled_size_ge [of n i i] assms by simp
  ultimately have "unat (scaled_size i n i) = unat n" using n by (auto simp: max_def split: if_splits) presburger+
  then show ?thesis by (simp add: word_unat_eq_iff)
qed

text \<open>The initial size of a ladder is even and not empty.\<close>

definition even_size :: "video_dimensions \<Rightarrow> bool" where
  "even_size d \<longleftrightarrow> even (unat (vd_width d)) \<and> even (unat (vd_height d)) \<and> 2 \<le> unat (vd_width d) \<and> 2 \<le> unat (vd_height d)"

lemma even_size_short:
  "even_size d \<Longrightarrow> even (unat (short_edge_of d)) \<and> 2 \<le> unat (short_edge_of d) \<and> short_edge_of d \<noteq> 0 \<and>
    short_edge_of d \<le> vd_width d \<and> short_edge_of d \<le> vd_height d"
  by (auto simp: even_size_def short_edge_of_def min_def)

lemma scaled_dimensions_size:
  assumes "even_size initial" and "n \<le> short_edge_of initial"
  shows "even_size (scaled_dimensions initial n) \<and> vd_width (scaled_dimensions initial n) \<le> vd_width initial \<and>
    vd_height (scaled_dimensions initial n) \<le> vd_height initial"
  using assms even_size_short [OF assms(1)]
    scaled_size_bounds [of n "short_edge_of initial" "vd_width initial"]
    scaled_size_bounds [of n "short_edge_of initial" "vd_height initial"]
  by (simp add: scaled_dimensions_alt even_size_def word_le_nat_alt)

lemma scaled_dimensions_short:
  assumes "even_size initial" and "n \<le> short_edge_of initial" and "even (unat n)" and "2 \<le> unat n"
  shows "short_edge_of (scaled_dimensions initial n) = n"
proof -
  let ?i = "short_edge_of initial"
  have i: "even (unat ?i)" "?i \<noteq> 0" "?i \<le> vd_width initial" "?i \<le> vd_height initial"
    using even_size_short [OF assms(1)] by auto
  have "n \<le> scaled_size ?i n (vd_width initial)" "n \<le> scaled_size ?i n (vd_height initial)"
    using scaled_size_ge [of n ?i] assms i by (auto simp: word_le_nat_alt)
  moreover have "scaled_size ?i n ?i = n" using scaled_size_short [of n ?i] assms i by simp
  ultimately show ?thesis
    by (cases "vd_width initial \<le> vd_height initial") (auto simp: scaled_dimensions_alt short_edge_of_def min_def)
qed

lemma scaled_dimensions_below:
  assumes "even_size initial" and "even (unat short_edge)" and "2 < unat short_edge" and "short_edge \<le> short_edge_of initial"
  shows "short_edge_of (scaled_dimensions initial (next_short_edge minimum short_edge)) < short_edge"
proof -
  let ?n = "next_short_edge minimum short_edge"
  have "unat ?n \<le> unat short_edge - 2"
    using next_short_edge_le [of short_edge minimum] assms(3) by (simp add: word_le_nat_alt)
  moreover have "unat (short_edge_of (scaled_dimensions initial ?n)) \<le> max (unat ?n + 1) 2"
    by (rule scaled_dimensions_short_le)
  ultimately show ?thesis using assms(3) by (simp add: word_less_nat_alt)
qed

lemma next_short_edge_below: "2 \<le> unat short_edge \<Longrightarrow> short_edge \<le> i \<Longrightarrow> next_short_edge minimum short_edge \<le> i"
  using next_short_edge_le [of short_edge minimum] by (simp add: word_le_nat_alt)

definition descending_edges :: "video_dimensions list \<Rightarrow> bool" where
  "descending_edges ladder \<longleftrightarrow> sorted_wrt (\<lambda>a b. short_edge_of b < short_edge_of a) ladder"

lemma descending_snoc:
  assumes "descending_edges ladder" and "ladder \<noteq> []" and "short_edge_of d < short_edge_of (last ladder)"
  shows "descending_edges (ladder @ [d])"
proof -
  have "\<forall>x \<in> set ladder. short_edge_of (last ladder) \<le> short_edge_of x"
  proof
    fix x assume "x \<in> set ladder"
    then have "x = last ladder \<or> x \<in> set (butlast ladder)"
      by (metis append_butlast_last_id assms(2) in_set_conv_decomp rotate1.simps(2) set_ConsD set_rotate1)
    moreover have "sorted_wrt (\<lambda>a b. short_edge_of b < short_edge_of a) (butlast ladder @ [last ladder])"
      using assms(1,2) by (simp add: descending_edges_def)
    ultimately show "short_edge_of (last ladder) \<le> short_edge_of x" by (auto simp: sorted_wrt_append)
  qed
  then show ?thesis using assms by (fastforce simp: descending_edges_def sorted_wrt_append)
qed

text \<open>A ladder of rungs of descending short edges, from its first size down to the last.\<close>

definition sound_ladder :: "video_dimensions \<Rightarrow> u32 \<Rightarrow> video_dimensions list \<Rightarrow> bool" where
  "sound_ladder initial minimum ladder \<longleftrightarrow>
     ladder \<noteq> [] \<and> hd ladder = initial \<and> descending_edges ladder \<and> (\<forall>d \<in> set ladder. even_size d \<and> rung initial minimum d)"

lemma sound_ladder_snoc:
  assumes "sound_ladder initial minimum ladder" and "even_size d" and "rung initial minimum d"
    and "short_edge_of d < short_edge_of (last ladder)"
  shows "sound_ladder initial minimum (ladder @ [d])"
  using assms by (auto simp: sound_ladder_def intro: descending_snoc)

lemma sound_ladder_last:
  assumes "sound_ladder initial minimum ladder"
  shows "even_size (last ladder) \<and> minimum \<le> short_edge_of (last ladder) \<and> short_edge_of (last ladder) \<le> short_edge_of initial"
proof -
  have "last ladder \<in> set ladder" using assms by (simp add: sound_ladder_def)
  then have "even_size (last ladder)" "rung initial minimum (last ladder)" using assms by (auto simp: sound_ladder_def)
  then show ?thesis by (auto simp: rung_def short_edge_of_def min_def)
qed

lemma even_ge_2:
  assumes "even (unat (m :: u32))" and "m \<noteq> 0"
  shows "2 \<le> unat m"
proof -
  have "unat m \<noteq> 0" using assms(2) by (simp add: unat_eq_zero)
  with assms(1) show ?thesis by presburger
qed

lemma even_sizeI_rung:
  "even_size d \<Longrightarrow> vd_width d \<le> vd_width initial \<Longrightarrow> vd_height d \<le> vd_height initial \<Longrightarrow> minimum \<le> short_edge_of d \<Longrightarrow>
    rung initial minimum d"
  by (simp add: rung_def even_size_def)

lemma ladder_loop_sound:
  assumes "even_size initial" and "even (unat minimum)" and "minimum \<noteq> 0"
    and "sound_ladder initial minimum ladder" and "short_edge_of (last ladder) = short_edge"
  shows "sound_ladder initial minimum (ladder_loop initial minimum ladder short_edge) \<and>
    short_edge_of (last (ladder_loop initial minimum ladder short_edge)) = minimum"
  using assms
proof (induction initial minimum ladder short_edge rule: ladder_loop.induct)
  case (1 initial minimum ladder short_edge)
  note last = sound_ladder_last [OF "1.prems"(4), unfolded "1.prems"(5)]
  have m: "2 \<le> unat minimum" using "1.prems"(2,3) by (rule even_ge_2)
  show ?case
  proof (cases "short_edge > minimum")
    case False
    with last "1.prems"(4,5) show ?thesis by (subst (1 2) ladder_loop.simps) auto
  next
    case True
    let ?c = "scaled_dimensions initial (next_short_edge minimum short_edge)"
    let ?f = "scaled_dimensions initial minimum"
    have se: "2 < unat short_edge" "even (unat short_edge)" "short_edge \<le> short_edge_of initial"
      using True m last even_size_short [of "last ladder"] "1.prems"(5) by (auto simp: word_less_nat_alt)
    have c: "even_size ?c \<and> vd_width ?c \<le> vd_width initial \<and> vd_height ?c \<le> vd_height initial"
      using se by (intro scaled_dimensions_size "1.prems"(1) next_short_edge_below) auto
    have c_less: "short_edge_of ?c < short_edge" using "1.prems"(1) se by (intro scaled_dimensions_below) auto
    show ?thesis
    proof (cases "short_edge_of ?c < minimum")
      case floor: True
      have "minimum \<le> short_edge_of initial" using True se(3) by simp
      with scaled_dimensions_short [OF "1.prems"(1) _ "1.prems"(2) m] scaled_dimensions_size [OF "1.prems"(1)]
      have f: "short_edge_of ?f = minimum" "even_size ?f" "vd_width ?f \<le> vd_width initial" "vd_height ?f \<le> vd_height initial"
        by auto
      with True "1.prems"(5) have "last ladder \<noteq> ?f" by auto
      then have "ladder_loop initial minimum ladder short_edge = ladder @ [?f]"
        using True floor by (subst ladder_loop.simps) (simp add: Let_def)
      moreover have "sound_ladder initial minimum (ladder @ [?f])"
        using f True "1.prems"(4,5) by (intro sound_ladder_snoc even_sizeI_rung) auto
      ultimately show ?thesis using f by simp
    next
      case above: False
      have "last ladder \<noteq> ?c" using c_less "1.prems"(5) by auto
      moreover from this have "ladder_loop initial minimum ladder short_edge =
          ladder_loop initial minimum (ladder @ [?c]) (short_edge_of ?c)"
        using True above by (subst ladder_loop.simps) (simp add: Let_def)
      moreover have "sound_ladder initial minimum (ladder @ [?c])"
        using c c_less above "1.prems"(4,5) by (intro sound_ladder_snoc even_sizeI_rung) auto
      ultimately show ?thesis using "1.IH" [OF True refl above] "1.prems"(1-3) by simp
    qed
  qed
qed

subsection \<open>The canonical size\<close>

lemma f64_mul_scaled_less:
  assumes "0 < a" and "0 \<le> s" and "s \<le> f64_div n a" and "0 \<le> n" and "n < 2 ^ 32"
  shows "f64_mul a s < n + 1"
proof -
  have "f64_div n a \<le> n / a + n / a / 2 ^ 53"
    using f64_round_upper [of "n / a"] assms by (simp add: f64_div_def)
  then have "a * s \<le> a * (n / a + n / a / 2 ^ 53)" using assms(1,3) by (intro mult_left_mono) auto
  also have "\<dots> = n + n / 2 ^ 53" using assms(1) by (simp add: field_simps)
  finally have s: "a * s \<le> n + n / 2 ^ 53" .
  have "f64_mul a s \<le> a * s + a * s / 2 ^ 53"
    using f64_round_upper [of "a * s"] assms(1,2) by (simp add: f64_mul_def)
  moreover have "n / 2 ^ 53 < 1 / 4" using assms(5) by simp
  moreover from this s assms(5) have "a * s / 2 ^ 53 < 1 / 4" by simp
  ultimately show ?thesis using s by linarith
qed

lemma profile_scale_bounds:
  "profile_scale w h mw mh \<le> f64_div (rat_of_u32 mw) (rat_of_u32 w)"
  "profile_scale w h mw mh \<le> f64_div (rat_of_u32 mh) (rat_of_u32 h)"
  "0 \<le> profile_scale w h mw mh"
  by (auto simp: profile_scale_def f64_div_def f64_round_nonneg)

lemma unat_even_dimension: "unat (even_dimension n) = unat n - unat n mod 2"
  by (simp add: even_dimension_def unat_sub word_le_nat_alt unat_mod)

lemma canonical_size:
  fixes n limit :: u32
  assumes "2 \<le> n" and "even (unat limit)" and "limit \<noteq> 0" and "0 \<le> s" and "s \<le> f64_div (rat_of_u32 limit) (rat_of_u32 n)"
  defines "d \<equiv> max (min (rounded_even_dimension (f64_mul (rat_of_u32 n) s)) (even_dimension n)) 2"
  shows "even (unat d) \<and> 2 \<le> unat d \<and> d \<le> n \<and> d \<le> limit"
proof -
  let ?v = "f64_mul (rat_of_u32 n) s"
  have v0: "0 \<le> ?v" using assms(4) by (simp add: f64_mul_def f64_round_nonneg)
  have "n \<noteq> 0" using assms(1) by auto
  then have v: "?v < rat_of_u32 limit + 1"
    using assms(4,5) rat_of_u32_less [of limit] by (intro f64_mul_scaled_less) (auto simp: rat_of_u32_pos)
  have "(of_nat (unat limit + 1) :: rat) \<le> of_nat (2 ^ 32 - 1)"
    using even_u32_less [OF assms(2)] by (intro of_nat_mono) linarith
  then have "rat_of_u32 limit + 1 \<le> 2 ^ 32 - 1" unfolding rat_of_u32_def by (simp add: of_nat_diff del: of_nat_unat)
  then have ev: "even (unat (rounded_even_dimension ?v))" using v v0 by (intro rounded_even_even) auto
  have "unat (rounded_even_dimension ?v) \<le> max (unat limit + 1) 2"
    using v by (intro rounded_even_le v0) (simp only: rat_of_u32_def)
  then have le: "unat (rounded_even_dimension ?v) \<le> unat limit"
    using ev assms(2) even_ge_2 [OF assms(2,3)] by (auto simp: max_def split: if_splits) presburger+
  have "unat n - unat n mod 2 \<le> unat n" "even (unat n - unat n mod 2)" "2 \<le> unat n"
    using assms(1) by (auto simp: word_le_nat_alt minus_mod_eq_mult_div)
  then show ?thesis
    using ev le even_ge_2 [OF assms(2,3)]
    by (simp add: d_def unat_max unat_min unat_even_dimension word_le_nat_alt) (auto simp: min_def max_def)
qed

lemma bounded_dimensions_sound:
  assumes "2 \<le> w" and "2 \<le> h" and "even (unat mw)" and "even (unat mh)" and "mw \<noteq> 0" and "mh \<noteq> 0"
  shows "\<exists>d. bounded_dimensions w h mw mh = Some d \<and> even_size d \<and> vd_width d \<le> w \<and> vd_height d \<le> h \<and>
    vd_width d \<le> mw \<and> vd_height d \<le> mh"
proof -
  let ?s = "profile_scale w h mw mh"
  note s = profile_scale_bounds [where w = w and h = h and mw = mw and mh = mh]
  show ?thesis
    using assms canonical_size [OF assms(1,3,5) s(3,1)] canonical_size [OF assms(2,4,6) s(3,2)]
    by (simp add: bounded_dimensions_def Let_def even_size_def not_less)
qed

section \<open>The decision\<close>

definition first_video_stream :: "media_probe \<Rightarrow> media_stream option" where
  "first_video_stream probe = find (\<lambda>stream. ms_kind stream = VideoStream) (mp_streams probe)"

definition is_mp4_container :: "ustring option \<Rightarrow> bool" where
  "is_mp4_container container =
     (case container of
        None \<Rightarrow> False
      | Some value \<Rightarrow>
          list_ex (\<lambda>format. eq_ignore_ascii_case (trim format) (lit ''mp4'') \<or> eq_ignore_ascii_case (trim format) (lit ''mov''))
            (split_on 44 value))"

definition dimensions_within_profile :: "media_stream \<Rightarrow> canonical_video_profile \<Rightarrow> bool" where
  "dimensions_within_profile video profile =
     (case stream_dimensions video of
        None \<Rightarrow> False
      | Some (width, height) \<Rightarrow> width \<le> vp_max_width profile \<and> height \<le> vp_max_height profile)"

definition h264_profile_idc :: "ustring \<Rightarrow> nat option" where
  "h264_profile_idc profile =
     map_of [(lit ''baseline'', 66), (lit ''constrained baseline'', 66), (lit ''main'', 77), (lit ''extended'', 88),
             (lit ''high'', 100), (lit ''constrained high'', 100), (lit ''high 10'', 110), (lit ''high 4:2:2'', 122),
             (lit ''high 4:4:4 predictive'', 244), (lit ''cavlc 4:4:4 intra'', 44)] (to_ascii_lowercase profile)"

definition h264_level_limits :: "nat \<Rightarrow> (nat \<times> nat) option" where
  "h264_level_limits level =
     map_of [(10, 99, 1485), (11, 396, 3000), (12, 396, 6000), (13, 396, 11880), (20, 396, 11880), (21, 792, 19800),
             (22, 1620, 20250), (30, 1620, 40500), (31, 3600, 108000), (32, 5120, 216000), (40, 8192, 245760),
             (41, 8192, 245760), (42, 8704, 522240), (50, 22080, 589824), (51, 36864, 983040), (52, 36864, 2073600),
             (60, 36864, 2073600), (61, 69120, 4177920), (62, 69120, 4177920)] level"

text \<open>The macroblocks of a frame and of a second are within the limits of the level.\<close>

definition within_level_limits :: "media_stream \<Rightarrow> nat \<Rightarrow> bool" where
  "within_level_limits video level =
     (case stream_dimensions video of
        None \<Rightarrow> False
      | Some (width, height) \<Rightarrow>
          let macroblocks = div_ceil (unat width) 16 * div_ceil (unat height) 16;
              frame_rate = (case ms_frame_rate video of
                              None \<Rightarrow> 0
                            | Some rate \<Rightarrow> if fr_denominator rate = 0 then 0
                                           else div_ceil (fr_numerator rate) (fr_denominator rate));
              macroblocks_per_second = min (macroblocks * frame_rate) (2 ^ 64 - 1) in
          (case h264_level_limits level of
             None \<Rightarrow> False
           | Some (max_macroblocks, max_macroblocks_per_second) \<Rightarrow>
               macroblocks \<le> max_macroblocks \<and> macroblocks_per_second \<le> max_macroblocks_per_second))"

text \<open>The declared profile and level are those of the stream.\<close>

definition declaration_matches :: "media_stream \<Rightarrow> ustring \<Rightarrow> ustring \<Rightarrow> bool" where
  "declaration_matches video codec_tag codec_mime =
     (case split_once 46 codec_mime of
        None \<Rightarrow> False
      | Some (declared_codec, profile_level_id) \<Rightarrow>
          eq_ignore_ascii_case declared_codec codec_tag \<and> utf8_len profile_level_id = 6 \<and>
          list_all is_hexdigit profile_level_id \<and>
          Option.bind (ms_profile video) h264_profile_idc = Some (hex_value (take 2 profile_level_id)) \<and>
          ms_level video = Some (hex_value (drop 4 profile_level_id)))"

definition h264_metadata_is_compatible :: "media_stream \<Rightarrow> bool" where
  "h264_metadata_is_compatible video =
     (is_avc_tag (ms_codec_tag video) \<and>
      (case (ms_codec_mime video, ms_codec_tag video) of
         (Some codec_mime, Some codec_tag) \<Rightarrow> declaration_matches video codec_tag codec_mime
       | _ \<Rightarrow> False) \<and>
      (case ms_level video of None \<Rightarrow> False | Some level \<Rightarrow> within_level_limits video level))"

definition is_remux_compatible :: "media_probe \<Rightarrow> media_stream \<Rightarrow> canonical_video_profile \<Rightarrow> bool" where
  "is_remux_compatible probe video profile \<longleftrightarrow>
     is_mp4_container (mp_container_format probe) \<and> ms_codec video = Some video_codec_probe_name \<and>
     h264_metadata_is_compatible video \<and> ms_pixel_format video = Some pixel_format_name \<and>
     dimensions_within_profile video profile \<and> \<not> requires_frame_rate_cap video (vp_max_frame_rate profile) \<and>
     unwrap_or (ms_rotation_degrees video) 0 = 0 \<and>
     list_all (\<lambda>stream. ms_codec stream = Some audio_codec_name)
       (filter (\<lambda>stream. ms_kind stream = AudioStream) (mp_streams probe))"

section \<open>Commands\<close>

definition base_command :: "ustring \<Rightarrow> external_command" where
  "base_command executable =
     command_args (map lit [''-hide_banner'', ''-loglevel'', ''error'', ''-nostdin'', ''-y'']) (command_new executable)"

definition quoted :: "nat \<Rightarrow> ustring" where
  "quoted n = [39] @ nat_text n @ [39]"

definition scale_filter :: "video_dimensions \<Rightarrow> ustring" where
  "scale_filter d =
     lit ''scale='' @ quoted (unat (vd_width d)) @ lit '':'' @ quoted (unat (vd_height d)) @
     lit '':force_original_aspect_ratio=decrease:force_divisible_by=2,format='' @ pixel_format_name"

definition append_output_options :: "canonical_video_profile \<Rightarrow> external_command \<Rightarrow> external_command" where
  "append_output_options profile command =
     (let command = if vp_fast_start profile then command_args (map lit [''-movflags'', ''+faststart'']) command else command in
      if vp_strip_metadata profile then command_args (map lit [''-map_metadata'', ''-1'']) command else command)"

definition remux_command :: "normalization_planner \<Rightarrow> ustring \<Rightarrow> ustring \<Rightarrow> external_command" where
  "remux_command planner input output =
     command_arg output (append_output_options (pl_profile planner)
       (command_args (lit ''-i'' # input # map lit [''-map'', ''0:v:0'', ''-map'', ''0:a:0?'', ''-c'', ''copy''])
         (base_command (pl_ffmpeg_executable planner))))"

text \<open>The options that a transcode and the passes of a two-pass encode share.\<close>

definition kilobits :: "nat \<Rightarrow> ustring" where
  "kilobits n = nat_text n @ lit ''k''"

definition audio_options :: "canonical_video_profile \<Rightarrow> ustring list" where
  "audio_options profile = [lit ''-c:a'', audio_codec_name, lit ''-b:a'', kilobits (vp_audio_bitrate_kbps profile)]"

definition cap_frame_rate :: "canonical_video_profile \<Rightarrow> media_stream \<Rightarrow> external_command \<Rightarrow> external_command" where
  "cap_frame_rate profile video command =
     (if requires_frame_rate_cap video (vp_max_frame_rate profile)
      then command_args [lit ''-r'', frame_rate_argument (vp_max_frame_rate profile)] command
      else command)"

definition transcode_command ::
  "normalization_planner \<Rightarrow> ustring \<Rightarrow> ustring \<Rightarrow> video_dimensions \<Rightarrow> nat \<Rightarrow> media_stream \<Rightarrow> external_command" where
  "transcode_command planner input output d crf video =
     (let profile = pl_profile planner in
      command_arg output (append_output_options profile (cap_frame_rate profile video
        (command_args
          ([lit ''-i'', input, lit ''-map'', lit ''0:v:0'', lit ''-map'', lit ''0:a:0?'', lit ''-vf'', scale_filter d,
            lit ''-c:v'', video_codec_ffmpeg_name, lit ''-preset'', video_preset_name, lit ''-crf'', nat_text crf,
            lit ''-pix_fmt'', pixel_format_name] @ audio_options profile)
          (base_command (pl_ffmpeg_executable planner))))))"

definition two_pass_command ::
  "normalization_planner \<Rightarrow> ustring \<Rightarrow> ustring \<Rightarrow> video_dimensions \<Rightarrow> nat \<Rightarrow> ustring \<Rightarrow> nat \<Rightarrow> media_stream \<Rightarrow>
   external_command" where
  "two_pass_command planner input output d video_bitrate_kbps passlog_prefix pass video =
     (let profile = pl_profile planner;
          command = cap_frame_rate profile video (command_args
            ([lit ''-i'', input, lit ''-map'', lit ''0:v:0''] @
             (if pass = 2 then [lit ''-map'', lit ''0:a:0?''] else []) @
             [lit ''-vf'', scale_filter d, lit ''-c:v'', video_codec_ffmpeg_name, lit ''-preset'', video_preset_name,
              lit ''-b:v'', kilobits video_bitrate_kbps, lit ''-pass'', nat_text pass, lit ''-passlogfile'', passlog_prefix,
              lit ''-pix_fmt'', pixel_format_name] @
             (if pass = 2 then audio_options profile else [lit ''-an'']))
            (base_command (pl_ffmpeg_executable planner))) in
      if pass = 1 then command_args [lit ''-f'', lit ''null'', output] command
      else command_arg output (append_output_options profile command))"

section \<open>Planning\<close>

definition plan_normalization ::
  "normalization_planner \<Rightarrow> ustring \<Rightarrow> ustring \<Rightarrow> media_probe \<Rightarrow> normalization_error + normalization_plan" where
  "plan_normalization planner input output probe =
     rbind (ok_or (first_video_stream probe) NeNoVideoStream) (\<lambda>video.
     let mode = if is_remux_compatible probe video (pl_profile planner) then Remux else Transcode in
     rbind (case mode of
              Remux \<Rightarrow> Inr (remux_command planner input output)
            | Transcode \<Rightarrow>
                map_ok (\<lambda>d. transcode_command planner input output d (vp_quality_crf (pl_profile planner)) video)
                  (ok_or (canonical_dimensions (pl_profile planner) video) NeMissingVideoDimensions)) (\<lambda>command.
       Inr \<lparr>np_mode = mode, np_command = command, np_output = output, np_profile = pl_profile planner\<rparr>))"

definition plan_quality_candidate ::
  "normalization_planner \<Rightarrow> ustring \<Rightarrow> ustring \<Rightarrow> media_probe \<Rightarrow> video_dimensions \<Rightarrow>
   normalization_error + normalization_plan" where
  "plan_quality_candidate planner input output probe d =
     rbind (ok_or (first_video_stream probe) NeNoVideoStream) (\<lambda>video.
     rbind (validate_candidate_dimensions d video (pl_profile planner)) (\<lambda>_.
       Inr \<lparr>np_mode = Transcode,
            np_command = transcode_command planner input output d (vp_quality_crf (pl_profile planner)) video,
            np_output = output, np_profile = pl_profile planner\<rparr>))"

definition plan_two_pass ::
  "normalization_planner \<Rightarrow> ustring \<Rightarrow> ustring \<Rightarrow> media_probe \<Rightarrow> video_dimensions \<Rightarrow> nat \<Rightarrow> ustring \<Rightarrow>
   normalization_error + two_pass_normalization_plan" where
  "plan_two_pass planner input output probe d video_bitrate_kbps passlog_prefix =
     rbind (ok_or (first_video_stream probe) NeNoVideoStream) (\<lambda>video.
     rbind (validate_candidate_dimensions d video (pl_profile planner)) (\<lambda>_.
       if video_bitrate_kbps = 0 then Inl NeInvalidVideoBitrate
       else Inr \<lparr>tp_first_pass = two_pass_command planner input (lit ''-'') d video_bitrate_kbps passlog_prefix 1 video,
                 tp_second_pass =
                   \<lparr>np_mode = Transcode,
                    np_command = two_pass_command planner input output d video_bitrate_kbps passlog_prefix 2 video,
                    np_output = output, np_profile = pl_profile planner\<rparr>\<rparr>))"

text \<open>The bits a second of video may have: those of the target less the headroom and the audio.\<close>

definition two_pass_video_bitrate :: "canonical_video_profile \<Rightarrow> media_probe \<Rightarrow> nat \<Rightarrow> nat option" where
  "two_pass_video_bitrate profile probe duration_ms =
     Option.bind (checked_mul (2 ^ 128) (vp_target_max_bytes profile) 8) (\<lambda>bits.
     Option.bind (checked_mul (2 ^ 128) bits (BASIS_POINTS - TWO_PASS_SIZE_HEADROOM_BPS)) (\<lambda>bits.
     Option.bind (checked_mul (2 ^ 128) (bits div BASIS_POINTS) 1000) (\<lambda>bits.
       let total_bitrate = bits div duration_ms;
           audio_bitrate = if list_ex (\<lambda>stream. ms_kind stream = AudioStream) (mp_streams probe)
                           then vp_audio_bitrate_kbps profile * 1000 else 0 in
       if audio_bitrate \<le> total_bitrate then Some (total_bitrate - audio_bitrate) else None)))"

definition two_pass_candidate :: "canonical_video_profile \<Rightarrow> media_probe \<Rightarrow> (video_dimensions \<times> nat) option" where
  "two_pass_candidate profile probe =
     Option.bind (first_video_stream probe) (\<lambda>video.
     Option.bind (mp_duration_ms probe) (\<lambda>duration_ms.
       if duration_ms = 0 then None
       else Option.bind (two_pass_video_bitrate profile probe duration_ms) (\<lambda>video_bitrate.
         map_option (\<lambda>d. (d, max (min (video_bitrate div 1000) (2 ^ 64 - 1)) 1))
           (find (\<lambda>d. minimum_video_bitrate d (effective_frame_rate video (vp_max_frame_rate profile)) \<le> video_bitrate)
             (resolution_ladder profile video)))))"

section \<open>The candidates of the planner\<close>

text \<open>A profile the worker builds: valid, with even limits.\<close>

definition even_profile :: "canonical_video_profile \<Rightarrow> bool" where
  "even_profile profile \<longleftrightarrow>
     profile_validate profile = Inr () \<and> even (unat (vp_max_width profile)) \<and> even (unat (vp_max_height profile)) \<and>
     even (unat (vp_minimum_short_edge profile))"

lemma even_profile_nonzero:
  "even_profile p \<Longrightarrow> vp_max_width p \<noteq> 0 \<and> vp_max_height p \<noteq> 0 \<and> vp_minimum_short_edge p \<noteq> 0"
  by (auto simp: even_profile_def profile_validate_def split: if_splits)

lemma stream_dimensions_Some:
  "stream_dimensions video = Some (w, h) \<longleftrightarrow> ms_width video = Some w \<and> ms_height video = Some h"
  by (cases "ms_width video"; cases "ms_height video") (auto simp: stream_dimensions_def)

lemma canonical_dimensions_sound:
  assumes "even_profile profile" and "stream_dimensions video = Some (w, h)" and "2 \<le> w" and "2 \<le> h"
  shows "\<exists>d. canonical_dimensions profile video = Some d \<and> even_size d \<and> vd_width d \<le> w \<and> vd_height d \<le> h \<and>
    vd_width d \<le> vp_max_width profile \<and> vd_height d \<le> vp_max_height profile"
  using bounded_dimensions_sound [OF assms(3,4), of "vp_max_width profile" "vp_max_height profile"]
    even_profile_nonzero [OF assms(1)] assms(1,2)
  by (simp add: canonical_dimensions_def even_profile_def)

lemma rung_initial: "even_size d \<Longrightarrow> minimum \<le> short_edge_of d \<Longrightarrow> rung d minimum d"
  by (simp add: rung_def even_size_def)

lemma resolution_ladder_sound:
  assumes "even_profile profile" and "canonical_dimensions profile video = Some initial" and "even_size initial"
  shows "sound_ladder initial (min (vp_minimum_short_edge profile) (short_edge_of initial)) (resolution_ladder profile video) \<and>
    short_edge_of (last (resolution_ladder profile video)) = min (vp_minimum_short_edge profile) (short_edge_of initial)"
proof (cases "short_edge_of initial \<le> vp_minimum_short_edge profile")
  case True
  then show ?thesis
    using assms(2,3) by (auto simp: resolution_ladder_def sound_ladder_def descending_edges_def intro: rung_initial)
next
  case False
  then have "sound_ladder initial (vp_minimum_short_edge profile) [initial]"
    using assms(3) by (auto simp: sound_ladder_def descending_edges_def intro: rung_initial)
  moreover have "min (vp_minimum_short_edge profile) (short_edge_of initial) = vp_minimum_short_edge profile"
    using False by (intro min_absorb1) simp
  moreover have "resolution_ladder profile video =
      ladder_loop initial (vp_minimum_short_edge profile) [initial] (short_edge_of initial)"
    using False assms(2) by (simp add: resolution_ladder_def)
  ultimately show ?thesis
    using ladder_loop_sound [OF assms(3)] assms(1) even_profile_nonzero [OF assms(1)] by (simp add: even_profile_def)
qed

lemma even_word_mod: "even (unat (n :: u32)) \<Longrightarrow> n mod 2 = 0"
  by (simp add: word_unat_eq_iff unat_mod even_iff_mod_2_eq_zero)

lemma rung_validates:
  assumes "canonical_dimensions profile video = Some initial" and "stream_dimensions video = Some (w, h)"
    and "vd_width initial \<le> w" and "vd_height initial \<le> h"
    and "vd_width initial \<le> vp_max_width profile" and "vd_height initial \<le> vp_max_height profile"
    and "even_size d" and "rung initial (min (vp_minimum_short_edge profile) (short_edge_of initial)) d"
  shows "validate_candidate_dimensions d video profile = Inr ()"
proof -
  have "vd_width d mod 2 = 0" "vd_height d mod 2 = 0" "vd_width d \<noteq> 0" "vd_height d \<noteq> 0"
    using assms(7) by (auto simp: even_size_def intro: even_word_mod)
  then show ?thesis
    using assms by (auto simp: validate_candidate_dimensions_def effective_minimum_short_edge_def rung_def min_le_iff_disj)
qed

text \<open>(C40) For every profile with even limits and every stream of at least two by two pixels, the adaptation ladder
  starts at the canonical size, has strictly descending short edges, ends exactly at the quality floor (or at the
  canonical size when that is smaller already), and the planner accepts every rung: no size is odd, upscaled, beyond
  the profile or below the floor, in spite of the double-precision scaling.\<close>

theorem adaptation_ladder_accepted:
  assumes "profile_validate profile = Inr ()" and "even (unat (vp_max_width profile))"
    and "even (unat (vp_max_height profile))" and "even (unat (vp_minimum_short_edge profile))"
    and "ms_width video = Some w" and "ms_height video = Some h" and "2 \<le> w" and "2 \<le> h"
  shows "\<exists>initial. canonical_dimensions profile video = Some initial \<and>
    resolution_ladder profile video \<noteq> [] \<and> hd (resolution_ladder profile video) = initial \<and>
    sorted_wrt (\<lambda>a b. short_edge_of b < short_edge_of a) (resolution_ladder profile video) \<and>
    list_all (\<lambda>d. validate_candidate_dimensions d video profile = Inr ()) (resolution_ladder profile video) \<and>
    Some (short_edge_of (last (resolution_ladder profile video))) = effective_minimum_short_edge profile video"
proof -
  have p: "even_profile profile" using assms(1-4) by (simp add: even_profile_def)
  have d: "stream_dimensions video = Some (w, h)" using assms(5,6) by (simp add: stream_dimensions_Some)
  obtain i where i: "canonical_dimensions profile video = Some i" "even_size i" "vd_width i \<le> w" "vd_height i \<le> h"
      "vd_width i \<le> vp_max_width profile" "vd_height i \<le> vp_max_height profile"
    using canonical_dimensions_sound [OF p d assms(7,8)] by blast
  note sound = resolution_ladder_sound [OF p i(1,2)]
  then have "list_all (\<lambda>d. validate_candidate_dimensions d video profile = Inr ()) (resolution_ladder profile video)"
    using rung_validates [OF i(1) d i(3-6)] by (simp add: list_all_iff sound_ladder_def)
  then show ?thesis
    using sound i(1) by (simp add: sound_ladder_def descending_edges_def effective_minimum_short_edge_def)
qed

definition portrait_stream :: media_stream where
  "portrait_stream =
     \<lparr>ms_index = 0, ms_kind = VideoStream, ms_codec = None, ms_attached_picture = False, ms_codec_tag = None,
      ms_codec_mime = None, ms_level = None, ms_profile = None, ms_pixel_format = None, ms_width = Some 1080,
      ms_height = Some 1920, ms_display_aspect_ratio = None, ms_frame_rate = None, ms_rotation_degrees = None,
      ms_sample_rate_hz = None, ms_channels = None, ms_bit_rate = None\<rparr>"

theorem adaptation_ladder_accepted_witness:
  "resolution_ladder default_video_profile portrait_stream \<noteq> [] \<and>
   list_all (\<lambda>d. validate_candidate_dimensions d portrait_stream default_video_profile = Inr ())
     (resolution_ladder default_video_profile portrait_stream)"
  using adaptation_ladder_accepted [of default_video_profile portrait_stream 1080 1920]
  by (auto simp: default_video_profile_def profile_validate_def portrait_stream_def)

section \<open>The budget of a two-pass encode\<close>

definition audio_bits :: "canonical_video_profile \<Rightarrow> media_probe \<Rightarrow> nat" where
  "audio_bits profile probe =
     (if list_ex (\<lambda>stream. ms_kind stream = AudioStream) (mp_streams probe) then vp_audio_bitrate_kbps profile * 1000 else 0)"

lemma two_pass_video_bitrate_budget:
  assumes "two_pass_video_bitrate profile probe duration_ms = Some bitrate"
  shows "(bitrate + audio_bits profile probe) * duration_ms * 10000 \<le> vp_target_max_bytes profile * 8 * 9800 * 1000"
proof -
  let ?bits = "vp_target_max_bytes profile * 8 * 9800"
  have "bitrate + audio_bits profile probe = ?bits div 10000 * 1000 div duration_ms"
    using assms by (auto simp: two_pass_video_bitrate_def checked_mul_def audio_bits_def BASIS_POINTS_def
        TWO_PASS_SIZE_HEADROOM_BPS_def Let_def split: if_splits)
  then have "(bitrate + audio_bits profile probe) * duration_ms \<le> ?bits div 10000 * 1000" by simp
  then have "(bitrate + audio_bits profile probe) * duration_ms * 10000 \<le> ?bits div 10000 * 1000 * 10000"
    by (rule mult_le_mono1)
  also have "\<dots> = ?bits div 10000 * 10000 * 1000" by (simp only: ac_simps)
  also have "\<dots> \<le> ?bits * 1000" by (intro mult_right_mono) (rule div_times_less_eq_dividend, simp)
  finally show ?thesis by simp
qed

lemma two_pass_candidate_Some:
  assumes "two_pass_candidate profile probe = Some (d, kbps)"
  obtains video duration_ms bitrate where "first_video_stream probe = Some video" "mp_duration_ms probe = Some duration_ms"
    "duration_ms \<noteq> 0" "two_pass_video_bitrate profile probe duration_ms = Some bitrate"
    "d \<in> set (resolution_ladder profile video)" "kbps = max (min (bitrate div 1000) (2 ^ 64 - 1)) 1"
  using assms
  by (auto simp: two_pass_candidate_def bind_eq_Some_conv find_Some_iff split: if_splits)

lemma ladder_member_dimensions:
  assumes "d \<in> set (resolution_ladder profile video)"
  obtains w h where "stream_dimensions video = Some (w, h)" "2 \<le> w" "2 \<le> h"
proof -
  obtain i where "canonical_dimensions profile video = Some i"
    using assms by (cases "canonical_dimensions profile video") (auto simp: resolution_ladder_def)
  then obtain w h where "stream_dimensions video = Some (w, h)" "\<not> w < 2" "\<not> h < 2"
    by (auto simp: canonical_dimensions_def bounded_dimensions_def bind_eq_Some_conv split: if_splits)
  then show thesis using that by (auto simp: not_less)
qed

lemma ladder_member_validates:
  assumes "even_profile profile" and "d \<in> set (resolution_ladder profile video)"
  shows "validate_candidate_dimensions d video profile = Inr ()"
proof -
  obtain w h where d: "stream_dimensions video = Some (w, h)" "2 \<le> w" "2 \<le> h" using ladder_member_dimensions [OF assms(2)] .
  obtain i where i: "canonical_dimensions profile video = Some i" "even_size i" "vd_width i \<le> w" "vd_height i \<le> h"
      "vd_width i \<le> vp_max_width profile" "vd_height i \<le> vp_max_height profile"
    using canonical_dimensions_sound [OF assms(1) d] by blast
  show ?thesis
    using rung_validates [OF i(1) d(1) i(3-6)] resolution_ladder_sound [OF assms(1) i(1,2)] assms(2)
    by (auto simp: sound_ladder_def)
qed

text \<open>A two-pass candidate of the planner is one the planner accepts, and its video and audio bit rates over the
  duration of the source stay within 98 percent of the target size (the rate of one kilobit, to which a smaller
  budget is raised, excepted).\<close>

theorem two_pass_within_target:
  assumes "profile_validate (pl_profile planner) = Inr ()" and "even (unat (vp_max_width (pl_profile planner)))"
    and "even (unat (vp_max_height (pl_profile planner)))" and "even (unat (vp_minimum_short_edge (pl_profile planner)))"
    and "two_pass_candidate (pl_profile planner) probe = Some (d, kbps)"
  shows "(\<exists>plan. plan_two_pass planner input output probe d kbps prefix = Inr plan) \<and>
    (kbps = 1 \<or>
     (kbps * 1000 + audio_bits (pl_profile planner) probe) * unwrap_or (mp_duration_ms probe) 0 * 10000
       \<le> vp_target_max_bytes (pl_profile planner) * 8 * 9800 * 1000)"
proof -
  have p: "even_profile (pl_profile planner)" using assms(1-4) by (simp add: even_profile_def)
  obtain video duration_ms bitrate where c: "first_video_stream probe = Some video" "mp_duration_ms probe = Some duration_ms"
    "two_pass_video_bitrate (pl_profile planner) probe duration_ms = Some bitrate"
    "d \<in> set (resolution_ladder (pl_profile planner) video)" "kbps = max (min (bitrate div 1000) (2 ^ 64 - 1)) 1"
    by (rule two_pass_candidate_Some [OF assms(5)])
  have "validate_candidate_dimensions d video (pl_profile planner) = Inr ()" by (rule ladder_member_validates [OF p c(4)])
  then have plan: "\<exists>plan. plan_two_pass planner input output probe d kbps prefix = Inr plan"
    using c(1,5) by (simp add: plan_two_pass_def)
  have "kbps = 1 \<or> kbps * 1000 \<le> bitrate"
  proof (cases "kbps = 1")
    case False
    then have "kbps \<le> bitrate div 1000" using c(5) by (simp add: max_def split: if_splits)
    then have "kbps * 1000 \<le> bitrate div 1000 * 1000" by simp
    also have "\<dots> \<le> bitrate" by (rule div_times_less_eq_dividend)
    finally show ?thesis by simp
  qed simp
  moreover have "(kbps * 1000 + audio_bits (pl_profile planner) probe) * duration_ms * 10000
       \<le> (bitrate + audio_bits (pl_profile planner) probe) * duration_ms * 10000" if "kbps * 1000 \<le> bitrate"
    using that by (intro mult_right_mono) auto
  ultimately have "kbps = 1 \<or> (kbps * 1000 + audio_bits (pl_profile planner) probe) * duration_ms * 10000
      \<le> vp_target_max_bytes (pl_profile planner) * 8 * 9800 * 1000"
    using two_pass_video_bitrate_budget [OF c(3)] le_trans by blast
  then show ?thesis using plan c(2) by (simp only: unwrap_or_def option.case simp_thms)
qed

definition short_stream :: media_stream where
  "short_stream = portrait_stream\<lparr>ms_width := Some 320, ms_height := Some 240, ms_frame_rate := Some \<lparr>fr_numerator = 30, fr_denominator = 1\<rparr>\<rparr>"

definition short_probe :: media_probe where
  "short_probe =
     \<lparr>mp_container_format = None, mp_duration_ms = Some 10000, mp_size_bytes = 0, mp_bit_rate = None,
      mp_streams = [short_stream]\<rparr>"

definition default_planner :: normalization_planner where
  "default_planner = \<lparr>pl_ffmpeg_executable = lit ''ffmpeg'', pl_profile = default_video_profile\<rparr>"

lemma short_evaluations:
  "f64_round 6 = 6" "f64_round (9 / 2) = 9 / 2" "f64_round 320 = 320" "f64_round 240 = 240"
  "rat_of_u32 320 = 320" "rat_of_u32 240 = 240" "rat_of_u32 1920 = 1920" "rat_of_u32 1080 = 1080"
  using f64_roundI [of 6 2 6755399441055744] f64_roundI [of "9 / 2" 2 5066549580791808]
    f64_roundI [of 320 8 5629499534213120] f64_roundI [of 240 7 8444249301319680]
  by (simp_all add: pow2_def rat_of_u32_def)

lemma short_rounded: "rounded_even_dimension 320 = 320" "rounded_even_dimension 240 = 240"
proof -
  have "\<lfloor>321 / 2 :: rat\<rfloor> = 160" "\<lfloor>241 / 2 :: rat\<rfloor> = 120" by (simp_all add: floor_eq_iff)
  then show "rounded_even_dimension 320 = 320" "rounded_even_dimension 240 = 240"
    by (simp_all add: rounded_even_dimension_def f64_as_u32_def f64_round_integral_def)
qed

lemma short_canonical:
  "canonical_dimensions default_video_profile short_stream = Some \<lparr>vd_width = 320, vd_height = 240\<rparr>"
  by (simp add: short_evaluations short_rounded canonical_dimensions_def stream_dimensions_def short_stream_def
      default_video_profile_def bounded_dimensions_def profile_scale_def f64_div_def f64_mul_def even_dimension_def Let_def)

lemma short_candidate:
  "two_pass_candidate default_video_profile short_probe = Some (\<lparr>vd_width = 320, vd_height = 240\<rparr>, 11509)"
proof -
  have "resolution_ladder default_video_profile short_stream = [\<lparr>vd_width = 320, vd_height = 240\<rparr>]"
    unfolding resolution_ladder_def short_canonical by (simp add: short_edge_of_def default_video_profile_def)
  moreover have "first_video_stream short_probe = Some short_stream"
    by (simp add: first_video_stream_def short_probe_def short_stream_def portrait_stream_def)
  moreover have "two_pass_video_bitrate default_video_profile short_probe 10000 = Some 11509170"
    by (simp add: two_pass_video_bitrate_def checked_mul_def default_video_profile_def BASIS_POINTS_def
        TWO_PASS_SIZE_HEADROOM_BPS_def short_probe_def short_stream_def portrait_stream_def)
  moreover have "minimum_video_bitrate \<lparr>vd_width = 320, vd_height = 240\<rparr>
      (effective_frame_rate short_stream (vp_max_frame_rate default_video_profile)) = 138240"
    by (simp add: minimum_video_bitrate_def effective_frame_rate_def requires_frame_rate_cap_def short_stream_def
        default_video_profile_def MINIMUM_VIDEO_BITS_PER_PIXEL_FRAME_MILLIONTHS_def MILLION_def div_ceil_def)
  moreover have "mp_duration_ms short_probe = Some 10000" by (simp add: short_probe_def)
  ultimately show ?thesis by (simp add: two_pass_candidate_def)
qed

theorem two_pass_within_target_witness:
  "\<exists>plan. plan_two_pass default_planner [] [] short_probe \<lparr>vd_width = 320, vd_height = 240\<rparr> 11509 [] = Inr plan"
  using two_pass_within_target [of default_planner short_probe "\<lparr>vd_width = 320, vd_height = 240\<rparr>" 11509]
  by (simp add: default_planner_def short_candidate) (simp add: default_video_profile_def profile_validate_def)

section \<open>An odd floor\<close>

definition odd_floor_profile :: canonical_video_profile where
  "odd_floor_profile = default_video_profile\<lparr>vp_minimum_short_edge := 481\<rparr>"

lemma f64_evaluations:
  "f64_round (16 / 9) = 2001599834386887 / 1125899906842624"
  "f64_round (9 / 16) = 9 / 16"
  "f64_round (1215 / 2) = 1215 / 2"
  "f64_round 1080 = 1080"
  "f64_round (481 / 608) = 7125761252517133 / 9007199254740992"
  "f64_round (135389463797825527 / 281474976710656) = 8461841487364095 / 17592186044416"
  "f64_round (961977769089812955 / 1125899906842624) = 1878862830253541 / 2199023255552"
  using f64_roundI [of "16 / 9" "0" 8006399337547548]
    f64_roundI [of "9 / 16" "-1" 5066549580791808]
    f64_roundI [of "1215 / 2" "9" 5343626510991360]
    f64_roundI [of "1080" "10" 4749890231992320]
    f64_roundI [of "481 / 608" "-1" 7125761252517133]
    f64_roundI [of "135389463797825527 / 281474976710656" "8" 8461841487364095]
    f64_roundI [of "961977769089812955 / 1125899906842624" "9" 7515451321014164]
  by (simp_all add: pow2_def)

lemma rat_of_u32_evaluations:
  "rat_of_u32 1080 = 1080" "rat_of_u32 1920 = 1920" "rat_of_u32 608 = 608" "rat_of_u32 481 = 481"
  by (simp_all add: rat_of_u32_def)

lemma floor_evaluations:
  "\<lfloor>1217 / 4 :: rat\<rfloor> = 304" "\<lfloor>1081 / 2 :: rat\<rfloor> = 540" "\<lfloor>8479433673408511 / 35184372088832 :: rat\<rfloor> = 240"
  "\<lfloor>1881061853509093 / 4398046511104 :: rat\<rfloor> = 427"
  by (simp_all add: floor_eq_iff)

lemma rounded_even_evaluations:
  "rounded_even_dimension (1215 / 2) = 608" "rounded_even_dimension 1080 = 1080"
  "rounded_even_dimension (8461841487364095 / 17592186044416) = 480"
  "rounded_even_dimension (1878862830253541 / 2199023255552) = 854"
  by (simp_all add: rounded_even_dimension_def f64_as_u32_def f64_round_integral_def floor_evaluations)

lemma portrait_canonical:
  "canonical_dimensions odd_floor_profile portrait_stream = Some \<lparr>vd_width = 608, vd_height = 1080\<rparr>"
  by (simp add: f64_evaluations rounded_even_evaluations canonical_dimensions_def stream_dimensions_def portrait_stream_def odd_floor_profile_def default_video_profile_def
      bounded_dimensions_def profile_scale_def f64_div_def f64_mul_def rat_of_u32_evaluations even_dimension_def Let_def)

lemma portrait_scaled:
  "scaled_dimensions \<lparr>vd_width = 608, vd_height = 1080\<rparr> 481 = \<lparr>vd_width = 480, vd_height = 854\<rparr>"
  by (simp add: f64_evaluations rounded_even_evaluations scaled_dimensions_def short_edge_of_def f64_div_def f64_mul_def rat_of_u32_evaluations Let_def)

lemma portrait_next: "next_short_edge 481 608 = 481"
  by (simp add: next_short_edge_def)

text \<open>An odd floor defeats the ladder: the configuration accepts a minimum short edge of 481 and so does the
  profile, but for a portrait video of 1080 by 1920 pixels the double-precision scaling makes the last rung
  480 by 854, one pixel row below the floor, and the planner rejects its own candidate.\<close>

theorem odd_floor_rung_rejected:
  "inline_video_validate \<lparr>iv_target_max_bytes = 14 * 1024 * 1024, iv_quality_crf = 27, iv_minimum_short_edge = 481\<rparr> = Inr () \<and>
   profile_validate odd_floor_profile = Inr () \<and>
   resolution_ladder odd_floor_profile portrait_stream =
     [\<lparr>vd_width = 608, vd_height = 1080\<rparr>, \<lparr>vd_width = 480, vd_height = 854\<rparr>] \<and>
   validate_candidate_dimensions \<lparr>vd_width = 480, vd_height = 854\<rparr> portrait_stream odd_floor_profile =
     Inl (NeInvalidCandidateDimensions \<lparr>vd_width = 480, vd_height = 854\<rparr>)"
proof -
  have m: "vp_minimum_short_edge odd_floor_profile = 481" by (simp add: odd_floor_profile_def)
  have "resolution_ladder odd_floor_profile portrait_stream =
     [\<lparr>vd_width = 608, vd_height = 1080\<rparr>, \<lparr>vd_width = 480, vd_height = 854\<rparr>]"
    using portrait_scaled
    by (simp add: resolution_ladder_def portrait_canonical m short_edge_of_def ladder_loop.simps Let_def portrait_next)
  moreover have "profile_validate odd_floor_profile = Inr ()"
    by (simp add: profile_validate_def odd_floor_profile_def default_video_profile_def)
  ultimately show ?thesis
    by (simp add: inline_video_validate_def require_def validate_candidate_dimensions_def effective_minimum_short_edge_def
        portrait_canonical m short_edge_of_def)
qed

section \<open>The declaration of a remuxed stream\<close>

lemma hexdigit_value_nth: "n < 16 \<Longrightarrow> hexdigit_value (lit ''0123456789abcdef'' ! n) = n"
proof -
  assume "n < 16"
  moreover have "list_all (\<lambda>n. hexdigit_value (lit ''0123456789abcdef'' ! n) = n) [0..<16]" by code_simp
  ultimately show ?thesis by (simp add: list_all_iff)
qed

lemma hex_value_lower_hex: "hex_value (lower_hex b) = unat b"
proof -
  have b: "unat b < 256" using unsigned_less [of b, where 'a = nat] by simp
  then have "unat b div 16 < 16" by simp
  then show ?thesis by (simp add: hex_value_def lower_hex_def hexdigit_value_nth)
qed

lemma length_lower_hex [simp]: "length (lower_hex b) = 2"
  by (simp add: lower_hex_def)

lemma avc_tag_no_dot:
  assumes "is_avc_tag (Some tag)"
  shows "46 \<notin> set tag"
proof
  assume "46 \<in> set tag"
  then have "to_ascii_lower 46 \<in> set (to_ascii_lowercase tag)" by (simp add: to_ascii_lowercase_def)
  with assms show False by (auto simp: is_avc_tag_def eq_ignore_ascii_case_def to_ascii_lowercase_def to_ascii_lower_def lit_def)
qed

lemma split_once_append: "c \<notin> set a \<Longrightarrow> split_once c (a @ c # b) = Some (a, b)"
  by (induction a) (auto simp: split_once_def)

text \<open>The declaration a stream carries is the one of its avcC bytes.\<close>

lemma codec_mime_declares:
  assumes "codec_mime_from_metadata codec codec_tag reported (Some extradata) = Some mime"
    and "is_h264_codec codec" and "is_avc_tag codec_tag" and "trim extradata \<noteq> []" and "split_once 46 mime = Some (a, suffix)"
  shows "\<exists>avcc. parse_avcc_extradata extradata = Some avcc \<and>
    hex_value (take 2 suffix) = unat (av_profile_idc avcc) \<and> hex_value (drop 4 suffix) = unat (av_level_idc avcc)"
proof -
  obtain avcc where avcc: "parse_avcc_extradata extradata = Some avcc"
    using assms(1-4) by (cases "parse_avcc_extradata extradata") (auto simp: codec_mime_from_metadata_def)
  show ?thesis
  proof (cases reported)
    case None
    obtain tag where tag: "codec_tag = Some tag" using assms(3) by (cases codec_tag) (auto simp: is_avc_tag_def)
    have "mime = tag @ 46 # lower_hex (av_profile_idc avcc) @ lower_hex (av_profile_compatibility avcc) @ lower_hex (av_level_idc avcc)"
      using assms(1) None avcc tag by (simp add: codec_mime_from_metadata_def lit_def)
    then have "suffix = lower_hex (av_profile_idc avcc) @ lower_hex (av_profile_compatibility avcc) @ lower_hex (av_level_idc avcc)"
      using assms(5) split_once_append [OF avc_tag_no_dot] assms(3) tag by simp
    then show ?thesis using avcc by (simp add: hex_value_lower_hex)
  next
    case (Some r)
    then have "agreeing_mime r avcc = Some mime" using assms(1) avcc by (simp add: codec_mime_from_metadata_def split: if_splits)
    then show ?thesis
      using avcc assms(5) by (auto simp: agreeing_mime_def bind_eq_Some_conv split: if_splits)
  qed
qed

lemma parse_stream_fields:
  assumes "parse_stream ops raw = Inr video"
  shows "ms_codec_mime video = codec_mime_from_metadata (ms_codec video) (ms_codec_tag video)
    (optional_value (rs_mime_codec_string raw)) (rs_extradata raw)"
  using assms by (auto simp: parse_stream_def result_simps Let_def)

text \<open>A stream that is copied instead of encoded again has consistent declarations: when the probe carries
  avcC bytes, they parse, and the profile and the level they declare are those of the stream itself, within whose
  limits the size and the frame rate of the stream are. A stream with malformed or contradictory bytes is never
  copied.\<close>

theorem remuxed_declaration_agrees:
  assumes "parse_stream ops raw = Inr video" and "rs_extradata raw = Some extradata" and "trim extradata \<noteq> []"
    and "is_remux_compatible probe video profile"
  shows "\<exists>avcc. parse_avcc_extradata extradata = Some avcc \<and> ms_level video = Some (unat (av_level_idc avcc)) \<and>
    Option.bind (ms_profile video) h264_profile_idc = Some (unat (av_profile_idc avcc)) \<and>
    within_level_limits video (unat (av_level_idc avcc))"
proof -
  have r: "ms_codec video = Some (lit ''h264'')" "is_avc_tag (ms_codec_tag video)"
    using assms(4) by (auto simp: is_remux_compatible_def h264_metadata_is_compatible_def video_codec_probe_name_def)
  obtain mime tag a suffix level where m: "ms_codec_mime video = Some mime" "split_once 46 mime = Some (a, suffix)"
      "Option.bind (ms_profile video) h264_profile_idc = Some (hex_value (take 2 suffix))"
      "ms_level video = Some (hex_value (drop 4 suffix))" "ms_level video = Some level" "within_level_limits video level"
    using assms(4)
    by (auto simp: is_remux_compatible_def h264_metadata_is_compatible_def declaration_matches_def split: option.splits)
  have "is_h264_codec (ms_codec video)" using r(1) by (simp add: is_h264_codec_def eq_ignore_ascii_case_def)
  then obtain avcc where "parse_avcc_extradata extradata = Some avcc"
      "hex_value (take 2 suffix) = unat (av_profile_idc avcc)" "hex_value (drop 4 suffix) = unat (av_level_idc avcc)"
    using codec_mime_declares [OF _ _ r(2) assms(3) m(2)] parse_stream_fields [OF assms(1)] assms(2) m(1) by auto
  then show ?thesis using m(3-6) by simp
qed

definition avc_dump :: ustring where
  "avc_dump = lit ''00000000: 0164 0028 ffe1 0000 0100 0000''"

definition avc_raw_stream :: raw_stream where
  "avc_raw_stream =
     \<lparr>rs_index = Some 0, rs_codec_type = Some (lit ''video''), rs_codec_name = Some (lit ''h264''),
      rs_codec_tag_string = Some (lit ''avc1''), rs_mime_codec_string = None, rs_extradata = Some avc_dump,
      rs_level = Some 40, rs_profile = Some (lit ''High''), rs_pix_fmt = Some (lit ''yuv420p''), rs_width = Some 320,
      rs_height = Some 240, rs_display_aspect_ratio = None, rs_avg_frame_rate = Some (lit ''25/1''), rs_r_frame_rate = None,
      rs_tags = None, rs_side_data_list = None, rs_sample_rate = None, rs_channels = None, rs_bit_rate = None,
      rs_attached_pic = 0\<rparr>"

definition plain_probe_ops :: probe_ops where
  "plain_probe_ops =
     \<lparr>po_debug = (\<lambda>v. v), po_utf8_lossy = (\<lambda>_. []),
      po_json = (\<lambda>_. Inr \<lparr>rp_streams = [avc_raw_stream],
        rp_format = Some \<lparr>rf_format_name = Some (lit ''mov,mp4''), rf_duration = None, rf_size = Some (lit ''0''), rf_bit_rate = None\<rparr>\<rparr>),
      po_avcc_json = (\<lambda>_. None)\<rparr>"

definition avc_stream :: media_stream where
  "avc_stream =
     \<lparr>ms_index = 0, ms_kind = VideoStream, ms_codec = Some (lit ''h264''), ms_attached_picture = False,
      ms_codec_tag = Some (lit ''avc1''), ms_codec_mime = Some (lit ''avc1.640028''), ms_level = Some 40,
      ms_profile = Some (lit ''High''), ms_pixel_format = Some (lit ''yuv420p''), ms_width = Some 320,
      ms_height = Some 240, ms_display_aspect_ratio = None, ms_frame_rate = Some \<lparr>fr_numerator = 25, fr_denominator = 1\<rparr>,
      ms_rotation_degrees = None, ms_sample_rate_hz = None, ms_channels = None, ms_bit_rate = None\<rparr>"

definition avc_probe :: media_probe where
  "avc_probe =
     \<lparr>mp_container_format = Some (lit ''mov,mp4''), mp_duration_ms = None, mp_size_bytes = 0, mp_bit_rate = None,
      mp_streams = [avc_stream]\<rparr>"

lemma avc_dump_lines: "text_lines avc_dump = [avc_dump]"
  by code_simp

lemma avc_dump_payload:
  "split_once 58 avc_dump = Some (lit ''00000000'', lit '' 0164 0028 ffe1 0000 0100 0000'')"
  by code_simp

lemma avc_dump_words:
  "split_whitespace (lit '' 0164 0028 ffe1 0000 0100 0000'') =
     map lit [''0164'', ''0028'', ''ffe1'', ''0000'', ''0100'', ''0000'']"
  by (simp add: split_whitespace_def lit_def is_whitespace_def)

lemma avc_dump_bytes:
  "avcc_line (map lit [''0164'', ''0028'', ''ffe1'', ''0000'', ''0100'', ''0000'']) [] =
     (False, [1, 0x64, 0, 0x28, 0xff, 0xe1, 0, 0, 1, 0, 0, 0])"
  by (simp add: lit_def utf8_len_def utf8_width_def is_hexdigit_def is_digit_def hex_value_def hexdigit_value_def
      to_ascii_lower_def MAX_AVCC_EXTRADATA_BYTES_def)

lemma avc_dump_parses:
  "parse_avcc_extradata avc_dump = Some \<lparr>av_profile_idc = 0x64, av_profile_compatibility = 0, av_level_idc = 0x28\<rparr>"
  by (simp add: parse_avcc_extradata_def avc_dump_lines avc_dump_payload avc_dump_words avc_dump_bytes parse_avcc_bytes_def
      del: list.map)

lemma avc_stream_parses: "parse_stream plain_probe_ops avc_raw_stream = Inr avc_stream"
proof -
  have "parse_frame_rate plain_probe_ops (lit ''25/1'') ''stream.frame_rate'' = Inr \<lparr>fr_numerator = 25, fr_denominator = 1\<rparr>"
    by (simp add: parse_frame_rate_def split_once_def lit_def parse_unsigned_def parse_digits_def digits_value_def is_digit_def)
  moreover have "optional_value (Some (lit s)) = Some (lit s)" if "s \<in> {''h264'', ''avc1'', ''High'', ''yuv420p''}" for s
    using that by (auto simp: optional_value_def usable_value_def trim_def trim_end_def trim_start_def lit_def is_whitespace_def
        eq_ignore_ascii_case_def to_ascii_lowercase_def to_ascii_lower_def)
  moreover have "codec_mime_from_metadata (Some (lit ''h264'')) (Some (lit ''avc1'')) None (Some avc_dump) = Some (lit ''avc1.640028'')"
    by (simp add: codec_mime_from_metadata_def avc_dump_parses lower_hex_def lit_def)
  moreover have "stream_kind (lit ''video'') = VideoStream"
    by (simp add: stream_kind_def lit_def to_ascii_lowercase_def to_ascii_lower_def)
  ultimately show ?thesis
    by (simp add: parse_stream_def avc_raw_stream_def avc_stream_def known_rate_def or_else_def transpose_result_def
        parse_optional_unsigned_def usable_value_def optional_value_def
        parse_rotation_def Let_def)
qed

lemma avc_remux: "is_remux_compatible avc_probe avc_stream default_video_profile"
proof -
  have "is_mp4_container (mp_container_format avc_probe)"
    by (simp add: is_mp4_container_def avc_probe_def lit_def trim_def trim_end_def trim_start_def is_whitespace_def
        eq_ignore_ascii_case_def)
  moreover have "declaration_matches avc_stream (lit ''avc1'') (lit ''avc1.640028'')"
    by (simp add: declaration_matches_def split_once_def avc_stream_def lit_def eq_ignore_ascii_case_def utf8_len_def
        utf8_width_def is_hexdigit_def is_digit_def hex_value_def hexdigit_value_def h264_profile_idc_def
        to_ascii_lowercase_def to_ascii_lower_def)
  moreover have "within_level_limits avc_stream 40"
    by (simp add: within_level_limits_def stream_dimensions_def avc_stream_def div_ceil_def h264_level_limits_def)
  ultimately show ?thesis
    by (simp add: is_remux_compatible_def h264_metadata_is_compatible_def avc_stream_def avc_probe_def is_avc_tag_def
        eq_ignore_ascii_case_def video_codec_probe_name_def pixel_format_name_def dimensions_within_profile_def
        stream_dimensions_def default_video_profile_def requires_frame_rate_cap_def unwrap_or_def)
qed

theorem remuxed_declaration_agrees_witness:
  "\<exists>avcc. parse_avcc_extradata avc_dump = Some avcc \<and> ms_level avc_stream = Some (unat (av_level_idc avcc))"
proof -
  have "trim avc_dump \<noteq> []"
    by (simp add: avc_dump_def lit_def trim_def trim_end_def trim_start_def is_whitespace_def)
  then show ?thesis
    using remuxed_declaration_agrees [OF avc_stream_parses _ _ avc_remux, of avc_dump] by (auto simp: avc_raw_stream_def)
qed

end
