(* ===== verification/Video_Adaptation.thy ===== *)
theory Video_Adaptation
  imports Normalization
begin

text \<open>
  The execution of a plan (\<open>crates/media/src/execute.rs\<close>) and the adaptation of a video to its target size
  (\<open>apps/worker/src/normalization.rs\<close>): the candidates, which of them is published, and the files that are
  removed. The process runner, the file system, the hash and the fresh names are arguments.
\<close>

section \<open>Progress\<close>



datatype ffmpeg_progress_state = ProgressContinue | ProgressEnd

record ffmpeg_progress =
  pg_frame :: "nat option"
  pg_out_time_ms :: "int option"
  pg_state :: ffmpeg_progress_state










section \<open>The execution of a plan\<close>

record file_digest =
  fd_bytes :: nat
  fd_sha256 :: ustring

record normalization_result =
  nr_output_path :: ustring
  nr_progress :: ffmpeg_progress
  nr_probe :: media_probe
  nr_digest :: file_digest


text \<open>
  What an execution asks of the outside: the runner, the prober's parsers, the metadata and the digest of a
  path, the reservation of a temporary file, the publication of a file under another name, the removal of a file,
  the creation of a directory, and the fresh names of temporary files, of candidates and of the
  directory of the pass logs. A path is written once, so that what
  a path holds after its command is a function of the path.
\<close>

record executor =
  xc_runner :: command_runner
  xc_probe_ops :: probe_ops
  xc_ffprobe :: ffprobe_adapter
  xc_metadata :: "ustring \<Rightarrow> (bool \<times> nat) option"
  xc_sha256 :: "ustring \<Rightarrow> ustring + file_digest"
  xc_reserve :: "ustring \<Rightarrow> bool"
  xc_publish :: "ustring \<Rightarrow> ustring \<Rightarrow> ustring + unit"
  xc_remove :: "ustring \<Rightarrow> bool"
  xc_temporary :: "ustring \<Rightarrow> ustring"
  xc_candidate :: "nat \<Rightarrow> ustring"
  xc_passlog_directory :: ustring
  xc_create_dir :: "ustring \<Rightarrow> bool"
  xc_timeout :: nat
  xc_max_output_bytes :: nat







section \<open>Candidates\<close>


record video_candidate_set =
  vc_paths :: "ustring list"
  vc_fallback :: "normalization_result option"
  vc_largest_oversized :: "nat option"
  vc_attempts :: nat
  vc_target_max_bytes :: nat
  vc_storage_limit :: nat




text \<open>The guard keeps a path whose file could not be removed.\<close>

definition remove_video_candidate :: "executor \<Rightarrow> ustring \<Rightarrow> video_candidate_set \<Rightarrow> video_candidate_set" where
  "remove_video_candidate x path c =
     (if xc_remove x path then c\<lparr>vc_paths := filter (\<lambda>candidate. candidate \<noteq> path) (vc_paths c)\<rparr> else c)"










section \<open>The adaptation\<close>










section \<open>What is published\<close>







lemma remove_video_candidate_simps [simp]:
  "vc_storage_limit (remove_video_candidate x p c) = vc_storage_limit c"
  "vc_attempts (remove_video_candidate x p c) = vc_attempts c"
  "vc_fallback (remove_video_candidate x p c) = vc_fallback c"
  by (simp_all add: remove_video_candidate_def)



lemma with_output_profile [simp]: "np_profile (with_output path plan) = np_profile plan"
  by (simp add: with_output_def)


















section \<open>Witness\<close>








end
