(* ===== verification/Spec2Isabelle.thy ===== *)
theory Spec2Isabelle
  imports Video_Sequence Sequence_Alignment Inbox_Safety Retention Storage_Delivery Video_Adaptation
begin

text \<open>
  Verification of sooqa, a self-hosted media inbox for Telegram (\<open>src/\<close>, Rust).

  \<^bold>\<open>The program.\<close> A submission (\<open>crates/inbox\<close>) becomes an ingest row. Its work is done by
  jobs of a durable PostgreSQL queue (\<open>crates/jobs\<close>, \<open>persistence/src/jobs.rs\<close>): a worker claims a
  job under a lease, heartbeats it, and completes or settles it; the lease of a dead worker is
  recovered (\<open>persistence/src/settlement.rs\<close>), and every family of jobs has a policy that keeps its
  domain row in step with the queue. Media rows (\<open>crates/library\<close>, \<open>persistence/src/library.rs\<close>)
  are uploaded once to a Telegram storage channel, under an owner token, and their captions are kept
  in step with their description. Posts (\<open>crates/publisher\<close>, \<open>persistence/src/publisher.rs\<close>) are
  scheduled on a channel's cadence and sent once, under a send generation and token. Duplicates of a
  video are found by a sequence fingerprint (\<open>crates/media/src/video_sequence.rs\<close>) and a local
  alignment (\<open>sequence_alignment.rs\<close>). The worker (\<open>apps/worker\<close>) runs one job at a time: its handler
  works between transactions, through Telegram (\<open>crates/telegram\<close>) and ffmpeg (\<open>crates/media\<close>), and the
  runner settles the job with what the handler returned. The applications are configured by a TOML file
  and the environment (\<open>crates/config\<close>).

  \<^bold>\<open>How code is modelled.\<close> A struct is a record, an enum a datatype with its stored names
  (\<open>as_str\<close>/\<open>try_from\<close>, the contract \<open>db_enum\<close>), a \<open>Result\<close> a sum whose left side is the error
  enum, a string a list of Unicode scalar values, a fixed-width integer a word where its width
  matters. A table is a list of rows; a SQL statement is an update or a selection of that list with
  the statement's \<open>WHERE\<close> clause, NULL included, and with the CHECK constraints of the schema. A
  repository operation takes the state and returns the state with the result; a transaction that
  fails leaves the state unchanged (\<open>in_transaction\<close>). Transactions are serialised, as the row locks
  of the code do it; \<open>db_env\<close> and \<open>store_env\<close> hold what a transaction reads from outside (\<open>now()\<close>,
  clocks, fresh identifiers, rows locked by others). Third-party code is an argument: \<open>serde\<close>
  (\<open>payload_codec\<close> and \<open>ingest_codec\<close>, with their round trips as the hypotheses \<open>codec_laws\<close> and
  \<open>ingest_codec_laws\<close>), \<open>url\<close> (\<open>url_ops\<close>), \<open>chrono_tz\<close> (\<open>tz_ops\<close>), SHA-256, UUID text and image
  decoding (\<open>publisher_ops\<close>, \<open>store_ops\<close>), the bytes of a submission, stored evidence, the \<open>Debug\<close>
  text of a status, MD5 and the text of an epoch (\<open>inbox_ops\<close>), the bot (\<open>telegram_ops\<close>), the file
  system, the process runner and the JSON of ffprobe (\<open>executor\<close>, \<open>probe_ops\<close>), the TOML parser. What other
  processes do between the transactions of a handler, and which transactions fail or lose their
  answer, is the \<open>handler_world\<close>; the order in which handler, heartbeat and shutdown end is the
  argument of a turn of the runner.

  \<^bold>\<open>Theories, in the order of the imports.\<close>
  \<^item> \<open>Sooqa_Prelude\<close>: integers, strings, results, bytes, and the contract \<open>db_enum\<close> of a stored
    enumeration, interpreted for every enumeration of the crates.
  \<^item> \<open>Video_Sequence\<close> (\<open>media/src/video_sequence.rs\<close>): the sampling grid, the binary codec, the
    search tokens and the builder. Encoding and decoding are inverse: exactly the valid fingerprints are encoded, and only their bytes decode; tokens are positive, sorted and bounded.
  \<^item> \<open>Sequence_Alignment\<close> (\<open>media/src/sequence_alignment.rs\<close>): the dynamic program, its traceback,
    the evidence and the classification. The table is optimal among all local alignments, the
    traceback is an optimal path, the scores stay in 32 bits, a video is a strong duplicate of itself.
  \<^item> \<open>Inbox\<close> (\<open>inbox/src/lib.rs\<close>): stored enumerations, the ingest state machine, URL submissions
    and their normalisation.
  \<^item> \<open>Jobs\<close> (\<open>jobs/src/lib.rs\<close>): types, payloads, commands and their JSON form, new jobs, leases.
  \<^item> \<open>Tables\<close>: SQL on lists of rows, and the contract \<open>checked_table\<close>: rows that move along a step
    relation keep the key and the constraints in every reachable table.
  \<^item> \<open>Job_Queue\<close> (\<open>persistence/src/jobs.rs\<close>, the queue half of \<open>settlement.rs\<close>, \<open>cleanup.rs\<close>):
    \<open>job_step\<close> is the life of a job row, \<open>queue_op\<close> a transaction of the queue. Reachable queues keep
    their invariant, a stale lease changes nothing, a claim takes the first due job, a finished job
    never moves, attempts are bounded.
  \<^item> \<open>Publisher\<close> (\<open>publisher/src/lib.rs\<close>), \<open>Cadence\<close> and \<open>Publisher_Store\<close>
    (\<open>persistence/src/publisher.rs\<close>): channels, posts and their operations. \<open>Publication_Lifecycle\<close>:
    every operation refines \<open>post_transition\<close>; a post is sent by one attempt at a time and a stale
    one is refused; cadence slots are exclusive; revisions identify a row's content.
    \<open>Publication_Intents\<close>: channel settings, drafts, direct publications and the publication an ingest
    asked for, with the check for repeats. \<open>Publication_Requests\<close>: the runs of the whole publisher
    refine the same life cycle, a request and an ingest are published once, a repeat waits for its
    decision, one channel is enabled.
  \<^item> \<open>Library\<close> (\<open>library/src/lib.rs\<close>), \<open>Store\<close> (the tables together, cleanup and materialisation jobs,
    the calculus \<open>tx_ensures\<close> of what a transaction leaves behind), \<open>Library_Store\<close> and
    \<open>Storage_Uploads\<close> (\<open>persistence/src/library.rs\<close>). \<open>Media_Lifecycle\<close>: the life \<open>media_transition\<close>
    of a media row, and that every operation moves along it. \<open>Library_Lifecycle\<close>: an
    upload is fenced by its token, a reserved upload completes.
  \<^item> \<open>Settlement\<close> (\<open>persistence/src/settlement.rs\<close> and the settlement and recovery functions of the
    families). \<open>Settlement_Contracts\<close>: the contracts \<open>settlement_family\<close> and \<open>recovery_family\<close>,
    interpreted for the inbox, caption, storage, materialisation, cleanup and publication families
    and for the dispatcher; the sweep of stale leases ends every expired lease but those of an upload
    in progress. \<open>Settlement_Safety\<close>: a job that fails closes its domain row in the same transaction,
    and a stale settlement is refused.
  \<^item> \<open>Ingest_Data\<close> (\<open>inbox/src/lib.rs\<close>): Telegram submissions, the stored envelope of an ingest in its
    current and its legacy form, the probe and the media kinds it shows; what decodes was written by
    the encoder. \<open>Inbox_Store\<close> (\<open>persistence/src/inbox.rs\<close>): submissions with replay and conflict,
    failures, duplicate decisions, storage outcomes and workspace cleanup. \<open>Ingest_Pipeline\<close>: how every
    stage begins, completes, hands on and fails.
  \<^item> \<open>Ingest_Lifecycle\<close>: the life \<open>ingest_transition\<close> of an ingest row, and that every operation of
    the inbox moves along it. \<open>Program_Lifecycle\<close>: the same for the operations of the library, the
    settlement and the recovery, and runs of all of them together (\<open>program_op\<close>), with any changes of
    the channels, posts and jobs by the other components between them: ingests and media items refine
    their life cycles, and every reachable ingest loads again. \<open>Inbox_Safety\<close>: submissions are
    idempotent, a stale attempt changes nothing, the decision on a duplicate is exclusive, a stage
    hands on its successor, and a workspace is reclaimed only when nothing can need it.
  \<^item> \<open>Paging\<close>: a page of a cursor, with the contract \<open>cursor_order\<close> for both orders. \<open>Read_Models\<close>: what
    the repositories read; following the cursors reads every row once, in order. \<open>Retention\<close>
    (\<open>persistence/src/retention.rs\<close>): which finished jobs may be deleted, and the bounded scan that
    deletes them.
  \<^item> \<open>Worker_Runner\<close> (\<open>apps/worker/src/runner.rs\<close>, \<open>common.rs\<close>, \<open>media/src/disk.rs\<close>): the registry, the
    admission of large operations, and a turn of the worker from the claim to the settlement; a turn
    leaves no claimed job running. \<open>Handlers\<close>: transactions of a handler, the errors of a handler, the
    cleanup handler (\<open>cleanup.rs\<close>).
  \<^item> \<open>Publication_Handler\<close> (\<open>worker/src/publication.rs\<close>, \<open>telegram/src/publication.rs\<close>): sending a post,
    with the log of its calls. \<open>Publication_Delivery\<close>: a message that may have arrived is not sent again.
    \<open>Telegram_Storage\<close> (\<open>telegram/src/storage.rs\<close>) and \<open>Storage_Handler\<close> (\<open>worker/src/storage.rs\<close>): captions,
    checked files, the upload with its reservation and cancellation. \<open>Storage_Delivery\<close>: an upload that
    may be stored is not repeated, only a checked file is sent, the caption cannot be forged.
  \<^item> \<open>Configuration\<close> (\<open>config/src/lib.rs\<close>): arguments, defaults, overrides, the validation for a role and the
    redacted summary. \<open>Float64\<close>: the double-precision arithmetic the planner uses.
  \<^item> \<open>Media_Probe\<close> (\<open>media/src/command.rs\<close>, \<open>ffprobe.rs\<close>), \<open>Normalization\<close> (\<open>normalize.rs\<close>) and
    \<open>Video_Adaptation\<close> (\<open>execute.rs\<close>, \<open>worker/src/normalization.rs\<close>): the probe, the plan of the canonical
    video, the ladder of sizes, two-pass bit rates, and the candidates of the adaptation. The planner
    accepts every rung of its ladder, and what is published is canonical and small enough.

  \<^bold>\<open>Bounds and fuel.\<close> No definition runs on fuel. Recursions are structural or have a termination
  proof; the cadence search has the code's own bounds of 370 days and 10000 slots, past which the code
  returns an error.

  \<^bold>\<open>Not modelled.\<close> Code whose behaviour is that of the network, a child process, the file system or
  the browser: the Telegram client and the polling bot, the tools around yt-dlp, images and direct
  downloads, the HTTP API, process start-up, the worker's handlers of the ingest stages and of video
  identities between their transactions. Interleaving inside a transaction (the row locks serialise
  it) and the advisory locks. Floating-point image features, which are arguments of the fingerprint; the
  collation that orders channel names is an argument of \<open>list_channels\<close>. A retention run reads the clock
  once, where the code reads it again for its candidates.
\<close>

end
